(* ===== verification/Prelude.thy ===== *)
theory Prelude
  imports Main "HOL-Library.AList" "HOL-Library.Char_ord" "HOL-Library.List_Lexorder" "HOL-Library.Sublist" "HOL-Library.Multiset"
begin

text \<open>
  Shared vocabulary of the development: what the TypeScript sources use of the language and its
  standard library.  A JavaScript \<open>Map\<close> is an association list in insertion order, an ISO
  timestamp is its epoch milliseconds, a nullable or optional value is an \<open>option\<close>, a string is
  a list of (ASCII) characters.  The k-th reading of the clock in a call is \<open>clk k\<close>, the k-th
  call of \<open>crypto.randomUUID()\<close> is \<open>uid k\<close>.
\<close>

named_theorems jmap_simps
  \<comment> \<open>rewriting of lookups, updates and filters of JavaScript maps\<close>

type_synonym timestamp = int
type_synonym clock = "nat \<Rightarrow> timestamp"
type_synonym uuids = "nat \<Rightarrow> string"
type_synonym ('k, 'v) jmap = "('k \<times> 'v) list"
type_synonym 'v table = "(string, 'v) jmap"

section \<open>JavaScript maps\<close>

definition jget :: "('k, 'v) jmap \<Rightarrow> 'k \<Rightarrow> 'v option" where
  "jget m k = map_of m k"

definition jset :: "'k \<Rightarrow> 'v \<Rightarrow> ('k, 'v) jmap \<Rightarrow> ('k, 'v) jmap" where
  "jset k v m = AList.update k v m"

definition jdel :: "'k \<Rightarrow> ('k, 'v) jmap \<Rightarrow> ('k, 'v) jmap" where
  "jdel k m = filter (\<lambda>e. fst e \<noteq> k) m"

definition jhas :: "('k, 'v) jmap \<Rightarrow> 'k \<Rightarrow> bool" where
  "jhas m k \<longleftrightarrow> jget m k \<noteq> None"

definition jvalues :: "('k, 'v) jmap \<Rightarrow> 'v list" where
  "jvalues m = map snd m"

definition jkeys :: "('k, 'v) jmap \<Rightarrow> 'k list" where
  "jkeys m = map fst m"

definition wf_map :: "('k, 'v) jmap \<Rightarrow> bool" where
  "wf_map m \<longleftrightarrow> distinct (jkeys m)"

lemma jget_Nil [simp]: "jget [] k = None"
  by (simp add: jget_def)

lemma jget_Cons [simp]: "jget (e # m) k = (if fst e = k then Some (snd e) else jget m k)"
  by (cases e) (simp add: jget_def)

lemma jset_Nil [simp]: "jset k v [] = [(k, v)]"
  by (simp add: jset_def)

lemma jset_Cons [simp]: "jset k v (e # m) = (if fst e = k then (k, v) # m else e # jset k v m)"
  by (simp add: jset_def)

lemma jdel_Nil [simp]: "jdel k [] = []"
  by (simp add: jdel_def)

lemma jdel_Cons [simp]: "jdel k (e # m) = (if fst e = k then jdel k m else e # jdel k m)"
  by (simp add: jdel_def)

lemma jvalues_Nil [simp]: "jvalues [] = []"
  by (simp add: jvalues_def)

lemma jvalues_Cons [simp]: "jvalues (e # m) = snd e # jvalues m"
  by (simp add: jvalues_def)

lemma jkeys_Nil [simp]: "jkeys [] = []"
  by (simp add: jkeys_def)

lemma jkeys_Cons [simp]: "jkeys (e # m) = fst e # jkeys m"
  by (simp add: jkeys_def)

lemma jget_jset [jmap_simps]: "jget (jset k v m) k' = (if k = k' then Some v else jget m k')"
  by (induction m) auto

lemma jget_jdel [jmap_simps]: "jget (jdel k m) k' = (if k = k' then None else jget m k')"
  by (induction m) auto

lemma jget_None_iff: "jget m k = None \<longleftrightarrow> k \<notin> set (jkeys m)"
  by (induction m) auto

lemma jget_in_keys: "jget m k = Some v \<Longrightarrow> k \<in> set (jkeys m)"
  using jget_None_iff [of m k] by auto

lemma jget_in_set: "jget m k = Some v \<Longrightarrow> (k, v) \<in> set m"
  by (simp add: jget_def map_of_SomeD)

lemma jget_in_values: "jget m k = Some v \<Longrightarrow> v \<in> set (jvalues m)"
  by (force simp: jvalues_def dest: jget_in_set)

lemma wf_map_Nil [simp, intro]: "wf_map []"
  by (simp add: wf_map_def)

lemma wf_map_Cons [simp]: "wf_map (e # m) \<longleftrightarrow> fst e \<notin> set (jkeys m) \<and> wf_map m"
  by (auto simp: wf_map_def)

lemma in_set_jget: "wf_map m \<Longrightarrow> (k, v) \<in> set m \<Longrightarrow> jget m k = Some v"
  by (simp add: wf_map_def jkeys_def jget_def map_of_is_SomeI)

lemma keys_jset [jmap_simps]: "set (jkeys (jset k v m)) = insert k (set (jkeys m))"
  by (induction m) auto

lemma keys_jdel [jmap_simps]: "set (jkeys (jdel k m)) = set (jkeys m) - {k}"
  by (induction m) auto

lemma wf_map_jset [intro]: "wf_map m \<Longrightarrow> wf_map (jset k v m)"
  by (induction m) (auto simp: keys_jset)

lemma wf_map_jdel [intro]: "wf_map m \<Longrightarrow> wf_map (jdel k m)"
  by (induction m) (auto simp: keys_jdel)

lemma keys_filter_subset: "set (jkeys (filter P m)) \<subseteq> set (jkeys m)"
  by (auto simp: jkeys_def)

lemma wf_map_filter [intro]: "wf_map m \<Longrightarrow> wf_map (filter P m)"
  using keys_filter_subset [of P] by (induction m) fastforce+

lemma set_jset: "wf_map m \<Longrightarrow> set (jset k v m) = insert (k, v) {e \<in> set m. fst e \<noteq> k}"
proof (induction m)
  case Nil
  then show ?case by simp
next
  case (Cons e m)
  then show ?case by (cases e) (auto simp: jkeys_def rev_image_eqI)
qed

lemma set_jdel: "set (jdel k m) = {e \<in> set m. fst e \<noteq> k}"
  by (auto simp: jdel_def)

lemma jset_fresh: "k \<notin> set (jkeys m) \<Longrightarrow> jset k v m = m @ [(k, v)]"
  by (induction m) auto

lemma jvalues_jset_fresh: "k \<notin> set (jkeys m) \<Longrightarrow> jvalues (jset k v m) = jvalues m @ [v]"
  by (simp add: jset_fresh jvalues_def)

lemma filter_jset:
  assumes "wf_map m" and "\<And>w. jget m k = Some w \<Longrightarrow> P (k, w) = P (k, v)"
  shows "filter P (jset k v m) = (if P (k, v) then jset k v (filter P m) else filter P m)"
  using assms
proof (induction m)
  case Nil
  then show ?case by simp
next
  case (Cons e m)
  show ?case
  proof (cases "fst e = k")
    case True
    then have "P e = P (k, v)" using Cons.prems(2) [of "snd e"] by (cases e) simp
    moreover have "k \<notin> set (jkeys (filter P m))"
      using True Cons.prems(1) keys_filter_subset [of P m] by auto
    ultimately show ?thesis using True by simp
  next
    case False
    then have "\<And>w. jget m k = Some w \<Longrightarrow> P (k, w) = P (k, v)" using Cons.prems(2) by simp
    with False Cons show ?thesis by simp
  qed
qed

lemma filter_jdel: "filter P (jdel k m) = jdel k (filter P m)"
  by (simp add: jdel_def conj_commute)

lemma jget_filter:
  assumes "wf_map m"
  shows "jget (filter P m) k = (case jget m k of None \<Rightarrow> None | Some v \<Rightarrow> if P (k, v) then Some v else None)"
  using assms
proof (induction m)
  case Nil
  then show ?case by simp
next
  case (Cons e m)
  show ?case
  proof (cases "fst e = k")
    case True
    then have "jget m k = None" using Cons.prems by (simp add: jget_None_iff)
    then show ?thesis using True Cons by (cases e) simp
  next
    case False
    with Cons show ?thesis by simp
  qed
qed

lemma jdel_id: "k \<notin> set (jkeys m) \<Longrightarrow> jdel k m = m"
  by (induction m) auto

lemma jkeys_map_entries [simp]: "jkeys (map (\<lambda>(k, v). (k, f k v)) m) = jkeys m"
  by (induction m) auto

lemma jget_map_entries: "jget (map (\<lambda>(k, v). (k, f k v)) m) k = map_option (f k) (jget m k)"
  by (induction m) auto

section \<open>Scalars and optional values\<close>

definition qq :: "'a option \<Rightarrow> 'a \<Rightarrow> 'a" where
  \<comment> \<open>\<open>a ?? b\<close>\<close>
  "qq x d = (case x of None \<Rightarrow> d | Some v \<Rightarrow> v)"

lemma qq_simps [simp]: "qq None d = d" "qq (Some v) d = v"
  by (simp_all add: qq_def)

definition truthy :: "string option \<Rightarrow> bool" where
  \<comment> \<open>truthiness of a string that may be null or undefined\<close>
  "truthy x = (case x of None \<Rightarrow> False | Some s \<Rightarrow> s \<noteq> '''')"

lemma truthy_simps [simp]: "\<not> truthy None" "truthy (Some s) \<longleftrightarrow> s \<noteq> ''''"
  by (simp_all add: truthy_def)

definition clampInt :: "int \<Rightarrow> int \<Rightarrow> int \<Rightarrow> int" where
  \<comment> \<open>\<open>Math.max(lo, Math.min(hi, v))\<close>\<close>
  "clampInt lo hi v = max lo (min hi v)"

lemma clampInt_bounds: "lo \<le> hi \<Longrightarrow> lo \<le> clampInt lo hi v \<and> clampInt lo hi v \<le> hi"
  by (simp add: clampInt_def)

section \<open>Strings\<close>

definition lower_char :: "char \<Rightarrow> char" where
  "lower_char c = (let n = (of_char c :: nat) in if 65 \<le> n \<and> n \<le> 90 then char_of (n + 32) else c)"

definition toLowerCase :: "string \<Rightarrow> string" where
  "toLowerCase s = map lower_char s"

lemma lower_char_idem: "lower_char (lower_char c) = lower_char c"
proof (cases "65 \<le> (of_char c :: nat) \<and> (of_char c :: nat) \<le> 90")
  case True
  then have "(of_char (char_of ((of_char c :: nat) + 32)) :: nat) = of_char c + 32"
    by (simp add: of_char_of)
  with True show ?thesis by (simp add: lower_char_def Let_def)
next
  case False
  then show ?thesis by (auto simp: lower_char_def Let_def)
qed

lemma toLowerCase_idem [simp]: "toLowerCase (toLowerCase s) = toLowerCase s"
  by (simp add: toLowerCase_def lower_char_idem)

definition is_space :: "char \<Rightarrow> bool" where
  "is_space c \<longleftrightarrow> (of_char c :: nat) \<in> {9, 10, 11, 12, 13, 32, 160}"

definition trim :: "string \<Rightarrow> string" where
  "trim s = rev (dropWhile is_space (rev (dropWhile is_space s)))"

definition includesStr :: "string \<Rightarrow> string \<Rightarrow> bool" where
  \<comment> \<open>\<open>s.includes(t)\<close>\<close>
  "includesStr s t = sublist t s"

definition startsWith :: "string \<Rightarrow> string \<Rightarrow> bool" where
  "startsWith s p = prefix p s"

fun splitOn :: "char \<Rightarrow> string \<Rightarrow> string list" where
  \<comment> \<open>\<open>s.split(c)\<close> for a one-character separator\<close>
  "splitOn d [] = [[]]"
| "splitOn d (c # cs) =
     (if c = d then [] # splitOn d cs
      else (case splitOn d cs of [] \<Rightarrow> [[c]] | w # ws \<Rightarrow> (c # w) # ws))"

lemma splitOn_ne [simp]: "splitOn d s \<noteq> []"
  by (cases s) (auto split: list.splits)

lemma splitOn_no_sep: "d \<notin> set s \<Longrightarrow> splitOn d s = [s]"
  by (induction s) auto

lemma splitOn_append: "d \<notin> set s \<Longrightarrow> splitOn d (s @ d # t) = s # splitOn d t"
  by (induction s) auto

fun joinWith :: "string \<Rightarrow> string list \<Rightarrow> string" where
  \<comment> \<open>\<open>xs.join(sep)\<close>\<close>
  "joinWith sep [] = []"
| "joinWith sep [x] = x"
| "joinWith sep (x # y # ys) = x @ sep @ joinWith sep (y # ys)"

section \<open>Sorting and comparison\<close>

text \<open>
  \<open>Array.prototype.sort\<close> is stable; for a consistent comparator its result is unique, and stable
  insertion computes it.
\<close>

fun js_insert :: "('a \<Rightarrow> 'a \<Rightarrow> int) \<Rightarrow> 'a \<Rightarrow> 'a list \<Rightarrow> 'a list" where
  "js_insert cmp x [] = [x]"
| "js_insert cmp x (y # ys) = (if cmp x y \<le> 0 then x # y # ys else y # js_insert cmp x ys)"

definition js_sort :: "('a \<Rightarrow> 'a \<Rightarrow> int) \<Rightarrow> 'a list \<Rightarrow> 'a list" where
  "js_sort cmp xs = foldr (js_insert cmp) xs []"

definition cmp_int :: "int \<Rightarrow> int \<Rightarrow> int" where
  \<comment> \<open>\<open>a.localeCompare(b)\<close> on two ISO timestamps, by their instants\<close>
  "cmp_int a b = (if a < b then -1 else if a = b then 0 else 1)"

definition str_cmp :: "string \<Rightarrow> string \<Rightarrow> int" where
  \<comment> \<open>comparison of two strings by code units, as the operator \<open><\<close> does\<close>
  "str_cmp a b = (if a < b then -1 else if a = b then 0 else 1)"

definition cmp_then :: "int \<Rightarrow> int \<Rightarrow> int" where
  \<comment> \<open>\<open>c1 || c2\<close> on comparison results\<close>
  "cmp_then c d = (if c \<noteq> 0 then c else d)"

definition id_collation :: "(string \<Rightarrow> string \<Rightarrow> int) \<Rightarrow> string set \<Rightarrow> bool" where
  \<comment> \<open>what pagination relies on: \<open>localeCompare\<close> orders the identifiers at hand as \<open><\<close> does, which is
    true of UUIDs, lower-case hexadecimal digits with dashes at fixed places\<close>
  "id_collation lc ids \<longleftrightarrow> (\<forall>a \<in> ids. \<forall>b \<in> ids. (lc a b < 0) = (a < b) \<and> (lc a b = 0) = (a = b))"

lemma id_collation_str_cmp: "id_collation str_cmp ids"
  by (auto simp: id_collation_def str_cmp_def)

lemma id_collation_mono: "id_collation lc ids \<Longrightarrow> ids' \<subseteq> ids \<Longrightarrow> id_collation lc ids'"
  by (auto simp: id_collation_def)

lemma mset_js_insert [simp]: "mset (js_insert cmp x xs) = add_mset x (mset xs)"
  by (induction xs) auto

lemma set_js_insert [simp]: "set (js_insert cmp x xs) = insert x (set xs)"
  by (induction xs) auto

lemma mset_js_sort [simp]: "mset (js_sort cmp xs) = mset xs"
  unfolding js_sort_def by (induction xs) auto

lemma set_js_sort [simp]: "set (js_sort cmp xs) = set xs"
  by (metis mset_js_sort set_mset_mset)

lemma length_js_sort [simp]: "length (js_sort cmp xs) = length xs"
  by (metis mset_js_sort size_mset)

lemma js_insert_cong:
  "(\<And>y. y \<in> set ys \<Longrightarrow> (cmp x y \<le> 0) = (cmp' x y \<le> 0)) \<Longrightarrow> js_insert cmp x ys = js_insert cmp' x ys"
  by (induction ys) auto

lemma js_sort_cong:
  "(\<And>x y. x \<in> set xs \<Longrightarrow> y \<in> set xs \<Longrightarrow> (cmp x y \<le> 0) = (cmp' x y \<le> 0)) \<Longrightarrow> js_sort cmp xs = js_sort cmp' xs"
proof (induction xs)
  case Nil
  show ?case by (simp add: js_sort_def)
next
  case (Cons x xs)
  have "js_sort cmp xs = js_sort cmp' xs" by (rule Cons.IH) (use Cons.prems in simp)
  moreover have "js_insert cmp x (js_sort cmp' xs) = js_insert cmp' x (js_sort cmp' xs)"
    by (rule js_insert_cong) (use Cons.prems in simp)
  ultimately show ?case by (simp add: js_sort_def)
qed

definition good_cmp :: "('a \<Rightarrow> 'a \<Rightarrow> int) \<Rightarrow> bool" where
  \<comment> \<open>a consistent comparator\<close>
  "good_cmp cmp \<longleftrightarrow> (\<forall>x y. (cmp x y < 0) = (cmp y x > 0))
     \<and> (\<forall>x y z. cmp x y \<le> 0 \<longrightarrow> cmp y z \<le> 0 \<longrightarrow> cmp x z \<le> 0)"

lemma good_cmp_str_cmp: "good_cmp str_cmp"
  by (auto simp: good_cmp_def str_cmp_def split: if_splits)

lemma good_cmp_total: "good_cmp cmp \<Longrightarrow> \<not> cmp x y \<le> 0 \<Longrightarrow> cmp y x \<le> 0"
  unfolding good_cmp_def by (metis linorder_not_less order_less_imp_le)

lemma sorted_js_insert:
  assumes "good_cmp cmp" and "sorted_wrt (\<lambda>x y. cmp x y \<le> 0) xs"
  shows "sorted_wrt (\<lambda>x y. cmp x y \<le> 0) (js_insert cmp x xs)"
  using assms(2)
proof (induction xs)
  case Nil
  then show ?case by simp
next
  case (Cons y ys)
  show ?case
  proof (cases "cmp x y \<le> 0")
    case True
    then have "\<forall>z \<in> set ys. cmp x z \<le> 0"
      using Cons.prems assms(1) unfolding good_cmp_def by (metis sorted_wrt.simps(2))
    with True Cons.prems show ?thesis by simp
  next
    case False
    then show ?thesis using Cons good_cmp_total [OF assms(1) False] by auto
  qed
qed

lemma sorted_js_sort: "good_cmp cmp \<Longrightarrow> sorted_wrt (\<lambda>x y. cmp x y \<le> 0) (js_sort cmp xs)"
  unfolding js_sort_def by (induction xs) (auto intro: sorted_js_insert)

text \<open>The first element of a sorted list is a best element.\<close>

lemma js_sort_head:
  assumes "good_cmp cmp" and "js_sort cmp xs = y # ys" and "x \<in> set xs"
  shows "y \<in> set xs \<and> cmp y x \<le> 0"
proof -
  have y: "y \<in> set xs" using assms(2) by (metis list.set_intros(1) set_js_sort)
  have "cmp y y \<le> 0" using assms(1) unfolding good_cmp_def by (metis linorder_not_less order_less_imp_le)
  moreover have "x \<in> set (y # ys)" using assms(2,3) by (metis set_js_sort)
  moreover have "sorted_wrt (\<lambda>x y. cmp x y \<le> 0) (y # ys)"
    using sorted_js_sort [OF assms(1), of xs] assms(2) by simp
  ultimately show ?thesis using y by auto
qed

section \<open>Rows of a tenant\<close>

text \<open>
  Most store operations address a row by id and treat it as absent unless it belongs to the
  caller's organization: \<open>row = map.get(id); if (!row || row.organizationId !== org) return null\<close>.
\<close>

definition scoped_get :: "('r \<Rightarrow> string) \<Rightarrow> 'r table \<Rightarrow> string \<Rightarrow> string \<Rightarrow> 'r option" where
  "scoped_get rorg m org k =
     (case jget m k of None \<Rightarrow> None | Some r \<Rightarrow> if rorg r = org then Some r else None)"

definition org_rows :: "('r \<Rightarrow> string) \<Rightarrow> string \<Rightarrow> 'r table \<Rightarrow> 'r table" where
  "org_rows rorg org m = filter (\<lambda>e. rorg (snd e) = org) m"

definition keyed :: "('r \<Rightarrow> string) \<Rightarrow> 'r table \<Rightarrow> bool" where
  \<comment> \<open>every row is stored under its own id\<close>
  "keyed rid m \<longleftrightarrow> wf_map m \<and> (\<forall>e \<in> set m. rid (snd e) = fst e)"

lemma scoped_getD:
  "scoped_get rorg m org k = Some r \<Longrightarrow> jget m k = Some r \<and> rorg r = org"
  by (auto simp: scoped_get_def split: option.splits if_splits)

lemma scoped_get_view: "wf_map m \<Longrightarrow> scoped_get rorg m org k = jget (org_rows rorg org m) k"
  by (simp add: scoped_get_def org_rows_def jget_filter split: option.split)

lemma org_rows_jset_other:
  assumes "wf_map m" and "rorg v \<noteq> org" and "\<And>w. jget m k = Some w \<Longrightarrow> rorg w \<noteq> org"
  shows "org_rows rorg org (jset k v m) = org_rows rorg org m"
  unfolding org_rows_def using assms by (subst filter_jset) auto

lemma org_rows_jset_own:
  assumes "wf_map m" and "rorg v = org" and "\<And>w. jget m k = Some w \<Longrightarrow> rorg w = org"
  shows "org_rows rorg org (jset k v m) = jset k v (org_rows rorg org m)"
  unfolding org_rows_def using assms by (subst filter_jset) auto

lemma org_rows_jdel: "org_rows rorg org (jdel k m) = jdel k (org_rows rorg org m)"
  by (simp add: org_rows_def filter_jdel)

lemma org_rows_jdel_other:
  assumes "wf_map m" and "\<And>w. jget m k = Some w \<Longrightarrow> rorg w \<noteq> org"
  shows "org_rows rorg org (jdel k m) = org_rows rorg org m"
proof -
  have "jget (org_rows rorg org m) k = None"
    unfolding org_rows_def jget_filter [OF assms(1)] using assms(2) by (auto split: option.splits)
  then show ?thesis by (simp add: org_rows_jdel jdel_id jget_None_iff)
qed

lemma keyed_wf: "keyed rid m \<Longrightarrow> wf_map m"
  by (simp add: keyed_def)

lemma keyed_Nil [simp, intro]: "keyed rid []"
  by (simp add: keyed_def)

lemma keyed_get: "keyed rid m \<Longrightarrow> jget m k = Some r \<Longrightarrow> rid r = k"
  by (force simp: keyed_def dest: jget_in_set)

lemma keyed_jset: "keyed rid m \<Longrightarrow> rid r = k \<Longrightarrow> keyed rid (jset k r m)"
  by (auto simp: keyed_def set_jset)

lemma keyed_jdel: "keyed rid m \<Longrightarrow> keyed rid (jdel k m)"
  by (auto simp: keyed_def set_jdel)

lemma keyed_filter: "keyed rid m \<Longrightarrow> keyed rid (filter P m)"
  by (auto simp: keyed_def)

section \<open>Consistent comparators\<close>

text \<open>
  How the comparators the sources write (\<open>c1 || c2\<close> chains of integer differences and
  \<open>localeCompare\<close>) are built, so that sorting by them is sorting.
\<close>

lemma good_cmp_by_int: "good_cmp (\<lambda>a b. cmp_int (h a) (h b))"
  by (auto simp: good_cmp_def cmp_int_def)

lemma good_cmp_by_id: "good_cmp lc \<Longrightarrow> good_cmp (\<lambda>a b. lc (h a) (h b))"
  unfolding good_cmp_def by blast

lemma good_cmp_chain:
  assumes f: "good_cmp f" and g: "good_cmp g"
  shows "good_cmp (\<lambda>a b. cmp_then (f a b) (g a b))"
proof -
  have sf: "f a b < 0 \<longleftrightarrow> f b a > 0" and sg: "g a b < 0 \<longleftrightarrow> g b a > 0" for a b
    using f g by (auto simp: good_cmp_def)
  have zf: "f a b = 0 \<longleftrightarrow> f b a = 0" for a b using sf [of a b] sf [of b a] by (smt (verit))
  have tf: "f x z \<le> 0" if "f x y \<le> 0" "f y z \<le> 0" for x y z using f that unfolding good_cmp_def by blast
  have tg: "g x z \<le> 0" if "g x y \<le> 0" "g y z \<le> 0" for x y z using g that unfolding good_cmp_def by blast
  have strict: "f x z < 0" if "f x y \<le> 0" "f y z \<le> 0" "f x y < 0 \<or> f y z < 0" for x y z
  proof (rule ccontr)
    assume "\<not> f x z < 0"
    then have zx: "f z x \<le> 0" using sf [of z x] zf [of x z] by (smt (verit))
    show False using that tf [OF that(2) zx] tf [OF zx that(1)] sf [of x y] sf [of y z] zf by force
  qed
  have sym: "cmp_then (f x y) (g x y) < 0 \<longleftrightarrow> cmp_then (f y x) (g y x) > 0" for x y
    using sf [of x y] sf [of y x] sg [of x y] zf [of x y] by (auto simp: cmp_then_def)
  have trans: "cmp_then (f x z) (g x z) \<le> 0"
    if xy: "cmp_then (f x y) (g x y) \<le> 0" and yz: "cmp_then (f y z) (g y z) \<le> 0" for x y z
  proof -
    have le: "f x y \<le> 0" "f y z \<le> 0" using xy yz by (auto simp: cmp_then_def split: if_splits)
    show ?thesis
    proof (cases "f x y < 0 \<or> f y z < 0")
      case True
      then show ?thesis using strict [OF le True] by (simp add: cmp_then_def)
    next
      case False
      then have e: "f x y = 0" "f y z = 0" using le by auto
      then have "f y x \<le> 0" "f z y \<le> 0" using zf by (metis order_refl)+
      then have "f x z \<le> 0" "f z x \<le> 0" using tf le by blast+
      then have "f x z = 0" using sf [of z x] zf [of x z] by (smt (verit))
      then show ?thesis using e xy yz tg by (simp add: cmp_then_def)
    qed
  qed
  show ?thesis unfolding good_cmp_def using sym trans by blast
qed

end
