(* ===== verification/Json.thy ===== *)
theory Json
  imports Prelude
begin

text \<open>
  Values of type \<open>unknown\<close>: JSON as the sources pass it around (workflow definitions, run input
  and output, scopes of policy rules).  Numbers are integers.  Object properties are in insertion
  order, as \<open>Object.keys\<close> lists them; \<open>undefined\<close> is \<open>None\<close> wherever a property may be missing.
\<close>

datatype json =
    JNull
  | JBool bool
  | JNum int
  | JStr string
  | JArr "json list"
  | JObj "(string \<times> json) list"

definition asObject :: "json option \<Rightarrow> (string, json) jmap option" where
  \<comment> \<open>\<open>value && typeof value === "object" && !Array.isArray(value) ? value : null\<close>\<close>
  "asObject v = (case v of Some (JObj fs) \<Rightarrow> Some fs | _ \<Rightarrow> None)"

definition asString :: "json option \<Rightarrow> string option" where
  \<comment> \<open>\<open>typeof v === "string" ? v : null\<close>\<close>
  "asString v = (case v of Some (JStr s) \<Rightarrow> Some s | _ \<Rightarrow> None)"

definition asBool :: "json option \<Rightarrow> bool option" where
  "asBool v = (case v of Some (JBool b) \<Rightarrow> Some b | _ \<Rightarrow> None)"

fun strings_of :: "json list \<Rightarrow> string list" where
  \<comment> \<open>\<open>xs.filter((v): v is string => typeof v === "string")\<close>\<close>
  "strings_of [] = []"
| "strings_of (JStr s # xs) = s # strings_of xs"
| "strings_of (_ # xs) = strings_of xs"

definition nullishJ :: "json option \<Rightarrow> json option" where
  \<comment> \<open>null and undefined identified, as \<open>??\<close> does\<close>
  "nullishJ v = (if v = Some JNull then None else v)"

lemma asObject_Some [simp]: "asObject v = Some fs \<longleftrightarrow> v = Some (JObj fs)"
  by (auto simp: asObject_def split: option.splits json.splits)

lemma asString_Some [simp]: "asString v = Some s \<longleftrightarrow> v = Some (JStr s)"
  by (auto simp: asString_def split: option.splits json.splits)

lemma asBool_Some [simp]: "asBool v = Some b \<longleftrightarrow> v = Some (JBool b)"
  by (auto simp: asBool_def split: option.splits json.splits)

lemma asObject_simps [simp]: "asObject None = None" "asObject (Some (JObj fs)) = Some fs"
  "asObject (Some JNull) = None" "asObject (Some (JBool b)) = None" "asObject (Some (JNum n)) = None"
  "asObject (Some (JStr s)) = None" "asObject (Some (JArr xs)) = None"
  by (simp_all add: asObject_def)

lemma asString_simps [simp]: "asString None = None" "asString (Some (JStr s)) = Some s"
  "asString (Some JNull) = None" "asString (Some (JBool b)) = None" "asString (Some (JNum n)) = None"
  "asString (Some (JObj fs)) = None" "asString (Some (JArr xs)) = None"
  by (simp_all add: asString_def)

end
