(* ===== verification/WorkflowDsl.thy ===== *)
theory WorkflowDsl
  imports Json
begin

text \<open>
  The workflow definition language of \<open>packages/workflow/src/index.ts\<close>: the values its schemas
  accept (\<open>z.infer\<close> of each schema, with the length and range checks as \<open>schema_\<close> predicates), the
  validation of version 3 graphs, the upgrade of version 2 definitions and the dry-run executor.
  The keys of \<open>graph.nodes\<close> are listed in the order of \<open>Object.keys\<close>.
\<close>

section \<open>Schemas\<close>

datatype channel_event = MessageReceived | MessageMentioned | MessageDm

record channel_match =
  cm_textContains :: "string option"
  cm_senderIn :: "string list option"
  cm_groupIn :: "string list option"

record channel_trigger =
  ct_channelId :: string
  ct_accountKey :: "string option"
  ct_event :: channel_event
  ct_match :: "channel_match option"

datatype wf_trigger =
    TriggerManual
  | TriggerWebhook string
  | TriggerCron string
  | TriggerHeartbeat int int int
  | TriggerChannel channel_trigger

definition str_len :: "nat \<Rightarrow> nat \<Rightarrow> string \<Rightarrow> bool" where
  \<comment> \<open>\<open>z.string().min(lo).max(hi)\<close>\<close>
  "str_len lo hi s \<longleftrightarrow> lo \<le> length s \<and> length s \<le> hi"

definition opt_all :: "('a \<Rightarrow> bool) \<Rightarrow> 'a option \<Rightarrow> bool" where
  \<comment> \<open>\<open>.optional()\<close>\<close>
  "opt_all P x = (case x of None \<Rightarrow> True | Some v \<Rightarrow> P v)"

fun schema_trigger :: "wf_trigger \<Rightarrow> bool" where
  "schema_trigger TriggerManual = True"
| "schema_trigger (TriggerWebhook token) = (1 \<le> length token)"
| "schema_trigger (TriggerCron cron) = (1 \<le> length cron)"
| "schema_trigger (TriggerHeartbeat intervalSec jitterSec maxSkewSec) =
     (5 \<le> intervalSec \<and> intervalSec \<le> 86400 \<and> 0 \<le> jitterSec \<and> jitterSec \<le> 3600
      \<and> 0 \<le> maxSkewSec \<and> maxSkewSec \<le> 3600)"
| "schema_trigger (TriggerChannel c) =
     (str_len 1 64 (ct_channelId c) \<and> opt_all (str_len 1 120) (ct_accountKey c)
      \<and> opt_all (\<lambda>m. opt_all (str_len 1 200) (cm_textContains m)
           \<and> opt_all (\<lambda>xs. length xs \<le> 200 \<and> list_all (str_len 1 200) xs) (cm_senderIn m)
           \<and> opt_all (\<lambda>xs. length xs \<le> 200 \<and> list_all (str_len 1 200) xs) (cm_groupIn m)) (ct_match c))"

datatype cond_op = OpEq | OpNeq | OpContains | OpExists | OpGt | OpGte | OpLt | OpLte

record condition_config =
  cc_path :: string
  cc_op :: cond_op
  cc_value :: "json option"

record join_config =
  jc_failFast :: bool

record http_config =
  hc_method :: string
  hc_url :: string
  hc_headers :: "(string \<times> string) list option"
  hc_body :: "json option"

record shell_task =
  st_script :: string
  st_shell :: "string option"
  st_env :: "(string \<times> string) list option"

record sandbox_config =
  sb_backend :: "string option"
  sb_network :: "string option"
  sb_timeoutMs :: "int option"
  sb_dockerImage :: "string option"
  sb_envPassthroughAllowlist :: "string list option"

datatype exec_pool = PoolManaged | PoolByon

record exec_selector =
  es_pool :: exec_pool
  es_labels :: "string list option"
  es_group :: "string option"
  es_tag :: "string option"
  es_executorId :: "string option"

datatype exec_mode = Cloud | Executor

record exec_config =
  ec_mode :: exec_mode
  ec_selector :: "exec_selector option"

record agent_prompt =
  ap_system :: "string option"
  ap_instructions :: string
  ap_inputTemplate :: "string option"

record agent_limits =
  al_maxTurns :: int
  al_maxToolCalls :: int
  al_timeoutMs :: int
  al_maxOutputChars :: int
  al_maxRuntimeChars :: int

record agent_tools =
  at_allow :: "string list"
  at_execution :: exec_mode
  at_connectors :: "(string \<times> string) list option"

record agent_output =
  ao_json :: bool
  ao_jsonSchema :: "json option"

record teammate =
  tm_id :: string
  tm_displayName :: "string option"
  tm_model :: "string option"
  tm_prompt :: agent_prompt
  tm_tools :: agent_tools
  tm_limits :: agent_limits
  tm_output :: agent_output

record team_config =
  tc_maxParallel :: int
  tc_delegateOnly :: bool
  tc_teammates :: "teammate list"

record agent_run_config =
  ar_toolsetId :: "string option"
  ar_engineId :: string
  ar_engineModel :: "string option"
  ar_engineSecretId :: "string option"
  ar_selector :: "exec_selector option"
  ar_prompt :: agent_prompt
  ar_tools :: agent_tools
  ar_limits :: agent_limits
  ar_output :: agent_output
  ar_team :: "team_config option"

record agent_execute_config =
  ae_execution :: "exec_config option"
  ae_task :: "shell_task option"
  ae_sandbox :: "sandbox_config option"

record connector_config =
  ca_connectorId :: string
  ca_actionId :: string
  ca_input :: "json option"
  ca_secretId :: string
  ca_execution :: "exec_config option"

record github_config =
  gc_repo :: string
  gc_title :: string
  gc_body :: "string option"
  gc_secretId :: string

datatype node_body =
    HttpRequest "http_config option"
  | AgentRun agent_run_config
  | AgentExecute "agent_execute_config option"
  | ConnectorAction connector_config
  | GithubIssueCreate github_config
  | Condition "condition_config option"
  | ParallelJoin "join_config option"

record wf_node =
  nd_id :: string
  nd_body :: node_body

definition schema_limits :: "agent_limits \<Rightarrow> bool" where
  "schema_limits l \<longleftrightarrow> 1 \<le> al_maxTurns l \<and> al_maxTurns l \<le> 64
     \<and> 0 \<le> al_maxToolCalls l \<and> al_maxToolCalls l \<le> 200
     \<and> 1000 \<le> al_timeoutMs l \<and> al_timeoutMs l \<le> 10 * 60 * 1000
     \<and> 256 \<le> al_maxOutputChars l \<and> al_maxOutputChars l \<le> 1000000
     \<and> 1024 \<le> al_maxRuntimeChars l \<and> al_maxRuntimeChars l \<le> 2000000"

definition default_limits :: agent_limits where
  "default_limits = \<lparr>al_maxTurns = 8, al_maxToolCalls = 20, al_timeoutMs = 60000,
     al_maxOutputChars = 50000, al_maxRuntimeChars = 200000\<rparr>"

definition is_hex :: "char \<Rightarrow> bool" where
  "is_hex c \<longleftrightarrow> (let n = (of_char c :: nat) in (48 \<le> n \<and> n \<le> 57) \<or> (65 \<le> n \<and> n \<le> 70) \<or> (97 \<le> n \<and> n \<le> 102))"

definition is_uuid :: "string \<Rightarrow> bool" where
  \<comment> \<open>\<open>z.string().uuid()\<close>: version 1 to 8 and variant bits 10, or the nil or the max UUID\<close>
  "is_uuid s \<longleftrightarrow> (let groups = splitOn (CHR ''-'') s in
       map length groups = [8, 4, 4, 4, 12] \<and> list_all (list_all is_hex) groups
       \<and> hd (groups ! 2) \<in> set ''12345678'' \<and> hd (groups ! 3) \<in> set ''89abAB'')
     \<or> s = ''00000000-0000-0000-0000-000000000000'' \<or> s = ''ffffffff-ffff-ffff-ffff-ffffffffffff''"

definition schema_selector :: "exec_selector \<Rightarrow> bool" where
  "schema_selector s \<longleftrightarrow>
     opt_all (\<lambda>xs. length xs \<le> 50 \<and> list_all (str_len 1 64) xs) (es_labels s)
     \<and> opt_all (str_len 1 64) (es_group s) \<and> opt_all (str_len 1 64) (es_tag s)
     \<and> opt_all is_uuid (es_executorId s)"

definition schema_prompt :: "agent_prompt \<Rightarrow> bool" where
  "schema_prompt p \<longleftrightarrow> opt_all (str_len 0 200000) (ap_system p)
     \<and> str_len 1 200000 (ap_instructions p) \<and> opt_all (str_len 0 200000) (ap_inputTemplate p)"

definition schema_tools :: "agent_tools \<Rightarrow> bool" where
  "schema_tools t \<longleftrightarrow> list_all (str_len 1 120) (at_allow t)
     \<and> opt_all (list_all (\<lambda>(c, secretId). str_len 1 80 c \<and> is_uuid secretId)) (at_connectors t)"

definition schema_teammate :: "teammate \<Rightarrow> bool" where
  "schema_teammate m \<longleftrightarrow> str_len 1 64 (tm_id m) \<and> opt_all (str_len 1 120) (tm_displayName m)
     \<and> opt_all (str_len 1 120) (tm_model m) \<and> schema_prompt (tm_prompt m)
     \<and> schema_tools (tm_tools m) \<and> at_execution (tm_tools m) = Cloud \<and> schema_limits (tm_limits m)"

definition schema_agent_run :: "string list \<Rightarrow> agent_run_config \<Rightarrow> bool" where
  \<comment> \<open>the first argument is \<open>AGENT_ENGINE_IDS\<close>\<close>
  "schema_agent_run engines c \<longleftrightarrow> ar_engineId c \<in> set engines
     \<and> opt_all is_uuid (ar_toolsetId c) \<and> opt_all is_uuid (ar_engineSecretId c)
     \<and> opt_all (str_len 1 120) (ar_engineModel c) \<and> opt_all schema_selector (ar_selector c)
     \<and> schema_prompt (ar_prompt c) \<and> schema_tools (ar_tools c) \<and> schema_limits (ar_limits c)
     \<and> opt_all (\<lambda>t. 1 \<le> tc_maxParallel t \<and> tc_maxParallel t \<le> 16
          \<and> 1 \<le> length (tc_teammates t) \<and> length (tc_teammates t) \<le> 32
          \<and> list_all schema_teammate (tc_teammates t)) (ar_team c)"

definition repo_ok :: "string \<Rightarrow> bool" where
  \<comment> \<open>\<open>/^[^/]+\/[^/]+$/\<close>\<close>
  "repo_ok r = (case splitOn (CHR ''/'') r of [a, b] \<Rightarrow> a \<noteq> '''' \<and> b \<noteq> '''' | _ \<Rightarrow> False)"

fun schema_body :: "string list \<Rightarrow> node_body \<Rightarrow> bool" where
  "schema_body engines (HttpRequest c) = opt_all (\<lambda>h.
     hc_method h \<in> {''GET'', ''POST'', ''PUT'', ''PATCH'', ''DELETE'', ''HEAD'', ''OPTIONS''}
     \<and> str_len 1 2000 (hc_url h)
     \<and> opt_all (list_all (\<lambda>(k, _). 1 \<le> length k)) (hc_headers h)) c"
| "schema_body engines (AgentRun c) = schema_agent_run engines c"
| "schema_body engines (AgentExecute c) = opt_all (\<lambda>e.
     opt_all (\<lambda>x. opt_all schema_selector (ec_selector x)) (ae_execution e)
     \<and> opt_all (\<lambda>t. str_len 1 200000 (st_script t)
          \<and> opt_all (\<lambda>s. s \<in> {''sh'', ''bash''}) (st_shell t)
          \<and> opt_all (list_all (\<lambda>(k, _). 1 \<le> length k)) (st_env t)) (ae_task e)
     \<and> opt_all (\<lambda>b. opt_all (\<lambda>s. s \<in> {''docker'', ''host'', ''provider''}) (sb_backend b)
          \<and> opt_all (\<lambda>s. s \<in> {''none'', ''enabled''}) (sb_network b)
          \<and> opt_all (\<lambda>t. 1000 \<le> t \<and> t \<le> 10 * 60 * 1000) (sb_timeoutMs b)
          \<and> opt_all (\<lambda>i. 1 \<le> length i) (sb_dockerImage b)
          \<and> opt_all (\<lambda>xs. length xs \<le> 50 \<and> list_all (\<lambda>x. 1 \<le> length x) xs)
               (sb_envPassthroughAllowlist b)) (ae_sandbox e)) c"
| "schema_body engines (ConnectorAction c) = (1 \<le> length (ca_connectorId c) \<and> 1 \<le> length (ca_actionId c)
     \<and> is_uuid (ca_secretId c)
     \<and> opt_all (\<lambda>x. opt_all schema_selector (ec_selector x)) (ca_execution c))"
| "schema_body engines (GithubIssueCreate c) = (repo_ok (gc_repo c) \<and> str_len 1 256 (gc_title c)
     \<and> opt_all (str_len 0 200000) (gc_body c) \<and> is_uuid (gc_secretId c))"
| "schema_body engines (Condition c) = opt_all (\<lambda>k. str_len 1 500 (cc_path k)
     \<and> opt_all (\<lambda>v. case v of JArr _ \<Rightarrow> False | JObj _ \<Rightarrow> False | _ \<Rightarrow> True) (cc_value k)) c"
| "schema_body engines (ParallelJoin c) = True"

definition schema_node :: "string list \<Rightarrow> wf_node \<Rightarrow> bool" where
  "schema_node engines n \<longleftrightarrow> 1 \<le> length (nd_id n) \<and> schema_body engines (nd_body n)"

record wf_dsl =
  d2_trigger :: wf_trigger
  d2_nodes :: "wf_node list"

definition schema_v2 :: "string list \<Rightarrow> wf_dsl \<Rightarrow> bool" where
  "schema_v2 engines d \<longleftrightarrow> schema_trigger (d2_trigger d) \<and> 1 \<le> length (d2_nodes d)
     \<and> list_all (schema_node engines) (d2_nodes d)"

datatype edge_kind = Always | CondTrue | CondFalse

record wf_edge =
  eg_id :: string
  eg_from :: string
  eg_to :: string
  eg_kind :: "edge_kind option"

record wf_dsl_v3 =
  d3_trigger :: wf_trigger
  d3_nodes :: "wf_node table"
  d3_edges :: "wf_edge list"

definition schema_edge :: "wf_edge \<Rightarrow> bool" where
  "schema_edge e \<longleftrightarrow> str_len 1 120 (eg_id e) \<and> str_len 1 120 (eg_from e) \<and> str_len 1 120 (eg_to e)"

definition schema_v3 :: "string list \<Rightarrow> wf_dsl_v3 \<Rightarrow> bool" where
  "schema_v3 engines d \<longleftrightarrow> schema_trigger (d3_trigger d)
     \<and> list_all (\<lambda>(k, n). str_len 1 120 k \<and> schema_node engines n) (d3_nodes d)
     \<and> list_all schema_edge (d3_edges d)"

datatype wf_dsl_any = DslV2 wf_dsl | DslV3 wf_dsl_v3

fun dsl_trigger :: "wf_dsl_any \<Rightarrow> wf_trigger" where
  "dsl_trigger (DslV2 d) = d2_trigger d"
| "dsl_trigger (DslV3 d) = d3_trigger d"

fun node_type :: "node_body \<Rightarrow> string" where
  "node_type (HttpRequest _) = ''http.request''"
| "node_type (AgentRun _) = ''agent.run''"
| "node_type (AgentExecute _) = ''agent.execute''"
| "node_type (ConnectorAction _) = ''connector.action''"
| "node_type (GithubIssueCreate _) = ''connector.github.issue.create''"
| "node_type (Condition _) = ''condition''"
| "node_type (ParallelJoin _) = ''parallel.join''"

fun isRemoteExecutionMode :: "node_body \<Rightarrow> bool" where
  "isRemoteExecutionMode (AgentExecute c) =
     (qq (map_option ec_mode (Option.bind c ae_execution)) Executor = Executor)"
| "isRemoteExecutionMode (AgentRun c) = True"
| "isRemoteExecutionMode (ConnectorAction c) =
     (qq (map_option ec_mode (ca_execution c)) Cloud = Executor)"
| "isRemoteExecutionMode _ = False"

section \<open>Validation of version 3 graphs\<close>

datatype v3_issue =
    GRAPH_NODE_MISSING
  | GRAPH_EDGE_DUPLICATE string
  | GRAPH_EDGE_DANGLING string
  | CONDITION_EDGE_CONSTRAINTS string
  | GRAPH_CYCLE_DETECTED
  | PARALLEL_REMOTE_NOT_SUPPORTED string

type_synonym adjacency = "(string, wf_edge list) jmap"

definition edge_kind_of :: "wf_edge \<Rightarrow> edge_kind" where
  "edge_kind_of e = qq (eg_kind e) Always"

definition adj :: "adjacency \<Rightarrow> string \<Rightarrow> wf_edge list" where
  "adj m k = qq (jget m k) []"

definition push_edge :: "string \<Rightarrow> wf_edge \<Rightarrow> adjacency \<Rightarrow> adjacency" where
  "push_edge k e m = jset k (adj m k @ [e]) m"

fun scanEdges :: "string list \<Rightarrow> wf_edge list \<Rightarrow> string list \<Rightarrow> adjacency \<Rightarrow> adjacency
    \<Rightarrow> v3_issue + adjacency \<times> adjacency" where
  "scanEdges nodeIds [] edgeIds outgoing incoming = Inr (outgoing, incoming)"
| "scanEdges nodeIds (e # es) edgeIds outgoing incoming =
     (if eg_id e \<in> set edgeIds then Inl (GRAPH_EDGE_DUPLICATE (eg_id e))
      else if eg_from e \<notin> set nodeIds \<or> eg_to e \<notin> set nodeIds then Inl (GRAPH_EDGE_DANGLING (eg_id e))
      else scanEdges nodeIds es (eg_id e # edgeIds)
             (push_edge (eg_from e) e outgoing) (push_edge (eg_to e) e incoming))"

fun is_condition :: "node_body \<Rightarrow> bool" where
  "is_condition (Condition _) = True"
| "is_condition _ = False"

fun is_join :: "node_body \<Rightarrow> bool" where
  "is_join (ParallelJoin _) = True"
| "is_join _ = False"

definition condition_out_ok :: "wf_edge list \<Rightarrow> bool" where
  "condition_out_ok out = (let kinds = map edge_kind_of out in
     length (filter (\<lambda>k. k = CondTrue) kinds) = 1
     \<and> length (filter (\<lambda>k. k = CondFalse) kinds) = 1
     \<and> length (filter (\<lambda>k. k \<noteq> CondTrue \<and> k \<noteq> CondFalse) kinds) = 0
     \<and> length out = 2)"

fun checkConditions :: "wf_node table \<Rightarrow> adjacency \<Rightarrow> v3_issue option" where
  "checkConditions [] outgoing = None"
| "checkConditions ((k, n) # ns) outgoing =
     (if \<not> is_condition (nd_body n) then checkConditions ns outgoing
      else if \<not> condition_out_ok (adj outgoing k) then Some (CONDITION_EDGE_CONSTRAINTS k)
      else checkConditions ns outgoing)"

type_synonym degrees = "(string, int) jmap"

definition deg :: "degrees \<Rightarrow> string \<Rightarrow> int" where
  "deg d k = qq (jget d k) 0"

definition initDegrees :: "string list \<Rightarrow> wf_edge list \<Rightarrow> degrees" where
  "initDegrees nodeIds edges =
     fold (\<lambda>e d. jset (eg_to e) (deg d (eg_to e) + 1) d) edges (fold (\<lambda>k d. jset k 0 d) nodeIds [])"

fun relax :: "wf_edge list \<Rightarrow> degrees \<Rightarrow> string list \<Rightarrow> degrees \<times> string list" where
  "relax [] d queue = (d, queue)"
| "relax (e # es) d queue =
     (let next = eg_to e; g = deg d next - 1
      in relax es (jset next g d) (if g = 0 then queue @ [next] else queue))"

definition positives :: "degrees \<Rightarrow> nat" where
  "positives d = length (filter (\<lambda>e. 0 < snd e) d)"

lemma positives_jset: "positives (jset k (deg d k - 1) d)
    + (if deg d k = 1 then 1 else 0) \<le> positives d"
  by (induction d) (auto simp: positives_def deg_def)

lemma relax_measure: "length (snd (relax es d q)) + positives (fst (relax es d q))
    \<le> length q + positives d"
proof (induction es arbitrary: d q)
  case Nil
  then show ?case by simp
next
  case (Cons e es)
  let ?g = "deg d (eg_to e) - 1"
  let ?q = "if ?g = 0 then q @ [eg_to e] else q"
  have "length ?q + positives (jset (eg_to e) ?g d) \<le> length q + positives d"
    using positives_jset [of "eg_to e" d] by (simp split: if_splits)
  then show ?case using Cons.IH [of "jset (eg_to e) ?g d" ?q] by (simp add: Let_def)
qed

function kahn :: "adjacency \<Rightarrow> degrees \<Rightarrow> string list \<Rightarrow> nat \<Rightarrow> nat" where
  \<comment> \<open>the worklist loop: \<open>id = queue.shift(); if (!id) break; visited += 1; ...\<close>\<close>
  "kahn outgoing d [] visited = visited"
| "kahn outgoing d (k # queue) visited =
     (if k = '''' then visited
      else (case relax (adj outgoing k) d queue of
              (d', queue') \<Rightarrow> kahn outgoing d' queue' (visited + 1)))"
  by pat_completeness auto
termination
proof (relation "measure (\<lambda>(og, d, q, v). length q + positives d)", goal_cases)
  case 1
  then show ?case by simp
next
  case (2 og d k q v d' q')
  then show ?case using relax_measure [of "adj og k" d q] by (simp add: 2(2) [symmetric])
qed

definition countVisited :: "string list \<Rightarrow> wf_edge list \<Rightarrow> adjacency \<Rightarrow> nat" where
  "countVisited nodeIds edges outgoing =
     (let d = initDegrees nodeIds edges
      in kahn outgoing d (map fst (filter (\<lambda>e. snd e = 0) d)) 0)"

fun visit_new :: "string list \<Rightarrow> string list \<Rightarrow> string list \<Rightarrow> string list \<times> string list" where
  \<comment> \<open>the inner loop of both searches: unseen neighbours are marked and pushed\<close>
  "visit_new [] seen stack = (seen, stack)"
| "visit_new (n # ns) seen stack =
     (if n \<in> set seen then visit_new ns seen stack else visit_new ns (seen @ [n]) (n # stack))"

lemma visit_new_measure:
  assumes "set ns \<subseteq> U" "finite U"
  shows "length (snd (visit_new ns seen st)) + card (U - set (fst (visit_new ns seen st)))
      \<le> length st + card (U - set seen)"
  using assms(1)
proof (induction ns arbitrary: seen st)
  case Nil
  then show ?case by simp
next
  case (Cons n ns)
  show ?case
  proof (cases "n \<in> set seen")
    case True
    with Cons show ?thesis by simp
  next
    case False
    have "Suc (card (U - set (seen @ [n]))) = card (U - set seen)"
    proof -
      have "U - set seen = insert n (U - set (seen @ [n]))" using False Cons.prems by auto
      moreover have "n \<notin> U - set (seen @ [n])" by simp
      ultimately show ?thesis using assms(2) by (metis card_insert_disjoint finite_Diff)
    qed
    moreover have "length (snd (visit_new ns (seen @ [n]) (n # st)))
        + card (U - set (fst (visit_new ns (seen @ [n]) (n # st))))
      \<le> length (n # st) + card (U - set (seen @ [n]))"
      using Cons.prems by (intro Cons.IH) simp
    ultimately show ?thesis using False by simp
  qed
qed

function search :: "(string, string list) jmap \<Rightarrow> string list \<Rightarrow> string list \<Rightarrow> string list" where
  \<comment> \<open>\<open>current = stack.pop(); if (!current) continue; ...\<close>\<close>
  "search nbrs seen [] = seen"
| "search nbrs seen (k # stack) =
     (if k = '''' then search nbrs seen stack
      else (case visit_new (qq (jget nbrs k) []) seen stack of
              (seen', stack') \<Rightarrow> search nbrs seen' stack'))"
  by pat_completeness auto
termination
proof (relation "measure (\<lambda>(nb, seen, st). length st + card (\<Union> (set ` set (jvalues nb)) - set seen))",
    goal_cases)
  case 1
  then show ?case by simp
next
  case (2 nb seen k st)
  then show ?case by simp
next
  case (3 nb seen k st seen' st')
  let ?U = "\<Union> (set ` set (jvalues nb))"
  have "set (qq (jget nb k) []) \<subseteq> ?U"
    using jget_in_values [of nb k] by (cases "jget nb k") auto
  then show ?case using visit_new_measure [of "qq (jget nb k) []" ?U seen st] by (simp add: 3(2) [symmetric])
qed

definition computeCanReach :: "adjacency \<Rightarrow> string \<Rightarrow> string list" where
  "computeCanReach incoming targetId =
     search (map (\<lambda>(k, es). (k, map eg_from es)) incoming) [] [targetId]"

definition computeReachableFrom :: "adjacency \<Rightarrow> string \<Rightarrow> string list" where
  "computeReachableFrom outgoing startId =
     search (map (\<lambda>(k, es). (k, map eg_to es)) outgoing) [startId] [startId]"

fun first_some :: "('a \<Rightarrow> 'b option) \<Rightarrow> 'a list \<Rightarrow> 'b option" where
  \<comment> \<open>a \<open>for\<close> loop that returns from its body\<close>
  "first_some f [] = None"
| "first_some f (x # xs) = (case f x of None \<Rightarrow> first_some f xs | Some y \<Rightarrow> Some y)"

definition branchIssue :: "wf_node table \<Rightarrow> string \<Rightarrow> string list \<Rightarrow> string list \<Rightarrow> v3_issue option" where
  "branchIssue nodes joinId canReachJoin branchReach =
     first_some (\<lambda>nodeId.
       if nodeId = joinId \<or> nodeId \<notin> set canReachJoin then None
       else (case jget nodes nodeId of
               None \<Rightarrow> None
             | Some n \<Rightarrow> if isRemoteExecutionMode (nd_body n)
                 then Some (PARALLEL_REMOTE_NOT_SUPPORTED nodeId) else None)) branchReach"

definition checkParallel :: "wf_node table \<Rightarrow> adjacency \<Rightarrow> adjacency \<Rightarrow> v3_issue option" where
  "checkParallel nodes outgoing incoming =
     first_some (\<lambda>joinId. let canReachJoin = computeCanReach incoming joinId in
       first_some (\<lambda>rootId.
         let alwaysEdges = filter (\<lambda>e. edge_kind_of e = Always) (adj outgoing rootId) in
         if length alwaysEdges < 2 then None
         else first_some (\<lambda>e. branchIssue nodes joinId canReachJoin
                (computeReachableFrom outgoing (eg_to e))) alwaysEdges) canReachJoin)
     (map fst (filter (\<lambda>(k, n). is_join (nd_body n)) nodes))"

definition validateV3GraphConstraints :: "wf_dsl_v3 \<Rightarrow> v3_issue option" where
  \<comment> \<open>\<open>None\<close> is \<open>{ ok: true }\<close>, \<open>Some\<close> the reported issue\<close>
  "validateV3GraphConstraints dsl =
     (let nodes = d3_nodes dsl; edges = d3_edges dsl; nodeIds = jkeys nodes in
      if nodeIds = [] then Some GRAPH_NODE_MISSING
      else (case scanEdges nodeIds edges [] [] [] of
        Inl issue \<Rightarrow> Some issue
      | Inr (outgoing, incoming) \<Rightarrow>
          (case checkConditions nodes outgoing of
             Some issue \<Rightarrow> Some issue
           | None \<Rightarrow>
               if countVisited nodeIds edges outgoing \<noteq> length nodeIds then Some GRAPH_CYCLE_DETECTED
               else checkParallel nodes outgoing incoming)))"

section \<open>Upgrade of version 2 definitions\<close>

definition upgradeNode :: "wf_node \<Rightarrow> wf_node" where
  "upgradeNode n = (case nd_body n of
     GithubIssueCreate c \<Rightarrow> n\<lparr>nd_body := ConnectorAction
       \<lparr>ca_connectorId = ''github'', ca_actionId = ''issue.create'',
        ca_input = Some (JObj ([(''repo'', JStr (gc_repo c)), (''title'', JStr (gc_title c))]
          @ (if truthy (gc_body c) then [(''body'', JStr (qq (gc_body c) ''''))] else []))),
        ca_secretId = gc_secretId c, ca_execution = None\<rparr>\<rparr>
   | _ \<Rightarrow> n)"

fun upgradeEdges :: "wf_node list \<Rightarrow> wf_edge list" where
  "upgradeEdges (a # b # ns) =
     (if nd_id a = '''' \<or> nd_id b = '''' then upgradeEdges (b # ns)
      else \<lparr>eg_id = ''e:'' @ nd_id a @ ''->'' @ nd_id b, eg_from = nd_id a, eg_to = nd_id b,
            eg_kind = Some Always\<rparr> # upgradeEdges (b # ns))"
| "upgradeEdges _ = []"

definition upgradeV2ToV3 :: "wf_dsl \<Rightarrow> wf_dsl_v3" where
  "upgradeV2ToV3 d = \<lparr>d3_trigger = d2_trigger d,
     d3_nodes = fold (\<lambda>n m. jset (nd_id n) (upgradeNode n) m) (d2_nodes d) [],
     d3_edges = upgradeEdges (d2_nodes d)\<rparr>"

section \<open>The dry-run executor\<close>

datatype step_status = StepSucceeded | StepFailed

record wf_step =
  sp_nodeId :: string
  sp_nodeType :: string
  sp_status :: step_status
  sp_output :: "json option"
  sp_error :: "string option"

record wf_result =
  wr_status :: step_status
  wr_steps :: "wf_step list"
  wr_completedNodeCount :: nat
  wr_failedNodeId :: "string option"

fun dryRunOutput :: "wf_node \<Rightarrow> json" where
  "dryRunOutput \<lparr>nd_id = i, nd_body = HttpRequest c\<rparr> =
     JObj [(''accepted'', JBool True), (''requestId'', JStr (i @ ''-request''))]"
| "dryRunOutput \<lparr>nd_id = i, nd_body = AgentRun c\<rparr> =
     JObj [(''accepted'', JBool True), (''agentRunId'', JStr (i @ ''-agent-run''))]"
| "dryRunOutput \<lparr>nd_id = i, nd_body = AgentExecute e\<rparr> =
     JObj [(''accepted'', JBool True), (''taskId'', JStr (i @ ''-task''))]"
| "dryRunOutput \<lparr>nd_id = i, nd_body = ConnectorAction c\<rparr> =
     JObj [(''accepted'', JBool True), (''connectorId'', JStr (ca_connectorId c)),
           (''actionId'', JStr (ca_actionId c))]"
| "dryRunOutput \<lparr>nd_id = i, nd_body = GithubIssueCreate g\<rparr> =
     JObj [(''accepted'', JBool True), (''issueNumber'', JNum 1),
           (''url'', JStr (''https://github.example/'' @ gc_repo g @ ''/issues/1''))]"
| "dryRunOutput \<lparr>nd_id = i, nd_body = Condition c\<rparr> = JObj [(''branch'', JStr ''true'')]"
| "dryRunOutput \<lparr>nd_id = i, nd_body = ParallelJoin j\<rparr> = JObj [(''joined'', JBool True)]"

definition executeWorkflow :: "wf_dsl \<Rightarrow> wf_result" where
  "executeWorkflow d =
     (let steps = map (\<lambda>n. \<lparr>sp_nodeId = nd_id n, sp_nodeType = node_type (nd_body n),
                            sp_status = StepSucceeded, sp_output = Some (dryRunOutput n),
                            sp_error = None\<rparr>) (d2_nodes d)
      in \<lparr>wr_status = StepSucceeded, wr_steps = steps, wr_completedNodeCount = length steps,
          wr_failedNodeId = None\<rparr>)"

end
