(* ===== verification/WorkflowGraph.thy ===== *)
theory WorkflowGraph
  imports WorkflowDsl
begin

text \<open>
  Correctness of the version 3 graph validation: the edge scan builds the adjacency lists of the
  graph, the worklist loop visits every node exactly when the graph is acyclic, and the two
  searches compute reachability.
\<close>

section \<open>Adjacency lists\<close>

lemma adj_push_edge [simp]: "adj (push_edge k e m) k' = (if k = k' then adj m k @ [e] else adj m k')"
  by (simp add: adj_def push_edge_def jget_jset)

definition scanned :: "string list \<Rightarrow> wf_edge list \<Rightarrow> adjacency \<Rightarrow> adjacency \<Rightarrow> bool" where
  \<comment> \<open>what a successful scan establishes\<close>
  "scanned nodeIds es outgoing incoming \<longleftrightarrow>
     (\<forall>e \<in> set es. eg_from e \<in> set nodeIds \<and> eg_to e \<in> set nodeIds)
     \<and> distinct (map eg_id es)
     \<and> (\<forall>k. adj outgoing k = filter (\<lambda>e. eg_from e = k) es)
     \<and> (\<forall>k. adj incoming k = filter (\<lambda>e. eg_to e = k) es)"

lemma scanEdges_acc:
  "scanEdges ns es ids og inc = Inr (og', inc') \<Longrightarrow>
     (\<forall>e \<in> set es. eg_from e \<in> set ns \<and> eg_to e \<in> set ns)
     \<and> distinct (map eg_id es) \<and> set (map eg_id es) \<inter> set ids = {}
     \<and> (\<forall>k. adj og' k = adj og k @ filter (\<lambda>e. eg_from e = k) es)
     \<and> (\<forall>k. adj inc' k = adj inc k @ filter (\<lambda>e. eg_to e = k) es)"
proof (induction es arbitrary: ids og inc)
  case Nil
  then show ?case by simp
next
  case (Cons e es)
  from Cons.prems have "scanEdges ns es (eg_id e # ids) (push_edge (eg_from e) e og)
      (push_edge (eg_to e) e inc) = Inr (og', inc')"
    by (auto split: if_splits)
  from Cons.IH [OF this] Cons.prems show ?case by (auto split: if_splits)
qed

lemma scanEdges_scanned:
  "scanEdges ns es [] [] [] = Inr (og, inc) \<Longrightarrow> scanned ns es og inc"
  by (drule scanEdges_acc) (simp add: scanned_def adj_def)

lemma scanEdges_complete:
  assumes "\<forall>e \<in> set es. eg_from e \<in> set ns \<and> eg_to e \<in> set ns"
    and "distinct (map eg_id es)" "set (map eg_id es) \<inter> set ids = {}"
  shows "\<exists>og' inc'. scanEdges ns es ids og inc = Inr (og', inc')"
  using assms by (induction es arbitrary: ids og inc) auto

definition edge_rel :: "wf_edge list \<Rightarrow> (string \<times> string) set" where
  "edge_rel es = (\<lambda>e. (eg_from e, eg_to e)) ` set es"

lemma finite_edge_rel [simp, intro]: "finite (edge_rel es)"
  by (simp add: edge_rel_def)

section \<open>Kahn's loop\<close>

abbreviation cnt :: "wf_edge list \<Rightarrow> string \<Rightarrow> int" where
  "cnt es x \<equiv> int (length (filter (\<lambda>e. eg_to e = x) es))"

lemma deg_jset [simp]: "deg (jset k v d) x = (if k = x then v else deg d x)"
  by (simp add: deg_def jget_jset)

lemma deg_init: "deg (initDegrees ns es) x = cnt es x"
proof -
  have z: "deg (fold (\<lambda>k d. jset k 0 d) ns d) x = 0" if "deg d x = 0" for d
    using that by (induction ns arbitrary: d) auto
  have "deg (fold (\<lambda>e d. jset (eg_to e) (deg d (eg_to e) + 1) d) es d) x = deg d x + cnt es x" for d
    by (induction es arbitrary: d) auto
  then show ?thesis using z [of "[]"] by (simp add: initDegrees_def deg_def)
qed

lemma jkeys_jset_old: "k \<in> set (jkeys m) \<Longrightarrow> jkeys (jset k v m) = jkeys m"
  by (induction m) auto

lemma jkeys_jset_new: "k \<notin> set (jkeys m) \<Longrightarrow> jkeys (jset k v m) = jkeys m @ [k]"
  by (simp add: jset_fresh jkeys_def)

lemma jkeys_init:
  assumes "distinct ns" and "\<forall>e \<in> set es. eg_to e \<in> set ns"
  shows "jkeys (initDegrees ns es) = ns"
proof -
  have a: "jkeys (fold (\<lambda>k d. jset k (0::int) d) ns d) = jkeys d @ ns" if "set ns \<inter> set (jkeys d) = {}" for d
    using that assms(1) by (induction ns arbitrary: d) (auto simp: jkeys_jset_new)
  have "jkeys (fold (\<lambda>e d. jset (eg_to e) (deg d (eg_to e) + 1) d) es d) = ns" if "jkeys d = ns" for d
    using that assms(2) by (induction es arbitrary: d) (auto simp: jkeys_jset_old)
  then show ?thesis using a [of "[]"] by (simp add: initDegrees_def)
qed

lemma relax_deg: "deg (fst (relax es d q)) x = deg d x - cnt es x"
  by (induction es arbitrary: d q) (auto simp: Let_def)

lemma relax_queue:
  assumes "\<forall>x. cnt es x \<le> deg d x" "distinct q" "\<forall>x \<in> set q. deg d x = 0"
  shows "distinct (snd (relax es d q))
    \<and> set (snd (relax es d q)) = set q \<union> {x. 0 < cnt es x \<and> deg d x = cnt es x}"
  using assms
proof (induction es arbitrary: d q)
  case Nil
  then show ?case by simp
next
  case (Cons e es)
  let ?n = "eg_to e" let ?g = "deg d ?n - 1" let ?d = "jset ?n ?g d"
  let ?q = "if ?g = 0 then q @ [?n] else q"
  have pos: "1 \<le> deg d ?n" using spec [OF Cons.prems(1), of ?n] by simp
  then have nq: "?n \<notin> set q" using Cons.prems(3) by force
  have le: "\<forall>x. cnt es x \<le> deg ?d x"
  proof
    fix x show "cnt es x \<le> deg ?d x" using spec [OF Cons.prems(1), of x] by (auto split: if_splits)
  qed
  have dq: "distinct ?q" "\<forall>x \<in> set ?q. deg ?d x = 0"
    using Cons.prems(2,3) nq by auto
  have "set ?q \<union> {x. 0 < cnt es x \<and> deg ?d x = cnt es x}
      = set q \<union> {x. 0 < cnt (e # es) x \<and> deg d x = cnt (e # es) x}"
  proof (rule set_eqI)
    fix x
    show "x \<in> set ?q \<union> {x. 0 < cnt es x \<and> deg ?d x = cnt es x}
        \<longleftrightarrow> x \<in> set q \<union> {x. 0 < cnt (e # es) x \<and> deg d x = cnt (e # es) x}"
      using spec [OF le, of x] spec [OF Cons.prems(1), of x] nq by (cases "x = ?n") auto
  qed
  with Cons.IH [OF le dq] show ?case by (simp add: Let_def)
qed

definition topo :: "wf_edge list \<Rightarrow> string list \<Rightarrow> bool" where
  "topo es P \<longleftrightarrow> (\<forall>P1 k P2. P = P1 @ k # P2 \<longrightarrow> (\<forall>e \<in> set es. eg_to e = k \<longrightarrow> eg_from e \<in> set P1))"

definition kinv :: "string list \<Rightarrow> wf_edge list \<Rightarrow> string list \<Rightarrow> degrees \<Rightarrow> string list \<Rightarrow> bool" where
  \<comment> \<open>\<open>P\<close> are the nodes visited so far, \<open>q\<close> the queue\<close>
  "kinv ns es P d q \<longleftrightarrow> distinct (P @ q) \<and> set (P @ q) \<subseteq> set ns \<and> topo es P
     \<and> (\<forall>x. deg d x = cnt (filter (\<lambda>e. eg_from e \<notin> set P) es) x)
     \<and> (\<forall>x \<in> set ns. x \<in> set (P @ q) \<longleftrightarrow> deg d x = 0)"

lemma cnt_zero: "cnt es x = 0 \<longleftrightarrow> (\<forall>e \<in> set es. eg_to e \<noteq> x)"
  by (auto simp: filter_empty_conv)

lemma topo_snoc:
  assumes "topo es P" and "\<forall>e \<in> set es. eg_to e = k \<longrightarrow> eg_from e \<in> set P"
  shows "topo es (P @ [k])"
  unfolding topo_def
proof (intro allI impI)
  fix P1 x P2 assume eq: "P @ [k] = P1 @ x # P2"
  show "\<forall>e \<in> set es. eg_to e = x \<longrightarrow> eg_from e \<in> set P1"
  proof (cases P2 rule: rev_cases)
    case Nil
    then show ?thesis using eq assms(2) by simp
  next
    case (snoc zs z)
    then have "P = P1 @ x # zs" using eq by simp
    then show ?thesis using assms(1) unfolding topo_def by blast
  qed
qed

lemma cnt_split:
  "k \<notin> set P \<Longrightarrow> cnt (filter (\<lambda>e. eg_from e \<notin> set P) es) x
     = cnt (filter (\<lambda>e. eg_from e \<notin> set (P @ [k])) es) x + cnt (filter (\<lambda>e. eg_from e = k) es) x"
  by (induction es) auto

lemma kinv_step:
  assumes inv: "kinv ns es P d (k # q)" and out: "os = filter (\<lambda>e. eg_from e = k) es"
    and ends: "\<forall>e \<in> set es. eg_to e \<in> set ns"
  shows "kinv ns es (P @ [k]) (fst (relax os d q)) (snd (relax os d q))"
proof -
  let ?d = "fst (relax os d q)" and ?q = "snd (relax os d q)"
  from inv have dist: "distinct (P @ k # q)" and sub: "set (P @ k # q) \<subseteq> set ns" and tp: "topo es P"
    and dg: "\<And>x. deg d x = cnt (filter (\<lambda>e. eg_from e \<notin> set P) es) x"
    and z: "\<And>x. x \<in> set ns \<Longrightarrow> x \<in> set (P @ k # q) \<longleftrightarrow> deg d x = 0"
    unfolding kinv_def by auto
  have kP: "k \<notin> set P" using dist by simp
  have dg': "deg ?d x = cnt (filter (\<lambda>e. eg_from e \<notin> set (P @ [k])) es) x" for x
    using cnt_split [OF kP, where es = es and x = x] by (simp add: relax_deg dg out)
  have le: "cnt os x \<le> deg d x" for x
    using cnt_split [OF kP, where es = es and x = x] by (simp add: dg out)
  have "\<forall>x \<in> set q. deg d x = 0" using z sub by auto
  with le dist have rq: "distinct ?q" "set ?q = set q \<union> {x. 0 < cnt os x \<and> deg d x = cnt os x}"
    using relax_queue [of os d q] by auto
  have new: "x \<in> set ns" if "0 < cnt os x" for x
    using that ends by (auto simp: out filter_empty_conv)
  have old: "deg d x = 0" if "x \<in> set (P @ k # q)" for x using that z sub by blast
  have "distinct ((P @ [k]) @ ?q)" using dist rq old le by fastforce
  moreover have "set ((P @ [k]) @ ?q) \<subseteq> set ns" using sub rq(2) new by auto
  moreover have "topo es (P @ [k])"
  proof (rule topo_snoc [OF tp])
    have "deg d k = 0" using old by simp
    then show "\<forall>e \<in> set es. eg_to e = k \<longrightarrow> eg_from e \<in> set P"
      unfolding dg cnt_zero by auto
  qed
  moreover have "x \<in> set ((P @ [k]) @ ?q) \<longleftrightarrow> deg ?d x = 0" if "x \<in> set ns" for x
  proof (cases "x \<in> set (P @ k # q)")
    case True
    then have "cnt os x = 0" using old [OF True] le [of x] by linarith
    with True old [OF True] show ?thesis by (auto simp: relax_deg rq(2))
  next
    case False
    then have nz: "deg d x \<noteq> 0" and out: "x \<notin> set P" "x \<noteq> k" "x \<notin> set q" using z [OF that] by auto
    have "x \<in> set ?q \<longleftrightarrow> 0 < cnt os x \<and> deg d x = cnt os x" using out by (simp only: rq(2)) blast
    also have "\<dots> \<longleftrightarrow> deg d x = cnt os x" using nz by auto
    also have "\<dots> \<longleftrightarrow> deg ?d x = 0" by (simp add: relax_deg)
    finally show ?thesis using out by simp
  qed
  ultimately show ?thesis using dg' unfolding kinv_def by blast
qed

lemma kahn_final:
  assumes "kinv ns es P d q" "v = length P" "'''' \<notin> set ns"
    and "\<forall>k. adj og k = filter (\<lambda>e. eg_from e = k) es" "\<forall>e \<in> set es. eg_to e \<in> set ns"
  shows "\<exists>P' d'. kahn og d q v = length P' \<and> kinv ns es P' d' []"
  using assms
proof (induction og d q v arbitrary: P rule: kahn.induct)
  case (1 og d v)
  then show ?case by auto
next
  case (2 og d k q v)
  have kn: "k \<noteq> ''''" using "2.prems"(1,3) unfolding kinv_def by auto
  obtain d' q' where r: "relax (adj og k) d q = (d', q')" by force
  have "kinv ns es (P @ [k]) d' q'"
    using kinv_step [OF "2.prems"(1) refl "2.prems"(5)] r "2.prems"(4) by simp
  then have "\<exists>P' d''. kahn og d' q' (v + 1) = length P' \<and> kinv ns es P' d'' []"
    using "2.IH" [OF kn r [symmetric], of "P @ [k]"] "2.prems" by simp
  then show ?case using kn r by simp
qed

lemma kinv_init:
  assumes "distinct ns" and "\<forall>e \<in> set es. eg_to e \<in> set ns"
  shows "kinv ns es [] (initDegrees ns es) (map fst (filter (\<lambda>e. snd e = 0) (initDegrees ns es)))"
proof -
  let ?d = "initDegrees ns es"
  have keys: "map fst ?d = ns" using jkeys_init [OF assms] by (simp add: jkeys_def)
  have wf: "wf_map ?d" using assms(1) keys by (simp add: wf_map_def jkeys_def)
  have mem: "x \<in> set (map fst (filter (\<lambda>e. snd e = 0) ?d)) \<longleftrightarrow> deg ?d x = 0" if "x \<in> set ns" for x
  proof -
    from that keys obtain v where "(x, v) \<in> set ?d" by (metis (no_types, lifting) image_iff list.set_map prod.collapse)
    moreover from this have "jget ?d x = Some v" by (rule in_set_jget [OF wf])
    ultimately show ?thesis using in_set_jget [OF wf]
      by (auto simp: deg_def image_iff) (metis option.inject)
  qed
  have "distinct (map fst (filter (\<lambda>e. snd e = 0) ?d))"
    using assms(1) keys by (metis distinct_map_filter)
  moreover have "set (map fst (filter (\<lambda>e. snd e = 0) ?d)) \<subseteq> set ns"
    using keys by (metis (no_types, lifting) filter_is_subset image_mono list.set_map)
  ultimately show ?thesis using mem by (simp add: kinv_def topo_def deg_init)
qed

lemma takeWhile_shorter:
  "a \<in> set xs \<Longrightarrow> length (takeWhile (\<lambda>x. x \<noteq> a) (xs @ ys)) < length xs"
  by (induction xs) auto

lemma topo_acyclic:
  assumes "topo es P" "distinct P" "\<forall>e \<in> set es. eg_to e \<in> set P"
  shows "acyclic (edge_rel es)"
proof -
  define rank where "rank k = length (takeWhile (\<lambda>x. x \<noteq> k) P)" for k
  have "rank (eg_from e) < rank (eg_to e)" if e: "e \<in> set es" for e
  proof -
    from assms(3) e obtain P1 P2 where P: "P = P1 @ eg_to e # P2" by (meson split_list)
    then have f: "eg_from e \<in> set P1" using assms(1) e unfolding topo_def by blast
    have "rank (eg_to e) = length P1"
      using assms(2) unfolding rank_def P by (subst takeWhile_append2) auto
    moreover from f have "rank (eg_from e) < length P1"
      unfolding rank_def P
      by (rule takeWhile_shorter)
    ultimately show ?thesis by simp
  qed
  then have "edge_rel es \<subseteq> measure rank" by (auto simp: edge_rel_def)
  then show ?thesis by (metis wf_acyclic wf_measure wf_subset)
qed

lemma countVisited_acyclic:
  assumes ns: "distinct ns" "'''' \<notin> set ns"
    and og: "\<forall>k. adj og k = filter (\<lambda>e. eg_from e = k) es"
    and ends: "\<forall>e \<in> set es. eg_from e \<in> set ns \<and> eg_to e \<in> set ns"
  shows "countVisited ns es og = length ns \<longleftrightarrow> acyclic (edge_rel es)"
proof -
  have ends': "\<forall>e \<in> set es. eg_to e \<in> set ns" using ends by blast
  obtain P d where cv: "countVisited ns es og = length P" and inv: "kinv ns es P d []"
    using kahn_final [OF kinv_init [OF ns(1) ends'] _ ns(2) og ends'] by (auto simp: countVisited_def Let_def)
  then have P: "distinct P" "set P \<subseteq> set ns" "topo es P"
    and dg: "\<And>x. deg d x = cnt (filter (\<lambda>e. eg_from e \<notin> set P) es) x"
    and z: "\<And>x. x \<in> set ns \<Longrightarrow> x \<in> set P \<longleftrightarrow> deg d x = 0"
    unfolding kinv_def by auto
  show ?thesis
  proof
    assume "countVisited ns es og = length ns"
    then have "card (set P) = card (set ns)" using cv P(1) ns(1) by (simp add: distinct_card)
    then have "set P = set ns" using P(2) by (simp add: card_subset_eq)
    then show "acyclic (edge_rel es)" using topo_acyclic [OF P(3,1)] ends' by simp
  next
    assume "acyclic (edge_rel es)"
    then have wf: "wf (edge_rel es)" by (simp add: finite_acyclic_wf)
    have "set ns \<subseteq> set P"
    proof (rule ccontr)
      assume "\<not> set ns \<subseteq> set P"
      then obtain x where "x \<in> set ns - set P" by blast
      from wfE_min [OF wf this] obtain m where m: "m \<in> set ns - set P"
        and mn: "\<And>y. (y, m) \<in> edge_rel es \<Longrightarrow> y \<notin> set ns - set P" by blast
      have "\<forall>e \<in> set es. eg_to e = m \<longrightarrow> eg_from e \<in> set P"
        using mn ends by (force simp: edge_rel_def)
      then have "deg d m = 0" unfolding dg cnt_zero by auto
      then show False using z m by blast
    qed
    then show "countVisited ns es og = length ns"
      using P(1,2) ns(1) cv by (metis distinct_card subset_antisym)
  qed
qed

section \<open>The two searches\<close>

definition nbr_rel :: "(string, string list) jmap \<Rightarrow> (string \<times> string) set" where
  "nbr_rel nb = {(a, b). b \<in> set (qq (jget nb a) [])}"

lemma visit_new_sets:
  "set (fst (visit_new ns seen st)) = set seen \<union> set ns
   \<and> set (snd (visit_new ns seen st)) = set st \<union> (set ns - set seen)"
  by (induction ns arbitrary: seen st) auto

lemma search_spec:
  assumes "\<And>a b. (a, b) \<in> nbr_rel nb \<Longrightarrow> b \<noteq> ''''" and "'''' \<notin> set st"
    and "\<forall>a \<in> insert s (set seen). a \<in> set st \<or> nbr_rel nb `` {a} \<subseteq> set seen"
    and "\<forall>b \<in> set st. (s, b) \<in> (nbr_rel nb)\<^sup>*"
  shows "set (search nb seen st) = set seen \<union> (nbr_rel nb)\<^sup>+ `` {s}"
  using assms
proof (induction nb seen st rule: search.induct)
  case (1 nb seen)
  have "b \<in> set seen" if "(s, b) \<in> (nbr_rel nb)\<^sup>+" for b
    using that
  proof (induction rule: trancl_induct)
    case (base y)
    then show ?case using "1.prems"(3) by auto
  next
    case (step y z)
    then show ?case using "1.prems"(3) by auto
  qed
  then show ?case by auto
next
  case (2 nb seen k st)
  let ?ns = "qq (jget nb k) []"
  have k: "k \<noteq> ''''" using "2.prems"(2) by auto
  obtain seen' st' where v: "visit_new ?ns seen st = (seen', st')" by force
  have sets: "set seen' = set seen \<union> set ?ns" "set st' = set st \<union> (set ?ns - set seen)"
    using visit_new_sets [of ?ns seen st] v by auto
  have ns: "nbr_rel nb `` {k} = set ?ns" by (auto simp: nbr_rel_def)
  have sk: "(s, k) \<in> (nbr_rel nb)\<^sup>*" using "2.prems"(4) by simp
  have "'''' \<notin> set st'" using "2.prems"(1,2) ns sets(2) by fastforce
  moreover have "\<forall>a \<in> insert s (set seen'). a \<in> set st' \<or> nbr_rel nb `` {a} \<subseteq> set seen'"
    using "2.prems"(3) ns sets by auto
  moreover have "\<forall>b \<in> set st'. (s, b) \<in> (nbr_rel nb)\<^sup>*"
    using "2.prems"(4) sk ns sets(2) by (auto intro: rtrancl_into_rtrancl)
  ultimately have "set (search nb seen' st') = set seen' \<union> (nbr_rel nb)\<^sup>+ `` {s}"
    using "2.IH"(2) [OF k v [symmetric]] "2.prems"(1) by blast
  moreover have "set ?ns \<subseteq> (nbr_rel nb)\<^sup>+ `` {s}"
    using sk ns by (auto intro: rtrancl_into_trancl1)
  ultimately show ?case using k v sets(1) by auto
qed

lemma jget_map_values: "jget (map (\<lambda>(k, v). (k, f v)) m) k = map_option f (jget m k)"
  by (induction m) auto

lemma trancl_converse_Image: "(R\<inverse>)\<^sup>+ `` {t} = {x. (x, t) \<in> R\<^sup>+}"
  by (auto simp: trancl_converse)

lemma qq_map_option: "qq (map_option (map f) x) [] = map f (qq x [])"
  by (cases x) auto

lemma computeCanReach_spec:
  assumes sc: "scanned ns es og inc" and "'''' \<notin> set ns" "t \<noteq> ''''"
  shows "set (computeCanReach inc t) = {x. (x, t) \<in> (edge_rel es)\<^sup>+}"
proof -
  let ?nb = "map (\<lambda>(k, v). (k, map eg_from v)) inc"
  have "set (map eg_from (qq (jget inc a) [])) = {b. (b, a) \<in> edge_rel es}" for a
    using sc by (force simp: scanned_def adj_def edge_rel_def)
  then have R: "nbr_rel ?nb = (edge_rel es)\<inverse>"
    by (auto simp: nbr_rel_def jget_map_values qq_map_option)
  have "set (search ?nb [] [t]) = set [] \<union> (nbr_rel ?nb)\<^sup>+ `` {t}"
    by (rule search_spec) (use assms in \<open>auto simp: R scanned_def edge_rel_def\<close>)
  then show ?thesis by (simp add: computeCanReach_def R trancl_converse_Image)
qed

lemma computeReachableFrom_spec:
  assumes sc: "scanned ns es og inc" and "'''' \<notin> set ns" "s \<noteq> ''''"
  shows "set (computeReachableFrom og s) = {x. (s, x) \<in> (edge_rel es)\<^sup>*}"
proof -
  let ?nb = "map (\<lambda>(k, v). (k, map eg_to v)) og"
  have "set (map eg_to (qq (jget og a) [])) = {b. (a, b) \<in> edge_rel es}" for a
    using sc by (force simp: scanned_def adj_def edge_rel_def)
  then have R: "nbr_rel ?nb = edge_rel es"
    by (auto simp: nbr_rel_def jget_map_values qq_map_option)
  have "set (search ?nb [s] [s]) = set [s] \<union> (nbr_rel ?nb)\<^sup>+ `` {s}"
    by (rule search_spec) (use assms in \<open>auto simp: R scanned_def edge_rel_def\<close>)
  then show ?thesis by (auto simp: computeReachableFrom_def R rtrancl_eq_or_trancl)
qed

section \<open>Specification of the validation\<close>

lemma first_some_None: "first_some f xs = None \<longleftrightarrow> (\<forall>x \<in> set xs. f x = None)"
  by (induction xs) (auto split: option.splits)

lemma first_some_Some: "first_some f xs = Some y \<Longrightarrow> \<exists>x \<in> set xs. f x = Some y"
  by (induction xs) (auto split: option.splits)

definition always_out :: "wf_edge list \<Rightarrow> string \<Rightarrow> wf_edge list" where
  "always_out es r = filter (\<lambda>e. edge_kind_of e = Always) (filter (\<lambda>e. eg_from e = r) es)"

definition in_parallel_region :: "wf_node table \<Rightarrow> wf_edge list \<Rightarrow> string \<Rightarrow> bool" where
  \<comment> \<open>a node lies on a branch of a fork (two or more unconditional edges) that a join closes\<close>
  "in_parallel_region nodes es n \<longleftrightarrow>
     (\<exists>j r e. (\<exists>m. (j, m) \<in> set nodes \<and> is_join (nd_body m))
        \<and> (r, j) \<in> (edge_rel es)\<^sup>+ \<and> 2 \<le> length (always_out es r) \<and> e \<in> set (always_out es r)
        \<and> (eg_to e, n) \<in> (edge_rel es)\<^sup>* \<and> n \<noteq> j \<and> (n, j) \<in> (edge_rel es)\<^sup>+)"

definition conditions_branch :: "wf_node table \<Rightarrow> wf_edge list \<Rightarrow> bool" where
  \<comment> \<open>a condition node has two outgoing edges, one for each outcome\<close>
  "conditions_branch nodes es \<longleftrightarrow> (\<forall>(k, n) \<in> set nodes. is_condition (nd_body n) \<longrightarrow>
     (\<exists>a b. filter (\<lambda>e. eg_from e = k) es = [a, b] \<and> {edge_kind_of a, edge_kind_of b} = {CondTrue, CondFalse}))"

lemma condition_out_ok_iff:
  "condition_out_ok out \<longleftrightarrow> (\<exists>a b. out = [a, b] \<and> {edge_kind_of a, edge_kind_of b} = {CondTrue, CondFalse})"
proof (cases "\<exists>a b. out = [a, b]")
  case True
  then obtain a b where "out = [a, b]" by blast
  then show ?thesis
    by (cases "edge_kind_of a"; cases "edge_kind_of b") (auto simp: condition_out_ok_def Let_def doubleton_eq_iff)
next
  case False
  then have "length out \<noteq> 2" by (auto simp: length_Suc_conv numeral_2_eq_2)
  then show ?thesis using False by (auto simp: condition_out_ok_def Let_def)
qed

definition valid_graph :: "wf_dsl_v3 \<Rightarrow> bool" where
  \<comment> \<open>the declarative meaning of \<open>{ ok: true }\<close>\<close>
  "valid_graph d \<longleftrightarrow> d3_nodes d \<noteq> []
     \<and> (\<forall>e \<in> set (d3_edges d). eg_from e \<in> set (jkeys (d3_nodes d)) \<and> eg_to e \<in> set (jkeys (d3_nodes d)))
     \<and> distinct (map eg_id (d3_edges d))
     \<and> conditions_branch (d3_nodes d) (d3_edges d)
     \<and> acyclic (edge_rel (d3_edges d))
     \<and> (\<forall>(k, n) \<in> set (d3_nodes d). isRemoteExecutionMode (nd_body n)
          \<longrightarrow> \<not> in_parallel_region (d3_nodes d) (d3_edges d) k)"

lemma checkConditions_None:
  assumes "\<forall>k. adj og k = filter (\<lambda>e. eg_from e = k) es"
  shows "checkConditions ns og = None \<longleftrightarrow> conditions_branch ns es"
  using assms by (induction ns og rule: checkConditions.induct) (auto simp: conditions_branch_def condition_out_ok_iff)

lemma branchIssue_None:
  assumes "wf_map nodes"
  shows "branchIssue nodes j reach br = None \<longleftrightarrow>
    (\<forall>n \<in> set br. n \<noteq> j \<longrightarrow> n \<in> set reach \<longrightarrow>
       (\<forall>m. (n, m) \<in> set nodes \<longrightarrow> \<not> isRemoteExecutionMode (nd_body m)))"
proof -
  have "(n, m) \<in> set nodes \<longleftrightarrow> jget nodes n = Some m" for n m
    using in_set_jget [OF assms] jget_in_set [of nodes] by metis
  then show ?thesis unfolding branchIssue_def first_some_None by (auto split: option.splits)
qed

lemma checkParallel_None:
  assumes wf: "wf_map nodes" and sc: "scanned (jkeys nodes) es og inc" and ne: "'''' \<notin> set (jkeys nodes)"
  shows "checkParallel nodes og inc = None \<longleftrightarrow>
    (\<forall>(k, n) \<in> set nodes. isRemoteExecutionMode (nd_body n) \<longrightarrow> \<not> in_parallel_region nodes es k)"
proof -
  have adj: "adj og r = filter (\<lambda>e. eg_from e = r) es" for r using sc by (simp add: scanned_def)
  have cr: "set (computeCanReach inc j) = {x. (x, j) \<in> (edge_rel es)\<^sup>+}" if "(j, m) \<in> set nodes" for j m
  proof -
    have "j \<in> fst ` set nodes" using that by (rule image_eqI [rotated]) simp
    then have "j \<noteq> ''''" using ne by (simp only: jkeys_def set_map) metis
    then show ?thesis by (rule computeCanReach_spec [OF sc ne])
  qed
  have rf: "set (computeReachableFrom og (eg_to e)) = {x. (eg_to e, x) \<in> (edge_rel es)\<^sup>*}"
    if "e \<in> set (always_out es r)" for e r
  proof -
    have "eg_to e \<in> set (jkeys nodes)" using that sc by (auto simp: always_out_def scanned_def)
    then have "eg_to e \<noteq> ''''" using ne by metis
    then show ?thesis by (rule computeReachableFrom_spec [OF sc ne])
  qed
  let ?joins = "map fst (filter (\<lambda>(k, n). is_join (nd_body n)) nodes)"
  let ?R = "edge_rel es"
  let ?region = "\<lambda>j r n. (r, j) \<in> ?R\<^sup>+ \<and> 2 \<le> length (always_out es r)
    \<and> (\<exists>e \<in> set (always_out es r). (eg_to e, n) \<in> ?R\<^sup>*) \<and> n \<noteq> j \<and> (n, j) \<in> ?R\<^sup>+"
  let ?local = "\<lambda>n. \<forall>m. (n, m) \<in> set nodes \<longrightarrow> \<not> isRemoteExecutionMode (nd_body m)"
  have "checkParallel nodes og inc = None \<longleftrightarrow>
    (\<forall>j \<in> set ?joins. \<forall>r \<in> set (computeCanReach inc j). 2 \<le> length (always_out es r) \<longrightarrow>
       (\<forall>e \<in> set (always_out es r). branchIssue nodes j (computeCanReach inc j)
          (computeReachableFrom og (eg_to e)) = None))"
    unfolding checkParallel_def Let_def first_some_None adj always_out_def [symmetric]
    by (simp add: first_some_None not_less)
  also have "\<dots> \<longleftrightarrow> (\<forall>j \<in> set ?joins. \<forall>r n. ?region j r n \<longrightarrow> ?local n)"
  proof (rule ball_cong [OF refl])
    fix j assume "j \<in> set ?joins"
    then obtain m where "(j, m) \<in> set nodes" by auto
    note crj = cr [OF this]
    show "(\<forall>r \<in> set (computeCanReach inc j). 2 \<le> length (always_out es r) \<longrightarrow>
       (\<forall>e \<in> set (always_out es r). branchIssue nodes j (computeCanReach inc j)
          (computeReachableFrom og (eg_to e)) = None)) \<longleftrightarrow> (\<forall>r n. ?region j r n \<longrightarrow> ?local n)"
      unfolding branchIssue_None [OF wf] crj by (simp add: rf cong: ball_cong) blast
  qed
  also have "\<dots> \<longleftrightarrow> (\<forall>n. in_parallel_region nodes es n \<longrightarrow> ?local n)"
  proof -
    have J: "set ?joins = {j. \<exists>m. (j, m) \<in> set nodes \<and> is_join (nd_body m)}" by force
    show ?thesis unfolding in_parallel_region_def J Ball_def mem_Collect_eq by blast
  qed
  also have "\<dots> \<longleftrightarrow> (\<forall>(k, n) \<in> set nodes. isRemoteExecutionMode (nd_body n) \<longrightarrow> \<not> in_parallel_region nodes es k)"
    by auto
  finally show ?thesis .
qed

lemma validate_iff:
  assumes wf: "wf_map (d3_nodes d)" and ne: "'''' \<notin> set (jkeys (d3_nodes d))"
  shows "validateV3GraphConstraints d = None \<longleftrightarrow> valid_graph d"
proof (cases "scanEdges (jkeys (d3_nodes d)) (d3_edges d) [] [] []")
  case (Inl issue)
  then have "\<not> ((\<forall>e \<in> set (d3_edges d). eg_from e \<in> set (jkeys (d3_nodes d)) \<and> eg_to e \<in> set (jkeys (d3_nodes d)))
     \<and> distinct (map eg_id (d3_edges d)))"
    using scanEdges_complete [of "d3_edges d" "jkeys (d3_nodes d)" "[]" "[]" "[]"] by auto
  with Inl show ?thesis by (auto simp: validateV3GraphConstraints_def Let_def valid_graph_def)
next
  case (Inr p)
  obtain og inc where p: "p = (og, inc)" by force
  have sc: "scanned (jkeys (d3_nodes d)) (d3_edges d) og inc"
    using scanEdges_scanned Inr p by simp
  then have adj: "\<forall>k. adj og k = filter (\<lambda>e. eg_from e = k) (d3_edges d)"
    and ends: "\<forall>e \<in> set (d3_edges d). eg_from e \<in> set (jkeys (d3_nodes d)) \<and> eg_to e \<in> set (jkeys (d3_nodes d))"
    and ids: "distinct (map eg_id (d3_edges d))" by (auto simp: scanned_def)
  have dist: "distinct (jkeys (d3_nodes d))" using wf by (simp add: wf_map_def)
  have empty: "jkeys (d3_nodes d) = [] \<longleftrightarrow> d3_nodes d = []" by (simp add: jkeys_def)
  have "validateV3GraphConstraints d = None \<longleftrightarrow> d3_nodes d \<noteq> []
      \<and> checkConditions (d3_nodes d) og = None
      \<and> countVisited (jkeys (d3_nodes d)) (d3_edges d) og = length (jkeys (d3_nodes d))
      \<and> checkParallel (d3_nodes d) og inc = None"
    by (simp add: validateV3GraphConstraints_def Let_def Inr p empty split: option.splits)
  then show ?thesis
    unfolding valid_graph_def checkConditions_None [OF adj] countVisited_acyclic [OF dist ne adj ends]
      checkParallel_None [OF wf sc ne] using ends ids by blast
qed

end
