(* ===== verification/WorkflowUpgrade.thy ===== *)
theory WorkflowUpgrade
  imports WorkflowGraph
begin

text \<open>
  What \<open>upgradeV2ToV3\<close> makes of a version 2 definition: a chain of unconditional edges over the
  same nodes.
\<close>

definition chain_edge :: "wf_node \<Rightarrow> wf_node \<Rightarrow> wf_edge" where
  "chain_edge a b = \<lparr>eg_id = ''e:'' @ nd_id a @ ''->'' @ nd_id b, eg_from = nd_id a, eg_to = nd_id b,
     eg_kind = Some Always\<rparr>"

lemma chain_edge_simps [simp]:
  "eg_from (chain_edge a b) = nd_id a" "eg_to (chain_edge a b) = nd_id b"
  "eg_kind (chain_edge a b) = Some Always" "edge_kind_of (chain_edge a b) = Always"
  by (simp_all add: chain_edge_def edge_kind_of_def)

lemma upgradeEdges_chain:
  "'''' \<notin> nd_id ` set ns \<Longrightarrow> upgradeEdges ns = map (\<lambda>(a, b). chain_edge a b) (zip ns (tl ns))"
  by (induction ns rule: upgradeEdges.induct) (auto simp: chain_edge_def)

lemma nd_id_upgradeNode [simp]: "nd_id (upgradeNode n) = nd_id n"
  by (simp add: upgradeNode_def split: node_body.split)

lemma is_condition_upgradeNode [simp]: "is_condition (nd_body (upgradeNode n)) = is_condition (nd_body n)"
  by (simp add: upgradeNode_def split: node_body.split)

lemma fold_jset_distinct:
  "distinct (map f ns) \<Longrightarrow> f ` set ns \<inter> set (jkeys m) = {} \<Longrightarrow>
     fold (\<lambda>n m. jset (f n) (g n) m) ns m = m @ map (\<lambda>n. (f n, g n)) ns"
  by (induction ns arbitrary: m) (auto simp: jset_fresh jkeys_def)

lemma upgrade_nodes:
  "distinct (map nd_id (d2_nodes d)) \<Longrightarrow>
     d3_nodes (upgradeV2ToV3 d) = map (\<lambda>n. (nd_id n, upgradeNode n)) (d2_nodes d)"
  by (simp add: upgradeV2ToV3_def fold_jset_distinct)

lemma upgrade_keys:
  "distinct (map nd_id (d2_nodes d)) \<Longrightarrow> jkeys (d3_nodes (upgradeV2ToV3 d)) = map nd_id (d2_nodes d)"
  by (simp add: upgrade_nodes jkeys_def comp_def)

lemma map_fst_chain: "map eg_from (map (\<lambda>(a, b). chain_edge a b) (zip ns (tl ns))) = butlast (map nd_id ns)"
  by (rule nth_equalityI) (auto simp: nth_butlast)

lemma set_chain:
  "e \<in> set (map (\<lambda>(a, b). chain_edge a b) (zip ns (tl ns))) \<longleftrightarrow>
     (\<exists>i. Suc i < length ns \<and> e = chain_edge (ns ! i) (ns ! Suc i))"
proof -
  have "e \<in> set (map (\<lambda>(a, b). chain_edge a b) (zip ns (tl ns))) \<longleftrightarrow>
      (\<exists>i < length (zip ns (tl ns)). map (\<lambda>(a, b). chain_edge a b) (zip ns (tl ns)) ! i = e)"
    by (simp only: in_set_conv_nth length_map)
  also have "\<dots> \<longleftrightarrow> (\<exists>i. Suc i < length ns \<and> e = chain_edge (ns ! i) (ns ! Suc i))"
    by (intro ex_cong1) (auto simp: nth_tl)
  finally show ?thesis .
qed

lemma topo_chain:
  assumes "distinct (map nd_id ns)"
  shows "topo (map (\<lambda>(a, b). chain_edge a b) (zip ns (tl ns))) (map nd_id ns)"
  unfolding topo_def
proof (intro allI impI ballI)
  fix P1 k P2 e
  assume P: "map nd_id ns = P1 @ k # P2"
    and e: "e \<in> set (map (\<lambda>(a, b). chain_edge a b) (zip ns (tl ns)))" and k: "eg_to e = k"
  from e obtain i where i: "Suc i < length ns" and ei: "e = chain_edge (ns ! i) (ns ! Suc i)"
    unfolding set_chain by blast
  have len: "length P1 < length (map nd_id ns)" by (simp add: P)
  have "map nd_id ns ! Suc i = map nd_id ns ! length P1"
  proof -
    have "map nd_id ns ! Suc i = k" using k ei i by simp
    then show ?thesis by (simp add: P)
  qed
  then have "Suc i = length P1" using assms i len by (simp only: nth_eq_iff_index_eq length_map)
  then have "P1 ! i = map nd_id ns ! i" and "i < length P1" by (simp_all add: P nth_append)
  then show "eg_from e \<in> set P1" using ei i by (metis Suc_lessD chain_edge_simps(1) nth_map nth_mem)
qed

lemma filter_distinct_le1: "distinct (map f xs) \<Longrightarrow> length (filter (\<lambda>x. f x = r) xs) \<le> Suc 0"
proof (induction xs)
  case Nil
  then show ?case by simp
next
  case (Cons x xs)
  show ?case
  proof (cases "f x = r")
    case True
    then have "filter (\<lambda>x. f x = r) xs = []" using Cons.prems by (auto simp: filter_empty_conv rev_image_eqI)
    with True show ?thesis by simp
  next
    case False
    with Cons show ?thesis by simp
  qed
qed

lemma chain_ids_distinct:
  assumes "distinct (map nd_id ns)" and gt: "\<forall>n \<in> set ns. CHR ''>'' \<notin> set (nd_id n)"
  shows "distinct (map eg_id (map (\<lambda>(a, b). chain_edge a b) (zip ns (tl ns))))"
proof -
  have inj: "nd_id a = nd_id a'"
    if "a \<in> set ns" "a' \<in> set ns" "eg_id (chain_edge a b) = eg_id (chain_edge a' b')" for a a' b b'
  proof -
    have "(nd_id a @ ''-'') @ CHR ''>'' # nd_id b = (nd_id a' @ ''-'') @ CHR ''>'' # nd_id b'"
      using that(3) by (simp add: chain_edge_def)
    moreover have "takeWhile (\<lambda>c. c \<noteq> CHR ''>'') ((nd_id x @ ''-'') @ CHR ''>'' # z) = nd_id x @ ''-''"
      if "x \<in> set ns" for x z using gt that by (subst takeWhile_append2) auto
    ultimately show ?thesis using that(1,2) by (metis append1_eq_conv)
  qed
  have "distinct (map eg_from (map (\<lambda>(a, b). chain_edge a b) (zip ns (tl ns))))"
    using assms(1) unfolding map_fst_chain by (rule distinct_butlast)
  then have df: "distinct (map (\<lambda>p. nd_id (fst p)) (zip ns (tl ns)))" by (simp add: case_prod_beta comp_def)
  have "inj_on (\<lambda>p. eg_id (chain_edge (fst p) (snd p))) (set (zip ns (tl ns)))"
  proof (rule inj_onI)
    fix p q assume p: "p \<in> set (zip ns (tl ns))" and q: "q \<in> set (zip ns (tl ns))"
      and eq: "eg_id (chain_edge (fst p) (snd p)) = eg_id (chain_edge (fst q) (snd q))"
    have "nd_id (fst p) = nd_id (fst q)"
      using inj [OF _ _ eq] p q by (metis in_set_zipE prod.collapse)
    then show "p = q" using df p q by (metis (mono_tags, lifting) distinct_map inj_onD)
  qed
  moreover have "distinct (zip ns (tl ns))" using df by (simp add: distinct_map)
  ultimately show ?thesis by (simp add: distinct_map case_prod_beta comp_def)
qed

lemma upgrade_chain_valid:
  assumes ne: "d2_nodes d \<noteq> []" and dist: "distinct (map nd_id (d2_nodes d))"
    and names: "\<forall>n \<in> set (d2_nodes d). nd_id n \<noteq> '''' \<and> CHR ''>'' \<notin> set (nd_id n)"
    and nc: "\<forall>n \<in> set (d2_nodes d). \<not> is_condition (nd_body n)"
  shows "valid_graph (upgradeV2ToV3 d)"
proof -
  let ?ns = "d2_nodes d" and ?es = "map (\<lambda>(a, b). chain_edge a b) (zip (d2_nodes d) (tl (d2_nodes d)))"
  have es: "d3_edges (upgradeV2ToV3 d) = ?es"
    using names by (simp add: upgradeV2ToV3_def) (rule upgradeEdges_chain, auto)
  have nodes: "d3_nodes (upgradeV2ToV3 d) = map (\<lambda>n. (nd_id n, upgradeNode n)) ?ns"
    by (rule upgrade_nodes [OF dist])
  have keys: "jkeys (d3_nodes (upgradeV2ToV3 d)) = map nd_id ?ns" by (rule upgrade_keys [OF dist])
  have ends: "eg_from e \<in> set (map nd_id ?ns) \<and> eg_to e \<in> set (map nd_id ?ns)" if "e \<in> set ?es" for e
  proof -
    from that obtain i where "Suc i < length ?ns" and "e = chain_edge (?ns ! i) (?ns ! Suc i)"
      unfolding set_chain by blast
    then show ?thesis by (simp add: Suc_lessD)
  qed
  have "distinct (map eg_from ?es)" using dist unfolding map_fst_chain by (rule distinct_butlast)
  then have "length (filter (\<lambda>e. eg_from e = r) ?es) \<le> Suc 0" for r by (rule filter_distinct_le1)
  moreover have "length (always_out ?es r) \<le> length (filter (\<lambda>e. eg_from e = r) ?es)" for r
    unfolding always_out_def by (metis filter_filter length_filter_le)
  ultimately have le1: "length (always_out ?es r) \<le> Suc 0" for r
    by (rule order_trans [rotated])
  have single: "length (always_out ?es r) < 2" for r
    using le1 [of r] by linarith
  have "acyclic (edge_rel ?es)"
    by (rule topo_acyclic [OF topo_chain [OF dist] dist]) (use ends in blast)
  moreover have "conditions_branch (d3_nodes (upgradeV2ToV3 d)) ?es"
    using nc by (auto simp: conditions_branch_def nodes)
  moreover have "\<not> in_parallel_region nds ?es k" for nds k
    using single by (auto simp: in_parallel_region_def not_le [symmetric])
  ultimately show ?thesis
    unfolding valid_graph_def es keys
    using ne ends chain_ids_distinct [OF dist] names nodes by simp
qed

lemma chain_kinds_always:
  "filter P (map edge_kind_of (filter Q (map (\<lambda>(a, b). chain_edge a b) zs))) = [] \<longleftrightarrow>
     (\<forall>(a, b) \<in> set zs. Q (chain_edge a b) \<longrightarrow> \<not> P Always)"
  by (auto simp: filter_empty_conv)

lemma upgrade_condition_invalid:
  assumes dist: "distinct (map nd_id (d2_nodes d))" and names: "\<forall>n \<in> set (d2_nodes d). nd_id n \<noteq> ''''"
    and n: "n \<in> set (d2_nodes d)" "is_condition (nd_body n)"
  shows "\<not> valid_graph (upgradeV2ToV3 d)"
proof
  assume "valid_graph (upgradeV2ToV3 d)"
  then have "conditions_branch (d3_nodes (upgradeV2ToV3 d)) (d3_edges (upgradeV2ToV3 d))"
    by (simp add: valid_graph_def)
  moreover have "(nd_id n, upgradeNode n) \<in> set (d3_nodes (upgradeV2ToV3 d))"
    using n(1) by (simp add: upgrade_nodes [OF dist])
  ultimately have ok: "condition_out_ok (filter (\<lambda>e. eg_from e = nd_id n) (d3_edges (upgradeV2ToV3 d)))"
    using n(2) unfolding conditions_branch_def condition_out_ok_iff by fastforce
  have es: "d3_edges (upgradeV2ToV3 d) = map (\<lambda>(a, b). chain_edge a b) (zip (d2_nodes d) (tl (d2_nodes d)))"
    using names by (simp add: upgradeV2ToV3_def) (rule upgradeEdges_chain, auto)
  have "filter (\<lambda>k. k = CondTrue) (map edge_kind_of (filter (\<lambda>e. eg_from e = nd_id n)
      (map (\<lambda>(a, b). chain_edge a b) (zip (d2_nodes d) (tl (d2_nodes d)))))) = []"
    unfolding chain_kinds_always by simp
  then show False using ok unfolding condition_out_ok_def es Let_def by simp
qed

lemma upgrade_names_ok:
  assumes "distinct (map nd_id (d2_nodes d))" and "\<forall>n \<in> set (d2_nodes d). nd_id n \<noteq> ''''"
  shows "wf_map (d3_nodes (upgradeV2ToV3 d)) \<and> '''' \<notin> set (jkeys (d3_nodes (upgradeV2ToV3 d)))"
  using assms by (auto simp: wf_map_def upgrade_keys)

end
