(* ===== verification/WorkflowProps.thy ===== *)
theory WorkflowProps
  imports WorkflowUpgrade
begin

text \<open>
  The contract of the workflow package: which graphs the validator accepts, what the upgrade of a
  version 2 definition yields, and what the dry run reports.
\<close>

lemma schema_v3_names: "schema_v3 engines d \<Longrightarrow> '''' \<notin> set (jkeys (d3_nodes d))"
  by (force simp: schema_v3_def str_len_def jkeys_def list_all_iff)

text \<open>
  C1. Validation of a version 3 graph is exact: on every definition the schema accepts (the keys of
  a JavaScript object are distinct), \<open>validateV3GraphConstraints\<close> answers \<open>{ ok: true }\<close> exactly when
  every edge connects existing nodes under a unique id, every condition node has exactly one
  true and one false edge, the graph is acyclic, and no node that runs remotely lies between a
  fork and its join.
\<close>
theorem graph_validation_exact:
  assumes "schema_v3 engines d" and "wf_map (d3_nodes d)"
  shows "validateV3GraphConstraints d = None \<longleftrightarrow> valid_graph d"
  by (rule validate_iff [OF assms(2) schema_v3_names [OF assms(1)]])

definition sample_http :: "string \<Rightarrow> wf_node" where
  "sample_http i = \<lparr>nd_id = i, nd_body = HttpRequest None\<rparr>"

definition sample_v3 :: wf_dsl_v3 where
  "sample_v3 = \<lparr>d3_trigger = TriggerManual,
     d3_nodes = [(''a'', sample_http ''a''), (''b'', sample_http ''b'')],
     d3_edges = [\<lparr>eg_id = ''1'', eg_from = ''a'', eg_to = ''b'', eg_kind = None\<rparr>,
                 \<lparr>eg_id = ''2'', eg_from = ''b'', eg_to = ''a'', eg_kind = None\<rparr>]\<rparr>"

theorem graph_validation_exact_witness:
  "validateV3GraphConstraints sample_v3 = None \<longleftrightarrow> valid_graph sample_v3"
  by (rule graph_validation_exact [of "[]"])
    (simp_all add: sample_v3_def sample_http_def schema_v3_def schema_node_def schema_edge_def str_len_def opt_all_def)

text \<open>
  Upgrading a version 2 definition whose node ids are distinct, non-empty and free of the
  separator character yields a graph the validator accepts, unless the definition contains a
  condition node: those are always refused, since the upgrade connects nodes by unconditional edges
  only.
\<close>
theorem upgrade_accepted_iff:
  assumes "d2_nodes d \<noteq> []" and "distinct (map nd_id (d2_nodes d))"
    and "\<forall>n \<in> set (d2_nodes d). nd_id n \<noteq> '''' \<and> CHR ''>'' \<notin> set (nd_id n)"
  shows "validateV3GraphConstraints (upgradeV2ToV3 d) = None
    \<longleftrightarrow> (\<forall>n \<in> set (d2_nodes d). \<not> is_condition (nd_body n))"
proof -
  have names: "wf_map (d3_nodes (upgradeV2ToV3 d)) \<and> '''' \<notin> set (jkeys (d3_nodes (upgradeV2ToV3 d)))"
    using upgrade_names_ok [OF assms(2)] assms(3) by blast
  have "\<not> valid_graph (upgradeV2ToV3 d)" if "n \<in> set (d2_nodes d)" "is_condition (nd_body n)" for n
    using upgrade_condition_invalid [OF assms(2) _ that] assms(3) by blast
  then show ?thesis
    using validate_iff names upgrade_chain_valid [OF assms] by blast
qed

definition sample_v2 :: wf_dsl where
  "sample_v2 = \<lparr>d2_trigger = TriggerManual, d2_nodes = [sample_http ''a'', sample_http ''b'', sample_http ''c'']\<rparr>"

theorem upgrade_accepted_iff_witness:
  "validateV3GraphConstraints (upgradeV2ToV3 sample_v2) = None
    \<longleftrightarrow> (\<forall>n \<in> set (d2_nodes sample_v2). \<not> is_condition (nd_body n))"
  by (rule upgrade_accepted_iff) (simp_all add: sample_v2_def sample_http_def)

end
