(* ===== verification/Paging.thy ===== *)
theory Paging
  imports Prelude
begin

text \<open>
  Cursor pagination, as the listing operations of the stores share it: rows ordered by creation
  time and id, a cursor that names the last row already seen, at most \<open>limit\<close> rows per page.
  \<open>cursor_listing\<close> states what such an operation promises; from it, reading page after page
  returns every row exactly once.
\<close>

type_synonym cursor = "(timestamp \<times> string) option"

section \<open>The code of the listings\<close>

definition newest_first :: "(string \<Rightarrow> string \<Rightarrow> int) \<Rightarrow> ('r \<Rightarrow> timestamp) \<Rightarrow> ('r \<Rightarrow> string) \<Rightarrow> 'r \<Rightarrow> 'r \<Rightarrow> int" where
  "newest_first lc at rid a b = (let diff = at b - at a in if diff \<noteq> 0 then diff else lc (rid b) (rid a))"

definition oldest_first :: "(string \<Rightarrow> string \<Rightarrow> int) \<Rightarrow> ('r \<Rightarrow> timestamp) \<Rightarrow> ('r \<Rightarrow> string) \<Rightarrow> 'r \<Rightarrow> 'r \<Rightarrow> int" where
  "oldest_first lc at rid a b = (let diff = at a - at b in if diff \<noteq> 0 then diff else lc (rid a) (rid b))"

fun before_cursor :: "('r \<Rightarrow> timestamp) \<Rightarrow> ('r \<Rightarrow> string) \<Rightarrow> cursor \<Rightarrow> 'r \<Rightarrow> bool" where
  \<comment> \<open>a cursor whose time is 0 or whose id is empty is falsy, and selects everything\<close>
  "before_cursor at rid None r = True"
| "before_cursor at rid (Some (t, i)) r =
     (if t = 0 \<or> i = '''' then True else at r < t \<or> (at r = t \<and> rid r < i))"

fun after_cursor :: "('r \<Rightarrow> timestamp) \<Rightarrow> ('r \<Rightarrow> string) \<Rightarrow> cursor \<Rightarrow> 'r \<Rightarrow> bool" where
  "after_cursor at rid None r = True"
| "after_cursor at rid (Some (t, i)) r =
     (if t = 0 \<or> i = '''' then True else at r > t \<or> (at r = t \<and> rid r > i))"

definition slice0 :: "int \<Rightarrow> 'a list \<Rightarrow> 'a list" where
  \<comment> \<open>\<open>xs.slice(0, n)\<close> for a non-negative n\<close>
  "slice0 n xs = take (nat n) xs"

definition nextCursor :: "('r \<Rightarrow> timestamp) \<Rightarrow> ('r \<Rightarrow> string) \<Rightarrow> 'r list \<Rightarrow> cursor" where
  "nextCursor at rid rows = (if rows = [] then None else Some (at (last rows), rid (last rows)))"

definition pageNewest :: "(string \<Rightarrow> string \<Rightarrow> int) \<Rightarrow> ('r \<Rightarrow> timestamp) \<Rightarrow> ('r \<Rightarrow> string)
    \<Rightarrow> int \<Rightarrow> cursor \<Rightarrow> 'r list \<Rightarrow> 'r list \<times> cursor" where
  "pageNewest lc at rid limit cur rows =
     (let page = slice0 limit (js_sort (newest_first lc at rid) (filter (before_cursor at rid cur) rows))
      in (page, nextCursor at rid page))"

definition pageOldest :: "(string \<Rightarrow> string \<Rightarrow> int) \<Rightarrow> ('r \<Rightarrow> timestamp) \<Rightarrow> ('r \<Rightarrow> string)
    \<Rightarrow> int \<Rightarrow> cursor \<Rightarrow> 'r list \<Rightarrow> 'r list \<times> cursor" where
  "pageOldest lc at rid limit cur rows =
     (let page = slice0 limit (js_sort (oldest_first lc at rid) (filter (after_cursor at rid cur) rows))
      in (page, nextCursor at rid page))"

section \<open>Sorting\<close>

lemma js_insert_head: "\<forall>y \<in> set ys. cmp x y \<le> 0 \<Longrightarrow> js_insert cmp x ys = x # ys"
  by (cases ys) auto

lemma filter_js_insert:
  assumes "good_cmp cmp" "sorted_wrt (\<lambda>x y. cmp x y \<le> 0) xs"
  shows "filter P (js_insert cmp x xs) = (if P x then js_insert cmp x (filter P xs) else filter P xs)"
  using assms(2)
proof (induction xs)
  case Nil
  then show ?case by simp
next
  case (Cons y ys)
  show ?case
  proof (cases "cmp x y \<le> 0")
    case True
    then have "\<forall>z \<in> set (y # ys). cmp x z \<le> 0"
      using Cons.prems assms(1) unfolding good_cmp_def by (metis set_ConsD sorted_wrt.simps(2))
    then have "js_insert cmp x (filter P (y # ys)) = x # filter P (y # ys)"
      by (intro js_insert_head) auto
    with True show ?thesis by auto
  next
    case False
    with Cons show ?thesis by auto
  qed
qed

lemma filter_js_sort:
  assumes "good_cmp cmp"
  shows "filter P (js_sort cmp xs) = js_sort cmp (filter P xs)"
proof (induction xs)
  case Nil
  then show ?case by (simp add: js_sort_def)
next
  case (Cons x xs)
  have "js_sort cmp (x # xs) = js_insert cmp x (js_sort cmp xs)" by (simp add: js_sort_def)
  then show ?case
    using filter_js_insert [OF assms sorted_js_sort [OF assms]] Cons by (simp add: js_sort_def)
qed

lemma str_cmp_le: "str_cmp a b \<le> 0 \<longleftrightarrow> a \<le> b" and str_cmp_gt: "0 < str_cmp a b \<longleftrightarrow> b < a"
  and str_cmp_lt: "str_cmp a b < 0 \<longleftrightarrow> a < b"
  by (auto simp: str_cmp_def)

lemma newest_first_le:
  "newest_first str_cmp at rid a b \<le> 0 \<longleftrightarrow> at b < at a \<or> (at b = at a \<and> rid b \<le> rid a)"
  by (auto simp: newest_first_def Let_def str_cmp_le)

lemma oldest_first_le:
  "oldest_first str_cmp at rid a b \<le> 0 \<longleftrightarrow> at a < at b \<or> (at a = at b \<and> rid a \<le> rid b)"
  by (auto simp: oldest_first_def Let_def str_cmp_le)

lemma good_newest_first: "good_cmp (newest_first str_cmp at rid)"
  unfolding good_cmp_def
  by (auto simp: newest_first_le) (auto simp: newest_first_def Let_def str_cmp_gt str_cmp_lt split: if_splits)

lemma good_oldest_first: "good_cmp (oldest_first str_cmp at rid)"
  unfolding good_cmp_def
  by (auto simp: oldest_first_le) (auto simp: oldest_first_def Let_def str_cmp_gt str_cmp_lt split: if_splits)

text \<open>On rows whose ids \<open>localeCompare\<close> orders by code units, the order is that of \<open>str_cmp\<close>.\<close>

lemma id_collation_le:
  assumes "id_collation lc ids" and "a \<in> ids" and "b \<in> ids"
  shows "lc a b \<le> 0 \<longleftrightarrow> str_cmp a b \<le> 0"
  using assms unfolding id_collation_def str_cmp_le by (metis order_le_less)

lemma js_sort_newest:
  "id_collation lc (rid ` set rows) \<Longrightarrow> js_sort (newest_first lc at rid) rows = js_sort (newest_first str_cmp at rid) rows"
  by (rule js_sort_cong) (auto simp: newest_first_def Let_def id_collation_le)

lemma js_sort_oldest:
  "id_collation lc (rid ` set rows) \<Longrightarrow> js_sort (oldest_first lc at rid) rows = js_sort (oldest_first str_cmp at rid) rows"
  by (rule js_sort_cong) (auto simp: oldest_first_def Let_def id_collation_le)

section \<open>The contract\<close>

fun cursor_ok :: "cursor \<Rightarrow> bool" where
  "cursor_ok None = True"
| "cursor_ok (Some (t, i)) = (t \<noteq> 0 \<and> i \<noteq> '''')"

fun past :: "('k \<Rightarrow> 'k \<Rightarrow> bool) \<Rightarrow> ('r \<Rightarrow> 'k) \<Rightarrow> 'k option \<Rightarrow> 'r \<Rightarrow> bool" where
  "past before key None r = True"
| "past before key (Some k) r = before k (key r)"

fun crawl :: "('s \<Rightarrow> int \<Rightarrow> cursor \<Rightarrow> 'r list \<times> cursor) \<Rightarrow> 's \<Rightarrow> int \<Rightarrow> nat \<Rightarrow> cursor \<Rightarrow> 'r list" where
  \<comment> \<open>a client that follows the cursors until a page comes back empty, at most \<open>fuel\<close> times\<close>
  "crawl fetch s n 0 cur = []"
| "crawl fetch s n (Suc fuel) cur =
     (case fetch s n cur of (rows, next) \<Rightarrow>
        if rows = [] then [] else rows @ crawl fetch s n fuel next)"

locale cursor_listing =
  fixes fetch :: "'s \<Rightarrow> int \<Rightarrow> cursor \<Rightarrow> 'r list \<times> cursor"
    and at :: "'r \<Rightarrow> timestamp" and rid :: "'r \<Rightarrow> string"
    and before :: "timestamp \<times> string \<Rightarrow> timestamp \<times> string \<Rightarrow> bool"
    and cap :: int
    and ordered :: "'s \<Rightarrow> 'r list"
    and good :: "'s \<Rightarrow> bool"
  assumes cap: "1 \<le> cap"
    and trans: "before a b \<Longrightarrow> before b c \<Longrightarrow> before a c"
    and irrefl: "\<not> before a a"
    and page: "good s \<Longrightarrow> cursor_ok cur \<Longrightarrow> fetch s n cur =
      (let rows = slice0 (clampInt 1 cap n) (filter (past before (\<lambda>r. (at r, rid r)) cur) (ordered s))
       in (rows, nextCursor at rid rows))"
    and ordered: "good s \<Longrightarrow> sorted_wrt (\<lambda>a b. before (at a, rid a) (at b, rid b)) (ordered s)"
    and keys: "good s \<Longrightarrow> r \<in> set (ordered s) \<Longrightarrow> at r \<noteq> 0 \<and> rid r \<noteq> ''''"
begin

lemma page_bounds:
  "good s \<Longrightarrow> cursor_ok cur \<Longrightarrow> length (fst (fetch s n cur)) \<le> nat cap"
proof -
  assume "good s" "cursor_ok cur"
  moreover have "clampInt 1 cap n \<le> cap" using clampInt_bounds [OF cap] by simp
  ultimately show ?thesis by (simp add: page slice0_def Let_def nat_mono le_trans [OF min.cobounded2])
qed

lemma past_last:
  assumes "sorted_wrt (\<lambda>a b. before (at a, rid a) (at b, rid b)) (ps @ x # qs)"
  shows "filter (past before (\<lambda>r. (at r, rid r)) (Some (at x, rid x))) (ps @ x # qs) = qs"
proof -
  have "filter (past before (\<lambda>r. (at r, rid r)) (Some (at x, rid x))) ps = []"
    using assms trans irrefl unfolding filter_empty_conv past.simps sorted_wrt_append by (metis list.set_intros(1))
  moreover have "filter (past before (\<lambda>r. (at r, rid r)) (Some (at x, rid x))) qs = qs"
    using assms by (auto simp: sorted_wrt_append filter_id_conv)
  ultimately show ?thesis using irrefl by simp
qed

lemma crawl_suffix:
  assumes g: "good s" and "cursor_ok cur" and "ordered s = ps @ qs"
    and "filter (past before (\<lambda>r. (at r, rid r)) cur) (ordered s) = qs" and "length qs < fuel"
  shows "crawl fetch s n fuel cur = qs"
  using assms(2-)
proof (induction fuel arbitrary: cur ps qs)
  case 0
  then show ?case by simp
next
  case (Suc fuel)
  define rows where "rows = slice0 (clampInt 1 cap n) qs"
  have f: "fetch s n cur = (rows, nextCursor at rid rows)"
    using page [OF g Suc.prems(1)] Suc.prems(3) by (simp add: rows_def Let_def)
  have pos: "0 < nat (clampInt 1 cap n)" using cap by (simp add: clampInt_def)
  show ?case
  proof (cases "rows = []")
    case True
    then have "qs = []" using pos by (simp add: rows_def slice0_def)
    with True show ?thesis by (simp add: f)
  next
    case False
    define x where "x = last rows"
    define rest where "rest = drop (nat (clampInt 1 cap n)) qs"
    have qs: "qs = rows @ rest" by (simp add: rows_def rest_def slice0_def)
    have rows: "rows = butlast rows @ [x]" using False by (simp add: x_def)
    have split: "ordered s = (ps @ butlast rows) @ x # rest"
      using Suc.prems(2) qs rows by (metis append.assoc append_Cons append_Nil)
    have "cursor_ok (nextCursor at rid rows)"
      using False keys [OF g, of x] split by (simp add: nextCursor_def x_def)
    moreover have "filter (past before (\<lambda>r. (at r, rid r)) (Some (at x, rid x))) (ordered s) = rest"
      using past_last [of "ps @ butlast rows" x rest] ordered [OF g] unfolding split by simp
    then have "filter (past before (\<lambda>r. (at r, rid r)) (nextCursor at rid rows)) (ordered s) = rest"
      using False by (simp add: nextCursor_def x_def)
    moreover have "ordered s = (ps @ rows) @ rest" using Suc.prems(2) qs by simp
    moreover have "length rest < fuel"
      using Suc.prems(4) False qs by (cases rows) auto
    ultimately have "crawl fetch s n fuel (nextCursor at rid rows) = rest" by (intro Suc.IH)
    then show ?thesis using False by (simp add: f qs)
  qed
qed

text \<open>Following the cursors returns all rows, in order, each exactly once.\<close>

lemma crawl_complete:
  "good s \<Longrightarrow> length (ordered s) < fuel \<Longrightarrow> crawl fetch s n fuel None = ordered s"
  by (rule crawl_suffix [of _ _ "[]"]) simp_all

end

section \<open>The two orders\<close>

definition newer_key :: "timestamp \<times> string \<Rightarrow> timestamp \<times> string \<Rightarrow> bool" where
  "newer_key a b \<longleftrightarrow> fst b < fst a \<or> (fst b = fst a \<and> snd b < snd a)"

definition older_key :: "timestamp \<times> string \<Rightarrow> timestamp \<times> string \<Rightarrow> bool" where
  "older_key a b \<longleftrightarrow> newer_key b a"

lemma newer_key_order:
  "newer_key a b \<Longrightarrow> newer_key b c \<Longrightarrow> newer_key a c" "\<not> newer_key a a"
  by (auto simp: newer_key_def)

lemma older_key_order:
  "older_key a b \<Longrightarrow> older_key b c \<Longrightarrow> older_key a c" "\<not> older_key a a"
  using newer_key_order by (auto simp: older_key_def)

lemma before_cursor_past:
  "cursor_ok cur \<Longrightarrow> before_cursor at rid cur = past newer_key (\<lambda>r. (at r, rid r)) cur"
  by (rule ext, cases cur) (auto simp: newer_key_def)

lemma after_cursor_past:
  "cursor_ok cur \<Longrightarrow> after_cursor at rid cur = past older_key (\<lambda>r. (at r, rid r)) cur"
  by (rule ext, cases cur) (auto simp: newer_key_def older_key_def)

lemma distinct_js_sort: "distinct (map f (js_sort cmp xs)) \<longleftrightarrow> distinct (map f xs)"
  by (metis mset_eq_imp_distinct_iff mset_js_sort mset_map)

lemma sorted_wrt_strict:
  assumes "sorted_wrt P xs" and "distinct (map rid xs)"
    and "\<And>a b. P a b \<Longrightarrow> rid a \<noteq> rid b \<Longrightarrow> Q a b"
  shows "sorted_wrt Q xs"
  using assms(1,2) by (induction xs) (auto intro: assms(3))

lemma sorted_newest:
  assumes "id_collation lc (rid ` set xs)" and "distinct (map rid xs)"
  shows "sorted_wrt (\<lambda>a b. newer_key (at a, rid a) (at b, rid b)) (js_sort (newest_first lc at rid) xs)"
  unfolding js_sort_newest [OF assms(1)]
  by (rule sorted_wrt_strict [where rid = rid, OF sorted_js_sort [OF good_newest_first]])
    (use assms(2) in \<open>auto simp: distinct_js_sort newest_first_le newer_key_def\<close>)

lemma sorted_oldest:
  assumes "id_collation lc (rid ` set xs)" and "distinct (map rid xs)"
  shows "sorted_wrt (\<lambda>a b. older_key (at a, rid a) (at b, rid b)) (js_sort (oldest_first lc at rid) xs)"
  unfolding js_sort_oldest [OF assms(1)]
  by (rule sorted_wrt_strict [where rid = rid, OF sorted_js_sort [OF good_oldest_first]])
    (use assms(2) in \<open>auto simp: distinct_js_sort oldest_first_le older_key_def newer_key_def\<close>)

lemma image_filter_subset: "f ` set (filter P xs) \<subseteq> f ` set xs"
  by auto

lemma pageNewest_contract:
  "id_collation lc (rid ` set rows) \<Longrightarrow> cursor_ok cur \<Longrightarrow> pageNewest lc at rid n cur rows =
    (let page = slice0 n (filter (past newer_key (\<lambda>r. (at r, rid r)) cur)
                  (js_sort (newest_first lc at rid) rows))
     in (page, nextCursor at rid page))"
  by (simp add: pageNewest_def js_sort_newest js_sort_newest [OF id_collation_mono [OF _ image_filter_subset]]
      filter_js_sort [OF good_newest_first] before_cursor_past)

lemma pageOldest_contract:
  "id_collation lc (rid ` set rows) \<Longrightarrow> cursor_ok cur \<Longrightarrow> pageOldest lc at rid n cur rows =
    (let page = slice0 n (filter (past older_key (\<lambda>r. (at r, rid r)) cur)
                  (js_sort (oldest_first lc at rid) rows))
     in (page, nextCursor at rid page))"
  by (simp add: pageOldest_def js_sort_oldest js_sort_oldest [OF id_collation_mono [OF _ image_filter_subset]]
      filter_js_sort [OF good_oldest_first] after_cursor_past)

definition pageable :: "(string \<Rightarrow> string \<Rightarrow> int) \<Rightarrow> ('r \<Rightarrow> timestamp) \<Rightarrow> ('r \<Rightarrow> string) \<Rightarrow> 'r list \<Rightarrow> bool" where
  \<comment> \<open>rows with distinct non-empty ids, created after the epoch\<close>
  "pageable lc at rid rows \<longleftrightarrow> id_collation lc (rid ` set rows) \<and> distinct (map rid rows)
     \<and> (\<forall>r \<in> set rows. at r \<noteq> 0 \<and> rid r \<noteq> '''')"

lemma cursor_listing_newest:
  assumes "1 \<le> cap" and "\<And>s n cur. fetch s n cur = pageNewest lc at rid (clampInt 1 cap n) cur (rows s)"
  shows "cursor_listing fetch at rid newer_key cap (\<lambda>s. js_sort (newest_first lc at rid) (rows s))
    (\<lambda>s. pageable lc at rid (rows s))"
proof
  show "1 \<le> cap" by (rule assms(1))
  show "newer_key a b \<Longrightarrow> newer_key b c \<Longrightarrow> newer_key a c" for a b c by (rule newer_key_order)
  show "\<not> newer_key a a" for a by (rule newer_key_order)
qed (use assms in \<open>simp_all add: pageNewest_contract sorted_newest pageable_def\<close>)

lemma cursor_listing_oldest:
  assumes "1 \<le> cap" and "\<And>s n cur. fetch s n cur = pageOldest lc at rid (clampInt 1 cap n) cur (rows s)"
  shows "cursor_listing fetch at rid older_key cap (\<lambda>s. js_sort (oldest_first lc at rid) (rows s))
    (\<lambda>s. pageable lc at rid (rows s))"
proof
  show "1 \<le> cap" by (rule assms(1))
  show "older_key a b \<Longrightarrow> older_key b c \<Longrightarrow> older_key a c" for a b c by (rule older_key_order)
  show "\<not> older_key a a" for a by (rule older_key_order)
qed (use assms in \<open>simp_all add: pageOldest_contract sorted_oldest pageable_def\<close>)

lemma keyed_ids: "keyed rid m \<Longrightarrow> distinct (map rid (jvalues m))"
proof -
  assume k: "keyed rid m"
  then have "map rid (jvalues m) = jkeys m" by (auto simp: keyed_def jvalues_def jkeys_def)
  then show ?thesis using k by (simp add: keyed_def wf_map_def)
qed

lemma pageable_filter: "pageable lc at rid rows \<Longrightarrow> pageable lc at rid (filter P rows)"
  by (auto simp: pageable_def distinct_map_filter intro: id_collation_mono)

lemma keyed_pageable:
  "keyed rid m \<Longrightarrow> id_collation lc (rid ` set (jvalues m)) \<Longrightarrow> (\<forall>r \<in> set (jvalues m). at r \<noteq> 0 \<and> rid r \<noteq> '''') \<Longrightarrow>
     pageable lc at rid (jvalues m)"
  by (simp add: pageable_def keyed_ids)

section \<open>Listings that announce whether there is more\<close>

text \<open>
  Other listings answer a cursor only when rows remain; a client stops at the first answer without
  one.
\<close>

definition moreCursor :: "('r \<Rightarrow> 'k) \<Rightarrow> int \<Rightarrow> 'r list \<Rightarrow> 'r list \<times> 'k option" where
  \<comment> \<open>\<open>page = rows.slice(0, limit); hasMore = rows.length > limit\<close>\<close>
  "moreCursor key limit rows =
     (let page = slice0 limit rows; hasMore = int (length rows) > limit
      in (page, if hasMore \<and> page \<noteq> [] then Some (key (last page)) else None))"

fun read_all :: "('k option \<Rightarrow> 'r list \<times> 'k option) \<Rightarrow> nat \<Rightarrow> 'k option \<Rightarrow> 'r list" where
  "read_all fetch 0 cur = []"
| "read_all fetch (Suc fuel) cur =
     (case fetch cur of (rows, next) \<Rightarrow> rows @ (case next of None \<Rightarrow> [] | Some c \<Rightarrow> read_all fetch fuel (Some c)))"

locale more_listing =
  fixes fetch :: "'s \<Rightarrow> int \<Rightarrow> 'k option \<Rightarrow> 'r list \<times> 'k option"
    and key :: "'r \<Rightarrow> 'k" and before :: "'k \<Rightarrow> 'k \<Rightarrow> bool" and cap :: int
    and ordered :: "'s \<Rightarrow> 'r list" and good :: "'s \<Rightarrow> bool"
  assumes cap: "1 \<le> cap"
    and trans: "before a b \<Longrightarrow> before b c \<Longrightarrow> before a c"
    and irrefl: "\<not> before a a"
    and page: "good s \<Longrightarrow> fetch s n cur = moreCursor key (clampInt 1 cap n) (filter (past before key cur) (ordered s))"
    and ordered: "good s \<Longrightarrow> sorted_wrt (\<lambda>a b. before (key a) (key b)) (ordered s)"
begin

lemma past_key:
  assumes "sorted_wrt (\<lambda>a b. before (key a) (key b)) (ps @ x # qs)"
  shows "filter (past before key (Some (key x))) (ps @ x # qs) = qs"
proof -
  have "filter (past before key (Some (key x))) ps = []"
    using assms trans irrefl unfolding filter_empty_conv past.simps sorted_wrt_append by (metis list.set_intros(1))
  moreover have "filter (past before key (Some (key x))) qs = qs"
    using assms by (auto simp: sorted_wrt_append filter_id_conv)
  ultimately show ?thesis using irrefl by simp
qed

lemma read_suffix:
  assumes g: "good s" and "ordered s = ps @ qs" and "filter (past before key cur) (ordered s) = qs"
    and "length qs < fuel"
  shows "read_all (fetch s n) fuel cur = qs"
  using assms(2-)
proof (induction fuel arbitrary: cur ps qs)
  case 0
  then show ?case by simp
next
  case (Suc fuel)
  define m where "m = nat (clampInt 1 cap n)"
  have pos: "0 < m" and im: "int m = clampInt 1 cap n" using cap by (simp_all add: m_def clampInt_def)
  show ?case
  proof (cases "m < length qs")
    case False
    then have "\<not> int (length qs) > clampInt 1 cap n" and "take m qs = qs" using im by simp_all
    then show ?thesis
      by (simp add: page [OF g] Suc.prems(2) moreCursor_def slice0_def Let_def m_def [symmetric])
  next
    case True
    define x where "x = qs ! (m - 1)"
    have qs: "take m qs = take (m - 1) qs @ [x]"
      using take_Suc_conv_app_nth [of "m - 1" qs] True pos by (simp add: x_def)
    then have lst: "last (take m qs) = x" and ne: "take m qs \<noteq> []" by simp_all
    have split: "ordered s = (ps @ take (m - 1) qs) @ x # drop m qs"
      using Suc.prems(1) qs by (metis append.assoc append_Cons append_Nil append_take_drop_id)
    have "fetch s n cur = (take m qs, Some (key x))"
    proof -
      have "clampInt 1 cap n < int (length qs)" using True im by simp
      then show ?thesis
        unfolding page [OF g] Suc.prems(2) moreCursor_def slice0_def m_def [symmetric] Let_def
        using lst ne by simp
    qed
    moreover have "read_all (fetch s n) fuel (Some (key x)) = drop m qs"
    proof (rule Suc.IH)
      show "ordered s = (ps @ take m qs) @ drop m qs" using Suc.prems(1) by simp
      show "filter (past before key (Some (key x))) (ordered s) = drop m qs"
        using past_key [of "ps @ take (m - 1) qs" x "drop m qs"] ordered [OF g] unfolding split by simp
      show "length (drop m qs) < fuel" using Suc.prems(3) True pos by simp
    qed
    ultimately show ?thesis by simp
  qed
qed

lemma read_complete:
  "good s \<Longrightarrow> length (ordered s) < fuel \<Longrightarrow> read_all (fetch s n) fuel None = ordered s"
  by (rule read_suffix [of _ "[]"]) simp_all

lemma page_length: "good s \<Longrightarrow> length (fst (fetch s n cur)) \<le> nat cap"
proof -
  assume "good s"
  moreover have "clampInt 1 cap n \<le> cap" using clampInt_bounds [OF cap] by simp
  ultimately show ?thesis by (simp add: page moreCursor_def slice0_def Let_def nat_mono le_trans [OF min.cobounded2])
qed

end

end
