(* ===== verification/Tenancy.thy ===== *)
theory Tenancy
  imports Prelude
begin

text \<open>
  The tenancy contract of the stores: every operation is issued on behalf of one organization.
  \<open>tenant_machine\<close> states what a store promises of a single operation (it leaves the view of every
  other organization alone, and what it does and answers depends on the view of its own
  organization only); noninterference of whole runs is proved from that contract once.
  Identifiers are minted by \<open>crypto.randomUUID()\<close>: \<open>mints\<close> are the identifiers an operation
  creates, \<open>ids\<close> those in use, and a run is fresh when no identifier is minted twice.
\<close>

fun run_ops :: "('op \<Rightarrow> 's \<Rightarrow> 'out \<times> 's) \<Rightarrow> 'op list \<Rightarrow> 's \<Rightarrow> ('op \<times> 'out) list \<times> 's" where
  "run_ops step [] s = ([], s)"
| "run_ops step (a # as) s =
     (let (r, s') = step a s; (rs, t) = run_ops step as s' in ((a, r) # rs, t))"

fun fresh_run :: "('op \<Rightarrow> string list) \<Rightarrow> string set \<Rightarrow> 'op list \<Rightarrow> bool" where
  "fresh_run mints X [] = True"
| "fresh_run mints X (a # as) =
     (set (mints a) \<inter> X = {} \<and> fresh_run mints (X \<union> set (mints a)) as)"

lemma fresh_run_mono: "fresh_run mints X as \<Longrightarrow> Y \<subseteq> X \<Longrightarrow> fresh_run mints Y as"
  by (induction as arbitrary: X Y) (auto, metis Un_mono subset_refl)

lemma fresh_run_filter: "fresh_run mints X as \<Longrightarrow> fresh_run mints X (filter P as)"
proof (induction as arbitrary: X)
  case Nil
  then show ?case by simp
next
  case (Cons a as)
  from Cons have "fresh_run mints (X \<union> set (mints a)) (filter P as)" by simp
  with Cons.prems show ?case by (auto intro: fresh_run_mono)
qed

locale tenant_machine =
  fixes step :: "'op \<Rightarrow> 's \<Rightarrow> 'out \<times> 's"
    and owner :: "'op \<Rightarrow> string"
    and view :: "string \<Rightarrow> 's \<Rightarrow> 'v"
    and mints :: "'op \<Rightarrow> string list"
    and ids :: "'s \<Rightarrow> string set"
    and inv :: "'s \<Rightarrow> bool"
  assumes inv_step: "inv s \<Longrightarrow> set (mints a) \<inter> ids s = {} \<Longrightarrow> inv (snd (step a s))"
    and ids_step: "inv s \<Longrightarrow> set (mints a) \<inter> ids s = {} \<Longrightarrow> ids (snd (step a s)) \<subseteq> ids s \<union> set (mints a)"
    and isolation: "inv s \<Longrightarrow> set (mints a) \<inter> ids s = {} \<Longrightarrow> org \<noteq> owner a \<Longrightarrow>
      view org (snd (step a s)) = view org s"
    and local_state: "inv s \<Longrightarrow> inv t \<Longrightarrow> set (mints a) \<inter> ids s = {} \<Longrightarrow> set (mints a) \<inter> ids t = {} \<Longrightarrow>
      view (owner a) s = view (owner a) t \<Longrightarrow>
      view (owner a) (snd (step a s)) = view (owner a) (snd (step a t))"
    and local_result: "inv s \<Longrightarrow> inv t \<Longrightarrow> set (mints a) \<inter> ids s = {} \<Longrightarrow> set (mints a) \<inter> ids t = {} \<Longrightarrow>
      view (owner a) s = view (owner a) t \<Longrightarrow> fst (step a s) = fst (step a t)"
begin

lemma run_inv:
  "inv s \<Longrightarrow> fresh_run mints X as \<Longrightarrow> ids s \<subseteq> X \<Longrightarrow> inv (snd (run_ops step as s))"
proof (induction as arbitrary: s X)
  case Nil
  then show ?case by simp
next
  case (Cons a as)
  then have f: "set (mints a) \<inter> ids s = {}" by auto
  have "inv (snd (step a s))" by (rule inv_step [OF Cons.prems(1) f])
  moreover have "ids (snd (step a s)) \<subseteq> X \<union> set (mints a)"
    using ids_step [OF Cons.prems(1) f] Cons.prems(3) by blast
  ultimately have "inv (snd (run_ops step as (snd (step a s))))"
    using Cons.IH Cons.prems(2) by auto
  then show ?case by (simp add: case_prod_beta Let_def)
qed

lemma run_preserves:
  assumes "\<And>s a. inv s \<Longrightarrow> Q s \<Longrightarrow> set (mints a) \<inter> ids s = {} \<Longrightarrow> Q (snd (step a s))"
  shows "inv s \<Longrightarrow> Q s \<Longrightarrow> fresh_run mints X as \<Longrightarrow> ids s \<subseteq> X \<Longrightarrow> Q (snd (run_ops step as s))"
proof (induction as arbitrary: s X)
  case Nil
  then show ?case by simp
next
  case (Cons a as)
  then have f: "set (mints a) \<inter> ids s = {}" by auto
  have "ids (snd (step a s)) \<subseteq> X \<union> set (mints a)"
    using ids_step [OF Cons.prems(1) f] Cons.prems(4) by blast
  then have "Q (snd (run_ops step as (snd (step a s))))"
    using Cons.IH [OF inv_step [OF Cons.prems(1) f] assms [OF Cons.prems(1,2) f],
        of "X \<union> set (mints a)"] Cons.prems(3) by simp
  then show ?case by (simp add: case_prod_beta Let_def)
qed

text \<open>The operations of other organizations can be purged from a run without a trace.\<close>

lemma purge:
  assumes "inv s" "inv t" "fresh_run mints X as" "ids s \<subseteq> X" "ids t \<subseteq> X" "view org s = view org t"
  shows "view org (snd (run_ops step as s))
           = view org (snd (run_ops step (filter (\<lambda>a. owner a = org) as) t))
         \<and> filter (\<lambda>(a, r). owner a = org) (fst (run_ops step as s))
           = fst (run_ops step (filter (\<lambda>a. owner a = org) as) t)"
  using assms
proof (induction as arbitrary: s t X)
  case Nil
  then show ?case by simp
next
  case (Cons a as)
  from Cons.prems have fs: "set (mints a) \<inter> ids s = {}" and ft: "set (mints a) \<inter> ids t = {}"
    by auto
  let ?s = "snd (step a s)" and ?t = "snd (step a t)"
  have ivs: "inv ?s" by (rule inv_step [OF Cons.prems(1) fs])
  have ds: "ids ?s \<subseteq> X \<union> set (mints a)" using ids_step [OF Cons.prems(1) fs] Cons.prems(4) by blast
  from Cons.prems(3) have fr: "fresh_run mints (X \<union> set (mints a)) as" by simp
  show ?case
  proof (cases "owner a = org")
    case True
    have ivt: "inv ?t" by (rule inv_step [OF Cons.prems(2) ft])
    have dt: "ids ?t \<subseteq> X \<union> set (mints a)" using ids_step [OF Cons.prems(2) ft] Cons.prems(5) by blast
    have "view org ?s = view org ?t"
      using local_state [OF Cons.prems(1,2) fs ft] Cons.prems(6) True by simp
    moreover have "fst (step a s) = fst (step a t)"
      using local_result [OF Cons.prems(1,2) fs ft] Cons.prems(6) True by simp
    ultimately show ?thesis
      using Cons.IH [OF ivs ivt fr ds dt] True by (simp add: case_prod_beta Let_def)
  next
    case False
    have "view org ?s = view org t"
      using isolation [OF Cons.prems(1) fs] Cons.prems(6) False by simp
    moreover have "ids t \<subseteq> X \<union> set (mints a)" using Cons.prems(5) by blast
    ultimately show ?thesis
      using Cons.IH [OF ivs Cons.prems(2) fr ds] False by (simp add: case_prod_beta Let_def)
  qed
qed

lemma noninterference:
  assumes "inv s" "fresh_run mints (ids s) as"
  shows "view org (snd (run_ops step as s))
           = view org (snd (run_ops step (filter (\<lambda>a. owner a = org) as) s))
         \<and> filter (\<lambda>(a, r). owner a = org) (fst (run_ops step as s))
           = fst (run_ops step (filter (\<lambda>a. owner a = org) as) s)"
  by (rule purge [OF assms(1) assms(1) assms(2)]) auto

end

text \<open>
  A store that keeps every row under its organization gives that contract: restricting the state to
  the rows of one organization is a view, and an operation on behalf of the organization acts on
  the restricted state as it does on the whole.
\<close>

locale filtered_store =
  fixes step :: "'op \<Rightarrow> 's \<Rightarrow> 'out \<times> 's"
    and owner :: "'op \<Rightarrow> string"
    and restr :: "string \<Rightarrow> 's \<Rightarrow> 's"
    and mints :: "'op \<Rightarrow> string list"
    and ids :: "'s \<Rightarrow> string set"
    and inv :: "'s \<Rightarrow> bool"
  assumes keeps_inv: "inv s \<Longrightarrow> set (mints a) \<inter> ids s = {} \<Longrightarrow> inv (snd (step a s))"
    and adds_ids: "inv s \<Longrightarrow> set (mints a) \<inter> ids s = {} \<Longrightarrow> ids (snd (step a s)) \<subseteq> ids s \<union> set (mints a)"
    and others: "inv s \<Longrightarrow> set (mints a) \<inter> ids s = {} \<Longrightarrow> org \<noteq> owner a \<Longrightarrow>
      restr org (snd (step a s)) = restr org s"
    and inv_restr: "inv s \<Longrightarrow> inv (restr org s)"
    and ids_restr: "ids (restr org s) \<subseteq> ids s"
    and own_state: "inv s \<Longrightarrow> set (mints a) \<inter> ids s = {} \<Longrightarrow>
      restr (owner a) (snd (step a s)) = restr (owner a) (snd (step a (restr (owner a) s)))"
    and own_result: "inv s \<Longrightarrow> set (mints a) \<inter> ids s = {} \<Longrightarrow>
      fst (step a s) = fst (step a (restr (owner a) s))"

sublocale filtered_store \<subseteq> tenant_machine step owner restr mints ids inv
proof
  show "inv (snd (step a s))" if "inv s" "set (mints a) \<inter> ids s = {}" for a s
    using that by (rule keeps_inv)
  show "restr org (snd (step a s)) = restr org s"
    if "inv s" "set (mints a) \<inter> ids s = {}" "org \<noteq> owner a" for a s org
    using that by (rule others)
  show "ids (snd (step a s)) \<subseteq> ids s \<union> set (mints a)" if "inv s" "set (mints a) \<inter> ids s = {}" for a s
    using that by (rule adds_ids)
next
  fix a s t
  assume s: "inv s" "set (mints a) \<inter> ids s = {}" and t: "inv t" "set (mints a) \<inter> ids t = {}"
    and eq: "restr (owner a) s = restr (owner a) t"
  show "restr (owner a) (snd (step a s)) = restr (owner a) (snd (step a t))"
    using own_state [OF s] own_state [OF t] eq by simp
  show "fst (step a s) = fst (step a t)"
    using own_result [OF s] own_result [OF t] eq by simp
qed

section \<open>Tables under an operation of one organization\<close>

definition table_step :: "('r \<Rightarrow> string) \<Rightarrow> ('r \<Rightarrow> string) \<Rightarrow> string \<Rightarrow> string set \<Rightarrow> 'r table \<Rightarrow> 'r table \<Rightarrow> bool" where
  \<comment> \<open>rows stay under their ids, new ids come from X, rows of other organizations are untouched\<close>
  "table_step rid rorg org X m m' \<longleftrightarrow> keyed rid m' \<and> set (jkeys m') \<subseteq> set (jkeys m) \<union> X
     \<and> (\<forall>o'. o' \<noteq> org \<longrightarrow> org_rows rorg o' m' = org_rows rorg o' m)"

lemma table_step_refl [intro, simp]: "keyed rid m \<Longrightarrow> table_step rid rorg org X m m"
  by (auto simp: table_step_def)

lemma scoped_get_keyed:
  "keyed rid m \<Longrightarrow> scoped_get rorg m org k = Some r \<Longrightarrow> jget m k = Some r \<and> rorg r = org \<and> rid r = k"
  using keyed_get scoped_getD by metis

lemma table_step_own:
  assumes "keyed rid m" "jget m k = Some r" "rorg r = org" "rid r' = k" "rorg r' = org"
  shows "table_step rid rorg org X m (jset k r' m)"
  unfolding table_step_def
proof (intro conjI allI impI)
  show "keyed rid (jset k r' m)" using assms by (simp add: keyed_jset)
  show "set (jkeys (jset k r' m)) \<subseteq> set (jkeys m) \<union> X"
    using assms(2) by (auto simp: keys_jset dest: jget_in_keys)
  show "org_rows rorg o' (jset k r' m) = org_rows rorg o' m" if "o' \<noteq> org" for o'
    using assms that by (intro org_rows_jset_other keyed_wf [of rid]) auto
qed

lemma table_step_fresh:
  assumes "keyed rid m" "k \<notin> set (jkeys m)" "rid r' = k" "rorg r' = org" "k \<in> X"
  shows "table_step rid rorg org X m (jset k r' m)"
  unfolding table_step_def
proof (intro conjI allI impI)
  show "keyed rid (jset k r' m)" using assms by (simp add: keyed_jset)
  show "set (jkeys (jset k r' m)) \<subseteq> set (jkeys m) \<union> X" using assms(5) by (auto simp: keys_jset)
  show "org_rows rorg o' (jset k r' m) = org_rows rorg o' m" if "o' \<noteq> org" for o'
    using assms that by (intro org_rows_jset_other keyed_wf [of rid]) (auto dest: jget_in_keys)
qed

lemma table_step_del:
  assumes "keyed rid m" "\<And>r. jget m k = Some r \<Longrightarrow> rorg r = org"
  shows "table_step rid rorg org X m (jdel k m)"
  using assms
  by (auto simp: table_step_def keyed_jdel keys_jdel intro!: org_rows_jdel_other keyed_wf [of rid])

lemma table_step_filter:
  assumes "keyed rid m" "\<And>e. e \<in> set m \<Longrightarrow> \<not> P e \<Longrightarrow> rorg (snd e) = org"
  shows "table_step rid rorg org X m (filter P m)"
proof -
  have "filter (\<lambda>e. rorg (snd e) = o') (filter P m) = filter (\<lambda>e. rorg (snd e) = o') m" if "o' \<noteq> org" for o'
    unfolding filter_filter using assms(2) that by (intro filter_cong) auto
  then show ?thesis
    using assms(1) keys_filter_subset [of P m] by (auto simp: table_step_def keyed_filter org_rows_def)
qed

lemma table_step_trans:
  "table_step rid rorg org X m m' \<Longrightarrow> table_step rid rorg org X m' m'' \<Longrightarrow> table_step rid rorg org X m m''"
  unfolding table_step_def by auto

lemma table_step_mono: "table_step rid rorg org X m m' \<Longrightarrow> X \<subseteq> Y \<Longrightarrow> table_step rid rorg org Y m m'"
  unfolding table_step_def by auto

text \<open>Reading a table through the rows of one organization.\<close>

lemma keyed_org_rows [simp]: "keyed rid m \<Longrightarrow> keyed rid (org_rows rorg org m)"
  by (simp add: org_rows_def keyed_filter)

lemma keys_org_rows: "set (jkeys (org_rows rorg org m)) \<subseteq> set (jkeys m)"
  unfolding org_rows_def by (rule keys_filter_subset)

lemma org_rows_idem [simp]: "org_rows rorg org (org_rows rorg org m) = org_rows rorg org m"
  by (simp add: org_rows_def)

lemma scoped_get_org_rows [simp]:
  "keyed rid m \<Longrightarrow> scoped_get rorg (org_rows rorg org m) org k = scoped_get rorg m org k"
  by (simp add: scoped_get_def org_rows_def jget_filter keyed_wf split: option.split)

lemma jget_org_rows:
  "keyed rid m \<Longrightarrow> jget (org_rows rorg org m) k = scoped_get rorg m org k"
  by (simp add: scoped_get_view keyed_wf)

lemma jvalues_org_rows: "jvalues (org_rows rorg org m) = filter (\<lambda>r. rorg r = org) (jvalues m)"
  by (simp add: jvalues_def org_rows_def filter_map comp_def)

lemma filter_org_rows:
  "(\<And>r. P r \<Longrightarrow> rorg r = org) \<Longrightarrow> filter P (jvalues (org_rows rorg org m)) = filter P (jvalues m)"
  by (auto simp: jvalues_org_rows intro: filter_cong)

lemma list_ex_org_rows:
  "(\<And>r. P r \<Longrightarrow> rorg r = org) \<Longrightarrow> list_ex P (jvalues (org_rows rorg org m)) = list_ex P (jvalues m)"
  by (auto simp: jvalues_org_rows list_ex_iff)

lemma find_filter: "(\<And>r. P r \<Longrightarrow> Q r) \<Longrightarrow> find P (filter Q xs) = find P xs"
  by (induction xs) auto

lemma find_org_rows:
  "(\<And>r. P r \<Longrightarrow> rorg r = org) \<Longrightarrow> find P (jvalues (org_rows rorg org m)) = find P (jvalues m)"
  unfolding jvalues_org_rows by (rule find_filter)

lemma org_rows_set_own:
  assumes "keyed rid m" "\<And>w. jget m k = Some w \<Longrightarrow> rorg w = org" "rorg v = org"
  shows "org_rows rorg org (jset k v (org_rows rorg org m)) = org_rows rorg org (jset k v m)"
proof -
  have "org_rows rorg org (jset k v (org_rows rorg org m)) = jset k v (org_rows rorg org m)"
    using assms by (subst org_rows_jset_own)
      (auto simp: jget_org_rows keyed_wf [OF keyed_org_rows] dest: scoped_getD)
  also have "\<dots> = org_rows rorg org (jset k v m)"
    using assms by (simp add: org_rows_jset_own keyed_wf)
  finally show ?thesis .
qed

lemma org_rows_del_own [simp]:
  "org_rows rorg org (jdel k (org_rows rorg org m)) = org_rows rorg org (jdel k m)"
  by (simp add: org_rows_jdel)

lemma table_step_keyD:
  "table_step rid rorg org X m m' \<Longrightarrow> k \<in> set (jkeys m') \<Longrightarrow> k \<in> set (jkeys m) \<or> k \<in> X"
  by (auto simp: table_step_def)

end
