(* ===== verification/StoreWorkflows.thy ===== *)
theory StoreWorkflows
  imports Paging WorkflowDsl Tenancy
begin

text \<open>
  The workflow part of \<open>MemoryAppStore\<close> (\<open>apps/api/src/store/memory-store.ts\<close>): workflows and
  their revisions, share invitations and shares, trigger subscriptions, approval requests, runs
  and run events.  The record types are those of \<open>apps/api/src/types.ts\<close>.
\<close>

section \<open>Records\<close>

datatype workflow_status = Draft | Published

record workflow_rec =
  wk_id :: string
  wk_organizationId :: string
  wk_familyId :: string
  wk_revision :: int
  wk_sourceWorkflowId :: "string option"
  wk_name :: string
  wk_status :: workflow_status
  wk_version :: int
  wk_dsl :: json
  wk_editorState :: "json option"
  wk_createdByUserId :: string
  wk_publishedAt :: "timestamp option"
  wk_createdAt :: timestamp
  wk_updatedAt :: timestamp

datatype share_inv_status = InvPending | InvAccepted | InvRevoked | InvExpired

record share_inv =
  si_id :: string
  si_organizationId :: string
  si_workflowId :: string
  si_email :: string
  si_token :: string
  si_status :: share_inv_status
  si_invitedByUserId :: string
  si_acceptedByUserId :: "string option"
  si_expiresAt :: timestamp
  si_acceptedAt :: "timestamp option"
  si_createdAt :: timestamp

record share_rec =
  sh_id :: string
  sh_organizationId :: string
  sh_workflowId :: string
  sh_userId :: string
  sh_sourceInvitationId :: "string option"
  sh_createdByUserId :: string
  sh_revokedAt :: "timestamp option"
  sh_createdAt :: timestamp
  sh_updatedAt :: timestamp

datatype run_status = Queued | Running | Succeeded | Failed

datatype run_trigger = RunManual | RunChannel | RunCron | RunWebhook | RunHeartbeat

record run_rec =
  rn_id :: string
  rn_organizationId :: string
  rn_workflowId :: string
  rn_triggerType :: run_trigger
  rn_triggerKey :: "string option"
  rn_triggeredAt :: "timestamp option"
  rn_triggerSource :: "string option"
  rn_status :: run_status
  rn_attemptCount :: int
  rn_maxAttempts :: int
  rn_nextAttemptAt :: "timestamp option"
  rn_requestedByUserId :: string
  rn_input :: json
  rn_output :: json
  rn_error :: "string option"
  rn_createdAt :: timestamp
  rn_startedAt :: "timestamp option"
  rn_finishedAt :: "timestamp option"
  rn_blockedRequestId :: "string option"
  rn_blockedNodeId :: "string option"
  rn_blockedNodeType :: "string option"
  rn_blockedKind :: "string option"
  rn_blockedAt :: "timestamp option"
  rn_blockedTimeoutAt :: "timestamp option"

datatype sub_trigger = SubCron | SubWebhook | SubHeartbeat

record trigger_sub =
  ts_id :: string
  ts_organizationId :: string
  ts_workflowId :: string
  ts_requestedByUserId :: string
  ts_workflowRevision :: int
  ts_triggerType :: sub_trigger
  ts_enabled :: bool
  ts_cronExpr :: "string option"
  ts_heartbeatIntervalSec :: "int option"
  ts_heartbeatJitterSec :: "int option"
  ts_heartbeatMaxSkewSec :: "int option"
  ts_nextFireAt :: "timestamp option"
  ts_lastTriggeredAt :: "timestamp option"
  ts_lastTriggerKey :: "string option"
  ts_createdAt :: timestamp
  ts_updatedAt :: timestamp

datatype approval_status = ApPending | ApApproved | ApRejected | ApExpired

record approval_req =
  aq_id :: string
  aq_organizationId :: string
  aq_workflowId :: string
  aq_runId :: string
  aq_nodeId :: string
  aq_nodeType :: string
  aq_requestKind :: string
  aq_status :: approval_status
  aq_reason :: "string option"
  aq_context :: json
  aq_requestedByUserId :: string
  aq_decidedByUserId :: "string option"
  aq_decisionNote :: "string option"
  aq_expiresAt :: timestamp
  aq_decidedAt :: "timestamp option"
  aq_createdAt :: timestamp
  aq_updatedAt :: timestamp

datatype event_level = LevelInfo | LevelWarn | LevelError

record run_event =
  re_id :: string
  re_organizationId :: string
  re_workflowId :: string
  re_runId :: string
  re_attemptCount :: int
  re_eventType :: string
  re_nodeId :: "string option"
  re_nodeType :: "string option"
  re_level :: event_level
  re_message :: "string option"
  re_payload :: json
  re_createdAt :: timestamp

record wf_store =
  ws_workflows :: "workflow_rec table"
  ws_runs :: "run_rec table"
  ws_shareInvs :: "share_inv table"
  ws_shares :: "share_rec table"
  ws_subs :: "trigger_sub table"
  ws_subByTokenHash :: "string table"
  ws_approvals :: "approval_req table"
  ws_events :: "run_event table"

definition ws_empty :: wf_store where
  "ws_empty = \<lparr>ws_workflows = [], ws_runs = [], ws_shareInvs = [], ws_shares = [], ws_subs = [],
     ws_subByTokenHash = [], ws_approvals = [], ws_events = []\<rparr>"

datatype wf_error =
    WORKFLOW_NOT_FOUND
  | WORKFLOW_SHARE_INVITATION_ALREADY_PENDING
  | WORKFLOW_SHARE_INVITATION_NOT_FOUND
  | WORKFLOW_SHARE_INVITATION_EMAIL_MISMATCH
  | WORKFLOW_SHARE_INVITATION_EXPIRED
  | WORKFLOW_SHARE_INVITATION_NOT_PENDING
  | WORKFLOW_TRIGGER_KEY_EXISTS
  | INVALID_WORKFLOW_DSL

section \<open>Share invitations and shares\<close>

definition createWorkflowShareInvitation :: "clock \<Rightarrow> uuids \<Rightarrow> string \<Rightarrow> string \<Rightarrow> string \<Rightarrow> string \<Rightarrow> int option
    \<Rightarrow> wf_store \<Rightarrow> (wf_error + share_inv) \<times> wf_store" where
  "createWorkflowShareInvitation clk uid org workflowId actor email ttlHours s =
     (case scoped_get wk_organizationId (ws_workflows s) org workflowId of
        None \<Rightarrow> (Inl WORKFLOW_NOT_FOUND, s)
      | Some w \<Rightarrow>
          let normalizedEmail = toLowerCase email in
          if list_ex (\<lambda>i. si_organizationId i = org \<and> si_workflowId i = workflowId
               \<and> si_status i = InvPending \<and> toLowerCase (si_email i) = normalizedEmail) (jvalues (ws_shareInvs s))
          then (Inl WORKFLOW_SHARE_INVITATION_ALREADY_PENDING, s)
          else let invite = \<lparr>si_id = uid 0, si_organizationId = org, si_workflowId = workflowId,
                 si_email = normalizedEmail, si_token = org @ ''.'' @ workflowId @ ''.'' @ uid 1,
                 si_status = InvPending, si_invitedByUserId = actor, si_acceptedByUserId = None,
                 si_expiresAt = clk 0 + qq ttlHours 72 * 3600 * 1000, si_acceptedAt = None,
                 si_createdAt = clk 1\<rparr>
               in (Inr invite, s\<lparr>ws_shareInvs := jset (si_id invite) invite (ws_shareInvs s)\<rparr>))"

definition listWorkflowShareInvitations :: "(string \<Rightarrow> string \<Rightarrow> int) \<Rightarrow> string \<Rightarrow> string \<Rightarrow> share_inv_status option
    \<Rightarrow> int option \<Rightarrow> wf_store \<Rightarrow> share_inv list" where
  "listWorkflowShareInvitations lc org workflowId status limit s =
     slice0 (clampInt 1 500 (qq limit 200)) (js_sort (newest_first lc si_createdAt si_id)
       (filter (\<lambda>i. case status of None \<Rightarrow> True | Some st \<Rightarrow> si_status i = st)
       (filter (\<lambda>i. si_organizationId i = org \<and> si_workflowId i = workflowId) (jvalues (ws_shareInvs s)))))"

definition getWorkflowShareInvitationByToken :: "string \<Rightarrow> string \<Rightarrow> wf_store \<Rightarrow> share_inv option" where
  "getWorkflowShareInvitationByToken org token s =
     find (\<lambda>i. si_organizationId i = org \<and> si_token i = token) (jvalues (ws_shareInvs s))"

fun revokeActive :: "(share_rec \<Rightarrow> bool) \<Rightarrow> clock \<Rightarrow> nat \<Rightarrow> share_rec table \<Rightarrow> share_rec table \<times> nat" where
  \<comment> \<open>the loop over \<open>workflowShares\<close>; the number counts the readings of the clock\<close>
  "revokeActive P clk j [] = ([], j)"
| "revokeActive P clk j ((k, sh) # m) =
     (if P sh
      then (case revokeActive P clk (j + 2) m of
              (m', j') \<Rightarrow> ((k, sh\<lparr>sh_revokedAt := Some (clk j), sh_updatedAt := clk (j + 1)\<rparr>) # m', j'))
      else (case revokeActive P clk j m of (m', j') \<Rightarrow> ((k, sh) # m', j')))"

definition acceptWorkflowShareInvitation :: "clock \<Rightarrow> uuids \<Rightarrow> string \<Rightarrow> string \<Rightarrow> string \<Rightarrow> string
    \<Rightarrow> wf_store \<Rightarrow> (wf_error + share_inv \<times> share_rec \<times> workflow_rec) \<times> wf_store" where
  "acceptWorkflowShareInvitation clk uid org token userId email s =
     (case getWorkflowShareInvitationByToken org token s of
        None \<Rightarrow> (Inl WORKFLOW_SHARE_INVITATION_NOT_FOUND, s)
      | Some invite \<Rightarrow>
          if toLowerCase (si_email invite) \<noteq> toLowerCase email
          then (Inl WORKFLOW_SHARE_INVITATION_EMAIL_MISMATCH, s)
          else if si_expiresAt invite \<le> clk 0 then (Inl WORKFLOW_SHARE_INVITATION_EXPIRED, s)
          else if si_status invite \<noteq> InvPending then (Inl WORKFLOW_SHARE_INVITATION_NOT_PENDING, s)
          else (case scoped_get wk_organizationId (ws_workflows s) (si_organizationId invite) (si_workflowId invite) of
              None \<Rightarrow> (Inl WORKFLOW_NOT_FOUND, s)
            | Some w \<Rightarrow>
                let acceptedInv = invite\<lparr>si_status := InvAccepted, si_acceptedByUserId := Some userId,
                                      si_acceptedAt := Some (clk 1)\<rparr>;
                    (shares, j) = revokeActive (\<lambda>sh. sh_organizationId sh = si_organizationId invite
                        \<and> sh_workflowId sh = si_workflowId invite \<and> sh_userId sh = userId
                        \<and> sh_revokedAt sh = None) clk 2 (ws_shares s);
                    share = \<lparr>sh_id = uid 0, sh_organizationId = si_organizationId invite,
                        sh_workflowId = si_workflowId invite, sh_userId = userId,
                        sh_sourceInvitationId = Some (si_id invite), sh_createdByUserId = userId,
                        sh_revokedAt = None, sh_createdAt = clk j, sh_updatedAt = clk (j + 1)\<rparr>
                in (Inr (acceptedInv, share, w),
                    s\<lparr>ws_shareInvs := jset (si_id invite) acceptedInv (ws_shareInvs s),
                      ws_shares := jset (sh_id share) share shares\<rparr>)))"

definition listWorkflowShares :: "(string \<Rightarrow> string \<Rightarrow> int) \<Rightarrow> string \<Rightarrow> string \<Rightarrow> bool
    \<Rightarrow> int option \<Rightarrow> wf_store \<Rightarrow> share_rec list" where
  "listWorkflowShares lc org workflowId includeRevoked limit s =
     slice0 (clampInt 1 500 (qq limit 200)) (js_sort (newest_first lc sh_createdAt sh_id)
       (filter (\<lambda>i. includeRevoked \<or> sh_revokedAt i = None)
       (filter (\<lambda>i. sh_organizationId i = org \<and> sh_workflowId i = workflowId) (jvalues (ws_shares s)))))"

definition revokeWorkflowShare :: "clock \<Rightarrow> string \<Rightarrow> string \<Rightarrow> string \<Rightarrow> wf_store \<Rightarrow> share_rec option \<times> wf_store" where
  "revokeWorkflowShare clk org workflowId shareId s =
     (case scoped_get sh_organizationId (ws_shares s) org shareId of
        None \<Rightarrow> (None, s)
      | Some sh \<Rightarrow>
          if sh_workflowId sh \<noteq> workflowId \<or> sh_revokedAt sh \<noteq> None then (None, s)
          else let updated = sh\<lparr>sh_revokedAt := Some (clk 0), sh_updatedAt := clk 1\<rparr>
               in (Some updated, s\<lparr>ws_shares := jset (sh_id updated) updated (ws_shares s)\<rparr>))"

definition getSharedWorkflowByShareId :: "string \<Rightarrow> string \<Rightarrow> wf_store \<Rightarrow> (share_rec \<times> workflow_rec) option" where
  "getSharedWorkflowByShareId shareId userId s =
     (case jget (ws_shares s) shareId of
        None \<Rightarrow> None
      | Some sh \<Rightarrow>
          if sh_userId sh \<noteq> userId \<or> sh_revokedAt sh \<noteq> None then None
          else (case scoped_get wk_organizationId (ws_workflows s) (sh_organizationId sh) (sh_workflowId sh) of
                  None \<Rightarrow> None | Some w \<Rightarrow> Some (sh, w)))"

definition listWorkflowRunsByShare :: "(string \<Rightarrow> string \<Rightarrow> int) \<Rightarrow> string \<Rightarrow> string \<Rightarrow> int \<Rightarrow> cursor
    \<Rightarrow> wf_store \<Rightarrow> run_rec list \<times> cursor" where
  "listWorkflowRunsByShare lc shareId userId limit cur s =
     (case getSharedWorkflowByShareId shareId userId s of
        None \<Rightarrow> ([], None)
      | Some (sh, w) \<Rightarrow>
          pageNewest lc rn_createdAt rn_id (clampInt 1 200 limit) cur
            (filter (\<lambda>r. rn_requestedByUserId r = userId)
            (filter (\<lambda>r. rn_organizationId r = wk_organizationId w \<and> rn_workflowId r = wk_id w)
              (jvalues (ws_runs s)))))"

definition getWorkflowRunByIdForShare :: "string \<Rightarrow> string \<Rightarrow> string \<Rightarrow> wf_store \<Rightarrow> run_rec option" where
  "getWorkflowRunByIdForShare shareId userId runId s =
     (case getSharedWorkflowByShareId shareId userId s of
        None \<Rightarrow> None
      | Some (sh, w) \<Rightarrow>
          (case jget (ws_runs s) runId of
             None \<Rightarrow> None
           | Some r \<Rightarrow>
               if rn_organizationId r \<noteq> wk_organizationId w \<or> rn_workflowId r \<noteq> wk_id w
                  \<or> rn_requestedByUserId r \<noteq> userId then None
               else Some r))"

definition listWorkflowRunEventsByShare :: "(string \<Rightarrow> string \<Rightarrow> int) \<Rightarrow> string \<Rightarrow> string \<Rightarrow> string \<Rightarrow> int \<Rightarrow> cursor
    \<Rightarrow> wf_store \<Rightarrow> run_event list \<times> cursor" where
  "listWorkflowRunEventsByShare lc shareId userId runId limit cur s =
     (case getWorkflowRunByIdForShare shareId userId runId s of
        None \<Rightarrow> ([], None)
      | Some run \<Rightarrow>
          pageOldest lc re_createdAt re_id (clampInt 1 500 limit) cur
            (filter (\<lambda>e. re_organizationId e = rn_organizationId run \<and> re_workflowId e = rn_workflowId run
                \<and> re_runId e = rn_id run) (jvalues (ws_events s))))"

section \<open>Workflows\<close>

definition createWorkflow :: "clock \<Rightarrow> uuids \<Rightarrow> string \<Rightarrow> string \<Rightarrow> json \<Rightarrow> string \<Rightarrow> wf_store \<Rightarrow> workflow_rec \<times> wf_store" where
  "createWorkflow clk uid org nm dsl createdBy s =
     (let w = \<lparr>wk_id = uid 0, wk_organizationId = org, wk_familyId = uid 0, wk_revision = 1,
            wk_sourceWorkflowId = None, wk_name = nm, wk_status = Draft, wk_version = 1, wk_dsl = dsl,
            wk_editorState = None, wk_createdByUserId = createdBy, wk_publishedAt = None,
            wk_createdAt = clk 0, wk_updatedAt = clk 0\<rparr>
      in (w, s\<lparr>ws_workflows := jset (wk_id w) w (ws_workflows s)\<rparr>))"

definition maxRevision :: "string \<Rightarrow> string \<Rightarrow> workflow_rec list \<Rightarrow> int" where
  "maxRevision org familyId ws = fold (\<lambda>w m. if wk_organizationId w = org \<and> wk_familyId w = familyId
      then max m (wk_revision w) else m) ws 0"

definition createWorkflowDraftFromWorkflow :: "clock \<Rightarrow> uuids \<Rightarrow> string \<Rightarrow> string \<Rightarrow> string \<Rightarrow> wf_store
    \<Rightarrow> workflow_rec option \<times> wf_store" where
  "createWorkflowDraftFromWorkflow clk uid org sourceWorkflowId actor s =
     (case scoped_get wk_organizationId (ws_workflows s) org sourceWorkflowId of
        None \<Rightarrow> (None, s)
      | Some src \<Rightarrow>
          let draft = \<lparr>wk_id = uid 0, wk_organizationId = org, wk_familyId = wk_familyId src,
            wk_revision = maxRevision org (wk_familyId src) (jvalues (ws_workflows s)) + 1,
            wk_sourceWorkflowId = Some (wk_id src), wk_name = wk_name src, wk_status = Draft, wk_version = 1,
            wk_dsl = wk_dsl src, wk_editorState = wk_editorState src, wk_createdByUserId = actor,
            wk_publishedAt = None, wk_createdAt = clk 0, wk_updatedAt = clk 0\<rparr>
          in (Some draft, s\<lparr>ws_workflows := jset (wk_id draft) draft (ws_workflows s)\<rparr>))"

definition listWorkflows :: "(string \<Rightarrow> string \<Rightarrow> int) \<Rightarrow> string \<Rightarrow> int \<Rightarrow> cursor \<Rightarrow> wf_store \<Rightarrow> workflow_rec list \<times> cursor" where
  "listWorkflows lc org limit cur s =
     pageNewest lc wk_createdAt wk_id (clampInt 1 200 limit) cur
       (filter (\<lambda>w. wk_organizationId w = org) (jvalues (ws_workflows s)))"

definition listWorkflowRevisions :: "string \<Rightarrow> string \<Rightarrow> int \<Rightarrow> wf_store \<Rightarrow> workflow_rec list" where
  "listWorkflowRevisions org workflowId limit s =
     (case scoped_get wk_organizationId (ws_workflows s) org workflowId of
        None \<Rightarrow> []
      | Some w \<Rightarrow> slice0 (clampInt 1 200 limit)
          (js_sort (\<lambda>a b. if wk_revision a \<noteq> wk_revision b then wk_revision b - wk_revision a
                          else cmp_int (wk_createdAt b) (wk_createdAt a))
            (filter (\<lambda>x. wk_organizationId x = org \<and> wk_familyId x = wk_familyId w) (jvalues (ws_workflows s)))))"

definition getWorkflowById :: "string \<Rightarrow> string \<Rightarrow> wf_store \<Rightarrow> workflow_rec option" where
  "getWorkflowById org workflowId s = scoped_get wk_organizationId (ws_workflows s) org workflowId"

definition updateWorkflowDraft :: "clock \<Rightarrow> string \<Rightarrow> string \<Rightarrow> string option \<Rightarrow> json option \<Rightarrow> json option
    \<Rightarrow> wf_store \<Rightarrow> workflow_rec option \<times> wf_store" where
  "updateWorkflowDraft clk org workflowId nm dsl editorState s =
     (case getWorkflowById org workflowId s of
        None \<Rightarrow> (None, s)
      | Some w \<Rightarrow>
          if wk_status w \<noteq> Draft then (None, s)
          else let updated = w\<lparr>wk_name := qq nm (wk_name w), wk_dsl := qq dsl (wk_dsl w),
                   wk_editorState := (case editorState of None \<Rightarrow> wk_editorState w | Some e \<Rightarrow> nullishJ (Some e)),
                   wk_version := wk_version w + 1, wk_updatedAt := clk 0\<rparr>
               in (Some updated, s\<lparr>ws_workflows := jset (wk_id updated) updated (ws_workflows s)\<rparr>))"

definition publishWorkflow :: "clock \<Rightarrow> string \<Rightarrow> string \<Rightarrow> wf_store \<Rightarrow> workflow_rec option \<times> wf_store" where
  "publishWorkflow clk org workflowId s =
     (case getWorkflowById org workflowId s of
        None \<Rightarrow> (None, s)
      | Some w \<Rightarrow>
          let updated = w\<lparr>wk_status := Published, wk_version := wk_version w + 1,
                  wk_publishedAt := Some (clk 0), wk_updatedAt := clk 1\<rparr>
          in (Some updated, s\<lparr>ws_workflows := jset (wk_id updated) updated (ws_workflows s)\<rparr>))"

section \<open>Trigger subscriptions\<close>

datatype trigger_spec =
    CronSpec string
  | HeartbeatSpec int int int
  | WebhookSpec string

fun deriveTriggerSubscriptions :: "(string \<Rightarrow> string) \<Rightarrow> wf_trigger \<Rightarrow> trigger_spec list" where
  \<comment> \<open>the first argument is \<open>sha256Hex\<close>\<close>
  "deriveTriggerSubscriptions sha (TriggerCron cron) = [CronSpec cron]"
| "deriveTriggerSubscriptions sha (TriggerHeartbeat i j m) = [HeartbeatSpec i j m]"
| "deriveTriggerSubscriptions sha (TriggerWebhook token) = [WebhookSpec (sha token)]"
| "deriveTriggerSubscriptions sha _ = []"

fun spec_type :: "trigger_spec \<Rightarrow> sub_trigger" where
  "spec_type (CronSpec _) = SubCron"
| "spec_type (HeartbeatSpec _ _ _) = SubHeartbeat"
| "spec_type (WebhookSpec _) = SubWebhook"

fun subscription_of :: "timestamp \<Rightarrow> string \<Rightarrow> string \<Rightarrow> string \<Rightarrow> string \<Rightarrow> int \<Rightarrow> trigger_spec \<Rightarrow> trigger_sub" where
  "subscription_of now i org workflowId actor revision spec =
     \<lparr>ts_id = i, ts_organizationId = org, ts_workflowId = workflowId, ts_requestedByUserId = actor,
      ts_workflowRevision = revision, ts_triggerType = spec_type spec, ts_enabled = True,
      ts_cronExpr = (case spec of CronSpec c \<Rightarrow> Some c | _ \<Rightarrow> None),
      ts_heartbeatIntervalSec = (case spec of HeartbeatSpec a b c \<Rightarrow> Some a | _ \<Rightarrow> None),
      ts_heartbeatJitterSec = (case spec of HeartbeatSpec a b c \<Rightarrow> Some b | _ \<Rightarrow> None),
      ts_heartbeatMaxSkewSec = (case spec of HeartbeatSpec a b c \<Rightarrow> Some c | _ \<Rightarrow> None),
      ts_nextFireAt = None, ts_lastTriggeredAt = None, ts_lastTriggerKey = None,
      ts_createdAt = now, ts_updatedAt = now\<rparr>"

fun addSubscriptions :: "timestamp \<Rightarrow> uuids \<Rightarrow> nat \<Rightarrow> string \<Rightarrow> string \<Rightarrow> string \<Rightarrow> int \<Rightarrow> trigger_spec list
    \<Rightarrow> wf_store \<Rightarrow> trigger_sub list \<times> wf_store" where
  "addSubscriptions now uid j org workflowId actor revision [] s = ([], s)"
| "addSubscriptions now uid j org workflowId actor revision (spec # specs) s =
     (let r = subscription_of now (uid j) org workflowId actor revision spec;
          s1 = s\<lparr>ws_subs := jset (ts_id r) r (ws_subs s)\<rparr>;
          s2 = (case spec of WebhookSpec h \<Rightarrow> s1\<lparr>ws_subByTokenHash := jset h (ts_id r) (ws_subByTokenHash s1)\<rparr>
                | _ \<Rightarrow> s1);
          (rs, s3) = addSubscriptions now uid (j + 1) org workflowId actor revision specs s2
      in (r # rs, s3))"

definition syncWorkflowTriggerSubscriptions :: "(json \<Rightarrow> wf_dsl_any option) \<Rightarrow> (string \<Rightarrow> string) \<Rightarrow> clock \<Rightarrow> uuids
    \<Rightarrow> string \<Rightarrow> string \<Rightarrow> string \<Rightarrow> int \<Rightarrow> json \<Rightarrow> wf_store \<Rightarrow> (wf_error + trigger_sub list) \<times> wf_store" where
  \<comment> \<open>the first argument is \<open>workflowDslAnySchema.parse\<close>\<close>
  "syncWorkflowTriggerSubscriptions parse sha clk uid org workflowId actor revision dsl s =
     (let subs = filter (\<lambda>e. \<not> (ts_organizationId (snd e) = org \<and> ts_workflowId (snd e) = workflowId)) (ws_subs s);
          s1 = s\<lparr>ws_subs := subs,
                 ws_subByTokenHash := filter (\<lambda>e. jget subs (snd e) \<noteq> None) (ws_subByTokenHash s)\<rparr>
      in case parse dsl of
           None \<Rightarrow> (Inl INVALID_WORKFLOW_DSL, s1)
         | Some d \<Rightarrow>
             (case addSubscriptions (clk 0) uid 0 org workflowId actor revision
                     (deriveTriggerSubscriptions sha (dsl_trigger d)) s1 of
                (rs, s2) \<Rightarrow> (Inr rs, s2)))"

definition listWorkflowTriggerSubscriptions :: "string \<Rightarrow> string option \<Rightarrow> int option \<Rightarrow> wf_store \<Rightarrow> trigger_sub list" where
  "listWorkflowTriggerSubscriptions org workflowId limit s =
     slice0 (clampInt 1 500 (qq limit 200)) (js_sort (\<lambda>a b. cmp_int (ts_updatedAt b) (ts_updatedAt a))
       (filter (\<lambda>i. truthy workflowId \<longrightarrow> workflowId = Some (ts_workflowId i))
       (filter (\<lambda>i. ts_organizationId i = org) (jvalues (ws_subs s)))))"

definition patchWorkflowTriggerSubscription :: "clock \<Rightarrow> string \<Rightarrow> string \<Rightarrow> bool \<Rightarrow> wf_store
    \<Rightarrow> trigger_sub option \<times> wf_store" where
  "patchWorkflowTriggerSubscription clk org subscriptionId enabled s =
     (case scoped_get ts_organizationId (ws_subs s) org subscriptionId of
        None \<Rightarrow> (None, s)
      | Some t \<Rightarrow>
          let updated = t\<lparr>ts_enabled := enabled, ts_updatedAt := clk 0\<rparr>
          in (Some updated, s\<lparr>ws_subs := jset (ts_id updated) updated (ws_subs s)\<rparr>))"

definition getWorkflowTriggerSubscriptionByWebhookTokenHash :: "string \<Rightarrow> wf_store \<Rightarrow> trigger_sub option" where
  "getWorkflowTriggerSubscriptionByWebhookTokenHash h s =
     (case jget (ws_subByTokenHash s) h of
        None \<Rightarrow> None
      | Some i \<Rightarrow> if i = '''' then None else jget (ws_subs s) i)"

section \<open>Approval requests\<close>

definition listWorkflowApprovalRequests :: "(string \<Rightarrow> string \<Rightarrow> int) \<Rightarrow> string \<Rightarrow> approval_status option \<Rightarrow> int \<Rightarrow> cursor
    \<Rightarrow> wf_store \<Rightarrow> approval_req list \<times> cursor" where
  "listWorkflowApprovalRequests lc org status limit cur s =
     pageNewest lc aq_createdAt aq_id (clampInt 1 500 limit) cur
       (filter (\<lambda>i. case status of None \<Rightarrow> True | Some st \<Rightarrow> aq_status i = st)
       (filter (\<lambda>i. aq_organizationId i = org) (jvalues (ws_approvals s))))"

definition getWorkflowApprovalRequestById :: "string \<Rightarrow> string \<Rightarrow> wf_store \<Rightarrow> approval_req option" where
  "getWorkflowApprovalRequestById org approvalRequestId s =
     scoped_get aq_organizationId (ws_approvals s) org approvalRequestId"

definition decideWorkflowApprovalRequest :: "clock \<Rightarrow> string \<Rightarrow> string \<Rightarrow> string \<Rightarrow> approval_status \<Rightarrow> string option
    \<Rightarrow> wf_store \<Rightarrow> approval_req option \<times> wf_store" where
  "decideWorkflowApprovalRequest clk org actor approvalRequestId status decisionNote s =
     (case scoped_get aq_organizationId (ws_approvals s) org approvalRequestId of
        None \<Rightarrow> (None, s)
      | Some a \<Rightarrow>
          if aq_status a \<noteq> ApPending then (None, s)
          else let updated = a\<lparr>aq_status := status, aq_decidedByUserId := Some actor,
                   aq_decisionNote := decisionNote, aq_decidedAt := Some (clk 0), aq_updatedAt := clk 1\<rparr>
               in (Some updated, s\<lparr>ws_approvals := jset (aq_id updated) updated (ws_approvals s)\<rparr>))"

section \<open>Runs and run events\<close>

definition getWorkflowRunByBlockedRequestId :: "string \<Rightarrow> string \<Rightarrow> wf_store \<Rightarrow> run_rec option" where
  "getWorkflowRunByBlockedRequestId org blockedRequestId s =
     find (\<lambda>r. rn_organizationId r = org \<and> rn_status r = Running \<and> rn_blockedRequestId r = Some blockedRequestId)
       (jvalues (ws_runs s))"

definition getWorkflowRunById :: "string \<Rightarrow> string \<Rightarrow> string \<Rightarrow> wf_store \<Rightarrow> run_rec option" where
  "getWorkflowRunById org workflowId runId s =
     (case scoped_get rn_organizationId (ws_runs s) org runId of
        None \<Rightarrow> None
      | Some r \<Rightarrow> if rn_workflowId r \<noteq> workflowId then None else Some r)"

definition clearWorkflowRunBlock :: "string \<Rightarrow> string \<Rightarrow> string \<Rightarrow> string \<Rightarrow> wf_store \<Rightarrow> run_rec option \<times> wf_store" where
  "clearWorkflowRunBlock org workflowId runId expectedRequestId s =
     (case getWorkflowRunById org workflowId runId s of
        None \<Rightarrow> (None, s)
      | Some r \<Rightarrow>
          if rn_blockedRequestId r \<noteq> Some expectedRequestId then (None, s)
          else let updated = r\<lparr>rn_blockedRequestId := None, rn_blockedNodeId := None, rn_blockedNodeType := None,
                   rn_blockedKind := None, rn_blockedAt := None, rn_blockedTimeoutAt := None\<rparr>
               in (Some updated, s\<lparr>ws_runs := jset (rn_id updated) updated (ws_runs s)\<rparr>))"

fun run_status_name :: "run_status \<Rightarrow> string" where
  "run_status_name Queued = ''queued''"
| "run_status_name Running = ''running''"
| "run_status_name Succeeded = ''succeeded''"
| "run_status_name Failed = ''failed''"

definition countWorkflowRunsByStatuses :: "string \<Rightarrow> string list \<Rightarrow> wf_store \<Rightarrow> nat" where
  "countWorkflowRunsByStatuses org statuses s =
     (if statuses = [] then 0
      else length (filter (\<lambda>r. rn_organizationId r = org \<and> run_status_name (rn_status r) \<in> set statuses)
             (jvalues (ws_runs s))))"

definition createWorkflowRun :: "clock \<Rightarrow> uuids \<Rightarrow> string \<Rightarrow> string \<Rightarrow> run_trigger \<Rightarrow> string \<Rightarrow> json option
    \<Rightarrow> int option \<Rightarrow> string option \<Rightarrow> timestamp option \<Rightarrow> string option
    \<Rightarrow> wf_store \<Rightarrow> (wf_error + run_rec) \<times> wf_store" where
  "createWorkflowRun clk uid org workflowId triggerType requestedBy inp maxAttempts triggerKey triggeredAt triggerSource s =
     (if truthy triggerKey \<and> list_ex (\<lambda>r. rn_organizationId r = org \<and> rn_workflowId r = workflowId
           \<and> rn_triggerKey r = triggerKey) (jvalues (ws_runs s))
      then (Inl WORKFLOW_TRIGGER_KEY_EXISTS, s)
      else let run = \<lparr>rn_id = uid 0, rn_organizationId = org, rn_workflowId = workflowId,
             rn_triggerType = triggerType, rn_triggerKey = triggerKey, rn_triggeredAt = triggeredAt,
             rn_triggerSource = triggerSource, rn_status = Queued, rn_attemptCount = 0,
             rn_maxAttempts = qq maxAttempts 3, rn_nextAttemptAt = None, rn_requestedByUserId = requestedBy,
             rn_input = qq inp JNull, rn_output = JNull, rn_error = None, rn_createdAt = clk 0,
             rn_startedAt = None, rn_finishedAt = None, rn_blockedRequestId = None, rn_blockedNodeId = None,
             rn_blockedNodeType = None, rn_blockedKind = None, rn_blockedAt = None, rn_blockedTimeoutAt = None\<rparr>
           in (Inr run, s\<lparr>ws_runs := jset (rn_id run) run (ws_runs s)\<rparr>))"

definition listWorkflowRuns :: "(string \<Rightarrow> string \<Rightarrow> int) \<Rightarrow> string \<Rightarrow> string \<Rightarrow> int \<Rightarrow> cursor \<Rightarrow> wf_store
    \<Rightarrow> run_rec list \<times> cursor" where
  "listWorkflowRuns lc org workflowId limit cur s =
     pageNewest lc rn_createdAt rn_id (clampInt 1 200 limit) cur
       (filter (\<lambda>r. rn_organizationId r = org \<and> rn_workflowId r = workflowId) (jvalues (ws_runs s)))"

definition appendWorkflowRunEvent :: "clock \<Rightarrow> uuids \<Rightarrow> string \<Rightarrow> string \<Rightarrow> string \<Rightarrow> int \<Rightarrow> string \<Rightarrow> string option
    \<Rightarrow> string option \<Rightarrow> event_level \<Rightarrow> string option \<Rightarrow> json option \<Rightarrow> wf_store \<Rightarrow> run_event \<times> wf_store" where
  "appendWorkflowRunEvent clk uid org workflowId runId attemptCount eventType nodeId nodeType level message payload s =
     (let e = \<lparr>re_id = uid 0, re_organizationId = org, re_workflowId = workflowId, re_runId = runId,
            re_attemptCount = attemptCount, re_eventType = eventType, re_nodeId = nodeId, re_nodeType = nodeType,
            re_level = level, re_message = message, re_payload = qq payload JNull, re_createdAt = clk 0\<rparr>
      in (e, s\<lparr>ws_events := jset (re_id e) e (ws_events s)\<rparr>))"

definition listWorkflowRunEvents :: "(string \<Rightarrow> string \<Rightarrow> int) \<Rightarrow> string \<Rightarrow> string \<Rightarrow> string \<Rightarrow> int \<Rightarrow> cursor
    \<Rightarrow> wf_store \<Rightarrow> run_event list \<times> cursor" where
  "listWorkflowRunEvents lc org workflowId runId limit cur s =
     pageOldest lc re_createdAt re_id (clampInt 1 500 limit) cur
       (filter (\<lambda>e. re_organizationId e = org \<and> re_workflowId e = workflowId \<and> re_runId e = runId)
         (jvalues (ws_events s)))"

definition deleteQueuedWorkflowRun :: "string \<Rightarrow> string \<Rightarrow> string \<Rightarrow> wf_store \<Rightarrow> bool \<times> wf_store" where
  "deleteQueuedWorkflowRun org workflowId runId s =
     (case getWorkflowRunById org workflowId runId s of
        None \<Rightarrow> (False, s)
      | Some r \<Rightarrow>
          if rn_status r \<noteq> Queued \<or> rn_attemptCount r \<noteq> 0 then (False, s)
          else (jhas (ws_runs s) (rn_id r), s\<lparr>ws_runs := jdel (rn_id r) (ws_runs s)\<rparr>))"

definition markWorkflowRunRunning :: "clock \<Rightarrow> string \<Rightarrow> string \<Rightarrow> string \<Rightarrow> int option \<Rightarrow> wf_store
    \<Rightarrow> run_rec option \<times> wf_store" where
  "markWorkflowRunRunning clk org workflowId runId attemptCount s =
     (case getWorkflowRunById org workflowId runId s of
        None \<Rightarrow> (None, s)
      | Some r \<Rightarrow>
          let updated = r\<lparr>rn_status := Running, rn_attemptCount := qq attemptCount (rn_attemptCount r),
                 rn_nextAttemptAt := None, rn_startedAt := Some (clk 0)\<rparr>
          in (Some updated, s\<lparr>ws_runs := jset (rn_id updated) updated (ws_runs s)\<rparr>))"

definition markWorkflowRunQueuedForRetry :: "string \<Rightarrow> string \<Rightarrow> string \<Rightarrow> string \<Rightarrow> wf_store
    \<Rightarrow> run_rec option \<times> wf_store" where
  "markWorkflowRunQueuedForRetry org workflowId runId err s =
     (case getWorkflowRunById org workflowId runId s of
        None \<Rightarrow> (None, s)
      | Some r \<Rightarrow>
          let updated = r\<lparr>rn_status := Queued, rn_error := Some err, rn_nextAttemptAt := None, rn_finishedAt := None\<rparr>
          in (Some updated, s\<lparr>ws_runs := jset (rn_id updated) updated (ws_runs s)\<rparr>))"

definition markWorkflowRunSucceeded :: "clock \<Rightarrow> string \<Rightarrow> string \<Rightarrow> string \<Rightarrow> json \<Rightarrow> wf_store
    \<Rightarrow> run_rec option \<times> wf_store" where
  "markWorkflowRunSucceeded clk org workflowId runId output s =
     (case getWorkflowRunById org workflowId runId s of
        None \<Rightarrow> (None, s)
      | Some r \<Rightarrow>
          let updated = r\<lparr>rn_status := Succeeded, rn_output := output, rn_error := None, rn_finishedAt := Some (clk 0)\<rparr>
          in (Some updated, s\<lparr>ws_runs := jset (rn_id updated) updated (ws_runs s)\<rparr>))"

definition markWorkflowRunFailed :: "clock \<Rightarrow> string \<Rightarrow> string \<Rightarrow> string \<Rightarrow> string \<Rightarrow> wf_store
    \<Rightarrow> run_rec option \<times> wf_store" where
  "markWorkflowRunFailed clk org workflowId runId err s =
     (case getWorkflowRunById org workflowId runId s of
        None \<Rightarrow> (None, s)
      | Some r \<Rightarrow>
          let updated = r\<lparr>rn_status := Failed, rn_error := Some err, rn_finishedAt := Some (clk 0)\<rparr>
          in (Some updated, s\<lparr>ws_runs := jset (rn_id updated) updated (ws_runs s)\<rparr>))"

end
