(* ===== verification/WorkflowTenancy.thy ===== *)
theory WorkflowTenancy
  imports StoreWorkflows
begin

text \<open>
  The operations of the workflow store as one step function, the invariant of the store, and the
  store as an instance of the tenancy contract.
\<close>

record wf_env =
  we_lc :: "string \<Rightarrow> string \<Rightarrow> int"
  we_parse :: "json \<Rightarrow> wf_dsl_any option"
  we_sha :: "string \<Rightarrow> string"

datatype wf_call =
    CreateShareInvitation string string string "int option"
  | ListShareInvitations string "share_inv_status option" "int option"
  | GetShareInvitationByToken string
  | AcceptShareInvitation string string string
  | ListShares string bool "int option"
  | RevokeShare string string
  | CreateWorkflow string json string
  | CreateDraft string string
  | ListWorkflows int cursor
  | ListRevisions string int
  | GetWorkflow string
  | UpdateDraft string "string option" "json option" "json option"
  | PublishWorkflow string
  | SyncTriggers string string int json
  | ListTriggers "string option" "int option"
  | PatchTrigger string bool
  | ListApprovals "approval_status option" int cursor
  | GetApproval string
  | DecideApproval string string approval_status "string option"
  | GetRunByBlockedRequest string
  | ClearRunBlock string string string
  | CountRuns "string list"
  | CreateRun string run_trigger string "json option" "int option" "string option" "timestamp option" "string option"
  | ListRuns string int cursor
  | GetRun string string
  | AppendRunEvent string string int string "string option" "string option" event_level "string option" "json option"
  | ListRunEvents string string int cursor
  | DeleteQueuedRun string string
  | MarkRunning string string "int option"
  | MarkQueuedForRetry string string string
  | MarkSucceeded string string json
  | MarkFailed string string string

datatype wf_out =
    RetShareInv "wf_error + share_inv"
  | RetShareInvs "share_inv list"
  | RetShareInvOpt "share_inv option"
  | RetAccepted "wf_error + share_inv \<times> share_rec \<times> workflow_rec"
  | RetShares "share_rec list"
  | RetShareOpt "share_rec option"
  | RetWorkflow workflow_rec
  | RetWorkflowOpt "workflow_rec option"
  | RetWorkflowPage "workflow_rec list \<times> cursor"
  | RetWorkflows "workflow_rec list"
  | RetSynced "wf_error + trigger_sub list"
  | RetSubs "trigger_sub list"
  | RetSubOpt "trigger_sub option"
  | RetApprovalPage "approval_req list \<times> cursor"
  | RetApprovalOpt "approval_req option"
  | RetRunOpt "run_rec option"
  | RetRunCount nat
  | RetRun "wf_error + run_rec"
  | RetRunPage "run_rec list \<times> cursor"
  | RetRunEvent run_event
  | RetRunEventPage "run_event list \<times> cursor"
  | RetRunDeleted bool

record wf_op =
  wo_org :: string
  wo_call :: wf_call
  wo_clk :: clock
  wo_uid :: uuids

fun ws_call :: "wf_env \<Rightarrow> string \<Rightarrow> clock \<Rightarrow> uuids \<Rightarrow> wf_call \<Rightarrow> wf_store \<Rightarrow> wf_out \<times> wf_store" where
  "ws_call env org clk uid (CreateShareInvitation w a e t) s =
     map_prod RetShareInv id (createWorkflowShareInvitation clk uid org w a e t s)"
| "ws_call env org clk uid (ListShareInvitations w st n) s =
     (RetShareInvs (listWorkflowShareInvitations (we_lc env) org w st n s), s)"
| "ws_call env org clk uid (GetShareInvitationByToken t) s =
     (RetShareInvOpt (getWorkflowShareInvitationByToken org t s), s)"
| "ws_call env org clk uid (AcceptShareInvitation t u e) s =
     map_prod RetAccepted id (acceptWorkflowShareInvitation clk uid org t u e s)"
| "ws_call env org clk uid (ListShares w r n) s = (RetShares (listWorkflowShares (we_lc env) org w r n s), s)"
| "ws_call env org clk uid (RevokeShare w i) s = map_prod RetShareOpt id (revokeWorkflowShare clk org w i s)"
| "ws_call env org clk uid (CreateWorkflow n d a) s =
     map_prod RetWorkflow id (createWorkflow clk uid org n d a s)"
| "ws_call env org clk uid (CreateDraft w a) s =
     map_prod RetWorkflowOpt id (createWorkflowDraftFromWorkflow clk uid org w a s)"
| "ws_call env org clk uid (ListWorkflows n c) s = (RetWorkflowPage (listWorkflows (we_lc env) org n c s), s)"
| "ws_call env org clk uid (ListRevisions w n) s = (RetWorkflows (listWorkflowRevisions org w n s), s)"
| "ws_call env org clk uid (GetWorkflow w) s = (RetWorkflowOpt (getWorkflowById org w s), s)"
| "ws_call env org clk uid (UpdateDraft w n d e) s =
     map_prod RetWorkflowOpt id (updateWorkflowDraft clk org w n d e s)"
| "ws_call env org clk uid (PublishWorkflow w) s = map_prod RetWorkflowOpt id (publishWorkflow clk org w s)"
| "ws_call env org clk uid (SyncTriggers w a r d) s = map_prod RetSynced id
     (syncWorkflowTriggerSubscriptions (we_parse env) (we_sha env) clk uid org w a r d s)"
| "ws_call env org clk uid (ListTriggers w n) s = (RetSubs (listWorkflowTriggerSubscriptions org w n s), s)"
| "ws_call env org clk uid (PatchTrigger i b) s =
     map_prod RetSubOpt id (patchWorkflowTriggerSubscription clk org i b s)"
| "ws_call env org clk uid (ListApprovals st n c) s =
     (RetApprovalPage (listWorkflowApprovalRequests (we_lc env) org st n c s), s)"
| "ws_call env org clk uid (GetApproval i) s = (RetApprovalOpt (getWorkflowApprovalRequestById org i s), s)"
| "ws_call env org clk uid (DecideApproval a i st n) s =
     map_prod RetApprovalOpt id (decideWorkflowApprovalRequest clk org a i st n s)"
| "ws_call env org clk uid (GetRunByBlockedRequest i) s =
     (RetRunOpt (getWorkflowRunByBlockedRequestId org i s), s)"
| "ws_call env org clk uid (ClearRunBlock w r i) s = map_prod RetRunOpt id (clearWorkflowRunBlock org w r i s)"
| "ws_call env org clk uid (CountRuns st) s = (RetRunCount (countWorkflowRunsByStatuses org st s), s)"
| "ws_call env org clk uid (CreateRun w t a i m k at src) s =
     map_prod RetRun id (createWorkflowRun clk uid org w t a i m k at src s)"
| "ws_call env org clk uid (ListRuns w n c) s = (RetRunPage (listWorkflowRuns (we_lc env) org w n c s), s)"
| "ws_call env org clk uid (GetRun w r) s = (RetRunOpt (getWorkflowRunById org w r s), s)"
| "ws_call env org clk uid (AppendRunEvent w r n t i ty l m p) s =
     map_prod RetRunEvent id (appendWorkflowRunEvent clk uid org w r n t i ty l m p s)"
| "ws_call env org clk uid (ListRunEvents w r n c) s =
     (RetRunEventPage (listWorkflowRunEvents (we_lc env) org w r n c s), s)"
| "ws_call env org clk uid (DeleteQueuedRun w r) s = map_prod RetRunDeleted id (deleteQueuedWorkflowRun org w r s)"
| "ws_call env org clk uid (MarkRunning w r n) s = map_prod RetRunOpt id (markWorkflowRunRunning clk org w r n s)"
| "ws_call env org clk uid (MarkQueuedForRetry w r e) s =
     map_prod RetRunOpt id (markWorkflowRunQueuedForRetry org w r e s)"
| "ws_call env org clk uid (MarkSucceeded w r out) s =
     map_prod RetRunOpt id (markWorkflowRunSucceeded clk org w r out s)"
| "ws_call env org clk uid (MarkFailed w r e) s = map_prod RetRunOpt id (markWorkflowRunFailed clk org w r e s)"

definition ws_step :: "wf_env \<Rightarrow> wf_op \<Rightarrow> wf_store \<Rightarrow> wf_out \<times> wf_store" where
  "ws_step env a = ws_call env (wo_org a) (wo_clk a) (wo_uid a) (wo_call a)"

definition ws_mints :: "wf_op \<Rightarrow> string list" where
  \<comment> \<open>every creating operation stores its row under its first new identifier\<close>
  "ws_mints a = [wo_uid a 0]"

definition ws_ids :: "wf_store \<Rightarrow> string set" where
  "ws_ids s = set (jkeys (ws_workflows s)) \<union> set (jkeys (ws_runs s)) \<union> set (jkeys (ws_shareInvs s))
     \<union> set (jkeys (ws_shares s)) \<union> set (jkeys (ws_subs s)) \<union> set (jkeys (ws_approvals s))
     \<union> set (jkeys (ws_events s))"

definition ws_inv :: "wf_store \<Rightarrow> bool" where
  "ws_inv s \<longleftrightarrow> keyed wk_id (ws_workflows s) \<and> keyed rn_id (ws_runs s) \<and> keyed si_id (ws_shareInvs s)
     \<and> keyed sh_id (ws_shares s) \<and> keyed ts_id (ws_subs s) \<and> keyed aq_id (ws_approvals s)
     \<and> keyed re_id (ws_events s)"

definition ws_restr :: "string \<Rightarrow> wf_store \<Rightarrow> wf_store" where
  \<comment> \<open>the rows of one organization; the index of webhook tokens is shared and not part of it\<close>
  "ws_restr org s = \<lparr>ws_workflows = org_rows wk_organizationId org (ws_workflows s),
     ws_runs = org_rows rn_organizationId org (ws_runs s),
     ws_shareInvs = org_rows si_organizationId org (ws_shareInvs s),
     ws_shares = org_rows sh_organizationId org (ws_shares s),
     ws_subs = org_rows ts_organizationId org (ws_subs s), ws_subByTokenHash = [],
     ws_approvals = org_rows aq_organizationId org (ws_approvals s),
     ws_events = org_rows re_organizationId org (ws_events s)\<rparr>"

lemma ws_restr_simps [simp]:
  "ws_workflows (ws_restr org s) = org_rows wk_organizationId org (ws_workflows s)"
  "ws_runs (ws_restr org s) = org_rows rn_organizationId org (ws_runs s)"
  "ws_shareInvs (ws_restr org s) = org_rows si_organizationId org (ws_shareInvs s)"
  "ws_shares (ws_restr org s) = org_rows sh_organizationId org (ws_shares s)"
  "ws_subs (ws_restr org s) = org_rows ts_organizationId org (ws_subs s)"
  "ws_approvals (ws_restr org s) = org_rows aq_organizationId org (ws_approvals s)"
  "ws_events (ws_restr org s) = org_rows re_organizationId org (ws_events s)"
  by (simp_all add: ws_restr_def)

section \<open>What one operation does to the tables\<close>

definition ws_ok :: "string \<Rightarrow> string set \<Rightarrow> wf_store \<Rightarrow> wf_store \<Rightarrow> bool" where
  "ws_ok org X s s' \<longleftrightarrow>
     table_step wk_id wk_organizationId org X (ws_workflows s) (ws_workflows s')
     \<and> table_step rn_id rn_organizationId org X (ws_runs s) (ws_runs s')
     \<and> table_step si_id si_organizationId org X (ws_shareInvs s) (ws_shareInvs s')
     \<and> table_step sh_id sh_organizationId org X (ws_shares s) (ws_shares s')
     \<and> table_step ts_id ts_organizationId org X (ws_subs s) (ws_subs s')
     \<and> table_step aq_id aq_organizationId org X (ws_approvals s) (ws_approvals s')
     \<and> table_step re_id re_organizationId org X (ws_events s) (ws_events s')"

lemma ws_ok_refl [simp, intro]: "ws_inv s \<Longrightarrow> ws_ok org X s s"
  by (simp add: ws_ok_def ws_inv_def)

lemma ws_ok_inv: "ws_ok org X s s' \<Longrightarrow> ws_inv s'"
  by (simp add: ws_ok_def table_step_def ws_inv_def)

lemma ws_ok_ids: "ws_ok org X s s' \<Longrightarrow> ws_ids s' \<subseteq> ws_ids s \<union> X"
  by (auto simp: ws_ok_def ws_ids_def dest: table_step_keyD)

lemma ws_ok_others: "ws_ok org X s s' \<Longrightarrow> o' \<noteq> org \<Longrightarrow> ws_restr o' s' = ws_restr o' s"
  by (simp add: ws_ok_def table_step_def ws_restr_def)

lemma ws_ok_trans: "ws_ok org X s s' \<Longrightarrow> ws_ok org X s' s'' \<Longrightarrow> ws_ok org X s s''"
  unfolding ws_ok_def by (meson table_step_trans)

lemma revokeActive_keys: "jkeys (fst (revokeActive P clk j m)) = jkeys m"
  by (induction P clk j m rule: revokeActive.induct) (auto split: prod.splits)

lemma revokeActive_table_step:
  assumes "keyed sh_id m" "\<And>sh. P sh \<Longrightarrow> sh_organizationId sh = org"
  shows "table_step sh_id sh_organizationId org X m (fst (revokeActive P clk j m))"
proof -
  have ids: "(\<forall>e \<in> set m. sh_id (snd e) = fst e) \<Longrightarrow>
      (\<forall>e \<in> set (fst (revokeActive P clk j m)). sh_id (snd e) = fst e)" for j
    by (induction P clk j m rule: revokeActive.induct) (auto split: prod.splits)
  have "org_rows sh_organizationId o' (fst (revokeActive P clk j m)) = org_rows sh_organizationId o' m"
    if "o' \<noteq> org" for o'
    using assms(2) that
    by (induction P clk j m rule: revokeActive.induct) (auto simp: org_rows_def split: prod.splits)
  then show ?thesis using assms(1) revokeActive_keys ids by (simp add: table_step_def keyed_def wf_map_def)
qed

lemma addSubscriptions_ok:
  assumes "ws_inv s" "uid j \<notin> set (jkeys (ws_subs s))" "length specs \<le> 1" "uid j \<in> X"
  shows "ws_ok org X s (snd (addSubscriptions now uid j org w a r specs s))"
proof (cases specs)
  case Nil
  then show ?thesis using assms by simp
next
  case (Cons spec rest)
  then have "rest = []" using assms(3) by simp
  with Cons assms show ?thesis
    by (auto simp: ws_ok_def ws_inv_def Let_def intro!: table_step_fresh split: trigger_spec.splits)
qed

lemma derive_length: "length (deriveTriggerSubscriptions sha t) \<le> 1"
  by (cases t) auto

end
