(* ===== verification/WorkflowIsolation.thy ===== *)
theory WorkflowIsolation
  imports WorkflowTenancy
begin

text \<open>
  Every operation of the workflow store stays within the rows of its organization, and reads
  nothing else: the store is a \<open>filtered_store\<close>.
\<close>

named_theorems ws_defs
  \<comment> \<open>definitions of the operations that change the workflow store\<close>

lemmas [ws_defs] = createWorkflowShareInvitation_def acceptWorkflowShareInvitation_def revokeWorkflowShare_def
  createWorkflow_def createWorkflowDraftFromWorkflow_def updateWorkflowDraft_def publishWorkflow_def
  syncWorkflowTriggerSubscriptions_def patchWorkflowTriggerSubscription_def decideWorkflowApprovalRequest_def
  clearWorkflowRunBlock_def createWorkflowRun_def appendWorkflowRunEvent_def deleteQueuedWorkflowRun_def
  markWorkflowRunRunning_def markWorkflowRunQueuedForRetry_def markWorkflowRunSucceeded_def
  markWorkflowRunFailed_def

lemma ws_ok_upd:
  assumes "ws_inv s"
  shows "table_step wk_id wk_organizationId org X (ws_workflows s) m1 \<Longrightarrow> ws_ok org X s (s\<lparr>ws_workflows := m1\<rparr>)"
    and "table_step rn_id rn_organizationId org X (ws_runs s) m2 \<Longrightarrow> ws_ok org X s (s\<lparr>ws_runs := m2\<rparr>)"
    and "table_step si_id si_organizationId org X (ws_shareInvs s) m3 \<Longrightarrow> ws_ok org X s (s\<lparr>ws_shareInvs := m3\<rparr>)"
    and "table_step sh_id sh_organizationId org X (ws_shares s) m4 \<Longrightarrow> ws_ok org X s (s\<lparr>ws_shares := m4\<rparr>)"
    and "table_step ts_id ts_organizationId org X (ws_subs s) m5 \<Longrightarrow> ws_ok org X s (s\<lparr>ws_subs := m5\<rparr>)"
    and "table_step aq_id aq_organizationId org X (ws_approvals s) m6 \<Longrightarrow> ws_ok org X s (s\<lparr>ws_approvals := m6\<rparr>)"
    and "table_step re_id re_organizationId org X (ws_events s) m7 \<Longrightarrow> ws_ok org X s (s\<lparr>ws_events := m7\<rparr>)"
  using assms by (simp_all add: ws_ok_def ws_inv_def)

lemma ws_inv_keyed:
  "ws_inv s \<Longrightarrow> keyed wk_id (ws_workflows s)" "ws_inv s \<Longrightarrow> keyed rn_id (ws_runs s)"
  "ws_inv s \<Longrightarrow> keyed si_id (ws_shareInvs s)" "ws_inv s \<Longrightarrow> keyed sh_id (ws_shares s)"
  "ws_inv s \<Longrightarrow> keyed ts_id (ws_subs s)" "ws_inv s \<Longrightarrow> keyed aq_id (ws_approvals s)"
  "ws_inv s \<Longrightarrow> keyed re_id (ws_events s)"
  by (simp_all add: ws_inv_def)

lemma ws_fresh:
  "k \<notin> ws_ids s \<Longrightarrow> k \<notin> set (jkeys (ws_workflows s))" "k \<notin> ws_ids s \<Longrightarrow> k \<notin> set (jkeys (ws_runs s))"
  "k \<notin> ws_ids s \<Longrightarrow> k \<notin> set (jkeys (ws_shareInvs s))" "k \<notin> ws_ids s \<Longrightarrow> k \<notin> set (jkeys (ws_shares s))"
  "k \<notin> ws_ids s \<Longrightarrow> k \<notin> set (jkeys (ws_subs s))" "k \<notin> ws_ids s \<Longrightarrow> k \<notin> set (jkeys (ws_approvals s))"
  "k \<notin> ws_ids s \<Longrightarrow> k \<notin> set (jkeys (ws_events s))"
  by (simp_all add: ws_ids_def)

lemma getWorkflowRunById_iff:
  "getWorkflowRunById org w r s = Some x \<longleftrightarrow>
     scoped_get rn_organizationId (ws_runs s) org r = Some x \<and> rn_workflowId x = w"
  by (auto simp: getWorkflowRunById_def split: option.splits)

lemma getWorkflowRunById_org: "getWorkflowRunById org w r s = Some x \<Longrightarrow> rn_organizationId x = org"
  by (auto simp: getWorkflowRunById_iff dest: scoped_getD)

lemma keyed_scopedD:
  assumes "ws_inv s"
  shows "scoped_get wk_organizationId (ws_workflows s) org k = Some a1 \<Longrightarrow>
      jget (ws_workflows s) k = Some a1 \<and> wk_organizationId a1 = org \<and> wk_id a1 = k"
    and "scoped_get rn_organizationId (ws_runs s) org k = Some a2 \<Longrightarrow>
      jget (ws_runs s) k = Some a2 \<and> rn_organizationId a2 = org \<and> rn_id a2 = k"
    and "scoped_get sh_organizationId (ws_shares s) org k = Some a3 \<Longrightarrow>
      jget (ws_shares s) k = Some a3 \<and> sh_organizationId a3 = org \<and> sh_id a3 = k"
    and "scoped_get ts_organizationId (ws_subs s) org k = Some a4 \<Longrightarrow>
      jget (ws_subs s) k = Some a4 \<and> ts_organizationId a4 = org \<and> ts_id a4 = k"
    and "scoped_get aq_organizationId (ws_approvals s) org k = Some a5 \<Longrightarrow>
      jget (ws_approvals s) k = Some a5 \<and> aq_organizationId a5 = org \<and> aq_id a5 = k"
  using assms scoped_get_keyed [of wk_id "ws_workflows s" wk_organizationId org k a1]
    scoped_get_keyed [of rn_id "ws_runs s" rn_organizationId org k a2]
    scoped_get_keyed [of sh_id "ws_shares s" sh_organizationId org k a3]
    scoped_get_keyed [of ts_id "ws_subs s" ts_organizationId org k a4]
    scoped_get_keyed [of aq_id "ws_approvals s" aq_organizationId org k a5]
  by (auto simp: ws_inv_def)

lemma createInvitation_ok:
  "ws_inv s \<Longrightarrow> uid 0 \<notin> ws_ids s \<Longrightarrow>
     ws_ok org {uid 0} s (snd (createWorkflowShareInvitation clk uid org w a e t s))"
  by (auto simp: createWorkflowShareInvitation_def Let_def ws_inv_keyed(3) ws_fresh(3) intro!: ws_ok_upd(3) table_step_fresh split: option.splits)

lemma revokeShare_ok: "ws_inv s \<Longrightarrow> ws_ok org X s (snd (revokeWorkflowShare clk org w i s))"
  by (auto simp: revokeWorkflowShare_def Let_def ws_inv_keyed(4) dest: keyed_scopedD(3) intro!: ws_ok_upd(4) table_step_own split: option.splits)

lemma createWorkflow_ok:
  "ws_inv s \<Longrightarrow> uid 0 \<notin> ws_ids s \<Longrightarrow> ws_ok org {uid 0} s (snd (createWorkflow clk uid org n d a s))"
  by (auto simp: createWorkflow_def Let_def ws_inv_keyed(1) ws_fresh(1) intro!: ws_ok_upd(1) table_step_fresh)

lemma createDraft_ok:
  "ws_inv s \<Longrightarrow> uid 0 \<notin> ws_ids s \<Longrightarrow>
     ws_ok org {uid 0} s (snd (createWorkflowDraftFromWorkflow clk uid org w a s))"
  by (auto simp: createWorkflowDraftFromWorkflow_def Let_def ws_inv_keyed(1) ws_fresh(1) intro!: ws_ok_upd(1) table_step_fresh split: option.splits)

lemma updateDraft_ok: "ws_inv s \<Longrightarrow> ws_ok org X s (snd (updateWorkflowDraft clk org w n d e s))"
  by (auto simp: updateWorkflowDraft_def getWorkflowById_def Let_def ws_inv_keyed(1) dest: keyed_scopedD(1)
      intro!: ws_ok_upd(1) table_step_own split: option.splits)

lemma publish_ok: "ws_inv s \<Longrightarrow> ws_ok org X s (snd (publishWorkflow clk org w s))"
  by (auto simp: publishWorkflow_def getWorkflowById_def Let_def ws_inv_keyed(1) dest: keyed_scopedD(1)
      intro!: ws_ok_upd(1) table_step_own split: option.splits)

lemma patchTrigger_ok: "ws_inv s \<Longrightarrow> ws_ok org X s (snd (patchWorkflowTriggerSubscription clk org i b s))"
  by (auto simp: patchWorkflowTriggerSubscription_def Let_def ws_inv_keyed(5) dest: keyed_scopedD(4) intro!: ws_ok_upd(5) table_step_own split: option.splits)

lemma decide_ok: "ws_inv s \<Longrightarrow> ws_ok org X s (snd (decideWorkflowApprovalRequest clk org a i st n s))"
  by (auto simp: decideWorkflowApprovalRequest_def Let_def ws_inv_keyed(6) dest: keyed_scopedD(5) intro!: ws_ok_upd(6) table_step_own split: option.splits)

lemma createRun_ok:
  "ws_inv s \<Longrightarrow> uid 0 \<notin> ws_ids s \<Longrightarrow>
     ws_ok org {uid 0} s (snd (createWorkflowRun clk uid org w t a i m k at src s))"
  by (auto simp: createWorkflowRun_def Let_def ws_inv_keyed(2) ws_fresh(2) intro!: ws_ok_upd(2) table_step_fresh)

lemma appendEvent_ok:
  "ws_inv s \<Longrightarrow> uid 0 \<notin> ws_ids s \<Longrightarrow>
     ws_ok org {uid 0} s (snd (appendWorkflowRunEvent clk uid org w r n t i ty l m p s))"
  by (auto simp: appendWorkflowRunEvent_def Let_def ws_inv_keyed(7) ws_fresh(7) intro!: ws_ok_upd(7) table_step_fresh)

lemma run_row_ok:
  assumes "ws_inv s" "getWorkflowRunById org w r s = Some x" "rn_id x' = rn_id x" "rn_organizationId x' = org"
  shows "ws_ok org X s (s\<lparr>ws_runs := jset (rn_id x) x' (ws_runs s)\<rparr>)"
  using assms keyed_scopedD(2) [OF assms(1), of org r x] unfolding getWorkflowRunById_iff
  by (intro ws_ok_upd table_step_own [where r = x]) (auto simp: ws_inv_keyed)

lemma run_marks_ok:
  assumes "ws_inv s"
  shows "ws_ok org X s (snd (clearWorkflowRunBlock org w r i s))
    \<and> ws_ok org X s (snd (markWorkflowRunRunning clk org w r n s))
    \<and> ws_ok org X s (snd (markWorkflowRunQueuedForRetry org w r e s))
    \<and> ws_ok org X s (snd (markWorkflowRunSucceeded clk org w r out s))
    \<and> ws_ok org X s (snd (markWorkflowRunFailed clk org w r e s))"
proof (cases "getWorkflowRunById org w r s")
  case None
  then show ?thesis using assms by (simp add: ws_defs)
next
  case (Some x)
  show ?thesis
    using assms by (simp add: ws_defs Some Let_def run_row_ok [OF assms Some] getWorkflowRunById_org [OF Some])
qed

lemma deleteRun_ok: "ws_inv s \<Longrightarrow> ws_ok org X s (snd (deleteQueuedWorkflowRun org w r s))"
  by (auto simp: ws_defs getWorkflowRunById_iff ws_inv_keyed dest: keyed_scopedD
      intro!: ws_ok_upd table_step_del split: option.splits)

lemma accept_ok:
  assumes "ws_inv s" "uid 0 \<notin> ws_ids s"
  shows "ws_ok org {uid 0} s (snd (acceptWorkflowShareInvitation clk uid org t u e s))"
proof (cases "getWorkflowShareInvitationByToken org t s")
  case None
  then show ?thesis using assms by (simp add: ws_defs)
next
  case (Some i)
  then have i: "i \<in> set (jvalues (ws_shareInvs s))" and io: "si_organizationId i = org"
    by (auto simp: getWorkflowShareInvitationByToken_def find_Some_iff in_set_conv_nth)
  have gi: "jget (ws_shareInvs s) (si_id i) = Some i"
    using i ws_inv_keyed(3) [OF assms(1)] by (auto simp: jvalues_def keyed_def intro!: in_set_jget)
  let ?P = "\<lambda>sh. sh_organizationId sh = si_organizationId i \<and> sh_workflowId sh = si_workflowId i
      \<and> sh_userId sh = u \<and> sh_revokedAt sh = None"
  have rev: "table_step sh_id sh_organizationId org {uid 0} (ws_shares s) (fst (revokeActive ?P clk 2 (ws_shares s)))"
    using io by (intro revokeActive_table_step ws_inv_keyed assms(1)) auto
  have shares: "table_step sh_id sh_organizationId org {uid 0} (ws_shares s)
      (jset (uid 0) r (fst (revokeActive ?P clk 2 (ws_shares s))))"
    if "sh_id r = uid 0" "sh_organizationId r = org" for r
  proof (rule table_step_trans [OF rev])
    have "uid 0 \<notin> set (jkeys (fst (revokeActive ?P clk 2 (ws_shares s))))"
      using revokeActive_keys ws_fresh(4) [OF assms(2)] by metis
    then show "table_step sh_id sh_organizationId org {uid 0} (fst (revokeActive ?P clk 2 (ws_shares s)))
      (jset (uid 0) r (fst (revokeActive ?P clk 2 (ws_shares s))))"
      using rev that by (intro table_step_fresh) (auto simp: table_step_def)
  qed
  have invs: "table_step si_id si_organizationId org {uid 0} (ws_shareInvs s) (jset (si_id i) i' (ws_shareInvs s))"
    if "si_id i' = si_id i" "si_organizationId i' = org" for i'
    using gi io that by (intro table_step_own ws_inv_keyed assms(1)) auto
  show ?thesis
    using Some assms shares invs io
    by (auto simp: ws_defs Let_def ws_ok_def ws_inv_keyed case_prod_beta split: option.splits)
qed

lemma sync_ok:
  assumes "ws_inv s" "uid 0 \<notin> ws_ids s"
  shows "ws_ok org {uid 0} s (snd (syncWorkflowTriggerSubscriptions parse sha clk uid org w a r d s))"
proof -
  let ?subs = "filter (\<lambda>e. \<not> (ts_organizationId (snd e) = org \<and> ts_workflowId (snd e) = w)) (ws_subs s)"
  let ?s1 = "s\<lparr>ws_subs := ?subs, ws_subByTokenHash := filter (\<lambda>e. jget ?subs (snd e) \<noteq> None) (ws_subByTokenHash s)\<rparr>"
  have f: "table_step ts_id ts_organizationId org {uid 0} (ws_subs s) ?subs"
    by (rule table_step_filter [OF ws_inv_keyed(5) [OF assms(1)]]) auto
  then have s1: "ws_ok org {uid 0} s ?s1" using assms(1) by (simp add: ws_ok_def ws_inv_keyed)
  have "uid 0 \<notin> set (jkeys (ws_subs ?s1))"
    using ws_fresh(5) [OF assms(2)] keys_filter_subset [of _ "ws_subs s"] by auto
  then have "ws_ok org {uid 0} ?s1 (snd (addSubscriptions (clk 0) uid 0 org w a r
      (deriveTriggerSubscriptions sha (dsl_trigger x)) ?s1))" for x
    using derive_length ws_ok_inv [OF s1] by (intro addSubscriptions_ok) auto
  then have "ws_ok org {uid 0} s (snd (addSubscriptions (clk 0) uid 0 org w a r
      (deriveTriggerSubscriptions sha (dsl_trigger x)) ?s1))" for x
    using s1 ws_ok_trans by blast
  then show ?thesis
    using s1 by (simp add: syncWorkflowTriggerSubscriptions_def Let_def case_prod_beta split: option.split)
qed

lemma ws_step_ok:
  assumes "ws_inv s" "uid 0 \<notin> ws_ids s"
  shows "ws_ok org {uid 0} s (snd (ws_call env org clk uid call s))"
  using assms
  by (cases call) (simp_all add: createInvitation_ok revokeShare_ok createWorkflow_ok createDraft_ok
      updateDraft_ok publish_ok patchTrigger_ok decide_ok createRun_ok appendEvent_ok run_marks_ok
      deleteRun_ok accept_ok sync_ok)

section \<open>What one operation reads\<close>

lemma ws_restr_upd [simp]:
  "ws_restr org (s\<lparr>ws_workflows := m1\<rparr>) = (ws_restr org s)\<lparr>ws_workflows := org_rows wk_organizationId org m1\<rparr>"
  "ws_restr org (s\<lparr>ws_runs := m2\<rparr>) = (ws_restr org s)\<lparr>ws_runs := org_rows rn_organizationId org m2\<rparr>"
  "ws_restr org (s\<lparr>ws_shareInvs := m3\<rparr>) = (ws_restr org s)\<lparr>ws_shareInvs := org_rows si_organizationId org m3\<rparr>"
  "ws_restr org (s\<lparr>ws_shares := m4\<rparr>) = (ws_restr org s)\<lparr>ws_shares := org_rows sh_organizationId org m4\<rparr>"
  "ws_restr org (s\<lparr>ws_subs := m5\<rparr>) = (ws_restr org s)\<lparr>ws_subs := org_rows ts_organizationId org m5\<rparr>"
  "ws_restr org (s\<lparr>ws_approvals := m6\<rparr>) = (ws_restr org s)\<lparr>ws_approvals := org_rows aq_organizationId org m6\<rparr>"
  "ws_restr org (s\<lparr>ws_events := m7\<rparr>) = (ws_restr org s)\<lparr>ws_events := org_rows re_organizationId org m7\<rparr>"
  "ws_restr org (s\<lparr>ws_subByTokenHash := m8\<rparr>) = ws_restr org s"
  by (simp_all add: ws_restr_def)

lemma ws_restr_idem [simp]: "ws_restr org (ws_restr org s) = ws_restr org s"
  by (simp add: ws_restr_def)

lemma list_ex_filter: "list_ex P (filter Q xs) \<longleftrightarrow> list_ex (\<lambda>x. Q x \<and> P x) xs"
  by (auto simp: list_ex_iff)

lemma find_filter_conj: "find P (filter Q xs) = find (\<lambda>x. Q x \<and> P x) xs"
  by (induction xs) auto

lemmas restr_rows = jvalues_org_rows list_ex_filter find_filter_conj filter_filter

definition ws_local :: "string \<Rightarrow> (wf_store \<Rightarrow> 'a \<times> wf_store) \<Rightarrow> wf_store \<Rightarrow> bool" where
  \<comment> \<open>an operation answers, and changes the organization's rows, as it would in the restricted store\<close>
  "ws_local org f s \<longleftrightarrow> fst (f s) = fst (f (ws_restr org s))
     \<and> ws_restr org (snd (f s)) = ws_restr org (snd (f (ws_restr org s)))"

lemma ws_local_ret: "ws_local org f s \<Longrightarrow> ws_local org (\<lambda>t. map_prod g id (f t)) s"
  by (simp add: ws_local_def)

lemma ws_local_pure: "f s = f (ws_restr org s) \<Longrightarrow> ws_local org (\<lambda>t. (f t, t)) s"
  by (simp add: ws_local_def)

named_theorems ws_reads
  \<comment> \<open>reading the tables of the restricted store\<close>

lemma ws_scoped_reads [ws_reads]:
  assumes "ws_inv s"
  shows "scoped_get wk_organizationId (org_rows wk_organizationId org (ws_workflows s)) org k
       = scoped_get wk_organizationId (ws_workflows s) org k"
    "scoped_get sh_organizationId (org_rows sh_organizationId org (ws_shares s)) org k
       = scoped_get sh_organizationId (ws_shares s) org k"
    "scoped_get ts_organizationId (org_rows ts_organizationId org (ws_subs s)) org k
       = scoped_get ts_organizationId (ws_subs s) org k"
    "scoped_get aq_organizationId (org_rows aq_organizationId org (ws_approvals s)) org k
       = scoped_get aq_organizationId (ws_approvals s) org k"
    "scoped_get rn_organizationId (org_rows rn_organizationId org (ws_runs s)) org k
       = scoped_get rn_organizationId (ws_runs s) org k"
  using ws_inv_keyed [OF assms] by (metis scoped_get_org_rows)+

lemma ws_getRun_restr [ws_reads]:
  "ws_inv s \<Longrightarrow> getWorkflowRunById org w r (ws_restr org s) = getWorkflowRunById org w r s"
  by (simp add: getWorkflowRunById_def ws_reads)

lemma ws_set_own:
  assumes "ws_inv s"
  shows "jget (ws_workflows s) k = Some a1 \<Longrightarrow> wk_organizationId a1 = org \<Longrightarrow> wk_organizationId v1 = org \<Longrightarrow>
      org_rows wk_organizationId org (jset k v1 (org_rows wk_organizationId org (ws_workflows s)))
        = org_rows wk_organizationId org (jset k v1 (ws_workflows s))"
    and "jget (ws_runs s) k = Some a2 \<Longrightarrow> rn_organizationId a2 = org \<Longrightarrow> rn_organizationId v2 = org \<Longrightarrow>
      org_rows rn_organizationId org (jset k v2 (org_rows rn_organizationId org (ws_runs s)))
        = org_rows rn_organizationId org (jset k v2 (ws_runs s))"
    and "jget (ws_shares s) k = Some a3 \<Longrightarrow> sh_organizationId a3 = org \<Longrightarrow> sh_organizationId v3 = org \<Longrightarrow>
      org_rows sh_organizationId org (jset k v3 (org_rows sh_organizationId org (ws_shares s)))
        = org_rows sh_organizationId org (jset k v3 (ws_shares s))"
    and "jget (ws_subs s) k = Some a4 \<Longrightarrow> ts_organizationId a4 = org \<Longrightarrow> ts_organizationId v4 = org \<Longrightarrow>
      org_rows ts_organizationId org (jset k v4 (org_rows ts_organizationId org (ws_subs s)))
        = org_rows ts_organizationId org (jset k v4 (ws_subs s))"
    and "jget (ws_approvals s) k = Some a5 \<Longrightarrow> aq_organizationId a5 = org \<Longrightarrow> aq_organizationId v5 = org \<Longrightarrow>
      org_rows aq_organizationId org (jset k v5 (org_rows aq_organizationId org (ws_approvals s)))
        = org_rows aq_organizationId org (jset k v5 (ws_approvals s))"
    and "jget (ws_shareInvs s) k = Some a6 \<Longrightarrow> si_organizationId a6 = org \<Longrightarrow> si_organizationId v6 = org \<Longrightarrow>
      org_rows si_organizationId org (jset k v6 (org_rows si_organizationId org (ws_shareInvs s)))
        = org_rows si_organizationId org (jset k v6 (ws_shareInvs s))"
  using ws_inv_keyed [OF assms] by (auto intro: org_rows_set_own)

lemma org_rows_set_fresh:
  assumes "keyed rid m" "k \<notin> set (jkeys m)" "rorg v = org"
  shows "org_rows rorg org (jset k v (org_rows rorg org m)) = org_rows rorg org (jset k v m)"
  using assms by (intro org_rows_set_own) (auto dest: jget_in_keys)

lemma ws_set_fresh [ws_reads]:
  assumes "ws_inv s" "k \<notin> ws_ids s"
  shows "wk_organizationId v1 = org \<Longrightarrow>
      org_rows wk_organizationId org (jset k v1 (org_rows wk_organizationId org (ws_workflows s)))
        = org_rows wk_organizationId org (jset k v1 (ws_workflows s))"
    and "rn_organizationId v2 = org \<Longrightarrow>
      org_rows rn_organizationId org (jset k v2 (org_rows rn_organizationId org (ws_runs s)))
        = org_rows rn_organizationId org (jset k v2 (ws_runs s))"
    and "si_organizationId v3 = org \<Longrightarrow>
      org_rows si_organizationId org (jset k v3 (org_rows si_organizationId org (ws_shareInvs s)))
        = org_rows si_organizationId org (jset k v3 (ws_shareInvs s))"
    and "re_organizationId v4 = org \<Longrightarrow>
      org_rows re_organizationId org (jset k v4 (org_rows re_organizationId org (ws_events s)))
        = org_rows re_organizationId org (jset k v4 (ws_events s))"
  using ws_inv_keyed [OF assms(1)] ws_fresh [OF assms(2)] by (auto intro: org_rows_set_fresh)

lemma createInvitation_local:
  "ws_inv s \<Longrightarrow> uid 0 \<notin> ws_ids s \<Longrightarrow> ws_local org (createWorkflowShareInvitation clk uid org w a e t) s"
  by (simp add: ws_local_def ws_defs Let_def ws_reads restr_rows cong: conj_cong split: option.split)

lemma createWorkflow_local:
  "ws_inv s \<Longrightarrow> uid 0 \<notin> ws_ids s \<Longrightarrow> ws_local org (createWorkflow clk uid org n d a) s"
  by (simp add: ws_local_def ws_defs Let_def ws_reads)

lemma fold_filter_if: "fold f (filter P xs) z = fold (\<lambda>x a. if P x then f x a else a) xs z"
  by (induction xs arbitrary: z) auto

lemma maxRevision_filter: "maxRevision org f (filter (\<lambda>w. wk_organizationId w = org) ws) = maxRevision org f ws"
  unfolding maxRevision_def fold_filter_if by (intro arg_cong2 [where f = "\<lambda>f xs. fold f xs 0"] ext) auto

lemma createDraft_local:
  "ws_inv s \<Longrightarrow> uid 0 \<notin> ws_ids s \<Longrightarrow> ws_local org (createWorkflowDraftFromWorkflow clk uid org w a) s"
  by (simp add: ws_local_def ws_defs Let_def ws_reads jvalues_org_rows maxRevision_filter split: option.split)

lemma createRun_local:
  "ws_inv s \<Longrightarrow> uid 0 \<notin> ws_ids s \<Longrightarrow> ws_local org (createWorkflowRun clk uid org w t a i m k at src) s"
  by (simp add: ws_local_def ws_defs Let_def ws_reads restr_rows cong: conj_cong)

lemma appendEvent_local:
  "ws_inv s \<Longrightarrow> uid 0 \<notin> ws_ids s \<Longrightarrow> ws_local org (appendWorkflowRunEvent clk uid org w r n t i ty l m p) s"
  by (simp add: ws_local_def ws_defs Let_def ws_reads)

lemma revokeShare_local: "ws_inv s \<Longrightarrow> ws_local org (revokeWorkflowShare clk org w i) s"
proof (cases "scoped_get sh_organizationId (ws_shares s) org i")
  case None
  assume "ws_inv s"
  with None show ?thesis by (simp add: ws_local_def ws_defs ws_reads)
next
  case (Some x)
  assume s: "ws_inv s"
  show ?thesis
    using s keyed_scopedD(3) [OF s Some] ws_set_own(3) [OF s, of i x org]
    by (simp add: ws_local_def ws_defs ws_reads Some Let_def)
qed

lemma draft_ops_local:
  assumes "ws_inv s"
  shows "ws_local org (updateWorkflowDraft clk org w n d e) s \<and> ws_local org (publishWorkflow clk org w) s"
proof (cases "scoped_get wk_organizationId (ws_workflows s) org w")
  case None
  then show ?thesis using assms by (simp add: ws_local_def ws_defs getWorkflowById_def ws_reads)
next
  case (Some x)
  note x = keyed_scopedD(1) [OF assms Some]
  show ?thesis
    using assms x ws_set_own(1) [OF assms, of w x org]
    by (simp add: ws_local_def ws_defs getWorkflowById_def ws_reads Some Let_def)
qed

lemma patchTrigger_local:
  assumes "ws_inv s"
  shows "ws_local org (patchWorkflowTriggerSubscription clk org i b) s"
proof (cases "scoped_get ts_organizationId (ws_subs s) org i")
  case None
  then show ?thesis using assms by (simp add: ws_local_def ws_defs ws_reads)
next
  case (Some x)
  show ?thesis
    using assms keyed_scopedD(4) [OF assms Some] ws_set_own(4) [OF assms, of i x org]
    by (simp add: ws_local_def ws_defs ws_reads Some Let_def)
qed

lemma decide_local:
  assumes "ws_inv s"
  shows "ws_local org (decideWorkflowApprovalRequest clk org a i st n) s"
proof (cases "scoped_get aq_organizationId (ws_approvals s) org i")
  case None
  then show ?thesis using assms by (simp add: ws_local_def ws_defs ws_reads)
next
  case (Some x)
  show ?thesis
    using assms keyed_scopedD(5) [OF assms Some] ws_set_own(5) [OF assms, of i x org]
    by (simp add: ws_local_def ws_defs ws_reads Some Let_def)
qed

lemma run_marks_local:
  assumes "ws_inv s"
  shows "ws_local org (clearWorkflowRunBlock org w r i) s
    \<and> ws_local org (markWorkflowRunRunning clk org w r n) s
    \<and> ws_local org (markWorkflowRunQueuedForRetry org w r e) s
    \<and> ws_local org (markWorkflowRunSucceeded clk org w r out) s
    \<and> ws_local org (markWorkflowRunFailed clk org w r e) s
    \<and> ws_local org (deleteQueuedWorkflowRun org w r) s"
proof (cases "getWorkflowRunById org w r s")
  case None
  then show ?thesis using assms by (simp add: ws_local_def ws_defs ws_reads)
next
  case (Some x)
  then have sx: "scoped_get rn_organizationId (ws_runs s) org r = Some x"
    by (simp add: getWorkflowRunById_iff)
  note x = keyed_scopedD(2) [OF assms sx]
  then have own: "jget (org_rows rn_organizationId org (ws_runs s)) r = Some x"
    using sx ws_inv_keyed(2) [OF assms] by (simp add: jget_org_rows)
  show ?thesis
    using assms x own ws_set_own(2) [OF assms, of r x org]
    by (simp add: ws_local_def ws_defs ws_reads Some Let_def jhas_def)
qed

end
