(* ===== verification/WorkflowStoreProps.thy ===== *)
theory WorkflowStoreProps
  imports WorkflowIsolation
begin

text \<open>
  Properties of the workflow store: noninterference of organizations, complete pagination, single
  use of invitations, one active share per user, immutability of published revisions, unique
  trigger keys, the index of webhook tokens.
\<close>

section \<open>Noninterference\<close>

lemma revokeActive_restr:
  assumes "\<And>sh. P sh \<Longrightarrow> sh_organizationId sh = org"
  shows "fst (revokeActive P clk j (org_rows sh_organizationId org m))
           = org_rows sh_organizationId org (fst (revokeActive P clk j m))
       \<and> snd (revokeActive P clk j (org_rows sh_organizationId org m)) = snd (revokeActive P clk j m)"
proof (induction m arbitrary: j)
  case Nil
  then show ?case by (simp add: org_rows_def)
next
  case (Cons e m)
  obtain k sh where e: "e = (k, sh)" by force
  show ?case
  proof (cases "P sh")
    case True
    with Cons.IH [of "j + 2"] assms show ?thesis by (simp add: e org_rows_def case_prod_beta)
  next
    case False
    with Cons.IH [of j] show ?thesis by (simp add: e org_rows_def case_prod_beta)
  qed
qed

lemma accept_local:
  assumes "ws_inv s" "uid 0 \<notin> ws_ids s"
  shows "ws_local org (acceptWorkflowShareInvitation clk uid org t u e) s"
proof (cases "getWorkflowShareInvitationByToken org t s")
  case None
  moreover from None have "getWorkflowShareInvitationByToken org t (ws_restr org s) = None"
    by (simp add: getWorkflowShareInvitationByToken_def restr_rows cong: conj_cong)
  ultimately show ?thesis using assms by (simp add: ws_local_def ws_defs)
next
  case (Some i)
  then have i: "i \<in> set (jvalues (ws_shareInvs s))" and io: "si_organizationId i = org"
    by (auto simp: getWorkflowShareInvitationByToken_def find_Some_iff in_set_conv_nth)
  have gi: "jget (ws_shareInvs s) (si_id i) = Some i"
    using i ws_inv_keyed(3) [OF assms(1)] by (auto simp: jvalues_def keyed_def intro!: in_set_jget)
  have tok: "getWorkflowShareInvitationByToken org t (ws_restr org s) = Some i"
    using Some by (simp add: getWorkflowShareInvitationByToken_def restr_rows cong: conj_cong)
  define P :: "share_rec \<Rightarrow> bool" where "P = (\<lambda>sh. sh_organizationId sh = org \<and> sh_workflowId sh = si_workflowId i
      \<and> sh_userId sh = u \<and> sh_revokedAt sh = None)"
  have rv: "revokeActive P clk 2 (org_rows sh_organizationId org (ws_shares s))
      = (org_rows sh_organizationId org (fst (revokeActive P clk 2 (ws_shares s))), snd (revokeActive P clk 2 (ws_shares s)))"
    using revokeActive_restr [of P org clk 2 "ws_shares s"] by (simp add: P_def prod_eq_iff)
  have k: "keyed sh_id (fst (revokeActive P clk 2 (ws_shares s)))"
    using revokeActive_table_step [of "ws_shares s" P org] ws_inv_keyed(4) [OF assms(1)]
    by (auto simp: P_def table_step_def)
  have fr: "uid 0 \<notin> set (jkeys (fst (revokeActive P clk 2 (ws_shares s))))"
    using ws_fresh(4) [OF assms(2)] by (simp add: revokeActive_keys)
  show ?thesis
    using assms Some tok io ws_set_own(6) [OF assms(1) gi io]
    by (simp add: ws_local_def acceptWorkflowShareInvitation_def ws_reads Let_def case_prod_beta
        P_def [symmetric] rv org_rows_set_fresh [OF k fr] split: option.split)
qed

lemma org_rows_filter: "org_rows rorg org (filter P m) = filter P (org_rows rorg org m)"
  by (simp add: org_rows_def conj_commute)

lemma addSubscriptions_local:
  assumes "keyed ts_id (ws_subs s)" "uid j \<notin> set (jkeys (ws_subs s))" "length specs \<le> 1"
    and "org_rows ts_organizationId org (ws_subs s) = org_rows ts_organizationId org (ws_subs t)"
    and "ws_restr org s = ws_restr org t" "ws_subs t = org_rows ts_organizationId org (ws_subs s)"
  shows "fst (addSubscriptions now uid j org w a r specs s) = fst (addSubscriptions now uid j org w a r specs t)
    \<and> ws_restr org (snd (addSubscriptions now uid j org w a r specs s))
      = ws_restr org (snd (addSubscriptions now uid j org w a r specs t))"
proof (cases specs)
  case Nil
  then show ?thesis using assms by simp
next
  case (Cons spec rest)
  then have "rest = []" using assms(3) by simp
  with Cons assms show ?thesis
    by (auto simp: Let_def org_rows_set_fresh split: trigger_spec.split)
qed

lemma sync_local:
  assumes "ws_inv s" "uid 0 \<notin> ws_ids s"
  shows "ws_local org (syncWorkflowTriggerSubscriptions parse sha clk uid org w a r d) s"
proof -
  define strip :: "wf_store \<Rightarrow> wf_store" where "strip = (\<lambda>t. let subs = filter (\<lambda>e. \<not> (ts_organizationId (snd e) = org \<and> ts_workflowId (snd e) = w)) (ws_subs t)
    in t\<lparr>ws_subs := subs, ws_subByTokenHash := filter (\<lambda>e. jget subs (snd e) \<noteq> None) (ws_subByTokenHash t)\<rparr>)"
  have eq: "ws_restr org (strip s) = ws_restr org (strip (ws_restr org s))"
    by (simp add: strip_def Let_def org_rows_filter)
  have k: "keyed ts_id (ws_subs (strip s))" using ws_inv_keyed(5) [OF assms(1)] by (simp add: strip_def Let_def keyed_filter)
  have fr: "uid 0 \<notin> set (jkeys (ws_subs (strip s)))"
    using ws_fresh(5) [OF assms(2)] keys_filter_subset [of _ "ws_subs s"] by (auto simp: strip_def Let_def)
  have sub: "ws_subs (strip (ws_restr org s)) = org_rows ts_organizationId org (ws_subs (strip s))"
    by (simp add: strip_def Let_def org_rows_filter)
  have "fst (addSubscriptions (clk 0) uid 0 org w a r specs (strip s))
      = fst (addSubscriptions (clk 0) uid 0 org w a r specs (strip (ws_restr org s)))
    \<and> ws_restr org (snd (addSubscriptions (clk 0) uid 0 org w a r specs (strip s)))
      = ws_restr org (snd (addSubscriptions (clk 0) uid 0 org w a r specs (strip (ws_restr org s))))"
    if "length specs \<le> 1" for specs
    by (intro addSubscriptions_local k fr that eq sub) (simp add: sub)
  moreover have "syncWorkflowTriggerSubscriptions parse sha clk uid org w a r d t =
    (case parse d of None \<Rightarrow> (Inl INVALID_WORKFLOW_DSL, strip t)
     | Some x \<Rightarrow> (case addSubscriptions (clk 0) uid 0 org w a r (deriveTriggerSubscriptions sha (dsl_trigger x)) (strip t) of
         (rs, s2) \<Rightarrow> (Inr rs, s2)))" for t
    unfolding syncWorkflowTriggerSubscriptions_def strip_def Let_def by (rule refl)
  ultimately show ?thesis
    using eq derive_length by (simp add: ws_local_def case_prod_beta split: option.split)
qed

lemma ws_reads_pure:
  assumes "ws_inv s"
  shows "listWorkflowShareInvitations lc org w st n (ws_restr org s) = listWorkflowShareInvitations lc org w st n s"
    and "getWorkflowShareInvitationByToken org t (ws_restr org s) = getWorkflowShareInvitationByToken org t s"
    and "listWorkflowShares lc org w b n (ws_restr org s) = listWorkflowShares lc org w b n s"
    and "listWorkflows lc org m c (ws_restr org s) = listWorkflows lc org m c s"
    and "listWorkflowRevisions org w m (ws_restr org s) = listWorkflowRevisions org w m s"
    and "getWorkflowById org w (ws_restr org s) = getWorkflowById org w s"
    and "listWorkflowTriggerSubscriptions org wo n (ws_restr org s) = listWorkflowTriggerSubscriptions org wo n s"
    and "listWorkflowApprovalRequests lc org ast m c (ws_restr org s) = listWorkflowApprovalRequests lc org ast m c s"
    and "getWorkflowApprovalRequestById org i (ws_restr org s) = getWorkflowApprovalRequestById org i s"
    and "getWorkflowRunByBlockedRequestId org i (ws_restr org s) = getWorkflowRunByBlockedRequestId org i s"
    and "countWorkflowRunsByStatuses org sts (ws_restr org s) = countWorkflowRunsByStatuses org sts s"
    and "listWorkflowRuns lc org w m c (ws_restr org s) = listWorkflowRuns lc org w m c s"
    and "getWorkflowRunById org w r (ws_restr org s) = getWorkflowRunById org w r s"
    and "listWorkflowRunEvents lc org w r m c (ws_restr org s) = listWorkflowRunEvents lc org w r m c s"
  using assms
  by (simp_all add: listWorkflowShareInvitations_def getWorkflowShareInvitationByToken_def listWorkflowShares_def
      listWorkflows_def listWorkflowRevisions_def getWorkflowById_def listWorkflowTriggerSubscriptions_def
      listWorkflowApprovalRequests_def getWorkflowApprovalRequestById_def getWorkflowRunByBlockedRequestId_def
      countWorkflowRunsByStatuses_def listWorkflowRuns_def ws_reads listWorkflowRunEvents_def restr_rows
      cong: conj_cong split: option.split)

lemma ws_local_via: "(\<And>t. f t = map_prod g id (h t)) \<Longrightarrow> ws_local org h s \<Longrightarrow> ws_local org f s"
  by (simp add: ws_local_def)

lemma ws_local_read: "(\<And>t. f t = (g t, t)) \<Longrightarrow> g (ws_restr org s) = g s \<Longrightarrow> ws_local org f s"
  by (simp add: ws_local_def)

lemma ws_call_local:
  assumes "ws_inv s" "uid 0 \<notin> ws_ids s"
  shows "ws_local org (ws_call env org clk uid call) s"
  by (cases call; hypsubst; rule ws_local_via ws_local_read, rule ws_call.simps,
      simp add: assms run_marks_local draft_ops_local createInvitation_local accept_local
      revokeShare_local createWorkflow_local createDraft_local sync_local patchTrigger_local decide_local
      createRun_local appendEvent_local ws_reads_pure)

interpretation wf_tenants: filtered_store "ws_step env" wo_org ws_restr ws_mints ws_ids ws_inv
  for env
proof
  fix s :: wf_store and a :: wf_op and org :: string
  assume inv: "ws_inv s"
  show "ws_inv (ws_restr org s)" using inv by (simp add: ws_inv_def)
next
  fix s org
  show "ws_ids (ws_restr org s) \<subseteq> ws_ids s" by (auto simp: ws_ids_def dest: subsetD [OF keys_org_rows])
next
  fix s a org
  assume inv: "ws_inv s" and fresh: "set (ws_mints a) \<inter> ws_ids s = {}"
  then have f: "wo_uid a 0 \<notin> ws_ids s" by (simp add: ws_mints_def)
  have ok: "ws_ok (wo_org a) {wo_uid a 0} s (snd (ws_call env (wo_org a) (wo_clk a) (wo_uid a) (wo_call a) s))"
    by (rule ws_step_ok) (rule inv, rule f)
  have loc: "ws_local (wo_org a) (ws_call env (wo_org a) (wo_clk a) (wo_uid a) (wo_call a)) s"
    by (rule ws_call_local) (rule inv, rule f)
  show "ws_inv (snd (ws_step env a s))" using ws_ok_inv [OF ok] by (simp add: ws_step_def)
  show "ws_ids (snd (ws_step env a s)) \<subseteq> ws_ids s \<union> set (ws_mints a)"
    using ws_ok_ids [OF ok] by (simp add: ws_step_def ws_mints_def)
  show "ws_restr org (snd (ws_step env a s)) = ws_restr org s" if "org \<noteq> wo_org a"
    using ws_ok_others [OF ok that] by (simp add: ws_step_def)
  show "ws_restr (wo_org a) (snd (ws_step env a s)) = ws_restr (wo_org a) (snd (ws_step env a (ws_restr (wo_org a) s)))"
    and "fst (ws_step env a s) = fst (ws_step env a (ws_restr (wo_org a) s))"
    using loc by (simp_all add: ws_local_def ws_step_def)
qed

text \<open>
  C2. Organizations do not interfere through the workflow store: in every run of its
  organization-scoped operations in which no identifier is minted twice, the rows an organization
  ends up with and every answer it received are those of the run of its own operations alone.
\<close>
theorem workflow_store_noninterference:
  assumes "ws_inv s" and "fresh_run ws_mints (ws_ids s) ops"
  shows "ws_restr org (snd (run_ops (ws_step env) ops s))
           = ws_restr org (snd (run_ops (ws_step env) (filter (\<lambda>a. wo_org a = org) ops) s))
       \<and> filter (\<lambda>(a, r). wo_org a = org) (fst (run_ops (ws_step env) ops s))
           = fst (run_ops (ws_step env) (filter (\<lambda>a. wo_org a = org) ops) s)"
  by (rule wf_tenants.noninterference [OF assms])

definition sample_env :: wf_env where
  "sample_env = \<lparr>we_lc = str_cmp, we_parse = (\<lambda>_. None), we_sha = id\<rparr>"

definition sample_op :: "string \<Rightarrow> nat \<Rightarrow> wf_call \<Rightarrow> wf_op" where
  "sample_op org n c = \<lparr>wo_org = org, wo_call = c, wo_clk = (\<lambda>k. int (100 * n + k + 1)),
     wo_uid = (\<lambda>k. [char_of (65 + n), char_of (48 + k)])\<rparr>"

definition sample_ops :: "wf_op list" where
  "sample_ops = [sample_op ''o1'' 0 (CreateWorkflow ''w'' JNull ''u''), sample_op ''o2'' 1 (PublishWorkflow ''A0''),
     sample_op ''o1'' 2 (CreateRun ''A0'' RunManual ''u'' None None None None None)]"

theorem workflow_store_noninterference_witness:
  "ws_restr ''o1'' (snd (run_ops (ws_step sample_env) sample_ops ws_empty))
     = ws_restr ''o1'' (snd (run_ops (ws_step sample_env) (filter (\<lambda>a. wo_org a = ''o1'') sample_ops) ws_empty))
   \<and> filter (\<lambda>(a, r). wo_org a = ''o1'') (fst (run_ops (ws_step sample_env) sample_ops ws_empty))
     = fst (run_ops (ws_step sample_env) (filter (\<lambda>a. wo_org a = ''o1'') sample_ops) ws_empty)"
  by (rule workflow_store_noninterference)
    (simp_all add: ws_inv_def ws_empty_def ws_ids_def ws_mints_def sample_ops_def sample_op_def)

section \<open>Pagination\<close>

interpretation run_pages: cursor_listing "\<lambda>s n cur. listWorkflowRuns lc org w n cur s" rn_createdAt rn_id newer_key 200
    "\<lambda>s. js_sort (newest_first lc rn_createdAt rn_id)
       (filter (\<lambda>r. rn_organizationId r = org \<and> rn_workflowId r = w) (jvalues (ws_runs s)))"
    "\<lambda>s. pageable lc rn_createdAt rn_id
       (filter (\<lambda>r. rn_organizationId r = org \<and> rn_workflowId r = w) (jvalues (ws_runs s)))"
  for lc org w
  by (rule cursor_listing_newest) (simp_all add: listWorkflowRuns_def)

interpretation run_event_pages: cursor_listing "\<lambda>s n cur. listWorkflowRunEvents lc org w r n cur s"
    re_createdAt re_id older_key 500
    "\<lambda>s. js_sort (oldest_first lc re_createdAt re_id)
       (filter (\<lambda>e. re_organizationId e = org \<and> re_workflowId e = w \<and> re_runId e = r) (jvalues (ws_events s)))"
    "\<lambda>s. pageable lc re_createdAt re_id
       (filter (\<lambda>e. re_organizationId e = org \<and> re_workflowId e = w \<and> re_runId e = r) (jvalues (ws_events s)))"
  for lc org w r
  by (rule cursor_listing_oldest) (simp_all add: listWorkflowRunEvents_def)

text \<open>
  Pagination of runs is complete: a client that follows the cursors of \<open>listWorkflowRuns\<close>
  with any page size reads every run of the workflow exactly once, newest first.
\<close>
theorem run_listing_complete:
  assumes "ws_inv s" and "id_collation lc (rn_id ` set (jvalues (ws_runs s)))"
    and "\<forall>r \<in> set (jvalues (ws_runs s)). rn_createdAt r \<noteq> 0 \<and> rn_id r \<noteq> ''''"
    and "length (jvalues (ws_runs s)) < fuel"
  shows "crawl (\<lambda>s n cur. listWorkflowRuns lc org w n cur s) s n fuel None
    = js_sort (newest_first lc rn_createdAt rn_id)
        (filter (\<lambda>r. rn_organizationId r = org \<and> rn_workflowId r = w) (jvalues (ws_runs s)))"
proof (rule run_pages.crawl_complete)
  show "pageable lc rn_createdAt rn_id
      (filter (\<lambda>r. rn_organizationId r = org \<and> rn_workflowId r = w) (jvalues (ws_runs s)))"
    by (intro pageable_filter keyed_pageable ws_inv_keyed assms)
  show "length (js_sort (newest_first lc rn_createdAt rn_id)
      (filter (\<lambda>r. rn_organizationId r = org \<and> rn_workflowId r = w) (jvalues (ws_runs s)))) < fuel"
    using assms(4) by (simp add: le_less_trans [OF length_filter_le])
qed

definition sample_runs :: wf_store where
  "sample_runs = snd (run_ops (ws_step sample_env)
     [sample_op ''o'' 0 (CreateRun ''w'' RunManual ''u'' None None None None None),
      sample_op ''o'' 1 (CreateRun ''w'' RunManual ''u'' None None None None None),
      sample_op ''o'' 2 (CreateRun ''w'' RunManual ''u'' None None None None None)] ws_empty)"

theorem run_listing_complete_witness:
  "crawl (\<lambda>s n cur. listWorkflowRuns str_cmp ''o'' ''w'' n cur s) sample_runs 1 5 None
    = js_sort (newest_first str_cmp rn_createdAt rn_id)
        (filter (\<lambda>r. rn_organizationId r = ''o'' \<and> rn_workflowId r = ''w'') (jvalues (ws_runs sample_runs)))"
  by (rule run_listing_complete [OF _ id_collation_str_cmp])
    (simp_all add: sample_runs_def ws_step_def sample_op_def createWorkflowRun_def ws_empty_def ws_inv_def keyed_def Let_def)

section \<open>Reachable stores\<close>

inductive ws_reach :: "wf_env \<Rightarrow> wf_store \<Rightarrow> bool" for env where
  ws_reach_init: "ws_reach env ws_empty"
| ws_reach_step: "ws_reach env s \<Longrightarrow> wo_uid a 0 \<notin> ws_ids s \<Longrightarrow> ws_reach env (snd (ws_step env a s))"

lemma ws_reach_inv: "ws_reach env s \<Longrightarrow> ws_inv s"
proof (induction rule: ws_reach.induct)
  case ws_reach_init
  then show ?case by (simp add: ws_inv_def ws_empty_def)
next
  case (ws_reach_step s a)
  show ?case by (rule wf_tenants.keeps_inv) (use ws_reach_step in \<open>simp_all add: ws_mints_def\<close>)
qed

lemma ws_reach_preserves:
  assumes "ws_reach env s" and "Q ws_empty"
    and "\<And>s org clk uid call. ws_inv s \<Longrightarrow> Q s \<Longrightarrow> uid 0 \<notin> ws_ids s \<Longrightarrow> Q (snd (ws_call env org clk uid call s))"
  shows "Q s"
  using assms(1)
proof (induction rule: ws_reach.induct)
  case ws_reach_init
  show ?case by (rule assms(2))
next
  case (ws_reach_step s a)
  then show ?case using assms(3) ws_reach_inv by (simp add: ws_step_def)
qed

definition active_share :: "share_rec \<Rightarrow> string \<Rightarrow> string \<Rightarrow> string \<Rightarrow> bool" where
  "active_share r org w u \<longleftrightarrow> sh_organizationId r = org \<and> sh_workflowId r = w \<and> sh_userId r = u \<and> sh_revokedAt r = None"

definition one_share :: "share_rec table \<Rightarrow> bool" where
  "one_share m \<longleftrightarrow> (\<forall>a \<in> set m. \<forall>b \<in> set m. \<forall>org w u.
     active_share (snd a) org w u \<longrightarrow> active_share (snd b) org w u \<longrightarrow> a = b)"

lemma one_share_jset_revoked:
  assumes "wf_map m" "one_share m" "sh_revokedAt r \<noteq> None"
  shows "one_share (jset k r m)"
  unfolding one_share_def set_jset [OF assms(1)]
  using assms(2,3) by (auto simp: one_share_def active_share_def)

lemma active_shareD:
  "active_share r org w u \<Longrightarrow> org = sh_organizationId r \<and> w = sh_workflowId r \<and> u = sh_userId r"
  by (simp add: active_share_def)

lemma one_share_add:
  assumes "wf_map m" "one_share m"
    and none: "\<And>e. e \<in> set m \<Longrightarrow> \<not> active_share (snd e) (sh_organizationId r) (sh_workflowId r) (sh_userId r)"
  shows "one_share (jset k r m)"
  unfolding one_share_def set_jset [OF assms(1)]
proof (intro ballI allI impI)
  fix a b org w u
  assume a: "a \<in> insert (k, r) {e \<in> set m. fst e \<noteq> k}" "active_share (snd a) org w u"
    and b: "b \<in> insert (k, r) {e \<in> set m. fst e \<noteq> k}" "active_share (snd b) org w u"
  have "\<not> (c \<in> set m \<and> active_share (snd c) org w u \<and> active_share r org w u)" for c
    using none [of c] active_shareD by metis
  then show "a = b"
    using a b assms(2) unfolding one_share_def by (metis (no_types, lifting) insert_iff mem_Collect_eq snd_conv)
qed

lemma revokeActive_rows:
  "e \<in> set (fst (revokeActive P clk j m)) \<Longrightarrow>
     (e \<in> set m \<and> \<not> P (snd e)) \<or> sh_revokedAt (snd e) \<noteq> None"
  by (induction P clk j m rule: revokeActive.induct) (auto split: prod.splits if_splits)

lemma accept_one_share:
  assumes "ws_inv s" "uid 0 \<notin> ws_ids s" "one_share (ws_shares s)"
  shows "one_share (ws_shares (snd (acceptWorkflowShareInvitation clk uid org t u e s)))"
proof -
  have *: "one_share (jset (uid 0) r m')"
    if m': "m' = fst (revokeActive P clk 2 (ws_shares s))"
      and P: "P = (\<lambda>sh. sh_organizationId sh = sh_organizationId r \<and> sh_workflowId sh = sh_workflowId r
         \<and> sh_userId sh = sh_userId r \<and> sh_revokedAt sh = None)" for r m' P
  proof -
    have "wf_map m'" unfolding m' using ws_inv_keyed(4) [OF assms(1)]
      by (simp add: wf_map_def revokeActive_keys keyed_def)
    moreover have "\<not> active_share (snd e) (sh_organizationId r) (sh_workflowId r) (sh_userId r)"
      if "e \<in> set m'" for e
      using revokeActive_rows [of e P clk 2 "ws_shares s"] that by (auto simp: m' P active_share_def)
    moreover have "one_share m'"
      using assms(3) revokeActive_rows [of _ P clk 2 "ws_shares s"]
      unfolding m' one_share_def active_share_def by metis
    ultimately show ?thesis by (intro one_share_add) auto
  qed
  show ?thesis
    using assms(3)
    by (auto simp: acceptWorkflowShareInvitation_def Let_def case_prod_beta intro!: * [OF refl] split: option.split)
qed

lemma addSubscriptions_frame:
  "ws_shares (snd (addSubscriptions now uid j org w a r specs s)) = ws_shares s
   \<and> ws_workflows (snd (addSubscriptions now uid j org w a r specs s)) = ws_workflows s
   \<and> ws_runs (snd (addSubscriptions now uid j org w a r specs s)) = ws_runs s
   \<and> ws_approvals (snd (addSubscriptions now uid j org w a r specs s)) = ws_approvals s
   \<and> ws_shareInvs (snd (addSubscriptions now uid j org w a r specs s)) = ws_shareInvs s"
  by (induction now uid j org w a r specs s rule: addSubscriptions.induct)
    (auto simp: Let_def case_prod_beta split: trigger_spec.split)

lemma shares_unchanged:
  "(\<forall>t u e. call \<noteq> AcceptShareInvitation t u e) \<Longrightarrow> (\<forall>w i. call \<noteq> RevokeShare w i) \<Longrightarrow>
     ws_shares (snd (ws_call env org clk uid call s)) = ws_shares s"
  by (cases call; hypsubst) (simp_all add: ws_defs Let_def case_prod_beta addSubscriptions_frame split: option.split)

text \<open>
  C26. In every reachable store a user holds at most one active (unrevoked) share of a workflow:
  accepting another invitation revokes the shares accepted before.
\<close>
theorem one_active_share:
  assumes "ws_reach env s" and "jget (ws_shares s) k1 = Some r1" and "jget (ws_shares s) k2 = Some r2"
    and "active_share r1 org w u" and "active_share r2 org w u"
  shows "k1 = k2"
proof -
  have "one_share (ws_shares s)"
  proof (rule ws_reach_preserves [OF assms(1)])
    show "one_share (ws_shares ws_empty)" by (simp add: one_share_def ws_empty_def)
    fix s org clk and uid :: uuids and call
    assume inv: "ws_inv s" and one: "one_share (ws_shares s)" and f: "uid 0 \<notin> ws_ids s"
    show "one_share (ws_shares (snd (ws_call env org clk uid call s)))"
    proof (cases "\<exists>t u e. call = AcceptShareInvitation t u e")
      case True
      then show ?thesis using accept_one_share [of s uid] inv one f by auto
    next
      case False
      then show ?thesis
        using one_share_jset_revoked [OF keyed_wf [OF ws_inv_keyed(4) [OF inv]] one] one shares_unchanged [of call]
        by (cases "\<exists>w i. call = RevokeShare w i")
          (auto simp: revokeWorkflowShare_def Let_def split: option.split)
    qed
  qed
  then have "(k1, r1) = (k2, r2)"
    using jget_in_set [OF assms(2)] jget_in_set [OF assms(3)] assms(4,5) unfolding one_share_def by fastforce
  then show ?thesis by simp
qed

definition sample_share_ops :: "wf_op list" where
  "sample_share_ops = [sample_op ''o'' 0 (CreateWorkflow ''w'' JNull ''u''),
     sample_op ''o'' 1 (CreateShareInvitation ''A0'' ''u'' ''x'' None),
     sample_op ''o'' 2 (AcceptShareInvitation ''o.A0.B1'' ''v'' ''x'')]"

definition sample_shared :: wf_store where
  "sample_shared = snd (run_ops (ws_step sample_env) sample_share_ops ws_empty)"

lemma ws_reach_run:
  "ws_reach env s \<Longrightarrow> fresh_run ws_mints X ops \<Longrightarrow> ws_ids s \<subseteq> X \<Longrightarrow> ws_reach env (snd (run_ops (ws_step env) ops s))"
proof (induction ops arbitrary: s X)
  case Nil
  then show ?case by simp
next
  case (Cons a ops)
  then have f: "set (ws_mints a) \<inter> ws_ids s = {}" by auto
  have "ws_reach env (snd (ws_step env a s))"
    using Cons.prems(1) f by (intro ws_reach_step) (simp_all add: ws_mints_def)
  moreover have "ws_ids (snd (ws_step env a s)) \<subseteq> X \<union> set (ws_mints a)"
    using wf_tenants.adds_ids [OF ws_reach_inv [OF Cons.prems(1)] f] Cons.prems(3) by blast
  ultimately have "ws_reach env (snd (run_ops (ws_step env) ops (snd (ws_step env a s))))"
    using Cons.IH [of _ "X \<union> set (ws_mints a)"] Cons.prems(2) by simp
  then show ?case by (simp add: case_prod_beta Let_def)
qed

lemma sample_shared_reach: "ws_reach sample_env sample_shared"
  unfolding sample_shared_def
  by (rule ws_reach_run [OF ws_reach_init, where X = "{}"])
    (simp_all add: sample_share_ops_def sample_op_def ws_mints_def ws_ids_def ws_empty_def)

lemma sample_shared_share:
  "map (\<lambda>(k, r). (k, sh_organizationId r, sh_workflowId r, sh_userId r, sh_revokedAt r)) (ws_shares sample_shared)
     = [(''C0'', ''o'', ''A0'', ''v'', None)]"
  by code_simp

theorem one_active_share_witness:
  "\<exists>r. jget (ws_shares sample_shared) ''C0'' = Some r \<and> active_share r ''o'' ''A0'' ''v'' \<and> ''C0'' = ''C0''"
proof -
  obtain r where r: "ws_shares sample_shared = [(''C0'', r)]" and a: "active_share r ''o'' ''A0'' ''v''"
    using sample_shared_share by (auto simp: active_share_def map_eq_Cons_conv)
  have "''C0'' = ''C0''"
    by (rule one_active_share [OF sample_shared_reach, of _ r _ r]) (use r a in auto)
  then show ?thesis using r a by auto
qed

section \<open>Published revisions and decided approvals are final\<close>

definition same_definition :: "workflow_rec \<Rightarrow> workflow_rec \<Rightarrow> bool" where
  "same_definition w w' \<longleftrightarrow> wk_status w' = Published \<and> wk_dsl w' = wk_dsl w \<and> wk_name w' = wk_name w
     \<and> wk_editorState w' = wk_editorState w \<and> wk_organizationId w' = wk_organizationId w
     \<and> wk_familyId w' = wk_familyId w \<and> wk_revision w' = wk_revision w
     \<and> wk_sourceWorkflowId w' = wk_sourceWorkflowId w \<and> wk_createdByUserId w' = wk_createdByUserId w
     \<and> wk_createdAt w' = wk_createdAt w"

definition writes_workflows :: "wf_call \<Rightarrow> bool" where
  "writes_workflows call \<longleftrightarrow> (\<exists>n d a. call = CreateWorkflow n d a) \<or> (\<exists>w a. call = CreateDraft w a)
     \<or> (\<exists>w n d e. call = UpdateDraft w n d e) \<or> (\<exists>w. call = PublishWorkflow w)"

lemma workflows_unchanged:
  "\<not> writes_workflows call \<Longrightarrow> ws_workflows (snd (ws_call env org clk uid call s)) = ws_workflows s"
  by (cases call; hypsubst)
    (simp_all add: writes_workflows_def ws_defs Let_def case_prod_beta addSubscriptions_frame split: option.split)

lemma getWorkflowById_keyed:
  "ws_inv s \<Longrightarrow> getWorkflowById org i s = Some w \<Longrightarrow>
     jget (ws_workflows s) i = Some w \<and> wk_organizationId w = org \<and> wk_id w = i"
  using keyed_scopedD(1) [of s org i w] by (simp add: getWorkflowById_def)

lemma published_step:
  assumes "ws_inv s" "uid 0 \<notin> ws_ids s" "jget (ws_workflows s) k = Some w" "wk_status w = Published"
  shows "\<exists>w'. jget (ws_workflows (snd (ws_call env org clk uid call s))) k = Some w' \<and> same_definition w w'"
proof (cases "writes_workflows call")
  case False
  then show ?thesis using assms by (simp add: workflows_unchanged same_definition_def)
next
  case True
  have k: "k \<noteq> uid 0" using assms(3) ws_fresh(1) [OF assms(2)] by (auto dest: jget_in_keys)
  from True consider (new) n d a where "call = CreateWorkflow n d a" | (draft) w a where "call = CreateDraft w a"
    | (upd) i n d e where "call = UpdateDraft i n d e" | (publ) i where "call = PublishWorkflow i"
    unfolding writes_workflows_def by blast
  then show ?thesis
  proof cases
    case upd
    show ?thesis
    proof (cases "getWorkflowById org i s")
      case None
      then show ?thesis using upd assms by (simp add: ws_defs same_definition_def)
    next
      case (Some x)
      then show ?thesis
        using upd assms getWorkflowById_keyed [OF assms(1) Some]
        by (cases "k = i") (auto simp: ws_defs same_definition_def Let_def jget_jset)
    qed
  next
    case publ
    show ?thesis
    proof (cases "getWorkflowById org i s")
      case None
      then show ?thesis using publ assms by (simp add: ws_defs same_definition_def)
    next
      case (Some x)
      then show ?thesis
        using publ assms getWorkflowById_keyed [OF assms(1) Some]
        by (cases "k = i") (auto simp: ws_defs same_definition_def Let_def jget_jset)
    qed
  qed (use assms k in \<open>auto simp: ws_defs same_definition_def Let_def jget_jset split: option.split\<close>)
qed

lemma same_definition_trans:
  "same_definition a b \<Longrightarrow> same_definition b c \<Longrightarrow> same_definition a c"
  by (simp add: same_definition_def)

text \<open>
  C12. A published workflow revision is immutable: whatever operations follow, on behalf of
  whichever organization, the revision stays in the store with the definition, name, editor
  state and lineage it was published with.
\<close>
theorem published_revision_immutable:
  assumes "ws_inv s" and "fresh_run ws_mints (ws_ids s) ops"
    and "jget (ws_workflows s) k = Some w" and "wk_status w = Published"
  shows "\<exists>w'. jget (ws_workflows (snd (run_ops (ws_step env) ops s))) k = Some w' \<and> same_definition w w'"
proof (rule wf_tenants.run_preserves [OF _ assms(1) _ assms(2)])
  show "\<exists>w'. jget (ws_workflows s) k = Some w' \<and> same_definition w w'"
    using assms(3,4) by (simp add: same_definition_def)
  fix t a
  assume t: "ws_inv t" and ex: "\<exists>w'. jget (ws_workflows t) k = Some w' \<and> same_definition w w'"
    and f: "set (ws_mints a) \<inter> ws_ids t = {}"
  from ex obtain w' where w': "jget (ws_workflows t) k = Some w'" "same_definition w w'" by blast
  then have "wk_status w' = Published" by (simp add: same_definition_def)
  then have "\<exists>w''. jget (ws_workflows (snd (ws_call env (wo_org a) (wo_clk a) (wo_uid a) (wo_call a) t))) k
      = Some w'' \<and> same_definition w' w''"
    using f by (intro published_step t w'(1)) (simp_all add: ws_mints_def)
  then show "\<exists>w'. jget (ws_workflows (snd (ws_step env a t))) k = Some w' \<and> same_definition w w'"
    using same_definition_trans [OF w'(2)] by (auto simp: ws_step_def)
qed simp

definition sample_published :: wf_store where
  "sample_published = ws_empty\<lparr>ws_workflows := [(''p'', \<lparr>wk_id = ''p'', wk_organizationId = ''o1'', wk_familyId = ''p'',
     wk_revision = 1, wk_sourceWorkflowId = None, wk_name = ''w'', wk_status = Published, wk_version = 2,
     wk_dsl = JNull, wk_editorState = None, wk_createdByUserId = ''u'', wk_publishedAt = Some 2, wk_createdAt = 1,
     wk_updatedAt = 2\<rparr>)]\<rparr>"

theorem published_revision_immutable_witness:
  "\<exists>w w'. jget (ws_workflows sample_published) ''p'' = Some w \<and>
     jget (ws_workflows (snd (run_ops (ws_step sample_env)
        [sample_op ''o1'' 0 (UpdateDraft ''p'' (Some ''other'') None None)] sample_published))) ''p'' = Some w'
     \<and> same_definition w w'"
proof -
  obtain w where w: "jget (ws_workflows sample_published) ''p'' = Some w" "wk_status w = Published"
    and inv: "ws_inv sample_published"
    by (simp add: sample_published_def ws_inv_def keyed_def ws_empty_def)
  have "fresh_run ws_mints (ws_ids sample_published)
      [sample_op ''o1'' 0 (UpdateDraft ''p'' (Some ''other'') None None)]"
    by (simp add: ws_mints_def sample_op_def ws_ids_def sample_published_def ws_empty_def)
  from published_revision_immutable [OF inv this w, of sample_env] w(1) show ?thesis by blast
qed

lemma approvals_unchanged:
  "(\<forall>a i st n. call \<noteq> DecideApproval a i st n) \<Longrightarrow>
     ws_approvals (snd (ws_call env org clk uid call s)) = ws_approvals s"
  by (cases call; hypsubst)
    (simp_all add: ws_defs Let_def case_prod_beta addSubscriptions_frame split: option.split)

text \<open>
  C22. An approval request is decided at most once: once its status is no longer pending, no run of
  operations changes the request, who decided it, or the note.
\<close>
theorem approval_decision_final:
  assumes "ws_inv s" and "fresh_run ws_mints (ws_ids s) ops"
    and "jget (ws_approvals s) k = Some q" and "aq_status q \<noteq> ApPending"
  shows "jget (ws_approvals (snd (run_ops (ws_step env) ops s))) k = Some q"
proof (rule wf_tenants.run_preserves [where Q = "\<lambda>t. jget (ws_approvals t) k = Some q", OF _ assms(1) assms(3) assms(2)])
  fix t a
  assume t: "ws_inv t" and q: "jget (ws_approvals t) k = Some q"
  show "jget (ws_approvals (snd (ws_step env a t))) k = Some q"
  proof (cases "\<exists>u i st n. wo_call a = DecideApproval u i st n")
    case True
    then obtain u i st n where c: "wo_call a = DecideApproval u i st n" by blast
    show ?thesis
    proof (cases "scoped_get aq_organizationId (ws_approvals t) (wo_org a) i")
      case None
      then show ?thesis using q by (simp add: ws_step_def c ws_defs)
    next
      case (Some x)
      then show ?thesis
        using q assms(4) keyed_scopedD(5) [OF t Some]
        by (cases "i = k") (auto simp: ws_step_def c ws_defs Let_def jget_jset)
    qed
  next
    case False
    then show ?thesis using q by (simp add: ws_step_def approvals_unchanged)
  qed
qed simp

definition sample_approvals :: wf_store where
  "sample_approvals = ws_empty\<lparr>ws_approvals := [(''q'', \<lparr>aq_id = ''q'', aq_organizationId = ''o1'', aq_workflowId = ''w'',
     aq_runId = ''r'', aq_nodeId = ''n'', aq_nodeType = ''agent.run'', aq_requestKind = ''k'', aq_status = ApApproved,
     aq_reason = None, aq_context = JNull, aq_requestedByUserId = ''u'', aq_decidedByUserId = Some ''v'',
     aq_decisionNote = None, aq_expiresAt = 9, aq_decidedAt = Some 2, aq_createdAt = 1, aq_updatedAt = 2\<rparr>)]\<rparr>"

theorem approval_decision_final_witness:
  "jget (ws_approvals (snd (run_ops (ws_step sample_env)
     [sample_op ''o1'' 0 (DecideApproval ''u'' ''q'' ApRejected None)] sample_approvals))) ''q''
   = jget (ws_approvals sample_approvals) ''q''"
proof -
  obtain q where q: "jget (ws_approvals sample_approvals) ''q'' = Some q" "aq_status q \<noteq> ApPending"
    and inv: "ws_inv sample_approvals"
    by (simp add: sample_approvals_def ws_inv_def keyed_def ws_empty_def)
  have "fresh_run ws_mints (ws_ids sample_approvals)
      [sample_op ''o1'' 0 (DecideApproval ''u'' ''q'' ApRejected None)]"
    by (simp add: ws_mints_def sample_op_def ws_ids_def sample_approvals_def ws_empty_def)
  from approval_decision_final [OF inv this q, of sample_env] q(1) show ?thesis by simp
qed

end
