(* ===== verification/WorkflowKeys.thy ===== *)
theory WorkflowKeys
  imports WorkflowStoreProps
begin

text \<open>
  Keys the workflow store keeps unique: revision numbers within a family, trigger keys of runs,
  and the index from webhook tokens to subscriptions.
\<close>

section \<open>Revision numbers\<close>

definition family_rows :: "workflow_rec table \<Rightarrow> (string \<times> string \<times> string \<times> int) set" where
  "family_rows m = (\<lambda>(k, w). (k, wk_organizationId w, wk_familyId w, wk_revision w)) ` set m"

definition families_ok :: "workflow_rec table \<Rightarrow> bool" where
  "families_ok m \<longleftrightarrow> (\<forall>(k, org, f, n) \<in> family_rows m. f \<in> fst ` family_rows m \<and> 1 \<le> n)
     \<and> (\<forall>(k, org, f, n) \<in> family_rows m. \<forall>k'. (k', org, f, n) \<in> family_rows m \<longrightarrow> k = k')"

lemma family_rowsI: "(k, w) \<in> set m \<Longrightarrow> (k, wk_organizationId w, wk_familyId w, wk_revision w) \<in> family_rows m"
  by (force simp: family_rows_def)

lemma fst_family_rows: "fst ` family_rows m = set (jkeys m)"
  by (force simp: family_rows_def jkeys_def)

text \<open>A row that is replaced by one with the same key fields leaves such an image unchanged.\<close>

lemma image_jset_same:
  assumes "wf_map m" "jget m k = Some r" "f (k, r') = f (k, r)"
  shows "f ` set (jset k r' m) = f ` set m"
proof -
  have eq: "set m = insert (k, r) {e \<in> set m. fst e \<noteq> k}"
  proof (intro equalityI subsetI)
    fix e assume "e \<in> set m"
    then show "e \<in> insert (k, r) {e \<in> set m. fst e \<noteq> k}"
      using in_set_jget [OF assms(1), of "fst e" "snd e"] assms(2) by (cases e) auto
  qed (use jget_in_set [OF assms(2)] in auto)
  have "f ` set m = f ` insert (k, r) {e \<in> set m. fst e \<noteq> k}" by (rule arg_cong [OF eq])
  then show ?thesis by (simp add: set_jset [OF assms(1)] assms(3))
qed

lemma maxRevision_upper:
  assumes "w \<in> set ws" "wk_organizationId w = org" "wk_familyId w = f"
  shows "wk_revision w \<le> maxRevision org f ws"
proof -
  have mono: "m \<le> fold (\<lambda>w m. if wk_organizationId w = org \<and> wk_familyId w = f then max m (wk_revision w) else m) xs m"
    for xs m by (induction xs arbitrary: m) (auto, (meson max.bounded_iff order_trans)+)
  have "wk_revision w \<le> fold (\<lambda>w m. if wk_organizationId w = org \<and> wk_familyId w = f then max m (wk_revision w) else m) ws m" for m
    using assms
  proof (induction ws arbitrary: m)
    case Nil
    then show ?case by simp
  next
    case (Cons x xs)
    then show ?case using mono [of "max m (wk_revision w)" xs] by (auto intro: order_trans [OF max.cobounded2])
  qed
  then show ?thesis by (simp add: maxRevision_def)
qed

lemma maxRevision_nonneg: "0 \<le> maxRevision org f ws"
proof -
  have "(0::int) \<le> m \<Longrightarrow> 0 \<le> fold (\<lambda>w m. if wk_organizationId w = org \<and> wk_familyId w = f then max m (wk_revision w) else m) xs m"
    for xs m by (induction xs arbitrary: m) auto
  from this [of 0 ws] show ?thesis by (simp add: maxRevision_def)
qed

lemma families_ok_update:
  assumes "keyed wk_id m" "families_ok m" "jget m k = Some w"
    and "wk_familyId w' = wk_familyId w" "wk_revision w' = wk_revision w" "wk_organizationId w' = wk_organizationId w"
  shows "families_ok (jset k w' m)"
proof -
  have "family_rows (jset k w' m) = family_rows m"
    unfolding family_rows_def using assms by (intro image_jset_same) (auto simp: keyed_wf)
  then show ?thesis using assms(2) by (simp add: families_ok_def)
qed

lemma families_ok_add:
  assumes "families_ok m" "k \<notin> set (jkeys m)" "1 \<le> wk_revision w" "wk_familyId w \<in> insert k (set (jkeys m))"
    and "\<And>k'. (k', wk_organizationId w, wk_familyId w, wk_revision w) \<notin> family_rows m"
  shows "families_ok (jset k w m)"
proof -
  have rows: "family_rows (jset k w m) = insert (k, wk_organizationId w, wk_familyId w, wk_revision w) (family_rows m)"
    by (simp add: family_rows_def jset_fresh [OF assms(2)])
  have "\<forall>(k, org, f, n) \<in> family_rows m. f \<in> set (jkeys m) \<and> 1 \<le> n"
    and uniq: "\<forall>(k, org, f, n) \<in> family_rows m. \<forall>k'. (k', org, f, n) \<in> family_rows m \<longrightarrow> k = k'"
    using assms(1) by (simp_all add: families_ok_def fst_family_rows)
  moreover have "fst ` insert (k, wk_organizationId w, wk_familyId w, wk_revision w) (family_rows m)
      = insert k (set (jkeys m))" by (simp add: fst_family_rows)
  ultimately show ?thesis
    unfolding families_ok_def rows using assms(3-5) by auto
qed

lemma create_families_ok:
  assumes "uid 0 \<notin> ws_ids s" "families_ok (ws_workflows s)"
  shows "families_ok (ws_workflows (snd (createWorkflow clk uid org n d a s)))"
proof -
  have "(k', org', uid 0, v) \<notin> family_rows (ws_workflows s)" for k' org' v
    using assms(2) ws_fresh(1) [OF assms(1)] by (force simp: families_ok_def fst_family_rows)
  then show ?thesis
    using assms(2) ws_fresh(1) [OF assms(1)] by (auto simp: createWorkflow_def Let_def intro!: families_ok_add)
qed

lemma draft_families_ok:
  assumes "ws_inv s" "uid 0 \<notin> ws_ids s" "families_ok (ws_workflows s)"
  shows "families_ok (ws_workflows (snd (createWorkflowDraftFromWorkflow clk uid org w a s)))"
proof (cases "scoped_get wk_organizationId (ws_workflows s) org w")
  case None
  then show ?thesis using assms by (simp add: ws_defs)
next
  case (Some src)
  have "(w, src) \<in> set (ws_workflows s)" using keyed_scopedD(1) [OF assms(1) Some] jget_in_set by metis
  then have fam: "wk_familyId src \<in> set (jkeys (ws_workflows s))"
    using assms(3) by (fastforce simp: families_ok_def fst_family_rows dest: family_rowsI)
  have "(k, org, wk_familyId src, maxRevision org (wk_familyId src) (jvalues (ws_workflows s)) + 1)
      \<notin> family_rows (ws_workflows s)" for k
    using maxRevision_upper [of _ "jvalues (ws_workflows s)" org "wk_familyId src"]
    by (force simp: jvalues_def family_rows_def)
  then show ?thesis
    using assms(3) ws_fresh(1) [OF assms(2)] fam Some maxRevision_nonneg
    by (auto simp: createWorkflowDraftFromWorkflow_def Let_def intro!: families_ok_add)
qed

lemma edit_families_ok:
  assumes "ws_inv s" "families_ok (ws_workflows s)"
  shows "families_ok (ws_workflows (snd (updateWorkflowDraft clk org w n d e s)))
    \<and> families_ok (ws_workflows (snd (publishWorkflow clk org w s)))"
proof (cases "getWorkflowById org w s")
  case None
  then show ?thesis using assms by (simp add: ws_defs)
next
  case (Some x)
  note x = getWorkflowById_keyed [OF assms(1) Some]
  have "families_ok (jset (wk_id x) x' (ws_workflows s))"
    if "wk_familyId x' = wk_familyId x" "wk_revision x' = wk_revision x" "wk_organizationId x' = wk_organizationId x" for x'
    using x by (intro families_ok_update [of _ _ x]) (simp_all add: that assms ws_inv_keyed)
  then show ?thesis using assms by (simp add: ws_defs Some Let_def)
qed

text \<open>
  C24. Revision numbers identify the revisions of a workflow family: in every reachable store two
  workflows of the same organization and family with the same revision number are the same.
\<close>
theorem revision_numbers_unique:
  assumes "ws_reach env s" and "jget (ws_workflows s) k1 = Some w1" and "jget (ws_workflows s) k2 = Some w2"
    and "wk_organizationId w1 = wk_organizationId w2" and "wk_familyId w1 = wk_familyId w2"
    and "wk_revision w1 = wk_revision w2"
  shows "k1 = k2"
proof -
  have "families_ok (ws_workflows s)"
  proof (rule ws_reach_preserves [OF assms(1)])
    show "families_ok (ws_workflows ws_empty)" by (simp add: families_ok_def family_rows_def ws_empty_def)
    fix s org clk and uid :: uuids and call
    assume inv: "ws_inv s" and ok: "families_ok (ws_workflows s)" and f: "uid 0 \<notin> ws_ids s"
    show "families_ok (ws_workflows (snd (ws_call env org clk uid call s)))"
    proof (cases "writes_workflows call")
      case True
      then show ?thesis
        using create_families_ok [of uid s, OF f ok] draft_families_ok [of s uid, OF inv f ok] edit_families_ok [OF inv ok]
        by (auto simp: writes_workflows_def)
    next
      case False
      then show ?thesis using ok by (simp add: workflows_unchanged)
    qed
  qed
  then show ?thesis using jget_in_set [OF assms(2)] jget_in_set [OF assms(3)] assms(4-)
    by (auto simp: families_ok_def dest!: family_rowsI)
qed

definition sample_family :: wf_store where
  "sample_family = snd (run_ops (ws_step sample_env)
     [sample_op ''o'' 0 (CreateWorkflow ''w'' JNull ''u''), sample_op ''o'' 1 (CreateDraft ''A0'' ''u''),
      sample_op ''o'' 2 (CreateDraft ''A0'' ''u'')] ws_empty)"

lemma sample_family_reach: "ws_reach sample_env sample_family"
  unfolding sample_family_def
  by (rule ws_reach_run [OF ws_reach_init, where X = "{}"])
    (simp_all add: sample_op_def ws_mints_def ws_ids_def ws_empty_def)

lemma sample_family_rows:
  "map (\<lambda>(k, w). (k, wk_familyId w, wk_revision w)) (ws_workflows sample_family)
     = [(''A0'', ''A0'', 1), (''B0'', ''A0'', 2), (''C0'', ''A0'', 3)]"
  by code_simp

theorem revision_numbers_unique_witness:
  "\<exists>w. jget (ws_workflows sample_family) ''C0'' = Some w \<and> wk_revision w = 3 \<and> ''C0'' = ''C0''"
proof -
  obtain w where w: "jget (ws_workflows sample_family) ''C0'' = Some w" and r: "wk_revision w = 3"
    using sample_family_rows by (auto simp: map_eq_Cons_conv)
  have "''C0'' = ''C0''" by (rule revision_numbers_unique [OF sample_family_reach w w]) simp_all
  then show ?thesis using w r by simp
qed

section \<open>Trigger keys\<close>

definition key_rows :: "run_rec table \<Rightarrow> (string \<times> string \<times> string \<times> string option) set" where
  "key_rows m = (\<lambda>(k, r). (k, rn_organizationId r, rn_workflowId r, rn_triggerKey r)) ` set m"

definition trigger_keys_ok :: "run_rec table \<Rightarrow> bool" where
  "trigger_keys_ok m \<longleftrightarrow> (\<forall>(k, org, w, t) \<in> key_rows m. truthy t \<longrightarrow> (\<forall>k'. (k', org, w, t) \<in> key_rows m \<longrightarrow> k = k'))"

lemma key_rowsI: "(k, r) \<in> set m \<Longrightarrow> (k, rn_organizationId r, rn_workflowId r, rn_triggerKey r) \<in> key_rows m"
  by (force simp: key_rows_def)

lemma trigger_keys_update:
  assumes "wf_map m" "trigger_keys_ok m" "jget m k = Some r"
    and "rn_triggerKey r' = rn_triggerKey r" "rn_workflowId r' = rn_workflowId r" "rn_organizationId r' = rn_organizationId r"
  shows "trigger_keys_ok (jset k r' m)"
proof -
  have "key_rows (jset k r' m) = key_rows m"
    unfolding key_rows_def using assms by (intro image_jset_same) auto
  then show ?thesis using assms(2) by (simp add: trigger_keys_ok_def)
qed

lemma trigger_keys_sub: "trigger_keys_ok m \<Longrightarrow> set m' \<subseteq> set m \<Longrightarrow> trigger_keys_ok m'"
  unfolding trigger_keys_ok_def key_rows_def by blast

lemma trigger_keys_add:
  assumes "trigger_keys_ok m" "k \<notin> set (jkeys m)"
    and "truthy (rn_triggerKey r) \<Longrightarrow> (\<And>k'. (k', rn_organizationId r, rn_workflowId r, rn_triggerKey r) \<notin> key_rows m)"
  shows "trigger_keys_ok (jset k r m)"
proof -
  have "key_rows (jset k r m) = insert (k, rn_organizationId r, rn_workflowId r, rn_triggerKey r) (key_rows m)"
    by (simp add: key_rows_def jset_fresh [OF assms(2)])
  then show ?thesis using assms(1,3) unfolding trigger_keys_ok_def by auto
qed

lemma run_edits_trigger_keys:
  assumes "ws_inv s" "trigger_keys_ok (ws_runs s)"
  shows "trigger_keys_ok (ws_runs (snd (clearWorkflowRunBlock org w r i s)))
    \<and> trigger_keys_ok (ws_runs (snd (markWorkflowRunRunning clk org w r n s)))
    \<and> trigger_keys_ok (ws_runs (snd (markWorkflowRunQueuedForRetry org w r e s)))
    \<and> trigger_keys_ok (ws_runs (snd (markWorkflowRunSucceeded clk org w r out s)))
    \<and> trigger_keys_ok (ws_runs (snd (markWorkflowRunFailed clk org w r e s)))
    \<and> trigger_keys_ok (ws_runs (snd (deleteQueuedWorkflowRun org w r s)))"
proof (cases "getWorkflowRunById org w r s")
  case None
  then show ?thesis using assms by (simp add: ws_defs)
next
  case (Some x)
  then have x: "jget (ws_runs s) (rn_id x) = Some x"
    using keyed_scopedD(2) [OF assms(1), of org r x] by (simp add: getWorkflowRunById_iff)
  have "trigger_keys_ok (jset (rn_id x) x' (ws_runs s))"
    if "rn_triggerKey x' = rn_triggerKey x" "rn_workflowId x' = rn_workflowId x" "rn_organizationId x' = rn_organizationId x" for x'
    using that by (intro trigger_keys_update [OF _ assms(2) x]) (simp_all add: keyed_wf [OF ws_inv_keyed(2) [OF assms(1)]])
  moreover have "trigger_keys_ok (jdel (rn_id x) (ws_runs s))"
    by (rule trigger_keys_sub [OF assms(2)]) (auto simp: set_jdel)
  ultimately show ?thesis using assms by (simp add: ws_defs Some Let_def)
qed

lemma create_trigger_keys:
  assumes "ws_inv s" "uid 0 \<notin> ws_ids s" "trigger_keys_ok (ws_runs s)"
  shows "trigger_keys_ok (ws_runs (snd (createWorkflowRun clk uid org w t a i m key at src s)))"
proof (cases "truthy key \<and> list_ex (\<lambda>r. rn_organizationId r = org \<and> rn_workflowId r = w \<and> rn_triggerKey r = key)
    (jvalues (ws_runs s))")
  case True
  then show ?thesis using assms by (simp add: ws_defs)
next
  case False
  then have "truthy key \<Longrightarrow> (k, org, w, key) \<notin> key_rows (ws_runs s)" for k
    by (force simp: list_ex_iff jvalues_def key_rows_def)
  then have "trigger_keys_ok (jset (uid 0) x (ws_runs s))"
    if "rn_organizationId x = org" "rn_workflowId x = w" "rn_triggerKey x = key" for x
    using that by (intro trigger_keys_add assms(3) ws_fresh(2) [OF assms(2)]) simp_all
  then show ?thesis using False assms(3) by (simp add: createWorkflowRun_def Let_def)
qed

definition writes_runs :: "wf_call \<Rightarrow> bool" where
  "writes_runs call \<longleftrightarrow> (\<exists>a b c. call = ClearRunBlock a b c) \<or> (\<exists>w t a i m k at src. call = CreateRun w t a i m k at src)
     \<or> (\<exists>a b. call = DeleteQueuedRun a b) \<or> (\<exists>a b c. call = MarkRunning a b c)
     \<or> (\<exists>a b c. call = MarkQueuedForRetry a b c) \<or> (\<exists>a b c. call = MarkSucceeded a b c)
     \<or> (\<exists>a b c. call = MarkFailed a b c)"

lemma runs_unchanged:
  "\<not> writes_runs call \<Longrightarrow> ws_runs (snd (ws_call env org clk uid call s)) = ws_runs s"
  by (cases call; hypsubst)
    (simp_all add: writes_runs_def ws_defs Let_def case_prod_beta addSubscriptions_frame split: option.split)

text \<open>
  C23. A trigger fires once: in every reachable store at most one run of a workflow carries a given
  (non-empty) trigger key, so a redelivered trigger cannot start a second run.
\<close>
theorem trigger_key_starts_one_run:
  assumes "ws_reach env s" and "jget (ws_runs s) k1 = Some r1" and "jget (ws_runs s) k2 = Some r2"
    and "rn_organizationId r1 = rn_organizationId r2" and "rn_workflowId r1 = rn_workflowId r2"
    and "rn_triggerKey r1 = rn_triggerKey r2" and "truthy (rn_triggerKey r1)"
  shows "k1 = k2"
proof -
  have "trigger_keys_ok (ws_runs s)"
  proof (rule ws_reach_preserves [OF assms(1)])
    show "trigger_keys_ok (ws_runs ws_empty)" by (simp add: trigger_keys_ok_def key_rows_def ws_empty_def)
    fix s org clk and uid :: uuids and call
    assume inv: "ws_inv s" and ok: "trigger_keys_ok (ws_runs s)" and f: "uid 0 \<notin> ws_ids s"
    show "trigger_keys_ok (ws_runs (snd (ws_call env org clk uid call s)))"
    proof (cases "writes_runs call")
      case True
      then show ?thesis
        using create_trigger_keys [of s uid, OF inv f ok] run_edits_trigger_keys [OF inv ok]
        by (auto simp: writes_runs_def)
    next
      case False
      then show ?thesis using ok by (simp add: runs_unchanged)
    qed
  qed
  then show ?thesis using jget_in_set [OF assms(2)] jget_in_set [OF assms(3)] assms(4-)
    by (auto simp: trigger_keys_ok_def dest!: key_rowsI)
qed

definition sample_keyed :: wf_store where
  "sample_keyed = snd (run_ops (ws_step sample_env)
     [sample_op ''o'' 0 (CreateRun ''w'' RunCron ''u'' None None (Some ''k'') None None),
      sample_op ''o'' 1 (CreateRun ''w'' RunCron ''u'' None None (Some ''k'') None None)] ws_empty)"

lemma sample_keyed_reach: "ws_reach sample_env sample_keyed"
  unfolding sample_keyed_def
  by (rule ws_reach_run [OF ws_reach_init, where X = "{}"])
    (simp_all add: sample_op_def ws_mints_def ws_ids_def ws_empty_def)

lemma sample_keyed_rows:
  "map (\<lambda>(k, r). (k, rn_triggerKey r)) (ws_runs sample_keyed) = [(''A0'', Some ''k'')]"
  by code_simp

theorem trigger_key_starts_one_run_witness:
  "\<exists>r. jget (ws_runs sample_keyed) ''A0'' = Some r \<and> rn_triggerKey r = Some ''k'' \<and> ''A0'' = ''A0''"
proof -
  obtain r where r: "jget (ws_runs sample_keyed) ''A0'' = Some r" and t: "rn_triggerKey r = Some ''k''"
    using sample_keyed_rows by (auto simp: map_eq_Cons_conv)
  have "''A0'' = ''A0''" by (rule trigger_key_starts_one_run [OF sample_keyed_reach r r]) (simp_all add: t)
  then show ?thesis using r t by simp
qed

section \<open>Webhook tokens\<close>

text \<open>
  C25. After the trigger subscriptions of a workflow are synchronized, its webhook token resolves to
  the new, enabled subscription, and no other token resolves to a subscription of the workflow:
  tokens of earlier revisions stop working.
\<close>
theorem webhook_token_synchronized:
  assumes "ws_inv s" and "uid 0 \<notin> ws_ids s" and "uid 0 \<noteq> ''''" and "parse dsl = Some d"
    and "syncWorkflowTriggerSubscriptions parse sha clk uid org w actor revision dsl s = (Inr rs, s')"
  shows "(\<forall>tok. dsl_trigger d = TriggerWebhook tok \<longrightarrow>
       (\<exists>t. rs = [t] \<and> getWorkflowTriggerSubscriptionByWebhookTokenHash (sha tok) s' = Some t
          \<and> ts_organizationId t = org \<and> ts_workflowId t = w \<and> ts_triggerType t = SubWebhook \<and> ts_enabled t))
    \<and> (\<forall>h t. getWorkflowTriggerSubscriptionByWebhookTokenHash h s' = Some t \<longrightarrow>
         ts_organizationId t = org \<longrightarrow> ts_workflowId t = w \<longrightarrow>
         (\<exists>tok. dsl_trigger d = TriggerWebhook tok \<and> h = sha tok))"
proof -
  let ?subs = "filter (\<lambda>e. \<not> (ts_organizationId (snd e) = org \<and> ts_workflowId (snd e) = w)) (ws_subs s)"
  let ?idx = "filter (\<lambda>e. jget ?subs (snd e) \<noteq> None) (ws_subByTokenHash s)"
  have fresh: "uid 0 \<notin> set (jkeys ?subs)"
    using ws_fresh(5) [OF assms(2)] keys_filter_subset [of _ "ws_subs s"] by blast
  have other: "ts_organizationId t = org \<longrightarrow> ts_workflowId t \<noteq> w" if "jget ?subs i = Some t" for i t
    using jget_in_set [OF that] by auto
  have idx: "i \<noteq> uid 0" if "jget ?idx h = Some i" for h i
    using jget_in_set [OF that] fresh by (auto dest: jget_in_keys)
  define s1 where "s1 = s\<lparr>ws_subs := ?subs, ws_subByTokenHash := ?idx\<rparr>"
  have res: "addSubscriptions (clk 0) uid 0 org w actor revision (deriveTriggerSubscriptions sha (dsl_trigger d)) s1 = (rs, s')"
    using assms(4,5) by (simp add: syncWorkflowTriggerSubscriptions_def s1_def Let_def split: prod.splits)
  have s1: "ws_subs s1 = ?subs" "ws_subByTokenHash s1 = ?idx" by (simp_all add: s1_def)
  note look = getWorkflowTriggerSubscriptionByWebhookTokenHash_def
  have lookD: "\<exists>i. jget (ws_subByTokenHash s') h = Some i \<and> jget (ws_subs s') i = Some t"
    if "getWorkflowTriggerSubscriptionByWebhookTokenHash h s' = Some t" for h t
    using that unfolding look by (cases "jget (ws_subByTokenHash s') h") (auto split: if_splits)
  show ?thesis
  proof (cases "\<exists>tok. dsl_trigger d = TriggerWebhook tok")
    case True
    then obtain tok where tok: "dsl_trigger d = TriggerWebhook tok" by blast
    have r: "rs = [subscription_of (clk 0) (uid 0) org w actor revision (WebhookSpec (sha tok))]"
      "ws_subs s' = jset (uid 0) (subscription_of (clk 0) (uid 0) org w actor revision (WebhookSpec (sha tok))) ?subs"
      "ws_subByTokenHash s' = jset (sha tok) (uid 0) ?idx"
      using res by (auto simp: tok Let_def s1)
    have "h = sha tok" if l: "getWorkflowTriggerSubscriptionByWebhookTokenHash h s' = Some t"
      and t: "ts_organizationId t = org" "ts_workflowId t = w" for h t
    proof (rule ccontr)
      assume "h \<noteq> sha tok"
      then obtain i where i: "jget ?idx h = Some i" and "jget (ws_subs s') i = Some t"
        using lookD [OF l] unfolding r(3) jget_jset by auto
      then have "jget ?subs i = Some t" using idx [OF i] by (simp add: r(2) jget_jset)
      then show False using other t by blast
    qed
    then show ?thesis using assms(3) by (simp add: tok look r jget_jset)
  next
    case False
    then have "ws_subByTokenHash s' = ws_subByTokenHash s1
      \<and> (ws_subs s' = ws_subs s1 \<or> (\<exists>x. ws_subs s' = jset (uid 0) x (ws_subs s1)))"
      using res by (cases "dsl_trigger d") (auto simp: Let_def)
    then have r: "ws_subByTokenHash s' = ?idx" "ws_subs s' = ?subs \<or> (\<exists>x. ws_subs s' = jset (uid 0) x ?subs)"
      unfolding s1 by blast+
    have "\<not> (ts_organizationId t = org \<and> ts_workflowId t = w)"
      if l: "getWorkflowTriggerSubscriptionByWebhookTokenHash h s' = Some t" for h t
    proof -
      obtain i where i: "jget ?idx h = Some i" and "jget (ws_subs s') i = Some t"
        using lookD [OF l] unfolding r(1) by auto
      then have "jget ?subs i = Some t" using idx [OF i] r(2) by (auto simp: jget_jset)
      then show ?thesis using other by blast
    qed
    then show ?thesis using False by blast
  qed
qed

definition sample_webhook :: "json \<Rightarrow> wf_dsl_any option" where
  "sample_webhook j = Some (DslV2 \<lparr>d2_trigger = TriggerWebhook ''tok'', d2_nodes = []\<rparr>)"

theorem webhook_token_synchronized_witness:
  "\<exists>rs s' t. syncWorkflowTriggerSubscriptions sample_webhook rev (\<lambda>_. 1) (\<lambda>_. ''i'') ''o'' ''w'' ''u'' 1 JNull ws_empty = (Inr rs, s')
     \<and> getWorkflowTriggerSubscriptionByWebhookTokenHash (rev ''tok'') s' = Some t \<and> ts_workflowId t = ''w''"
proof -
  obtain rs s' where eq: "syncWorkflowTriggerSubscriptions sample_webhook rev (\<lambda>_. 1) (\<lambda>_. ''i'') ''o'' ''w'' ''u'' 1 JNull ws_empty
      = (Inr rs, s')"
    by (simp add: syncWorkflowTriggerSubscriptions_def sample_webhook_def ws_empty_def Let_def)
  have "sample_webhook JNull = Some (DslV2 \<lparr>d2_trigger = TriggerWebhook ''tok'', d2_nodes = []\<rparr>)"
    by (simp add: sample_webhook_def)
  from webhook_token_synchronized [OF _ _ _ this eq] eq show ?thesis
    by (auto simp: ws_inv_def ws_empty_def ws_ids_def)
qed

section \<open>Single use of share invitations\<close>

lemma find_jset:
  assumes "keyed rid m" "find P (jvalues m) = Some r" "rid r' = rid r" "P r'"
  shows "find P (jvalues (jset (rid r) r' m)) = Some r'"
  using assms
proof (induction m)
  case Nil
  then show ?case by simp
next
  case (Cons e m)
  then have m: "keyed rid m" "rid (snd e) = fst e" "fst e \<notin> set (jkeys m)" by (auto simp: keyed_def)
  show ?case
  proof (cases "P (snd e)")
    case True
    with Cons.prems m show ?thesis by simp
  next
    case False
    then have f: "find P (jvalues m) = Some r" using Cons.prems by simp
    then have "r \<in> set (jvalues m)" by (auto simp: find_Some_iff)
    then have "rid r \<in> set (jkeys m)" using m(1) by (force simp: jvalues_def jkeys_def keyed_def)
    then have "rid r \<noteq> fst e" using m(3) by auto
    with False Cons.IH [OF m(1) f] Cons.prems show ?thesis by simp
  qed
qed

lemma find_jset_other:
  assumes "keyed rid m" "jget m k = Some r" "P r' = P r" "find P (jvalues m) = Some x" "x \<noteq> r"
  shows "find P (jvalues (jset k r' m)) = Some x"
  using assms
proof (induction m)
  case Nil
  then show ?case by simp
next
  case (Cons e m)
  then show ?case by (cases e) (auto simp: keyed_def split: if_splits)
qed

lemma find_earlier: "find P xs = Some x \<Longrightarrow> find P (xs @ ys) = Some x"
  by (induction xs) (auto split: if_splits)

definition used_up :: "string \<Rightarrow> string \<Rightarrow> wf_store \<Rightarrow> bool" where
  "used_up org token s \<longleftrightarrow>
     (\<exists>i. getWorkflowShareInvitationByToken org token s = Some i \<and> si_status i \<noteq> InvPending)"

lemma used_up_accept: "used_up org token s \<Longrightarrow> \<exists>err. acceptWorkflowShareInvitation clk uid org token u email s = (Inl err, s)"
  by (auto simp: used_up_def acceptWorkflowShareInvitation_def)

lemma share_invs_unchanged:
  "(\<forall>w a e t. call \<noteq> CreateShareInvitation w a e t) \<Longrightarrow> (\<forall>t u e. call \<noteq> AcceptShareInvitation t u e) \<Longrightarrow>
     ws_shareInvs (snd (ws_call env org clk uid call s)) = ws_shareInvs s"
  by (cases call; hypsubst)
    (simp_all add: ws_defs Let_def case_prod_beta addSubscriptions_frame split: option.split)

lemma accepted_invitation:
  assumes "acceptWorkflowShareInvitation clk uid org token u email s = (Inr res, t)"
  obtains i i' where "getWorkflowShareInvitationByToken org token s = Some i" "si_status i = InvPending"
    "ws_shareInvs t = jset (si_id i) i' (ws_shareInvs s)" "si_id i' = si_id i" "si_organizationId i' = si_organizationId i"
    "si_token i' = si_token i" "si_status i' = InvAccepted"
proof -
  from assms obtain i where i: "getWorkflowShareInvitationByToken org token s = Some i"
    by (auto simp: acceptWorkflowShareInvitation_def split: option.splits)
  with assms that show ?thesis
    by (auto simp: acceptWorkflowShareInvitation_def Let_def case_prod_beta split: option.splits if_splits)
qed

lemma accept_error: "acceptWorkflowShareInvitation clk uid org token u email s = (Inl err, t) \<Longrightarrow> t = s"
  by (auto simp: acceptWorkflowShareInvitation_def Let_def case_prod_beta split: option.splits if_splits)

lemma invitation_row:
  assumes "ws_inv s" and "getWorkflowShareInvitationByToken org token s = Some i"
  shows "jget (ws_shareInvs s) (si_id i) = Some i"
proof -
  have "i \<in> set (jvalues (ws_shareInvs s))"
    using assms(2) by (auto simp: getWorkflowShareInvitationByToken_def find_Some_iff)
  then show ?thesis using ws_inv_keyed(3) [OF assms(1)] by (auto simp: jvalues_def keyed_def intro!: in_set_jget)
qed

lemma used_up_step:
  assumes inv: "ws_inv s" and fresh: "uid 0 \<notin> ws_ids s" and used: "used_up org token s"
  shows "used_up org token (snd (ws_call env org' clk uid call s))"
proof -
  from used obtain i where i: "getWorkflowShareInvitationByToken org token s = Some i" "si_status i \<noteq> InvPending"
    by (auto simp: used_up_def)
  have keep: "used_up org token t" if "ws_shareInvs t = ws_shareInvs s" for t
    using i that by (auto simp: used_up_def getWorkflowShareInvitationByToken_def)
  show ?thesis
  proof (cases call)
    case (CreateShareInvitation w a e ttl)
    let ?t = "snd (createWorkflowShareInvitation clk uid org' w a e ttl s)"
    have "ws_shareInvs ?t = ws_shareInvs s \<or> (\<exists>r. ws_shareInvs ?t = jset (uid 0) r (ws_shareInvs s))"
      by (auto simp: createWorkflowShareInvitation_def Let_def split: option.splits)
    then show ?thesis
      using keep [of ?t] i ws_fresh(3) [OF fresh] CreateShareInvitation
      by (auto simp: used_up_def getWorkflowShareInvitationByToken_def jvalues_jset_fresh find_earlier)
  next
    case (AcceptShareInvitation tk u e)
    obtain r t where acc: "acceptWorkflowShareInvitation clk uid org' tk u e s = (r, t)" by fastforce
    then have t: "snd (ws_call env org' clk uid call s) = t" using AcceptShareInvitation by (simp add: case_prod_beta)
    show ?thesis
    proof (cases r)
      case (Inl err)
      then have "t = s" using accept_error acc by blast
      then show ?thesis using keep t by simp
    next
      case (Inr res)
      obtain q q' where q: "getWorkflowShareInvitationByToken org' tk s = Some q" "si_status q = InvPending"
        "ws_shareInvs t = jset (si_id q) q' (ws_shareInvs s)" "si_id q' = si_id q" "si_organizationId q' = si_organizationId q"
        "si_token q' = si_token q" using accepted_invitation [OF acc [unfolded Inr]] by metis
      have "i \<noteq> q" using i(2) q(2) by blast
      then have "getWorkflowShareInvitationByToken org token t = Some i"
        using find_jset_other [OF ws_inv_keyed(3) [OF inv] invitation_row [OF inv q(1)], of _ q' i] i(1) q(3,5,6)
        by (simp add: getWorkflowShareInvitationByToken_def)
      then show ?thesis using i(2) t by (simp add: used_up_def)
    qed
  qed (rule keep, rule share_invs_unchanged; simp)+
qed

text \<open>
  A share invitation is accepted at most once: after a successful acceptance, whatever operations follow on behalf of
  whichever organization, every further attempt with the same token fails, whoever makes it, and changes nothing.
\<close>
theorem share_invitation_single_use:
  assumes "ws_inv s" and "uid 0 \<notin> ws_ids s"
    and "acceptWorkflowShareInvitation clk uid org token u email s = (Inr res, s')"
    and "fresh_run ws_mints (ws_ids s') ops" and "t = snd (run_ops (ws_step env) ops s')"
  shows "\<exists>err. acceptWorkflowShareInvitation clk' uid' org token u' email' t = (Inl err, t)"
proof -
  from accepted_invitation [OF assms(3)] obtain i i' where i: "getWorkflowShareInvitationByToken org token s = Some i"
    "ws_shareInvs s' = jset (si_id i) i' (ws_shareInvs s)" "si_id i' = si_id i" "si_organizationId i' = si_organizationId i"
    "si_token i' = si_token i" "si_status i' = InvAccepted" by metis
  have o: "si_organizationId i = org" "si_token i = token"
    using i(1) by (auto simp: getWorkflowShareInvitationByToken_def find_Some_iff)
  have inv: "ws_inv s'"
    using ws_ok_inv [OF accept_ok [OF assms(1), where uid = uid and clk = clk and org = org and t = token and u = u and e = email]]
      assms(2,3) by simp
  have "getWorkflowShareInvitationByToken org token s' = Some i'"
    using i(1,2) find_jset [OF ws_inv_keyed(3) [OF assms(1)] _ i(3), of "\<lambda>i. si_organizationId i = org \<and> si_token i = token"] o
      i(4,5) by (simp add: getWorkflowShareInvitationByToken_def)
  then have "used_up org token s'" using i(6) by (simp add: used_up_def)
  then have "used_up org token t"
    unfolding assms(5) by (rule wf_tenants.run_preserves [where Q = "used_up org token", OF _ inv _ assms(4), rotated])
      (simp_all add: ws_step_def ws_mints_def used_up_step)
  then show ?thesis by (rule used_up_accept)
qed

definition sample_invited :: wf_store where
  "sample_invited = snd (run_ops (ws_step sample_env) (take 2 sample_share_ops) ws_empty)"

definition sample_reinvite :: wf_op where
  "sample_reinvite = \<lparr>wo_org = ''o'', wo_call = CreateShareInvitation ''A0'' ''u'' ''x'' None, wo_clk = (\<lambda>_. 6),
     wo_uid = (\<lambda>k. if k = 0 then ''D'' else ''E'')\<rparr>"

theorem share_invitation_single_use_witness:
  "\<exists>res s' t. acceptWorkflowShareInvitation (\<lambda>_. 5) (\<lambda>_. ''Z'') ''o'' ''o.A0.B1'' ''v'' ''x'' sample_invited = (Inr res, s')
     \<and> t = snd (run_ops (ws_step sample_env) [sample_reinvite] s')
     \<and> (\<exists>err. acceptWorkflowShareInvitation (\<lambda>_. 6) (\<lambda>_. ''Y'') ''o'' ''o.A0.B1'' ''z'' ''x'' t = (Inl err, t))"
proof -
  have inv: "ws_inv sample_invited"
    by (simp add: sample_invited_def sample_share_ops_def sample_op_def ws_step_def createWorkflow_def
        createWorkflowShareInvitation_def ws_empty_def ws_inv_def keyed_def Let_def scoped_get_def)
  have fresh: "''Z'' \<notin> ws_ids sample_invited"
    by (simp add: sample_invited_def sample_share_ops_def sample_op_def ws_step_def createWorkflow_def ws_ids_def
        createWorkflowShareInvitation_def ws_empty_def Let_def scoped_get_def)
  obtain r s' where acc: "acceptWorkflowShareInvitation (\<lambda>_. 5) (\<lambda>_. ''Z'') ''o'' ''o.A0.B1'' ''v'' ''x'' sample_invited = (r, s')"
    by fastforce
  have "\<not> isl (fst (acceptWorkflowShareInvitation (\<lambda>_. 5) (\<lambda>_. ''Z'') ''o'' ''o.A0.B1'' ''v'' ''x'' sample_invited))"
    by code_simp
  then obtain res where r: "r = Inr res" using acc by (cases r) auto
  have "''D'' \<notin> ws_ids (snd (acceptWorkflowShareInvitation (\<lambda>_. 5) (\<lambda>_. ''Z'') ''o'' ''o.A0.B1'' ''v'' ''x'' sample_invited))"
    by code_simp
  then have "''D'' \<notin> ws_ids s'" unfolding acc by simp
  moreover have "set (ws_mints sample_reinvite) = {''D''}" by (simp add: ws_mints_def sample_reinvite_def)
  ultimately have run: "fresh_run ws_mints (ws_ids s') [sample_reinvite]" by simp
  note * = share_invitation_single_use [where env = sample_env and clk' = "\<lambda>_. 6" and uid' = "\<lambda>_. ''Y''" and u' = "''z''"
      and email' = "''x''", OF inv fresh acc [unfolded r] run refl]
  show ?thesis by (rule exI [of _ res], rule exI [of _ s'], rule exI, rule conjI [OF acc [unfolded r] conjI [OF refl *]])
qed

end
