(* ===== verification/StoreSessions.thy ===== *)
theory StoreSessions
  imports Paging WorkflowDsl
begin

text \<open>
  The agent-session part of \<open>MemoryAppStore\<close> (\<open>apps/api/src/store/memory-store.ts\<close>): sessions,
  their event logs with sequence numbers and idempotency keys, agent bindings, and the memory
  documents, chunks and synchronization jobs.
\<close>

section \<open>Records\<close>

datatype session_status = SessActive | SessArchived

record agent_session =
  as_id :: string
  as_organizationId :: string
  as_createdByUserId :: string
  as_sessionKey :: string
  as_scope :: string
  as_title :: string
  as_status :: session_status
  as_pinnedExecutorId :: "string option"
  as_pinnedExecutorPool :: "exec_pool option"
  as_pinnedAgentId :: "string option"
  as_routedAgentId :: "string option"
  as_bindingId :: "string option"
  as_executionMode :: string
  as_executorSelector :: "exec_selector option"
  as_selectorTag :: "string option"
  as_selectorGroup :: "string option"
  as_engineId :: string
  as_toolsetId :: "string option"
  as_llmProvider :: string
  as_llmModel :: string
  as_llmSecretId :: "string option"
  as_toolsAllow :: "string list"
  as_limits :: json
  as_promptSystem :: "string option"
  as_promptInstructions :: string
  as_resetPolicySnapshot :: json
  as_createdAt :: timestamp
  as_updatedAt :: timestamp
  as_lastActivityAt :: timestamp

datatype log_level = LogInfo | LogWarn | LogError

record session_event =
  ev_id :: string
  ev_organizationId :: string
  ev_sessionId :: string
  ev_seq :: int
  ev_eventType :: string
  ev_level :: log_level
  ev_handoffFromAgentId :: "string option"
  ev_handoffToAgentId :: "string option"
  ev_idempotencyKey :: "string option"
  ev_payload :: json
  ev_createdAt :: timestamp

record agent_binding =
  bd_id :: string
  bd_organizationId :: string
  bd_agentId :: string
  bd_priority :: int
  bd_dimension :: string
  bd_match :: json
  bd_metadata :: json
  bd_createdByUserId :: string
  bd_createdAt :: timestamp
  bd_updatedAt :: timestamp

record memory_doc =
  md_id :: string
  md_organizationId :: string
  md_sessionId :: "string option"
  md_sessionKey :: string
  md_provider :: string
  md_docPath :: string
  md_contentHash :: string
  md_lineCount :: int
  md_metadata :: json
  md_createdAt :: timestamp
  md_updatedAt :: timestamp

record memory_chunk =
  mc_id :: int
  mc_organizationId :: string
  mc_documentId :: string
  mc_chunkIndex :: int
  mc_text :: string
  mc_tokenCount :: int
  mc_embedding :: json
  mc_metadata :: json
  mc_createdAt :: timestamp

datatype sync_status = SyncQueued | SyncRunning | SyncSucceeded | SyncFailed

record sync_job =
  sj_id :: string
  sj_organizationId :: string
  sj_sessionId :: "string option"
  sj_sessionKey :: string
  sj_provider :: string
  sj_status :: sync_status
  sj_reason :: "string option"
  sj_details :: json
  sj_startedAt :: "timestamp option"
  sj_finishedAt :: "timestamp option"
  sj_createdByUserId :: string
  sj_createdAt :: timestamp
  sj_updatedAt :: timestamp

record sess_store =
  ss_sessions :: "agent_session table"
  ss_events :: "session_event list table"
  ss_seq :: "int table"
  ss_bindings :: "agent_binding table"
  ss_documents :: "memory_doc table"
  ss_chunks :: "memory_chunk list table"
  ss_syncJobs :: "sync_job table"

definition ss_empty :: sess_store where
  "ss_empty = \<lparr>ss_sessions = [], ss_events = [], ss_seq = [], ss_bindings = [], ss_documents = [],
     ss_chunks = [], ss_syncJobs = []\<rparr>"

datatype sess_error = AGENT_SESSION_NOT_FOUND

section \<open>Sessions\<close>

record session_input =
  in_sessionKey :: "string option"
  in_scope :: "string option"
  in_routedAgentId :: "string option"
  in_bindingId :: "string option"
  in_title :: "string option"
  in_engineId :: string
  in_toolsetId :: "string option"
  in_llmProvider :: string
  in_llmModel :: string
  in_llmSecretId :: "string option"
  in_promptSystem :: "string option"
  in_promptInstructions :: string
  in_toolsAllow :: "string list"
  in_limits :: "json option"
  in_resetPolicySnapshot :: "json option"
  in_executorSelector :: "exec_selector option"

definition createAgentSession :: "clock \<Rightarrow> uuids \<Rightarrow> string \<Rightarrow> string \<Rightarrow> session_input \<Rightarrow> sess_store
    \<Rightarrow> agent_session \<times> sess_store" where
  "createAgentSession clk uid org actor i s =
     (let sid = uid 0; now = clk 0;
          session = \<lparr>as_id = sid, as_organizationId = org, as_createdByUserId = actor,
            as_sessionKey = qq (in_sessionKey i) (''session:'' @ sid), as_scope = qq (in_scope i) ''main'',
            as_title = qq (in_title i) '''', as_status = SessActive, as_pinnedExecutorId = None,
            as_pinnedExecutorPool = None, as_pinnedAgentId = None, as_routedAgentId = in_routedAgentId i,
            as_bindingId = in_bindingId i, as_executionMode = ''pinned-node-host'',
            as_executorSelector = in_executorSelector i,
            as_selectorTag = Option.bind (in_executorSelector i) es_tag,
            as_selectorGroup = Option.bind (in_executorSelector i) es_group,
            as_engineId = in_engineId i, as_toolsetId = in_toolsetId i, as_llmProvider = in_llmProvider i,
            as_llmModel = in_llmModel i, as_llmSecretId = in_llmSecretId i, as_toolsAllow = in_toolsAllow i,
            as_limits = qq (nullishJ (in_limits i)) (JObj []), as_promptSystem = in_promptSystem i,
            as_promptInstructions = in_promptInstructions i,
            as_resetPolicySnapshot = qq (nullishJ (in_resetPolicySnapshot i)) (JObj []),
            as_createdAt = now, as_updatedAt = now, as_lastActivityAt = now\<rparr>
      in (session, s\<lparr>ss_sessions := jset sid session (ss_sessions s),
                     ss_events := jset sid [] (ss_events s), ss_seq := jset sid 0 (ss_seq s)\<rparr>))"

definition recent_first :: "(string \<Rightarrow> string \<Rightarrow> int) \<Rightarrow> agent_session \<Rightarrow> agent_session \<Rightarrow> int" where
  "recent_first lc a b = cmp_then (cmp_int (as_updatedAt b) (as_updatedAt a)) (lc (as_id b) (as_id a))"

datatype status_filter = OnlyActive | OnlyArchived | AnyStatus

fun status_matches :: "status_filter \<Rightarrow> agent_session \<Rightarrow> bool" where
  "status_matches AnyStatus x = True"
| "status_matches OnlyActive x = (as_status x = SessActive)"
| "status_matches OnlyArchived x = (as_status x = SessArchived)"

fun session_after :: "cursor \<Rightarrow> agent_session \<Rightarrow> bool" where
  "session_after None x = True"
| "session_after (Some (t, i)) x = (as_updatedAt x < t \<or> (as_updatedAt x = t \<and> as_id x < i))"

definition listAgentSessions :: "(string \<Rightarrow> string \<Rightarrow> int) \<Rightarrow> string \<Rightarrow> status_filter option \<Rightarrow> int \<Rightarrow> cursor
    \<Rightarrow> sess_store \<Rightarrow> agent_session list \<times> cursor" where
  "listAgentSessions lc org status limit cur s =
     (let sessions = filter (status_matches (qq status OnlyActive))
            (filter (\<lambda>x. as_organizationId x = org) (jvalues (ss_sessions s)));
          sorted = js_sort (recent_first lc) sessions
      in moreCursor (\<lambda>x. (as_updatedAt x, as_id x)) (clampInt 1 200 limit) (filter (session_after cur) sorted))"

definition archiveAgentSession :: "clock \<Rightarrow> string \<Rightarrow> string \<Rightarrow> sess_store \<Rightarrow> agent_session option \<times> sess_store" where
  "archiveAgentSession clk org sessionId s =
     (case scoped_get as_organizationId (ss_sessions s) org sessionId of
        None \<Rightarrow> (None, s)
      | Some x \<Rightarrow>
          let patched = x\<lparr>as_status := SessArchived, as_updatedAt := clk 0, as_lastActivityAt := clk 0\<rparr>
          in (Some patched, s\<lparr>ss_sessions := jset (as_id x) patched (ss_sessions s)\<rparr>))"

definition restoreAgentSession :: "clock \<Rightarrow> string \<Rightarrow> string \<Rightarrow> sess_store \<Rightarrow> agent_session option \<times> sess_store" where
  "restoreAgentSession clk org sessionId s =
     (case scoped_get as_organizationId (ss_sessions s) org sessionId of
        None \<Rightarrow> (None, s)
      | Some x \<Rightarrow>
          let patched = x\<lparr>as_status := SessActive, as_updatedAt := clk 0, as_lastActivityAt := clk 0\<rparr>
          in (Some patched, s\<lparr>ss_sessions := jset (as_id x) patched (ss_sessions s)\<rparr>))"

definition getAgentSessionById :: "string \<Rightarrow> string \<Rightarrow> sess_store \<Rightarrow> agent_session option" where
  "getAgentSessionById org sessionId s = scoped_get as_organizationId (ss_sessions s) org sessionId"

definition setAgentSessionPinnedAgent :: "clock \<Rightarrow> string \<Rightarrow> string \<Rightarrow> string option option \<Rightarrow> string option option
    \<Rightarrow> exec_pool option option \<Rightarrow> sess_store \<Rightarrow> agent_session option \<times> sess_store" where
  \<comment> \<open>\<open>None\<close> is undefined, \<open>Some None\<close> is null\<close>
  "setAgentSessionPinnedAgent clk org sessionId pinnedAgentId pinnedExecutorId pinnedExecutorPool s =
     (case scoped_get as_organizationId (ss_sessions s) org sessionId of
        None \<Rightarrow> (None, s)
      | Some x \<Rightarrow>
          let next' = x\<lparr>as_pinnedAgentId := qq pinnedAgentId (as_pinnedAgentId x),
                as_pinnedExecutorId := qq pinnedExecutorId (as_pinnedExecutorId x),
                as_pinnedExecutorPool := qq pinnedExecutorPool (as_pinnedExecutorPool x),
                as_updatedAt := clk 0, as_lastActivityAt := clk 0\<rparr>
          in (Some next', s\<lparr>ss_sessions := jset sessionId next' (ss_sessions s)\<rparr>))"

definition setAgentSessionRoute :: "clock \<Rightarrow> string \<Rightarrow> string \<Rightarrow> string option \<Rightarrow> string option option
    \<Rightarrow> string option \<Rightarrow> string option \<Rightarrow> sess_store \<Rightarrow> agent_session option \<times> sess_store" where
  "setAgentSessionRoute clk org sessionId routedAgentId bindingId sessionKey scope s =
     (case scoped_get as_organizationId (ss_sessions s) org sessionId of
        None \<Rightarrow> (None, s)
      | Some x \<Rightarrow>
          let next' = x\<lparr>as_routedAgentId := routedAgentId, as_bindingId := qq bindingId (as_bindingId x),
                as_sessionKey := qq sessionKey (as_sessionKey x),
                as_scope := (if truthy scope then qq scope '''' else as_scope x),
                as_updatedAt := clk 0, as_lastActivityAt := clk 0\<rparr>
          in (Some next', s\<lparr>ss_sessions := jset sessionId next' (ss_sessions s)\<rparr>))"

section \<open>Session events\<close>

record event_input =
  ie_eventType :: string
  ie_level :: log_level
  ie_handoffFromAgentId :: "string option"
  ie_handoffToAgentId :: "string option"
  ie_idempotencyKey :: "string option"
  ie_payload :: "json option"

definition usable_key :: "string option \<Rightarrow> bool" where
  \<comment> \<open>\<open>key && key.trim().length > 0\<close>\<close>
  "usable_key k = (case k of None \<Rightarrow> False | Some x \<Rightarrow> x \<noteq> '''' \<and> trim x \<noteq> '''')"

definition existing_event :: "string option \<Rightarrow> session_event list \<Rightarrow> session_event option" where
  "existing_event k es = (if usable_key k then find (\<lambda>e. ev_idempotencyKey e = k) es else None)"

definition appendAgentSessionEvent :: "clock \<Rightarrow> uuids \<Rightarrow> string \<Rightarrow> string \<Rightarrow> event_input \<Rightarrow> sess_store
    \<Rightarrow> (sess_error + session_event) \<times> sess_store" where
  "appendAgentSessionEvent clk uid org sessionId i s =
     (case scoped_get as_organizationId (ss_sessions s) org sessionId of
        None \<Rightarrow> (Inl AGENT_SESSION_NOT_FOUND, s)
      | Some x \<Rightarrow>
          (case existing_event (ie_idempotencyKey i) (qq (jget (ss_events s) sessionId) []) of
             Some e \<Rightarrow> (Inr e, s)
           | None \<Rightarrow>
               let sq = qq (jget (ss_seq s) sessionId) 0;
                   e = \<lparr>ev_id = uid 0, ev_organizationId = org, ev_sessionId = sessionId, ev_seq = sq,
                        ev_eventType = ie_eventType i, ev_level = ie_level i,
                        ev_handoffFromAgentId = ie_handoffFromAgentId i,
                        ev_handoffToAgentId = ie_handoffToAgentId i,
                        ev_idempotencyKey = ie_idempotencyKey i, ev_payload = qq (ie_payload i) JNull,
                        ev_createdAt = clk 0\<rparr>
               in (Inr e, s\<lparr>ss_seq := jset sessionId (sq + 1) (ss_seq s),
                            ss_events := jset sessionId (qq (jget (ss_events s) sessionId) [] @ [e]) (ss_events s),
                            ss_sessions := jset sessionId
                              (x\<lparr>as_updatedAt := clk 1, as_lastActivityAt := clk 1\<rparr>) (ss_sessions s)\<rparr>)))"

fun after_seq :: "int option \<Rightarrow> session_event \<Rightarrow> bool" where
  "after_seq None e = True"
| "after_seq (Some c) e = (ev_seq e > c)"

definition listAgentSessionEvents :: "string \<Rightarrow> string \<Rightarrow> int \<Rightarrow> int option \<Rightarrow> sess_store
    \<Rightarrow> session_event list \<times> int option" where
  "listAgentSessionEvents org sessionId limit cur s =
     (case scoped_get as_organizationId (ss_sessions s) org sessionId of
        None \<Rightarrow> ([], None)
      | Some x \<Rightarrow> moreCursor ev_seq (clampInt 1 500 limit)
          (filter (after_seq cur) (qq (jget (ss_events s) sessionId) [])))"

section \<open>Bindings\<close>

definition createAgentBinding :: "clock \<Rightarrow> uuids \<Rightarrow> string \<Rightarrow> string \<Rightarrow> string \<Rightarrow> int \<Rightarrow> string \<Rightarrow> json option
    \<Rightarrow> json option \<Rightarrow> sess_store \<Rightarrow> agent_binding \<times> sess_store" where
  "createAgentBinding clk uid org actor agentId priority dimension match metadata s =
     (let row = \<lparr>bd_id = uid 0, bd_organizationId = org, bd_agentId = agentId, bd_priority = priority,
            bd_dimension = dimension, bd_match = qq (nullishJ match) (JObj []), bd_metadata = qq metadata JNull,
            bd_createdByUserId = actor, bd_createdAt = clk 0, bd_updatedAt = clk 0\<rparr>
      in (row, s\<lparr>ss_bindings := jset (bd_id row) row (ss_bindings s)\<rparr>))"

definition listAgentBindings :: "(string \<Rightarrow> string \<Rightarrow> int) \<Rightarrow> string \<Rightarrow> sess_store \<Rightarrow> agent_binding list" where
  "listAgentBindings lc org s =
     js_sort (\<lambda>a b. cmp_then (lc (bd_dimension a) (bd_dimension b))
         (cmp_then (bd_priority b - bd_priority a) (lc (bd_id a) (bd_id b))))
       (filter (\<lambda>r. bd_organizationId r = org) (jvalues (ss_bindings s)))"

definition patchAgentBinding :: "clock \<Rightarrow> string \<Rightarrow> string \<Rightarrow> string option \<Rightarrow> int option \<Rightarrow> string option
    \<Rightarrow> json option \<Rightarrow> json option \<Rightarrow> sess_store \<Rightarrow> agent_binding option \<times> sess_store" where
  "patchAgentBinding clk org bindingId agentId priority dimension match metadata s =
     (case scoped_get bd_organizationId (ss_bindings s) org bindingId of
        None \<Rightarrow> (None, s)
      | Some b \<Rightarrow>
          let next' = b\<lparr>bd_agentId := qq agentId (bd_agentId b), bd_priority := qq priority (bd_priority b),
                bd_dimension := qq dimension (bd_dimension b), bd_match := qq match (bd_match b),
                bd_metadata := qq metadata (bd_metadata b), bd_updatedAt := clk 0\<rparr>
          in (Some next', s\<lparr>ss_bindings := jset (bd_id next') next' (ss_bindings s)\<rparr>))"

definition deleteAgentBinding :: "string \<Rightarrow> string \<Rightarrow> sess_store \<Rightarrow> bool \<times> sess_store" where
  "deleteAgentBinding org bindingId s =
     (case scoped_get bd_organizationId (ss_bindings s) org bindingId of
        None \<Rightarrow> (False, s)
      | Some b \<Rightarrow> (True, s\<lparr>ss_bindings := jdel bindingId (ss_bindings s)\<rparr>))"

section \<open>Memory\<close>

definition createAgentMemorySyncJob :: "clock \<Rightarrow> uuids \<Rightarrow> string \<Rightarrow> string \<Rightarrow> string option \<Rightarrow> string \<Rightarrow> string
    \<Rightarrow> sync_status option \<Rightarrow> string option \<Rightarrow> json option \<Rightarrow> sess_store \<Rightarrow> sync_job \<times> sess_store" where
  "createAgentMemorySyncJob clk uid org actor sessionId sessionKey provider status reason details s =
     (let row = \<lparr>sj_id = uid 0, sj_organizationId = org, sj_sessionId = sessionId, sj_sessionKey = sessionKey,
            sj_provider = provider, sj_status = qq status SyncQueued, sj_reason = reason,
            sj_details = qq (nullishJ details) (JObj []),
            sj_startedAt = (if status = Some SyncRunning then Some (clk 0) else None),
            sj_finishedAt = (if status = Some SyncSucceeded \<or> status = Some SyncFailed then Some (clk 0) else None),
            sj_createdByUserId = actor, sj_createdAt = clk 0, sj_updatedAt = clk 0\<rparr>
      in (row, s\<lparr>ss_syncJobs := jset (sj_id row) row (ss_syncJobs s)\<rparr>))"

definition listAgentMemoryDocuments :: "(string \<Rightarrow> string \<Rightarrow> int) \<Rightarrow> string \<Rightarrow> string option \<Rightarrow> int option
    \<Rightarrow> sess_store \<Rightarrow> memory_doc list" where
  "listAgentMemoryDocuments lc org sessionKey limit s =
     slice0 (clampInt 1 500 (qq limit 200))
       (js_sort (\<lambda>a b. cmp_then (cmp_int (md_updatedAt b) (md_updatedAt a)) (lc (md_id b) (md_id a)))
         (filter (\<lambda>r. \<not> truthy sessionKey \<or> Some (md_sessionKey r) = sessionKey)
         (filter (\<lambda>r. md_organizationId r = org) (jvalues (ss_documents s)))))"

definition getAgentMemoryDocumentById :: "string \<Rightarrow> string \<Rightarrow> sess_store \<Rightarrow> memory_doc option" where
  "getAgentMemoryDocumentById org documentId s = scoped_get md_organizationId (ss_documents s) org documentId"

definition listAgentMemoryChunksByDocument :: "string \<Rightarrow> string \<Rightarrow> int option \<Rightarrow> sess_store \<Rightarrow> memory_chunk list" where
  "listAgentMemoryChunksByDocument org documentId limit s =
     slice0 (clampInt 1 2000 (qq limit 400))
       (js_sort (\<lambda>a b. mc_chunkIndex a - mc_chunkIndex b)
         (filter (\<lambda>r. mc_organizationId r = org) (qq (jget (ss_chunks s) documentId) [])))"

end
