(* ===== verification/SessionProps.thy ===== *)
theory SessionProps
  imports StoreSessions
begin

text \<open>
  The event log of an agent session: sequence numbers without gaps, idempotent appends and complete
  reading by cursor, in every store reachable by the operations of \<open>StoreSessions\<close>.
\<close>

section \<open>Steps\<close>

inductive sess_step :: "sess_store \<Rightarrow> sess_store \<Rightarrow> bool" where
  step_create: "uid 0 \<notin> set (jkeys (ss_sessions s)) \<Longrightarrow> sess_step s (snd (createAgentSession clk uid org actor i s))"
| step_archive: "sess_step s (snd (archiveAgentSession clk org sid s))"
| step_restore: "sess_step s (snd (restoreAgentSession clk org sid s))"
| step_append: "sess_step s (snd (appendAgentSessionEvent clk uid org sid e s))"
| step_pin: "sess_step s (snd (setAgentSessionPinnedAgent clk org sid pa pe pp s))"
| step_route: "sess_step s (snd (setAgentSessionRoute clk org sid ra b k sc s))"
| step_bind: "sess_step s (snd (createAgentBinding clk uid org actor a p d m md s))"
| step_patch: "sess_step s (snd (patchAgentBinding clk org bid pa pp pd pm pmd s))"
| step_unbind: "sess_step s (snd (deleteAgentBinding org bid s))"
| step_sync: "sess_step s (snd (createAgentMemorySyncJob clk uid org actor osid sk pr st r dt s))"

inductive sess_reach :: "sess_store \<Rightarrow> bool" where
  reach_empty: "sess_reach ss_empty"
| reach_step: "sess_reach s \<Longrightarrow> sess_step s t \<Longrightarrow> sess_reach t"

inductive_cases sess_stepE: "sess_step s t"

definition log_ok :: "sess_store \<Rightarrow> bool" where
  \<comment> \<open>each session has a log; its events are numbered from 0, the counter is its length, and
     usable idempotency keys do not repeat\<close>
  "log_ok s \<longleftrightarrow> keyed as_id (ss_sessions s) \<and> (\<forall>k x. jget (ss_sessions s) k = Some x \<longrightarrow>
     (\<exists>es. jget (ss_events s) k = Some es \<and> jget (ss_seq s) k = Some (int (length es))
        \<and> map ev_seq es = map int [0..<length es]
        \<and> (\<forall>e \<in> set es. ev_sessionId e = k \<and> ev_organizationId e = as_organizationId x)
        \<and> distinct (filter usable_key (map ev_idempotencyKey es))))"

lemma log_okD:
  assumes "log_ok s" "jget (ss_sessions s) k = Some x"
  obtains es where "jget (ss_events s) k = Some es" "jget (ss_seq s) k = Some (int (length es))"
    "map ev_seq es = map int [0..<length es]"
    "\<forall>e \<in> set es. ev_sessionId e = k \<and> ev_organizationId e = as_organizationId x"
    "distinct (filter usable_key (map ev_idempotencyKey es))"
  using assms unfolding log_ok_def by blast

text \<open>Operations that leave the logs alone and keep the organization of sessions keep the invariant.\<close>

lemma log_ok_session_update:
  assumes ok: "log_ok s" and x: "jget (ss_sessions s) k = Some x"
    and y: "as_id y = k" "as_organizationId y = as_organizationId x"
    and t: "ss_sessions t = jset k y (ss_sessions s)" "ss_events t = ss_events s" "ss_seq t = ss_seq s"
  shows "log_ok t"
proof -
  have "keyed as_id (ss_sessions t)" using ok y(1) by (simp add: t log_ok_def keyed_jset)
  moreover have "\<exists>x'. jget (ss_sessions s) k' = Some x' \<and> as_organizationId x' = as_organizationId z"
    if "jget (ss_sessions t) k' = Some z" for k' z
    using that x y(2) by (auto simp: t jget_jset split: if_splits)
  ultimately show ?thesis using ok unfolding log_ok_def t(2,3) by (metis (no_types, lifting))
qed

lemma log_ok_frame:
  assumes "log_ok s" "ss_sessions t = ss_sessions s" "ss_events t = ss_events s" "ss_seq t = ss_seq s"
  shows "log_ok t"
  using assms by (simp add: log_ok_def)

lemma log_ok_create:
  assumes "log_ok s" "uid 0 \<notin> set (jkeys (ss_sessions s))"
  shows "log_ok (snd (createAgentSession clk uid org actor i s))"
  using assms unfolding log_ok_def
  by (auto simp: createAgentSession_def Let_def jget_jset intro: keyed_jset split: if_splits dest: jget_in_keys)

lemma existing_event_None:
  "existing_event k es = None \<Longrightarrow> usable_key k \<Longrightarrow> k \<notin> ev_idempotencyKey ` set es"
  by (auto simp: existing_event_def find_None_iff)

lemma log_ok_append:
  assumes ok: "log_ok s"
  shows "log_ok (snd (appendAgentSessionEvent clk uid org sid i s))"
proof (cases "scoped_get as_organizationId (ss_sessions s) org sid")
  case None
  then show ?thesis using ok by (simp add: appendAgentSessionEvent_def)
next
  case (Some x)
  then have x: "jget (ss_sessions s) sid = Some x" "as_organizationId x = org" by (auto dest: scoped_getD)
  have idx: "as_id x = sid" using ok x(1) keyed_get by (auto simp: log_ok_def)
  obtain es where es: "jget (ss_events s) sid = Some es" "jget (ss_seq s) sid = Some (int (length es))"
    "map ev_seq es = map int [0..<length es]"
    "\<forall>e \<in> set es. ev_sessionId e = sid \<and> ev_organizationId e = as_organizationId x"
    "distinct (filter usable_key (map ev_idempotencyKey es))" using log_okD [OF ok x(1)] .
  show ?thesis
  proof (cases "existing_event (ie_idempotencyKey i) es")
    case None
    let ?t = "snd (appendAgentSessionEvent clk uid org sid i s)"
    obtain e y where t: "jget (ss_events ?t) sid = Some (es @ [e])"
        "jget (ss_seq ?t) sid = Some (int (length es) + 1)"
        "ss_sessions ?t = jset sid y (ss_sessions s)"
      and other: "\<And>k. k \<noteq> sid \<Longrightarrow> jget (ss_events ?t) k = jget (ss_events s) k \<and> jget (ss_seq ?t) k = jget (ss_seq s) k"
      and e: "ev_seq e = int (length es)" "ev_sessionId e = sid" "ev_organizationId e = org"
        "ev_idempotencyKey e = ie_idempotencyKey i"
      and y: "as_id y = sid" "as_organizationId y = org"
      using None by (auto simp: appendAgentSessionEvent_def Some es(1,2) Let_def jget_jset idx x(2))
    have "usable_key (ev_idempotencyKey e) \<Longrightarrow> ev_idempotencyKey e \<notin> ev_idempotencyKey ` set es"
      using existing_event_None [OF None] e(4) by simp
    then have "distinct (filter usable_key (map ev_idempotencyKey (es @ [e])))" using es(5) by auto
    moreover have "map ev_seq (es @ [e]) = map int [0..<length (es @ [e])]" using es(3) e(1) by simp
    moreover have "\<forall>a \<in> set (es @ [e]). ev_sessionId a = sid \<and> ev_organizationId a = org"
      using es(4) e x(2) by auto
    moreover have "keyed as_id (ss_sessions ?t)" using ok y(1) by (simp add: t(3) log_ok_def keyed_jset)
    ultimately show ?thesis
      unfolding log_ok_def t(3) jget_jset using ok t(1,2) other y(2)
      by (auto simp: log_ok_def split: if_splits)
  next
    case (Some e)
    then show ?thesis
      using ok by (simp add: appendAgentSessionEvent_def \<open>scoped_get _ _ _ _ = Some x\<close> es(1))
  qed
qed

lemma log_ok_session_ops:
  assumes "log_ok s"
  shows "log_ok (snd (archiveAgentSession clk org sid s)) \<and> log_ok (snd (restoreAgentSession clk org sid s))
    \<and> log_ok (snd (setAgentSessionPinnedAgent clk org sid pa pe pp s))
    \<and> log_ok (snd (setAgentSessionRoute clk org sid ra b k sc s))"
proof (cases "scoped_get as_organizationId (ss_sessions s) org sid")
  case None
  then show ?thesis
    using assms by (simp add: archiveAgentSession_def restoreAgentSession_def setAgentSessionPinnedAgent_def
        setAgentSessionRoute_def)
next
  case (Some x)
  then have x: "jget (ss_sessions s) sid = Some x" by (auto dest: scoped_getD)
  then have i: "as_id x = sid" using assms keyed_get by (auto simp: log_ok_def)
  have "log_ok (s\<lparr>ss_sessions := jset sid y (ss_sessions s)\<rparr>)"
    if "as_id y = sid" "as_organizationId y = as_organizationId x" for y
    by (rule log_ok_session_update [OF assms x that]) simp_all
  then show ?thesis
    by (simp add: archiveAgentSession_def restoreAgentSession_def setAgentSessionPinnedAgent_def
        setAgentSessionRoute_def Some Let_def i)
qed

lemma log_ok_step: "sess_step s t \<Longrightarrow> log_ok s \<Longrightarrow> log_ok t"
  by (erule sess_stepE; hypsubst)
    (simp_all add: log_ok_create log_ok_append log_ok_session_ops log_ok_frame createAgentBinding_def
      patchAgentBinding_def deleteAgentBinding_def createAgentMemorySyncJob_def Let_def split: option.split)

lemma sess_reach_log: "sess_reach s \<Longrightarrow> log_ok s"
proof (induction rule: sess_reach.induct)
  case reach_empty
  then show ?case by (simp add: log_ok_def ss_empty_def)
next
  case (reach_step s t)
  then show ?case by (auto intro: log_ok_step)
qed

section \<open>Properties\<close>

text \<open>
  The log of an agent session has no gaps: in every reachable store the events of a session are
  numbered 0, 1, 2, ... in the order of the log, the next number is the length of the log, and
  every event belongs to the session and its organization.
\<close>
theorem session_log_gapless:
  assumes "sess_reach s" and "jget (ss_sessions s) k = Some x"
  shows "\<exists>es. jget (ss_events s) k = Some es \<and> map ev_seq es = map int [0..<length es]
    \<and> jget (ss_seq s) k = Some (int (length es))
    \<and> (\<forall>e \<in> set es. ev_sessionId e = k \<and> ev_organizationId e = as_organizationId x)"
  using log_okD [OF sess_reach_log [OF assms(1)] assms(2)] by metis

definition sample_input :: session_input where
  "sample_input = \<lparr>in_sessionKey = None, in_scope = None, in_routedAgentId = None, in_bindingId = None,
     in_title = None, in_engineId = ''e'', in_toolsetId = None, in_llmProvider = ''p'', in_llmModel = ''m'',
     in_llmSecretId = None, in_promptSystem = None, in_promptInstructions = ''i'', in_toolsAllow = [],
     in_limits = None, in_resetPolicySnapshot = None, in_executorSelector = None\<rparr>"

definition sample_event :: "string option \<Rightarrow> event_input" where
  "sample_event k = \<lparr>ie_eventType = ''user_message'', ie_level = LogInfo, ie_handoffFromAgentId = None,
     ie_handoffToAgentId = None, ie_idempotencyKey = k, ie_payload = None\<rparr>"

definition sample_session :: sess_store where
  "sample_session = snd (createAgentSession (\<lambda>_. 1) (\<lambda>_. ''s'') ''o'' ''u'' sample_input ss_empty)"

definition sample_log :: sess_store where
  "sample_log = snd (appendAgentSessionEvent (\<lambda>_. 2) (\<lambda>_. ''e0'') ''o'' ''s'' (sample_event (Some ''k'')) sample_session)"

lemma sample_session_reach: "sess_reach sample_session"
  unfolding sample_session_def
  by (rule reach_step [OF reach_empty step_create]) (simp add: ss_empty_def)

lemma sample_log_reach: "sess_reach sample_log"
  unfolding sample_log_def by (rule reach_step [OF sample_session_reach step_append])

lemma sample_log_row: "map_option as_organizationId (jget (ss_sessions sample_log) ''s'') = Some ''o''"
  by code_simp

theorem session_log_gapless_witness:
  "\<exists>x es. jget (ss_sessions sample_log) ''s'' = Some x \<and> jget (ss_events sample_log) ''s'' = Some es
     \<and> map ev_seq es = map int [0..<length es]"
proof -
  obtain x where "jget (ss_sessions sample_log) ''s'' = Some x" using sample_log_row by auto
  with session_log_gapless [OF sample_log_reach this] show ?thesis by blast
qed

definition has_event :: "string \<Rightarrow> string \<Rightarrow> session_event \<Rightarrow> sess_store \<Rightarrow> bool" where
  "has_event org sid e s \<longleftrightarrow> (\<exists>x es. scoped_get as_organizationId (ss_sessions s) org sid = Some x
     \<and> jget (ss_events s) sid = Some es \<and> e \<in> set es)"

lemma existing_event_unique:
  "e \<in> set es \<Longrightarrow> usable_key (ev_idempotencyKey e) \<Longrightarrow> distinct (filter usable_key (map ev_idempotencyKey es)) \<Longrightarrow>
     existing_event (ev_idempotencyKey e) es = Some e"
  by (induction es) (auto simp: existing_event_def rev_image_eqI split: if_splits)

lemma appended_event:
  assumes "appendAgentSessionEvent clk uid org sid i s = (Inr e, t)" and "usable_key (ie_idempotencyKey i)"
  shows "has_event org sid e t \<and> ev_idempotencyKey e = ie_idempotencyKey i"
proof -
  from assms(1) obtain x where x: "scoped_get as_organizationId (ss_sessions s) org sid = Some x"
    by (auto simp: appendAgentSessionEvent_def split: option.splits)
  show ?thesis
  proof (cases "existing_event (ie_idempotencyKey i) (qq (jget (ss_events s) sid) [])")
    case None
    then show ?thesis
      using assms(1) scoped_getD [OF x]
      by (auto simp: appendAgentSessionEvent_def x Let_def jget_jset scoped_get_def has_event_def)
  next
    case (Some a)
    then have "t = s" "e = a" using assms(1) by (simp_all add: appendAgentSessionEvent_def x)
    then show ?thesis
      using Some x by (cases "jget (ss_events s) sid")
        (auto simp: has_event_def existing_event_def find_Some_iff in_set_conv_nth split: if_splits)
  qed
qed

lemma has_event_frame:
  "has_event org sid e s \<Longrightarrow> ss_sessions t = ss_sessions s \<Longrightarrow> ss_events t = ss_events s \<Longrightarrow> has_event org sid e t"
  by (simp add: has_event_def)

lemma has_event_session_update:
  assumes "has_event org sid e s" and "jget (ss_sessions s) k = Some x" and "as_organizationId y = as_organizationId x"
    and "ss_sessions t = jset k y (ss_sessions s)" and "ss_events t = ss_events s"
  shows "has_event org sid e t"
  using assms by (auto simp: has_event_def scoped_get_def jget_jset split: option.splits if_splits)

lemma has_event_append:
  assumes "log_ok s" and "has_event org sid e s"
  shows "has_event org sid e (snd (appendAgentSessionEvent clk uid org' sid' i s))"
proof (cases "scoped_get as_organizationId (ss_sessions s) org' sid'")
  case None
  then show ?thesis using assms(2) by (simp add: appendAgentSessionEvent_def)
next
  case (Some x)
  then have x: "jget (ss_sessions s) sid' = Some x" "as_organizationId x = org'" by (auto dest: scoped_getD)
  then have idx: "as_id x = sid'" using assms(1) keyed_get by (auto simp: log_ok_def)
  show ?thesis
  proof (cases "existing_event (ie_idempotencyKey i) (qq (jget (ss_events s) sid') [])")
    case None
    then show ?thesis
      using assms(2) x idx
      by (simp add: appendAgentSessionEvent_def Some Let_def has_event_def scoped_get_def jget_jset) auto
  next
    case (Some a)
    then show ?thesis using assms(2) \<open>scoped_get _ _ _ _ = Some x\<close> by (simp add: appendAgentSessionEvent_def)
  qed
qed

lemma has_event_session_ops:
  assumes "log_ok s" and "has_event org sid e s"
  shows "has_event org sid e (snd (archiveAgentSession clk org' k s)) \<and> has_event org sid e (snd (restoreAgentSession clk org' k s))
    \<and> has_event org sid e (snd (setAgentSessionPinnedAgent clk org' k pa pe pp s))
    \<and> has_event org sid e (snd (setAgentSessionRoute clk org' k ra b sk sc s))"
proof (cases "scoped_get as_organizationId (ss_sessions s) org' k")
  case None
  then show ?thesis
    using assms by (simp add: archiveAgentSession_def restoreAgentSession_def setAgentSessionPinnedAgent_def
        setAgentSessionRoute_def)
next
  case (Some x)
  then have x: "jget (ss_sessions s) k = Some x" by (auto dest: scoped_getD)
  then have i: "as_id x = k" using assms(1) keyed_get by (auto simp: log_ok_def)
  have "has_event org sid e (s\<lparr>ss_sessions := jset k y (ss_sessions s)\<rparr>)" if "as_organizationId y = as_organizationId x" for y
    by (rule has_event_session_update [OF assms(2) x that]) simp_all
  then show ?thesis
    by (simp add: archiveAgentSession_def restoreAgentSession_def setAgentSessionPinnedAgent_def
        setAgentSessionRoute_def Some Let_def i)
qed

lemma has_event_create:
  assumes "has_event org sid e s" and "uid 0 \<notin> set (jkeys (ss_sessions s))"
  shows "has_event org sid e (snd (createAgentSession clk uid org' actor i s))"
proof -
  have "sid \<noteq> uid 0" using assms by (auto simp: has_event_def scoped_get_def dest: jget_in_keys split: option.splits)
  then show ?thesis using assms(1) by (auto simp: has_event_def createAgentSession_def Let_def scoped_get_def jget_jset)
qed

lemma has_event_step: "sess_step s t \<Longrightarrow> log_ok s \<Longrightarrow> has_event org sid e s \<Longrightarrow> has_event org sid e t"
  by (erule sess_stepE; hypsubst)
    (simp_all add: has_event_create has_event_append has_event_session_ops has_event_frame createAgentBinding_def
      patchAgentBinding_def deleteAgentBinding_def createAgentMemorySyncJob_def Let_def split: option.split)

text \<open>
  Appending is idempotent: once an event was appended under a usable idempotency key, appending under the same key
  again, whatever operations came in between, returns that event and leaves the store as it is.
\<close>
theorem append_idempotent:
  assumes "sess_reach s" and "appendAgentSessionEvent clk uid org sid i s = (Inr e, t)"
    and "usable_key (ie_idempotencyKey i)" and "sess_step\<^sup>*\<^sup>* t u" and "ie_idempotencyKey j = ie_idempotencyKey i"
  shows "appendAgentSessionEvent clk' uid' org sid j u = (Inr e, u)"
proof -
  have t: "log_ok t" "has_event org sid e t" and k: "ev_idempotencyKey e = ie_idempotencyKey i"
    using log_ok_append [OF sess_reach_log [OF assms(1)], of clk uid org sid i] appended_event [OF assms(2,3)] assms(2) by simp_all
  from assms(4) have u: "log_ok u \<and> has_event org sid e u"
    by (induction rule: rtranclp_induct) (use t log_ok_step has_event_step in blast)+
  then obtain x es where x: "scoped_get as_organizationId (ss_sessions u) org sid = Some x"
    and es: "jget (ss_events u) sid = Some es" "e \<in> set es" by (auto simp: has_event_def)
  from log_okD [OF conjunct1 [OF u]] scoped_getD [OF x] es(1)
  have "distinct (filter usable_key (map ev_idempotencyKey es))" by (metis option.inject)
  from existing_event_unique [OF es(2) _ this] assms(3,5) k x es(1) show ?thesis
    by (simp add: appendAgentSessionEvent_def)
qed

theorem append_idempotent_witness:
  "\<exists>e t u. appendAgentSessionEvent (\<lambda>_. 2) (\<lambda>_. ''e0'') ''o'' ''s'' (sample_event (Some ''k'')) sample_session = (Inr e, t)
     \<and> u = snd (appendAgentSessionEvent (\<lambda>_. 5) (\<lambda>_. ''e1'') ''o'' ''s'' (sample_event None) t)
     \<and> appendAgentSessionEvent (\<lambda>_. 7) (\<lambda>_. ''e2'') ''o'' ''s'' (sample_event (Some ''k'')) u = (Inr e, u)"
proof -
  obtain e t where eq: "appendAgentSessionEvent (\<lambda>_. 2) (\<lambda>_. ''e0'') ''o'' ''s'' (sample_event (Some ''k'')) sample_session = (Inr e, t)"
    by (auto simp: appendAgentSessionEvent_def sample_session_def createAgentSession_def Let_def sample_input_def
        ss_empty_def scoped_get_def existing_event_def)
  have k: "usable_key (ie_idempotencyKey (sample_event (Some ''k'')))" by code_simp
  have "sess_step\<^sup>*\<^sup>* t (snd (appendAgentSessionEvent (\<lambda>_. 5) (\<lambda>_. ''e1'') ''o'' ''s'' (sample_event None) t))"
    by (rule r_into_rtranclp, rule step_append)
  from append_idempotent [OF sample_session_reach eq k this refl, of "\<lambda>_. 7" "\<lambda>_. ''e2''"] eq show ?thesis by blast
qed

definition session_log :: "string \<Rightarrow> string \<Rightarrow> sess_store \<Rightarrow> session_event list" where
  "session_log org sid s = (case scoped_get as_organizationId (ss_sessions s) org sid of
     None \<Rightarrow> [] | Some x \<Rightarrow> qq (jget (ss_events s) sid) [])"

lemma after_seq_past: "after_seq cur = past (<) ev_seq cur"
  by (rule ext, cases cur) auto

lemma session_log_sorted:
  assumes "log_ok s"
  shows "sorted_wrt (\<lambda>a b. ev_seq a < ev_seq b) (session_log org sid s)"
proof (cases "scoped_get as_organizationId (ss_sessions s) org sid")
  case None
  then show ?thesis by (simp add: session_log_def)
next
  case (Some x)
  then obtain es where es: "jget (ss_events s) sid = Some es" "map ev_seq es = map int [0..<length es]"
    using log_okD [OF assms] by (metis scoped_getD)
  have "sorted_wrt (<) (map ev_seq es)"
    unfolding es(2) by (simp add: sorted_wrt_map sorted_wrt_upt sorted_wrt_mono_rel [OF _ sorted_wrt_upt])
  then show ?thesis using Some es(1) by (simp add: session_log_def sorted_wrt_map)
qed

interpretation event_log_pages: more_listing "\<lambda>s n cur. listAgentSessionEvents org sid n cur s" ev_seq "(<)" 500
    "session_log org sid" log_ok
  for org sid
proof
  fix s :: sess_store and n :: int and cur :: "int option"
  show "listAgentSessionEvents org sid n cur s
      = moreCursor ev_seq (clampInt 1 500 n) (filter (past (<) ev_seq cur) (session_log org sid s))"
    by (simp add: listAgentSessionEvents_def session_log_def after_seq_past moreCursor_def slice0_def clampInt_def
        split: option.split)
  show "sorted_wrt (\<lambda>a b. ev_seq a < ev_seq b) (session_log org sid s)" if "log_ok s"
    using that by (rule session_log_sorted)
qed auto

text \<open>
  C37. Reading a session's events by cursor is complete: a client that follows the cursors of
  \<open>listAgentSessionEvents\<close>, with any page size, until no cursor is returned has read the whole
  log in order.
\<close>
theorem event_log_read_complete:
  assumes "sess_reach s" and "scoped_get as_organizationId (ss_sessions s) org sid = Some x"
    and "jget (ss_events s) sid = Some es" and "length es < fuel"
  shows "read_all (\<lambda>cur. listAgentSessionEvents org sid n cur s) fuel None = es"
  using event_log_pages.read_complete [OF sess_reach_log [OF assms(1)], of org sid fuel n] assms(2-)
  by (simp add: session_log_def)

theorem event_log_read_complete_witness:
  "\<exists>es. jget (ss_events sample_log) ''s'' = Some es
     \<and> read_all (\<lambda>cur. listAgentSessionEvents ''o'' ''s'' 1 cur sample_log) 3 None = es"
proof -
  obtain x where x: "scoped_get as_organizationId (ss_sessions sample_log) ''o'' ''s'' = Some x"
    using sample_log_row by (auto simp: scoped_get_def)
  have "map_option length (jget (ss_events sample_log) ''s'') = Some 1" by code_simp
  then obtain es where es: "jget (ss_events sample_log) ''s'' = Some es" "length es < 3" by auto
  from event_log_read_complete [OF sample_log_reach x es] es(1) show ?thesis by blast
qed

end
