(* ===== verification/StoreIdentity.thy ===== *)
theory StoreIdentity
  imports Paging Json
begin

text \<open>
  The identity part of \<open>MemoryAppStore\<close> (\<open>apps/api/src/store/memory-store.ts\<close>): users,
  organizations and their settings, memberships, invitations, and the sessions of the API.
\<close>

section \<open>Records\<close>

record user_rec =
  us_id :: string
  us_email :: string
  us_passwordHash :: string
  us_displayName :: "string option"
  us_createdAt :: timestamp

record org_rec =
  og_id :: string
  og_slug :: string
  og_name :: string
  og_createdAt :: timestamp

datatype role_key = RoleOwner | RoleAdmin | RoleMember

record membership =
  mb_id :: string
  mb_organizationId :: string
  mb_userId :: string
  mb_roleKey :: role_key
  mb_createdAt :: timestamp

datatype invitation_status = IvPending | IvAccepted | IvExpired | IvRevoked

record invitation =
  iv_id :: string
  iv_organizationId :: string
  iv_email :: string
  iv_roleKey :: role_key
  iv_invitedByUserId :: string
  iv_token :: string
  iv_status :: invitation_status
  iv_expiresAt :: timestamp
  iv_createdAt :: timestamp

record auth_session =
  se_id :: string
  se_userId :: string
  se_refreshTokenHash :: string
  se_expiresAt :: timestamp
  se_revokedAt :: "timestamp option"
  se_userAgent :: "string option"
  se_ip :: "string option"
  se_createdAt :: timestamp
  se_lastUsedAt :: timestamp

record id_store =
  id_users :: "user_rec table"
  id_usersByEmail :: "string table"
  id_orgs :: "org_rec table"
  id_orgSettings :: "json table"
  id_memberships :: "membership table"
  id_invitations :: "invitation table"
  id_sessions :: "auth_session table"

definition id_empty :: id_store where
  "id_empty = \<lparr>id_users = [], id_usersByEmail = [], id_orgs = [], id_orgSettings = [], id_memberships = [],
     id_invitations = [], id_sessions = []\<rparr>"

datatype id_error =
    EMAIL_EXISTS
  | ORG_SLUG_EXISTS
  | ORGANIZATION_NOT_FOUND
  | INVITATION_NOT_FOUND
  | INVITATION_EMAIL_MISMATCH
  | INVITATION_EXPIRED
  | INVITATION_NOT_PENDING

section \<open>Users and organizations\<close>

definition createUser :: "clock \<Rightarrow> uuids \<Rightarrow> string \<Rightarrow> string \<Rightarrow> string option \<Rightarrow> id_store
    \<Rightarrow> (id_error + user_rec) \<times> id_store" where
  "createUser clk uid email passwordHash displayName s =
     (let normalizedEmail = toLowerCase email in
      if jhas (id_usersByEmail s) normalizedEmail then (Inl EMAIL_EXISTS, s)
      else let u = \<lparr>us_id = uid 0, us_email = normalizedEmail, us_passwordHash = passwordHash,
                    us_displayName = displayName, us_createdAt = clk 0\<rparr>
           in (Inr u, s\<lparr>id_users := jset (us_id u) u (id_users s),
                       id_usersByEmail := jset (us_email u) (us_id u) (id_usersByEmail s)\<rparr>))"

definition getUserByEmail :: "string \<Rightarrow> id_store \<Rightarrow> user_rec option" where
  "getUserByEmail email s =
     (case jget (id_usersByEmail s) (toLowerCase email) of
        None \<Rightarrow> None
      | Some i \<Rightarrow> if i = '''' then None else jget (id_users s) i)"

definition getUserById :: "string \<Rightarrow> id_store \<Rightarrow> user_rec option" where
  "getUserById i s = jget (id_users s) i"

definition listOrganizationsForUser :: "string \<Rightarrow> id_store \<Rightarrow> (org_rec \<times> membership) list" where
  "listOrganizationsForUser actor s =
     js_sort (\<lambda>a b. cmp_int (og_createdAt (fst a)) (og_createdAt (fst b)))
       (concat (map (\<lambda>m. if mb_userId m \<noteq> actor then []
          else (case jget (id_orgs s) (mb_organizationId m) of None \<Rightarrow> [] | Some g \<Rightarrow> [(g, m)]))
        (jvalues (id_memberships s))))"

definition createOrganizationWithOwner :: "clock \<Rightarrow> uuids \<Rightarrow> string \<Rightarrow> string \<Rightarrow> string \<Rightarrow> id_store
    \<Rightarrow> (id_error + org_rec \<times> membership) \<times> id_store" where
  "createOrganizationWithOwner clk uid nm slug owner s =
     (if \<not> list_all (\<lambda>g. og_slug g \<noteq> slug) (jvalues (id_orgs s)) then (Inl ORG_SLUG_EXISTS, s)
      else let g = \<lparr>og_id = uid 0, og_slug = slug, og_name = nm, og_createdAt = clk 0\<rparr>;
               m = \<lparr>mb_id = uid 1, mb_organizationId = og_id g, mb_userId = owner, mb_roleKey = RoleOwner,
                    mb_createdAt = clk 1\<rparr>
           in (Inr (g, m), s\<lparr>id_orgs := jset (og_id g) g (id_orgs s),
                            id_orgSettings := jset (og_id g) (JObj []) (id_orgSettings s),
                            id_memberships := jset (mb_id m) m (id_memberships s)\<rparr>))"

definition ensurePersonalOrganizationForUser :: "clock \<Rightarrow> uuids \<Rightarrow> string \<Rightarrow> id_store
    \<Rightarrow> (id_error + string \<times> bool) \<times> id_store" where
  "ensurePersonalOrganizationForUser clk uid actor s =
     (case listOrganizationsForUser actor s of
        (g, m) # rest \<Rightarrow> (Inr (og_id g, False), s)
      | [] \<Rightarrow>
          (case createOrganizationWithOwner clk uid ''Personal workspace'' (''personal-'' @ take 8 actor) actor s of
             (Inl e, s') \<Rightarrow> (Inl e, s')
           | (Inr (g, m), s') \<Rightarrow> (Inr (og_id g, True), s')))"

definition getOrganizationSettings :: "string \<Rightarrow> id_store \<Rightarrow> id_error + json" where
  "getOrganizationSettings org s =
     (if \<not> jhas (id_orgs s) org then Inl ORGANIZATION_NOT_FOUND
      else Inr (qq (jget (id_orgSettings s) org) (JObj [])))"

definition updateOrganizationSettings :: "string \<Rightarrow> json \<Rightarrow> id_store \<Rightarrow> (id_error + json) \<times> id_store" where
  "updateOrganizationSettings org settings s =
     (if \<not> jhas (id_orgs s) org then (Inl ORGANIZATION_NOT_FOUND, s)
      else (Inr settings, s\<lparr>id_orgSettings := jset org settings (id_orgSettings s)\<rparr>))"

section \<open>Memberships and invitations\<close>

definition getMembership :: "string \<Rightarrow> string \<Rightarrow> id_store \<Rightarrow> membership option" where
  "getMembership org userId s =
     find (\<lambda>m. mb_organizationId m = org \<and> mb_userId m = userId) (jvalues (id_memberships s))"

definition attachMembership :: "clock \<Rightarrow> uuids \<Rightarrow> string \<Rightarrow> string \<Rightarrow> role_key \<Rightarrow> id_store \<Rightarrow> membership \<times> id_store" where
  "attachMembership clk uid org userId role s =
     (let m = \<lparr>mb_id = uid 0, mb_organizationId = org, mb_userId = userId, mb_roleKey = role, mb_createdAt = clk 0\<rparr>
      in (m, s\<lparr>id_memberships := jset (mb_id m) m (id_memberships s)\<rparr>))"

definition createInvitation :: "clock \<Rightarrow> uuids \<Rightarrow> string \<Rightarrow> string \<Rightarrow> role_key \<Rightarrow> string \<Rightarrow> int option \<Rightarrow> id_store
    \<Rightarrow> invitation \<times> id_store" where
  "createInvitation clk uid org email role invitedBy ttlHours s =
     (let i = \<lparr>iv_id = uid 0, iv_organizationId = org, iv_email = toLowerCase email, iv_roleKey = role,
            iv_invitedByUserId = invitedBy, iv_token = org @ ''.'' @ uid 1, iv_status = IvPending,
            iv_expiresAt = clk 0 + qq ttlHours 72 * 3600 * 1000, iv_createdAt = clk 1\<rparr>
      in (i, s\<lparr>id_invitations := jset (iv_id i) i (id_invitations s)\<rparr>))"

definition getInvitationByToken :: "string \<Rightarrow> string \<Rightarrow> id_store \<Rightarrow> invitation option" where
  "getInvitationByToken org token s =
     find (\<lambda>i. iv_organizationId i = org \<and> iv_token i = token) (jvalues (id_invitations s))"

record accept_result =
  ac_invitationId :: string
  ac_organizationId :: string
  ac_membershipId :: string
  ac_accepted :: bool

definition acceptInvitation :: "clock \<Rightarrow> uuids \<Rightarrow> string \<Rightarrow> string \<Rightarrow> string \<Rightarrow> string \<Rightarrow> id_store
    \<Rightarrow> (id_error + accept_result) \<times> id_store" where
  "acceptInvitation clk uid org token userId email s =
     (case getInvitationByToken org token s of
        None \<Rightarrow> (Inl INVITATION_NOT_FOUND, s)
      | Some i \<Rightarrow>
          if toLowerCase (iv_email i) \<noteq> toLowerCase email then (Inl INVITATION_EMAIL_MISMATCH, s)
          else if iv_expiresAt i \<le> clk 0 then (Inl INVITATION_EXPIRED, s)
          else let (m, s1) = (case getMembership org userId s of
                      Some m \<Rightarrow> (m, s)
                    | None \<Rightarrow> attachMembership (\<lambda>k. clk (k + 1)) uid org userId (iv_roleKey i) s);
                   res = \<lparr>ac_invitationId = iv_id i, ac_organizationId = iv_organizationId i,
                          ac_membershipId = mb_id m, ac_accepted = True\<rparr>
               in if iv_status i = IvPending
                  then (Inr res, s1\<lparr>id_invitations := jset (iv_id i) (i\<lparr>iv_status := IvAccepted\<rparr>) (id_invitations s1)\<rparr>)
                  else if iv_status i \<noteq> IvAccepted then (Inl INVITATION_NOT_PENDING, s1)
                  else (Inr res, s1))"

fun updateFirst :: "('a \<Rightarrow> bool) \<Rightarrow> ('a \<Rightarrow> 'a) \<Rightarrow> 'a table \<Rightarrow> 'a option \<times> 'a table" where
  \<comment> \<open>a loop over the entries that rewrites the first match and returns it\<close>
  "updateFirst P f [] = (None, [])"
| "updateFirst P f ((k, r) # m) =
     (if P r then (Some (f r), (k, f r) # m)
      else (case updateFirst P f m of (x, m') \<Rightarrow> (x, (k, r) # m')))"

definition updateMembershipRole :: "string \<Rightarrow> string \<Rightarrow> role_key \<Rightarrow> id_store \<Rightarrow> membership option \<times> id_store" where
  "updateMembershipRole org memberUserId role s =
     (case updateFirst (\<lambda>m. mb_organizationId m = org \<and> mb_userId m = memberUserId)
             (\<lambda>m. m\<lparr>mb_roleKey := role\<rparr>) (id_memberships s) of
        (x, ms) \<Rightarrow> (x, s\<lparr>id_memberships := ms\<rparr>))"

section \<open>Sessions\<close>

definition createSession :: "clock \<Rightarrow> uuids \<Rightarrow> string option \<Rightarrow> string \<Rightarrow> string \<Rightarrow> timestamp \<Rightarrow> string option
    \<Rightarrow> string option \<Rightarrow> id_store \<Rightarrow> auth_session \<times> id_store" where
  "createSession clk uid sid userId refreshTokenHash expiresAt userAgent ip s =
     (let x = \<lparr>se_id = qq sid (uid 0), se_userId = userId, se_refreshTokenHash = refreshTokenHash,
            se_expiresAt = expiresAt, se_revokedAt = None, se_userAgent = userAgent, se_ip = ip,
            se_createdAt = clk 0, se_lastUsedAt = clk 1\<rparr>
      in (x, s\<lparr>id_sessions := jset (se_id x) x (id_sessions s)\<rparr>))"

definition getSessionById :: "string \<Rightarrow> string \<Rightarrow> id_store \<Rightarrow> auth_session option" where
  "getSessionById userId sessionId s = scoped_get se_userId (id_sessions s) userId sessionId"

definition rotateSessionRefreshToken :: "clock \<Rightarrow> string \<Rightarrow> string \<Rightarrow> string \<Rightarrow> timestamp \<Rightarrow> id_store
    \<Rightarrow> auth_session option \<times> id_store" where
  "rotateSessionRefreshToken clk userId sessionId refreshTokenHash expiresAt s =
     (case getSessionById userId sessionId s of
        None \<Rightarrow> (None, s)
      | Some x \<Rightarrow>
          let updated = x\<lparr>se_refreshTokenHash := refreshTokenHash, se_expiresAt := expiresAt, se_lastUsedAt := clk 0\<rparr>
          in (Some updated, s\<lparr>id_sessions := jset (se_id updated) updated (id_sessions s)\<rparr>))"

definition revokeSession :: "clock \<Rightarrow> string \<Rightarrow> string \<Rightarrow> id_store \<Rightarrow> bool \<times> id_store" where
  "revokeSession clk userId sessionId s =
     (case getSessionById userId sessionId s of
        None \<Rightarrow> (False, s)
      | Some x \<Rightarrow>
          if se_revokedAt x \<noteq> None then (False, s)
          else (True, s\<lparr>id_sessions := jset (se_id x) (x\<lparr>se_revokedAt := Some (clk 0)\<rparr>) (id_sessions s)\<rparr>))"

fun revokeAllLoop :: "string \<Rightarrow> clock \<Rightarrow> nat \<Rightarrow> auth_session table \<Rightarrow> auth_session table \<times> nat" where
  "revokeAllLoop userId clk revoked [] = ([], revoked)"
| "revokeAllLoop userId clk revoked ((k, x) # m) =
     (if se_userId x = userId \<and> se_revokedAt x = None
      then (case revokeAllLoop userId clk (revoked + 1) m of
              (m', n) \<Rightarrow> ((k, x\<lparr>se_revokedAt := Some (clk revoked)\<rparr>) # m', n))
      else (case revokeAllLoop userId clk revoked m of (m', n) \<Rightarrow> ((k, x) # m', n)))"

definition revokeAllSessionsForUser :: "clock \<Rightarrow> string \<Rightarrow> id_store \<Rightarrow> nat \<times> id_store" where
  "revokeAllSessionsForUser clk userId s =
     (case revokeAllLoop userId clk 0 (id_sessions s) of (m, n) \<Rightarrow> (n, s\<lparr>id_sessions := m\<rparr>))"

definition touchSession :: "clock \<Rightarrow> string \<Rightarrow> string \<Rightarrow> id_store \<Rightarrow> id_store" where
  "touchSession clk userId sessionId s =
     (case getSessionById userId sessionId s of
        None \<Rightarrow> s
      | Some x \<Rightarrow> s\<lparr>id_sessions := jset (se_id x) (x\<lparr>se_lastUsedAt := clk 0\<rparr>) (id_sessions s)\<rparr>)"

end
