(* ===== verification/IdentityProps.thy ===== *)
theory IdentityProps
  imports StoreIdentity
begin

text \<open>
  Properties of the identity store: e-mail addresses name one user, a user is a member of an
  organization at most once, what accepting an invitation does on every branch, and revocation of
  all sessions of a user.
\<close>

section \<open>Reachable stores\<close>

definition id_used :: "id_store \<Rightarrow> string set" where
  "id_used s = set (jkeys (id_users s)) \<union> set (jkeys (id_orgs s)) \<union> set (jkeys (id_memberships s))
     \<union> set (jkeys (id_invitations s)) \<union> set (jkeys (id_sessions s))
     \<union> mb_organizationId ` set (jvalues (id_memberships s)) \<union> {''''}"

inductive id_step :: "id_store \<Rightarrow> id_store \<Rightarrow> bool" where
  st_user: "uid 0 \<notin> id_used s \<Longrightarrow> id_step s (snd (createUser clk uid e p d s))"
| st_org: "uid 0 \<notin> id_used s \<Longrightarrow> uid 1 \<notin> id_used s \<Longrightarrow>
     id_step s (snd (createOrganizationWithOwner clk uid n sl ow s))"
| st_personal: "uid 0 \<notin> id_used s \<Longrightarrow> uid 1 \<notin> id_used s \<Longrightarrow>
     id_step s (snd (ensurePersonalOrganizationForUser clk uid u s))"
| st_settings: "id_step s (snd (updateOrganizationSettings og st s))"
| st_invite: "uid 0 \<notin> id_used s \<Longrightarrow> id_step s (snd (createInvitation clk uid og e r b t s))"
| st_accept: "uid 0 \<notin> id_used s \<Longrightarrow> id_step s (snd (acceptInvitation clk uid og tk u e s))"
| st_role: "id_step s (snd (updateMembershipRole og u r s))"
| st_session: "id_step s (snd (createSession clk uid i u h x ua ip s))"
| st_rotate: "id_step s (snd (rotateSessionRefreshToken clk u i h x s))"
| st_revoke: "id_step s (snd (revokeSession clk u i s))"
| st_revoke_all: "id_step s (snd (revokeAllSessionsForUser clk u s))"
| st_touch: "id_step s (touchSession clk u i s)"

inductive id_reach :: "id_store \<Rightarrow> bool" where
  id_reach_empty: "id_reach id_empty"
| id_reach_step: "id_reach s \<Longrightarrow> id_step s t \<Longrightarrow> id_reach t"

inductive_cases id_stepE: "id_step s t"

definition emails_ok :: "id_store \<Rightarrow> bool" where
  "emails_ok s \<longleftrightarrow> keyed us_id (id_users s) \<and> '''' \<notin> set (jkeys (id_users s))
     \<and> (\<forall>e i. jget (id_usersByEmail s) e = Some i \<longrightarrow> (\<exists>u. jget (id_users s) i = Some u \<and> us_email u = e))
     \<and> (\<forall>i u. jget (id_users s) i = Some u \<longrightarrow> jget (id_usersByEmail s) (us_email u) = Some i)"

definition members_ok :: "membership table \<Rightarrow> bool" where
  "members_ok m \<longleftrightarrow> keyed mb_id m \<and> distinct (map (\<lambda>r. (mb_organizationId r, mb_userId r)) (jvalues m))"

lemma emails_frame:
  "emails_ok s \<Longrightarrow> id_users t = id_users s \<Longrightarrow> id_usersByEmail t = id_usersByEmail s \<Longrightarrow> emails_ok t"
  by (simp add: emails_ok_def)

lemma emails_createUser:
  assumes "emails_ok s" "uid 0 \<notin> id_used s"
  shows "emails_ok (snd (createUser clk uid e p d s))"
proof (cases "jhas (id_usersByEmail s) (toLowerCase e)")
  case True
  then show ?thesis using assms by (simp add: createUser_def Let_def)
next
  case False
  then have none: "jget (id_usersByEmail s) (toLowerCase e) = None" by (simp add: jhas_def)
  have f: "uid 0 \<notin> set (jkeys (id_users s))" "uid 0 \<noteq> ''''" using assms(2) by (auto simp: id_used_def)
  have new: "us_email u \<noteq> toLowerCase e" if "jget (id_users s) i = Some u" for i u
  proof
    assume "us_email u = toLowerCase e"
    then show False using assms(1) that none unfolding emails_ok_def by force
  qed
  have old: "i \<noteq> uid 0" if "jget (id_usersByEmail s) e' = Some i" for e' i
    using assms(1) that f(1) jget_in_keys by (fastforce simp: emails_ok_def)
  show ?thesis
    using assms(1) False f new old unfolding emails_ok_def
    by (auto simp: createUser_def Let_def keyed_jset jget_jset keys_jset dest: new)
qed

lemma users_unchanged:
  "id_users (snd (createOrganizationWithOwner clk uid n sl ow s)) = id_users s
   \<and> id_usersByEmail (snd (createOrganizationWithOwner clk uid n sl ow s)) = id_usersByEmail s"
  "id_users (snd (ensurePersonalOrganizationForUser clk uid u s)) = id_users s
   \<and> id_usersByEmail (snd (ensurePersonalOrganizationForUser clk uid u s)) = id_usersByEmail s"
  "id_users (snd (acceptInvitation clk uid og tk u e s)) = id_users s
   \<and> id_usersByEmail (snd (acceptInvitation clk uid og tk u e s)) = id_usersByEmail s"
  by (simp_all add: createOrganizationWithOwner_def ensurePersonalOrganizationForUser_def acceptInvitation_def
      attachMembership_def Let_def case_prod_beta split: option.split list.split sum.split)

lemma session_ops_frame:
  "id_users (snd (rotateSessionRefreshToken clk u i h x s)) = id_users s
   \<and> id_usersByEmail (snd (rotateSessionRefreshToken clk u i h x s)) = id_usersByEmail s
   \<and> id_memberships (snd (rotateSessionRefreshToken clk u i h x s)) = id_memberships s"
  "id_users (snd (revokeSession clk u i s)) = id_users s
   \<and> id_usersByEmail (snd (revokeSession clk u i s)) = id_usersByEmail s
   \<and> id_memberships (snd (revokeSession clk u i s)) = id_memberships s"
  "id_users (snd (revokeAllSessionsForUser clk u s)) = id_users s
   \<and> id_usersByEmail (snd (revokeAllSessionsForUser clk u s)) = id_usersByEmail s
   \<and> id_memberships (snd (revokeAllSessionsForUser clk u s)) = id_memberships s"
  "id_users (touchSession clk u i s) = id_users s
   \<and> id_usersByEmail (touchSession clk u i s) = id_usersByEmail s
   \<and> id_memberships (touchSession clk u i s) = id_memberships s"
  by (simp_all add: rotateSessionRefreshToken_def revokeSession_def revokeAllSessionsForUser_def touchSession_def
      Let_def case_prod_beta split: option.split)

lemma emails_step_frame:
  "id_step s t \<Longrightarrow> emails_ok s \<Longrightarrow> emails_ok t \<or> (id_users t = id_users s \<and> id_usersByEmail t = id_usersByEmail s)"
  by (erule id_stepE; hypsubst)
    (simp_all add: emails_createUser users_unchanged session_ops_frame updateOrganizationSettings_def
      createInvitation_def updateMembershipRole_def createSession_def Let_def case_prod_beta)

lemma emails_step: "id_step s t \<Longrightarrow> emails_ok s \<Longrightarrow> emails_ok t"
  using emails_step_frame emails_frame by blast

lemma members_add:
  assumes "members_ok m" "mb_id x \<notin> set (jkeys m)"
    and "\<And>y. y \<in> set (jvalues m) \<Longrightarrow> \<not> (mb_organizationId y = mb_organizationId x \<and> mb_userId y = mb_userId x)"
  shows "members_ok (jset (mb_id x) x m)"
proof -
  have "(mb_organizationId x, mb_userId x) \<notin> (\<lambda>r. (mb_organizationId r, mb_userId r)) ` set (jvalues m)"
    using assms(3) by fastforce
  then show ?thesis using assms(1,2) by (simp add: members_ok_def jvalues_jset_fresh keyed_jset)
qed

lemma updateFirst_rows:
  "(\<And>r. g (f r) = g r) \<Longrightarrow> map (\<lambda>e. (fst e, g (snd e))) (snd (updateFirst P f m)) = map (\<lambda>e. (fst e, g (snd e))) m"
  by (induction P f m rule: updateFirst.induct) (auto simp: case_prod_beta)

lemma keyed_rows: "keyed rid m \<longleftrightarrow> distinct (map fst (map (\<lambda>e. (fst e, rid (snd e))) m))
    \<and> (\<forall>p \<in> set (map (\<lambda>e. (fst e, rid (snd e))) m). snd p = fst p)"
  by (simp add: keyed_def wf_map_def jkeys_def comp_def)

lemma members_role:
  "members_ok (id_memberships s) \<Longrightarrow> members_ok (id_memberships (snd (updateMembershipRole og u r s)))"
proof -
  let ?m = "snd (updateFirst (\<lambda>m. mb_organizationId m = og \<and> mb_userId m = u) (\<lambda>m. m\<lparr>mb_roleKey := r\<rparr>) (id_memberships s))"
  have rows: "map (\<lambda>e. (fst e, mb_id (snd e))) ?m = map (\<lambda>e. (fst e, mb_id (snd e))) (id_memberships s)"
    by (rule updateFirst_rows) simp
  have "map (\<lambda>e. (fst e, (mb_organizationId (snd e), mb_userId (snd e)))) ?m
      = map (\<lambda>e. (fst e, (mb_organizationId (snd e), mb_userId (snd e)))) (id_memberships s)"
    by (rule updateFirst_rows [where g = "\<lambda>x. (mb_organizationId x, mb_userId x)"]) simp
  from arg_cong [OF this, of "map snd"]
  have "map (\<lambda>r. (mb_organizationId r, mb_userId r)) (jvalues ?m)
      = map (\<lambda>r. (mb_organizationId r, mb_userId r)) (jvalues (id_memberships s))"
    by (simp add: jvalues_def comp_def)
  moreover have "keyed mb_id ?m \<longleftrightarrow> keyed mb_id (id_memberships s)" unfolding keyed_rows rows by (rule refl)
  ultimately have "members_ok ?m \<longleftrightarrow> members_ok (id_memberships s)" by (simp add: members_ok_def)
  then show "members_ok (id_memberships s) \<Longrightarrow> ?thesis" by (simp add: updateMembershipRole_def case_prod_beta)
qed

lemma members_createOrg:
  assumes "members_ok (id_memberships s)" "uid 0 \<notin> id_used s" "uid 1 \<notin> id_used s"
  shows "members_ok (id_memberships (snd (createOrganizationWithOwner clk uid n sl ow s)))"
proof -
  have f: "uid 1 \<notin> set (jkeys (id_memberships s))" using assms(3) by (simp add: id_used_def)
  have "mb_organizationId y \<noteq> uid 0" if "y \<in> set (jvalues (id_memberships s))" for y
    using assms(2) that by (auto simp: id_used_def rev_image_eqI)
  then have "members_ok (jset (uid 1) x (id_memberships s))" if "mb_id x = uid 1" "mb_organizationId x = uid 0" for x
    using members_add [of "id_memberships s" x] assms(1) f that by metis
  then show ?thesis using assms(1) by (simp add: createOrganizationWithOwner_def Let_def)
qed

lemma members_accept:
  assumes "members_ok (id_memberships s)" "uid 0 \<notin> id_used s"
  shows "members_ok (id_memberships (snd (acceptInvitation clk uid og tk u e s)))"
proof -
  have f: "uid 0 \<notin> set (jkeys (id_memberships s))" using assms(2) by (simp add: id_used_def)
  have "members_ok (jset (uid 0) x (id_memberships s))"
    if "getMembership og u s = None" "mb_id x = uid 0" "mb_organizationId x = og" "mb_userId x = u" for x
    using members_add [of "id_memberships s" x] assms(1) f that
    by (simp add: getMembership_def find_None_iff)
  then show ?thesis
    using assms(1)
    by (auto simp: acceptInvitation_def attachMembership_def Let_def split: option.split)
qed

lemma members_step_frame:
  "id_step s t \<Longrightarrow> members_ok (id_memberships s) \<Longrightarrow>
     members_ok (id_memberships t) \<or> id_memberships t = id_memberships s"
  by (erule id_stepE; hypsubst)
    (simp_all add: members_createOrg members_accept members_role session_ops_frame createUser_def
      ensurePersonalOrganizationForUser_def updateOrganizationSettings_def createInvitation_def createSession_def
      Let_def case_prod_beta split: list.split sum.split)

lemma members_step: "id_step s t \<Longrightarrow> members_ok (id_memberships s) \<Longrightarrow> members_ok (id_memberships t)"
  using members_step_frame by force

lemma id_reach_ok: "id_reach s \<Longrightarrow> emails_ok s \<and> members_ok (id_memberships s)"
proof (induction rule: id_reach.induct)
  case id_reach_empty
  then show ?case by (simp add: emails_ok_def members_ok_def id_empty_def)
next
  case (id_reach_step s t)
  then show ?case using emails_step members_step by blast
qed

lemma find_snoc: "find P xs = None \<Longrightarrow> P x \<Longrightarrow> find P (xs @ [x]) = Some x"
  by (induction xs) (auto split: if_splits)

section \<open>Properties\<close>

text \<open>
  An e-mail address names at most one user: in every reachable store looking an address up, in
  whatever case it is written, finds exactly the user registered under it.
\<close>
theorem email_lookup_exact:
  assumes "id_reach s"
  shows "getUserByEmail email s = Some u \<longleftrightarrow> jget (id_users s) (us_id u) = Some u \<and> us_email u = toLowerCase email"
proof -
  have ok: "emails_ok s" using id_reach_ok [OF assms] by blast
  show ?thesis
  proof
    assume "getUserByEmail email s = Some u"
    then obtain i where i: "jget (id_usersByEmail s) (toLowerCase email) = Some i" "jget (id_users s) i = Some u"
      by (auto simp: getUserByEmail_def split: option.splits if_splits)
    then have "us_id u = i" using ok keyed_get by (auto simp: emails_ok_def)
    then show "jget (id_users s) (us_id u) = Some u \<and> us_email u = toLowerCase email"
      using ok i by (fastforce simp: emails_ok_def)
  next
    assume u: "jget (id_users s) (us_id u) = Some u \<and> us_email u = toLowerCase email"
    then have "jget (id_usersByEmail s) (toLowerCase email) = Some (us_id u)"
      using ok unfolding emails_ok_def by metis
    moreover have "us_id u \<noteq> ''''" using ok u jget_in_keys by (fastforce simp: emails_ok_def)
    ultimately show "getUserByEmail email s = Some u" using u by (simp add: getUserByEmail_def)
  qed
qed

definition sample_users :: id_store where
  "sample_users = snd (createUser (\<lambda>_. 1) (\<lambda>_. ''u1'') ''Ann@X'' ''h'' None id_empty)"

lemma sample_users_reach: "id_reach sample_users"
  unfolding sample_users_def by (rule id_reach_step [OF id_reach_empty st_user]) (simp add: id_used_def id_empty_def)

theorem email_lookup_exact_witness:
  "\<exists>u. getUserByEmail ''ANN@x'' sample_users = Some u \<and> us_email u = toLowerCase ''ANN@x''"
proof -
  have "map_option us_id (getUserByEmail ''ANN@x'' sample_users) = Some ''u1''" by code_simp
  then obtain u where u: "getUserByEmail ''ANN@x'' sample_users = Some u" by auto
  then show ?thesis using email_lookup_exact [OF sample_users_reach, of "''ANN@x''" u] by blast
qed

text \<open>
  In every reachable store a user is a member of an organization at most once, so the role found
  by \<open>getMembership\<close> is the only one the user has there.
\<close>
theorem membership_unique:
  assumes "id_reach s" and "m \<in> set (jvalues (id_memberships s))"
  shows "getMembership (mb_organizationId m) (mb_userId m) s = Some m"
proof -
  have "distinct (map (\<lambda>r. (mb_organizationId r, mb_userId r)) (jvalues (id_memberships s)))"
    using id_reach_ok [OF assms(1)] by (simp add: members_ok_def)
  then have uniq: "x = m" if "x \<in> set (jvalues (id_memberships s))" "mb_organizationId x = mb_organizationId m"
    "mb_userId x = mb_userId m" for x
    using assms(2) that by (auto simp: distinct_map inj_on_def)
  obtain x where x: "getMembership (mb_organizationId m) (mb_userId m) s = Some x"
    using assms(2) by (cases "getMembership (mb_organizationId m) (mb_userId m) s")
      (auto simp: getMembership_def find_None_iff)
  then have "x = m" using uniq [of x] by (auto simp: getMembership_def find_Some_iff)
  with x show ?thesis by simp
qed

definition sample_org :: id_store where
  "sample_org = snd (createOrganizationWithOwner (\<lambda>_. 2) (\<lambda>k. if k = 0 then ''g1'' else ''m1'') ''Org'' ''org'' ''u1'' sample_users)"

lemma sample_org_reach: "id_reach sample_org"
  unfolding sample_org_def
  by (rule id_reach_step [OF sample_users_reach st_org])
    (simp_all add: id_used_def sample_users_def createUser_def id_empty_def jhas_def Let_def)

theorem membership_unique_witness:
  "\<exists>m \<in> set (jvalues (id_memberships sample_org)). getMembership (mb_organizationId m) (mb_userId m) sample_org = Some m"
proof -
  have "map mb_id (jvalues (id_memberships sample_org)) = [''m1'']" by code_simp
  then obtain m where "m \<in> set (jvalues (id_memberships sample_org))" by force
  then show ?thesis using membership_unique [OF sample_org_reach] by blast
qed

definition opens :: "timestamp \<Rightarrow> string \<Rightarrow> string \<Rightarrow> string \<Rightarrow> id_store \<Rightarrow> invitation \<Rightarrow> bool" where
  \<comment> \<open>the token's invitation, addressed to this e-mail and not expired\<close>
  "opens t org token email s i \<longleftrightarrow> getInvitationByToken org token s = Some i
     \<and> toLowerCase (iv_email i) = toLowerCase email \<and> t < iv_expiresAt i"

lemma getMembership_jset_fresh:
  assumes "k \<notin> set (jkeys (id_memberships s))" and "getMembership (mb_organizationId m) (mb_userId m) s = None"
  shows "getMembership o' v (s\<lparr>id_memberships := jset k m (id_memberships s), id_invitations := is\<rparr>)
    = (if o' = mb_organizationId m \<and> v = mb_userId m then Some m else getMembership o' v s)"
proof -
  have split: "find P (xs @ [m]) = (case find P xs of None \<Rightarrow> if P m then Some m else None | Some y \<Rightarrow> Some y)" for P xs
    by (induction xs) auto
  show ?thesis using assms by (auto simp: getMembership_def jvalues_jset_fresh split split: option.split)
qed

text \<open>
  C31. What accepting an organization invitation does.  The call succeeds exactly when the token's invitation is addressed to
  this e-mail, not expired, and pending or accepted before.  The user becomes a member exactly when the invitation is
  addressed to this e-mail and not expired, whatever its status, and then with the role of the invitation; a membership
  the user had stays, and so do those of all others.  The invitation becomes accepted when it was pending, and nothing
  else changes.
\<close>
theorem accept_invitation_outcome:
  assumes "acceptInvitation clk uid org token u email s = (res, t)" and "uid 0 \<notin> set (jkeys (id_memberships s))"
  shows "((\<exists>r. res = Inr r) \<longleftrightarrow> (\<exists>i. opens (clk 0) org token email s i \<and> iv_status i \<in> {IvPending, IvAccepted}))
    \<and> getMembership org u t = (case getMembership org u s of
         Some m \<Rightarrow> Some m
       | None \<Rightarrow> (case getInvitationByToken org token s of
           None \<Rightarrow> None
         | Some i \<Rightarrow> if opens (clk 0) org token email s i
             then Some \<lparr>mb_id = uid 0, mb_organizationId = org, mb_userId = u, mb_roleKey = iv_roleKey i, mb_createdAt = clk 1\<rparr>
             else None))
    \<and> (\<forall>o' v. (o', v) \<noteq> (org, u) \<longrightarrow> getMembership o' v t = getMembership o' v s)
    \<and> (\<forall>i. opens (clk 0) org token email s i \<and> iv_status i = IvPending \<longrightarrow>
         id_invitations t = jset (iv_id i) (i\<lparr>iv_status := IvAccepted\<rparr>) (id_invitations s))
    \<and> ((\<nexists>i. opens (clk 0) org token email s i \<and> iv_status i = IvPending) \<longrightarrow> id_invitations t = id_invitations s)
    \<and> t = s\<lparr>id_memberships := id_memberships t, id_invitations := id_invitations t\<rparr>"
proof (cases "\<exists>i. opens (clk 0) org token email s i")
  case False
  then have "(\<exists>e. res = Inl e) \<and> t = s"
    using assms(1) by (auto simp: acceptInvitation_def opens_def not_less split: option.splits if_splits)
  then show ?thesis using False by (auto split: option.splits)
next
  case True
  then obtain i where i: "opens (clk 0) org token email s i" by blast
  then have only: "opens (clk 0) org token email s k \<longleftrightarrow> k = i" for k by (auto simp: opens_def)
  let ?m = "\<lparr>mb_id = uid 0, mb_organizationId = org, mb_userId = u, mb_roleKey = iv_roleKey i, mb_createdAt = clk 1\<rparr>"
  let ?invs = "if iv_status i = IvPending then jset (iv_id i) (i\<lparr>iv_status := IvAccepted\<rparr>) (id_invitations s) else id_invitations s"
  let ?ms = "case getMembership org u s of None \<Rightarrow> jset (uid 0) ?m (id_memberships s) | Some m \<Rightarrow> id_memberships s"
  have r: "(\<exists>r. res = Inr r) \<longleftrightarrow> iv_status i \<in> {IvPending, IvAccepted}"
    and t: "t = s\<lparr>id_memberships := ?ms, id_invitations := ?invs\<rparr>"
    using assms(1) i by (auto simp: acceptInvitation_def opens_def attachMembership_def Let_def split: option.splits if_splits)
  have "getMembership o' v t = (if o' = org \<and> v = u then Some (qq (getMembership org u s) ?m) else getMembership o' v s)" for o' v
    unfolding t using getMembership_jset_fresh [OF assms(2), of ?m o' v ?invs]
    by (auto simp: getMembership_def qq_def split: option.split)
  then show ?thesis using r t i by (auto simp: only opens_def qq_def split: option.split)
qed

definition sample_revoked_invite :: id_store where
  "sample_revoked_invite = sample_org\<lparr>id_invitations := [(''i1'', \<lparr>iv_id = ''i1'', iv_organizationId = ''g1'',
     iv_email = ''bob@x'', iv_roleKey = RoleAdmin, iv_invitedByUserId = ''u1'', iv_token = ''g1.t'',
     iv_status = IvRevoked, iv_expiresAt = 100, iv_createdAt = 3\<rparr>)]\<rparr>"

theorem accept_invitation_outcome_witness:
  "\<exists>e t. acceptInvitation (\<lambda>_. 5) (\<lambda>_. ''m2'') ''g1'' ''g1.t'' ''u2'' ''Bob@x'' sample_revoked_invite = (Inl e, t)
     \<and> map_option mb_roleKey (getMembership ''g1'' ''u2'' t) = Some RoleAdmin"
proof -
  have n: "getMembership ''g1'' ''u2'' sample_revoked_invite = None" by code_simp
  have k: "(\<lambda>_. ''m2'') (0 :: nat) \<notin> set (jkeys (id_memberships sample_revoked_invite))" by code_simp
  have e: "isl (fst (acceptInvitation (\<lambda>_. 5) (\<lambda>_. ''m2'') ''g1'' ''g1.t'' ''u2'' ''Bob@x'' sample_revoked_invite))" by code_simp
  have i: "(case getInvitationByToken ''g1'' ''g1.t'' sample_revoked_invite of None \<Rightarrow> False
    | Some i \<Rightarrow> opens 5 ''g1'' ''g1.t'' ''Bob@x'' sample_revoked_invite i \<and> iv_roleKey i = RoleAdmin)" by code_simp
  obtain r t where t: "acceptInvitation (\<lambda>_. 5) (\<lambda>_. ''m2'') ''g1'' ''g1.t'' ''u2'' ''Bob@x'' sample_revoked_invite = (r, t)"
    by fastforce
  obtain x where "r = Inl x" using e t by (cases r) auto
  then show ?thesis using accept_invitation_outcome [OF t k] t n i by (auto split: option.splits)
qed

lemma revokeAllLoop_spec:
  "case revokeAllLoop u clk j m of (m', n) \<Rightarrow>
     n = j + length (filter (\<lambda>x. se_userId x = u \<and> se_revokedAt x = None) (jvalues m))
     \<and> jkeys m' = jkeys m
     \<and> (\<forall>x \<in> set (jvalues m'). se_userId x = u \<longrightarrow> se_revokedAt x \<noteq> None)
     \<and> (\<forall>k x. jget m k = Some x \<longrightarrow> se_userId x \<noteq> u \<or> se_revokedAt x \<noteq> None \<longrightarrow> jget m' k = Some x)"
  by (induction u clk j m rule: revokeAllLoop.induct) (auto split: prod.splits if_splits)

text \<open>
  Revoking all sessions of a user is complete and exact: it returns how many of them were
  active, afterwards none is, and sessions of other users (and those revoked before) are untouched.
\<close>
theorem revoke_all_sessions_exact:
  assumes "revokeAllSessionsForUser clk u s = (n, t)"
  shows "n = length (filter (\<lambda>x. se_userId x = u \<and> se_revokedAt x = None) (jvalues (id_sessions s)))
    \<and> (\<forall>x \<in> set (jvalues (id_sessions t)). se_userId x = u \<longrightarrow> se_revokedAt x \<noteq> None)
    \<and> (\<forall>k x. jget (id_sessions s) k = Some x \<longrightarrow> se_userId x \<noteq> u \<or> se_revokedAt x \<noteq> None \<longrightarrow>
         jget (id_sessions t) k = Some x)"
  using assms revokeAllLoop_spec [where u = u and clk = clk and j = 0 and m = "id_sessions s"]
  by (auto simp: revokeAllSessionsForUser_def split: prod.splits)

theorem revoke_all_sessions_exact_witness:
  "\<exists>t. revokeAllSessionsForUser (\<lambda>_. 9) ''u''
       (snd (createSession (\<lambda>_. 1) (\<lambda>_. ''x'') None ''u'' ''h'' 50 None None id_empty)) = (1, t)
     \<and> (\<forall>x \<in> set (jvalues (id_sessions t)). se_userId x = ''u'' \<longrightarrow> se_revokedAt x \<noteq> None)"
proof -
  obtain t where t: "revokeAllSessionsForUser (\<lambda>_. 9) ''u''
       (snd (createSession (\<lambda>_. 1) (\<lambda>_. ''x'') None ''u'' ''h'' 50 None None id_empty)) = (1, t)"
    by (simp add: revokeAllSessionsForUser_def createSession_def id_empty_def Let_def)
  from revoke_all_sessions_exact [OF t] show ?thesis using t by blast
qed

end
