(* ===== verification/StorePlatform.thy ===== *)
theory StorePlatform
  imports Paging Json
begin

text \<open>
  The platform part of \<open>MemoryAppStore\<close> (\<open>apps/api/src/store/memory-store.ts\<close>): platform roles and
  settings, organization subscriptions and monthly usage, support tickets, the audit log.
\<close>

section \<open>Records\<close>

record platform_role =
  pr_id :: string
  pr_userId :: string
  pr_roleKey :: string
  pr_grantedByUserId :: "string option"
  pr_createdAt :: timestamp

record platform_setting =
  pg_key :: string
  pg_value :: json
  pg_updatedByUserId :: "string option"
  pg_updatedAt :: timestamp

datatype sub_tier = TierFree | TierPro | TierEnterprise

datatype sub_status = SubActive | SubTrialing | SubPastDue | SubCanceled

record org_subscription =
  ob_organizationId :: string
  ob_tier :: sub_tier
  ob_status :: sub_status
  ob_monthlyRunLimit :: "int option"
  ob_inflightRunLimit :: "int option"
  ob_metadata :: json
  ob_updatedByUserId :: "string option"
  ob_createdAt :: timestamp
  ob_updatedAt :: timestamp

record run_usage =
  ru_organizationId :: string
  ru_usageMonth :: string
  ru_runCount :: int
  ru_createdAt :: timestamp
  ru_updatedAt :: timestamp

record support_ticket =
  tk_id :: string
  tk_requesterUserId :: "string option"
  tk_organizationId :: "string option"
  tk_category :: string
  tk_priority :: string
  tk_status :: string
  tk_subject :: string
  tk_content :: string
  tk_assigneeUserId :: "string option"
  tk_createdAt :: timestamp
  tk_updatedAt :: timestamp

record ticket_event =
  te_id :: string
  te_ticketId :: string
  te_actorUserId :: "string option"
  te_eventType :: string
  te_payload :: json
  te_createdAt :: timestamp

record audit_log =
  au_id :: string
  au_actorUserId :: "string option"
  au_action :: string
  au_targetType :: string
  au_targetId :: "string option"
  au_metadata :: json
  au_createdAt :: timestamp

record platform_store =
  pf_roles :: "platform_role table"
  pf_settings :: "platform_setting table"
  pf_subscriptions :: "org_subscription table"
  pf_usage :: "run_usage table"
  pf_tickets :: "support_ticket table"
  pf_ticketEvents :: "ticket_event list table"
  pf_auditLogs :: "audit_log list"

definition default_settings :: "(string \<times> json) list" where
  "default_settings =
     [(''org_policy'', JObj [(''free'', JObj [(''canManageOrg'', JBool False), (''maxOrgs'', JNum 1)]),
        (''paid'', JObj [(''canManageOrg'', JBool True), (''maxOrgs'', JNum 5)]),
        (''enterprise'', JObj [(''canManageOrg'', JBool True), (''maxOrgs'', JNull)])]),
      (''risk.policies'', JObj [(''allowSignup'', JBool True), (''rateLimitMode'', JStr ''default'')]),
      (''risk.incidents'', JObj [(''items'', JArr [])]),
      (''observability.logs'', JObj [(''items'', JArr [])]),
      (''observability.metrics'', JObj [(''items'', JArr [])])]"

definition pf_initial :: "timestamp \<Rightarrow> platform_store" where
  \<comment> \<open>the constructor\<close>
  "pf_initial now = \<lparr>pf_roles = [],
     pf_settings = map (\<lambda>(k, v). (k, \<lparr>pg_key = k, pg_value = v, pg_updatedByUserId = None, pg_updatedAt = now\<rparr>))
       default_settings,
     pf_subscriptions = [], pf_usage = [], pf_tickets = [], pf_ticketEvents = [], pf_auditLogs = []\<rparr>"

section \<open>Roles and settings\<close>

definition role_table_key :: "string \<Rightarrow> string \<Rightarrow> string" where
  "role_table_key userId roleKey = userId @ '':'' @ roleKey"

definition listPlatformUserRoles :: "string option \<Rightarrow> string option \<Rightarrow> platform_store \<Rightarrow> platform_role list" where
  "listPlatformUserRoles roleKey userId s =
     js_sort (\<lambda>a b. cmp_int (pr_createdAt b) (pr_createdAt a))
       (filter (\<lambda>r. \<not> truthy userId \<or> Some (pr_userId r) = userId)
       (filter (\<lambda>r. \<not> truthy roleKey \<or> Some (pr_roleKey r) = roleKey) (jvalues (pf_roles s))))"

definition createPlatformUserRole :: "clock \<Rightarrow> uuids \<Rightarrow> string \<Rightarrow> string \<Rightarrow> string option \<Rightarrow> platform_store
    \<Rightarrow> platform_role \<times> platform_store" where
  "createPlatformUserRole clk uid userId roleKey grantedBy s =
     (case jget (pf_roles s) (role_table_key userId roleKey) of
        Some r \<Rightarrow> (r, s)
      | None \<Rightarrow>
          let r = \<lparr>pr_id = uid 0, pr_userId = userId, pr_roleKey = roleKey, pr_grantedByUserId = grantedBy,
                   pr_createdAt = clk 0\<rparr>
          in (r, s\<lparr>pf_roles := jset (role_table_key userId roleKey) r (pf_roles s)\<rparr>))"

definition deletePlatformUserRole :: "string \<Rightarrow> string \<Rightarrow> platform_store \<Rightarrow> bool \<times> platform_store" where
  "deletePlatformUserRole userId roleKey s =
     (jhas (pf_roles s) (role_table_key userId roleKey),
      s\<lparr>pf_roles := jdel (role_table_key userId roleKey) (pf_roles s)\<rparr>)"

definition listPlatformSettings :: "(string \<Rightarrow> string \<Rightarrow> int) \<Rightarrow> platform_store \<Rightarrow> platform_setting list" where
  "listPlatformSettings lc s = js_sort (\<lambda>a b. lc (pg_key a) (pg_key b)) (jvalues (pf_settings s))"

definition getPlatformSetting :: "string \<Rightarrow> platform_store \<Rightarrow> platform_setting option" where
  "getPlatformSetting k s = jget (pf_settings s) k"

definition upsertPlatformSetting :: "clock \<Rightarrow> string \<Rightarrow> json option \<Rightarrow> string option \<Rightarrow> platform_store
    \<Rightarrow> platform_setting \<times> platform_store" where
  "upsertPlatformSetting clk k v updatedBy s =
     (let r = \<lparr>pg_key = k, pg_value = qq (nullishJ v) (JObj []), pg_updatedByUserId = updatedBy, pg_updatedAt = clk 0\<rparr>
      in (r, s\<lparr>pf_settings := jset k r (pf_settings s)\<rparr>))"

section \<open>Subscriptions and usage\<close>

definition getOrganizationSubscription :: "string \<Rightarrow> platform_store \<Rightarrow> org_subscription option" where
  "getOrganizationSubscription org s = jget (pf_subscriptions s) org"

definition upsertOrganizationSubscription :: "clock \<Rightarrow> string \<Rightarrow> string \<Rightarrow> sub_tier \<Rightarrow> sub_status \<Rightarrow> int option
    \<Rightarrow> int option \<Rightarrow> json option \<Rightarrow> platform_store \<Rightarrow> org_subscription \<times> platform_store" where
  "upsertOrganizationSubscription clk org actor tier status monthly inflight metadata s =
     (let r = \<lparr>ob_organizationId = org, ob_tier = tier, ob_status = status, ob_monthlyRunLimit = monthly,
            ob_inflightRunLimit = inflight, ob_metadata = qq (nullishJ metadata) (JObj []),
            ob_updatedByUserId = Some actor,
            ob_createdAt = qq (map_option ob_createdAt (jget (pf_subscriptions s) org)) (clk 0),
            ob_updatedAt = clk 0\<rparr>
      in (r, s\<lparr>pf_subscriptions := jset org r (pf_subscriptions s)\<rparr>))"

definition usage_key :: "string \<Rightarrow> string \<Rightarrow> string" where
  "usage_key org month = org @ '':'' @ month"

definition getOrganizationRunUsageMonthly :: "string \<Rightarrow> string \<Rightarrow> platform_store \<Rightarrow> run_usage option" where
  "getOrganizationRunUsageMonthly org month s = jget (pf_usage s) (usage_key org month)"

definition incrementOrganizationRunUsageMonthly :: "clock \<Rightarrow> string \<Rightarrow> string \<Rightarrow> int option \<Rightarrow> platform_store
    \<Rightarrow> run_usage \<times> platform_store" where
  "incrementOrganizationRunUsageMonthly clk org month amount s =
     (let n = max 0 (qq amount 1);
          r = (case jget (pf_usage s) (usage_key org month) of
                 Some e \<Rightarrow> e\<lparr>ru_runCount := ru_runCount e + n, ru_updatedAt := clk 0\<rparr>
               | None \<Rightarrow> \<lparr>ru_organizationId = org, ru_usageMonth = month, ru_runCount = n, ru_createdAt = clk 0,
                          ru_updatedAt = clk 0\<rparr>)
      in (r, s\<lparr>pf_usage := jset (usage_key org month) r (pf_usage s)\<rparr>))"

section \<open>Support tickets\<close>

record ticket_input =
  ti_requesterUserId :: "string option"
  ti_organizationId :: "string option"
  ti_category :: "string option"
  ti_priority :: "string option"
  ti_status :: "string option"
  ti_subject :: string
  ti_content :: string
  ti_assigneeUserId :: "string option"

definition createSupportTicket :: "clock \<Rightarrow> uuids \<Rightarrow> ticket_input \<Rightarrow> platform_store \<Rightarrow> support_ticket \<times> platform_store" where
  "createSupportTicket clk uid i s =
     (let r = \<lparr>tk_id = uid 0, tk_requesterUserId = ti_requesterUserId i, tk_organizationId = ti_organizationId i,
            tk_category = qq (ti_category i) ''general'', tk_priority = qq (ti_priority i) ''normal'',
            tk_status = qq (ti_status i) ''open'', tk_subject = ti_subject i, tk_content = ti_content i,
            tk_assigneeUserId = ti_assigneeUserId i, tk_createdAt = clk 0, tk_updatedAt = clk 1\<rparr>
      in (r, s\<lparr>pf_tickets := jset (tk_id r) r (pf_tickets s)\<rparr>))"

definition listSupportTickets :: "string option \<Rightarrow> int option \<Rightarrow> string option option \<Rightarrow> string option option
    \<Rightarrow> platform_store \<Rightarrow> support_ticket list" where
  \<comment> \<open>for the organization and the requester, \<open>None\<close> is undefined and \<open>Some None\<close> is null\<close>
  "listSupportTickets status limit org requester s =
     slice0 (clampInt 1 500 (qq limit 100)) (js_sort (\<lambda>a b. cmp_int (tk_updatedAt b) (tk_updatedAt a))
       (filter (\<lambda>r. case requester of None \<Rightarrow> True | Some x \<Rightarrow> tk_requesterUserId r = x)
       (filter (\<lambda>r. case org of None \<Rightarrow> True | Some x \<Rightarrow> tk_organizationId r = x)
       (filter (\<lambda>r. \<not> truthy status \<or> Some (tk_status r) = status) (jvalues (pf_tickets s))))))"

definition getSupportTicketById :: "string \<Rightarrow> platform_store \<Rightarrow> support_ticket option" where
  "getSupportTicketById i s = jget (pf_tickets s) i"

definition patchSupportTicket :: "clock \<Rightarrow> string \<Rightarrow> string option \<Rightarrow> string option \<Rightarrow> string option option
    \<Rightarrow> platform_store \<Rightarrow> support_ticket option \<times> platform_store" where
  "patchSupportTicket clk i status priority assignee s =
     (case jget (pf_tickets s) i of
        None \<Rightarrow> (None, s)
      | Some r \<Rightarrow>
          let r' = r\<lparr>tk_status := qq status (tk_status r), tk_priority := qq priority (tk_priority r),
                tk_assigneeUserId := qq assignee (tk_assigneeUserId r), tk_updatedAt := clk 0\<rparr>
          in (Some r', s\<lparr>pf_tickets := jset (tk_id r') r' (pf_tickets s)\<rparr>))"

definition appendSupportTicketEvent :: "clock \<Rightarrow> uuids \<Rightarrow> string \<Rightarrow> string option \<Rightarrow> string \<Rightarrow> json option
    \<Rightarrow> platform_store \<Rightarrow> ticket_event \<times> platform_store" where
  "appendSupportTicketEvent clk uid ticketId actor eventType payload s =
     (let r = \<lparr>te_id = uid 0, te_ticketId = ticketId, te_actorUserId = actor, te_eventType = eventType,
            te_payload = qq (nullishJ payload) (JObj []), te_createdAt = clk 0\<rparr>
      in (r, s\<lparr>pf_ticketEvents := jset ticketId (r # qq (jget (pf_ticketEvents s) ticketId) []) (pf_ticketEvents s)\<rparr>))"

definition listSupportTicketEvents :: "string \<Rightarrow> int option \<Rightarrow> platform_store \<Rightarrow> ticket_event list" where
  "listSupportTicketEvents ticketId limit s =
     slice0 (clampInt 1 500 (qq limit 100)) (qq (jget (pf_ticketEvents s) ticketId) [])"

section \<open>The audit log\<close>

definition appendPlatformAuditLog :: "clock \<Rightarrow> uuids \<Rightarrow> string option \<Rightarrow> string \<Rightarrow> string \<Rightarrow> string option \<Rightarrow> json option
    \<Rightarrow> platform_store \<Rightarrow> audit_log \<times> platform_store" where
  "appendPlatformAuditLog clk uid actor action targetType targetId metadata s =
     (let r = \<lparr>au_id = uid 0, au_actorUserId = actor, au_action = action, au_targetType = targetType,
            au_targetId = targetId, au_metadata = qq (nullishJ metadata) (JObj []), au_createdAt = clk 0\<rparr>
      in (r, s\<lparr>pf_auditLogs := r # pf_auditLogs s\<rparr>))"

definition listPlatformAuditLogs :: "string option \<Rightarrow> int option \<Rightarrow> platform_store \<Rightarrow> audit_log list" where
  "listPlatformAuditLogs action limit s =
     slice0 (clampInt 1 500 (qq limit 100))
       (filter (\<lambda>r. \<not> truthy action \<or> Some (au_action r) = action) (pf_auditLogs s))"

end
