(* ===== verification/StoreToolsets.thy ===== *)
theory StoreToolsets
  imports Paging Json
begin

text \<open>
  The toolset part of \<open>MemoryAppStore\<close> (\<open>apps/api/src/store/memory-store.ts\<close>): toolsets, the public
  gallery, adoption, and the sessions and turns of the toolset builder.  The comparators of the two
  toolset listings answer -1 on equal timestamps, so the order of such rows is left to the engine;
  no property depends on it.
\<close>

section \<open>Records\<close>

datatype visibility = VisPrivate | VisOrg | VisPublic

record toolset =
  to_id :: string
  to_organizationId :: string
  to_name :: string
  to_description :: "string option"
  to_visibility :: visibility
  to_publicSlug :: "string option"
  to_publishedAt :: "timestamp option"
  to_mcpServers :: "json list"
  to_agentSkills :: "json list"
  to_adoptedFrom :: "(string \<times> string option) option"
  to_createdByUserId :: string
  to_updatedByUserId :: string
  to_createdAt :: timestamp
  to_updatedAt :: timestamp

datatype builder_status = BuilderActive | BuilderFinalized | BuilderArchived

record builder_session =
  bs_id :: string
  bs_organizationId :: string
  bs_createdByUserId :: string
  bs_status :: builder_status
  bs_llm :: json
  bs_latestIntent :: "string option"
  bs_selectedComponentKeys :: "string list"
  bs_finalDraft :: "json option"
  bs_createdAt :: timestamp
  bs_updatedAt :: timestamp

datatype turn_role = TurnUser | TurnAssistant

record builder_turn =
  bt_id :: int
  bt_sessionId :: string
  bt_role :: turn_role
  bt_messageText :: string
  bt_createdAt :: timestamp

record tool_store =
  ts_toolsets :: "toolset table"
  ts_builders :: "builder_session table"
  ts_turns :: "builder_turn list table"
  ts_turnSeq :: int

definition tool_empty :: tool_store where
  "tool_empty = \<lparr>ts_toolsets = [], ts_builders = [], ts_turns = [], ts_turnSeq = 0\<rparr>"

datatype tool_error = PUBLIC_SLUG_CONFLICT | TOOLSET_BUILDER_SESSION_NOT_FOUND

section \<open>Toolsets\<close>

definition array_or_empty :: "json option \<Rightarrow> json list" where
  \<comment> \<open>\<open>Array.isArray(v) ? v : []\<close>\<close>
  "array_or_empty v = (case v of Some (JArr xs) \<Rightarrow> xs | _ \<Rightarrow> [])"

definition listAgentToolsetsByOrg :: "string \<Rightarrow> tool_store \<Rightarrow> toolset list" where
  "listAgentToolsetsByOrg org s =
     js_sort (\<lambda>a b. if to_updatedAt a < to_updatedAt b then 1 else -1)
       (filter (\<lambda>t. to_organizationId t = org) (jvalues (ts_toolsets s)))"

definition createAgentToolset :: "clock \<Rightarrow> uuids \<Rightarrow> string \<Rightarrow> string \<Rightarrow> string \<Rightarrow> string option \<Rightarrow> visibility
    \<Rightarrow> json option \<Rightarrow> json option \<Rightarrow> tool_store \<Rightarrow> toolset \<times> tool_store" where
  "createAgentToolset clk uid org actor nm description vis mcpServers agentSkills s =
     (let t = \<lparr>to_id = uid 0, to_organizationId = org, to_name = nm, to_description = description,
            to_visibility = vis, to_publicSlug = None, to_publishedAt = None,
            to_mcpServers = array_or_empty mcpServers, to_agentSkills = array_or_empty agentSkills,
            to_adoptedFrom = None, to_createdByUserId = actor, to_updatedByUserId = actor,
            to_createdAt = clk 0, to_updatedAt = clk 0\<rparr>
      in (t, s\<lparr>ts_toolsets := jset (to_id t) t (ts_toolsets s)\<rparr>))"

definition getAgentToolsetById :: "string \<Rightarrow> string \<Rightarrow> tool_store \<Rightarrow> toolset option" where
  "getAgentToolsetById org toolsetId s = scoped_get to_organizationId (ts_toolsets s) org toolsetId"

definition updateAgentToolset :: "clock \<Rightarrow> string \<Rightarrow> string \<Rightarrow> string \<Rightarrow> string \<Rightarrow> string option \<Rightarrow> visibility
    \<Rightarrow> json option \<Rightarrow> json option \<Rightarrow> tool_store \<Rightarrow> toolset option \<times> tool_store" where
  "updateAgentToolset clk org actor toolsetId nm description vis mcpServers agentSkills s =
     (case scoped_get to_organizationId (ts_toolsets s) org toolsetId of
        None \<Rightarrow> (None, s)
      | Some t \<Rightarrow>
          let t' = t\<lparr>to_name := nm, to_description := description, to_visibility := vis,
                to_mcpServers := array_or_empty mcpServers, to_agentSkills := array_or_empty agentSkills,
                to_updatedByUserId := actor, to_updatedAt := clk 0\<rparr>
          in (Some t', s\<lparr>ts_toolsets := jset (to_id t) t' (ts_toolsets s)\<rparr>))"

definition deleteAgentToolset :: "string \<Rightarrow> string \<Rightarrow> tool_store \<Rightarrow> bool \<times> tool_store" where
  "deleteAgentToolset org toolsetId s =
     (case scoped_get to_organizationId (ts_toolsets s) org toolsetId of
        None \<Rightarrow> (False, s)
      | Some t \<Rightarrow> (True, s\<lparr>ts_toolsets := jdel (to_id t) (ts_toolsets s)\<rparr>))"

definition publishAgentToolset :: "clock \<Rightarrow> string \<Rightarrow> string \<Rightarrow> string \<Rightarrow> string \<Rightarrow> tool_store
    \<Rightarrow> (tool_error + toolset option) \<times> tool_store" where
  "publishAgentToolset clk org actor toolsetId publicSlug s =
     (case scoped_get to_organizationId (ts_toolsets s) org toolsetId of
        None \<Rightarrow> (Inr None, s)
      | Some t \<Rightarrow>
          if list_ex (\<lambda>x. to_id x \<noteq> to_id t \<and> to_visibility x = VisPublic \<and> to_publicSlug x = Some publicSlug)
               (jvalues (ts_toolsets s))
          then (Inl PUBLIC_SLUG_CONFLICT, s)
          else let t' = t\<lparr>to_visibility := VisPublic, to_publicSlug := Some publicSlug,
                     to_publishedAt := Some (clk 0), to_updatedByUserId := actor, to_updatedAt := clk 0\<rparr>
               in (Inr (Some t'), s\<lparr>ts_toolsets := jset (to_id t) t' (ts_toolsets s)\<rparr>))"

definition unpublishAgentToolset :: "clock \<Rightarrow> string \<Rightarrow> string \<Rightarrow> string \<Rightarrow> visibility \<Rightarrow> tool_store
    \<Rightarrow> toolset option \<times> tool_store" where
  "unpublishAgentToolset clk org actor toolsetId vis s =
     (case scoped_get to_organizationId (ts_toolsets s) org toolsetId of
        None \<Rightarrow> (None, s)
      | Some t \<Rightarrow>
          let t' = t\<lparr>to_visibility := vis, to_publicSlug := None, to_publishedAt := None,
                to_updatedByUserId := actor, to_updatedAt := clk 0\<rparr>
          in (Some t', s\<lparr>ts_toolsets := jset (to_id t) t' (ts_toolsets s)\<rparr>))"

definition published_before :: "toolset \<Rightarrow> toolset \<Rightarrow> bool" where
  \<comment> \<open>\<open>(a.publishedAt ?? "") < (b.publishedAt ?? "")\<close>\<close>
  "published_before a b = (case (to_publishedAt a, to_publishedAt b) of
     (_, None) \<Rightarrow> False | (None, Some y) \<Rightarrow> True | (Some x, Some y) \<Rightarrow> x < y)"

definition listPublicToolsetGallery :: "tool_store \<Rightarrow> toolset list" where
  "listPublicToolsetGallery s =
     js_sort (\<lambda>a b. if published_before a b then 1 else -1)
       (filter (\<lambda>t. to_visibility t = VisPublic \<and> truthy (to_publicSlug t)) (jvalues (ts_toolsets s)))"

definition getPublicToolsetBySlug :: "string \<Rightarrow> tool_store \<Rightarrow> toolset option" where
  "getPublicToolsetBySlug slug s =
     find (\<lambda>t. to_visibility t = VisPublic \<and> to_publicSlug t = Some slug) (jvalues (ts_toolsets s))"

definition adoptPublicToolset :: "clock \<Rightarrow> uuids \<Rightarrow> string \<Rightarrow> string \<Rightarrow> string \<Rightarrow> string option \<Rightarrow> string option
    \<Rightarrow> tool_store \<Rightarrow> toolset option \<times> tool_store" where
  "adoptPublicToolset clk uid org actor publicSlug nameOverride descriptionOverride s =
     (case getPublicToolsetBySlug publicSlug s of
        None \<Rightarrow> (None, s)
      | Some src \<Rightarrow>
          let t = \<lparr>to_id = uid 0, to_organizationId = org,
                to_name = (case nameOverride of Some n \<Rightarrow> if trim n \<noteq> '''' then n else to_name src | None \<Rightarrow> to_name src),
                to_description = (case descriptionOverride of Some d \<Rightarrow> Some d | None \<Rightarrow> to_description src),
                to_visibility = VisOrg, to_publicSlug = None, to_publishedAt = None,
                to_mcpServers = to_mcpServers src, to_agentSkills = to_agentSkills src,
                to_adoptedFrom = Some (to_id src, to_publicSlug src), to_createdByUserId = actor,
                to_updatedByUserId = actor, to_createdAt = clk 0, to_updatedAt = clk 0\<rparr>
          in (Some t, s\<lparr>ts_toolsets := jset (to_id t) t (ts_toolsets s)\<rparr>))"

section \<open>The toolset builder\<close>

definition createToolsetBuilderSession :: "clock \<Rightarrow> uuids \<Rightarrow> string \<Rightarrow> string \<Rightarrow> json \<Rightarrow> string option \<Rightarrow> tool_store
    \<Rightarrow> builder_session \<times> tool_store" where
  "createToolsetBuilderSession clk uid org actor llm latestIntent s =
     (let r = \<lparr>bs_id = uid 0, bs_organizationId = org, bs_createdByUserId = actor, bs_status = BuilderActive,
            bs_llm = llm, bs_latestIntent = latestIntent, bs_selectedComponentKeys = [], bs_finalDraft = None,
            bs_createdAt = clk 0, bs_updatedAt = clk 0\<rparr>
      in (r, s\<lparr>ts_builders := jset (uid 0) r (ts_builders s), ts_turns := jset (uid 0) [] (ts_turns s)\<rparr>))"

definition appendToolsetBuilderTurn :: "clock \<Rightarrow> string \<Rightarrow> string \<Rightarrow> turn_role \<Rightarrow> string \<Rightarrow> tool_store
    \<Rightarrow> (tool_error + builder_turn) \<times> tool_store" where
  "appendToolsetBuilderTurn clk org sessionId role messageText s =
     (case scoped_get bs_organizationId (ts_builders s) org sessionId of
        None \<Rightarrow> (Inl TOOLSET_BUILDER_SESSION_NOT_FOUND, s)
      | Some b \<Rightarrow>
          let turn = \<lparr>bt_id = ts_turnSeq s + 1, bt_sessionId = sessionId, bt_role = role,
                bt_messageText = messageText, bt_createdAt = clk 0\<rparr>
          in (Inr turn, s\<lparr>ts_turnSeq := ts_turnSeq s + 1,
                ts_turns := jset sessionId (qq (jget (ts_turns s) sessionId) [] @ [turn]) (ts_turns s)\<rparr>))"

definition listToolsetBuilderTurns :: "string \<Rightarrow> string \<Rightarrow> int option \<Rightarrow> tool_store \<Rightarrow> tool_error + builder_turn list" where
  "listToolsetBuilderTurns org sessionId limit s =
     (case scoped_get bs_organizationId (ts_builders s) org sessionId of
        None \<Rightarrow> Inl TOOLSET_BUILDER_SESSION_NOT_FOUND
      | Some b \<Rightarrow>
          let turns = qq (jget (ts_turns s) sessionId) [];
              n = (case limit of Some l \<Rightarrow> max 1 l | None \<Rightarrow> 100)
          in Inr (drop (nat (max 0 (int (length turns) - n))) turns))"

definition getToolsetBuilderSessionById :: "string \<Rightarrow> string \<Rightarrow> tool_store \<Rightarrow> builder_session option" where
  "getToolsetBuilderSessionById org sessionId s = scoped_get bs_organizationId (ts_builders s) org sessionId"

definition updateToolsetBuilderSessionSelection :: "clock \<Rightarrow> string \<Rightarrow> string \<Rightarrow> string option option \<Rightarrow> string list
    \<Rightarrow> tool_store \<Rightarrow> builder_session option \<times> tool_store" where
  "updateToolsetBuilderSessionSelection clk org sessionId latestIntent keys s =
     (case scoped_get bs_organizationId (ts_builders s) org sessionId of
        None \<Rightarrow> (None, s)
      | Some b \<Rightarrow>
          let b' = b\<lparr>bs_latestIntent := qq latestIntent (bs_latestIntent b), bs_selectedComponentKeys := keys,
                bs_updatedAt := clk 0\<rparr>
          in (Some b', s\<lparr>ts_builders := jset (bs_id b) b' (ts_builders s)\<rparr>))"

definition finalizeToolsetBuilderSession :: "clock \<Rightarrow> string \<Rightarrow> string \<Rightarrow> string list \<Rightarrow> json
    \<Rightarrow> tool_store \<Rightarrow> builder_session option \<times> tool_store" where
  "finalizeToolsetBuilderSession clk org sessionId keys finalDraft s =
     (case scoped_get bs_organizationId (ts_builders s) org sessionId of
        None \<Rightarrow> (None, s)
      | Some b \<Rightarrow>
          let b' = b\<lparr>bs_status := BuilderFinalized, bs_selectedComponentKeys := keys,
                bs_finalDraft := nullishJ (Some finalDraft), bs_updatedAt := clk 0\<rparr>
          in (Some b', s\<lparr>ts_builders := jset (bs_id b) b' (ts_builders s)\<rparr>))"

section \<open>Public slugs\<close>

inductive tool_step :: "tool_store \<Rightarrow> tool_store \<Rightarrow> bool" where
  tool_create: "uid 0 \<notin> set (jkeys (ts_toolsets s)) \<Longrightarrow> vis \<noteq> VisPublic \<Longrightarrow>
     tool_step s (snd (createAgentToolset clk uid og a n d vis m k s))"
| tool_update: "vis \<noteq> VisPublic \<Longrightarrow> tool_step s (snd (updateAgentToolset clk og a i n d vis m k s))"
| tool_delete: "tool_step s (snd (deleteAgentToolset og i s))"
| tool_publish: "tool_step s (snd (publishAgentToolset clk og a i slug s))"
| tool_unpublish: "vis \<noteq> VisPublic \<Longrightarrow> tool_step s (snd (unpublishAgentToolset clk og a i vis s))"
| tool_adopt: "uid 0 \<notin> set (jkeys (ts_toolsets s)) \<Longrightarrow>
     tool_step s (snd (adoptPublicToolset clk uid og a slug no d s))"

inductive tool_reach :: "tool_store \<Rightarrow> bool" where
  tool_reach_empty: "tool_reach tool_empty"
| tool_reach_step: "tool_reach s \<Longrightarrow> tool_step s t \<Longrightarrow> tool_reach t"

definition slugs_ok :: "toolset table \<Rightarrow> bool" where
  "slugs_ok m \<longleftrightarrow> keyed to_id m \<and> (\<forall>k t k' t'. jget m k = Some t \<longrightarrow> jget m k' = Some t' \<longrightarrow>
     to_visibility t = VisPublic \<longrightarrow> to_visibility t' = VisPublic \<longrightarrow> to_publicSlug t = to_publicSlug t' \<longrightarrow> k = k')"

lemma slugs_private:
  assumes "slugs_ok m" "to_id t = k" "to_visibility t \<noteq> VisPublic"
  shows "slugs_ok (jset k t m)"
  using assms unfolding slugs_ok_def by (auto simp: keyed_jset jget_jset split: if_splits)

lemma slugs_publish:
  assumes "slugs_ok m" "to_id t = k" "to_publicSlug t = Some slug"
    and "\<not> list_ex (\<lambda>x. to_id x \<noteq> k \<and> to_visibility x = VisPublic \<and> to_publicSlug x = Some slug) (jvalues m)"
  shows "slugs_ok (jset k t m)"
proof -
  have k: "keyed to_id m" using assms(1) by (simp add: slugs_ok_def)
  have other: False if "jget m k' = Some x" "k' \<noteq> k" "to_visibility x = VisPublic" "to_publicSlug x = Some slug"
    for k' x
    using assms(4) jget_in_values [OF that(1)] keyed_get [OF k that(1)] that(2-4) by (auto simp: list_ex_iff)
  then show ?thesis
    using assms(1-3) unfolding slugs_ok_def
    by (auto simp: keyed_jset jget_jset split: if_splits dest: other)
qed

lemma slugs_delete: "slugs_ok m \<Longrightarrow> slugs_ok (jdel k m)"
  unfolding slugs_ok_def by (auto simp: keyed_jdel jget_jdel split: if_splits)

lemma slugs_step: "tool_step s t \<Longrightarrow> slugs_ok (ts_toolsets s) \<Longrightarrow> slugs_ok (ts_toolsets t)"
  by (erule tool_step.cases; hypsubst)
    (auto simp: createAgentToolset_def updateAgentToolset_def deleteAgentToolset_def publishAgentToolset_def
      unpublishAgentToolset_def adoptPublicToolset_def Let_def intro: slugs_private slugs_publish slugs_delete
      split: option.split)

lemma tool_reach_slugs: "tool_reach s \<Longrightarrow> slugs_ok (ts_toolsets s)"
proof (induction rule: tool_reach.induct)
  case tool_reach_empty
  then show ?case by (simp add: slugs_ok_def tool_empty_def)
next
  case (tool_reach_step s t)
  then show ?case by (auto intro: slugs_step)
qed

text \<open>
  A public slug names one toolset: in every reachable store the toolset found by
  \<open>getPublicToolsetBySlug\<close> is the only public toolset with that slug, of any organization.
\<close>
theorem public_slug_unique:
  assumes "tool_reach s" and "jget (ts_toolsets s) k = Some t" and "to_visibility t = VisPublic"
    and "to_publicSlug t = Some slug"
  shows "getPublicToolsetBySlug slug s = Some t"
proof -
  note ok = tool_reach_slugs [OF assms(1)]
  have "\<exists>x. getPublicToolsetBySlug slug s = Some x"
    using jget_in_values [OF assms(2)] assms(3,4)
    by (cases "getPublicToolsetBySlug slug s") (auto simp: getPublicToolsetBySlug_def find_None_iff)
  then obtain x where x: "getPublicToolsetBySlug slug s = Some x" by blast
  then have px: "x \<in> set (jvalues (ts_toolsets s))" "to_visibility x = VisPublic" "to_publicSlug x = Some slug"
    by (auto simp: getPublicToolsetBySlug_def find_Some_iff)
  then obtain k' where "(k', x) \<in> set (ts_toolsets s)" by (auto simp: jvalues_def)
  then have kx: "jget (ts_toolsets s) k' = Some x" using ok by (auto simp: slugs_ok_def keyed_def intro: in_set_jget)
  then have "k' = k" using ok assms(2-4) px(2,3) unfolding slugs_ok_def by metis
  then show ?thesis using x kx assms(2) by simp
qed

definition sample_tools :: tool_store where
  "sample_tools = snd (publishAgentToolset (\<lambda>_. 2) ''o'' ''u'' ''t1'' ''kit''
     (snd (createAgentToolset (\<lambda>_. 1) (\<lambda>_. ''t1'') ''o'' ''u'' ''Kit'' None VisOrg None None tool_empty)))"

lemma sample_tools_reach: "tool_reach sample_tools"
  unfolding sample_tools_def
  by (rule tool_reach_step [OF tool_reach_step [OF tool_reach_empty tool_create] tool_publish])
    (simp_all add: tool_empty_def)

theorem public_slug_unique_witness:
  "\<exists>t. jget (ts_toolsets sample_tools) ''t1'' = Some t \<and> getPublicToolsetBySlug ''kit'' sample_tools = Some t"
proof -
  have "map_option (\<lambda>t. (to_visibility t, to_publicSlug t)) (jget (ts_toolsets sample_tools) ''t1'')
      = Some (VisPublic, Some ''kit'')" by code_simp
  then obtain t where t: "jget (ts_toolsets sample_tools) ''t1'' = Some t" "to_visibility t = VisPublic"
    "to_publicSlug t = Some ''kit''" by auto
  from public_slug_unique [OF sample_tools_reach t] t(1) show ?thesis by blast
qed

end
