(* ===== verification/UniqueRows.thy ===== *)
theory UniqueRows
  imports Prelude
begin

text \<open>
  Tables with a unique column: the rows of a table keyed by id in which no two rows agree on a
  derived key (an account key, a secret's name, a token hash).  The stores keep such columns unique
  by a scan before an insert; the lemmas here carry the invariant through inserts, updates that
  leave the column alone, and deletions.
\<close>

definition unique_rows :: "('r \<Rightarrow> string) \<Rightarrow> ('r \<Rightarrow> 'k) \<Rightarrow> 'r table \<Rightarrow> bool" where
  "unique_rows rid kf m \<longleftrightarrow> keyed rid m \<and> distinct (map kf (jvalues m))"

named_theorems unique_intros \<comment> \<open>steps that keep a column unique\<close>

lemma unique_rows_Nil [simp, intro]: "unique_rows rid kf []"
  by (simp add: unique_rows_def)

lemma unique_keyed: "unique_rows rid kf m \<Longrightarrow> keyed rid m"
  by (simp add: unique_rows_def)

lemma unique_insert [unique_intros]:
  assumes "unique_rows rid kf m" and "k \<notin> set (jkeys m)" and "rid r = k"
    and "\<And>x. x \<in> set (jvalues m) \<Longrightarrow> kf x \<noteq> kf r"
  shows "unique_rows rid kf (jset k r m)"
proof -
  have "kf r \<notin> kf ` set (jvalues m)" using assms(4) by fastforce
  then show ?thesis using assms(1-3) by (simp add: unique_rows_def keyed_jset jvalues_jset_fresh)
qed

lemma jvalues_jset_same:
  assumes "jget m k = Some old" and "kf r = kf old" and "wf_map m"
  shows "map kf (jvalues (jset k r m)) = map kf (jvalues m)"
  using assms by (induction m) (auto simp: jget_None_iff split: if_splits)

lemma unique_update [unique_intros]:
  assumes "unique_rows rid kf m" and "jget m k = Some old" and "rid r = k" and "kf r = kf old"
  shows "unique_rows rid kf (jset k r m)"
  using assms jvalues_jset_same [of m k old kf r, OF assms(2,4)]
  by (auto simp: unique_rows_def keyed_jset dest: keyed_wf)

lemma distinct_map_filter_values: "distinct (map kf (jvalues m)) \<Longrightarrow> distinct (map kf (jvalues (filter P m)))"
  by (induction m) (auto simp: jvalues_def)

lemma unique_filter [unique_intros]: "unique_rows rid kf m \<Longrightarrow> unique_rows rid kf (filter P m)"
  by (simp add: unique_rows_def keyed_filter distinct_map_filter_values)

lemma unique_jdel [unique_intros]: "unique_rows rid kf m \<Longrightarrow> unique_rows rid kf (jdel k m)"
  by (simp add: jdel_def unique_filter)

lemma unique_values:
  assumes "unique_rows rid kf m" and "x \<in> set (jvalues m)" and "y \<in> set (jvalues m)" and "kf x = kf y"
  shows "x = y"
  using assms by (auto simp: unique_rows_def distinct_map dest: inj_onD)

lemma unique_find:
  assumes "unique_rows rid kf m" and "x \<in> set (jvalues m)" and "\<And>y. P y \<longleftrightarrow> kf y = kf x"
  shows "find P (jvalues m) = Some x"
proof (cases "find P (jvalues m)")
  case None
  then show ?thesis using assms(2,3) by (auto simp: find_None_iff)
next
  case (Some y)
  then have "y \<in> set (jvalues m)" "kf y = kf x" using assms(3) by (auto simp: find_Some_iff)
  then show ?thesis using Some unique_values [OF assms(1) _ assms(2)] by simp
qed

lemma in_jvaluesE:
  assumes "x \<in> set (jvalues m)"
  obtains k where "(k, x) \<in> set m"
  using assms by (auto simp: jvalues_def)

lemma keyed_value_get: "keyed rid m \<Longrightarrow> x \<in> set (jvalues m) \<Longrightarrow> jget m (rid x) = Some x"
  by (auto simp: keyed_def elim!: in_jvaluesE intro!: in_set_jget)

end
