(* ===== verification/StoreChannels.thy ===== *)
theory StoreChannels
  imports UniqueRows Paging Json
begin

text \<open>
  The channel part of \<open>MemoryAppStore\<close> (\<open>apps/api/src/store/memory-store.ts\<close>): the accounts that
  connect an organization to a messaging channel, their secrets, allowlist entries, pairing
  requests and event log.
\<close>

section \<open>Records\<close>

datatype dm_policy = DmPairing | DmAllowlist | DmOpen | DmDisabled

datatype group_policy = GroupAllowlist | GroupOpen | GroupDisabled

record channel_account =
  ca_id :: string
  ca_organizationId :: string
  ca_channelId :: string
  ca_accountKey :: string
  ca_displayName :: "string option"
  ca_enabled :: bool
  ca_status :: string
  ca_dmPolicy :: dm_policy
  ca_groupPolicy :: group_policy
  ca_requireMentionInGroup :: bool
  ca_webhookUrl :: "string option"
  ca_metadata :: json
  ca_lastError :: "string option"
  ca_lastSeenAt :: "timestamp option"
  ca_createdByUserId :: string
  ca_updatedByUserId :: string
  ca_createdAt :: timestamp
  ca_updatedAt :: timestamp

record channel_secret =
  cs_id :: string
  cs_organizationId :: string
  cs_accountId :: string
  cs_name :: string
  cs_createdByUserId :: string
  cs_updatedByUserId :: string
  cs_createdAt :: timestamp
  cs_updatedAt :: timestamp

record pairing_request =
  pr_id :: string
  pr_organizationId :: string
  pr_accountId :: string
  pr_scope :: string
  pr_requesterId :: string
  pr_requesterDisplayName :: "string option"
  pr_code :: string
  pr_status :: string
  pr_expiresAt :: timestamp
  pr_approvedByUserId :: "string option"
  pr_approvedAt :: "timestamp option"
  pr_rejectedAt :: "timestamp option"
  pr_createdAt :: timestamp

record allowlist_entry =
  ae_id :: string
  ae_organizationId :: string
  ae_accountId :: string
  ae_scope :: string
  ae_subject :: string
  ae_createdByUserId :: string
  ae_createdAt :: timestamp

datatype event_level = EvInfo | EvWarn | EvError

record account_event =
  ce_id :: string
  ce_organizationId :: string
  ce_accountId :: string
  ce_conversationId :: "string option"
  ce_eventType :: string
  ce_level :: event_level
  ce_message :: "string option"
  ce_payload :: json
  ce_createdAt :: timestamp

record chan_store =
  ch_accounts :: "channel_account table"
  ch_secrets :: "(channel_secret \<times> string) table"  \<comment> \<open>the row and its plain value\<close>
  ch_pairings :: "pairing_request table"
  ch_allowlist :: "allowlist_entry table"
  ch_events :: "account_event list table"

definition chan_empty :: chan_store where
  "chan_empty = \<lparr>ch_accounts = [], ch_secrets = [], ch_pairings = [], ch_allowlist = [], ch_events = []\<rparr>"

datatype chan_error = CHANNEL_ACCOUNT_EXISTS | CHANNEL_ACCOUNT_NOT_FOUND | CHANNEL_SECRET_EXISTS

section \<open>Accounts\<close>

definition listChannelAccounts :: "(string \<Rightarrow> string \<Rightarrow> int) \<Rightarrow> string \<Rightarrow> string option \<Rightarrow> chan_store \<Rightarrow> channel_account list" where
  "listChannelAccounts lc org channelId s =
     js_sort (\<lambda>a b. cmp_then (cmp_int (ca_updatedAt b) (ca_updatedAt a)) (lc (ca_id b) (ca_id a)))
       (filter (\<lambda>r. truthy channelId \<longrightarrow> channelId = Some (ca_channelId r))
         (filter (\<lambda>r. ca_organizationId r = org) (jvalues (ch_accounts s))))"

record account_input =
  ai_channelId :: string
  ai_accountKey :: string
  ai_displayName :: "string option"
  ai_enabled :: "bool option"
  ai_dmPolicy :: "dm_policy option"
  ai_groupPolicy :: "group_policy option"
  ai_requireMentionInGroup :: "bool option"
  ai_webhookUrl :: "string option"
  ai_metadata :: "json option"

definition same_account :: "string \<Rightarrow> string \<Rightarrow> string \<Rightarrow> channel_account \<Rightarrow> bool" where
  "same_account org channelId accountKey r \<longleftrightarrow> ca_organizationId r = org \<and> ca_channelId r = channelId
     \<and> toLowerCase (ca_accountKey r) = toLowerCase accountKey"

definition createChannelAccount :: "clock \<Rightarrow> uuids \<Rightarrow> string \<Rightarrow> string \<Rightarrow> account_input \<Rightarrow> chan_store
    \<Rightarrow> (chan_error + channel_account) \<times> chan_store" where
  "createChannelAccount clk uid org actor i s =
     (if list_ex (same_account org (ai_channelId i) (ai_accountKey i)) (jvalues (ch_accounts s))
      then (Inl CHANNEL_ACCOUNT_EXISTS, s)
      else let r = \<lparr>ca_id = uid 0, ca_organizationId = org, ca_channelId = ai_channelId i,
                 ca_accountKey = ai_accountKey i, ca_displayName = ai_displayName i,
                 ca_enabled = qq (ai_enabled i) True, ca_status = ''stopped'',
                 ca_dmPolicy = qq (ai_dmPolicy i) DmPairing,
                 ca_groupPolicy = qq (ai_groupPolicy i) GroupAllowlist,
                 ca_requireMentionInGroup = qq (ai_requireMentionInGroup i) True,
                 ca_webhookUrl = ai_webhookUrl i, ca_metadata = qq (ai_metadata i) (JObj []),
                 ca_lastError = None, ca_lastSeenAt = None, ca_createdByUserId = actor,
                 ca_updatedByUserId = actor, ca_createdAt = clk 0, ca_updatedAt = clk 0\<rparr>
           in (Inr r, s\<lparr>ch_accounts := jset (ca_id r) r (ch_accounts s)\<rparr>))"

definition getChannelAccountById :: "string \<Rightarrow> string \<Rightarrow> chan_store \<Rightarrow> channel_account option" where
  "getChannelAccountById org accountId s = scoped_get ca_organizationId (ch_accounts s) org accountId"

record account_patch =
  ap_displayName :: "string option option"
  ap_enabled :: "bool option"
  ap_dmPolicy :: "dm_policy option"
  ap_groupPolicy :: "group_policy option"
  ap_requireMentionInGroup :: "bool option"
  ap_webhookUrl :: "string option option"
  ap_metadata :: "json option"
  ap_status :: "string option"
  ap_lastError :: "string option option"

definition updateChannelAccount :: "clock \<Rightarrow> string \<Rightarrow> string \<Rightarrow> string \<Rightarrow> account_patch \<Rightarrow> chan_store
    \<Rightarrow> channel_account option \<times> chan_store" where
  "updateChannelAccount clk org actor accountId p s =
     (case getChannelAccountById org accountId s of
        None \<Rightarrow> (None, s)
      | Some c \<Rightarrow>
          let r = c\<lparr>ca_displayName := qq (ap_displayName p) (ca_displayName c),
                ca_enabled := qq (ap_enabled p) (ca_enabled c),
                ca_dmPolicy := qq (ap_dmPolicy p) (ca_dmPolicy c),
                ca_groupPolicy := qq (ap_groupPolicy p) (ca_groupPolicy c),
                ca_requireMentionInGroup := qq (ap_requireMentionInGroup p) (ca_requireMentionInGroup c),
                ca_webhookUrl := qq (ap_webhookUrl p) (ca_webhookUrl c),
                ca_metadata := qq (ap_metadata p) (ca_metadata c),
                ca_status := qq (ap_status p) (ca_status c),
                ca_lastError := qq (ap_lastError p) (ca_lastError c),
                ca_updatedByUserId := actor, ca_updatedAt := clk 0\<rparr>
          in (Some r, s\<lparr>ch_accounts := jset (ca_id r) r (ch_accounts s)\<rparr>))"

definition deleteChannelAccount :: "string \<Rightarrow> string \<Rightarrow> chan_store \<Rightarrow> bool \<times> chan_store" where
  "deleteChannelAccount org accountId s =
     (case getChannelAccountById org accountId s of
        None \<Rightarrow> (False, s)
      | Some r \<Rightarrow>
          (jhas (ch_accounts s) (ca_id r),
           s\<lparr>ch_secrets := filter (\<lambda>e. cs_accountId (fst (snd e)) \<noteq> ca_id r) (ch_secrets s),
             ch_allowlist := filter (\<lambda>e. ae_accountId (snd e) \<noteq> ca_id r) (ch_allowlist s),
             ch_events := jdel (ca_id r) (ch_events s),
             ch_accounts := jdel (ca_id r) (ch_accounts s)\<rparr>))"


section \<open>Secrets, pairing, allowlist and events\<close>

definition createChannelAccountSecret :: "clock \<Rightarrow> uuids \<Rightarrow> string \<Rightarrow> string \<Rightarrow> string \<Rightarrow> string \<Rightarrow> string
    \<Rightarrow> chan_store \<Rightarrow> (chan_error + channel_secret) \<times> chan_store" where
  "createChannelAccountSecret clk uid org actor accountId name val s =
     (case getChannelAccountById org accountId s of
        None \<Rightarrow> (Inl CHANNEL_ACCOUNT_NOT_FOUND, s)
      | Some _ \<Rightarrow>
          if list_ex (\<lambda>(r, _). cs_organizationId r = org \<and> cs_accountId r = accountId \<and> cs_name r = name)
               (jvalues (ch_secrets s))
          then (Inl CHANNEL_SECRET_EXISTS, s)
          else let r = \<lparr>cs_id = uid 0, cs_organizationId = org, cs_accountId = accountId, cs_name = name,
                     cs_createdByUserId = actor, cs_updatedByUserId = actor, cs_createdAt = clk 0, cs_updatedAt = clk 0\<rparr>
               in (Inr r, s\<lparr>ch_secrets := jset (cs_id r) (r, val) (ch_secrets s)\<rparr>))"

definition listChannelAccountSecrets :: "(string \<Rightarrow> string \<Rightarrow> int) \<Rightarrow> string \<Rightarrow> string \<Rightarrow> chan_store \<Rightarrow> channel_secret list" where
  "listChannelAccountSecrets lc org accountId s =
     js_sort (\<lambda>a b. lc (cs_name a) (cs_name b))
       (map fst (filter (\<lambda>(r, _). cs_organizationId r = org \<and> cs_accountId r = accountId) (jvalues (ch_secrets s))))"

definition listChannelPairingRequests :: "string \<Rightarrow> string option \<Rightarrow> string option \<Rightarrow> chan_store \<Rightarrow> pairing_request list" where
  "listChannelPairingRequests org accountId status s =
     js_sort (\<lambda>a b. cmp_int (pr_createdAt b) (pr_createdAt a))
       (filter (\<lambda>r. truthy status \<longrightarrow> status = Some (pr_status r))
         (filter (\<lambda>r. truthy accountId \<longrightarrow> accountId = Some (pr_accountId r))
           (filter (\<lambda>r. pr_organizationId r = org) (jvalues (ch_pairings s)))))"

definition listChannelAllowlistEntries :: "(string \<Rightarrow> string \<Rightarrow> int) \<Rightarrow> string \<Rightarrow> string \<Rightarrow> string option \<Rightarrow> chan_store
    \<Rightarrow> allowlist_entry list" where
  "listChannelAllowlistEntries lc org accountId scope s =
     (case getChannelAccountById org accountId s of
        None \<Rightarrow> []
      | Some _ \<Rightarrow>
          js_sort (\<lambda>a b. cmp_then (lc (ae_scope a) (ae_scope b)) (lc (ae_subject a) (ae_subject b)))
            (filter (\<lambda>r. truthy scope \<longrightarrow> scope = Some (ae_scope r))
              (filter (\<lambda>r. ae_organizationId r = org \<and> ae_accountId r = accountId) (jvalues (ch_allowlist s)))))"

definition same_entry :: "string \<Rightarrow> string \<Rightarrow> string \<Rightarrow> string \<Rightarrow> allowlist_entry \<Rightarrow> bool" where
  "same_entry org accountId scope subject r \<longleftrightarrow> ae_organizationId r = org \<and> ae_accountId r = accountId
     \<and> ae_scope r = scope \<and> ae_subject r = subject"

definition putChannelAllowlistEntry :: "clock \<Rightarrow> uuids \<Rightarrow> string \<Rightarrow> string \<Rightarrow> string \<Rightarrow> string \<Rightarrow> string
    \<Rightarrow> chan_store \<Rightarrow> (chan_error + allowlist_entry) \<times> chan_store" where
  "putChannelAllowlistEntry clk uid org actor accountId scope subject s =
     (case getChannelAccountById org accountId s of
        None \<Rightarrow> (Inl CHANNEL_ACCOUNT_NOT_FOUND, s)
      | Some _ \<Rightarrow>
          (case find (same_entry org accountId scope subject) (jvalues (ch_allowlist s)) of
             Some r \<Rightarrow> (Inr r, s)
           | None \<Rightarrow>
               let r = \<lparr>ae_id = uid 0, ae_organizationId = org, ae_accountId = accountId, ae_scope = scope,
                     ae_subject = subject, ae_createdByUserId = actor, ae_createdAt = clk 0\<rparr>
               in (Inr r, s\<lparr>ch_allowlist := jset (ae_id r) r (ch_allowlist s)\<rparr>)))"

definition deleteChannelAllowlistEntry :: "string \<Rightarrow> string \<Rightarrow> string \<Rightarrow> string \<Rightarrow> chan_store \<Rightarrow> bool \<times> chan_store" where
  "deleteChannelAllowlistEntry org accountId scope subject s =
     (case getChannelAccountById org accountId s of
        None \<Rightarrow> (False, s)
      | Some _ \<Rightarrow>
          (case find (\<lambda>e. same_entry org accountId scope subject (snd e)) (ch_allowlist s) of
             None \<Rightarrow> (False, s)
           | Some e \<Rightarrow> (True, s\<lparr>ch_allowlist := jdel (fst e) (ch_allowlist s)\<rparr>)))"

datatype pairing_verdict = PairApproved | PairRejected

definition updateChannelPairingRequestStatus :: "clock \<Rightarrow> string \<Rightarrow> string \<Rightarrow> string \<Rightarrow> pairing_verdict \<Rightarrow> chan_store
    \<Rightarrow> pairing_request option \<times> chan_store" where
  "updateChannelPairingRequestStatus clk org actor requestId verdict s =
     (case scoped_get pr_organizationId (ch_pairings s) org requestId of
        None \<Rightarrow> (None, s)
      | Some r \<Rightarrow>
          let r' = (case verdict of
                PairApproved \<Rightarrow> r\<lparr>pr_status := ''approved'', pr_approvedByUserId := Some actor, pr_approvedAt := Some (clk 0)\<rparr>
              | PairRejected \<Rightarrow> r\<lparr>pr_status := ''rejected'', pr_rejectedAt := Some (clk 0)\<rparr>)
          in (Some r', s\<lparr>ch_pairings := jset (pr_id r') r' (ch_pairings s)\<rparr>))"

definition listChannelEvents :: "string \<Rightarrow> string \<Rightarrow> int option \<Rightarrow> chan_store \<Rightarrow> account_event list" where
  "listChannelEvents org accountId limit s =
     (case getChannelAccountById org accountId s of
        None \<Rightarrow> []
      | Some a \<Rightarrow>
          slice0 (clampInt 1 500 (qq limit 100))
            (js_sort (\<lambda>a b. cmp_int (ce_createdAt b) (ce_createdAt a)) (qq (jget (ch_events s) (ca_id a)) [])))"

section \<open>Histories\<close>

text \<open>The steps of the channel store; fresh ids are what \<open>crypto.randomUUID\<close> promises.\<close>

inductive chan_step :: "chan_store \<Rightarrow> chan_store \<Rightarrow> bool" where
  chan_create: "uid 0 \<notin> set (jkeys (ch_accounts s)) \<Longrightarrow> chan_step s (snd (createChannelAccount clk uid og a i s))"
| chan_update: "chan_step s (snd (updateChannelAccount clk og a k p s))"
| chan_delete: "chan_step s (snd (deleteChannelAccount og k s))"
| chan_secret: "uid 0 \<notin> set (jkeys (ch_secrets s)) \<Longrightarrow>
     chan_step s (snd (createChannelAccountSecret clk uid og a k n v s))"
| chan_put: "uid 0 \<notin> set (jkeys (ch_allowlist s)) \<Longrightarrow>
     chan_step s (snd (putChannelAllowlistEntry clk uid og a k sc sb s))"
| chan_remove: "chan_step s (snd (deleteChannelAllowlistEntry og k sc sb s))"
| chan_decide: "chan_step s (snd (updateChannelPairingRequestStatus clk og a k vd s))"

inductive chan_reach :: "chan_store \<Rightarrow> bool" where
  chan_reach_empty: "chan_reach chan_empty"
| chan_reach_step: "chan_reach s \<Longrightarrow> chan_step s t \<Longrightarrow> chan_reach t"

inductive_cases chan_stepE: "chan_step s t"

definition account_key :: "channel_account \<Rightarrow> string \<times> string \<times> string" where
  "account_key r = (ca_organizationId r, ca_channelId r, toLowerCase (ca_accountKey r))"

definition live_refs :: "chan_store \<Rightarrow> bool" where
  \<comment> \<open>every secret and allowlist entry belongs to an account of its own organization\<close>
  "live_refs s \<longleftrightarrow>
     (\<forall>e \<in> set (ch_secrets s).
        \<exists>a. jget (ch_accounts s) (cs_accountId (fst (snd e))) = Some a \<and> ca_organizationId a = cs_organizationId (fst (snd e)))
   \<and> (\<forall>e \<in> set (ch_allowlist s).
        \<exists>a. jget (ch_accounts s) (ae_accountId (snd e)) = Some a \<and> ca_organizationId a = ae_organizationId (snd e))"

definition entry_key :: "allowlist_entry \<Rightarrow> string \<times> string \<times> string \<times> string" where
  "entry_key r = (ae_organizationId r, ae_accountId r, ae_scope r, ae_subject r)"

lemma chan_unique_step:
  assumes "chan_step s t" and "unique_rows ca_id account_key (ch_accounts s)"
    and "unique_rows ae_id entry_key (ch_allowlist s)"
  shows "unique_rows ca_id account_key (ch_accounts t) \<and> unique_rows ae_id entry_key (ch_allowlist t)"
  using assms
proof (cases rule: chan_step.cases)
  case (chan_create uid clk og a i)
  with assms show ?thesis
    by (auto simp: createChannelAccount_def Let_def list_ex_iff same_account_def account_key_def intro!: unique_insert)
next
  case (chan_update clk og a k p)
  with assms show ?thesis
    by (auto simp: updateChannelAccount_def getChannelAccountById_def Let_def account_key_def
        dest!: scoped_getD dest: keyed_get [OF unique_keyed] intro: unique_update split: option.split)
next
  case (chan_put uid og a k sc sb clk)
  with assms show ?thesis
    by (auto simp: putChannelAllowlistEntry_def Let_def find_None_iff same_entry_def entry_key_def
        intro!: unique_insert split: option.split)
qed (auto simp: deleteChannelAccount_def createChannelAccountSecret_def deleteChannelAllowlistEntry_def
    updateChannelPairingRequestStatus_def Let_def intro: unique_intros split: option.split)

lemma live_refs_accounts:
  assumes "live_refs s" and "ch_secrets t = ch_secrets s" and "ch_allowlist t = ch_allowlist s"
    and "\<And>k a. jget (ch_accounts s) k = Some a \<Longrightarrow>
           \<exists>b. jget (ch_accounts t) k = Some b \<and> ca_organizationId b = ca_organizationId a"
  shows "live_refs t"
  using assms unfolding live_refs_def by (metis (no_types))

lemma live_refs_step:
  assumes "chan_step s t" and "unique_rows ca_id account_key (ch_accounts s)"
    and "unique_rows ae_id entry_key (ch_allowlist s)" and "wf_map (ch_secrets s)" and "live_refs s"
  shows "live_refs t"
  using assms(1)
proof (cases rule: chan_step.cases)
  case (chan_create uid clk og a i)
  then have "jget (ch_accounts s) (uid 0) = None" by (simp add: jget_None_iff)
  with chan_create assms(5) show ?thesis
    by (auto simp: createChannelAccount_def Let_def jget_jset intro!: live_refs_accounts [OF assms(5)])
next
  case (chan_update clk og a k p)
  have "ca_id c = k" "jget (ch_accounts s) k = Some c" if "scoped_get ca_organizationId (ch_accounts s) og k = Some c" for c
    using scoped_getD [OF that] keyed_get [OF unique_keyed [OF assms(2)]] by auto
  with chan_update assms(5) show ?thesis
    by (cases "scoped_get ca_organizationId (ch_accounts s) og k")
      (auto simp: updateChannelAccount_def getChannelAccountById_def Let_def jget_jset
        intro!: live_refs_accounts [OF assms(5)])
next
  case (chan_delete og k)
  with assms(2,5) show ?thesis
    by (auto simp: deleteChannelAccount_def live_refs_def jget_jdel split: option.split)
next
  case (chan_secret uid clk og a k n v)
  with assms(4,5) show ?thesis
    by (auto simp: createChannelAccountSecret_def getChannelAccountById_def live_refs_def Let_def set_jset
        dest!: scoped_getD split: option.split)
next
  case (chan_put uid og a k sc sb clk)
  with assms(3,5) keyed_wf [OF unique_keyed [OF assms(3)]] show ?thesis
    by (auto simp: putChannelAllowlistEntry_def getChannelAccountById_def live_refs_def Let_def set_jset
        dest!: scoped_getD split: option.split)
next
  case (chan_remove og k sc sb)
  with assms(5) show ?thesis
    by (auto simp: deleteChannelAllowlistEntry_def live_refs_def set_jdel split: option.split)
next
  case (chan_decide clk og a k vd)
  with assms(5) show ?thesis
    by (auto simp: updateChannelPairingRequestStatus_def live_refs_def Let_def split: option.split)
qed

lemma secrets_wf_step: "chan_step s t \<Longrightarrow> wf_map (ch_secrets s) \<Longrightarrow> wf_map (ch_secrets t)"
  by (erule chan_stepE; hypsubst)
    (auto simp: createChannelAccount_def updateChannelAccount_def deleteChannelAccount_def
      createChannelAccountSecret_def putChannelAllowlistEntry_def deleteChannelAllowlistEntry_def
      updateChannelPairingRequestStatus_def Let_def split: option.split)

lemma chan_reach_inv:
  "chan_reach s \<Longrightarrow> unique_rows ca_id account_key (ch_accounts s) \<and> unique_rows ae_id entry_key (ch_allowlist s)
     \<and> wf_map (ch_secrets s) \<and> live_refs s"
proof (induction rule: chan_reach.induct)
  case chan_reach_empty
  then show ?case by (simp add: chan_empty_def live_refs_def)
next
  case (chan_reach_step s t)
  then show ?case using chan_unique_step live_refs_step secrets_wf_step by blast
qed

section \<open>Properties\<close>

text \<open>
  An account key names one channel account: in every reachable store two accounts of an
  organization on the same channel differ in their keys even when case is ignored.
\<close>
theorem channel_account_unique:
  assumes "chan_reach s" and "jget (ch_accounts s) k = Some a" and "jget (ch_accounts s) k' = Some b"
    and "ca_organizationId a = ca_organizationId b" and "ca_channelId a = ca_channelId b"
    and "toLowerCase (ca_accountKey a) = toLowerCase (ca_accountKey b)"
  shows "k = k'"
proof -
  have u: "unique_rows ca_id account_key (ch_accounts s)" using chan_reach_inv [OF assms(1)] by simp
  have "a = b"
    by (rule unique_values [OF u jget_in_values jget_in_values]) (use assms in \<open>simp_all add: account_key_def\<close>)
  then show ?thesis using keyed_get [OF unique_keyed [OF u]] assms(2,3) by blast
qed

definition sample_account :: "string \<Rightarrow> account_input" where
  "sample_account key = \<lparr>ai_channelId = ''slack'', ai_accountKey = key, ai_displayName = None, ai_enabled = None,
     ai_dmPolicy = None, ai_groupPolicy = None, ai_requireMentionInGroup = None, ai_webhookUrl = None,
     ai_metadata = None\<rparr>"

definition sample_channels :: chan_store where
  "sample_channels = snd (putChannelAllowlistEntry (\<lambda>_. 2) (\<lambda>_. ''e1'') ''o'' ''u'' ''a1'' ''sender'' ''U7''
     (snd (createChannelAccount (\<lambda>_. 1) (\<lambda>_. ''a1'') ''o'' ''u'' (sample_account ''Team'') chan_empty)))"

lemma sample_channels_reach: "chan_reach sample_channels"
  unfolding sample_channels_def
  by (rule chan_reach_step [OF chan_reach_step [OF chan_reach_empty chan_create] chan_put])
    (simp_all add: chan_empty_def createChannelAccount_def Let_def)

lemma sample_channels_account: "getChannelAccountById ''o'' ''a1'' sample_channels \<noteq> None"
  by code_simp

theorem channel_account_unique_witness:
  "\<exists>a. jget (ch_accounts sample_channels) ''a1'' = Some a \<and> ''a1'' = ''a1'' \<and>
     fst (createChannelAccount (\<lambda>_. 3) (\<lambda>_. ''a2'') ''o'' ''u'' (sample_account ''tEAM'') sample_channels)
       = Inl CHANNEL_ACCOUNT_EXISTS"
proof -
  have "jhas (ch_accounts sample_channels) ''a1''" by code_simp
  then obtain a where a: "jget (ch_accounts sample_channels) ''a1'' = Some a" by (auto simp: jhas_def)
  have "fst (createChannelAccount (\<lambda>_. 3) (\<lambda>_. ''a2'') ''o'' ''u'' (sample_account ''tEAM'') sample_channels)
       = Inl CHANNEL_ACCOUNT_EXISTS" by code_simp
  with channel_account_unique [OF sample_channels_reach a a] a show ?thesis by simp
qed

text \<open>
  Deleting a channel account leaves nothing behind that could authorize anyone: afterwards no
  secret, no allowlist entry and no event log refers to it, the accounts, secrets and entries of
  other accounts are as before, and every remaining row still refers to a live account of its own
  organization.
\<close>
theorem delete_account_cascades:
  assumes "chan_reach s" and "getChannelAccountById org k s = Some a" and "deleteChannelAccount org k s = (ok, t)"
  shows "ok \<and> (\<forall>k'. jget (ch_accounts t) k' = (if k' = k then None else jget (ch_accounts s) k'))
    \<and> jvalues (ch_allowlist t) = filter (\<lambda>e. ae_accountId e \<noteq> k) (jvalues (ch_allowlist s))
    \<and> jvalues (ch_secrets t) = filter (\<lambda>(r, _). cs_accountId r \<noteq> k) (jvalues (ch_secrets s))
    \<and> jget (ch_events t) k = None \<and> live_refs t"
proof -
  note r = chan_reach_inv [OF assms(1)]
  have a: "jget (ch_accounts s) k = Some a" "ca_organizationId a = org"
    using assms(2) by (auto simp: getChannelAccountById_def dest: scoped_getD)
  from keyed_get [OF unique_keyed [OF conjunct1 [OF r]] a(1)] have "ca_id a = k" .
  with a have t: "t = s\<lparr>ch_secrets := filter (\<lambda>e. cs_accountId (fst (snd e)) \<noteq> k) (ch_secrets s),
             ch_allowlist := filter (\<lambda>e. ae_accountId (snd e) \<noteq> k) (ch_allowlist s),
             ch_events := jdel k (ch_events s), ch_accounts := jdel k (ch_accounts s)\<rparr>" and ok: ok
    using assms(2,3) a by (auto simp: deleteChannelAccount_def jhas_def)
  have "live_refs t"
    using live_refs_step [of s t] chan_delete [of s org k] r assms(3) by simp
  then show ?thesis
    using ok unfolding t by (simp add: jget_jdel jvalues_def filter_map o_def case_prod_unfold)
qed

theorem delete_account_cascades_witness:
  "\<exists>t. deleteChannelAccount ''o'' ''a1'' sample_channels = (True, t) \<and> jget (ch_accounts t) ''a1'' = None
     \<and> jvalues (ch_allowlist t) = [] \<and> live_refs t"
proof -
  obtain a where a: "getChannelAccountById ''o'' ''a1'' sample_channels = Some a"
    using sample_channels_account by auto
  obtain ok t where t: "deleteChannelAccount ''o'' ''a1'' sample_channels = (ok, t)" by fastforce
  have "filter (\<lambda>e. ae_accountId e \<noteq> ''a1'') (jvalues (ch_allowlist sample_channels)) = []" by code_simp
  with delete_account_cascades [OF sample_channels_reach a t] t show ?thesis by simp
qed

end
