(* ===== verification/StoreSecrets.thy ===== *)
theory StoreSecrets
  imports UniqueRows Json "HOL-Library.Word"
begin

text \<open>
  Envelope encryption of connector secrets (\<open>packages/shared/src/secrets.ts\<close>) and the secret
  operations of \<open>MemoryAppStore\<close> (\<open>apps/api/src/store/memory-store.ts\<close>).  A \<open>Buffer\<close> is a list of
  bytes.  AES-256-GCM, base64 and the random source belong to Node's \<open>crypto\<close> and \<open>Buffer\<close>: they are
  the parameters \<open>seal\<close>, \<open>unseal\<close> (\<open>None\<close> when \<open>decipher.final\<close> throws), \<open>b64\<close> and \<open>rnd\<close>, where the bytes of
  the k-th call of \<open>randomBytes\<close> are \<open>rnd k 0, rnd k 1, \<dots>\<close>.
\<close>

section \<open>Envelope encryption\<close>

type_synonym bytes = "8 word list"
type_synonym random = "nat \<Rightarrow> nat \<Rightarrow> 8 word"
type_synonym sealer = "bytes \<Rightarrow> bytes \<Rightarrow> bytes \<Rightarrow> bytes \<times> bytes"  \<comment> \<open>key, iv, plaintext to ciphertext, tag\<close>
type_synonym unsealer = "bytes \<Rightarrow> bytes \<Rightarrow> bytes \<Rightarrow> bytes \<Rightarrow> bytes option"  \<comment> \<open>key, iv, ciphertext, tag\<close>

datatype secret_error =
    KEK_INVALID_LENGTH | SECRETS_KEK_BASE64_REQUIRED | SECRETS_KEK_BASE64_INVALID
  | SECRETS_KEK_NOT_FOUND | AUTHENTICATION_FAILED | SECRET_ALREADY_EXISTS | SECRET_NOT_FOUND

record kek =
  kekId :: string
  kekKeyBytes :: bytes

record encrypted_secret =
  er_kekId :: string
  er_dekCiphertext :: bytes
  er_dekIv :: bytes
  er_dekTag :: bytes
  er_secretCiphertext :: bytes
  er_secretIv :: bytes
  er_secretTag :: bytes

record secrets_env =
  SECRETS_KEK_ID :: "string option"
  SECRETS_KEK_BASE64 :: "string option"

definition randomBytes :: "random \<Rightarrow> nat \<Rightarrow> nat \<Rightarrow> bytes" where
  "randomBytes rnd k n = map (rnd k) [0..<n]"

definition utf8_bytes :: "string \<Rightarrow> bytes" where
  \<comment> \<open>\<open>Buffer.from(s, "utf8")\<close> of ASCII text\<close>
  "utf8_bytes s = map (\<lambda>c. of_nat (of_char c)) s"

definition utf8_string :: "bytes \<Rightarrow> string" where
  "utf8_string bs = map (\<lambda>b. char_of (unat b)) bs"

definition encryptAes256Gcm :: "sealer \<Rightarrow> random \<Rightarrow> nat \<Rightarrow> bytes \<Rightarrow> bytes \<Rightarrow> secret_error + bytes \<times> bytes \<times> bytes" where
  \<comment> \<open>ciphertext, iv, tag; the iv is the k-th random buffer\<close>
  "encryptAes256Gcm seal rnd k key plaintext =
     (if length key \<noteq> 32 then Inl KEK_INVALID_LENGTH
      else let iv = randomBytes rnd k 12; (c, t) = seal key iv plaintext in Inr (c, iv, t))"

definition decryptAes256Gcm :: "unsealer \<Rightarrow> bytes \<Rightarrow> bytes \<Rightarrow> bytes \<Rightarrow> bytes \<Rightarrow> secret_error + bytes" where
  "decryptAes256Gcm unseal key ciphertext iv tag =
     (if length key \<noteq> 32 then Inl KEK_INVALID_LENGTH
      else case unseal key iv ciphertext tag of None \<Rightarrow> Inl AUTHENTICATION_FAILED | Some p \<Rightarrow> Inr p)"

definition parseKekFromEnv :: "(string \<Rightarrow> bytes) \<Rightarrow> secrets_env \<Rightarrow> secret_error + kek" where
  "parseKekFromEnv b64 env =
     (case SECRETS_KEK_BASE64 env of
        None \<Rightarrow> Inl SECRETS_KEK_BASE64_REQUIRED
      | Some base64 \<Rightarrow>
          if base64 = '''' then Inl SECRETS_KEK_BASE64_REQUIRED
          else if length (b64 base64) \<noteq> 32 then Inl SECRETS_KEK_BASE64_INVALID
          else Inr \<lparr>kekId = qq (SECRETS_KEK_ID env) ''dev-kek-v1'', kekKeyBytes = b64 base64\<rparr>)"

definition encryptSecret :: "sealer \<Rightarrow> random \<Rightarrow> string \<Rightarrow> kek \<Rightarrow> secret_error + encrypted_secret" where
  "encryptSecret seal rnd plaintext k =
     (let dek = randomBytes rnd 0 32 in
      case encryptAes256Gcm seal rnd 1 (kekKeyBytes k) dek of
        Inl e \<Rightarrow> Inl e
      | Inr (dc, div', dt) \<Rightarrow>
          (case encryptAes256Gcm seal rnd 2 dek (utf8_bytes plaintext) of
             Inl e \<Rightarrow> Inl e
           | Inr (sc, siv, st) \<Rightarrow>
               Inr \<lparr>er_kekId = kekId k, er_dekCiphertext = dc, er_dekIv = div', er_dekTag = dt,
                    er_secretCiphertext = sc, er_secretIv = siv, er_secretTag = st\<rparr>))"

definition decryptSecret :: "unsealer \<Rightarrow> encrypted_secret \<Rightarrow> (string \<Rightarrow> bytes option) \<Rightarrow> secret_error + string" where
  "decryptSecret unseal r resolveKek =
     (case resolveKek (er_kekId r) of
        None \<Rightarrow> Inl SECRETS_KEK_NOT_FOUND
      | Some kekKey \<Rightarrow>
          (case decryptAes256Gcm unseal kekKey (er_dekCiphertext r) (er_dekIv r) (er_dekTag r) of
             Inl e \<Rightarrow> Inl e
           | Inr dek \<Rightarrow>
               (case decryptAes256Gcm unseal dek (er_secretCiphertext r) (er_secretIv r) (er_secretTag r) of
                  Inl e \<Rightarrow> Inl e
                | Inr p \<Rightarrow> Inr (utf8_string p))))"

definition aead_ok :: "sealer \<Rightarrow> unsealer \<Rightarrow> bool" where
  \<comment> \<open>what authenticated encryption promises: opening inverts sealing, and only a sealed text opens\<close>
  "aead_ok seal unseal \<longleftrightarrow>
     (\<forall>key iv p c t. length key = 32 \<longrightarrow> unseal key iv c t = Some p \<longleftrightarrow> seal key iv p = (c, t))"

definition resolve_one :: "kek \<Rightarrow> string \<Rightarrow> bytes option" where
  \<comment> \<open>the \<open>resolveKek\<close> callback of \<open>loadConnectorSecretValue\<close>\<close>
  "resolve_one k i = (if i = kekId k then Some (kekKeyBytes k) else None)"

lemma utf8_roundtrip [simp]: "utf8_string (utf8_bytes s) = s"
proof -
  have "(of_char c :: nat) mod 256 = of_char c" for c :: char
    by (cases c) (simp add: of_char_def)
  then have "char_of (unat (of_nat (of_char c) :: 8 word)) = c" for c
    by (simp add: unat_of_nat)
  then show ?thesis by (simp add: utf8_string_def utf8_bytes_def o_def)
qed

lemma length_randomBytes [simp]: "length (randomBytes rnd k n) = n"
  by (simp add: randomBytes_def)

lemma unseal_seal: "aead_ok seal unseal \<Longrightarrow> length key = 32 \<Longrightarrow> seal key iv p = (c, t) \<Longrightarrow> unseal key iv c t = Some p"
  by (simp add: aead_ok_def)

lemma encryptSecret_total:
  assumes "length (kekKeyBytes k) = 32"
  shows "\<exists>e. encryptSecret seal rnd v k = Inr e \<and> er_kekId e = kekId k"
  using assms by (simp add: encryptSecret_def encryptAes256Gcm_def Let_def split: prod.split)

lemma decrypt_encrypt:
  assumes "aead_ok seal unseal" and "length (kekKeyBytes k) = 32" and "encryptSecret seal rnd v k = Inr e"
  shows "decryptSecret unseal e (resolve_one k) = Inr v"
proof -
  obtain dc dt where d: "seal (kekKeyBytes k) (randomBytes rnd (Suc 0) 12) (randomBytes rnd 0 32) = (dc, dt)" by fastforce
  obtain sc st where s: "seal (randomBytes rnd 0 32) (randomBytes rnd 2 12) (utf8_bytes v) = (sc, st)" by fastforce
  show ?thesis
    using assms(2,3) unseal_seal [OF assms(1,2) d] unseal_seal [OF assms(1) _ s]
    by (auto simp: encryptSecret_def encryptAes256Gcm_def Let_def d s decryptSecret_def decryptAes256Gcm_def
        resolve_one_def)
qed


section \<open>The secrets of the store\<close>

record connector_secret =
  sr_id :: string
  sr_organizationId :: string
  sr_connectorId :: string
  sr_name :: string
  sr_createdByUserId :: string
  sr_updatedByUserId :: string
  sr_createdAt :: timestamp
  sr_updatedAt :: timestamp

type_synonym 'v secret_rows = "(connector_secret \<times> 'v) table"

definition listConnectorSecrets :: "(string \<Rightarrow> string \<Rightarrow> int) \<Rightarrow> string \<Rightarrow> string option \<Rightarrow> 'v secret_rows \<Rightarrow> connector_secret list" where
  "listConnectorSecrets lc org connectorId s =
     js_sort (\<lambda>a b. lc (sr_connectorId a @ '':'' @ sr_name a) (sr_connectorId b @ '':'' @ sr_name b))
       (filter (\<lambda>r. sr_organizationId r = org \<and> (truthy connectorId \<longrightarrow> connectorId = Some (sr_connectorId r)))
         (map fst (jvalues s)))"

definition same_secret :: "string \<Rightarrow> string \<Rightarrow> string \<Rightarrow> connector_secret \<Rightarrow> bool" where
  "same_secret org connectorId name r \<longleftrightarrow>
     sr_organizationId r = org \<and> sr_connectorId r = connectorId \<and> sr_name r = name"

definition secret_row :: "clock \<Rightarrow> uuids \<Rightarrow> string \<Rightarrow> string \<Rightarrow> string \<Rightarrow> string \<Rightarrow> connector_secret" where
  "secret_row clk uid org actor connectorId name =
     \<lparr>sr_id = uid 0, sr_organizationId = org, sr_connectorId = connectorId, sr_name = name,
      sr_createdByUserId = actor, sr_updatedByUserId = actor, sr_createdAt = clk 0, sr_updatedAt = clk 0\<rparr>"

definition createConnectorSecret :: "(string \<Rightarrow> bytes) \<Rightarrow> sealer \<Rightarrow> secrets_env \<Rightarrow> clock \<Rightarrow> uuids \<Rightarrow> random \<Rightarrow> string \<Rightarrow> string
    \<Rightarrow> string \<Rightarrow> string \<Rightarrow> string \<Rightarrow> encrypted_secret secret_rows
    \<Rightarrow> (secret_error + connector_secret) \<times> encrypted_secret secret_rows" where
  "createConnectorSecret b64 seal env clk uid rnd org actor connectorId name val s =
     (if list_ex (\<lambda>(r, _). same_secret org connectorId name r) (jvalues s) then (Inl SECRET_ALREADY_EXISTS, s)
      else case parseKekFromEnv b64 env of
        Inl e \<Rightarrow> (Inl e, s)
      | Inr k \<Rightarrow>
          (case encryptSecret seal rnd val k of
             Inl e \<Rightarrow> (Inl e, s)
           | Inr x \<Rightarrow> let r = secret_row clk uid org actor connectorId name in (Inr r, jset (sr_id r) (r, x) s)))"

definition loadConnectorSecretValue :: "(string \<Rightarrow> bytes) \<Rightarrow> unsealer \<Rightarrow> secrets_env \<Rightarrow> string \<Rightarrow> string
    \<Rightarrow> encrypted_secret secret_rows \<Rightarrow> secret_error + string" where
  "loadConnectorSecretValue b64 unseal env org secretId s =
     (case scoped_get (sr_organizationId \<circ> fst) s org secretId of
        None \<Rightarrow> Inl SECRET_NOT_FOUND
      | Some (_, x) \<Rightarrow>
          (case parseKekFromEnv b64 env of
             Inl e \<Rightarrow> Inl e
           | Inr k \<Rightarrow> decryptSecret unseal x (resolve_one k)))"

definition rotateConnectorSecret :: "(string \<Rightarrow> bytes) \<Rightarrow> sealer \<Rightarrow> secrets_env \<Rightarrow> clock \<Rightarrow> random \<Rightarrow> string \<Rightarrow> string
    \<Rightarrow> string \<Rightarrow> string \<Rightarrow> encrypted_secret secret_rows
    \<Rightarrow> (secret_error + connector_secret option) \<times> encrypted_secret secret_rows" where
  "rotateConnectorSecret b64 seal env clk rnd org actor secretId val s =
     (case scoped_get (sr_organizationId \<circ> fst) s org secretId of
        None \<Rightarrow> (Inr None, s)
      | Some (r, _) \<Rightarrow>
          (case parseKekFromEnv b64 env of
             Inl e \<Rightarrow> (Inl e, s)
           | Inr k \<Rightarrow>
               (case encryptSecret seal rnd val k of
                  Inl e \<Rightarrow> (Inl e, s)
                | Inr x \<Rightarrow>
                    let r' = r\<lparr>sr_updatedByUserId := actor, sr_updatedAt := clk 0\<rparr>
                    in (Inr (Some r'), jset (sr_id r') (r', x) s))))"

definition deleteConnectorSecret :: "string \<Rightarrow> string \<Rightarrow> 'v secret_rows \<Rightarrow> bool \<times> 'v secret_rows" where
  "deleteConnectorSecret org secretId s =
     (case scoped_get (sr_organizationId \<circ> fst) s org secretId of
        None \<Rightarrow> (False, s)
      | Some _ \<Rightarrow> (True, jdel secretId s))"

section \<open>The abstract vault\<close>

text \<open>
  What the component promises: a vault that keeps the values themselves, with no cryptography at
  all.  A request carries the clock, the identifiers and the random bytes of its own execution.
\<close>

datatype secret_call =
    ListSecrets string "string option"
  | CreateSecret clock uuids random string string string string string
  | LoadSecret string string
  | RotateSecret clock random string string string string
  | DeleteSecret string string

datatype secret_answer =
    RowsA "connector_secret list" | RowA "secret_error + connector_secret" | ValueA "secret_error + string"
  | RotatedA "secret_error + connector_secret option" | DeletedA bool

fun secret_exec :: "(string \<Rightarrow> bytes) \<Rightarrow> sealer \<Rightarrow> unsealer \<Rightarrow> (string \<Rightarrow> string \<Rightarrow> int) \<Rightarrow> secrets_env \<Rightarrow> secret_call
    \<Rightarrow> encrypted_secret secret_rows \<Rightarrow> secret_answer \<times> encrypted_secret secret_rows" where
  "secret_exec b64 seal unseal lc env (ListSecrets og c) s = (RowsA (listConnectorSecrets lc og c s), s)"
| "secret_exec b64 seal unseal lc env (CreateSecret clk uid rnd og a c n v) s =
     map_prod RowA id (createConnectorSecret b64 seal env clk uid rnd og a c n v s)"
| "secret_exec b64 seal unseal lc env (LoadSecret og i) s = (ValueA (loadConnectorSecretValue b64 unseal env og i s), s)"
| "secret_exec b64 seal unseal lc env (RotateSecret clk rnd og a i v) s =
     map_prod RotatedA id (rotateConnectorSecret b64 seal env clk rnd og a i v s)"
| "secret_exec b64 seal unseal lc env (DeleteSecret og i) s = map_prod DeletedA id (deleteConnectorSecret og i s)"

fun vault_exec :: "(string \<Rightarrow> string \<Rightarrow> int) \<Rightarrow> secret_call \<Rightarrow> string secret_rows \<Rightarrow> secret_answer \<times> string secret_rows" where
  "vault_exec lc (ListSecrets og c) v = (RowsA (listConnectorSecrets lc og c v), v)"
| "vault_exec lc (CreateSecret clk uid rnd og a c n x) v =
     (if \<exists>(r, _) \<in> set (jvalues v). same_secret og c n r then (RowA (Inl SECRET_ALREADY_EXISTS), v)
      else let r = secret_row clk uid og a c n in (RowA (Inr r), jset (sr_id r) (r, x) v))"
| "vault_exec lc (LoadSecret og i) v =
     (ValueA (case scoped_get (sr_organizationId \<circ> fst) v og i of
        None \<Rightarrow> Inl SECRET_NOT_FOUND | Some (_, x) \<Rightarrow> Inr x), v)"
| "vault_exec lc (RotateSecret clk rnd og a i x) v =
     (case scoped_get (sr_organizationId \<circ> fst) v og i of
        None \<Rightarrow> (RotatedA (Inr None), v)
      | Some (r, _) \<Rightarrow>
          let r' = r\<lparr>sr_updatedByUserId := a, sr_updatedAt := clk 0\<rparr>
          in (RotatedA (Inr (Some r')), jset (sr_id r') (r', x) v))"
| "vault_exec lc (DeleteSecret og i) v = map_prod DeletedA id (deleteConnectorSecret og i v)"

fun replies :: "('c \<Rightarrow> 's \<Rightarrow> 'a \<times> 's) \<Rightarrow> 'c list \<Rightarrow> 's \<Rightarrow> 'a list" where
  "replies f [] s = []"
| "replies f (c # cs) s = (case f c s of (a, s') \<Rightarrow> a # replies f cs s')"

definition seals :: "unsealer \<Rightarrow> kek \<Rightarrow> connector_secret \<times> encrypted_secret \<Rightarrow> connector_secret \<times> string \<Rightarrow> bool" where
  "seals unseal k e v \<longleftrightarrow> fst e = fst v \<and> decryptSecret unseal (snd e) (resolve_one k) = Inr (snd v)"

definition vault_rel :: "unsealer \<Rightarrow> kek \<Rightarrow> encrypted_secret secret_rows \<Rightarrow> string secret_rows \<Rightarrow> bool" where
  "vault_rel unseal k s v \<longleftrightarrow> list_all2 (\<lambda>e f. fst e = fst f \<and> seals unseal k (snd e) (snd f)) s v"

lemma vault_rel_jset: "vault_rel u k s v \<Longrightarrow> seals u k e f \<Longrightarrow> vault_rel u k (jset i e s) (jset i f v)"
  unfolding vault_rel_def by (induction s v rule: list_all2_induct) auto

lemma vault_rel_jdel: "vault_rel u k s v \<Longrightarrow> vault_rel u k (jdel i s) (jdel i v)"
  unfolding vault_rel_def by (induction s v rule: list_all2_induct) auto

lemma vault_rel_rows: "vault_rel u k s v \<Longrightarrow> map fst (jvalues s) = map fst (jvalues v)"
  unfolding vault_rel_def by (induction s v rule: list_all2_induct) (auto simp: seals_def)

lemma vault_rel_get:
  assumes "vault_rel u k s v"
  shows "rel_option (seals u k) (scoped_get (sr_organizationId \<circ> fst) s og i) (scoped_get (sr_organizationId \<circ> fst) v og i)"
  using assms unfolding vault_rel_def scoped_get_def
  by (induction s v rule: list_all2_induct) (auto simp: seals_def)

lemma list_ex_map_fst: "list_ex (\<lambda>(r, _). P r) xs \<longleftrightarrow> list_ex P (map fst xs)"
  by (induction xs) auto

lemma vault_step:
  assumes "aead_ok seal unseal" and "parseKekFromEnv b64 env = Inr k" and "vault_rel unseal k s v"
  shows "fst (secret_exec b64 seal unseal lc env c s) = fst (vault_exec lc c v)
    \<and> vault_rel unseal k (snd (secret_exec b64 seal unseal lc env c s)) (snd (vault_exec lc c v))"
proof -
  have len: "length (kekKeyBytes k) = 32"
    using assms(2) by (auto simp: parseKekFromEnv_def split: option.splits if_splits)
  have sealed: "seals unseal k (r, x) (r, y)" if "encryptSecret seal rnd y k = Inr x" for rnd r x y
    using decrypt_encrypt [OF assms(1) len that] by (simp add: seals_def)
  have enc: "\<exists>x. encryptSecret seal rnd y k = Inr x" for rnd y using encryptSecret_total [OF len] by blast
  have ex: "list_ex (\<lambda>(r, _). P r) (jvalues s) \<longleftrightarrow> (\<exists>(r, _) \<in> set (jvalues v). P r)" for P
    using vault_rel_rows [OF assms(3)] list_ex_map_fst [of P "jvalues s"] list_ex_map_fst [of P "jvalues v"]
    by (simp add: list_ex_iff)
  show ?thesis
  proof (cases c)
    case (ListSecrets og cid)
    then show ?thesis using vault_rel_rows [OF assms(3)] assms(3) by (simp add: listConnectorSecrets_def)
  next
    case (CreateSecret clk uid rnd og a cn n y)
    obtain x where "encryptSecret seal rnd y k = Inr x" using enc by blast
    then show ?thesis using CreateSecret assms(2,3)
      by (auto simp: createConnectorSecret_def ex Let_def intro: vault_rel_jset sealed)
  next
    case (LoadSecret og i)
    then show ?thesis using vault_rel_get [OF assms(3), of og i] assms(2,3)
      by (auto simp: loadConnectorSecretValue_def seals_def elim!: option.rel_cases split: option.splits)
  next
    case (RotateSecret clk rnd og a i y)
    obtain x where "encryptSecret seal rnd y k = Inr x" using enc by blast
    then show ?thesis using RotateSecret vault_rel_get [OF assms(3), of og i] assms(2,3)
      by (auto simp: rotateConnectorSecret_def seals_def Let_def elim!: option.rel_cases
          intro!: vault_rel_jset sealed split: option.splits)
  next
    case (DeleteSecret og i)
    then show ?thesis using vault_rel_get [OF assms(3), of og i] assms(3)
      by (auto simp: deleteConnectorSecret_def elim!: option.rel_cases intro: vault_rel_jdel split: option.splits)
  qed
qed

text \<open>
  C4. The encrypted store is a vault: under a valid key-encryption key, every sequence of list,
  create, load, rotate and delete requests is answered exactly as by a store that keeps the values
  in the clear, so what is loaded is always the value last created or rotated.
\<close>
theorem secret_store_refines_vault:
  assumes "aead_ok seal unseal" and "parseKekFromEnv b64 env = Inr k"
  shows "replies (secret_exec b64 seal unseal lc env) cs [] = replies (vault_exec lc) cs []"
proof -
  have "replies (secret_exec b64 seal unseal lc env) cs s = replies (vault_exec lc) cs v" if "vault_rel unseal k s v" for s v
    using that
  proof (induction cs arbitrary: s v)
    case Nil
    then show ?case by simp
  next
    case (Cons c cs)
    then show ?case using vault_step [OF assms Cons.prems, where c = c and lc = lc]
      by (auto split: prod.splits)
  qed
  then show ?thesis by (simp add: vault_rel_def)
qed


definition sample_seal :: sealer where
  "sample_seal key iv p = (p, key @ iv)"

definition sample_unseal :: unsealer where
  "sample_unseal key iv c t = (if t = key @ iv then Some c else None)"

definition sample_calls :: "secret_call list" where
  "sample_calls = [CreateSecret (\<lambda>_. 1) (\<lambda>_. ''s1'') (\<lambda>k i. of_nat (k + i)) ''o'' ''u'' ''github'' ''token'' ''old'',
     RotateSecret (\<lambda>_. 2) (\<lambda>k i. of_nat (k * i)) ''o'' ''u'' ''s1'' ''new'', LoadSecret ''o'' ''s1'', LoadSecret ''p'' ''s1'']"

theorem secret_store_refines_vault_witness:
  "drop 2 (replies (secret_exec (\<lambda>_. replicate 32 7) sample_seal sample_unseal str_cmp
     \<lparr>SECRETS_KEK_ID = None, SECRETS_KEK_BASE64 = Some ''Bw==''\<rparr>) sample_calls [])
   = [ValueA (Inr ''new''), ValueA (Inl SECRET_NOT_FOUND)]"
proof -
  have aead: "aead_ok sample_seal sample_unseal"
    by (auto simp: aead_ok_def sample_seal_def sample_unseal_def)
  have kek: "parseKekFromEnv (\<lambda>_. replicate 32 7) \<lparr>SECRETS_KEK_ID = None, SECRETS_KEK_BASE64 = Some ''Bw==''\<rparr>
      = Inr \<lparr>kekId = ''dev-kek-v1'', kekKeyBytes = replicate 32 7\<rparr>"
    by (simp add: parseKekFromEnv_def)
  show ?thesis
    unfolding secret_store_refines_vault [OF aead kek]
    by (simp add: sample_calls_def secret_row_def scoped_get_def Let_def)
qed

end
