(* ===== verification/StoreExecutors.thy ===== *)
theory StoreExecutors
  imports Prelude Json
begin

text \<open>
  The executor part of \<open>MemoryAppStore\<close> (\<open>apps/api/src/store/memory-store.ts\<close>): single-use pairing
  tokens, the agents and executors an organization registers with them, and the managed executors
  of the platform.  An executor row is stored together with the hash of its token.
\<close>

section \<open>Records\<close>

record pairing_token =
  pt_id :: string
  pt_organizationId :: string
  pt_tokenHash :: string
  pt_expiresAt :: timestamp
  pt_usedAt :: "timestamp option"
  pt_createdByUserId :: string
  pt_createdAt :: timestamp

record org_agent =
  ag_id :: string
  ag_organizationId :: string
  ag_name :: string
  ag_revokedAt :: "timestamp option"
  ag_lastSeenAt :: "timestamp option"
  ag_capabilities :: "json option"
  ag_tags :: "string list"
  ag_createdByUserId :: string
  ag_createdAt :: timestamp

record org_executor =
  ox_id :: string
  ox_organizationId :: string
  ox_name :: string
  ox_revokedAt :: "timestamp option"
  ox_lastSeenAt :: "timestamp option"
  ox_capabilities :: "json option"
  ox_labels :: "string list"
  ox_createdByUserId :: string
  ox_createdAt :: timestamp

record managed_executor =
  mx_id :: string
  mx_name :: string
  mx_revokedAt :: "timestamp option"
  mx_lastSeenAt :: "timestamp option"
  mx_maxInFlight :: int
  mx_enabled :: bool
  mx_drain :: bool
  mx_runtimeClass :: string
  mx_region :: "string option"
  mx_capabilities :: "json option"
  mx_labels :: "string list"
  mx_createdAt :: timestamp

record exec_store =
  xs_agentTokens :: "pairing_token table"  \<comment> \<open>by token hash\<close>
  xs_agents :: "(org_agent \<times> string) table"
  xs_agentIdByHash :: "string table"
  xs_execTokens :: "pairing_token table"
  xs_executors :: "(org_executor \<times> string) table"
  xs_execIdByHash :: "string table"
  xs_managed :: "(managed_executor \<times> string) table"

definition exec_empty :: exec_store where
  "exec_empty = \<lparr>xs_agentTokens = [], xs_agents = [], xs_agentIdByHash = [], xs_execTokens = [],
     xs_executors = [], xs_execIdByHash = [], xs_managed = []\<rparr>"

section \<open>Pairing tokens\<close>

definition new_token :: "clock \<Rightarrow> uuids \<Rightarrow> string \<Rightarrow> string \<Rightarrow> string \<Rightarrow> timestamp \<Rightarrow> pairing_token" where
  "new_token clk uid org actor tokenHash expiresAt =
     \<lparr>pt_id = uid 0, pt_organizationId = org, pt_tokenHash = tokenHash, pt_expiresAt = expiresAt,
      pt_usedAt = None, pt_createdByUserId = actor, pt_createdAt = clk 0\<rparr>"

definition consume_token :: "clock \<Rightarrow> string \<Rightarrow> string \<Rightarrow> pairing_token table \<Rightarrow> pairing_token option \<times> pairing_token table" where
  \<comment> \<open>the common body of the two \<open>consume\<close> methods; \<open>Date.now()\<close> is the first reading of the clock\<close>
  "consume_token clk org tokenHash m =
     (case scoped_get pt_organizationId m org tokenHash of
        None \<Rightarrow> (None, m)
      | Some t \<Rightarrow>
          if pt_usedAt t \<noteq> None then (None, m)
          else if pt_expiresAt t \<le> clk 0 then (None, m)
          else let t' = t\<lparr>pt_usedAt := Some (clk 1)\<rparr> in (Some t', jset (pt_tokenHash t') t' m))"

section \<open>Agents\<close>

definition createAgentPairingToken :: "clock \<Rightarrow> uuids \<Rightarrow> string \<Rightarrow> string \<Rightarrow> string \<Rightarrow> timestamp \<Rightarrow> exec_store
    \<Rightarrow> pairing_token \<times> exec_store" where
  "createAgentPairingToken clk uid org actor tokenHash expiresAt s =
     (let t = new_token clk uid org actor tokenHash expiresAt
      in (t, s\<lparr>xs_agentTokens := jset (pt_tokenHash t) t (xs_agentTokens s)\<rparr>))"

definition getAgentPairingTokenByHash :: "string \<Rightarrow> string \<Rightarrow> exec_store \<Rightarrow> pairing_token option" where
  "getAgentPairingTokenByHash org tokenHash s = scoped_get pt_organizationId (xs_agentTokens s) org tokenHash"

definition consumeAgentPairingToken :: "clock \<Rightarrow> string \<Rightarrow> string \<Rightarrow> exec_store \<Rightarrow> pairing_token option \<times> exec_store" where
  "consumeAgentPairingToken clk org tokenHash s =
     (case consume_token clk org tokenHash (xs_agentTokens s) of (r, m) \<Rightarrow> (r, s\<lparr>xs_agentTokens := m\<rparr>))"

definition createOrganizationAgent :: "clock \<Rightarrow> uuids \<Rightarrow> string \<Rightarrow> string \<Rightarrow> string \<Rightarrow> string \<Rightarrow> json option \<Rightarrow> exec_store
    \<Rightarrow> org_agent \<times> exec_store" where
  "createOrganizationAgent clk uid org name tokenHash createdBy capabilities s =
     (let r = \<lparr>ag_id = uid 0, ag_organizationId = org, ag_name = name, ag_revokedAt = None,
            ag_lastSeenAt = None, ag_capabilities = capabilities, ag_tags = [],
            ag_createdByUserId = createdBy, ag_createdAt = clk 0\<rparr>
      in (r, s\<lparr>xs_agents := jset (ag_id r) (r, tokenHash) (xs_agents s),
               xs_agentIdByHash := jset tokenHash (ag_id r) (xs_agentIdByHash s)\<rparr>))"

definition listOrganizationAgents :: "string \<Rightarrow> exec_store \<Rightarrow> org_agent list" where
  "listOrganizationAgents org s = map fst (filter (\<lambda>(r, _). ag_organizationId r = org) (jvalues (xs_agents s)))"

definition setOrganizationAgentTags :: "string \<Rightarrow> string \<Rightarrow> string list \<Rightarrow> exec_store \<Rightarrow> org_agent option \<times> exec_store" where
  "setOrganizationAgentTags org rowId tags s =
     (case scoped_get (ag_organizationId \<circ> fst) (xs_agents s) org rowId of
        None \<Rightarrow> (None, s)
      | Some (r, h) \<Rightarrow>
          let r' = r\<lparr>ag_tags := tags\<rparr>
          in (Some r', s\<lparr>xs_agents := jset (ag_id r') (r', h) (xs_agents s)\<rparr>))"

definition revokeOrganizationAgent :: "clock \<Rightarrow> string \<Rightarrow> string \<Rightarrow> exec_store \<Rightarrow> bool \<times> exec_store" where
  "revokeOrganizationAgent clk org rowId s =
     (case scoped_get (ag_organizationId \<circ> fst) (xs_agents s) org rowId of
        None \<Rightarrow> (False, s)
      | Some (r, h) \<Rightarrow>
          if ag_revokedAt r \<noteq> None then (True, s)
          else (True, s\<lparr>xs_agents := jset (ag_id r) (r\<lparr>ag_revokedAt := Some (clk 0)\<rparr>, h) (xs_agents s)\<rparr>))"

section \<open>Executors\<close>

definition createExecutorPairingToken :: "clock \<Rightarrow> uuids \<Rightarrow> string \<Rightarrow> string \<Rightarrow> string \<Rightarrow> timestamp \<Rightarrow> exec_store
    \<Rightarrow> pairing_token \<times> exec_store" where
  "createExecutorPairingToken clk uid org actor tokenHash expiresAt s =
     (let t = new_token clk uid org actor tokenHash expiresAt
      in (t, s\<lparr>xs_execTokens := jset (pt_tokenHash t) t (xs_execTokens s)\<rparr>))"

definition getExecutorPairingTokenByHash :: "string \<Rightarrow> string \<Rightarrow> exec_store \<Rightarrow> pairing_token option" where
  "getExecutorPairingTokenByHash org tokenHash s = scoped_get pt_organizationId (xs_execTokens s) org tokenHash"

definition consumeExecutorPairingToken :: "clock \<Rightarrow> string \<Rightarrow> string \<Rightarrow> exec_store \<Rightarrow> pairing_token option \<times> exec_store" where
  "consumeExecutorPairingToken clk org tokenHash s =
     (case consume_token clk org tokenHash (xs_execTokens s) of (r, m) \<Rightarrow> (r, s\<lparr>xs_execTokens := m\<rparr>))"

definition createOrganizationExecutor :: "clock \<Rightarrow> uuids \<Rightarrow> string \<Rightarrow> string \<Rightarrow> string \<Rightarrow> string \<Rightarrow> json option \<Rightarrow> exec_store
    \<Rightarrow> org_executor \<times> exec_store" where
  "createOrganizationExecutor clk uid org name tokenHash createdBy capabilities s =
     (let r = \<lparr>ox_id = uid 0, ox_organizationId = org, ox_name = name, ox_revokedAt = None,
            ox_lastSeenAt = None, ox_capabilities = capabilities, ox_labels = [],
            ox_createdByUserId = createdBy, ox_createdAt = clk 0\<rparr>
      in (r, s\<lparr>xs_executors := jset (ox_id r) (r, tokenHash) (xs_executors s),
               xs_execIdByHash := jset tokenHash (ox_id r) (xs_execIdByHash s)\<rparr>))"

definition listOrganizationExecutors :: "string \<Rightarrow> exec_store \<Rightarrow> org_executor list" where
  "listOrganizationExecutors org s = map fst (filter (\<lambda>(r, _). ox_organizationId r = org) (jvalues (xs_executors s)))"

definition setOrganizationExecutorLabels :: "string \<Rightarrow> string \<Rightarrow> string list \<Rightarrow> exec_store \<Rightarrow> org_executor option \<times> exec_store" where
  "setOrganizationExecutorLabels org rowId labels s =
     (case scoped_get (ox_organizationId \<circ> fst) (xs_executors s) org rowId of
        None \<Rightarrow> (None, s)
      | Some (r, h) \<Rightarrow>
          let r' = r\<lparr>ox_labels := labels\<rparr>
          in (Some r', s\<lparr>xs_executors := jset (ox_id r') (r', h) (xs_executors s)\<rparr>))"

definition revokeOrganizationExecutor :: "clock \<Rightarrow> string \<Rightarrow> string \<Rightarrow> exec_store \<Rightarrow> bool \<times> exec_store" where
  "revokeOrganizationExecutor clk org rowId s =
     (case scoped_get (ox_organizationId \<circ> fst) (xs_executors s) org rowId of
        None \<Rightarrow> (False, s)
      | Some (r, h) \<Rightarrow>
          if ox_revokedAt r \<noteq> None then (True, s)
          else (True, s\<lparr>xs_executors := jset (ox_id r) (r\<lparr>ox_revokedAt := Some (clk 0)\<rparr>, h) (xs_executors s)\<rparr>))"

definition deleteOrganizationExecutor :: "string \<Rightarrow> string \<Rightarrow> exec_store \<Rightarrow> bool \<times> exec_store" where
  "deleteOrganizationExecutor org executorId s =
     (case scoped_get (ox_organizationId \<circ> fst) (xs_executors s) org executorId of
        None \<Rightarrow> (False, s)
      | Some (r, h) \<Rightarrow>
          if ox_revokedAt r = None then (False, s)
          else (True, s\<lparr>xs_executors := jdel executorId (xs_executors s)\<rparr>))"

section \<open>Managed executors\<close>

record managed_input =
  mi_name :: string
  mi_tokenHash :: string
  mi_maxInFlight :: "int option"
  mi_labels :: "string list option"
  mi_capabilities :: "json option"
  mi_enabled :: "bool option"
  mi_drain :: "bool option"
  mi_runtimeClass :: "string option"
  mi_region :: "string option"

definition createManagedExecutor :: "clock \<Rightarrow> uuids \<Rightarrow> managed_input \<Rightarrow> exec_store \<Rightarrow> managed_executor \<times> exec_store" where
  "createManagedExecutor clk uid i s =
     (let r = \<lparr>mx_id = uid 0, mx_name = mi_name i, mx_revokedAt = None, mx_lastSeenAt = None,
            mx_maxInFlight = max 1 (qq (mi_maxInFlight i) 50), mx_enabled = qq (mi_enabled i) True,
            mx_drain = qq (mi_drain i) False, mx_runtimeClass = qq (mi_runtimeClass i) ''container'',
            mx_region = mi_region i, mx_capabilities = mi_capabilities i, mx_labels = qq (mi_labels i) [],
            mx_createdAt = clk 0\<rparr>
      in (r, s\<lparr>xs_managed := jset (mx_id r) (r, mi_tokenHash i) (xs_managed s)\<rparr>))"

definition revokeManagedExecutor :: "clock \<Rightarrow> string \<Rightarrow> exec_store \<Rightarrow> bool \<times> exec_store" where
  "revokeManagedExecutor clk executorId s =
     (case jget (xs_managed s) executorId of
        None \<Rightarrow> (False, s)
      | Some (r, h) \<Rightarrow>
          if mx_revokedAt r \<noteq> None then (True, s)
          else (True, s\<lparr>xs_managed := jset executorId (r\<lparr>mx_revokedAt := Some (clk 0)\<rparr>, h) (xs_managed s)\<rparr>))"

section \<open>Histories\<close>

text \<open>
  One operation of the store.  The set \<open>A\<close> holds identifiers and token hashes drawn before: new
  ones are drawn outside it, which is what \<open>crypto.randomUUID\<close> and the random tokens promise.
\<close>

inductive exec_step :: "string set \<Rightarrow> exec_store \<Rightarrow> exec_store \<Rightarrow> bool" for A where
  x_agent_token: "h \<notin> A \<Longrightarrow> exec_step A s (snd (createAgentPairingToken clk uid og a h e s))"
| x_agent_consume: "exec_step A s (snd (consumeAgentPairingToken clk og h s))"
| x_agent_create: "uid 0 \<notin> A \<Longrightarrow> exec_step A s (snd (createOrganizationAgent clk uid og n h a c s))"
| x_agent_tags: "exec_step A s (snd (setOrganizationAgentTags og i l s))"
| x_agent_revoke: "exec_step A s (snd (revokeOrganizationAgent clk og i s))"
| x_exec_token: "h \<notin> A \<Longrightarrow> exec_step A s (snd (createExecutorPairingToken clk uid og a h e s))"
| x_exec_consume: "exec_step A s (snd (consumeExecutorPairingToken clk og h s))"
| x_exec_create: "uid 0 \<notin> A \<Longrightarrow> exec_step A s (snd (createOrganizationExecutor clk uid og n h a c s))"
| x_exec_labels: "exec_step A s (snd (setOrganizationExecutorLabels og i l s))"
| x_exec_revoke: "exec_step A s (snd (revokeOrganizationExecutor clk og i s))"
| x_exec_delete: "exec_step A s (snd (deleteOrganizationExecutor og i s))"
| x_managed_create: "uid 0 \<notin> A \<Longrightarrow> exec_step A s (snd (createManagedExecutor clk uid mi s))"
| x_managed_revoke: "exec_step A s (snd (revokeManagedExecutor clk i s))"

inductive_cases exec_stepE: "exec_step A s t"

inductive exec_steps :: "string set \<Rightarrow> exec_store \<Rightarrow> exec_store \<Rightarrow> bool" for A where
  exec_steps_refl: "exec_steps A s s"
| exec_steps_step: "exec_steps A s t \<Longrightarrow> exec_step A t u \<Longrightarrow> exec_steps A s u"

definition exec_ok :: "exec_store \<Rightarrow> bool" where
  \<comment> \<open>rows and tokens are stored under their own keys\<close>
  "exec_ok s \<longleftrightarrow> keyed pt_tokenHash (xs_agentTokens s) \<and> keyed pt_tokenHash (xs_execTokens s)
     \<and> keyed (ag_id \<circ> fst) (xs_agents s) \<and> keyed (ox_id \<circ> fst) (xs_executors s)"

lemmas exec_ops = createAgentPairingToken_def consumeAgentPairingToken_def createOrganizationAgent_def
  setOrganizationAgentTags_def revokeOrganizationAgent_def createExecutorPairingToken_def
  consumeExecutorPairingToken_def createOrganizationExecutor_def setOrganizationExecutorLabels_def
  revokeOrganizationExecutor_def deleteOrganizationExecutor_def createManagedExecutor_def
  revokeManagedExecutor_def

lemma keyed_consume: "consume_token clk og h m = (r, m') \<Longrightarrow> keyed pt_tokenHash m \<Longrightarrow> keyed pt_tokenHash m'"
  by (auto simp: consume_token_def Let_def intro: keyed_jset split: option.splits if_splits)

lemma exec_ok_step: "exec_step A s t \<Longrightarrow> exec_ok s \<Longrightarrow> exec_ok t"
  by (erule exec_stepE; hypsubst)
    (auto simp: exec_ops exec_ok_def new_token_def Let_def keyed_jset keyed_jdel
      split: option.split prod.split dest: keyed_consume)

lemma exec_ok_steps: "exec_steps A s t \<Longrightarrow> exec_ok s \<Longrightarrow> exec_ok t"
  by (induction rule: exec_steps.induct) (auto intro: exec_ok_step)


section \<open>Pairing tokens are used once\<close>

definition spent :: "pairing_token table \<Rightarrow> string \<Rightarrow> bool" where
  "spent m h \<longleftrightarrow> (\<exists>t. jget m h = Some t \<and> pt_usedAt t \<noteq> None)"

lemma spent_consume:
  assumes "consume_token clk og h' m = (r, m')" and "keyed pt_tokenHash m" and "spent m h"
  shows "spent m' h"
  using assms by (auto simp: consume_token_def spent_def Let_def jget_jset split: option.splits if_splits)

lemma spent_after:
  assumes "consume_token clk og h m = (Some r, m')" and "keyed pt_tokenHash m"
  shows "spent m' h"
  using assms
  by (auto simp: consume_token_def spent_def Let_def jget_jset dest!: scoped_getD dest: keyed_get
      split: option.splits if_splits)

lemma spent_refused: "spent m h \<Longrightarrow> consume_token clk og h m = (None, m)"
  by (auto simp: spent_def consume_token_def scoped_get_def)

lemma spent_step:
  assumes "exec_step A s t" and "exec_ok s" and "h \<in> A"
  shows "(spent (xs_agentTokens s) h \<longrightarrow> spent (xs_agentTokens t) h)
    \<and> (spent (xs_execTokens s) h \<longrightarrow> spent (xs_execTokens t) h)"
  using assms
  by (elim exec_stepE; hypsubst)
    (auto simp: exec_ops exec_ok_def new_token_def Let_def spent_def [of "jset _ _ _"] jget_jset
      dest: spent_consume split: option.split prod.split; auto simp: spent_def)+

lemma spent_steps:
  assumes "exec_steps A s t" and "exec_ok s" and "h \<in> A"
  shows "(spent (xs_agentTokens s) h \<longrightarrow> spent (xs_agentTokens t) h)
    \<and> (spent (xs_execTokens s) h \<longrightarrow> spent (xs_execTokens t) h)"
  using assms
proof (induction rule: exec_steps.induct)
  case (exec_steps_refl s)
  then show ?case by simp
next
  case (exec_steps_step s t u)
  then show ?case using spent_step [of A t u h] exec_ok_steps by blast
qed

text \<open>
  C27. A pairing token is used at most once: after an executor (or an agent) has been paired with a
  token, no later request with that token succeeds, for any organization, at any time and after
  any operations.
\<close>
theorem pairing_token_single_use:
  assumes "exec_steps B exec_empty s" and "exec_steps A t u" and "h \<in> A"
  shows "(consumeExecutorPairingToken clk org h s = (Some r, t) \<longrightarrow>
            consumeExecutorPairingToken clk' org' h u = (None, u))
       \<and> (consumeAgentPairingToken clk org h s = (Some r, t) \<longrightarrow>
            consumeAgentPairingToken clk' org' h u = (None, u))"
proof -
  have s: "exec_ok s" using exec_ok_steps [OF assms(1)] by (simp add: exec_ok_def exec_empty_def)
  have "consumeExecutorPairingToken clk' org' h u = (None, u)"
    if c: "consumeExecutorPairingToken clk org h s = (Some r, t)"
  proof -
    have "exec_step A s t" using x_exec_consume [of A s clk org h] c by simp
    then have t: "exec_ok t" using s exec_ok_step by blast
    have "spent (xs_execTokens t) h" using c s
      by (auto simp: consumeExecutorPairingToken_def exec_ok_def intro: spent_after split: prod.splits)
    then have "spent (xs_execTokens u) h" using spent_steps [OF assms(2) t assms(3)] by blast
    then show ?thesis by (simp add: consumeExecutorPairingToken_def spent_refused)
  qed
  moreover have "consumeAgentPairingToken clk' org' h u = (None, u)"
    if c: "consumeAgentPairingToken clk org h s = (Some r, t)"
  proof -
    have "exec_step A s t" using x_agent_consume [of A s clk org h] c by simp
    then have t: "exec_ok t" using s exec_ok_step by blast
    have "spent (xs_agentTokens t) h" using c s
      by (auto simp: consumeAgentPairingToken_def exec_ok_def intro: spent_after split: prod.splits)
    then have "spent (xs_agentTokens u) h" using spent_steps [OF assms(2) t assms(3)] by blast
    then show ?thesis by (simp add: consumeAgentPairingToken_def spent_refused)
  qed
  ultimately show ?thesis by blast
qed

definition sample_paired :: exec_store where
  "sample_paired = snd (createExecutorPairingToken (\<lambda>_. 0) (\<lambda>_. ''p1'') ''o'' ''u'' ''h'' 100 exec_empty)"

theorem pairing_token_single_use_witness:
  "\<exists>r t. consumeExecutorPairingToken (\<lambda>_. 50) ''o'' ''h'' sample_paired = (Some r, t)
     \<and> consumeExecutorPairingToken (\<lambda>_. 60) ''o'' ''h'' t = (None, t)"
proof -
  have s: "exec_steps {} exec_empty sample_paired"
    unfolding sample_paired_def by (rule exec_steps_step [OF exec_steps_refl x_exec_token]) simp
  have "fst (consumeExecutorPairingToken (\<lambda>_. 50) ''o'' ''h'' sample_paired) \<noteq> None" by code_simp
  then obtain r t where c: "consumeExecutorPairingToken (\<lambda>_. 50) ''o'' ''h'' sample_paired = (Some r, t)"
    by (cases "consumeExecutorPairingToken (\<lambda>_. 50) ''o'' ''h'' sample_paired") auto
  with pairing_token_single_use [OF s exec_steps_refl [of "{''h''}" t], of "''h''"] show ?thesis by blast
qed

section \<open>Revocation\<close>

definition exec_row :: "exec_store \<Rightarrow> string \<Rightarrow> org_executor option" where
  "exec_row s k = map_option fst (jget (xs_executors s) k)"

fun row_step :: "org_executor option \<Rightarrow> org_executor option \<Rightarrow> bool" where
  \<comment> \<open>what may become of the row of a known executor in one operation\<close>
  "row_step None y \<longleftrightarrow> y = None"
| "row_step (Some e) None \<longleftrightarrow> ox_revokedAt e \<noteq> None"
| "row_step (Some e) (Some f) \<longleftrightarrow> (ox_revokedAt e \<noteq> None \<longrightarrow> ox_revokedAt f = ox_revokedAt e)
     \<and> ox_organizationId f = ox_organizationId e \<and> ox_name f = ox_name e"

lemma row_step_refl [simp]: "row_step x x"
  by (cases x) auto

lemma exec_row_step:
  assumes "exec_step A s t" and "exec_ok s" and "k \<in> A"
  shows "row_step (exec_row s k) (exec_row t k)"
  using assms
  by (elim exec_stepE; hypsubst)
    (auto simp: exec_ops exec_ok_def exec_row_def new_token_def Let_def jget_jset jget_jdel
      dest!: scoped_getD dest: keyed_get split: option.split prod.split)

text \<open>
  C28. Revocation is final: whatever operations follow, a revoked executor keeps its revocation
  date until it is deleted; and an executor that has disappeared was revoked first, at some moment
  in between.
\<close>
theorem executor_revocation_final:
  assumes "exec_steps B exec_empty s" and "exec_steps A s t" and "k \<in> A" and "exec_row s k = Some e"
  shows "(ox_revokedAt e \<noteq> None \<longrightarrow> (case exec_row t k of None \<Rightarrow> True | Some f \<Rightarrow> ox_revokedAt f = ox_revokedAt e))
    \<and> (exec_row t k = None \<longrightarrow>
         (\<exists>u f. exec_steps A s u \<and> exec_steps A u t \<and> exec_row u k = Some f \<and> ox_revokedAt f \<noteq> None))"
proof -
  have s: "exec_ok s" using exec_ok_steps [OF assms(1)] by (simp add: exec_ok_def exec_empty_def)
  from assms(2) s assms(4) show ?thesis
  proof (induction rule: exec_steps.induct)
    case (exec_steps_refl s)
    then show ?case by simp
  next
    case (exec_steps_step s t v)
    note ih = exec_steps_step.IH [OF exec_steps_step.prems]
    have st: "row_step (exec_row t k) (exec_row v k)"
      using exec_row_step exec_steps_step.hyps exec_steps_step.prems(1) exec_ok_steps assms(3) by blast
    show ?case
    proof (cases "exec_row t k")
      case None
      with st ih show ?thesis using exec_steps.exec_steps_step exec_steps_step.hyps(2) by (simp, blast)
    next
      case (Some f)
      have "exec_steps A t v" using exec_steps.exec_steps_step exec_steps.exec_steps_refl exec_steps_step.hyps(2) by blast
      with st ih Some exec_steps_step.hyps(1) show ?thesis
        by (cases "exec_row v k") auto
    qed
  qed
qed

definition sample_revoked :: exec_store where
  "sample_revoked = snd (revokeOrganizationExecutor (\<lambda>_. 9) ''o'' ''x1''
     (snd (createOrganizationExecutor (\<lambda>_. 1) (\<lambda>_. ''x1'') ''o'' ''Runner'' ''h'' ''u'' None exec_empty)))"

theorem executor_revocation_final_witness:
  "case exec_row (snd (setOrganizationExecutorLabels ''o'' ''x1'' [''gpu''] sample_revoked)) ''x1'' of
     None \<Rightarrow> True | Some f \<Rightarrow> ox_revokedAt f = Some 9"
proof -
  have s: "exec_steps {} exec_empty sample_revoked"
    unfolding sample_revoked_def
    by (rule exec_steps_step [OF exec_steps_step [OF exec_steps_refl x_exec_create] x_exec_revoke]) simp
  have t: "exec_steps {''x1''} sample_revoked (snd (setOrganizationExecutorLabels ''o'' ''x1'' [''gpu''] sample_revoked))"
    by (rule exec_steps_step [OF exec_steps_refl x_exec_labels])
  have "map_option ox_revokedAt (exec_row sample_revoked ''x1'') = Some (Some 9)" by code_simp
  then obtain e where e: "exec_row sample_revoked ''x1'' = Some e" "ox_revokedAt e = Some 9" by auto
  from executor_revocation_final [OF s t _ e(1)] e(2) show ?thesis by (auto split: option.splits)
qed

end
