(* ===== verification/GatewayCapacity.thy ===== *)
theory GatewayCapacity
  imports Prelude
begin

text \<open>
  The executor scheduler of the gateway (\<open>apps/gateway/src/brain/scheduler.ts\<close>) and the selection of
  an executor for a tool (\<open>selectExecutorForTool\<close> in \<open>apps/gateway/src/brain/runtime.ts\<close>).  Redis holds
  integer counters with an optional expiry; its commands are atomic, and the Lua script
  \<open>reserveLua\<close> runs as one command.  Times are milliseconds of the Redis clock.
\<close>

section \<open>Redis counters\<close>

type_synonym redis = "(int \<times> timestamp option) table"

definition redis_get :: "redis \<Rightarrow> timestamp \<Rightarrow> string \<Rightarrow> int option" where
  \<comment> \<open>\<open>GET\<close>: an expired key is absent\<close>
  "redis_get m now k =
     (case jget m k of
        Some (v, Some e) \<Rightarrow> if e \<le> now then None else Some v
      | Some (v, None) \<Rightarrow> Some v
      | None \<Rightarrow> None)"

definition redis_set_px :: "redis \<Rightarrow> timestamp \<Rightarrow> string \<Rightarrow> int \<Rightarrow> int \<Rightarrow> redis" where
  \<comment> \<open>\<open>SET key value PX ttl\<close>\<close>
  "redis_set_px m now k v ttl = jset k (v, Some (now + ttl)) m"

definition redis_add :: "int \<Rightarrow> redis \<Rightarrow> timestamp \<Rightarrow> string \<Rightarrow> redis" where
  \<comment> \<open>\<open>INCR\<close> (1) and \<open>DECR\<close> (-1): an absent key counts as 0 and gets no expiry, a present one keeps its own\<close>
  "redis_add d m now k =
     (case redis_get m now k of
        None \<Rightarrow> jset k (d, None) m
      | Some v \<Rightarrow> jset k (v + d, (case jget m k of None \<Rightarrow> None | Some (_, e) \<Rightarrow> e)) m)"

definition redis_pexpire :: "redis \<Rightarrow> timestamp \<Rightarrow> string \<Rightarrow> int \<Rightarrow> redis" where
  "redis_pexpire m now k ttl =
     (case redis_get m now k of None \<Rightarrow> m | Some v \<Rightarrow> jset k (v, Some (now + ttl)) m)"

section \<open>Capacity\<close>

definition executorInFlightKey :: "string \<Rightarrow> string" where
  "executorInFlightKey executorId = ''executor:inflight:'' @ executorId"

definition orgInFlightKey :: "string \<Rightarrow> string" where
  "orgInFlightKey orgId = ''org:quota:'' @ orgId @ '':inflight''"

definition executorLastUsedKey :: "string \<Rightarrow> string" where
  "executorLastUsedKey executorId = ''executor:last_used:'' @ executorId"

definition reserveLua :: "string \<Rightarrow> string \<Rightarrow> int \<Rightarrow> int \<Rightarrow> int \<Rightarrow> timestamp \<Rightarrow> redis \<Rightarrow> int \<times> redis" where
  "reserveLua execKey orgKey execMax orgMax ttlMs now m =
     (let execVal = qq (redis_get m now execKey) 0; orgVal = qq (redis_get m now orgKey) 0 in
      if execVal + 1 > execMax then (1, m)
      else if orgVal + 1 > orgMax then (2, m)
      else let m1 = redis_add 1 m now execKey; m2 = redis_add 1 m1 now orgKey;
               m3 = redis_pexpire m2 now execKey ttlMs; m4 = redis_pexpire m3 now orgKey ttlMs
           in (0, m4))"

datatype capacity_error = CapExecutorOver | CapOrgQuota | CapUnknown

definition reserveCapacity :: "string \<Rightarrow> string \<Rightarrow> int \<Rightarrow> int \<Rightarrow> int \<Rightarrow> timestamp \<Rightarrow> redis
    \<Rightarrow> capacity_error option \<times> redis" where
  \<comment> \<open>\<open>None\<close> is \<open>{ ok: true }\<close>\<close>
  "reserveCapacity executorId orgId executorMax orgMax ttlMs now m =
     (case reserveLua (executorInFlightKey executorId) (orgInFlightKey orgId) executorMax orgMax ttlMs now m of
        (out, m') \<Rightarrow>
          (if out = 0 then None else if out = 1 then Some CapExecutorOver
           else if out = 2 then Some CapOrgQuota else Some CapUnknown, m'))"

definition releaseCapacity :: "string \<Rightarrow> string \<Rightarrow> timestamp \<Rightarrow> redis \<Rightarrow> redis" where
  "releaseCapacity executorId orgId now m =
     redis_add (-1) (redis_add (-1) m now (executorInFlightKey executorId)) now (orgInFlightKey orgId)"

definition getInFlight :: "string \<Rightarrow> timestamp \<Rightarrow> redis \<Rightarrow> int" where
  "getInFlight executorId now m = max 0 (qq (redis_get m now (executorInFlightKey executorId)) 0)"

definition getExecutorLastUsedMs :: "string \<Rightarrow> timestamp \<Rightarrow> redis \<Rightarrow> int" where
  "getExecutorLastUsedMs executorId now m = max 0 (qq (redis_get m now (executorLastUsedKey executorId)) 0)"

definition markExecutorUsed :: "string \<Rightarrow> timestamp \<Rightarrow> redis \<Rightarrow> redis" where
  "markExecutorUsed executorId now m = redis_set_px m now (executorLastUsedKey executorId) now (60 * 60 * 1000)"

section \<open>The invariant of the counters\<close>

text \<open>
  Jobs in flight.  Each job holds one reservation, taken at \<open>hd_since\<close>.  The step relation is that
  of any number of brains working on one Redis: every step is one atomic command or one release,
  at a time not before the last step.  \<open>emax\<close> and \<open>omax\<close> are the configured limits, \<open>ttl\<close> the lifetime
  \<open>GATEWAY_RESERVE_TTL_MS\<close> of a counter, and every job is released before its reservation is \<open>ttl\<close> old.
\<close>

record hold =
  hd_exec :: string
  hd_org :: string
  hd_since :: timestamp

record cap_state =
  cp_redis :: redis
  cp_held :: "hold list"
  cp_now :: timestamp

definition in_time :: "int \<Rightarrow> timestamp \<Rightarrow> hold list \<Rightarrow> bool" where
  "in_time ttl now hs \<longleftrightarrow> (\<forall>h \<in> set hs. now < hd_since h + ttl)"

inductive cap_step :: "(string \<Rightarrow> int) \<Rightarrow> (string \<Rightarrow> int) \<Rightarrow> int \<Rightarrow> cap_state \<Rightarrow> cap_state \<Rightarrow> bool" for emax omax ttl where
  cap_reserve: "cp_now s \<le> now \<Longrightarrow> in_time ttl now (cp_held s) \<Longrightarrow>
     reserveCapacity e og (emax e) (omax og) ttl now (cp_redis s) = (None, m) \<Longrightarrow>
     cap_step emax omax ttl s
       \<lparr>cp_redis = m, cp_held = \<lparr>hd_exec = e, hd_org = og, hd_since = now\<rparr> # cp_held s, cp_now = now\<rparr>"
| cap_refuse: "cp_now s \<le> now \<Longrightarrow> in_time ttl now (cp_held s) \<Longrightarrow>
     reserveCapacity e og (emax e) (omax og) ttl now (cp_redis s) = (Some err, m) \<Longrightarrow>
     cap_step emax omax ttl s (s\<lparr>cp_redis := m, cp_now := now\<rparr>)"
| cap_release: "cp_now s \<le> now \<Longrightarrow> in_time ttl now (cp_held s) \<Longrightarrow> h \<in> set (cp_held s) \<Longrightarrow>
     cap_step emax omax ttl s
       \<lparr>cp_redis = releaseCapacity (hd_exec h) (hd_org h) now (cp_redis s),
        cp_held = remove1 h (cp_held s), cp_now = now\<rparr>"
| cap_used: "cp_now s \<le> now \<Longrightarrow> in_time ttl now (cp_held s) \<Longrightarrow>
     cap_step emax omax ttl s (s\<lparr>cp_redis := markExecutorUsed e now (cp_redis s), cp_now := now\<rparr>)"

inductive cap_reach :: "(string \<Rightarrow> int) \<Rightarrow> (string \<Rightarrow> int) \<Rightarrow> int \<Rightarrow> cap_state \<Rightarrow> bool" for emax omax ttl where
  cap_reach_init: "cap_reach emax omax ttl \<lparr>cp_redis = [], cp_held = [], cp_now = 0\<rparr>"
| cap_reach_step: "cap_reach emax omax ttl s \<Longrightarrow> cap_step emax omax ttl s t \<Longrightarrow> cap_reach emax omax ttl t"

definition held_by :: "(hold \<Rightarrow> string) \<Rightarrow> string \<Rightarrow> hold list \<Rightarrow> int" where
  "held_by f k hs = int (length (filter (\<lambda>h. f h = k) hs))"

definition counter_ok :: "int \<Rightarrow> string \<Rightarrow> (hold \<Rightarrow> bool) \<Rightarrow> hold list \<Rightarrow> redis \<Rightarrow> timestamp \<Rightarrow> bool" where
  \<comment> \<open>the counter k counts the jobs satisfying P, and lives as long as any of them\<close>
  "counter_ok ttl k P hs m now \<longleftrightarrow>
     qq (redis_get m now k) 0 = int (length (filter P hs))
     \<and> (\<forall>h \<in> set hs. P h \<longrightarrow> (\<exists>v e. jget m k = Some (v, e) \<and> (case e of None \<Rightarrow> True | Some x \<Rightarrow> hd_since h + ttl \<le> x)))"

definition caps_ok :: "(string \<Rightarrow> int) \<Rightarrow> (string \<Rightarrow> int) \<Rightarrow> int \<Rightarrow> cap_state \<Rightarrow> bool" where
  "caps_ok emax omax ttl s \<longleftrightarrow>
     (\<forall>e. counter_ok ttl (executorInFlightKey e) (\<lambda>h. hd_exec h = e) (cp_held s) (cp_redis s) (cp_now s)
          \<and> (held_by hd_exec e (cp_held s) = 0 \<or> held_by hd_exec e (cp_held s) \<le> emax e))
   \<and> (\<forall>og. counter_ok ttl (orgInFlightKey og) (\<lambda>h. hd_org h = og) (cp_held s) (cp_redis s) (cp_now s)
          \<and> (held_by hd_org og (cp_held s) = 0 \<or> held_by hd_org og (cp_held s) \<le> omax og))
   \<and> (\<forall>h \<in> set (cp_held s). hd_since h \<le> cp_now s)"


lemma cap_keys [simp]:
  "executorInFlightKey a = executorInFlightKey b \<longleftrightarrow> a = b" "orgInFlightKey a = orgInFlightKey b \<longleftrightarrow> a = b"
  "executorInFlightKey a \<noteq> orgInFlightKey b" "orgInFlightKey b \<noteq> executorInFlightKey a"
  "executorLastUsedKey a \<noteq> executorInFlightKey b" "executorLastUsedKey a \<noteq> orgInFlightKey b"
  by (simp_all add: executorInFlightKey_def orgInFlightKey_def executorLastUsedKey_def)

lemma redis_get_cong: "jget m k = jget m' k \<Longrightarrow> redis_get m now k = redis_get m' now k"
  by (simp add: redis_get_def)

lemma counter_cong: "jget m k = jget m' k \<Longrightarrow> counter_ok ttl k P hs m now = counter_ok ttl k P hs m' now"
  by (simp add: counter_ok_def redis_get_cong [of m k m'])

lemma jget_add_other: "k \<noteq> k' \<Longrightarrow> jget (redis_add d m now k) k' = jget m k'"
  by (simp add: redis_add_def jget_jset split: option.split)

lemma get_add_same: "redis_get (redis_add d m now k) now k = Some (qq (redis_get m now k) 0 + d)"
  by (auto simp: redis_add_def redis_get_def jget_jset split: option.splits if_splits)

lemma jget_pexpire: "jget (redis_pexpire m now k ttl) k' =
    (if k' = k then map_option (\<lambda>v. (v, Some (now + ttl))) (redis_get m now k) else jget m k')" if "redis_get m now k \<noteq> None"
  using that by (auto simp: redis_pexpire_def jget_jset split: option.split)

lemma reserve_ok:
  assumes "reserveCapacity e og em om ttl now m = (None, m')"
  shows "qq (redis_get m now (executorInFlightKey e)) 0 + 1 \<le> em"
    and "qq (redis_get m now (orgInFlightKey og)) 0 + 1 \<le> om"
    and "jget m' k = (if k = executorInFlightKey e then Some (qq (redis_get m now k) 0 + 1, Some (now + ttl))
           else if k = orgInFlightKey og then Some (qq (redis_get m now k) 0 + 1, Some (now + ttl)) else jget m k)"
proof -
  let ?e = "executorInFlightKey e" and ?o = "orgInFlightKey og"
  let ?m1 = "redis_add 1 m now ?e"
  let ?m2 = "redis_add 1 ?m1 now ?o"
  let ?m3 = "redis_pexpire ?m2 now ?e ttl"
  have m': "m' = redis_pexpire ?m3 now ?o ttl" and le: "qq (redis_get m now ?e) 0 + 1 \<le> em" "qq (redis_get m now ?o) 0 + 1 \<le> om"
    using assms by (auto simp: reserveCapacity_def reserveLua_def Let_def split: if_splits)
  show "qq (redis_get m now ?e) 0 + 1 \<le> em" "qq (redis_get m now ?o) 0 + 1 \<le> om" by (fact le)+
  have e2: "redis_get ?m2 now ?e = Some (qq (redis_get m now ?e) 0 + 1)"
    using get_add_same [of 1 m now ?e] redis_get_cong [OF jget_add_other [of ?o ?e 1 ?m1 now], of now] by simp
  have "redis_get ?m1 now ?o = redis_get m now ?o"
    by (rule redis_get_cong) (simp add: jget_add_other)
  then have o2: "redis_get ?m2 now ?o = Some (qq (redis_get m now ?o) 0 + 1)"
    using get_add_same [of 1 ?m1 now ?o] by simp
  have "redis_get ?m3 now ?o = redis_get ?m2 now ?o"
    by (rule redis_get_cong) (simp add: jget_pexpire e2)
  with o2 have "redis_get ?m3 now ?o = Some (qq (redis_get m now ?o) 0 + 1)" by simp
  with e2 show "jget m' k = (if k = ?e then Some (qq (redis_get m now k) 0 + 1, Some (now + ttl))
           else if k = ?o then Some (qq (redis_get m now k) 0 + 1, Some (now + ttl)) else jget m k)"
    by (auto simp: m' jget_pexpire jget_add_other)
qed

lemma reserve_refused: "reserveCapacity e og em om ttl now m = (Some err, m') \<Longrightarrow> m' = m"
  by (auto simp: reserveCapacity_def reserveLua_def Let_def split: if_splits)

lemma counter_later:
  assumes "counter_ok ttl k P hs m now" and "now \<le> later" and "in_time ttl later hs"
  shows "counter_ok ttl k P hs m later"
proof (cases "filter P hs")
  case Nil
  then have "qq (redis_get m later k) 0 = 0"
    using assms(1,2) by (auto simp: counter_ok_def redis_get_def split: option.splits if_splits)
  with Nil show ?thesis using assms(1) by (simp add: counter_ok_def)
next
  case (Cons h hs')
  then have "h \<in> set (filter P hs)" by simp
  then have h: "h \<in> set hs" "P h" by simp_all
  then obtain v e where e: "jget m k = Some (v, e)" "case e of None \<Rightarrow> True | Some x \<Rightarrow> hd_since h + ttl \<le> x"
    using assms(1) unfolding counter_ok_def by blast
  have "later < hd_since h + ttl" using assms(3) h(1) by (simp add: in_time_def)
  then have "redis_get m later k = Some v" "redis_get m now k = Some v"
    using e assms(2) by (auto simp: redis_get_def split: option.splits)
  then show ?thesis using assms(1) by (simp add: counter_ok_def)
qed

lemma counter_reserve:
  assumes "counter_ok ttl k P hs m now" and "jget m' k = Some (qq (redis_get m now k) 0 + 1, Some (now + ttl))"
    and "0 < ttl" and "\<forall>h \<in> set hs. hd_since h \<le> now" and "P h" and "hd_since h = now"
  shows "counter_ok ttl k P (h # hs) m' now"
  using assms by (auto simp: counter_ok_def redis_get_def)

lemma counter_skip:
  assumes "counter_ok ttl k P hs m now" and "jget m' k = jget m k" and "\<not> P h"
  shows "counter_ok ttl k P (h # hs) m' now"
  using assms redis_get_cong [of m' k m now] by (simp add: counter_ok_def)

lemma int_length_remove1: "x \<in> set xs \<Longrightarrow> int (length (remove1 x xs)) = int (length xs) - 1"
  by (cases "length xs") (auto simp: length_remove1)

lemma counter_release:
  assumes "counter_ok ttl k P hs m now" and "in_time ttl now hs" and "h \<in> set hs" and "P h"
  shows "counter_ok ttl k P (remove1 h hs) (redis_add (-1) m now k) now"
proof -
  obtain v e where e: "jget m k = Some (v, e)" "case e of None \<Rightarrow> True | Some x \<Rightarrow> hd_since h + ttl \<le> x"
    using assms(1,3,4) unfolding counter_ok_def by blast
  have "now < hd_since h + ttl" using assms(2,3) by (simp add: in_time_def)
  then have g: "redis_get m now k = Some v" using e by (auto simp: redis_get_def split: option.splits)
  then have j: "jget (redis_add (-1) m now k) k = Some (v - 1, e)"
    using e(1) by (simp add: redis_add_def jget_jset)
  have "h \<in> set (filter P hs)" using assms(3,4) by simp
  from int_length_remove1 [OF this]
  have "int (length (filter P (remove1 h hs))) = int (length (filter P hs)) - 1" by (simp add: filter_remove1)
  moreover have "redis_get (redis_add (-1) m now k) now k = Some (v - 1)"
    using get_add_same [of "-1" m now k] g by simp
  ultimately show ?thesis
    using assms(1) g e(1) unfolding counter_ok_def j by (auto dest: notin_set_remove1 split: if_splits)
qed

lemma counter_unrelease:
  assumes "counter_ok ttl k P hs m now" and "jget m' k = jget m k" and "\<not> P h"
  shows "counter_ok ttl k P (remove1 h hs) m' now"
proof -
  have "filter P (remove1 h hs) = filter P hs" using assms(3) by (simp add: filter_remove1 remove1_idem)
  moreover have "x \<in> set hs" if "x \<in> set (remove1 h hs)" for x using that by (meson notin_set_remove1)
  ultimately show ?thesis using assms(1,2) redis_get_cong [of m' k m now] unfolding counter_ok_def by auto
qed


lemma held_by_Cons: "held_by f k (h # hs) = held_by f k hs + (if f h = k then 1 else 0)"
  by (simp add: held_by_def)

lemma held_by_remove1: "held_by f k (remove1 h hs) \<le> held_by f k hs"
  by (simp add: held_by_def filter_remove1 length_remove1)

lemma held_by_nonneg: "0 \<le> held_by f k hs"
  by (simp add: held_by_def)

lemma caps_later:
  assumes "caps_ok emax omax ttl s" and "cp_now s \<le> now" and "in_time ttl now (cp_held s)"
  shows "caps_ok emax omax ttl (s\<lparr>cp_now := now\<rparr>)"
  using assms counter_later by (fastforce simp: caps_ok_def)

lemma caps_step:
  assumes "cap_step emax omax ttl s t" and "caps_ok emax omax ttl s" and ttl: "0 < ttl"
  shows "caps_ok emax omax ttl t"
  using assms(1)
proof (cases rule: cap_step.cases)
  case (cap_reserve now e og m)
  have l: "caps_ok emax omax ttl (s\<lparr>cp_now := now\<rparr>)" using caps_later [OF assms(2)] cap_reserve by simp
  have old: "\<forall>h \<in> set (cp_held s). hd_since h \<le> now" using l by (simp add: caps_ok_def)
  note r = reserve_ok [OF cap_reserve(4)]
  have bound: "held_by hd_exec e (cp_held s) + 1 \<le> emax e" "held_by hd_org og (cp_held s) + 1 \<le> omax og"
    using r(1,2) l by (simp_all add: caps_ok_def counter_ok_def held_by_def)
  have ce: "counter_ok ttl (executorInFlightKey e') (\<lambda>h. hd_exec h = e') (cp_held t) m now" for e'
  proof (cases "e' = e")
    case True
    show ?thesis unfolding cap_reserve(1)
      using l r(3) True ttl old by (auto simp: caps_ok_def intro!: counter_reserve [where m = "cp_redis s"])
  next
    case False
    then show ?thesis unfolding cap_reserve(1)
      using l r(3) by (auto simp: caps_ok_def intro!: counter_skip [where m = "cp_redis s"])
  qed
  have co: "counter_ok ttl (orgInFlightKey o') (\<lambda>h. hd_org h = o') (cp_held t) m now" for o'
  proof (cases "o' = og")
    case True
    show ?thesis unfolding cap_reserve(1)
      using l r(3) True ttl old by (auto simp: caps_ok_def intro!: counter_reserve [where m = "cp_redis s"])
  next
    case False
    then show ?thesis unfolding cap_reserve(1)
      using l r(3) by (auto simp: caps_ok_def intro!: counter_skip [where m = "cp_redis s"])
  qed
  show ?thesis
    using ce co bound l unfolding cap_reserve(1) by (auto simp: caps_ok_def held_by_Cons)
next
  case (cap_refuse now e og err m)
  then show ?thesis using caps_later [OF assms(2), of now] reserve_refused [OF cap_refuse(4)] by simp
next
  case (cap_release now h)
  have l: "caps_ok emax omax ttl (s\<lparr>cp_now := now\<rparr>)" using caps_later [OF assms(2)] cap_release by simp
  let ?m1 = "redis_add (-1) (cp_redis s) now (executorInFlightKey (hd_exec h))"
  let ?m2 = "redis_add (-1) ?m1 now (orgInFlightKey (hd_org h))"
  have ce: "counter_ok ttl (executorInFlightKey e) (\<lambda>h. hd_exec h = e) (remove1 h (cp_held s)) ?m2 now" for e
  proof -
    have "counter_ok ttl (executorInFlightKey e) (\<lambda>h. hd_exec h = e) (remove1 h (cp_held s)) ?m1 now"
    proof (cases "hd_exec h = e")
      case True
      with l cap_release(3,4) show ?thesis by (auto simp: caps_ok_def intro!: counter_release)
    next
      case False
      with l show ?thesis
        by (auto simp: caps_ok_def jget_add_other intro!: counter_unrelease [where m = "cp_redis s"])
    qed
    then show ?thesis by (subst counter_cong [where m' = ?m1]) (simp_all add: jget_add_other)
  qed
  have co: "counter_ok ttl (orgInFlightKey og) (\<lambda>h. hd_org h = og) (remove1 h (cp_held s)) ?m2 now" for og
  proof -
    have c: "counter_ok ttl (orgInFlightKey og) (\<lambda>h. hd_org h = og) (cp_held s) ?m1 now"
      using l by (subst counter_cong [where m' = "cp_redis s"]) (simp_all add: jget_add_other caps_ok_def)
    show ?thesis
    proof (cases "hd_org h = og")
      case True
      with c cap_release(3,4) show ?thesis by (auto intro!: counter_release)
    next
      case False
      with c show ?thesis by (auto simp: jget_add_other intro!: counter_unrelease [where m = ?m1])
    qed
  qed
  have b: "held_by hd_exec e (remove1 h (cp_held s)) = 0 \<or> held_by hd_exec e (remove1 h (cp_held s)) \<le> emax e"
    "held_by hd_org og (remove1 h (cp_held s)) = 0 \<or> held_by hd_org og (remove1 h (cp_held s)) \<le> omax og" for e og
  proof -
    have "held_by hd_exec e (cp_held s) = 0 \<or> held_by hd_exec e (cp_held s) \<le> emax e"
      "held_by hd_org og (cp_held s) = 0 \<or> held_by hd_org og (cp_held s) \<le> omax og"
      using l by (simp_all add: caps_ok_def)
    then show "held_by hd_exec e (remove1 h (cp_held s)) = 0 \<or> held_by hd_exec e (remove1 h (cp_held s)) \<le> emax e"
      "held_by hd_org og (remove1 h (cp_held s)) = 0 \<or> held_by hd_org og (remove1 h (cp_held s)) \<le> omax og"
      using held_by_remove1 [of hd_exec e h "cp_held s"] held_by_remove1 [of hd_org og h "cp_held s"]
        held_by_nonneg [of hd_exec e "remove1 h (cp_held s)"] held_by_nonneg [of hd_org og "remove1 h (cp_held s)"]
      by linarith+
  qed
  have "\<forall>x \<in> set (remove1 h (cp_held s)). hd_since x \<le> now" using l by (auto simp: caps_ok_def dest: notin_set_remove1)
  with ce co b show ?thesis unfolding cap_release(1) caps_ok_def releaseCapacity_def by simp
next
  case (cap_used now e)
  have "caps_ok emax omax ttl (s\<lparr>cp_now := now\<rparr>)" using caps_later [OF assms(2)] cap_used by simp
  moreover have "counter_ok ttl k P hs (markExecutorUsed e now (cp_redis s)) now = counter_ok ttl k P hs (cp_redis s) now"
    if "executorLastUsedKey e \<noteq> k" for k P hs
    using that by (intro counter_cong) (simp add: markExecutorUsed_def redis_set_px_def jget_jset)
  ultimately show ?thesis unfolding cap_used(1) by (simp add: caps_ok_def)
qed


lemma caps_reach: "cap_reach emax omax ttl s \<Longrightarrow> 0 < ttl \<Longrightarrow> caps_ok emax omax ttl s"
proof (induction rule: cap_reach.induct)
  case cap_reach_init
  then show ?case by (simp add: caps_ok_def counter_ok_def held_by_def redis_get_def)
next
  case (cap_reach_step s t)
  then show ?case by (blast intro: caps_step)
qed

text \<open>
  C8. Capacity limits hold under every interleaving of brains: as long as jobs finish before their
  reservation expires, the jobs in flight on an executor and of an organization never exceed the
  configured limits, and the counter the scheduler reads is exactly the number of jobs in flight.
\<close>
theorem capacity_never_exceeded:
  assumes "cap_reach emax omax ttl s" and "0 < ttl" and "0 \<le> emax e" and "0 \<le> omax og"
  shows "held_by hd_exec e (cp_held s) \<le> emax e \<and> held_by hd_org og (cp_held s) \<le> omax og
    \<and> getInFlight e (cp_now s) (cp_redis s) = held_by hd_exec e (cp_held s)"
proof -
  have e: "counter_ok ttl (executorInFlightKey e) (\<lambda>h. hd_exec h = e) (cp_held s) (cp_redis s) (cp_now s)"
    and b: "held_by hd_exec e (cp_held s) = 0 \<or> held_by hd_exec e (cp_held s) \<le> emax e"
    "held_by hd_org og (cp_held s) = 0 \<or> held_by hd_org og (cp_held s) \<le> omax og"
    using caps_reach [OF assms(1,2)] by (simp_all add: caps_ok_def)
  have "getInFlight e (cp_now s) (cp_redis s) = held_by hd_exec e (cp_held s)"
    using e by (simp add: counter_ok_def getInFlight_def held_by_def)
  with b assms(3,4) show ?thesis by linarith
qed

lemma sample_cap_reach:
  "cap_reach (\<lambda>_. 1) (\<lambda>_. 5) 1000
     \<lparr>cp_redis = snd (reserveCapacity ''e'' ''o'' 1 5 1000 10 []),
      cp_held = [\<lparr>hd_exec = ''e'', hd_org = ''o'', hd_since = 10\<rparr>], cp_now = 10\<rparr>"
proof -
  let ?s = "\<lparr>cp_redis = [], cp_held = [], cp_now = 0\<rparr>"
  have "fst (reserveCapacity ''e'' ''o'' 1 5 1000 10 []) = None" by code_simp
  then have "reserveCapacity ''e'' ''o'' 1 5 1000 10 (cp_redis ?s) = (None, snd (reserveCapacity ''e'' ''o'' 1 5 1000 10 []))"
    by (simp add: prod_eq_iff)
  from cap_reach_step [OF cap_reach_init cap_reserve [OF _ _ this]] show ?thesis
    by (simp add: in_time_def)
qed

theorem capacity_never_exceeded_witness:
  "fst (reserveCapacity ''e'' ''p'' 1 5 1000 20 (snd (reserveCapacity ''e'' ''o'' 1 5 1000 10 []))) = Some CapExecutorOver
   \<and> getInFlight ''e'' 10 (snd (reserveCapacity ''e'' ''o'' 1 5 1000 10 [])) = 1"
proof -
  have "fst (reserveCapacity ''e'' ''p'' 1 5 1000 20 (snd (reserveCapacity ''e'' ''o'' 1 5 1000 10 []))) = Some CapExecutorOver"
    by code_simp
  with capacity_never_exceeded [OF sample_cap_reach, of "''e''" "''o''"] show ?thesis
    by (simp add: held_by_def)
qed


text \<open>
  What the limits rest on: a job released after its reservation has expired drives both
  counters below zero, without an expiry, so one more job than the limit is admitted afterwards.
\<close>
theorem late_release_goes_negative:
  assumes "reserveCapacity e og em om ttl t0 [] = (None, m)" and "t0 + ttl \<le> t1"
  shows "redis_get (releaseCapacity e og t1 m) t2 (executorInFlightKey e) = Some (-1)
    \<and> redis_get (releaseCapacity e og t1 m) t2 (orgInFlightKey og) = Some (-1)"
proof -
  let ?e = "executorInFlightKey e" and ?o = "orgInFlightKey og"
  have gone: "redis_get m t1 ?e = None" "redis_get m t1 ?o = None"
    using reserve_ok(3) [OF assms(1)] assms(2) by (simp_all add: redis_get_def)
  let ?m1 = "redis_add (-1) m t1 ?e"
  have "redis_get ?m1 t1 ?o = None"
    using gone(2) redis_get_cong [OF jget_add_other [of ?e ?o "-1" m t1]] by simp
  then show ?thesis
    using gone(1) by (simp add: releaseCapacity_def redis_add_def redis_get_def jget_jset)
qed

theorem late_release_goes_negative_witness:
  "redis_get (releaseCapacity ''e'' ''o'' 1010 (snd (reserveCapacity ''e'' ''o'' 1 5 1000 10 []))) 1010
     (executorInFlightKey ''e'') = Some (-1)"
proof -
  have "fst (reserveCapacity ''e'' ''o'' 1 5 1000 10 []) = None" by code_simp
  then have r: "reserveCapacity ''e'' ''o'' 1 5 1000 10 [] = (None, snd (reserveCapacity ''e'' ''o'' 1 5 1000 10 []))"
    by (simp add: prod_eq_iff)
  from late_release_goes_negative [OF r, of 1010] show ?thesis by simp
qed

end
