(* ===== verification/GatewaySelection.thy ===== *)
theory GatewaySelection
  imports GatewayCapacity Complex_Main
begin

text \<open>
  Selecting the executor of a job: the routes executors announce (\<open>listExecutorRoutes\<close> and
  \<open>isExecutorOauthVerified\<close> of \<open>apps/gateway/src/brain/scheduler.ts\<close>), \<open>selectExecutorForTool\<close>,
  \<open>resolveSessionPoolOrder\<close> and \<open>selectSessionExecutor\<close> of \<open>apps/gateway/src/brain/runtime.ts\<close>.  The
  argument \<open>routes\<close> is what the scan of \<open>executor:route:*\<close> returns after parsing.  One selection reads
  one time \<open>now\<close>.  A load ratio is a pair (in flight, limit) compared by cross multiplication.
\<close>

section \<open>Routes and selectors\<close>

datatype pool = PoolManaged | PoolByon

datatype exec_kind = KindConnectorAction | KindAgentExecute | KindAgentRun

datatype oauth_engine = EngineCodex | EngineClaude

record auth_state =
  as_oauthVerified :: bool
  as_checkedAt :: string
  as_reason :: string

record engine_auth =
  ea_codex :: "auth_state option"
  ea_claude :: "auth_state option"

record executor_route =
  rt_edgeId :: string
  rt_executorId :: string
  rt_pool :: pool
  rt_organizationId :: "string option"
  rt_name :: "string option"
  rt_labels :: "string list option"
  rt_maxInFlight :: "int option"
  rt_kinds :: "exec_kind list option"
  rt_engineAuth :: "engine_auth option"
  rt_lastSeenAtMs :: "int option"

record exec_selector_v1 =
  sl_pool :: pool
  sl_labels :: "string list option"
  sl_group :: "string option"
  sl_tag :: "string option"
  sl_executorId :: "string option"

definition isExecutorOauthVerified :: "executor_route \<Rightarrow> oauth_engine \<Rightarrow> bool" where
  "isExecutorOauthVerified r eng =
     (case rt_engineAuth r of
        None \<Rightarrow> False
      | Some a \<Rightarrow> (case (case eng of EngineCodex \<Rightarrow> ea_codex a | EngineClaude \<Rightarrow> ea_claude a) of
                    None \<Rightarrow> False | Some x \<Rightarrow> as_oauthVerified x))"

definition listExecutorRoutes :: "executor_route list \<Rightarrow> string option \<Rightarrow> pool option \<Rightarrow> executor_route list" where
  "listExecutorRoutes routes orgId p =
     filter (\<lambda>r. (p \<noteq> None \<longrightarrow> Some (rt_pool r) = p) \<and> (truthy orgId \<longrightarrow> rt_organizationId r = orgId)) routes"

datatype engine_id = GatewayCodex | GatewayClaude | GatewayOpencode | OtherEngine string

fun requiresExecutorOAuth :: "engine_id \<Rightarrow> bool \<Rightarrow> oauth_engine option" where
  "requiresExecutorOAuth e hasInlineSecret =
     (if hasInlineSecret then None
      else case e of GatewayCodex \<Rightarrow> Some EngineCodex | GatewayClaude \<Rightarrow> Some EngineClaude | _ \<Rightarrow> None)"

section \<open>Selection\<close>

datatype select_error = NO_EXECUTOR_AVAILABLE | EXECUTOR_OVER_CAPACITY | ORG_QUOTA_EXCEEDED | EXECUTOR_OAUTH_NOT_VERIFIED

record selected_executor =
  se_executorId :: string
  se_edgeId :: string
  se_maxInFlight :: int
  se_pool :: pool

definition selectorPool :: "exec_selector_v1 option \<Rightarrow> pool" where
  "selectorPool sel = (case sel of None \<Rightarrow> PoolByon | Some x \<Rightarrow> sl_pool x)"

definition selectorLabels :: "exec_selector_v1 option \<Rightarrow> string list" where
  "selectorLabels sel = (case sel of None \<Rightarrow> []
     | Some x \<Rightarrow> qq (sl_labels x) [] @ (case sl_tag x of None \<Rightarrow> [] | Some t \<Rightarrow> [t]))"

definition matchesSelector :: "exec_selector_v1 option \<Rightarrow> executor_route \<Rightarrow> bool" where
  "matchesSelector sel r =
     (let labels = set (qq (rt_labels r) []); grp = (case sel of None \<Rightarrow> None | Some x \<Rightarrow> sl_group x) in
      if \<not> list_all (\<lambda>need. need \<in> labels) (selectorLabels sel) then False
      else case grp of None \<Rightarrow> True
        | Some g \<Rightarrow> g = '''' \<or> g \<in> labels \<or> ''group:'' @ g \<in> labels)"

definition route_limit :: "executor_route \<Rightarrow> int" where
  "route_limit r = qq (rt_maxInFlight r) 10"

definition has_kind :: "exec_kind \<Rightarrow> executor_route \<Rightarrow> bool" where
  "has_kind k r \<longleftrightarrow> k \<in> set (qq (rt_kinds r) [])"

definition load_ratio :: "timestamp \<Rightarrow> redis \<Rightarrow> executor_route \<Rightarrow> int \<times> int" where
  "load_ratio now m r = (if route_limit r > 0 then (getInFlight (rt_executorId r) now m, route_limit r) else (1, 1))"

definition by_load :: "timestamp \<Rightarrow> redis \<Rightarrow> executor_route \<Rightarrow> executor_route \<Rightarrow> int" where
  "by_load now m a b =
     (case (load_ratio now m a, load_ratio now m b) of ((x, xd), (y, yd)) \<Rightarrow>
        if x * yd \<noteq> y * xd then x * yd - y * xd
        else getExecutorLastUsedMs (rt_executorId a) now m - getExecutorLastUsedMs (rt_executorId b) now m)"

definition as_selected :: "executor_route \<Rightarrow> selected_executor" where
  "as_selected r = \<lparr>se_executorId = rt_executorId r, se_edgeId = rt_edgeId r, se_maxInFlight = route_limit r, se_pool = rt_pool r\<rparr>"

fun tryReserve :: "string \<Rightarrow> int \<Rightarrow> int \<Rightarrow> timestamp \<Rightarrow> bool \<Rightarrow> bool \<Rightarrow> executor_route list \<Rightarrow> redis
    \<Rightarrow> (select_error + selected_executor) \<times> redis" where
  \<comment> \<open>the loop over the scored candidates; the flags are \<open>sawExecutorOverCapacity\<close> and \<open>sawOrgQuotaExceeded\<close>\<close>
  "tryReserve org orgMax ttl now sawExec sawOrg [] m =
     (Inl (if sawOrg then ORG_QUOTA_EXCEEDED else if sawExec then EXECUTOR_OVER_CAPACITY else NO_EXECUTOR_AVAILABLE), m)"
| "tryReserve org orgMax ttl now sawExec sawOrg (r # rs) m =
     (case reserveCapacity (rt_executorId r) org (route_limit r) orgMax ttl now m of
        (None, m') \<Rightarrow> (Inr (as_selected r), markExecutorUsed (rt_executorId r) now m')
      | (Some e, m') \<Rightarrow>
          tryReserve org orgMax ttl now (sawExec \<or> e = CapExecutorOver) (sawOrg \<or> e = CapOrgQuota) rs m')"

definition baseCandidates :: "executor_route list \<Rightarrow> string \<Rightarrow> exec_kind \<Rightarrow> exec_selector_v1 option \<Rightarrow> executor_route list" where
  "baseCandidates routes org kind sel =
     filter (matchesSelector sel) (filter (has_kind kind)
       (filter (\<lambda>r. selectorPool sel = PoolByon \<longrightarrow> rt_organizationId r = Some org) routes))"

definition selectExecutorForTool :: "executor_route list \<Rightarrow> string \<Rightarrow> exec_kind \<Rightarrow> exec_selector_v1 option \<Rightarrow> oauth_engine option
    \<Rightarrow> int \<Rightarrow> int \<Rightarrow> timestamp \<Rightarrow> redis \<Rightarrow> (select_error + selected_executor) \<times> redis" where
  "selectExecutorForTool announced org kind sel oauth orgMax ttl now m =
     (let routes = (if selectorPool sel = PoolByon then listExecutorRoutes announced (Some org) (Some PoolByon)
                    else listExecutorRoutes announced None (Some PoolManaged));
          wanted = (case sel of None \<Rightarrow> None | Some x \<Rightarrow> sl_executorId x) in
      if truthy wanted then
        (case find (\<lambda>r. Some (rt_executorId r) = wanted) routes of
           None \<Rightarrow> (Inl NO_EXECUTOR_AVAILABLE, m)
         | Some r \<Rightarrow>
             if \<not> has_kind kind r then (Inl NO_EXECUTOR_AVAILABLE, m)
             else if selectorPool sel = PoolByon \<and> rt_organizationId r \<noteq> Some org then (Inl NO_EXECUTOR_AVAILABLE, m)
             else if \<not> matchesSelector sel r then (Inl NO_EXECUTOR_AVAILABLE, m)
             else if (case oauth of None \<Rightarrow> False | Some e \<Rightarrow> \<not> isExecutorOauthVerified r e)
             then (Inl EXECUTOR_OAUTH_NOT_VERIFIED, m)
             else (case reserveCapacity (rt_executorId r) org (route_limit r) orgMax ttl now m of
                     (Some e, m') \<Rightarrow> (Inl (if e = CapOrgQuota then ORG_QUOTA_EXCEEDED else EXECUTOR_OVER_CAPACITY), m')
                   | (None, m') \<Rightarrow> (Inr (as_selected r), markExecutorUsed (rt_executorId r) now m')))
      else
        let base = baseCandidates routes org kind sel;
            candidates = (case oauth of None \<Rightarrow> base | Some e \<Rightarrow> filter (\<lambda>r. isExecutorOauthVerified r e) base) in
        if oauth \<noteq> None \<and> base \<noteq> [] \<and> candidates = [] then (Inl EXECUTOR_OAUTH_NOT_VERIFIED, m)
        else if candidates = [] then (Inl NO_EXECUTOR_AVAILABLE, m)
        else tryReserve org orgMax ttl now False False (js_sort (by_load now m) candidates) m)"

section \<open>Sessions\<close>

definition resolveSessionPoolOrder :: "exec_selector_v1 option \<Rightarrow> pool list" where
  "resolveSessionPoolOrder sel = (if sel \<noteq> None \<and> selectorPool sel = PoolManaged then [PoolManaged] else [PoolByon])"

definition with_pool :: "exec_selector_v1 option \<Rightarrow> pool \<Rightarrow> exec_selector_v1" where
  "with_pool sel p = (case sel of
     None \<Rightarrow> \<lparr>sl_pool = p, sl_labels = None, sl_group = None, sl_tag = None, sl_executorId = None\<rparr>
   | Some x \<Rightarrow> x\<lparr>sl_pool := p\<rparr>)"

fun sessionPools :: "(pool \<Rightarrow> redis \<Rightarrow> (select_error + selected_executor) \<times> redis) \<Rightarrow> bool \<Rightarrow> bool \<Rightarrow> pool list \<Rightarrow> redis
    \<Rightarrow> (select_error + selected_executor) \<times> redis" where
  \<comment> \<open>the loop over the pools; the flags are \<open>sawExecutorOverCapacity\<close> and \<open>sawExecutorOauthNotVerified\<close>\<close>
  "sessionPools f over oauth [] m =
     (Inl (if over then EXECUTOR_OVER_CAPACITY else if oauth then EXECUTOR_OAUTH_NOT_VERIFIED else NO_EXECUTOR_AVAILABLE), m)"
| "sessionPools f over oauth (p # ps) m =
     (case f p m of
        (Inr x, m') \<Rightarrow> (Inr x, m')
      | (Inl e, m') \<Rightarrow>
          if e = ORG_QUOTA_EXCEEDED then (Inl e, m')
          else sessionPools f (over \<or> e = EXECUTOR_OVER_CAPACITY) (oauth \<or> e = EXECUTOR_OAUTH_NOT_VERIFIED) ps m')"

definition selectSessionExecutor :: "executor_route list \<Rightarrow> string \<Rightarrow> exec_selector_v1 option \<Rightarrow> oauth_engine option
    \<Rightarrow> int \<Rightarrow> int \<Rightarrow> timestamp \<Rightarrow> redis \<Rightarrow> (select_error + selected_executor) \<times> redis" where
  "selectSessionExecutor announced org sel oauth orgMax ttl now =
     sessionPools (\<lambda>p. selectExecutorForTool announced org KindAgentRun (Some (with_pool sel p)) oauth orgMax ttl now)
       False False (resolveSessionPoolOrder sel)"


section \<open>What a selection promises\<close>

definition eligible :: "string \<Rightarrow> exec_kind \<Rightarrow> exec_selector_v1 option \<Rightarrow> oauth_engine option \<Rightarrow> executor_route \<Rightarrow> bool" where
  "eligible org kind sel oauth r \<longleftrightarrow> rt_pool r = selectorPool sel
     \<and> (selectorPool sel = PoolByon \<longrightarrow> rt_organizationId r = Some org)
     \<and> has_kind kind r \<and> matchesSelector sel r \<and> (\<forall>e. oauth = Some e \<longrightarrow> isExecutorOauthVerified r e)"

definition admits :: "string \<Rightarrow> int \<Rightarrow> timestamp \<Rightarrow> redis \<Rightarrow> executor_route \<Rightarrow> bool" where
  \<comment> \<open>both counters leave room for one more job\<close>
  "admits org orgMax now m r \<longleftrightarrow>
     qq (redis_get m now (executorInFlightKey (rt_executorId r))) 0 + 1 \<le> route_limit r
     \<and> qq (redis_get m now (orgInFlightKey org)) 0 + 1 \<le> orgMax"

lemma reserve_iff_admits:
  "(fst (reserveCapacity (rt_executorId r) org (route_limit r) orgMax ttl now m) = None) = admits org orgMax now m r"
  by (simp add: reserveCapacity_def reserveLua_def admits_def Let_def)

lemma tryReserve_ok:
  assumes "tryReserve org orgMax ttl now a b rs m = (Inr x, m')"
  shows "\<exists>pre r post. rs = pre @ r # post \<and> x = as_selected r \<and> admits org orgMax now m r
    \<and> (\<forall>p \<in> set pre. \<not> admits org orgMax now m p)"
  using assms
proof (induction rs arbitrary: a b)
  case Nil
  then show ?case by simp
next
  case (Cons r rs)
  obtain o1 m1 where r: "reserveCapacity (rt_executorId r) org (route_limit r) orgMax ttl now m = (o1, m1)" by fastforce
  show ?case
  proof (cases o1)
    case None
    then have "admits org orgMax now m r" "x = as_selected r" using reserve_iff_admits [of r org orgMax ttl now m] r Cons.prems by auto
    then show ?thesis by fastforce
  next
    case (Some e)
    have n: "\<not> admits org orgMax now m r" using Some reserve_iff_admits [of r org orgMax ttl now m] r by simp
    have "m1 = m" using r Some reserve_refused by blast
    with Cons.prems Cons.IH r Some obtain pre q post where "rs = pre @ q # post" "x = as_selected q"
      "admits org orgMax now m q" "\<forall>p \<in> set pre. \<not> admits org orgMax now m p" by (auto simp: r) blast
    with n show ?thesis by (intro exI [of _ "r # pre"] exI [of _ q] exI [of _ post]) simp
  qed
qed

lemma tryReserve_err:
  assumes "tryReserve org orgMax ttl now a b rs m = (Inl err, m')"
  shows "m' = m \<and> (\<forall>r \<in> set rs. \<not> admits org orgMax now m r)"
  using assms
proof (induction rs arbitrary: a b)
  case Nil
  then show ?case by simp
next
  case (Cons r rs)
  obtain o1 m1 where r: "reserveCapacity (rt_executorId r) org (route_limit r) orgMax ttl now m = (o1, m1)" by fastforce
  then have "o1 \<noteq> None" using Cons.prems by (cases o1) auto
  then obtain e where e: "o1 = Some e" by blast
  then have "m1 = m" "\<not> admits org orgMax now m r"
    using r reserve_refused reserve_iff_admits [of r org orgMax ttl now m] by (blast, simp)
  with Cons r e show ?case by auto
qed

definition load :: "timestamp \<Rightarrow> redis \<Rightarrow> executor_route \<Rightarrow> real" where
  "load now m r = real_of_int (fst (load_ratio now m r)) / real_of_int (snd (load_ratio now m r))"

lemma ratio_pos: "0 < snd (load_ratio now m r)"
  by (simp add: load_ratio_def)

lemma by_load_cases:
  "by_load now m a b \<le> 0 \<longleftrightarrow> load now m a < load now m b
     \<or> load now m a = load now m b \<and> getExecutorLastUsedMs (rt_executorId a) now m \<le> getExecutorLastUsedMs (rt_executorId b) now m"
  "by_load now m a b < 0 \<longleftrightarrow> load now m a < load now m b
     \<or> load now m a = load now m b \<and> getExecutorLastUsedMs (rt_executorId a) now m < getExecutorLastUsedMs (rt_executorId b) now m"
proof -
  obtain x xd y yd where r: "load_ratio now m a = (x, xd)" "load_ratio now m b = (y, yd)" by fastforce
  have p: "0 < real_of_int xd" "0 < real_of_int yd"
    using ratio_pos [of now m a] ratio_pos [of now m b] r by simp_all
  have lt: "load now m a < load now m b \<longleftrightarrow> x * yd < y * xd"
    using p by (simp add: load_def r divide_less_eq less_divide_eq mult.commute flip: of_int_mult)
  have eq: "load now m a = load now m b \<longleftrightarrow> x * yd = y * xd"
    using p by (simp add: load_def r frac_eq_eq flip: of_int_mult)
  show "by_load now m a b \<le> 0 \<longleftrightarrow> load now m a < load now m b
     \<or> load now m a = load now m b \<and> getExecutorLastUsedMs (rt_executorId a) now m \<le> getExecutorLastUsedMs (rt_executorId b) now m"
    "by_load now m a b < 0 \<longleftrightarrow> load now m a < load now m b
     \<or> load now m a = load now m b \<and> getExecutorLastUsedMs (rt_executorId a) now m < getExecutorLastUsedMs (rt_executorId b) now m"
    unfolding lt eq by (auto simp: by_load_def r)
qed

lemma good_by_load: "good_cmp (by_load now m)"
proof -
  have "by_load now m x y > 0 \<longleftrightarrow> \<not> by_load now m x y \<le> 0" for x y by auto
  then show ?thesis unfolding good_cmp_def by (auto simp: by_load_cases)
qed

text \<open>
  C21. Executor selection is exact and least-loaded: when no executor is named and nothing else
  changes Redis meanwhile, a selection
  succeeds exactly if some eligible executor (right pool and organization, kind, labels, group and
  OAuth state) leaves room for one more job under the limits of executor and organization; the
  chosen one is such an executor, and no other such executor has a lower load, or the same load
  and an older last use.
\<close>
theorem selection_least_loaded:
  assumes "\<not> truthy (case sel of None \<Rightarrow> None | Some x \<Rightarrow> sl_executorId x)"
  shows "case fst (selectExecutorForTool announced org kind sel oauth orgMax ttl now m) of
      Inr x \<Rightarrow> \<exists>r \<in> set announced. x = as_selected r \<and> eligible org kind sel oauth r \<and> admits org orgMax now m r
        \<and> (\<forall>q \<in> set announced. eligible org kind sel oauth q \<and> admits org orgMax now m q \<longrightarrow> by_load now m r q \<le> 0)
    | Inl e \<Rightarrow> \<forall>q \<in> set announced. \<not> (eligible org kind sel oauth q \<and> admits org orgMax now m q)"
proof -
  define routes where "routes = (if selectorPool sel = PoolByon then listExecutorRoutes announced (Some org) (Some PoolByon)
      else listExecutorRoutes announced None (Some PoolManaged))"
  define cand where "cand = (case oauth of None \<Rightarrow> baseCandidates routes org kind sel
      | Some e \<Rightarrow> filter (\<lambda>r. isExecutorOauthVerified r e) (baseCandidates routes org kind sel))"
  have cand: "set cand = {r \<in> set announced. eligible org kind sel oauth r}"
    by (cases "selectorPool sel"; cases oauth)
      (auto simp: cand_def routes_def baseCandidates_def listExecutorRoutes_def eligible_def truthy_def)
  obtain res m' where t: "tryReserve org orgMax ttl now False False (js_sort (by_load now m) cand) m = (res, m')" by fastforce
  have eq: "selectExecutorForTool announced org kind sel oauth orgMax ttl now m =
      (if oauth \<noteq> None \<and> baseCandidates routes org kind sel \<noteq> [] \<and> cand = [] then (Inl EXECUTOR_OAUTH_NOT_VERIFIED, m)
       else if cand = [] then (Inl NO_EXECUTOR_AVAILABLE, m)
       else (res, m'))"
    unfolding t [symmetric] unfolding selectExecutorForTool_def routes_def [symmetric] cand_def Let_def
    using assms by simp
  have sorted: "sorted_wrt (\<lambda>x y. by_load now m x y \<le> 0) (js_sort (by_load now m) cand)"
    by (rule sorted_js_sort [OF good_by_load])
  show ?thesis
  proof (cases "cand = []")
    case True
    then show ?thesis using cand by (auto simp: eq)
  next
    case False
    then have s: "selectExecutorForTool announced org kind sel oauth orgMax ttl now m = (res, m')" by (simp add: eq)
    show ?thesis
    proof (cases res)
      case (Inl e)
      then show ?thesis using tryReserve_err [of org orgMax ttl now False False "js_sort (by_load now m) cand" m e m'] t cand s by auto
    next
      case (Inr x)
      then obtain pre r post where p: "js_sort (by_load now m) cand = pre @ r # post" "x = as_selected r"
        "admits org orgMax now m r" "\<forall>p \<in> set pre. \<not> admits org orgMax now m p"
        using tryReserve_ok t by blast
      have self: "by_load now m r r \<le> 0" by (simp add: by_load_cases)
      have mem: "set cand = set pre \<union> insert r (set post)" using p(1) set_js_sort [of "by_load now m" cand] by auto
      have "by_load now m r q \<le> 0" if "q \<in> set cand" "admits org orgMax now m q" for q
        using that mem p(4) sorted self unfolding p(1) by (auto simp: sorted_wrt_append)
      then show ?thesis using mem p(2,3) cand by (auto simp: s Inr)
    qed
  qed
qed


definition sample_route :: "string \<Rightarrow> executor_route" where
  "sample_route i = \<lparr>rt_edgeId = ''edge'', rt_executorId = i, rt_pool = PoolByon, rt_organizationId = Some ''o'',
     rt_name = None, rt_labels = None, rt_maxInFlight = Some 2, rt_kinds = Some [KindAgentRun],
     rt_engineAuth = None, rt_lastSeenAtMs = None\<rparr>"

theorem selection_least_loaded_witness:
  "fst (selectExecutorForTool [sample_route ''a'', sample_route ''b''] ''o'' KindAgentRun None None 5 1000 20
      (snd (reserveCapacity ''a'' ''o'' 2 5 1000 10 []))) = Inr (as_selected (sample_route ''b''))
   \<and> eligible ''o'' KindAgentRun None None (sample_route ''b'')"
proof -
  let ?m = "snd (reserveCapacity ''a'' ''o'' 2 5 1000 10 [])"
  have s: "fst (selectExecutorForTool [sample_route ''a'', sample_route ''b''] ''o'' KindAgentRun None None 5 1000 20 ?m)
      = Inr (as_selected (sample_route ''b''))" by code_simp
  have ne: "as_selected (sample_route ''b'') \<noteq> as_selected (sample_route ''a'')"
    by (simp add: as_selected_def sample_route_def)
  from selection_least_loaded [where sel = None and announced = "[sample_route ''a'', sample_route ''b'']" and org = "''o''"
      and kind = KindAgentRun and oauth = None and orgMax = 5 and ttl = 1000 and now = 20 and m = ?m]
  show ?thesis unfolding s using ne by auto
qed

end
