(* ===== verification/WorkerPolicy.thy ===== *)
theory WorkerPolicy
  imports WorkflowDsl
begin

text \<open>
  The policy an organization puts on the nodes of its workflows, as the worker evaluates it before
  it executes a node (\<open>buildNodePolicyContext\<close>, \<open>ruleMatchesContext\<close>, \<open>evaluateNodePolicy\<close> of
  \<open>apps/worker/src/main.ts\<close>), with the order in which \<open>listOrganizationPolicyRules\<close> of
  \<open>packages/db/src/repositories.ts\<close> returns the enabled rules.
\<close>

section \<open>Contexts and rules\<close>

datatype policy_effect = Allow | Deny | RequireApproval

record policy_decision =
  pd_decision :: policy_effect
  pd_reason :: string
  pd_ruleId :: "string option"

datatype network_mode = NetworkEnabled | NetworkNone

record policy_context =
  pc_nodeType :: string
  pc_taskType :: "string option"
  pc_networkMode :: "network_mode option"
  pc_actionId :: "string option"

record policy_rule =
  po_id :: string
  po_organizationId :: string
  po_name :: string
  po_enabled :: bool
  po_priority :: int
  po_effect :: policy_effect
  po_scope :: json
  po_createdAt :: timestamp

fun network_text :: "network_mode \<Rightarrow> string" where
  "network_text NetworkEnabled = ''enabled''"
| "network_text NetworkNone = ''none''"

definition listOrganizationPolicyRules :: "(string \<Rightarrow> string \<Rightarrow> int) \<Rightarrow> string \<Rightarrow> bool \<Rightarrow> policy_rule list \<Rightarrow> policy_rule list" where
  "listOrganizationPolicyRules idcmp org enabledOnly rows =
     js_sort (\<lambda>a b. cmp_then (cmp_int (po_priority a) (po_priority b))
                (cmp_then (cmp_int (po_createdAt a) (po_createdAt b)) (idcmp (po_id a) (po_id b))))
       (filter (\<lambda>r. po_organizationId r = org \<and> (enabledOnly \<longrightarrow> po_enabled r)) rows)"

definition readStringArray :: "json option \<Rightarrow> string list" where
  "readStringArray v = (case v of Some (JArr xs) \<Rightarrow> filter (\<lambda>s. s \<noteq> '''') (strings_of xs) | _ \<Rightarrow> [])"

definition write_verbs :: "string list" where
  "write_verbs = [''create'', ''update'', ''delete'', ''remove'', ''write'', ''send'', ''post'', ''put'', ''patch'',
     ''sync'', ''upsert'', ''publish'', ''invite'', ''grant'', ''revoke'']"

fun action_words :: "string \<Rightarrow> string list" where
  \<comment> \<open>the words between the separators \<open>.\<close>, \<open>_\<close> and \<open>-\<close> of the regular expression\<close>
  "action_words [] = [[]]"
| "action_words (c # cs) =
     (if c \<in> set ''._-'' then [] # action_words cs
      else case action_words cs of [] \<Rightarrow> [[c]] | w # ws \<Rightarrow> (c # w) # ws)"

definition isLikelyWriteConnectorAction :: "string option \<Rightarrow> bool" where
  "isLikelyWriteConnectorAction actionId =
     (truthy actionId \<and> list_ex (\<lambda>w. toLowerCase w \<in> set write_verbs) (action_words (qq actionId '''')))"

definition buildNodePolicyContext :: "wf_node \<Rightarrow> policy_context" where
  "buildNodePolicyContext n = (case nd_body n of
     AgentExecute c \<Rightarrow>
       \<lparr>pc_nodeType = ''agent.execute'',
        pc_taskType = map_option (\<lambda>_. ''shell'') (Option.bind c ae_task),
        pc_networkMode = Some (if Option.bind (Option.bind c ae_sandbox) sb_network = Some ''enabled''
                               then NetworkEnabled else NetworkNone),
        pc_actionId = None\<rparr>
   | ConnectorAction c \<Rightarrow>
       \<lparr>pc_nodeType = ''connector.action'', pc_taskType = None, pc_networkMode = None, pc_actionId = Some (ca_actionId c)\<rparr>
   | b \<Rightarrow> \<lparr>pc_nodeType = node_type b, pc_taskType = None, pc_networkMode = None, pc_actionId = None\<rparr>)"

definition scope_ok :: "(string, json) jmap \<Rightarrow> string \<Rightarrow> string option \<Rightarrow> bool" where
  \<comment> \<open>\<open>typeof scope[key] === "string"\<close>, non-empty and different from the context excludes\<close>
  "scope_ok scope key val = (let x = asString (jget scope key) in truthy x \<longrightarrow> x = val)"

definition ruleMatchesContext :: "policy_rule \<Rightarrow> policy_context \<Rightarrow> bool" where
  "ruleMatchesContext rule ctx =
     (if \<not> po_enabled rule then False
      else case asObject (Some (po_scope rule)) of
        None \<Rightarrow> True
      | Some scope \<Rightarrow>
          let nodeTypes = readStringArray (jget scope ''nodeTypes'');
              prefixes = readStringArray (jget scope ''actionIdPrefixes'') in
          if \<not> scope_ok scope ''nodeType'' (Some (pc_nodeType ctx)) then False
          else if nodeTypes \<noteq> [] \<and> pc_nodeType ctx \<notin> set nodeTypes then False
          else if \<not> scope_ok scope ''taskType'' (pc_taskType ctx) then False
          else if \<not> scope_ok scope ''networkMode'' (map_option network_text (pc_networkMode ctx)) then False
          else if prefixes \<noteq> [] then
            truthy (pc_actionId ctx) \<and> list_ex (\<lambda>p. startsWith (qq (pc_actionId ctx) '''') p) prefixes
          else True)"

definition default_decision :: "policy_context \<Rightarrow> policy_decision" where
  "default_decision ctx =
     (if pc_nodeType ctx = ''agent.execute'' \<and> pc_networkMode ctx = Some NetworkEnabled
      then \<lparr>pd_decision = Deny, pd_reason = ''network_enabled_execute_denied_by_default'', pd_ruleId = None\<rparr>
      else if pc_nodeType ctx = ''agent.execute'' \<and> pc_taskType ctx = Some ''shell''
      then \<lparr>pd_decision = RequireApproval, pd_reason = ''shell_run_requires_approval'', pd_ruleId = None\<rparr>
      else if pc_nodeType ctx = ''connector.action'' \<and> isLikelyWriteConnectorAction (pc_actionId ctx)
      then \<lparr>pd_decision = RequireApproval, pd_reason = ''connector_write_action_requires_approval'', pd_ruleId = None\<rparr>
      else \<lparr>pd_decision = Allow, pd_reason = ''default_allow'', pd_ruleId = None\<rparr>)"

fun evaluateNodePolicy :: "policy_context \<Rightarrow> policy_rule list \<Rightarrow> policy_decision" where
  "evaluateNodePolicy ctx [] = default_decision ctx"
| "evaluateNodePolicy ctx (r # rs) =
     (if \<not> ruleMatchesContext r ctx then evaluateNodePolicy ctx rs
      else \<lparr>pd_decision = po_effect r, pd_reason = ''organization_policy_rule:'' @ po_name r, pd_ruleId = Some (po_id r)\<rparr>)"

section \<open>Properties\<close>

lemma evaluate_find:
  "evaluateNodePolicy ctx rs = (case find (\<lambda>r. ruleMatchesContext r ctx) rs of
     None \<Rightarrow> default_decision ctx
   | Some r \<Rightarrow> \<lparr>pd_decision = po_effect r, pd_reason = ''organization_policy_rule:'' @ po_name r, pd_ruleId = Some (po_id r)\<rparr>)"
  by (induction rs) auto

definition default_effect :: "node_body \<Rightarrow> policy_effect" where
  \<comment> \<open>what the organization's silence means for a node\<close>
  "default_effect b = (case b of
     AgentExecute c \<Rightarrow>
       if Option.bind (Option.bind c ae_sandbox) sb_network = Some ''enabled'' then Deny
       else if Option.bind c ae_task \<noteq> None then RequireApproval else Allow
   | ConnectorAction c \<Rightarrow>
       if \<exists>v \<in> set (action_words (ca_actionId c)). toLowerCase v \<in> set write_verbs then RequireApproval else Allow
   | _ \<Rightarrow> Allow)"

lemma no_action_words: "toLowerCase [] \<notin> set write_verbs"
  by code_simp

lemma default_decision_effect: "pd_decision (default_decision (buildNodePolicyContext n)) = default_effect (nd_body n)"
  using no_action_words
  by (auto simp: default_decision_def buildNodePolicyContext_def default_effect_def isLikelyWriteConnectorAction_def
      list_ex_iff truthy_def qq_def split: node_body.splits)

definition governs :: "string \<Rightarrow> wf_node \<Rightarrow> policy_rule \<Rightarrow> bool" where
  \<comment> \<open>an enabled rule of the organization whose scope covers the node\<close>
  "governs org n r \<longleftrightarrow> po_organizationId r = org \<and> po_enabled r \<and> ruleMatchesContext r (buildNodePolicyContext n)"

text \<open>
  C29. The decision on a node, for every node and every table of rules: if enabled rules of the organization
  cover the node, the effect of one of them is taken, and none of them has a smaller priority, or the
  same priority and an earlier creation; if none covers it, an \<open>agent.execute\<close> node with network is
  denied, one with a task and a \<open>connector.action\<close> with a write verb need an approval, and every other
  node, so also \<open>connector.github.issue.create\<close> and \<open>agent.run\<close>, is allowed.
\<close>
theorem node_policy_exact:
  assumes "good_cmp idcmp"
  shows "let d = evaluateNodePolicy (buildNodePolicyContext n) (listOrganizationPolicyRules idcmp org True rows) in
    if \<exists>r \<in> set rows. governs org n r
    then \<exists>r \<in> set rows. governs org n r \<and> pd_decision d = po_effect r \<and> pd_ruleId d = Some (po_id r)
      \<and> (\<forall>q \<in> set rows. governs org n q \<longrightarrow> po_priority r < po_priority q
          \<or> po_priority r = po_priority q \<and> po_createdAt r \<le> po_createdAt q)
    else pd_decision d = default_effect (nd_body n) \<and> pd_ruleId d = None"
proof -
  let ?ctx = "buildNodePolicyContext n"
  let ?cmp = "\<lambda>a b. cmp_then (cmp_int (po_priority a) (po_priority b))
                (cmp_then (cmp_int (po_createdAt a) (po_createdAt b)) (idcmp (po_id a) (po_id b)))"
  let ?rs = "listOrganizationPolicyRules idcmp org True rows"
  have good: "good_cmp ?cmp"
    using good_cmp_chain [OF good_cmp_by_int [of po_priority]
        good_cmp_chain [OF good_cmp_by_int [of po_createdAt] good_cmp_by_id [OF assms, of po_id]]] .
  have sorted: "sorted_wrt (\<lambda>x y. ?cmp x y \<le> 0) ?rs"
    unfolding listOrganizationPolicyRules_def by (rule sorted_js_sort [OF good])
  have mem: "q \<in> set ?rs \<and> ruleMatchesContext q ?ctx \<longleftrightarrow> q \<in> set rows \<and> governs org n q" for q
    by (auto simp: listOrganizationPolicyRules_def governs_def)
  show ?thesis
  proof (cases "find (\<lambda>r. ruleMatchesContext r ?ctx) ?rs")
    case None
    then have "\<not> (\<exists>r \<in> set rows. governs org n r)" using mem by (auto simp: find_None_iff)
    moreover have "pd_ruleId (default_decision c) = None" for c by (simp add: default_decision_def)
    ultimately show ?thesis using None by (simp add: evaluate_find default_decision_effect Let_def)
  next
    case (Some r)
    then obtain i where i: "i < length ?rs" "?rs ! i = r" "ruleMatchesContext r ?ctx"
      "\<forall>j < i. \<not> ruleMatchesContext (?rs ! j) ?ctx" by (auto simp: find_Some_iff)
    have r: "r \<in> set rows" "governs org n r" using mem i(1-3) nth_mem by blast+
    have best: "po_priority r < po_priority q \<or> po_priority r = po_priority q \<and> po_createdAt r \<le> po_createdAt q"
      if "q \<in> set rows" "governs org n q" for q
    proof -
      from that mem obtain j where j: "j < length ?rs" "?rs ! j = q" "ruleMatchesContext q ?ctx"
        by (metis in_set_conv_nth)
      then have "\<not> j < i" using i(4) by blast
      then have "j = i \<or> i < j" by auto
      then have "q = r \<or> ?cmp r q \<le> 0" using sorted i(2) j(1,2) unfolding sorted_wrt_iff_nth_less by blast
      then show ?thesis by (auto simp: cmp_then_def cmp_int_def split: if_splits)
    qed
    from Some r best show ?thesis by (auto simp: evaluate_find Let_def)
  qed
qed

definition sample_shell :: wf_node where
  "sample_shell = \<lparr>nd_id = ''build'', nd_body = AgentExecute (Some
     \<lparr>ae_execution = None, ae_task = Some \<lparr>st_script = ''make'', st_shell = None, st_env = None\<rparr>, ae_sandbox = None\<rparr>)\<rparr>"

definition sample_rule :: "string \<Rightarrow> int \<Rightarrow> policy_effect \<Rightarrow> json \<Rightarrow> policy_rule" where
  "sample_rule i p e sc = \<lparr>po_id = i, po_organizationId = ''o'', po_name = i, po_enabled = True, po_priority = p,
     po_effect = e, po_scope = sc, po_createdAt = 0\<rparr>"

definition sample_rules :: "policy_rule list" where
  "sample_rules = [sample_rule ''late'' 20 Deny JNull,
     sample_rule ''shell'' 10 Allow (JObj [(''taskType'', JStr ''shell'')]),
     sample_rule ''http'' 5 Deny (JObj [(''nodeType'', JStr ''http.request'')])]"

lemma issue_creation_allowed:
  "nd_body n = GithubIssueCreate c \<Longrightarrow> pd_decision (evaluateNodePolicy (buildNodePolicyContext n) []) = Allow"
  by (simp add: default_decision_effect default_effect_def)

theorem node_policy_exact_witness:
  "\<exists>r \<in> set sample_rules. governs ''o'' sample_shell r \<and> po_effect r = Allow \<and> pd_ruleId (evaluateNodePolicy
     (buildNodePolicyContext sample_shell) (listOrganizationPolicyRules str_cmp ''o'' True sample_rules)) = Some (po_id r)"
proof -
  let ?d = "evaluateNodePolicy (buildNodePolicyContext sample_shell) (listOrganizationPolicyRules str_cmp ''o'' True sample_rules)"
  have "pd_decision ?d = Allow \<and> pd_ruleId ?d = Some ''shell''" by code_simp
  with node_policy_exact [OF good_cmp_str_cmp, of sample_shell "''o''" sample_rules] show ?thesis
    by (auto simp: Let_def split: if_splits)
qed

end
