(* ===== verification/JsonText.thy ===== *)
theory JsonText
  imports Json
begin

text \<open>
  \<open>JSON.stringify\<close> on the values of theory \<open>Json\<close>, decimal numerals, and the reading of a property
  by its name, as the sources use them to bound event payloads and to follow paths into run input.
\<close>

section \<open>Decimal numerals\<close>

definition digit_char :: "nat \<Rightarrow> char" where
  "digit_char d = char_of (48 + d)"

definition is_digit :: "char \<Rightarrow> bool" where
  "is_digit c \<longleftrightarrow> (let n = (of_char c :: nat) in 48 \<le> n \<and> n \<le> 57)"

definition digit_val :: "char \<Rightarrow> nat" where
  "digit_val c = of_char c - 48"

fun nat_text :: "nat \<Rightarrow> string" where
  "nat_text n = (if n < 10 then [digit_char n] else nat_text (n div 10) @ [digit_char (n mod 10)])"

declare nat_text.simps [simp del]

definition int_text :: "int \<Rightarrow> string" where
  \<comment> \<open>\<open>String(n)\<close> of an integer\<close>
  "int_text n = (if n < 0 then CHR ''-'' # nat_text (nat (- n)) else nat_text (nat n))"

definition nat_of_digits :: "string \<Rightarrow> nat" where
  "nat_of_digits s = foldl (\<lambda>n c. 10 * n + digit_val c) 0 s"

definition array_index :: "string \<Rightarrow> nat option" where
  \<comment> \<open>a canonical array index: digits without a leading zero\<close>
  "array_index s = (if s \<noteq> '''' \<and> list_all is_digit s \<and> (hd s \<noteq> CHR ''0'' \<or> length s = 1)
     then Some (nat_of_digits s) else None)"

lemma digit_char_simps:
  assumes "d < 10"
  shows "is_digit (digit_char d)" "digit_val (digit_char d) = d"
  using assms by (simp_all add: is_digit_def digit_val_def digit_char_def Let_def of_char_of)

lemma nat_text_digits: "list_all is_digit (nat_text n) \<and> nat_text n \<noteq> ''''"
proof (induction n rule: nat_text.induct)
  case (1 n)
  then show ?case by (cases "n < 10") (simp_all add: nat_text.simps [of n] digit_char_simps)
qed

lemma nat_of_digits_text [simp]: "nat_of_digits (nat_text n) = n"
proof (induction n rule: nat_text.induct)
  case (1 n)
  show ?case
  proof (cases "n < 10")
    case True
    then show ?thesis by (simp add: nat_text.simps [of n] nat_of_digits_def digit_char_simps)
  next
    case False
    then show ?thesis using 1 by (simp add: nat_text.simps [of n] nat_of_digits_def digit_char_simps)
  qed
qed

section \<open>Stringify\<close>

definition hex_char :: "nat \<Rightarrow> char" where
  "hex_char d = (if d < 10 then char_of (48 + d) else char_of (87 + d))"

definition escape_char :: "char \<Rightarrow> string" where
  "escape_char c = (let n = (of_char c :: nat) in
     if n = 34 then [char_of (92 :: nat), char_of (34 :: nat)]
     else if n = 92 then [char_of (92 :: nat), char_of (92 :: nat)]
     else if n = 8 then [char_of (92 :: nat), CHR ''b'']
     else if n = 9 then [char_of (92 :: nat), CHR ''t'']
     else if n = 10 then [char_of (92 :: nat), CHR ''n'']
     else if n = 12 then [char_of (92 :: nat), CHR ''f'']
     else if n = 13 then [char_of (92 :: nat), CHR ''r'']
     else if n < 32 then [char_of (92 :: nat), CHR ''u'', CHR ''0'', CHR ''0'', hex_char (n div 16), hex_char (n mod 16)]
     else [c])"

definition quote_text :: "string \<Rightarrow> string" where
  "quote_text s = [char_of (34 :: nat)] @ concat (map escape_char s) @ [char_of (34 :: nat)]"

fun stringify :: "json \<Rightarrow> string" where
  "stringify JNull = ''null''"
| "stringify (JBool b) = (if b then ''true'' else ''false'')"
| "stringify (JNum n) = int_text n"
| "stringify (JStr s) = quote_text s"
| "stringify (JArr xs) = ''['' @ joinWith '','' (map stringify xs) @ '']''"
| "stringify (JObj fs) = ''{'' @ joinWith '','' (map (\<lambda>(k, v). quote_text k @ '':'' @ stringify v) fs) @ ''}''"

section \<open>Reading properties\<close>

definition get_property :: "json \<Rightarrow> string \<Rightarrow> json option" where
  \<comment> \<open>\<open>v[part]\<close> for an object or array; properties inherited from the prototypes are not modelled\<close>
  "get_property v part = (case v of
     JObj fs \<Rightarrow> jget fs part
   | JArr xs \<Rightarrow> (if part = ''length'' then Some (JNum (int (length xs)))
       else case array_index part of None \<Rightarrow> None | Some i \<Rightarrow> if i < length xs then Some (xs ! i) else None)
   | _ \<Rightarrow> None)"

definition truthyJ :: "json option \<Rightarrow> bool" where
  \<comment> \<open>\<open>Boolean(v)\<close>\<close>
  "truthyJ v \<longleftrightarrow> v \<noteq> None \<and> v \<noteq> Some JNull \<and> v \<noteq> Some (JBool False) \<and> v \<noteq> Some (JNum 0) \<and> v \<noteq> Some (JStr '''')"

end
