(* ===== verification/WorkerGraph.thy ===== *)
theory WorkerGraph
  imports WorkflowGraph JsonText
begin

text \<open>
  The graph part of the worker (\<open>processWorkflowRunJob\<close> of \<open>apps/worker/src/main.ts\<close>, version 3
  definitions): which edges are satisfied, which nodes are ready, how a condition is evaluated on
  the run input, and the snapshot of the graph the worker stores with a run.  A step is the record
  \<open>WorkflowExecutionStep\<close> of \<open>packages/workflow\<close>; \<open>stepByNodeId\<close> is the JavaScript map from node ids to
  steps.  \<open>lc\<close> is \<open>localeCompare\<close>; \<open>num v\<close> is \<open>Number(v)\<close> of a string or an array, \<open>None\<close> when not finite.
\<close>

section \<open>Edges and readiness\<close>

type_synonym in_edges = "(string, (string \<times> edge_kind) list) jmap"
type_synonym step_map = "(string, wf_step) jmap"

definition incomingByNodeId :: "wf_edge list \<Rightarrow> in_edges" where
  "incomingByNodeId edges =
     fold (\<lambda>e m. jset (eg_to e) (qq (jget m (eg_to e)) [] @ [(eg_from e, edge_kind_of e)]) m) edges []"

definition in_edges_of :: "in_edges \<Rightarrow> string \<Rightarrow> (string \<times> edge_kind) list" where
  "in_edges_of m k = qq (jget m k) []"

definition stepByNodeId :: "wf_step list \<Rightarrow> step_map" where
  "stepByNodeId steps = fold (\<lambda>s m. jset (sp_nodeId s) s m) steps []"

definition hasSucceeded :: "step_map \<Rightarrow> string \<Rightarrow> bool" where
  "hasSucceeded sb k \<longleftrightarrow> map_option sp_status (jget sb k) = Some StepSucceeded"

definition getConditionResult :: "step_map \<Rightarrow> string \<Rightarrow> bool option" where
  "getConditionResult sb k =
     (case jget sb k of
        None \<Rightarrow> None
      | Some s \<Rightarrow> if sp_status s \<noteq> StepSucceeded then None
          else (case asObject (sp_output s) of None \<Rightarrow> None | Some fs \<Rightarrow> asBool (jget fs ''result'')))"

datatype edge_reason = EdgeOk | UPSTREAM_NOT_SUCCEEDED | CONDITION_RESULT_MISSING | CONDITION_NOT_MET

fun edgeStatus :: "step_map \<Rightarrow> string \<times> edge_kind \<Rightarrow> edge_reason" where
  \<comment> \<open>the edge is satisfied exactly when the reason is \<open>OK\<close>\<close>
  "edgeStatus sb (from', kind) =
     (if \<not> hasSucceeded sb from' then UPSTREAM_NOT_SUCCEEDED
      else if kind = Always then EdgeOk
      else case getConditionResult sb from' of
        None \<Rightarrow> CONDITION_RESULT_MISSING
      | Some c \<Rightarrow> if c \<noteq> (kind = CondTrue) then CONDITION_NOT_MET else EdgeOk)"

definition nodeReady :: "in_edges \<Rightarrow> step_map \<Rightarrow> string \<Rightarrow> bool" where
  "nodeReady inc sb k \<longleftrightarrow> \<not> jhas sb k \<and> list_all (\<lambda>e. edgeStatus sb e = EdgeOk) (in_edges_of inc k)"

definition readyNodes :: "(string \<Rightarrow> string \<Rightarrow> int) \<Rightarrow> wf_dsl_v3 \<Rightarrow> step_map \<Rightarrow> string list" where
  "readyNodes lc d sb = js_sort lc (filter (nodeReady (incomingByNodeId (d3_edges d)) sb) (jkeys (d3_nodes d)))"

section \<open>Conditions\<close>

definition path_parts :: "string \<Rightarrow> string list" where
  "path_parts rawPath =
     filter (\<lambda>p. p \<noteq> '''') (splitOn (CHR ''.'') (if startsWith rawPath ''$.'' then drop 2 rawPath else rawPath))"

fun follow_path :: "json option \<Rightarrow> string list \<Rightarrow> json option" where
  "follow_path v [] = v"
| "follow_path v (p # ps) =
     (case v of
        Some (JObj fs) \<Rightarrow> follow_path (get_property (JObj fs) p) ps
      | Some (JArr xs) \<Rightarrow> follow_path (get_property (JArr xs) p) ps
      | _ \<Rightarrow> None)"

definition getInputValueByPath :: "json \<Rightarrow> string \<Rightarrow> json option" where
  "getInputValueByPath input rawPath = follow_path (Some input) (path_parts rawPath)"

definition strict_eq :: "json option \<Rightarrow> json option \<Rightarrow> bool" where
  \<comment> \<open>\<open>===\<close>: two objects read from different documents are never identical\<close>
  "strict_eq a b = (case a of Some (JObj _) \<Rightarrow> False | Some (JArr _) \<Rightarrow> False | _ \<Rightarrow> a = b)"

definition to_number :: "(json \<Rightarrow> int option) \<Rightarrow> json option \<Rightarrow> int option" where
  \<comment> \<open>\<open>Number(v)\<close>, \<open>None\<close> unless finite\<close>
  "to_number num v = (case v of
     None \<Rightarrow> None
   | Some JNull \<Rightarrow> Some 0
   | Some (JBool b) \<Rightarrow> Some (if b then 1 else 0)
   | Some (JNum n) \<Rightarrow> Some n
   | Some (JObj _) \<Rightarrow> None
   | Some x \<Rightarrow> num x)"

definition compare_numbers :: "(json \<Rightarrow> int option) \<Rightarrow> (int \<Rightarrow> int \<Rightarrow> bool) \<Rightarrow> json option \<Rightarrow> json option \<Rightarrow> bool" where
  "compare_numbers num f a b =
     (case (to_number num a, to_number num b) of (Some x, Some y) \<Rightarrow> f x y | _ \<Rightarrow> False)"

fun evalCondition :: "(json \<Rightarrow> int option) \<Rightarrow> cond_op \<Rightarrow> json option \<Rightarrow> json option \<Rightarrow> bool" where
  "evalCondition num OpExists actual val = (actual \<noteq> None \<and> actual \<noteq> Some JNull)"
| "evalCondition num OpEq actual val = strict_eq actual val"
| "evalCondition num OpNeq actual val = (\<not> strict_eq actual val)"
| "evalCondition num OpContains actual val =
     (case (actual, val) of
        (Some (JStr s), Some (JStr t)) \<Rightarrow> includesStr s t
      | (Some (JArr xs), _) \<Rightarrow> list_ex (\<lambda>x. strict_eq (Some x) val) xs
      | _ \<Rightarrow> False)"
| "evalCondition num OpGt actual val = compare_numbers num (>) actual val"
| "evalCondition num OpGte actual val = compare_numbers num (\<ge>) actual val"
| "evalCondition num OpLt actual val = compare_numbers num (<) actual val"
| "evalCondition num OpLte actual val = compare_numbers num (\<le>) actual val"

fun op_text :: "cond_op \<Rightarrow> string" where
  "op_text OpEq = ''eq''" | "op_text OpNeq = ''neq''" | "op_text OpContains = ''contains''"
| "op_text OpExists = ''exists''" | "op_text OpGt = ''gt''" | "op_text OpGte = ''gte''"
| "op_text OpLt = ''lt''" | "op_text OpLte = ''lte''"

fun type_text :: "json option \<Rightarrow> string" where
  "type_text None = ''undefined''" | "type_text (Some JNull) = ''null''" | "type_text (Some (JArr _)) = ''array''"
| "type_text (Some (JBool _)) = ''boolean''" | "type_text (Some (JNum _)) = ''number''"
| "type_text (Some (JStr _)) = ''string''" | "type_text (Some (JObj _)) = ''object''"

definition conditionOutput :: "(json \<Rightarrow> int option) \<Rightarrow> condition_config \<Rightarrow> json \<Rightarrow> json" where
  "conditionOutput num cfg input =
     (let actual = getInputValueByPath input (cc_path cfg);
          result = evalCondition num (cc_op cfg) actual (cc_value cfg);
          explain = JObj [(''path'', JStr (cc_path cfg)), (''op'', JStr (op_text (cc_op cfg))),
            (''expected'', qq (cc_value cfg) JNull), (''actualPresent'', JBool (actual \<noteq> None)),
            (''actualType'', JStr (type_text actual))]
      in JObj [(''result'', JBool result), (''explain'', explain)])"

definition joinOutput :: "step_map \<Rightarrow> (string \<times> edge_kind) list \<Rightarrow> json" where
  "joinOutput sb incoming =
     JObj [(''joined'', JBool True), (''requiredIncoming'', JNum (int (length incoming))),
       (''satisfiedIncoming'', JNum (int (length (filter (\<lambda>e. edgeStatus sb e = EdgeOk) incoming)))),
       (''incomingFrom'', JArr (map (\<lambda>e. JStr (fst e)) incoming))]"

section \<open>The snapshot stored with the run\<close>

fun kind_text :: "edge_kind \<Rightarrow> string" where
  "kind_text Always = ''always''" | "kind_text CondTrue = ''cond_true''" | "kind_text CondFalse = ''cond_false''"

fun reason_text :: "edge_reason \<Rightarrow> string" where
  "reason_text EdgeOk = ''OK''"
| "reason_text UPSTREAM_NOT_SUCCEEDED = ''UPSTREAM_NOT_SUCCEEDED''"
| "reason_text CONDITION_RESULT_MISSING = ''CONDITION_RESULT_MISSING''"
| "reason_text CONDITION_NOT_MET = ''CONDITION_NOT_MET''"

definition js_object :: "(string \<times> json) list \<Rightarrow> json" where
  \<comment> \<open>an object whose properties were set in this order: \<open>Object.keys\<close> lists array indices first, ascending\<close>
  "js_object fs = JObj (js_sort (\<lambda>a b. int (qq (array_index (fst a)) 0) - int (qq (array_index (fst b)) 0))
       (filter (\<lambda>f. array_index (fst f) \<noteq> None) fs) @ filter (\<lambda>f. array_index (fst f) = None) fs)"

definition condition_entry :: "wf_dsl_v3 \<Rightarrow> string \<times> wf_step \<Rightarrow> string \<times> json" where
  "condition_entry d = (\<lambda>(k, s).
     let cfg = (case jget (d3_nodes d) k of
           Some n \<Rightarrow> (case nd_body n of Condition c \<Rightarrow> c | _ \<Rightarrow> None) | None \<Rightarrow> None) in
     (k, JObj [(''result'', (case asObject (sp_output s) of None \<Rightarrow> JNull
                  | Some fs \<Rightarrow> (case asBool (jget fs ''result'') of None \<Rightarrow> JNull | Some b \<Rightarrow> JBool b))),
               (''path'', (case cfg of None \<Rightarrow> JNull | Some c \<Rightarrow> JStr (cc_path c))),
               (''op'', (case cfg of None \<Rightarrow> JNull | Some c \<Rightarrow> JStr (op_text (cc_op c)))),
               (''expected'', (case cfg of None \<Rightarrow> JNull | Some c \<Rightarrow> qq (cc_value c) JNull))]))"

definition join_entry :: "in_edges \<Rightarrow> step_map \<Rightarrow> string \<Rightarrow> string \<times> json" where
  "join_entry inc sb k =
     (let incoming = in_edges_of inc k in
      (k, JObj [(''requiredIncoming'', JNum (int (length incoming))),
        (''satisfiedIncoming'', JNum (int (length (filter (\<lambda>e. edgeStatus sb e = EdgeOk) incoming)))),
        (''incoming'', JArr (map (\<lambda>e. JObj [(''from'', JStr (fst e)), (''kind'', JStr (kind_text (snd e))),
           (''satisfied'', JBool (edgeStatus sb e = EdgeOk)), (''reasonCode'', JStr (reason_text (edgeStatus sb e)))]) incoming))]))"

definition skipped_entry :: "in_edges \<Rightarrow> step_map \<Rightarrow> string \<Rightarrow> string \<times> json" where
  "skipped_entry inc sb k =
     (let blockers = filter (\<lambda>e. edgeStatus sb e \<noteq> EdgeOk) (in_edges_of inc k) in
      (k, JObj [(''reasonCode'', JStr (if blockers \<noteq> [] then ''DEPENDENCIES_NOT_SATISFIED'' else ''NOT_REACHED'')),
        (''blockers'', JArr (map (\<lambda>e. JObj [(''from'', JStr (fst e)), (''kind'', JStr (kind_text (snd e))),
           (''reasonCode'', JStr (reason_text (edgeStatus sb e)))]) blockers))]))"

definition skippedNodes :: "(string \<Rightarrow> string \<Rightarrow> int) \<Rightarrow> wf_dsl_v3 \<Rightarrow> step_map \<Rightarrow> json" where
  "skippedNodes lc d sb =
     js_object (map (skipped_entry (incomingByNodeId (d3_edges d)) sb)
       (filter (\<lambda>k. \<not> jhas sb k) (js_sort lc (jkeys (d3_nodes d)))))"

definition snapshotGraphV3Runtime :: "(string \<Rightarrow> string \<Rightarrow> int) \<Rightarrow> wf_dsl_v3 \<Rightarrow> wf_step list \<Rightarrow> step_map \<Rightarrow> bool \<Rightarrow> json" where
  "snapshotGraphV3Runtime lc d steps sb includeSkipped =
     (let inc = incomingByNodeId (d3_edges d) in
      JObj ([(''completedNodeIds'', JArr (map (\<lambda>s. JStr (sp_nodeId s)) (filter (\<lambda>s. sp_status s = StepSucceeded) steps))),
        (''readyNodeIds'', JArr (map JStr (readyNodes lc d sb))),
        (''conditions'', js_object (map (condition_entry d)
           (filter (\<lambda>(k, s). sp_nodeType s = ''condition'' \<and> sp_status s = StepSucceeded) sb))),
        (''joins'', js_object (map (join_entry inc sb) (jkeys (filter (\<lambda>(k, n). is_join (nd_body n)) (d3_nodes d)))))]
       @ (if includeSkipped then [(''skipped'', skippedNodes lc d sb)] else [])))"

section \<open>Facts about edges and steps\<close>

lemma incoming_filter:
  "in_edges_of (incomingByNodeId es) k = map (\<lambda>e. (eg_from e, edge_kind_of e)) (filter (\<lambda>e. eg_to e = k) es)"
proof -
  have "qq (jget (fold (\<lambda>e m. jset (eg_to e) (qq (jget m (eg_to e)) [] @ [(eg_from e, edge_kind_of e)]) m) es m) k) []
      = qq (jget m k) [] @ map (\<lambda>e. (eg_from e, edge_kind_of e)) (filter (\<lambda>e. eg_to e = k) es)" for m
    by (induction es arbitrary: m) (auto simp: jget_jset)
  from this [of "[]"] show ?thesis by (simp add: in_edges_of_def incomingByNodeId_def)
qed

lemma stepByNodeId_snoc: "stepByNodeId (steps @ [s]) = jset (sp_nodeId s) s (stepByNodeId steps)"
  by (simp add: stepByNodeId_def)

lemma keys_stepByNodeId: "set (jkeys (stepByNodeId steps)) = sp_nodeId ` set steps"
  by (induction steps rule: rev_induct) (simp_all add: stepByNodeId_snoc keys_jset, simp add: stepByNodeId_def)

lemma jhas_keys: "jhas m k \<longleftrightarrow> k \<in> set (jkeys m)"
  by (auto simp: jhas_def jget_None_iff)

lemma set_readyNodes: "set (readyNodes lc d sb) = {k \<in> set (jkeys (d3_nodes d)). nodeReady (incomingByNodeId (d3_edges d)) sb k}"
  by (auto simp: readyNodes_def)

lemma nodeReady_iff:
  "nodeReady (incomingByNodeId es) sb k \<longleftrightarrow> \<not> jhas sb k
     \<and> (\<forall>e \<in> set es. eg_to e = k \<longrightarrow> edgeStatus sb (eg_from e, edge_kind_of e) = EdgeOk)"
  by (auto simp: nodeReady_def incoming_filter list_all_iff)

end
