(* ===== verification/WorkerRun.thy ===== *)
theory WorkerRun
  imports WorkerPolicy WorkerGraph StoreWorkflows
begin

text \<open>
  The worker's execution of one job of a workflow run: \<open>processWorkflowRunJob\<close> of
  \<open>apps/worker/src/main.ts\<close> over the row of the run, its events and approval requests, which the
  repository functions of \<open>packages/db/src/repositories.ts\<close> read and update.  The world is threaded
  through; every reading of the clock and every generated id takes the next one.  What a node does
  is an argument: \<open>en_execute\<close> maps a node's context to the callbacks it makes and its result.  The
  gateway, the zod parser and \<open>localeCompare\<close> are arguments as well.
\<close>

section \<open>The world\<close>

record run_output =
  ro_status :: step_status
  ro_steps :: "wf_step list"
  ro_completedNodeCount :: nat
  ro_failedNodeId :: "string option"
  ro_runtime :: "json option"

record db_run =
  dr_status :: run_status
  dr_attemptCount :: int
  dr_maxAttempts :: int
  dr_input :: json
  dr_output :: "run_output option"
  dr_error :: "string option"
  dr_nextAttemptAt :: "timestamp option"
  dr_startedAt :: "timestamp option"
  dr_finishedAt :: "timestamp option"
  dr_cursorNodeIndex :: int
  dr_blockedRequestId :: "string option"
  dr_blockedNodeId :: "string option"
  dr_blockedNodeType :: "string option"
  dr_blockedKind :: "string option"
  dr_blockedAt :: "timestamp option"
  dr_blockedTimeoutAt :: "timestamp option"

record wk_event =
  we_attemptCount :: int
  we_eventType :: string
  we_nodeId :: "string option"
  we_nodeType :: "string option"
  we_level :: event_level
  we_message :: "string option"
  we_payload :: json

record dispatch =
  di_nodeId :: string
  di_nodeType :: string
  di_attemptCount :: int
  di_kind :: string
  di_payload :: "json option"
  di_selector :: "json option"
  di_secret :: "string option"
  di_timeoutMs :: int

record poll =
  po_requestId :: string
  po_attemptCount :: int

record world =
  wo_run :: "db_run option"
  wo_events :: "wk_event list"
  wo_approvals :: "approval_req list"
  wo_dispatches :: "dispatch list"
  wo_polls :: "poll list"
  wo_clock :: nat
  wo_ids :: nat

record job =
  jb_organizationId :: string
  jb_workflowId :: string
  jb_runId :: string
  jb_requestedByUserId :: string

datatype exec_call =
    EmitEvent string event_level "string option" "json option"
  | CheckpointRuntime json

datatype exec_status = ExecSucceeded | ExecFailed | ExecBlocked

record block =
  bk_kind :: string
  bk_timeoutMs :: "int option"
  bk_dispatchNodeId :: "string option"
  bk_payload :: "json option"
  bk_selector :: "json option"
  bk_secret :: "string option"

record exec_result =
  xr_status :: exec_status
  xr_output :: "json option"
  xr_error :: "string option"
  xr_block :: "block option"
  xr_runtime :: "json option"

record exec_ctx =
  xc_node :: wf_node
  xc_attemptCount :: int
  xc_runInput :: json
  xc_steps :: "wf_step list"
  xc_runtime :: "json option"
  xc_pendingRemoteResult :: "json option"

record env =
  en_execute :: "string \<Rightarrow> (exec_ctx \<Rightarrow> exec_call list \<times> (string + exec_result)) option"
    \<comment> \<open>the registry; \<open>Inl\<close> is the message of an exception\<close>
  en_gateway :: "dispatch \<Rightarrow> string + string"  \<comment> \<open>error or request id\<close>
  en_parse :: "json \<Rightarrow> string + wf_dsl_any"
  en_num :: "json \<Rightarrow> int option"
  en_lc :: "string \<Rightarrow> string \<Rightarrow> int"
  en_clk :: clock
  en_uid :: uuids
  en_nodeTimeoutMs :: int
  en_approvalTtlSec :: int
  en_eventMaxChars :: nat
  en_pollConfigured :: bool

definition now :: "env \<Rightarrow> world \<Rightarrow> timestamp" where
  "now en w = en_clk en (wo_clock w)"

definition advance_clock :: "world \<Rightarrow> world" where
  "advance_clock w = w\<lparr>wo_clock := Suc (wo_clock w)\<rparr>"

definition on_run :: "(db_run \<Rightarrow> db_run) \<Rightarrow> world \<Rightarrow> world" where
  \<comment> \<open>an \<open>UPDATE\<close> of the row of this run\<close>
  "on_run f w = w\<lparr>wo_run := map_option f (wo_run w)\<rparr>"

section \<open>Repository functions\<close>

definition unblocked :: "db_run \<Rightarrow> db_run" where
  "unblocked r = r\<lparr>dr_blockedRequestId := None, dr_blockedNodeId := None, dr_blockedNodeType := None,
     dr_blockedKind := None, dr_blockedAt := None, dr_blockedTimeoutAt := None\<rparr>"

definition db_markWorkflowRunRunning :: "env \<Rightarrow> int \<Rightarrow> world \<Rightarrow> world" where
  "db_markWorkflowRunRunning en attempt w =
     advance_clock (on_run (\<lambda>r. (unblocked r)\<lparr>dr_status := Running, dr_startedAt := Some (now en w), dr_error := None,
       dr_nextAttemptAt := None, dr_output := None, dr_cursorNodeIndex := 0, dr_attemptCount := attempt\<rparr>) w)"

definition updateWorkflowRunProgress :: "int \<Rightarrow> run_output \<Rightarrow> world \<Rightarrow> world" where
  "updateWorkflowRunProgress cursor out w = on_run (\<lambda>r. r\<lparr>dr_cursorNodeIndex := cursor, dr_output := Some out\<rparr>) w"

definition markWorkflowRunBlocked :: "env \<Rightarrow> int \<Rightarrow> string \<Rightarrow> string \<Rightarrow> string \<Rightarrow> string \<Rightarrow> timestamp \<Rightarrow> run_output \<Rightarrow> world \<Rightarrow> world" where
  "markWorkflowRunBlocked en cursor requestId nodeId nodeType kind timeoutAt out w =
     advance_clock (on_run (\<lambda>r. r\<lparr>dr_cursorNodeIndex := cursor, dr_blockedRequestId := Some requestId,
       dr_blockedNodeId := Some nodeId, dr_blockedNodeType := Some nodeType, dr_blockedKind := Some kind,
       dr_blockedAt := Some (now en w), dr_blockedTimeoutAt := Some timeoutAt, dr_output := Some out\<rparr>) w)"

definition db_markWorkflowRunSucceeded :: "env \<Rightarrow> run_output \<Rightarrow> world \<Rightarrow> world" where
  "db_markWorkflowRunSucceeded en out w =
     advance_clock (on_run (\<lambda>r. r\<lparr>dr_status := Succeeded, dr_output := Some out, dr_error := None,
       dr_nextAttemptAt := None, dr_finishedAt := Some (now en w)\<rparr>) w)"

definition db_markWorkflowRunFailed :: "env \<Rightarrow> string \<Rightarrow> world \<Rightarrow> world" where
  "db_markWorkflowRunFailed en err w =
     advance_clock (on_run (\<lambda>r. (unblocked r)\<lparr>dr_status := Failed, dr_error := Some err, dr_nextAttemptAt := None,
       dr_finishedAt := Some (now en w)\<rparr>) w)"

definition db_markWorkflowRunQueuedForRetry :: "string \<Rightarrow> timestamp option \<Rightarrow> world \<Rightarrow> world" where
  "db_markWorkflowRunQueuedForRetry err nextAttemptAt w =
     on_run (\<lambda>r. (unblocked r)\<lparr>dr_status := Queued, dr_error := Some err, dr_nextAttemptAt := nextAttemptAt,
       dr_finishedAt := None, dr_cursorNodeIndex := 0\<rparr>) w"

definition hasApprovedWorkflowApprovalForRunNode :: "job \<Rightarrow> string \<Rightarrow> timestamp \<Rightarrow> world \<Rightarrow> bool" where
  "hasApprovedWorkflowApprovalForRunNode j nodeId t w =
     list_ex (\<lambda>a. aq_organizationId a = jb_organizationId j \<and> aq_runId a = jb_runId j \<and> aq_nodeId a = nodeId
       \<and> aq_status a = ApApproved \<and> t < aq_expiresAt a) (wo_approvals w)"

definition createWorkflowApprovalRequest :: "env \<Rightarrow> job \<Rightarrow> string \<Rightarrow> string \<Rightarrow> string \<Rightarrow> json \<Rightarrow> timestamp \<Rightarrow> world
    \<Rightarrow> approval_req \<times> world" where
  "createWorkflowApprovalRequest en j nodeId nodeType reason ctx expiresAt w =
     (let a = \<lparr>aq_id = en_uid en (wo_ids w), aq_organizationId = jb_organizationId j, aq_workflowId = jb_workflowId j,
            aq_runId = jb_runId j, aq_nodeId = nodeId, aq_nodeType = nodeType, aq_requestKind = ''policy'',
            aq_status = ApPending, aq_reason = Some reason, aq_context = ctx,
            aq_requestedByUserId = jb_requestedByUserId j, aq_decidedByUserId = None, aq_decisionNote = None,
            aq_expiresAt = expiresAt, aq_decidedAt = None, aq_createdAt = now en w, aq_updatedAt = now en w\<rparr>
      in (a, advance_clock (w\<lparr>wo_approvals := wo_approvals w @ [a], wo_ids := Suc (wo_ids w)\<rparr>)))"

section \<open>Output and events\<close>

definition summarizeForEvent :: "env \<Rightarrow> json option \<Rightarrow> json" where
  "summarizeForEvent en v = (case v of
     None \<Rightarrow> JNull
   | Some JNull \<Rightarrow> JNull
   | Some x \<Rightarrow> let t = stringify x in
       if length t \<le> en_eventMaxChars en then x
       else JObj [(''truncated'', JBool True), (''preview'', JStr (take (en_eventMaxChars en) t)),
                  (''originalLength'', JNum (int (length t)))])"

definition mergeRuntime :: "json option \<Rightarrow> json option \<Rightarrow> json option" where
  "mergeRuntime base override =
     (case asObject override of
        None \<Rightarrow> base
      | Some o' \<Rightarrow> (case asObject base of
           None \<Rightarrow> override
         | Some b \<Rightarrow> Some (JObj (fold (\<lambda>(k, v) m. jset k v m) o' b))))"

definition buildProgressOutput :: "wf_step list \<Rightarrow> json option \<Rightarrow> run_output" where
  "buildProgressOutput steps runtime =
     (let failedNodeId = map_option sp_nodeId (find (\<lambda>s. sp_status s = StepFailed) steps) in
      \<lparr>ro_status = (if truthy failedNodeId then StepFailed else StepSucceeded), ro_steps = steps,
       ro_completedNodeCount = length (filter (\<lambda>s. sp_status s = StepSucceeded) steps),
       ro_failedNodeId = failedNodeId, ro_runtime = (if truthyJ runtime then runtime else None)\<rparr>)"

definition parseStepsFromRunOutput :: "run_output option \<Rightarrow> wf_step list" where
  "parseStepsFromRunOutput out = (case out of None \<Rightarrow> [] | Some r \<Rightarrow> ro_steps r)"

definition parseRuntimeFromRunOutput :: "run_output option \<Rightarrow> json option" where
  "parseRuntimeFromRunOutput out = Option.bind out ro_runtime"

definition appendEvent :: "int \<Rightarrow> string \<Rightarrow> event_level \<Rightarrow> wf_node option \<Rightarrow> string option \<Rightarrow> json \<Rightarrow> world \<Rightarrow> world" where
  \<comment> \<open>the node gives \<open>nodeId\<close> and \<open>nodeType\<close>\<close>
  "appendEvent attempt eventType lvl node msg payload w =
     w\<lparr>wo_events := wo_events w @ [\<lparr>we_attemptCount = attempt, we_eventType = eventType,
        we_nodeId = map_option nd_id node, we_nodeType = map_option (\<lambda>n. node_type (nd_body n)) node,
        we_level = lvl, we_message = msg, we_payload = payload\<rparr>]\<rparr>"

fun effect_text :: "policy_effect \<Rightarrow> string" where
  "effect_text Allow = ''allow''" | "effect_text Deny = ''deny''" | "effect_text RequireApproval = ''require_approval''"

definition decision_json :: "policy_decision \<Rightarrow> json" where
  "decision_json d = JObj ([(''decision'', JStr (effect_text (pd_decision d))), (''reason'', JStr (pd_reason d))]
     @ (case pd_ruleId d of None \<Rightarrow> [] | Some r \<Rightarrow> [(''ruleId'', JStr r)]))"

definition context_json :: "policy_context \<Rightarrow> json" where
  "context_json c = JObj ([(''nodeType'', JStr (pc_nodeType c))]
     @ (case pc_taskType c of None \<Rightarrow> [] | Some t \<Rightarrow> [(''taskType'', JStr t)])
     @ (case pc_networkMode c of None \<Rightarrow> [] | Some m \<Rightarrow> [(''networkMode'', JStr (network_text m))])
     @ (case pc_actionId c of None \<Rightarrow> [] | Some a \<Rightarrow> [(''actionId'', JStr a)]))"


section \<open>Executing one node\<close>

record frame =
  fr_steps :: "wf_step list"
  fr_runtime :: "json option"

type_synonym snapshot = "(wf_step list \<Rightarrow> json) option"  \<comment> \<open>\<open>getGraphV3Runtime\<close>\<close>

definition with_graph :: "snapshot \<Rightarrow> frame \<Rightarrow> frame" where
  "with_graph snap fr = (case snap of None \<Rightarrow> fr
     | Some g \<Rightarrow> fr\<lparr>fr_runtime := mergeRuntime (fr_runtime fr) (Some (JObj [(''graphV3'', g (fr_steps fr))]))\<rparr>)"

definition progress :: "frame \<Rightarrow> run_output" where
  "progress fr = buildProgressOutput (fr_steps fr) (fr_runtime fr)"

definition checkpointProgress :: "snapshot \<Rightarrow> int \<Rightarrow> frame \<Rightarrow> world \<Rightarrow> frame \<times> world" where
  "checkpointProgress snap nextIndex fr w =
     (let fr' = with_graph snap fr in (fr', updateWorkflowRunProgress nextIndex (progress fr') w))"

fun execCalls :: "snapshot \<Rightarrow> int \<Rightarrow> int \<Rightarrow> wf_node \<Rightarrow> exec_call list \<Rightarrow> frame \<Rightarrow> world \<Rightarrow> frame \<times> world" where
  \<comment> \<open>the \<open>emitEvent\<close> and \<open>checkpointRuntime\<close> callbacks an executor makes, in order\<close>
  "execCalls snap cursor attempt node [] fr w = (fr, w)"
| "execCalls snap cursor attempt node (EmitEvent t lvl msg payload # cs) fr w =
     execCalls snap cursor attempt node cs fr (appendEvent attempt t lvl (Some node) msg (qq payload JNull) w)"
| "execCalls snap cursor attempt node (CheckpointRuntime v # cs) fr w =
     (case checkpointProgress snap cursor (fr\<lparr>fr_runtime := mergeRuntime (fr_runtime fr) (Some v)\<rparr>) w of
        (fr', w') \<Rightarrow> execCalls snap cursor attempt node cs fr' w')"

datatype node_outcome = NodeDone | NodeBlocked | NodeThrew string

definition step_of :: "wf_node \<Rightarrow> step_status \<Rightarrow> json option \<Rightarrow> string option \<Rightarrow> wf_step" where
  "step_of n st out err = \<lparr>sp_nodeId = nd_id n, sp_nodeType = node_type (nd_body n), sp_status = st,
     sp_output = out, sp_error = err\<rparr>"

definition push_step :: "wf_step \<Rightarrow> frame \<Rightarrow> frame" where
  "push_step s fr = fr\<lparr>fr_steps := fr_steps fr @ [s]\<rparr>"

definition requestApproval :: "env \<Rightarrow> job \<Rightarrow> int \<Rightarrow> wf_node \<Rightarrow> policy_decision \<Rightarrow> int \<Rightarrow> frame \<Rightarrow> world \<Rightarrow> world" where
  \<comment> \<open>the branch of \<open>executeNode\<close> that creates an approval request and blocks the run on it\<close>
  "requestApproval en j attempt node d cursor fr w =
     (let ctx = buildNodePolicyContext node; ty = node_type (nd_body node);
          expiresAt = now en w + max 60 (en_approvalTtlSec en) * 1000;
          (a, w1) = createWorkflowApprovalRequest en j (nd_id node) ty (pd_reason d)
            (JObj [(''decision'', decision_json d), (''nodeType'', JStr ty), (''nodeId'', JStr (nd_id node)),
                   (''policyContext'', context_json ctx)]) expiresAt (advance_clock w);
          w2 = appendEvent attempt ''approval_requested'' LevelWarn (Some node) (Some (pd_reason d))
            (JObj [(''approvalRequestId'', JStr (aq_id a)), (''expiresAt'', JNum expiresAt), (''decision'', decision_json d)]) w1
      in markWorkflowRunBlocked en cursor (aq_id a) (nd_id node) ty ''approval'' expiresAt (progress fr) w2)"

definition dispatchInput :: "env \<Rightarrow> int \<Rightarrow> wf_node \<Rightarrow> block \<Rightarrow> dispatch" where
  "dispatchInput en attempt node b =
     \<lparr>di_nodeId = (if truthy (bk_dispatchNodeId b) then qq (bk_dispatchNodeId b) '''' else nd_id node),
      di_nodeType = node_type (nd_body node), di_attemptCount = attempt, di_kind = bk_kind b,
      di_payload = bk_payload b, di_selector = (if truthyJ (bk_selector b) then bk_selector b else None),
      di_secret = (if truthy (bk_secret b) then bk_secret b else None),
      di_timeoutMs = qq (bk_timeoutMs b) (en_nodeTimeoutMs en)\<rparr>"

definition awaitRemote :: "env \<Rightarrow> int \<Rightarrow> wf_node \<Rightarrow> dispatch \<Rightarrow> string \<Rightarrow> int \<Rightarrow> frame \<Rightarrow> world \<Rightarrow> world" where
  \<comment> \<open>the gateway has accepted the dispatch: the run is blocked on the request and a poll is queued\<close>
  "awaitRemote en attempt node di requestId cursor fr w =
     (let w2 = appendEvent attempt ''node_dispatched'' LevelInfo (Some node) None
            (JObj [(''requestId'', JStr requestId), (''kind'', JStr (di_kind di))]) w;
          w3 = markWorkflowRunBlocked en cursor requestId (nd_id node) (node_type (nd_body node)) (di_kind di)
            (now en w2 + di_timeoutMs di) (progress fr) (advance_clock w2)
      in w3\<lparr>wo_polls := wo_polls w3 @ [\<lparr>po_requestId = requestId, po_attemptCount = attempt\<rparr>]\<rparr>)"

definition dispatchBlock :: "env \<Rightarrow> int \<Rightarrow> wf_node \<Rightarrow> block option \<Rightarrow> int \<Rightarrow> frame \<Rightarrow> world \<Rightarrow> node_outcome \<times> world" where
  \<comment> \<open>the branch of \<open>executeNode\<close> for a result with status \<open>blocked\<close>\<close>
  "dispatchBlock en attempt node blk cursor fr w =
     (if \<not> en_pollConfigured en then (NodeThrew ''CONTINUATION_QUEUE_NOT_CONFIGURED'', w)
      else case blk of
        None \<Rightarrow> (NodeThrew ''INVALID_BLOCK_RESULT'', w)
      | Some b \<Rightarrow>
          if bk_kind b \<notin> {''agent.execute'', ''connector.action'', ''agent.run''}
          then (NodeThrew ''INVALID_BLOCK_KIND'', w)
          else
            let di = dispatchInput en attempt node b; w1 = w\<lparr>wo_dispatches := wo_dispatches w @ [di]\<rparr>
            in (case en_gateway en di of
                  Inl err \<Rightarrow> (NodeThrew err, w1)
                | Inr requestId \<Rightarrow> (NodeBlocked, awaitRemote en attempt node di requestId cursor fr w1)))"

definition failNode :: "int \<Rightarrow> wf_node \<Rightarrow> string \<Rightarrow> json \<Rightarrow> frame \<Rightarrow> world \<Rightarrow> node_outcome \<times> frame \<times> world" where
  "failNode attempt node msg payload fr w =
     (NodeThrew msg, push_step (step_of node StepFailed None (Some msg)) fr,
      appendEvent attempt ''node_failed'' LevelError (Some node) (Some msg) payload w)"

definition pendingRemoteResult :: "json option \<Rightarrow> json option" where
  "pendingRemoteResult runtime =
     (case asObject runtime of None \<Rightarrow> None | Some fs \<Rightarrow> nullishJ (jget fs ''pendingRemoteResult''))"

definition runExecutor :: "env \<Rightarrow> job \<Rightarrow> int \<Rightarrow> snapshot \<Rightarrow> int \<Rightarrow> wf_node \<Rightarrow> json \<Rightarrow> frame \<Rightarrow> world
    \<Rightarrow> node_outcome \<times> frame \<times> world" where
  \<comment> \<open>\<open>executeNode\<close> after the policy has admitted the node\<close>
  "runExecutor en j attempt snap cursor node input fr w =
     (case en_execute en (node_type (nd_body node)) of
        None \<Rightarrow> failNode attempt node (''EXECUTOR_NOT_FOUND:'' @ node_type (nd_body node)) JNull fr w
      | Some f \<Rightarrow>
          (case f \<lparr>xc_node = node, xc_attemptCount = attempt, xc_runInput = input, xc_steps = fr_steps fr,
                  xc_runtime = fr_runtime fr, xc_pendingRemoteResult = pendingRemoteResult (fr_runtime fr)\<rparr> of
             (calls, res) \<Rightarrow>
               (case execCalls snap cursor attempt node calls fr w of
                  (fr1, w1) \<Rightarrow>
                    (case res of
                       Inl err \<Rightarrow> failNode attempt node err JNull fr1 w1
                     | Inr x \<Rightarrow>
                         let fr2 = fr1\<lparr>fr_runtime := mergeRuntime (fr_runtime fr1) (xr_runtime x)\<rparr> in
                         (case xr_status x of
                            ExecBlocked \<Rightarrow>
                              (case dispatchBlock en attempt node (xr_block x) cursor fr2 w1 of (r, w2) \<Rightarrow> (r, fr2, w2))
                          | ExecFailed \<Rightarrow>
                              failNode attempt node (qq (xr_error x) ''NODE_EXECUTION_FAILED'')
                                (summarizeForEvent en (xr_output x)) fr2 w1
                          | ExecSucceeded \<Rightarrow>
                              (NodeDone, push_step (step_of node StepSucceeded (xr_output x) None) fr2,
                               appendEvent attempt ''node_succeeded'' LevelInfo (Some node) None
                                 (summarizeForEvent en (xr_output x)) w1))))))"

definition executeNode :: "env \<Rightarrow> job \<Rightarrow> int \<Rightarrow> policy_rule list \<Rightarrow> snapshot \<Rightarrow> int \<Rightarrow> wf_node \<Rightarrow> json \<Rightarrow> frame \<Rightarrow> world
    \<Rightarrow> node_outcome \<times> frame \<times> world" where
  "executeNode en j attempt rules snap cursor node input fr w =
     (let w0 = appendEvent attempt ''node_started'' LevelInfo (Some node) None JNull w;
          ctx = buildNodePolicyContext node;
          d = evaluateNodePolicy ctx rules
      in case pd_decision d of
           RequireApproval \<Rightarrow>
             if hasApprovedWorkflowApprovalForRunNode j (nd_id node) (now en w0) w0
             then runExecutor en j attempt snap cursor node input fr (advance_clock w0)
             else (NodeBlocked, fr, requestApproval en j attempt node d cursor fr (advance_clock w0))
         | Deny \<Rightarrow>
             let msg = ''POLICY_DENIED:'' @ pd_reason d in
             (NodeThrew msg, fr,
              appendEvent attempt ''policy_denied'' LevelError (Some node) (Some msg)
                (JObj [(''decision'', decision_json d), (''policyContext'', context_json ctx)]) w0)
         | Allow \<Rightarrow> runExecutor en j attempt snap cursor node input fr w0)"


section \<open>The two loops\<close>

datatype loop_end = LoopFinished | LoopBlocked | LoopThrew string

fun runNodes :: "env \<Rightarrow> job \<Rightarrow> int \<Rightarrow> policy_rule list \<Rightarrow> json \<Rightarrow> nat \<Rightarrow> wf_node list \<Rightarrow> frame \<Rightarrow> world
    \<Rightarrow> loop_end \<times> frame \<times> world" where
  \<comment> \<open>version 2: the nodes from index on, in order\<close>
  "runNodes en j attempt rules input index [] fr w = (LoopFinished, fr, w)"
| "runNodes en j attempt rules input index (n # ns) fr w =
     (case executeNode en j attempt rules None (int index) n input fr w of
        (NodeThrew msg, fr1, w1) \<Rightarrow> (LoopThrew msg, fr1, w1)
      | (NodeBlocked, fr1, w1) \<Rightarrow> (LoopBlocked, fr1, w1)
      | (NodeDone, fr1, w1) \<Rightarrow>
          (case checkpointProgress None (int (Suc index)) fr1 w1 of
             (fr2, w2) \<Rightarrow> runNodes en j attempt rules input (Suc index) ns fr2 w2))"

definition graph_snapshot :: "env \<Rightarrow> wf_dsl_v3 \<Rightarrow> step_map \<Rightarrow> snapshot" where
  "graph_snapshot en d sb = Some (\<lambda>steps. snapshotGraphV3Runtime (en_lc en) d steps sb False)"

definition localNode :: "env \<Rightarrow> int \<Rightarrow> wf_dsl_v3 \<Rightarrow> step_map \<Rightarrow> wf_node \<Rightarrow> json \<Rightarrow> frame \<Rightarrow> world
    \<Rightarrow> node_outcome \<times> frame \<times> world" where
  \<comment> \<open>the \<open>condition\<close> and \<open>parallel.join\<close> branches of the loop, up to the checkpoint\<close>
  "localNode en attempt d sb node input fr w =
     (let w0 = appendEvent attempt ''node_started'' LevelInfo (Some node) None JNull w;
          done = (\<lambda>out. (NodeDone, push_step (step_of node StepSucceeded (Some out) None) fr,
                   appendEvent attempt ''node_succeeded'' LevelInfo (Some node) None (summarizeForEvent en (Some out)) w0))
      in case nd_body node of
           Condition None \<Rightarrow> failNode attempt node ''INVALID_CONDITION_CONFIG'' JNull fr w0
         | Condition (Some cfg) \<Rightarrow> done (conditionOutput (en_num en) cfg input)
         | _ \<Rightarrow> done (joinOutput sb (in_edges_of (incomingByNodeId (d3_edges d)) (nd_id node))))"

definition graphNode :: "env \<Rightarrow> job \<Rightarrow> int \<Rightarrow> policy_rule list \<Rightarrow> wf_dsl_v3 \<Rightarrow> step_map \<Rightarrow> wf_node \<Rightarrow> json \<Rightarrow> frame \<Rightarrow> world
    \<Rightarrow> node_outcome \<times> frame \<times> world" where
  "graphNode en j attempt rules d sb node input fr w =
     (if is_condition (nd_body node) \<or> is_join (nd_body node) then localNode en attempt d sb node input fr w
      else executeNode en j attempt rules (graph_snapshot en d sb) 0 node input fr w)"

definition note_last :: "frame \<Rightarrow> step_map \<Rightarrow> step_map" where
  \<comment> \<open>the last step of the frame enters \<open>stepByNodeId\<close>\<close>
  "note_last fr sb = (if fr_steps fr = [] then sb else jset (sp_nodeId (last (fr_steps fr))) (last (fr_steps fr)) sb)"

partial_function (option) graphLoop :: "env \<Rightarrow> job \<Rightarrow> int \<Rightarrow> policy_rule list \<Rightarrow> wf_dsl_v3 \<Rightarrow> json \<Rightarrow> step_map \<Rightarrow> frame \<Rightarrow> world
    \<Rightarrow> (loop_end \<times> frame \<times> step_map \<times> world) option" where
  "graphLoop en j attempt rules d input sb fr w =
     (case readyNodes (en_lc en) d sb of
        [] \<Rightarrow> Some (LoopFinished, fr, sb, w)
      | k # _ \<Rightarrow>
          (case (if k = '''' then None else jget (d3_nodes d) k) of
             None \<Rightarrow> Some (LoopFinished, fr, sb, w)
           | Some node \<Rightarrow>
               (case graphNode en j attempt rules d sb node input fr w of
                  (NodeThrew msg, fr1, w1) \<Rightarrow> Some (LoopThrew msg, fr1, sb, w1)
                | (NodeBlocked, fr1, w1) \<Rightarrow> Some (LoopBlocked, fr1, note_last fr1 sb, w1)
                | (NodeDone, fr1, w1) \<Rightarrow>
                    let sb1 = note_last fr1 sb in
                    (case checkpointProgress (graph_snapshot en d sb1) 0 fr1 w1 of
                       (fr2, w2) \<Rightarrow> graphLoop en j attempt rules d input sb1 fr2 w2))))"

declare graphLoop.simps [code]

fun skippedEvents :: "env \<Rightarrow> int \<Rightarrow> wf_node table \<Rightarrow> (string \<times> json) list \<Rightarrow> world \<Rightarrow> world" where
  "skippedEvents en attempt nodes [] w = w"
| "skippedEvents en attempt nodes ((k, payload) # es) w =
     skippedEvents en attempt nodes es
       (case jget nodes k of
          None \<Rightarrow> w
        | Some n \<Rightarrow> w\<lparr>wo_events := wo_events w @ [\<lparr>we_attemptCount = attempt, we_eventType = ''node_skipped'',
              we_nodeId = Some k, we_nodeType = Some (node_type (nd_body n)), we_level = LevelInfo,
              we_message = None, we_payload = summarizeForEvent en (Some payload)\<rparr>]\<rparr>)"

definition finishGraph :: "env \<Rightarrow> int \<Rightarrow> wf_dsl_v3 \<Rightarrow> step_map \<Rightarrow> frame \<Rightarrow> world \<Rightarrow> frame \<times> world" where
  "finishGraph en attempt d sb fr w =
     (let snap = snapshotGraphV3Runtime (en_lc en) d (fr_steps fr) sb True in
      (fr\<lparr>fr_runtime := mergeRuntime (fr_runtime fr) (Some (JObj [(''graphV3'', snap)]))\<rparr>,
       skippedEvents en attempt (d3_nodes d)
         (take 500 (case skippedNodes (en_lc en) d sb of JObj fs \<Rightarrow> fs | _ \<Rightarrow> [])) w))"

section \<open>The job\<close>

datatype job_end = JobReturned | JobThrew string

fun issue_code :: "v3_issue \<Rightarrow> string" where
  "issue_code GRAPH_NODE_MISSING = ''GRAPH_NODE_MISSING''"
| "issue_code (GRAPH_EDGE_DUPLICATE _) = ''GRAPH_EDGE_INVALID''"
| "issue_code (GRAPH_EDGE_DANGLING _) = ''GRAPH_EDGE_INVALID''"
| "issue_code (CONDITION_EDGE_CONSTRAINTS _) = ''CONDITION_EDGE_CONSTRAINTS''"
| "issue_code GRAPH_CYCLE_DETECTED = ''GRAPH_CYCLE_DETECTED''"
| "issue_code (PARALLEL_REMOTE_NOT_SUPPORTED _) = ''PARALLEL_REMOTE_NOT_SUPPORTED''"

definition runDefinition :: "env \<Rightarrow> job \<Rightarrow> int \<Rightarrow> policy_rule list \<Rightarrow> json \<Rightarrow> json \<Rightarrow> nat \<Rightarrow> frame \<Rightarrow> world
    \<Rightarrow> (loop_end \<times> frame \<times> world) option" where
  \<comment> \<open>the body of the \<open>try\<close> block up to the result\<close>
  "runDefinition en j attempt rules dsl input cursor fr w =
     (case en_parse en dsl of
        Inl err \<Rightarrow> Some (LoopThrew err, fr, w)
      | Inr (DslV2 d) \<Rightarrow> Some (runNodes en j attempt rules input cursor (drop cursor (d2_nodes d)) fr w)
      | Inr (DslV3 d) \<Rightarrow>
          (case validateV3GraphConstraints d of
             Some issue \<Rightarrow> Some (LoopThrew (issue_code issue), fr, w)
           | None \<Rightarrow>
               map_option (\<lambda>(r, fr1, sb, w1).
                   if r = LoopFinished then (case finishGraph en attempt d sb fr1 w1 of (fr2, w2) \<Rightarrow> (LoopFinished, fr2, w2))
                   else (r, fr1, w1))
                 (graphLoop en j attempt rules d input (stepByNodeId (fr_steps fr)) fr w)))"

definition endJob :: "env \<Rightarrow> int \<Rightarrow> int \<Rightarrow> loop_end \<times> frame \<times> world \<Rightarrow> job_end \<times> world" where
  \<comment> \<open>the end of the \<open>try\<close> block and the \<open>catch\<close> block\<close>
  "endJob en attempt maxAttempts = (\<lambda>(r, fr, w). case r of
     LoopBlocked \<Rightarrow> (JobReturned, w)
   | LoopFinished \<Rightarrow>
       (JobReturned, appendEvent attempt ''run_succeeded'' LevelInfo None None
          (JObj [(''completedNodeCount'', JNum (int (ro_completedNodeCount (progress fr))))])
          (db_markWorkflowRunSucceeded en (progress fr) w))
   | LoopThrew msg \<Rightarrow>
       let payload = JObj [(''attemptCount'', JNum attempt), (''maxAttempts'', JNum maxAttempts), (''error'', JStr msg)] in
       if \<not> attempt \<ge> maxAttempts \<and> \<not> startsWith msg ''POLICY_DENIED:'' then
         (JobThrew msg, appendEvent attempt ''run_retried'' LevelWarn None (Some msg) payload
            (db_markWorkflowRunQueuedForRetry msg None w))
       else
         (JobReturned, appendEvent attempt ''run_failed'' LevelError None (Some msg) payload
            (db_markWorkflowRunFailed en msg w)))"

definition processWorkflowRunJob :: "env \<Rightarrow> job \<Rightarrow> policy_rule list \<Rightarrow> (bool \<times> json) option \<Rightarrow> world \<Rightarrow> (job_end \<times> world) option" where
  \<comment> \<open>the workflow is \<open>(status === "published", dsl)\<close>; \<open>None\<close> as a result is a job that does not return\<close>
  "processWorkflowRunJob en j rows workflow w =
     (case wo_run w of
        None \<Rightarrow> Some (JobReturned, w)
      | Some run \<Rightarrow>
          if dr_status run = Succeeded \<or> dr_status run = Failed then Some (JobReturned, w)
          else if dr_status run = Running \<and> truthy (dr_blockedRequestId run) then Some (JobReturned, w)
          else
            let rules = listOrganizationPolicyRules str_cmp (jb_organizationId j) True rows;
                starting = (dr_status run = Queued);
                attempt = (if starting then max 1 (dr_attemptCount run + 1) else max 1 (dr_attemptCount run));
                cursor = (if starting then 0 else nat (max 0 (dr_cursorNodeIndex run)));
                fr = (if starting then \<lparr>fr_steps = [], fr_runtime = None\<rparr>
                      else \<lparr>fr_steps = parseStepsFromRunOutput (dr_output run),
                            fr_runtime = parseRuntimeFromRunOutput (dr_output run)\<rparr>)
            in case workflow of
                 None \<Rightarrow> Some (JobReturned, w)
               | Some (published, dsl) \<Rightarrow>
                   if \<not> published then
                     Some (JobReturned, appendEvent attempt ''run_failed'' LevelError None (Some ''WORKFLOW_NOT_PUBLISHED'')
                       (JObj [(''reasonCode'', JStr ''WORKFLOW_NOT_PUBLISHED'')])
                       (db_markWorkflowRunFailed en ''WORKFLOW_NOT_PUBLISHED'' w))
                   else
                     let w1 = (if starting then
                           db_markWorkflowRunRunning en attempt
                             (appendEvent attempt ''run_started'' LevelInfo None None
                               (JObj [(''runId'', JStr (jb_runId j)), (''workflowId'', JStr (jb_workflowId j)),
                                 (''orgId'', JStr (jb_organizationId j)), (''attemptCount'', JNum attempt)]) w)
                           else w)
                     in map_option (endJob en attempt (dr_maxAttempts run))
                          (runDefinition en j attempt rules dsl (dr_input run) cursor fr w1))"

end
