(* ===== verification/WorkerGraphProps.thy ===== *)
theory WorkerGraphProps
  imports WorkerRun
begin

text \<open>
  What the worker's loop over a version 3 graph guarantees when every node is stored under its own
  id: it terminates, executes a node at most once and only after its incoming edges are satisfied,
  and finishes only when nothing is left to do.  Without that condition on ids, which neither the
  schema nor the validation enforces, it need not terminate.
\<close>

section \<open>What one node does to the steps\<close>

lemma with_graph_steps [simp]: "fr_steps (with_graph snap fr) = fr_steps fr"
  by (simp add: with_graph_def split: option.split)

lemma checkpoint_steps: "checkpointProgress snap i fr w = (fr', w') \<Longrightarrow> fr_steps fr' = fr_steps fr"
  by (auto simp: checkpointProgress_def Let_def)

lemma execCalls_steps: "execCalls snap cursor attempt node cs fr w = (fr', w') \<Longrightarrow> fr_steps fr' = fr_steps fr"
proof (induction cs arbitrary: fr w)
  case Nil
  then show ?case by simp
next
  case (Cons c cs)
  then show ?case by (cases c) (auto split: prod.splits dest: checkpoint_steps)
qed

lemma failNode_simps [simp]:
  "failNode attempt node msg payload fr w = (NodeThrew msg, fr\<lparr>fr_steps := fr_steps fr @ [step_of node StepFailed None (Some msg)]\<rparr>,
      appendEvent attempt ''node_failed'' LevelError (Some node) (Some msg) payload w)"
  by (simp add: failNode_def push_step_def)

lemma step_of_id [simp]: "sp_nodeId (step_of n st out err) = nd_id n" "sp_status (step_of n st out err) = st"
  by (simp_all add: step_of_def)

lemma dispatchBlock_not_done: "dispatchBlock en attempt node blk cursor fr w \<noteq> (NodeDone, w')"
  unfolding dispatchBlock_def Let_def by (auto split: option.split sum.split)

definition extends_by :: "wf_node \<Rightarrow> node_outcome \<Rightarrow> frame \<Rightarrow> frame \<Rightarrow> bool" where
  \<comment> \<open>a node that is done adds one succeeded step of its own, any other outcome at most a failed one\<close>
  "extends_by n r fr fr' \<longleftrightarrow>
     (if r = NodeDone then \<exists>s. fr_steps fr' = fr_steps fr @ [s] \<and> sp_nodeId s = nd_id n \<and> sp_status s = StepSucceeded
      else fr_steps fr' = fr_steps fr
        \<or> (\<exists>msg s. r = NodeThrew msg \<and> fr_steps fr' = fr_steps fr @ [s] \<and> sp_nodeId s = nd_id n \<and> sp_status s = StepFailed))"

lemma runExecutor_extends:
  assumes "runExecutor en j attempt snap cursor node input fr w = (r, fr', w')"
  shows "extends_by node r fr fr'"
proof (cases "en_execute en (node_type (nd_body node))")
  case None
  with assms show ?thesis by (auto simp: runExecutor_def extends_by_def)
next
  case (Some f)
  obtain calls res where f: "f \<lparr>xc_node = node, xc_attemptCount = attempt, xc_runInput = input, xc_steps = fr_steps fr,
      xc_runtime = fr_runtime fr, xc_pendingRemoteResult = pendingRemoteResult (fr_runtime fr)\<rparr> = (calls, res)"
    by fastforce
  obtain fr1 w1 where c: "execCalls snap cursor attempt node calls fr w = (fr1, w1)" by fastforce
  note st = execCalls_steps [OF c]
  show ?thesis
  proof (cases res)
    case (Inl err)
    with assms Some f c st show ?thesis by (auto simp: runExecutor_def extends_by_def)
  next
    case (Inr x)
    show ?thesis
    proof (cases "xr_status x")
      case ExecSucceeded
      with assms Some f c st Inr show ?thesis by (auto simp: runExecutor_def extends_by_def push_step_def Let_def)
    next
      case ExecFailed
      with assms Some f c st Inr show ?thesis by (auto simp: runExecutor_def extends_by_def Let_def)
    next
      case ExecBlocked
      let ?fr2 = "fr1\<lparr>fr_runtime := mergeRuntime (fr_runtime fr1) (xr_runtime x)\<rparr>"
      obtain q w2 where d: "dispatchBlock en attempt node (xr_block x) cursor ?fr2 w1 = (q, w2)" by fastforce
      then have "q \<noteq> NodeDone" using dispatchBlock_not_done by blast
      with assms Some f c st Inr ExecBlocked d show ?thesis by (auto simp: runExecutor_def extends_by_def Let_def)
    qed
  qed
qed

lemma executeNode_extends:
  assumes "executeNode en j attempt rules snap cursor node input fr w = (r, fr', w')"
  shows "extends_by node r fr fr'"
  using assms
  by (auto simp: executeNode_def Let_def extends_by_def [of node NodeBlocked] extends_by_def [of node "NodeThrew _"]
      split: policy_effect.splits if_splits dest: runExecutor_extends)

lemma graphNode_extends:
  assumes "graphNode en j attempt rules d sb node input fr w = (r, fr', w')"
  shows "extends_by node r fr fr'"
  using assms
  by (auto simp: graphNode_def localNode_def Let_def extends_by_def push_step_def
      split: if_splits node_body.splits option.splits dest: executeNode_extends [unfolded extends_by_def])

section \<open>The loop\<close>

definition ids_ok :: "wf_dsl_v3 \<Rightarrow> bool" where
  \<comment> \<open>every node is stored under its own, non-empty id\<close>
  "ids_ok d \<longleftrightarrow> wf_map (d3_nodes d) \<and> (\<forall>(k, n) \<in> set (d3_nodes d). nd_id n = k \<and> k \<noteq> '''')"

definition satisfied :: "wf_dsl_v3 \<Rightarrow> wf_step list \<Rightarrow> string \<Rightarrow> bool" where
  \<comment> \<open>all edges into the node are satisfied by these steps\<close>
  "satisfied d steps k \<longleftrightarrow>
     (\<forall>e \<in> set (d3_edges d). eg_to e = k \<longrightarrow> edgeStatus (stepByNodeId steps) (eg_from e, edge_kind_of e) = EdgeOk)"

definition justified :: "wf_dsl_v3 \<Rightarrow> wf_step list \<Rightarrow> wf_step list \<Rightarrow> bool" where
  \<comment> \<open>each new step is the first of its node and comes after its dependencies\<close>
  "justified d old new \<longleftrightarrow>
     (\<forall>i < length new. sp_nodeId (new ! i) \<in> set (jkeys (d3_nodes d))
        \<and> sp_nodeId (new ! i) \<notin> sp_nodeId ` set (old @ take i new) \<and> satisfied d (old @ take i new) (sp_nodeId (new ! i)))"

lemma justified_Nil [simp]: "justified d old []"
  by (simp add: justified_def)

lemma justified_Cons:
  "justified d old (s # new) \<longleftrightarrow> sp_nodeId s \<in> set (jkeys (d3_nodes d)) \<and> sp_nodeId s \<notin> sp_nodeId ` set old
     \<and> satisfied d old (sp_nodeId s) \<and> justified d (old @ [s]) new"
proof -
  have "(\<forall>i < length (s # new). Q i) \<longleftrightarrow> Q 0 \<and> (\<forall>i < length new. Q (Suc i))" for Q
    by (auto simp: less_Suc_eq_0_disj)
  then show ?thesis unfolding justified_def by simp
qed

definition unstepped :: "wf_dsl_v3 \<Rightarrow> wf_step list \<Rightarrow> string set" where
  "unstepped d steps = set (jkeys (d3_nodes d)) - sp_nodeId ` set steps"

lemma readyNodes_step:
  assumes "readyNodes lc d (stepByNodeId steps) = k # ks"
  shows "k \<in> set (jkeys (d3_nodes d)) \<and> k \<notin> sp_nodeId ` set steps \<and> satisfied d steps k"
proof -
  have "k \<in> set (readyNodes lc d (stepByNodeId steps))" using assms by simp
  then show ?thesis
    by (simp add: set_readyNodes nodeReady_iff satisfied_def jhas_keys keys_stepByNodeId)
qed

lemma readyNodes_Nil:
  assumes "readyNodes lc d (stepByNodeId steps) = []" and "k \<in> set (jkeys (d3_nodes d))"
  shows "k \<in> sp_nodeId ` set steps \<or> \<not> satisfied d steps k"
proof -
  have "k \<notin> set (readyNodes lc d (stepByNodeId steps))" using assms(1) by simp
  then show ?thesis using assms(2)
    by (auto simp: set_readyNodes nodeReady_iff satisfied_def jhas_keys keys_stepByNodeId)
qed

definition loop_post :: "wf_dsl_v3 \<Rightarrow> wf_step list \<Rightarrow> loop_end \<times> frame \<times> step_map \<times> world \<Rightarrow> bool" where
  "loop_post d old = (\<lambda>(r, fr', sb', w').
     (\<exists>new. fr_steps fr' = old @ new \<and> justified d old new
        \<and> (\<forall>s \<in> set new. sp_status s = StepFailed \<longrightarrow> (\<exists>msg. r = LoopThrew msg)))
     \<and> (r = LoopFinished \<longrightarrow> sb' = stepByNodeId (fr_steps fr')
        \<and> (\<forall>k \<in> set (jkeys (d3_nodes d)). k \<in> sp_nodeId ` set (fr_steps fr') \<or> \<not> satisfied d (fr_steps fr') k)))"

lemma loop_post_Cons:
  assumes "loop_post d (old @ [s]) out" and "sp_nodeId s \<in> set (jkeys (d3_nodes d))" and "sp_nodeId s \<notin> sp_nodeId ` set old"
    and "satisfied d old (sp_nodeId s)" and "sp_status s = StepSucceeded"
  shows "loop_post d old out"
proof -
  obtain r fr' sb' w' where out: "out = (r, fr', sb', w')" by (cases out)
  then obtain new where "fr_steps fr' = (old @ [s]) @ new" "justified d (old @ [s]) new"
    "\<forall>s \<in> set new. sp_status s = StepFailed \<longrightarrow> (\<exists>msg. r = LoopThrew msg)"
    using assms(1) unfolding loop_post_def by auto
  then have "fr_steps fr' = old @ (s # new) \<and> justified d old (s # new)
      \<and> (\<forall>x \<in> set (s # new). sp_status x = StepFailed \<longrightarrow> (\<exists>msg. r = LoopThrew msg))"
    using assms(2-5) by (simp add: justified_Cons)
  then show ?thesis using assms(1) unfolding out loop_post_def by auto
qed

lemma graph_loop:
  assumes "ids_ok d"
  shows "\<exists>out. graphLoop en j attempt rules d input (stepByNodeId (fr_steps fr)) fr w = Some out
    \<and> loop_post d (fr_steps fr) out"
proof (induction "card (unstepped d (fr_steps fr))" arbitrary: fr w rule: less_induct)
  case less
  let ?sb = "stepByNodeId (fr_steps fr)"
  show ?case
  proof (cases "readyNodes (en_lc en) d ?sb")
    case Nil
    then show ?thesis using readyNodes_Nil [OF Nil] by (subst graphLoop.simps) (auto simp: loop_post_def)
  next
    case (Cons k ks)
    note k = readyNodes_step [OF Cons]
    then obtain node where n: "jget (d3_nodes d) k = Some node"
      using jget_None_iff [of "d3_nodes d" k] by (cases "jget (d3_nodes d) k") auto
    then have id: "nd_id node = k" "k \<noteq> ''''"
      using assms by (auto simp: ids_ok_def dest!: jget_in_set)
    obtain q fr1 w1 where g: "graphNode en j attempt rules d ?sb node input fr w = (q, fr1, w1)"
      by (metis prod_cases3)
    note ext = graphNode_extends [OF g]
    show ?thesis
    proof (cases q)
      case (NodeThrew msg)
      with Cons n id g ext k show ?thesis
        by (subst graphLoop.simps) (auto simp: extends_by_def justified_Cons loop_post_def)
    next
      case NodeBlocked
      with Cons n id g ext k show ?thesis
        by (subst graphLoop.simps) (auto simp: extends_by_def loop_post_def)
    next
      case NodeDone
      then obtain s where s: "fr_steps fr1 = fr_steps fr @ [s]" "sp_nodeId s = k" "sp_status s = StepSucceeded"
        using ext id by (auto simp: extends_by_def)
      have sb: "note_last fr1 ?sb = stepByNodeId (fr_steps fr1)"
        using s(1) by (simp add: note_last_def stepByNodeId_snoc)
      obtain fr2 w2 where c: "checkpointProgress (graph_snapshot en d (note_last fr1 ?sb)) 0 fr1 w1 = (fr2, w2)" by fastforce
      have st: "fr_steps fr2 = fr_steps fr @ [s]" using checkpoint_steps [OF c] s(1) by simp
      have eq: "graphLoop en j attempt rules d input ?sb fr w
          = graphLoop en j attempt rules d input (stepByNodeId (fr_steps fr2)) fr2 w2"
        using Cons n id g NodeDone c st s(1) sb by (subst graphLoop.simps) (simp add: Let_def)
      have "unstepped d (fr_steps fr2) \<subset> unstepped d (fr_steps fr)"
        using k st s(2) by (auto simp: unstepped_def)
      then have "card (unstepped d (fr_steps fr2)) < card (unstepped d (fr_steps fr))"
        by (rule psubset_card_mono [rotated]) (simp add: unstepped_def)
      from less [OF this, of w2] obtain out where ih:
        "graphLoop en j attempt rules d input (stepByNodeId (fr_steps fr2)) fr2 w2 = Some out"
        "loop_post d (fr_steps fr @ [s]) out" unfolding st by blast
      have "loop_post d (fr_steps fr) out"
        by (rule loop_post_Cons [OF ih(2)]) (use k s(2,3) in simp_all)
      with ih(1) eq show ?thesis by simp
    qed
  qed
qed

end
