(* ===== verification/WorkerProps.thy ===== *)
theory WorkerProps
  imports WorkerGraphProps
begin

text \<open>
  What the worker guarantees of a whole job: policy before execution, the outcomes of a run and its
  attempts, and the definitions on which the graph loop does not return.
\<close>

section \<open>A sample\<close>

definition sample_node :: "string \<Rightarrow> node_body \<Rightarrow> wf_node" where
  "sample_node i b = \<lparr>nd_id = i, nd_body = b\<rparr>"

definition sample_edge :: "string \<Rightarrow> string \<Rightarrow> edge_kind \<Rightarrow> wf_edge" where
  "sample_edge a b k = \<lparr>eg_id = a @ b, eg_from = a, eg_to = b, eg_kind = Some k\<rparr>"

definition sample_graph :: wf_dsl_v3 where
  \<comment> \<open>a condition on the input with one node on each branch\<close>
  "sample_graph = \<lparr>d3_trigger = TriggerManual,
     d3_nodes = [(''c'', sample_node ''c'' (Condition (Some \<lparr>cc_path = ''$.size'', cc_op = OpGt, cc_value = Some (JNum 3)\<rparr>))),
       (''big'', sample_node ''big'' (HttpRequest None)), (''small'', sample_node ''small'' (HttpRequest None))],
     d3_edges = [sample_edge ''c'' ''big'' CondTrue, sample_edge ''c'' ''small'' CondFalse]\<rparr>"

definition ok_result :: exec_result where
  "ok_result = \<lparr>xr_status = ExecSucceeded, xr_output = None, xr_error = None, xr_block = None, xr_runtime = None\<rparr>"

definition sample_env :: env where
  "sample_env = \<lparr>en_execute = (\<lambda>_. Some (\<lambda>_. ([], Inr ok_result))), en_gateway = (\<lambda>_. Inr ''q''),
     en_parse = (\<lambda>_. Inr (DslV3 sample_graph)), en_num = (\<lambda>_. None), en_lc = str_cmp, en_clk = int, en_uid = (\<lambda>_. ''id''),
     en_nodeTimeoutMs = 60000, en_approvalTtlSec = 3600, en_eventMaxChars = 4000, en_pollConfigured = True\<rparr>"

definition sample_job :: job where
  "sample_job = \<lparr>jb_organizationId = ''o'', jb_workflowId = ''w'', jb_runId = ''r'', jb_requestedByUserId = ''u''\<rparr>"

definition empty_frame :: frame where
  "empty_frame = \<lparr>fr_steps = [], fr_runtime = None\<rparr>"

definition queued_run :: "int \<Rightarrow> db_run" where
  "queued_run limit = \<lparr>dr_status = Queued, dr_attemptCount = 0, dr_maxAttempts = limit, dr_input = JObj [(''size'', JNum 5)],
     dr_output = None, dr_error = None, dr_nextAttemptAt = None, dr_startedAt = None, dr_finishedAt = None,
     dr_cursorNodeIndex = 0, dr_blockedRequestId = None, dr_blockedNodeId = None, dr_blockedNodeType = None,
     dr_blockedKind = None, dr_blockedAt = None, dr_blockedTimeoutAt = None\<rparr>"

definition world_of :: "db_run \<Rightarrow> world" where
  "world_of r = \<lparr>wo_run = Some r, wo_events = [], wo_approvals = [], wo_dispatches = [], wo_polls = [], wo_clock = 0, wo_ids = 0\<rparr>"

lemma sample_ids_ok: "ids_ok sample_graph"
  by (simp add: ids_ok_def sample_graph_def sample_node_def)

definition sample_loop :: "(loop_end \<times> frame \<times> step_map \<times> world) option" where
  "sample_loop = graphLoop sample_env sample_job 1 [] sample_graph (JObj [(''size'', JNum 5)])
     (stepByNodeId (fr_steps empty_frame)) empty_frame (world_of (queued_run 1))"

lemma sample_loop_value:
  "map_option (\<lambda>(r, fr, _, _). (r, map sp_nodeId (fr_steps fr))) sample_loop = Some (LoopFinished, [''c'', ''big''])"
  by code_simp

section \<open>The graph\<close>

text \<open>
  C5. The graph loop of the worker terminates and respects the dependencies, for a graph whose nodes are stored under
  their own ids (which the validation does not check): started on the steps of a run, it returns after adding steps each of which is the first step of its node, of a node of
  the graph, taken when every edge into the node was satisfied by the steps before it; a failed
  step ends the loop with its error.
\<close>
theorem graph_respects_dependencies:
  assumes "ids_ok d"
  shows "\<exists>r fr' sb' w' new. graphLoop en j attempt rules d input (stepByNodeId (fr_steps fr)) fr w = Some (r, fr', sb', w')
    \<and> fr_steps fr' = fr_steps fr @ new \<and> justified d (fr_steps fr) new
    \<and> (\<forall>s \<in> set new. sp_status s = StepFailed \<longrightarrow> (\<exists>msg. r = LoopThrew msg))"
proof -
  obtain r fr' sb' w' where "graphLoop en j attempt rules d input (stepByNodeId (fr_steps fr)) fr w = Some (r, fr', sb', w')"
    "loop_post d (fr_steps fr) (r, fr', sb', w')"
    using graph_loop [OF assms, of en j attempt rules input fr w] by (metis prod_cases4)
  then show ?thesis by (auto simp: loop_post_def)
qed

theorem graph_respects_dependencies_witness:
  "\<exists>r fr' sb' w' new. graphLoop sample_env sample_job 1 [] sample_graph (JObj [(''size'', JNum 5)])
       (stepByNodeId (fr_steps empty_frame)) empty_frame (world_of (queued_run 1)) = Some (r, fr', sb', w')
     \<and> fr_steps fr' = fr_steps empty_frame @ new \<and> justified sample_graph (fr_steps empty_frame) new"
  using graph_respects_dependencies [OF sample_ids_ok, of sample_env sample_job 1 "[]" "JObj [(''size'', JNum 5)]"
      empty_frame "world_of (queued_run 1)"] by (elim exE conjE) (intro exI conjI, assumption+)

text \<open>
  The loop leaves nothing undone, on a graph whose nodes are stored under their own ids: when it finishes, a node of the graph without a step has an
  incoming edge that is not satisfied.
\<close>
theorem graph_finishes_complete:
  assumes "ids_ok d" and "k \<in> set (jkeys (d3_nodes d))"
    and "graphLoop en j attempt rules d input (stepByNodeId (fr_steps fr)) fr w = Some (LoopFinished, fr', sb', w')"
  shows "k \<in> sp_nodeId ` set (fr_steps fr') \<or> \<not> satisfied d (fr_steps fr') k"
  using graph_loop [OF assms(1), of en j attempt rules input fr w] assms(2,3) by (auto simp: loop_post_def)

theorem graph_finishes_complete_witness:
  "\<exists>fr' sb' w'. sample_loop = Some (LoopFinished, fr', sb', w')
    \<and> ''small'' \<notin> sp_nodeId ` set (fr_steps fr') \<and> \<not> satisfied sample_graph (fr_steps fr') ''small''"
proof -
  obtain fr' sb' w' where l: "sample_loop = Some (LoopFinished, fr', sb', w')"
    and steps: "map sp_nodeId (fr_steps fr') = [''c'', ''big'']"
    using sample_loop_value by (auto simp: map_option_case split: option.splits)
  have out: "''small'' \<notin> sp_nodeId ` set (fr_steps fr')"
    unfolding list.set_map [symmetric] steps by simp
  have "''small'' \<in> set (jkeys (d3_nodes sample_graph))" by (simp add: sample_graph_def)
  from graph_finishes_complete [OF sample_ids_ok this l [unfolded sample_loop_def]] out l show ?thesis by blast
qed


section \<open>Node ids that differ from their keys\<close>

definition misnamed_graph :: wf_dsl_v3 where
  "misnamed_graph = \<lparr>d3_trigger = TriggerManual, d3_nodes = [(''a'', sample_node ''b'' (ParallelJoin None))], d3_edges = []\<rparr>"

lemma misnamed_ready: "jget sb ''a'' = None \<Longrightarrow> readyNodes lc misnamed_graph sb = [''a'']"
  by (simp add: readyNodes_def misnamed_graph_def nodeReady_def in_edges_of_def incomingByNodeId_def jhas_def js_sort_def)

lemma misnamed_loop:
  assumes "graphLoop en j attempt rules d input sb fr w = Some out" and "d = misnamed_graph" and "jget sb ''a'' = None"
  shows False
proof -
  let ?P = "\<lambda>en j attempt rules d input sb fr w out. d = misnamed_graph \<longrightarrow> jget sb ''a'' = None \<longrightarrow> False"
  have "?P en j attempt rules d input sb fr w out"
  proof (rule graphLoop.raw_induct [where P = ?P, OF _ assms(1)], intro impI, goal_cases)
    case (1 f en j attempt rules d input sb fr w out)
    have n: "jget (d3_nodes d) ''a'' = Some (sample_node ''b'' (ParallelJoin None))" using 1(3) by (simp add: misnamed_graph_def)
    obtain q fr1 w1 where g: "graphNode en j attempt rules d sb (sample_node ''b'' (ParallelJoin None)) input fr w = (q, fr1, w1)"
      by (metis prod_cases3)
    have q: "q = NodeDone" "\<exists>s. fr_steps fr1 = fr_steps fr @ [s] \<and> sp_nodeId s = ''b''"
      using g by (auto simp: graphNode_def localNode_def sample_node_def push_step_def)
    obtain fr2 w2 where c: "checkpointProgress (graph_snapshot en d (note_last fr1 sb)) 0 fr1 w1 = (fr2, w2)" by fastforce
    have "f en j attempt rules d input (note_last fr1 sb) fr2 w2 = Some out"
      using 1(2) n g q(1) c misnamed_ready [OF 1(4), of "en_lc en"] 1(3) by (simp add: Let_def)
    moreover have "jget (note_last fr1 sb) ''a'' = None"
      using q(2) 1(4) by (auto simp: note_last_def jget_jset)
    ultimately show ?case using 1(1) 1(3) by blast
  qed
  then show ?thesis using assms(2,3) by blast
qed

text \<open>
  C34. Where the loop does not return: the schema and the validation accept a graph whose node is
  stored under a key different from its id, and on this one the loop runs forever, whatever the
  executors, policies and input: the step is recorded under the id, so the key stays ready.
\<close>
theorem misnamed_node_diverges:
  "schema_v3 engines misnamed_graph \<and> validateV3GraphConstraints misnamed_graph = None
    \<and> graphLoop en j attempt rules misnamed_graph input [] fr w = None"
proof -
  have "graphLoop en j attempt rules misnamed_graph input [] fr w = None"
    using misnamed_loop [of en j attempt rules misnamed_graph input "[]" fr w]
    by (cases "graphLoop en j attempt rules misnamed_graph input [] fr w") auto
  moreover have "validateV3GraphConstraints misnamed_graph = None" by code_simp
  ultimately show ?thesis
    by (simp add: schema_v3_def misnamed_graph_def sample_node_def schema_node_def str_len_def)
qed

section \<open>Policy before execution\<close>

lemma request_approval:
  assumes "w' = requestApproval en j attempt n d cursor fr w" and "wo_run w = Some run"
  shows "wo_dispatches w' = wo_dispatches w \<and> (\<exists>a run'. wo_approvals w' = wo_approvals w @ [a] \<and> aq_status a = ApPending
    \<and> aq_organizationId a = jb_organizationId j \<and> aq_runId a = jb_runId j \<and> aq_nodeId a = nd_id n
    \<and> wo_run w' = Some run' \<and> dr_status run' = dr_status run \<and> dr_blockedRequestId run' = Some (aq_id a)
    \<and> dr_blockedNodeId run' = Some (nd_id n) \<and> dr_blockedKind run' = Some ''approval'')"
  using assms by (simp add: requestApproval_def Let_def createWorkflowApprovalRequest_def markWorkflowRunBlocked_def
      appendEvent_def advance_clock_def on_run_def)

text \<open>
  C6. No execution without permission: if the policy denies a node, or asks for an approval that the run does not hold
  for it or that has expired, then executing the node calls neither its executor nor the gateway (the
  outcome is the same whatever they are), adds no step and dispatches nothing.  A denied node ends the
  loop with an error; one that needs an approval leaves the run blocked on a new pending approval request
  for this run and node.
\<close>
theorem unapproved_node_never_runs:
  assumes "pd_decision (evaluateNodePolicy (buildNodePolicyContext n) rules) \<noteq> Allow"
    and "pd_decision (evaluateNodePolicy (buildNodePolicyContext n) rules) = RequireApproval \<Longrightarrow>
      \<forall>a \<in> set (wo_approvals w). aq_organizationId a = jb_organizationId j \<and> aq_runId a = jb_runId j \<and> aq_nodeId a = nd_id n
        \<longrightarrow> aq_status a \<noteq> ApApproved \<or> aq_expiresAt a \<le> now en w"
    and "wo_run w = Some run" and "executeNode en j attempt rules snap cursor n input fr w = (r, fr', w')"
  shows "executeNode (en\<lparr>en_execute := f, en_gateway := g\<rparr>) j attempt rules snap cursor n input fr w = (r, fr', w')
    \<and> fr' = fr \<and> wo_dispatches w' = wo_dispatches w
    \<and> (if pd_decision (evaluateNodePolicy (buildNodePolicyContext n) rules) = Deny
       then (\<exists>msg. r = NodeThrew msg) \<and> wo_run w' = Some run
       else r = NodeBlocked \<and> (\<exists>a run'. wo_approvals w' = wo_approvals w @ [a] \<and> aq_status a = ApPending
         \<and> aq_organizationId a = jb_organizationId j \<and> aq_runId a = jb_runId j \<and> aq_nodeId a = nd_id n
         \<and> wo_run w' = Some run' \<and> dr_status run' = dr_status run \<and> dr_blockedRequestId run' = Some (aq_id a)
         \<and> dr_blockedNodeId run' = Some (nd_id n) \<and> dr_blockedKind run' = Some ''approval''))"
proof (cases "pd_decision (evaluateNodePolicy (buildNodePolicyContext n) rules)")
  case Allow
  then show ?thesis using assms(1) by simp
next
  case Deny
  then show ?thesis using assms(3,4) by (auto simp: executeNode_def Let_def appendEvent_def)
next
  case RequireApproval
  let ?d = "evaluateNodePolicy (buildNodePolicyContext n) rules"
  let ?w0 = "appendEvent attempt ''node_started'' LevelInfo (Some n) None JNull w"
  have no: "\<not> hasApprovedWorkflowApprovalForRunNode j (nd_id n) (now en w) ?w0"
    using assms(2) [OF RequireApproval] by (auto simp: hasApprovedWorkflowApprovalForRunNode_def list_ex_iff appendEvent_def)
  have t: "now (en\<lparr>en_execute := f, en_gateway := g\<rparr>) x = now en x" "now en ?w0 = now en w" for x
    by (simp_all add: now_def appendEvent_def)
  have same: "requestApproval (en\<lparr>en_execute := f, en_gateway := g\<rparr>) = requestApproval en"
    by (intro ext) (simp add: requestApproval_def Let_def createWorkflowApprovalRequest_def markWorkflowRunBlocked_def now_def)
  have e: "r = NodeBlocked" "fr' = fr" "w' = requestApproval en j attempt n ?d cursor fr (advance_clock ?w0)"
    using RequireApproval no t assms(4) by (auto simp: executeNode_def Let_def)
  have w0: "wo_run (advance_clock ?w0) = Some run" "wo_dispatches (advance_clock ?w0) = wo_dispatches w"
    "wo_approvals (advance_clock ?w0) = wo_approvals w" using assms(3) by (simp_all add: appendEvent_def advance_clock_def)
  have "executeNode (en\<lparr>en_execute := f, en_gateway := g\<rparr>) j attempt rules snap cursor n input fr w = (r, fr', w')"
    using RequireApproval no t same e by (simp add: executeNode_def Let_def)
  with request_approval [OF e(3) w0(1)] RequireApproval e(1,2) w0(2,3) show ?thesis by simp
qed

definition shell_node :: wf_node where
  "shell_node = sample_node ''s'' (AgentExecute (Some
     \<lparr>ae_execution = None, ae_task = Some \<lparr>st_script = ''make'', st_shell = None, st_env = None\<rparr>, ae_sandbox = None\<rparr>))"

theorem unapproved_node_never_runs_witness:
  "\<exists>w' a. executeNode sample_env sample_job 1 [] None 0 shell_node JNull empty_frame (world_of (queued_run 1))
       = (NodeBlocked, empty_frame, w') \<and> wo_approvals w' = [a] \<and> aq_nodeId a = ''s'' \<and> wo_dispatches w' = []"
proof -
  have d: "pd_decision (evaluateNodePolicy (buildNodePolicyContext shell_node) []) = RequireApproval" by code_simp
  obtain r fr' w' where e: "executeNode sample_env sample_job 1 [] None 0 shell_node JNull empty_frame (world_of (queued_run 1))
      = (r, fr', w')" by (metis prod_cases3)
  have w: "wo_approvals (world_of (queued_run 1)) = []" "wo_dispatches (world_of (queued_run 1)) = []"
    "wo_run (world_of (queued_run 1)) = Some (queued_run 1)" by (simp_all add: world_of_def)
  have i: "nd_id shell_node = ''s''" by (simp add: shell_node_def sample_node_def)
  from unapproved_node_never_runs [where f = "\<lambda>_. None" and g = "\<lambda>_. Inl []", OF _ _ w(3) e] d e w(1,2) i show ?thesis by auto
qed

end
