(* ===== verification/WorkerOutcome.thy ===== *)
theory WorkerOutcome
  imports WorkerProps
begin

text \<open>
  The outcomes of a job: which parts of the run's row the execution of nodes leaves alone, what a
  job may do to the status and the attempt counter, and that retries end.
\<close>

section \<open>What executing nodes leaves alone\<close>

definition run_core :: "world \<Rightarrow> (run_status \<times> int \<times> int \<times> json) option" where
  "run_core w = map_option (\<lambda>r. (dr_status r, dr_attemptCount r, dr_maxAttempts r, dr_input r)) (wo_run w)"

named_theorems core_simps \<comment> \<open>operations that keep status, attempts and input of the run\<close>

lemma core_run_updates [core_simps]:
  "run_core (appendEvent attempt t lvl node msg payload w) = run_core w"
  "run_core (advance_clock w) = run_core w"
  "run_core (updateWorkflowRunProgress i out w) = run_core w"
  "run_core (markWorkflowRunBlocked en i q n ty k at out w) = run_core w"
  "run_core (w\<lparr>wo_dispatches := ds\<rparr>) = run_core w" "run_core (w\<lparr>wo_polls := ps\<rparr>) = run_core w"
  "run_core (w\<lparr>wo_events := es\<rparr>) = run_core w"
  by (auto simp: run_core_def appendEvent_def advance_clock_def updateWorkflowRunProgress_def markWorkflowRunBlocked_def on_run_def
      map_option_case split: option.splits)

lemma core_approval [core_simps]: "run_core (snd (createWorkflowApprovalRequest en j n ty reason ctx e w)) = run_core w"
  by (simp add: createWorkflowApprovalRequest_def Let_def core_simps) (simp add: run_core_def)

lemma core_request [core_simps]: "run_core (requestApproval en j attempt node d cursor fr w) = run_core w"
  by (simp add: requestApproval_def Let_def core_simps case_prod_unfold)

lemma core_await [core_simps]: "run_core (awaitRemote en attempt node di q cursor fr w) = run_core w"
  by (simp add: awaitRemote_def Let_def core_simps)

lemma core_checkpoint: "checkpointProgress snap i fr w = (fr', w') \<Longrightarrow> run_core w' = run_core w"
  by (auto simp: checkpointProgress_def Let_def core_simps)

lemma core_execCalls: "execCalls snap cursor attempt node cs fr w = (fr', w') \<Longrightarrow> run_core w' = run_core w"
proof (induction cs arbitrary: fr w)
  case Nil
  then show ?case by simp
next
  case (Cons c cs)
  show ?case
  proof (cases c)
    case (EmitEvent t lvl msg payload)
    then show ?thesis using Cons.prems Cons.IH by (fastforce simp: core_simps)
  next
    case (CheckpointRuntime v)
    obtain fr1 w1 where c: "checkpointProgress snap cursor (fr\<lparr>fr_runtime := mergeRuntime (fr_runtime fr) (Some v)\<rparr>) w = (fr1, w1)"
      by fastforce
    then have "execCalls snap cursor attempt node cs fr1 w1 = (fr', w')" using CheckpointRuntime Cons.prems by simp
    from Cons.IH [OF this] core_checkpoint [OF c] show ?thesis by simp
  qed
qed

lemma core_dispatch: "run_core (snd (dispatchBlock en attempt node blk cursor fr w)) = run_core w"
  unfolding dispatchBlock_def Let_def by (auto simp: core_simps split: option.split sum.split)

lemma core_runExecutor: "run_core (snd (snd (runExecutor en j attempt snap cursor node input fr w))) = run_core w"
proof (cases "en_execute en (node_type (nd_body node))")
  case None
  then show ?thesis by (simp add: runExecutor_def core_simps)
next
  case (Some f)
  obtain calls res where f: "f \<lparr>xc_node = node, xc_attemptCount = attempt, xc_runInput = input, xc_steps = fr_steps fr,
      xc_runtime = fr_runtime fr, xc_pendingRemoteResult = pendingRemoteResult (fr_runtime fr)\<rparr> = (calls, res)"
    by fastforce
  obtain fr1 w1 where c: "execCalls snap cursor attempt node calls fr w = (fr1, w1)" by fastforce
  show ?thesis
    using Some f c core_execCalls [OF c] core_dispatch
    by (auto simp: runExecutor_def Let_def core_simps case_prod_unfold split: sum.split exec_status.split)
qed

lemma core_executeNode: "run_core (snd (snd (executeNode en j attempt rules snap cursor node input fr w))) = run_core w"
  by (simp add: executeNode_def Let_def core_runExecutor core_simps split: policy_effect.split)

lemma core_graphNode: "run_core (snd (snd (graphNode en j attempt rules d sb node input fr w))) = run_core w"
  by (auto simp: graphNode_def localNode_def Let_def core_executeNode core_simps split: node_body.split option.split)

lemma core_runNodes: "run_core (snd (snd (runNodes en j attempt rules input i ns fr w))) = run_core w"
proof (induction ns arbitrary: i fr w)
  case Nil
  then show ?case by simp
next
  case (Cons n ns)
  obtain q fr1 w1 where e: "executeNode en j attempt rules None (int i) n input fr w = (q, fr1, w1)" by (metis prod_cases3)
  have w1: "run_core w1 = run_core w" using core_executeNode [of en j attempt rules None "int i" n input fr w] e by simp
  obtain fr2 w2 where c: "checkpointProgress None (int (Suc i)) fr1 w1 = (fr2, w2)" by fastforce
  show ?case using e w1 c core_checkpoint [OF c] Cons.IH by (cases q) simp_all
qed

lemma core_graphLoop:
  assumes "graphLoop en j attempt rules d input sb fr w = Some out"
  shows "run_core (snd (snd (snd out))) = run_core w"
proof -
  let ?P = "\<lambda>en j attempt rules d input sb fr w out. run_core (snd (snd (snd out))) = run_core w"
  have "?P en j attempt rules d input sb fr w out"
  proof (rule graphLoop.raw_induct [where P = ?P, OF _ assms], goal_cases)
    case (1 f en j attempt rules d input sb fr w out)
    show ?case
    proof (cases "readyNodes (en_lc en) d sb")
      case Nil
      then show ?thesis using 1(2) by auto
    next
      case (Cons k ks)
      show ?thesis
      proof (cases "if k = '''' then None else jget (d3_nodes d) k")
        case None
        then show ?thesis using 1(2) Cons by auto
      next
        case (Some node)
        obtain q fr1 w1 where g: "graphNode en j attempt rules d sb node input fr w = (q, fr1, w1)" by (metis prod_cases3)
        have w1: "run_core w1 = run_core w" using core_graphNode [of en j attempt rules d sb node input fr w] g by simp
        obtain fr2 w2 where c: "checkpointProgress (graph_snapshot en d (note_last fr1 sb)) 0 fr1 w1 = (fr2, w2)" by fastforce
        show ?thesis
        proof (cases q)
          case NodeDone
          then have "f en j attempt rules d input (note_last fr1 sb) fr2 w2 = Some out"
            using 1(2) Cons Some g c by (simp add: Let_def)
          from 1(1) [OF this] w1 core_checkpoint [OF c] show ?thesis by simp
        qed (use 1(2) Cons Some g w1 in auto)
      qed
    qed
  qed
  then show ?thesis .
qed

lemma core_skippedEvents: "run_core (skippedEvents en attempt nodes es w) = run_core w"
  by (induction es arbitrary: w) (auto simp: core_simps split: option.split)

lemma core_runDefinition:
  assumes "runDefinition en j attempt rules dsl input cursor fr w = Some (r, fr', w')"
  shows "run_core w' = run_core w"
proof (cases "en_parse en dsl")
  case (Inl err)
  then show ?thesis using assms by (simp add: runDefinition_def)
next
  case (Inr d)
  show ?thesis
  proof (cases d)
    case (DslV2 d2)
    then show ?thesis using assms Inr core_runNodes [of en j attempt rules input cursor "drop cursor (d2_nodes d2)" fr w]
      by (simp add: runDefinition_def)
  next
    case (DslV3 d3)
    show ?thesis
    proof (cases "validateV3GraphConstraints d3")
      case (Some issue)
      then show ?thesis using assms Inr DslV3 by (simp add: runDefinition_def)
    next
      case None
      then obtain r1 fr1 sb w1 where g: "graphLoop en j attempt rules d3 input (stepByNodeId (fr_steps fr)) fr w = Some (r1, fr1, sb, w1)"
        using assms Inr DslV3 by (auto simp: runDefinition_def)
      show ?thesis using assms Inr DslV3 None g core_graphLoop [OF g]
        by (auto simp: runDefinition_def finishGraph_def Let_def core_skippedEvents split: if_splits)
    qed
  qed
qed


section \<open>Outcomes\<close>

lemma endJob_run:
  assumes "endJob en attempt limit (r, fr, w) = (e, w')" and "wo_run w = Some run" and "dr_status run = Running"
  shows "\<exists>run'. wo_run w' = Some run' \<and> dr_maxAttempts run' = dr_maxAttempts run \<and> dr_attemptCount run' = dr_attemptCount run
    \<and> (case e of JobThrew msg \<Rightarrow> dr_status run' = Queued \<and> dr_error run' = Some msg \<and> attempt < limit
              | JobReturned \<Rightarrow> dr_status run' \<noteq> Queued)"
  using assms
  by (cases r)
    (auto simp: endJob_def Let_def appendEvent_def db_markWorkflowRunSucceeded_def db_markWorkflowRunFailed_def
      db_markWorkflowRunQueuedForRetry_def advance_clock_def on_run_def unblocked_def split: if_splits)

lemma started_run:
  assumes "wo_run w = Some run"
  shows "run_core (db_markWorkflowRunRunning en attempt (appendEvent a t lvl node msg payload w))
    = Some (Running, attempt, dr_maxAttempts run, dr_input run)"
  using assms by (simp add: run_core_def db_markWorkflowRunRunning_def appendEvent_def advance_clock_def on_run_def unblocked_def)

lemma attempt_outcome_run:
  assumes "processWorkflowRunJob en j rows (Some (True, dsl)) w = Some (e, w')"
    and "wo_run w = Some run" and "dr_status run = Queued"
  shows "\<exists>run'. wo_run w' = Some run' \<and> dr_maxAttempts run' = dr_maxAttempts run
    \<and> dr_attemptCount run' = max 1 (dr_attemptCount run + 1)
    \<and> (case e of JobThrew msg \<Rightarrow> dr_status run' = Queued \<and> dr_error run' = Some msg \<and> dr_attemptCount run' < dr_maxAttempts run
              | JobReturned \<Rightarrow> dr_status run' \<noteq> Queued)"
proof -
  let ?attempt = "max 1 (dr_attemptCount run + 1)"
  let ?w1 = "db_markWorkflowRunRunning en ?attempt
    (appendEvent ?attempt ''run_started'' LevelInfo None None
      (JObj [(''runId'', JStr (jb_runId j)), (''workflowId'', JStr (jb_workflowId j)),
        (''orgId'', JStr (jb_organizationId j)), (''attemptCount'', JNum ?attempt)]) w)"
  let ?D = "runDefinition en j ?attempt (listOrganizationPolicyRules str_cmp (jb_organizationId j) True rows) dsl
    (dr_input run) 0 \<lparr>fr_steps = [], fr_runtime = None\<rparr> ?w1"
  have "map_option (endJob en ?attempt (dr_maxAttempts run)) ?D = Some (e, w')"
    using assms by (simp add: processWorkflowRunJob_def Let_def)
  then obtain out where out: "?D = Some out" "endJob en ?attempt (dr_maxAttempts run) out = (e, w')" by blast
  obtain r fr w2 where o: "out = (r, fr, w2)" by (rule prod_cases3)
  note d = out(1) [unfolded o] and e = out(2) [unfolded o]
  have w1: "run_core ?w1 = Some (Running, ?attempt, dr_maxAttempts run, dr_input run)" by (rule started_run [OF assms(2)])
  have "run_core w2 = Some (Running, ?attempt, dr_maxAttempts run, dr_input run)"
    using core_runDefinition [OF d] w1 by simp
  then obtain run2 where r2: "wo_run w2 = Some run2" "dr_status run2 = Running" "dr_attemptCount run2 = ?attempt"
    "dr_maxAttempts run2 = dr_maxAttempts run" by (auto simp: run_core_def)
  from endJob_run [OF e r2(1,2)] r2(3,4) show ?thesis by (auto split: job_end.splits)
qed

text \<open>
  C30. The outcome of an attempt: a job on a queued run of a published workflow, if it returns,
  counts one attempt and leaves the run queued only by failing with an error that is not the last
  attempt's; the queue sees that error as an exception exactly in this case.
\<close>
theorem attempt_outcome:
  assumes "processWorkflowRunJob en j rows (Some (True, dsl)) w = Some (e, w')"
    and "wo_run w = Some run" and "dr_status run = Queued"
  shows "\<exists>run'. wo_run w' = Some run' \<and> dr_maxAttempts run' = dr_maxAttempts run
    \<and> dr_attemptCount run' = max 1 (dr_attemptCount run + 1)
    \<and> (case e of JobThrew msg \<Rightarrow> dr_status run' = Queued \<and> dr_error run' = Some msg \<and> dr_attemptCount run' < dr_maxAttempts run
              | JobReturned \<Rightarrow> dr_status run' \<noteq> Queued)"
  by (rule attempt_outcome_run [OF assms])

definition failing_env :: env where
  "failing_env = sample_env\<lparr>en_execute := (\<lambda>_. None)\<rparr>"

theorem attempt_outcome_witness:
  "\<exists>w' run'. processWorkflowRunJob failing_env sample_job [] (Some (True, JNull)) (world_of (queued_run 3))
       = Some (JobThrew ''EXECUTOR_NOT_FOUND:http.request'', w')
     \<and> wo_run w' = Some run' \<and> dr_status run' = Queued \<and> dr_attemptCount run' = 1"
proof -
  have "map_option fst (processWorkflowRunJob failing_env sample_job [] (Some (True, JNull)) (world_of (queued_run 3)))
      = Some (JobThrew ''EXECUTOR_NOT_FOUND:http.request'')" by code_simp
  then obtain w' where p: "processWorkflowRunJob failing_env sample_job [] (Some (True, JNull)) (world_of (queued_run 3))
       = Some (JobThrew ''EXECUTOR_NOT_FOUND:http.request'', w')" by auto
  have q: "wo_run (world_of (queued_run 3)) = Some (queued_run 3)" "dr_status (queued_run 3) = Queued"
    "dr_attemptCount (queued_run 3) = 0"
    by (simp_all add: world_of_def queued_run_def)
  from attempt_outcome [OF p q(1,2)] q(3) p show ?thesis by auto
qed

text \<open>
  A finished run is final for the worker: a job that finds its run succeeded or failed, or
  running and blocked on a request, returns at once and changes nothing, writes no event and
  dispatches nothing.
\<close>
theorem finished_run_untouched:
  assumes "wo_run w = Some run"
    and "dr_status run = Succeeded \<or> dr_status run = Failed \<or> dr_status run = Running \<and> truthy (dr_blockedRequestId run)"
  shows "processWorkflowRunJob en j rows workflow w = Some (JobReturned, w)"
  using assms by (auto simp: processWorkflowRunJob_def)

theorem finished_run_untouched_witness:
  "processWorkflowRunJob sample_env sample_job [] None (world_of ((queued_run 1)\<lparr>dr_status := Failed\<rparr>))
     = Some (JobReturned, world_of ((queued_run 1)\<lparr>dr_status := Failed\<rparr>))"
  by (rule finished_run_untouched [where run = "(queued_run 1)\<lparr>dr_status := Failed\<rparr>"]) (simp_all add: world_of_def)

definition definition_ok :: "env \<Rightarrow> json \<Rightarrow> bool" where
  \<comment> \<open>a version 3 graph has its nodes under their own ids\<close>
  "definition_ok en dsl \<longleftrightarrow> (\<forall>d. en_parse en dsl = Inr (DslV3 d) \<longrightarrow> ids_ok d)"

lemma runDefinition_returns:
  assumes "definition_ok en dsl"
  shows "runDefinition en j attempt rules dsl input cursor fr w \<noteq> None"
proof (cases "en_parse en dsl")
  case (Inr d)
  show ?thesis
  proof (cases d)
    case (DslV3 d3)
    then have "ids_ok d3" using assms Inr by (simp add: definition_ok_def)
    from graph_loop [OF this, of en j attempt rules input fr w] show ?thesis
      using Inr DslV3 by (cases "validateV3GraphConstraints d3") (auto simp: runDefinition_def)
  qed (simp add: runDefinition_def Inr)
qed (simp add: runDefinition_def)

lemma job_returns: "definition_ok en dsl \<Longrightarrow> processWorkflowRunJob en j rows (Some (p, dsl)) w \<noteq> None"
  by (simp add: processWorkflowRunJob_def Let_def runDefinition_returns del: not_None_eq split: option.split)

fun drain :: "env list \<Rightarrow> job \<Rightarrow> policy_rule list \<Rightarrow> json \<Rightarrow> world \<Rightarrow> world option" where
  \<comment> \<open>the queue delivers the job again while the run is queued; each delivery meets its own environment\<close>
  "drain [] j rows dsl w = Some w"
| "drain (en # ens) j rows dsl w =
     (if map_option dr_status (wo_run w) \<noteq> Some Queued then Some w
      else case processWorkflowRunJob en j rows (Some (True, dsl)) w of
        None \<Rightarrow> None
      | Some (e, w') \<Rightarrow> drain ens j rows dsl w')"

lemma drain_settles:
  assumes "\<forall>en \<in> set ens. definition_ok en dsl" and "wo_run w = Some run" and "0 \<le> dr_attemptCount run"
    and "dr_attemptCount run < dr_maxAttempts run \<or> dr_status run \<noteq> Queued"
    and "dr_maxAttempts run \<le> dr_attemptCount run + int (length ens)"
  shows "\<exists>w' run'. drain ens j rows dsl w = Some w' \<and> wo_run w' = Some run' \<and> dr_status run' \<noteq> Queued"
  using assms
proof (induction ens arbitrary: w run)
  case Nil
  then show ?case by auto
next
  case (Cons en ens)
  show ?case
  proof (cases "dr_status run = Queued")
    case False
    then show ?thesis using Cons.prems(2) by auto
  next
    case True
    obtain e w1 where p: "processWorkflowRunJob en j rows (Some (True, dsl)) w = Some (e, w1)"
      using job_returns [of en dsl j rows True w] Cons.prems(1) by fastforce
    obtain run1 where r: "wo_run w1 = Some run1" "dr_maxAttempts run1 = dr_maxAttempts run"
      "dr_attemptCount run1 = max 1 (dr_attemptCount run + 1)"
      "case e of JobThrew msg \<Rightarrow> dr_status run1 = Queued \<and> dr_error run1 = Some msg \<and> dr_attemptCount run1 < dr_maxAttempts run
        | JobReturned \<Rightarrow> dr_status run1 \<noteq> Queued"
      using attempt_outcome_run [OF p Cons.prems(2) True] by blast
    have "\<exists>w' run'. drain ens j rows dsl w1 = Some w' \<and> wo_run w' = Some run' \<and> dr_status run' \<noteq> Queued"
      by (rule Cons.IH [OF _ r(1)]) (use r(2-4) Cons.prems(1,3,5) in \<open>auto split: job_end.splits\<close>)
    then show ?thesis using True Cons.prems(2) p by simp
  qed
qed

text \<open>
  C14. Retries end: for a definition that is not a version 3 graph with a misnamed node, of a workflow that stays published,
  every delivery of the job returns, and with at least \<open>maxAttempts\<close> deliveries, each in whatever
  environment (executors, gateway, clock), a queued run that has not been tried does not stay queued.
\<close>
theorem retries_end:
  assumes "\<forall>en \<in> set ens. definition_ok en dsl" and "wo_run w = Some run" and "dr_attemptCount run = 0"
    and "1 \<le> dr_maxAttempts run" and "dr_maxAttempts run \<le> int (length ens)"
  shows "\<exists>w' run'. drain ens j rows dsl w = Some w' \<and> wo_run w' = Some run' \<and> dr_status run' \<noteq> Queued"
  using drain_settles [OF assms(1,2)] assms(3-5) by simp

theorem retries_end_witness:
  "\<exists>w' run'. drain [failing_env, failing_env] sample_job [] JNull (world_of (queued_run 2)) = Some w'
     \<and> wo_run w' = Some run' \<and> dr_status run' \<noteq> Queued"
proof -
  have q: "wo_run (world_of (queued_run 2)) = Some (queued_run 2)" "dr_attemptCount (queued_run 2) = 0"
    "dr_maxAttempts (queued_run 2) = 2" by (simp_all add: world_of_def queued_run_def)
  have "\<forall>en \<in> set [failing_env, failing_env]. definition_ok en JNull"
    using sample_ids_ok by (simp add: definition_ok_def failing_env_def sample_env_def)
  from retries_end [OF this q(1,2)] q(3) show ?thesis by simp
qed

end
