(* ===== verification/WorkerContinuation.thy ===== *)
theory WorkerContinuation
  imports WorkerOutcome
begin

text \<open>
  How a run that waits for a remote result goes on: \<open>apps/worker/src/continuations/worker.ts\<close> and the
  parts of \<open>apps/worker/src/gateway/client.ts\<close> it relies on.  A continuation job first reads (the run,
  its workflow, the clock, the gateway) and decides, then writes; the two halves are separate
  definitions because several continuation jobs and the run's own job work on the row at once.  The
  job \<open>j\<close> names the run; its requester is the one stored with the run.
\<close>

section \<open>The gateway client\<close>

datatype http_reply = HttpThrew | HttpReply nat "json option"
  \<comment> \<open>a status and the parsed body; \<open>HttpReply s None\<close> has a body that is not JSON\<close>

definition buildRequestId :: "string \<Rightarrow> dispatch \<Rightarrow> string" where
  "buildRequestId runId di = runId @ '':'' @ di_nodeId di @ '':'' @ int_text (di_attemptCount di)"

definition http_ok :: "nat \<Rightarrow> bool" where
  "http_ok s \<longleftrightarrow> 200 \<le> s \<and> s < 300"

definition dispatchResponseSchema :: "json \<Rightarrow> json option" where
  \<comment> \<open>the accepted response, without unknown properties\<close>
  "dispatchResponseSchema v =
     (case asObject (Some v) of
        None \<Rightarrow> None
      | Some fs \<Rightarrow>
          (case asString (jget fs ''status'') of
             None \<Rightarrow> None
           | Some st \<Rightarrow>
               if st \<notin> {''succeeded'', ''failed''} then None
               else if jget fs ''error'' \<noteq> None \<and> \<not> truthy (asString (jget fs ''error'')) then None
               else Some (JObj ([(''status'', JStr st)]
                 @ (case jget fs ''output'' of None \<Rightarrow> [] | Some x \<Rightarrow> [(''output'', x)])
                 @ (case jget fs ''error'' of None \<Rightarrow> [] | Some x \<Rightarrow> [(''error'', x)])))))"

definition fetchGatewayResult :: "bool \<Rightarrow> http_reply \<Rightarrow> string + json" where
  \<comment> \<open>\<open>configured\<close>: the gateway's URL and token are set\<close>
  "fetchGatewayResult configured reply =
     (if \<not> configured then Inl ''GATEWAY_UNAVAILABLE''
      else case reply of
        HttpThrew \<Rightarrow> Inl ''GATEWAY_UNAVAILABLE''
      | HttpReply s body \<Rightarrow>
          if s = 404 then Inl ''RESULT_NOT_READY''
          else if \<not> http_ok s then Inl ''GATEWAY_UNAVAILABLE''
          else (case body of
                  None \<Rightarrow> Inl ''GATEWAY_UNAVAILABLE''
                | Some v \<Rightarrow> (case dispatchResponseSchema v of
                     None \<Rightarrow> Inl ''GATEWAY_RESPONSE_INVALID'' | Some r \<Rightarrow> Inr r)))"

definition asyncDispatchResponseSchema :: "json \<Rightarrow> string option" where
  \<comment> \<open>the request id of an accepted response\<close>
  "asyncDispatchResponseSchema v =
     (case asObject (Some v) of
        None \<Rightarrow> None
      | Some fs \<Rightarrow>
          if asBool (jget fs ''dispatched'') = None then None
          else if jget fs ''cached'' \<noteq> None \<and> asBool (jget fs ''cached'') = None then None
          else (case asString (jget fs ''requestId'') of Some r \<Rightarrow> if r = '''' then None else Some r | None \<Rightarrow> None))"

definition dispatchViaGatewayAsync :: "bool \<Rightarrow> string \<Rightarrow> (dispatch \<Rightarrow> http_reply) \<Rightarrow> dispatch \<Rightarrow> string + string" where
  \<comment> \<open>an empty body is the body \<open>null\<close>; \<open>SyntaxError\<close> stands for the exception of \<open>JSON.parse\<close>\<close>
  "dispatchViaGatewayAsync configured runId post di =
     (if \<not> configured then Inl ''GATEWAY_NOT_CONFIGURED''
      else case post di of
        HttpThrew \<Rightarrow> Inl ''GATEWAY_UNAVAILABLE''
      | HttpReply s body \<Rightarrow>
          if \<not> http_ok s then Inl (if s = 503 then ''NO_AGENT_AVAILABLE'' else ''GATEWAY_DISPATCH_FAILED'')
          else (case body of
                  None \<Rightarrow> Inl ''SyntaxError''
                | Some v \<Rightarrow> (case asyncDispatchResponseSchema v of
                     None \<Rightarrow> Inl ''GATEWAY_RESPONSE_INVALID''
                   | Some r \<Rightarrow> if r \<noteq> buildRequestId runId di then Inl ''GATEWAY_RESPONSE_INVALID''
                       else Inr (buildRequestId runId di))))"

section \<open>Continuation jobs\<close>

record remote_event =
  rv_kind :: string
  rv_level :: event_level
  rv_body :: json  \<comment> \<open>the whole event\<close>

datatype cont_kind = RemotePoll | RemoteApply json | RemoteEvent remote_event

record continuation =
  co_requestId :: string
  co_attemptCount :: int
  co_kind :: cont_kind

record enqueued =
  eq_delayMs :: "int option"

record cont_env =
  ce_env :: env
  ce_fetch :: "string \<Rightarrow> string + json"
  ce_remoteEventMaxChars :: nat
  ce_retryBackoffMs :: int

datatype cont_action =
    ContIgnore
  | ContNodeMissing
  | ContEvent wf_node remote_event
  | ContRetryLater string
  | ContFailure wf_node string json int  \<comment> \<open>error, output and the run's \<open>maxAttempts\<close>\<close>
  | ContSuccess wf_node json "run_output option"  \<comment> \<open>result and the output of the run as read\<close>
  | ContInvalidDsl string

definition retryDelayMs :: "int \<Rightarrow> int \<Rightarrow> int" where
  "retryDelayMs base attemptCount = min 60000 (base * 2 ^ nat (min 10 (max 1 attemptCount) - 1))"

definition blocked_node :: "wf_dsl_any \<Rightarrow> db_run \<Rightarrow> wf_node option" where
  "blocked_node dsl run = (case dsl of
     DslV2 d \<Rightarrow> let i = nat (max 0 (dr_cursorNodeIndex run)) in
       if i < length (d2_nodes d) then Some (d2_nodes d ! i) else None
   | DslV3 d \<Rightarrow> (case dr_blockedNodeId run of None \<Rightarrow> None | Some k \<Rightarrow> if k = '''' then None else jget (d3_nodes d) k))"

definition remote_status :: "json \<Rightarrow> string option" where
  "remote_status r = asString (get_property r ''status'')"

definition remote_outcome :: "wf_node \<Rightarrow> json \<Rightarrow> db_run \<Rightarrow> cont_action" where
  "remote_outcome node result run =
     (if \<not> truthyJ (Some result) then ContIgnore
      else if remote_status result = Some ''failed'' then
        ContFailure node (qq (asString (get_property result ''error'')) ''NODE_EXECUTION_FAILED'')
          (qq (nullishJ (get_property result ''output'')) JNull) (dr_maxAttempts run)
      else ContSuccess node result (dr_output run))"

definition decideContinuation :: "cont_env \<Rightarrow> continuation \<Rightarrow> json option \<Rightarrow> world \<Rightarrow> cont_action" where
  \<comment> \<open>the reading half of \<open>processContinuationPayload\<close>; the third argument is the workflow's \<open>dsl\<close>\<close>
  "decideContinuation ce c workflow w =
     (case wo_run w of
        None \<Rightarrow> ContIgnore
      | Some run \<Rightarrow>
          if dr_status run \<noteq> Running then ContIgnore
          else if \<not> truthy (dr_blockedRequestId run) \<or> dr_blockedRequestId run \<noteq> Some (co_requestId c) then ContIgnore
          else if dr_attemptCount run \<noteq> co_attemptCount c then ContIgnore
          else case workflow of
            None \<Rightarrow> ContIgnore
          | Some json \<Rightarrow> (case en_parse (ce_env ce) json of
              Inl err \<Rightarrow> ContInvalidDsl err
            | Inr dsl \<Rightarrow> (case blocked_node dsl run of
                None \<Rightarrow> ContNodeMissing
              | Some node \<Rightarrow> (case co_kind c of
                  RemoteEvent ev \<Rightarrow> ContEvent node ev
                | RemoteApply result \<Rightarrow> remote_outcome node result run
                | RemotePoll \<Rightarrow>
                    if (case dr_blockedTimeoutAt run of None \<Rightarrow> False | Some t \<Rightarrow> t \<le> now (ce_env ce) w)
                    then ContFailure node ''NODE_EXECUTION_TIMEOUT'' JNull (dr_maxAttempts run)
                    else (case ce_fetch ce (co_requestId c) of
                            Inr result \<Rightarrow> remote_outcome node result run
                          | Inl err \<Rightarrow> if err \<in> {''RESULT_NOT_READY'', ''GATEWAY_UNAVAILABLE''} then ContRetryLater err
                              else ContFailure node err JNull (dr_maxAttempts run))))))"

definition db_clearWorkflowRunBlock :: "string \<Rightarrow> run_output \<Rightarrow> world \<Rightarrow> bool \<times> world" where
  \<comment> \<open>the \<open>UPDATE\<close> is conditional on the request the run is blocked on; whether a row was updated\<close>
  "db_clearWorkflowRunBlock expectedRequestId out w =
     (case wo_run w of
        None \<Rightarrow> (False, w)
      | Some run \<Rightarrow>
          if dr_blockedRequestId run = Some expectedRequestId
          then (True, on_run (\<lambda>r. (unblocked r)\<lparr>dr_output := Some out\<rparr>) w) else (False, w))"

definition applyRemoteFailure :: "cont_env \<Rightarrow> continuation \<Rightarrow> wf_node \<Rightarrow> string \<Rightarrow> json \<Rightarrow> int \<Rightarrow> world \<Rightarrow> world \<times> enqueued list" where
  \<comment> \<open>the failed step the code appends to its local list of steps is never stored\<close>
  "applyRemoteFailure ce c node msg out maxAttempts w =
     (let en = ce_env ce; attempt = co_attemptCount c;
          payload = JObj [(''attemptCount'', JNum attempt), (''maxAttempts'', JNum maxAttempts), (''error'', JStr msg)];
          w1 = appendEvent attempt ''node_failed'' LevelError (Some node) (Some msg) (summarizeForEvent en (Some out)) w
      in if attempt \<ge> maxAttempts
         then (appendEvent attempt ''run_failed'' LevelError None (Some msg) payload (db_markWorkflowRunFailed en msg w1), [])
         else
           let delayMs = retryDelayMs (ce_retryBackoffMs ce) attempt;
               w2 = db_markWorkflowRunQueuedForRetry msg (Some (now en w1 + delayMs)) (advance_clock w1)
           in (appendEvent attempt ''run_retried'' LevelWarn None (Some msg) payload w2, [\<lparr>eq_delayMs = Some delayMs\<rparr>]))"

definition pending_runtime :: "continuation \<Rightarrow> json \<Rightarrow> run_output option \<Rightarrow> json option" where
  "pending_runtime c result out =
     mergeRuntime (parseRuntimeFromRunOutput out)
       (Some (JObj [(''pendingRemoteResult'', JObj [(''requestId'', JStr (co_requestId c)), (''result'', result)])]))"

definition applyRemoteSuccess :: "cont_env \<Rightarrow> continuation \<Rightarrow> wf_node \<Rightarrow> json \<Rightarrow> run_output option \<Rightarrow> world \<Rightarrow> world \<times> enqueued list" where
  "applyRemoteSuccess ce c node result out w =
     (let en = ce_env ce;
          progress = buildProgressOutput (parseStepsFromRunOutput out) (pending_runtime c result out);
          w1 = appendEvent (co_attemptCount c) ''remote_result_received'' LevelInfo (Some node) None
                 (summarizeForEvent en (Some (qq (nullishJ (get_property result ''output'')) JNull))) w
      in case db_clearWorkflowRunBlock (co_requestId c) progress w1 of
           (False, w2) \<Rightarrow> (w2, [])
         | (True, w2) \<Rightarrow> (w2, [\<lparr>eq_delayMs = None\<rparr>]))"

definition commitContinuation :: "cont_env \<Rightarrow> continuation \<Rightarrow> cont_action \<Rightarrow> world \<Rightarrow> job_end \<times> world \<times> enqueued list" where
  \<comment> \<open>the writing half of \<open>processContinuationPayload\<close>\<close>
  "commitContinuation ce c act w0 =
     (let en = ce_env ce; w = advance_clock w0 in case act of
        ContIgnore \<Rightarrow> (JobReturned, w, [])
      | ContInvalidDsl err \<Rightarrow> (JobThrew err, w, [])
      | ContRetryLater err \<Rightarrow> (JobThrew err, w, [])
      | ContNodeMissing \<Rightarrow> (JobReturned, db_markWorkflowRunFailed en ''REMOTE_RESULT_APPLY_FAILED'' w, [])
      | ContEvent node ev \<Rightarrow>
          (JobReturned, appendEvent (co_attemptCount c) ''remote_event'' (rv_level ev) (Some node) (Some (rv_kind ev))
             (summarizeForEvent (en\<lparr>en_eventMaxChars := ce_remoteEventMaxChars ce\<rparr>) (Some (rv_body ev))) w, [])
      | ContFailure node msg out maxAttempts \<Rightarrow> (JobReturned, applyRemoteFailure ce c node msg out maxAttempts w)
      | ContSuccess node result out \<Rightarrow> (JobReturned, applyRemoteSuccess ce c node result out w))"

definition processContinuationPayload :: "cont_env \<Rightarrow> continuation \<Rightarrow> json option \<Rightarrow> world \<Rightarrow> job_end \<times> world \<times> enqueued list" where
  "processContinuationPayload ce c workflow w = commitContinuation ce c (decideContinuation ce c workflow w) w"

end
