(* ===== verification/WorkerResume.thy ===== *)
theory WorkerResume
  imports WorkerContinuation
begin

text \<open>
  What continuations guarantee: a request resumes its run at most once, however continuation jobs
  interleave, and the result a run is resumed with reaches the node the run was blocked on.
\<close>

section \<open>Interleavings of continuation jobs\<close>

record cont_sys =
  sy_world :: world
  sy_flights :: "(continuation \<times> cont_action) list"  \<comment> \<open>jobs that have read and not written yet\<close>
  sy_queue :: "enqueued list"
  sy_seen :: "string set"  \<comment> \<open>requests the run has been blocked on\<close>
  sy_applied :: "string list"  \<comment> \<open>requests whose result resumed the run\<close>

definition blocked_request :: "world \<Rightarrow> string option" where
  "blocked_request w = Option.bind (wo_run w) dr_blockedRequestId"

inductive cont_step :: "cont_sys \<Rightarrow> cont_sys \<Rightarrow> bool" where
  deliver: "cont_step s (s\<lparr>sy_flights := sy_flights s @ [(c, decideContinuation ce c workflow (sy_world s))]\<rparr>)"
| commit: "sy_flights s = xs @ (c, act) # ys \<Longrightarrow> commitContinuation ce c act (sy_world s) = (e, w', qs) \<Longrightarrow>
    cont_step s (s\<lparr>sy_world := w', sy_flights := xs @ ys, sy_queue := sy_queue s @ qs,
      sy_applied := sy_applied s @ (if qs = [\<lparr>eq_delayMs = None\<rparr>] then [co_requestId c] else [])\<rparr>)"
| other: "blocked_request w' = None \<or> blocked_request w' = blocked_request (sy_world s)
      \<or> (\<exists>q. blocked_request w' = Some q \<and> q \<notin> sy_seen s) \<Longrightarrow>
    cont_step s (s\<lparr>sy_world := w', sy_seen := sy_seen s \<union> set_option (blocked_request w')\<rparr>)"
    \<comment> \<open>anything else that happens to the row: it may block the run, on a request not used before\<close>

definition cont_init :: "world \<Rightarrow> cont_sys" where
  "cont_init w = \<lparr>sy_world = w, sy_flights = [], sy_queue = [], sy_seen = set_option (blocked_request w), sy_applied = []\<rparr>"

definition resumed_once :: "cont_sys \<Rightarrow> bool" where
  "resumed_once s \<longleftrightarrow> (\<forall>q. blocked_request (sy_world s) = Some q \<longrightarrow> q \<in> sy_seen s \<and> q \<notin> set (sy_applied s))
     \<and> set (sy_applied s) \<subseteq> sy_seen s \<and> distinct (sy_applied s)
     \<and> length (filter (\<lambda>e. eq_delayMs e = None) (sy_queue s)) = length (sy_applied s)"

lemma blocked_request_simps [simp]:
  "blocked_request (appendEvent a t l n m p w) = blocked_request w" "blocked_request (advance_clock w) = blocked_request w"
  "blocked_request (db_markWorkflowRunFailed en msg w) = None"
  "blocked_request (db_markWorkflowRunQueuedForRetry msg at w) = None"
  by (cases "wo_run w"; simp add: blocked_request_def appendEvent_def advance_clock_def db_markWorkflowRunFailed_def
      db_markWorkflowRunQueuedForRetry_def on_run_def unblocked_def)+

lemma clear_outcome:
  assumes "db_clearWorkflowRunBlock q out w = (cleared, w')"
  shows "if cleared then blocked_request w = Some q \<and> blocked_request w' = None else w' = w"
  using assms by (auto simp: db_clearWorkflowRunBlock_def blocked_request_def on_run_def unblocked_def
      split: option.splits if_splits)

lemma commit_outcome:
  assumes "commitContinuation ce c act w = (e, w', qs)"
  shows "(blocked_request w' = blocked_request w \<or> blocked_request w' = None)
    \<and> (qs = [\<lparr>eq_delayMs = None\<rparr>] \<and> blocked_request w = Some (co_requestId c) \<and> blocked_request w' = None
       \<or> (\<exists>d. qs = [\<lparr>eq_delayMs = Some d\<rparr>]) \<or> qs = [])"
proof (cases act)
  case (ContSuccess node result out)
  let ?w1 = "appendEvent (co_attemptCount c) ''remote_result_received'' LevelInfo (Some node) None
    (summarizeForEvent (ce_env ce) (Some (qq (nullishJ (get_property result ''output'')) JNull))) (advance_clock w)"
  let ?p = "buildProgressOutput (parseStepsFromRunOutput out) (pending_runtime c result out)"
  obtain cleared w2 where c: "db_clearWorkflowRunBlock (co_requestId c) ?p ?w1 = (cleared, w2)" by fastforce
  from clear_outcome [OF c] c assms ContSuccess show ?thesis
    by (auto simp: commitContinuation_def applyRemoteSuccess_def Let_def split: if_splits bool.splits)
qed (use assms in \<open>auto simp: commitContinuation_def applyRemoteFailure_def Let_def split: if_splits\<close>)

lemma success_needs_block:
  assumes "blocked_request w \<noteq> Some (co_requestId c)"
  shows "snd (snd (commitContinuation ce c (ContSuccess node result out) w)) = []"
proof -
  have "db_clearWorkflowRunBlock (co_requestId c) p v = (False, v)" if "blocked_request v = blocked_request w" for p v
    using assms that by (auto simp: db_clearWorkflowRunBlock_def blocked_request_def split: option.splits)
  then show ?thesis by (simp add: commitContinuation_def applyRemoteSuccess_def Let_def)
qed

lemma resumed_once_step:
  assumes "cont_step s s'" and "resumed_once s"
  shows "resumed_once s'"
  using assms(1)
proof (cases rule: cont_step.cases)
  case (commit xs c act ys ce e w' qs)
  from commit_outcome [OF commit(3)] assms(2) commit(1) show ?thesis
    by (auto simp: resumed_once_def)
qed (use assms(2) in \<open>auto simp: resumed_once_def\<close>)

text \<open>
  C7. A remote result resumes its run once: however the continuation jobs of a run (polls, pushed
  results, events, repeated deliveries) and the run's other jobs interleave between their reads and
  their writes, where the run is blocked only on requests not used before, each request resumes the run at most once, and the run's job is queued for immediate
  continuation exactly once per resumed request.
\<close>
theorem remote_result_applied_once:
  assumes "cont_step\<^sup>*\<^sup>* (cont_init w) s"
  shows "distinct (sy_applied s) \<and> length (filter (\<lambda>e. eq_delayMs e = None) (sy_queue s)) = length (sy_applied s)"
proof -
  from assms have "resumed_once s"
  proof (induction rule: rtranclp_induct)
    case base
    then show ?case by (simp add: resumed_once_def cont_init_def)
  next
    case (step s s')
    then show ?case using resumed_once_step by blast
  qed
  then show ?thesis by (simp add: resumed_once_def)
qed

definition blocked_run :: db_run where
  "blocked_run = (queued_run 3)\<lparr>dr_status := Running, dr_attemptCount := 1, dr_blockedRequestId := Some ''q'',
     dr_blockedNodeId := Some ''big''\<rparr>"

definition sample_cont_env :: cont_env where
  "sample_cont_env = \<lparr>ce_env = sample_env, ce_fetch = (\<lambda>_. Inl ''RESULT_NOT_READY''), ce_remoteEventMaxChars = 20000,
     ce_retryBackoffMs = 5000\<rparr>"

definition sample_result :: json where
  "sample_result = JObj [(''status'', JStr ''succeeded''), (''output'', JNum 1)]"

definition sample_continuation :: continuation where
  "sample_continuation = \<lparr>co_requestId = ''q'', co_attemptCount = 1, co_kind = RemoteApply sample_result\<rparr>"

theorem remote_result_applied_once_witness:
  \<comment> \<open>two deliveries of one result read before either writes\<close>
  "\<exists>s. cont_step\<^sup>*\<^sup>* (cont_init (world_of blocked_run)) s \<and> sy_applied s = [''q''] \<and> sy_flights s = []
     \<and> length (filter (\<lambda>e. eq_delayMs e = None) (sy_queue s)) = 1"
proof -
  let ?c = sample_continuation and ?ce = sample_cont_env and ?w = "world_of blocked_run"
  let ?act = "decideContinuation ?ce ?c (Some JNull) ?w"
  obtain e1 w1 q1 where c1: "commitContinuation ?ce ?c ?act ?w = (e1, w1, q1)" by (metis prod_cases3)
  obtain e2 w2 q2 where c2: "commitContinuation ?ce ?c ?act w1 = (e2, w2, q2)" by (metis prod_cases3)
  have "snd (snd (commitContinuation ?ce ?c ?act ?w)) = [\<lparr>eq_delayMs = None\<rparr>]" by code_simp
  then have q1: "q1 = [\<lparr>eq_delayMs = None\<rparr>]" using c1 by simp
  have "blocked_request w1 = None" using commit_outcome [OF c1] q1 by auto
  then have b1: "blocked_request w1 \<noteq> Some (co_requestId ?c)" by simp
  have "(case ?act of ContSuccess _ _ _ \<Rightarrow> True | _ \<Rightarrow> False)" by code_simp
  then obtain n r out where act: "?act = ContSuccess n r out" by (auto split: cont_action.splits)
  have q2: "q2 = []" using success_needs_block [OF b1, of ?ce n r out] c2 [unfolded act] by simp
  let ?s0 = "cont_init ?w"
  let ?s1 = "?s0\<lparr>sy_flights := sy_flights ?s0 @ [(?c, decideContinuation ?ce ?c (Some JNull) (sy_world ?s0))]\<rparr>"
  let ?s2 = "?s1\<lparr>sy_flights := sy_flights ?s1 @ [(?c, decideContinuation ?ce ?c (Some JNull) (sy_world ?s1))]\<rparr>"
  let ?s3 = "?s2\<lparr>sy_world := w1, sy_flights := [] @ [(?c, ?act)], sy_queue := sy_queue ?s2 @ q1,
      sy_applied := sy_applied ?s2 @ (if q1 = [\<lparr>eq_delayMs = None\<rparr>] then [co_requestId ?c] else [])\<rparr>"
  let ?s4 = "?s3\<lparr>sy_world := w2, sy_flights := [] @ [], sy_queue := sy_queue ?s3 @ q2,
      sy_applied := sy_applied ?s3 @ (if q2 = [\<lparr>eq_delayMs = None\<rparr>] then [co_requestId ?c] else [])\<rparr>"
  have "cont_step ?s0 ?s1" "cont_step ?s1 ?s2" by (rule cont_step.deliver)+
  moreover have "cont_step ?s2 ?s3"
    by (rule cont_step.commit [where act = ?act and ce = ?ce and e = e1]) (simp_all add: cont_init_def c1)
  moreover have "cont_step ?s3 ?s4"
    by (rule cont_step.commit [where act = ?act and ce = ?ce and e = e2]) (simp_all add: c2)
  ultimately have r: "cont_step\<^sup>*\<^sup>* ?s0 ?s4" by (meson converse_rtranclp_into_rtranclp r_into_rtranclp)
  moreover have "sy_applied ?s4 = [''q'']" "sy_flights ?s4 = []"
    using q1 q2 by (simp_all add: cont_init_def sample_continuation_def)
  ultimately show ?thesis using remote_result_applied_once [OF r] by auto
qed

section \<open>The node the result is for\<close>

definition awaits :: "env \<Rightarrow> wf_dsl_v3 \<Rightarrow> frame \<Rightarrow> world \<Rightarrow> bool" where
  \<comment> \<open>the run is blocked on the first ready node of the graph, with these steps stored\<close>
  "awaits en d fr w \<longleftrightarrow> (\<exists>k ks node run. readyNodes (en_lc en) d (stepByNodeId (fr_steps fr)) = k # ks
     \<and> jget (d3_nodes d) k = Some node \<and> wo_run w = Some run \<and> dr_blockedNodeId run = Some (nd_id node)
     \<and> dr_output run = Some (progress fr))"

lemma dispatch_blocks:
  assumes "dispatchBlock en attempt node blk cursor fr w = (NodeBlocked, w')" and "wo_run w = Some run0"
  shows "\<exists>run. wo_run w' = Some run \<and> dr_blockedNodeId run = Some (nd_id node) \<and> dr_output run = Some (progress fr)"
  using assms by (auto simp: dispatchBlock_def Let_def awaitRemote_def markWorkflowRunBlocked_def on_run_def advance_clock_def
      appendEvent_def split: option.splits sum.splits if_splits)

lemma core_has_run: "run_core w' = run_core w \<Longrightarrow> wo_run w = Some run0 \<Longrightarrow> \<exists>run. wo_run w' = Some run"
  by (cases "wo_run w'") (auto simp: run_core_def)

lemma runExecutor_blocks:
  assumes "runExecutor en j attempt snap cursor node input fr w = (NodeBlocked, fr', w')" and "wo_run w = Some run0"
  shows "\<exists>run. wo_run w' = Some run \<and> dr_blockedNodeId run = Some (nd_id node) \<and> dr_output run = Some (progress fr')"
proof (cases "en_execute en (node_type (nd_body node))")
  case None
  with assms show ?thesis by (auto simp: runExecutor_def)
next
  case (Some f)
  obtain calls res where f: "f \<lparr>xc_node = node, xc_attemptCount = attempt, xc_runInput = input, xc_steps = fr_steps fr,
      xc_runtime = fr_runtime fr, xc_pendingRemoteResult = pendingRemoteResult (fr_runtime fr)\<rparr> = (calls, res)"
    by fastforce
  obtain fr1 w1 where c: "execCalls snap cursor attempt node calls fr w = (fr1, w1)" by fastforce
  obtain run1 where run1: "wo_run w1 = Some run1" using core_has_run [OF core_execCalls [OF c] assms(2)] by blast
  show ?thesis
  proof (cases res)
    case (Inl err)
    with assms Some f c show ?thesis by (auto simp: runExecutor_def)
  next
    case (Inr x)
    with assms(1) Some f c have "xr_status x = ExecBlocked"
      by (auto simp: runExecutor_def Let_def split: exec_status.splits)
    with assms(1) Some f c Inr
    have "dispatchBlock en attempt node (xr_block x) cursor (fr1\<lparr>fr_runtime := mergeRuntime (fr_runtime fr1) (xr_runtime x)\<rparr>) w1
        = (NodeBlocked, w')" and "fr' = fr1\<lparr>fr_runtime := mergeRuntime (fr_runtime fr1) (xr_runtime x)\<rparr>"
      by (auto simp: runExecutor_def Let_def split: prod.splits)
    then show ?thesis using dispatch_blocks [OF _ run1] by blast
  qed
qed

lemma request_blocks:
  assumes "wo_run w = Some run0"
  shows "\<exists>run. wo_run (requestApproval en j attempt node d cursor fr w) = Some run
    \<and> dr_blockedNodeId run = Some (nd_id node) \<and> dr_output run = Some (progress fr)"
  using assms by (simp add: requestApproval_def Let_def createWorkflowApprovalRequest_def markWorkflowRunBlocked_def
      on_run_def advance_clock_def appendEvent_def)

lemma executeNode_blocks:
  assumes "executeNode en j attempt rules snap cursor node input fr w = (NodeBlocked, fr', w')" and "wo_run w = Some run0"
  shows "\<exists>run. wo_run w' = Some run \<and> dr_blockedNodeId run = Some (nd_id node) \<and> dr_output run = Some (progress fr')"
proof -
  let ?w0 = "appendEvent attempt ''node_started'' LevelInfo (Some node) None JNull w"
  have w0: "wo_run ?w0 = Some run0" "wo_run (advance_clock ?w0) = Some run0" using assms(2) by (simp_all add: appendEvent_def advance_clock_def)
  from assms(1) consider
      "runExecutor en j attempt snap cursor node input fr ?w0 = (NodeBlocked, fr', w')"
    | "runExecutor en j attempt snap cursor node input fr (advance_clock ?w0) = (NodeBlocked, fr', w')"
    | d where "fr' = fr" "w' = requestApproval en j attempt node d cursor fr (advance_clock ?w0)"
    by (auto simp: executeNode_def Let_def split: policy_effect.splits if_splits)
  then show ?thesis
  proof cases
    case 1
    then show ?thesis using runExecutor_blocks w0(1) by blast
  next
    case 2
    then show ?thesis using runExecutor_blocks w0(2) by blast
  next
    case 3
    then show ?thesis using request_blocks [OF w0(2)] by simp
  qed
qed

lemma localNode_not_blocked: "localNode en attempt d sb node input fr w \<noteq> (NodeBlocked, fr', w')"
  by (simp add: localNode_def Let_def split: node_body.split option.split)

lemma graphNode_blocks:
  assumes "graphNode en j attempt rules d sb node input fr w = (NodeBlocked, fr', w')" and "wo_run w = Some run0"
  shows "\<exists>run. wo_run w' = Some run \<and> dr_blockedNodeId run = Some (nd_id node) \<and> dr_output run = Some (progress fr')"
  using assms by (auto simp: graphNode_def localNode_not_blocked split: if_splits dest: executeNode_blocks)

lemma graphLoop_awaits:
  assumes "graphLoop en j attempt rules d input (stepByNodeId (fr_steps fr)) fr w = Some (LoopBlocked, fr', sb', w')"
    and "wo_run w \<noteq> None"
  shows "awaits en d fr' w'"
proof -
  let ?P = "\<lambda>en j attempt rules d input sb fr w out. sb = stepByNodeId (fr_steps fr) \<longrightarrow> wo_run w \<noteq> None \<longrightarrow>
    (\<forall>fr' sb' w'. out = (LoopBlocked, fr', sb', w') \<longrightarrow> awaits en d fr' w')"
  have "?P en j attempt rules d input (stepByNodeId (fr_steps fr)) fr w (LoopBlocked, fr', sb', w')"
  proof (rule graphLoop.raw_induct [where P = ?P, OF _ assms(1)], intro impI allI, goal_cases)
    case (1 f en j attempt rules d input sb fr w out fr' sb' w')
    show ?case
    proof (cases "readyNodes (en_lc en) d sb")
      case Nil
      then show ?thesis using 1(2,5) by simp
    next
      case (Cons k ks)
      show ?thesis
      proof (cases "if k = '''' then None else jget (d3_nodes d) k")
        case None
        then show ?thesis using 1(2,5) Cons by simp
      next
        case (Some node)
        obtain q fr1 w1 where g: "graphNode en j attempt rules d sb node input fr w = (q, fr1, w1)" by (metis prod_cases3)
        note ext = graphNode_extends [OF g]
        obtain run0 where run0: "wo_run w = Some run0" using 1(4) by blast
        obtain fr2 w2 where c: "checkpointProgress (graph_snapshot en d (note_last fr1 sb)) 0 fr1 w1 = (fr2, w2)" by fastforce
        show ?thesis
        proof (cases q)
          case (NodeThrew msg)
          then show ?thesis using 1(2,5) Cons Some g by simp
        next
          case NodeBlocked
          then have o: "fr' = fr1" "w' = w1" using 1(2,5) Cons Some g by simp_all
          have "fr_steps fr1 = fr_steps fr" using ext NodeBlocked by (simp add: extends_by_def)
          then show ?thesis
            using graphNode_blocks [OF g [unfolded NodeBlocked] run0] Cons Some 1(3) o
            by (auto simp: awaits_def split: if_splits)
        next
          case NodeDone
          then have l: "f en j attempt rules d input (note_last fr1 sb) fr2 w2 = Some (LoopBlocked, fr', sb', w')"
            using 1(2,5) Cons Some g c by (simp add: Let_def)
          obtain s where s: "fr_steps fr1 = fr_steps fr @ [s]" using ext NodeDone by (auto simp: extends_by_def)
          have sb: "note_last fr1 sb = stepByNodeId (fr_steps fr2)"
            using s 1(3) checkpoint_steps [OF c] by (simp add: note_last_def stepByNodeId_snoc)
          have w1: "run_core w1 = run_core w" using core_graphNode [of en j attempt rules d sb node input fr w] g by simp
          have "wo_run w2 \<noteq> None"
            using core_has_run [OF trans [OF core_checkpoint [OF c] w1] run0] by simp
          with 1(1) [OF l] sb show ?thesis by blast
        qed
      qed
    qed
  qed
  then show ?thesis using assms(2) by blast
qed


lemma endJob_running:
  assumes "endJob en attempt limit (r, fr, w) = (e, w')" and "wo_run w' = Some run" and "dr_status run = Running"
  shows "r = LoopBlocked \<and> w' = w"
  using assms
  by (cases r) (auto simp: endJob_def Let_def appendEvent_def db_markWorkflowRunSucceeded_def db_markWorkflowRunFailed_def
      db_markWorkflowRunQueuedForRetry_def advance_clock_def on_run_def unblocked_def split: if_splits)

lemma runDefinition_awaits:
  assumes "runDefinition en j attempt rules dsl input cursor fr w = Some (LoopBlocked, fr', w')"
    and "en_parse en dsl = Inr (DslV3 d)" and "wo_run w \<noteq> None"
  shows "awaits en d fr' w'"
  using assms(1,2) graphLoop_awaits [OF _ assms(3)]
  by (fastforce simp: runDefinition_def finishGraph_def Let_def split: option.splits if_splits prod.splits)

lemma job_awaits:
  assumes "processWorkflowRunJob en j rows (Some (True, dsl)) w = Some (e, w')"
    and "wo_run w = Some run0" and "dr_status run0 = Queued \<or> dr_status run0 = Running \<and> \<not> truthy (dr_blockedRequestId run0)"
    and "en_parse en dsl = Inr (DslV3 d)" and "wo_run w' = Some run" and "dr_status run = Running"
  shows "\<exists>fr. awaits en d fr w'"
proof -
  obtain attempt cursor fr w1 where w1: "wo_run w1 \<noteq> None"
    and "map_option (endJob en attempt (dr_maxAttempts run0)) (runDefinition en j attempt
        (listOrganizationPolicyRules str_cmp (jb_organizationId j) True rows) dsl (dr_input run0) cursor fr w1) = Some (e, w')"
  proof (cases "dr_status run0 = Queued")
    case True
    let ?a = "max 1 (dr_attemptCount run0 + 1)"
    let ?w1 = "db_markWorkflowRunRunning en ?a
      (appendEvent ?a ''run_started'' LevelInfo None None
        (JObj [(''runId'', JStr (jb_runId j)), (''workflowId'', JStr (jb_workflowId j)),
          (''orgId'', JStr (jb_organizationId j)), (''attemptCount'', JNum ?a)]) w)"
    have w1: "wo_run ?w1 \<noteq> None"
      using assms(2) by (simp add: db_markWorkflowRunRunning_def appendEvent_def advance_clock_def on_run_def)
    have "map_option (endJob en ?a (dr_maxAttempts run0)) (runDefinition en j ?a
        (listOrganizationPolicyRules str_cmp (jb_organizationId j) True rows) dsl (dr_input run0) 0
        \<lparr>fr_steps = [], fr_runtime = None\<rparr> ?w1) = Some (e, w')"
      using assms(1,2) True by (simp add: processWorkflowRunJob_def Let_def)
    from that [OF w1 this] show ?thesis .
  next
    case False
    then have "dr_status run0 = Running" "\<not> truthy (dr_blockedRequestId run0)" using assms(3) by auto
    then have "map_option (endJob en (max 1 (dr_attemptCount run0)) (dr_maxAttempts run0))
        (runDefinition en j (max 1 (dr_attemptCount run0))
          (listOrganizationPolicyRules str_cmp (jb_organizationId j) True rows) dsl (dr_input run0)
          (nat (max 0 (dr_cursorNodeIndex run0)))
          \<lparr>fr_steps = parseStepsFromRunOutput (dr_output run0), fr_runtime = parseRuntimeFromRunOutput (dr_output run0)\<rparr> w)
        = Some (e, w')"
      using assms(1,2) by (simp add: processWorkflowRunJob_def Let_def)
    from that [OF _ this] assms(2) show ?thesis by blast
  qed
  then obtain out where out: "runDefinition en j attempt (listOrganizationPolicyRules str_cmp (jb_organizationId j) True rows)
      dsl (dr_input run0) cursor fr w1 = Some out" "endJob en attempt (dr_maxAttempts run0) out = (e, w')"
    by blast
  obtain r fr2 w2 where o: "out = (r, fr2, w2)" by (rule prod_cases3)
  note en = endJob_running [OF out(2) [unfolded o] assms(5,6)]
  with out(1) o have "runDefinition en j attempt (listOrganizationPolicyRules str_cmp (jb_organizationId j) True rows)
      dsl (dr_input run0) cursor fr w1 = Some (LoopBlocked, fr2, w')" by simp
  from runDefinition_awaits [OF this assms(4) w1] show ?thesis by blast
qed

lemma fold_jset_get:
  "jget (fold (\<lambda>(k, v) m. jset k v m) [(a, x)] m) a = Some x"
  by (simp add: jget_jset)

lemma pending_found: "pendingRemoteResult (pending_runtime c result out)
    = Some (JObj [(''requestId'', JStr (co_requestId c)), (''result'', result)])"
  by (cases "asObject (parseRuntimeFromRunOutput out)")
    (simp_all add: pendingRemoteResult_def pending_runtime_def mergeRuntime_def nullishJ_def jget_jset)

lemma pending_truthy: "truthyJ (pending_runtime c result out)"
  by (cases "asObject (parseRuntimeFromRunOutput out)") (simp_all add: pending_runtime_def mergeRuntime_def truthyJ_def)

text \<open>
  C15. The result reaches the node it was requested for: when the job of a run of a version 3 graph, whose nodes
  are stored under their own ids, leaves it blocked on
  a request and a successful result for that request arrives, the run is released and queued, keeps
  its steps, and the next job starts with the very node the run was blocked on as the first ready
  node of the graph, with the result pending for it.
\<close>
theorem remote_result_reaches_node:
  assumes "processWorkflowRunJob en j rows (Some (True, dsl)) w = Some (e, w1)"
    and "wo_run w = Some run0" and "dr_status run0 = Queued \<or> dr_status run0 = Running \<and> \<not> truthy (dr_blockedRequestId run0)"
    and "ce_env ce = en" and "en_parse en dsl = Inr (DslV3 d)" and "ids_ok d"
    and "wo_run w1 = Some run1" and "dr_status run1 = Running" and "dr_blockedRequestId run1 = Some q" and "q \<noteq> ''''"
    and "remote_status result = Some ''succeeded''"
    and "c = \<lparr>co_requestId = q, co_attemptCount = dr_attemptCount run1, co_kind = RemoteApply result\<rparr>"
  shows "\<exists>w2 run2 node ks. processContinuationPayload ce c (Some dsl) w1 = (JobReturned, w2, [\<lparr>eq_delayMs = None\<rparr>])
    \<and> wo_run w2 = Some run2 \<and> dr_status run2 = Running \<and> dr_blockedRequestId run2 = None
    \<and> parseStepsFromRunOutput (dr_output run2) = parseStepsFromRunOutput (dr_output run1)
    \<and> dr_blockedNodeId run1 = Some (nd_id node) \<and> jget (d3_nodes d) (nd_id node) = Some node
    \<and> readyNodes (en_lc en) d (stepByNodeId (parseStepsFromRunOutput (dr_output run2))) = nd_id node # ks
    \<and> pendingRemoteResult (parseRuntimeFromRunOutput (dr_output run2))
        = Some (JObj [(''requestId'', JStr q), (''result'', result)])"
proof -
  obtain fr where "awaits en d fr w1" using job_awaits [OF assms(1,2,3,5,7,8)] by blast
  then obtain k ks node where ready: "readyNodes (en_lc en) d (stepByNodeId (fr_steps fr)) = k # ks"
    and n: "jget (d3_nodes d) k = Some node" and b: "dr_blockedNodeId run1 = Some (nd_id node)"
    and o: "dr_output run1 = Some (progress fr)" using assms(7) by (auto simp: awaits_def)
  have k: "nd_id node = k" "k \<noteq> ''''" using assms(6) jget_in_set [OF n] by (auto simp: ids_ok_def)
  have t: "truthyJ (Some result)" using assms(11)
    by (auto simp: remote_status_def get_property_def truthyJ_def split: json.splits)
  have act: "decideContinuation ce c (Some dsl) w1 = ContSuccess node result (dr_output run1)"
    using assms(4,5,7,8,9,10,11,12) b k n t
    by (simp add: decideContinuation_def blocked_node_def remote_outcome_def truthy_def)
  have steps: "parseStepsFromRunOutput (dr_output run1) = fr_steps fr"
    by (simp add: o parseStepsFromRunOutput_def progress_def buildProgressOutput_def Let_def)
  let ?p = "buildProgressOutput (fr_steps fr) (pending_runtime c result (dr_output run1))"
  let ?run2 = "(unblocked run1)\<lparr>dr_output := Some ?p\<rparr>"
  have p: "parseStepsFromRunOutput (Some ?p) = fr_steps fr"
    "parseRuntimeFromRunOutput (Some ?p) = pending_runtime c result (dr_output run1)"
    using pending_truthy by (simp_all add: parseStepsFromRunOutput_def parseRuntimeFromRunOutput_def buildProgressOutput_def Let_def)
  have q: "co_requestId c = q" using assms(12) by simp
  obtain w2 where w2: "processContinuationPayload ce c (Some dsl) w1 = (JobReturned, w2, [\<lparr>eq_delayMs = None\<rparr>])"
    "wo_run w2 = Some ?run2"
    using assms(7,9) q
    by (simp add: processContinuationPayload_def act commitContinuation_def applyRemoteSuccess_def Let_def steps
        db_clearWorkflowRunBlock_def appendEvent_def advance_clock_def on_run_def)
  show ?thesis
    by (rule exI [of _ w2], rule exI [of _ ?run2], rule exI [of _ node], rule exI [of _ ks])
      (use w2 p b k n ready steps pending_found [of c result "dr_output run1"] q assms(8) in \<open>simp add: unblocked_def\<close>)
qed

definition remote_env :: env where
  \<comment> \<open>executors that ask for remote execution until they are given a result\<close>
  "remote_env = sample_env\<lparr>en_execute := (\<lambda>_. Some (\<lambda>ctx. ([], Inr (if xc_pendingRemoteResult ctx = None
     then ok_result\<lparr>xr_status := ExecBlocked, xr_block := Some \<lparr>bk_kind = ''connector.action'', bk_timeoutMs = None,
       bk_dispatchNodeId = None, bk_payload = None, bk_selector = None, bk_secret = None\<rparr>\<rparr>
     else ok_result))))\<rparr>"

theorem remote_result_reaches_node_witness:
  "\<exists>w1 w2. processWorkflowRunJob remote_env sample_job [] (Some (True, JNull)) (world_of (queued_run 3)) = Some (JobReturned, w1)
     \<and> processContinuationPayload (sample_cont_env\<lparr>ce_env := remote_env\<rparr>) sample_continuation (Some JNull) w1
       = (JobReturned, w2, [\<lparr>eq_delayMs = None\<rparr>])"
proof -
  let ?job = "processWorkflowRunJob remote_env sample_job [] (Some (True, JNull)) (world_of (queued_run 3))"
  let ?ce = "sample_cont_env\<lparr>ce_env := remote_env\<rparr>"
  have "map_option (\<lambda>(e, w1). (e, map_option (\<lambda>r. (dr_status r, dr_blockedRequestId r, dr_attemptCount r)) (wo_run w1))) ?job
      = Some (JobReturned, Some (Running, Some ''q'', 1))" by code_simp
  then obtain w1 run1 where j: "?job = Some (JobReturned, w1)"
    and r: "wo_run w1 = Some run1" "dr_status run1 = Running" "dr_blockedRequestId run1 = Some ''q''" "dr_attemptCount run1 = 1"
    by auto
  have s: "wo_run (world_of (queued_run 3)) = Some (queued_run 3)"
      "dr_status (queued_run 3) = Queued \<or> dr_status (queued_run 3) = Running \<and> \<not> truthy (dr_blockedRequestId (queued_run 3))"
    by (simp_all add: world_of_def queued_run_def)
  have e: "ce_env ?ce = remote_env" "en_parse remote_env JNull = Inr (DslV3 sample_graph)"
    by (simp_all add: sample_cont_env_def remote_env_def sample_env_def)
  have q: "''q'' \<noteq> ''''" and st: "remote_status sample_result = Some ''succeeded''" by (simp, code_simp)
  have c: "sample_continuation = \<lparr>co_requestId = ''q'', co_attemptCount = dr_attemptCount run1, co_kind = RemoteApply sample_result\<rparr>"
    by (simp add: sample_continuation_def r(4))
  from remote_result_reaches_node [OF j s e sample_ids_ok r(1-3) q st c] j show ?thesis by blast
qed

end
