(* ===== verification/ChannelSecurity.thy ===== *)
theory ChannelSecurity
  imports StoreChannels
begin

text \<open>
  Who may talk to an organization over a channel and which workflows a message starts:
  \<open>apps/gateway/src/channels/security.ts\<close> and \<open>apps/gateway/src/channels/router.ts\<close>, with the inbound
  envelope of \<open>packages/shared/src/types.ts\<close>.  An allowlist entry is its pair of scope and subject.
\<close>

section \<open>Envelopes\<close>

datatype message_event = MessageReceived | MessageMentioned | MessageDm

record envelope =
  ev_channelId :: string
  ev_accountId :: string
  ev_accountKey :: string
  ev_organizationId :: string
  ev_providerMessageId :: string
  ev_conversationId :: string
  ev_senderId :: string
  ev_senderDisplayName :: "string option"
  ev_text :: string
  ev_event :: message_event
  ev_mentionMatched :: bool
  ev_raw :: "json option"

type_synonym entries = "(string \<times> string) list"

section \<open>Security\<close>

datatype security_reason =
    Accepted | DmDisabledReason | DmPairingRequired | DmAllowlistDenied | DmOpenRequiresWildcard
  | GroupDisabledReason | GroupMentionRequired | GroupAllowlistDenied | GroupOpenRequiresWildcard

record security_decision =
  sd_accepted :: bool
  sd_reason :: security_reason
  sd_requiresPairing :: bool

definition refuse :: "security_reason \<Rightarrow> security_decision" where
  "refuse r = \<lparr>sd_accepted = False, sd_reason = r, sd_requiresPairing = (r = DmPairingRequired)\<rparr>"

definition admit :: security_decision where
  "admit = \<lparr>sd_accepted = True, sd_reason = Accepted, sd_requiresPairing = False\<rparr>"

definition hasEntry :: "entries \<Rightarrow> string \<Rightarrow> string \<Rightarrow> bool" where
  "hasEntry entries scope subject =
     list_ex (\<lambda>(s, t). toLowerCase (trim s) = toLowerCase (trim scope) \<and> t = subject) entries"

definition wildcardAllowed :: "entries \<Rightarrow> string list \<Rightarrow> bool" where
  "wildcardAllowed entries scopes = list_ex (\<lambda>s. hasEntry entries s ''*'') scopes"

definition senderAllowed :: "entries \<Rightarrow> string \<Rightarrow> string list \<Rightarrow> bool" where
  "senderAllowed entries senderId extra = list_ex (\<lambda>s. hasEntry entries s senderId) (''sender'' # extra)"

definition evaluateChannelSecurity :: "envelope \<Rightarrow> dm_policy \<Rightarrow> group_policy \<Rightarrow> bool \<Rightarrow> entries \<Rightarrow> security_decision" where
  "evaluateChannelSecurity env dmPolicy groupPolicy requireMention entries =
     (let dmOk = senderAllowed entries (ev_senderId env) [''dm''];
          groupOk = hasEntry entries ''group'' (ev_conversationId env)
            \<or> hasEntry entries ''conversation'' (ev_conversationId env)
            \<or> senderAllowed entries (ev_senderId env) [''group'']
      in if ev_event env = MessageDm then
           (case dmPolicy of
              DmDisabled \<Rightarrow> refuse DmDisabledReason
            | DmPairing \<Rightarrow> if \<not> dmOk then refuse DmPairingRequired else admit
            | DmAllowlist \<Rightarrow> if \<not> dmOk then refuse DmAllowlistDenied else admit
            | DmOpen \<Rightarrow> if \<not> wildcardAllowed entries [''dm'', ''sender''] then refuse DmOpenRequiresWildcard else admit)
         else if groupPolicy = GroupDisabled then refuse GroupDisabledReason
         else if requireMention \<and> \<not> ev_mentionMatched env then refuse GroupMentionRequired
         else if groupPolicy = GroupAllowlist \<and> \<not> groupOk then refuse GroupAllowlistDenied
         else if groupPolicy = GroupOpen \<and> \<not> wildcardAllowed entries [''group'', ''conversation'', ''sender'']
         then refuse GroupOpenRequiresWildcard
         else admit)"

fun reason_text :: "security_reason \<Rightarrow> string" where
  "reason_text Accepted = ''accepted''"
| "reason_text DmDisabledReason = ''dm_disabled''"
| "reason_text DmPairingRequired = ''dm_pairing_required''"
| "reason_text DmAllowlistDenied = ''dm_allowlist_denied''"
| "reason_text DmOpenRequiresWildcard = ''dm_open_requires_wildcard''"
| "reason_text GroupDisabledReason = ''group_disabled''"
| "reason_text GroupMentionRequired = ''group_mention_required''"
| "reason_text GroupAllowlistDenied = ''group_allowlist_denied''"
| "reason_text GroupOpenRequiresWildcard = ''group_open_requires_wildcard''"

section \<open>Workflows a message starts\<close>

record channel_match =
  cm_textContains :: "string option"
  cm_senderIn :: "string list option"
  cm_groupIn :: "string list option"

record trigger_config =
  tc_channelId :: string
  tc_accountKey :: "string option"
  tc_event :: "message_event option"
  tc_match :: "channel_match option"

definition event_of_text :: "json option \<Rightarrow> message_event option" where
  "event_of_text v =
     (if v = Some (JStr ''message.dm'') then Some MessageDm
      else if v = Some (JStr ''message.mentioned'') then Some MessageMentioned
      else if v = Some (JStr ''message.received'') then Some MessageReceived else None)"

definition string_list :: "json option \<Rightarrow> string list option" where
  "string_list v = (case v of Some (JArr xs) \<Rightarrow> Some (strings_of xs) | _ \<Rightarrow> None)"

definition parseTriggerChannelConfig :: "json \<Rightarrow> trigger_config option" where
  "parseTriggerChannelConfig dsl =
     Option.bind (asObject (Some dsl)) (\<lambda>dslObj.
     Option.bind (asObject (jget dslObj ''trigger'')) (\<lambda>trigger.
       if jget trigger ''type'' \<noteq> Some (JStr ''trigger.channel'') then None
       else Option.bind (asObject (jget trigger ''config'')) (\<lambda>config.
         Option.bind (asString (jget config ''channelId'')) (\<lambda>channelId.
           Some \<lparr>tc_channelId = channelId, tc_accountKey = asString (jget config ''accountKey''),
             tc_event = event_of_text (jget config ''event''),
             tc_match = map_option (\<lambda>m. \<lparr>cm_textContains = asString (jget m ''textContains''),
                 cm_senderIn = string_list (jget m ''senderIn''), cm_groupIn = string_list (jget m ''groupIn'')\<rparr>)
               (asObject (jget config ''match''))\<rparr>))))"

definition eventMatches :: "message_event option \<Rightarrow> envelope \<Rightarrow> bool" where
  "eventMatches expected env =
     (if expected = None \<or> expected = Some MessageReceived then True
      else if expected = Some MessageDm then ev_event env = MessageDm
      else ev_mentionMatched env \<or> ev_event env = MessageMentioned)"

definition textContainsMatches :: "string option \<Rightarrow> string \<Rightarrow> bool" where
  "textContainsMatches needle text =
     (case needle of
        None \<Rightarrow> True
      | Some n \<Rightarrow> if n = '''' \<or> trim n = '''' then True else includesStr (toLowerCase text) (toLowerCase (trim n)))"

definition inListMatches :: "string list option \<Rightarrow> string \<Rightarrow> bool" where
  "inListMatches values target = (case values of None \<Rightarrow> True | Some [] \<Rightarrow> True | Some vs \<Rightarrow> target \<in> set vs)"

record match_workflow =
  mw_id :: string
  mw_organizationId :: string
  mw_published :: bool
  mw_createdByUserId :: string
  mw_dsl :: json
  mw_createdAt :: timestamp

definition channel_trigger_matches :: "envelope \<Rightarrow> string \<Rightarrow> match_workflow \<Rightarrow> bool" where
  \<comment> \<open>the body of the loop of \<open>collectChannelTriggeredWorkflows\<close>\<close>
  "channel_trigger_matches env accountKey r =
     (mw_published r \<and> (case parseTriggerChannelConfig (mw_dsl r) of
        None \<Rightarrow> False
      | Some c \<Rightarrow> tc_channelId c = ev_channelId env
          \<and> \<not> (truthy (tc_accountKey c) \<and> tc_accountKey c \<noteq> Some accountKey)
          \<and> eventMatches (tc_event c) env
          \<and> textContainsMatches (Option.bind (tc_match c) cm_textContains) (ev_text env)
          \<and> inListMatches (Option.bind (tc_match c) cm_senderIn) (ev_senderId env)
          \<and> inListMatches (Option.bind (tc_match c) cm_groupIn) (ev_conversationId env)))"

definition collectChannelTriggeredWorkflows :: "match_workflow list \<Rightarrow> envelope \<Rightarrow> string \<Rightarrow> (string \<times> string) list" where
  \<comment> \<open>\<open>workflowId\<close> and \<open>requestedByUserId\<close>\<close>
  "collectChannelTriggeredWorkflows wfs env accountKey =
     map (\<lambda>r. (mw_id r, mw_createdByUserId r)) (filter (channel_trigger_matches env accountKey) wfs)"

section \<open>What a decision depends on\<close>

definition entry_for :: "entries \<Rightarrow> string list \<Rightarrow> string \<Rightarrow> bool" where
  \<comment> \<open>some entry has one of the scopes, up to case and surrounding blanks, and the subject\<close>
  "entry_for entries scopes subject \<longleftrightarrow>
     (\<exists>(s, t) \<in> set entries. toLowerCase (trim s) \<in> set scopes \<and> t = subject)"

lemma hasEntry_iff: "toLowerCase (trim scope) = scope \<Longrightarrow> hasEntry entries scope t \<longleftrightarrow> entry_for entries [scope] t"
  by (auto simp: hasEntry_def list_ex_iff entry_for_def)

lemma scope_texts [simp]:
  "toLowerCase (trim ''dm'') = ''dm''" "toLowerCase (trim ''sender'') = ''sender''"
  "toLowerCase (trim ''group'') = ''group''" "toLowerCase (trim ''conversation'') = ''conversation''"
  by code_simp+

lemma entry_for_Cons: "entry_for entries (a # b # as) t \<longleftrightarrow> entry_for entries [a] t \<or> entry_for entries (b # as) t"
  by (auto simp: entry_for_def)

lemma security_cases:
  "sd_accepted (evaluateChannelSecurity env dm gr rm entries) \<longleftrightarrow>
     (if ev_event env = MessageDm then
        (case dm of DmDisabled \<Rightarrow> False | DmOpen \<Rightarrow> entry_for entries [''dm'', ''sender''] ''*''
         | _ \<Rightarrow> entry_for entries [''sender'', ''dm''] (ev_senderId env))
      else (rm \<longrightarrow> ev_mentionMatched env) \<and>
        (case gr of GroupDisabled \<Rightarrow> False | GroupOpen \<Rightarrow> entry_for entries [''group'', ''conversation'', ''sender''] ''*''
         | GroupAllowlist \<Rightarrow> entry_for entries [''group'', ''conversation''] (ev_conversationId env)
             \<or> entry_for entries [''sender'', ''group''] (ev_senderId env)))"
  by (cases dm; cases gr)
    (simp_all add: evaluateChannelSecurity_def Let_def refuse_def admit_def wildcardAllowed_def senderAllowed_def
      hasEntry_iff entry_for_Cons)

end
