(* ===== verification/ChannelInbound.thy ===== *)
theory ChannelInbound
  imports ChannelSecurity JsonText
begin

text \<open>
  The channel runtime of the gateway (\<open>apps/gateway/src/channels/manager.ts\<close>): a provider's webhook is
  authenticated, normalized, claimed once per provider message, checked against the account's policy
  and then turned into a session event, a request to the brain and workflow runs; replies of a session
  go back through the account's webhook.  The tables are those the functions of
  \<open>packages/db/src/repositories.ts\<close> read and write; adapters, HMAC, environment, random values and
  the success of HTTP posts are arguments.
\<close>

section \<open>The world\<close>

record channel_source =
  so_channelId :: string
  so_accountId :: string
  so_accountKey :: string
  so_conversationId :: string
  so_providerMessageId :: string
  so_mentionMatched :: bool
  so_event :: message_event

record channel_message =
  mg_organizationId :: string
  mg_accountId :: string
  mg_conversationId :: string
  mg_inbound :: bool
  mg_providerMessageId :: string
  mg_sessionEventSeq :: "int option"
  mg_status :: string
  mg_attemptCount :: nat
  mg_payload :: "json option"
  mg_error :: "string option"

record conversation =
  cv_organizationId :: string
  cv_accountId :: string
  cv_conversationId :: string
  cv_sessionId :: "string option"
  cv_lastInboundAt :: "timestamp option"
  cv_lastOutboundAt :: "timestamp option"

record channel_log =
  cl_organizationId :: string
  cl_accountId :: string
  cl_conversationId :: "string option"
  cl_eventType :: string
  cl_level :: StoreChannels.event_level
  cl_message :: "string option"
  cl_payload :: json

record user_event =
  ue_organizationId :: string
  ue_sessionId :: string
  ue_seq :: int
  ue_text :: string
  ue_source :: channel_source

record brain_request =
  br_requestId :: string
  br_organizationId :: string
  br_userId :: string
  br_sessionId :: string
  br_userEventSeq :: int
  br_originEdgeId :: string
  br_source :: channel_source

record trigger_post =
  tp_organizationId :: string
  tp_workflowId :: string
  tp_requestedByUserId :: string
  tp_envelope :: envelope

record gw_world =
  gw_now :: timestamp
  gw_claims :: "(string, timestamp) jmap"  \<comment> \<open>Redis keys with their expiry\<close>
  gw_accounts :: "channel_account list"
  gw_allowlist :: "allowlist_entry list"
  gw_workflows :: "match_workflow list"
  gw_sessions :: "(string \<times> string) list"  \<comment> \<open>organization and session\<close>
  gw_pairings :: "pairing_request list"
  gw_messages :: "channel_message list"
  gw_conversations :: "conversation list"
  gw_log :: "channel_log list"
  gw_userEvents :: "user_event list"
  gw_broadcasts :: "user_event list"
  gw_brain :: "brain_request list"
  gw_triggers :: "trigger_post list"

record webhook =
  wh_channelId :: string
  wh_accountKey :: string
  wh_headers :: "string table"
  wh_query :: "string table"
  wh_body :: "json option"
  wh_requestId :: string

record adapter =
  ad_authenticate :: "(webhook \<Rightarrow> channel_account \<Rightarrow> timestamp \<Rightarrow> bool \<times> string option) option"
  ad_normalize :: "webhook \<Rightarrow> channel_account \<Rightarrow> timestamp \<Rightarrow> envelope option"

record channel_env =
  cn_getenv :: "string \<Rightarrow> string option"
  cn_adapter :: "string \<Rightarrow> adapter option"
  cn_hmacHex :: "string \<Rightarrow> string \<Rightarrow> string"
  cn_edgeId :: string
  cn_code :: string
  cn_uid :: string
  cn_triggerOk :: "trigger_post \<Rightarrow> bool"
  cn_outboundOk :: "nat \<Rightarrow> string option"  \<comment> \<open>the error of the n-th attempt to post a reply, if any\<close>
  cn_maxAttempts :: nat

section \<open>Repository functions\<close>

definition allowlist_entries :: "string \<Rightarrow> string \<Rightarrow> gw_world \<Rightarrow> entries" where
  \<comment> \<open>\<open>listChannelAllowlistEntries\<close>, as pairs of scope and subject\<close>
  "allowlist_entries org acc w =
     map (\<lambda>e. (ae_scope e, ae_subject e))
       (js_sort (\<lambda>a b. cmp_then (str_cmp (ae_scope a) (ae_scope b)) (str_cmp (ae_subject a) (ae_subject b)))
         (filter (\<lambda>e. ae_organizationId e = org \<and> ae_accountId e = acc) (gw_allowlist w)))"

definition getChannelAccountByChannelAndKeyGlobal :: "string \<Rightarrow> string \<Rightarrow> gw_world \<Rightarrow> channel_account option" where
  "getChannelAccountByChannelAndKeyGlobal channelId accountKey w =
     find (\<lambda>a. ca_channelId a = channelId \<and> ca_accountKey a = accountKey) (gw_accounts w)"

definition createChannelPairingRequest :: "channel_env \<Rightarrow> string \<Rightarrow> string \<Rightarrow> string \<Rightarrow> string option \<Rightarrow> timestamp
    \<Rightarrow> gw_world \<Rightarrow> gw_world" where
  "createChannelPairingRequest en org acc requester name expiresAt w =
     w\<lparr>gw_pairings := gw_pairings w @ [\<lparr>pr_id = cn_uid en, pr_organizationId = org, pr_accountId = acc,
        pr_scope = ''dm'', pr_requesterId = requester, pr_requesterDisplayName = name, pr_code = cn_code en,
        pr_status = ''pending'', pr_expiresAt = expiresAt, pr_approvedByUserId = None, pr_approvedAt = None,
        pr_rejectedAt = None, pr_createdAt = gw_now w\<rparr>]\<rparr>"

definition same_message :: "channel_message \<Rightarrow> channel_message \<Rightarrow> bool" where
  \<comment> \<open>the unique index \<open>channel_messages_provider_unique\<close>\<close>
  "same_message m n \<longleftrightarrow> mg_accountId m = mg_accountId n \<and> mg_inbound m = mg_inbound n
     \<and> mg_providerMessageId m = mg_providerMessageId n"

definition createChannelMessage :: "channel_message \<Rightarrow> gw_world \<Rightarrow> gw_world" where
  \<comment> \<open>an insert that violates the unique index reads the existing row instead\<close>
  "createChannelMessage m w =
     (if list_ex (same_message m) (gw_messages w) then w else w\<lparr>gw_messages := gw_messages w @ [m]\<rparr>)"

definition appendChannelEvent :: "channel_log \<Rightarrow> gw_world \<Rightarrow> gw_world" where
  "appendChannelEvent e w = w\<lparr>gw_log := gw_log w @ [e]\<rparr>"

record conversation_patch =
  cp_sessionId :: "string option option"
  cp_lastInboundAt :: "timestamp option"
  cp_lastOutboundAt :: "timestamp option"

definition is_conversation :: "string \<Rightarrow> string \<Rightarrow> string \<Rightarrow> conversation \<Rightarrow> bool" where
  "is_conversation org acc conv c \<longleftrightarrow> cv_organizationId c = org \<and> cv_accountId c = acc \<and> cv_conversationId c = conv"

definition patch_conversation :: "conversation_patch \<Rightarrow> conversation \<Rightarrow> conversation" where
  "patch_conversation p c =
     c\<lparr>cv_sessionId := qq (cp_sessionId p) (cv_sessionId c),
       cv_lastInboundAt := (case cp_lastInboundAt p of None \<Rightarrow> cv_lastInboundAt c | t \<Rightarrow> t),
       cv_lastOutboundAt := (case cp_lastOutboundAt p of None \<Rightarrow> cv_lastOutboundAt c | t \<Rightarrow> t)\<rparr>"

definition upsertChannelConversation :: "string \<Rightarrow> string \<Rightarrow> string \<Rightarrow> conversation_patch \<Rightarrow> gw_world \<Rightarrow> conversation \<times> gw_world" where
  "upsertChannelConversation org acc conv p w =
     (case find (is_conversation org acc conv) (gw_conversations w) of
        None \<Rightarrow>
          let c = \<lparr>cv_organizationId = org, cv_accountId = acc, cv_conversationId = conv,
                cv_sessionId = qq (cp_sessionId p) None, cv_lastInboundAt = cp_lastInboundAt p,
                cv_lastOutboundAt = cp_lastOutboundAt p\<rparr>
          in (c, w\<lparr>gw_conversations := gw_conversations w @ [c]\<rparr>)
      | Some c \<Rightarrow>
          (patch_conversation p c,
           w\<lparr>gw_conversations := map (\<lambda>x. if is_conversation org acc conv x then patch_conversation p x else x)
               (gw_conversations w)\<rparr>))"

definition next_seq :: "string \<Rightarrow> string \<Rightarrow> user_event list \<Rightarrow> int" where
  \<comment> \<open>one more than the last sequence number of the session, or 0\<close>
  "next_seq org sid evs =
     fold (\<lambda>e n. max n (ue_seq e + 1)) (filter (\<lambda>e. ue_organizationId e = org \<and> ue_sessionId e = sid) evs) 0"

definition db_appendAgentSessionEvent :: "string \<Rightarrow> string \<Rightarrow> string \<Rightarrow> channel_source \<Rightarrow> gw_world \<Rightarrow> user_event \<times> gw_world" where
  \<comment> \<open>for a \<open>user_message\<close> without idempotency key in an existing session\<close>
  "db_appendAgentSessionEvent org sid txt src w =
     (let e = \<lparr>ue_organizationId = org, ue_sessionId = sid, ue_seq = next_seq org sid (gw_userEvents w),
            ue_text = txt, ue_source = src\<rparr>
      in (e, w\<lparr>gw_userEvents := gw_userEvents w @ [e]\<rparr>))"

definition db_listWorkflows :: "string \<Rightarrow> nat \<Rightarrow> gw_world \<Rightarrow> match_workflow list" where
  \<comment> \<open>the first page: newest first, at most \<open>limit\<close>\<close>
  "db_listWorkflows org limit w =
     take (min 200 (max 1 limit))
       (js_sort (\<lambda>a b. cmp_then (cmp_int (mw_createdAt b) (mw_createdAt a)) (str_cmp (mw_id b) (mw_id a)))
         (filter (\<lambda>r. mw_organizationId r = org) (gw_workflows w)))"

section \<open>Screening a webhook\<close>

definition upper_char :: "char \<Rightarrow> char" where
  "upper_char c = (let n = (of_char c :: nat) in if 97 \<le> n \<and> n \<le> 122 then char_of (n - 32) else c)"

definition envFlag :: "(string \<Rightarrow> string option) \<Rightarrow> string \<Rightarrow> bool \<Rightarrow> bool" where
  "envFlag getenv name fallback =
     (case getenv name of
        None \<Rightarrow> fallback
      | Some raw \<Rightarrow> if trim raw = '''' then fallback
          else toLowerCase (trim raw) \<notin> {''0'', ''false'', ''off'', ''no''})"

definition isChannelRuntimeEnabled :: "(string \<Rightarrow> string option) \<Rightarrow> string \<Rightarrow> bool" where
  "isChannelRuntimeEnabled getenv channelId =
     (if \<not> envFlag getenv ''CHANNEL_RUNTIME_ENABLED'' True then False
      else envFlag getenv (''CHANNEL_'' @ map (\<lambda>c. if c = CHR ''-'' then CHR ''_'' else upper_char c) channelId @ ''_ENABLED'') True)"

definition parseString :: "json option \<Rightarrow> string option" where
  "parseString v = (case asString v of None \<Rightarrow> None | Some s \<Rightarrow> if trim s = '''' then None else Some (trim s))"

definition safeObject :: "json \<Rightarrow> (string, json) jmap" where
  "safeObject v = qq (asObject (Some v)) []"

definition verifySignature :: "channel_env \<Rightarrow> json option \<Rightarrow> string \<Rightarrow> string option \<Rightarrow> bool" where
  "verifySignature en payload secret header =
     (case parseString (map_option JStr header) of
        None \<Rightarrow> False
      | Some signature \<Rightarrow>
          let expected = cn_hmacHex en (stringify (qq (nullishJ payload) (JObj []))) secret
          in length signature = length expected \<and> signature = expected)"

definition webhook_signature :: "webhook \<Rightarrow> string option" where
  "webhook_signature wh =
     (case jget (wh_headers wh) ''x-channel-signature'' of Some s \<Rightarrow> Some s | None \<Rightarrow> jget (wh_headers wh) ''x-signature'')"

definition logEvent :: "channel_account \<Rightarrow> string option \<Rightarrow> string \<Rightarrow> StoreChannels.event_level \<Rightarrow> string \<Rightarrow> json \<Rightarrow> gw_world \<Rightarrow> gw_world" where
  "logEvent a conv eventType lvl msg payload =
     appendChannelEvent \<lparr>cl_organizationId = ca_organizationId a, cl_accountId = ca_id a, cl_conversationId = conv,
       cl_eventType = eventType, cl_level = lvl, cl_message = Some msg, cl_payload = payload\<rparr>"

datatype screening =
    Rejected string "channel_account option" gw_world
  | Screened channel_account envelope

definition authenticate :: "channel_env \<Rightarrow> adapter \<Rightarrow> webhook \<Rightarrow> channel_account \<Rightarrow> gw_world \<Rightarrow> (string \<times> gw_world) option" where
  \<comment> \<open>the two authentication checks; the reason of the first that fails\<close>
  "authenticate en ad wh a w =
     (let decision = (case ad_authenticate ad of None \<Rightarrow> (True, None) | Some f \<Rightarrow> f wh a (gw_now w));
          requestInfo = [(''channelId'', JStr (wh_channelId wh)), (''requestId'', JStr (wh_requestId wh))]
      in if \<not> fst decision then
           let reason = qq (parseString (map_option JStr (snd decision))) ''adapter_auth_failed'' in
           Some (reason, logEvent a None ''channel.signature.invalid'' EvWarn ''Webhook authentication validation failed''
                   (JObj (requestInfo @ [(''reason'', JStr reason)])) w)
         else case parseString (jget (safeObject (ca_metadata a)) ''webhookSecret'') of
           None \<Rightarrow> None
         | Some secret \<Rightarrow>
             if verifySignature en (wh_body wh) secret (webhook_signature wh) then None
             else Some (''signature_invalid'', logEvent a None ''channel.signature.invalid'' EvWarn
                   ''Webhook signature validation failed'' (JObj requestInfo) w))"

definition screenWebhook :: "channel_env \<Rightarrow> webhook \<Rightarrow> gw_world \<Rightarrow> screening" where
  \<comment> \<open>\<open>handleWebhook\<close> up to the normalized envelope\<close>
  "screenWebhook en wh w =
     (if \<not> isChannelRuntimeEnabled (cn_getenv en) (wh_channelId wh) then Rejected ''channel_disabled'' None w
      else case cn_adapter en (wh_channelId wh) of
        None \<Rightarrow> Rejected ''adapter_not_found'' None w
      | Some ad \<Rightarrow>
          (case getChannelAccountByChannelAndKeyGlobal (wh_channelId wh) (wh_accountKey wh) w of
             None \<Rightarrow> Rejected ''account_not_found'' None w
           | Some a \<Rightarrow>
               if \<not> ca_enabled a then Rejected ''account_disabled'' (Some a) w
               else (case authenticate en ad wh a w of
                       Some (reason, w1) \<Rightarrow> Rejected reason (Some a) w1
                     | None \<Rightarrow> (case ad_normalize ad wh a (gw_now w) of
                          None \<Rightarrow> Rejected ''normalize_failed'' (Some a) w
                        | Some env \<Rightarrow> Screened a env))))"

section \<open>Routing a message\<close>

definition claim_key :: "channel_account \<Rightarrow> envelope \<Rightarrow> string" where
  "claim_key a env = ''channel:inbound:'' @ ca_id a @ '':'' @ ev_providerMessageId env"

definition claim_ttl :: int where
  "claim_ttl = 24 * 60 * 60 * 1000"

definition claimed :: "string \<Rightarrow> gw_world \<Rightarrow> bool" where
  "claimed k w \<longleftrightarrow> (case jget (gw_claims w) k of None \<Rightarrow> False | Some expiry \<Rightarrow> gw_now w < expiry)"

definition claim :: "string \<Rightarrow> gw_world \<Rightarrow> gw_world" where
  \<comment> \<open>\<open>SET key value EX ttl NX\<close> when it succeeds\<close>
  "claim k w = w\<lparr>gw_claims := jset k (gw_now w + claim_ttl) (gw_claims w)\<rparr>"

definition inbound_message :: "channel_account \<Rightarrow> envelope \<Rightarrow> string \<Rightarrow> string option \<Rightarrow> channel_message" where
  "inbound_message a env status err =
     \<lparr>mg_organizationId = ca_organizationId a, mg_accountId = ca_id a, mg_conversationId = ev_conversationId env,
      mg_inbound = True, mg_providerMessageId = ev_providerMessageId env, mg_sessionEventSeq = None,
      mg_status = status, mg_attemptCount = 0, mg_payload = ev_raw env, mg_error = err\<rparr>"

fun event_text :: "message_event \<Rightarrow> string" where
  "event_text MessageReceived = ''message.received''"
| "event_text MessageMentioned = ''message.mentioned''"
| "event_text MessageDm = ''message.dm''"

definition dropMessage :: "channel_env \<Rightarrow> webhook \<Rightarrow> channel_account \<Rightarrow> envelope \<Rightarrow> security_decision \<Rightarrow> gw_world \<Rightarrow> gw_world" where
  \<comment> \<open>the branch for a message the policy does not accept\<close>
  "dropMessage en wh a env d w =
     (let w1 = (if sd_requiresPairing d
            then createChannelPairingRequest en (ca_organizationId a) (ca_id a) (ev_senderId env)
                   (ev_senderDisplayName env) (gw_now w + 24 * 60 * 60 * 1000) w
            else w);
          w2 = createChannelMessage (inbound_message a env ''dropped''
            (Some (if sd_requiresPairing d then ''PAIRING_REQUIRED'' else reason_text (sd_reason d)))) w1
      in logEvent a (Some (ev_conversationId env)) ''channel.message.dropped'' EvWarn (reason_text (sd_reason d))
           (JObj [(''senderId'', JStr (ev_senderId env)), (''event'', JStr (event_text (ev_event env))),
                  (''requestId'', JStr (wh_requestId wh))]) w2)"

definition source_of :: "envelope \<Rightarrow> channel_source" where
  "source_of env = \<lparr>so_channelId = ev_channelId env, so_accountId = ev_accountId env, so_accountKey = ev_accountKey env,
     so_conversationId = ev_conversationId env, so_providerMessageId = ev_providerMessageId env,
     so_mentionMatched = ev_mentionMatched env, so_event = ev_event env\<rparr>"

definition routeToSession :: "channel_account \<Rightarrow> envelope \<Rightarrow> conversation \<Rightarrow> gw_world \<Rightarrow> user_event option \<times> gw_world" where
  \<comment> \<open>the session bridge: the message becomes a user message of the conversation's session\<close>
  "routeToSession a env conv w =
     (let meta = safeObject (ca_metadata a); org = ca_organizationId a;
          target = (case cv_sessionId conv of Some s \<Rightarrow> Some s | None \<Rightarrow> parseString (jget meta ''defaultSessionId''))
      in if jget meta ''sessionBridgeEnabled'' = Some (JBool False) then (None, w)
         else if \<not> truthy target then (None, w)
         else let sid = qq target '''' in
           if (org, sid) \<notin> set (gw_sessions w) then (None, w)
           else (case db_appendAgentSessionEvent org sid (ev_text env) (source_of env) w of
                   (e, w1) \<Rightarrow> (Some e, snd (upsertChannelConversation org (ca_id a) (ev_conversationId env)
                     \<lparr>cp_sessionId = Some (Some sid), cp_lastInboundAt = Some (gw_now w1), cp_lastOutboundAt = None\<rparr> w1))))"

definition acceptMessage :: "channel_account \<Rightarrow> envelope \<Rightarrow> gw_world \<Rightarrow> user_event option \<times> (string \<times> string) list \<times> gw_world" where
  \<comment> \<open>the branch for an accepted message, inside the transaction\<close>
  "acceptMessage a env w =
     (let org = ca_organizationId a;
          w1 = createChannelMessage (inbound_message a env ''accepted'' None) w;
          (conv, w2) = upsertChannelConversation org (ca_id a) (ev_conversationId env)
            \<lparr>cp_sessionId = None, cp_lastInboundAt = Some (gw_now w1), cp_lastOutboundAt = None\<rparr> w1;
          (route, w3) = routeToSession a env conv w2;
          matches = collectChannelTriggeredWorkflows (db_listWorkflows org 200 w3) env (ca_accountKey a)
      in (route, matches, logEvent a (Some (ev_conversationId env)) ''channel.message.accepted'' EvInfo
           ''Inbound message accepted''
           (JObj [(''event'', JStr (event_text (ev_event env))), (''mentionMatched'', JBool (ev_mentionMatched env)),
                  (''sessionRouted'', JBool (route \<noteq> None)), (''workflowCandidateCount'', JNum (int (length matches)))]) w3))"

definition sendToBrain :: "channel_env \<Rightarrow> channel_account \<Rightarrow> user_event option \<Rightarrow> gw_world \<Rightarrow> gw_world" where
  "sendToBrain en a route w =
     (case route of
        None \<Rightarrow> w
      | Some e \<Rightarrow> w\<lparr>gw_broadcasts := gw_broadcasts w @ [e],
          gw_brain := gw_brain w @ [\<lparr>br_requestId = ue_sessionId e @ '':turn:'' @ int_text (ue_seq e),
            br_organizationId = ca_organizationId a, br_userId = ca_updatedByUserId a, br_sessionId = ue_sessionId e,
            br_userEventSeq = ue_seq e, br_originEdgeId = cn_edgeId en, br_source = ue_source e\<rparr>]\<rparr>)"

fun triggerWorkflows :: "channel_env \<Rightarrow> channel_account \<Rightarrow> envelope \<Rightarrow> (string \<times> string) list \<Rightarrow> gw_world \<Rightarrow> nat \<times> gw_world" where
  \<comment> \<open>posts one trigger per matching workflow and counts the successes\<close>
  "triggerWorkflows en a env [] w = (0, w)"
| "triggerWorkflows en a env ((workflowId, userId) # ms) w =
     (let tp = \<lparr>tp_organizationId = ca_organizationId a, tp_workflowId = workflowId, tp_requestedByUserId = userId,
            tp_envelope = env\<rparr>
      in case triggerWorkflows en a env ms (w\<lparr>gw_triggers := gw_triggers w @ [tp]\<rparr>) of
           (n, w') \<Rightarrow> (if cn_triggerOk en tp then Suc n else n, w'))"

record webhook_result =
  wr_accepted :: bool
  wr_reason :: string
  wr_organizationId :: "string option"
  wr_accountId :: "string option"
  wr_sessionRouted :: bool
  wr_workflowsTriggered :: nat

definition webhook_result :: "bool \<Rightarrow> string \<Rightarrow> channel_account option \<Rightarrow> webhook_result" where
  "webhook_result ok reason a =
     \<lparr>wr_accepted = ok, wr_reason = reason, wr_organizationId = map_option ca_organizationId a,
      wr_accountId = map_option ca_id a, wr_sessionRouted = False, wr_workflowsTriggered = 0\<rparr>"

definition handleWebhook :: "channel_env \<Rightarrow> webhook \<Rightarrow> gw_world \<Rightarrow> webhook_result \<times> gw_world" where
  "handleWebhook en wh w =
     (case screenWebhook en wh w of
        Rejected reason a w1 \<Rightarrow> (webhook_result False reason a, w1)
      | Screened a env \<Rightarrow>
          if claimed (claim_key a env) w then (webhook_result True ''duplicate_message'' (Some a), w)
          else
            let w1 = claim (claim_key a env) w;
                d = evaluateChannelSecurity env (ca_dmPolicy a) (ca_groupPolicy a) (ca_requireMentionInGroup a)
                      (allowlist_entries (ca_organizationId a) (ca_id a) w1)
            in if \<not> sd_accepted d then (webhook_result False (reason_text (sd_reason d)) (Some a), dropMessage en wh a env d w1)
               else
                 (case acceptMessage a env w1 of
                    (route, matches, w2) \<Rightarrow>
                      (case triggerWorkflows en a env matches (sendToBrain en a route w2) of
                         (n, w3) \<Rightarrow>
                           ((webhook_result True ''accepted'' (Some a))\<lparr>wr_sessionRouted := route \<noteq> None, wr_workflowsTriggered := n\<rparr>,
                            logEvent a None ''channel.workflow.triggered'' (if n = length matches then EvInfo else EvWarn)
                              (if matches = [] then ''No workflow triggers matched''
                               else ''Triggered '' @ nat_text n @ ''/'' @ nat_text (length matches) @ '' workflow runs'')
                              (JObj [(''matched'', JNum (int (length matches))), (''triggered'', JNum (int n))]) w3))))"

section \<open>Replies\<close>

datatype reply_status = ReplyAccepted | ReplyDeadLetter | ReplyFailed | ReplyChannelDisabled | ReplyAccountUnavailable

record reply_result =
  rr_delivered :: bool
  rr_status :: reply_status
  rr_attemptCount :: nat
  rr_providerMessageId :: string
  rr_error :: "string option"

fun status_text :: "reply_status \<Rightarrow> string" where
  "status_text ReplyAccepted = ''accepted''"
| "status_text ReplyDeadLetter = ''dead_letter''"
| "status_text ReplyFailed = ''failed''"
| "status_text ReplyChannelDisabled = ''channel_disabled''"
| "status_text ReplyAccountUnavailable = ''account_unavailable''"

function outboundAttempts :: "channel_env \<Rightarrow> nat \<Rightarrow> nat \<times> string option" where
  \<comment> \<open>the loop over attempts: how many were made, and the error if all failed\<close>
  "outboundAttempts en attempt =
     (case cn_outboundOk en attempt of
        None \<Rightarrow> (attempt, None)
      | Some err \<Rightarrow> if attempt \<ge> cn_maxAttempts en then (attempt, Some err) else outboundAttempts en (Suc attempt))"
  by auto
termination by (relation "measure (\<lambda>(en, attempt). cn_maxAttempts en - attempt)") auto

definition sendSessionReply :: "channel_env \<Rightarrow> string \<Rightarrow> string \<Rightarrow> int \<Rightarrow> channel_source \<Rightarrow> json \<Rightarrow> gw_world
    \<Rightarrow> reply_result \<times> gw_world" where
  \<comment> \<open>the payload is the outbound message as JSON\<close>
  "sendSessionReply en org sid seq src payload w =
     (let pmid = ''session:'' @ sid @ '':'' @ int_text seq in
      if \<not> isChannelRuntimeEnabled (cn_getenv en) (so_channelId src) then
        (\<lparr>rr_delivered = False, rr_status = ReplyChannelDisabled, rr_attemptCount = 0, rr_providerMessageId = pmid,
          rr_error = Some ''CHANNEL_DISABLED''\<rparr>, w)
      else case find (\<lambda>a. ca_organizationId a = org \<and> ca_id a = so_accountId src) (gw_accounts w) of
        None \<Rightarrow> (\<lparr>rr_delivered = False, rr_status = ReplyAccountUnavailable, rr_attemptCount = 0, rr_providerMessageId = pmid,
          rr_error = Some ''ACCOUNT_UNAVAILABLE''\<rparr>, w)
      | Some a \<Rightarrow>
          if \<not> ca_enabled a then (\<lparr>rr_delivered = False, rr_status = ReplyAccountUnavailable, rr_attemptCount = 0,
            rr_providerMessageId = pmid, rr_error = Some ''ACCOUNT_UNAVAILABLE''\<rparr>, w)
          else
            let (status, n, err) = (case parseString (map_option JStr (ca_webhookUrl a)) of
                   None \<Rightarrow> (ReplyFailed, 0, Some ''CHANNEL_OUTBOUND_WEBHOOK_URL_MISSING'')
                 | Some url \<Rightarrow> (case outboundAttempts en 1 of
                     (n, None) \<Rightarrow> (ReplyAccepted, n, None) | (n, Some err) \<Rightarrow> (ReplyDeadLetter, n, Some err)));
                w1 = createChannelMessage \<lparr>mg_organizationId = org, mg_accountId = ca_id a,
                  mg_conversationId = so_conversationId src, mg_inbound = False, mg_providerMessageId = pmid,
                  mg_sessionEventSeq = Some seq, mg_status = status_text status, mg_attemptCount = n,
                  mg_payload = Some payload, mg_error = (if truthy err then err else None)\<rparr> w;
                w2 = snd (upsertChannelConversation org (ca_id a) (so_conversationId src)
                  \<lparr>cp_sessionId = None, cp_lastInboundAt = None, cp_lastOutboundAt = Some (gw_now w1)\<rparr> w1);
                w3 = logEvent a (Some (so_conversationId src)) ''channel.message.outbound''
                  (if status = ReplyAccepted then EvInfo else EvError)
                  (if status = ReplyAccepted then ''Outbound delivery accepted''
                   else if status = ReplyDeadLetter then ''Outbound delivery moved to dead letter''
                   else qq err ''Outbound delivery failed'')
                  (JObj [(''status'', JStr (status_text status)), (''attemptCount'', JNum (int n)),
                         (''providerMessageId'', JStr pmid), (''sessionId'', JStr sid), (''sessionEventSeq'', JNum seq)]) w2
            in (\<lparr>rr_delivered = (status = ReplyAccepted), rr_status = status, rr_attemptCount = n,
                 rr_providerMessageId = pmid, rr_error = err\<rparr>, w3))"

end
