(* ===== verification/ChannelProps.thy ===== *)
theory ChannelProps
  imports ChannelInbound
begin

text \<open>
  What the channel runtime guarantees: only messages the account's policy accepts act on sessions and
  workflows, and a provider message acts once while its claim lasts.
\<close>

section \<open>What the operations leave alone\<close>

definition fixed :: "gw_world \<Rightarrow> timestamp \<times> channel_account list \<times> allowlist_entry list \<times> match_workflow list \<times> (string \<times> string) list" where
  "fixed w = (gw_now w, gw_accounts w, gw_allowlist w, gw_workflows w, gw_sessions w)"

definition acts :: "gw_world \<Rightarrow> user_event list \<times> brain_request list \<times> trigger_post list" where
  "acts w = (gw_userEvents w, gw_brain w, gw_triggers w)"

named_theorems channel_frame \<comment> \<open>fields the operations do not touch\<close>

lemma frame_messages [channel_frame]:
  "fixed (createChannelMessage m w) = fixed w" "acts (createChannelMessage m w) = acts w"
  "gw_claims (createChannelMessage m w) = gw_claims w"
  by (simp_all add: createChannelMessage_def fixed_def acts_def)

lemma frame_log [channel_frame]:
  "fixed (logEvent a conv ty lvl msg payload w) = fixed w" "acts (logEvent a conv ty lvl msg payload w) = acts w"
  "gw_claims (logEvent a conv ty lvl msg payload w) = gw_claims w"
  by (simp_all add: logEvent_def appendChannelEvent_def fixed_def acts_def)

lemma frame_pairing [channel_frame]:
  "fixed (createChannelPairingRequest en org acc r n t w) = fixed w"
  "acts (createChannelPairingRequest en org acc r n t w) = acts w"
  "gw_claims (createChannelPairingRequest en org acc r n t w) = gw_claims w"
  by (simp_all add: createChannelPairingRequest_def fixed_def acts_def)

lemma frame_upsert [channel_frame]:
  "fixed (snd (upsertChannelConversation org acc conv p w)) = fixed w"
  "acts (snd (upsertChannelConversation org acc conv p w)) = acts w"
  "gw_claims (snd (upsertChannelConversation org acc conv p w)) = gw_claims w"
  by (simp_all add: upsertChannelConversation_def Let_def fixed_def acts_def split: option.split)

lemma frame_claim [channel_frame]: "fixed (claim k w) = fixed w" "acts (claim k w) = acts w"
  by (simp_all add: claim_def fixed_def acts_def)

lemma frame_drop [channel_frame]:
  "fixed (dropMessage en wh a env d w) = fixed w" "acts (dropMessage en wh a env d w) = acts w"
  "gw_claims (dropMessage en wh a env d w) = gw_claims w"
  by (simp_all add: dropMessage_def Let_def channel_frame)

lemma frame_brain [channel_frame]:
  "fixed (sendToBrain en a route w) = fixed w" "gw_claims (sendToBrain en a route w) = gw_claims w"
  "gw_userEvents (sendToBrain en a route w) = gw_userEvents w" "gw_triggers (sendToBrain en a route w) = gw_triggers w"
  by (simp_all add: sendToBrain_def fixed_def split: option.split)

lemma screen_rejected:
  assumes "screenWebhook en wh w = Rejected reason a w1"
  shows "fixed w1 = fixed w \<and> acts w1 = acts w \<and> gw_claims w1 = gw_claims w"
  using assms
  by (auto simp: screenWebhook_def authenticate_def Let_def channel_frame split: if_splits option.splits)

lemma route_outcome:
  assumes "routeToSession a env conv w = (route, w')"
  shows "fixed w' = fixed w \<and> gw_claims w' = gw_claims w \<and> gw_brain w' = gw_brain w \<and> gw_triggers w' = gw_triggers w
    \<and> gw_userEvents w' = gw_userEvents w @ (case route of None \<Rightarrow> [] | Some e \<Rightarrow> [e])
    \<and> (\<forall>e. route = Some e \<longrightarrow> ue_organizationId e = ca_organizationId a
         \<and> (ca_organizationId a, ue_sessionId e) \<in> set (gw_sessions w) \<and> ue_text e = ev_text env \<and> ue_source e = source_of env)"
proof (cases route)
  case None
  then show ?thesis using assms by (auto simp: routeToSession_def Let_def split: if_splits prod.splits)
next
  case (Some e)
  define sid where "sid = qq (case cv_sessionId conv of Some s \<Rightarrow> Some s
      | None \<Rightarrow> parseString (jget (safeObject (ca_metadata a)) ''defaultSessionId'')) ''''"
  obtain w1 where e: "db_appendAgentSessionEvent (ca_organizationId a) sid (ev_text env) (source_of env) w = (e, w1)"
    and s: "(ca_organizationId a, sid) \<in> set (gw_sessions w)"
    and w': "w' = snd (upsertChannelConversation (ca_organizationId a) (ca_id a) (ev_conversationId env)
         \<lparr>cp_sessionId = Some (Some sid), cp_lastInboundAt = Some (gw_now w1), cp_lastOutboundAt = None\<rparr> w1)"
    using assms Some by (auto simp: routeToSession_def Let_def sid_def split: if_splits prod.splits)
  have "acts w' = acts w1" "fixed w' = fixed w1" "gw_claims w' = gw_claims w1" by (simp_all add: w' channel_frame)
  then show ?thesis using e s Some by (auto simp: db_appendAgentSessionEvent_def Let_def acts_def fixed_def)
qed

lemma accept_outcome:
  assumes "acceptMessage a env w = (route, matches, w')"
  shows "fixed w' = fixed w \<and> gw_claims w' = gw_claims w \<and> gw_brain w' = gw_brain w \<and> gw_triggers w' = gw_triggers w
    \<and> gw_userEvents w' = gw_userEvents w @ (case route of None \<Rightarrow> [] | Some e \<Rightarrow> [e])
    \<and> (\<forall>e. route = Some e \<longrightarrow> ue_organizationId e = ca_organizationId a
         \<and> (ca_organizationId a, ue_sessionId e) \<in> set (gw_sessions w) \<and> ue_text e = ev_text env \<and> ue_source e = source_of env)
    \<and> matches = collectChannelTriggeredWorkflows (db_listWorkflows (ca_organizationId a) 200 w) env (ca_accountKey a)"
proof -
  let ?org = "ca_organizationId a"
  let ?w1 = "createChannelMessage (inbound_message a env ''accepted'' None) w"
  let ?u = "upsertChannelConversation ?org (ca_id a) (ev_conversationId env)
      \<lparr>cp_sessionId = None, cp_lastInboundAt = Some (gw_now ?w1), cp_lastOutboundAt = None\<rparr> ?w1"
  obtain conv w2 where u: "?u = (conv, w2)" by fastforce
  obtain route3 w3 where r3: "routeToSession a env conv w2 = (route3, w3)" by fastforce
  have parts: "route3 = route" "matches = collectChannelTriggeredWorkflows (db_listWorkflows ?org 200 w3) env (ca_accountKey a)"
    "fixed w' = fixed w3 \<and> acts w' = acts w3 \<and> gw_claims w' = gw_claims w3"
    using assms u r3 by (auto simp: acceptMessage_def Let_def channel_frame)
  note r = r3 [unfolded parts(1)] and m = parts(2) and w' = parts(3)
  have "fixed (snd ?u) = fixed w" "acts (snd ?u) = acts w" "gw_claims (snd ?u) = gw_claims w"
    by (simp_all add: channel_frame)
  then have u2: "fixed w2 = fixed w" "acts w2 = acts w" "gw_claims w2 = gw_claims w" unfolding u by simp_all
  note ro = route_outcome [OF r]
  have "gw_workflows w3 = gw_workflows w" using ro u2(1) by (simp add: fixed_def)
  then have "db_listWorkflows ?org 200 w3 = db_listWorkflows ?org 200 w" by (simp add: db_listWorkflows_def)
  then show ?thesis using ro u2 w' m by (auto simp: fixed_def acts_def)
qed

lemma triggers_outcome:
  assumes "triggerWorkflows en a env ms w = (n, w')"
  shows "fixed w' = fixed w \<and> gw_claims w' = gw_claims w \<and> gw_userEvents w' = gw_userEvents w \<and> gw_brain w' = gw_brain w
    \<and> gw_triggers w' = gw_triggers w @ map (\<lambda>(i, u). \<lparr>tp_organizationId = ca_organizationId a, tp_workflowId = i,
         tp_requestedByUserId = u, tp_envelope = env\<rparr>) ms \<and> n \<le> length ms"
  using assms
proof (induction ms arbitrary: n w w')
  case Nil
  then show ?case by simp
next
  case (Cons m ms)
  obtain i u where m: "m = (i, u)" by fastforce
  let ?tp = "\<lparr>tp_organizationId = ca_organizationId a, tp_workflowId = i, tp_requestedByUserId = u, tp_envelope = env\<rparr>"
  obtain n0 w0 where t: "triggerWorkflows en a env ms (w\<lparr>gw_triggers := gw_triggers w @ [?tp]\<rparr>) = (n0, w0)" by fastforce
  from Cons.IH [OF t] Cons.prems t show ?case by (auto simp: m Let_def fixed_def split: if_splits)
qed

section \<open>The handler\<close>

definition decision_for :: "channel_account \<Rightarrow> envelope \<Rightarrow> gw_world \<Rightarrow> security_decision" where
  "decision_for a env w = evaluateChannelSecurity env (ca_dmPolicy a) (ca_groupPolicy a) (ca_requireMentionInGroup a)
     (allowlist_entries (ca_organizationId a) (ca_id a) w)"

lemma allowlist_fixed: "fixed w' = fixed w \<Longrightarrow> allowlist_entries org acc w' = allowlist_entries org acc w"
  by (simp add: allowlist_entries_def fixed_def)

lemma handle_cases:
  assumes "handleWebhook en wh w = (r, w')"
  obtains (rejected) reason a where "screenWebhook en wh w = Rejected reason a w'"
  | (duplicate) a env where "screenWebhook en wh w = Screened a env" "claimed (claim_key a env) w"
      "r = webhook_result True ''duplicate_message'' (Some a)" "w' = w"
  | (dropped) a env where "screenWebhook en wh w = Screened a env" "\<not> claimed (claim_key a env) w"
      "\<not> sd_accepted (decision_for a env w)" "w' = dropMessage en wh a env (decision_for a env w) (claim (claim_key a env) w)"
  | (accepted) a env route matches w2 n w3 where "screenWebhook en wh w = Screened a env" "\<not> claimed (claim_key a env) w"
      "sd_accepted (decision_for a env w)" "acceptMessage a env (claim (claim_key a env) w) = (route, matches, w2)"
      "triggerWorkflows en a env matches (sendToBrain en a route w2) = (n, w3)"
      "fixed w' = fixed w3" "acts w' = acts w3" "gw_claims w' = gw_claims w3"
proof (cases "screenWebhook en wh w")
  case (Rejected reason a w1)
  then have "w' = w1" using assms by (simp add: handleWebhook_def)
  with Rejected that(1) show ?thesis by blast
next
  case (Screened a env)
  let ?w1 = "claim (claim_key a env) w"
  have d: "decision_for a env w = evaluateChannelSecurity env (ca_dmPolicy a) (ca_groupPolicy a) (ca_requireMentionInGroup a)
      (allowlist_entries (ca_organizationId a) (ca_id a) ?w1)"
    by (simp add: decision_for_def allowlist_fixed [of ?w1 w] channel_frame)
  consider "claimed (claim_key a env) w" | "\<not> claimed (claim_key a env) w" "\<not> sd_accepted (decision_for a env w)"
    | "\<not> claimed (claim_key a env) w" "sd_accepted (decision_for a env w)" by blast
  then show ?thesis
  proof cases
    case 1
    then have "r = webhook_result True ''duplicate_message'' (Some a)" "w' = w"
      using assms Screened by (simp_all add: handleWebhook_def)
    from that(2) [OF Screened 1 this] show ?thesis .
  next
    case 2
    then have "w' = dropMessage en wh a env (decision_for a env w) ?w1"
      using assms Screened by (simp add: handleWebhook_def d [symmetric] Let_def)
    from that(3) [OF Screened 2 this] show ?thesis .
  next
    case 3
    obtain route matches w2 where acc: "acceptMessage a env ?w1 = (route, matches, w2)" by (metis prod_cases3)
    obtain n w3 where tr: "triggerWorkflows en a env matches (sendToBrain en a route w2) = (n, w3)" by fastforce
    have "\<exists>lvl msg p. w' = logEvent a None ''channel.workflow.triggered'' lvl msg p w3"
      using assms Screened 3 acc tr by (simp add: handleWebhook_def d [symmetric] Let_def) (elim conjE, intro exI, erule sym)
    then have "fixed w' = fixed w3 \<and> acts w' = acts w3 \<and> gw_claims w' = gw_claims w3"
      by (elim exE) (simp add: channel_frame)
    then show ?thesis using that(4) Screened 3 acc tr by blast
  qed
qed

lemma handle_claims:
  assumes "handleWebhook en wh w = (r, w')"
  shows "fixed w' = fixed w \<and> (\<forall>k. jget (gw_claims w') k = jget (gw_claims w) k
    \<or> \<not> claimed k w \<and> jget (gw_claims w') k = Some (gw_now w + claim_ttl))"
  using assms
proof (cases rule: handle_cases)
  case (rejected reason a)
  then show ?thesis using screen_rejected by simp
next
  case duplicate
  then show ?thesis by simp
next
  case (dropped a env)
  then have "gw_claims w' = gw_claims (claim (claim_key a env) w)" "fixed w' = fixed w" by (simp_all add: channel_frame)
  then show ?thesis using dropped(2) by (auto simp: claim_def jget_jset)
next
  case (accepted a env route matches w2 n w3)
  have "gw_claims w' = gw_claims (claim (claim_key a env) w)" "fixed w' = fixed w"
    using accept_outcome [OF accepted(4)] triggers_outcome [OF accepted(5)] accepted(6-8) by (simp_all add: channel_frame)
  then show ?thesis using accepted(2) by (auto simp: claim_def jget_jset)
qed

section \<open>A provider message acts once\<close>

definition at_time :: "timestamp \<Rightarrow> gw_world \<Rightarrow> gw_world" where
  "at_time t w = w\<lparr>gw_now := t\<rparr>"

fun deliveries :: "(channel_env \<times> timestamp \<times> webhook) list \<Rightarrow> gw_world \<Rightarrow> gw_world" where
  \<comment> \<open>a history of webhook calls, each at its time\<close>
  "deliveries [] w = w"
| "deliveries ((en, t, wh) # ds) w = deliveries ds (snd (handleWebhook en wh (at_time t w)))"

definition claimed_until :: "string \<Rightarrow> timestamp \<Rightarrow> gw_world \<Rightarrow> bool" where
  "claimed_until k T w \<longleftrightarrow> (\<exists>e. jget (gw_claims w) k = Some e \<and> T \<le> e)"

lemma claim_persists:
  assumes "claimed_until k T w"
  shows "claimed_until k T (snd (handleWebhook en wh (at_time t w)))"
proof -
  obtain e where e: "jget (gw_claims w) k = Some e" "T \<le> e" using assms by (auto simp: claimed_until_def)
  obtain r w' where h: "handleWebhook en wh (at_time t w) = (r, w')" by fastforce
  from conjunct2 [OF handle_claims [OF h], rule_format, of k]
  have "jget (gw_claims w') k = Some e \<or> \<not> claimed k (at_time t w) \<and> jget (gw_claims w') k = Some (t + claim_ttl)"
    using e(1) by (auto simp: at_time_def)
  then show ?thesis using e h by (auto simp: claimed_until_def claimed_def at_time_def claim_ttl_def)
qed

lemma claim_persists_all: "claimed_until k T w \<Longrightarrow> claimed_until k T (deliveries ds w)"
  by (induction ds w rule: deliveries.induct) (simp_all add: claim_persists)

lemma handle_claims_key:
  assumes "screenWebhook en wh w = Screened a env" and "\<not> claimed (claim_key a env) w"
  shows "claimed_until (claim_key a env) (gw_now w + claim_ttl) (snd (handleWebhook en wh w))"
proof -
  obtain r w' where h: "handleWebhook en wh w = (r, w')" by fastforce
  then have "gw_claims w' = gw_claims (claim (claim_key a env) w)"
  proof (cases rule: handle_cases)
    case (rejected reason b)
    then show ?thesis using assms(1) by simp
  next
    case (duplicate b env')
    then show ?thesis using assms by simp
  next
    case (dropped b env')
    then show ?thesis using assms(1) by (simp add: channel_frame)
  next
    case (accepted b env' route matches w2 n w3)
    then show ?thesis using accept_outcome [OF accepted(4)] triggers_outcome [OF accepted(5)] assms(1)
      by (simp add: channel_frame)
  qed
  then show ?thesis using h by (simp add: claimed_until_def claim_def jget_jset)
qed

text \<open>
  C17. A provider message acts once: after a webhook call that got through authentication, whatever
  is delivered in between and in whatever order of clock readings, another delivery of a message
  with the same provider id for the same account within 24 hours of the first is answered as a
  duplicate and changes nothing.
\<close>
theorem duplicate_delivery_ignored:
  assumes "screenWebhook en wh w = Screened a env" and "\<not> claimed (claim_key a env) w"
    and "screenWebhook en2 wh2 (at_time t (deliveries ds (snd (handleWebhook en wh w)))) = Screened a2 env2"
    and "ca_id a2 = ca_id a" and "ev_providerMessageId env2 = ev_providerMessageId env" and "t < gw_now w + claim_ttl"
  shows "handleWebhook en2 wh2 (at_time t (deliveries ds (snd (handleWebhook en wh w))))
    = (webhook_result True ''duplicate_message'' (Some a2), at_time t (deliveries ds (snd (handleWebhook en wh w))))"
proof -
  let ?w2 = "deliveries ds (snd (handleWebhook en wh w))"
  have k: "claim_key a2 env2 = claim_key a env" using assms(4,5) by (simp add: claim_key_def)
  have "claimed_until (claim_key a env) (gw_now w + claim_ttl) ?w2"
    by (rule claim_persists_all [OF handle_claims_key [OF assms(1,2)]])
  then have "claimed (claim_key a2 env2) (at_time t ?w2)"
    using assms(6) k by (auto simp: claimed_until_def claimed_def at_time_def)
  then show ?thesis using assms(3) by (simp add: handleWebhook_def)
qed

section \<open>Only authorized messages act\<close>

lemma screened:
  assumes "screenWebhook en wh w = Screened a env"
  shows "\<exists>ad. isChannelRuntimeEnabled (cn_getenv en) (wh_channelId wh) \<and> cn_adapter en (wh_channelId wh) = Some ad
    \<and> getChannelAccountByChannelAndKeyGlobal (wh_channelId wh) (wh_accountKey wh) w = Some a \<and> ca_enabled a
    \<and> (\<forall>f. ad_authenticate ad = Some f \<longrightarrow> fst (f wh a (gw_now w)))
    \<and> (\<forall>secret. parseString (jget (safeObject (ca_metadata a)) ''webhookSecret'') = Some secret \<longrightarrow>
         verifySignature en (wh_body wh) secret (webhook_signature wh))
    \<and> ad_normalize ad wh a (gw_now w) = Some env"
  using assms
  by (auto simp: screenWebhook_def authenticate_def Let_def split: if_splits option.splits)

lemma matches_own:
  assumes "(i, u) \<in> set (collectChannelTriggeredWorkflows (db_listWorkflows org n w) env key)"
  shows "\<exists>r \<in> set (gw_workflows w). mw_organizationId r = org \<and> mw_published r \<and> mw_id r = i \<and> mw_createdByUserId r = u
    \<and> channel_trigger_matches env key r"
  using assms
  by (auto simp: collectChannelTriggeredWorkflows_def db_listWorkflows_def channel_trigger_matches_def dest!: in_set_takeD)

definition permitted :: "channel_account \<Rightarrow> envelope \<Rightarrow> gw_world \<Rightarrow> bool" where
  \<comment> \<open>what the account's policies and its list of allowed senders, groups and conversations ask of a message\<close>
  "permitted a env w \<longleftrightarrow>
     (let listed = entry_for (allowlist_entries (ca_organizationId a) (ca_id a) w) in
      if ev_event env = MessageDm then
        (case ca_dmPolicy a of DmDisabled \<Rightarrow> False | DmOpen \<Rightarrow> listed [''dm'', ''sender''] ''*''
         | _ \<Rightarrow> listed [''sender'', ''dm''] (ev_senderId env))
      else (ca_requireMentionInGroup a \<longrightarrow> ev_mentionMatched env) \<and>
        (case ca_groupPolicy a of GroupDisabled \<Rightarrow> False | GroupOpen \<Rightarrow> listed [''group'', ''conversation'', ''sender''] ''*''
         | GroupAllowlist \<Rightarrow> listed [''group'', ''conversation''] (ev_conversationId env)
             \<or> listed [''sender'', ''group''] (ev_senderId env)))"

lemma accepted_permitted: "sd_accepted (decision_for a env w) \<longleftrightarrow> permitted a env w"
  by (simp add: decision_for_def security_cases permitted_def Let_def)

text \<open>
  C9. Only authorized messages act, and only within the account's organization: if a webhook call adds anything to a
  session, sends a request to the brain or starts a workflow, then the webhook's channel is enabled and so is
  the account found under the webhook's channel and key, the channel's adapter authenticated the webhook,
  its signature was verified when the account has a secret, and the account's policies permit the message
  the adapter read from this webhook.  What is added is this message: its text in one session of the
  account's organization at most, a request for that session, and triggers of published workflows of that
  organization that match it.
\<close>
theorem only_authorized_messages_act:
  assumes "handleWebhook en wh w = (r, w')" and "acts w' \<noteq> acts w"
  shows "\<exists>ad a env es bs ts. isChannelRuntimeEnabled (cn_getenv en) (wh_channelId wh) \<and> cn_adapter en (wh_channelId wh) = Some ad
    \<and> getChannelAccountByChannelAndKeyGlobal (wh_channelId wh) (wh_accountKey wh) w = Some a \<and> ca_enabled a
    \<and> (\<forall>f. ad_authenticate ad = Some f \<longrightarrow> fst (f wh a (gw_now w)))
    \<and> (\<forall>secret. parseString (jget (safeObject (ca_metadata a)) ''webhookSecret'') = Some secret \<longrightarrow>
         verifySignature en (wh_body wh) secret (webhook_signature wh))
    \<and> ad_normalize ad wh a (gw_now w) = Some env \<and> permitted a env w
    \<and> acts w' = (gw_userEvents w @ es, gw_brain w @ bs, gw_triggers w @ ts) \<and> length es \<le> 1 \<and> length bs = length es
    \<and> (\<forall>e \<in> set es. ue_organizationId e = ca_organizationId a \<and> (ca_organizationId a, ue_sessionId e) \<in> set (gw_sessions w)
         \<and> ue_text e = ev_text env \<and> ue_source e = source_of env)
    \<and> (\<forall>b \<in> set bs. br_organizationId b = ca_organizationId a \<and> br_sessionId b \<in> ue_sessionId ` set es
         \<and> br_source b = source_of env)
    \<and> (\<forall>t \<in> set ts. tp_organizationId t = ca_organizationId a \<and> tp_envelope t = env
         \<and> (\<exists>v \<in> set (gw_workflows w). mw_organizationId v = ca_organizationId a \<and> mw_published v \<and> mw_id v = tp_workflowId t
              \<and> mw_createdByUserId v = tp_requestedByUserId t \<and> channel_trigger_matches env (ca_accountKey a) v))"
  using assms(1)
proof (cases rule: handle_cases)
  case (rejected reason a)
  then show ?thesis using screen_rejected assms(2) by simp
next
  case (duplicate a env)
  then show ?thesis using assms(2) by simp
next
  case (dropped a env)
  then show ?thesis using assms(2) by (simp add: channel_frame)
next
  case (accepted a env route matches w2 n w3)
  let ?w1 = "claim (claim_key a env) w"
  let ?ts = "map (\<lambda>(i, u). \<lparr>tp_organizationId = ca_organizationId a, tp_workflowId = i,
      tp_requestedByUserId = u, tp_envelope = env\<rparr>) matches"
  let ?es = "case route of None \<Rightarrow> [] | Some e \<Rightarrow> [e]"
  obtain bs where bs: "gw_brain (sendToBrain en a route w2) = gw_brain w2 @ bs" "length bs = length ?es"
      "\<forall>b \<in> set bs. br_organizationId b = ca_organizationId a \<and> br_sessionId b \<in> ue_sessionId ` set ?es \<and> br_source b \<in> ue_source ` set ?es"
    by (cases route) (simp_all add: sendToBrain_def)
  note ao = accept_outcome [OF accepted(4)] and tr = triggers_outcome [OF accepted(5)]
  have w1: "gw_userEvents ?w1 = gw_userEvents w" "gw_brain ?w1 = gw_brain w" "gw_triggers ?w1 = gw_triggers w"
      "gw_sessions ?w1 = gw_sessions w" "gw_workflows ?w1 = gw_workflows w" by (simp_all add: claim_def)
  have acts: "acts w' = (gw_userEvents w @ ?es, gw_brain w @ bs, gw_triggers w @ ?ts)"
    using ao tr bs(1) w1 accepted(7) by (simp add: acts_def channel_frame)
  have es: "\<forall>e \<in> set ?es. ue_organizationId e = ca_organizationId a \<and> (ca_organizationId a, ue_sessionId e) \<in> set (gw_sessions w)
      \<and> ue_text e = ev_text env \<and> ue_source e = source_of env"
    using ao w1(4) by (cases route) auto
  have m: "matches = collectChannelTriggeredWorkflows (db_listWorkflows (ca_organizationId a) 200 w) env (ca_accountKey a)"
    using ao w1(5) by (simp add: db_listWorkflows_def)
  have ts: "\<forall>t \<in> set ?ts. tp_organizationId t = ca_organizationId a \<and> tp_envelope t = env
      \<and> (\<exists>v \<in> set (gw_workflows w). mw_organizationId v = ca_organizationId a \<and> mw_published v \<and> mw_id v = tp_workflowId t
           \<and> mw_createdByUserId v = tp_requestedByUserId t \<and> channel_trigger_matches env (ca_accountKey a) v)"
    using matches_own m by fastforce
  have bs': "\<forall>b \<in> set bs. br_organizationId b = ca_organizationId a \<and> br_sessionId b \<in> ue_sessionId ` set ?es
      \<and> br_source b = source_of env" using bs(3) es by fastforce
  have p: "permitted a env w" using accepted(3) accepted_permitted by blast
  have "length ?es \<le> 1" by (cases route) simp_all
  with screened [OF accepted(1)] p acts es ts bs(2) bs' show ?thesis
    by (elim exE conjE) (intro exI conjI, assumption+)
qed

section \<open>A sample\<close>

definition webchat_account :: channel_account where
  "webchat_account = \<lparr>ca_id = ''a1'', ca_organizationId = ''o'', ca_channelId = ''webchat'', ca_accountKey = ''main'',
     ca_displayName = None, ca_enabled = True, ca_status = ''running'', ca_dmPolicy = DmPairing, ca_groupPolicy = GroupAllowlist,
     ca_requireMentionInGroup = True, ca_webhookUrl = None,
     ca_metadata = JObj [(''webhookSecret'', JStr ''k''), (''defaultSessionId'', JStr ''s'')], ca_lastError = None,
     ca_lastSeenAt = None, ca_createdByUserId = ''u'', ca_updatedByUserId = ''u'', ca_createdAt = 0, ca_updatedAt = 0\<rparr>"

definition webchat_envelope :: envelope where
  "webchat_envelope = \<lparr>ev_channelId = ''webchat'', ev_accountId = ''a1'', ev_accountKey = ''main'', ev_organizationId = ''o'',
     ev_providerMessageId = ''m1'', ev_conversationId = ''c'', ev_senderId = ''bob'', ev_senderDisplayName = None,
     ev_text = ''please deploy'', ev_event = MessageDm, ev_mentionMatched = False, ev_raw = None\<rparr>"

definition webchat_env :: channel_env where
  "webchat_env = \<lparr>cn_getenv = (\<lambda>_. None), cn_adapter = (\<lambda>_. Some \<lparr>ad_authenticate = None, ad_normalize = (\<lambda>_ _ _. Some webchat_envelope)\<rparr>),
     cn_hmacHex = (\<lambda>s k. k @ s), cn_edgeId = ''e'', cn_code = ''ABCDEF'', cn_uid = ''id'', cn_triggerOk = (\<lambda>_. True),
     cn_outboundOk = (\<lambda>_. None), cn_maxAttempts = 3\<rparr>"

definition webchat_webhook :: webhook where
  "webchat_webhook = \<lparr>wh_channelId = ''webchat'', wh_accountKey = ''main'', wh_headers = [(''x-signature'', ''k{}'')], wh_query = [],
     wh_body = Some (JObj []), wh_requestId = ''r1''\<rparr>"

definition deploy_workflow :: match_workflow where
  "deploy_workflow = \<lparr>mw_id = ''w1'', mw_organizationId = ''o'', mw_published = True, mw_createdByUserId = ''u'',
     mw_dsl = JObj [(''trigger'', JObj [(''type'', JStr ''trigger.channel''), (''config'', JObj [(''channelId'', JStr ''webchat''),
       (''match'', JObj [(''textContains'', JStr ''Deploy'')])])])], mw_createdAt = 0\<rparr>"

definition webchat_world :: gw_world where
  "webchat_world = \<lparr>gw_now = 1000, gw_claims = [], gw_accounts = [webchat_account],
     gw_allowlist = [\<lparr>ae_id = ''e1'', ae_organizationId = ''o'', ae_accountId = ''a1'', ae_scope = ''Sender'', ae_subject = ''bob'',
       ae_createdByUserId = ''u'', ae_createdAt = 0\<rparr>],
     gw_workflows = [deploy_workflow], gw_sessions = [(''o'', ''s'')], gw_pairings = [], gw_messages = [], gw_conversations = [],
     gw_log = [], gw_userEvents = [], gw_broadcasts = [], gw_brain = [], gw_triggers = []\<rparr>"

theorem only_authorized_messages_act_witness:
  "\<exists>env. permitted webchat_account env webchat_world \<and> ev_senderId env = ''bob''
    \<and> acts (snd (handleWebhook webchat_env webchat_webhook webchat_world)) \<noteq> acts webchat_world"
proof -
  obtain r w' where h: "handleWebhook webchat_env webchat_webhook webchat_world = (r, w')" by fastforce
  have "gw_triggers (snd (handleWebhook webchat_env webchat_webhook webchat_world)) \<noteq> []" by code_simp
  then have n: "acts w' \<noteq> acts webchat_world" using h by (auto simp: acts_def webchat_world_def)
  obtain ad a env where a: "cn_adapter webchat_env ''webchat'' = Some ad" "permitted a env webchat_world"
    "getChannelAccountByChannelAndKeyGlobal ''webchat'' ''main'' webchat_world = Some a"
    "ad_normalize ad webchat_webhook a (gw_now webchat_world) = Some env"
    using only_authorized_messages_act [OF h n] by (auto simp: webchat_webhook_def)
  have "a = webchat_account" "env = webchat_envelope"
    using a(1,3,4) by (auto simp: getChannelAccountByChannelAndKeyGlobal_def webchat_world_def webchat_account_def webchat_env_def)
  with a(2) n h show ?thesis by (auto simp: webchat_envelope_def)
qed

theorem duplicate_delivery_ignored_witness:
  "\<exists>a w1. w1 = snd (handleWebhook webchat_env webchat_webhook webchat_world) \<and> length (gw_triggers w1) = 1
    \<and> handleWebhook webchat_env webchat_webhook (at_time 2000 w1) = (webhook_result True ''duplicate_message'' (Some a), at_time 2000 w1)"
proof -
  let ?w1 = "snd (handleWebhook webchat_env webchat_webhook webchat_world)"
  have s: "screenWebhook webchat_env webchat_webhook webchat_world = Screened webchat_account webchat_envelope" by code_simp
  have c: "\<not> claimed (claim_key webchat_account webchat_envelope) webchat_world" by (simp add: claimed_def webchat_world_def)
  have s2: "screenWebhook webchat_env webchat_webhook (at_time 2000 (deliveries [] ?w1)) = Screened webchat_account webchat_envelope"
    by code_simp
  have t: "(2000 :: int) < gw_now webchat_world + claim_ttl" by (simp add: webchat_world_def claim_ttl_def)
  have "length (gw_triggers ?w1) = 1" by code_simp
  with duplicate_delivery_ignored [OF s c s2 refl refl t] show ?thesis by (auto simp del: One_nat_def)
qed

end
