(* ===== verification/AgentRouting.thy ===== *)
theory AgentRouting
  imports Prelude
begin

text \<open>
  Which agent a message goes to and which session it joins:
  \<open>packages/agent-runtime/src/session-routing.ts\<close>.  Binding dimensions are ordered by specificity, as
  the array \<open>bindingOrder\<close> lists them; the instance of \<open>linorder\<close> is that order.
\<close>

section \<open>Dimensions\<close>

datatype binding_dimension =
  DimPeer | DimParentPeer | DimOrgRoles | DimOrganization | DimTeam | DimAccount | DimChannel | DimDefault

definition bindingOrder :: "binding_dimension list" where
  "bindingOrder = [DimPeer, DimParentPeer, DimOrgRoles, DimOrganization, DimTeam, DimAccount, DimChannel, DimDefault]"

fun index_of :: "'a \<Rightarrow> 'a list \<Rightarrow> nat" where
  \<comment> \<open>\<open>indexOf\<close>, the length where it is -1\<close>
  "index_of x [] = 0"
| "index_of x (y # ys) = (if x = y then 0 else Suc (index_of x ys))"

definition dimensionsRank :: "binding_dimension \<Rightarrow> int" where
  "dimensionsRank d = int (index_of d bindingOrder)"

lemma dimensionsRank_inj: "dimensionsRank a = dimensionsRank b \<longleftrightarrow> a = b"
  by (cases a; cases b; simp add: dimensionsRank_def bindingOrder_def)

instantiation binding_dimension :: linorder
begin

definition less_eq_binding_dimension :: "binding_dimension \<Rightarrow> binding_dimension \<Rightarrow> bool" where
  "a \<le> b \<longleftrightarrow> dimensionsRank a \<le> dimensionsRank b"

definition less_binding_dimension :: "binding_dimension \<Rightarrow> binding_dimension \<Rightarrow> bool" where
  "a < b \<longleftrightarrow> dimensionsRank a < dimensionsRank b"

instance
  by standard (auto simp: less_eq_binding_dimension_def less_binding_dimension_def dimensionsRank_inj)

end

section \<open>Session keys\<close>

datatype session_scope = ScopeMain | PerPeer | PerChannelPeer | PerAccountChannelPeer

fun scope_text :: "session_scope \<Rightarrow> string" where
  "scope_text ScopeMain = ''main''"
| "scope_text PerPeer = ''per-peer''"
| "scope_text PerChannelPeer = ''per-channel-peer''"
| "scope_text PerAccountChannelPeer = ''per-account-channel-peer''"

definition key_char :: "char \<Rightarrow> bool" where
  \<comment> \<open>the class \<open>[a-z0-9._-]\<close>\<close>
  "key_char c \<longleftrightarrow> (let n = (of_char c :: nat) in 97 \<le> n \<and> n \<le> 122 \<or> 48 \<le> n \<and> n \<le> 57 \<or> n \<in> {46, 95, 45})"

fun dash_runs :: "bool \<Rightarrow> string \<Rightarrow> string" where
  \<comment> \<open>each maximal run of other characters becomes one dash; the flag says we are inside a run\<close>
  "dash_runs inRun [] = []"
| "dash_runs inRun (c # cs) =
     (if key_char c then c # dash_runs False cs
      else if inRun then dash_runs True cs else CHR ''-'' # dash_runs True cs)"

definition normalizePart :: "string \<Rightarrow> string" where
  "normalizePart value = dash_runs False (toLowerCase (trim value))"

definition safePart :: "string option \<Rightarrow> string \<Rightarrow> string" where
  "safePart value fallback =
     (case value of
        None \<Rightarrow> fallback
      | Some v \<Rightarrow> if v = '''' \<or> trim v = '''' then fallback
          else let n = normalizePart v in if length n > 0 then n else fallback)"

record route_context =
  rc_organizationId :: string
  rc_actorUserId :: string
  rc_channel :: "string option"
  rc_account :: "string option"
  rc_peer :: "string option"
  rc_parentPeer :: "string option"
  rc_orgRoles :: "string list option"
  rc_team :: "string option"
  rc_scope :: session_scope

definition peer_part :: "route_context \<Rightarrow> string" where
  "peer_part c = safePart (Some (qq (rc_peer c) (rc_actorUserId c))) ''anonymous''"

definition channel_part :: "route_context \<Rightarrow> string" where
  "channel_part c = safePart (rc_channel c) ''unknown-channel''"

definition account_part :: "route_context \<Rightarrow> string" where
  "account_part c = safePart (rc_account c) ''unknown-account''"

definition buildSessionKey :: "string \<Rightarrow> route_context \<Rightarrow> string" where
  "buildSessionKey agentId c =
     (let base = ''agent:'' @ safePart (Some agentId) ''default'' @ '':org:''
            @ safePart (Some (rc_organizationId c)) ''unknown-org'' @ '':scope:'' @ scope_text (rc_scope c)
      in case rc_scope c of
           ScopeMain \<Rightarrow> base
         | PerPeer \<Rightarrow> base @ '':peer:'' @ peer_part c
         | PerChannelPeer \<Rightarrow> base @ '':channel:'' @ channel_part c @ '':peer:'' @ peer_part c
         | PerAccountChannelPeer \<Rightarrow>
             base @ '':account:'' @ account_part c @ '':channel:'' @ channel_part c @ '':peer:'' @ peer_part c)"

definition roleListKey :: "string list option \<Rightarrow> string" where
  "roleListKey roles =
     (case roles of
        None \<Rightarrow> ''none''
      | Some rs \<Rightarrow> if rs = [] then ''none''
          else joinWith ''+'' (js_sort str_cmp (filter (\<lambda>r. length r > 0) (map normalizePart rs))))"

definition getRoutingDebugKey :: "route_context \<Rightarrow> string" where
  "getRoutingDebugKey c =
     joinWith '':'' [''org:'' @ safePart (Some (rc_organizationId c)) ''unknown'',
       ''scope:'' @ safePart (Some (scope_text (rc_scope c))) ''main'', ''peer:'' @ peer_part c,
       ''channel:'' @ safePart (rc_channel c) ''none'', ''account:'' @ safePart (rc_account c) ''none'',
       ''team:'' @ safePart (rc_team c) ''none'', ''roles:'' @ roleListKey (rc_orgRoles c)]"

section \<open>Bindings\<close>

record binding_match =
  bm_peer :: "string option"
  bm_parentPeer :: "string option"
  bm_orgRoles :: "string list option"
  bm_organizationId :: "string option"
  bm_teamId :: "string option"
  bm_accountId :: "string option"
  bm_channelId :: "string option"

record route_binding =
  rb_id :: string
  rb_organizationId :: string
  rb_agentId :: string
  rb_priority :: int
  rb_dimension :: binding_dimension
  rb_match :: binding_match

definition both_equal :: "string option \<Rightarrow> string option \<Rightarrow> bool" where
  \<comment> \<open>\<open>Boolean(a && b && a === b)\<close>\<close>
  "both_equal a b \<longleftrightarrow> truthy a \<and> truthy b \<and> a = b"

definition matchesBinding :: "route_binding \<Rightarrow> route_context \<Rightarrow> bool" where
  "matchesBinding b c =
     (let m = rb_match b in case rb_dimension b of
        DimPeer \<Rightarrow> both_equal (bm_peer m) (rc_peer c)
      | DimParentPeer \<Rightarrow> both_equal (bm_parentPeer m) (rc_parentPeer c)
      | DimOrgRoles \<Rightarrow> list_ex (\<lambda>r. r \<in> set (qq (rc_orgRoles c) [])) (qq (bm_orgRoles m) [])
      | DimOrganization \<Rightarrow> truthy (bm_organizationId m) \<and> bm_organizationId m = Some (rc_organizationId c)
      | DimTeam \<Rightarrow> both_equal (bm_teamId m) (rc_team c)
      | DimAccount \<Rightarrow> both_equal (bm_accountId m) (rc_account c)
      | DimChannel \<Rightarrow> both_equal (bm_channelId m) (rc_channel c)
      | DimDefault \<Rightarrow> True)"

definition compare_bindings :: "(string \<Rightarrow> string \<Rightarrow> int) \<Rightarrow> route_binding \<Rightarrow> route_binding \<Rightarrow> int" where
  "compare_bindings lc left right =
     (let dimRank = dimensionsRank (rb_dimension left) - dimensionsRank (rb_dimension right) in
      if dimRank \<noteq> 0 then dimRank
      else if rb_priority left \<noteq> rb_priority right then rb_priority right - rb_priority left
      else lc (rb_id left) (rb_id right))"

record route_resolved =
  rs_agentId :: string
  rs_sessionKey :: string
  rs_bindingId :: "string option"

definition resolveRoutedAgent :: "(string \<Rightarrow> string \<Rightarrow> int) \<Rightarrow> route_binding list \<Rightarrow> route_context \<Rightarrow> string \<Rightarrow> route_resolved" where
  "resolveRoutedAgent lc bindings c defaultAgentId =
     (let candidates = js_sort (compare_bindings lc)
            (filter (\<lambda>b. matchesBinding b c) (filter (\<lambda>b. rb_organizationId b = rc_organizationId c) bindings));
          selected = (case candidates of [] \<Rightarrow> None | b # _ \<Rightarrow> Some b);
          agent = qq (map_option rb_agentId selected) defaultAgentId
      in \<lparr>rs_agentId = agent, rs_sessionKey = buildSessionKey agent c, rs_bindingId = map_option rb_id selected\<rparr>)"

section \<open>The chosen binding is the best\<close>

lemma good_cmp_minus: "good_cmp (\<lambda>a b. (h a :: int) - h b)"
  by (auto simp: good_cmp_def)

lemma compare_bindings_chain:
  "compare_bindings lc = (\<lambda>a b. cmp_then (dimensionsRank (rb_dimension a) - dimensionsRank (rb_dimension b))
     (cmp_then (- rb_priority a - (- rb_priority b)) (lc (rb_id a) (rb_id b))))"
  by (intro ext) (simp add: compare_bindings_def Let_def cmp_then_def)

lemma good_compare_bindings: "good_cmp lc \<Longrightarrow> good_cmp (compare_bindings lc)"
  unfolding compare_bindings_chain
  by (rule good_cmp_chain [OF good_cmp_minus good_cmp_chain [OF good_cmp_minus good_cmp_by_id]])

definition candidate :: "route_binding list \<Rightarrow> route_context \<Rightarrow> route_binding \<Rightarrow> bool" where
  "candidate bindings c b \<longleftrightarrow> b \<in> set bindings \<and> rb_organizationId b = rc_organizationId c \<and> matchesBinding b c"

definition better :: "(string \<Rightarrow> string \<Rightarrow> int) \<Rightarrow> route_binding \<Rightarrow> route_binding \<Rightarrow> bool" where
  \<comment> \<open>more specific, or equally specific with a higher priority, or equal in both with an id that \<open>localeCompare\<close> puts first\<close>
  "better lc a b \<longleftrightarrow> rb_dimension a < rb_dimension b
     \<or> rb_dimension a = rb_dimension b \<and> (rb_priority a > rb_priority b
          \<or> rb_priority a = rb_priority b \<and> lc (rb_id a) (rb_id b) \<le> 0)"

lemma compare_better: "compare_bindings lc a b \<le> 0 \<Longrightarrow> better lc a b"
  using dimensionsRank_inj [of "rb_dimension a" "rb_dimension b"]
  by (auto simp: compare_bindings_def Let_def better_def less_binding_dimension_def split: if_splits)

text \<open>
  The most specific binding wins: the resolution names a binding of the organization that
  matches the context and is at least as good as every other such binding (by dimension, then
  priority, then id), and falls back to the default agent exactly when there is none.
\<close>
theorem resolution_best_binding:
  assumes "good_cmp lc"
  shows "case rs_bindingId (resolveRoutedAgent lc bindings c def) of
      None \<Rightarrow> (\<nexists>b. candidate bindings c b) \<and> rs_agentId (resolveRoutedAgent lc bindings c def) = def
    | Some i \<Rightarrow> \<exists>b. candidate bindings c b \<and> rb_id b = i \<and> rs_agentId (resolveRoutedAgent lc bindings c def) = rb_agentId b
        \<and> (\<forall>b'. candidate bindings c b' \<longrightarrow> better lc b b')"
proof -
  let ?cs = "filter (\<lambda>b. matchesBinding b c) (filter (\<lambda>b. rb_organizationId b = rc_organizationId c) bindings)"
  have cand: "b \<in> set ?cs \<longleftrightarrow> candidate bindings c b" for b by (auto simp: candidate_def)
  show ?thesis
  proof (cases "js_sort (compare_bindings lc) ?cs")
    case Nil
    then have "set ?cs = {}" by (metis set_js_sort list.set(1))
    then show ?thesis using cand Nil by (auto simp: resolveRoutedAgent_def Let_def)
  next
    case (Cons b bs)
    have b: "candidate bindings c b" using Cons cand by (metis list.set_intros(1) set_js_sort)
    have "better lc b b'" if "candidate bindings c b'" for b'
      using compare_better js_sort_head [OF good_compare_bindings [OF assms] Cons] that cand by blast
    then show ?thesis using Cons b by (auto simp: resolveRoutedAgent_def Let_def)
  qed
qed

definition sample_binding :: "string \<Rightarrow> int \<Rightarrow> binding_dimension \<Rightarrow> route_binding" where
  "sample_binding i p d = \<lparr>rb_id = i, rb_organizationId = ''o'', rb_agentId = ''agent-'' @ i, rb_priority = p, rb_dimension = d,
     rb_match = \<lparr>bm_peer = Some ''bob'', bm_parentPeer = None, bm_orgRoles = None, bm_organizationId = None, bm_teamId = None,
       bm_accountId = None, bm_channelId = Some ''webchat''\<rparr>\<rparr>"

definition sample_route :: route_context where
  "sample_route = \<lparr>rc_organizationId = ''o'', rc_actorUserId = ''u'', rc_channel = Some ''webchat'', rc_account = None,
     rc_peer = Some ''bob'', rc_parentPeer = None, rc_orgRoles = None, rc_team = None, rc_scope = PerChannelPeer\<rparr>"

theorem resolution_best_binding_witness:
  "\<exists>b. candidate [sample_binding ''x'' 9 DimChannel, sample_binding ''y'' 1 DimPeer, sample_binding ''z'' 5 DimPeer] sample_route b
     \<and> rb_id b = ''z'' \<and> (\<forall>b'. candidate [sample_binding ''x'' 9 DimChannel, sample_binding ''y'' 1 DimPeer,
         sample_binding ''z'' 5 DimPeer] sample_route b' \<longrightarrow> better str_cmp b b')"
proof -
  have "rs_bindingId (resolveRoutedAgent str_cmp [sample_binding ''x'' 9 DimChannel, sample_binding ''y'' 1 DimPeer,
      sample_binding ''z'' 5 DimPeer] sample_route ''d'') = Some ''z''" by code_simp
  with resolution_best_binding [OF good_cmp_str_cmp, of "[sample_binding ''x'' 9 DimChannel, sample_binding ''y'' 1 DimPeer,
      sample_binding ''z'' 5 DimPeer]" sample_route "''d''"] show ?thesis by auto
qed

section \<open>Session keys separate sessions\<close>

definition part_ok :: "string \<Rightarrow> bool" where
  "part_ok p \<longleftrightarrow> CHR '':'' \<notin> set p"

lemma key_char_no_colon: "key_char c \<Longrightarrow> c \<noteq> CHR '':''"
  by (auto simp: key_char_def Let_def)

lemma dash_runs_no_colon: "part_ok (dash_runs r s)"
  by (induction r s rule: dash_runs.induct) (auto simp: part_ok_def dest: key_char_no_colon)

lemma safePart_no_colon: "part_ok fallback \<Longrightarrow> part_ok (safePart v fallback)"
  by (auto simp: safePart_def normalizePart_def dash_runs_no_colon Let_def split: option.splits)

definition tail_ok :: "string \<Rightarrow> bool" where
  "tail_ok x \<longleftrightarrow> x = [] \<or> hd x = CHR '':''"

lemma tail_ok_simps [simp]: "tail_ok []" "tail_ok (CHR '':'' # x)"
  by (simp_all add: tail_ok_def)

lemma split_part:
  assumes "part_ok a" and "part_ok b" and "tail_ok x" and "tail_ok y"
  shows "a @ x = b @ y \<longleftrightarrow> a = b \<and> x = y"
proof -
  have "takeWhile (\<lambda>c. c \<noteq> CHR '':'') (p @ z) = p" if "part_ok p" "tail_ok z" for p z
    using that by (induction p) (auto simp: part_ok_def tail_ok_def takeWhile_eq_Nil_iff)
  then have "a = b" if "a @ x = b @ y" using assms that by metis
  then show ?thesis by auto
qed

lemma parts_ok [simp]:
  "part_ok (safePart (Some x) ''default'')" "part_ok (safePart (Some x) ''unknown-org'')" "part_ok (peer_part c)"
  "part_ok (channel_part c)" "part_ok (account_part c)" "part_ok (scope_text s)"
  by (auto simp: peer_part_def channel_part_def account_part_def intro!: safePart_no_colon)
    (simp_all add: part_ok_def, cases s, simp_all)

definition session_parts :: "string \<Rightarrow> route_context \<Rightarrow> string \<times> string \<times> session_scope \<times> string list" where
  \<comment> \<open>what a session is for: agent, organization, scope and what the scope distinguishes, normalized\<close>
  "session_parts agentId c =
     (safePart (Some agentId) ''default'', safePart (Some (rc_organizationId c)) ''unknown-org'', rc_scope c,
      (case rc_scope c of
         ScopeMain \<Rightarrow> [] | PerPeer \<Rightarrow> [peer_part c] | PerChannelPeer \<Rightarrow> [channel_part c, peer_part c]
       | PerAccountChannelPeer \<Rightarrow> [account_part c, channel_part c, peer_part c]))"

text \<open>
  C38. A session key determines the session: two messages share a key exactly when they have the
  same scope, the same normalized agent and organization, and the same normalized peer, channel and
  account as far as the scope distinguishes them.
\<close>
theorem session_key_separates:
  "buildSessionKey a c = buildSessionKey a' c' \<longleftrightarrow> session_parts a c = session_parts a' c'"
  by (cases "rc_scope c"; cases "rc_scope c'") (auto simp: buildSessionKey_def session_parts_def Let_def split_part)

end
