(* ===== verification/AuthTokens.thy ===== *)
theory AuthTokens
  imports JsonText
begin

text \<open>
  Access tokens: \<open>packages/shared/src/auth.ts\<close>.  Strings are ASCII, so UTF-8 is one byte a character.
  Base64url is Node's codec; HMAC-SHA256 and \<open>JSON.parse\<close> are arguments, of which the theorems use
  that a digest is made of base64url characters and that parsing inverts \<open>JSON.stringify\<close> on a token's
  payload.
\<close>

section \<open>Base64url\<close>

definition b64_alphabet :: string where
  "b64_alphabet = ''ABCDEFGHIJKLMNOPQRSTUVWXYZabcdefghijklmnopqrstuvwxyz0123456789-_''"

definition b64_char :: "nat \<Rightarrow> char" where
  "b64_char n = b64_alphabet ! n"

definition b64_val :: "char \<Rightarrow> nat option" where
  \<comment> \<open>the decoder also knows the characters of plain base64\<close>
  "b64_val c = (if c = CHR ''+'' then Some 62 else if c = CHR ''/'' then Some 63
     else map_of (zip b64_alphabet [0..<64]) c)"

fun b64_groups :: "nat list \<Rightarrow> nat list" where
  \<comment> \<open>bytes to sextets\<close>
  "b64_groups [] = []"
| "b64_groups [a] = [a div 4, a mod 4 * 16]"
| "b64_groups [a, b] = [a div 4, a mod 4 * 16 + b div 16, b mod 16 * 4]"
| "b64_groups (a # b # c # bs) = [a div 4, a mod 4 * 16 + b div 16, b mod 16 * 4 + c div 64, c mod 64] @ b64_groups bs"

fun b64_bytes :: "nat list \<Rightarrow> nat list" where
  \<comment> \<open>sextets to bytes; a single last sextet is dropped\<close>
  "b64_bytes [] = []"
| "b64_bytes [p] = []"
| "b64_bytes [p, q] = [p * 4 + q div 16]"
| "b64_bytes [p, q, r] = [p * 4 + q div 16, q mod 16 * 16 + r div 4]"
| "b64_bytes (p # q # r # s # ts) = [p * 4 + q div 16, q mod 16 * 16 + r div 4, r mod 4 * 64 + s] @ b64_bytes ts"

definition b64UrlEncode :: "string \<Rightarrow> string" where
  "b64UrlEncode s = map b64_char (b64_groups (map of_char s))"

definition b64UrlDecode :: "string \<Rightarrow> string" where
  \<comment> \<open>decoding stops at padding and skips other characters\<close>
  "b64UrlDecode s = map char_of (b64_bytes (List.map_filter b64_val (takeWhile (\<lambda>c. c \<noteq> CHR ''='') s)))"

lemma packed: "q < k \<Longrightarrow> (m * k + q) div k = m" "q < k \<Longrightarrow> (m * k + q) mod k = (q :: nat)"
  by simp_all

lemma b64_bytes_groups:
  assumes "\<forall>b \<in> set bs. b < 256"
  shows "b64_bytes (b64_groups bs) = bs"
  using assms
proof (induction bs rule: b64_groups.induct)
  case (3 a b)
  then have "b div 16 < 16" by (simp add: less_mult_imp_div_less)
  then show ?case by (simp add: packed)
next
  case (4 a b c bs)
  then have "b div 16 < 16" "c div 64 < 4" by (simp_all add: less_mult_imp_div_less)
  then show ?case using 4 by (simp add: packed)
qed simp_all

lemma b64_groups_bound: "\<forall>b \<in> set bs. b < 256 \<Longrightarrow> \<forall>g \<in> set (b64_groups bs). g < 64"
  by (induction bs rule: b64_groups.induct) (auto simp: less_mult_imp_div_less)

lemma b64_val_char: "n < 64 \<Longrightarrow> b64_val (b64_char n) = Some n \<and> b64_char n \<noteq> CHR ''='' \<and> b64_char n \<noteq> CHR ''.''"
proof -
  have "list_all (\<lambda>n. b64_val (b64_char n) = Some n \<and> b64_char n \<noteq> CHR ''='' \<and> b64_char n \<noteq> CHR ''.'') [0..<64]"
    by code_simp
  then show "n < 64 \<Longrightarrow> ?thesis" by (simp add: list_all_iff)
qed

lemma b64_sextets:
  assumes "\<forall>g \<in> set gs. g < 64"
  shows "List.map_filter b64_val (takeWhile (\<lambda>c. c \<noteq> CHR ''='') (map b64_char gs)) = gs"
  using assms by (induction gs) (simp_all add: b64_val_char List.map_filter_simps)

lemma b64_round_trip: "b64UrlDecode (b64UrlEncode s) = s"
proof -
  have b: "\<forall>b \<in> set (map (of_char :: char \<Rightarrow> nat) s). b < 256" by simp
  have "b64UrlDecode (b64UrlEncode s) = map char_of (b64_bytes (b64_groups (map of_char s)))"
    by (simp add: b64UrlDecode_def b64UrlEncode_def b64_sextets [OF b64_groups_bound [OF b]])
  also have "\<dots> = map char_of (map (of_char :: char \<Rightarrow> nat) s)" by (simp only: b64_bytes_groups [OF b])
  also have "\<dots> = s" by (simp add: map_idI)
  finally show ?thesis .
qed

lemma b64_no_dot: "CHR ''.'' \<notin> set (b64UrlEncode s)"
proof -
  have b: "\<forall>b \<in> set (map (of_char :: char \<Rightarrow> nat) s). b < 256" by simp
  show ?thesis using b64_groups_bound [OF b] b64_val_char by (auto simp: b64UrlEncode_def image_iff) metis
qed

lemma b64_nonempty: "s \<noteq> [] \<Longrightarrow> b64UrlEncode s \<noteq> []"
  by (cases "map (of_char :: char \<Rightarrow> nat) s" rule: b64_groups.cases) (auto simp: b64UrlEncode_def)

section \<open>Tokens\<close>

record claims =
  cl_userId :: string
  cl_email :: string
  cl_sessionId :: string
  cl_tokenType :: string
  cl_issuedAt :: int
  cl_expiresAt :: int

record signed_session =
  as_token :: string
  as_claims :: claims

definition claims_json :: "claims \<Rightarrow> json" where
  "claims_json c = JObj [(''userId'', JStr (cl_userId c)), (''email'', JStr (cl_email c)), (''sessionId'', JStr (cl_sessionId c)),
     (''tokenType'', JStr (cl_tokenType c)), (''issuedAt'', JNum (cl_issuedAt c)), (''expiresAt'', JNum (cl_expiresAt c))]"

definition signAuthToken :: "(string \<Rightarrow> string \<Rightarrow> string) \<Rightarrow> string \<Rightarrow> string \<Rightarrow> string \<Rightarrow> int option \<Rightarrow> int \<Rightarrow> string \<Rightarrow> signed_session" where
  "signAuthToken hmac userId email sessionId ttlSec nowMs secret =
     (let issuedAt = nowMs div 1000;
          c = \<lparr>cl_userId = userId, cl_email = email, cl_sessionId = sessionId, cl_tokenType = ''access'',
               cl_issuedAt = issuedAt, cl_expiresAt = issuedAt + qq ttlSec (60 * 60 * 8)\<rparr>;
          encoded = b64UrlEncode (stringify (claims_json c))
      in \<lparr>as_token = encoded @ ''.'' @ hmac encoded secret, as_claims = c\<rparr>)"

definition number_of_text :: "string \<Rightarrow> int option" where
  \<comment> \<open>\<open>Number(s)\<close> for texts of integers in decimal notation; fractions, exponents and prefixes count as \<open>NaN\<close>\<close>
  "number_of_text s = (let t = trim s; ds = (if t \<noteq> '''' \<and> hd t \<in> {CHR ''+'', CHR ''-''} then tl t else t)
     in if t = '''' then Some 0
        else if ds = '''' \<or> \<not> list_all is_digit ds then None
        else Some (if hd t = CHR ''-'' then - int (nat_of_digits ds) else int (nat_of_digits ds)))"

fun number_of :: "json \<Rightarrow> int option" where
  \<comment> \<open>the coercion of a comparison with a number, \<open>None\<close> for \<open>NaN\<close>; an array is first turned into its text\<close>
  "number_of JNull = Some 0"
| "number_of (JBool b) = Some (of_bool b)"
| "number_of (JNum n) = Some n"
| "number_of (JStr s) = number_of_text s"
| "number_of (JArr []) = Some 0"
| "number_of (JArr [v]) = (case v of JBool _ \<Rightarrow> None | _ \<Rightarrow> number_of v)"
| "number_of _ = None"

definition expired_at :: "json option \<Rightarrow> int \<Rightarrow> bool" where
  \<comment> \<open>\<open>payload.expiresAt <= nowSec\<close>; a comparison with a missing or non-numeric value is false\<close>
  "expired_at v nowSec = (case Option.bind v number_of of Some n \<Rightarrow> n \<le> nowSec | None \<Rightarrow> False)"

definition verifyAuthToken :: "(string \<Rightarrow> string \<Rightarrow> string) \<Rightarrow> (string \<Rightarrow> json option) \<Rightarrow> string \<Rightarrow> string \<Rightarrow> int \<Rightarrow> json option" where
  \<comment> \<open>\<open>parse\<close> is \<open>JSON.parse\<close>, \<open>None\<close> when it throws\<close>
  "verifyAuthToken hmac parse token secret nowSec =
     (case splitOn (CHR ''.'') token of
        encoded # signature # _ \<Rightarrow>
          if encoded = '''' \<or> signature = '''' then None
          else
            let expected = hmac encoded secret in
            if length signature \<noteq> length expected then None
            else if signature \<noteq> expected then None
            else (case parse (b64UrlDecode encoded) of
                    None \<Rightarrow> None
                  | Some payload \<Rightarrow>
                      if \<not> truthyJ (get_property payload ''userId'') \<or> \<not> truthyJ (get_property payload ''email'')
                        \<or> \<not> truthyJ (get_property payload ''sessionId'') then None
                      else if get_property payload ''tokenType'' \<noteq> Some (JStr ''access'') then None
                      else if expired_at (get_property payload ''expiresAt'') nowSec then None
                      else Some payload)
      | _ \<Rightarrow> None)"

text \<open>
  C39. Tokens round trip: a signed token is verified with the same secret, and yields the claims it
  was signed with, exactly while it has not expired, provided its user, email and session are
  non-empty.
\<close>
theorem auth_token_round_trip:
  assumes "hmac (b64UrlEncode (stringify (claims_json c))) secret \<noteq> ''''"
    and "CHR ''.'' \<notin> set (hmac (b64UrlEncode (stringify (claims_json c))) secret)"
    and "parse (stringify (claims_json c)) = Some (claims_json c)"
    and "s = signAuthToken hmac userId email sessionId ttlSec nowMs secret" and "c = as_claims s"
    and "userId \<noteq> ''''" and "email \<noteq> ''''" and "sessionId \<noteq> ''''"
  shows "verifyAuthToken hmac parse (as_token s) secret nowSec =
    (if nowSec < nowMs div 1000 + qq ttlSec 28800 then Some (claims_json (as_claims s)) else None)"
proof -
  define enc where "enc = b64UrlEncode (stringify (claims_json c))"
  have c: "c = \<lparr>cl_userId = userId, cl_email = email, cl_sessionId = sessionId, cl_tokenType = ''access'',
      cl_issuedAt = nowMs div 1000, cl_expiresAt = nowMs div 1000 + qq ttlSec 28800\<rparr>"
    using assms(4,5) by (simp add: signAuthToken_def Let_def)
  have t: "as_token s = enc @ CHR ''.'' # hmac enc secret"
    using assms(4) c by (simp add: signAuthToken_def Let_def enc_def)
  have "stringify (claims_json c) \<noteq> []" by (simp add: claims_json_def)
  then have e: "enc \<noteq> ''''" "CHR ''.'' \<notin> set enc" by (simp_all add: enc_def b64_nonempty b64_no_dot)
  have split: "splitOn (CHR ''.'') (as_token s) = [enc, hmac enc secret]"
    using e assms(2) by (simp add: t splitOn_append splitOn_no_sep enc_def)
  have p: "parse (b64UrlDecode enc) = Some (claims_json c)" using assms(3) by (simp add: enc_def b64_round_trip)
  have sig: "hmac enc secret \<noteq> ''''" using assms(1) by (simp add: enc_def)
  have props: "get_property (claims_json c) ''userId'' = Some (JStr userId)" "get_property (claims_json c) ''email'' = Some (JStr email)"
    "get_property (claims_json c) ''sessionId'' = Some (JStr sessionId)" "get_property (claims_json c) ''tokenType'' = Some (JStr ''access'')"
    "get_property (claims_json c) ''expiresAt'' = Some (JNum (nowMs div 1000 + qq ttlSec 28800))"
    by (simp_all add: get_property_def claims_json_def c)
  show ?thesis using assms(6-8) e(1) sig unfolding assms(5) [symmetric]
    by (simp add: verifyAuthToken_def split p props truthyJ_def expired_at_def not_le)
qed

definition toy_hmac :: "string \<Rightarrow> string \<Rightarrow> string" where
  "toy_hmac content secret = b64UrlEncode (secret @ take 4 content)"

theorem auth_token_round_trip_witness:
  "\<exists>parse. verifyAuthToken toy_hmac parse (as_token (signAuthToken toy_hmac ''u'' ''a@b'' ''s'' None 5000 ''k'')) ''k'' 6
     = Some (claims_json (as_claims (signAuthToken toy_hmac ''u'' ''a@b'' ''s'' None 5000 ''k'')))"
proof -
  let ?s = "signAuthToken toy_hmac ''u'' ''a@b'' ''s'' None 5000 ''k''"
  let ?parse = "\<lambda>t. if t = stringify (claims_json (as_claims ?s)) then Some (claims_json (as_claims ?s)) else None"
  have h: "toy_hmac x ''k'' \<noteq> ''''" "CHR ''.'' \<notin> set (toy_hmac x ''k'')" for x
    by (simp_all add: toy_hmac_def b64_nonempty b64_no_dot)
  have p: "?parse (stringify (claims_json (as_claims ?s))) = Some (claims_json (as_claims ?s))" by simp
  show ?thesis
    by (rule exI [of _ ?parse])
      (use auth_token_round_trip [where parse = ?parse and nowSec = 6, OF h p refl refl] in simp)
qed

lemma verified_parts:
  assumes "verifyAuthToken hmac parse token secret nowSec = Some payload"
  shows "\<exists>encoded rest. splitOn (CHR ''.'') token = encoded # hmac encoded secret # rest
    \<and> parse (b64UrlDecode encoded) = Some payload \<and> \<not> expired_at (get_property payload ''expiresAt'') nowSec"
  using assms by (auto simp: verifyAuthToken_def Let_def split: list.splits option.splits if_splits)

end
