(* ===== verification/GatewayWorkspace.thy ===== *)
theory GatewayWorkspace
  imports JsonText
begin

text \<open>
  The shared workspace of tool invocations: the row functions of \<open>packages/db/src/repositories.ts\<close>, the
  object keys of \<open>apps/gateway/src/workspaces/s3.ts\<close> and the part of \<open>invokeToolOnExecutor\<close>
  (\<open>apps/gateway/src/brain/runtime.ts\<close>) that reads the row, takes the lock, lets the executor upload the
  next version, and commits it.  Several invocations for one owner run at once, so each wait of the
  code is a step of its own.
\<close>

section \<open>The row\<close>

record workspace =
  ws_organizationId :: string
  ws_id :: string
  ws_ownerType :: string
  ws_ownerId :: string
  ws_currentVersion :: nat
  ws_currentObjectKey :: string
  ws_currentEtag :: "string option"
  ws_lockToken :: "string option"
  ws_lockExpiresAt :: "timestamp option"

definition createExecutionWorkspace :: "string \<Rightarrow> string \<Rightarrow> string \<Rightarrow> string \<Rightarrow> workspace" where
  \<comment> \<open>as \<open>invokeToolOnExecutor\<close> creates it\<close>
  "createExecutionWorkspace wid org ownerType ownerId = \<lparr>ws_organizationId = org, ws_id = wid, ws_ownerType = ownerType,
     ws_ownerId = ownerId, ws_currentVersion = 0,
     ws_currentObjectKey = '''', ws_currentEtag = None, ws_lockToken = None, ws_lockExpiresAt = None\<rparr>"

definition tryLockExecutionWorkspace :: "string \<Rightarrow> int \<Rightarrow> timestamp \<Rightarrow> workspace \<Rightarrow> workspace option" where
  \<comment> \<open>\<open>None\<close> when the condition of the update does not hold; \<open>now\<close> is the database's clock\<close>
  "tryLockExecutionWorkspace lockToken lockTtlSec now ws =
     (if (case ws_lockExpiresAt ws of None \<Rightarrow> True | Some e \<Rightarrow> e < now)
      then Some (ws\<lparr>ws_lockToken := Some lockToken, ws_lockExpiresAt := Some (now + max 1 lockTtlSec * 1000)\<rparr>) else None)"

definition releaseExecutionWorkspaceLock :: "string \<Rightarrow> workspace \<Rightarrow> workspace" where
  "releaseExecutionWorkspaceLock lockToken ws =
     (if ws_lockToken ws = Some lockToken then ws\<lparr>ws_lockToken := None, ws_lockExpiresAt := None\<rparr> else ws)"

definition commitExecutionWorkspaceVersion :: "nat \<Rightarrow> string \<Rightarrow> string option \<Rightarrow> workspace \<Rightarrow> workspace option" where
  "commitExecutionWorkspaceVersion expectedCurrentVersion nextObjectKey nextEtag ws =
     (if ws_currentVersion ws = expectedCurrentVersion
      then Some (ws\<lparr>ws_currentVersion := expectedCurrentVersion + 1, ws_currentObjectKey := nextObjectKey,
        ws_currentEtag := nextEtag, ws_lockToken := None, ws_lockExpiresAt := None\<rparr>) else None)"

definition buildWorkspaceObjectKey :: "string \<Rightarrow> string \<Rightarrow> nat \<Rightarrow> string" where
  "buildWorkspaceObjectKey org wid version =
     ''workspaces/'' @ org @ ''/'' @ wid @ ''/v'' @ nat_text version @ ''.tar.zst''"

definition lock_ttl_sec :: "int \<Rightarrow> int" where
  \<comment> \<open>\<open>Math.max(30, Math.ceil(timeoutMs / 1000) + 30)\<close>\<close>
  "lock_ttl_sec timeoutMs = max 30 (- ((- timeoutMs) div 1000) + 30)"

section \<open>An invocation\<close>

record dispatch_response =
  dp_failed :: bool
  dp_output :: "json option"
  dp_error :: "string option"

definition failed_with :: "string \<Rightarrow> dispatch_response" where
  "failed_with e = \<lparr>dp_failed = True, dp_output = None, dp_error = Some e\<rparr>"

record tool_reply =
  tr_failed :: bool
  tr_output :: "json option"
  tr_error :: "string option"
  tr_workspace :: "(string option \<times> string option) option"
    \<comment> \<open>the reply's \<open>workspace\<close>, when it is an object with a version: its object key and etag\<close>

datatype inv_phase =
    PhRead nat string          \<comment> \<open>the row has been read: version and object key\<close>
  | PhHolding nat timestamp    \<comment> \<open>the lock is held: version as read, expiry of the lock\<close>
  | PhEnded dispatch_response

definition response_of :: "tool_reply \<Rightarrow> dispatch_response" where
  \<comment> \<open>an empty error is left out\<close>
  "response_of r = \<lparr>dp_failed = tr_failed r, dp_output = tr_output r, dp_error = (if truthy (tr_error r) then tr_error r else None)\<rparr>"

definition lockStep :: "bool \<Rightarrow> string \<Rightarrow> int \<Rightarrow> timestamp \<Rightarrow> nat \<Rightarrow> workspace \<Rightarrow> inv_phase \<times> workspace" where
  \<comment> \<open>the lock, on the version read before; \<open>s3\<close>: object storage is configured\<close>
  "lockStep s3 tok timeoutMs now expected ws =
     (case tryLockExecutionWorkspace tok (lock_ttl_sec timeoutMs) now ws of
        None \<Rightarrow> (PhEnded (failed_with ''WORKSPACE_LOCKED''), ws)
      | Some ws' \<Rightarrow>
          if \<not> s3 then (PhEnded (failed_with ''WORKSPACE_S3_NOT_CONFIGURED''), releaseExecutionWorkspaceLock tok ws')
          else (PhHolding expected (now + lock_ttl_sec timeoutMs * 1000), ws'))"

definition upload_key :: "nat \<Rightarrow> workspace \<Rightarrow> string" where
  \<comment> \<open>where the executor is told to upload the next version\<close>
  "upload_key expected ws = buildWorkspaceObjectKey (ws_organizationId ws) (ws_id ws) (expected + 1)"

definition replyStep :: "string \<Rightarrow> nat \<Rightarrow> tool_reply option \<Rightarrow> workspace \<Rightarrow> dispatch_response \<times> workspace" where
  \<comment> \<open>from the reply (none: it did not come in time) to the end of the \<open>finally\<close> block\<close>
  "replyStep tok expected reply ws =
     (case reply of
        None \<Rightarrow> (failed_with ''NODE_EXECUTION_TIMEOUT'', releaseExecutionWorkspaceLock tok ws)
      | Some r \<Rightarrow>
          (case tr_workspace r of
             None \<Rightarrow> (response_of r, releaseExecutionWorkspaceLock tok ws)
           | Some (key, etag) \<Rightarrow>
               (case commitExecutionWorkspaceVersion expected (qq key (upload_key expected ws)) etag ws of
                  None \<Rightarrow> (failed_with ''WORKSPACE_VERSION_CONFLICT'', releaseExecutionWorkspaceLock tok ws)
                | Some ws' \<Rightarrow> (response_of r, ws'))))"

section \<open>Interleavings\<close>

record ws_sys =
  sx_row :: workspace
  sx_now :: timestamp
  sx_invs :: "inv_phase table"  \<comment> \<open>by lock token\<close>
  sx_wait :: "int table"  \<comment> \<open>\<open>timeoutMs\<close> of the invocations that have not sent their request yet\<close>
  sx_due :: "timestamp table"  \<comment> \<open>when a holder is to have sent its request, or to have stopped waiting\<close>
  sx_punctual :: bool  \<comment> \<open>no holder has been late so far\<close>
  sx_objects :: "string table"  \<comment> \<open>which invocation wrote the object\<close>
  sx_commits :: "(nat \<times> string) list"  \<comment> \<open>versions committed and by whom\<close>

definition committed :: "nat \<Rightarrow> workspace \<Rightarrow> workspace \<Rightarrow> bool" where
  "committed expected ws ws' \<longleftrightarrow> ws_currentVersion ws = expected \<and> ws_currentVersion ws' = expected + 1"

definition holds_lock :: "ws_sys \<Rightarrow> string \<Rightarrow> bool" where
  \<comment> \<open>the invocation believes to hold the lock\<close>
  "holds_lock s tok \<longleftrightarrow> (\<exists>v e. jget (sx_invs s) tok = Some (PhHolding v e))"

text \<open>
  Time passes without restriction; \<open>sx_punctual\<close> records whether every holder sent its request within \<open>prep\<close>
  milliseconds of taking the lock and had its wait of \<open>timeoutMs + grace\<close> (\<open>executorReplyGraceMs\<close>) end in time.
\<close>

inductive wsp_step :: "int \<Rightarrow> int \<Rightarrow> ws_sys \<Rightarrow> ws_sys \<Rightarrow> bool" for prep grace where
  ws_read: "jget (sx_invs s) tok = None \<Longrightarrow>
    wsp_step prep grace s (s\<lparr>sx_invs := jset tok (PhRead (ws_currentVersion (sx_row s)) (ws_currentObjectKey (sx_row s))) (sx_invs s)\<rparr>)"
| ws_lock: "jget (sx_invs s) tok = Some (PhRead v key) \<Longrightarrow> 0 \<le> timeoutMs \<Longrightarrow> lockStep s3 tok timeoutMs (sx_now s) v (sx_row s) = (ph, row) \<Longrightarrow>
    wsp_step prep grace s (s\<lparr>sx_row := row, sx_invs := jset tok ph (sx_invs s), sx_wait := jset tok timeoutMs (sx_wait s),
      sx_due := jset tok (sx_now s + prep) (sx_due s)\<rparr>)"
| ws_send: "jget (sx_invs s) tok = Some (PhHolding v e) \<Longrightarrow> jget (sx_wait s) tok = Some timeoutMs \<Longrightarrow>
    wsp_step prep grace s (s\<lparr>sx_wait := jdel tok (sx_wait s), sx_due := jset tok (sx_now s + timeoutMs + grace) (sx_due s)\<rparr>)"
| ws_upload: "jget (sx_invs s) tok = Some (PhHolding v e) \<Longrightarrow> jget (sx_wait s) tok = None \<Longrightarrow>
    wsp_step prep grace s (s\<lparr>sx_objects := jset (upload_key v (sx_row s)) tok (sx_objects s)\<rparr>)"
| ws_reply: "jget (sx_invs s) tok = Some (PhHolding v e) \<Longrightarrow> jget (sx_wait s) tok = None \<Longrightarrow>
    replyStep tok v reply (sx_row s) = (r, row) \<Longrightarrow>
    wsp_step prep grace s (s\<lparr>sx_row := row, sx_invs := jset tok (PhEnded r) (sx_invs s),
      sx_commits := sx_commits s @ (if committed v (sx_row s) row then [(v + 1, tok)] else [])\<rparr>)"
| ws_fail: "jget (sx_invs s) tok = Some (PhHolding v e) \<Longrightarrow>
    row = (if unlocked then releaseExecutionWorkspaceLock tok (sx_row s) else sx_row s) \<Longrightarrow>
    wsp_step prep grace s (s\<lparr>sx_row := row, sx_invs := jset tok (PhEnded (failed_with msg)) (sx_invs s)\<rparr>)"
    \<comment> \<open>an exception; the lock is released unless that fails or the process ends\<close>
| ws_tick: "sx_now s \<le> t \<Longrightarrow>
    wsp_step prep grace s (s\<lparr>sx_now := t, sx_punctual := sx_punctual s
      \<and> (\<forall>tok due. holds_lock s tok \<longrightarrow> jget (sx_due s) tok = Some due \<longrightarrow> t \<le> due)\<rparr>)"

definition wsp_init :: "string \<Rightarrow> string \<Rightarrow> string \<Rightarrow> string \<Rightarrow> ws_sys" where
  "wsp_init wid org ownerType ownerId = \<lparr>sx_row = createExecutionWorkspace wid org ownerType ownerId, sx_now = 0, sx_invs = [],
     sx_wait = [], sx_due = [], sx_punctual = True, sx_objects = [], sx_commits = []\<rparr>"

section \<open>What the lock guarantees\<close>

definition holder_ok :: "int \<Rightarrow> ws_sys \<Rightarrow> string \<Rightarrow> timestamp \<Rightarrow> bool" where
  \<comment> \<open>a holder owns the row's lock and will be done before it expires\<close>
  "holder_ok grace s tok e \<longleftrightarrow> ws_lockToken (sx_row s) = Some tok \<and> ws_lockExpiresAt (sx_row s) = Some e
     \<and> (\<exists>due. jget (sx_due s) tok = Some due \<and> sx_now s \<le> due \<and> due \<le> e
          \<and> (\<forall>timeoutMs. jget (sx_wait s) tok = Some timeoutMs \<longrightarrow> 0 \<le> timeoutMs \<and> due + timeoutMs + grace \<le> e))"

definition wsp_inv :: "int \<Rightarrow> ws_sys \<Rightarrow> bool" where
  "wsp_inv grace s \<longleftrightarrow> map fst (sx_commits s) = [1..<Suc (ws_currentVersion (sx_row s))]
     \<and> (sx_punctual s \<longrightarrow> (\<forall>tok v e. jget (sx_invs s) tok = Some (PhHolding v e) \<longrightarrow> holder_ok grace s tok e))"

lemma wsp_inv_init: "wsp_inv grace (wsp_init wid org ot oid)"
  by (simp add: wsp_inv_def wsp_init_def createExecutionWorkspace_def)

lemma lock_ttl_bounds: "30 \<le> lock_ttl_sec t" "t + 30000 \<le> lock_ttl_sec t * 1000"
proof -
  have "(- t) div 1000 * 1000 \<le> - t" by (simp add: minus_mod_eq_div_mult [symmetric])
  moreover have "- ((- t) div 1000) + 30 \<le> lock_ttl_sec t" by (simp add: lock_ttl_sec_def)
  ultimately show "t + 30000 \<le> lock_ttl_sec t * 1000" by linarith
  show "30 \<le> lock_ttl_sec t" by (simp add: lock_ttl_sec_def)
qed

lemma reply_version:
  "replyStep tok v reply ws = (r, ws') \<Longrightarrow> ws_currentVersion ws' = ws_currentVersion ws \<or> committed v ws ws'"
  by (auto simp: replyStep_def releaseExecutionWorkspaceLock_def commitExecutionWorkspaceVersion_def committed_def
      split: option.splits if_splits)

lemma lock_version: "lockStep s3 tok t n v ws = (ph, ws') \<Longrightarrow> ws_currentVersion ws' = ws_currentVersion ws"
  by (auto simp: lockStep_def tryLockExecutionWorkspace_def releaseExecutionWorkspaceLock_def split: option.splits if_splits)

lemma commits_step:
  assumes "wsp_step prep grace s s'" and "map fst (sx_commits s) = [1..<Suc (ws_currentVersion (sx_row s))]"
  shows "map fst (sx_commits s') = [1..<Suc (ws_currentVersion (sx_row s'))]"
  using assms(1)
proof (cases rule: wsp_step.cases)
  case (ws_reply tok v e reply r row)
  show ?thesis
  proof (cases "committed v (sx_row s) row")
    case True
    then show ?thesis using ws_reply(1) assms(2) by (simp add: committed_def)
  next
    case False
    then show ?thesis using reply_version [OF ws_reply(4)] ws_reply(1) assms(2) by auto
  qed
qed (use assms(2) lock_version in \<open>auto simp: releaseExecutionWorkspaceLock_def\<close>)

lemma holder_unique:
  "holder_ok grace s a e \<Longrightarrow> holder_ok grace s b e' \<Longrightarrow> a = b"
  by (simp add: holder_ok_def)

lemma holders_step:
  assumes step: "wsp_step prep grace s s'" and inv: "wsp_inv grace s" and pg: "0 \<le> prep" "0 \<le> grace" "prep + grace \<le> 30000"
    and h: "jget (sx_invs s') tok = Some (PhHolding v e)" and p: "sx_punctual s'"
  shows "holder_ok grace s' tok e"
proof -
  have old: "holder_ok grace s k e'" if "jget (sx_invs s) k = Some (PhHolding v' e')" "sx_punctual s" for k v' e'
    using inv that by (simp add: wsp_inv_def)
  show ?thesis
    using step
  proof (cases rule: wsp_step.cases)
    case (ws_read tok')
    then show ?thesis using old [of tok v e] h p by (auto simp: jget_jset holder_ok_def split: if_splits)
  next
    case (ws_lock tok' v' key timeoutMs s3 ph row)
    have ps: "sx_punctual s" using p ws_lock(1) by simp
    show ?thesis
    proof (cases "tryLockExecutionWorkspace tok' (lock_ttl_sec timeoutMs) (sx_now s) (sx_row s)")
      case None
      then show ?thesis using ws_lock old [OF _ ps, of tok v e] h
        by (auto simp: jget_jset holder_ok_def lockStep_def split: if_splits)
    next
      case (Some ws')
      have free: "jget (sx_invs s) k \<noteq> Some (PhHolding v0 e0)" for k v0 e0
        using old [OF _ ps, of k v0 e0] Some by (auto simp: holder_ok_def tryLockExecutionWorkspace_def)
      have ws': "ws_lockToken ws' = Some tok'" "ws_lockExpiresAt ws' = Some (sx_now s + lock_ttl_sec timeoutMs * 1000)"
        using Some lock_ttl_bounds [of timeoutMs] by (auto simp: tryLockExecutionWorkspace_def split: if_splits)
      show ?thesis using ws_lock Some free ws' h lock_ttl_bounds [of timeoutMs] pg
        by (auto simp: holder_ok_def jget_jset lockStep_def split: if_splits)
    qed
  next
    case (ws_send tok' v' e' timeoutMs)
    then have "holder_ok grace s tok e" using old h p by simp
    then show ?thesis using ws_send pg by (auto simp: holder_ok_def jget_jset jget_jdel)
  next
    case (ws_upload tok' v' e')
    then show ?thesis using old [of tok v e] h p by (simp add: holder_ok_def)
  next
    case (ws_reply tok' v' e' reply r row)
    have "holder_ok grace s tok' e'" "holder_ok grace s tok e" "tok \<noteq> tok'"
      using old ws_reply h p by (auto simp: jget_jset split: if_splits)
    then show ?thesis using holder_unique by blast
  next
    case (ws_fail tok' v' e' row unlocked msg)
    have "holder_ok grace s tok' e'" "holder_ok grace s tok e" "tok \<noteq> tok'"
      using old ws_fail h p by (auto simp: jget_jset split: if_splits)
    then show ?thesis using holder_unique by blast
  next
    case (ws_tick t)
    then have "holder_ok grace s tok e" using old h p by simp
    then show ?thesis using ws_tick h p by (auto simp: holder_ok_def holds_lock_def)
  qed
qed

lemma workspace_reach_inv:
  assumes "(wsp_step prep grace)\<^sup>*\<^sup>* (wsp_init wid org ot oid) s" and "0 \<le> prep" and "0 \<le> grace" and "prep + grace \<le> 30000"
  shows "wsp_inv grace s"
  using assms(1)
proof (induction rule: rtranclp_induct)
  case base
  show ?case by (rule wsp_inv_init)
next
  case (step s s')
  show ?case using commits_step [OF step(2)] holders_step [OF step(2,3) assms(2-4)] step(3) unfolding wsp_inv_def by blast
qed

text \<open>
  C32. The workspace lock excludes: with time passing in whatever way, exceptions and crashes, and any number of
  invocations, at most one invocation at a time believes to hold the lock as long as every holder sent its request
  within \<open>prep\<close> milliseconds and stopped waiting \<open>timeoutMs + grace\<close> later, where \<open>prep + grace\<close> is at most the 30 seconds by
  which the lock outlives the timeout.
\<close>
theorem workspace_lock_excludes:
  assumes "(wsp_step prep grace)\<^sup>*\<^sup>* (wsp_init wid org ot oid) s" and "0 \<le> prep" and "0 \<le> grace" and "prep + grace \<le> 30000"
    and "sx_punctual s" and "holds_lock s a" and "holds_lock s b"
  shows "a = b"
proof -
  note i = workspace_reach_inv [OF assms(1-4)]
  from assms(6,7) obtain v e v' e' where "jget (sx_invs s) a = Some (PhHolding v e)" "jget (sx_invs s) b = Some (PhHolding v' e')"
    by (auto simp: holds_lock_def)
  with i assms(5) have "holder_ok grace s a e" "holder_ok grace s b e'" by (auto simp: wsp_inv_def)
  then show ?thesis by (rule holder_unique)
qed

text \<open>
  The versions committed are 1, 2, 3, ... up to the current one, each by one invocation, whatever the timing, also when locks
  expire under their holders.
\<close>
theorem workspace_versions_consecutive:
  assumes "(wsp_step prep grace)\<^sup>*\<^sup>* (wsp_init wid org ot oid) s"
  shows "map fst (sx_commits s) = [1..<Suc (ws_currentVersion (sx_row s))]"
  using assms
  by (induction rule: rtranclp_induct) (simp add: wsp_init_def createExecutionWorkspace_def, rule commits_step)

section \<open>What it does not\<close>

text \<open>Two invocations read the row before either takes the lock.\<close>

definition race_row :: workspace where
  "race_row = createExecutionWorkspace ''w'' ''o'' ''session'' ''s''"

definition race_response :: dispatch_response where
  "race_response = \<lparr>dp_failed = False, dp_output = None, dp_error = None\<rparr>"

definition race_read :: ws_sys where
  "race_read = (wsp_init ''w'' ''o'' ''session'' ''s'')\<lparr>sx_invs := [(''a'', PhRead 0 ''''), (''b'', PhRead 0 '''')]\<rparr>"

definition race_held :: ws_sys where
  "race_held = race_read\<lparr>sx_row := race_row\<lparr>ws_lockToken := Some ''a'', ws_lockExpiresAt := Some 60000\<rparr>,
     sx_invs := [(''a'', PhHolding 0 60000), (''b'', PhRead 0 '''')], sx_wait := [(''a'', 30000)], sx_due := [(''a'', 1000)]\<rparr>"

definition race_sent :: ws_sys where
  "race_sent = race_held\<lparr>sx_wait := [], sx_due := [(''a'', 35000)]\<rparr>"

definition race_done :: ws_sys where
  "race_done = race_sent\<lparr>sx_row := race_row\<lparr>ws_currentVersion := 1, ws_currentObjectKey := upload_key 0 race_row\<rparr>,
     sx_invs := [(''a'', PhEnded race_response), (''b'', PhRead 0 '''')], sx_objects := [(upload_key 0 race_row, ''a'')],
     sx_commits := [(1, ''a'')]\<rparr>"

definition race_second :: ws_sys where
  "race_second = race_done\<lparr>sx_row := (sx_row race_done)\<lparr>ws_lockToken := Some ''b'', ws_lockExpiresAt := Some 60000\<rparr>,
     sx_invs := [(''a'', PhEnded race_response), (''b'', PhHolding 0 60000)], sx_wait := [(''b'', 30000)],
     sx_due := [(''a'', 35000), (''b'', 1000)]\<rparr>"

definition race_end :: ws_sys where
  "race_end = race_second\<lparr>sx_wait := [], sx_due := [(''a'', 35000), (''b'', 35000)], sx_objects := [(upload_key 0 race_row, ''b'')]\<rparr>"

lemmas race_defs = race_row_def race_read_def race_held_def race_sent_def race_done_def race_second_def race_end_def wsp_init_def
  createExecutionWorkspace_def

lemma race_start: "(wsp_step 1000 5000)\<^sup>*\<^sup>* (wsp_init ''w'' ''o'' ''session'' ''s'') race_sent"
proof -
  let ?s0 = "wsp_init ''w'' ''o'' ''session'' ''s''"
  let ?s1 = "?s0\<lparr>sx_invs := [(''a'', PhRead 0 '''')]\<rparr>"
  have 1: "wsp_step 1000 5000 ?s0 ?s1"
    using ws_read [of ?s0 "''a''"] by (simp add: race_defs)
  have 2: "wsp_step 1000 5000 ?s1 race_read"
    using ws_read [of ?s1 "''b''"] by (simp add: race_defs)
  have 3: "wsp_step 1000 5000 race_read race_held"
    using ws_lock [where s = race_read and prep = 1000 and grace = 5000 and ?s3.0 = True and tok = "''a''" and timeoutMs = 30000
        and v = 0 and key = "''''" and ph = "PhHolding 0 60000" and row = "sx_row race_held"]
    by (simp add: race_defs lockStep_def tryLockExecutionWorkspace_def lock_ttl_sec_def)
  have 4: "wsp_step 1000 5000 race_held race_sent"
    using ws_send [where s = race_held and prep = 1000 and grace = 5000 and tok = "''a''" and timeoutMs = 30000 and v = 0 and e = 60000]
    by (simp add: race_defs)
  from 1 2 3 4 show ?thesis by (meson converse_rtranclp_into_rtranclp r_into_rtranclp)
qed

lemma race_finish: "(wsp_step 1000 5000)\<^sup>*\<^sup>* race_sent race_end"
proof -
  let ?s1 = "race_sent\<lparr>sx_objects := [(upload_key 0 race_row, ''a'')]\<rparr>"
  let ?s2 = "race_end\<lparr>sx_objects := [(upload_key 0 race_row, ''a'')]\<rparr>"
  let ?reply = "Some \<lparr>tr_failed = False, tr_output = None, tr_error = None, tr_workspace = Some (None, None)\<rparr>"
  have key: "upload_key 0 (sx_row race_sent) = upload_key 0 race_row" "upload_key 0 (sx_row ?s2) = upload_key 0 race_row"
    by (simp_all add: upload_key_def race_defs)
  have 1: "wsp_step 1000 5000 race_sent ?s1"
    using ws_upload [of race_sent "''a''" 0 60000] key by (simp add: race_defs)
  have 2: "wsp_step 1000 5000 ?s1 race_done"
    using ws_reply [where s = ?s1 and prep = 1000 and grace = 5000 and tok = "''a''" and v = 0 and e = 60000 and reply = ?reply
        and r = race_response and row = "sx_row race_done"]
    by (simp add: race_defs replyStep_def commitExecutionWorkspaceVersion_def committed_def upload_key_def
        response_of_def race_response_def)
  have 3: "wsp_step 1000 5000 race_done race_second"
    using ws_lock [where s = race_done and prep = 1000 and grace = 5000 and ?s3.0 = True and tok = "''b''" and timeoutMs = 30000
        and v = 0 and key = "''''" and ph = "PhHolding 0 60000" and row = "sx_row race_second"]
    by (simp add: race_defs lockStep_def tryLockExecutionWorkspace_def lock_ttl_sec_def)
  have 4: "wsp_step 1000 5000 race_second ?s2"
    using ws_send [where s = race_second and prep = 1000 and grace = 5000 and tok = "''b''" and timeoutMs = 30000 and v = 0 and e = 60000]
    by (simp add: race_defs)
  have 5: "wsp_step 1000 5000 ?s2 race_end"
    using ws_upload [of ?s2 "''b''" 0 60000] key(2) by (simp add: race_defs)
  from 1 2 3 4 5 show ?thesis by (meson converse_rtranclp_into_rtranclp r_into_rtranclp)
qed

text \<open>
  C33. The lock does not protect the content of a version: the row is read before the lock is taken,
  so an invocation that read version 0, waited for another to commit version 1 and then got the lock
  is told to upload to the object of version 1, and replaces what was committed there; the committed
  row then names an object its committer did not write, although every holder was punctual.
\<close>
theorem committed_version_overwritten:
  "\<exists>s. (wsp_step 1000 5000)\<^sup>*\<^sup>* (wsp_init ''w'' ''o'' ''session'' ''s'') s \<and> sx_punctual s
     \<and> sx_commits s = [(1, ''a'')] \<and> ws_currentVersion (sx_row s) = 1
     \<and> jget (sx_objects s) (ws_currentObjectKey (sx_row s)) = Some ''b''"
proof -
  have "(wsp_step 1000 5000)\<^sup>*\<^sup>* (wsp_init ''w'' ''o'' ''session'' ''s'') race_end" using race_start race_finish by (rule rtranclp_trans)
  moreover have "sx_punctual race_end" "sx_commits race_end = [(1, ''a'')]" "ws_currentVersion (sx_row race_end) = 1"
    "jget (sx_objects race_end) (ws_currentObjectKey (sx_row race_end)) = Some ''b''"
    by (simp_all add: race_defs)
  ultimately show ?thesis by blast
qed

theorem workspace_lock_excludes_witness:
  "holds_lock race_sent ''a'' \<and> (\<forall>b. holds_lock race_sent b = (b = ''a''))"
proof -
  have a: "holds_lock race_sent ''a''" "sx_punctual race_sent" by (simp_all add: holds_lock_def race_defs)
  have "b = ''a''" if "holds_lock race_sent b" for b
    by (rule workspace_lock_excludes [OF race_start _ _ _ a(2) that a(1)]) simp_all
  with a(1) show ?thesis by blast
qed

theorem workspace_versions_consecutive_witness: "map fst (sx_commits race_end) = [1..<Suc (ws_currentVersion (sx_row race_end))]"
  by (rule workspace_versions_consecutive [OF rtranclp_trans [OF race_start race_finish]])

text \<open>A holder that is late loses the lock without noticing: two invocations hold it at once.\<close>

definition late_end :: ws_sys where
  "late_end = race_sent\<lparr>sx_now := 60001, sx_punctual := False, sx_row := race_row\<lparr>ws_lockToken := Some ''b'',
     ws_lockExpiresAt := Some 120001\<rparr>, sx_invs := [(''a'', PhHolding 0 60000), (''b'', PhHolding 0 120001)],
     sx_wait := [(''b'', 30000)], sx_due := [(''a'', 35000), (''b'', 61001)]\<rparr>"

lemma lock_outlived:
  "(wsp_step 1000 5000)\<^sup>*\<^sup>* (wsp_init ''w'' ''o'' ''session'' ''s'') late_end \<and> holds_lock late_end ''a'' \<and> holds_lock late_end ''b''"
proof -
  let ?s = "race_sent\<lparr>sx_now := 60001, sx_punctual := False\<rparr>"
  have h: "holds_lock race_sent ''a''" "jget (sx_due race_sent) ''a'' = Some 35000" by (simp_all add: holds_lock_def race_defs)
  have n: "sx_now race_sent \<le> 60001" by (simp add: race_defs)
  have late: "(\<forall>tok due. holds_lock race_sent tok \<longrightarrow> jget (sx_due race_sent) tok = Some due \<longrightarrow> 60001 \<le> due) = False"
    using h by force
  have 1: "wsp_step 1000 5000 race_sent ?s"
    using ws_tick [where s = race_sent and prep = 1000 and grace = 5000 and t = 60001, OF n] by (simp only: late simp_thms)
  have 2: "wsp_step 1000 5000 ?s late_end"
    using ws_lock [where s = ?s and prep = 1000 and grace = 5000 and ?s3.0 = True and tok = "''b''" and timeoutMs = 30000
        and v = 0 and key = "''''" and ph = "PhHolding 0 120001" and row = "sx_row late_end"]
    by (simp add: late_end_def race_defs lockStep_def tryLockExecutionWorkspace_def lock_ttl_sec_def)
  from race_start 1 2 show ?thesis
    by (auto simp: holds_lock_def late_end_def intro: rtranclp.rtrancl_into_rtrancl)
qed

end
