(* ===== verification/Handlers.thy ===== *)
theory Handlers
  imports Prelude
begin

text \<open>
  Asynchronous handlers that read and change a state and may throw: a handler maps a state to an
  exception or a value, and the state it leaves.  \<open>triple P m Q E\<close> states what holds after a normal
  and after an exceptional end; \<open>keeps P m\<close> that the handler preserves \<open>P\<close> either way.  The rules for
  \<open>keeps\<close> are collected in \<open>keeps_intros\<close>.
\<close>

section \<open>Handlers\<close>

type_synonym ('s, 'a) handler = "'s \<Rightarrow> (string + 'a) \<times> 's"

definition h_return :: "'a \<Rightarrow> ('s, 'a) handler" where
  "h_return x s = (Inr x, s)"

definition h_throw :: "string \<Rightarrow> ('s, 'a) handler" where
  "h_throw e s = (Inl e, s)"

definition h_bind :: "('s, 'a) handler \<Rightarrow> ('a \<Rightarrow> ('s, 'b) handler) \<Rightarrow> ('s, 'b) handler" where
  "h_bind m f s = (case m s of (Inl e, s') \<Rightarrow> (Inl e, s') | (Inr x, s') \<Rightarrow> f x s')"

definition h_then :: "('s, 'a) handler \<Rightarrow> ('s, 'b) handler \<Rightarrow> ('s, 'b) handler" where
  "h_then m n = h_bind m (\<lambda>_. n)"

definition h_gets :: "('s \<Rightarrow> 'a) \<Rightarrow> ('s, 'a) handler" where
  "h_gets f s = (Inr (f s), s)"

definition h_modify :: "('s \<Rightarrow> 's) \<Rightarrow> ('s, unit) handler" where
  "h_modify f s = (Inr (), f s)"

definition h_finally :: "('s, 'a) handler \<Rightarrow> ('s, unit) handler \<Rightarrow> ('s, 'a) handler" where
  \<comment> \<open>\<open>try { m } finally { fin }\<close>: an exception of \<open>fin\<close> replaces the outcome of \<open>m\<close>\<close>
  "h_finally m fin s = (case m s of (r, s') \<Rightarrow>
     (case fin s' of (Inl e, s'') \<Rightarrow> (Inl e, s'') | (Inr _, s'') \<Rightarrow> (r, s'')))"

definition h_catch :: "('s, 'a) handler \<Rightarrow> (string \<Rightarrow> ('s, 'a) handler) \<Rightarrow> ('s, 'a) handler" where
  "h_catch m f s = (case m s of (Inl e, s') \<Rightarrow> f e s' | (Inr x, s') \<Rightarrow> (Inr x, s'))"

lemmas handler_defs = h_return_def h_throw_def h_bind_def h_then_def h_gets_def h_modify_def h_finally_def h_catch_def

section \<open>Triples\<close>

definition triple :: "('s \<Rightarrow> bool) \<Rightarrow> ('s, 'a) handler \<Rightarrow> ('a \<Rightarrow> 's \<Rightarrow> bool) \<Rightarrow> (string \<Rightarrow> 's \<Rightarrow> bool) \<Rightarrow> bool" where
  "triple P m Q E \<longleftrightarrow> (\<forall>s. P s \<longrightarrow> (case m s of (Inl e, s') \<Rightarrow> E e s' | (Inr x, s') \<Rightarrow> Q x s'))"

definition keeps :: "('s \<Rightarrow> bool) \<Rightarrow> ('s, 'a) handler \<Rightarrow> bool" where
  "keeps P m \<longleftrightarrow> (\<forall>s. P s \<longrightarrow> P (snd (m s)))"

lemma keepsD: "keeps P m \<Longrightarrow> P s \<Longrightarrow> m s = (r, s') \<Longrightarrow> P s'"
  by (auto simp: keeps_def dest: spec [of _ s])

lemma triple_keeps: "triple P m (\<lambda>_. P) (\<lambda>_. P) = keeps P m"
  unfolding triple_def keeps_def by (fastforce split: prod.splits sum.splits)

lemma triple_bind:
  "triple P m R E \<Longrightarrow> (\<And>x. triple (R x) (f x) Q E) \<Longrightarrow> triple P (h_bind m f) Q E"
  by (fastforce simp: triple_def h_bind_def split: prod.splits sum.splits)

lemma triple_conseq:
  "triple P m Q E \<Longrightarrow> (\<And>s. P' s \<Longrightarrow> P s) \<Longrightarrow> (\<And>x s. Q x s \<Longrightarrow> Q' x s) \<Longrightarrow> (\<And>e s. E e s \<Longrightarrow> E' e s)
    \<Longrightarrow> triple P' m Q' E'"
  by (fastforce simp: triple_def split: prod.splits sum.splits)

lemma triple_finally:
  assumes "triple P m (\<lambda>_. R) (\<lambda>_. R)" and "triple R fin (\<lambda>_. Q) (\<lambda>_. Q)"
  shows "triple P (h_finally m fin) (\<lambda>_. Q) (\<lambda>_. Q)"
  unfolding triple_def
proof (intro allI impI)
  fix s assume "P s"
  obtain r s' where m: "m s = (r, s')" by (cases "m s")
  then have "R s'" using assms(1) \<open>P s\<close> by (cases r) (auto simp: triple_def)
  obtain q s'' where f: "fin s' = (q, s'')" by (cases "fin s'")
  then have "Q s''" using assms(2) \<open>R s'\<close> by (cases q) (auto simp: triple_def)
  then show "case h_finally m fin s of (Inl e, x) \<Rightarrow> Q x | (Inr x, y) \<Rightarrow> Q y"
    using m f by (simp add: h_finally_def split: sum.splits)
qed

section \<open>Preservation\<close>

named_theorems keeps_intros \<open>preservation of a predicate, one rule per combinator and operation\<close>

lemma keeps_return [keeps_intros]: "keeps P (h_return x)"
  by (simp add: keeps_def h_return_def)

lemma keeps_throw [keeps_intros]: "keeps P (h_throw e)"
  by (simp add: keeps_def h_throw_def)

lemma keeps_gets [keeps_intros]: "keeps P (h_gets f)"
  by (simp add: keeps_def h_gets_def)

lemma keeps_modify: "(\<And>s. P s \<Longrightarrow> P (f s)) \<Longrightarrow> keeps P (h_modify f)"
  by (simp add: keeps_def h_modify_def)

lemma keeps_bind [keeps_intros]: "keeps P m \<Longrightarrow> (\<And>x. keeps P (f x)) \<Longrightarrow> keeps P (h_bind m f)"
  unfolding triple_keeps [symmetric] by (rule triple_bind)

lemma keeps_then [keeps_intros]: "keeps P m \<Longrightarrow> keeps P n \<Longrightarrow> keeps P (h_then m n)"
  by (simp add: h_then_def keeps_bind)

lemma keeps_finally [keeps_intros]: "keeps P m \<Longrightarrow> keeps P fin \<Longrightarrow> keeps P (h_finally m fin)"
  unfolding triple_keeps [symmetric] by (rule triple_finally)

lemma keeps_catch [keeps_intros]: "keeps P m \<Longrightarrow> (\<And>e. keeps P (f e)) \<Longrightarrow> keeps P (h_catch m f)"
  by (fastforce simp: keeps_def h_catch_def split: prod.splits sum.splits)

lemma keeps_if [keeps_intros]: "(c \<Longrightarrow> keeps P m) \<Longrightarrow> (\<not> c \<Longrightarrow> keeps P n) \<Longrightarrow> keeps P (if c then m else n)"
  by simp

lemma keeps_option [keeps_intros]:
  "(x = None \<Longrightarrow> keeps P m) \<Longrightarrow> (\<And>y. x = Some y \<Longrightarrow> keeps P (f y)) \<Longrightarrow> keeps P (case x of None \<Rightarrow> m | Some y \<Rightarrow> f y)"
  by (cases x) simp_all

lemma keeps_sum [keeps_intros]:
  "(\<And>y. x = Inl y \<Longrightarrow> keeps P (f y)) \<Longrightarrow> (\<And>y. x = Inr y \<Longrightarrow> keeps P (g y)) \<Longrightarrow> keeps P (case x of Inl y \<Rightarrow> f y | Inr y \<Rightarrow> g y)"
  by (cases x) simp_all

lemma keeps_prod [keeps_intros]:
  "(\<And>a b. x = (a, b) \<Longrightarrow> keeps P (f a b)) \<Longrightarrow> keeps P (case x of (a, b) \<Rightarrow> f a b)"
  by (cases x) simp

lemma keeps_let [keeps_intros]: "keeps P (f t) \<Longrightarrow> keeps P (let x = t in f x)"
  by simp

end
