(* ===== verification/GatewayBus.thy ===== *)
theory GatewayBus
  imports Handlers GatewaySelection GatewayWorkspace ChannelInbound
begin

text \<open>
  What the processes of the gateway share: the Redis keys and streams (\<open>bus/keys.ts\<close>, \<open>bus/types.ts\<close>),
  the results store, and the tables of agent sessions, their log and the workspaces, with the functions
  of \<open>packages/db/src/repositories.ts\<close> on them.  A brain (\<open>apps/gateway/src/brain/runtime.ts\<close>) is a
  handler over this shared state and its own two maps.  Other processes act between any two accesses of
  a brain to the shared state: \<open>be_others\<close>, an arbitrary function, says what they did; \<open>be_wait\<close> says
  what happened until the last look of a wait for a reply.
\<close>

section \<open>Rows\<close>

record session_row =
  sn_id :: string
  sn_organizationId :: string
  sn_sessionKey :: string
  sn_scope :: string
  sn_pinnedAgentId :: "string option"
  sn_pinnedExecutorId :: "string option"
  sn_pinnedExecutorPool :: "string option"
  sn_routedAgentId :: "string option"
  sn_engineId :: string
  sn_llmModel :: string
  sn_llmSecretId :: "string option"
  sn_toolsAllow :: json
  sn_limits :: json
  sn_promptSystem :: "string option"
  sn_promptInstructions :: string
  sn_runtime :: json
  sn_executorSelector :: "json option"
  sn_updatedAt :: timestamp
  sn_lastActivityAt :: timestamp

record log_row =
  lg_organizationId :: string
  lg_sessionId :: string
  lg_seq :: int
  lg_eventType :: string
  lg_level :: string
  lg_idempotencyKey :: "string option"
  lg_payload :: "json option"
  lg_createdAt :: timestamp

section \<open>Messages\<close>

record dispatch_request =
  dq_organizationId :: string
  dq_requestedByUserId :: string
  dq_runId :: string
  dq_workflowId :: string
  dq_nodeId :: string
  dq_nodeType :: string
  dq_attemptCount :: int
  dq_kind :: string
  dq_payload :: "json option"
  dq_executorSelector :: "exec_selector_v1 option"
  dq_secret :: "string option"
  dq_timeoutMs :: "int option"

record session_send =
  sq_requestId :: string
  sq_organizationId :: string
  sq_userId :: string
  sq_sessionId :: string
  sq_userEventSeq :: int
  sq_message :: "string option"
  sq_attachments :: "json option"
  sq_originEdgeId :: "string option"
  sq_source :: "channel_source option"

record exec_event =
  xv_seq :: int
  xv_ts :: "int option"
  xv_kind :: string
  xv_level :: string
  xv_message :: "string option"
  xv_payload :: "json option"

datatype brain_message =
    MsgDispatch string dispatch_request bool  \<comment> \<open>request id, request, async\<close>
  | MsgSend session_send
  | MsgTurnEvent string string string exec_event  \<comment> \<open>request, organization, session\<close>
  | MsgReset string string string  \<comment> \<open>organization, session, mode\<close>
  | MsgCancel string string  \<comment> \<open>organization, session\<close>
  | MsgOther  \<comment> \<open>memory requests and executor events: the brain's loop ignores them\<close>

record tool_invoke =
  tv_requestId :: string
  tv_organizationId :: string
  tv_userId :: string
  tv_kind :: exec_kind
  tv_payload :: "json option"
  tv_secret :: "string option"
  tv_timeoutMs :: int
  tv_workspaceId :: string
  tv_version :: nat
  tv_downloadKey :: "string option"  \<comment> \<open>the object behind the presigned download URL\<close>
  tv_uploadKey :: string
  tv_etag :: "string option"

record session_open =
  op_requestId :: string
  op_organizationId :: string
  op_sessionId :: string
  op_sessionKey :: string
  op_routedAgentId :: string
  op_userId :: string
  op_engineId :: string
  op_model :: string
  op_authMode :: string
  op_baseUrl :: "string option"
  op_apiKey :: "string option"
  op_promptSystem :: "string option"
  op_instructions :: string
  op_toolsAllow :: "json list"
  op_maxTurns :: int
  op_maxToolCalls :: int
  op_timeoutMs :: int
  op_maxOutputChars :: int
  op_maxRuntimeChars :: int
  op_memoryProvider :: string

record session_turn =
  tu_requestId :: string
  tu_organizationId :: string
  tu_sessionId :: string
  tu_sessionKey :: string
  tu_userId :: string
  tu_eventSeq :: int
  tu_message :: string
  tu_attachments :: "json option"

datatype session_payload =
    SessionOpen session_open
  | SessionTurn session_turn
  | SessionCancel string string string  \<comment> \<open>request, organization, session\<close>

datatype client_message =
    CliEvent log_row
  | CliAck
  | CliState "string option" "string option" "string option" "string option" string
    \<comment> \<open>pinned executor, its pool, pinned agent, routed agent, scope\<close>
  | CliError string string
  | CliDelta int string timestamp
  | CliFinal int string json timestamp
  | CliStream string int string string "string option" "json option" timestamp
    \<comment> \<open>request, sequence number, kind, level, text, payload\<close>

datatype edge_command =
    ExecutorInvoke string tool_invoke
  | ExecutorSession string session_payload
  | ClientBroadcast string client_message
  | ChannelOutbound string string int channel_source string  \<comment> \<open>organization, session, event, source, text\<close>

record apply_job =
  aj_jobId :: string
  aj_organizationId :: string
  aj_workflowId :: string
  aj_runId :: string
  aj_requestId :: string
  aj_attemptCount :: int
  aj_result :: dispatch_response

section \<open>The shared state\<close>

record bus =
  gb_now :: timestamp
  gb_counters :: redis
  gb_routes :: "(executor_route \<times> timestamp) table"  \<comment> \<open>with their expiry\<close>
  gb_locks :: "(string \<times> timestamp) table"  \<comment> \<open>\<open>session:brain:*\<close>: brain and expiry\<close>
  gb_sessionEdges :: "string list table"
  gb_replies :: "(json \<times> timestamp) table"  \<comment> \<open>\<open>gateway:bus:reply:*\<close>\<close>
  gb_results :: "(dispatch_response \<times> timestamp) table"
  gb_toBrain :: "brain_message list"
  gb_toEdge :: "(string \<times> edge_command) list"  \<comment> \<open>by edge\<close>
  gb_queue :: "apply_job list"
  gb_workspaces :: "workspace list"
  gb_sessions :: "session_row list"
  gb_log :: "log_row list"
  gb_orgSettings :: "json table"

definition fresh :: "timestamp \<Rightarrow> ('a \<times> timestamp) table \<Rightarrow> string \<Rightarrow> 'a option" where
  \<comment> \<open>\<open>GET\<close> of a key with an expiry\<close>
  "fresh now m k = (case jget m k of None \<Rightarrow> None | Some (v, e) \<Rightarrow> if e \<le> now then None else Some v)"

definition announced :: "bus \<Rightarrow> executor_route list" where
  "announced w = map fst (filter (\<lambda>(r, e). gb_now w < e) (jvalues (gb_routes w)))"

definition set_reply :: "string \<Rightarrow> json \<Rightarrow> int \<Rightarrow> bus \<Rightarrow> bus" where
  "set_reply rid v ttlSec w = w\<lparr>gb_replies := jset rid (v, gb_now w + ttlSec * 1000) (gb_replies w)\<rparr>"

definition set_result :: "string \<Rightarrow> dispatch_response \<Rightarrow> int \<Rightarrow> bus \<Rightarrow> bus" where
  "set_result rid v ttlSec w = w\<lparr>gb_results := jset rid (v, gb_now w + ttlSec * 1000) (gb_results w)\<rparr>"

definition send_edge :: "string \<Rightarrow> edge_command \<Rightarrow> bus \<Rightarrow> bus" where
  "send_edge e c w = w\<lparr>gb_toEdge := gb_toEdge w @ [(e, c)]\<rparr>"

definition broadcast :: "string \<Rightarrow> client_message \<Rightarrow> bus \<Rightarrow> bus" where
  \<comment> \<open>\<open>broadcastToSessionEdges\<close> and \<open>broadcastRawToSessionEdges\<close>\<close>
  "broadcast sid c w = w\<lparr>gb_toEdge := gb_toEdge w
     @ map (\<lambda>e. (e, ClientBroadcast sid c)) (qq (jget (gb_sessionEdges w) sid) [])\<rparr>"

section \<open>Repository functions\<close>

definition is_session :: "string \<Rightarrow> string \<Rightarrow> session_row \<Rightarrow> bool" where
  "is_session org sid r \<longleftrightarrow> sn_organizationId r = org \<and> sn_id r = sid"

definition db_getAgentSessionById :: "string \<Rightarrow> string \<Rightarrow> bus \<Rightarrow> session_row option" where
  "db_getAgentSessionById org sid w = find (is_session org sid) (gb_sessions w)"

definition on_session :: "string \<Rightarrow> string \<Rightarrow> (session_row \<Rightarrow> session_row) \<Rightarrow> bus \<Rightarrow> bus" where
  "on_session org sid f w = w\<lparr>gb_sessions := map (\<lambda>r. if is_session org sid r then f r else r) (gb_sessions w)\<rparr>"

definition db_setAgentSessionPinnedAgent :: "string \<Rightarrow> string \<Rightarrow> string option option \<Rightarrow> string option option
    \<Rightarrow> string option option \<Rightarrow> bus \<Rightarrow> session_row option \<times> bus" where
  \<comment> \<open>\<open>None\<close> is undefined, \<open>Some None\<close> is null\<close>
  "db_setAgentSessionPinnedAgent org sid agent executor pool w =
     (let w' = on_session org sid (\<lambda>r. r\<lparr>sn_updatedAt := gb_now w, sn_pinnedAgentId := qq agent (sn_pinnedAgentId r),
            sn_pinnedExecutorId := qq executor (sn_pinnedExecutorId r),
            sn_pinnedExecutorPool := qq pool (sn_pinnedExecutorPool r)\<rparr>) w
      in (db_getAgentSessionById org sid w', w'))"

definition in_log :: "string \<Rightarrow> string \<Rightarrow> log_row \<Rightarrow> bool" where
  "in_log org sid r \<longleftrightarrow> lg_organizationId r = org \<and> lg_sessionId r = sid"

definition log_next :: "string \<Rightarrow> string \<Rightarrow> log_row list \<Rightarrow> int" where
  \<comment> \<open>one more than the last sequence number of the session, or 0\<close>
  "log_next org sid evs = fold (\<lambda>r n. max n (lg_seq r + 1)) (filter (in_log org sid) evs) 0"

definition usable :: "string option \<Rightarrow> bool" where
  "usable k \<longleftrightarrow> (case k of None \<Rightarrow> False | Some x \<Rightarrow> trim x \<noteq> '''')"

definition logged_before :: "string \<Rightarrow> string \<Rightarrow> string option \<Rightarrow> log_row list \<Rightarrow> log_row option" where
  "logged_before org sid key evs =
     (if usable key then find (\<lambda>r. in_log org sid r \<and> lg_idempotencyKey r = key) evs else None)"

definition db_appendEvent :: "string \<Rightarrow> string \<Rightarrow> string \<Rightarrow> string \<Rightarrow> string option \<Rightarrow> json option \<Rightarrow> bus
    \<Rightarrow> (string + log_row) \<times> bus" where
  \<comment> \<open>\<open>appendAgentSessionEvent\<close>, a transaction; the brain passes no handoff\<close>
  "db_appendEvent org sid eventType level key payload w =
     (case logged_before org sid key (gb_log w) of
        Some r \<Rightarrow> (Inr r, w)
      | None \<Rightarrow>
          if db_getAgentSessionById org sid w = None then (Inl ''AGENT_SESSION_NOT_FOUND'', w)
          else
            let r = \<lparr>lg_organizationId = org, lg_sessionId = sid, lg_seq = log_next org sid (gb_log w),
                  lg_eventType = eventType, lg_level = level, lg_idempotencyKey = key, lg_payload = payload,
                  lg_createdAt = gb_now w\<rparr>
            in (Inr r, on_session org sid (\<lambda>x. x\<lparr>sn_lastActivityAt := gb_now w, sn_updatedAt := gb_now w\<rparr>)
                  (w\<lparr>gb_log := gb_log w @ [r]\<rparr>)))"

section \<open>A brain\<close>

record active_turn =
  tn_organizationId :: string
  tn_sessionId :: string
  tn_requestId :: string
  tn_executorId :: string
  tn_edgeId :: string
  tn_canceled :: bool

record brain =
  bl_bus :: bus
  bl_turns :: "active_turn table"  \<comment> \<open>\<open>activeTurnsBySessionId\<close>\<close>
  bl_quota :: "(int \<times> timestamp) table"  \<comment> \<open>\<open>orgQuotaCache\<close>\<close>

record brain_env =
  be_brainId :: string
  be_others :: "bus \<Rightarrow> bus"
  be_wait :: "string \<Rightarrow> int \<Rightarrow> bus \<Rightarrow> bus"  \<comment> \<open>key and timeout\<close>
  be_random :: "bus \<Rightarrow> string"
  be_sha256 :: "string \<Rightarrow> string"
  be_isUuid :: "string \<Rightarrow> bool"
  be_isUrl :: "string \<Rightarrow> bool"
  be_secret :: "string \<Rightarrow> string \<Rightarrow> string"  \<comment> \<open>\<open>loadSecretValueFromDb\<close>: the empty text when there is none\<close>
  be_s3 :: bool
  be_hasQueue :: bool
  be_streamV1 :: bool
  be_resultsTtlSec :: int
  be_sessionOpenTimeoutMs :: int
  be_replyGraceMs :: int
  be_reserveTtlMs :: int
  be_orgMaxDefault :: int
  be_quotaCacheTtlMs :: int

type_synonym 'a brain_handler = "(brain, 'a) handler"

definition on_bus :: "brain_env \<Rightarrow> (bus \<Rightarrow> (string + 'a) \<times> bus) \<Rightarrow> 'a brain_handler" where
  \<comment> \<open>an access to the shared state, after what the others did\<close>
  "on_bus en f s = (case f (be_others en (bl_bus s)) of (r, w) \<Rightarrow> (r, s\<lparr>bl_bus := w\<rparr>))"

definition bus_do :: "brain_env \<Rightarrow> (bus \<Rightarrow> bus) \<Rightarrow> unit brain_handler" where
  "bus_do en f = on_bus en (\<lambda>w. (Inr (), f w))"

definition bus_get :: "brain_env \<Rightarrow> (bus \<Rightarrow> 'a) \<Rightarrow> 'a brain_handler" where
  "bus_get en f = on_bus en (\<lambda>w. (Inr (f w), w))"

definition waitForJsonReply :: "brain_env \<Rightarrow> string \<Rightarrow> int \<Rightarrow> json option brain_handler" where
  \<comment> \<open>\<open>None\<close> when no reply came in time\<close>
  "waitForJsonReply en rid timeoutMs s =
     (let w = be_wait en rid timeoutMs (bl_bus s) in (Inr (fresh (gb_now w) (gb_replies w) rid), s\<lparr>bl_bus := w\<rparr>))"

definition appendSessionLog :: "brain_env \<Rightarrow> string \<Rightarrow> string \<Rightarrow> string \<Rightarrow> string \<Rightarrow> string option \<Rightarrow> json option \<Rightarrow> log_row brain_handler" where
  "appendSessionLog en org sid eventType level key payload = on_bus en (db_appendEvent org sid eventType level key payload)"

definition normalizeEventLevel :: "string \<Rightarrow> string" where
  "normalizeEventLevel level = (if level \<in> {''warn'', ''error''} then level else ''info'')"

definition appendAndBroadcast :: "brain_env \<Rightarrow> string \<Rightarrow> string \<Rightarrow> string \<Rightarrow> string \<Rightarrow> string option \<Rightarrow> json option \<Rightarrow> unit brain_handler" where
  \<comment> \<open>the recurring pair: append an event, broadcast it as \<open>session_event_v2\<close>\<close>
  "appendAndBroadcast en org sid eventType level key payload =
     h_bind (appendSessionLog en org sid eventType level key payload) (\<lambda>r. bus_do en (broadcast sid (CliEvent r)))"

end
