(* ===== verification/BrainTools.thy ===== *)
theory BrainTools
  imports GatewayBus
begin

text \<open>
  Tool invocations and workflow dispatches of a brain (\<open>apps/gateway/src/brain/runtime.ts\<close>):
  \<open>getOrgMaxInFlight\<close> with its cache, \<open>invokeToolOnExecutor\<close> from the selection of an executor to the
  release of its capacity, \<open>executeWorkflowDispatchInternal\<close> and \<open>handleWorkflowDispatch\<close>.  An
  asynchronous dispatch runs to its end in one piece here; messages the brain handles meanwhile are
  among the actions of the others.
\<close>

section \<open>Engine settings\<close>

definition obj_get :: "json option \<Rightarrow> string \<Rightarrow> json option" where
  \<comment> \<open>a property of a proper object\<close>
  "obj_get v k = (case asObject v of None \<Rightarrow> None | Some fs \<Rightarrow> jget fs k)"

definition isSupportedEngineId :: "string \<Rightarrow> bool" where
  "isSupportedEngineId e \<longleftrightarrow> e \<in> {''gateway.codex.v2'', ''gateway.claude.v2'', ''gateway.opencode.v2''}"

definition engine_of :: "string \<Rightarrow> engine_id" where
  "engine_of e = (if e = ''gateway.codex.v2'' then GatewayCodex else if e = ''gateway.claude.v2'' then GatewayClaude
     else if e = ''gateway.opencode.v2'' then GatewayOpencode else OtherEngine e)"

definition trimmed :: "json option \<Rightarrow> string option" where
  "trimmed v = (case asString v of None \<Rightarrow> None | Some s \<Rightarrow> if trim s = '''' then None else Some (trim s))"

definition readEngineRuntimeBaseUrlFromOrgSettings :: "json option \<Rightarrow> string \<Rightarrow> string option" where
  "readEngineRuntimeBaseUrlFromOrgSettings settings engineId =
     (if \<not> isSupportedEngineId engineId then None
      else trimmed (obj_get (obj_get (obj_get (obj_get settings ''agents'') ''engineRuntimeDefaults'') engineId) ''baseUrl''))"

definition readEngineRuntimeBaseUrlFromSession :: "json option \<Rightarrow> string \<Rightarrow> string option" where
  "readEngineRuntimeBaseUrlFromSession runtime engineId =
     (if \<not> isSupportedEngineId engineId then None
      else trimmed (obj_get (obj_get (obj_get runtime ''engine'') engineId) ''baseUrl''))"

section \<open>The organization's quota\<close>

definition quota_value :: "json option \<Rightarrow> int option" where
  \<comment> \<open>\<open>settings?.execution?.quotas?.maxExecutorInFlight\<close> when it is a positive number\<close>
  "quota_value settings =
     (let sub = (\<lambda>v k. case v of None \<Rightarrow> None | Some x \<Rightarrow> get_property x k) in
      case sub (sub (sub settings ''execution'') ''quotas'') ''maxExecutorInFlight'' of
        Some (JNum n) \<Rightarrow> if 0 < n then Some (max 1 n) else None
      | _ \<Rightarrow> None)"

definition getOrgMaxInFlight :: "brain_env \<Rightarrow> string \<Rightarrow> int brain_handler" where
  "getOrgMaxInFlight en org =
     h_bind (h_gets (\<lambda>s. (gb_now (bl_bus s), jget (bl_quota s) org))) (\<lambda>(now, cached).
       let resolve = h_bind (bus_get en (\<lambda>w. jget (gb_orgSettings w) org)) (\<lambda>settings.
             let resolved = qq (quota_value settings) (be_orgMaxDefault en) in
             h_then (h_modify (\<lambda>s. s\<lparr>bl_quota := jset org (resolved, now + be_quotaCacheTtlMs en) (bl_quota s)\<rparr>))
               (h_return resolved))
       in case cached of
            None \<Rightarrow> resolve
          | Some (v, e) \<Rightarrow> if now < e then h_return v else resolve)"

section \<open>A tool invocation\<close>

record tool_request =
  tq_organizationId :: string
  tq_userId :: string
  tq_selector :: "exec_selector_v1 option"
  tq_kind :: exec_kind
  tq_oauth :: "oauth_engine option"
  tq_payload :: "json option"
  tq_secret :: "string option"
  tq_timeoutMs :: int
  tq_ownerType :: string
  tq_ownerId :: string
  tq_requestId :: "string option"

definition byon_selector :: exec_selector_v1 where
  "byon_selector = \<lparr>sl_pool = PoolByon, sl_labels = None, sl_group = None, sl_tag = None, sl_executorId = None\<rparr>"

fun select_text :: "select_error \<Rightarrow> string" where
  "select_text ORG_QUOTA_EXCEEDED = ''ORG_QUOTA_EXCEEDED''"
| "select_text EXECUTOR_OVER_CAPACITY = ''EXECUTOR_OVER_CAPACITY''"
| "select_text EXECUTOR_OAUTH_NOT_VERIFIED = ''EXECUTOR_OAUTH_NOT_VERIFIED''"
| "select_text NO_EXECUTOR_AVAILABLE = ''NO_EXECUTOR_AVAILABLE''"

definition selectTool :: "brain_env \<Rightarrow> string \<Rightarrow> exec_kind \<Rightarrow> exec_selector_v1 \<Rightarrow> oauth_engine option \<Rightarrow> int
    \<Rightarrow> (select_error + selected_executor) brain_handler" where
  "selectTool en org kind sel oauth orgMax = on_bus en (\<lambda>w.
     case selectExecutorForTool (announced w) org kind (Some sel) oauth orgMax (be_reserveTtlMs en) (gb_now w) (gb_counters w) of
       (r, m) \<Rightarrow> (Inr r, w\<lparr>gb_counters := m\<rparr>))"

definition releaseTool :: "brain_env \<Rightarrow> string \<Rightarrow> string \<Rightarrow> unit brain_handler" where
  "releaseTool en executorId org =
     bus_do en (\<lambda>w. w\<lparr>gb_counters := releaseCapacity executorId org (gb_now w) (gb_counters w)\<rparr>)"

definition is_workspace_of :: "string \<Rightarrow> string \<Rightarrow> string \<Rightarrow> workspace \<Rightarrow> bool" where
  "is_workspace_of org ownerType ownerId r \<longleftrightarrow>
     ws_organizationId r = org \<and> ws_ownerType r = ownerType \<and> ws_ownerId r = ownerId"

definition getOrCreateWorkspace :: "brain_env \<Rightarrow> string \<Rightarrow> string \<Rightarrow> string \<Rightarrow> workspace brain_handler" where
  \<comment> \<open>two transactions; \<open>UNIQUE_VIOLATION\<close> stands for the error of the unique index on the owner\<close>
  "getOrCreateWorkspace en org ownerType ownerId =
     h_bind (bus_get en (\<lambda>w. find (is_workspace_of org ownerType ownerId) (gb_workspaces w))) (\<lambda>found.
       case found of
         Some row \<Rightarrow> h_return row
       | None \<Rightarrow> on_bus en (\<lambda>w.
           if list_ex (is_workspace_of org ownerType ownerId) (gb_workspaces w) then (Inl ''UNIQUE_VIOLATION'', w)
           else let row = createExecutionWorkspace (be_random en w) org ownerType ownerId
                in (Inr row, w\<lparr>gb_workspaces := gb_workspaces w @ [row]\<rparr>)))"

definition on_workspace :: "string \<Rightarrow> string \<Rightarrow> 'a \<Rightarrow> (workspace \<Rightarrow> 'a \<times> workspace) \<Rightarrow> bus \<Rightarrow> 'a \<times> bus" where
  \<comment> \<open>a change of one row by its id; \<open>missing\<close> when there is none\<close>
  "on_workspace org wid missing f w =
     (case find (\<lambda>r. ws_organizationId r = org \<and> ws_id r = wid) (gb_workspaces w) of
        None \<Rightarrow> (missing, w)
      | Some row \<Rightarrow> (case f row of (x, row') \<Rightarrow>
          (x, w\<lparr>gb_workspaces := map (\<lambda>r. if ws_organizationId r = org \<and> ws_id r = wid then row' else r) (gb_workspaces w)\<rparr>)))"

definition parseToolReply :: "json option \<Rightarrow> tool_reply option" where
  \<comment> \<open>\<open>None\<close>: no reply, or not an object\<close>
  "parseToolReply v =
     (let fields = (\<lambda>f. Some \<lparr>tr_failed = f ''status'' = Some (JStr ''failed''), tr_output = f ''output'',
            tr_error = asString (f ''error''),
            tr_workspace = (let ws = f ''workspace'' in
              case obj_get ws ''version'' of
                Some (JNum _) \<Rightarrow> Some (asString (obj_get ws ''objectKey''), asString (obj_get ws ''etag''))
              | _ \<Rightarrow> None)\<rparr>)
      in case v of
           Some (JObj fs) \<Rightarrow> fields (jget fs)
         | Some (JArr xs) \<Rightarrow> fields (\<lambda>_. None)
         | _ \<Rightarrow> None)"

definition missing_reply :: "tool_reply option \<Rightarrow> dispatch_response" where
  \<comment> \<open>the outcome when the workspace row is gone\<close>
  "missing_reply reply = (case reply of
     None \<Rightarrow> failed_with ''NODE_EXECUTION_TIMEOUT''
   | Some r \<Rightarrow> if tr_workspace r = None then response_of r else failed_with ''WORKSPACE_VERSION_CONFLICT'')"

definition tool_invoke_of :: "tool_request \<Rightarrow> string \<Rightarrow> workspace \<Rightarrow> tool_invoke" where
  "tool_invoke_of t rid row =
     \<lparr>tv_requestId = rid, tv_organizationId = tq_organizationId t, tv_userId = tq_userId t, tv_kind = tq_kind t,
      tv_payload = tq_payload t, tv_secret = (if truthy (tq_secret t) then tq_secret t else None),
      tv_timeoutMs = tq_timeoutMs t, tv_workspaceId = ws_id row, tv_version = ws_currentVersion row,
      tv_downloadKey = (if ws_currentObjectKey row = '''' then None else Some (ws_currentObjectKey row)),
      tv_uploadKey = upload_key (ws_currentVersion row) row, tv_etag = ws_currentEtag row\<rparr>"

definition runOnExecutor :: "brain_env \<Rightarrow> tool_request \<Rightarrow> selected_executor \<Rightarrow> dispatch_response brain_handler" where
  \<comment> \<open>the \<open>try\<close> block of \<open>invokeToolOnExecutor\<close>, with the unlocking of its \<open>finally\<close> block\<close>
  "runOnExecutor en t ex =
     h_bind (getOrCreateWorkspace en (tq_organizationId t) (tq_ownerType t) (tq_ownerId t)) (\<lambda>row.
     h_bind (bus_get en (be_random en)) (\<lambda>tok.
     h_bind (on_bus en (\<lambda>w. case on_workspace (tq_organizationId t) (ws_id row) (PhEnded (failed_with ''WORKSPACE_LOCKED''))
         (lockStep (be_s3 en) tok (tq_timeoutMs t) (gb_now w) (ws_currentVersion row)) w of (ph, w') \<Rightarrow> (Inr ph, w'))) (\<lambda>ph.
       case ph of
         PhEnded r \<Rightarrow> h_return r
       | PhRead _ _ \<Rightarrow> h_return (failed_with ''WORKSPACE_LOCKED'')
       | PhHolding expected _ \<Rightarrow>
           h_bind (bus_get en (\<lambda>w. if (case tq_requestId t of None \<Rightarrow> False | Some r \<Rightarrow> trim r \<noteq> '''')
               then qq (tq_requestId t) '''' else tq_ownerId t @ '':'' @ be_random en w)) (\<lambda>rid.
           h_then (bus_do en (send_edge (se_edgeId ex) (ExecutorInvoke (se_executorId ex) (tool_invoke_of t rid row))))
           (h_bind (waitForJsonReply en rid (tq_timeoutMs t + be_replyGraceMs en)) (\<lambda>v.
             let reply = parseToolReply v in
             on_bus en (\<lambda>w. case on_workspace (tq_organizationId t) (ws_id row) (missing_reply reply)
                 (replyStep tok expected reply) w of (r, w') \<Rightarrow> (Inr r, w'))))))))"

definition invokeToolOnExecutor :: "brain_env \<Rightarrow> tool_request \<Rightarrow> dispatch_response brain_handler" where
  "invokeToolOnExecutor en t =
     h_bind (getOrgMaxInFlight en (tq_organizationId t)) (\<lambda>orgMax.
     h_bind (selectTool en (tq_organizationId t) (tq_kind t) (qq (tq_selector t) byon_selector) (tq_oauth t) orgMax) (\<lambda>sel.
       case sel of
         Inl e \<Rightarrow> h_return (failed_with (select_text e))
       | Inr ex \<Rightarrow> h_finally (runOnExecutor en t ex) (releaseTool en (se_executorId ex) (tq_organizationId t))))"

end
