(* ===== verification/BrainDispatch.thy ===== *)
theory BrainDispatch
  imports BrainTools
begin

text \<open>
  Workflow dispatches of a brain (\<open>executeWorkflowDispatchInternal\<close> and \<open>handleWorkflowDispatch\<close> of
  \<open>apps/gateway/src/brain/runtime.ts\<close>): the request of a workflow node becomes a tool invocation, its
  response a stored result, a reply and, for an asynchronous request, a continuation job.
\<close>

section \<open>The payload of an agent run\<close>

definition field_opt :: "(string, json) jmap \<Rightarrow> string \<Rightarrow> (json \<Rightarrow> bool) \<Rightarrow> bool" where
  \<comment> \<open>an optional property passes its check\<close>
  "field_opt fs k ok \<longleftrightarrow> (case jget fs k of None \<Rightarrow> True | Some v \<Rightarrow> ok v)"

definition is_text :: "(string \<Rightarrow> bool) \<Rightarrow> json \<Rightarrow> bool" where
  "is_text ok v \<longleftrightarrow> (case v of JStr s \<Rightarrow> ok s | _ \<Rightarrow> False)"

definition text_of :: "json option \<Rightarrow> string" where
  "text_of v = qq (asString v) ''''"

definition keep_fields :: "string list \<Rightarrow> (string, json) jmap \<Rightarrow> (string, json) jmap" where
  \<comment> \<open>the properties an object schema names, in its order\<close>
  "keep_fields ks fs = concat (map (\<lambda>k. case jget fs k of None \<Rightarrow> [] | Some v \<Rightarrow> [(k, v)]) ks)"

definition secret_refs_ok :: "brain_env \<Rightarrow> json \<Rightarrow> bool" where
  "secret_refs_ok en v \<longleftrightarrow> (case v of
     JObj fs \<Rightarrow> field_opt fs ''engineSecretId'' (is_text (be_isUuid en))
       \<and> field_opt fs ''connectorSecretIdsByConnectorId'' (\<lambda>c. case c of
            JObj cs \<Rightarrow> list_all (\<lambda>(k, x). k \<noteq> '''' \<and> is_text (be_isUuid en) x) cs | _ \<Rightarrow> False)
   | _ \<Rightarrow> False)"

definition agent_run_ok :: "brain_env \<Rightarrow> (string, json) jmap \<Rightarrow> bool" where
  "agent_run_ok en fs \<longleftrightarrow>
     (case jget fs ''nodeId'' of Some v \<Rightarrow> is_text (\<lambda>s. s \<noteq> '''') v | None \<Rightarrow> False)
     \<and> (case jget fs ''runId'' of Some v \<Rightarrow> is_text (be_isUuid en) v | None \<Rightarrow> False)
     \<and> (case jget fs ''workflowId'' of Some v \<Rightarrow> is_text (be_isUuid en) v | None \<Rightarrow> False)
     \<and> (case jget fs ''attemptCount'' of Some (JNum n) \<Rightarrow> 1 \<le> n | _ \<Rightarrow> False)
     \<and> (case obj_get (jget fs ''env'') ''githubApiBaseUrl'' of Some v \<Rightarrow> is_text (be_isUrl en) v | None \<Rightarrow> False)
     \<and> field_opt fs ''secretRefs'' (secret_refs_ok en)"

definition strip_object :: "string list \<Rightarrow> json \<Rightarrow> json" where
  "strip_object ks v = (case v of JObj fs \<Rightarrow> JObj (keep_fields ks fs) | _ \<Rightarrow> v)"

definition parseAgentRun :: "brain_env \<Rightarrow> json option \<Rightarrow> (string, json) jmap option" where
  \<comment> \<open>the parsed payload, without unknown properties\<close>
  "parseAgentRun en payload =
     (case asObject payload of
        None \<Rightarrow> None
      | Some fs \<Rightarrow>
          if \<not> agent_run_ok en fs then None
          else Some (map (\<lambda>(k, v). (k, if k = ''env'' then strip_object [''githubApiBaseUrl''] v
              else if k = ''secretRefs'' then strip_object [''engineSecretId'', ''connectorSecretIdsByConnectorId''] v else v))
            (keep_fields [''nodeId'', ''node'', ''runId'', ''workflowId'', ''attemptCount'', ''runInput'', ''steps'',
               ''organizationSettings'', ''env'', ''secretRefs''] fs)))"

definition run_engine_id :: "json option \<Rightarrow> string" where
  \<comment> \<open>\<open>node.config.engine.id\<close>, or the empty text\<close>
  "run_engine_id node = text_of (obj_get (obj_get (obj_get node ''config'') ''engine'') ''id'')"

definition agentRunRequest :: "brain_env \<Rightarrow> string \<Rightarrow> dispatch_request \<Rightarrow> int \<Rightarrow> (string, json) jmap \<Rightarrow> tool_request" where
  "agentRunRequest en rid d timeoutMs fs =
     (let refs = jget fs ''secretRefs'';
          engineSecretId = asString (obj_get refs ''engineSecretId'');
          connectorIds = qq (asObject (obj_get refs ''connectorSecretIdsByConnectorId'')) [];
          secret = (\<lambda>sid. be_secret en (dq_organizationId d) sid);
          engineSecret = trim (case engineSecretId of None \<Rightarrow> '''' | Some sid \<Rightarrow> secret sid);
          engineId = run_engine_id (jget fs ''node'');
          baseUrl = (if engineSecret \<noteq> '''' then readEngineRuntimeBaseUrlFromOrgSettings (jget fs ''organizationSettings'') engineId
                     else None);
          str_or_null = (\<lambda>x. case x of None \<Rightarrow> JNull | Some s \<Rightarrow> JStr s)
      in \<lparr>tq_organizationId = dq_organizationId d, tq_userId = dq_requestedByUserId d, tq_selector = dq_executorSelector d,
          tq_kind = KindAgentRun, tq_oauth = requiresExecutorOAuth (engine_of engineId) (engineSecretId \<noteq> None),
          tq_payload = Some (JObj (fs @
            [(''resolvedSecrets'', JObj [(''engine'', if engineSecret \<noteq> '''' then JStr engineSecret else JNull),
                (''connectors'', JObj (map (\<lambda>(k, v). (k, JStr (secret (text_of (Some v))))) connectorIds))]),
             (''resolvedRuntime'', JObj [(''baseUrl'', str_or_null baseUrl)])])),
          tq_secret = None, tq_timeoutMs = timeoutMs, tq_ownerType = ''workflow_run'',
          tq_ownerId = text_of (jget fs ''runId''), tq_requestId = Some rid\<rparr>)"

section \<open>Dispatch\<close>

definition executeWorkflowDispatchInternal :: "brain_env \<Rightarrow> string \<Rightarrow> dispatch_request \<Rightarrow> int \<Rightarrow> dispatch_response brain_handler" where
  "executeWorkflowDispatchInternal en rid d timeoutMs =
     (if dq_kind d = ''agent.execute'' \<or> dq_kind d = ''connector.action'' then
        invokeToolOnExecutor en \<lparr>tq_organizationId = dq_organizationId d, tq_userId = dq_requestedByUserId d,
          tq_selector = dq_executorSelector d,
          tq_kind = (if dq_kind d = ''agent.execute'' then KindAgentExecute else KindConnectorAction), tq_oauth = None,
          tq_payload = dq_payload d, tq_secret = dq_secret d, tq_timeoutMs = timeoutMs, tq_ownerType = ''workflow_run'',
          tq_ownerId = dq_runId d, tq_requestId = Some rid\<rparr>
      else if dq_kind d = ''agent.run'' then
        (case parseAgentRun en (dq_payload d) of
           None \<Rightarrow> h_return (failed_with ''INVALID_AGENT_RUN_PAYLOAD'')
         | Some fs \<Rightarrow> invokeToolOnExecutor en (agentRunRequest en rid d timeoutMs fs))
      else h_return (failed_with ''UNSUPPORTED_KIND''))"

definition response_json :: "dispatch_response \<Rightarrow> json" where
  "response_json r = JObj ([(''status'', JStr (if dp_failed r then ''failed'' else ''succeeded''))]
     @ (case dp_output r of None \<Rightarrow> [] | Some v \<Rightarrow> [(''output'', v)])
     @ (case dp_error r of None \<Rightarrow> [] | Some e \<Rightarrow> [(''error'', JStr e)]))"

definition publishResponse :: "brain_env \<Rightarrow> string \<Rightarrow> dispatch_response \<Rightarrow> unit brain_handler" where
  "publishResponse en rid r =
     h_then (bus_do en (set_result rid r (be_resultsTtlSec en)))
       (bus_do en (set_reply rid (response_json r) (be_resultsTtlSec en)))"

definition apply_job_id :: "brain_env \<Rightarrow> string \<Rightarrow> string" where
  "apply_job_id en rid = ''apply-'' @ be_sha256 en rid"

definition enqueueApply :: "brain_env \<Rightarrow> string \<Rightarrow> dispatch_request \<Rightarrow> dispatch_response \<Rightarrow> unit brain_handler" where
  \<comment> \<open>the queue ignores a job whose id it already holds; a failure of the queue itself is only logged\<close>
  "enqueueApply en rid d r =
     bus_do en (\<lambda>w. if list_ex (\<lambda>j. aj_jobId j = apply_job_id en rid) (gb_queue w) then w
       else w\<lparr>gb_queue := gb_queue w @ [\<lparr>aj_jobId = apply_job_id en rid, aj_organizationId = dq_organizationId d,
          aj_workflowId = dq_workflowId d, aj_runId = dq_runId d, aj_requestId = rid,
          aj_attemptCount = dq_attemptCount d, aj_result = r\<rparr>]\<rparr>)"

definition dispatchAsync :: "brain_env \<Rightarrow> string \<Rightarrow> dispatch_request \<Rightarrow> int \<Rightarrow> unit brain_handler" where
  \<comment> \<open>\<open>runAsync\<close>\<close>
  "dispatchAsync en rid d timeoutMs =
     h_bind (h_catch (executeWorkflowDispatchInternal en rid d timeoutMs) (\<lambda>e. h_return (failed_with e))) (\<lambda>r.
     h_then (publishResponse en rid r)
       (if be_hasQueue en then enqueueApply en rid d r else h_return ()))"

definition handleWorkflowDispatch :: "brain_env \<Rightarrow> string \<Rightarrow> dispatch_request \<Rightarrow> bool \<Rightarrow> unit brain_handler" where
  "handleWorkflowDispatch en rid d async =
     (let timeoutMs = qq (dq_timeoutMs d) 60000 in
      if async then dispatchAsync en rid d timeoutMs
      else h_bind (executeWorkflowDispatchInternal en rid d timeoutMs) (publishResponse en rid))"

end
