(* ===== verification/BrainSession.thy ===== *)
theory BrainSession
  imports BrainDispatch
begin

text \<open>
  Session messages of a brain (\<open>apps/gateway/src/brain/runtime.ts\<close>): \<open>handleSessionSend\<close> with its lock,
  the choice and pinning of an executor, opening the session there and running the turn;
  \<open>handleSessionReset\<close>, \<open>handleSessionCancel\<close>, \<open>handleSessionTurnEvent\<close>, and the loop that reads the
  messages one after the other.
\<close>

section \<open>Reading a session row\<close>

definition sessionSelector :: "json option \<Rightarrow> exec_selector_v1 option" where
  \<comment> \<open>the stored selector, when its pool is a known one\<close>
  "sessionSelector v =
     (let sel = (case v of Some (JObj fs) \<Rightarrow> jget fs | _ \<Rightarrow> (\<lambda>_. None));
          text = (\<lambda>k. asString (sel k));
          build = (\<lambda>p. Some \<lparr>sl_pool = p,
            sl_labels = (case sel ''labels'' of Some (JArr xs) \<Rightarrow> Some (strings_of xs) | _ \<Rightarrow> None),
            sl_group = text ''group'', sl_tag = text ''tag'', sl_executorId = text ''executorId''\<rparr>)
      in case text ''pool'' of
           None \<Rightarrow> None
         | Some p \<Rightarrow> if p = ''managed'' then build PoolManaged else if p = ''byon'' then build PoolByon else None)"

fun pool_text :: "pool \<Rightarrow> string" where
  "pool_text PoolManaged = ''managed''"
| "pool_text PoolByon = ''byon''"

definition pool_of :: "string option \<Rightarrow> pool option" where
  "pool_of p = (if p = Some ''managed'' then Some PoolManaged else if p = Some ''byon'' then Some PoolByon else None)"

definition priorPinned :: "session_row \<Rightarrow> (string \<times> pool) option" where
  \<comment> \<open>the executor the session is pinned to, with the pool byon unless stored\<close>
  "priorPinned r =
     (let ex = (if truthy (sn_pinnedExecutorId r) then sn_pinnedExecutorId r else sn_pinnedAgentId r);
          p = (case pool_of (sn_pinnedExecutorPool r) of Some x \<Rightarrow> Some x | None \<Rightarrow> if truthy ex then Some PoolByon else None)
      in if truthy ex then map_option (Pair (qq ex '''')) p else None)"

definition limits_of :: "session_row \<Rightarrow> string \<Rightarrow> int option" where
  \<comment> \<open>a numeric limit\<close>
  "limits_of r k = (case obj_get (Some (sn_limits r)) k of Some (JNum n) \<Rightarrow> Some n | _ \<Rightarrow> None)"

definition turn_timeout :: "session_row \<Rightarrow> int" where
  "turn_timeout r = qq (limits_of r ''timeoutMs'') 60000"

definition at_least :: "int \<Rightarrow> int \<Rightarrow> int option \<Rightarrow> int" where
  "at_least lo dflt v = (case v of None \<Rightarrow> dflt | Some n \<Rightarrow> max lo n)"

definition session_key :: "session_row \<Rightarrow> string" where
  "session_key r = (if sn_sessionKey r = '''' then ''session:'' @ sn_id r else sn_sessionKey r)"

section \<open>Failing a session\<close>

definition failSession :: "brain_env \<Rightarrow> string \<Rightarrow> string \<Rightarrow> string \<Rightarrow> string \<Rightarrow> unit brain_handler" where
  "failSession en org sid code msg =
     h_then (appendAndBroadcast en org sid ''error'' ''error'' None (Some (JObj [(''code'', JStr code), (''message'', JStr msg)])))
       (bus_do en (broadcast sid (CliError code msg)))"

fun select_failure :: "select_error \<Rightarrow> string \<times> string" where
  "select_failure ORG_QUOTA_EXCEEDED = (''ORG_QUOTA_EXCEEDED'', ''Organization concurrent execution quota exceeded.'')"
| "select_failure EXECUTOR_OVER_CAPACITY = (''EXECUTOR_OVER_CAPACITY'', ''No available capacity on executor pool.'')"
| "select_failure EXECUTOR_OAUTH_NOT_VERIFIED =
     (''EXECUTOR_OAUTH_NOT_VERIFIED'', ''No OAuth-verified executor is currently available for this engine.'')"
| "select_failure NO_EXECUTOR_AVAILABLE = (''NO_AGENT_AVAILABLE'', ''No node-host is currently available for this session.'')"

section \<open>Choosing the executor\<close>

definition selectSession :: "brain_env \<Rightarrow> string \<Rightarrow> exec_selector_v1 option \<Rightarrow> oauth_engine option \<Rightarrow> int
    \<Rightarrow> (select_error + selected_executor) brain_handler" where
  "selectSession en org sel oauth orgMax = on_bus en (\<lambda>w.
     case selectSessionExecutor (announced w) org sel oauth orgMax (be_reserveTtlMs en) (gb_now w) (gb_counters w) of
       (r, m) \<Rightarrow> (Inr r, w\<lparr>gb_counters := m\<rparr>))"

definition pinned_selector :: "string \<times> pool \<Rightarrow> exec_selector_v1" where
  "pinned_selector p = byon_selector\<lparr>sl_pool := snd p, sl_executorId := Some (fst p)\<rparr>"

definition chooseExecutor :: "brain_env \<Rightarrow> session_row \<Rightarrow> oauth_engine option \<Rightarrow> int \<Rightarrow> (string \<times> string + selected_executor) brain_handler" where
  \<comment> \<open>the pinned executor if it can be had, else one of the session's pool; the error of a failure\<close>
  "chooseExecutor en r oauth orgMax =
     (let any = h_bind (selectSession en (sn_organizationId r) (sessionSelector (sn_executorSelector r)) oauth orgMax) (\<lambda>sel.
            case sel of Inl e \<Rightarrow> h_return (Inl (select_failure e)) | Inr ex \<Rightarrow> h_return (Inr ex))
      in case priorPinned r of
           None \<Rightarrow> any
         | Some p \<Rightarrow> h_bind (selectTool en (sn_organizationId r) KindAgentRun (pinned_selector p) oauth orgMax) (\<lambda>sel.
             case sel of
               Inr ex \<Rightarrow> h_return (Inr ex)
             | Inl e \<Rightarrow>
                 if e = ORG_QUOTA_EXCEEDED then h_return (Inl (select_failure e))
                 else if e = EXECUTOR_OAUTH_NOT_VERIFIED then
                   h_return (Inl (''EXECUTOR_OAUTH_NOT_VERIFIED'', ''Pinned executor is not OAuth-verified for this engine.''))
                 else any))"

definition broadcast_state :: "string \<Rightarrow> string option \<Rightarrow> string option \<Rightarrow> session_row \<Rightarrow> bus \<Rightarrow> bus" where
  "broadcast_state sid executor pool r = broadcast sid (CliState executor pool None (sn_routedAgentId r) (sn_scope r))"

definition persistPin :: "brain_env \<Rightarrow> session_row \<Rightarrow> selected_executor \<Rightarrow> session_row brain_handler" where
  \<comment> \<open>the session row after pinning\<close>
  "persistPin en r ex =
     (let pool = pool_text (se_pool ex) in
      if sn_pinnedExecutorId r = Some (se_executorId ex) \<and> sn_pinnedExecutorPool r = Some pool then h_return r
      else h_bind (on_bus en (\<lambda>w. case db_setAgentSessionPinnedAgent (sn_organizationId r) (sn_id r) (Some None)
               (Some (Some (se_executorId ex))) (Some (Some pool)) w of (u, w') \<Rightarrow> (Inr u, w'))) (\<lambda>u.
        let r' = qq u r in
        h_then (bus_do en (broadcast_state (sn_id r) (Some (se_executorId ex)) (Some pool) r')) (h_return r')))"

definition executor_json :: "string \<Rightarrow> pool \<Rightarrow> json" where
  "executor_json i p = JObj [(''executorId'', JStr i), (''pool'', JStr (pool_text p))]"

definition reportFailover :: "brain_env \<Rightarrow> session_row \<Rightarrow> selected_executor \<Rightarrow> unit brain_handler" where
  \<comment> \<open>\<open>r\<close>: the row as first read\<close>
  "reportFailover en r ex =
     (case priorPinned r of
        None \<Rightarrow> h_return ()
      | Some (i, p) \<Rightarrow>
          if i = se_executorId ex \<and> p = se_pool ex then h_return ()
          else appendAndBroadcast en (sn_organizationId r) (sn_id r) ''system'' ''warn'' None
            (Some (JObj [(''action'', JStr ''session_executor_failover''), (''from'', executor_json i p),
               (''to'', executor_json (se_executorId ex) (se_pool ex))])))"

section \<open>Opening the session and running the turn\<close>

definition engine_auth_mode :: "string \<Rightarrow> oauth_engine option \<Rightarrow> string" where
  "engine_auth_mode secret oauth =
     (if secret \<noteq> '''' then ''inline_api_key'' else if oauth \<noteq> None then ''oauth_executor'' else ''env'')"

definition session_open_of :: "session_send \<Rightarrow> session_row \<Rightarrow> session_row \<Rightarrow> string \<Rightarrow> oauth_engine option \<Rightarrow> string \<Rightarrow> session_open" where
  \<comment> \<open>\<open>r\<close>: the row as first read, \<open>r'\<close>: after pinning\<close>
  "session_open_of m r r' secret oauth routed =
     \<lparr>op_requestId = sq_requestId m @ '':open'', op_organizationId = sq_organizationId m, op_sessionId = sq_sessionId m,
      op_sessionKey = session_key r', op_routedAgentId = routed, op_userId = sq_userId m,
      op_engineId = sn_engineId r, op_model = sn_llmModel r', op_authMode = engine_auth_mode secret oauth,
      op_baseUrl = (if secret \<noteq> '''' then readEngineRuntimeBaseUrlFromSession (Some (sn_runtime r)) (sn_engineId r) else None),
      op_apiKey = (if secret \<noteq> '''' then Some secret else None),
      op_promptSystem = sn_promptSystem r', op_instructions = sn_promptInstructions r',
      op_toolsAllow = (case sn_toolsAllow r' of JArr xs \<Rightarrow> xs | _ \<Rightarrow> []),
      op_maxTurns = at_least 1 8 (limits_of r ''maxTurns''), op_maxToolCalls = at_least 0 20 (limits_of r ''maxToolCalls''),
      op_timeoutMs = turn_timeout r, op_maxOutputChars = at_least 256 100000 (limits_of r ''maxOutputChars''),
      op_maxRuntimeChars = at_least 10000 300000 (limits_of r ''maxRuntimeChars''),
      op_memoryProvider = (if obj_get (Some (sn_limits r)) ''memoryProvider'' = Some (JStr ''qmd'') then ''qmd'' else ''builtin'')\<rparr>"

definition to_executor :: "brain_env \<Rightarrow> string \<Rightarrow> string \<Rightarrow> session_payload \<Rightarrow> unit brain_handler" where
  "to_executor en edge executorId p = bus_do en (send_edge edge (ExecutorSession executorId p))"

definition reply_prop :: "json option \<Rightarrow> string \<Rightarrow> json option" where
  \<comment> \<open>\<open>v?.k\<close>\<close>
  "reply_prop v k = (case v of None \<Rightarrow> None | Some x \<Rightarrow> get_property x k)"

definition turnCanceled :: "string \<Rightarrow> string \<Rightarrow> bool brain_handler" where
  "turnCanceled sid rid = h_gets (\<lambda>s. case jget (bl_turns s) sid of
     None \<Rightarrow> False | Some t \<Rightarrow> tn_requestId t = rid \<and> tn_canceled t)"

definition publishAnswer :: "brain_env \<Rightarrow> session_send \<Rightarrow> json option \<Rightarrow> unit brain_handler" where
  \<comment> \<open>a successful turn: the two events, their broadcasts, and the answer to the channel\<close>
  "publishAnswer en m reply =
     (let org = sq_organizationId m; sid = sq_sessionId m; content = reply_prop reply ''content'';
          out = qq (nullishJ (reply_prop reply ''payload'')) (qq (nullishJ content) JNull);
          txt = (case content of Some (JStr s) \<Rightarrow> s | _ \<Rightarrow> (case out of JStr s \<Rightarrow> s | _ \<Rightarrow> stringify out))
      in h_bind (appendSessionLog en org sid ''agent_message'' ''info'' None (Some (JObj [(''message'', JStr txt), (''delta'', JBool True)]))) (\<lambda>delta.
         h_bind (appendSessionLog en org sid ''agent_final'' ''info'' None (Some (JObj [(''message'', JStr txt), (''output'', out)]))) (\<lambda>final.
         h_then (bus_do en (broadcast sid (CliEvent delta)))
         (h_then (bus_do en (broadcast sid (CliEvent final)))
         (h_then (bus_do en (broadcast sid (CliDelta (lg_seq delta) txt (lg_createdAt delta))))
         (h_then (bus_do en (broadcast sid (CliFinal (lg_seq final) txt out (lg_createdAt final))))
           (case sq_source m of
              None \<Rightarrow> h_return ()
            | Some src \<Rightarrow>
                if truthy (sq_originEdgeId m) \<and> txt \<noteq> '''' then
                  bus_do en (send_edge (qq (sq_originEdgeId m) '''') (ChannelOutbound org sid (lg_seq final) src txt))
                else h_return ())))))))"

definition finishTurn :: "brain_env \<Rightarrow> session_send \<Rightarrow> json option \<Rightarrow> unit brain_handler" where
  \<comment> \<open>what follows the wait for the turn's reply\<close>
  "finishTurn en m reply =
     (let org = sq_organizationId m; sid = sq_sessionId m; rid = sq_requestId m;
          code = asString (reply_prop reply ''code''); err = asString (reply_prop reply ''error'') in
      if \<not> truthyJ reply then
        failSession en org sid ''NODE_EXECUTION_TIMEOUT'' ''Pinned node-host did not reply in time.''
      else h_bind (turnCanceled sid rid) (\<lambda>canceled.
        if reply_prop reply ''status'' = Some (JStr ''failed'') then
          if code = Some ''TURN_CANCELED'' \<or> canceled then
            appendAndBroadcast en org sid ''system'' ''info'' None
              (Some (JObj [(''action'', JStr ''session_turn_canceled''), (''requestId'', JStr rid)]))
          else failSession en org sid (case code of Some c \<Rightarrow> c | None \<Rightarrow> qq err ''NODE_EXECUTION_FAILED'')
                 (qq err ''Agent turn failed on pinned node-host.'')
        else if canceled then h_return ()
        else publishAnswer en m reply))"

definition turn_of :: "session_send \<Rightarrow> string \<Rightarrow> session_turn" where
  "turn_of m key = \<lparr>tu_requestId = sq_requestId m, tu_organizationId = sq_organizationId m, tu_sessionId = sq_sessionId m,
     tu_sessionKey = key, tu_userId = sq_userId m, tu_eventSeq = sq_userEventSeq m, tu_message = qq (sq_message m) '''',
     tu_attachments = sq_attachments m\<rparr>"

definition runTurn :: "brain_env \<Rightarrow> session_send \<Rightarrow> session_row \<Rightarrow> string \<Rightarrow> oauth_engine option \<Rightarrow> selected_executor \<Rightarrow> unit brain_handler" where
  \<comment> \<open>from the pinning to the end of the \<open>try\<close> block\<close>
  "runTurn en m r secret oauth ex =
     (let org = sq_organizationId m; sid = sq_sessionId m in
      h_bind (persistPin en r ex) (\<lambda>r'.
      h_then (reportFailover en r ex)
      (let routed = (if truthy (sn_routedAgentId r') then qq (sn_routedAgentId r') '''' else se_executorId ex) in
       if routed = '''' then failSession en org sid ''NO_AGENT_AVAILABLE'' ''No routed agent was resolved for this session.''
       else if se_pool ex \<noteq> PoolByon then
         failSession en org sid ''NO_AGENT_AVAILABLE'' ''Sessions are BYON-only in this release.''
       else
         h_then (to_executor en (se_edgeId ex) (se_executorId ex) (SessionOpen (session_open_of m r r' secret oauth routed)))
         (h_bind (waitForJsonReply en (sq_requestId m @ '':open'')
             (min (turn_timeout r) (be_sessionOpenTimeoutMs en) + be_replyGraceMs en)) (\<lambda>opened.
          if reply_prop opened ''status'' \<noteq> Some (JStr ''ok'') then
            failSession en org sid ''PINNED_AGENT_OFFLINE''
              (qq (asString (reply_prop opened ''error'')) ''Node-host could not open the session.'')
          else
            h_then (h_modify (\<lambda>s. s\<lparr>bl_turns := jset sid \<lparr>tn_organizationId = org, tn_sessionId = sid,
                tn_requestId = sq_requestId m, tn_executorId = se_executorId ex, tn_edgeId = se_edgeId ex,
                tn_canceled = False\<rparr> (bl_turns s)\<rparr>))
            (h_then (to_executor en (se_edgeId ex) (se_executorId ex) (SessionTurn (turn_of m (session_key r'))))
            (h_bind (waitForJsonReply en (sq_requestId m) (turn_timeout r + be_replyGraceMs en)) (finishTurn en m))))))))"

definition clearTurn :: "session_send \<Rightarrow> unit brain_handler" where
  "clearTurn m = h_modify (\<lambda>s. case jget (bl_turns s) (sq_sessionId m) of
     None \<Rightarrow> s
   | Some t \<Rightarrow> if tn_requestId t = sq_requestId m then s\<lparr>bl_turns := jdel (sq_sessionId m) (bl_turns s)\<rparr> else s)"

definition lock_ttl :: int where
  "lock_ttl = 30"

definition lockSession :: "brain_env \<Rightarrow> string \<Rightarrow> bool brain_handler" where
  \<comment> \<open>\<open>SET key brainId EX 30 NX\<close>\<close>
  "lockSession en sid = on_bus en (\<lambda>w.
     if fresh (gb_now w) (gb_locks w) sid = None
     then (Inr True, w\<lparr>gb_locks := jset sid (be_brainId en, gb_now w + lock_ttl * 1000) (gb_locks w)\<rparr>)
     else (Inr False, w))"

definition unlockSession :: "brain_env \<Rightarrow> string \<Rightarrow> unit brain_handler" where
  "unlockSession en sid = bus_do en (\<lambda>w. w\<lparr>gb_locks := jdel sid (gb_locks w)\<rparr>)"

definition sendToSession :: "brain_env \<Rightarrow> session_send \<Rightarrow> session_row \<Rightarrow> unit brain_handler" where
  \<comment> \<open>the \<open>try\<close> block once the session is read\<close>
  "sendToSession en m r =
     h_bind (getOrgMaxInFlight en (sq_organizationId m)) (\<lambda>orgMax.
       if \<not> isSupportedEngineId (sn_engineId r) then
         failSession en (sq_organizationId m) (sq_sessionId m) ''EXECUTOR_UNSUPPORTED_ENGINE''
           (''UNSUPPORTED_SESSION_ENGINE:'' @ sn_engineId r)
       else
         let secret = (case sn_llmSecretId r of None \<Rightarrow> '''' | Some x \<Rightarrow>
               if x = '''' then '''' else trim (be_secret en (sq_organizationId m) x));
             oauth = requiresExecutorOAuth (engine_of (sn_engineId r)) (truthy (sn_llmSecretId r))
         in h_bind (chooseExecutor en r oauth orgMax) (\<lambda>choice.
           case choice of
             Inl (code, msg) \<Rightarrow> failSession en (sq_organizationId m) (sq_sessionId m) code msg
           | Inr ex \<Rightarrow> h_finally (runTurn en m r secret oauth ex)
               (h_then (clearTurn m) (releaseTool en (se_executorId ex) (sq_organizationId m)))))"

definition handleSessionSend :: "brain_env \<Rightarrow> session_send \<Rightarrow> unit brain_handler" where
  "handleSessionSend en m =
     h_bind (lockSession en (sq_sessionId m)) (\<lambda>locked.
       if \<not> locked then h_return ()
       else h_finally
         (h_bind (bus_get en (db_getAgentSessionById (sq_organizationId m) (sq_sessionId m))) (\<lambda>found.
            case found of None \<Rightarrow> h_return () | Some r \<Rightarrow> sendToSession en m r))
         (h_then (clearTurn m) (unlockSession en (sq_sessionId m))))"

section \<open>Reset, cancel, turn events\<close>

definition handleSessionReset :: "brain_env \<Rightarrow> string \<Rightarrow> string \<Rightarrow> string \<Rightarrow> unit brain_handler" where
  "handleSessionReset en org sid mode =
     h_bind (on_bus en (\<lambda>w. case db_setAgentSessionPinnedAgent org sid (Some None) (Some None) (Some None) w of
         (u, w') \<Rightarrow> (Inr u, w'))) (\<lambda>u.
       case u of
         None \<Rightarrow> h_return ()
       | Some r \<Rightarrow>
           h_then (appendAndBroadcast en org sid ''system'' ''info'' None
               (Some (JObj [(''action'', JStr ''session_reset_agent''), (''mode'', JStr mode)])))
             (bus_do en (broadcast_state sid None None r)))"

definition handleSessionCancel :: "brain_env \<Rightarrow> string \<Rightarrow> string \<Rightarrow> unit brain_handler" where
  "handleSessionCancel en org sid =
     h_bind (h_gets (\<lambda>s. jget (bl_turns s) sid)) (\<lambda>active.
       case active of
         None \<Rightarrow> h_return ()
       | Some t \<Rightarrow>
           if tn_organizationId t \<noteq> org \<or> tn_canceled t then h_return ()
           else
             h_then (h_modify (\<lambda>s. s\<lparr>bl_turns := jset sid (t\<lparr>tn_canceled := True\<rparr>) (bl_turns s)\<rparr>))
             (h_then (to_executor en (tn_edgeId t) (tn_executorId t) (SessionCancel (tn_requestId t) org sid))
               (appendAndBroadcast en org sid ''system'' ''info'' None
                  (Some (JObj [(''action'', JStr ''session_cancel_requested''), (''requestId'', JStr (tn_requestId t))])))))"

definition normalizeSessionStreamKind :: "string \<Rightarrow> string" where
  "normalizeSessionStreamKind kind =
     (if kind \<in> {''turn_started'', ''turn_delta'', ''engine_phase'', ''tool_call'', ''tool_result'', ''tool_log'',
        ''turn_finished'', ''turn_canceled''} then kind else ''tool_log'')"

definition event_json :: "exec_event \<Rightarrow> json" where
  "event_json v = JObj ([(''seq'', JNum (xv_seq v))] @ (case xv_ts v of None \<Rightarrow> [] | Some t \<Rightarrow> [(''ts'', JNum t)])
     @ [(''kind'', JStr (xv_kind v)), (''level'', JStr (xv_level v))]
     @ (case xv_message v of None \<Rightarrow> [] | Some x \<Rightarrow> [(''message'', JStr x)])
     @ (case xv_payload v of None \<Rightarrow> [] | Some x \<Rightarrow> [(''payload'', x)]))"

definition stream_event_type :: "string \<Rightarrow> string option" where
  \<comment> \<open>the kinds of stream events that are logged\<close>
  "stream_event_type kind =
     (if kind = ''tool_call'' then Some ''tool_call'' else if kind = ''tool_result'' then Some ''tool_result''
      else if kind = ''turn_canceled'' then Some ''system'' else None)"

definition handleSessionTurnEvent :: "brain_env \<Rightarrow> string \<Rightarrow> string \<Rightarrow> string \<Rightarrow> exec_event \<Rightarrow> unit brain_handler" where
  "handleSessionTurnEvent en rid org sid v =
     (if \<not> be_streamV1 en then h_return ()
      else
        let kind = normalizeSessionStreamKind (xv_kind v); level = normalizeEventLevel (xv_level v) in
        h_then (bus_do en (\<lambda>w. broadcast sid (CliStream rid (xv_seq v) kind level (xv_message v) (xv_payload v)
            (qq (xv_ts v) (gb_now w))) w))
          (case stream_event_type kind of
             None \<Rightarrow> h_return ()
           | Some t \<Rightarrow> appendAndBroadcast en org sid t (if kind = ''turn_canceled'' then ''info'' else level)
               (Some (''stream:'' @ rid @ '':'' @ kind @ '':'' @ int_text (xv_seq v)))
               (Some (JObj (if kind = ''turn_canceled''
                  then [(''action'', JStr ''session_turn_canceled''), (''requestId'', JStr rid), (''event'', event_json v)]
                  else [(''requestId'', JStr rid), (''stream'', event_json v)])))))"

section \<open>The loop\<close>

fun handleMessage :: "brain_env \<Rightarrow> brain_message \<Rightarrow> unit brain_handler" where
  "handleMessage en (MsgDispatch rid d async) = handleWorkflowDispatch en rid d async"
| "handleMessage en (MsgSend m) = handleSessionSend en m"
| "handleMessage en (MsgTurnEvent rid org sid v) = handleSessionTurnEvent en rid org sid v"
| "handleMessage en (MsgReset org sid mode) = handleSessionReset en org sid mode"
| "handleMessage en (MsgCancel org sid) = handleSessionCancel en org sid"
| "handleMessage en MsgOther = h_return ()"

fun brainLoop :: "brain_env \<Rightarrow> brain_message list \<Rightarrow> unit brain_handler" where
  \<comment> \<open>the messages a brain reads, in order; the loop has no \<open>catch\<close>, so an exception ends it\<close>
  "brainLoop en [] = h_return ()"
| "brainLoop en (m # ms) = h_then (handleMessage en m) (brainLoop en ms)"

end
