(* ===== verification/BrainProps.thy ===== *)
theory BrainProps
  imports BrainSession
begin

text \<open>
  What the brain's handlers do to a brain's own table of running turns, whatever the other processes do
  to the shared state meanwhile.
\<close>

section \<open>The table of running turns\<close>

definition turns_of :: "(active_turn table \<Rightarrow> bool) \<Rightarrow> brain \<Rightarrow> bool" where
  "turns_of R s = R (bl_turns s)"

named_theorems turn_keeps \<open>handlers that leave the table of turns alone\<close>

lemma turns_on_bus [keeps_intros, turn_keeps]: "keeps (turns_of R) (on_bus en f)"
  by (auto simp: keeps_def on_bus_def turns_of_def split: prod.splits)

lemma turns_bus_do [keeps_intros, turn_keeps]: "keeps (turns_of R) (bus_do en f)"
  unfolding bus_do_def by (rule turns_on_bus)

lemma turns_bus_get [keeps_intros, turn_keeps]: "keeps (turns_of R) (bus_get en f)"
  unfolding bus_get_def by (rule turns_on_bus)

lemma turns_wait [keeps_intros, turn_keeps]: "keeps (turns_of R) (waitForJsonReply en rid t)"
  by (simp add: keeps_def waitForJsonReply_def turns_of_def Let_def)

lemma turns_append [keeps_intros, turn_keeps]: "keeps (turns_of R) (appendSessionLog en org sid ty lv k p)"
  unfolding appendSessionLog_def by (rule turns_on_bus)

lemma turns_append_broadcast [keeps_intros, turn_keeps]: "keeps (turns_of R) (appendAndBroadcast en org sid ty lv k p)"
  unfolding appendAndBroadcast_def by (intro keeps_intros)

lemma turns_quota [keeps_intros, turn_keeps]: "keeps (turns_of R) (getOrgMaxInFlight en org)"
proof -
  have "keeps (turns_of R) (h_modify (\<lambda>s. s\<lparr>bl_quota := f s\<rparr>))" for f
    by (rule keeps_modify) (simp add: turns_of_def)
  then show ?thesis unfolding getOrgMaxInFlight_def by (intro keeps_intros)
qed

lemma turns_select [keeps_intros, turn_keeps]:
  "keeps (turns_of R) (selectTool en org k sel oauth mx)" "keeps (turns_of R) (selectSession en org sel' oauth mx)"
  "keeps (turns_of R) (releaseTool en x org)"
  unfolding selectTool_def selectSession_def releaseTool_def by (intro keeps_intros)+

lemma turns_workspace [keeps_intros, turn_keeps]: "keeps (turns_of R) (getOrCreateWorkspace en org ot oid)"
  unfolding getOrCreateWorkspace_def by (intro keeps_intros)

lemma keeps_phase [keeps_intros]:
  "(\<And>v k. keeps P (f v k)) \<Longrightarrow> (\<And>v e. keeps P (g v e)) \<Longrightarrow> (\<And>r. keeps P (h r))
    \<Longrightarrow> keeps P (case ph of PhRead v k \<Rightarrow> f v k | PhHolding v e \<Rightarrow> g v e | PhEnded r \<Rightarrow> h r)"
  by (cases ph) simp_all

lemma turns_invoke [keeps_intros, turn_keeps]: "keeps (turns_of R) (invokeToolOnExecutor en t)"
  unfolding invokeToolOnExecutor_def runOnExecutor_def by (intro keeps_intros)

lemma turns_execute [keeps_intros, turn_keeps]: "keeps (turns_of R) (executeWorkflowDispatchInternal en rid d t)"
  unfolding executeWorkflowDispatchInternal_def by (intro keeps_intros)

lemma turns_dispatch [keeps_intros, turn_keeps]: "keeps (turns_of R) (handleWorkflowDispatch en rid d a)"
  unfolding handleWorkflowDispatch_def dispatchAsync_def publishResponse_def enqueueApply_def by (intro keeps_intros)

lemma turns_fail [keeps_intros, turn_keeps]: "keeps (turns_of R) (failSession en org sid c msg)"
  unfolding failSession_def by (intro keeps_intros)

lemma turns_choose [keeps_intros, turn_keeps]: "keeps (turns_of R) (chooseExecutor en r oauth mx)"
  unfolding chooseExecutor_def by (intro keeps_intros)

lemma turns_pin [keeps_intros, turn_keeps]:
  "keeps (turns_of R) (persistPin en r x)" "keeps (turns_of R) (reportFailover en r x)"
  unfolding persistPin_def reportFailover_def by (intro keeps_intros)+

lemma turns_finish [keeps_intros, turn_keeps]: "keeps (turns_of R) (finishTurn en m v)"
proof -
  have "keeps (turns_of R) (publishAnswer en m v)"
    unfolding publishAnswer_def by (intro keeps_intros)
  then show ?thesis unfolding finishTurn_def turnCanceled_def by (intro keeps_intros)
qed

lemma turns_lock [keeps_intros, turn_keeps]:
  "keeps (turns_of R) (lockSession en sid)" "keeps (turns_of R) (unlockSession en sid)"
  unfolding lockSession_def unlockSession_def by (intro keeps_intros)+

section \<open>Turns end with their message\<close>

definition only_turn :: "session_send \<Rightarrow> active_turn table \<Rightarrow> bool" where
  \<comment> \<open>every entry is the turn of the message\<close>
  "only_turn m ts \<longleftrightarrow> (\<forall>(k, t) \<in> set ts. k = sq_sessionId m \<and> tn_requestId t = sq_requestId m)"

lemma set_jset_subset: "set (jset k v m) \<subseteq> insert (k, v) (set m)"
  by (induction m) auto

lemma turns_run: "keeps (turns_of (only_turn m)) (runTurn en m r secret oauth ex)"
proof -
  have "keeps (turns_of (only_turn m)) (h_modify (\<lambda>s. s\<lparr>bl_turns := jset (sq_sessionId m)
      \<lparr>tn_organizationId = org, tn_sessionId = sid, tn_requestId = sq_requestId m, tn_executorId = x, tn_edgeId = e,
       tn_canceled = c\<rparr> (bl_turns s)\<rparr>))" for org sid x e c
    by (rule keeps_modify) (use set_jset_subset in \<open>fastforce simp: turns_of_def only_turn_def\<close>)
  then show ?thesis unfolding runTurn_def to_executor_def by (intro keeps_intros)
qed

lemma clear_turn: "only_turn m (bl_turns s) \<Longrightarrow> bl_turns (snd (clearTurn m s)) = []"
proof (cases "bl_turns s")
  case (Cons e ts)
  assume o: "only_turn m (bl_turns s)"
  have "jdel (sq_sessionId m) (bl_turns s) = []"
    using o by (auto simp: only_turn_def jdel_def filter_empty_conv)
  then show ?thesis using o Cons by (auto simp: clearTurn_def h_modify_def only_turn_def)
qed (simp add: clearTurn_def h_modify_def)

lemma turns_clear: "triple (turns_of (only_turn m)) (clearTurn m) (\<lambda>_. turns_of (\<lambda>ts. ts = [])) (\<lambda>_. turns_of (\<lambda>ts. ts = []))"
  using clear_turn by (auto simp: triple_def turns_of_def split: prod.splits sum.splits) (metis snd_conv)+

lemma only_turn_clear [keeps_intros]: "keeps (turns_of (only_turn m)) (clearTurn m)"
  unfolding clearTurn_def
  by (rule keeps_modify) (auto simp: turns_of_def only_turn_def jdel_def split: option.splits)

lemma turns_send_body: "keeps (turns_of (only_turn m)) (sendToSession en m r)"
  unfolding sendToSession_def by (intro keeps_intros turns_run)

abbreviation no_turns :: "brain \<Rightarrow> bool" where
  "no_turns \<equiv> turns_of (\<lambda>ts. ts = [])"

lemma turns_send: "keeps no_turns (handleSessionSend en m)"
proof -
  have body: "keeps (turns_of (only_turn m))
      (h_bind (bus_get en (db_getAgentSessionById (sq_organizationId m) (sq_sessionId m)))
         (\<lambda>found. case found of None \<Rightarrow> h_return () | Some r \<Rightarrow> sendToSession en m r))" (is "keeps _ ?body")
    by (intro keeps_intros turns_send_body)
  have "triple no_turns ?body (\<lambda>_. turns_of (only_turn m)) (\<lambda>_. turns_of (only_turn m))"
    by (rule triple_conseq [OF body [folded triple_keeps]]) (simp_all add: turns_of_def only_turn_def)
  moreover have "triple (turns_of (only_turn m)) (h_then (clearTurn m) (unlockSession en (sq_sessionId m))) (\<lambda>_. no_turns) (\<lambda>_. no_turns)"
    unfolding h_then_def by (rule triple_bind [OF turns_clear]) (simp add: triple_keeps turns_lock)
  ultimately have "keeps no_turns (h_finally ?body (h_then (clearTurn m) (unlockSession en (sq_sessionId m))))"
    unfolding triple_keeps [symmetric] by (rule triple_finally)
  then show ?thesis unfolding handleSessionSend_def by (intro keeps_bind [OF turns_lock(1)] keeps_if [OF keeps_return])
qed

lemma turns_message: "keeps no_turns (handleMessage en m)"
proof (cases m)
  case (MsgCancel org sid)
  have "handleSessionCancel en org sid s = (Inr (), s)" if "no_turns s" for s
    using that by (simp add: handleSessionCancel_def turns_of_def handler_defs)
  then show ?thesis using MsgCancel by (simp add: keeps_def)
qed (auto intro!: keeps_intros turns_send simp: handleSessionTurnEvent_def handleSessionReset_def Let_def split: option.splits)

lemma turns_loop: "keeps no_turns (brainLoop en ms)"
  by (induction ms) (auto intro!: keeps_intros turns_message)

end
