(* ===== verification/BrainResponses.thy ===== *)
theory BrainResponses
  imports BrainDispatch
begin

text \<open>
  The responses of workflow dispatches: no response a brain produces has an empty error text, and no
  exception an empty message.  The worker's schema for a response rejects an empty error.
\<close>

section \<open>Handlers and their values\<close>

abbreviation proper :: "dispatch_response \<Rightarrow> bool" where
  "proper r \<equiv> dp_error r \<noteq> Some []"

definition yields :: "('s, 'a) handler \<Rightarrow> ('a \<Rightarrow> bool) \<Rightarrow> bool" where
  \<comment> \<open>the values of a handler satisfy the predicate, its exceptions are not empty\<close>
  "yields m Q \<longleftrightarrow> (\<forall>s. case m s of (Inl e, _) \<Rightarrow> e \<noteq> [] | (Inr x, _) \<Rightarrow> Q x)"

abbreviation throws_proper :: "('s, 'a) handler \<Rightarrow> bool" where
  "throws_proper m \<equiv> yields m (\<lambda>_. True)"

definition outcome_ok :: "('a \<Rightarrow> bool) \<Rightarrow> string + 'a \<Rightarrow> bool" where
  "outcome_ok Q r \<longleftrightarrow> (case r of Inl e \<Rightarrow> e \<noteq> [] | Inr x \<Rightarrow> Q x)"

lemma outcome_simps [simp]: "outcome_ok Q (Inl e) = (e \<noteq> [])" "outcome_ok Q (Inr x) = Q x"
  by (simp_all add: outcome_ok_def)

lemma yields_iff: "yields m Q \<longleftrightarrow> (\<forall>s. outcome_ok Q (fst (m s)))"
  by (simp add: yields_def outcome_ok_def case_prod_beta)

lemma yieldsD: "yields m Q \<Longrightarrow> m s = (r, s') \<Longrightarrow> outcome_ok Q r"
  by (metis fst_conv yields_iff)

lemma yieldsI: "(\<And>s r s'. m s = (r, s') \<Longrightarrow> outcome_ok Q r) \<Longrightarrow> yields m Q"
  by (simp add: yields_iff) (metis surjective_pairing)

lemma yields_bind:
  assumes "yields m R" and "\<And>x. R x \<Longrightarrow> yields (f x) Q"
  shows "yields (h_bind m f) Q"
proof (rule yieldsI)
  fix s r s' assume b: "h_bind m f s = (r, s')"
  obtain y s1 where m: "m s = (y, s1)" by (cases "m s")
  show "outcome_ok Q r"
    using yieldsD [OF assms(1) m] yieldsD [OF assms(2)] b m by (cases y) (auto simp: h_bind_def)
qed

lemma yields_after: "throws_proper m \<Longrightarrow> (\<And>x. yields (f x) Q) \<Longrightarrow> yields (h_bind m f) Q"
  by (rule yields_bind)

lemma yields_then: "throws_proper m \<Longrightarrow> yields n Q \<Longrightarrow> yields (h_then m n) Q"
  unfolding h_then_def by (rule yields_bind)

lemma yields_return: "Q x \<Longrightarrow> yields (h_return x) Q"
  by (simp add: yields_def h_return_def)

lemma yields_finally:
  assumes "yields m Q" and "throws_proper fin"
  shows "yields (h_finally m fin) Q"
proof (rule yieldsI)
  fix s r s' assume b: "h_finally m fin s = (r, s')"
  obtain y s1 where m: "m s = (y, s1)" by (cases "m s")
  obtain z s2 where f: "fin s1 = (z, s2)" by (cases "fin s1")
  show "outcome_ok Q r"
    using yieldsD [OF assms(1) m] yieldsD [OF assms(2) f] b m f by (cases z) (auto simp: h_finally_def)
qed

lemma yields_caught:
  assumes "yields m Q" and "\<And>e. e \<noteq> [] \<Longrightarrow> Q (g e)"
  shows "yields (h_catch m (\<lambda>e. h_return (g e))) Q"
proof (rule yieldsI)
  fix s r s' assume b: "h_catch m (\<lambda>e. h_return (g e)) s = (r, s')"
  obtain y s1 where m: "m s = (y, s1)" by (cases "m s")
  show "outcome_ok Q r"
    using yieldsD [OF assms(1) m] assms(2) b m by (cases y) (auto simp: h_catch_def h_return_def)
qed

lemma yields_on_bus: "(\<And>w. case fst (f w) of Inl e \<Rightarrow> e \<noteq> [] | Inr x \<Rightarrow> Q x) \<Longrightarrow> yields (on_bus en f) Q"
  by (simp add: yields_def on_bus_def case_prod_beta)

lemma yields_local: "throws_proper (bus_do en f)" "throws_proper (bus_get en g)" "throws_proper (waitForJsonReply en rid t)"
  "throws_proper (h_gets h)" "throws_proper (h_modify k)"
  by (simp_all add: yields_def bus_do_def bus_get_def on_bus_def waitForJsonReply_def Let_def h_gets_def h_modify_def)

section \<open>Tool invocations\<close>

lemma proper_failed: "e \<noteq> [] \<Longrightarrow> proper (failed_with e)"
  by (simp add: failed_with_def)

lemma proper_response: "proper (response_of r)"
  by (auto simp: response_of_def truthy_def)

lemma proper_lock: "fst (lockStep s3 tok t n v row) = PhEnded r \<Longrightarrow> proper r"
  by (auto simp: lockStep_def failed_with_def split: option.splits if_splits)

lemma proper_reply: "proper (fst (replyStep tok v y row))"
  by (auto simp: replyStep_def failed_with_def proper_response split: option.split prod.split)

lemma proper_missing: "proper (missing_reply y)"
  by (auto simp: missing_reply_def failed_with_def proper_response split: option.split)

lemma on_workspace_value: "(\<And>row. Q (fst (f row))) \<Longrightarrow> Q x \<Longrightarrow> Q (fst (on_workspace org wid x f w))"
  by (simp add: on_workspace_def case_prod_beta split: option.split)

lemma yields_on_workspace:
  assumes "\<And>w row. Q (fst (f w row))" and "Q x"
  shows "yields (on_bus en (\<lambda>w. case on_workspace org wid x (f w) w of (y, w') \<Rightarrow> (Inr y, w'))) Q"
  by (rule yields_on_bus) (simp add: case_prod_beta on_workspace_value [OF assms])

lemma throws_getOrCreate: "throws_proper (getOrCreateWorkspace en org ot oid)"
proof -
  have "throws_proper (on_bus en (\<lambda>w. if list_ex (is_workspace_of org ot oid) (gb_workspaces w) then (Inl ''UNIQUE_VIOLATION'', w)
      else let row = createExecutionWorkspace (be_random en w) org ot oid in (Inr row, w\<lparr>gb_workspaces := gb_workspaces w @ [row]\<rparr>)))"
    by (rule yields_on_bus) (simp add: Let_def)
  then show ?thesis unfolding getOrCreateWorkspace_def
    by (intro yields_after yields_local) (simp add: yields_return split: option.split)
qed

definition ended_proper :: "inv_phase \<Rightarrow> bool" where
  "ended_proper ph \<longleftrightarrow> (\<forall>r. ph = PhEnded r \<longrightarrow> proper r)"

lemma proper_run: "yields (runOnExecutor en t ex) proper"
proof -
  have locked: "ended_proper (fst (lockStep s3 tok tm n v row))" "ended_proper (PhEnded (failed_with ''WORKSPACE_LOCKED''))" for s3 tok tm n v row
    by (auto simp: ended_proper_def failed_with_def dest: proper_lock)
  have "yields (case ph of PhEnded r \<Rightarrow> h_return r | PhRead _ _ \<Rightarrow> h_return (failed_with ''WORKSPACE_LOCKED'') | PhHolding v e \<Rightarrow> f v e) proper"
    if "ended_proper ph" "\<And>v e. yields (f v e) proper" for ph and f :: "nat \<Rightarrow> int \<Rightarrow> dispatch_response brain_handler"
    using that by (cases ph) (simp_all add: ended_proper_def yields_return proper_failed)
  note ended = this
  have after: "yields (h_bind (bus_get en g) (\<lambda>rid. h_then (bus_do en (c rid))
      (h_bind (waitForJsonReply en rid tm) (\<lambda>y. let reply = parseToolReply y in on_bus en (\<lambda>w.
         case on_workspace org wid (missing_reply reply) (replyStep tok v reply) w of (r, w') \<Rightarrow> (Inr r, w')))))) proper"
    for g c tm org wid tok v
    unfolding Let_def
    by (rule yields_after [OF yields_local(2)], rule yields_then [OF yields_local(1)], rule yields_after [OF yields_local(3)],
        rule yields_on_workspace, rule proper_reply, rule proper_missing)
  show ?thesis unfolding runOnExecutor_def
    apply (rule yields_after [OF throws_getOrCreate])
    apply (rule yields_after [OF yields_local(2)])
    apply (rule yields_bind)
    apply (rule yields_on_workspace)
    apply (rule locked(1))
    apply (rule locked(2))
    apply (erule ended)
    apply (rule after)
    done
qed

lemma throws_quota: "throws_proper (getOrgMaxInFlight en org)"
proof -
  have r: "throws_proper (h_bind (bus_get en g) (\<lambda>x. h_then (h_modify (k x)) (h_return (v x))))" for g k and v :: "'b \<Rightarrow> int"
    by (intro yields_after yields_then yields_local yields_return) simp
  show ?thesis unfolding getOrgMaxInFlight_def Let_def
    by (rule yields_after [OF yields_local(4)]) (auto intro!: r yields_return split: option.split)
qed

lemma proper_invoke: "yields (invokeToolOnExecutor en t) proper"
proof -
  have "throws_proper (selectTool en org k sel oauth mx)" for org k sel oauth mx
    unfolding selectTool_def by (rule yields_on_bus) (simp add: case_prod_beta)
  moreover have "select_text e \<noteq> []" for e by (cases e) simp_all
  moreover have "throws_proper (releaseTool en x org)" for x org unfolding releaseTool_def by (rule yields_local)
  ultimately show ?thesis unfolding invokeToolOnExecutor_def
    by (intro yields_after throws_quota) (auto intro!: yields_return yields_finally proper_failed proper_run split: sum.split)
qed

lemma proper_execute: "yields (executeWorkflowDispatchInternal en rid d t) proper"
  unfolding executeWorkflowDispatchInternal_def
  by (auto intro!: proper_invoke yields_return proper_failed split: option.split)

lemma proper_caught: "yields (h_catch (executeWorkflowDispatchInternal en rid d t) (\<lambda>e. h_return (failed_with e))) proper"
  by (rule yields_caught [OF proper_execute]) (rule proper_failed)

end
