(* ===== verification/BrainFrame.thy ===== *)
theory BrainFrame
  imports BrainProps BrainResponses
begin

text \<open>
  Invariants of the shared state under the handlers of a brain.  The locale \<open>bus_invariant\<close> is what a
  predicate has to satisfy for one organization: the other processes keep it, it does not depend on
  counters, locks and replies, results and jobs with a proper error keep it, and the changes to the rows of the organization
  keep it.  Then every handler keeps it for a message of that organization.  Four interpretations: the
  rows of all other organizations stay as they are, the log of every session stays without gaps, the
  turns sent for a request carry its text, and stored results have no empty error text.
\<close>

section \<open>The contract\<close>

definition on_state :: "(bus \<Rightarrow> bool) \<Rightarrow> brain \<Rightarrow> bool" where
  "on_state P s = P (bl_bus s)"

definition stable :: "brain_env \<Rightarrow> (bus \<Rightarrow> bool) \<Rightarrow> bool" where
  "stable en P \<longleftrightarrow> (\<forall>w. P w \<longrightarrow> P (be_others en w)) \<and> (\<forall>k t w. P w \<longrightarrow> P (be_wait en k t w))"

lemma keeps_bind_when: "keeps P m \<Longrightarrow> yields m Q \<Longrightarrow> (\<And>x. Q x \<Longrightarrow> keeps P (f x)) \<Longrightarrow> keeps P (h_bind m f)"
proof -
  assume k: "keeps P m" and y: "yields m Q" and f: "\<And>x. Q x \<Longrightarrow> keeps P (f x)"
  have "P (snd (h_bind m f s))" if "P s" for s
  proof -
    obtain r s' where m: "m s = (r, s')" by (cases "m s")
    then show ?thesis using keepsD [OF k that m] yieldsD [OF y m] keepsD [OF f]
      by (cases r) (auto simp: h_bind_def intro: keepsD [OF f _ surjective_pairing])
  qed
  then show ?thesis by (simp add: keeps_def)
qed

locale bus_invariant =
  fixes en :: brain_env and org :: string and turn_ok :: "session_turn \<Rightarrow> bool" and P :: "bus \<Rightarrow> bool"
  assumes env: "stable en P"
    and transient: "P w \<Longrightarrow> P (w\<lparr>gb_counters := c\<rparr>)" "P w \<Longrightarrow> P (w\<lparr>gb_locks := l\<rparr>)" "P w \<Longrightarrow> P (w\<lparr>gb_replies := y\<rparr>)"
    and result: "dp_error r \<noteq> Some [] \<Longrightarrow> P w \<Longrightarrow> P (set_result rid r ttl w)"
    and queue: "dp_error (aj_result j) \<noteq> Some [] \<Longrightarrow> P w \<Longrightarrow> P (w\<lparr>gb_queue := gb_queue w @ [j]\<rparr>)"
    and edge: "(\<And>e x t. (e, ExecutorSession x (SessionTurn t)) \<in> set cs \<Longrightarrow> turn_ok t) \<Longrightarrow> P w
      \<Longrightarrow> P (w\<lparr>gb_toEdge := gb_toEdge w @ cs\<rparr>)"
    and append: "P w \<Longrightarrow> P (snd (db_appendEvent org sid ty lv k p w))"
    and session: "(\<And>r. sn_organizationId (f r) = sn_organizationId r \<and> sn_id (f r) = sn_id r) \<Longrightarrow> P w \<Longrightarrow> P (on_session org sid f w)"
    and new_workspace: "ws_organizationId row = org \<Longrightarrow> P w \<Longrightarrow> P (w\<lparr>gb_workspaces := gb_workspaces w @ [row]\<rparr>)"
    and workspace: "ws_organizationId row = org \<Longrightarrow> P w \<Longrightarrow> P (w\<lparr>gb_workspaces :=
      map (\<lambda>r. if ws_organizationId r = org \<and> ws_id r = wid then row else r) (gb_workspaces w)\<rparr>)"
begin

named_theorems inv_keeps \<open>handlers that keep the invariant\<close>

lemma inv_on_bus: "(\<And>w. P w \<Longrightarrow> P (snd (f w))) \<Longrightarrow> keeps (on_state P) (on_bus en f)"
  using env by (auto simp: keeps_def on_bus_def on_state_def stable_def split: prod.splits) (metis snd_conv)

lemma inv_bus_do: "(\<And>w. P w \<Longrightarrow> P (f w)) \<Longrightarrow> keeps (on_state P) (bus_do en f)"
  unfolding bus_do_def by (rule inv_on_bus) simp

lemma inv_bus_get [inv_keeps]: "keeps (on_state P) (bus_get en f)"
  unfolding bus_get_def by (rule inv_on_bus) simp

lemma inv_local: "(\<And>s. bl_bus (f s) = bl_bus s) \<Longrightarrow> keeps (on_state P) (h_modify f)"
  by (rule keeps_modify) (simp add: on_state_def)

lemma inv_wait [inv_keeps]: "keeps (on_state P) (waitForJsonReply en rid t)"
  using env by (auto simp: keeps_def waitForJsonReply_def on_state_def stable_def Let_def)

lemma inv_send_edge [inv_keeps]:
  "(\<And>x t. c = ExecutorSession x (SessionTurn t) \<Longrightarrow> turn_ok t) \<Longrightarrow> keeps (on_state P) (bus_do en (send_edge e c))"
  by (rule inv_bus_do, unfold send_edge_def, rule edge) auto

lemma broadcast_keeps: "P w \<Longrightarrow> P (broadcast sid c w)"
  unfolding broadcast_def by (rule edge) auto

lemma inv_broadcast [inv_keeps]: "keeps (on_state P) (bus_do en (broadcast sid c))"
  by (rule inv_bus_do) (rule broadcast_keeps)

lemma inv_append [inv_keeps]: "keeps (on_state P) (appendSessionLog en org sid ty lv k p)"
  unfolding appendSessionLog_def by (rule inv_on_bus) (rule append)

lemma inv_append_broadcast [inv_keeps]: "keeps (on_state P) (appendAndBroadcast en org sid ty lv k p)"
  unfolding appendAndBroadcast_def by (intro keeps_intros inv_keeps)

lemma inv_fail [inv_keeps]: "keeps (on_state P) (failSession en org sid c msg)"
  unfolding failSession_def by (intro keeps_intros inv_keeps)

lemma inv_pinning [inv_keeps]: "P w \<Longrightarrow> P (snd (db_setAgentSessionPinnedAgent org sid a x p w))"
  unfolding db_setAgentSessionPinnedAgent_def Let_def snd_conv by (rule session) simp_all

lemma inv_setPinned [inv_keeps]:
  "keeps (on_state P) (on_bus en (\<lambda>w. case db_setAgentSessionPinnedAgent org sid a x p w of (u, w') \<Rightarrow> (Inr u, w')))"
  by (rule inv_on_bus) (auto split: prod.split dest: inv_pinning [of _ sid a x p])

lemma inv_quota [inv_keeps]: "keeps (on_state P) (getOrgMaxInFlight en o')"
  unfolding getOrgMaxInFlight_def by (intro keeps_intros inv_keeps inv_local) simp_all

lemma inv_select [inv_keeps]:
  "keeps (on_state P) (selectTool en o' k sel oauth mx)" "keeps (on_state P) (selectSession en o' sel' oauth mx)"
  "keeps (on_state P) (releaseTool en x o')"
  unfolding selectTool_def selectSession_def releaseTool_def
  by (auto intro!: inv_on_bus inv_bus_do simp: transient split: prod.split)

section \<open>Tool invocations\<close>

lemma inv_getOrCreate [inv_keeps]: "keeps (on_state P) (getOrCreateWorkspace en org ot oid)"
  unfolding getOrCreateWorkspace_def
  by (intro keeps_intros inv_keeps inv_on_bus) (simp add: Let_def new_workspace createExecutionWorkspace_def)

lemma lock_org: "ws_organizationId (snd (lockStep s3 tok t now v r)) = ws_organizationId r"
  by (simp add: lockStep_def tryLockExecutionWorkspace_def releaseExecutionWorkspaceLock_def)

lemma reply_org: "ws_organizationId (snd (replyStep tok v y r)) = ws_organizationId r"
  by (simp add: replyStep_def commitExecutionWorkspaceVersion_def releaseExecutionWorkspaceLock_def split: option.split)

lemma inv_on_workspace:
  assumes "\<And>w r. ws_organizationId (snd (g w r)) = ws_organizationId r"
  shows "keeps (on_state P) (on_bus en (\<lambda>w. case on_workspace org wid x (g w) w of (y, w') \<Rightarrow> (Inr y, w')))"
proof (rule inv_on_bus)
  fix w assume p: "P w"
  have "P (snd (on_workspace org wid x (g w) w))"
  proof (cases "find (\<lambda>r. ws_organizationId r = org \<and> ws_id r = wid) (gb_workspaces w)")
    case None
    then show ?thesis using p by (simp add: on_workspace_def)
  next
    case (Some row)
    then have "ws_organizationId row = org" by (auto simp: find_Some_iff)
    then have "ws_organizationId (snd (g w row)) = org" by (simp add: assms)
    from workspace [OF this p, of wid] show ?thesis using Some by (simp add: on_workspace_def case_prod_beta)
  qed
  then show "P (snd (case on_workspace org wid x (g w) w of (y, w') \<Rightarrow> (Inr y, w')))"
    by (simp add: case_prod_beta)
qed

lemma inv_lock [inv_keeps]:
  "keeps (on_state P) (on_bus en (\<lambda>w. case on_workspace org wid x (lockStep s3 tok t (gb_now w) v) w of (y, w') \<Rightarrow> (Inr y, w')))"
  by (rule inv_on_workspace) (rule lock_org)

lemma inv_reply [inv_keeps]:
  "keeps (on_state P) (on_bus en (\<lambda>w. case on_workspace org wid x (replyStep tok v y) w of (z, w') \<Rightarrow> (Inr z, w')))"
  by (rule inv_on_workspace) (rule reply_org)

lemma inv_run [inv_keeps]: "tq_organizationId t = org \<Longrightarrow> keeps (on_state P) (runOnExecutor en t ex)"
  unfolding runOnExecutor_def by (simp only:) (intro keeps_intros inv_keeps; simp)

lemma inv_invoke [inv_keeps]: "tq_organizationId t = org \<Longrightarrow> keeps (on_state P) (invokeToolOnExecutor en t)"
  unfolding invokeToolOnExecutor_def by (intro keeps_intros inv_keeps)

lemma inv_execute [inv_keeps]: "dq_organizationId d = org \<Longrightarrow> keeps (on_state P) (executeWorkflowDispatchInternal en rid d t)"
  unfolding executeWorkflowDispatchInternal_def
  by (intro keeps_intros inv_keeps) (simp_all add: agentRunRequest_def Let_def)

lemma inv_publish: "dp_error r \<noteq> Some [] \<Longrightarrow> keeps (on_state P) (publishResponse en rid r)"
  "dp_error r \<noteq> Some [] \<Longrightarrow> keeps (on_state P) (enqueueApply en rid d r)"
  unfolding publishResponse_def enqueueApply_def
  by (intro keeps_intros inv_bus_do; simp add: set_reply_def transient result queue)+

lemma inv_answered:
  assumes "dq_organizationId d = org" and "\<And>r. proper r \<Longrightarrow> keeps (on_state P) (f r)"
  shows "keeps (on_state P) (h_bind (executeWorkflowDispatchInternal en rid d t) f)"
    and "keeps (on_state P) (h_bind (h_catch (executeWorkflowDispatchInternal en rid d t) (\<lambda>e. h_return (failed_with e))) f)"
  using keeps_bind_when [OF inv_execute [OF assms(1)] proper_execute]
    keeps_bind_when [OF keeps_catch [OF inv_execute [OF assms(1)] keeps_return] proper_caught] assms(2) by blast+

lemma inv_dispatch: "dq_organizationId d = org \<Longrightarrow> keeps (on_state P) (handleWorkflowDispatch en rid d a)"
  unfolding handleWorkflowDispatch_def dispatchAsync_def Let_def
  by (intro keeps_if inv_answered keeps_then keeps_return inv_publish)

section \<open>Sessions\<close>

lemma inv_choose [inv_keeps]: "sn_organizationId r = org \<Longrightarrow> keeps (on_state P) (chooseExecutor en r oauth mx)"
  unfolding chooseExecutor_def by (intro keeps_intros inv_keeps)

lemma inv_pin [inv_keeps]:
  "sn_organizationId r = org \<Longrightarrow> keeps (on_state P) (persistPin en r x)"
  "sn_organizationId r = org \<Longrightarrow> keeps (on_state P) (reportFailover en r x)"
  unfolding persistPin_def reportFailover_def broadcast_state_def by (simp_all only:) (intro keeps_intros inv_keeps)+

lemma inv_publishAnswer [inv_keeps]: "sq_organizationId m = org \<Longrightarrow> keeps (on_state P) (publishAnswer en m v)"
  unfolding publishAnswer_def by (simp only: Let_def) (intro keeps_intros inv_keeps; simp)

lemma inv_finish [inv_keeps]: "sq_organizationId m = org \<Longrightarrow> keeps (on_state P) (finishTurn en m v)"
  unfolding finishTurn_def turnCanceled_def by (simp only: Let_def) (intro keeps_intros inv_keeps)

lemma inv_runTurn [inv_keeps]:
  "(\<And>k. turn_ok (turn_of m k)) \<Longrightarrow> sq_organizationId m = org \<Longrightarrow> sn_organizationId r = org
    \<Longrightarrow> keeps (on_state P) (runTurn en m r secret oauth ex)"
  unfolding runTurn_def to_executor_def by (simp only: Let_def) (intro keeps_intros inv_keeps inv_local; auto)

lemma inv_clear [inv_keeps]: "keeps (on_state P) (clearTurn m)"
  unfolding clearTurn_def by (rule inv_local) (simp split: option.split)

lemma inv_locks [inv_keeps]: "keeps (on_state P) (lockSession en sid)" "keeps (on_state P) (unlockSession en sid)"
  unfolding lockSession_def unlockSession_def by (auto intro!: inv_on_bus inv_bus_do simp: transient)

lemma inv_sendTo [inv_keeps]:
  "(\<And>k. turn_ok (turn_of m k)) \<Longrightarrow> sq_organizationId m = org \<Longrightarrow> sn_organizationId r = org
    \<Longrightarrow> keeps (on_state P) (sendToSession en m r)"
  unfolding sendToSession_def by (simp only: Let_def) (intro keeps_intros inv_keeps; simp)

lemma inv_getSession:
  "triple (on_state P) (bus_get en (db_getAgentSessionById org sid))
     (\<lambda>found s. on_state P s \<and> (\<forall>r. found = Some r \<longrightarrow> sn_organizationId r = org)) (\<lambda>_. on_state P)"
  using env by (auto simp: triple_def bus_get_def on_bus_def on_state_def stable_def db_getAgentSessionById_def
      find_Some_iff is_session_def)

lemma inv_found:
  assumes "\<And>k. turn_ok (turn_of m k)" "sq_organizationId m = org"
  shows "triple (\<lambda>s. on_state P s \<and> (\<forall>r. found = Some r \<longrightarrow> sn_organizationId r = org))
    (case found of None \<Rightarrow> h_return () | Some r \<Rightarrow> sendToSession en m r) (\<lambda>_. on_state P) (\<lambda>_. on_state P)"
proof (cases found)
  case None
  then show ?thesis by (simp add: triple_def h_return_def)
next
  case (Some r)
  then show ?thesis using inv_sendTo [OF assms, of r]
    by (cases "sn_organizationId r = org") (auto simp: triple_keeps [symmetric] elim: triple_conseq simp: triple_def)
qed

lemma inv_send [inv_keeps]:
  "(\<And>k. turn_ok (turn_of m k)) \<Longrightarrow> sq_organizationId m = org \<Longrightarrow> keeps (on_state P) (handleSessionSend en m)"
proof -
  assume m: "\<And>k. turn_ok (turn_of m k)" "sq_organizationId m = org"
  have "keeps (on_state P) (h_bind (bus_get en (db_getAgentSessionById org sid))
      (\<lambda>found. case found of None \<Rightarrow> h_return () | Some r \<Rightarrow> sendToSession en m r))" for sid
    unfolding triple_keeps [symmetric] by (rule triple_bind [OF inv_getSession inv_found [OF m]])
  then show ?thesis unfolding handleSessionSend_def m(2) by (intro keeps_bind [OF inv_locks(1)] keeps_if keeps_return
      keeps_finally keeps_then inv_keeps)
qed

section \<open>The loop's messages\<close>

lemma inv_cancel: "keeps (on_state P) (handleSessionCancel en org sid)"
  unfolding handleSessionCancel_def to_executor_def by (intro keeps_intros inv_keeps inv_local; simp)

lemma inv_reset: "keeps (on_state P) (handleSessionReset en org sid mode)"
  unfolding handleSessionReset_def broadcast_state_def by (intro keeps_intros inv_keeps)

lemma inv_event: "keeps (on_state P) (handleSessionTurnEvent en rid org sid v)"
  unfolding handleSessionTurnEvent_def
  by (intro keeps_intros inv_keeps inv_bus_do) (rule broadcast_keeps)

end

fun message_org :: "brain_message \<Rightarrow> string option" where
  \<comment> \<open>the organization a message names\<close>
  "message_org (MsgDispatch rid d async) = Some (dq_organizationId d)"
| "message_org (MsgSend m) = Some (sq_organizationId m)"
| "message_org (MsgTurnEvent rid org sid v) = Some org"
| "message_org (MsgReset org sid mode) = Some org"
| "message_org (MsgCancel org sid) = Some org"
| "message_org MsgOther = None"

context bus_invariant
begin

definition turns_ok :: "brain_message \<Rightarrow> bool" where
  "turns_ok m \<longleftrightarrow> (\<forall>m' k. m = MsgSend m' \<longrightarrow> turn_ok (turn_of m' k))"

lemma inv_message: "turns_ok m \<Longrightarrow> message_org m \<in> {None, Some org} \<Longrightarrow> keeps (on_state P) (handleMessage en m)"
  unfolding turns_ok_def
  by (cases m) (auto intro: inv_dispatch inv_send inv_cancel inv_reset inv_event keeps_return)

lemma inv_message_state:
  "turns_ok m \<Longrightarrow> message_org m \<in> {None, Some org} \<Longrightarrow> P (bl_bus s) \<Longrightarrow> handleMessage en m s = (r, s') \<Longrightarrow> P (bl_bus s')"
  using keepsD [OF inv_message, of m s r s'] by (simp add: on_state_def)

end

section \<open>Rows of other organizations\<close>

definition foreign_rows :: "string \<Rightarrow> bus \<Rightarrow> log_row list \<times> session_row list \<times> workspace list" where
  "foreign_rows org w = (filter (\<lambda>r. lg_organizationId r \<noteq> org) (gb_log w),
     filter (\<lambda>r. sn_organizationId r \<noteq> org) (gb_sessions w), filter (\<lambda>r. ws_organizationId r \<noteq> org) (gb_workspaces w))"

lemma filter_map_same:
  "(\<And>x. Q x \<Longrightarrow> f x = x) \<Longrightarrow> (\<And>x. Q (f x) = Q x) \<Longrightarrow> filter Q (map f xs) = filter Q xs"
  by (induction xs) auto

lemma foreign_on_session:
  "(\<And>r. sn_organizationId (f r) = sn_organizationId r) \<Longrightarrow> foreign_rows org (on_session org sid f w) = foreign_rows org w"
  by (simp add: foreign_rows_def on_session_def filter_map_same is_session_def)

lemma foreign_append: "foreign_rows org (snd (db_appendEvent org sid ty lv k p w)) = foreign_rows org w"
proof -
  have "foreign_rows org (w\<lparr>gb_log := gb_log w @ [r]\<rparr>) = foreign_rows org w" if "lg_organizationId r = org" for r
    using that by (simp add: foreign_rows_def)
  then show ?thesis by (simp add: db_appendEvent_def Let_def foreign_on_session split: option.split)
qed

lemma foreign_contract:
  assumes "stable en (\<lambda>w. foreign_rows org w = F)"
  shows "bus_invariant en org (\<lambda>_. True) (\<lambda>w. foreign_rows org w = F)"
proof
  show "foreign_rows org (snd (db_appendEvent org sid ty lv k p w)) = F" if "foreign_rows org w = F" for w sid ty lv k p
    using that by (simp add: foreign_append)
  show "foreign_rows org (on_session org sid f w) = F"
    if "\<And>r. sn_organizationId (f r) = sn_organizationId r \<and> sn_id (f r) = sn_id r" "foreign_rows org w = F" for f sid w
    using that by (simp add: foreign_on_session)
  show "foreign_rows org (w\<lparr>gb_workspaces := map (\<lambda>r. if ws_organizationId r = org \<and> ws_id r = wid then row else r) (gb_workspaces w)\<rparr>) = F"
    if "ws_organizationId row = org" "foreign_rows org w = F" for row w wid
    using that by (simp add: foreign_rows_def filter_map_same)
qed (use assms in \<open>simp_all add: foreign_rows_def set_result_def\<close>)

definition confined :: "(bus \<Rightarrow> bool) \<Rightarrow> brain_env \<Rightarrow> brain_env" where
  \<comment> \<open>the environment whose other processes do nothing when they would break the predicate\<close>
  "confined P en = en\<lparr>be_others := (\<lambda>w. if P (be_others en w) then be_others en w else w),
     be_wait := (\<lambda>k t w. if P (be_wait en k t w) then be_wait en k t w else w)\<rparr>"

lemma stable_confined: "stable (confined P en) P"
  by (simp add: stable_def confined_def)

interpretation foreign: bus_invariant "confined (\<lambda>w. foreign_rows org w = F) en" org "\<lambda>_. True" "\<lambda>w. foreign_rows org w = F"
  by (rule foreign_contract [OF stable_confined])

section \<open>Gapless logs\<close>

definition log_gapless :: "bus \<Rightarrow> bool" where
  \<comment> \<open>the events of every session are numbered 0, 1, 2, \<dots>\<close>
  "log_gapless w \<longleftrightarrow> (\<forall>org sid. let rs = filter (in_log org sid) (gb_log w) in map lg_seq rs = map int [0..<length rs])"

lemma fold_max_seq:
  "fold (\<lambda>r n. max n (lg_seq r + 1)) rs k = (if rs = [] then k else max k (Max (set (map lg_seq rs)) + 1))"
proof (induction rs arbitrary: k)
  case (Cons r rs)
  then show ?case by (cases "rs = []") (auto simp: Max_insert max_def)
qed simp

lemma gapless_next:
  assumes "log_gapless w"
  shows "log_next org sid (gb_log w) = int (length (filter (in_log org sid) (gb_log w)))"
proof -
  let ?rs = "filter (in_log org sid) (gb_log w)"
  have m: "map lg_seq ?rs = map int [0..<length ?rs]" using assms by (simp add: log_gapless_def Let_def)
  show ?thesis
  proof (cases "?rs = []")
    case False
    then have "Max (set (map lg_seq ?rs)) = int (length ?rs) - 1"
      unfolding m by (intro Max_eqI) (auto simp: image_iff intro!: bexI [of _ "length ?rs - 1"] simp: of_nat_diff Suc_le_eq)
    then show ?thesis using False by (simp only: log_next_def fold_max_seq) simp
  qed (simp add: log_next_def)
qed

lemma gapless_append:
  assumes "log_gapless w" and "lg_organizationId r = org" and "lg_sessionId r = sid" and "lg_seq r = log_next org sid (gb_log w)"
  shows "log_gapless (w\<lparr>gb_log := gb_log w @ [r]\<rparr>)"
proof -
  have "in_log o' s' r \<longleftrightarrow> o' = org \<and> s' = sid" for o' s' using assms(2,3) by (auto simp: in_log_def)
  then show ?thesis using assms(1) gapless_next [OF assms(1), of org sid] assms(4)
    by (auto simp: log_gapless_def Let_def)
qed

lemma gapless_cong: "gb_log w' = gb_log w \<Longrightarrow> log_gapless w' = log_gapless w"
  by (simp add: log_gapless_def)

lemma gapless_on_session: "log_gapless (on_session org sid f w) = log_gapless w"
  by (rule gapless_cong) (simp add: on_session_def)

lemma gapless_db_append: "log_gapless w \<Longrightarrow> log_gapless (snd (db_appendEvent org sid ty lv k p w))"
  by (simp add: db_appendEvent_def Let_def gapless_on_session gapless_append split: option.split)

lemma gapless_contract:
  assumes "stable en log_gapless"
  shows "bus_invariant en org (\<lambda>_. True) log_gapless"
proof
  show "log_gapless (snd (db_appendEvent org sid ty lv k p w))" if "log_gapless w" for w sid ty lv k p
    using that by (rule gapless_db_append)
  show "log_gapless (on_session org sid f w)" if "log_gapless w" for f sid w
    using that by (simp only: gapless_on_session)
qed (use assms in \<open>simp_all add: log_gapless_def set_result_def\<close>)

interpretation gapless: bus_invariant "confined log_gapless en" org "\<lambda>_. True" log_gapless
  by (rule gapless_contract [OF stable_confined])

section \<open>The text of a turn\<close>

definition turns_say :: "string \<Rightarrow> string \<Rightarrow> bus \<Rightarrow> bool" where
  \<comment> \<open>every turn sent under the request has the text\<close>
  "turns_say rid txt w \<longleftrightarrow> (\<forall>e x t. (e, ExecutorSession x (SessionTurn t)) \<in> set (gb_toEdge w) \<longrightarrow> tu_requestId t = rid \<longrightarrow> tu_message t = txt)"

lemma says_contract:
  assumes "stable en (turns_say rid txt)"
  shows "bus_invariant en org (\<lambda>t. tu_requestId t = rid \<longrightarrow> tu_message t = txt) (turns_say rid txt)"
proof
  show "turns_say rid txt (w\<lparr>gb_toEdge := gb_toEdge w @ cs\<rparr>)"
    if "\<And>e x t. (e, ExecutorSession x (SessionTurn t)) \<in> set cs \<Longrightarrow> tu_requestId t = rid \<longrightarrow> tu_message t = txt" "turns_say rid txt w"
    for cs w using that by (auto simp: turns_say_def)
  show "turns_say rid txt (snd (db_appendEvent org sid ty lv k p w))" if "turns_say rid txt w" for w sid ty lv k p
    using that by (simp add: turns_say_def db_appendEvent_def on_session_def Let_def split: option.split)
  show "turns_say rid txt (on_session org sid f w)" if "turns_say rid txt w" for f sid w
    using that by (simp add: turns_say_def on_session_def)
qed (use assms in \<open>simp_all add: turns_say_def set_result_def\<close>)

interpretation says: bus_invariant "confined (turns_say rid txt) en" org "\<lambda>t. tu_requestId t = rid \<longrightarrow> tu_message t = txt" "turns_say rid txt"
  by (rule says_contract [OF stable_confined])

section \<open>Proper results\<close>

definition results_proper :: "bus \<Rightarrow> bool" where
  \<comment> \<open>no stored result and no job has an empty error text\<close>
  "results_proper w \<longleftrightarrow> (\<forall>(k, r, e) \<in> set (gb_results w). proper r) \<and> (\<forall>j \<in> set (gb_queue w). proper (aj_result j))"

lemma results_contract:
  assumes "stable en results_proper"
  shows "bus_invariant en org (\<lambda>_. True) results_proper"
proof
  show "results_proper (set_result rid r ttl w)" if "dp_error r \<noteq> Some []" "results_proper w" for rid r ttl w
    using that set_jset_subset [of rid "(r, gb_now w + ttl * 1000)" "gb_results w"]
    by (fastforce simp: results_proper_def set_result_def)
  show "results_proper (snd (db_appendEvent org sid ty lv k p w))" if "results_proper w" for w sid ty lv k p
    using that by (simp add: results_proper_def db_appendEvent_def on_session_def Let_def split: option.split)
  show "results_proper (on_session org sid f w)" if "results_proper w" for f sid w
    using that by (simp add: results_proper_def on_session_def)
qed (use assms in \<open>simp_all add: results_proper_def\<close>)

interpretation results: bus_invariant "confined results_proper en" org "\<lambda>_. True" results_proper
  by (rule results_contract [OF stable_confined])

end
