(* ===== verification/EdgeAuth.thy ===== *)
theory EdgeAuth
  imports AuthTokens GatewaySelection
begin

text \<open>
  Who may open a socket on an edge (\<open>apps/gateway/src/edge/server.ts\<close>): bearer tokens, cookies with
  \<open>decodeURIComponent\<close>, refresh tokens, \<open>resolveClientAuth\<close>, and the upgrade handler for clients and
  executors.  SHA-256, HMAC, \<open>JSON.parse\<close>, the check for UUIDs and the clock are arguments; the tables
  read are lists of rows.  An exception of the upgrade handler is the result \<open>UpgradeThrew\<close>.  The last sections
  show who gets a socket and which requests make the handler throw.
\<close>

section \<open>Percent decoding\<close>

definition hex_val :: "char \<Rightarrow> nat option" where
  "hex_val c = (let n = of_char c :: nat in
     if 48 \<le> n \<and> n \<le> 57 then Some (n - 48) else if 97 \<le> n \<and> n \<le> 102 then Some (n - 87)
     else if 65 \<le> n \<and> n \<le> 70 then Some (n - 55) else None)"

datatype decoded = Plain char | Escaped nat

fun unescape :: "string \<Rightarrow> decoded list option" where
  \<comment> \<open>\<open>None\<close>: a percent sign without two hexadecimal digits\<close>
  "unescape [] = Some []"
| "unescape (c # cs) =
     (if c \<noteq> CHR ''%'' then map_option ((#) (Plain c)) (unescape cs)
      else case cs of
        a # b # rest \<Rightarrow>
          (case (hex_val a, hex_val b) of
             (Some x, Some y) \<Rightarrow> map_option ((#) (Escaped (16 * x + y))) (unescape rest)
           | _ \<Rightarrow> None)
      | _ \<Rightarrow> None)"

definition is_cont :: "decoded list \<Rightarrow> nat \<Rightarrow> nat \<Rightarrow> nat \<Rightarrow> bool" where
  \<comment> \<open>the item at \<open>i\<close> is an escaped byte between the bounds\<close>
  "is_cont xs i lo hi \<longleftrightarrow> i < length xs \<and> (case xs ! i of Escaped n \<Rightarrow> lo \<le> n \<and> n \<le> hi | Plain _ \<Rightarrow> False)"

definition utf8_length :: "nat \<Rightarrow> decoded list \<Rightarrow> nat option" where
  \<comment> \<open>continuation bytes after the lead byte \<open>b\<close>; \<open>None\<close> when they are not well formed\<close>
  "utf8_length b xs =
     (if b < 128 then Some 0
      else if 194 \<le> b \<and> b \<le> 223 then (if is_cont xs 0 128 191 then Some 1 else None)
      else if 224 \<le> b \<and> b \<le> 239 then
        (if is_cont xs 0 (if b = 224 then 160 else 128) (if b = 237 then 159 else 191) \<and> is_cont xs 1 128 191 then Some 2 else None)
      else if 240 \<le> b \<and> b \<le> 244 then
        (if is_cont xs 0 (if b = 240 then 144 else 128) (if b = 244 then 143 else 191) \<and> is_cont xs 1 128 191 \<and> is_cont xs 2 128 191
         then Some 3 else None)
      else None)"

function utf8_ok :: "decoded list \<Rightarrow> bool" where
  "utf8_ok [] = True"
| "utf8_ok (Plain c # xs) = utf8_ok xs"
| "utf8_ok (Escaped b # xs) = (case utf8_length b xs of None \<Rightarrow> False | Some k \<Rightarrow> utf8_ok (drop k xs))"
  by pat_completeness auto
termination by (relation "measure length") auto

fun decoded_char :: "decoded \<Rightarrow> char" where
  "decoded_char (Plain c) = c"
| "decoded_char (Escaped n) = char_of n"

definition decodeURIComponent :: "string \<Rightarrow> string option" where
  \<comment> \<open>\<open>None\<close>: throws \<open>URIError\<close>; a character beyond ASCII is its UTF-8 bytes\<close>
  "decodeURIComponent s = (case unescape s of
     None \<Rightarrow> None | Some xs \<Rightarrow> if utf8_ok xs then Some (map decoded_char xs) else None)"

section \<open>Headers\<close>

definition parseBearerToken :: "string option \<Rightarrow> string option" where
  "parseBearerToken v =
     (case v of None \<Rightarrow> None
      | Some s \<Rightarrow> (case splitOn (CHR '' '') s of
          scheme # token # _ \<Rightarrow> if scheme = '''' \<or> toLowerCase scheme \<noteq> ''bearer'' \<or> token = '''' then None else Some token
        | _ \<Rightarrow> None))"

definition parseUuidPrefix :: "(string \<Rightarrow> bool) \<Rightarrow> string \<Rightarrow> string option" where
  "parseUuidPrefix isUuid v = (let p = hd (splitOn (CHR ''.'') v) in if p \<noteq> '''' \<and> isUuid p then Some p else None)"

fun cookie_parts :: "string list \<Rightarrow> string table \<Rightarrow> string table option" where
  "cookie_parts [] out = Some out"
| "cookie_parts (part # parts) out =
     (case splitOn (CHR ''='') (trim part) of
        kRaw # vs \<Rightarrow>
          (let k = trim kRaw; v = trim (joinWith ''='' vs) in
           if k = '''' then cookie_parts parts out
           else case decodeURIComponent v of None \<Rightarrow> None | Some d \<Rightarrow> cookie_parts parts (jset k d out))
      | [] \<Rightarrow> cookie_parts parts out)"

definition parseCookies :: "string option \<Rightarrow> string table option" where
  \<comment> \<open>\<open>None\<close>: throws\<close>
  "parseCookies header = (case header of None \<Rightarrow> Some []
     | Some h \<Rightarrow> if trim h = '''' then Some [] else cookie_parts (splitOn (CHR '';'') h) [])"

section \<open>Tokens and rows\<close>

record auth_env =
  ax_sha256 :: "string \<Rightarrow> string"
  ax_hmac :: "string \<Rightarrow> string \<Rightarrow> string"
  ax_parse :: "string \<Rightarrow> json option"
  ax_isUuid :: "string \<Rightarrow> bool"
  ax_authSecret :: string
  ax_refreshSecret :: string
  ax_cookieName :: string
  ax_nowMs :: timestamp

record auth_row =
  ay_id :: string
  ay_userId :: string
  ay_refreshTokenHash :: string
  ay_expiresAt :: timestamp
  ay_revokedAt :: "timestamp option"

record executor_cred =
  xd_id :: string
  xd_organizationId :: "string option"  \<comment> \<open>\<open>None\<close> for a managed executor\<close>
  xd_tokenHash :: string
  xd_revoked :: bool
  xd_name :: "string option"
  xd_labels :: json
  xd_capabilities :: json
  xd_maxInFlight :: "int option"

record auth_tables =
  at_authSessions :: "auth_row list"
  at_memberships :: "(string \<times> string) list"  \<comment> \<open>organization and user\<close>
  at_managed :: "executor_cred list"
  at_executors :: "executor_cred list"

definition verifyRefreshToken :: "auth_env \<Rightarrow> string \<Rightarrow> json option" where
  "verifyRefreshToken ax token =
     (case splitOn (CHR ''.'') token of
        encoded # signature # _ \<Rightarrow>
          if encoded = '''' \<or> signature = '''' \<or> signature \<noteq> ax_hmac ax encoded (ax_refreshSecret ax) then None
          else (case ax_parse ax (b64UrlDecode encoded) of
                  None \<Rightarrow> None
                | Some p \<Rightarrow>
                    if \<not> truthyJ (get_property p ''sessionId'') \<or> \<not> truthyJ (get_property p ''userId'')
                      \<or> \<not> truthyJ (get_property p ''tokenNonce'') then None
                    else (case get_property p ''expiresAt'' of
                            Some (JNum e) \<Rightarrow> if e \<le> ax_nowMs ax div 1000 then None else Some p
                          | _ \<Rightarrow> None))
      | _ \<Rightarrow> None)"

definition isAuthSessionActive :: "timestamp \<Rightarrow> auth_row \<Rightarrow> bool" where
  "isAuthSessionActive now r \<longleftrightarrow> ay_revokedAt r = None \<and> now < ay_expiresAt r"

definition refresh_user :: "auth_env \<Rightarrow> auth_tables \<Rightarrow> string \<Rightarrow> string option" where
  \<comment> \<open>the user of a refresh token: its signature, and the stored session it names\<close>
  "refresh_user ax tb token =
     (case verifyRefreshToken ax token of
        None \<Rightarrow> None
      | Some p \<Rightarrow>
          (case find (\<lambda>r. ay_refreshTokenHash r = ax_sha256 ax token) (at_authSessions tb) of
             None \<Rightarrow> None
           | Some r \<Rightarrow>
               if get_property p ''sessionId'' = Some (JStr (ay_id r)) \<and> get_property p ''userId'' = Some (JStr (ay_userId r))
                 \<and> isAuthSessionActive (ax_nowMs ax) r
               then Some (ay_userId r) else None))"

datatype 'a outcome = Threw | Answer 'a

definition resolveClientAuth :: "auth_env \<Rightarrow> auth_tables \<Rightarrow> string option \<Rightarrow> string option \<Rightarrow> string option outcome" where
  \<comment> \<open>from the \<open>authorization\<close> and \<open>cookie\<close> headers to the user; a bearer token's user is a text\<close>
  "resolveClientAuth ax tb authorization cookie =
     (case parseBearerToken authorization of
        Some bearer \<Rightarrow> Answer (case verifyAuthToken (ax_hmac ax) (ax_parse ax) bearer (ax_authSecret ax) (ax_nowMs ax div 1000) of
            None \<Rightarrow> None | Some p \<Rightarrow> asString (get_property p ''userId''))
      | None \<Rightarrow>
          (case parseCookies cookie of
             None \<Rightarrow> Threw
           | Some cookies \<Rightarrow>
               (case jget cookies (ax_cookieName ax) of
                  None \<Rightarrow> Answer None
                | Some token \<Rightarrow> Answer (if token = '''' then None else refresh_user ax tb token))))"

section \<open>Connecting\<close>

record connected_executor =
  ex_executorId :: string
  ex_pool :: pool
  ex_organizationId :: "string option"
  ex_tokenHash :: string
  ex_configuredMaxInFlight :: int
  ex_lastSeenAtMs :: timestamp
  ex_name :: "string option"
  ex_labels :: "string list"
  ex_maxInFlight :: int
  ex_kinds :: "exec_kind list"
  ex_engineAuth :: engine_auth

definition uniqueStrings :: "json list \<Rightarrow> string list" where
  \<comment> \<open>the distinct trimmed non-blank texts, in order of their first occurrence\<close>
  "uniqueStrings vs = rev (remdups (rev (map trim (filter (\<lambda>s. trim s \<noteq> '''') (strings_of vs)))))"

definition kind_of :: "json \<Rightarrow> exec_kind option" where
  "kind_of v = (case v of
     JStr s \<Rightarrow> if s = ''connector.action'' then Some KindConnectorAction else if s = ''agent.execute'' then Some KindAgentExecute
       else if s = ''agent.run'' then Some KindAgentRun else None
   | _ \<Rightarrow> None)"

definition all_kinds :: "exec_kind list" where
  "all_kinds = [KindAgentExecute, KindConnectorAction, KindAgentRun]"

definition json_list :: "json option \<Rightarrow> json list" where
  "json_list v = (case v of Some (JArr xs) \<Rightarrow> xs | _ \<Rightarrow> [])"

definition parseKinds :: "json \<Rightarrow> exec_kind list" where
  "parseKinds caps = (let parsed = List.map_filter kind_of (json_list (get_property caps ''kinds''))
     in if parsed = [] then all_kinds else parsed)"

definition parseMaxInFlight :: "json \<Rightarrow> int \<Rightarrow> int" where
  "parseMaxInFlight caps fallback = (case get_property caps ''maxInFlight'' of
     Some (JNum n) \<Rightarrow> if 0 < n then max 1 (min 200 n) else fallback
   | _ \<Rightarrow> fallback)"

definition no_engine_auth :: engine_auth where
  "no_engine_auth = \<lparr>ea_codex = None, ea_claude = None\<rparr>"

definition connected_of :: "auth_env \<Rightarrow> pool \<Rightarrow> int \<Rightarrow> executor_cred \<Rightarrow> connected_executor" where
  "connected_of ax p limit r =
     \<lparr>ex_executorId = xd_id r, ex_pool = p, ex_organizationId = xd_organizationId r, ex_tokenHash = xd_tokenHash r,
      ex_configuredMaxInFlight = limit, ex_lastSeenAtMs = ax_nowMs ax, ex_name = xd_name r,
      ex_labels = uniqueStrings (json_list (Some (xd_labels r)) @ json_list (get_property (xd_capabilities r) ''labels'')),
      ex_maxInFlight = limit, ex_kinds = parseKinds (xd_capabilities r), ex_engineAuth = no_engine_auth\<rparr>"

datatype upgrade = UpgradeThrew | UpgradeRefused | UpgradeClient string string | UpgradeExecutor connected_executor
  \<comment> \<open>a client's organization and user\<close>

definition upgradeClient :: "auth_env \<Rightarrow> auth_tables \<Rightarrow> string option \<Rightarrow> string option \<Rightarrow> string option \<Rightarrow> string option \<Rightarrow> upgrade" where
  \<comment> \<open>headers \<open>authorization\<close>, \<open>cookie\<close>, \<open>x-org-id\<close> and the query parameter \<open>orgId\<close>\<close>
  "upgradeClient ax tb authorization cookie orgHeader orgQuery =
     (case resolveClientAuth ax tb authorization cookie of
        Threw \<Rightarrow> UpgradeThrew
      | Answer None \<Rightarrow> UpgradeRefused
      | Answer (Some user) \<Rightarrow>
          (let uuid = (\<lambda>v. case v of None \<Rightarrow> None | Some s \<Rightarrow> if ax_isUuid ax s then Some s else None) in
           case (case uuid orgHeader of Some o1 \<Rightarrow> Some o1 | None \<Rightarrow> uuid orgQuery) of
             None \<Rightarrow> UpgradeRefused
           | Some org \<Rightarrow> if (org, user) \<in> set (at_memberships tb) then UpgradeClient org user else UpgradeRefused))"

definition upgradeExecutor :: "auth_env \<Rightarrow> auth_tables \<Rightarrow> string option \<Rightarrow> upgrade" where
  "upgradeExecutor ax tb authorization =
     (case parseBearerToken authorization of
        None \<Rightarrow> UpgradeRefused
      | Some token \<Rightarrow>
          (case parseUuidPrefix (ax_isUuid ax) token of
             None \<Rightarrow> UpgradeRefused
           | Some pfx \<Rightarrow>
               (let h = ax_sha256 ax token;
                    managed = find (\<lambda>r. xd_tokenHash r = h) (at_managed tb);
                    byon = find (\<lambda>r. xd_organizationId r = Some pfx \<and> xd_tokenHash r = h) (at_executors tb);
                    own = (case byon of
                        None \<Rightarrow> UpgradeRefused
                      | Some r \<Rightarrow> if xd_revoked r then UpgradeRefused
                          else UpgradeExecutor (connected_of ax PoolByon (parseMaxInFlight (xd_capabilities r) 10) r))
                in case managed of
                     Some r \<Rightarrow>
                       if \<not> xd_revoked r \<and> xd_id r = pfx
                       then UpgradeExecutor (connected_of ax PoolManaged (max 1 (qq (xd_maxInFlight r) 50)) r)
                       else own
                   | None \<Rightarrow> own)))"

section \<open>Malformed cookies\<close>

definition malformed_cookie :: "string \<Rightarrow> bool" where
  \<comment> \<open>a named cookie whose value is not percent-encoded UTF-8\<close>
  "malformed_cookie part \<longleftrightarrow> (case splitOn (CHR ''='') (trim part) of
     [] \<Rightarrow> False | k # vs \<Rightarrow> trim k \<noteq> '''' \<and> decodeURIComponent (trim (joinWith ''='' vs)) = None)"

lemma cookie_parts_throw: "cookie_parts parts out = None \<longleftrightarrow> list_ex malformed_cookie parts"
  by (induction parts arbitrary: out) (auto simp: malformed_cookie_def Let_def split: list.split option.split)

text \<open>
  One malformed cookie makes the upgrade of a client throw: the upgrade handler ends with an
  exception, which nothing catches, exactly when the request has no bearer token and a named cookie of
  it, of whatever name, is not percent-encoded UTF-8.  No token, session or membership is needed.
\<close>
theorem upgrade_throws_iff:
  "upgradeClient ax tb authorization (Some h) orgHeader orgQuery = UpgradeThrew
     \<longleftrightarrow> parseBearerToken authorization = None \<and> trim h \<noteq> [] \<and> list_ex malformed_cookie (splitOn (CHR '';'') h)"
proof (cases "parseBearerToken authorization")
  case None
  have "upgradeClient ax tb authorization (Some h) orgHeader orgQuery = UpgradeThrew
      \<longleftrightarrow> resolveClientAuth ax tb authorization (Some h) = Threw"
    by (simp add: upgradeClient_def Let_def split: outcome.split option.split)
  also have "\<dots> \<longleftrightarrow> parseCookies (Some h) = None"
    using None by (simp add: resolveClientAuth_def split: option.split)
  finally show ?thesis using None by (simp add: parseCookies_def cookie_parts_throw)
next
  case (Some b)
  then show ?thesis
    by (simp add: upgradeClient_def resolveClientAuth_def Let_def split: option.split)
qed

section \<open>Authentication\<close>

definition bearer_user :: "auth_env \<Rightarrow> string \<Rightarrow> string \<Rightarrow> bool" where
  \<comment> \<open>a valid access token of the user\<close>
  "bearer_user ax token user \<longleftrightarrow> (\<exists>p. verifyAuthToken (ax_hmac ax) (ax_parse ax) token (ax_authSecret ax) (ax_nowMs ax div 1000) = Some p
     \<and> get_property p ''userId'' = Some (JStr user))"

definition session_user :: "auth_env \<Rightarrow> auth_tables \<Rightarrow> string \<Rightarrow> string \<Rightarrow> bool" where
  \<comment> \<open>a valid refresh token of an active session of the user\<close>
  "session_user ax tb token user \<longleftrightarrow> (\<exists>p r. verifyRefreshToken ax token = Some p \<and> r \<in> set (at_authSessions tb)
     \<and> ay_refreshTokenHash r = ax_sha256 ax token \<and> ay_userId r = user \<and> isAuthSessionActive (ax_nowMs ax) r
     \<and> get_property p ''sessionId'' = Some (JStr (ay_id r)) \<and> get_property p ''userId'' = Some (JStr user))"

lemma resolved_user:
  assumes "resolveClientAuth ax tb a c = Answer (Some user)"
  shows "(case parseBearerToken a of Some b \<Rightarrow> bearer_user ax b user
    | None \<Rightarrow> (\<exists>m token. parseCookies c = Some m \<and> jget m (ax_cookieName ax) = Some token \<and> session_user ax tb token user))"
proof (cases "parseBearerToken a")
  case None
  then obtain m token where m: "parseCookies c = Some m" "jget m (ax_cookieName ax) = Some token" "refresh_user ax tb token = Some user"
    using assms by (auto simp: resolveClientAuth_def split: option.splits if_splits)
  then obtain p r where "verifyRefreshToken ax token = Some p"
    "find (\<lambda>r. ay_refreshTokenHash r = ax_sha256 ax token) (at_authSessions tb) = Some r"
    "get_property p ''sessionId'' = Some (JStr (ay_id r))" "get_property p ''userId'' = Some (JStr (ay_userId r))"
    "isAuthSessionActive (ax_nowMs ax) r" "ay_userId r = user"
    by (auto simp: refresh_user_def split: option.splits if_splits)
  moreover from this have "r \<in> set (at_authSessions tb)" "ay_refreshTokenHash r = ax_sha256 ax token"
    by (auto simp: find_Some_iff)
  ultimately have "session_user ax tb token user" unfolding session_user_def by blast
  then show ?thesis using None m by auto
next
  case (Some b)
  then show ?thesis using assms
    by (auto simp: resolveClientAuth_def bearer_user_def asString_def split: option.splits json.splits)
qed

text \<open>
  C20. Every socket is authenticated: a client's socket is opened for a user with a valid access token,
  or with a refresh token of an active session, and an organization the user is a member of; an
  executor's socket for a row that is not revoked and stores the hash of the presented token, the
  token's prefix being the executor's id, or for an own executor its organization.
\<close>
theorem sockets_authenticated:
  "(upgradeClient ax tb authorization cookie orgHeader orgQuery = UpgradeClient org user \<longrightarrow>
      (org, user) \<in> set (at_memberships tb) \<and> Some org \<in> {orgHeader, orgQuery} \<and> ax_isUuid ax org
      \<and> (case parseBearerToken authorization of Some b \<Rightarrow> bearer_user ax b user
         | None \<Rightarrow> (\<exists>m token. parseCookies cookie = Some m \<and> jget m (ax_cookieName ax) = Some token \<and> session_user ax tb token user)))
   \<and> (upgradeExecutor ax tb authorization = UpgradeExecutor x \<longrightarrow>
      (\<exists>token pfx r. parseBearerToken authorization = Some token \<and> parseUuidPrefix (ax_isUuid ax) token = Some pfx
        \<and> xd_tokenHash r = ax_sha256 ax token \<and> \<not> xd_revoked r \<and> ex_executorId x = xd_id r \<and> ex_organizationId x = xd_organizationId r
        \<and> (r \<in> set (at_managed tb) \<and> ex_pool x = PoolManaged \<and> pfx = xd_id r
           \<or> r \<in> set (at_executors tb) \<and> ex_pool x = PoolByon \<and> xd_organizationId r = Some pfx)))"
proof (intro conjI impI)
  assume u: "upgradeClient ax tb authorization cookie orgHeader orgQuery = UpgradeClient org user"
  then have r: "resolveClientAuth ax tb authorization cookie = Answer (Some user)" and "(org, user) \<in> set (at_memberships tb)"
    "Some org \<in> {orgHeader, orgQuery}" "ax_isUuid ax org"
    by (auto simp: upgradeClient_def Let_def split: outcome.splits option.splits if_splits)
  then show "(org, user) \<in> set (at_memberships tb)" "Some org \<in> {orgHeader, orgQuery}" "ax_isUuid ax org"
    "case parseBearerToken authorization of Some b \<Rightarrow> bearer_user ax b user
       | None \<Rightarrow> (\<exists>m token. parseCookies cookie = Some m \<and> jget m (ax_cookieName ax) = Some token \<and> session_user ax tb token user)"
    using resolved_user [OF r] by auto
next
  assume "upgradeExecutor ax tb authorization = UpgradeExecutor x"
  then show "\<exists>token pfx r. parseBearerToken authorization = Some token \<and> parseUuidPrefix (ax_isUuid ax) token = Some pfx
        \<and> xd_tokenHash r = ax_sha256 ax token \<and> \<not> xd_revoked r \<and> ex_executorId x = xd_id r \<and> ex_organizationId x = xd_organizationId r
        \<and> (r \<in> set (at_managed tb) \<and> ex_pool x = PoolManaged \<and> pfx = xd_id r
           \<or> r \<in> set (at_executors tb) \<and> ex_pool x = PoolByon \<and> xd_organizationId r = Some pfx)"
    by (auto simp: upgradeExecutor_def Let_def find_Some_iff connected_of_def split: option.splits if_splits)
qed

definition sample_auth :: auth_env where
  "sample_auth = \<lparr>ax_sha256 = (\<lambda>x. x), ax_hmac = (\<lambda>a b. a), ax_parse = (\<lambda>s. None), ax_isUuid = (\<lambda>s. True), ax_authSecret = ''a'',
     ax_refreshSecret = ''r'', ax_cookieName = ''vespid_refresh_token'', ax_nowMs = 0\<rparr>"

definition sample_tables :: auth_tables where
  "sample_tables = \<lparr>at_authSessions = [], at_memberships = [], at_managed = [], at_executors =
     [\<lparr>xd_id = ''x'', xd_organizationId = Some ''o'', xd_tokenHash = ''o.t'', xd_revoked = False, xd_name = None, xd_labels = JArr [],
       xd_capabilities = JObj [], xd_maxInFlight = None\<rparr>]\<rparr>"

theorem sockets_authenticated_witness:
  "\<exists>x. upgradeExecutor sample_auth sample_tables (Some ''Bearer o.t'') = UpgradeExecutor x \<and> ex_pool x = PoolByon
     \<and> ex_organizationId x = Some ''o''"
proof -
  have "case upgradeExecutor sample_auth sample_tables (Some ''Bearer o.t'') of
      UpgradeExecutor x \<Rightarrow> ex_organizationId x = Some ''o'' | _ \<Rightarrow> False" by code_simp
  then obtain x where x: "upgradeExecutor sample_auth sample_tables (Some ''Bearer o.t'') = UpgradeExecutor x" "ex_organizationId x = Some ''o''"
    by (auto split: upgrade.splits)
  have "ex_pool x = PoolByon"
    using conjunct2 [OF sockets_authenticated, rule_format, OF x(1)] by (auto simp: sample_tables_def)
  then show ?thesis using x by blast
qed

end
