(* ===== verification/EdgeServer.thy ===== *)
theory EdgeServer
  imports EdgeAuth GatewayBus
begin

text \<open>
  An edge of the gateway (\<open>apps/gateway/src/edge/server.ts\<close>): the messages of connected executors and
  clients, the commands of brains, and the internal HTTP endpoints.  Sockets have names; messages are
  what zod accepted.  \<open>executorsById\<close> holds sockets, so an executor that reconnects replaces its entry
  while the object of its old socket lives on.
\<close>

section \<open>State\<close>

datatype exec_command = ToolCommand tool_invoke | SessionCommand session_payload

record client_state =
  cz_organizationId :: string
  cz_userId :: string
  cz_joinedSessionId :: "string option"

record edge_server =
  ed_bus :: bus
  ed_sockets :: "connected_executor table"  \<comment> \<open>the executor object of each socket\<close>
  ed_executorsById :: "string table"  \<comment> \<open>to the socket\<close>
  ed_pendingTools :: "string table"
  ed_pendingTurns :: "(string \<times> string \<times> string) table"  \<comment> \<open>organization, session, executor\<close>
  ed_sessionClients :: "string list table"
  ed_clients :: "client_state table"
  ed_toExecutors :: "(string \<times> exec_command) list"
  ed_toClients :: "(string \<times> client_message) list"
  ed_channelReplies :: "edge_command list"

record edge_env =
  ee_edgeId :: string
  ee_resultsTtlSec :: int
  ee_staleMs :: int
  ee_streamV1 :: bool
  ee_serviceToken :: string
  ee_isUuid :: "string \<Rightarrow> bool"
  ee_open :: "string \<Rightarrow> bool"  \<comment> \<open>the socket takes messages\<close>

definition on_edge_bus :: "(bus \<Rightarrow> bus) \<Rightarrow> edge_server \<Rightarrow> edge_server" where
  "on_edge_bus f ed = ed\<lparr>ed_bus := f (ed_bus ed)\<rparr>"

definition to_brain :: "brain_message \<Rightarrow> edge_server \<Rightarrow> edge_server" where
  "to_brain m = on_edge_bus (\<lambda>w. w\<lparr>gb_toBrain := gb_toBrain w @ [m]\<rparr>)"

definition reply_with :: "edge_env \<Rightarrow> string \<Rightarrow> json \<Rightarrow> edge_server \<Rightarrow> edge_server" where
  "reply_with ee rid v = on_edge_bus (set_reply rid v (ee_resultsTtlSec ee))"

definition failed_json :: "string \<Rightarrow> json" where
  "failed_json e = JObj [(''status'', JStr ''failed''), (''error'', JStr e)]"

definition route_of :: "edge_env \<Rightarrow> connected_executor \<Rightarrow> executor_route" where
  "route_of ee x = \<lparr>rt_edgeId = ee_edgeId ee, rt_executorId = ex_executorId x, rt_pool = ex_pool x,
     rt_organizationId = ex_organizationId x, rt_name = ex_name x, rt_labels = Some (ex_labels x),
     rt_maxInFlight = Some (ex_maxInFlight x), rt_kinds = Some (ex_kinds x), rt_engineAuth = Some (ex_engineAuth x),
     rt_lastSeenAtMs = Some (ex_lastSeenAtMs x)\<rparr>"

definition writeExecutorRoute :: "edge_env \<Rightarrow> connected_executor \<Rightarrow> edge_server \<Rightarrow> edge_server" where
  "writeExecutorRoute ee x = on_edge_bus (\<lambda>w. w\<lparr>gb_routes :=
     jset (ex_executorId x) (route_of ee x, gb_now w + ee_staleMs ee) (gb_routes w)\<rparr>)"

definition deleteRoute :: "string \<Rightarrow> edge_server \<Rightarrow> edge_server" where
  "deleteRoute xid = on_edge_bus (\<lambda>w. w\<lparr>gb_routes := jdel xid (gb_routes w)\<rparr>)"

definition connectExecutor :: "edge_env \<Rightarrow> string \<Rightarrow> connected_executor \<Rightarrow> edge_server \<Rightarrow> edge_server" where
  "connectExecutor ee sock x ed = writeExecutorRoute ee x
     (ed\<lparr>ed_sockets := jset sock x (ed_sockets ed), ed_executorsById := jset (ex_executorId x) sock (ed_executorsById ed)\<rparr>)"

section \<open>Messages of executors\<close>

record exec_hello =
  eh_executorId :: string
  eh_pool :: pool
  eh_organizationId :: "string option"
  eh_name :: "string option"
  eh_labels :: "string list"
  eh_maxInFlight :: int
  eh_kinds :: "exec_kind list"
  eh_engineAuth :: "engine_auth option"

datatype exec_message =
    HelloV2 exec_hello
  | ToolResult string bool "json option" "string option" "json option"  \<comment> \<open>request, failed, output, error, workspace\<close>
  | ToolEvent string json
  | SessionOpened string string  \<comment> \<open>request, session\<close>
  | TurnDelta string string string  \<comment> \<open>request, session, content\<close>
  | TurnEvent string string string exec_event  \<comment> \<open>request, organization, session\<close>
  | TurnFinal string string string "json option"  \<comment> \<open>request, session, content, payload\<close>
  | TurnError string string string string  \<comment> \<open>request, session, code, message\<close>
  | MemorySyncResult string string bool "json option"  \<comment> \<open>request, session, ok, details\<close>
  | MemoryQueryResult string string bool "json option" "string option"  \<comment> \<open>request, session, ok, results, error\<close>

definition opt_field :: "string \<Rightarrow> json option \<Rightarrow> (string, json) jmap" where
  "opt_field k v = (case v of None \<Rightarrow> [] | Some x \<Rightarrow> [(k, x)])"

definition opt_text :: "string option \<Rightarrow> json option" where
  "opt_text v = (if truthy v then map_option JStr v else None)"

definition status_field :: "bool \<Rightarrow> string \<times> json" where
  "status_field failed = (''status'', JStr (if failed then ''failed'' else ''succeeded''))"

definition close_socket :: "string \<Rightarrow> edge_server \<Rightarrow> edge_server" where
  \<comment> \<open>the \<open>close\<close> handler of an executor's socket\<close>
  "close_socket sock ed = (case jget (ed_sockets ed) sock of
     None \<Rightarrow> ed
   | Some x \<Rightarrow> deleteRoute (ex_executorId x)
       (ed\<lparr>ed_sockets := jdel sock (ed_sockets ed), ed_executorsById := jdel (ex_executorId x) (ed_executorsById ed),
          ed_pendingTurns := filter (\<lambda>(_, _, _, xid). xid \<noteq> ex_executorId x) (ed_pendingTurns ed)\<rparr>))"

definition handleHello :: "edge_env \<Rightarrow> string \<Rightarrow> connected_executor \<Rightarrow> exec_hello \<Rightarrow> edge_server \<Rightarrow> edge_server" where
  "handleHello ee sock x h ed =
     (if eh_executorId h \<noteq> ex_executorId x \<or> eh_pool h \<noteq> ex_pool x then close_socket sock ed
      else if ex_pool x = PoolByon \<and> (\<not> truthy (ex_organizationId x) \<or> eh_organizationId h \<noteq> ex_organizationId x)
      then close_socket sock ed
      else
        let x' = x\<lparr>ex_lastSeenAtMs := gb_now (ed_bus ed), ex_labels := eh_labels h,
              ex_maxInFlight := max 1 (min (ex_configuredMaxInFlight x) (eh_maxInFlight h)),
              ex_kinds := eh_kinds h, ex_name := eh_name h, ex_engineAuth := qq (eh_engineAuth h) no_engine_auth\<rparr>
        in writeExecutorRoute ee x' (ed\<lparr>ed_sockets := jset sock x' (ed_sockets ed)\<rparr>))"

fun handleExecutorMessage :: "edge_env \<Rightarrow> string \<Rightarrow> connected_executor \<Rightarrow> exec_message \<Rightarrow> edge_server \<Rightarrow> edge_server" where
  "handleExecutorMessage ee sock x (HelloV2 h) ed = handleHello ee sock x h ed"
| "handleExecutorMessage ee sock x (ToolResult rid failed out err ws) ed =
     (let x' = x\<lparr>ex_lastSeenAtMs := gb_now (ed_bus ed)\<rparr>;
          ed1 = writeExecutorRoute ee x' (ed\<lparr>ed_sockets := jset sock x' (ed_sockets ed)\<rparr>);
          v = JObj (status_field failed # opt_field ''output'' out @ opt_field ''error'' (opt_text err)
                @ opt_field ''workspace'' (if truthyJ ws then ws else None))
      in (reply_with ee rid v ed1)\<lparr>ed_pendingTools := jdel rid (ed_pendingTools ed1)\<rparr>)"
| "handleExecutorMessage ee sock x (ToolEvent rid v) ed = to_brain MsgOther ed"
| "handleExecutorMessage ee sock x (SessionOpened rid sid) ed =
     reply_with ee rid (JObj [(''status'', JStr ''ok''), (''sessionId'', JStr sid)]) ed"
| "handleExecutorMessage ee sock x (TurnDelta rid sid content) ed =
     (if \<not> ee_streamV1 ee then ed
      else case jget (ed_pendingTurns ed) rid of
        None \<Rightarrow> ed
      | Some (org, psid, _) \<Rightarrow>
          to_brain (MsgTurnEvent rid org psid \<lparr>xv_seq = gb_now (ed_bus ed), xv_ts = Some (gb_now (ed_bus ed)),
            xv_kind = ''turn_delta'', xv_level = ''info'', xv_message = Some content, xv_payload = None\<rparr>) ed)"
| "handleExecutorMessage ee sock x (TurnEvent rid org sid v) ed =
     (if \<not> ee_streamV1 ee then ed else to_brain (MsgTurnEvent rid org sid v) ed)"
| "handleExecutorMessage ee sock x (TurnFinal rid sid content payload) ed =
     (reply_with ee rid (JObj ([status_field False, (''sessionId'', JStr sid), (''content'', JStr content)]
        @ opt_field ''payload'' payload)) ed)\<lparr>ed_pendingTurns := jdel rid (ed_pendingTurns ed)\<rparr>"
| "handleExecutorMessage ee sock x (TurnError rid sid code msg) ed =
     (reply_with ee rid (JObj [status_field True, (''sessionId'', JStr sid), (''code'', JStr code), (''error'', JStr msg)]) ed)
       \<lparr>ed_pendingTurns := jdel rid (ed_pendingTurns ed)\<rparr>"
| "handleExecutorMessage ee sock x (MemorySyncResult rid sid ok details) ed =
     reply_with ee rid (JObj ([status_field (\<not> ok), (''sessionId'', JStr sid)] @ opt_field ''details'' details)) ed"
| "handleExecutorMessage ee sock x (MemoryQueryResult rid sid ok results err) ed =
     reply_with ee rid (JObj ([status_field (\<not> ok), (''sessionId'', JStr sid)] @ opt_field ''results'' results
       @ opt_field ''error'' (opt_text err))) ed"

section \<open>Commands of brains\<close>

definition executor_socket :: "edge_server \<Rightarrow> string \<Rightarrow> string option" where
  "executor_socket ed xid = jget (ed_executorsById ed) xid"

definition send_executor :: "string \<Rightarrow> exec_command \<Rightarrow> edge_server \<Rightarrow> edge_server" where
  "send_executor sock c ed = ed\<lparr>ed_toExecutors := ed_toExecutors ed @ [(sock, c)]\<rparr>"

definition dropExecutor :: "string \<Rightarrow> edge_server \<Rightarrow> edge_server" where
  \<comment> \<open>a send failed: the executor is forgotten\<close>
  "dropExecutor xid ed = deleteRoute xid (ed\<lparr>ed_executorsById := jdel xid (ed_executorsById ed)\<rparr>)"

fun payload_request :: "session_payload \<Rightarrow> string" where
  "payload_request (SessionOpen p) = op_requestId p"
| "payload_request (SessionTurn p) = tu_requestId p"
| "payload_request (SessionCancel rid _ _) = rid"

definition note_pending :: "string \<Rightarrow> session_payload \<Rightarrow> edge_server \<Rightarrow> edge_server" where
  "note_pending xid p ed = (case p of
     SessionTurn t \<Rightarrow> ed\<lparr>ed_pendingTurns := jset (tu_requestId t) (tu_organizationId t, tu_sessionId t, xid) (ed_pendingTurns ed)\<rparr>
   | SessionCancel rid _ _ \<Rightarrow> ed\<lparr>ed_pendingTurns := jdel rid (ed_pendingTurns ed)\<rparr>
   | SessionOpen _ \<Rightarrow> ed)"

definition send_client :: "string \<Rightarrow> client_message \<Rightarrow> edge_server \<Rightarrow> edge_server" where
  "send_client sock m ed = (ed\<lparr>ed_toClients := ed_toClients ed @ [(sock, m)]\<rparr>)"

definition send_session_clients :: "string \<Rightarrow> client_message \<Rightarrow> edge_server \<Rightarrow> edge_server" where
  "send_session_clients sid m ed =
     ed\<lparr>ed_toClients := ed_toClients ed @ map (\<lambda>sock. (sock, m)) (qq (jget (ed_sessionClients ed) sid) [])\<rparr>"

fun handleCommand :: "edge_env \<Rightarrow> edge_command \<Rightarrow> edge_server \<Rightarrow> edge_server" where
  \<comment> \<open>\<open>startEdgeCommandLoop\<close>, one command\<close>
  "handleCommand ee (ExecutorInvoke xid call) ed =
     (case executor_socket ed xid of
        None \<Rightarrow> reply_with ee (tv_requestId call) (failed_json ''NO_AGENT_AVAILABLE'') ed
      | Some sock \<Rightarrow>
          if ee_open ee sock then
            send_executor sock (ToolCommand call) (ed\<lparr>ed_pendingTools := jset (tv_requestId call) xid (ed_pendingTools ed)\<rparr>)
          else reply_with ee (tv_requestId call) (failed_json ''NO_AGENT_AVAILABLE'')
                 (dropExecutor xid (ed\<lparr>ed_pendingTools := jdel (tv_requestId call) (ed_pendingTools ed)\<rparr>)))"
| "handleCommand ee (ExecutorSession xid p) ed =
     (case executor_socket ed xid of
        None \<Rightarrow> reply_with ee (payload_request p) (failed_json ''PINNED_AGENT_OFFLINE'') ed
      | Some sock \<Rightarrow>
          let ed1 = note_pending xid p ed in
          if ee_open ee sock then send_executor sock (SessionCommand p) ed1
          else reply_with ee (payload_request p) (failed_json ''PINNED_AGENT_OFFLINE'')
                 (dropExecutor xid (ed1\<lparr>ed_pendingTurns := jdel (payload_request p) (ed_pendingTurns ed1)\<rparr>)))"
| "handleCommand ee (ClientBroadcast sid m) ed = send_session_clients sid m ed"
| "handleCommand ee (ChannelOutbound org sid sq src txt) ed =
     ed\<lparr>ed_channelReplies := ed_channelReplies ed @ [ChannelOutbound org sid sq src txt]\<rparr>"

end
