(* ===== verification/EdgeClients.thy ===== *)
theory EdgeClients
  imports EdgeServer
begin

text \<open>
  The clients of an edge and its internal HTTP endpoints (\<open>apps/gateway/src/edge/server.ts\<close>):
  \<open>joinSessionForClient\<close>, the messages of a client's socket, the endpoints that pass sessions and
  dispatches to a brain, and the one that reads a result.  An endpoint answers with a status and a body.
\<close>

section \<open>Clients\<close>

definition removeClientFromSession :: "string \<Rightarrow> string \<Rightarrow> edge_server \<Rightarrow> edge_server" where
  "removeClientFromSession sid sock ed =
     (case jget (ed_sessionClients ed) sid of
        None \<Rightarrow> ed
      | Some xs \<Rightarrow> let ys = filter (\<lambda>x. x \<noteq> sock) xs in
          ed\<lparr>ed_sessionClients := (if ys = [] then jdel sid (ed_sessionClients ed) else jset sid ys (ed_sessionClients ed))\<rparr>)"

definition addClientToSession :: "string \<Rightarrow> string \<Rightarrow> edge_server \<Rightarrow> edge_server" where
  "addClientToSession sid sock ed =
     (let xs = qq (jget (ed_sessionClients ed) sid) [] in
      ed\<lparr>ed_sessionClients := jset sid (if sock \<in> set xs then xs else xs @ [sock]) (ed_sessionClients ed)\<rparr>)"

definition listAgentSessionEventsTail :: "string \<Rightarrow> string \<Rightarrow> nat \<Rightarrow> bus \<Rightarrow> log_row list" where
  "listAgentSessionEventsTail org sid limit w =
     rev (take (max 1 (min 500 limit)) (js_sort (\<lambda>a b. lg_seq b - lg_seq a) (filter (in_log org sid) (gb_log w))))"

definition state_message :: "session_row \<Rightarrow> client_message" where
  "state_message r = CliState (case sn_pinnedExecutorId r of None \<Rightarrow> sn_pinnedAgentId r | x \<Rightarrow> x)
     (case sn_pinnedExecutorPool r of None \<Rightarrow> if truthy (sn_pinnedAgentId r) then Some ''byon'' else None | p \<Rightarrow> p)
     (sn_pinnedAgentId r) (sn_routedAgentId r) (sn_scope r)"

definition leave_joined :: "string \<Rightarrow> client_state option \<Rightarrow> edge_server \<Rightarrow> edge_server" where
  "leave_joined sock st ed = (case st of None \<Rightarrow> ed
     | Some c \<Rightarrow> if truthy (cz_joinedSessionId c) then removeClientFromSession (qq (cz_joinedSessionId c) '''') sock ed else ed)"

definition joinSessionForClient :: "edge_env \<Rightarrow> string \<Rightarrow> string \<Rightarrow> string \<Rightarrow> string \<Rightarrow> edge_server \<Rightarrow> edge_server" where
  "joinSessionForClient ee sock org user sid ed =
     (case db_getAgentSessionById org sid (ed_bus ed) of
        None \<Rightarrow> send_client sock (CliError ''SESSION_NOT_FOUND'' ''Session not found'') ed
      | Some r \<Rightarrow>
          let ed1 = leave_joined sock (jget (ed_clients ed) sock) ed;
              ed2 = ed1\<lparr>ed_clients := jset sock \<lparr>cz_organizationId = org, cz_userId = user, cz_joinedSessionId = Some sid\<rparr> (ed_clients ed1)\<rparr>;
              ed3 = send_client sock (state_message r) (send_client sock CliAck (addClientToSession sid sock ed2));
              ed4 = on_edge_bus (\<lambda>w. let es = qq (jget (gb_sessionEdges w) sid) [] in
                w\<lparr>gb_sessionEdges := jset sid (if ee_edgeId ee \<in> set es then es else es @ [ee_edgeId ee]) (gb_sessionEdges w)\<rparr>) ed3
          in ed4\<lparr>ed_toClients := ed_toClients ed4
               @ map (\<lambda>e. (sock, CliEvent e)) (listAgentSessionEventsTail org sid 200 (ed_bus ed4))\<rparr>)"

datatype client_request =
    ClientJoin string
  | ClientSend string string "json option" "string option"  \<comment> \<open>session, text, attachments, idempotency key\<close>
  | ClientReset string "string option"
  | ClientCancel string
  | ClientLeave string
  | ClientInvalid string  \<comment> \<open>a message of a known type that its schema rejects\<close>

definition not_found :: client_message where
  "not_found = CliError ''SESSION_NOT_FOUND'' ''Session not found''"

definition clientSend :: "edge_env \<Rightarrow> string \<Rightarrow> string \<Rightarrow> string \<Rightarrow> string \<Rightarrow> string \<Rightarrow> json option \<Rightarrow> string option \<Rightarrow> edge_server \<Rightarrow> edge_server" where
  "clientSend ee sock org user sid txt attachments key ed =
     (if db_getAgentSessionById org sid (ed_bus ed) = None then send_client sock not_found ed
      else
        (case db_appendEvent org sid ''user_message'' ''info'' key
                (Some (JObj [(''message'', JStr txt), (''attachments'', qq attachments (JArr []))])) (ed_bus ed) of
           (Inl _, w) \<Rightarrow> ed\<lparr>ed_bus := w\<rparr>
         | (Inr e, w) \<Rightarrow>
             to_brain (MsgSend \<lparr>sq_requestId = sid @ '':turn:'' @ int_text (lg_seq e), sq_organizationId = org, sq_userId = user,
                 sq_sessionId = sid, sq_userEventSeq = lg_seq e, sq_message = Some txt, sq_attachments = attachments,
                 sq_originEdgeId = Some (ee_edgeId ee), sq_source = None\<rparr>)
               (send_session_clients sid (CliEvent (e\<lparr>lg_level := normalizeEventLevel (lg_level e)\<rparr>)) (ed\<lparr>ed_bus := w\<rparr>))))"

fun handleClientMessage :: "edge_env \<Rightarrow> string \<Rightarrow> string \<Rightarrow> string \<Rightarrow> client_request \<Rightarrow> edge_server \<Rightarrow> edge_server" where
  \<comment> \<open>\<open>wireClientSocket\<close>: the socket's organization and user are those of its upgrade\<close>
  "handleClientMessage ee sock org user (ClientJoin sid) ed = joinSessionForClient ee sock org user sid ed"
| "handleClientMessage ee sock org user (ClientSend sid txt atts key) ed = clientSend ee sock org user sid txt atts key ed"
| "handleClientMessage ee sock org user (ClientReset sid mode) ed = to_brain (MsgReset org sid (qq mode ''keep_history'')) ed"
| "handleClientMessage ee sock org user (ClientCancel sid) ed =
     (if db_getAgentSessionById org sid (ed_bus ed) = None then send_client sock not_found ed
      else to_brain (MsgCancel org sid) ed)"
| "handleClientMessage ee sock org user (ClientLeave sid) ed =
     (let ed1 = removeClientFromSession sid sock ed in
      case jget (ed_clients ed1) sock of
        None \<Rightarrow> ed1
      | Some c \<Rightarrow> if cz_joinedSessionId c = Some sid
          then ed1\<lparr>ed_clients := jset sock (c\<lparr>cz_joinedSessionId := None\<rparr>) (ed_clients ed1)\<rparr> else ed1)"
| "handleClientMessage ee sock org user (ClientInvalid kind) ed =
     send_client sock (CliError ''BAD_REQUEST'' (''Invalid '' @ kind @ '' payload'')) ed"

definition closeClient :: "string \<Rightarrow> edge_server \<Rightarrow> edge_server" where
  "closeClient sock ed =
     (let ed1 = leave_joined sock (jget (ed_clients ed) sock) ed in ed1\<lparr>ed_clients := jdel sock (ed_clients ed1)\<rparr>)"

section \<open>Internal endpoints\<close>

definition token_ok :: "edge_env \<Rightarrow> string option \<Rightarrow> bool" where
  "token_ok ee token \<longleftrightarrow> truthy token \<and> token = Some (ee_serviceToken ee)"

definition error_body :: "string \<Rightarrow> string \<Rightarrow> json" where
  "error_body code msg = JObj [(''code'', JStr code), (''message'', JStr msg)]"

definition unauthorized :: "nat \<times> json" where
  "unauthorized = (401, error_body ''UNAUTHORIZED'' ''Invalid gateway service token'')"

definition dispatch_request_id :: "dispatch_request \<Rightarrow> string" where
  "dispatch_request_id d = dq_runId d @ '':'' @ dq_nodeId d @ '':'' @ int_text (dq_attemptCount d)"

definition response_fields :: "dispatch_response \<Rightarrow> json" where
  "response_fields r = JObj (status_field (dp_failed r) # opt_field ''output'' (dp_output r) @ opt_field ''error'' (map_option JStr (dp_error r)))"

definition stored_result :: "string \<Rightarrow> bus \<Rightarrow> dispatch_response option" where
  "stored_result rid w = fresh (gb_now w) (gb_results w) rid"

definition dispatchAsyncEndpoint :: "edge_env \<Rightarrow> string option \<Rightarrow> dispatch_request option \<Rightarrow> edge_server \<Rightarrow> (nat \<times> json) \<times> edge_server" where
  \<comment> \<open>\<open>None\<close>: a body the schema rejects\<close>
  "dispatchAsyncEndpoint ee token body ed =
     (if \<not> token_ok ee token then (unauthorized, ed)
      else case body of
        None \<Rightarrow> ((400, error_body ''BAD_REQUEST'' ''Invalid dispatch payload''), ed)
      | Some d \<Rightarrow>
          let rid = dispatch_request_id d in
          if stored_result rid (ed_bus ed) \<noteq> None then
            ((200, JObj [(''requestId'', JStr rid), (''dispatched'', JBool False), (''cached'', JBool True)]), ed)
          else ((201, JObj [(''requestId'', JStr rid), (''dispatched'', JBool True)]), to_brain (MsgDispatch rid d True) ed))"

datatype sync_dispatch = SyncAnswered nat json | SyncWaiting string int  \<comment> \<open>request and timeout\<close>

definition dispatchEndpoint :: "edge_env \<Rightarrow> string option \<Rightarrow> dispatch_request option \<Rightarrow> edge_server \<Rightarrow> sync_dispatch \<times> edge_server" where
  \<comment> \<open>up to \<open>waitForReply\<close>\<close>
  "dispatchEndpoint ee token body ed =
     (if \<not> token_ok ee token then (SyncAnswered (fst unauthorized) (snd unauthorized), ed)
      else case body of
        None \<Rightarrow> (SyncAnswered 400 (error_body ''BAD_REQUEST'' ''Invalid dispatch payload''), ed)
      | Some d \<Rightarrow>
          let rid = dispatch_request_id d in
          (case stored_result rid (ed_bus ed) of
             Some r \<Rightarrow> (SyncAnswered 200 (response_fields r), ed)
           | None \<Rightarrow> (SyncWaiting rid (qq (dq_timeoutMs d) 60000), to_brain (MsgDispatch rid d False) ed)))"

definition is_object :: "json \<Rightarrow> bool" where
  "is_object v \<longleftrightarrow> (case v of JObj _ \<Rightarrow> True | JArr _ \<Rightarrow> True | _ \<Rightarrow> False)"

definition waitForReply :: "string \<Rightarrow> bus \<Rightarrow> json option" where
  \<comment> \<open>what the last look at the reply key yields\<close>
  "waitForReply rid w = map_option (\<lambda>v. if is_object v then v else failed_json ''GATEWAY_RESPONSE_INVALID'')
     (fresh (gb_now w) (gb_replies w) rid)"

definition dispatchAnswer :: "string \<Rightarrow> bus \<Rightarrow> nat \<times> json" where
  \<comment> \<open>the end of the synchronous endpoint, after the wait\<close>
  "dispatchAnswer rid w = (case waitForReply rid w of
     None \<Rightarrow> (504, error_body ''GATEWAY_TIMEOUT'' ''Gateway brain did not reply in time'')
   | Some v \<Rightarrow> (200, v))"

definition resultsEndpoint :: "edge_env \<Rightarrow> string option \<Rightarrow> string \<Rightarrow> bus \<Rightarrow> nat \<times> json" where
  "resultsEndpoint ee token rid w =
     (if \<not> token_ok ee token then unauthorized
      else if length rid < 10 then (400, error_body ''BAD_REQUEST'' ''Invalid requestId'')
      else case stored_result rid w of
        Some r \<Rightarrow> (200, response_fields r)
      | None \<Rightarrow>
          (let not_ready = (404, error_body ''RESULT_NOT_READY'' ''Result not ready'') in
           case fresh (gb_now w) (gb_replies w) rid of
             None \<Rightarrow> not_ready
           | Some v \<Rightarrow> if is_object v then (200, v) else not_ready))"

definition sessionSendEndpoint :: "edge_env \<Rightarrow> string option \<Rightarrow> session_send option \<Rightarrow> edge_server \<Rightarrow> (nat \<times> json) \<times> edge_server" where
  \<comment> \<open>the body's request id and source are not the caller's\<close>
  "sessionSendEndpoint ee token body ed =
     (if \<not> token_ok ee token then (unauthorized, ed)
      else case body of
        None \<Rightarrow> ((400, error_body ''BAD_REQUEST'' ''Invalid session send payload''), ed)
      | Some m \<Rightarrow> ((202, JObj [(''accepted'', JBool True)]),
          to_brain (MsgSend (m\<lparr>sq_requestId := sq_sessionId m @ '':turn:'' @ int_text (sq_userEventSeq m), sq_source := None,
            sq_originEdgeId := Some (qq (sq_originEdgeId m) (ee_edgeId ee))\<rparr>)) ed))"

definition executorRoutesEndpoint :: "edge_env \<Rightarrow> string option \<Rightarrow> string option \<Rightarrow> bus \<Rightarrow> nat \<times> executor_route list" where
  \<comment> \<open>the routes of the answer; none with an error\<close>
  "executorRoutesEndpoint ee token org w =
     (if \<not> token_ok ee token then (401, [])
      else case org of
        None \<Rightarrow> (400, [])
      | Some x \<Rightarrow> if ee_isUuid ee x then (200, listExecutorRoutes (announced w) (Some x) (Some PoolByon)) else (400, []))"

end
