(* ===== verification/GatewayProps.thy ===== *)
theory GatewayProps
  imports BrainFrame EdgeClients
begin

text \<open>
  What the gateway guarantees when edge and brain work together, and what it does not: messages of
  clients stay within their organization and reach the executor unchanged, logs stay without gaps,
  while an executor's messages are not tied to its organization.
\<close>

section \<open>A small installation\<close>

definition sample_bus :: bus where
  "sample_bus = \<lparr>gb_now = 0, gb_counters = [], gb_routes = [], gb_locks = [], gb_sessionEdges = [], gb_replies = [],
     gb_results = [], gb_toBrain = [], gb_toEdge = [], gb_queue = [], gb_workspaces = [],
     gb_sessions = [\<lparr>sn_id = ''s'', sn_organizationId = ''o'', sn_sessionKey = ''k'', sn_scope = ''main'', sn_pinnedAgentId = None,
       sn_pinnedExecutorId = None, sn_pinnedExecutorPool = None, sn_routedAgentId = None, sn_engineId = ''gateway.opencode.v2'',
       sn_llmModel = ''m'', sn_llmSecretId = None, sn_toolsAllow = JArr [], sn_limits = JObj [], sn_promptSystem = None,
       sn_promptInstructions = '''', sn_runtime = JObj [], sn_executorSelector = None, sn_updatedAt = 0, sn_lastActivityAt = 0\<rparr>],
     gb_log = [], gb_orgSettings = []\<rparr>"

definition quiet_env :: brain_env where
  \<comment> \<open>a brain alone\<close>
  "quiet_env = \<lparr>be_brainId = ''b'', be_others = (\<lambda>w. w), be_wait = (\<lambda>k t w. w), be_random = (\<lambda>w. ''r''), be_sha256 = (\<lambda>x. x),
     be_isUuid = (\<lambda>x. True), be_isUrl = (\<lambda>x. True), be_secret = (\<lambda>a b. ''''), be_s3 = True, be_hasQueue = True, be_streamV1 = True,
     be_resultsTtlSec = 900, be_sessionOpenTimeoutMs = 20000, be_replyGraceMs = 5000, be_reserveTtlMs = 300000,
     be_orgMaxDefault = 50, be_quotaCacheTtlMs = 15000\<rparr>"

lemma stable_quiet: "stable quiet_env P"
  by (simp add: stable_def quiet_env_def)

definition quiet_edge :: edge_server where
  "quiet_edge = \<lparr>ed_bus = sample_bus, ed_sockets = [], ed_executorsById = [], ed_pendingTools = [], ed_pendingTurns = [],
     ed_sessionClients = [], ed_clients = [], ed_toExecutors = [], ed_toClients = [], ed_channelReplies = []\<rparr>"

definition sample_edge_env :: edge_env where
  "sample_edge_env = \<lparr>ee_edgeId = ''e'', ee_resultsTtlSec = 900, ee_staleMs = 60000, ee_streamV1 = True, ee_serviceToken = ''t'',
     ee_isUuid = (\<lambda>x. True), ee_open = (\<lambda>x. True)\<rparr>"

definition sample_brain :: "bus \<Rightarrow> brain" where
  "sample_brain w = \<lparr>bl_bus = w, bl_turns = [], bl_quota = []\<rparr>"

definition sample_executor :: connected_executor where
  \<comment> \<open>an executor of another organization\<close>
  "sample_executor = \<lparr>ex_executorId = ''x'', ex_pool = PoolByon, ex_organizationId = Some ''other'', ex_tokenHash = ''h'',
     ex_configuredMaxInFlight = 10, ex_lastSeenAtMs = 0, ex_name = None, ex_labels = [], ex_maxInFlight = 10,
     ex_kinds = all_kinds, ex_engineAuth = no_engine_auth\<rparr>"

definition sample_event :: exec_event where
  "sample_event = \<lparr>xv_seq = 1, xv_ts = None, xv_kind = ''tool_call'', xv_level = ''info'', xv_message = None, xv_payload = None\<rparr>"

lemmas sample_defs = sample_bus_def quiet_edge_def sample_edge_env_def sample_brain_def sample_executor_def sample_event_def quiet_env_def

section \<open>Clients\<close>

lemma foreign_bus: "foreign_rows org (w\<lparr>gb_toBrain := b\<rparr>) = foreign_rows org w"
  "foreign_rows org (w\<lparr>gb_sessionEdges := e\<rparr>) = foreign_rows org w"
  by (simp_all add: foreign_rows_def)

definition new_messages :: "edge_server \<Rightarrow> edge_server \<Rightarrow> brain_message list" where
  "new_messages ed ed' = drop (length (gb_toBrain (ed_bus ed))) (gb_toBrain (ed_bus ed'))"

lemma removeClient_bus [simp]: "ed_bus (removeClientFromSession sid sock ed) = ed_bus ed"
  by (simp add: removeClientFromSession_def Let_def split: option.split)

lemma leave_bus [simp]: "ed_bus (leave_joined sock st ed) = ed_bus ed"
  by (simp add: leave_joined_def split: option.split)

lemma edge_bus_simps [simp]:
  "ed_bus (addClientToSession sid sock ed) = ed_bus ed" "ed_bus (send_client sock c ed) = ed_bus ed"
  "ed_bus (send_session_clients sid c ed) = ed_bus ed" "ed_bus (on_edge_bus f ed) = f (ed_bus ed)"
  "ed_bus (to_brain m ed) = (ed_bus ed)\<lparr>gb_toBrain := gb_toBrain (ed_bus ed) @ [m]\<rparr>"
  by (simp_all add: addClientToSession_def send_client_def send_session_clients_def on_edge_bus_def to_brain_def Let_def)

lemma append_toBrain [simp]: "gb_toBrain (snd (db_appendEvent org sid ty lv k p w)) = gb_toBrain w"
  by (simp add: db_appendEvent_def Let_def on_session_def split: option.split)

lemma client_step:
  "foreign_rows org (ed_bus (handleClientMessage ee sock org user q ed)) = foreign_rows org (ed_bus ed)
   \<and> (\<forall>m \<in> set (new_messages ed (handleClientMessage ee sock org user q ed)). message_org m = Some org)"
proof (cases q)
  case (ClientSend sid body atts key)
  let ?a = "db_appendEvent org sid ''user_message'' ''info'' key
      (Some (JObj [(''message'', JStr body), (''attachments'', qq atts (JArr []))])) (ed_bus ed)"
  obtain x w where a: "?a = (x, w)" by (cases ?a)
  have w: "foreign_rows org w = foreign_rows org (ed_bus ed)" "gb_toBrain w = gb_toBrain (ed_bus ed)"
    using foreign_append append_toBrain a by (metis snd_conv)+
  show ?thesis using ClientSend a w by (cases x) (auto simp: clientSend_def new_messages_def foreign_bus)
qed (auto simp: joinSessionForClient_def new_messages_def foreign_bus Let_def split: option.split)

lemma loop_foreign:
  assumes "stable en (\<lambda>w. foreign_rows org w = F)" and "\<forall>m \<in> set ms. message_org m = Some org"
    and "foreign_rows org (bl_bus s) = F" and "brainLoop en ms s = (r, s')"
  shows "foreign_rows org (bl_bus s') = F"
  using assms(2-4)
proof (induction ms arbitrary: s)
  case (Cons m ms)
  note step = bus_invariant.inv_message_state [OF foreign_contract [OF assms(1)]]
  obtain x s1 where m: "handleMessage en m s = (x, s1)" by (cases "handleMessage en m s")
  have ok: "bus_invariant.turns_ok (\<lambda>_. True) m"
    by (simp add: bus_invariant.turns_ok_def [OF foreign_contract [OF assms(1)]])
  have 1: "foreign_rows org (bl_bus s1) = F" using step [OF ok _ Cons.prems(2) m] Cons.prems(1) by simp
  show ?case using Cons.IH [OF _ 1] Cons.prems m 1 by (cases x) (simp_all add: handler_defs)
qed (simp add: h_return_def)

text \<open>
  C35. Clients stay in their organization: a message of a client socket opened for an organization
  leaves the sessions, logs and workspaces of all other organizations as they are, at the edge and when
  a brain handles the messages it caused, as long as the other processes leave those rows alone.
\<close>
theorem client_stays_in_organization:
  assumes "ed' = handleClientMessage ee sock org user q ed"
    and "stable en (\<lambda>w. foreign_rows org w = foreign_rows org (ed_bus ed))"
    and "bl_bus s = ed_bus ed'" and "brainLoop en (new_messages ed ed') s = (r, s')"
  shows "foreign_rows org (ed_bus ed') = foreign_rows org (ed_bus ed) \<and> foreign_rows org (bl_bus s') = foreign_rows org (ed_bus ed)"
  using client_step [of org ee sock user q ed] loop_foreign [OF assms(2) _ _ assms(4)] assms(1,3) by simp

theorem client_stays_in_organization_witness:
  "\<exists>s'. brainLoop quiet_env (new_messages quiet_edge (handleClientMessage sample_edge_env ''c'' ''o'' ''u'' (ClientReset ''s'' None) quiet_edge))
      (sample_brain (ed_bus (handleClientMessage sample_edge_env ''c'' ''o'' ''u'' (ClientReset ''s'' None) quiet_edge))) = (Inr (), s')
    \<and> foreign_rows ''o'' (bl_bus s') = foreign_rows ''o'' sample_bus"
proof -
  let ?ed = "handleClientMessage sample_edge_env ''c'' ''o'' ''u'' (ClientReset ''s'' None) quiet_edge"
  obtain r s' where b: "brainLoop quiet_env (new_messages quiet_edge ?ed) (sample_brain (ed_bus ?ed)) = (r, s')"
    by (cases "brainLoop quiet_env (new_messages quiet_edge ?ed) (sample_brain (ed_bus ?ed))")
  have r: "r = Inr ()" using b
    by (auto simp: new_messages_def sample_defs handleSessionReset_def handler_defs on_bus_def bus_do_def
        db_setAgentSessionPinnedAgent_def db_getAgentSessionById_def on_session_def is_session_def Let_def
        appendAndBroadcast_def appendSessionLog_def db_appendEvent_def logged_before_def usable_def log_next_def)
  have e: "bl_bus (sample_brain (ed_bus ?ed)) = ed_bus ?ed" by (simp add: sample_brain_def)
  from client_stays_in_organization [OF refl stable_quiet e b] r b show ?thesis by (simp add: quiet_edge_def)
qed

section \<open>Logs and texts\<close>

lemma loop_gapless:
  assumes "stable en log_gapless" and "log_gapless (bl_bus s)" and "brainLoop en ms s = (r, s')"
  shows "log_gapless (bl_bus s')"
  using assms(2,3)
proof (induction ms arbitrary: s)
  case (Cons m ms)
  obtain x s1 where m: "handleMessage en m s = (x, s1)" by (cases "handleMessage en m s")
  define org where "org = qq (message_org m) ''''"
  note c = gapless_contract [OF assms(1), of org]
  have ok: "bus_invariant.turns_ok (\<lambda>_. True) m" by (simp add: bus_invariant.turns_ok_def [OF c])
  have "message_org m \<in> {None, Some org}" by (cases "message_org m") (simp_all add: org_def)
  from bus_invariant.inv_message_state [OF c ok this Cons.prems(1) m] have 1: "log_gapless (bl_bus s1)" .
  show ?case using Cons.IH [OF 1] Cons.prems m 1 by (cases x) (simp_all add: handler_defs)
qed (simp add: h_return_def)

text \<open>
  C36. Session logs in the database stay without gaps: whatever messages a brain handles, with or
  without an exception, the events of every session remain numbered 0, 1, 2, \<dots> in order, as long as the
  other processes keep it so.
\<close>
theorem brain_keeps_logs_gapless:
  assumes "stable en log_gapless" and "log_gapless (bl_bus s)" and "brainLoop en ms s = (r, s')"
  shows "log_gapless (bl_bus s')"
  using assms by (rule loop_gapless)

theorem brain_keeps_logs_gapless_witness:
  "log_gapless (bl_bus (snd (brainLoop quiet_env [MsgReset ''o'' ''s'' ''keep_history'', MsgCancel ''o'' ''s''] (sample_brain sample_bus))))"
proof -
  have "log_gapless (bl_bus (sample_brain sample_bus))" by (simp add: log_gapless_def sample_brain_def sample_bus_def)
  from brain_keeps_logs_gapless [OF stable_quiet this] show ?thesis by (metis prod.collapse)
qed

definition sessionTurnSchema :: "(string \<Rightarrow> bool) \<Rightarrow> session_turn \<Rightarrow> bool" where
  \<comment> \<open>what the node agent (\<open>apps/node-agent/src/runtime.ts\<close>) accepts as a turn\<close>
  "sessionTurnSchema isUuid t \<longleftrightarrow> tu_requestId t \<noteq> '''' \<and> isUuid (tu_organizationId t) \<and> isUuid (tu_sessionId t)
     \<and> tu_sessionKey t \<noteq> '''' \<and> isUuid (tu_userId t) \<and> 0 \<le> tu_eventSeq t \<and> tu_message t \<noteq> ''''
     \<and> (case tu_attachments t of None \<Rightarrow> True | Some (JArr _) \<Rightarrow> True | _ \<Rightarrow> False)"

definition turns_sent :: "string \<Rightarrow> bus \<Rightarrow> session_turn list" where
  \<comment> \<open>the turns sent to executors under a request\<close>
  "turns_sent rid w = concat (map (\<lambda>(e, c). case c of
     ExecutorSession x (SessionTurn t) \<Rightarrow> if tu_requestId t = rid then [t] else [] | _ \<Rightarrow> []) (gb_toEdge w))"

lemma turns_say_sent: "turns_say rid txt w \<longleftrightarrow> (\<forall>t \<in> set (turns_sent rid w). tu_message t = txt)"
  by (fastforce simp: turns_say_def turns_sent_def split: edge_command.splits session_payload.splits if_splits)

definition channel_send :: "brain_request \<Rightarrow> session_send" where
  \<comment> \<open>the message the channel manager puts on the brain's stream\<close>
  "channel_send b = \<lparr>sq_requestId = br_requestId b, sq_organizationId = br_organizationId b, sq_userId = br_userId b,
     sq_sessionId = br_sessionId b, sq_userEventSeq = br_userEventSeq b, sq_message = None, sq_attachments = None,
     sq_originEdgeId = Some (br_originEdgeId b), sq_source = Some (br_source b)\<rparr>"

lemma turn_text:
  assumes "stable en (turns_say (sq_requestId m) (qq (sq_message m) ''''))"
    and "turns_sent (sq_requestId m) (bl_bus s) = []" and "handleSessionSend en m s = (r, s')"
    and "t \<in> set (turns_sent (sq_requestId m) (bl_bus s'))"
  shows "tu_message t = qq (sq_message m) ''''"
proof -
  note c = says_contract [OF assms(1), of "sq_organizationId m"]
  have ok: "bus_invariant.turns_ok (\<lambda>t. tu_requestId t = sq_requestId m \<longrightarrow> tu_message t = qq (sq_message m) '''') (MsgSend m)"
    by (simp add: bus_invariant.turns_ok_def [OF c] turn_of_def)
  have 0: "turns_say (sq_requestId m) (qq (sq_message m) '''') (bl_bus s)" by (simp add: turns_say_sent assms(2))
  have "handleMessage en (MsgSend m) s = (r, s')" using assms(3) by simp
  from bus_invariant.inv_message_state [OF c ok _ 0 this] assms(4) show ?thesis by (simp add: turns_say_sent)
qed

text \<open>
  A message from a channel never reaches the agent: the channel manager asks the brain for a turn
  without the message's text, so every turn the brain sends for it is empty, and the node agent's schema
  rejects an empty turn.
\<close>
theorem channel_turns_rejected:
  assumes "stable en (turns_say (br_requestId b) '''')" and "turns_sent (br_requestId b) (bl_bus s) = []"
    and "handleSessionSend en (channel_send b) s = (r, s')" and "t \<in> set (turns_sent (br_requestId b) (bl_bus s'))"
  shows "\<not> sessionTurnSchema isUuid t"
  using turn_text [of en "channel_send b" s r s' t] assms by (simp add: channel_send_def sessionTurnSchema_def)

text \<open>
  A client's message reaches the agent as it was written: every turn a brain sends to an executor
  for the request of a client's socket carries the text the client sent.
\<close>
theorem client_text_reaches_executor:
  assumes "MsgSend m \<in> set (new_messages ed (handleClientMessage ee sock org user (ClientSend sid body atts key) ed))"
    and "stable en (turns_say (sq_requestId m) body)" and "turns_sent (sq_requestId m) (bl_bus s) = []"
    and "handleSessionSend en m s = (r, s')" and "t \<in> set (turns_sent (sq_requestId m) (bl_bus s'))"
  shows "tu_message t = body"
proof -
  let ?a = "db_appendEvent org sid ''user_message'' ''info'' key
      (Some (JObj [(''message'', JStr body), (''attachments'', qq atts (JArr []))])) (ed_bus ed)"
  obtain x w where a: "?a = (x, w)" by (cases ?a)
  have w: "gb_toBrain w = gb_toBrain (ed_bus ed)" using append_toBrain a by (metis snd_conv)
  have "sq_message m = Some body"
    using assms(1) a w by (cases x) (auto simp: clientSend_def new_messages_def split: if_splits)
  then show ?thesis using turn_text [of en m s r s' t] assms by simp
qed

subsection \<open>A turn that is run\<close>

definition busy_bus :: bus where
  \<comment> \<open>an executor of the organization is announced\<close>
  "busy_bus = sample_bus\<lparr>gb_routes := [(''x'', (route_of sample_edge_env (sample_executor\<lparr>ex_organizationId := Some ''o''\<rparr>), 60000))],
     gb_sessionEdges := [(''s'', [''e''])]\<rparr>"

definition answering_env :: brain_env where
  \<comment> \<open>every request to an executor is answered\<close>
  "answering_env = quiet_env\<lparr>be_wait := (\<lambda>k t w. set_reply k (JObj [(''status'', JStr ''ok''), (''content'', JStr ''hi'')]) 900 w)\<rparr>"

definition sample_send :: "string option \<Rightarrow> channel_source option \<Rightarrow> session_send" where
  "sample_send body src = \<lparr>sq_requestId = ''s:turn:0'', sq_organizationId = ''o'', sq_userId = ''u'', sq_sessionId = ''s'',
     sq_userEventSeq = 0, sq_message = body, sq_attachments = None, sq_originEdgeId = Some ''e'', sq_source = src\<rparr>"

lemma stable_answering: "stable answering_env (turns_say rid body)"
  by (simp add: stable_def answering_env_def quiet_env_def turns_say_def set_reply_def)

definition sample_source :: channel_source where
  "sample_source = \<lparr>so_channelId = ''c'', so_accountId = ''a'', so_accountKey = ''ak'', so_conversationId = ''v'',
     so_providerMessageId = ''p'', so_mentionMatched = False, so_event = MessageDm\<rparr>"

definition sample_request :: brain_request where
  "sample_request = \<lparr>br_requestId = ''s:turn:0'', br_organizationId = ''o'', br_userId = ''u'', br_sessionId = ''s'',
     br_userEventSeq = 0, br_originEdgeId = ''e'', br_source = sample_source\<rparr>"

lemma channel_turn_sent:
  "turns_sent ''s:turn:0'' (bl_bus (snd (handleSessionSend answering_env (channel_send sample_request) (sample_brain busy_bus))))
     = [turn_of (channel_send sample_request) ''k'']"
  by code_simp

theorem channel_turns_rejected_witness:
  "turns_sent ''s:turn:0'' (bl_bus (snd (handleSessionSend answering_env (channel_send sample_request) (sample_brain busy_bus))))
     = [turn_of (channel_send sample_request) ''k'']
   \<and> \<not> sessionTurnSchema (\<lambda>_. True) (turn_of (channel_send sample_request) ''k'')"
proof -
  have 0: "turns_sent (br_requestId sample_request) (bl_bus (sample_brain busy_bus)) = []" by code_simp
  have "turn_of (channel_send sample_request) ''k''
      \<in> set (turns_sent (br_requestId sample_request) (bl_bus (snd (handleSessionSend answering_env (channel_send sample_request) (sample_brain busy_bus)))))"
    using channel_turn_sent by (simp add: sample_request_def)
  from channel_turns_rejected [OF stable_answering 0 surjective_pairing this] channel_turn_sent show ?thesis by blast
qed

definition client_edge :: edge_server where
  "client_edge = quiet_edge\<lparr>ed_bus := busy_bus\<rparr>"

lemma client_turn_sent:
  "turns_sent ''s:turn:0'' (bl_bus (snd (handleSessionSend answering_env (sample_send (Some ''hello'') None) (sample_brain busy_bus))))
     = [turn_of (sample_send (Some ''hello'') None) ''k'']"
  by code_simp

lemma client_message_sent:
  "new_messages client_edge (handleClientMessage sample_edge_env ''c'' ''o'' ''u'' (ClientSend ''s'' ''hello'' None None) client_edge)
     = [MsgSend (sample_send (Some ''hello'') None)]"
  by code_simp

theorem client_text_reaches_executor_witness:
  "tu_message (turn_of (sample_send (Some ''hello'') None) ''k'') = ''hello''"
proof -
  let ?m = "sample_send (Some ''hello'') None"
  have 1: "MsgSend ?m \<in> set (new_messages client_edge
      (handleClientMessage sample_edge_env ''c'' ''o'' ''u'' (ClientSend ''s'' ''hello'' None None) client_edge))"
    by (simp only: client_message_sent) simp
  have 2: "turns_sent (sq_requestId ?m) (bl_bus (sample_brain busy_bus)) = []" by code_simp
  have 3: "turn_of ?m ''k'' \<in> set (turns_sent (sq_requestId ?m) (bl_bus (snd (handleSessionSend answering_env ?m (sample_brain busy_bus)))))"
    using client_turn_sent by (simp add: sample_send_def)
  from client_text_reaches_executor [OF 1 stable_answering 2 surjective_pairing 3] show ?thesis .
qed

subsection \<open>Cancelling\<close>

lemma loop_one: "bl_bus (snd (brainLoop en [m] s)) = bl_bus (snd (handleMessage en m s))"
  by (simp add: h_then_def h_bind_def h_return_def split: prod.splits sum.splits)

text \<open>
  A turn cannot be cancelled: a brain handles its messages one after the other and the entry of a
  running turn is gone when its message has been handled, so whatever messages a brain has handled,
  and whatever the others did, the request to cancel a session's turn finds no turn: it changes
  nothing, and sends nothing to the executor.
\<close>
theorem cancel_never_acts:
  assumes "bl_turns s = []" and "brainLoop en ms s = (r, s')"
  shows "handleSessionCancel en org sid s' = (Inr (), s')"
proof -
  have "bl_turns s' = []" using keepsD [OF turns_loop _ assms(2)] assms(1) by (simp add: turns_of_def)
  then show ?thesis by (simp add: handleSessionCancel_def handler_defs)
qed

theorem cancel_never_acts_witness:
  "turns_sent ''s:turn:0'' (bl_bus (snd (brainLoop answering_env [MsgSend (sample_send (Some ''hello'') None)] (sample_brain busy_bus)))) \<noteq> []
   \<and> handleSessionCancel answering_env ''o'' ''s'' (snd (brainLoop answering_env [MsgSend (sample_send (Some ''hello'') None)] (sample_brain busy_bus)))
     = (Inr (), snd (brainLoop answering_env [MsgSend (sample_send (Some ''hello'') None)] (sample_brain busy_bus)))"
proof -
  have "bl_turns (sample_brain busy_bus) = []" by (simp add: sample_brain_def)
  from cancel_never_acts [OF this surjective_pairing] show ?thesis using client_turn_sent by (simp add: loop_one del: brainLoop.simps)
qed

section \<open>Executors\<close>

lemma fresh_set: "0 < ttl \<Longrightarrow> fresh (gb_now w) (gb_replies (set_reply rid v ttl w)) rid = Some v"
  by (simp add: fresh_def set_reply_def jget_jset)

lemma route_bus [simp]: "gb_replies (ed_bus (writeExecutorRoute ee x ed)) = gb_replies (ed_bus ed)"
  "gb_now (ed_bus (writeExecutorRoute ee x ed)) = gb_now (ed_bus ed)"
  "gb_results (ed_bus (writeExecutorRoute ee x ed)) = gb_results (ed_bus ed)"
  by (simp_all add: writeExecutorRoute_def on_edge_bus_def)

lemma tool_answer_fields:
  "jget (status_field failed # opt_field ''output'' out @ opt_field ''error'' e @ opt_field ''workspace'' ws) ''status''
    = Some (JStr (if failed then ''failed'' else ''succeeded''))"
  "jget (status_field failed # opt_field ''output'' out @ opt_field ''error'' e @ opt_field ''workspace'' ws) ''output'' = out"
  by (cases out; cases e; cases ws; simp add: status_field_def opt_field_def)+

text \<open>
  Any executor answers any request: the edge does not compare a tool result with the executor the
  request was sent to, nor does it wait for the brain.  Whatever executor is connected, of whatever
  organization, and whatever request it names, a worker that asks for a result not yet stored is given
  the status and output this executor sent, and so is one that waits for a synchronous dispatch.
\<close>
theorem any_executor_answers_any_request:
  assumes "ed' = handleExecutorMessage ee sock x (ToolResult rid failed out err ws) ed"
    and "0 < ee_resultsTtlSec ee" and "token_ok ee token" and "10 \<le> length rid" and "stored_result rid (ed_bus ed) = None"
  shows "\<exists>v. resultsEndpoint ee token rid (ed_bus ed') = (200, v) \<and> dispatchAnswer rid (ed_bus ed') = (200, v)
    \<and> get_property v ''status'' = Some (JStr (if failed then ''failed'' else ''succeeded'')) \<and> get_property v ''output'' = out"
proof -
  let ?x = "x\<lparr>ex_lastSeenAtMs := gb_now (ed_bus ed)\<rparr>"
  let ?ed = "writeExecutorRoute ee ?x (ed\<lparr>ed_sockets := jset sock ?x (ed_sockets ed)\<rparr>)"
  define v where "v = JObj (status_field failed # opt_field ''output'' out @ opt_field ''error'' (opt_text err)
      @ opt_field ''workspace'' (if truthyJ ws then ws else None))"
  have bus: "ed_bus ed' = set_reply rid v (ee_resultsTtlSec ee) (ed_bus ?ed)"
    by (simp add: assms(1) v_def Let_def reply_with_def)
  have now: "gb_now (ed_bus ed') = gb_now (ed_bus ed)" by (simp add: bus set_reply_def)
  have f: "fresh (gb_now (ed_bus ed')) (gb_replies (ed_bus ed')) rid = Some v"
    using fresh_set [OF assms(2), of "ed_bus ?ed"] by (simp add: bus set_reply_def)
  have st: "stored_result rid (ed_bus ed') = None"
    using assms(5) by (simp add: stored_result_def bus set_reply_def)
  have o: "is_object v" by (simp add: is_object_def v_def)
  have "get_property v ''status'' = Some (JStr (if failed then ''failed'' else ''succeeded''))"
    by (simp only: v_def get_property_def json.case tool_answer_fields)
  moreover have "get_property v ''output'' = out" by (simp only: v_def get_property_def json.case tool_answer_fields)
  moreover have "resultsEndpoint ee token rid (ed_bus ed') = (200, v)"
    using f st o assms(3,4) by (simp add: resultsEndpoint_def)
  moreover have "dispatchAnswer rid (ed_bus ed') = (200, v)"
    using f o by (simp add: dispatchAnswer_def waitForReply_def)
  ultimately show ?thesis by blast
qed

theorem any_executor_answers_any_request_witness:
  "\<exists>v. resultsEndpoint sample_edge_env (Some ''t'') ''run:node:1''
      (ed_bus (handleExecutorMessage sample_edge_env ''z'' sample_executor (ToolResult ''run:node:1'' False (Some (JNum 7)) None None) quiet_edge)) = (200, v)
    \<and> get_property v ''output'' = Some (JNum 7)"
proof -
  have "0 < ee_resultsTtlSec sample_edge_env" "token_ok sample_edge_env (Some ''t'')" "10 \<le> length ''run:node:1''"
    "stored_result ''run:node:1'' (ed_bus quiet_edge) = None"
    by (simp_all add: sample_defs token_ok_def stored_result_def fresh_def)
  from any_executor_answers_any_request [OF refl this, of "''z''" sample_executor False "Some (JNum 7)" None None]
  show ?thesis by blast
qed

lemma turn_event_tool_call:
  assumes "be_streamV1 en" and "xv_kind v = ''tool_call''" and "be_others en = (\<lambda>w. w)"
  shows "\<exists>c k p. handleSessionTurnEvent en rid org sid v s
    = appendAndBroadcast en org sid ''tool_call'' k (Some (''stream:'' @ rid @ '':tool_call:'' @ int_text (xv_seq v))) p
        (s\<lparr>bl_bus := broadcast sid c (bl_bus s)\<rparr>)"
proof -
  have "handleSessionTurnEvent en rid org sid v s
    = appendAndBroadcast en org sid ''tool_call'' (normalizeEventLevel (xv_level v))
        (Some (''stream:'' @ rid @ '':'' @ ''tool_call'' @ '':'' @ int_text (xv_seq v)))
        (Some (JObj [(''requestId'', JStr rid), (''stream'', event_json v)]))
        (s\<lparr>bl_bus := broadcast sid (CliStream rid (xv_seq v) ''tool_call'' (normalizeEventLevel (xv_level v)) (xv_message v)
           (xv_payload v) (qq (xv_ts v) (gb_now (bl_bus s)))) (bl_bus s)\<rparr>)"
    using assms by (simp add: handleSessionTurnEvent_def normalizeSessionStreamKind_def stream_event_type_def Let_def
      h_then_def h_bind_def bus_do_def on_bus_def)
  then show ?thesis by auto
qed

lemma broadcast_rows [simp]:
  "db_getAgentSessionById org sid' (broadcast sid c w) = db_getAgentSessionById org sid' w" "gb_log (broadcast sid c w) = gb_log w"
  by (simp_all add: broadcast_def db_getAgentSessionById_def)

lemma appendAndBroadcast_appends:
  assumes "be_others en = (\<lambda>w. w)" and "db_getAgentSessionById org sid (bl_bus s) \<noteq> None"
    and "logged_before org sid key (gb_log (bl_bus s)) = None"
  shows "\<exists>row s'. appendAndBroadcast en org sid t l key p s = (Inr (), s') \<and> gb_log (bl_bus s') = gb_log (bl_bus s) @ [row]
    \<and> lg_organizationId row = org \<and> lg_sessionId row = sid \<and> lg_eventType row = t"
  using assms by (simp add: appendAndBroadcast_def appendSessionLog_def h_bind_def bus_do_def on_bus_def db_appendEvent_def Let_def on_session_def)

lemma appendAndBroadcast_fails:
  assumes "be_others en = (\<lambda>w. w)" and "db_getAgentSessionById org sid (bl_bus s) = None"
    and "logged_before org sid key (gb_log (bl_bus s)) = None"
  shows "appendAndBroadcast en org sid t l key p s = (Inl ''AGENT_SESSION_NOT_FOUND'', s)"
  using assms by (simp add: appendAndBroadcast_def appendSessionLog_def h_bind_def on_bus_def db_appendEvent_def)

text \<open>
  An executor writes into the log of any organization: the edge passes the organization and session
  an executor names in a turn event on to the brain, which appends the event to that session's log,
  whatever organization the executor belongs to and whether or not it runs a turn of the session.
\<close>
theorem executor_writes_into_any_log:
  assumes "ee_streamV1 ee" and "be_streamV1 en" and "xv_kind v = ''tool_call''"
    and "be_others en = (\<lambda>w. w)" and "db_getAgentSessionById org sid (ed_bus ed) \<noteq> None"
    and "logged_before org sid (Some (''stream:'' @ rid @ '':tool_call:'' @ int_text (xv_seq v))) (gb_log (ed_bus ed)) = None"
    and "ed' = handleExecutorMessage ee sock x (TurnEvent rid org sid v) ed" and "bl_bus s = ed_bus ed'"
    and "brainLoop en (new_messages ed ed') s = (r, s')"
  shows "r = Inr () \<and> (\<exists>row. gb_log (bl_bus s') = gb_log (ed_bus ed) @ [row] \<and> lg_organizationId row = org
    \<and> lg_sessionId row = sid \<and> lg_eventType row = ''tool_call'')"
proof -
  have msgs: "new_messages ed ed' = [MsgTurnEvent rid org sid v]"
    using assms(1,7) by (simp add: new_messages_def)
  have bus: "bl_bus s = (ed_bus ed)\<lparr>gb_toBrain := gb_toBrain (ed_bus ed) @ [MsgTurnEvent rid org sid v]\<rparr>"
    using assms(1,7,8) by simp
  obtain c k p where e: "handleSessionTurnEvent en rid org sid v s
      = appendAndBroadcast en org sid ''tool_call'' k (Some (''stream:'' @ rid @ '':tool_call:'' @ int_text (xv_seq v))) p
          (s\<lparr>bl_bus := broadcast sid c (bl_bus s)\<rparr>)"
    using turn_event_tool_call [OF assms(2-4)] by blast
  have same: "db_getAgentSessionById org sid (bl_bus s) = db_getAgentSessionById org sid (ed_bus ed)" "gb_log (bl_bus s) = gb_log (ed_bus ed)"
    by (simp_all add: bus db_getAgentSessionById_def)
  show ?thesis
    using assms(9) appendAndBroadcast_appends [OF assms(4), of org sid "s\<lparr>bl_bus := broadcast sid c (bl_bus s)\<rparr>"
      "Some (''stream:'' @ rid @ '':tool_call:'' @ int_text (xv_seq v))" "''tool_call''" k p] assms(5,6)
    unfolding msgs by (auto simp: e same h_then_def h_bind_def h_return_def)
qed

theorem executor_writes_into_any_log_witness:
  "ex_organizationId sample_executor \<noteq> Some ''o'' \<and> (\<exists>s' row. gb_log (bl_bus s') = [row] \<and> lg_organizationId row = ''o''
    \<and> snd (brainLoop quiet_env [MsgTurnEvent ''q'' ''o'' ''s'' sample_event] (sample_brain (ed_bus
        (handleExecutorMessage sample_edge_env ''z'' sample_executor (TurnEvent ''q'' ''o'' ''s'' sample_event) quiet_edge)))) = s')"
proof -
  let ?ed = "handleExecutorMessage sample_edge_env ''z'' sample_executor (TurnEvent ''q'' ''o'' ''s'' sample_event) quiet_edge"
  let ?run = "brainLoop quiet_env (new_messages quiet_edge ?ed) (sample_brain (ed_bus ?ed))"
  have n: "new_messages quiet_edge ?ed = [MsgTurnEvent ''q'' ''o'' ''s'' sample_event]"
    by (simp add: new_messages_def sample_defs)
  have h: "ee_streamV1 sample_edge_env" "be_streamV1 quiet_env" "xv_kind sample_event = ''tool_call''" "be_others quiet_env = (\<lambda>w. w)"
    "db_getAgentSessionById ''o'' ''s'' (ed_bus quiet_edge) \<noteq> None"
    "logged_before ''o'' ''s'' (Some (''stream:'' @ ''q'' @ '':tool_call:'' @ int_text (xv_seq sample_event))) (gb_log (ed_bus quiet_edge)) = None"
    by (simp_all add: sample_defs db_getAgentSessionById_def is_session_def logged_before_def)
  have e: "bl_bus (sample_brain (ed_bus ?ed)) = ed_bus ?ed" by (simp add: sample_brain_def)
  from executor_writes_into_any_log [OF h refl e surjective_pairing] n
  obtain row where "gb_log (bl_bus (snd ?run)) = [row]" "lg_organizationId row = ''o''" by (auto simp: sample_defs)
  then show ?thesis unfolding n by (simp add: sample_executor_def)
qed

text \<open>
  An executor stops a brain: a turn event that names a session the organization does not have makes
  the brain's loop end with an exception, so none of the messages that follow are handled.
\<close>
theorem unknown_session_stops_brain:
  assumes "be_streamV1 en" and "xv_kind v = ''tool_call''" and "be_others en = (\<lambda>w. w)"
    and "db_getAgentSessionById org sid (bl_bus s) = None"
    and "logged_before org sid (Some (''stream:'' @ rid @ '':tool_call:'' @ int_text (xv_seq v))) (gb_log (bl_bus s)) = None"
  shows "\<exists>s'. \<forall>ms. brainLoop en (MsgTurnEvent rid org sid v # ms) s = (Inl ''AGENT_SESSION_NOT_FOUND'', s')"
proof -
  obtain c k p where "handleSessionTurnEvent en rid org sid v s
      = appendAndBroadcast en org sid ''tool_call'' k (Some (''stream:'' @ rid @ '':tool_call:'' @ int_text (xv_seq v))) p
          (s\<lparr>bl_bus := broadcast sid c (bl_bus s)\<rparr>)"
    using turn_event_tool_call [OF assms(1-3)] by blast
  then have "handleSessionTurnEvent en rid org sid v s
      = (Inl ''AGENT_SESSION_NOT_FOUND'', s\<lparr>bl_bus := broadcast sid c (bl_bus s)\<rparr>)"
    using appendAndBroadcast_fails [OF assms(3)] assms(4,5) by simp
  then show ?thesis by (simp add: h_then_def h_bind_def)
qed

theorem unknown_session_stops_brain_witness:
  "\<exists>s'. brainLoop quiet_env [MsgTurnEvent ''q'' ''o'' ''nowhere'' sample_event, MsgReset ''o'' ''s'' ''keep_history''] (sample_brain sample_bus)
     = (Inl ''AGENT_SESSION_NOT_FOUND'', s')"
proof -
  have "be_streamV1 quiet_env" "xv_kind sample_event = ''tool_call''" "be_others quiet_env = (\<lambda>w. w)"
    "db_getAgentSessionById ''o'' ''nowhere'' (bl_bus (sample_brain sample_bus)) = None"
    "logged_before ''o'' ''nowhere'' (Some (''stream:'' @ ''q'' @ '':tool_call:'' @ int_text (xv_seq sample_event))) (gb_log (bl_bus (sample_brain sample_bus))) = None"
    by (simp_all add: sample_defs db_getAgentSessionById_def is_session_def logged_before_def)
  from unknown_session_stops_brain [OF this] show ?thesis by blast
qed

end
