(* ===== verification/Scheduler.thy ===== *)
theory Scheduler
  imports StoreWorkflows
begin

text \<open>
  The scheduler (\<open>apps/scheduler/src/main.ts\<close>): it polls for subscriptions that are due and starts their
  workflows, with the functions of \<open>packages/db/src/repositories.ts\<close> it calls.  A subscription is handled in
  steps, each of which is one transaction or one access to the queue; several schedulers may run, so
  the steps are interleaved.  Step number \<open>n\<close> reads the clock \<open>sv_clock n\<close> and draws the identifier
  \<open>sv_uuid n\<close>.  Log lines, the shutdown and failures of the database are left out.
\<close>

text \<open>
  Cron expressions as the scheduler reads them (\<open>apps/scheduler/src/main.ts\<close>): parsing the five fields,
  matching a moment, and the search for the next one.  A \<open>Date\<close> is its number of milliseconds; its
  fields in UTC are computed with the proleptic Gregorian calendar, as ECMAScript does.  The
  parameter \<open>num\<close> is \<open>Number(s)\<close> where that is an integer, \<open>None\<close> where it is not.
\<close>

section \<open>UTC fields of a date\<close>

definition getUTCMinutes :: "timestamp \<Rightarrow> int" where
  "getUTCMinutes t = t div 60000 mod 60"

definition getUTCHours :: "timestamp \<Rightarrow> int" where
  "getUTCHours t = t div 3600000 mod 24"

definition getUTCDay :: "timestamp \<Rightarrow> int" where
  \<comment> \<open>the day of the week, Sunday is 0; the epoch was a Thursday\<close>
  "getUTCDay t = (t div 86400000 + 4) mod 7"

definition day_of_era :: "timestamp \<Rightarrow> int" where
  \<comment> \<open>days since a first of March of a year divisible by 400, within the period of 400 years\<close>
  "day_of_era t = (t div 86400000 + 719468) mod 146097"

definition day_of_year :: "timestamp \<Rightarrow> int" where
  \<comment> \<open>counted from the first of March\<close>
  "day_of_year t = (let d = day_of_era t; y = (d - d div 1460 + d div 36524 - d div 146096) div 365
     in d - (365 * y + y div 4 - y div 100))"

definition getUTCMonth :: "timestamp \<Rightarrow> int" where
  \<comment> \<open>January is 0\<close>
  "getUTCMonth t = ((5 * day_of_year t + 2) div 153 + 2) mod 12"

definition getUTCDate :: "timestamp \<Rightarrow> int" where
  "getUTCDate t = (let n = day_of_year t; m = (5 * n + 2) div 153 in n - (153 * m + 2) div 5 + 1)"

section \<open>Parsing\<close>

record cron_field =
  cf_values :: "int list"
  cf_wildcard :: bool

record parsed_cron =
  pc_minute :: cron_field
  pc_hour :: cron_field
  pc_dayOfMonth :: cron_field
  pc_month :: cron_field
  pc_dayOfWeek :: cron_field

definition steps :: "int \<Rightarrow> int \<Rightarrow> int \<Rightarrow> int list" where
  \<comment> \<open>\<open>for (let value = start; value <= end; value += step)\<close>\<close>
  "steps start end step = (if start \<le> end then map (\<lambda>k. start + int k * step) [0..<Suc (nat ((end - start) div step))] else [])"

definition parseFieldPart :: "(string \<Rightarrow> int option) \<Rightarrow> string \<Rightarrow> int \<Rightarrow> int \<Rightarrow> int list option" where
  "parseFieldPart num part lo hi =
     (let trimmed = trim part in
      if trimmed = '''' then None
      else
        (case splitOn (CHR ''/'') trimmed of
           [] \<Rightarrow> None
         | baseRaw # stepRaw \<Rightarrow>
             (case (case stepRaw of [] \<Rightarrow> Some 1 | s # _ \<Rightarrow> num s) of
                None \<Rightarrow> None
              | Some step \<Rightarrow>
                  if step \<le> 0 then None
                  else
                    (case (if baseRaw = ''*'' then Some (lo, hi)
                           else if CHR ''-'' \<in> set baseRaw then
                             (case splitOn (CHR ''-'') baseRaw of
                                startRaw # endRaw # _ \<Rightarrow>
                                  (case (num startRaw, num endRaw) of
                                     (Some a, Some b) \<Rightarrow> if b < a then None else Some (a, b) | _ \<Rightarrow> None)
                              | _ \<Rightarrow> None)
                           else map_option (\<lambda>a. (a, a)) (num baseRaw)) of
                       None \<Rightarrow> None
                     | Some (start, end) \<Rightarrow> if start < lo \<or> hi < end then None else Some (steps start end step)))))"

fun parseParts :: "(string \<Rightarrow> int option) \<Rightarrow> int \<Rightarrow> int \<Rightarrow> (int \<Rightarrow> int) \<Rightarrow> string list \<Rightarrow> int list option" where
  \<comment> \<open>the loop of \<open>parseCronField\<close>\<close>
  "parseParts num lo hi adjust [] = Some []"
| "parseParts num lo hi adjust (part # parts) =
     (case parseFieldPart num part lo hi of
        None \<Rightarrow> None
      | Some parsed \<Rightarrow>
          if list_ex (\<lambda>v. adjust v < lo \<or> hi < adjust v) parsed then None
          else map_option (\<lambda>vs. map adjust parsed @ vs) (parseParts num lo hi adjust parts))"

definition parseCronField :: "(string \<Rightarrow> int option) \<Rightarrow> string \<Rightarrow> int \<Rightarrow> int \<Rightarrow> (int \<Rightarrow> int) \<Rightarrow> cron_field option" where
  "parseCronField num raw lo hi adjust =
     map_option (\<lambda>vs. \<lparr>cf_values = vs, cf_wildcard = (trim raw = ''*'')\<rparr>) (parseParts num lo hi adjust (splitOn (CHR '','') raw))"

function splitSpaces :: "string \<Rightarrow> string list" where
  \<comment> \<open>\<open>s.split(/\s+/)\<close>\<close>
  "splitSpaces [] = ['''']"
| "splitSpaces (c # cs) =
     (if is_space c then '''' # splitSpaces (dropWhile is_space cs)
      else (case splitSpaces cs of [] \<Rightarrow> [[c]] | w # ws \<Rightarrow> (c # w) # ws))"
  by pat_completeness auto
termination by (relation "measure length") (auto simp: le_imp_less_Suc length_dropWhile_le)

definition parseCronExpression :: "(string \<Rightarrow> int option) \<Rightarrow> string \<Rightarrow> parsed_cron option" where
  "parseCronExpression num expression =
     (case splitSpaces (trim expression) of
        [a, b, c, d, e] \<Rightarrow>
          (case (parseCronField num a 0 59 id, parseCronField num b 0 23 id, parseCronField num c 1 31 id, parseCronField num d 1 12 id,
                 parseCronField num e 0 6 (\<lambda>v. if v = 7 then 0 else v)) of
             (Some minute, Some hour, Some dayOfMonth, Some month, Some dayOfWeek) \<Rightarrow>
               Some \<lparr>pc_minute = minute, pc_hour = hour, pc_dayOfMonth = dayOfMonth, pc_month = month, pc_dayOfWeek = dayOfWeek\<rparr>
           | _ \<Rightarrow> None)
      | _ \<Rightarrow> None)"

section \<open>Matching\<close>

definition cronFieldMatches :: "cron_field \<Rightarrow> int \<Rightarrow> bool" where
  "cronFieldMatches field v \<longleftrightarrow> v \<in> set (cf_values field)"

definition cronDayMatches :: "cron_field \<Rightarrow> cron_field \<Rightarrow> timestamp \<Rightarrow> bool" where
  "cronDayMatches dayOfMonth dayOfWeek t =
     (let dayOfMonthMatch = cronFieldMatches dayOfMonth (getUTCDate t); dayOfWeekMatch = cronFieldMatches dayOfWeek (getUTCDay t) in
      if cf_wildcard dayOfMonth \<and> cf_wildcard dayOfWeek then True
      else if cf_wildcard dayOfMonth then dayOfWeekMatch
      else if cf_wildcard dayOfWeek then dayOfMonthMatch
      else dayOfMonthMatch \<or> dayOfWeekMatch)"

definition cronMatches :: "parsed_cron \<Rightarrow> timestamp \<Rightarrow> bool" where
  "cronMatches p t \<longleftrightarrow> cronFieldMatches (pc_minute p) (getUTCMinutes t) \<and> cronFieldMatches (pc_hour p) (getUTCHours t)
     \<and> cronFieldMatches (pc_month p) (getUTCMonth t + 1) \<and> cronDayMatches (pc_dayOfMonth p) (pc_dayOfWeek p) t"

section \<open>The next moment\<close>

fun scan :: "parsed_cron \<Rightarrow> timestamp \<Rightarrow> nat \<Rightarrow> timestamp option" where
  \<comment> \<open>the loop of \<open>nextCronFireAt\<close> with the iterations it has left\<close>
  "scan p candidate 0 = None"
| "scan p candidate (Suc n) = (if cronMatches p candidate then Some candidate else scan p (candidate + 60000) n)"

definition maxIterations :: nat where
  "maxIterations = 1051200"

definition nextCronFireAt :: "(string \<Rightarrow> int option) \<Rightarrow> string \<Rightarrow> timestamp \<Rightarrow> timestamp option" where
  "nextCronFireAt num expression t =
     (case parseCronExpression num expression of
        None \<Rightarrow> None
      | Some p \<Rightarrow> scan p (t - t mod 60000 + 60000) maxIterations)"

definition computeHeartbeatNextFireAt :: "(int \<Rightarrow> int) \<Rightarrow> timestamp \<Rightarrow> int \<Rightarrow> int \<Rightarrow> timestamp" where
  \<comment> \<open>\<open>jitter m\<close> is \<open>Math.floor(Math.random() * (m + 1))\<close>\<close>
  "computeHeartbeatNextFireAt jitter base intervalSec jitterSec =
     base + max 1 intervalSec * 1000 + (if jitterSec \<le> 0 then 0 else jitter jitterSec) * 1000"

section \<open>What they compute\<close>

lemma scan_first:
  "scan p c n = Some t \<longleftrightarrow> (\<exists>k<n. t = c + 60000 * int k \<and> cronMatches p t \<and> (\<forall>j<k. \<not> cronMatches p (c + 60000 * int j)))"
proof (induction n arbitrary: c)
  case (Suc n)
  show ?case
  proof (cases "cronMatches p c")
    case True
    then show ?thesis by (auto simp: less_Suc_eq_0_disj)
  next
    case False
    have shift: "c + 60000 + 60000 * int k = c + 60000 * int (Suc k)" for k by simp
    show ?thesis using False
      by (auto simp add: Suc.IH Ex_less_Suc2 All_less_Suc2 shift simp del: of_nat_Suc)
  qed
qed simp

lemma whole_minutes:
  fixes t0 u :: int
  shows "t0 < u \<and> 60000 dvd u \<longleftrightarrow> (\<exists>k. u = t0 - t0 mod 60000 + 60000 + 60000 * int k)"
proof
  assume u: "t0 < u \<and> 60000 dvd u"
  then obtain q where q: "u = 60000 * q" by (auto simp: dvd_def)
  have f: "t0 = 60000 * (t0 div 60000) + t0 mod 60000" by simp
  have "t0 div 60000 < q" using u q f by (smt (verit) pos_mod_sign)
  then have "u = t0 - t0 mod 60000 + 60000 + 60000 * int (nat (q - t0 div 60000 - 1))" using q by (simp add: minus_mod_eq_mult_div)
  then show "\<exists>k. u = t0 - t0 mod 60000 + 60000 + 60000 * int k" by blast
next
  assume "\<exists>k. u = t0 - t0 mod 60000 + 60000 + 60000 * int k"
  then obtain k where k: "u = t0 - t0 mod 60000 + 60000 + 60000 * int k" by blast
  have "u = 60000 * (t0 div 60000 + 1 + int k)" using k by (simp add: minus_mod_eq_mult_div algebra_simps)
  moreover have "t0 < u" using k by (smt (verit) pos_mod_bound of_nat_0_le_iff)
  ultimately show "t0 < u \<and> 60000 dvd u" by simp
qed

lemma steps_set: "0 < step \<Longrightarrow> set (steps start end step) = {v. start \<le> v \<and> v \<le> end \<and> step dvd v - start}"
proof -
  assume step: "0 < step"
  have "(\<exists>k. v = start + int k * step \<and> k < Suc (nat ((end - start) div step))) \<longleftrightarrow> start \<le> v \<and> v \<le> end \<and> step dvd v - start"
    if "start \<le> end" for v
  proof
    assume "\<exists>k. v = start + int k * step \<and> k < Suc (nat ((end - start) div step))"
    then obtain k where k: "v = start + int k * step" "k \<le> nat ((end - start) div step)" by (auto simp: less_Suc_eq_le)
    have "0 \<le> (end - start) div step" using that step by (simp add: pos_imp_zdiv_nonneg_iff)
    with k(2) have "int k \<le> (end - start) div step" by linarith
    then have "int k * step \<le> (end - start) div step * step" using step by (simp add: mult_right_mono)
    also have "\<dots> \<le> end - start" using pos_mod_sign [OF step, of "end - start"] by (simp add: minus_mod_eq_div_mult [symmetric])
    finally have "int k * step \<le> end - start" .
    then show "start \<le> v \<and> v \<le> end \<and> step dvd v - start" using k(1) step by simp
  next
    assume v: "start \<le> v \<and> v \<le> end \<and> step dvd v - start"
    then obtain q where q: "v - start = step * q" by (auto simp: dvd_def)
    have q0: "0 \<le> q" using v q step by (smt (verit) zero_le_mult_iff)
    have "q \<le> (end - start) div step" using v q step by (smt (verit) zdiv_mono1 nonzero_mult_div_cancel_left)
    then have "v = start + int (nat q) * step \<and> nat q < Suc (nat ((end - start) div step))"
      using q q0 by (simp add: mult.commute less_Suc_eq_le nat_mono)
    then show "\<exists>k. v = start + int k * step \<and> k < Suc (nat ((end - start) div step))" by blast
  qed
  then show ?thesis by (auto simp: steps_def image_iff Bex_def conj_commute simp del: upt_Suc)
qed

section \<open>State\<close>

record sched_job =
  sj_runId :: string
  sj_organizationId :: string
  sj_workflowId :: string
  sj_requestedByUserId :: string
  sj_attempts :: int

record sched_world =
  sd_store :: wf_store
  sd_lastError :: "string option table"  \<comment> \<open>the column of the subscriptions that the API does not read\<close>
  sd_jobs :: "sched_job list"

record sched_env =
  sv_num :: "string \<Rightarrow> int option"
  sv_iso :: "timestamp \<Rightarrow> string"
  sv_clock :: "nat \<Rightarrow> timestamp"
  sv_uuid :: "nat \<Rightarrow> string"
  sv_jitter :: "nat \<Rightarrow> int \<Rightarrow> int"
  sv_queueUp :: "nat \<Rightarrow> bool"

section \<open>Repository functions\<close>

definition due_cmp :: "trigger_sub \<Rightarrow> trigger_sub \<Rightarrow> int" where
  \<comment> \<open>\<open>orderBy(asc(nextFireAt), asc(id))\<close>, nulls last\<close>
  "due_cmp a b = (let c = (case (ts_nextFireAt a, ts_nextFireAt b) of
       (Some x, Some y) \<Rightarrow> cmp_int x y | (Some _, None) \<Rightarrow> -1 | (None, Some _) \<Rightarrow> 1 | (None, None) \<Rightarrow> 0)
     in if c \<noteq> 0 then c else str_cmp (ts_id a) (ts_id b))"

definition is_due :: "timestamp \<Rightarrow> wf_store \<Rightarrow> trigger_sub \<Rightarrow> bool" where
  "is_due now s u \<longleftrightarrow> ts_enabled u
     \<and> (case jget (ws_workflows s) (ts_workflowId u) of
          None \<Rightarrow> False | Some k \<Rightarrow> wk_organizationId k = ts_organizationId u \<and> wk_status k = Published)
     \<and> ts_triggerType u \<in> {SubCron, SubHeartbeat}
     \<and> (case ts_nextFireAt u of None \<Rightarrow> True | Some t \<Rightarrow> t \<le> now)"

definition listDueWorkflowTriggerSubscriptions :: "timestamp \<Rightarrow> int \<Rightarrow> wf_store \<Rightarrow> trigger_sub list" where
  "listDueWorkflowTriggerSubscriptions now limit s =
     take (nat (min 500 (max 1 limit))) (js_sort due_cmp (filter (is_due now s) (jvalues (ws_subs s))))"

definition updateWorkflowTriggerSubscriptionSchedule :: "timestamp \<Rightarrow> string \<Rightarrow> timestamp \<Rightarrow> (timestamp \<times> string) option \<Rightarrow> string option
    \<Rightarrow> sched_world \<Rightarrow> sched_world" where
  \<comment> \<open>\<open>fired\<close> is \<open>lastTriggeredAt\<close> and \<open>lastTriggerKey\<close> where they are set\<close>
  "updateWorkflowTriggerSubscriptionSchedule clk i nextFireAt fired lastError w =
     (case jget (ws_subs (sd_store w)) i of
        None \<Rightarrow> w
      | Some u \<Rightarrow>
          (let u' = u\<lparr>ts_nextFireAt := Some nextFireAt, ts_updatedAt := clk\<rparr>;
               u'' = (case fired of None \<Rightarrow> u' | Some (t, k) \<Rightarrow> u'\<lparr>ts_lastTriggeredAt := Some t, ts_lastTriggerKey := Some k\<rparr>)
           in w\<lparr>sd_store := (sd_store w)\<lparr>ws_subs := jset i u'' (ws_subs (sd_store w))\<rparr>, sd_lastError := jset i lastError (sd_lastError w)\<rparr>))"

definition db_createWorkflowRun :: "timestamp \<Rightarrow> string \<Rightarrow> string \<Rightarrow> string \<Rightarrow> run_trigger \<Rightarrow> string \<Rightarrow> json \<Rightarrow> string \<Rightarrow> timestamp \<Rightarrow> string
    \<Rightarrow> wf_store \<Rightarrow> run_rec option \<times> wf_store" where
  \<comment> \<open>\<open>None\<close>: the insert violates \<open>workflow_runs_org_workflow_trigger_key_unique\<close>\<close>
  "db_createWorkflowRun clk i org workflowId triggerType requestedBy inp triggerKey triggeredAt triggerSource s =
     (if list_ex (\<lambda>r. rn_organizationId r = org \<and> rn_workflowId r = workflowId \<and> rn_triggerKey r = Some triggerKey) (jvalues (ws_runs s))
      then (None, s)
      else let run = \<lparr>rn_id = i, rn_organizationId = org, rn_workflowId = workflowId,
             rn_triggerType = triggerType, rn_triggerKey = Some triggerKey, rn_triggeredAt = Some triggeredAt,
             rn_triggerSource = Some triggerSource, rn_status = Queued, rn_attemptCount = 0,
             rn_maxAttempts = 3, rn_nextAttemptAt = None, rn_requestedByUserId = requestedBy,
             rn_input = inp, rn_output = JNull, rn_error = None, rn_createdAt = clk,
             rn_startedAt = None, rn_finishedAt = None, rn_blockedRequestId = None, rn_blockedNodeId = None,
             rn_blockedNodeType = None, rn_blockedKind = None, rn_blockedAt = None, rn_blockedTimeoutAt = None\<rparr>
           in (Some run, s\<lparr>ws_runs := jset i run (ws_runs s)\<rparr>))"

definition db_deleteQueuedWorkflowRun :: "string \<Rightarrow> string \<Rightarrow> string \<Rightarrow> wf_store \<Rightarrow> wf_store" where
  "db_deleteQueuedWorkflowRun org workflowId runId s =
     (case jget (ws_runs s) runId of
        None \<Rightarrow> s
      | Some r \<Rightarrow> if rn_organizationId r = org \<and> rn_workflowId r = workflowId \<and> rn_status r = Queued \<and> rn_attemptCount r = 0
          then s\<lparr>ws_runs := jdel runId (ws_runs s)\<rparr> else s)"

section \<open>Handling a subscription\<close>

datatype phase =
    Idle
  | Holding trigger_sub timestamp  \<comment> \<open>a fetched row and the time of the poll\<close>
  | Created trigger_sub timestamp run_rec
  | Refused trigger_sub timestamp run_rec  \<comment> \<open>the queue could not be reached\<close>
  | Fired trigger_sub timestamp  \<comment> \<open>queued, or found to be a duplicate\<close>

definition trigger_word :: "sub_trigger \<Rightarrow> string" where
  "trigger_word t = (case t of SubCron \<Rightarrow> ''cron'' | SubHeartbeat \<Rightarrow> ''heartbeat'' | SubWebhook \<Rightarrow> ''webhook'')"

definition triggerKey :: "sched_env \<Rightarrow> trigger_sub \<Rightarrow> timestamp \<Rightarrow> string" where
  "triggerKey en u slot = trigger_word (ts_triggerType u) @ '':'' @ ts_id u @ '':'' @ sv_iso en slot"

definition runInput :: "sched_env \<Rightarrow> trigger_sub \<Rightarrow> timestamp \<Rightarrow> json" where
  "runInput en u slot = JObj [(''__trigger'', JObj [(''type'', JStr (trigger_word (ts_triggerType u))),
     (''subscriptionId'', JStr (ts_id u)), (''scheduledAt'', JStr (sv_iso en slot))])]"

definition heartbeat :: "sched_env \<Rightarrow> nat \<Rightarrow> trigger_sub \<Rightarrow> timestamp \<Rightarrow> timestamp" where
  "heartbeat en n u base =
     computeHeartbeatNextFireAt (sv_jitter en n) base (qq (ts_heartbeatIntervalSec u) 60) (qq (ts_heartbeatJitterSec u) 0)"

definition item_start :: "sched_env \<Rightarrow> nat \<Rightarrow> trigger_sub \<Rightarrow> timestamp \<Rightarrow> sched_world \<Rightarrow> phase \<times> sched_world" where
  "item_start en n u now w =
     (let reschedule = (\<lambda>t e. updateWorkflowTriggerSubscriptionSchedule (sv_clock en n) (ts_id u) t None e w) in
      if ts_triggerType u \<notin> {SubCron, SubHeartbeat} then (Idle, w)
      else case ts_nextFireAt u of
        None \<Rightarrow>
          if ts_triggerType u = SubCron then
            (case nextCronFireAt (sv_num en) (qq (ts_cronExpr u) '''') now of
               None \<Rightarrow> (Idle, reschedule (now + 5 * 60 * 1000) (Some ''INVALID_CRON_EXPRESSION''))
             | Some t \<Rightarrow> (Idle, reschedule t None))
          else (Idle, reschedule (heartbeat en n u now) None)
      | Some slot \<Rightarrow>
          if now < slot then (Idle, w)
          else
            (case db_createWorkflowRun (sv_clock en n) (sv_uuid en n) (ts_organizationId u) (ts_workflowId u)
                (if ts_triggerType u = SubCron then RunCron else RunHeartbeat) (ts_requestedByUserId u) (runInput en u slot)
                (triggerKey en u slot) slot (''scheduler.'' @ trigger_word (ts_triggerType u)) (sd_store w) of
               (None, s) \<Rightarrow> (Fired u now, w)
             | (Some run, s) \<Rightarrow> (Created u now run, w\<lparr>sd_store := s\<rparr>)))"

definition item_queue :: "sched_env \<Rightarrow> nat \<Rightarrow> trigger_sub \<Rightarrow> timestamp \<Rightarrow> run_rec \<Rightarrow> sched_world \<Rightarrow> phase \<times> sched_world" where
  \<comment> \<open>the queue ignores a job whose id it holds\<close>
  "item_queue en n u now run w =
     (if sv_queueUp en n then
        (Fired u now,
         if rn_id run \<in> sj_runId ` set (sd_jobs w) then w
         else w\<lparr>sd_jobs := sd_jobs w @ [\<lparr>sj_runId = rn_id run, sj_organizationId = rn_organizationId run, sj_workflowId = rn_workflowId run,
           sj_requestedByUserId = rn_requestedByUserId run, sj_attempts = max 1 (rn_maxAttempts run)\<rparr>]\<rparr>)
      else (Refused u now run, w))"

definition item_drop :: "run_rec \<Rightarrow> sched_world \<Rightarrow> phase \<times> sched_world" where
  "item_drop run w = (Idle, w\<lparr>sd_store := db_deleteQueuedWorkflowRun (rn_organizationId run) (rn_workflowId run) (rn_id run) (sd_store w)\<rparr>)"

definition item_advance :: "sched_env \<Rightarrow> nat \<Rightarrow> trigger_sub \<Rightarrow> timestamp \<Rightarrow> sched_world \<Rightarrow> phase \<times> sched_world" where
  "item_advance en n u now w =
     (case ts_nextFireAt u of
        None \<Rightarrow> (Idle, w)
      | Some slot \<Rightarrow>
          (let next =
             (if ts_triggerType u = SubCron then
                (case nextCronFireAt (sv_num en) (qq (ts_cronExpr u) '''') slot of None \<Rightarrow> now + 5 * 60 * 1000 | Some t \<Rightarrow> t)
              else
                (let skewExceeded = now - slot > max 0 (qq (ts_heartbeatMaxSkewSec u) 0) * 1000
                 in heartbeat en n u (if skewExceeded then now else slot)))
           in (Idle, updateWorkflowTriggerSubscriptionSchedule (sv_clock en n) (ts_id u) next (Some (slot, triggerKey en u slot)) None w)))"

fun item_step :: "sched_env \<Rightarrow> nat \<Rightarrow> phase \<Rightarrow> sched_world \<Rightarrow> phase \<times> sched_world" where
  "item_step en n Idle w = (Idle, w)"
| "item_step en n (Holding u now) w = item_start en n u now w"
| "item_step en n (Created u now run) w = item_queue en n u now run w"
| "item_step en n (Refused u now run) w = item_drop run w"
| "item_step en n (Fired u now) w = item_advance en n u now w"

definition processDueSubscription :: "sched_env \<Rightarrow> nat \<Rightarrow> trigger_sub \<Rightarrow> timestamp \<Rightarrow> sched_world \<Rightarrow> sched_world" where
  \<comment> \<open>a scheduler on its own: three steps always end in \<open>Idle\<close>\<close>
  "processDueSubscription en n u now w =
     (case item_step en n (Holding u now) w of (p1, w1) \<Rightarrow>
      case item_step en (n + 1) p1 w1 of (p2, w2) \<Rightarrow>
      snd (item_step en (n + 2) p2 w2))"

fun process_items :: "sched_env \<Rightarrow> nat \<Rightarrow> timestamp \<Rightarrow> trigger_sub list \<Rightarrow> sched_world \<Rightarrow> nat \<times> sched_world" where
  "process_items en n now [] w = (n, w)"
| "process_items en n now (u # us) w = process_items en (n + 3) now us (processDueSubscription en n u now w)"

definition tick :: "sched_env \<Rightarrow> nat \<Rightarrow> int \<Rightarrow> timestamp \<Rightarrow> sched_world \<Rightarrow> nat \<times> sched_world" where
  \<comment> \<open>the next step number and the world\<close>
  "tick en n limit now w = process_items en n now (listDueWorkflowTriggerSubscriptions now limit (sd_store w)) w"

fun ticks :: "sched_env \<Rightarrow> nat \<Rightarrow> int \<Rightarrow> timestamp list \<Rightarrow> sched_world \<Rightarrow> sched_world" where
  "ticks en n limit [] w = w"
| "ticks en n limit (now # later) w = (case tick en n limit now w of (n', w') \<Rightarrow> ticks en n' limit later w')"

lemma three_steps: "fst (item_step en (n + 2) (fst (item_step en (n + 1) (fst (item_step en n (Holding u now) w)) w1)) w2) = Idle"
  by (auto simp: item_start_def item_queue_def item_advance_def item_drop_def Let_def split: option.splits prod.splits)

end
