(* ===== verification/SchedulerProps.thy ===== *)
theory SchedulerProps
  imports Scheduler
begin

text \<open>
  What the scheduler guarantees: the next moment of a cron expression is the first matching one, and a
  slot of a subscription is queued at most once however many schedulers run; and what it does with an
  expression it cannot read.
\<close>

section \<open>The next moment\<close>

text \<open>
  The next moment of a cron expression is the first whole minute after the given one that matches it
  in UTC; there is none when the expression does not parse or no minute of the next two years matches.
\<close>
theorem cron_next_is_first:
  "nextCronFireAt num e t0 = Some t \<longleftrightarrow>
     (\<exists>p. parseCronExpression num e = Some p \<and> t0 < t \<and> 60000 dvd t \<and> t \<le> t0 - t0 mod 60000 + 60000 * 1051200
        \<and> cronMatches p t \<and> \<not> (\<exists>u. t0 < u \<and> u < t \<and> 60000 dvd u \<and> cronMatches p u))"
proof (cases "parseCronExpression num e")
  case (Some p)
  let ?c = "t0 - t0 mod 60000 + 60000"
  have minute: "t0 < u \<and> 60000 dvd u \<longleftrightarrow> (\<exists>k. u = ?c + 60000 * int k)" for u by (rule whole_minutes)
  have "(\<exists>k<1051200. t = ?c + 60000 * int k \<and> cronMatches p t \<and> (\<forall>j<k. \<not> cronMatches p (?c + 60000 * int j)))
    \<longleftrightarrow> t0 < t \<and> 60000 dvd t \<and> t \<le> ?c + 60000 * 1051199 \<and> cronMatches p t
        \<and> \<not> (\<exists>u. t0 < u \<and> u < t \<and> 60000 dvd u \<and> cronMatches p u)" (is "?l \<longleftrightarrow> ?r")
  proof
    assume ?l
    then obtain k where k: "k < 1051200" "t = ?c + 60000 * int k" "cronMatches p t" "\<forall>j<k. \<not> cronMatches p (?c + 60000 * int j)" by blast
    have "\<not> cronMatches p u" if "t0 < u" "u < t" "60000 dvd u" for u
      using minute [of u] that k(2,4) by force
    then show ?r using minute [of t] k by auto
  next
    assume r: ?r
    then obtain k where k: "t = ?c + 60000 * int k" using minute [of t] by blast
    then have "int k \<le> 1051199" using r by linarith
    moreover have "\<not> cronMatches p (?c + 60000 * int j)" if "j < k" for j
    proof
      assume m: "cronMatches p (?c + 60000 * int j)"
      have "?c + 60000 * int j < t" using that k by simp
      then show False using r m minute [of "?c + 60000 * int j"] by blast
    qed
    ultimately show ?l using r k by (intro exI [of _ k]) auto
  qed
  then show ?thesis using Some by (simp add: nextCronFireAt_def maxIterations_def scan_first add.commute [of _ 63072000000])
qed (simp add: nextCronFireAt_def)

section \<open>Several schedulers\<close>

definition slot_of :: "run_rec \<Rightarrow> string \<times> string \<times> string option" where
  "slot_of r = (rn_organizationId r, rn_workflowId r, rn_triggerKey r)"

definition slots_unique :: "run_rec table \<Rightarrow> bool" where
  \<comment> \<open>the unique index over organization, workflow and trigger key, which ignores nulls\<close>
  "slots_unique runs \<longleftrightarrow> (\<forall>i j r r'. jget runs i = Some r \<longrightarrow> jget runs j = Some r' \<longrightarrow> slot_of r = slot_of r'
     \<longrightarrow> rn_triggerKey r \<noteq> None \<longrightarrow> i = j)"

definition outside :: "sched_env \<Rightarrow> sched_world \<Rightarrow> sched_world \<Rightarrow> bool" where
  \<comment> \<open>what API and workers may do: change the schedulers' runs but not their slots, add, change and delete runs under
    identifiers of their own, change subscriptions and workflows\<close>
  "outside en w w' \<longleftrightarrow> sd_jobs w' = sd_jobs w \<and> slots_unique (ws_runs (sd_store w'))
     \<and> (\<forall>i \<in> range (sv_uuid en). \<forall>r. jget (ws_runs (sd_store w)) i = Some r \<longrightarrow> (\<exists>r'. jget (ws_runs (sd_store w')) i = Some r' \<and> slot_of r' = slot_of r))
     \<and> (\<forall>i. jhas (ws_runs (sd_store w')) i \<longrightarrow> jhas (ws_runs (sd_store w)) i \<or> i \<notin> range (sv_uuid en))"

inductive sched_reach :: "sched_env \<Rightarrow> sched_world \<Rightarrow> nat \<Rightarrow> sched_world \<Rightarrow> phase list \<Rightarrow> bool" for en w0 where
  start: "set ps \<subseteq> {Idle} \<Longrightarrow> sched_reach en w0 0 w0 ps"
| fetch: "sched_reach en w0 n w ps \<Longrightarrow> i < length ps \<Longrightarrow> ps ! i = Idle \<Longrightarrow> sched_reach en w0 n w (ps[i := Holding u now])"
  \<comment> \<open>some copy of a subscription, which may be out of date\<close>
| step: "sched_reach en w0 n w ps \<Longrightarrow> i < length ps \<Longrightarrow> item_step en n (ps ! i) w = (p, w')
    \<Longrightarrow> sched_reach en w0 (Suc n) w' (ps[i := p])"
| others: "sched_reach en w0 n w ps \<Longrightarrow> outside en w w' \<Longrightarrow> sched_reach en w0 n w' ps"

fun held :: "phase \<Rightarrow> run_rec option" where
  "held (Created _ _ r) = Some r"
| "held (Refused _ _ r) = Some r"
| "held _ = None"

fun awaited :: "phase \<Rightarrow> run_rec option" where
  "awaited (Created _ _ r) = Some r"
| "awaited _ = None"

definition sched_inv :: "sched_env \<Rightarrow> nat \<Rightarrow> sched_world \<Rightarrow> phase list \<Rightarrow> bool" where
  "sched_inv en n w ps \<longleftrightarrow> slots_unique (ws_runs (sd_store w))
     \<and> (\<forall>m\<ge>n. \<not> jhas (ws_runs (sd_store w)) (sv_uuid en m))
     \<and> distinct (map sj_runId (sd_jobs w))
     \<and> (\<forall>j \<in> set (sd_jobs w). jhas (ws_runs (sd_store w)) (sj_runId j) \<and> sj_runId j \<in> sv_uuid en ` {..<n})
     \<and> (\<forall>i r. i < length ps \<longrightarrow> held (ps ! i) = Some r \<longrightarrow> rn_id r \<in> sv_uuid en ` {..<n} \<and> rn_id r \<notin> sj_runId ` set (sd_jobs w))
     \<and> (\<forall>i r. i < length ps \<longrightarrow> awaited (ps ! i) = Some r \<longrightarrow> jhas (ws_runs (sd_store w)) (rn_id r))
     \<and> (\<forall>i k r r'. i < length ps \<longrightarrow> k < length ps \<longrightarrow> held (ps ! i) = Some r \<longrightarrow> held (ps ! k) = Some r' \<longrightarrow> rn_id r = rn_id r' \<longrightarrow> i = k)"

lemma awaited_held: "awaited p = Some r \<Longrightarrow> held p = Some r"
  by (cases p) auto

lemma update_schedule_only [simp]:
  "ws_runs (sd_store (updateWorkflowTriggerSubscriptionSchedule clk i t f e w)) = ws_runs (sd_store w)"
  "sd_jobs (updateWorkflowTriggerSubscriptionSchedule clk i t f e w) = sd_jobs w"
  by (simp_all add: updateWorkflowTriggerSubscriptionSchedule_def Let_def split: option.split)

text \<open>The effect of a step on the runs, the jobs and the run in the scheduler's hands.\<close>

lemma item_step_effect:
  assumes "item_step en n p w = (p', w')"
  obtains (same) "ws_runs (sd_store w') = ws_runs (sd_store w)" "sd_jobs w' = sd_jobs w" "held p' = None"
  | (create) run where "held p' = Some run" "awaited p' = Some run" "rn_id run = sv_uuid en n" "rn_triggerKey run \<noteq> None"
      "ws_runs (sd_store w') = jset (sv_uuid en n) run (ws_runs (sd_store w))" "sd_jobs w' = sd_jobs w"
      "\<And>i r. jget (ws_runs (sd_store w)) i = Some r \<Longrightarrow> slot_of r \<noteq> slot_of run"
  | (queue) run j where "awaited p = Some run" "held p' = None" "ws_runs (sd_store w') = ws_runs (sd_store w)"
      "sd_jobs w' = sd_jobs w \<or> sd_jobs w' = sd_jobs w @ [j]" "sj_runId j = rn_id run"
  | (refuse) run where "held p = Some run" "held p' = Some run" "awaited p' = None" "ws_runs (sd_store w') = ws_runs (sd_store w)"
      "sd_jobs w' = sd_jobs w"
  | (drop) run where "held p = Some run" "held p' = None" "sd_jobs w' = sd_jobs w"
      "ws_runs (sd_store w') = jdel (rn_id run) (ws_runs (sd_store w)) \<or> ws_runs (sd_store w') = ws_runs (sd_store w)"
proof (cases p)
  case Idle
  then show thesis using assms same by auto
next
  case (Holding u now)
  show thesis
  proof (cases "ws_runs (sd_store w') = ws_runs (sd_store w) \<and> held p' = None")
    case True
    then show thesis using same assms Holding
      by (auto simp: item_start_def Let_def split: if_splits option.splits prod.splits)
  next
    case False
    then obtain run where r: "p' = Created u now run" "rn_id run = sv_uuid en n" "rn_triggerKey run \<noteq> None"
        "ws_runs (sd_store w') = jset (sv_uuid en n) run (ws_runs (sd_store w))" "sd_jobs w' = sd_jobs w"
        "\<not> list_ex (\<lambda>r. slot_of r = slot_of run) (jvalues (ws_runs (sd_store w)))"
      using assms Holding
      by (auto simp: item_start_def Let_def db_createWorkflowRun_def slot_of_def list_ex_iff split: if_splits option.splits)
    have "slot_of r \<noteq> slot_of run" if "jget (ws_runs (sd_store w)) i = Some r" for i r
      using r(6) that by (auto simp: list_ex_iff dest: jget_in_values)
    then show thesis using create [of run] r by auto
  qed
next
  case (Created u now run)
  then show thesis using assms queue [of run] refuse [of run]
    by (auto simp: item_queue_def split: if_splits)
next
  case (Refused u now run)
  then show thesis using assms drop [of run]
    by (auto simp: item_drop_def db_deleteQueuedWorkflowRun_def split: if_splits option.splits)
next
  case (Fired u now)
  then show thesis using assms same by (auto simp: item_advance_def Let_def split: option.splits)
qed

lemma sched_inv_step:
  assumes inj: "inj (sv_uuid en)" and inv: "sched_inv en n w ps" and i: "i < length ps" and m: "item_step en n (ps ! i) w = (p, w')"
  shows "sched_inv en (Suc n) w' (ps[i := p])"
proof -
  have unique: "slots_unique (ws_runs (sd_store w))" and fresh: "\<And>k. n \<le> k \<Longrightarrow> \<not> jhas (ws_runs (sd_store w)) (sv_uuid en k)"
    and jobs: "distinct (map sj_runId (sd_jobs w))"
    and stored: "\<And>j. j \<in> set (sd_jobs w) \<Longrightarrow> jhas (ws_runs (sd_store w)) (sj_runId j) \<and> sj_runId j \<in> sv_uuid en ` {..<n}"
    and hands: "\<And>k r. k < length ps \<Longrightarrow> held (ps ! k) = Some r \<Longrightarrow> rn_id r \<in> sv_uuid en ` {..<n} \<and> rn_id r \<notin> sj_runId ` set (sd_jobs w)"
    and waits: "\<And>k r. k < length ps \<Longrightarrow> awaited (ps ! k) = Some r \<Longrightarrow> jhas (ws_runs (sd_store w)) (rn_id r)"
    and apart: "\<And>k l r r'. k < length ps \<Longrightarrow> l < length ps \<Longrightarrow> held (ps ! k) = Some r \<Longrightarrow> held (ps ! l) = Some r' \<Longrightarrow> rn_id r = rn_id r' \<Longrightarrow> k = l"
    using inv unfolding sched_inv_def by blast+
  have new: "sv_uuid en n \<notin> sv_uuid en ` {..<n}" using inj by (auto simp: inj_eq)
  have neq: "k < length ps \<Longrightarrow> held (ps ! k) = Some r \<Longrightarrow> rn_id r \<noteq> sv_uuid en n" for k r
    using hands [of k r] new by auto
  have no_job: "k < length ps \<Longrightarrow> held (ps ! k) = Some r \<Longrightarrow> rn_id r = sj_runId x \<Longrightarrow> x \<notin> set (sd_jobs w)" for k r x
    using hands [of k r] by auto
  have more: "x \<in> sv_uuid en ` {..<n} \<Longrightarrow> x \<in> sv_uuid en ` {..<Suc n}" for x by auto
  from m show ?thesis
  proof (cases rule: item_step_effect)
    case same
    then show ?thesis using unique fresh jobs stored hands waits apart i more awaited_held
      unfolding sched_inv_def by (auto simp: nth_list_update split: if_splits)
  next
    case (create run)
    have "slots_unique (ws_runs (sd_store w'))"
      using unique create(5,7) unfolding slots_unique_def by (fastforce simp: jget_jset split: if_splits)
    then show ?thesis using create(1-6) fresh jobs stored hands waits apart i more new neq inj
      unfolding sched_inv_def by (auto simp: nth_list_update jhas_def jget_jset inj_eq split: if_splits)
  next
    case (queue run j)
    then show ?thesis using unique fresh jobs stored hands no_job waits apart i more awaited_held
      unfolding sched_inv_def by (auto simp: nth_list_update split: if_splits)
  next
    case (refuse run)
    then show ?thesis using unique fresh jobs stored hands waits apart i more
      unfolding sched_inv_def by (auto simp: nth_list_update split: if_splits)
  next
    case (drop run)
    then show ?thesis using unique fresh jobs stored hands no_job waits apart i more awaited_held
      unfolding sched_inv_def by (auto simp: nth_list_update jhas_def jget_jdel slots_unique_def split: if_splits)
  qed
qed

lemma sched_inv_reach:
  assumes "sched_reach en w0 n w ps" and "inj (sv_uuid en)" and "sd_jobs w0 = []" and "slots_unique (ws_runs (sd_store w0))"
    and "\<And>m. \<not> jhas (ws_runs (sd_store w0)) (sv_uuid en m)"
  shows "sched_inv en n w ps"
  using assms(1)
proof (induction rule: sched_reach.induct)
  case (start ps)
  have "i < length ps \<Longrightarrow> ps ! i = Idle" for i using start nth_mem by fastforce
  then show ?case using assms(3-5) by (auto simp: sched_inv_def)
next
  case (fetch n w ps i u now)
  then show ?case unfolding sched_inv_def by (auto simp: nth_list_update)
next
  case (step n w ps i p w')
  then show ?case using sched_inv_step [OF assms(2)] by blast
next
  case (others n w ps w')
  have o: "slots_unique (ws_runs (sd_store w'))" "sd_jobs w' = sd_jobs w"
    "\<And>i. jhas (ws_runs (sd_store w)) i \<Longrightarrow> i \<in> range (sv_uuid en) \<Longrightarrow> jhas (ws_runs (sd_store w')) i"
    "\<And>i. jhas (ws_runs (sd_store w')) i \<Longrightarrow> jhas (ws_runs (sd_store w)) i \<or> i \<notin> range (sv_uuid en)"
    using others.hyps(2) unfolding outside_def jhas_def by blast+
  have keep: "jhas (ws_runs (sd_store w')) i" if "jhas (ws_runs (sd_store w)) i" "i \<in> sv_uuid en ` {..<n}" for i
    using o(3) [OF that(1)] that(2) by blast
  show ?case unfolding sched_inv_def o(2)
  proof (intro conjI)
    show "\<forall>m\<ge>n. \<not> jhas (ws_runs (sd_store w')) (sv_uuid en m)"
      using others.IH o(4) unfolding sched_inv_def by blast
    show "\<forall>j\<in>set (sd_jobs w). jhas (ws_runs (sd_store w')) (sj_runId j) \<and> sj_runId j \<in> sv_uuid en ` {..<n}"
      using others.IH keep unfolding sched_inv_def by blast
    show "\<forall>i r. i < length ps \<longrightarrow> awaited (ps ! i) = Some r \<longrightarrow> jhas (ws_runs (sd_store w')) (rn_id r)"
      using others.IH keep awaited_held unfolding sched_inv_def by blast
    show "distinct (map sj_runId (sd_jobs w))"
      and "\<forall>i r. i < length ps \<longrightarrow> held (ps ! i) = Some r \<longrightarrow> rn_id r \<in> sv_uuid en ` {..<n} \<and> rn_id r \<notin> sj_runId ` set (sd_jobs w)"
      and "\<forall>i k r r'. i < length ps \<longrightarrow> k < length ps \<longrightarrow> held (ps ! i) = Some r \<longrightarrow> held (ps ! k) = Some r' \<longrightarrow> rn_id r = rn_id r' \<longrightarrow> i = k"
      using others.IH unfolding sched_inv_def by blast+
  qed (rule o(1))
qed

definition queued_for :: "sched_world \<Rightarrow> string \<times> string \<times> string option \<Rightarrow> sched_job list" where
  \<comment> \<open>the jobs the schedulers have queued for a slot\<close>
  "queued_for w slot = filter (\<lambda>j. case jget (ws_runs (sd_store w)) (sj_runId j) of None \<Rightarrow> False | Some r \<Rightarrow> slot_of r = slot) (sd_jobs w)"

section \<open>A sample\<close>

definition sched_sample :: "bool \<Rightarrow> sched_env" where
  \<comment> \<open>the queue is reached, or not\<close>
  "sched_sample up = \<lparr>sv_num = (\<lambda>_. None), sv_iso = (\<lambda>t. (if t < 0 then ''-'' else '''') @ replicate (nat \<bar>t\<bar>) (CHR ''0'')), sv_clock = int,
     sv_uuid = (\<lambda>n. replicate n (CHR ''r'')), sv_jitter = (\<lambda>n m. 0), sv_queueUp = (\<lambda>n. up)\<rparr>"

definition sample_sub :: "sub_trigger \<Rightarrow> timestamp option \<Rightarrow> trigger_sub" where
  "sample_sub ty next = \<lparr>ts_id = ''s'', ts_organizationId = ''o'', ts_workflowId = ''k'', ts_requestedByUserId = ''u'', ts_workflowRevision = 1,
     ts_triggerType = ty, ts_enabled = True, ts_cronExpr = Some ''every day'', ts_heartbeatIntervalSec = Some 60, ts_heartbeatJitterSec = None,
     ts_heartbeatMaxSkewSec = None, ts_nextFireAt = next, ts_lastTriggeredAt = None, ts_lastTriggerKey = None,
     ts_createdAt = 0, ts_updatedAt = 0\<rparr>"

definition sched_start :: "sub_trigger \<Rightarrow> timestamp option \<Rightarrow> sched_world" where
  "sched_start ty next = \<lparr>sd_store = ws_empty\<lparr>ws_workflows := [(''k'', \<lparr>wk_id = ''k'', wk_organizationId = ''o'', wk_familyId = ''k'', wk_revision = 1,
       wk_sourceWorkflowId = None, wk_name = ''w'', wk_status = Published, wk_version = 3, wk_dsl = JNull, wk_editorState = None,
       wk_createdByUserId = ''u'', wk_publishedAt = Some 0, wk_createdAt = 0, wk_updatedAt = 0\<rparr>)],
       ws_subs := [(''s'', sample_sub ty next)]\<rparr>, sd_lastError = [], sd_jobs = []\<rparr>"

lemma sample_inj: "inj (sv_uuid (sched_sample up))" "inj (sv_iso (sched_sample up))"
  by (auto simp: sched_sample_def inj_def replicate_eq_replicate nat_eq_iff abs_if Cons_replicate_eq split: if_splits dest!: sym [of "replicate _ _" "_ # _"])

text \<open>
  C40. A slot of a subscription is queued at most once: however many schedulers run, with whatever copies of
  the subscriptions, whatever accesses to the queue fail (storing nothing), and whatever API and workers do
  meanwhile, except that they neither delete the schedulers' runs nor draw their identifiers, the
  schedulers queue at most one job for an organization, a workflow and a trigger key, and every queued
  job finds its run; identifiers are fresh, and the schedulers' queue is empty at first.
\<close>
theorem slot_queued_once:
  assumes "sched_reach en w0 n w ps" and "inj (sv_uuid en)" and "sd_jobs w0 = []" and "slots_unique (ws_runs (sd_store w0))"
    and "\<And>m. \<not> jhas (ws_runs (sd_store w0)) (sv_uuid en m)"
  shows "length (queued_for w (org, workflowId, Some key)) \<le> 1 \<and> (\<forall>j \<in> set (sd_jobs w). jhas (ws_runs (sd_store w)) (sj_runId j))"
proof -
  have inv: "sched_inv en n w ps" by (rule sched_inv_reach [OF assms])
  let ?q = "queued_for w (org, workflowId, Some key)"
  have d: "distinct (map sj_runId ?q)" using inv by (simp add: sched_inv_def queued_for_def distinct_map_filter)
  have same: "sj_runId a = sj_runId b" if ab: "a \<in> set ?q" "b \<in> set ?q" for a b
  proof -
    obtain r r' where r: "jget (ws_runs (sd_store w)) (sj_runId a) = Some r" "jget (ws_runs (sd_store w)) (sj_runId b) = Some r'"
        "slot_of r = (org, workflowId, Some key)" "slot_of r' = (org, workflowId, Some key)"
      using ab by (auto simp: queued_for_def split: option.splits)
    then have "rn_triggerKey r \<noteq> None" by (simp add: slot_of_def)
    then show ?thesis using inv r unfolding sched_inv_def slots_unique_def by metis
  qed
  have "card (set (map sj_runId ?q)) \<le> 1"
  proof (cases ?q)
    case (Cons a q)
    then have "set (map sj_runId ?q) = {sj_runId a}" using same [of _ a] by fastforce
    then show ?thesis by simp
  qed simp
  then have "length ?q \<le> 1" using distinct_card [OF d] by simp
  then show ?thesis using inv by (simp add: sched_inv_def)
qed

theorem slot_queued_once_witness:
  "\<exists>w ps. sched_reach (sched_sample True) (sched_start SubHeartbeat (Some 0)) 2 w ps
     \<and> length (queued_for w (''o'', ''k'', Some ''heartbeat:s:'')) \<le> 1 \<and> map sj_runId (queued_for w (''o'', ''k'', Some ''heartbeat:s:'')) = [[]]"
proof -
  let ?en = "sched_sample True" and ?w0 = "sched_start SubHeartbeat (Some 0)" and ?u = "sample_sub SubHeartbeat (Some 0)"
  obtain p1 w1 where s1: "item_step ?en 0 (Holding ?u 0) ?w0 = (p1, w1)" by fastforce
  obtain p2 w2 where s2: "item_step ?en (Suc 0) p1 w1 = (p2, w2)" by fastforce
  have "map sj_runId (queued_for (snd (item_step ?en 1 (fst (item_step ?en 0 (Holding ?u 0) ?w0)) (snd (item_step ?en 0 (Holding ?u 0) ?w0))))
      (''o'', ''k'', Some ''heartbeat:s:'')) = [[]]" by code_simp
  then have q: "map sj_runId (queued_for w2 (''o'', ''k'', Some ''heartbeat:s:'')) = [[]]" using s1 s2 by simp
  have "sched_reach ?en ?w0 0 ?w0 [Idle]" by (rule sched_reach.start) simp
  from sched_reach.fetch [OF this, of 0 ?u 0] have "sched_reach ?en ?w0 0 ?w0 [Holding ?u 0]" by simp
  from sched_reach.step [OF this, of 0] s1 have "sched_reach ?en ?w0 1 w1 [p1]" by simp
  from sched_reach.step [OF this, of 0] s2 have r: "sched_reach ?en ?w0 2 w2 [p2]" by (simp add: numeral_2_eq_2)
  from slot_queued_once [OF r sample_inj(1), of "''o''" "''k''" "''heartbeat:s:''"] q r show ?thesis
    by (auto simp: sched_start_def ws_empty_def slots_unique_def jhas_def)
qed

text \<open>
  A slot can be lost: while one scheduler has created a run that it cannot queue, another finds the slot taken and
  moves the schedule on; then the first deletes its run.
\<close>
lemma slot_lost:
  "let en = sched_sample False; u = sample_sub SubHeartbeat (Some 0);
       (p, w) = item_step en 0 (Holding u 0) (sched_start SubHeartbeat (Some 0));
       (q, w) = item_step en 1 (Holding u 0) w; (q, w) = item_step en 2 q w;
       (p, w) = item_step en 3 p w; (p, w) = item_step en 4 p w
   in p = Idle \<and> q = Idle \<and> ws_runs (sd_store w) = [] \<and> sd_jobs w = [] \<and> map (ts_nextFireAt \<circ> snd) (ws_subs (sd_store w)) = [Some 60000]"
  by code_simp

section \<open>Expressions the scheduler cannot read\<close>

definition pumping :: "sched_env \<Rightarrow> string \<Rightarrow> timestamp \<Rightarrow> nat \<Rightarrow> sched_world \<Rightarrow> bool" where
  \<comment> \<open>the only subscription is a cron subscription due at \<open>t\<close>, all its runs are of earlier slots\<close>
  "pumping en expr t n w \<longleftrightarrow> (\<exists>u k. ws_subs (sd_store w) = [(ts_id u, u)] \<and> ts_triggerType u = SubCron \<and> ts_cronExpr u = Some expr
     \<and> ts_enabled u \<and> jget (ws_workflows (sd_store w)) (ts_workflowId u) = Some k \<and> wk_organizationId k = ts_organizationId u
     \<and> wk_status k = Published \<and> ts_nextFireAt u = Some t
     \<and> (\<forall>r \<in> set (jvalues (ws_runs (sd_store w))). \<exists>s<t. rn_triggerKey r = Some (triggerKey en u s))
     \<and> sj_runId ` set (sd_jobs w) \<subseteq> sv_uuid en ` {..<n})"

lemma due_single:
  "ws_subs s = [(i, u)] \<Longrightarrow> is_due now s u \<Longrightarrow> listDueWorkflowTriggerSubscriptions now limit s = [u]"
  by (simp add: listDueWorkflowTriggerSubscriptions_def js_sort_def)

lemma values_after_jset: "set (jvalues (jset k v m)) \<subseteq> insert v (set (jvalues m))"
  by (induction m) auto

lemma pump:
  assumes bad: "parseCronExpression (sv_num en) expr = None" and inj: "inj (sv_iso en)" "inj (sv_uuid en)"
    and up: "\<And>n. sv_queueUp en n" and w: "pumping en expr t n w" and now: "t \<le> now"
  shows "\<exists>w'. tick en n limit now w = (n + 3, w') \<and> pumping en expr (now + 300000) (n + 3) w'
    \<and> length (sd_jobs w') = Suc (length (sd_jobs w))"
proof -
  obtain u k where u: "ws_subs (sd_store w) = [(ts_id u, u)]" "ts_triggerType u = SubCron" "ts_cronExpr u = Some expr" "ts_enabled u"
      "jget (ws_workflows (sd_store w)) (ts_workflowId u) = Some k" "wk_organizationId k = ts_organizationId u" "wk_status k = Published"
      "ts_nextFireAt u = Some t"
    and keys: "\<forall>r \<in> set (jvalues (ws_runs (sd_store w))). \<exists>s<t. rn_triggerKey r = Some (triggerKey en u s)"
    and ids: "sj_runId ` set (sd_jobs w) \<subseteq> sv_uuid en ` {..<n}"
    using w unfolding pumping_def by blast
  have due: "listDueWorkflowTriggerSubscriptions now limit (sd_store w) = [u]"
    using u now by (intro due_single) (auto simp: is_due_def)
  have other: "triggerKey en u s \<noteq> triggerKey en u t" if "s < t" for s
    using that inj(1) by (auto simp: triggerKey_def inj_eq)
  then have unused: "\<not> list_ex (\<lambda>r. rn_organizationId r = ts_organizationId u \<and> rn_workflowId r = ts_workflowId u
      \<and> rn_triggerKey r = Some (triggerKey en u t)) (jvalues (ws_runs (sd_store w)))"
    using keys by (fastforce simp: list_ex_iff)
  have none: "nextCronFireAt (sv_num en) expr t = None" by (simp add: nextCronFireAt_def bad)
  have new: "sv_uuid en n \<notin> sj_runId ` set (sd_jobs w)" using ids inj(2) by (auto simp: inj_eq)
  obtain run where run: "rn_id run = sv_uuid en n" "rn_triggerKey run = Some (triggerKey en u t)"
    and s1: "item_step en n (Holding u now) w
      = (Created u now run, w\<lparr>sd_store := (sd_store w)\<lparr>ws_runs := jset (sv_uuid en n) run (ws_runs (sd_store w))\<rparr>\<rparr>)"
    using u now unused by (simp add: item_start_def db_createWorkflowRun_def Let_def)
  let ?w1 = "w\<lparr>sd_store := (sd_store w)\<lparr>ws_runs := jset (sv_uuid en n) run (ws_runs (sd_store w))\<rparr>\<rparr>"
  define j where "j = \<lparr>sj_runId = rn_id run, sj_organizationId = rn_organizationId run, sj_workflowId = rn_workflowId run,
    sj_requestedByUserId = rn_requestedByUserId run, sj_attempts = max 1 (rn_maxAttempts run)\<rparr>"
  have j: "sj_runId j = sv_uuid en n" by (simp add: j_def run)
  have s2: "item_step en (Suc n) (Created u now run) ?w1 = (Fired u now, ?w1\<lparr>sd_jobs := sd_jobs w @ [j]\<rparr>)"
    using new up run by (simp add: item_queue_def j_def)
  let ?w2 = "?w1\<lparr>sd_jobs := sd_jobs w @ [j]\<rparr>"
  let ?u = "u\<lparr>ts_nextFireAt := Some (now + 300000), ts_updatedAt := sv_clock en (Suc (Suc n)), ts_lastTriggeredAt := Some t,
    ts_lastTriggerKey := Some (triggerKey en u t)\<rparr>"
  define w' where "w' = snd (item_step en (Suc (Suc n)) (Fired u now) ?w2)"
  have w': "ws_subs (sd_store w') = [(ts_id u, ?u)]" "ws_runs (sd_store w') = jset (sv_uuid en n) run (ws_runs (sd_store w))"
    "sd_jobs w' = sd_jobs w @ [j]" "ws_workflows (sd_store w') = ws_workflows (sd_store w)"
    using u none by (simp_all add: w'_def item_advance_def updateWorkflowTriggerSubscriptionSchedule_def Let_def)
  have "tick en n limit now w = (n + 3, w')"
    by (simp add: tick_def due processDueSubscription_def s1 s2 w'_def del: item_step.simps)
  moreover have "pumping en expr (now + 300000) (n + 3) w'"
    unfolding pumping_def
  proof (intro exI [of _ ?u] exI [of _ k] conjI)
    have key: "triggerKey en ?u s = triggerKey en u s" for s by (simp add: triggerKey_def)
    show "\<forall>r \<in> set (jvalues (ws_runs (sd_store w'))). \<exists>s<now + 300000. rn_triggerKey r = Some (triggerKey en ?u s)"
    proof
      fix r assume "r \<in> set (jvalues (ws_runs (sd_store w')))"
      then have "r = run \<or> r \<in> set (jvalues (ws_runs (sd_store w)))" using w'(2) values_after_jset by fastforce
      then obtain s where "s \<le> t" "rn_triggerKey r = Some (triggerKey en u s)" using keys run(2) by (auto intro: less_imp_le)
      then show "\<exists>s<now + 300000. rn_triggerKey r = Some (triggerKey en ?u s)" using now key by (intro exI [of _ s]) auto
    qed
    show "sj_runId ` set (sd_jobs w') \<subseteq> sv_uuid en ` {..<n + 3}" 
    proof
      fix i assume "i \<in> sj_runId ` set (sd_jobs w')"
      then have "i \<in> sv_uuid en ` {..<n} \<or> i = sv_uuid en n" using w'(3) ids j by auto
      then show "i \<in> sv_uuid en ` {..<n + 3}" by auto
    qed
  qed (use u w' in auto)
  ultimately show ?thesis using w'(3) by auto
qed

lemma pump_on:
  assumes "parseCronExpression (sv_num en) expr = None" and "inj (sv_iso en)" and "inj (sv_uuid en)" and "\<And>n. sv_queueUp en n"
  shows "pumping en expr t n w \<Longrightarrow> sorted_wrt (\<lambda>a b. a + 300000 \<le> b) nows \<Longrightarrow> (nows \<noteq> [] \<longrightarrow> t \<le> hd nows)
    \<Longrightarrow> length (sd_jobs (ticks en n limit nows w)) = length nows + length (sd_jobs w)"
proof (induction nows arbitrary: t n w)
  case (Cons now nows)
  obtain w' where t: "tick en n limit now w = (n + 3, w')" and p: "pumping en expr (now + 300000) (n + 3) w'"
      and l: "length (sd_jobs w') = Suc (length (sd_jobs w))"
    using pump [OF assms Cons.prems(1), of now limit] Cons.prems(3) by auto
  have "nows \<noteq> [] \<longrightarrow> now + 300000 \<le> hd nows" using Cons.prems(2) by (cases nows) auto
  then show ?case using Cons.IH [OF p] Cons.prems(2) t l by simp
qed simp

text \<open>
  A cron trigger the scheduler cannot read runs its workflow every five minutes: the first poll stores an
  error and a moment five minutes later, and every later poll that is five minutes apart starts a run.
  The schema of workflow definitions accepts every non-empty expression.
\<close>
theorem invalid_cron_keeps_running:
  assumes "parseCronExpression (sv_num en) expr = None" and "inj (sv_iso en)" and "inj (sv_uuid en)" and "\<And>n. sv_queueUp en n"
    and "ws_subs (sd_store w) = [(ts_id u, u)]" and "ts_triggerType u = SubCron" and "ts_cronExpr u = Some expr" and "ts_nextFireAt u = None"
    and "is_due now (sd_store w) u" and "ws_runs (sd_store w) = []" and "sd_jobs w = []"
    and "sorted_wrt (\<lambda>a b. a + 300000 \<le> b) (now # later)"
  shows "length (sd_jobs (ticks en n limit (now # later) w)) = length later"
proof -
  define w' where "w' = updateWorkflowTriggerSubscriptionSchedule (sv_clock en n) (ts_id u) (now + 300000) None (Some ''INVALID_CRON_EXPRESSION'') w"
  let ?u = "u\<lparr>ts_nextFireAt := Some (now + 300000), ts_updatedAt := sv_clock en n\<rparr>"
  have "tick en n limit now w = (n + 3, w')"
    using assms(1,5-9) by (simp add: tick_def due_single processDueSubscription_def item_start_def Let_def nextCronFireAt_def w'_def)
  moreover have "sd_jobs w' = []" using assms(11) by (simp add: w'_def)
  moreover have "pumping en expr (now + 300000) (n + 3) w'"
    using assms(5-11) unfolding pumping_def w'_def
    by (intro exI [of _ ?u]) (auto simp: updateWorkflowTriggerSubscriptionSchedule_def Let_def is_due_def split: option.splits)
  moreover have "later \<noteq> [] \<longrightarrow> now + 300000 \<le> hd later" "sorted_wrt (\<lambda>a b. a + 300000 \<le> b) later"
    using assms(12) by (cases later; simp)+
  ultimately show ?thesis using pump_on [OF assms(1-4), of _ "n + 3" w' later limit] by simp
qed

theorem invalid_cron_keeps_running_witness:
  "length (sd_jobs (ticks (sched_sample True) 0 100 [0, 300000, 600000] (sched_start SubCron None))) = 2"
proof -
  have "length (sd_jobs (ticks (sched_sample True) 0 100 (0 # [300000, 600000]) (sched_start SubCron None))) = length [300000, 600000::int]"
  proof (rule invalid_cron_keeps_running [where u = "sample_sub SubCron None" and expr = "''every day''"])
    show "parseCronExpression (sv_num (sched_sample True)) ''every day'' = None" by code_simp
  qed (use sample_inj in \<open>auto simp: sched_start_def ws_empty_def sample_sub_def is_due_def sched_sample_def\<close>)
  then show ?thesis by simp
qed

end
