(* ===== verification/ApiSettings.thy ===== *)
theory ApiSettings
  imports JsonText
begin

text \<open>
  The settings of an organization (\<open>apps/api/src/server.ts\<close>): how stored settings are read
  (\<open>normalizeOrgSettings\<close>) and how a patch is merged into them, with the parts of the registries of
  providers and engines they use (\<open>packages/shared/src/llm/provider-registry.ts\<close>,
  \<open>agent-engine-registry.ts\<close>).  zod's checks of a URL and a UUID are parameters.
\<close>

section \<open>Providers and engines\<close>

definition llm_providers :: "(string \<times> string) list" where
  \<comment> \<open>ids and default models\<close>
  "llm_providers = [(''openai'', ''gpt-5.3-codex''), (''anthropic'', ''claude-3-5-sonnet-latest''), (''openai-codex'', ''gpt-5.3-codex''),
     (''opencode'', ''claude-opus-4-6''), (''google'', ''gemini-2.0-flash''), (''google-vertex'', ''gemini-2.0-flash-001''),
     (''google-antigravity'', ''gemini-3-pro-high''), (''google-gemini-cli'', ''gemini-2.5-pro''), (''zai'', ''glm-4.7''),
     (''openrouter'', ''anthropic/claude-sonnet-4-5''), (''xai'', ''grok-4''), (''groq'', ''llama-3.3-70b-versatile''),
     (''cerebras'', ''zai-glm-4.7''), (''mistral'', ''mistral-large-latest''), (''github-copilot'', ''gpt-4o''),
     (''vercel-ai-gateway'', ''anthropic/claude-opus-4.6''), (''cloudflare-ai-gateway'', ''cf/meta/llama-3.1-70b-instruct''),
     (''qwen-portal'', ''coder-model''), (''minimax'', ''MiniMax-M2.5''), (''minimax-portal'', ''MiniMax-M2.1''),
     (''moonshot'', ''kimi-k2.5''), (''kimi-coding'', ''k2p5''), (''synthetic'', ''hf:MiniMaxAI/MiniMax-M2.1''),
     (''together'', ''deepseek-ai/DeepSeek-V3''), (''huggingface'', ''deepseek-ai/DeepSeek-R1''), (''venice'', ''venice-uncensored''),
     (''qianfan'', ''deepseek-v3.2''), (''nvidia'', ''nvidia/llama-3.1-nemotron-70b-instruct''), (''ollama'', ''llama3.3''),
     (''vllm'', ''Qwen/Qwen2.5-Coder-32B-Instruct''), (''litellm'', ''gpt-4.1-mini''),
     (''amazon-bedrock'', ''anthropic.claude-3-5-sonnet-20241022-v2:0''), (''xiaomi'', ''mimo-v2-flash''), (''chutes'', ''chutes-fast''),
     (''copilot-proxy'', ''gpt-4o''), (''custom'', ''custom-model'')]"

definition provider_aliases :: "(string \<times> string) list" where
  "provider_aliases = [(''gemini'', ''google''), (''vertex'', ''google-vertex'')]"

definition inherited_members :: "(string \<times> string) list" where
  \<comment> \<open>\<open>trimmed in PROVIDER_ALIASES\<close> holds for the members every object inherits; what is found there
    is not a text, and becomes one as a property key\<close>
  "inherited_members = [(''constructor'', ''function Object() { [native code] }''), (''__proto__'', ''[object Object]'')]"

definition normalizeLlmProviderId :: "string \<Rightarrow> string option" where
  "normalizeLlmProviderId input =
     (let trimmed = toLowerCase (trim input) in
      if trimmed = '''' then None
      else case map_of (provider_aliases @ inherited_members) trimmed of
        Some p \<Rightarrow> Some p
      | None \<Rightarrow> if trimmed \<in> set (map fst llm_providers) then Some trimmed else None)"

definition session_provider :: "string \<Rightarrow> bool" where
  \<comment> \<open>\<open>providerSupportsContext(p, "session")\<close>\<close>
  "session_provider p \<longleftrightarrow> p \<in> set (map fst llm_providers) \<and> p \<notin> {''google-vertex'', ''amazon-bedrock''}"

definition getDefaultModelForProvider :: "string \<Rightarrow> string option" where
  "getDefaultModelForProvider p = map_of llm_providers p"

definition engine_ids :: "string list" where
  "engine_ids = [''gateway.codex.v2'', ''gateway.claude.v2'', ''gateway.opencode.v2'']"

definition engine_default_model :: "string \<Rightarrow> string" where
  "engine_default_model e = (if e = ''gateway.codex.v2'' then ''gpt-5-codex''
     else if e = ''gateway.claude.v2'' then ''claude-sonnet-4-20250514'' else ''claude-opus-4-6'')"

section \<open>Reading fields\<close>

definition obj_of :: "json option \<Rightarrow> (string \<times> json) list" where
  \<comment> \<open>the value when it is an object, else the empty one\<close>
  "obj_of v = qq (asObject v) []"

definition opt_json :: "string option \<Rightarrow> json" where
  "opt_json v = (case v of None \<Rightarrow> JNull | Some s \<Rightarrow> JStr s)"

definition json_path :: "json \<Rightarrow> string list \<Rightarrow> json option" where
  "json_path v ks = foldl (\<lambda>acc k. Option.bind acc (\<lambda>j. get_property j k)) (Some v) ks"

definition strict_obj :: "string list \<Rightarrow> json \<Rightarrow> (string \<times> json) list option" where
  \<comment> \<open>\<open>z.object(...).strict()\<close>: an object with no other keys\<close>
  "strict_obj ks v = (case v of JObj fs \<Rightarrow> if list_all (\<lambda>e. fst e \<in> set ks) fs then Some fs else None | _ \<Rightarrow> None)"

definition text_or_null :: "(string \<Rightarrow> bool) \<Rightarrow> json option \<Rightarrow> string option option" where
  \<comment> \<open>\<open>z.string()....nullable().optional()\<close>, null and undefined identified; \<open>None\<close> is a failure\<close>
  "text_or_null ok v = (case v of
     None \<Rightarrow> Some None
   | Some JNull \<Rightarrow> Some None
   | Some (JStr s) \<Rightarrow> if ok s then Some (Some s) else None
   | _ \<Rightarrow> None)"

section \<open>The default model\<close>

definition provider_field :: "json option \<Rightarrow> string option option" where
  "provider_field v = (case v of
     None \<Rightarrow> Some None
   | Some JNull \<Rightarrow> Some None
   | Some (JStr s) \<Rightarrow> if s = '''' then None else (case normalizeLlmProviderId s of None \<Rightarrow> None | Some p \<Rightarrow> Some (Some p))
   | _ \<Rightarrow> None)"

type_synonym primary = "string option \<times> string option \<times> string option"

definition parsePrimary :: "(string \<Rightarrow> bool) \<Rightarrow> json \<Rightarrow> primary option" where
  \<comment> \<open>\<open>llmDefaultPrimarySchema\<close>\<close>
  "parsePrimary isUuid v =
     (case strict_obj [''provider'', ''model'', ''secretId''] v of
        None \<Rightarrow> None
      | Some fs \<Rightarrow>
          (case (provider_field (jget fs ''provider''),
                 text_or_null (\<lambda>s. 1 \<le> length s \<and> length s \<le> 200) (jget fs ''model''),
                 text_or_null isUuid (jget fs ''secretId'')) of
             (Some p, Some m, Some i) \<Rightarrow>
               if (case p of None \<Rightarrow> True | Some q \<Rightarrow> session_provider q) then Some (p, m, i) else None
           | _ \<Rightarrow> None))"

definition normalizeProviderDefault :: "primary \<Rightarrow> primary" where
  \<comment> \<open>in the context \<open>session\<close>\<close>
  "normalizeProviderDefault v = (case v of (p, m, i) \<Rightarrow>
     (case p of
        None \<Rightarrow> (None, m, i)
      | Some q \<Rightarrow>
          if \<not> session_provider q then (None, m, i)
          else (Some q, (case m of None \<Rightarrow> getDefaultModelForProvider q | Some t \<Rightarrow> Some t), i)))"

definition primary_json :: "primary \<Rightarrow> json" where
  "primary_json v = (case v of (p, m, i) \<Rightarrow> JObj [(''provider'', opt_json p), (''model'', opt_json m), (''secretId'', opt_json i)])"

section \<open>Engines\<close>

definition defaultEngineAuthMode :: "string \<Rightarrow> string" where
  "defaultEngineAuthMode e = (if e = ''gateway.opencode.v2'' then ''api_key'' else ''oauth_executor'')"

definition parseEngineAuth :: "(string \<Rightarrow> bool) \<Rightarrow> json \<Rightarrow> (string option \<times> string option) option" where
  \<comment> \<open>\<open>agentEngineAuthDefaultSchema\<close>: mode and secret\<close>
  "parseEngineAuth isUuid v =
     (case strict_obj [''mode'', ''secretId''] v of
        None \<Rightarrow> None
      | Some fs \<Rightarrow>
          (case (case jget fs ''mode'' of None \<Rightarrow> Some None
                 | Some j \<Rightarrow> if j \<in> {JStr ''oauth_executor'', JStr ''api_key''} then Some (asString (Some j)) else None,
                 text_or_null isUuid (jget fs ''secretId'')) of
             (Some m, Some i) \<Rightarrow> Some (m, i)
           | _ \<Rightarrow> None))"

definition normalizeAgentEngineAuthDefault :: "(string \<Rightarrow> bool) \<Rightarrow> string \<Rightarrow> json option \<Rightarrow> json" where
  "normalizeAgentEngineAuthDefault isUuid e v =
     (let parsed = parseEngineAuth isUuid (qq (nullishJ v) (JObj []));
          mode = qq (Option.bind parsed fst) (defaultEngineAuthMode e);
          secretId = Option.bind parsed snd
      in JObj [(''mode'', JStr mode), (''secretId'', if mode = ''oauth_executor'' then JNull else opt_json secretId)])"

definition parse_engines :: "(json \<Rightarrow> bool) \<Rightarrow> json option \<Rightarrow> (string \<times> json) list" where
  \<comment> \<open>\<open>safeParse(value ?? {})\<close> of a strict object over the engines, the empty one when it fails\<close>
  "parse_engines ok v = (case strict_obj engine_ids (qq (nullishJ v) (JObj [])) of
     None \<Rightarrow> []
   | Some fs \<Rightarrow> if list_all (\<lambda>e. ok (snd e)) fs then fs else [])"

definition normalizeAgentEngineAuthDefaults :: "(string \<Rightarrow> bool) \<Rightarrow> json option \<Rightarrow> json" where
  "normalizeAgentEngineAuthDefaults isUuid v =
     (let raw = parse_engines (\<lambda>j. parseEngineAuth isUuid j \<noteq> None) v
      in JObj (map (\<lambda>e. (e, normalizeAgentEngineAuthDefault isUuid e (jget raw e))) engine_ids))"

definition parseEngineRuntime :: "(string \<Rightarrow> bool) \<Rightarrow> json \<Rightarrow> string option option" where
  \<comment> \<open>\<open>agentEngineRuntimeDefaultSchema\<close>: the base URL\<close>
  "parseEngineRuntime isUrl v =
     (case strict_obj [''baseUrl''] v of
        None \<Rightarrow> None
      | Some fs \<Rightarrow> text_or_null (\<lambda>s. isUrl s \<and> length s \<le> 2000) (jget fs ''baseUrl''))"

definition normalizeAgentEngineRuntimeDefault :: "(string \<Rightarrow> bool) \<Rightarrow> json option \<Rightarrow> json" where
  "normalizeAgentEngineRuntimeDefault isUrl v =
     JObj [(''baseUrl'', opt_json (Option.bind (parseEngineRuntime isUrl (qq (nullishJ v) (JObj []))) id))]"

definition normalizeAgentEngineRuntimeDefaults :: "(string \<Rightarrow> bool) \<Rightarrow> json option \<Rightarrow> json" where
  "normalizeAgentEngineRuntimeDefaults isUrl v =
     (let raw = parse_engines (\<lambda>j. parseEngineRuntime isUrl j \<noteq> None) v
      in JObj (map (\<lambda>e. (e, normalizeAgentEngineRuntimeDefault isUrl (jget raw e))) engine_ids))"

section \<open>The whole settings\<close>

definition api_kinds :: "string list" where
  "api_kinds = [''openai-compatible'', ''anthropic-compatible'', ''google'', ''vertex'', ''bedrock'', ''copilot'', ''custom'']"

definition provider_conf :: "(string \<Rightarrow> bool) \<Rightarrow> json \<Rightarrow> json" where
  "provider_conf isUrl v =
     (let conf = obj_of (Some v); text = (\<lambda>ok k. case asString (jget conf k) of Some s \<Rightarrow> if ok s then Some s else None | None \<Rightarrow> None)
      in JObj [(''baseUrl'', opt_json (text (\<lambda>s. isUrl s \<and> length s \<le> 2000) ''baseUrl'')),
               (''apiKind'', opt_json (text (\<lambda>s. s \<in> set api_kinds) ''apiKind''))])"

fun normalizeProviders :: "(string \<Rightarrow> bool) \<Rightarrow> (string \<times> json) list \<Rightarrow> (string \<times> json) list \<Rightarrow> (string \<times> json) list" where
  "normalizeProviders isUrl [] out = out"
| "normalizeProviders isUrl ((k, v) # fs) out =
     (case normalizeLlmProviderId k of
        None \<Rightarrow> normalizeProviders isUrl fs out
      | Some p \<Rightarrow> normalizeProviders isUrl fs (jset p (provider_conf isUrl v) out))"

definition settings_json :: "bool \<Rightarrow> string option \<Rightarrow> json \<Rightarrow> (string \<times> json) list \<Rightarrow> json \<Rightarrow> json \<Rightarrow> json" where
  \<comment> \<open>the object both functions return\<close>
  "settings_json shell toolset primary providers auths runtimes = JObj [
     (''tools'', JObj [(''shellRunEnabled'', JBool shell)]),
     (''toolsets'', JObj [(''defaultToolsetId'', opt_json toolset)]),
     (''llm'', JObj [(''defaults'', JObj [(''primary'', primary)]), (''providers'', JObj providers)]),
     (''agents'', JObj [(''engineAuthDefaults'', auths), (''engineRuntimeDefaults'', runtimes)])]"

definition normalizeOrgSettings :: "(string \<Rightarrow> bool) \<Rightarrow> (string \<Rightarrow> bool) \<Rightarrow> json \<Rightarrow> json" where
  "normalizeOrgSettings isUuid isUrl input =
     (let root = obj_of (Some input); toolsObj = obj_of (jget root ''tools''); toolsetsObj = obj_of (jget root ''toolsets'');
          llmObj = obj_of (jget root ''llm''); agentsObj = obj_of (jget root ''agents'');
          defaultsObj = obj_of (jget llmObj ''defaults'');
          primary = normalizeProviderDefault (qq (parsePrimary isUuid (qq (nullishJ (jget defaultsObj ''primary'')) (JObj [])))
            (None, None, None));
          shell = qq (asBool (jget toolsObj ''shellRunEnabled'')) False;
          toolset = (case asString (jget toolsetsObj ''defaultToolsetId'') of Some s \<Rightarrow> if isUuid s then Some s else None | None \<Rightarrow> None)
      in settings_json shell toolset (primary_json primary) (normalizeProviders isUrl (obj_of (jget llmObj ''providers'')) [])
           (normalizeAgentEngineAuthDefaults isUuid (jget agentsObj ''engineAuthDefaults''))
           (normalizeAgentEngineRuntimeDefaults isUrl (jget agentsObj ''engineRuntimeDefaults'')))"

fun mergeProviders :: "(string \<times> json) list \<Rightarrow> (string \<times> json) list \<Rightarrow> (string \<times> json) list" where
  "mergeProviders [] out = out"
| "mergeProviders ((k, conf) # fs) out =
     (case normalizeLlmProviderId k of
        None \<Rightarrow> mergeProviders fs out
      | Some p \<Rightarrow> mergeProviders fs (jset p (JObj [(''baseUrl'', opt_json (asString (get_property conf ''baseUrl''))),
          (''apiKind'', qq (nullishJ (get_property conf ''apiKind'')) JNull)]) out))"

definition mergeOrgSettings :: "(string \<Rightarrow> bool) \<Rightarrow> (string \<Rightarrow> bool) \<Rightarrow> json \<Rightarrow> json \<Rightarrow> json" where
  \<comment> \<open>the next settings, of the normalized ones and the parsed body\<close>
  "mergeOrgSettings isUuid isUrl ex body =
     (let old = (\<lambda>ks. qq (json_path ex ks) JNull); patch = json_path body;
          field = (\<lambda>j k. qq (nullishJ (get_property j k)) JNull);
          shell = (case patch [''tools'', ''shellRunEnabled''] of Some (JBool b) \<Rightarrow> JBool b | _ \<Rightarrow> old [''tools'', ''shellRunEnabled'']);
          toolset = (case patch [''toolsets'', ''defaultToolsetId''] of Some j \<Rightarrow> j | None \<Rightarrow> old [''toolsets'', ''defaultToolsetId'']);
          primary = (case patch [''llm'', ''defaults'', ''primary''] of
              Some p \<Rightarrow> JObj [(''provider'', field p ''provider''), (''model'', field p ''model''), (''secretId'', field p ''secretId'')]
            | None \<Rightarrow> old [''llm'', ''defaults'', ''primary'']);
          providers = (case patch [''llm'', ''providers''] of
              Some (JObj fs) \<Rightarrow> JObj (mergeProviders fs (obj_of (json_path ex [''llm'', ''providers''])))
            | _ \<Rightarrow> old [''llm'', ''providers'']);
          per_engine = (\<lambda>group normalize. JObj (map (\<lambda>e.
              (e, case patch [''agents'', group, e] of Some j \<Rightarrow> normalize e (Some j) | None \<Rightarrow> old [''agents'', group, e])) engine_ids))
      in JObj [
        (''tools'', JObj [(''shellRunEnabled'', shell)]),
        (''toolsets'', JObj [(''defaultToolsetId'', toolset)]),
        (''llm'', JObj [(''defaults'', JObj [(''primary'', primary)]), (''providers'', providers)]),
        (''agents'', JObj [(''engineAuthDefaults'', per_engine ''engineAuthDefaults'' (normalizeAgentEngineAuthDefault isUuid)),
          (''engineRuntimeDefaults'', per_engine ''engineRuntimeDefaults'' (\<lambda>e. normalizeAgentEngineRuntimeDefault isUrl))])])"

end
