(* ===== verification/ApiServer.thy ===== *)
theory ApiServer
  imports Handlers WorkflowTenancy StoreIdentity StorePlatform StoreExecutors StoreSecrets StoreSessions StoreChannels StoreToolsets EdgeAuth
    ApiSettings
begin

text \<open>
  The API server (\<open>apps/api/src/server.ts\<close>): what its request handlers share, the authentication of
  requests, the organization context, and the routes under \<open>/v1/auth\<close>.  A handler works on the store
  and the job queue, which other requests and the workers change too: between any two of its accesses
  \<open>ae_others\<close>, an arbitrary function, says what they did.  Access number \<open>n\<close> of a request reads the
  clock \<open>ae_clock n\<close> and draws its identifiers from \<open>ae_uuid n\<close>.  An exception is the \<open>code\<close> of the
  error reply; errors the server does not expect are \<open>INTERNAL_ERROR\<close>.  The bodies are what zod's
  schemas make of them, \<open>None\<close> when the schema rejects; hashing, HMAC, \<open>JSON.parse\<close> and the checks of
  a UUID and a URL are parameters.
\<close>

section \<open>State and requests\<close>

record run_job =
  rj_runId :: string
  rj_organizationId :: string
  rj_workflowId :: string
  rj_requestedByUserId :: string
  rj_attempts :: int

record session_post =
  sp_organizationId :: string
  sp_userId :: string
  sp_sessionId :: string
  sp_userEventSeq :: int
  sp_message :: string
  sp_attachments :: json
  sp_idempotencyKey :: "string option"

record api_data =
  ad_id :: id_store
  ad_pf :: platform_store
  ad_wf :: wf_store
  ad_ex :: exec_store
  ad_sec :: "encrypted_secret secret_rows"
  ad_ss :: sess_store
  ad_ch :: chan_store
  ad_ts :: tool_store
  ad_posts :: "session_post list"  \<comment> \<open>what the gateway has accepted\<close>
  ad_queue :: "run_job list"  \<comment> \<open>the jobs the queue holds, the retained ones included\<close>

record api =
  aw_data :: api_data
  aw_calls :: nat
  aw_cookie :: "string option option"  \<comment> \<open>the session cookie the reply sets, \<open>Some None\<close> when it clears it\<close>
  aw_accessToken :: "string option"  \<comment> \<open>the reply's \<open>x-access-token\<close>\<close>
  aw_warnings :: "string list"

type_synonym 'a api_handler = "(api, 'a) handler"

record api_env =
  ae_auth :: auth_env
  ae_wf :: wf_env
  ae_clock :: "nat \<Rightarrow> clock"
  ae_uuid :: "nat \<Rightarrow> uuids"
  ae_nonce :: "nat \<Rightarrow> string"
  ae_others :: "nat \<Rightarrow> api_data \<Rightarrow> api_data"
  ae_accessTtlSec :: int
  ae_sessionTtlSec :: int
  ae_strict :: bool
  ae_adminEmails :: string  \<comment> \<open>the environment variable\<close>
  ae_hashPassword :: "nat \<Rightarrow> string \<Rightarrow> string"
  ae_verifyPassword :: "string \<Rightarrow> string \<Rightarrow> bool"
  ae_serviceToken :: string
  ae_usageMonth :: "nat \<Rightarrow> string"
  ae_queueUp :: "nat \<Rightarrow> bool"
  ae_queueError :: string  \<comment> \<open>the message of the exception when it cannot be reached\<close>
  ae_b64 :: "string \<Rightarrow> bytes"
  ae_seal :: sealer
  ae_secretsEnv :: secrets_env
  ae_random :: "nat \<Rightarrow> random"
  ae_connectorIds :: "string list"  \<comment> \<open>\<open>allowedSecretConnectorIds\<close>\<close>
  ae_staleMs :: int
  ae_gateway :: "nat \<Rightarrow> bool option"  \<comment> \<open>whether it accepts a post; \<open>None\<close> when the request fails\<close>
  ae_toIso :: "timestamp \<Rightarrow> string"
  ae_isUrl :: "string \<Rightarrow> bool"

record request =
  rq_authorization :: "string option"
  rq_cookies :: "string table"
  rq_orgHeader :: "string option"
  rq_serviceToken :: "string option"
  rq_userAgent :: "string option"
  rq_ip :: "string option"

record auth_ctx =
  ac_userId :: string
  ac_email :: string
  ac_sessionId :: string

record org_ctx =
  oc_organizationId :: string
  oc_membership :: membership

section \<open>Access to the shared state\<close>

definition api_do :: "api_env \<Rightarrow> (nat \<Rightarrow> api_data \<Rightarrow> 'a \<times> api_data) \<Rightarrow> 'a api_handler" where
  "api_do en f w = (let n = aw_calls w in
     (case f n (ae_others en n (aw_data w)) of (x, d) \<Rightarrow> (Inr x, w\<lparr>aw_data := d, aw_calls := n + 1\<rparr>)))"

definition id_do :: "api_env \<Rightarrow> (clock \<Rightarrow> uuids \<Rightarrow> id_store \<Rightarrow> 'a \<times> id_store) \<Rightarrow> 'a api_handler" where
  "id_do en f = api_do en (\<lambda>n d. case f (ae_clock en n) (ae_uuid en n) (ad_id d) of (x, s) \<Rightarrow> (x, d\<lparr>ad_id := s\<rparr>))"

definition pf_do :: "api_env \<Rightarrow> (clock \<Rightarrow> uuids \<Rightarrow> platform_store \<Rightarrow> 'a \<times> platform_store) \<Rightarrow> 'a api_handler" where
  "pf_do en f = api_do en (\<lambda>n d. case f (ae_clock en n) (ae_uuid en n) (ad_pf d) of (x, s) \<Rightarrow> (x, d\<lparr>ad_pf := s\<rparr>))"

definition wf_do :: "api_env \<Rightarrow> (clock \<Rightarrow> uuids \<Rightarrow> wf_store \<Rightarrow> 'a \<times> wf_store) \<Rightarrow> 'a api_handler" where
  "wf_do en f = api_do en (\<lambda>n d. case f (ae_clock en n) (ae_uuid en n) (ad_wf d) of (x, s) \<Rightarrow> (x, d\<lparr>ad_wf := s\<rparr>))"

definition ex_do :: "api_env \<Rightarrow> (clock \<Rightarrow> uuids \<Rightarrow> exec_store \<Rightarrow> 'a \<times> exec_store) \<Rightarrow> 'a api_handler" where
  "ex_do en f = api_do en (\<lambda>n d. case f (ae_clock en n) (ae_uuid en n) (ad_ex d) of (x, s) \<Rightarrow> (x, d\<lparr>ad_ex := s\<rparr>))"

definition sec_do :: "api_env \<Rightarrow> (clock \<Rightarrow> uuids \<Rightarrow> random \<Rightarrow> encrypted_secret secret_rows \<Rightarrow> 'a \<times> encrypted_secret secret_rows)
    \<Rightarrow> 'a api_handler" where
  "sec_do en f = api_do en (\<lambda>n d. case f (ae_clock en n) (ae_uuid en n) (ae_random en n) (ad_sec d) of (x, s) \<Rightarrow> (x, d\<lparr>ad_sec := s\<rparr>))"

definition ss_do :: "api_env \<Rightarrow> (clock \<Rightarrow> uuids \<Rightarrow> sess_store \<Rightarrow> 'a \<times> sess_store) \<Rightarrow> 'a api_handler" where
  "ss_do en f = api_do en (\<lambda>n d. case f (ae_clock en n) (ae_uuid en n) (ad_ss d) of (x, s) \<Rightarrow> (x, d\<lparr>ad_ss := s\<rparr>))"

definition ch_do :: "api_env \<Rightarrow> (clock \<Rightarrow> uuids \<Rightarrow> chan_store \<Rightarrow> 'a \<times> chan_store) \<Rightarrow> 'a api_handler" where
  "ch_do en f = api_do en (\<lambda>n d. case f (ae_clock en n) (ae_uuid en n) (ad_ch d) of (x, s) \<Rightarrow> (x, d\<lparr>ad_ch := s\<rparr>))"

definition tools_do :: "api_env \<Rightarrow> (clock \<Rightarrow> uuids \<Rightarrow> tool_store \<Rightarrow> 'a \<times> tool_store) \<Rightarrow> 'a api_handler" where
  "tools_do en f = api_do en (\<lambda>n d. case f (ae_clock en n) (ae_uuid en n) (ad_ts d) of (x, s) \<Rightarrow> (x, d\<lparr>ad_ts := s\<rparr>))"

definition data_get :: "api_env \<Rightarrow> (api_data \<Rightarrow> 'a) \<Rightarrow> 'a api_handler" where
  \<comment> \<open>an access that only reads\<close>
  "data_get en f = api_do en (\<lambda>n d. (f d, d))"

definition api_now :: "api_env \<Rightarrow> api \<Rightarrow> timestamp" where
  \<comment> \<open>\<open>Date.now()\<close> between two accesses\<close>
  "api_now en w = ae_clock en (aw_calls w) 0"

definition need :: "string \<Rightarrow> 'a option \<Rightarrow> 'a api_handler" where
  \<comment> \<open>\<open>if (!x) throw ...\<close>\<close>
  "need code x = (case x of None \<Rightarrow> h_throw code | Some y \<Rightarrow> h_return y)"

definition check :: "bool \<Rightarrow> string \<Rightarrow> unit api_handler" where
  "check ok code = (if ok then h_return () else h_throw code)"

definition mapped :: "('e \<Rightarrow> string) \<Rightarrow> ('e + 'a) api_handler \<Rightarrow> 'a api_handler" where
  \<comment> \<open>an error of the store becomes the error reply\<close>
  "mapped code m = h_bind m (\<lambda>r. case r of Inl e \<Rightarrow> h_throw (code e) | Inr x \<Rightarrow> h_return x)"

section \<open>Tokens and sessions\<close>

definition parseAuthHeader :: "string option \<Rightarrow> string option" where
  "parseAuthHeader value = (case value of
     None \<Rightarrow> None
   | Some v \<Rightarrow>
       (case splitOn (CHR '' '') v of
          scheme # token # _ \<Rightarrow> if toLowerCase scheme \<noteq> ''bearer'' \<or> token = '''' then None else Some token
        | _ \<Rightarrow> None))"

definition refresh_json :: "string \<Rightarrow> string \<Rightarrow> string \<Rightarrow> int \<Rightarrow> json" where
  "refresh_json sessionId userId tokenNonce expiresAt = JObj [(''sessionId'', JStr sessionId), (''userId'', JStr userId),
     (''tokenNonce'', JStr tokenNonce), (''expiresAt'', JNum expiresAt)]"

definition signRefreshToken :: "(string \<Rightarrow> string \<Rightarrow> string) \<Rightarrow> json \<Rightarrow> string \<Rightarrow> string" where
  "signRefreshToken hmac payload secret =
     (let encodedPayload = b64UrlEncode (stringify payload) in encodedPayload @ ''.'' @ hmac encodedPayload secret)"

definition isSessionActive :: "timestamp \<Rightarrow> auth_session \<Rightarrow> bool" where
  "isSessionActive now x \<longleftrightarrow> se_revokedAt x = None \<and> now < se_expiresAt x"

definition text_prop :: "json \<Rightarrow> string \<Rightarrow> string" where
  \<comment> \<open>the payloads the server signs hold texts\<close>
  "text_prop p k = qq (asString (get_property p k)) ''''"

definition authenticateFromBearerToken :: "api_env \<Rightarrow> string \<Rightarrow> auth_ctx option api_handler" where
  "authenticateFromBearerToken en token =
     h_bind (h_gets (api_now en)) (\<lambda>t.
     case verifyAuthToken (ax_hmac (ae_auth en)) (ax_parse (ae_auth en)) token (ax_authSecret (ae_auth en)) (t div 1000) of
       None \<Rightarrow> h_return None
     | Some payload \<Rightarrow>
         (let userId = text_prop payload ''userId''; sessionId = text_prop payload ''sessionId'' in
          h_bind (data_get en (\<lambda>d. getSessionById userId sessionId (ad_id d))) (\<lambda>session.
          h_bind (data_get en (\<lambda>d. getUserById userId (ad_id d))) (\<lambda>user.
          h_bind (h_gets (api_now en)) (\<lambda>t'.
          case (session, user) of
            (Some x, Some u) \<Rightarrow>
              if \<not> isSessionActive t' x then h_return None
              else h_then (id_do en (\<lambda>clk uid s. ((), touchSession clk userId sessionId s)))
                (h_return (Some \<lparr>ac_userId = userId, ac_email = text_prop payload ''email'', ac_sessionId = sessionId\<rparr>))
          | _ \<Rightarrow> h_return None)))))"

definition setSessionCookie :: "string \<Rightarrow> unit api_handler" where
  "setSessionCookie token = h_modify (\<lambda>w. w\<lparr>aw_cookie := Some (Some token)\<rparr>)"

definition clearSessionCookie :: "unit api_handler" where
  "clearSessionCookie = h_modify (\<lambda>w. w\<lparr>aw_cookie := Some None\<rparr>)"

definition access_session :: "api_env \<Rightarrow> user_rec \<Rightarrow> string \<Rightarrow> signed_session api_handler" where
  "access_session en u sessionId = h_gets (\<lambda>w. signAuthToken (ax_hmac (ae_auth en)) (us_id u) (us_email u) sessionId
     (Some (ae_accessTtlSec en)) (api_now en w) (ax_authSecret (ae_auth en)))"

definition authenticateFromRefreshCookie :: "api_env \<Rightarrow> string \<Rightarrow> bool
    \<Rightarrow> (auth_ctx \<times> signed_session \<times> user_rec) option api_handler" where
  "authenticateFromRefreshCookie en token rotateRefreshToken =
     h_bind (h_gets (api_now en)) (\<lambda>t.
     case verifyRefreshToken ((ae_auth en)\<lparr>ax_nowMs := t\<rparr>) token of
       None \<Rightarrow> h_return None
     | Some payload \<Rightarrow>
         (let userId = text_prop payload ''userId''; sessionId = text_prop payload ''sessionId'' in
          h_bind (data_get en (\<lambda>d. getSessionById userId sessionId (ad_id d))) (\<lambda>session.
          h_bind (data_get en (\<lambda>d. getUserById userId (ad_id d))) (\<lambda>user.
          h_bind (h_gets (\<lambda>w. (aw_calls w, api_now en w))) (\<lambda>(n, t').
          case (session, user) of
            (Some x, Some u) \<Rightarrow>
              if \<not> isSessionActive t' x then h_return None
              else if se_refreshTokenHash x \<noteq> ax_sha256 (ae_auth en) token then h_return None
              else
                (let expiresAt = t' div 1000 + ae_sessionTtlSec en;
                     rotated = signRefreshToken (ax_hmac (ae_auth en)) (refresh_json sessionId userId (ae_nonce en n) expiresAt)
                       (ax_refreshSecret (ae_auth en))
                 in h_then
                   (if rotateRefreshToken then
                      h_then (id_do en (\<lambda>clk uid. rotateSessionRefreshToken clk userId sessionId
                          (ax_sha256 (ae_auth en) rotated) (expiresAt * 1000)))
                        (setSessionCookie rotated)
                    else id_do en (\<lambda>clk uid s. ((), touchSession clk userId sessionId s)))
                   (h_bind (access_session en u sessionId) (\<lambda>session.
                    h_return (Some (\<lparr>ac_userId = us_id u, ac_email = us_email u, ac_sessionId = sessionId\<rparr>, session, u)))))
          | _ \<Rightarrow> h_return None)))))"

definition authenticateRequest :: "api_env \<Rightarrow> request \<Rightarrow> auth_ctx option api_handler" where
  \<comment> \<open>the \<open>preHandler\<close> hook\<close>
  "authenticateRequest en rq =
     (let from_cookie =
        (case jget (rq_cookies rq) (ax_cookieName (ae_auth en)) of
           None \<Rightarrow> h_return None
         | Some cookie \<Rightarrow>
             if cookie = '''' then h_return None
             else h_bind (authenticateFromRefreshCookie en cookie False) (\<lambda>r.
               case r of
                 None \<Rightarrow> h_return None
               | Some (auth, session, u) \<Rightarrow>
                   h_then (h_modify (\<lambda>w. w\<lparr>aw_accessToken := Some (as_token session)\<rparr>)) (h_return (Some auth))))
      in case parseAuthHeader (rq_authorization rq) of
           None \<Rightarrow> from_cookie
         | Some bearer \<Rightarrow>
             h_bind (authenticateFromBearerToken en bearer) (\<lambda>r.
               case r of Some auth \<Rightarrow> h_return (Some auth) | None \<Rightarrow> from_cookie))"

definition requireAuth :: "auth_ctx option \<Rightarrow> auth_ctx api_handler" where
  "requireAuth = need ''UNAUTHORIZED''"

definition requireInternalServiceToken :: "api_env \<Rightarrow> request \<Rightarrow> unit api_handler" where
  "requireInternalServiceToken en rq = check (case rq_serviceToken rq of None \<Rightarrow> False
     | Some t \<Rightarrow> t \<noteq> '''' \<and> t = ae_serviceToken en) ''UNAUTHORIZED''"

section \<open>Organization context\<close>

definition settings_of :: "api_env \<Rightarrow> json \<Rightarrow> json" where
  "settings_of en = normalizeOrgSettings (ax_isUuid (ae_auth en)) (ae_isUrl en)"

definition parseOrgHeaderValue :: "(string \<Rightarrow> bool) \<Rightarrow> string option \<Rightarrow> string + string" where
  "parseOrgHeaderValue isUuid value = (case value of
     None \<Rightarrow> Inl ''ORG_CONTEXT_REQUIRED''
   | Some raw \<Rightarrow> if raw = '''' then Inl ''ORG_CONTEXT_REQUIRED''
       else if \<not> isUuid raw then Inl ''INVALID_ORG_CONTEXT'' else Inr raw)"

definition warnOrgContext :: "string \<Rightarrow> unit api_handler" where
  "warnOrgContext code = h_modify (\<lambda>w. w\<lparr>aw_warnings := aw_warnings w @ [code]\<rparr>)"

definition chooseOrg :: "api_env \<Rightarrow> request \<Rightarrow> string option \<Rightarrow> string api_handler" where
  \<comment> \<open>the header, the organization of the route, and what the enforcement mode makes of them\<close>
  "chooseOrg en rq expected =
     h_bind (case parseOrgHeaderValue (ax_isUuid (ae_auth en)) (rq_orgHeader rq) of
         Inr org \<Rightarrow> h_return org
       | Inl code \<Rightarrow>
           if ae_strict en then h_throw code
           else (case expected of None \<Rightarrow> h_throw code
               | Some route \<Rightarrow> h_then (warnOrgContext ''ORG_CONTEXT_REQUIRED'') (h_return route))) (\<lambda>org.
     case expected of
       None \<Rightarrow> h_return org
     | Some route \<Rightarrow>
         if route = org then h_return org
         else if ae_strict en then h_throw ''INVALID_ORG_CONTEXT''
         else h_then (warnOrgContext ''INVALID_ORG_CONTEXT'') (h_return route))"

definition requireOrgContext :: "api_env \<Rightarrow> request \<Rightarrow> auth_ctx option \<Rightarrow> string option \<Rightarrow> org_ctx api_handler" where
  "requireOrgContext en rq auth expected =
     h_bind (requireAuth auth) (\<lambda>a.
     h_bind (chooseOrg en rq expected) (\<lambda>org.
     h_bind (data_get en (\<lambda>d. getMembership org (ac_userId a) (ad_id d))) (\<lambda>m.
     case m of
       None \<Rightarrow> h_throw ''ORG_ACCESS_DENIED''
     | Some m' \<Rightarrow> h_return \<lparr>oc_organizationId = org, oc_membership = m'\<rparr>)))"

definition is_manager :: "role_key \<Rightarrow> bool" where
  \<comment> \<open>\<open>["owner", "admin"].includes(roleKey)\<close>\<close>
  "is_manager r \<longleftrightarrow> r = RoleOwner \<or> r = RoleAdmin"

definition requireManager :: "api_env \<Rightarrow> request \<Rightarrow> auth_ctx option \<Rightarrow> string \<Rightarrow> (auth_ctx \<times> org_ctx) api_handler" where
  \<comment> \<open>the guard that opens every route for owners and admins: \<open>requireAuth\<close>, \<open>requireOrgContext\<close>, the role\<close>
  "requireManager en rq auth org =
     h_bind (requireAuth auth) (\<lambda>a.
     h_bind (requireOrgContext en rq auth (Some org)) (\<lambda>oc.
     h_then (check (is_manager (mb_roleKey (oc_membership oc))) ''FORBIDDEN'') (h_return (a, oc))))"

section \<open>System administrators\<close>

definition adminEmailAllowlist :: "string \<Rightarrow> string list" where
  "adminEmailAllowlist v = filter (\<lambda>s. s \<noteq> '''') (map (toLowerCase \<circ> trim) (splitOn (CHR '','') v))"

definition isBootstrapSystemAdminEmail :: "api_env \<Rightarrow> string option \<Rightarrow> bool" where
  "isBootstrapSystemAdminEmail en email = (case email of
     None \<Rightarrow> False
   | Some e \<Rightarrow> e \<noteq> '''' \<and> toLowerCase (trim e) \<in> set (adminEmailAllowlist (ae_adminEmails en)))"

definition ensureSystemAdminBootstrap :: "api_env \<Rightarrow> string \<Rightarrow> string option \<Rightarrow> unit api_handler" where
  "ensureSystemAdminBootstrap en userId email =
     (if isBootstrapSystemAdminEmail en email
      then h_then (pf_do en (\<lambda>clk uid. createPlatformUserRole clk uid userId ''system_admin'' None)) (h_return ())
      else h_return ())"

definition requireSystemAdmin :: "api_env \<Rightarrow> auth_ctx option \<Rightarrow> auth_ctx api_handler" where
  "requireSystemAdmin en auth =
     h_bind (requireAuth auth) (\<lambda>a.
     h_then (ensureSystemAdminBootstrap en (ac_userId a) (Some (ac_email a)))
     (h_bind (data_get en (\<lambda>d. listPlatformUserRoles (Some ''system_admin'') (Some (ac_userId a)) (ad_pf d))) (\<lambda>roles.
      h_then (check (roles \<noteq> []) ''FORBIDDEN'') (h_return a))))"

record capabilities =
  cp_isSystemAdmin :: bool
  cp_canManageOrganizations :: bool
  cp_maxOrganizations :: "nat option"
  cp_currentOrganizations :: nat

definition resolveUserCapabilities :: "api_env \<Rightarrow> string \<Rightarrow> string option \<Rightarrow> capabilities api_handler" where
  "resolveUserCapabilities en userId email =
     h_then (ensureSystemAdminBootstrap en userId email)
     (h_bind (data_get en (\<lambda>d. listPlatformUserRoles (Some ''system_admin'') (Some userId) (ad_pf d))) (\<lambda>roleRows.
      h_bind (data_get en (\<lambda>d. listOrganizationsForUser userId (ad_id d))) (\<lambda>orgs.
      h_return \<lparr>cp_isSystemAdmin = (roleRows \<noteq> []), cp_canManageOrganizations = True, cp_maxOrganizations = None,
        cp_currentOrganizations = length orgs\<rparr>)))"

section \<open>Signing up and in\<close>

definition store_error :: "id_error \<Rightarrow> string" where
  \<comment> \<open>an error of the store that no handler maps is an internal error\<close>
  "store_error e = ''INTERNAL_ERROR''"

definition createSessionForUser :: "api_env \<Rightarrow> request \<Rightarrow> user_rec \<Rightarrow> signed_session api_handler" where
  "createSessionForUser en rq u =
     h_bind (h_gets (\<lambda>w. (aw_calls w, api_now en w))) (\<lambda>(n, t).
     let sessionId = ae_uuid en n 0; expiresAt = t div 1000 + ae_sessionTtlSec en;
         refreshToken = signRefreshToken (ax_hmac (ae_auth en)) (refresh_json sessionId (us_id u) (ae_nonce en n) expiresAt)
           (ax_refreshSecret (ae_auth en))
     in h_then (id_do en (\<lambda>clk uid. createSession clk uid (Some sessionId) (us_id u) (ax_sha256 (ae_auth en) refreshToken)
            (expiresAt * 1000) (rq_userAgent rq) (rq_ip rq)))
       (h_bind (access_session en u sessionId) (\<lambda>session.
        h_then (setSessionCookie refreshToken) (h_return session))))"

definition ensurePersonalWorkspace :: "api_env \<Rightarrow> user_rec \<Rightarrow> (string \<times> bool) api_handler" where
  "ensurePersonalWorkspace en u =
     mapped store_error (id_do en (\<lambda>clk uid. ensurePersonalOrganizationForUser clk uid (us_id u)))"

record signup_body =
  sb_email :: string
  sb_password :: string
  sb_displayName :: "string option"

definition postSignup :: "api_env \<Rightarrow> request \<Rightarrow> signup_body option \<Rightarrow> (signed_session \<times> user_rec) api_handler" where
  "postSignup en rq body =
     h_bind (need ''BAD_REQUEST'' body) (\<lambda>b.
     h_bind (data_get en (\<lambda>d. getUserByEmail (sb_email b) (ad_id d))) (\<lambda>existing.
     h_then (check (existing = None) ''CONFLICT'')
     (h_bind (h_gets (\<lambda>w. ae_hashPassword en (aw_calls w) (sb_password b))) (\<lambda>passwordHash.
      h_bind (mapped store_error (id_do en (\<lambda>clk uid. createUser clk uid (sb_email b) passwordHash (sb_displayName b)))) (\<lambda>u.
      h_bind (createSessionForUser en rq u) (\<lambda>session.
      h_then (ensurePersonalWorkspace en u) (h_return (session, u))))))))"

definition postLogin :: "api_env \<Rightarrow> request \<Rightarrow> (string \<times> string) option \<Rightarrow> (signed_session \<times> user_rec) api_handler" where
  \<comment> \<open>email and password\<close>
  "postLogin en rq body =
     h_bind (need ''BAD_REQUEST'' body) (\<lambda>(email, password).
     h_bind (data_get en (\<lambda>d. getUserByEmail email (ad_id d))) (\<lambda>found.
     h_bind (need ''UNAUTHORIZED'' found) (\<lambda>u.
     h_then (check (ae_verifyPassword en password (us_passwordHash u)) ''UNAUTHORIZED'')
     (h_bind (createSessionForUser en rq u) (\<lambda>session.
      h_then (ensurePersonalWorkspace en u) (h_return (session, u)))))))"

definition postRefresh :: "api_env \<Rightarrow> request \<Rightarrow> (signed_session \<times> user_rec) api_handler" where
  "postRefresh en rq =
     (case jget (rq_cookies rq) (ax_cookieName (ae_auth en)) of
        None \<Rightarrow> h_throw ''UNAUTHORIZED''
      | Some token \<Rightarrow>
          if token = '''' then h_throw ''UNAUTHORIZED''
          else h_bind (authenticateFromRefreshCookie en token True) (\<lambda>r.
            case r of None \<Rightarrow> h_throw ''UNAUTHORIZED'' | Some (auth, session, u) \<Rightarrow> h_return (session, u)))"

definition postLogout :: "api_env \<Rightarrow> auth_ctx option \<Rightarrow> unit api_handler" where
  "postLogout en auth =
     h_bind (requireAuth auth) (\<lambda>a.
     h_then (id_do en (\<lambda>clk uid. revokeSession clk (ac_userId a) (ac_sessionId a))) clearSessionCookie)"

definition postLogoutAll :: "api_env \<Rightarrow> auth_ctx option \<Rightarrow> nat api_handler" where
  "postLogoutAll en auth =
     h_bind (requireAuth auth) (\<lambda>a.
     h_bind (id_do en (\<lambda>clk uid. revokeAllSessionsForUser clk (ac_userId a))) (\<lambda>n.
     h_then clearSessionCookie (h_return n)))"

record me_reply =
  me_user :: user_rec
  me_isSystemAdmin :: bool
  me_orgs :: "(org_rec \<times> role_key) list"
  me_defaultOrgId :: "string option"

definition getMe :: "api_env \<Rightarrow> auth_ctx option \<Rightarrow> me_reply api_handler" where
  "getMe en auth =
     h_bind (requireAuth auth) (\<lambda>a.
     h_bind (data_get en (\<lambda>d. getUserById (ac_userId a) (ad_id d))) (\<lambda>found.
     h_bind (need ''UNAUTHORIZED'' found) (\<lambda>u.
     h_then (ensurePersonalWorkspace en u)
     (h_bind (data_get en (\<lambda>d. listOrganizationsForUser (ac_userId a) (ad_id d))) (\<lambda>orgs.
      h_bind (resolveUserCapabilities en (ac_userId a) (Some (us_email u))) (\<lambda>caps.
      h_return \<lparr>me_user = u, me_isSystemAdmin = cp_isSystemAdmin caps, me_orgs = map (\<lambda>(g, m). (g, mb_roleKey m)) orgs,
        me_defaultOrgId = (case orgs of [] \<Rightarrow> None | (g, m) # _ \<Rightarrow> Some (og_id g))\<rparr>))))))"

end
