(* ===== verification/ApiWorkflows.thy ===== *)
theory ApiWorkflows
  imports ApiServer
begin

text \<open>
  The routes for workflows, their revisions, shares and triggers (\<open>apps/api/src/server.ts\<close>).  The
  definition in a body is the JSON the schema yields and \<open>we_parse\<close> its typed form; cursors are the
  decoded ones, and the link in the reply to a share invitation is left out.
\<close>

section \<open>Workflows\<close>

definition v3_issue_code :: "v3_issue \<Rightarrow> string" where
  "v3_issue_code i = (case i of
     GRAPH_NODE_MISSING \<Rightarrow> ''GRAPH_NODE_MISSING''
   | GRAPH_EDGE_DUPLICATE e \<Rightarrow> ''GRAPH_EDGE_INVALID''
   | GRAPH_EDGE_DANGLING e \<Rightarrow> ''GRAPH_EDGE_INVALID''
   | CONDITION_EDGE_CONSTRAINTS k \<Rightarrow> ''CONDITION_EDGE_CONSTRAINTS''
   | GRAPH_CYCLE_DETECTED \<Rightarrow> ''GRAPH_CYCLE_DETECTED''
   | PARALLEL_REMOTE_NOT_SUPPORTED k \<Rightarrow> ''PARALLEL_REMOTE_NOT_SUPPORTED'')"

definition checkGraph :: "wf_dsl_any \<Rightarrow> unit api_handler" where
  \<comment> \<open>the constraints of a version 3 graph\<close>
  "checkGraph d = (case d of
     DslV2 d2 \<Rightarrow> h_return ()
   | DslV3 d3 \<Rightarrow> (case validateV3GraphConstraints d3 of None \<Rightarrow> h_return () | Some i \<Rightarrow> h_throw (v3_issue_code i)))"

definition parseDsl :: "api_env \<Rightarrow> json \<Rightarrow> wf_dsl_any option" where
  "parseDsl en dsl = we_parse (ae_wf en) dsl"

definition postWorkflow :: "api_env \<Rightarrow> request \<Rightarrow> auth_ctx option \<Rightarrow> string \<Rightarrow> (string \<times> json) option \<Rightarrow> workflow_rec api_handler" where
  \<comment> \<open>the body: name and definition\<close>
  "postWorkflow en rq auth org body =
     h_bind (requireManager en rq auth org) (\<lambda>(a, oc).
     h_bind (need ''BAD_REQUEST'' body) (\<lambda>(nm, dsl).
     h_bind (need ''BAD_REQUEST'' (parseDsl en dsl)) (\<lambda>d.
     h_then (checkGraph d)
     (wf_do en (\<lambda>clk uid. createWorkflow clk uid (oc_organizationId oc) nm dsl (ac_userId a))))))"

definition getWorkflows :: "api_env \<Rightarrow> request \<Rightarrow> auth_ctx option \<Rightarrow> string \<Rightarrow> (int option \<times> cursor) option
    \<Rightarrow> (workflow_rec list \<times> cursor) api_handler" where
  "getWorkflows en rq auth org query =
     h_bind (requireAuth auth) (\<lambda>a.
     h_bind (need ''BAD_REQUEST'' query) (\<lambda>(limit, cur).
     h_bind (requireOrgContext en rq auth (Some org)) (\<lambda>oc.
     data_get en (\<lambda>d. listWorkflows (we_lc (ae_wf en)) (oc_organizationId oc) (qq limit 50) cur (ad_wf d)))))"

definition workflowOf :: "api_env \<Rightarrow> org_ctx \<Rightarrow> string \<Rightarrow> workflow_rec api_handler" where
  \<comment> \<open>the workflow of the organization, or 404\<close>
  "workflowOf en oc workflowId =
     h_bind (data_get en (\<lambda>d. getWorkflowById (oc_organizationId oc) workflowId (ad_wf d))) (need ''NOT_FOUND'')"

definition getWorkflow :: "api_env \<Rightarrow> request \<Rightarrow> auth_ctx option \<Rightarrow> string \<Rightarrow> string \<Rightarrow> workflow_rec api_handler" where
  "getWorkflow en rq auth org workflowId =
     h_bind (requireAuth auth) (\<lambda>a.
     h_bind (requireOrgContext en rq auth (Some org)) (\<lambda>oc. workflowOf en oc workflowId))"

definition getRevisions :: "api_env \<Rightarrow> request \<Rightarrow> auth_ctx option \<Rightarrow> string \<Rightarrow> string \<Rightarrow> int option option
    \<Rightarrow> workflow_rec list api_handler" where
  "getRevisions en rq auth org workflowId query =
     h_bind (requireAuth auth) (\<lambda>a.
     h_bind (need ''BAD_REQUEST'' query) (\<lambda>limit.
     h_bind (requireOrgContext en rq auth (Some org)) (\<lambda>oc.
     data_get en (\<lambda>d. listWorkflowRevisions (oc_organizationId oc) workflowId (qq limit 50) (ad_wf d)))))"

record draft_body =
  db_name :: "string option"
  db_dsl :: "json option"
  db_editorState :: "json option"

definition putWorkflow :: "api_env \<Rightarrow> request \<Rightarrow> auth_ctx option \<Rightarrow> string \<Rightarrow> string \<Rightarrow> draft_body option
    \<Rightarrow> workflow_rec api_handler" where
  "putWorkflow en rq auth org workflowId body =
     h_bind (requireManager en rq auth org) (\<lambda>(a, oc).
     h_bind (need ''BAD_REQUEST'' body) (\<lambda>b.
     h_bind (case db_dsl b of
         None \<Rightarrow> h_return None
       | Some dsl \<Rightarrow> h_bind (need ''BAD_REQUEST'' (parseDsl en dsl)) (\<lambda>d. h_return (Some d))) (\<lambda>typed.
     h_bind (workflowOf en oc workflowId) (\<lambda>existing.
     h_then (check (wk_status existing = Draft) ''CONFLICT'')
     (h_then (case typed of None \<Rightarrow> h_return () | Some d \<Rightarrow> checkGraph d)
     (h_bind (wf_do en (\<lambda>clk uid. updateWorkflowDraft clk (oc_organizationId oc) workflowId (db_name b) (db_dsl b) (db_editorState b)))
       (need ''CONFLICT'')))))))"

definition syncTriggers :: "api_env \<Rightarrow> string \<Rightarrow> workflow_rec \<Rightarrow> string \<Rightarrow> (wf_error + trigger_sub list) api_handler" where
  "syncTriggers en org w actor = wf_do en (\<lambda>clk uid. syncWorkflowTriggerSubscriptions (we_parse (ae_wf en)) (we_sha (ae_wf en))
     clk uid org (wk_id w) actor (wk_revision w) (wk_dsl w))"

definition postPublish :: "api_env \<Rightarrow> request \<Rightarrow> auth_ctx option \<Rightarrow> string \<Rightarrow> string \<Rightarrow> workflow_rec api_handler" where
  "postPublish en rq auth org workflowId =
     h_bind (requireManager en rq auth org) (\<lambda>(a, oc).
     h_bind (wf_do en (\<lambda>clk uid. publishWorkflow clk (oc_organizationId oc) workflowId)) (\<lambda>found.
     h_bind (need ''NOT_FOUND'' found) (\<lambda>w.
     h_then (mapped (\<lambda>e. ''INTERNAL_ERROR'') (syncTriggers en (oc_organizationId oc) w (ac_userId a))) (h_return w))))"

definition postDraft :: "api_env \<Rightarrow> request \<Rightarrow> auth_ctx option \<Rightarrow> string \<Rightarrow> string \<Rightarrow> workflow_rec api_handler" where
  "postDraft en rq auth org workflowId =
     h_bind (requireManager en rq auth org) (\<lambda>(a, oc).
     h_bind (workflowOf en oc workflowId) (\<lambda>existing.
     h_then (check (wk_status existing = Published) ''CONFLICT'')
     (h_bind (wf_do en (\<lambda>clk uid. createWorkflowDraftFromWorkflow clk uid (oc_organizationId oc) (wk_id existing) (ac_userId a)))
       (need ''CONFLICT''))))"

section \<open>Shares\<close>

definition workflowShareCreateErrorToAppError :: "wf_error \<Rightarrow> string" where
  "workflowShareCreateErrorToAppError e = (case e of
     WORKFLOW_SHARE_INVITATION_ALREADY_PENDING \<Rightarrow> ''WORKFLOW_SHARE_INVITATION_ALREADY_PENDING''
   | WORKFLOW_NOT_FOUND \<Rightarrow> ''NOT_FOUND''
   | _ \<Rightarrow> ''WORKFLOW_SHARE_INVITATION_CREATE_FAILED'')"

definition workflowShareInvitationErrorToAppError :: "wf_error \<Rightarrow> string" where
  "workflowShareInvitationErrorToAppError e = (case e of
     WORKFLOW_SHARE_INVITATION_NOT_FOUND \<Rightarrow> ''NOT_FOUND''
   | WORKFLOW_SHARE_INVITATION_EXPIRED \<Rightarrow> ''BAD_REQUEST''
   | WORKFLOW_SHARE_INVITATION_EMAIL_MISMATCH \<Rightarrow> ''FORBIDDEN''
   | WORKFLOW_SHARE_INVITATION_NOT_PENDING \<Rightarrow> ''BAD_REQUEST''
   | WORKFLOW_NOT_FOUND \<Rightarrow> ''NOT_FOUND''
   | _ \<Rightarrow> ''WORKFLOW_SHARE_INVITATION_ACCEPT_FAILED'')"

definition postShareInvitation :: "api_env \<Rightarrow> request \<Rightarrow> auth_ctx option \<Rightarrow> string \<Rightarrow> string \<Rightarrow> (string \<times> int option) option
    \<Rightarrow> share_inv api_handler" where
  "postShareInvitation en rq auth org workflowId body =
     h_bind (requireManager en rq auth org) (\<lambda>(a, oc).
     h_bind (need ''BAD_REQUEST'' body) (\<lambda>(email, ttlHours).
     h_bind (workflowOf en oc workflowId) (\<lambda>w.
     h_then (check (wk_status w = Published) ''CONFLICT'')
     (mapped workflowShareCreateErrorToAppError (wf_do en (\<lambda>clk uid.
        createWorkflowShareInvitation clk uid (oc_organizationId oc) (wk_id w) (ac_userId a) email ttlHours))))))"

definition getShares :: "api_env \<Rightarrow> request \<Rightarrow> auth_ctx option \<Rightarrow> string \<Rightarrow> string \<Rightarrow> (bool option \<times> int option) option
    \<Rightarrow> (share_rec list \<times> share_inv list) api_handler" where
  "getShares en rq auth org workflowId query =
     h_bind (requireAuth auth) (\<lambda>a.
     h_bind (need ''BAD_REQUEST'' query) (\<lambda>(includeRevoked, limit).
     h_bind (requireManager en rq auth org) (\<lambda>(a, oc).
     h_bind (workflowOf en oc workflowId) (\<lambda>w.
     h_bind (data_get en (\<lambda>d. listWorkflowShares (we_lc (ae_wf en)) (oc_organizationId oc) (wk_id w)
         (qq includeRevoked False) limit (ad_wf d))) (\<lambda>shares.
     h_bind (data_get en (\<lambda>d. listWorkflowShareInvitations (we_lc (ae_wf en)) (oc_organizationId oc) (wk_id w)
         (Some InvPending) limit (ad_wf d))) (\<lambda>invitations.
     h_return (shares, invitations)))))))"

definition deleteShare :: "api_env \<Rightarrow> request \<Rightarrow> auth_ctx option \<Rightarrow> string \<Rightarrow> string \<Rightarrow> string \<Rightarrow> share_rec api_handler" where
  "deleteShare en rq auth org workflowId shareId =
     h_bind (requireManager en rq auth org) (\<lambda>(a, oc).
     h_bind (wf_do en (\<lambda>clk uid. revokeWorkflowShare clk (oc_organizationId oc) workflowId shareId)) (need ''NOT_FOUND''))"

definition parseWorkflowShareInvitationTokenContext :: "(string \<Rightarrow> bool) \<Rightarrow> string \<Rightarrow> (string \<times> string) option" where
  "parseWorkflowShareInvitationTokenContext isUuid token =
     (case splitOn (CHR ''.'') token of
        org # workflowId # _ \<Rightarrow> if isUuid org \<and> isUuid workflowId then Some (org, workflowId) else None
      | _ \<Rightarrow> None)"

definition postShareAccept :: "api_env \<Rightarrow> auth_ctx option \<Rightarrow> string \<Rightarrow> (share_inv \<times> share_rec \<times> workflow_rec) api_handler" where
  "postShareAccept en auth token =
     h_bind (requireAuth auth) (\<lambda>a.
     h_then (check (token \<noteq> '''') ''BAD_REQUEST'')
     (h_bind (need ''BAD_REQUEST'' (parseWorkflowShareInvitationTokenContext (ax_isUuid (ae_auth en)) token)) (\<lambda>(org, workflowId).
      mapped workflowShareInvitationErrorToAppError (wf_do en (\<lambda>clk uid.
        acceptWorkflowShareInvitation clk uid org token (ac_userId a) (ac_email a))))))"

definition getShare :: "api_env \<Rightarrow> auth_ctx option \<Rightarrow> string \<Rightarrow> (share_rec \<times> workflow_rec) api_handler" where
  "getShare en auth shareId =
     h_bind (requireAuth auth) (\<lambda>a.
     h_bind (data_get en (\<lambda>d. getSharedWorkflowByShareId shareId (ac_userId a) (ad_wf d))) (need ''NOT_FOUND''))"

section \<open>Triggers\<close>

definition getTriggers :: "api_env \<Rightarrow> request \<Rightarrow> auth_ctx option \<Rightarrow> string \<Rightarrow> (string option \<times> int option) option
    \<Rightarrow> trigger_sub list api_handler" where
  "getTriggers en rq auth org query =
     h_bind (requireAuth auth) (\<lambda>a.
     h_then (check (ax_isUuid (ae_auth en) org) ''BAD_REQUEST'')
     (h_bind (need ''BAD_REQUEST'' query) (\<lambda>(workflowId, limit).
      h_bind (requireOrgContext en rq auth (Some org)) (\<lambda>oc.
      data_get en (\<lambda>d. listWorkflowTriggerSubscriptions (oc_organizationId oc) workflowId limit (ad_wf d))))))"

definition patchTrigger :: "api_env \<Rightarrow> request \<Rightarrow> auth_ctx option \<Rightarrow> string \<Rightarrow> string \<Rightarrow> bool option \<Rightarrow> trigger_sub api_handler" where
  "patchTrigger en rq auth org subscriptionId body =
     h_bind (requireAuth auth) (\<lambda>a.
     h_then (check (ax_isUuid (ae_auth en) org \<and> ax_isUuid (ae_auth en) subscriptionId) ''BAD_REQUEST'')
     (h_bind (need ''BAD_REQUEST'' body) (\<lambda>enabled.
      h_bind (requireManager en rq auth org) (\<lambda>(a, oc).
      h_bind (wf_do en (\<lambda>clk uid. patchWorkflowTriggerSubscription clk (oc_organizationId oc) subscriptionId enabled))
        (need ''NOT_FOUND'')))))"

end
