(* ===== verification/ApiRuns.thy ===== *)
theory ApiRuns
  imports ApiWorkflows
begin

text \<open>
  The routes that start runs, list them, and decide approvals (\<open>apps/api/src/server.ts\<close>), with the
  queue they put jobs on (\<open>apps/api/src/queue/producer.ts\<close>).  The queue ignores a job whose id it
  already holds, retained jobs included; \<open>ae_queueUp\<close> says at which accesses it can be reached.
\<close>

section \<open>Run quota\<close>

record entitlements =
  el_monthly :: "int option"
  el_inflight :: "int option"

fun tier_entitlements :: "sub_tier \<Rightarrow> entitlements" where
  "tier_entitlements TierFree = \<lparr>el_monthly = Some 200, el_inflight = Some 3\<rparr>"
| "tier_entitlements TierPro = \<lparr>el_monthly = Some 5000, el_inflight = Some 30\<rparr>"
| "tier_entitlements TierEnterprise = \<lparr>el_monthly = None, el_inflight = None\<rparr>"

definition normalizeLimitValue :: "int option \<Rightarrow> int option" where
  "normalizeLimitValue v = map_option (max 0) v"

record quota =
  qo_tier :: sub_tier
  qo_status :: sub_status
  qo_defaults :: entitlements
  qo_overrides :: entitlements
  qo_effective :: entitlements

definition or_else :: "'a option \<Rightarrow> 'a option \<Rightarrow> 'a option" where
  "or_else a b = (case a of None \<Rightarrow> b | Some x \<Rightarrow> Some x)"

definition resolveOrganizationRunQuotaSnapshot :: "org_subscription option \<Rightarrow> quota" where
  "resolveOrganizationRunQuotaSnapshot sub =
     (let tier = (case sub of None \<Rightarrow> TierFree | Some s \<Rightarrow> ob_tier s);
          defaults = tier_entitlements tier;
          limit = (\<lambda>f. normalizeLimitValue (case sub of None \<Rightarrow> None | Some s \<Rightarrow> f s))
      in \<lparr>qo_tier = tier, qo_status = (case sub of None \<Rightarrow> SubActive | Some s \<Rightarrow> ob_status s),
          qo_defaults = defaults,
          qo_overrides = \<lparr>el_monthly = limit ob_monthlyRunLimit, el_inflight = limit ob_inflightRunLimit\<rparr>,
          qo_effective = \<lparr>el_monthly = or_else (limit ob_monthlyRunLimit) (el_monthly defaults),
                          el_inflight = or_else (limit ob_inflightRunLimit) (el_inflight defaults)\<rparr>\<rparr>)"

record quota_snapshot =
  qs_quota :: quota
  qs_usageMonth :: string
  qs_monthlyUsed :: int
  qs_inFlightRuns :: nat

definition getOrganizationRunQuotaSnapshot :: "api_env \<Rightarrow> string \<Rightarrow> quota_snapshot api_handler" where
  "getOrganizationRunQuotaSnapshot en org =
     h_bind (h_gets (\<lambda>w. ae_usageMonth en (aw_calls w))) (\<lambda>usageMonth.
     h_bind (data_get en (\<lambda>d. getOrganizationSubscription org (ad_pf d))) (\<lambda>sub.
     h_bind (data_get en (\<lambda>d. getOrganizationRunUsageMonthly org usageMonth (ad_pf d))) (\<lambda>usage.
     h_bind (data_get en (\<lambda>d. countWorkflowRunsByStatuses org [''queued'', ''running''] (ad_wf d))) (\<lambda>inFlightRuns.
     h_return \<lparr>qs_quota = resolveOrganizationRunQuotaSnapshot sub, qs_usageMonth = usageMonth,
       qs_monthlyUsed = (case usage of None \<Rightarrow> 0 | Some u \<Rightarrow> ru_runCount u), qs_inFlightRuns = inFlightRuns\<rparr>))))"

definition reached :: "int \<Rightarrow> int option \<Rightarrow> bool" where
  "reached used limit = (case limit of None \<Rightarrow> False | Some n \<Rightarrow> n \<le> used)"

definition assertOrganizationRunQuota :: "api_env \<Rightarrow> string \<Rightarrow> unit api_handler" where
  "assertOrganizationRunQuota en org =
     h_bind (getOrganizationRunQuotaSnapshot en org) (\<lambda>q.
     h_then (check (qo_status (qs_quota q) \<noteq> SubCanceled) ''ORG_RUN_QUOTA_EXCEEDED'')
     (h_then (check (\<not> reached (qs_monthlyUsed q) (el_monthly (qo_effective (qs_quota q)))) ''ORG_RUN_QUOTA_EXCEEDED'')
     (check (\<not> reached (int (qs_inFlightRuns q)) (el_inflight (qo_effective (qs_quota q)))) ''ORG_RUN_INFLIGHT_LIMIT_EXCEEDED'')))"

definition recordOrganizationRunUsage :: "api_env \<Rightarrow> string \<Rightarrow> unit api_handler" where
  \<comment> \<open>a failure is only logged\<close>
  "recordOrganizationRunUsage en org =
     h_bind (h_gets (\<lambda>w. ae_usageMonth en (aw_calls w))) (\<lambda>usageMonth.
     h_then (pf_do en (\<lambda>clk uid. incrementOrganizationRunUsageMonthly clk org usageMonth (Some 1))) (h_return ()))"

section \<open>Starting a run\<close>

definition job_of :: "run_rec \<Rightarrow> run_job" where
  "job_of r = \<lparr>rj_runId = rn_id r, rj_organizationId = rn_organizationId r, rj_workflowId = rn_workflowId r,
     rj_requestedByUserId = rn_requestedByUserId r, rj_attempts = max 1 (rn_maxAttempts r)\<rparr>"

definition queue_add :: "run_job \<Rightarrow> run_job list \<Rightarrow> run_job list" where
  "queue_add j q = (if list_ex (\<lambda>x. rj_runId x = rj_runId j) q then q else q @ [j])"

definition enqueueWorkflowRun :: "api_env \<Rightarrow> run_rec \<Rightarrow> bool api_handler" where
  \<comment> \<open>whether the queue took the job\<close>
  "enqueueWorkflowRun en r = api_do en (\<lambda>n d.
     if ae_queueUp en n then (True, d\<lparr>ad_queue := queue_add (job_of r) (ad_queue d)\<rparr>) else (False, d))"

definition queueRun :: "api_env \<Rightarrow> run_rec \<Rightarrow> run_rec api_handler" where
  \<comment> \<open>enqueue the run that was just created, or delete it again; then count it\<close>
  "queueRun en r =
     h_bind (enqueueWorkflowRun en r) (\<lambda>ok.
     if ok then h_then (recordOrganizationRunUsage en (rn_organizationId r)) (h_return r)
     else h_then (wf_do en (\<lambda>clk uid. deleteQueuedWorkflowRun (rn_organizationId r) (rn_workflowId r) (rn_id r)))
       (h_throw ''QUEUE_UNAVAILABLE''))"

definition run_error :: "wf_error \<Rightarrow> string" where
  "run_error e = ''INTERNAL_ERROR''"

definition postRun :: "api_env \<Rightarrow> request \<Rightarrow> auth_ctx option \<Rightarrow> string \<Rightarrow> string \<Rightarrow> json option option \<Rightarrow> run_rec api_handler" where
  "postRun en rq auth org workflowId body =
     h_bind (requireAuth auth) (\<lambda>a.
     h_bind (need ''BAD_REQUEST'' body) (\<lambda>inp.
     h_bind (requireOrgContext en rq auth (Some org)) (\<lambda>oc.
     h_bind (workflowOf en oc workflowId) (\<lambda>w.
     h_then (check (wk_status w = Published) ''CONFLICT'')
     (h_then (assertOrganizationRunQuota en (oc_organizationId oc))
     (h_bind (mapped run_error (wf_do en (\<lambda>clk uid. createWorkflowRun clk uid (oc_organizationId oc) (wk_id w) RunManual
         (ac_userId a) inp None None None (Some ''api.manual'')))) (queueRun en)))))))"

record channel_trigger_body =
  ct_organizationId :: string
  ct_workflowId :: string
  ct_requestedByUserId :: string
  ct_payload :: "json option"

definition postChannelTriggerRun :: "api_env \<Rightarrow> request \<Rightarrow> channel_trigger_body option \<Rightarrow> run_rec api_handler" where
  "postChannelTriggerRun en rq body =
     h_then (requireInternalServiceToken en rq)
     (h_bind (need ''BAD_REQUEST'' body) (\<lambda>b.
      h_bind (data_get en (\<lambda>d. getWorkflowById (ct_organizationId b) (ct_workflowId b) (ad_wf d))) (\<lambda>found.
      h_bind (need ''NOT_FOUND'' found) (\<lambda>w.
      h_then (check (wk_status w = Published) ''CONFLICT'')
      (h_then (assertOrganizationRunQuota en (ct_organizationId b))
      (h_bind (mapped run_error (wf_do en (\<lambda>clk uid. createWorkflowRun clk uid (ct_organizationId b) (ct_workflowId b) RunChannel
          (ct_requestedByUserId b) (ct_payload b) None None None (Some ''channel.internal'')))) (queueRun en)))))))"

datatype webhook_reply = WebhookRun string | WebhookDuplicate

definition webhook_input :: "json option \<Rightarrow> string \<Rightarrow> string \<Rightarrow> json" where
  "webhook_input body subscriptionId receivedAt =
     (let trigger = (''__trigger'', JObj [(''type'', JStr ''webhook''), (''subscriptionId'', JStr subscriptionId),
        (''receivedAt'', JStr receivedAt)])
      in case body of
           Some (JObj fs) \<Rightarrow> JObj (jset ''__trigger'' (snd trigger) fs)
         | _ \<Rightarrow> JObj [(''payload'', qq body JNull), trigger])"

definition postWebhook :: "api_env \<Rightarrow> string \<Rightarrow> string option \<Rightarrow> json option \<Rightarrow> webhook_reply api_handler" where
  \<comment> \<open>the token, the idempotency header, the body\<close>
  "postWebhook en token idempotencyKey body =
     h_then (check (8 \<le> length token \<and> length token \<le> 1024) ''TRIGGER_NOT_FOUND'')
     (h_bind (data_get en (\<lambda>d. getWorkflowTriggerSubscriptionByWebhookTokenHash (ax_sha256 (ae_auth en) token) (ad_wf d))) (\<lambda>found.
      h_bind (need ''TRIGGER_NOT_FOUND'' found) (\<lambda>sub.
      h_then (check (ts_enabled sub) ''TRIGGER_NOT_FOUND'')
      (h_bind (data_get en (\<lambda>d. getWorkflowById (ts_organizationId sub) (ts_workflowId sub) (ad_wf d))) (\<lambda>w.
       h_then (check (case w of None \<Rightarrow> False | Some w' \<Rightarrow> wk_status w' = Published) ''TRIGGER_NOT_FOUND'')
       (h_bind (h_gets (\<lambda>w. (api_now en w, take 200 (qq idempotencyKey (ae_uuid en (aw_calls w) 1))))) (\<lambda>(t, keyPart).
        h_then (assertOrganizationRunQuota en (ts_organizationId sub))
        (h_bind (wf_do en (\<lambda>clk uid. createWorkflowRun clk uid (ts_organizationId sub) (ts_workflowId sub) RunWebhook
           (ts_requestedByUserId sub) (Some (webhook_input body (ts_id sub) (ae_toIso en t))) None
           (Some (''webhook:'' @ ts_id sub @ '':'' @ keyPart)) (Some t) (Some ''webhook.token''))) (\<lambda>created.
         case created of
           Inl e \<Rightarrow> if e = WORKFLOW_TRIGGER_KEY_EXISTS then h_return WebhookDuplicate else h_throw (run_error e)
         | Inr r \<Rightarrow> h_then (queueRun en r) (h_return (WebhookRun (rn_id r))))))))))))"

definition postShareRun :: "api_env \<Rightarrow> auth_ctx option \<Rightarrow> string \<Rightarrow> json option option \<Rightarrow> run_rec api_handler" where
  \<comment> \<open>every share has the role \<open>runner\<close>\<close>
  "postShareRun en auth shareId body =
     h_bind (requireAuth auth) (\<lambda>a.
     h_bind (need ''BAD_REQUEST'' body) (\<lambda>inp.
     h_bind (getShare en auth shareId) (\<lambda>(sh, w).
     h_then (check (wk_status w = Published) ''CONFLICT'')
     (h_then (assertOrganizationRunQuota en (wk_organizationId w))
     (h_bind (mapped run_error (wf_do en (\<lambda>clk uid. createWorkflowRun clk uid (wk_organizationId w) (wk_id w) RunManual
         (ac_userId a) inp None None None (Some ''api.workflow_share'')))) (queueRun en))))))"

section \<open>Reading runs\<close>

definition runOf :: "api_env \<Rightarrow> org_ctx \<Rightarrow> string \<Rightarrow> string \<Rightarrow> run_rec api_handler" where
  "runOf en oc workflowId runId =
     h_bind (data_get en (\<lambda>d. getWorkflowRunById (oc_organizationId oc) workflowId runId (ad_wf d))) (need ''NOT_FOUND'')"

definition getRun :: "api_env \<Rightarrow> request \<Rightarrow> auth_ctx option \<Rightarrow> string \<Rightarrow> string \<Rightarrow> string \<Rightarrow> run_rec api_handler" where
  "getRun en rq auth org workflowId runId =
     h_bind (requireAuth auth) (\<lambda>a.
     h_bind (requireOrgContext en rq auth (Some org)) (\<lambda>oc. runOf en oc workflowId runId))"

definition getRuns :: "api_env \<Rightarrow> request \<Rightarrow> auth_ctx option \<Rightarrow> string \<Rightarrow> string \<Rightarrow> (int option \<times> cursor) option
    \<Rightarrow> (run_rec list \<times> cursor) api_handler" where
  "getRuns en rq auth org workflowId query =
     h_bind (requireAuth auth) (\<lambda>a.
     h_bind (need ''BAD_REQUEST'' query) (\<lambda>(limit, cur).
     h_bind (requireOrgContext en rq auth (Some org)) (\<lambda>oc.
     h_bind (workflowOf en oc workflowId) (\<lambda>w.
     data_get en (\<lambda>d. listWorkflowRuns (we_lc (ae_wf en)) (oc_organizationId oc) (wk_id w) (qq limit 50) cur (ad_wf d))))))"

definition getRunEvents :: "api_env \<Rightarrow> request \<Rightarrow> auth_ctx option \<Rightarrow> string \<Rightarrow> string \<Rightarrow> string \<Rightarrow> (int option \<times> cursor) option
    \<Rightarrow> (run_event list \<times> cursor) api_handler" where
  "getRunEvents en rq auth org workflowId runId query =
     h_bind (requireAuth auth) (\<lambda>a.
     h_bind (need ''BAD_REQUEST'' query) (\<lambda>(limit, cur).
     h_bind (requireOrgContext en rq auth (Some org)) (\<lambda>oc.
     h_bind (runOf en oc workflowId runId) (\<lambda>r.
     data_get en (\<lambda>d. listWorkflowRunEvents (we_lc (ae_wf en)) (oc_organizationId oc) workflowId runId (qq limit 200) cur (ad_wf d))))))"

definition getShareRuns :: "api_env \<Rightarrow> auth_ctx option \<Rightarrow> string \<Rightarrow> (int option \<times> cursor) option \<Rightarrow> (run_rec list \<times> cursor) api_handler" where
  "getShareRuns en auth shareId query =
     h_bind (requireAuth auth) (\<lambda>a.
     h_bind (need ''BAD_REQUEST'' query) (\<lambda>(limit, cur).
     data_get en (\<lambda>d. listWorkflowRunsByShare (we_lc (ae_wf en)) shareId (ac_userId a) (qq limit 50) cur (ad_wf d))))"

definition getShareRunEvents :: "api_env \<Rightarrow> auth_ctx option \<Rightarrow> string \<Rightarrow> string \<Rightarrow> (int option \<times> cursor) option
    \<Rightarrow> (run_event list \<times> cursor) api_handler" where
  "getShareRunEvents en auth shareId runId query =
     h_bind (requireAuth auth) (\<lambda>a.
     h_bind (need ''BAD_REQUEST'' query) (\<lambda>(limit, cur).
     h_bind (data_get en (\<lambda>d. getWorkflowRunByIdForShare shareId (ac_userId a) runId (ad_wf d))) (\<lambda>found.
     h_bind (need ''NOT_FOUND'' found) (\<lambda>r.
     data_get en (\<lambda>d. listWorkflowRunEventsByShare (we_lc (ae_wf en)) shareId (ac_userId a) runId (qq limit 200) cur (ad_wf d))))))"

section \<open>Approvals\<close>

definition getApprovals :: "api_env \<Rightarrow> request \<Rightarrow> auth_ctx option \<Rightarrow> string \<Rightarrow> (approval_status option \<times> int option \<times> cursor) option
    \<Rightarrow> (approval_req list \<times> cursor) api_handler" where
  "getApprovals en rq auth org query =
     h_bind (requireAuth auth) (\<lambda>a.
     h_then (check (ax_isUuid (ae_auth en) org) ''BAD_REQUEST'')
     (h_bind (need ''BAD_REQUEST'' query) (\<lambda>(st, limit, cur).
      h_bind (requireManager en rq auth org) (\<lambda>(a, oc).
      data_get en (\<lambda>d. listWorkflowApprovalRequests (we_lc (ae_wf en)) (oc_organizationId oc) st (qq limit 100) cur (ad_wf d))))))"

definition pendingApproval :: "api_env \<Rightarrow> org_ctx \<Rightarrow> string \<Rightarrow> approval_req api_handler" where
  \<comment> \<open>the request both decisions start from\<close>
  "pendingApproval en oc approvalId =
     h_bind (data_get en (\<lambda>d. getWorkflowApprovalRequestById (oc_organizationId oc) approvalId (ad_wf d))) (\<lambda>found.
     h_bind (need ''NOT_FOUND'' found) (\<lambda>existing.
     h_then (check (aq_status existing = ApPending) ''CONFLICT'') (h_return existing)))"

definition decide :: "api_env \<Rightarrow> auth_ctx \<Rightarrow> org_ctx \<Rightarrow> string \<Rightarrow> approval_status \<Rightarrow> string option \<Rightarrow> approval_req option api_handler" where
  "decide en a oc approvalId st note =
     wf_do en (\<lambda>clk uid. decideWorkflowApprovalRequest clk (oc_organizationId oc) (ac_userId a) approvalId st note)"

definition approvalEvent :: "api_env \<Rightarrow> string \<Rightarrow> run_rec \<Rightarrow> approval_req \<Rightarrow> string \<Rightarrow> StoreWorkflows.event_level \<Rightarrow> string \<Rightarrow> (string \<times> json) list
    \<Rightarrow> unit api_handler" where
  "approvalEvent en org r ap type level message extra =
     h_then (wf_do en (\<lambda>clk uid. appendWorkflowRunEvent clk uid org (rn_workflowId r) (rn_id r) (max 1 (rn_attemptCount r)) type
       (Some (aq_nodeId ap)) (Some (aq_nodeType ap)) level (Some message)
       (Some (JObj ((''approvalRequestId'', JStr (aq_id ap)) # extra))))) (h_return ())"

definition decided_by :: "approval_req \<Rightarrow> (string \<times> json) list" where
  "decided_by ap = [(''decidedByUserId'', case aq_decidedByUserId ap of None \<Rightarrow> JNull | Some u \<Rightarrow> JStr u)]"

definition resumeRun :: "api_env \<Rightarrow> string \<Rightarrow> run_rec \<Rightarrow> approval_req \<Rightarrow> bool api_handler" where
  \<comment> \<open>what approving does with the run that waits for the request\<close>
  "resumeRun en org r ap =
     h_bind (wf_do en (\<lambda>clk uid. clearWorkflowRunBlock org (rn_workflowId r) (rn_id r) (aq_id ap))) (\<lambda>cleared.
     case cleared of
       None \<Rightarrow> h_return False
     | Some _ \<Rightarrow>
         h_then (approvalEvent en org r ap ''approval_approved'' LevelInfo (qq (aq_decisionNote ap) ''approval granted'') (decided_by ap))
         (h_bind (enqueueWorkflowRun en r) (\<lambda>ok.
          if ok then h_return True
          else h_then (wf_do en (\<lambda>clk uid. markWorkflowRunFailed clk (rn_organizationId r) (rn_workflowId r) (rn_id r)
                 ''QUEUE_UNAVAILABLE_AFTER_APPROVAL''))
            (h_then (approvalEvent en (rn_organizationId r) r ap ''approval_resume_failed'' LevelError
                 ''QUEUE_UNAVAILABLE_AFTER_APPROVAL'' [(''error'', JStr (ae_queueError en))])
            (h_throw ''QUEUE_UNAVAILABLE'')))))"

definition postApprove :: "api_env \<Rightarrow> request \<Rightarrow> auth_ctx option \<Rightarrow> string \<Rightarrow> string \<Rightarrow> string option option
    \<Rightarrow> (approval_req \<times> bool) api_handler" where
  \<comment> \<open>the body: the note; the reply: the request and whether the run was resumed\<close>
  "postApprove en rq auth org approvalId body =
     h_bind (requireAuth auth) (\<lambda>a.
     h_then (check (ax_isUuid (ae_auth en) org \<and> ax_isUuid (ae_auth en) approvalId) ''BAD_REQUEST'')
     (h_bind (need ''BAD_REQUEST'' body) (\<lambda>note.
      h_bind (requireManager en rq auth org) (\<lambda>(a, oc).
      h_bind (pendingApproval en oc approvalId) (\<lambda>existing.
      h_bind (h_gets (api_now en)) (\<lambda>t.
      if aq_expiresAt existing \<le> t then
        h_then (decide en a oc (aq_id existing) ApExpired (Some ''expired before manual approval'')) (h_throw ''CONFLICT'')
      else
        h_bind (decide en a oc (aq_id existing) ApApproved (if note = Some '''' then None else note)) (\<lambda>decided.
        h_bind (need ''CONFLICT'' decided) (\<lambda>ap.
        h_bind (data_get en (\<lambda>d. getWorkflowRunByBlockedRequestId (oc_organizationId oc) (aq_id ap) (ad_wf d))) (\<lambda>run.
        h_bind (case run of None \<Rightarrow> h_return False | Some r \<Rightarrow> resumeRun en (oc_organizationId oc) r ap) (\<lambda>resumed.
        h_return (ap, resumed)))))))))))"

definition failRejected :: "api_env \<Rightarrow> string \<Rightarrow> run_rec \<Rightarrow> approval_req \<Rightarrow> unit api_handler" where
  "failRejected en org r ap =
     h_then (wf_do en (\<lambda>clk uid. clearWorkflowRunBlock org (rn_workflowId r) (rn_id r) (aq_id ap)))
     (h_then (wf_do en (\<lambda>clk uid. markWorkflowRunFailed clk (rn_organizationId r) (rn_workflowId r) (rn_id r) ''APPROVAL_REJECTED''))
     (approvalEvent en (rn_organizationId r) r ap ''approval_rejected'' LevelWarn (qq (aq_decisionNote ap) ''approval rejected'')
       (decided_by ap)))"

definition postReject :: "api_env \<Rightarrow> request \<Rightarrow> auth_ctx option \<Rightarrow> string \<Rightarrow> string \<Rightarrow> string option option \<Rightarrow> approval_req api_handler" where
  "postReject en rq auth org approvalId body =
     h_bind (requireAuth auth) (\<lambda>a.
     h_then (check (ax_isUuid (ae_auth en) org \<and> ax_isUuid (ae_auth en) approvalId) ''BAD_REQUEST'')
     (h_bind (need ''BAD_REQUEST'' body) (\<lambda>note.
      h_bind (requireManager en rq auth org) (\<lambda>(a, oc).
      h_bind (pendingApproval en oc approvalId) (\<lambda>existing.
      h_bind (decide en a oc (aq_id existing) ApRejected (if note = Some '''' then None else note)) (\<lambda>decided.
      h_bind (need ''CONFLICT'' decided) (\<lambda>ap.
      h_bind (data_get en (\<lambda>d. getWorkflowRunByBlockedRequestId (oc_organizationId oc) (aq_id ap) (ad_wf d))) (\<lambda>run.
      h_then (case run of None \<Rightarrow> h_return () | Some r \<Rightarrow> failRejected en (oc_organizationId oc) r ap) (h_return ap)))))))))"

end
