(* ===== verification/ApiOrgs.thy ===== *)
theory ApiOrgs
  imports ApiRuns
begin

text \<open>
  The routes for organizations, their members, invitations, billing and support tickets, and those of
  the system administrators (\<open>apps/api/src/server.ts\<close>).
\<close>

section \<open>Organizations\<close>

definition orgCreateError :: "id_error \<Rightarrow> string" where
  \<comment> \<open>\<open>isOrgSlugConflictError\<close>\<close>
  "orgCreateError e = (if e = ORG_SLUG_EXISTS then ''ORG_SLUG_CONFLICT'' else ''INTERNAL_ERROR'')"

definition postOrg :: "api_env \<Rightarrow> auth_ctx option \<Rightarrow> (string \<times> string) option \<Rightarrow> (org_rec \<times> membership) api_handler" where
  \<comment> \<open>the body: name and slug\<close>
  "postOrg en auth body =
     h_bind (requireAuth auth) (\<lambda>a.
     h_bind (need ''BAD_REQUEST'' body) (\<lambda>(nm, slug).
     h_bind (resolveUserCapabilities en (ac_userId a) (Some (ac_email a))) (\<lambda>caps.
     h_then (check (cp_canManageOrganizations caps) ''ORG_PLAN_UPGRADE_REQUIRED'')
     (h_then (check (case cp_maxOrganizations caps of None \<Rightarrow> True | Some n \<Rightarrow> cp_currentOrganizations caps < n) ''ORG_LIMIT_REACHED'')
     (mapped orgCreateError (id_do en (\<lambda>clk uid. createOrganizationWithOwner clk uid nm slug (ac_userId a))))))))"

definition postInvitation :: "api_env \<Rightarrow> request \<Rightarrow> auth_ctx option \<Rightarrow> string \<Rightarrow> (string \<times> role_key) option \<Rightarrow> invitation api_handler" where
  \<comment> \<open>the schema accepts the roles admin and member\<close>
  "postInvitation en rq auth org body =
     h_bind (requireManager en rq auth org) (\<lambda>(a, oc).
     h_bind (need ''BAD_REQUEST'' body) (\<lambda>(email, role).
     h_then (check (role \<noteq> RoleOwner) ''BAD_REQUEST'')
     (id_do en (\<lambda>clk uid. createInvitation clk uid (oc_organizationId oc) email role (ac_userId a) None))))"

definition postMemberRole :: "api_env \<Rightarrow> request \<Rightarrow> auth_ctx option \<Rightarrow> string \<Rightarrow> string \<Rightarrow> role_key option \<Rightarrow> membership api_handler" where
  "postMemberRole en rq auth org memberId body =
     h_bind (requireManager en rq auth org) (\<lambda>(a, oc).
     h_bind (need ''BAD_REQUEST'' body) (\<lambda>role.
     h_then (check (role \<noteq> RoleOwner \<or> mb_roleKey (oc_membership oc) = RoleOwner) ''FORBIDDEN'')
     (h_bind (id_do en (\<lambda>clk uid. updateMembershipRole (oc_organizationId oc) memberId role)) (need ''NOT_FOUND''))))"

definition getSettings :: "api_env \<Rightarrow> request \<Rightarrow> auth_ctx option \<Rightarrow> string \<Rightarrow> json api_handler" where
  "getSettings en rq auth org =
     h_bind (requireAuth auth) (\<lambda>a.
     h_bind (requireOrgContext en rq auth (Some org)) (\<lambda>oc.
     h_bind (mapped store_error (data_get en (\<lambda>d. getOrganizationSettings (oc_organizationId oc) (ad_id d)))) (\<lambda>settings.
     h_return (settings_of en settings))))"

definition putSettings :: "api_env \<Rightarrow> request \<Rightarrow> auth_ctx option \<Rightarrow> string \<Rightarrow> json option \<Rightarrow> json api_handler" where
  "putSettings en rq auth org body =
     h_bind (requireManager en rq auth org) (\<lambda>(a, oc).
     h_bind (need ''BAD_REQUEST'' body) (\<lambda>patch.
     h_bind (mapped store_error (data_get en (\<lambda>d. getOrganizationSettings (oc_organizationId oc) (ad_id d)))) (\<lambda>existing.
     h_bind (mapped store_error (id_do en (\<lambda>clk uid. updateOrganizationSettings (oc_organizationId oc)
        (mergeOrgSettings (ax_isUuid (ae_auth en)) (ae_isUrl en) (settings_of en existing) patch)))) (\<lambda>updated.
     h_return (settings_of en updated)))))"

definition parseInvitationTokenOrganizationId :: "(string \<Rightarrow> bool) \<Rightarrow> string \<Rightarrow> string option" where
  "parseInvitationTokenOrganizationId isUuid token =
     (case splitOn (CHR ''.'') token of [] \<Rightarrow> None | org # _ \<Rightarrow> if isUuid org then Some org else None)"

definition invitationErrorToAppError :: "id_error \<Rightarrow> string" where
  "invitationErrorToAppError e = (case e of
     INVITATION_NOT_FOUND \<Rightarrow> ''NOT_FOUND''
   | INVITATION_EXPIRED \<Rightarrow> ''BAD_REQUEST''
   | INVITATION_EMAIL_MISMATCH \<Rightarrow> ''FORBIDDEN''
   | INVITATION_NOT_PENDING \<Rightarrow> ''BAD_REQUEST''
   | _ \<Rightarrow> ''INVITATION_ACCEPT_FAILED'')"

definition checkInvitationHeader :: "api_env \<Rightarrow> request \<Rightarrow> string \<Rightarrow> unit api_handler" where
  \<comment> \<open>a header that is present must name the organization of the invitation\<close>
  "checkInvitationHeader en rq org =
     (case rq_orgHeader rq of
        None \<Rightarrow> h_return ()
      | Some h \<Rightarrow>
          if h = '''' then h_return ()
          else (case parseOrgHeaderValue (ax_isUuid (ae_auth en)) (rq_orgHeader rq) of
              Inl code \<Rightarrow> h_throw code
            | Inr org' \<Rightarrow> check (org' = org) ''INVALID_ORG_CONTEXT''))"

definition postInvitationAccept :: "api_env \<Rightarrow> request \<Rightarrow> auth_ctx option \<Rightarrow> string \<Rightarrow> accept_result api_handler" where
  "postInvitationAccept en rq auth token =
     h_bind (requireAuth auth) (\<lambda>a.
     h_then (check (token \<noteq> '''') ''BAD_REQUEST'')
     (h_bind (need ''BAD_REQUEST'' (parseInvitationTokenOrganizationId (ax_isUuid (ae_auth en)) token)) (\<lambda>org.
      h_then (checkInvitationHeader en rq org)
      (h_bind (resolveUserCapabilities en (ac_userId a) (Some (ac_email a))) (\<lambda>caps.
       h_then (case cp_maxOrganizations caps of
           None \<Rightarrow> h_return ()
         | Some n \<Rightarrow> h_bind (data_get en (\<lambda>d. listOrganizationsForUser (ac_userId a) (ad_id d))) (\<lambda>orgs.
             check (list_ex (\<lambda>(g, m). og_id g = org) orgs \<or> length orgs < n) ''ORG_PLAN_UPGRADE_REQUIRED''))
       (mapped invitationErrorToAppError (id_do en (\<lambda>clk uid. acceptInvitation clk uid org token (ac_userId a) (ac_email a)))))))))"

section \<open>Billing\<close>

definition getEntitlements :: "api_env \<Rightarrow> request \<Rightarrow> auth_ctx option \<Rightarrow> string \<Rightarrow> (quota \<times> org_subscription option) api_handler" where
  "getEntitlements en rq auth org =
     h_bind (requireAuth auth) (\<lambda>a.
     h_bind (requireOrgContext en rq auth (Some org)) (\<lambda>oc.
     h_bind (data_get en (\<lambda>d. getOrganizationSubscription (oc_organizationId oc) (ad_pf d))) (\<lambda>sub.
     h_return (resolveOrganizationRunQuotaSnapshot sub, sub))))"

record usage_reply =
  ur_usageMonth :: string
  ur_used :: int
  ur_limit :: "int option"
  ur_remaining :: "int option"
  ur_inFlight :: nat
  ur_inFlightLimit :: "int option"

definition getUsage :: "api_env \<Rightarrow> request \<Rightarrow> auth_ctx option \<Rightarrow> string \<Rightarrow> usage_reply api_handler" where
  "getUsage en rq auth org =
     h_bind (requireAuth auth) (\<lambda>a.
     h_bind (requireOrgContext en rq auth (Some org)) (\<lambda>oc.
     h_bind (getOrganizationRunQuotaSnapshot en (oc_organizationId oc)) (\<lambda>q.
     let limit = el_monthly (qo_effective (qs_quota q)) in
     h_return \<lparr>ur_usageMonth = qs_usageMonth q, ur_used = qs_monthlyUsed q, ur_limit = limit,
       ur_remaining = map_option (\<lambda>n. max 0 (n - qs_monthlyUsed q)) limit, ur_inFlight = qs_inFlightRuns q,
       ur_inFlightLimit = el_inflight (qo_effective (qs_quota q))\<rparr>)))"

section \<open>Support tickets of an organization\<close>

definition orgOfHeader :: "api_env \<Rightarrow> request \<Rightarrow> auth_ctx option \<Rightarrow> (auth_ctx \<times> org_ctx) api_handler" where
  \<comment> \<open>\<open>requireAuth\<close> and \<open>requireOrgContext\<close> without an organization in the route\<close>
  "orgOfHeader en rq auth =
     h_bind (requireAuth auth) (\<lambda>a. h_bind (requireOrgContext en rq auth None) (\<lambda>oc. h_return (a, oc)))"

definition manages :: "org_ctx \<Rightarrow> bool" where
  "manages oc \<longleftrightarrow> is_manager (mb_roleKey (oc_membership oc))"

definition getOrgTickets :: "api_env \<Rightarrow> request \<Rightarrow> auth_ctx option \<Rightarrow> (string option \<times> int option) option
    \<Rightarrow> support_ticket list api_handler" where
  "getOrgTickets en rq auth query =
     h_bind (orgOfHeader en rq auth) (\<lambda>(a, oc).
     h_bind (need ''BAD_REQUEST'' query) (\<lambda>(st, limit).
     data_get en (\<lambda>d. listSupportTickets st limit (Some (Some (oc_organizationId oc)))
       (if manages oc then None else Some (Some (ac_userId a))) (ad_pf d))))"

definition ticketEvent :: "api_env \<Rightarrow> string \<Rightarrow> string \<Rightarrow> string \<Rightarrow> json option \<Rightarrow> ticket_event api_handler" where
  "ticketEvent en ticketId actor type payload =
     pf_do en (\<lambda>clk uid. appendSupportTicketEvent clk uid ticketId (Some actor) type payload)"

definition postOrgTicket :: "api_env \<Rightarrow> request \<Rightarrow> auth_ctx option \<Rightarrow> ticket_input option \<Rightarrow> support_ticket api_handler" where
  \<comment> \<open>the schema has a subject, a content, a category and a priority\<close>
  "postOrgTicket en rq auth body =
     h_bind (orgOfHeader en rq auth) (\<lambda>(a, oc).
     h_bind (need ''BAD_REQUEST'' body) (\<lambda>b.
     h_bind (pf_do en (\<lambda>clk uid. createSupportTicket clk uid (b\<lparr>ti_requesterUserId := Some (ac_userId a),
        ti_organizationId := Some (oc_organizationId oc), ti_status := None, ti_assigneeUserId := None\<rparr>))) (\<lambda>t.
     h_then (ticketEvent en (tk_id t) (ac_userId a) ''created''
        (Some (JObj [(''source'', JStr ''org''), (''organizationId'', JStr (oc_organizationId oc))]))) (h_return t))))"

definition ticketOf :: "api_env \<Rightarrow> org_ctx \<Rightarrow> string \<Rightarrow> support_ticket api_handler" where
  "ticketOf en oc ticketId =
     h_bind (data_get en (\<lambda>d. getSupportTicketById ticketId (ad_pf d))) (\<lambda>found.
     h_bind (need ''NOT_FOUND'' found) (\<lambda>t.
     h_then (check (tk_organizationId t = Some (oc_organizationId oc)) ''NOT_FOUND'') (h_return t)))"

definition getOrgTicket :: "api_env \<Rightarrow> request \<Rightarrow> auth_ctx option \<Rightarrow> string \<Rightarrow> (support_ticket \<times> ticket_event list) api_handler" where
  "getOrgTicket en rq auth ticketId =
     h_bind (orgOfHeader en rq auth) (\<lambda>(a, oc).
     h_then (check (ax_isUuid (ae_auth en) ticketId) ''BAD_REQUEST'')
     (h_bind (ticketOf en oc ticketId) (\<lambda>t.
      h_then (check (manages oc \<or> tk_requesterUserId t = Some (ac_userId a)) ''FORBIDDEN'')
      (h_bind (data_get en (\<lambda>d. listSupportTicketEvents (tk_id t) (Some 200) (ad_pf d))) (\<lambda>es. h_return (t, es))))))"

record ticket_patch =
  tp_status :: "string option"
  tp_priority :: "string option"
  tp_assigneeUserId :: "string option option"

definition patch_json :: "ticket_patch \<Rightarrow> json" where
  "patch_json p = JObj ((case tp_status p of None \<Rightarrow> [] | Some v \<Rightarrow> [(''status'', JStr v)])
     @ (case tp_priority p of None \<Rightarrow> [] | Some v \<Rightarrow> [(''priority'', JStr v)])
     @ (case tp_assigneeUserId p of None \<Rightarrow> [] | Some None \<Rightarrow> [(''assigneeUserId'', JNull)]
         | Some (Some u) \<Rightarrow> [(''assigneeUserId'', JStr u)]))"

definition applyTicketPatch :: "api_env \<Rightarrow> auth_ctx \<Rightarrow> string \<Rightarrow> ticket_patch \<Rightarrow> support_ticket api_handler" where
  "applyTicketPatch en a ticketId p =
     h_bind (pf_do en (\<lambda>clk uid. patchSupportTicket clk ticketId (tp_status p) (tp_priority p) (tp_assigneeUserId p))) (\<lambda>found.
     h_bind (need ''NOT_FOUND'' found) (\<lambda>t.
     h_then (ticketEvent en (tk_id t) (ac_userId a) ''updated'' (Some (patch_json p))) (h_return t)))"

definition patchOrgTicket :: "api_env \<Rightarrow> request \<Rightarrow> auth_ctx option \<Rightarrow> string \<Rightarrow> ticket_patch option \<Rightarrow> support_ticket api_handler" where
  "patchOrgTicket en rq auth ticketId body =
     h_bind (orgOfHeader en rq auth) (\<lambda>(a, oc).
     h_then (check (manages oc) ''FORBIDDEN'')
     (h_then (check (ax_isUuid (ae_auth en) ticketId) ''BAD_REQUEST'')
     (h_bind (need ''BAD_REQUEST'' body) (\<lambda>p.
      h_bind (ticketOf en oc ticketId) (\<lambda>current. applyTicketPatch en a (tk_id current) p)))))"

section \<open>System administration\<close>

definition auditLog :: "api_env \<Rightarrow> auth_ctx \<Rightarrow> string \<Rightarrow> string \<Rightarrow> string \<Rightarrow> json \<Rightarrow> audit_log api_handler" where
  "auditLog en a action targetType targetId metadata = pf_do en (\<lambda>clk uid.
     appendPlatformAuditLog clk uid (Some (ac_userId a)) action targetType (Some targetId) (Some metadata))"

definition getPlatformSettings :: "api_env \<Rightarrow> auth_ctx option \<Rightarrow> platform_setting list api_handler" where
  "getPlatformSettings en auth = h_then (requireSystemAdmin en auth)
     (data_get en (\<lambda>d. listPlatformSettings (we_lc (ae_wf en)) (ad_pf d)))"

definition putPlatformSetting :: "api_env \<Rightarrow> auth_ctx option \<Rightarrow> (string \<times> json option) option \<Rightarrow> platform_setting api_handler" where
  "putPlatformSetting en auth body =
     h_bind (requireSystemAdmin en auth) (\<lambda>a.
     h_bind (need ''BAD_REQUEST'' body) (\<lambda>(k, v).
     h_bind (pf_do en (\<lambda>clk uid. upsertPlatformSetting clk k v (Some (ac_userId a)))) (\<lambda>s.
     h_then (auditLog en a ''platform_settings.updated'' ''platform_setting'' (pg_key s) (JObj [(''key'', JStr (pg_key s))]))
       (h_return s))))"

definition settingValue :: "api_env \<Rightarrow> auth_ctx option \<Rightarrow> string \<Rightarrow> json \<Rightarrow> json api_handler" where
  \<comment> \<open>the routes for risk policies, incidents, metrics and logs, with their defaults\<close>
  "settingValue en auth k fallback = h_then (requireSystemAdmin en auth)
     (h_bind (data_get en (\<lambda>d. getPlatformSetting k (ad_pf d))) (\<lambda>s.
      h_return (case s of None \<Rightarrow> fallback | Some r \<Rightarrow> qq (nullishJ (Some (pg_value r))) fallback)))"

definition putRiskPolicies :: "api_env \<Rightarrow> auth_ctx option \<Rightarrow> json option \<Rightarrow> json api_handler" where
  "putRiskPolicies en auth body =
     h_bind (requireSystemAdmin en auth) (\<lambda>a.
     h_bind (pf_do en (\<lambda>clk uid. upsertPlatformSetting clk ''risk.policies'' (Some (qq (nullishJ body) (JObj []))) (Some (ac_userId a)))) (\<lambda>s.
     h_then (auditLog en a ''risk.policies.updated'' ''platform_setting'' ''risk.policies'' (JObj [])) (h_return (pg_value s))))"

definition getAdminSubscription :: "api_env \<Rightarrow> auth_ctx option \<Rightarrow> string \<Rightarrow> (quota \<times> org_subscription option) api_handler" where
  "getAdminSubscription en auth org =
     h_bind (requireSystemAdmin en auth) (\<lambda>a.
     h_then (check (ax_isUuid (ae_auth en) org) ''BAD_REQUEST'')
     (h_bind (data_get en (\<lambda>d. getOrganizationSubscription org (ad_pf d))) (\<lambda>sub.
      h_return (resolveOrganizationRunQuotaSnapshot sub, sub))))"

record subscription_body =
  ub_tier :: sub_tier
  ub_status :: "sub_status option"
  ub_monthlyRunLimit :: "int option option"
  ub_inflightRunLimit :: "int option option"
  ub_metadata :: "json option"

fun tier_name :: "sub_tier \<Rightarrow> string" where
  "tier_name TierFree = ''free''" | "tier_name TierPro = ''pro''" | "tier_name TierEnterprise = ''enterprise''"

fun status_name :: "sub_status \<Rightarrow> string" where
  "status_name SubActive = ''active''" | "status_name SubTrialing = ''trialing''"
| "status_name SubPastDue = ''past_due''" | "status_name SubCanceled = ''canceled''"

definition limit_json :: "int option \<Rightarrow> json" where
  "limit_json v = (case v of None \<Rightarrow> JNull | Some n \<Rightarrow> JNum n)"

definition putAdminSubscription :: "api_env \<Rightarrow> auth_ctx option \<Rightarrow> string \<Rightarrow> subscription_body option
    \<Rightarrow> (quota \<times> org_subscription) api_handler" where
  "putAdminSubscription en auth org body =
     h_bind (requireSystemAdmin en auth) (\<lambda>a.
     h_then (check (ax_isUuid (ae_auth en) org) ''BAD_REQUEST'')
     (h_bind (need ''BAD_REQUEST'' body) (\<lambda>b.
      h_bind (data_get en (\<lambda>d. getOrganizationSubscription org (ad_pf d))) (\<lambda>existing.
      h_bind (pf_do en (\<lambda>clk uid. upsertOrganizationSubscription clk org (ac_userId a) (ub_tier b)
          (qq (ub_status b) (case existing of None \<Rightarrow> SubActive | Some e \<Rightarrow> ob_status e))
          (qq (ub_monthlyRunLimit b) (case existing of None \<Rightarrow> None | Some e \<Rightarrow> ob_monthlyRunLimit e))
          (qq (ub_inflightRunLimit b) (case existing of None \<Rightarrow> None | Some e \<Rightarrow> ob_inflightRunLimit e))
          (case ub_metadata b of Some v \<Rightarrow> Some v | None \<Rightarrow> map_option ob_metadata existing))) (\<lambda>sub.
      h_then (auditLog en a ''organization_subscription.updated'' ''organization'' org
         (JObj [(''tier'', JStr (tier_name (ob_tier sub))), (''status'', JStr (status_name (ob_status sub))),
           (''monthlyRunLimit'', limit_json (ob_monthlyRunLimit sub)), (''inflightRunLimit'', limit_json (ob_inflightRunLimit sub))]))
        (h_return (resolveOrganizationRunQuotaSnapshot (Some sub), sub)))))))"

definition getSystemAdmins :: "api_env \<Rightarrow> auth_ctx option \<Rightarrow> (platform_role \<times> user_rec option) list api_handler" where
  "getSystemAdmins en auth = h_then (requireSystemAdmin en auth)
     (h_bind (data_get en (\<lambda>d. listPlatformUserRoles (Some ''system_admin'') None (ad_pf d))) (\<lambda>rows.
      data_get en (\<lambda>d. map (\<lambda>r. (r, getUserById (pr_userId r) (ad_id d))) rows)))"

definition adminTarget :: "api_env \<Rightarrow> (string option \<times> string option) option \<Rightarrow> string api_handler" where
  \<comment> \<open>the user a body names by id or by email; the schema demands one of them\<close>
  "adminTarget en body =
     h_bind (need ''BAD_REQUEST'' body) (\<lambda>(userId, email).
     if truthy userId then h_return (qq userId '''')
     else if truthy email then
       h_bind (data_get en (\<lambda>d. getUserByEmail (toLowerCase (qq email '''')) (ad_id d))) (\<lambda>found.
       h_bind (need ''NOT_FOUND'' found) (\<lambda>u. h_then (check (us_id u \<noteq> '''') ''BAD_REQUEST'') (h_return (us_id u))))
     else h_throw ''BAD_REQUEST'')"

definition postSystemAdmin :: "api_env \<Rightarrow> auth_ctx option \<Rightarrow> (string option \<times> string option) option \<Rightarrow> platform_role api_handler" where
  "postSystemAdmin en auth body =
     h_bind (requireSystemAdmin en auth) (\<lambda>a.
     h_bind (adminTarget en body) (\<lambda>userId.
     h_bind (pf_do en (\<lambda>clk uid. createPlatformUserRole clk uid userId ''system_admin'' (Some (ac_userId a)))) (\<lambda>created.
     h_then (auditLog en a ''system_admin.granted'' ''user'' userId (JObj [(''roleKey'', JStr ''system_admin'')])) (h_return created))))"

definition deleteSystemAdmin :: "api_env \<Rightarrow> auth_ctx option \<Rightarrow> (string option \<times> string option) option \<Rightarrow> bool api_handler" where
  "deleteSystemAdmin en auth body =
     h_bind (requireSystemAdmin en auth) (\<lambda>a.
     h_bind (adminTarget en body) (\<lambda>userId.
     h_then (check (userId \<noteq> ac_userId a) ''FORBIDDEN'')
     (h_bind (pf_do en (\<lambda>clk uid. deletePlatformUserRole userId ''system_admin'')) (\<lambda>deleted.
      h_then (auditLog en a ''system_admin.revoked'' ''user'' userId (JObj [(''deleted'', JBool deleted)])) (h_return deleted)))))"

definition getAdminTickets :: "api_env \<Rightarrow> auth_ctx option \<Rightarrow> (string option \<times> int option) option \<Rightarrow> support_ticket list api_handler" where
  "getAdminTickets en auth query = h_then (requireSystemAdmin en auth)
     (h_bind (need ''BAD_REQUEST'' query) (\<lambda>(st, limit).
      data_get en (\<lambda>d. listSupportTickets st limit None None (ad_pf d))))"

definition postAdminTicket :: "api_env \<Rightarrow> auth_ctx option \<Rightarrow> ticket_input option \<Rightarrow> support_ticket api_handler" where
  "postAdminTicket en auth body =
     h_bind (requireSystemAdmin en auth) (\<lambda>a.
     h_bind (need ''BAD_REQUEST'' body) (\<lambda>b.
     h_bind (pf_do en (\<lambda>clk uid. createSupportTicket clk uid b)) (\<lambda>t.
     h_then (ticketEvent en (tk_id t) (ac_userId a) ''created'' (Some (JObj [(''source'', JStr ''admin'')])))
     (h_then (auditLog en a ''ticket.created'' ''support_ticket'' (tk_id t) (JObj [])) (h_return t)))))"

definition getAdminTicket :: "api_env \<Rightarrow> auth_ctx option \<Rightarrow> string \<Rightarrow> (support_ticket \<times> ticket_event list) api_handler" where
  "getAdminTicket en auth ticketId = h_then (requireSystemAdmin en auth)
     (h_then (check (ax_isUuid (ae_auth en) ticketId) ''BAD_REQUEST'')
     (h_bind (data_get en (\<lambda>d. getSupportTicketById ticketId (ad_pf d))) (\<lambda>found.
      h_bind (need ''NOT_FOUND'' found) (\<lambda>t.
      h_bind (data_get en (\<lambda>d. listSupportTicketEvents (tk_id t) (Some 200) (ad_pf d))) (\<lambda>es. h_return (t, es))))))"

definition patchAdminTicket :: "api_env \<Rightarrow> auth_ctx option \<Rightarrow> string \<Rightarrow> ticket_patch option \<Rightarrow> support_ticket api_handler" where
  "patchAdminTicket en auth ticketId body =
     h_bind (requireSystemAdmin en auth) (\<lambda>a.
     h_then (check (ax_isUuid (ae_auth en) ticketId) ''BAD_REQUEST'')
     (h_bind (need ''BAD_REQUEST'' body) (\<lambda>p. applyTicketPatch en a ticketId p)))"

definition postTicketEvent :: "api_env \<Rightarrow> auth_ctx option \<Rightarrow> string \<Rightarrow> (string \<times> json option) option \<Rightarrow> ticket_event api_handler" where
  "postTicketEvent en auth ticketId body =
     h_bind (requireSystemAdmin en auth) (\<lambda>a.
     h_then (check (ax_isUuid (ae_auth en) ticketId) ''BAD_REQUEST'')
     (h_bind (need ''BAD_REQUEST'' body) (\<lambda>(type, payload).
      h_bind (data_get en (\<lambda>d. getSupportTicketById ticketId (ad_pf d))) (\<lambda>found.
      h_bind (need ''NOT_FOUND'' found) (\<lambda>t.
      ticketEvent en (tk_id t) (ac_userId a) type (Some (qq (nullishJ payload) (JObj []))))))))"

end
