(* ===== verification/ApiExecutors.thy ===== *)
theory ApiExecutors
  imports ApiOrgs
begin

text \<open>
  The routes for executors, their pairing, managed executors, and connector secrets
  (\<open>apps/api/src/server.ts\<close>), with \<open>normalizeConnectorId\<close> of \<open>packages/shared/src/llm/provider-registry.ts\<close>.
\<close>

section \<open>Managed executors\<close>

record managed_body =
  mg_name :: string
  mg_maxInFlight :: "int option"
  mg_labels :: "string list option"
  mg_capabilities :: "json option"
  mg_runtimeClass :: "string option"
  mg_region :: "string option"

definition postManagedIssue :: "api_env \<Rightarrow> request \<Rightarrow> managed_body option \<Rightarrow> (string \<times> string) api_handler" where
  \<comment> \<open>the reply: the executor's id and its token\<close>
  "postManagedIssue en rq body =
     h_then (requireInternalServiceToken en rq)
     (h_bind (need ''BAD_REQUEST'' body) (\<lambda>b.
      h_bind (h_gets (\<lambda>w. ae_uuid en (aw_calls w) 1 @ ''.'' @ ae_nonce en (aw_calls w))) (\<lambda>executorToken.
      h_bind (ex_do en (\<lambda>clk uid. createManagedExecutor clk uid
         \<lparr>mi_name = mg_name b, mi_tokenHash = ax_sha256 (ae_auth en) executorToken, mi_maxInFlight = mg_maxInFlight b,
          mi_labels = mg_labels b, mi_capabilities = mg_capabilities b, mi_enabled = None, mi_drain = None,
          mi_runtimeClass = mg_runtimeClass b, mi_region = mg_region b\<rparr>)) (\<lambda>created.
      h_return (mx_id created, executorToken)))))"

definition postManagedRevoke :: "api_env \<Rightarrow> request \<Rightarrow> string \<Rightarrow> unit api_handler" where
  "postManagedRevoke en rq executorId =
     h_then (requireInternalServiceToken en rq)
     (h_then (check (ax_isUuid (ae_auth en) executorId) ''BAD_REQUEST'')
     (h_bind (ex_do en (\<lambda>clk uid. revokeManagedExecutor clk executorId)) (\<lambda>ok. check ok ''NOT_FOUND'')))"

section \<open>Executors of an organization\<close>

datatype executor_status = ExRevoked | ExOnline | ExOffline

record executor_view =
  ew_id :: string
  ew_name :: string
  ew_status :: executor_status
  ew_lastSeenAt :: "timestamp option"
  ew_createdAt :: timestamp
  ew_revokedAt :: "timestamp option"
  ew_labels :: "string list"
  ew_reportedLabels :: "string list"

definition executorView :: "timestamp \<Rightarrow> int \<Rightarrow> org_executor \<Rightarrow> executor_view" where
  "executorView now staleMs r =
     (let onlineWindowMs = min (5 * 60000) (max 30000 staleMs);
          online = (case ox_lastSeenAt r of None \<Rightarrow> False | Some seen \<Rightarrow> seen \<noteq> 0 \<and> now - seen < onlineWindowMs)
      in \<lparr>ew_id = ox_id r, ew_name = ox_name r,
          ew_status = (if ox_revokedAt r \<noteq> None then ExRevoked else if online then ExOnline else ExOffline),
          ew_lastSeenAt = ox_lastSeenAt r, ew_createdAt = ox_createdAt r, ew_revokedAt = ox_revokedAt r,
          ew_labels = ox_labels r,
          ew_reportedLabels = (case ox_capabilities r of None \<Rightarrow> [] | Some c \<Rightarrow> strings_of (json_list (get_property c ''labels'')))\<rparr>)"

definition listExecutorsHandler :: "api_env \<Rightarrow> request \<Rightarrow> auth_ctx option \<Rightarrow> string \<Rightarrow> executor_view list api_handler" where
  "listExecutorsHandler en rq auth org =
     h_bind (requireManager en rq auth org) (\<lambda>(a, oc).
     h_bind (data_get en (\<lambda>d. listOrganizationExecutors (oc_organizationId oc) (ad_ex d))) (\<lambda>executors.
     h_bind (h_gets (api_now en)) (\<lambda>t. h_return (map (executorView t (ae_staleMs en)) executors))))"

definition setExecutorLabelsHandler :: "api_env \<Rightarrow> request \<Rightarrow> auth_ctx option \<Rightarrow> string \<Rightarrow> string \<Rightarrow> string list option
    \<Rightarrow> org_executor api_handler" where
  "setExecutorLabelsHandler en rq auth org targetId body =
     h_bind (requireManager en rq auth org) (\<lambda>(a, oc).
     h_bind (need ''BAD_REQUEST'' body) (\<lambda>labels.
     h_bind (ex_do en (\<lambda>clk uid. setOrganizationExecutorLabels (oc_organizationId oc) targetId
       (uniqueStrings (map JStr labels)))) (need ''AGENT_NOT_FOUND'')))"

definition createExecutorPairingTokenHandler :: "api_env \<Rightarrow> request \<Rightarrow> auth_ctx option \<Rightarrow> string \<Rightarrow> (string \<times> timestamp) api_handler" where
  "createExecutorPairingTokenHandler en rq auth org =
     h_bind (requireManager en rq auth org) (\<lambda>(a, oc).
     h_bind (h_gets (\<lambda>w. (oc_organizationId oc @ ''.'' @ ae_nonce en (aw_calls w), api_now en w + 15 * 60 * 1000))) (\<lambda>(token, expiresAt).
     h_then (ex_do en (\<lambda>clk uid. createExecutorPairingToken clk uid (oc_organizationId oc) (ac_userId a)
         (ax_sha256 (ae_auth en) token) expiresAt))
       (h_return (token, expiresAt))))"

definition revokeExecutorHandler :: "api_env \<Rightarrow> request \<Rightarrow> auth_ctx option \<Rightarrow> string \<Rightarrow> string \<Rightarrow> unit api_handler" where
  "revokeExecutorHandler en rq auth org targetId =
     h_bind (requireManager en rq auth org) (\<lambda>(a, oc).
     h_bind (ex_do en (\<lambda>clk uid. revokeOrganizationExecutor clk (oc_organizationId oc) targetId)) (\<lambda>ok.
     check ok ''AGENT_NOT_FOUND''))"

definition deleteExecutorHandler :: "api_env \<Rightarrow> request \<Rightarrow> auth_ctx option \<Rightarrow> string \<Rightarrow> string \<Rightarrow> unit api_handler" where
  "deleteExecutorHandler en rq auth org targetId =
     h_bind (requireManager en rq auth org) (\<lambda>(a, oc).
     h_bind (data_get en (\<lambda>d. find (\<lambda>r. ox_id r = targetId) (listOrganizationExecutors (oc_organizationId oc) (ad_ex d)))) (\<lambda>found.
     h_bind (need ''AGENT_NOT_FOUND'' found) (\<lambda>target.
     h_then (check (ox_revokedAt target \<noteq> None) ''CONFLICT'')
     (h_bind (ex_do en (\<lambda>clk uid. deleteOrganizationExecutor (oc_organizationId oc) targetId)) (\<lambda>ok.
      check ok ''CONFLICT'')))))"

definition parsePairingTokenOrganizationId :: "(string \<Rightarrow> bool) \<Rightarrow> string \<Rightarrow> string option" where
  "parsePairingTokenOrganizationId isUuid token =
     (case splitOn (CHR ''.'') token of [] \<Rightarrow> None | org # _ \<Rightarrow> if isUuid org then Some org else None)"

record pair_body =
  pb_pairingToken :: string
  pb_name :: string
  pb_capabilities :: "json option"

record pair_reply =
  py_executorId :: string
  py_executorToken :: string
  py_organizationId :: string

definition pairExecutorHandler :: "api_env \<Rightarrow> pair_body option \<Rightarrow> pair_reply api_handler" where
  "pairExecutorHandler en body =
     h_bind (need ''BAD_REQUEST'' body) (\<lambda>b.
     h_bind (need ''PAIRING_TOKEN_INVALID'' (parsePairingTokenOrganizationId (ax_isUuid (ae_auth en)) (pb_pairingToken b))) (\<lambda>org.
     let tokenHash = ax_sha256 (ae_auth en) (pb_pairingToken b) in
     h_bind (data_get en (\<lambda>d. getExecutorPairingTokenByHash org tokenHash (ad_ex d))) (\<lambda>found.
     h_bind (need ''PAIRING_TOKEN_INVALID'' found) (\<lambda>existing.
     h_then (check (pt_usedAt existing = None) ''PAIRING_TOKEN_INVALID'')
     (h_bind (h_gets (api_now en)) (\<lambda>t.
      h_then (check (t < pt_expiresAt existing) ''PAIRING_TOKEN_EXPIRED'')
      (h_bind (ex_do en (\<lambda>clk uid. consumeExecutorPairingToken clk org tokenHash)) (\<lambda>consumed.
       h_then (check (consumed \<noteq> None) ''PAIRING_TOKEN_INVALID'')
       (h_bind (h_gets (\<lambda>w. org @ ''.'' @ ae_nonce en (aw_calls w))) (\<lambda>executorToken.
        h_bind (ex_do en (\<lambda>clk uid. createOrganizationExecutor clk uid org (pb_name b) (ax_sha256 (ae_auth en) executorToken)
           (pt_createdByUserId existing) (pb_capabilities b))) (\<lambda>executor.
        h_return \<lparr>py_executorId = ox_id executor, py_executorToken = executorToken, py_organizationId = org\<rparr>)))))))))))"

section \<open>Connector secrets\<close>

definition connector_aliases :: "(string \<times> string) list" where
  "connector_aliases = [(''llm.gemini'', ''llm.google''), (''llm.vertex.oauth'', ''llm.google-vertex.oauth'')]"

definition normalizeConnectorId :: "string \<Rightarrow> string" where
  "normalizeConnectorId connectorId = (let trimmed = trim connectorId in qq (map_of connector_aliases trimmed) trimmed)"

definition getSecrets :: "api_env \<Rightarrow> request \<Rightarrow> auth_ctx option \<Rightarrow> string \<Rightarrow> string option option \<Rightarrow> connector_secret list api_handler" where
  "getSecrets en rq auth org query =
     h_bind (requireAuth auth) (\<lambda>a.
     h_bind (need ''BAD_REQUEST'' query) (\<lambda>connectorId.
     h_bind (requireManager en rq auth org) (\<lambda>(a, oc).
     h_bind (data_get en (\<lambda>d. listConnectorSecrets (we_lc (ae_wf en)) (oc_organizationId oc) None (ad_sec d))) (\<lambda>rows.
     h_return (if \<not> truthy connectorId then rows
       else filter (\<lambda>r. normalizeConnectorId (sr_connectorId r) = normalizeConnectorId (qq connectorId '''')) rows)))))"

definition secretErrorToAppError :: "secret_error \<Rightarrow> string" where
  "secretErrorToAppError e =
     (if e = SECRET_ALREADY_EXISTS then ''SECRET_ALREADY_EXISTS''
      else if e = SECRETS_KEK_BASE64_REQUIRED \<or> e = SECRETS_KEK_BASE64_INVALID then ''SECRETS_NOT_CONFIGURED''
      else ''INTERNAL_ERROR'')"

record secret_body =
  sy_connectorId :: string
  sy_name :: string
  sy_value :: string

definition postSecret :: "api_env \<Rightarrow> request \<Rightarrow> auth_ctx option \<Rightarrow> string \<Rightarrow> secret_body option \<Rightarrow> connector_secret api_handler" where
  "postSecret en rq auth org body =
     h_bind (requireManager en rq auth org) (\<lambda>(a, oc).
     h_bind (need ''BAD_REQUEST'' body) (\<lambda>b.
     h_then (check (trim (sy_value b) \<noteq> '''') ''SECRET_VALUE_REQUIRED'')
     (let connectorId = normalizeConnectorId (sy_connectorId b) in
      h_then (check (connectorId \<in> set (ae_connectorIds en)) ''BAD_REQUEST'')
      (mapped secretErrorToAppError (sec_do en (\<lambda>clk uid rnd. createConnectorSecret (ae_b64 en) (ae_seal en) (ae_secretsEnv en)
         clk uid rnd (oc_organizationId oc) (ac_userId a) connectorId (sy_name b) (sy_value b)))))))"

definition putSecret :: "api_env \<Rightarrow> request \<Rightarrow> auth_ctx option \<Rightarrow> string \<Rightarrow> string \<Rightarrow> string option \<Rightarrow> connector_secret api_handler" where
  "putSecret en rq auth org secretId body =
     h_bind (requireManager en rq auth org) (\<lambda>(a, oc).
     h_bind (need ''BAD_REQUEST'' body) (\<lambda>val.
     h_then (check (trim val \<noteq> '''') ''SECRET_VALUE_REQUIRED'')
     (h_bind (mapped secretErrorToAppError (sec_do en (\<lambda>clk uid rnd. rotateConnectorSecret (ae_b64 en) (ae_seal en) (ae_secretsEnv en)
         clk rnd (oc_organizationId oc) (ac_userId a) secretId val))) (need ''SECRET_NOT_FOUND''))))"

definition deleteSecret :: "api_env \<Rightarrow> request \<Rightarrow> auth_ctx option \<Rightarrow> string \<Rightarrow> string \<Rightarrow> unit api_handler" where
  "deleteSecret en rq auth org secretId =
     h_bind (requireManager en rq auth org) (\<lambda>(a, oc).
     h_bind (sec_do en (\<lambda>clk uid rnd. deleteConnectorSecret (oc_organizationId oc) secretId)) (\<lambda>ok. check ok ''SECRET_NOT_FOUND''))"

end
