(* ===== verification/ApiSessions.thy ===== *)
theory ApiSessions
  imports ApiExecutors AgentRouting
begin

text \<open>
  The routes for agent sessions, agent bindings and memory (\<open>apps/api/src/server.ts\<close>).  The gateway's
  answer to a post is a parameter.
\<close>

section \<open>Routing a new session\<close>

record session_body =
  sx_title :: "string option"
  sx_actor :: "string option"
  sx_channel :: "string option"
  sx_peer :: "string option"
  sx_scope :: session_scope
  sx_context :: "json option"
  sx_engineId :: string
  sx_model :: "string option"
  sx_secretId :: "string option"
  sx_toolsetId :: "string option"
  sx_promptSystem :: "string option"
  sx_promptInstructions :: string
  sx_toolsAllow :: "string list"
  sx_limits :: "json option"
  sx_resetPolicy :: "json option"
  sx_executorSelector :: "exec_selector option"

definition context_text :: "session_body \<Rightarrow> string \<Rightarrow> string option" where
  "context_text b k = asString (Option.bind (sx_context b) (\<lambda>c. get_property c k))"

fun role_name :: "role_key \<Rightarrow> string" where
  "role_name RoleOwner = ''owner''" | "role_name RoleAdmin = ''admin''" | "role_name RoleMember = ''member''"

definition text_is :: "json option \<Rightarrow> string option \<Rightarrow> bool" where
  \<comment> \<open>\<open>typeof x === "string" && x === y\<close>\<close>
  "text_is x y \<longleftrightarrow> (case asString x of None \<Rightarrow> False | Some s \<Rightarrow> y = Some s)"

definition matchBinding :: "org_ctx \<Rightarrow> session_body \<Rightarrow> agent_binding \<Rightarrow> bool" where
  "matchBinding oc b r =
     (let field = get_property (bd_match r); d = bd_dimension r in
      if d = ''peer'' then text_is (field ''peer'') (sx_peer b)
      else if d = ''parent_peer'' then False
      else if d = ''org_roles'' then
        list_ex (\<lambda>role. role = role_name (mb_roleKey (oc_membership oc))) (strings_of (json_list (field ''orgRoles'')))
      else if d = ''organization'' then
        \<not> truthyJ (field ''organizationId'') \<or> field ''organizationId'' = Some (JStr (oc_organizationId oc))
      else if d = ''team'' then text_is (field ''teamId'') (context_text b ''team'')
      else if d = ''account'' then text_is (field ''accountId'') (context_text b ''account'')
      else if d = ''channel'' then text_is (field ''channelId'') (sx_channel b)
      else d = ''default'')"

definition dimensionOrder :: "string list" where
  "dimensionOrder = [''peer'', ''parent_peer'', ''org_roles'', ''organization'', ''team'', ''account'', ''channel'', ''default'']"

definition binding_before :: "(string \<Rightarrow> string \<Rightarrow> int) \<Rightarrow> agent_binding \<Rightarrow> agent_binding \<Rightarrow> int" where
  "binding_before lc l r =
     (let leftRank = int (index_of (bd_dimension l) dimensionOrder); rightRank = int (index_of (bd_dimension r) dimensionOrder) in
      if leftRank \<noteq> rightRank then leftRank - rightRank
      else if bd_priority l \<noteq> bd_priority r then bd_priority r - bd_priority l
      else lc (bd_id l) (bd_id r))"

definition matchedBinding :: "(string \<Rightarrow> string \<Rightarrow> int) \<Rightarrow> org_ctx \<Rightarrow> session_body \<Rightarrow> agent_binding list \<Rightarrow> agent_binding option" where
  "matchedBinding lc oc b bindings =
     (case js_sort (binding_before lc) (filter (matchBinding oc b) bindings) of [] \<Rightarrow> None | r # _ \<Rightarrow> Some r)"

definition normalizedPart :: "string option \<Rightarrow> string \<Rightarrow> string" where
  "normalizedPart value fallback = (case value of
     None \<Rightarrow> fallback | Some v \<Rightarrow> if trim v = '''' then fallback else normalizePart v)"

definition sessionKeyOf :: "string \<Rightarrow> org_ctx \<Rightarrow> auth_ctx \<Rightarrow> session_body \<Rightarrow> string option \<Rightarrow> string" where
  \<comment> \<open>the first argument is the random part of a main session\<close>
  "sessionKeyOf random oc a b routedAgentId =
     (let base = ''agent:'' @ normalizedPart (Some (qq routedAgentId ''main'')) ''main'' @ '':org:''
            @ normalizedPart (Some (oc_organizationId oc)) ''unknown-org'' @ '':scope:''
            @ normalizedPart (Some (scope_text (sx_scope b))) ''main'';
          peer = '':peer:'' @ normalizedPart (Some (qq (sx_peer b) (qq (sx_actor b) (ac_userId a)))) ''anonymous'';
          channel = '':channel:'' @ normalizedPart (sx_channel b) ''unknown-channel''
      in case sx_scope b of
           PerPeer \<Rightarrow> base @ peer
         | PerChannelPeer \<Rightarrow> base @ channel @ peer
         | PerAccountChannelPeer \<Rightarrow>
             base @ '':account:'' @ normalizedPart (context_text b ''account'') ''unknown-account'' @ channel @ peer
         | ScopeMain \<Rightarrow> base @ '':chat:'' @ random)"

section \<open>Sessions\<close>

definition resolveEngineSecret :: "json \<Rightarrow> session_body \<Rightarrow> string option" where
  "resolveEngineSecret settings b =
     (let default_of = (\<lambda>k. json_path settings [''agents'', ''engineAuthDefaults'', sx_engineId b, k]) in
      case sx_secretId b of
        Some s \<Rightarrow> Some s
      | None \<Rightarrow> if default_of ''mode'' = Some (JStr ''api_key'') then asString (default_of ''secretId'') else None)"

definition resolveModel :: "session_body \<Rightarrow> string" where
  "resolveModel b = (let m = trim (qq (sx_model b) '''') in if m \<noteq> '''' then m else engine_default_model (sx_engineId b))"

definition provider_of_engine :: "string \<Rightarrow> string" where
  "provider_of_engine e = (if e = ''gateway.claude.v2'' then ''claude'' else if e = ''gateway.opencode.v2'' then ''opencode'' else ''codex'')"

definition system_event :: "string \<Rightarrow> string option \<Rightarrow> json \<Rightarrow> event_input" where
  "system_event type key payload = \<lparr>ie_eventType = type, ie_level = LogInfo, ie_handoffFromAgentId = None,
     ie_handoffToAgentId = None, ie_idempotencyKey = key, ie_payload = Some payload\<rparr>"

definition sess_error_code :: "sess_error \<Rightarrow> string" where
  "sess_error_code e = ''INTERNAL_ERROR''"

definition logEvent :: "api_env \<Rightarrow> string \<Rightarrow> string \<Rightarrow> event_input \<Rightarrow> session_event api_handler" where
  "logEvent en org sessionId i = mapped sess_error_code (ss_do en (\<lambda>clk uid. appendAgentSessionEvent clk uid org sessionId i))"

definition byon_selector :: exec_selector where
  "byon_selector = \<lparr>es_pool = exec_pool.PoolByon, es_labels = None, es_group = None, es_tag = None, es_executorId = None\<rparr>"

definition postSession :: "api_env \<Rightarrow> request \<Rightarrow> auth_ctx option \<Rightarrow> string \<Rightarrow> session_body option \<Rightarrow> agent_session api_handler" where
  "postSession en rq auth org body =
     h_bind (requireAuth auth) (\<lambda>a.
     h_bind (requireOrgContext en rq auth (Some org)) (\<lambda>oc.
     h_bind (need ''BAD_REQUEST'' body) (\<lambda>b.
     h_bind (mapped store_error (data_get en (\<lambda>d. getOrganizationSettings (oc_organizationId oc) (ad_id d)))) (\<lambda>raw.
     h_bind (data_get en (\<lambda>d. listAgentBindings (we_lc (ae_wf en)) (oc_organizationId oc) (ad_ss d))) (\<lambda>bindings.
     let settings = settings_of en raw; secretId = resolveEngineSecret settings b; model = resolveModel b;
         baseUrl = opt_json (asString (json_path settings [''agents'', ''engineRuntimeDefaults'', sx_engineId b, ''baseUrl'']));
         matched = matchedBinding (we_lc (ae_wf en)) oc b bindings; routedAgentId = map_option bd_agentId matched in
     h_bind (h_gets (\<lambda>w. sessionKeyOf (ae_uuid en (aw_calls w) 1) oc a b routedAgentId)) (\<lambda>sessionKey.
     h_bind (ss_do en (\<lambda>clk uid. createAgentSession clk uid (oc_organizationId oc) (ac_userId a)
       \<lparr>in_sessionKey = Some sessionKey, in_scope = Some (scope_text (sx_scope b)), in_routedAgentId = routedAgentId,
        in_bindingId = map_option bd_id matched, in_title = Some (qq (sx_title b) ''''), in_engineId = sx_engineId b,
        in_toolsetId = sx_toolsetId b, in_llmProvider = provider_of_engine (sx_engineId b), in_llmModel = model,
        in_llmSecretId = secretId, in_promptSystem = sx_promptSystem b, in_promptInstructions = sx_promptInstructions b,
        in_toolsAllow = sx_toolsAllow b, in_limits = Some (qq (nullishJ (sx_limits b)) (JObj [])),
        in_resetPolicySnapshot = Some (qq (nullishJ (sx_resetPolicy b)) (JObj [])),
        in_executorSelector = Some (qq (sx_executorSelector b) byon_selector)\<rparr>)) (\<lambda>session.
     h_then (logEvent en (oc_organizationId oc) (as_id session) (system_event ''session_created'' None
       (JObj [(''engineId'', JStr (sx_engineId b)),
         (''engine'', JObj [(''id'', JStr (sx_engineId b)), (''model'', JStr model), (''auth'', JObj [(''secretId'', opt_json secretId)]),
            (''runtime'', JObj [(''baseUrl'', baseUrl)])]),
         (''route'', JObj [(''sessionKey'', JStr sessionKey), (''scope'', JStr (scope_text (sx_scope b))),
            (''routedAgentId'', opt_json routedAgentId), (''bindingId'', opt_json (map_option bd_id matched))]),
         (''executionMode'', JStr ''pinned-node-host'')])))
       (h_return session))))))))"

definition sessionOf :: "api_env \<Rightarrow> org_ctx \<Rightarrow> string \<Rightarrow> agent_session api_handler" where
  "sessionOf en oc sessionId =
     h_bind (data_get en (\<lambda>d. getAgentSessionById (oc_organizationId oc) sessionId (ad_ss d))) (need ''NOT_FOUND'')"

definition postToGateway :: "api_env \<Rightarrow> session_post \<Rightarrow> bool option api_handler" where
  \<comment> \<open>the \<open>fetch\<close> to \<open>/internal/v1/sessions/send\<close>\<close>
  "postToGateway en p = api_do en (\<lambda>n d. (ae_gateway en n,
     if ae_gateway en n = Some True then d\<lparr>ad_posts := ad_posts d @ [p]\<rparr> else d))"

record message_body =
  ms_message :: string
  ms_attachments :: "json option"
  ms_idempotencyKey :: "string option"

definition postMessage :: "api_env \<Rightarrow> request \<Rightarrow> auth_ctx option \<Rightarrow> string \<Rightarrow> string \<Rightarrow> message_body option
    \<Rightarrow> session_event api_handler" where
  "postMessage en rq auth org sessionId body =
     h_bind (requireAuth auth) (\<lambda>a.
     h_bind (requireOrgContext en rq auth (Some org)) (\<lambda>oc.
     h_bind (need ''BAD_REQUEST'' body) (\<lambda>b.
     h_bind (sessionOf en oc sessionId) (\<lambda>session.
     h_then (check (as_status session \<noteq> SessArchived) ''SESSION_ARCHIVED'')
     (let attachments = qq (ms_attachments b) (JArr []) in
      h_bind (logEvent en (oc_organizationId oc) sessionId (system_event ''user_message'' (ms_idempotencyKey b)
        (JObj [(''message'', JStr (ms_message b)), (''attachments'', attachments)]))) (\<lambda>userEvent.
      h_bind (postToGateway en \<lparr>sp_organizationId = oc_organizationId oc, sp_userId = ac_userId a, sp_sessionId = sessionId,
        sp_userEventSeq = ev_seq userEvent, sp_message = ms_message b, sp_attachments = attachments,
        sp_idempotencyKey = ms_idempotencyKey b\<rparr>) (\<lambda>res.
      case res of
        None \<Rightarrow> h_throw ''INTERNAL_ERROR''
      | Some ok \<Rightarrow> h_then (check ok ''QUEUE_UNAVAILABLE'') (h_return userEvent))))))))"

datatype reset_mode = KeepHistory | ClearHistory

fun reset_name :: "reset_mode \<Rightarrow> string" where
  "reset_name KeepHistory = ''keep_history''" | "reset_name ClearHistory = ''clear_history''"

definition postReset :: "api_env \<Rightarrow> request \<Rightarrow> auth_ctx option \<Rightarrow> string \<Rightarrow> string \<Rightarrow> reset_mode option \<Rightarrow> agent_session api_handler" where
  "postReset en rq auth org sessionId body =
     h_bind (requireAuth auth) (\<lambda>a.
     h_bind (requireOrgContext en rq auth (Some org)) (\<lambda>oc.
     h_bind (need ''BAD_REQUEST'' body) (\<lambda>mode.
     h_bind (ss_do en (\<lambda>clk uid. setAgentSessionPinnedAgent clk (oc_organizationId oc) sessionId (Some None) (Some None) (Some None))) (\<lambda>found.
     h_bind (need ''NOT_FOUND'' found) (\<lambda>session.
     h_then (logEvent en (oc_organizationId oc) sessionId (system_event ''system'' None
        (JObj [(''action'', JStr ''session_reset_agent''), (''mode'', JStr (reset_name mode))])))
       (h_return session))))))"

definition getSessions :: "api_env \<Rightarrow> request \<Rightarrow> auth_ctx option \<Rightarrow> string \<Rightarrow> int option \<Rightarrow> status_filter option \<Rightarrow> cursor
    \<Rightarrow> (agent_session list \<times> cursor) api_handler" where
  \<comment> \<open>the limit as a number, when the query has one; an unknown status is \<open>active\<close>\<close>
  "getSessions en rq auth org limit st cur =
     h_bind (requireAuth auth) (\<lambda>a.
     h_bind (requireOrgContext en rq auth (Some org)) (\<lambda>oc.
     data_get en (\<lambda>d. listAgentSessions (we_lc (ae_wf en)) (oc_organizationId oc) (Some (qq st OnlyActive))
       (max 1 (min 200 (qq limit 50))) cur (ad_ss d))))"

definition deleteSession :: "api_env \<Rightarrow> request \<Rightarrow> auth_ctx option \<Rightarrow> string \<Rightarrow> string \<Rightarrow> agent_session api_handler" where
  "deleteSession en rq auth org sessionId =
     h_bind (requireAuth auth) (\<lambda>a.
     h_bind (requireOrgContext en rq auth (Some org)) (\<lambda>oc.
     h_bind (ss_do en (\<lambda>clk uid. archiveAgentSession clk (oc_organizationId oc) sessionId)) (need ''NOT_FOUND'')))"

definition postRestore :: "api_env \<Rightarrow> request \<Rightarrow> auth_ctx option \<Rightarrow> string \<Rightarrow> string \<Rightarrow> agent_session api_handler" where
  "postRestore en rq auth org sessionId =
     h_bind (requireAuth auth) (\<lambda>a.
     h_bind (requireOrgContext en rq auth (Some org)) (\<lambda>oc.
     h_bind (ss_do en (\<lambda>clk uid. restoreAgentSession clk (oc_organizationId oc) sessionId)) (need ''NOT_FOUND'')))"

definition getSession :: "api_env \<Rightarrow> request \<Rightarrow> auth_ctx option \<Rightarrow> string \<Rightarrow> string \<Rightarrow> agent_session api_handler" where
  "getSession en rq auth org sessionId =
     h_bind (requireAuth auth) (\<lambda>a.
     h_bind (requireOrgContext en rq auth (Some org)) (\<lambda>oc. sessionOf en oc sessionId))"

definition getSessionEvents :: "api_env \<Rightarrow> request \<Rightarrow> auth_ctx option \<Rightarrow> string \<Rightarrow> string \<Rightarrow> int option \<Rightarrow> int option
    \<Rightarrow> (session_event list \<times> int option) api_handler" where
  "getSessionEvents en rq auth org sessionId limit cur =
     h_bind (requireAuth auth) (\<lambda>a.
     h_bind (requireOrgContext en rq auth (Some org)) (\<lambda>oc.
     data_get en (\<lambda>d. listAgentSessionEvents (oc_organizationId oc) sessionId (max 1 (min 500 (qq limit 200))) cur (ad_ss d))))"

section \<open>Bindings\<close>

definition getBindings :: "api_env \<Rightarrow> request \<Rightarrow> auth_ctx option \<Rightarrow> string \<Rightarrow> agent_binding list api_handler" where
  "getBindings en rq auth org =
     h_bind (requireAuth auth) (\<lambda>a.
     h_bind (requireOrgContext en rq auth (Some org)) (\<lambda>oc.
     data_get en (\<lambda>d. listAgentBindings (we_lc (ae_wf en)) (oc_organizationId oc) (ad_ss d))))"

record binding_body =
  bb_agentId :: string
  bb_priority :: int
  bb_dimension :: string
  bb_match :: json
  bb_metadata :: "json option"

definition postBinding :: "api_env \<Rightarrow> request \<Rightarrow> auth_ctx option \<Rightarrow> string \<Rightarrow> binding_body option \<Rightarrow> agent_binding api_handler" where
  "postBinding en rq auth org body =
     h_bind (requireManager en rq auth org) (\<lambda>(a, oc).
     h_bind (need ''BAD_REQUEST'' body) (\<lambda>b.
     ss_do en (\<lambda>clk uid. createAgentBinding clk uid (oc_organizationId oc) (ac_userId a) (bb_agentId b) (bb_priority b)
       (bb_dimension b) (Some (bb_match b)) (Some (qq (bb_metadata b) JNull)))))"

record binding_patch =
  bp_agentId :: "string option"
  bp_priority :: "int option"
  bp_dimension :: "string option"
  bp_match :: "json option"
  bp_metadata :: "json option"

definition patchBinding :: "api_env \<Rightarrow> request \<Rightarrow> auth_ctx option \<Rightarrow> string \<Rightarrow> string \<Rightarrow> binding_patch option \<Rightarrow> agent_binding api_handler" where
  "patchBinding en rq auth org bindingId body =
     h_bind (requireManager en rq auth org) (\<lambda>(a, oc).
     h_bind (need ''BAD_REQUEST'' body) (\<lambda>b.
     h_bind (ss_do en (\<lambda>clk uid. patchAgentBinding clk (oc_organizationId oc) bindingId (bp_agentId b) (bp_priority b)
       (bp_dimension b) (bp_match b) (bp_metadata b))) (need ''NOT_FOUND'')))"

definition deleteBinding :: "api_env \<Rightarrow> request \<Rightarrow> auth_ctx option \<Rightarrow> string \<Rightarrow> string \<Rightarrow> unit api_handler" where
  "deleteBinding en rq auth org bindingId =
     h_bind (requireManager en rq auth org) (\<lambda>(a, oc).
     h_bind (ss_do en (\<lambda>clk uid. deleteAgentBinding (oc_organizationId oc) bindingId)) (\<lambda>ok. check ok ''NOT_FOUND''))"

section \<open>Memory\<close>

record sync_body =
  sz_sessionId :: "string option"
  sz_sessionKey :: "string option"
  sz_provider :: string
  sz_reason :: "string option"

definition postMemorySync :: "api_env \<Rightarrow> request \<Rightarrow> auth_ctx option \<Rightarrow> string \<Rightarrow> sync_body option \<Rightarrow> sync_job api_handler" where
  "postMemorySync en rq auth org body =
     h_bind (requireAuth auth) (\<lambda>a.
     h_bind (requireOrgContext en rq auth (Some org)) (\<lambda>oc.
     h_bind (need ''BAD_REQUEST'' body) (\<lambda>b.
     let sessionKey = (case sz_sessionKey b of Some k \<Rightarrow> k
         | None \<Rightarrow> if truthy (sz_sessionId b) then ''session:'' @ qq (sz_sessionId b) '''' else ''session:main'') in
     ss_do en (\<lambda>clk uid. createAgentMemorySyncJob clk uid (oc_organizationId oc) (ac_userId a) (sz_sessionId b) sessionKey
       (sz_provider b) (Some SyncQueued) (sz_reason b) (Some (JObj [(''source'', JStr ''api'')]))))))"

record search_query =
  sw_q :: string
  sw_sessionKey :: "string option"
  sw_limit :: "int option"

definition getMemorySearch :: "api_env \<Rightarrow> request \<Rightarrow> auth_ctx option \<Rightarrow> string \<Rightarrow> search_query option \<Rightarrow> memory_doc list api_handler" where
  "getMemorySearch en rq auth org query =
     h_bind (requireAuth auth) (\<lambda>a.
     h_bind (requireOrgContext en rq auth (Some org)) (\<lambda>oc.
     h_bind (need ''BAD_REQUEST'' query) (\<lambda>q.
     h_bind (data_get en (\<lambda>d. listAgentMemoryDocuments (we_lc (ae_wf en)) (oc_organizationId oc) (sw_sessionKey q)
         (Some (max (qq (sw_limit q) 30 * 2) 20)) (ad_ss d))) (\<lambda>docs.
     let needle = toLowerCase (trim (sw_q q)) in
     h_return (slice0 (qq (sw_limit q) 30) (filter (\<lambda>r. includesStr (toLowerCase (md_docPath r)) needle
       \<or> includesStr (toLowerCase (md_contentHash r)) needle) docs))))))"

definition getMemoryDoc :: "api_env \<Rightarrow> request \<Rightarrow> auth_ctx option \<Rightarrow> string \<Rightarrow> string \<Rightarrow> (memory_doc \<times> memory_chunk list) api_handler" where
  "getMemoryDoc en rq auth org documentId =
     h_bind (requireAuth auth) (\<lambda>a.
     h_bind (requireOrgContext en rq auth (Some org)) (\<lambda>oc.
     h_bind (data_get en (\<lambda>d. getAgentMemoryDocumentById (oc_organizationId oc) documentId (ad_ss d))) (\<lambda>found.
     h_bind (need ''NOT_FOUND'' found) (\<lambda>doc.
     h_bind (data_get en (\<lambda>d. listAgentMemoryChunksByDocument (oc_organizationId oc) (md_id doc) (Some 1000) (ad_ss d))) (\<lambda>chunks.
     h_return (doc, chunks))))))"

end
