(* ===== verification/ApiChannels.thy ===== *)
theory ApiChannels
  imports ApiSessions
begin

text \<open>
  The routes for channel accounts, their secrets and allowlists, and pairing requests
  (\<open>apps/api/src/server.ts\<close>).  The reply of the gateway to a test message is a parameter.
\<close>

section \<open>Accounts\<close>

definition chan_code :: "chan_error \<Rightarrow> string" where
  \<comment> \<open>the errors of the store are not mapped\<close>
  "chan_code e = ''INTERNAL_ERROR''"

definition nonempty :: "string option \<Rightarrow> string option" where
  \<comment> \<open>\<open>v ? { v } : {}\<close>\<close>
  "nonempty v = (if truthy v then v else None)"

definition getAccounts :: "api_env \<Rightarrow> request \<Rightarrow> auth_ctx option \<Rightarrow> string \<Rightarrow> string option option \<Rightarrow> channel_account list api_handler" where
  "getAccounts en rq auth org query =
     h_bind (requireManager en rq auth org) (\<lambda>(a, oc).
     h_bind (need ''BAD_REQUEST'' query) (\<lambda>channelId.
     data_get en (\<lambda>d. listChannelAccounts (we_lc (ae_wf en)) (oc_organizationId oc) channelId (ad_ch d))))"

definition postAccount :: "api_env \<Rightarrow> request \<Rightarrow> auth_ctx option \<Rightarrow> string \<Rightarrow> account_input option \<Rightarrow> channel_account api_handler" where
  "postAccount en rq auth org body =
     h_bind (requireManager en rq auth org) (\<lambda>(a, oc).
     h_bind (need ''BAD_REQUEST'' body) (\<lambda>b.
     mapped chan_code (ch_do en (\<lambda>clk uid. createChannelAccount clk uid (oc_organizationId oc) (ac_userId a)
       (b\<lparr>ai_accountKey := trim (ai_accountKey b), ai_displayName := map_option trim (nonempty (ai_displayName b)),
          ai_webhookUrl := nonempty (ai_webhookUrl b)\<rparr>)))))"

definition accountOf :: "api_env \<Rightarrow> org_ctx \<Rightarrow> string \<Rightarrow> channel_account api_handler" where
  "accountOf en oc accountId =
     h_bind (data_get en (\<lambda>d. getChannelAccountById (oc_organizationId oc) accountId (ad_ch d))) (need ''NOT_FOUND'')"

definition getAccount :: "api_env \<Rightarrow> request \<Rightarrow> auth_ctx option \<Rightarrow> string \<Rightarrow> string \<Rightarrow> channel_account api_handler" where
  "getAccount en rq auth org accountId =
     h_bind (requireManager en rq auth org) (\<lambda>(a, oc). accountOf en oc accountId)"

definition patchAccount :: "api_env \<Rightarrow> request \<Rightarrow> auth_ctx option \<Rightarrow> string \<Rightarrow> string \<Rightarrow> account_patch option \<Rightarrow> channel_account api_handler" where
  "patchAccount en rq auth org accountId body =
     h_bind (requireManager en rq auth org) (\<lambda>(a, oc).
     h_bind (need ''BAD_REQUEST'' body) (\<lambda>p.
     h_bind (ch_do en (\<lambda>clk uid. updateChannelAccount clk (oc_organizationId oc) (ac_userId a) accountId p)) (need ''NOT_FOUND'')))"

definition deleteAccount :: "api_env \<Rightarrow> request \<Rightarrow> auth_ctx option \<Rightarrow> string \<Rightarrow> string \<Rightarrow> unit api_handler" where
  "deleteAccount en rq auth org accountId =
     h_bind (requireManager en rq auth org) (\<lambda>(a, oc).
     h_bind (ch_do en (\<lambda>clk uid. deleteChannelAccount (oc_organizationId oc) accountId)) (\<lambda>ok. check ok ''NOT_FOUND''))"

definition postAccountSecret :: "api_env \<Rightarrow> request \<Rightarrow> auth_ctx option \<Rightarrow> string \<Rightarrow> string \<Rightarrow> (string \<times> string) option \<Rightarrow> channel_secret api_handler" where
  "postAccountSecret en rq auth org accountId body =
     h_bind (requireManager en rq auth org) (\<lambda>(a, oc).
     h_bind (need ''BAD_REQUEST'' body) (\<lambda>(nm, val).
     h_then (check (trim val \<noteq> '''') ''SECRET_VALUE_REQUIRED'')
     (mapped chan_code (ch_do en (\<lambda>clk uid. createChannelAccountSecret clk uid (oc_organizationId oc) (ac_userId a) accountId nm val)))))"

section \<open>Allowlists\<close>

definition getAllowlist :: "api_env \<Rightarrow> request \<Rightarrow> auth_ctx option \<Rightarrow> string \<Rightarrow> string \<Rightarrow> string option option \<Rightarrow> allowlist_entry list api_handler" where
  "getAllowlist en rq auth org accountId query =
     h_bind (requireManager en rq auth org) (\<lambda>(a, oc).
     h_bind (need ''BAD_REQUEST'' query) (\<lambda>scope.
     data_get en (\<lambda>d. listChannelAllowlistEntries (we_lc (ae_wf en)) (oc_organizationId oc) accountId scope (ad_ch d))))"

definition putAllowlist :: "api_env \<Rightarrow> request \<Rightarrow> auth_ctx option \<Rightarrow> string \<Rightarrow> string \<Rightarrow> (string \<times> string) option \<Rightarrow> allowlist_entry api_handler" where
  "putAllowlist en rq auth org accountId body =
     h_bind (requireManager en rq auth org) (\<lambda>(a, oc).
     h_bind (need ''BAD_REQUEST'' body) (\<lambda>(scope, subject).
     mapped chan_code (ch_do en (\<lambda>clk uid. putChannelAllowlistEntry clk uid (oc_organizationId oc) (ac_userId a) accountId scope subject))))"

definition deleteAllowlist :: "api_env \<Rightarrow> request \<Rightarrow> auth_ctx option \<Rightarrow> string \<Rightarrow> string \<Rightarrow> (string \<times> string) option \<Rightarrow> unit api_handler" where
  "deleteAllowlist en rq auth org accountId body =
     h_bind (requireManager en rq auth org) (\<lambda>(a, oc).
     h_bind (need ''BAD_REQUEST'' body) (\<lambda>(scope, subject).
     h_bind (ch_do en (\<lambda>clk uid. deleteChannelAllowlistEntry (oc_organizationId oc) accountId scope subject)) (\<lambda>ok. check ok ''NOT_FOUND'')))"

section \<open>Status, actions, test messages\<close>

record account_status =
  ya_account :: channel_account
  ya_secretsCount :: nat
  ya_pendingPairings :: nat
  ya_allowlistCount :: nat
  ya_latestEvents :: "account_event list"

definition getStatus :: "api_env \<Rightarrow> request \<Rightarrow> auth_ctx option \<Rightarrow> string \<Rightarrow> string \<Rightarrow> account_status api_handler" where
  "getStatus en rq auth org accountId =
     h_bind (requireManager en rq auth org) (\<lambda>(a, oc).
     h_bind (accountOf en oc accountId) (\<lambda>r.
     let o' = oc_organizationId oc; lc = we_lc (ae_wf en) in
     h_bind (data_get en (\<lambda>d. listChannelEvents o' (ca_id r) (Some 20) (ad_ch d))) (\<lambda>events.
     h_bind (data_get en (\<lambda>d. listChannelAccountSecrets lc o' (ca_id r) (ad_ch d))) (\<lambda>secrets.
     h_bind (data_get en (\<lambda>d. listChannelPairingRequests o' (Some (ca_id r)) (Some ''pending'') (ad_ch d))) (\<lambda>pairings.
     h_bind (data_get en (\<lambda>d. listChannelAllowlistEntries lc o' (ca_id r) None (ad_ch d))) (\<lambda>entries.
     h_return \<lparr>ya_account = r, ya_secretsCount = length secrets, ya_pendingPairings = length pairings,
       ya_allowlistCount = length entries, ya_latestEvents = events\<rparr>))))))"

datatype account_action = ActStart | ActStop | ActReconnect | ActLogin | ActLogout

definition no_patch :: account_patch where
  "no_patch = \<lparr>ap_displayName = None, ap_enabled = None, ap_dmPolicy = None, ap_groupPolicy = None, ap_requireMentionInGroup = None,
     ap_webhookUrl = None, ap_metadata = None, ap_status = None, ap_lastError = None\<rparr>"

definition postAction :: "api_env \<Rightarrow> request \<Rightarrow> auth_ctx option \<Rightarrow> string \<Rightarrow> string \<Rightarrow> account_action option \<Rightarrow> channel_account api_handler" where
  "postAction en rq auth org accountId action =
     h_bind (requireManager en rq auth org) (\<lambda>(a, oc).
     h_bind (need ''BAD_REQUEST'' action) (\<lambda>act.
     let stops = act \<in> {ActStop, ActLogout} in
     h_bind (ch_do en (\<lambda>clk uid. updateChannelAccount clk (oc_organizationId oc) (ac_userId a) accountId
       (no_patch\<lparr>ap_status := Some (if stops then ''stopped'' else ''running''), ap_lastError := (if stops then None else Some None)\<rparr>)))
       (need ''NOT_FOUND'')))"

datatype send_reply = SendUnreachable | SendRefused | SendNotJson | SendJson "json option"
  \<comment> \<open>the body when it has the shape the server expects\<close>

definition delivered :: "send_reply \<Rightarrow> json api_handler" where
  "delivered reply = (case reply of
     SendUnreachable \<Rightarrow> h_throw ''CHANNEL_DELIVERY_UNAVAILABLE''
   | SendRefused \<Rightarrow> h_throw ''CHANNEL_DELIVERY_FAILED''
   | SendNotJson \<Rightarrow> h_throw ''CHANNEL_DELIVERY_FAILED''
   | SendJson v \<Rightarrow> need ''CHANNEL_DELIVERY_FAILED'' v)"

definition postTestSend :: "api_env \<Rightarrow> request \<Rightarrow> auth_ctx option \<Rightarrow> string \<Rightarrow> string \<Rightarrow> unit option
    \<Rightarrow> (channel_account \<Rightarrow> send_reply) \<Rightarrow> json api_handler" where
  \<comment> \<open>\<open>gateway\<close> answers the request for this account\<close>
  "postTestSend en rq auth org accountId body gateway =
     h_bind (requireManager en rq auth org) (\<lambda>(a, oc).
     h_bind (need ''BAD_REQUEST'' body) (\<lambda>b.
     h_bind (accountOf en oc accountId) (\<lambda>r.
     delivered (gateway r))))"

section \<open>Pairing requests\<close>

definition getPairings :: "api_env \<Rightarrow> request \<Rightarrow> auth_ctx option \<Rightarrow> string \<Rightarrow> (string option \<times> string option) option
    \<Rightarrow> pairing_request list api_handler" where
  "getPairings en rq auth org query =
     h_bind (requireManager en rq auth org) (\<lambda>(a, oc).
     h_bind (need ''BAD_REQUEST'' query) (\<lambda>(accountId, status).
     data_get en (\<lambda>d. listChannelPairingRequests (oc_organizationId oc) accountId status (ad_ch d))))"

definition decidePairing :: "api_env \<Rightarrow> request \<Rightarrow> auth_ctx option \<Rightarrow> string \<Rightarrow> string \<Rightarrow> pairing_verdict \<Rightarrow> pairing_request api_handler" where
  \<comment> \<open>the routes \<open>approve\<close> and \<open>reject\<close>\<close>
  "decidePairing en rq auth org requestId verdict =
     h_bind (requireManager en rq auth org) (\<lambda>(a, oc).
     h_bind (ch_do en (\<lambda>clk uid. updateChannelPairingRequestStatus clk (oc_organizationId oc) (ac_userId a) requestId verdict))
       (need ''NOT_FOUND''))"

end
