(* ===== verification/ToolsetBuilder.thy ===== *)
theory ToolsetBuilder
  imports ApiSettings EdgeAuth
begin

text \<open>
  The parts of toolsets and of their builder that need no store: the policy on toolsets, the catalogue of components
  (\<open>apps/api/src/toolsets/catalog.ts\<close>) and its ranking, the redaction of likely secrets, the reading of
  a model's answer (\<open>apps/api/src/server.ts\<close>), and the request to the model.
\<close>

section \<open>What a toolset may contain\<close>

text \<open>
  What a toolset may contain (\<open>packages/shared/src/toolsets.ts\<close>): the environment variables and headers
  of an MCP server hold placeholders only, and the files of a skill stay within its directory; the
  texts that explain a refusal are left out.
\<close>

definition class_word :: "(char \<Rightarrow> bool) \<Rightarrow> nat \<Rightarrow> nat \<Rightarrow> string \<Rightarrow> bool" where
  \<comment> \<open>\<open>[...]{m,n}\<close>\<close>
  "class_word ok m n s \<longleftrightarrow> m \<le> length s \<and> length s \<le> n \<and> list_all ok s"

definition in_range :: "char \<Rightarrow> char \<Rightarrow> char \<Rightarrow> bool" where
  "in_range a b c \<longleftrightarrow> (of_char a :: nat) \<le> of_char c \<and> (of_char c :: nat) \<le> of_char b"

definition extractEnvPlaceholderName :: "string \<Rightarrow> string option" where
  \<comment> \<open>\<open>ENV_PLACEHOLDER_RE\<close>\<close>
  "extractEnvPlaceholderName v =
     (let inner = drop 6 (butlast v) in
      if take 6 v = ''${ENV:'' \<and> v \<noteq> [] \<and> last v = CHR ''}'' \<and> 7 \<le> length v
         \<and> class_word (\<lambda>c. in_range (CHR ''A'') (CHR ''Z'') c \<or> is_digit c \<or> c = CHR ''_'') 1 128 inner
      then Some inner else None)"

definition isEnvPlaceholder :: "string \<Rightarrow> bool" where
  "isEnvPlaceholder v \<longleftrightarrow> extractEnvPlaceholderName v \<noteq> None"

definition is_slug :: "string \<Rightarrow> bool" where
  \<comment> \<open>\<open>MCP_NAME_RE\<close>, and \<open>SKILL_ID_RE\<close>, which is the same\<close>
  "is_slug s = (let low = (\<lambda>c. in_range (CHR ''a'') (CHR ''z'') c \<or> is_digit c) in
     case s of [] \<Rightarrow> False | c # cs \<Rightarrow> low c \<and> class_word (\<lambda>c. low c \<or> c = CHR ''-'' \<or> c = CHR ''_'') 0 63 cs)"

definition has_drive :: "string \<Rightarrow> bool" where
  "has_drive p = (case p of
     a # b # c # _ \<Rightarrow> (in_range (CHR ''a'') (CHR ''z'') a \<or> in_range (CHR ''A'') (CHR ''Z'') a) \<and> b = CHR '':''
       \<and> (c = CHR 0x5C \<or> c = CHR ''/'')
   | _ \<Rightarrow> False)"

definition isSafeRelativePath :: "string \<Rightarrow> bool" where
  "isSafeRelativePath p \<longleftrightarrow> p \<noteq> [] \<and> CHR 0x00 \<notin> set p \<and> hd p \<noteq> CHR ''/'' \<and> hd p \<noteq> CHR 0x5C \<and> \<not> has_drive p
     \<and> list_all (\<lambda>part. part \<noteq> ''.'' \<and> part \<noteq> ''..'') (filter (\<lambda>x. x \<noteq> []) (splitOn (CHR ''/'') p)) \<and> CHR 0x5C \<notin> set p"

fun js_text :: "json \<Rightarrow> string" where
  \<comment> \<open>\<open>String(v)\<close>\<close>
  "js_text JNull = ''null''"
| "js_text (JBool b) = (if b then ''true'' else ''false'')"
| "js_text (JNum n) = int_text n"
| "js_text (JStr s) = s"
| "js_text (JArr xs) = joinWith '','' (map (\<lambda>x. if x = JNull then [] else js_text x) xs)"
| "js_text (JObj fs) = ''[object Object]''"

definition text_field :: "json \<Rightarrow> string \<Rightarrow> string" where
  \<comment> \<open>\<open>String(v.k ?? "")\<close>\<close>
  "text_field v k = (case nullishJ (get_property v k) of None \<Rightarrow> [] | Some x \<Rightarrow> js_text x)"

definition json_values :: "json option \<Rightarrow> json list" where
  \<comment> \<open>the values of \<open>Object.entries(v ?? {})\<close>\<close>
  "json_values v = (case v of
     Some (JObj fs) \<Rightarrow> map snd fs
   | Some (JArr xs) \<Rightarrow> xs
   | Some (JStr s) \<Rightarrow> map (\<lambda>c. JStr [c]) s
   | _ \<Rightarrow> [])"

definition is_object :: "json \<Rightarrow> bool" where
  \<comment> \<open>truthy and of type \<open>object\<close>\<close>
  "is_object v = (case v of JObj _ \<Rightarrow> True | JArr _ \<Rightarrow> True | _ \<Rightarrow> False)"

definition placeholders :: "json option \<Rightarrow> bool" where
  "placeholders v = list_all (\<lambda>x. case x of JStr s \<Rightarrow> isEnvPlaceholder s | _ \<Rightarrow> False) (json_values v)"

definition validateMcpPlaceholderPolicy :: "json list \<Rightarrow> bool" where
  "validateMcpPlaceholderPolicy servers =
     list_all (\<lambda>v. is_object v \<and> is_slug (text_field v ''name'') \<and> placeholders (get_property v ''env'')
       \<and> placeholders (get_property v ''headers'')) servers"

definition skill_file_ok :: "json \<Rightarrow> bool" where
  "skill_file_ok f \<longleftrightarrow> is_object f \<and> isSafeRelativePath (text_field f ''path'') \<and> asString (get_property f ''content'') \<noteq> None
     \<and> nullishJ (get_property f ''encoding'') \<in> {None, Some (JStr ''utf8''), Some (JStr ''base64'')}"

definition validateAgentSkillBundles :: "json list \<Rightarrow> bool" where
  "validateAgentSkillBundles bundles =
     list_all (\<lambda>v. is_object v \<and> get_property v ''format'' = Some (JStr ''agentskills-v1'') \<and> is_slug (text_field v ''id'')
       \<and> (let files = (case get_property v ''files'' of Some (JArr xs) \<Rightarrow> xs | _ \<Rightarrow> []) in
          list_ex (\<lambda>f. is_object f \<and> get_property f ''path'' = Some (JStr ''SKILL.md'')) files \<and> list_all skill_file_ok files)) bundles"

section \<open>The catalogue\<close>

datatype catalog_item =
    McpItem (ci_key: string) (ci_name: string) (ci_description: "string option") (ci_mcp: json) (ci_requiredEnv: "string list option")
  | SkillItem (ci_key: string) (ci_name: string) (ci_description: "string option") (ci_idHint: string) (ci_optionalDirs: "json option")

definition stdio_server :: "string \<Rightarrow> string \<Rightarrow> string \<Rightarrow> string \<Rightarrow> string \<Rightarrow> json" where
  "stdio_server nm package var value description = JObj [(''name'', JStr nm), (''transport'', JStr ''stdio''), (''command'', JStr ''npx''),
     (''args'', JArr [JStr ''-y'', JStr package]), (''env'', JObj [(var, JStr value)]), (''enabled'', JBool True),
     (''description'', JStr description)]"

definition getToolsetCatalog :: "catalog_item list" where
  "getToolsetCatalog = [
     McpItem ''mcp.github'' ''GitHub MCP'' (Some ''Access GitHub APIs for issues, PRs, and code review workflows.'')
       (stdio_server ''github'' ''@modelcontextprotocol/server-github'' ''GITHUB_TOKEN'' ''${ENV:GITHUB_TOKEN}''
         ''MCP server for GitHub (requires a personal access token).'') (Some [''GITHUB_TOKEN'']),
     McpItem ''mcp.slack'' ''Slack MCP'' (Some ''Send messages, manage channels, and triage alerts in Slack.'')
       (stdio_server ''slack'' ''@modelcontextprotocol/server-slack'' ''SLACK_BOT_TOKEN'' ''${ENV:SLACK_BOT_TOKEN}''
         ''MCP server for Slack (requires a bot token).'') (Some [''SLACK_BOT_TOKEN'']),
     McpItem ''mcp.linear'' ''Linear MCP'' (Some ''Create and manage Linear issues as part of agent automation.'')
       (stdio_server ''linear'' ''@modelcontextprotocol/server-linear'' ''LINEAR_API_KEY'' ''${ENV:LINEAR_API_KEY}''
         ''MCP server for Linear (requires an API key).'') (Some [''LINEAR_API_KEY'']),
     McpItem ''mcp.postgres'' ''Postgres MCP'' (Some ''Query and inspect a Postgres database during analysis or automation.'')
       (stdio_server ''postgres'' ''@modelcontextprotocol/server-postgres'' ''POSTGRES_CONNECTION_STRING'' ''${ENV:POSTGRES_CONNECTION_STRING}''
         ''MCP server for Postgres (requires a connection string).'') (Some [''POSTGRES_CONNECTION_STRING'']),
     McpItem ''mcp.http-generic'' ''HTTP MCP (Generic)'' (Some ''Connect to a remote MCP server over HTTP (edit URL after generation).'')
       (JObj [(''name'', JStr ''http-generic''), (''transport'', JStr ''http''), (''url'', JStr ''https://example.com/mcp''),
         (''headers'', JObj [(''Authorization'', JStr ''${ENV:API_AUTH_HEADER}'')]), (''enabled'', JBool True),
         (''description'', JStr ''Generic HTTP MCP server template.'')]) (Some [''API_AUTH_HEADER'']),
     SkillItem ''skill.usage-guide'' ''Toolset Usage Guide''
       (Some ''Generate a SKILL.md that explains required env vars and usage constraints for the selected tools.'') ''toolset-usage-guide'' None,
     SkillItem ''skill.github-triage'' ''GitHub Triage''
       (Some ''Generate a SKILL.md for triaging issues/PRs using GitHub MCP tools.'') ''github-triage'' None,
     SkillItem ''skill.slack-ops'' ''Slack Ops Assistant''
       (Some ''Generate a SKILL.md for operational workflows in Slack using Slack MCP tools.'') ''slack-ops-assistant'' None]"

definition catalog_get :: "string \<Rightarrow> catalog_item option" where
  \<comment> \<open>\<open>toolsetCatalogByKey.get\<close>\<close>
  "catalog_get k = find (\<lambda>c. ci_key c = k) getToolsetCatalog"

fun is_mcp :: "catalog_item \<Rightarrow> bool" where
  "is_mcp (McpItem k n d m e) = True" | "is_mcp (SkillItem k n d i o') = False"

definition tokenizeQuery :: "string \<Rightarrow> string list" where
  "tokenizeQuery query =
     (let alnum = (\<lambda>c. in_range (CHR ''a'') (CHR ''z'') c \<or> is_digit c) in
      take 20 (filter (\<lambda>t. 2 \<le> length t)
        (map trim (splitOn (CHR '' '') (map (\<lambda>c. if alnum c then c else CHR '' '') (toLowerCase query))))))"

definition scoreText :: "string list \<Rightarrow> string \<Rightarrow> nat" where
  "scoreText tokens target = length (filter (includesStr (toLowerCase target)) tokens)"

definition rankCatalogItems :: "(string \<Rightarrow> string \<Rightarrow> int) \<Rightarrow> string \<Rightarrow> catalog_item list \<Rightarrow> nat \<Rightarrow> catalog_item list" where
  "rankCatalogItems lc query items limit =
     (let tokens = tokenizeQuery query;
          score = (\<lambda>c. scoreText tokens (ci_name c @ '' '' @ qq (ci_description c) '''')) in
      if tokens = [] then take limit items
      else take limit (js_sort (\<lambda>a b. cmp_then (int (score b) - int (score a)) (lc (ci_key a) (ci_key b))) items))"

definition selectedKeys :: "string list \<Rightarrow> string list" where
  \<comment> \<open>the distinct nonempty keys, in the order of their first occurrence\<close>
  "selectedKeys keys = rev (remdups (rev (filter (\<lambda>k. k \<noteq> '''') (map trim keys))))"

section \<open>Redaction\<close>

definition word_char :: "char \<Rightarrow> bool" where
  \<comment> \<open>\<open>\w\<close>\<close>
  "word_char c \<longleftrightarrow> in_range (CHR ''A'') (CHR ''Z'') c \<or> in_range (CHR ''a'') (CHR ''z'') c \<or> is_digit c \<or> c = CHR ''_''"

definition word_at :: "char option \<Rightarrow> bool" where
  "word_at c = (case c of None \<Rightarrow> False | Some x \<Rightarrow> word_char x)"

definition char_at :: "string \<Rightarrow> nat \<Rightarrow> char option" where
  "char_at s i = (if i < length s then Some (s ! i) else None)"

definition class_run :: "(char \<Rightarrow> bool) \<Rightarrow> nat \<Rightarrow> string \<Rightarrow> nat option" where
  \<comment> \<open>\<open>[...]{n,}\b\<close>: the longest such prefix that ends at a word boundary\<close>
  "class_run ok n s =
     find (\<lambda>k. word_at (char_at s (k - 1)) \<noteq> word_at (char_at s k)) (rev [n..<Suc (length (takeWhile ok s))])"

definition secret_at :: "string list \<Rightarrow> bool \<Rightarrow> (char \<Rightarrow> bool) \<Rightarrow> nat \<Rightarrow> char option \<Rightarrow> string \<Rightarrow> nat option" where
  \<comment> \<open>the length of a match of \<open>\b(?:...)\s*[...]{n,}\b\<close>, where \<open>spaced\<close> demands white space\<close>
  "secret_at heads spaced ok n before s =
     (case find (startsWith s) heads of
        None \<Rightarrow> None
      | Some p \<Rightarrow>
          let rest = drop (length p) s; gap = (if spaced then length (takeWhile is_space rest) else 0) in
          if word_at before \<or> (spaced \<and> gap = 0) then None
          else map_option (\<lambda>k. length p + gap + k) (class_run ok n (drop gap rest)))"

fun replace_all :: "(char option \<Rightarrow> string \<Rightarrow> nat option) \<Rightarrow> string \<Rightarrow> nat \<Rightarrow> char option \<Rightarrow> string \<Rightarrow> string" where
  \<comment> \<open>the third argument counts the characters of the last match still to be skipped\<close>
  "replace_all m r skip before [] = []"
| "replace_all m r (Suc skip) before (c # cs) = replace_all m r skip (Some c) cs"
| "replace_all m r 0 before (c # cs) =
     (case m before (c # cs) of
        None \<Rightarrow> c # replace_all m r 0 (Some c) cs
      | Some n \<Rightarrow> r @ replace_all m r (n - 1) (Some c) cs)"

definition redactLikelySecrets :: "string \<Rightarrow> string" where
  "redactLikelySecrets text =
     (let alnum = (\<lambda>c. word_char c \<and> c \<noteq> CHR ''_''); dash = (\<lambda>c. c = CHR ''-'');
          replace = (\<lambda>heads spaced ok n r s. replace_all (secret_at heads spaced ok n) r 0 None s) in
      replace [''AIza''] False (\<lambda>c. word_char c \<or> dash c) 20 ''AIza[REDACTED]''
     (replace [''xoxb-'', ''xoxp-'', ''xoxa-'', ''xoxr-'', ''xoxs-''] False (\<lambda>c. alnum c \<or> dash c) 10 ''xox?- [REDACTED]''
     (replace [''ghp_''] False alnum 20 ''ghp_[REDACTED]''
     (replace [''sk-''] False alnum 10 ''sk-[REDACTED]''
     (replace [''sk-ant-''] False (\<lambda>c. word_char c \<or> dash c) 10 ''sk-ant-[REDACTED]''
     (replace [''Bearer''] True (\<lambda>c. word_char c \<or> dash c \<or> c = CHR ''.'') 12 ''Bearer [REDACTED]'' text))))))"

section \<open>The answer of the model\<close>

definition fenced :: "string \<Rightarrow> string option" where
  \<comment> \<open>the regular expression for a code fence, perhaps marked \<open>json\<close>\<close>
  "fenced t =
     (let fence = replicate 3 (CHR 0x60); body = drop 3 t;
          inner = (if toLowerCase (take 4 body) = ''json'' then drop 4 body else body) in
      if startsWith t fence \<and> drop (length t - 3) t = fence \<and> 6 \<le> length t then Some (trim (take (length inner - 3) inner)) else None)"

definition extractJsonObjectCandidate :: "string \<Rightarrow> string option" where
  "extractJsonObjectCandidate raw =
     (let trimmed = trim raw in
      case fenced trimmed of
        Some inner \<Rightarrow> Some inner
      | None \<Rightarrow>
          let first = length (takeWhile (\<lambda>c. c \<noteq> CHR ''{'') trimmed);
              after = length (takeWhile (\<lambda>c. c \<noteq> CHR ''}'') (rev trimmed)) in
          if first < length trimmed \<and> after < length trimmed \<and> first < length trimmed - 1 - after
          then Some (drop first (take (length trimmed - after) trimmed)) else None)"

definition parseJsonObject :: "(string \<Rightarrow> json option) \<Rightarrow> string \<Rightarrow> json option" where
  "parseJsonObject parse raw =
     (let direct = trim raw;
          candidates = filter (\<lambda>c. c \<noteq> '''') (direct # (case extractJsonObjectCandidate direct of None \<Rightarrow> [] | Some c \<Rightarrow> [c])) in
      Option.bind (find (\<lambda>c. case parse c of Some (JObj _) \<Rightarrow> True | _ \<Rightarrow> False) candidates) parse)"

section \<open>Schemas\<close>

definition z_text :: "nat \<Rightarrow> nat \<Rightarrow> json \<Rightarrow> json option" where
  "z_text lo hi v = (case v of JStr s \<Rightarrow> if lo \<le> length s \<and> length s \<le> hi then Some v else None | _ \<Rightarrow> None)"

definition z_one_of :: "string list \<Rightarrow> json \<Rightarrow> json option" where
  "z_one_of ws v = (case v of JStr s \<Rightarrow> if s \<in> set ws then Some v else None | _ \<Rightarrow> None)"

definition z_bool :: "json \<Rightarrow> json option" where
  "z_bool v = (case v of JBool b \<Rightarrow> Some v | _ \<Rightarrow> None)"

definition z_array :: "nat \<Rightarrow> nat \<Rightarrow> (json \<Rightarrow> json option) \<Rightarrow> json \<Rightarrow> json option" where
  "z_array lo hi p v = (case v of
     JArr xs \<Rightarrow> if lo \<le> length xs \<and> length xs \<le> hi then map_option JArr (those (map p xs)) else None
   | _ \<Rightarrow> None)"

definition z_field :: "bool \<Rightarrow> string \<Rightarrow> (json \<Rightarrow> json option) \<Rightarrow> json \<Rightarrow> (string \<times> json) list option" where
  "z_field required k p v = (case get_property v k of
     None \<Rightarrow> if required then None else Some []
   | Some j \<Rightarrow> map_option (\<lambda>x. [(k, x)]) (p j))"

definition z_object :: "(json \<Rightarrow> (string \<times> json) list option) list \<Rightarrow> json \<Rightarrow> json option" where
  \<comment> \<open>\<open>z.object\<close>, which strips the keys it does not know\<close>
  "z_object fds v = (case v of JObj _ \<Rightarrow> map_option (\<lambda>fs. JObj (concat fs)) (those (map (\<lambda>f. f v) fds)) | _ \<Rightarrow> None)"

definition agentSkillFileSchema :: "json \<Rightarrow> json option" where
  "agentSkillFileSchema = z_object [z_field True ''path'' (z_text 1 200), z_field True ''content'' (z_text 1 2000000),
     z_field False ''encoding'' (z_one_of [''utf8'', ''base64''])]"

definition agentSkillBundleSchema :: "json \<Rightarrow> json option" where
  "agentSkillBundleSchema = z_object [z_field True ''format'' (z_one_of [''agentskills-v1'']),
     z_field True ''id'' (\<lambda>v. case v of JStr s \<Rightarrow> if is_slug s then Some v else None | _ \<Rightarrow> None),
     z_field True ''name'' (z_text 1 120), z_field False ''description'' (z_text 0 2000),
     z_field True ''entry'' (z_one_of [''SKILL.md'']), z_field True ''files'' (z_array 1 200 agentSkillFileSchema),
     z_field False ''enabled'' z_bool,
     z_field False ''optionalDirs'' (z_object [z_field False ''scripts'' z_bool, z_field False ''references'' z_bool,
       z_field False ''assets'' z_bool])]"

definition parseAssistant :: "json option \<Rightarrow> (string \<times> string list) option" where
  \<comment> \<open>the message and the suggested keys\<close>
  "parseAssistant v =
     (case Option.bind v (z_object [z_field True ''message'' (z_text 1 20000),
        z_field False ''suggestedComponentKeys'' (z_array 0 50 (z_text 1 80))]) of
        None \<Rightarrow> None
      | Some o' \<Rightarrow> Some (qq (asString (get_property o' ''message'')) '''',
          strings_of (json_list (get_property o' ''suggestedComponentKeys''))))"

record draft_answer =
  da_name :: string
  da_description :: "string option"
  da_agentSkills :: "json list"

definition parseDraft :: "json option \<Rightarrow> draft_answer option" where
  "parseDraft v =
     (case Option.bind v (\<lambda>o'. z_object [z_field True ''name'' (z_text 1 120), z_field False ''description'' (z_text 0 2000),
        z_field False ''agentSkills'' (\<lambda>a. case a of JArr xs \<Rightarrow> z_array 0 (length xs) agentSkillBundleSchema a | _ \<Rightarrow> None)] o') of
        None \<Rightarrow> None
      | Some o' \<Rightarrow> Some \<lparr>da_name = qq (asString (get_property o' ''name'')) '''', da_description = asString (get_property o' ''description''),
          da_agentSkills = json_list (get_property o' ''agentSkills'')\<rparr>)"

section \<open>The request to the model\<close>

record builder_llm =
  bl_provider :: string
  bl_model :: string
  bl_auth :: "string option option"

definition builder_llm_json :: "builder_llm \<Rightarrow> json" where
  "builder_llm_json c = JObj ([(''provider'', JStr (bl_provider c)), (''model'', JStr (bl_model c))]
     @ (case bl_auth c of None \<Rightarrow> [] | Some a \<Rightarrow> [(''auth'', JObj (case a of None \<Rightarrow> [] | Some i \<Rightarrow> [(''secretId'', JStr i)]))]))"

definition llm_of_json :: "json \<Rightarrow> builder_llm" where
  \<comment> \<open>\<open>session.llm as ToolsetBuilderLlmConfig\<close>\<close>
  "llm_of_json v = \<lparr>bl_provider = qq (asString (get_property v ''provider'')) '''', bl_model = qq (asString (get_property v ''model'')) '''',
     bl_auth = map_option (\<lambda>a. asString (get_property a ''secretId'')) (get_property v ''auth'')\<rparr>"

lemma llm_of_builder_json [simp]: "llm_of_json (builder_llm_json c) = c"
  by (cases c) (auto simp: llm_of_json_def builder_llm_json_def get_property_def split: option.split)

definition provider_api_kind :: "string \<Rightarrow> string" where
  \<comment> \<open>\<open>apiKind\<close> of the registry\<close>
  "provider_api_kind p =
     (if p \<in> {''anthropic'', ''cloudflare-ai-gateway'', ''minimax'', ''minimax-portal'', ''kimi-coding'', ''synthetic'', ''xiaomi''}
      then ''anthropic-compatible''
      else if p \<in> {''google'', ''google-antigravity'', ''google-gemini-cli''} then ''google''
      else if p = ''google-vertex'' then ''vertex''
      else if p \<in> {''github-copilot'', ''copilot-proxy''} then ''copilot''
      else if p = ''amazon-bedrock'' then ''bedrock''
      else if p = ''custom'' then ''custom'' else ''openai-compatible'')"

definition getDefaultConnectorIdForProvider :: "string \<Rightarrow> string option" where
  "getDefaultConnectorIdForProvider p =
     (if p = ''ollama'' then None
      else Some (''llm.'' @ p @ (if p \<in> {''openai-codex'', ''google-vertex'', ''google-antigravity'', ''google-gemini-cli'', ''github-copilot'',
        ''qwen-portal'', ''minimax-portal'', ''chutes''} then ''.oauth'' else '''')))"

definition mapBuilderProviderToEngineId :: "string \<Rightarrow> string option" where
  "mapBuilderProviderToEngineId p =
     (if p = ''anthropic'' then Some ''gateway.claude.v2''
      else if p = ''opencode'' then Some ''gateway.opencode.v2''
      else if p = ''openai'' \<or> p = ''openai-codex'' then Some ''gateway.codex.v2'' else None)"

definition resolveLlmProviderRuntime :: "json \<Rightarrow> string \<Rightarrow> string \<times> string option" where
  \<comment> \<open>API kind and base URL\<close>
  "resolveLlmProviderRuntime settings p =
     (let override = (\<lambda>k. asString (json_path settings [''llm'', ''providers'', p, k]));
          linked = Option.bind (mapBuilderProviderToEngineId p)
            (\<lambda>e. asString (json_path settings [''agents'', ''engineRuntimeDefaults'', e, ''baseUrl''])) in
      (qq (override ''apiKind'') (provider_api_kind p),
       (case override ''baseUrl'' of None \<Rightarrow> linked | Some u \<Rightarrow> Some u)))"

definition resolveManagedBuilderApiKey :: "(string \<Rightarrow> string option) \<Rightarrow> string \<Rightarrow> string option" where
  \<comment> \<open>\<open>env\<close> is \<open>process.env\<close>\<close>
  "resolveManagedBuilderApiKey env apiKind =
     (let first = (\<lambda>vs. Option.bind (find (\<lambda>v. env v \<noteq> None) vs) env) in
      if apiKind = ''anthropic-compatible'' then first [''LLM_MANAGED_ANTHROPIC_API_KEY'', ''ANTHROPIC_API_KEY'']
      else if apiKind = ''google'' then first [''LLM_MANAGED_GEMINI_API_KEY'', ''GEMINI_API_KEY'', ''GOOGLE_API_KEY'']
      else first [''LLM_MANAGED_OPENAI_API_KEY'', ''OPENAI_API_KEY''])"

datatype llm_client = AnthropicClient | GeminiClient | OpenAiClient | VertexClient (vx_projectId: string) (vx_location: string)

record llm_request =
  lr_client :: llm_client
  lr_key :: string  \<comment> \<open>the API key, or the refresh token of Vertex\<close>
  lr_baseUrl :: "string option"
  lr_model :: string
  lr_system :: string
  lr_user :: string

definition vertex_secret :: "json option \<Rightarrow> (string \<times> string \<times> string) option" where
  "vertex_secret v =
     (case map (\<lambda>k. asString (Option.bind v (\<lambda>j. case j of JObj _ \<Rightarrow> get_property j k | _ \<Rightarrow> None))) [''refreshToken'', ''projectId'', ''location''] of
        [Some r, Some p, Some l] \<Rightarrow> if r \<noteq> '''' \<and> p \<noteq> '''' \<and> l \<noteq> '''' then Some (r, p, l) else None
      | _ \<Rightarrow> None)"

definition callBuilderLlm :: "(string \<Rightarrow> json option) \<Rightarrow> (string \<Rightarrow> string option) \<Rightarrow> builder_llm \<Rightarrow> string option \<Rightarrow> json \<Rightarrow> string \<Rightarrow> string
    \<Rightarrow> string + llm_request" where
  \<comment> \<open>the request that is sent, or the error it is answered with\<close>
  "callBuilderLlm parse env c secretValue settings system user =
     (case resolveLlmProviderRuntime settings (bl_provider c) of (apiKind, apiBaseUrl) \<Rightarrow>
      let baseUrl = (if truthy apiBaseUrl then apiBaseUrl else None) in
      if apiKind = ''vertex'' then
        (case vertex_secret (parse (qq secretValue '''')) of
           None \<Rightarrow> Inl ''VERTEX_SECRET_INVALID''
         | Some (r, p, l) \<Rightarrow> Inr \<lparr>lr_client = VertexClient p l, lr_key = r, lr_baseUrl = baseUrl, lr_model = bl_model c,
             lr_system = system, lr_user = user\<rparr>)
      else
        let explicit = trim (qq secretValue ''''); managed = qq (resolveManagedBuilderApiKey env apiKind) '''';
            apiKey = (if explicit \<noteq> '''' then explicit else managed) in
        if apiKey = '''' then Inl ''LLM_AUTH_NOT_CONFIGURED''
        else Inr \<lparr>lr_client = (if apiKind = ''anthropic-compatible'' then AnthropicClient else if apiKind = ''google'' then GeminiClient
            else OpenAiClient), lr_key = apiKey, lr_baseUrl = baseUrl, lr_model = bl_model c, lr_system = system, lr_user = user\<rparr>)"

definition toolsetBuilderLlmErrorToAppError :: "string \<Rightarrow> string" where
  "toolsetBuilderLlmErrorToAppError e =
     (if e = ''LLM_AUTH_NOT_CONFIGURED'' then ''LLM_SECRET_REQUIRED''
      else if e = ''VERTEX_SECRET_INVALID'' then ''BAD_REQUEST'' else ''LLM_UNAVAILABLE'')"

end
