(* ===== verification/ApiToolsets.thy ===== *)
theory ApiToolsets
  imports ApiChannels ToolsetBuilder
begin

text \<open>
  The routes for toolsets and their gallery (\<open>apps/api/src/server.ts\<close>).
\<close>

record toolset_body =
  tb_name :: string
  tb_description :: "string option"
  tb_visibility :: visibility
  tb_mcpServers :: "json list"
  tb_agentSkills :: "json list"

definition checkToolset :: "json list \<Rightarrow> json list \<Rightarrow> unit api_handler" where
  "checkToolset servers skills =
     h_then (check (validateMcpPlaceholderPolicy servers) ''INVALID_MCP_PLACEHOLDER'')
       (check (validateAgentSkillBundles skills) ''INVALID_SKILL_BUNDLE'')"

definition getToolsets :: "api_env \<Rightarrow> request \<Rightarrow> auth_ctx option \<Rightarrow> string \<Rightarrow> toolset list api_handler" where
  "getToolsets en rq auth org =
     h_bind (requireManager en rq auth org) (\<lambda>(a, oc).
     data_get en (\<lambda>d. listAgentToolsetsByOrg (oc_organizationId oc) (ad_ts d)))"

definition postToolset :: "api_env \<Rightarrow> request \<Rightarrow> auth_ctx option \<Rightarrow> string \<Rightarrow> toolset_body option \<Rightarrow> toolset api_handler" where
  \<comment> \<open>the schema knows the visibilities private and org only\<close>
  "postToolset en rq auth org body =
     h_bind (requireManager en rq auth org) (\<lambda>(a, oc).
     h_bind (need ''BAD_REQUEST'' body) (\<lambda>b.
     h_then (check (tb_visibility b \<noteq> VisPublic) ''BAD_REQUEST'')
     (h_then (checkToolset (tb_mcpServers b) (tb_agentSkills b))
     (tools_do en (\<lambda>clk uid. createAgentToolset clk uid (oc_organizationId oc) (ac_userId a) (tb_name b) (tb_description b)
        (tb_visibility b) (Some (JArr (tb_mcpServers b))) (Some (JArr (tb_agentSkills b))))))))"

definition toolsetOf :: "api_env \<Rightarrow> org_ctx \<Rightarrow> string \<Rightarrow> toolset api_handler" where
  "toolsetOf en oc toolsetId =
     h_bind (data_get en (\<lambda>d. getAgentToolsetById (oc_organizationId oc) toolsetId (ad_ts d))) (need ''TOOLSET_NOT_FOUND'')"

definition getToolset :: "api_env \<Rightarrow> request \<Rightarrow> auth_ctx option \<Rightarrow> string \<Rightarrow> string \<Rightarrow> toolset api_handler" where
  "getToolset en rq auth org toolsetId =
     h_bind (requireAuth auth) (\<lambda>a.
     h_bind (requireOrgContext en rq auth (Some org)) (\<lambda>oc. toolsetOf en oc toolsetId))"

definition putToolset :: "api_env \<Rightarrow> request \<Rightarrow> auth_ctx option \<Rightarrow> string \<Rightarrow> string \<Rightarrow> toolset_body option \<Rightarrow> toolset api_handler" where
  "putToolset en rq auth org toolsetId body =
     h_bind (requireManager en rq auth org) (\<lambda>(a, oc).
     h_bind (need ''BAD_REQUEST'' body) (\<lambda>b.
     h_then (check (tb_visibility b \<noteq> VisPublic) ''BAD_REQUEST'')
     (h_bind (toolsetOf en oc toolsetId) (\<lambda>current.
      h_then (check (to_visibility current \<noteq> VisPublic) ''BAD_REQUEST'')
      (h_then (checkToolset (tb_mcpServers b) (tb_agentSkills b))
      (h_bind (tools_do en (\<lambda>clk uid. updateAgentToolset clk (oc_organizationId oc) (ac_userId a) toolsetId (tb_name b)
         (tb_description b) (tb_visibility b) (Some (JArr (tb_mcpServers b))) (Some (JArr (tb_agentSkills b)))))
        (need ''TOOLSET_NOT_FOUND'')))))))"

definition deleteToolset :: "api_env \<Rightarrow> request \<Rightarrow> auth_ctx option \<Rightarrow> string \<Rightarrow> string \<Rightarrow> unit api_handler" where
  "deleteToolset en rq auth org toolsetId =
     h_bind (requireManager en rq auth org) (\<lambda>(a, oc).
     h_bind (tools_do en (\<lambda>clk uid. deleteAgentToolset (oc_organizationId oc) toolsetId)) (\<lambda>ok. check ok ''TOOLSET_NOT_FOUND''))"

definition publish_code :: "tool_error \<Rightarrow> string" where
  "publish_code e = (if e = PUBLIC_SLUG_CONFLICT then ''PUBLIC_SLUG_CONFLICT'' else ''INTERNAL_ERROR'')"

definition postToolsetPublish :: "api_env \<Rightarrow> request \<Rightarrow> auth_ctx option \<Rightarrow> string \<Rightarrow> string \<Rightarrow> string option \<Rightarrow> toolset api_handler" where
  "postToolsetPublish en rq auth org toolsetId body =
     h_bind (requireManager en rq auth org) (\<lambda>(a, oc).
     h_bind (need ''BAD_REQUEST'' body) (\<lambda>publicSlug.
     h_bind (toolsetOf en oc toolsetId) (\<lambda>current.
     h_then (checkToolset (to_mcpServers current) (to_agentSkills current))
     (h_bind (mapped publish_code (tools_do en (\<lambda>clk uid. publishAgentToolset clk (oc_organizationId oc) (ac_userId a) toolsetId publicSlug)))
       (need ''TOOLSET_NOT_FOUND'')))))"

definition postToolsetUnpublish :: "api_env \<Rightarrow> request \<Rightarrow> auth_ctx option \<Rightarrow> string \<Rightarrow> string \<Rightarrow> visibility option option \<Rightarrow> toolset api_handler" where
  "postToolsetUnpublish en rq auth org toolsetId body =
     h_bind (requireManager en rq auth org) (\<lambda>(a, oc).
     h_bind (need ''BAD_REQUEST'' body) (\<lambda>vis.
     h_then (check (vis \<noteq> Some VisPublic) ''BAD_REQUEST'')
     (h_bind (tools_do en (\<lambda>clk uid. unpublishAgentToolset clk (oc_organizationId oc) (ac_userId a) toolsetId (qq vis VisOrg)))
       (need ''TOOLSET_NOT_FOUND''))))"

section \<open>The gallery\<close>

record gallery_card =
  gc_id :: string
  gc_name :: string
  gc_description :: "string option"
  gc_publicSlug :: string
  gc_publishedAt :: timestamp
  gc_mcpServerCount :: nat
  gc_agentSkillCount :: nat

definition card_of :: "toolset \<Rightarrow> gallery_card" where
  "card_of t = \<lparr>gc_id = to_id t, gc_name = to_name t, gc_description = to_description t, gc_publicSlug = qq (to_publicSlug t) '''',
     gc_publishedAt = qq (to_publishedAt t) (to_updatedAt t), gc_mcpServerCount = length (to_mcpServers t),
     gc_agentSkillCount = length (to_agentSkills t)\<rparr>"

definition getGallery :: "api_env \<Rightarrow> auth_ctx option \<Rightarrow> gallery_card list api_handler" where
  "getGallery en auth =
     h_bind (requireAuth auth) (\<lambda>a.
     h_bind (data_get en (\<lambda>d. listPublicToolsetGallery (ad_ts d))) (\<lambda>rows.
     h_return (map card_of (filter (\<lambda>t. to_visibility t = VisPublic \<and> truthy (to_publicSlug t)) rows))))"

definition getGalleryItem :: "api_env \<Rightarrow> auth_ctx option \<Rightarrow> string \<Rightarrow> toolset api_handler" where
  "getGalleryItem en auth publicSlug =
     h_bind (requireAuth auth) (\<lambda>a.
     h_bind (data_get en (\<lambda>d. getPublicToolsetBySlug publicSlug (ad_ts d))) (need ''TOOLSET_NOT_FOUND''))"

definition postAdopt :: "api_env \<Rightarrow> request \<Rightarrow> auth_ctx option \<Rightarrow> string \<Rightarrow> string \<Rightarrow> (string option \<times> string option) option
    \<Rightarrow> toolset api_handler" where
  \<comment> \<open>the body: name and description\<close>
  "postAdopt en rq auth org publicSlug body =
     h_bind (requireManager en rq auth org) (\<lambda>(a, oc).
     h_bind (need ''BAD_REQUEST'' body) (\<lambda>(nm, description).
     h_bind (tools_do en (\<lambda>clk uid. adoptPublicToolset clk uid (oc_organizationId oc) (ac_userId a) publicSlug nm description))
       (need ''TOOLSET_NOT_FOUND'')))"

end
