(* ===== verification/ApiBuilder.thy ===== *)
theory ApiBuilder
  imports ApiToolsets ToolsetBuilder
begin

text \<open>
  The routes of the toolset builder (\<open>apps/api/src/server.ts\<close>): a conversation with a language model
  that selects components of the catalogue and drafts a toolset.  The model's answer to a request,
  the environment of the process and the cipher are parameters.
\<close>

record builder_env =
  be_llm :: "llm_request \<Rightarrow> string + string"  \<comment> \<open>an error or the content of the answer\<close>
  be_processEnv :: "string \<Rightarrow> string option"
  be_unseal :: unsealer

section \<open>Helpers\<close>

definition normalizeSelectedComponentKeys :: "string list \<Rightarrow> string list api_handler" where
  "normalizeSelectedComponentKeys keys =
     (let uniq = selectedKeys keys in
      h_then (check (list_all (\<lambda>k. catalog_get k \<noteq> None) uniq) ''BAD_REQUEST'') (h_return uniq))"

definition engineDefaultConnectorId :: "string \<Rightarrow> string" where
  "engineDefaultConnectorId e =
     (if e = ''gateway.claude.v2'' then normalizeConnectorId ''llm.anthropic''
      else if e = ''gateway.opencode.v2'' then normalizeConnectorId ''llm.opencode''
      else normalizeConnectorId ''llm.openai'')"

definition builderSecretId :: "builder_llm \<Rightarrow> json \<Rightarrow> string" where
  "builderSecretId c settings =
     (let linked = Option.bind (mapBuilderProviderToEngineId (bl_provider c)) (\<lambda>e.
            if json_path settings [''agents'', ''engineAuthDefaults'', e, ''mode''] = Some (JStr ''api_key'')
            then asString (json_path settings [''agents'', ''engineAuthDefaults'', e, ''secretId'']) else None);
          own = trim (qq (Option.bind (bl_auth c) id) '''')
      in if own \<noteq> '''' then own else qq linked '''')"

definition resolveToolsetBuilderSecretValue :: "api_env \<Rightarrow> builder_env \<Rightarrow> builder_llm \<Rightarrow> string \<Rightarrow> json \<Rightarrow> string option api_handler" where
  "resolveToolsetBuilderSecretValue en be c org settings =
     (let secretId = builderSecretId c settings in
      if secretId = '''' then h_return None
      else
        h_bind (need ''BAD_REQUEST'' (getDefaultConnectorIdForProvider (bl_provider c))) (\<lambda>connectorId.
        let expected = normalizeConnectorId connectorId
              # (case mapBuilderProviderToEngineId (bl_provider c) of None \<Rightarrow> [] | Some e \<Rightarrow> [engineDefaultConnectorId e]) in
        h_bind (data_get en (\<lambda>d. listConnectorSecrets (we_lc (ae_wf en)) org None (ad_sec d))) (\<lambda>allSecrets.
        h_then (check (list_ex (\<lambda>r. sr_id r = secretId) (filter (\<lambda>r. normalizeConnectorId (sr_connectorId r) \<in> set expected) allSecrets))
          ''LLM_SECRET_REQUIRED'')
        (h_bind (mapped (\<lambda>e. ''INTERNAL_ERROR'') (data_get en (\<lambda>d.
           loadConnectorSecretValue (ae_b64 en) (be_unseal be) (ae_secretsEnv en) org secretId (ad_sec d)))) (\<lambda>val.
         h_then (check (trim val \<noteq> '''') ''LLM_SECRET_REQUIRED'') (h_return (Some val)))))))"

definition askModel :: "api_env \<Rightarrow> builder_env \<Rightarrow> builder_llm \<Rightarrow> string option \<Rightarrow> json \<Rightarrow> string \<Rightarrow> json \<Rightarrow> string api_handler" where
  \<comment> \<open>\<open>callBuilderLlm\<close>, its errors mapped to replies\<close>
  "askModel en be c secretValue settings system user =
     (case callBuilderLlm (ax_parse (ae_auth en)) (be_processEnv be) c secretValue settings system (stringify user) of
        Inl e \<Rightarrow> h_throw (toolsetBuilderLlmErrorToAppError e)
      | Inr r \<Rightarrow> (case be_llm be r of Inl e \<Rightarrow> h_throw (toolsetBuilderLlmErrorToAppError e) | Inr content \<Rightarrow> h_return content))"

definition builder_code :: "tool_error \<Rightarrow> string" where
  \<comment> \<open>the errors of the store are not mapped\<close>
  "builder_code e = ''INTERNAL_ERROR''"

definition catalogPreview :: "catalog_item list \<Rightarrow> json" where
  "catalogPreview items = JArr (map (\<lambda>c. JObj ([(''key'', JStr (ci_key c)), (''kind'', JStr (if is_mcp c then ''mcp'' else ''skill'')),
     (''name'', JStr (ci_name c)), (''description'', opt_json (ci_description c))]
     @ (case c of McpItem _ _ _ _ e \<Rightarrow> [(''requiredEnv'', JArr (map JStr (qq e [])))] | SkillItem _ _ _ h _ \<Rightarrow> [(''idHint'', JStr h)]))) items)"

definition turns_json :: "builder_turn list \<Rightarrow> json" where
  \<comment> \<open>the last twelve turns\<close>
  "turns_json turns = JArr (drop (length turns - 12) (map (\<lambda>t. JObj [(''role'', JStr (if bt_role t = TurnUser then ''USER'' else ''ASSISTANT'')),
     (''message'', JStr (bt_messageText t))]) turns))"

definition answer_format :: json where
  "answer_format = JObj [(''message'', JStr ''string''), (''suggestedComponentKeys'', JArr [JStr ''string''])]"

definition readAssistant :: "api_env \<Rightarrow> string \<Rightarrow> (string \<times> string list) api_handler" where
  "readAssistant en content =
     h_bind (need ''TOOLSET_BUILDER_INVALID_MODEL_OUTPUT'' (parseAssistant (parseJsonObject (ax_parse (ae_auth en)) content))) (\<lambda>(msg, keys).
     h_bind (normalizeSelectedComponentKeys keys) (\<lambda>suggested. h_return (msg, suggested)))"

definition orgSettingsOf :: "api_env \<Rightarrow> org_ctx \<Rightarrow> json api_handler" where
  "orgSettingsOf en oc =
     h_bind (mapped store_error (data_get en (\<lambda>d. getOrganizationSettings (oc_organizationId oc) (ad_id d)))) (\<lambda>raw.
     h_return (settings_of en raw))"

definition appendTurn :: "api_env \<Rightarrow> org_ctx \<Rightarrow> string \<Rightarrow> turn_role \<Rightarrow> string \<Rightarrow> builder_turn api_handler" where
  "appendTurn en oc sessionId role text =
     mapped builder_code (tools_do en (\<lambda>clk uid. appendToolsetBuilderTurn clk (oc_organizationId oc) sessionId role text))"

definition activeSession :: "api_env \<Rightarrow> org_ctx \<Rightarrow> string \<Rightarrow> builder_session api_handler" where
  "activeSession en oc sessionId =
     h_bind (data_get en (\<lambda>d. getToolsetBuilderSessionById (oc_organizationId oc) sessionId (ad_ts d))) (\<lambda>found.
     h_bind (need ''TOOLSET_BUILDER_SESSION_NOT_FOUND'' found) (\<lambda>session.
     h_then (check (bs_status session \<noteq> BuilderFinalized) ''TOOLSET_BUILDER_SESSION_FINALIZED'') (h_return session)))"

section \<open>A new session\<close>

record builder_reply =
  br_sessionId :: string
  br_status :: builder_status
  br_message :: string
  br_suggested :: "string list"
  br_components :: "catalog_item list"
  br_selected :: "string list"

definition builder_greeting :: string where
  "builder_greeting = ''Select components, then tell me your environment and constraints (e.g. repo host, Slack workspace, DB access).''"

definition create_system :: string where
  "create_system = joinWith [CHR 0x0A] [''You are Vespid Toolset Builder.'',
     ''You help generate a Toolset draft (MCP servers + Agent Skills bundles).'',
     ''MCP servers must be selected only by component key from the provided catalog; do not invent commands/URLs.'',
     ''Never include secret literals. MCP env/headers values must be ${ENV:VAR} placeholders only.'', ''Return JSON only.'']"

definition firstAnswer :: "api_env \<Rightarrow> builder_env \<Rightarrow> org_ctx \<Rightarrow> builder_llm \<Rightarrow> string option \<Rightarrow> json \<Rightarrow> string \<Rightarrow> string
    \<Rightarrow> catalog_item list \<Rightarrow> (string \<times> string list) api_handler" where
  \<comment> \<open>the greeting, or the model's answer to the intent\<close>
  "firstAnswer en be oc c secretValue settings sessionId intent ranked =
     (if intent = '''' then h_return (builder_greeting, [])
      else h_then (appendTurn en oc sessionId TurnUser (redactLikelySecrets intent))
        (h_bind (askModel en be c secretValue settings create_system
           (JObj [(''intent'', JStr intent), (''catalog'', catalogPreview ranked), (''outputFormat'', answer_format)])) (readAssistant en)))"

definition postBuilderSession :: "api_env \<Rightarrow> builder_env \<Rightarrow> request \<Rightarrow> auth_ctx option \<Rightarrow> string \<Rightarrow> (string option \<times> builder_llm) option
    \<Rightarrow> builder_reply api_handler" where
  \<comment> \<open>the body: intent and model\<close>
  "postBuilderSession en be rq auth org body =
     h_bind (requireManager en rq auth org) (\<lambda>(a, oc).
     h_bind (need ''BAD_REQUEST'' body) (\<lambda>(intent', c).
     h_bind (orgSettingsOf en oc) (\<lambda>settings.
     h_bind (resolveToolsetBuilderSecretValue en be c (oc_organizationId oc) settings) (\<lambda>secretValue.
     let intent = trim (qq intent' '''') in
     h_bind (tools_do en (\<lambda>clk uid. createToolsetBuilderSession clk uid (oc_organizationId oc) (ac_userId a) (builder_llm_json c)
        (if intent = '''' then None else Some intent))) (\<lambda>session.
     let ranked = rankCatalogItems (we_lc (ae_wf en)) intent getToolsetCatalog 20 in
     h_bind (firstAnswer en be oc c secretValue settings (bs_id session) intent ranked) (\<lambda>(msg, suggested).
     h_then (appendTurn en oc (bs_id session) TurnAssistant msg)
     (h_bind (tools_do en (\<lambda>clk uid. updateToolsetBuilderSessionSelection clk (oc_organizationId oc) (bs_id session) None suggested)) (\<lambda>updated.
      h_return \<lparr>br_sessionId = bs_id session, br_status = (case updated of None \<Rightarrow> bs_status session | Some u \<Rightarrow> bs_status u),
        br_message = msg, br_suggested = suggested, br_components = ranked, br_selected = suggested\<rparr>))))))))"

section \<open>The conversation\<close>

definition chat_system :: string where
  "chat_system = joinWith [CHR 0x0A] [''You are Vespid Toolset Builder.'',
     ''You help the user pick catalog components and refine constraints.'',
     ''MCP servers must be selected only by component key from the catalog; do not invent commands/URLs.'',
     ''Never include secret literals. Use ${ENV:VAR} placeholders only.'', ''Return JSON only.'']"

definition postBuilderChat :: "api_env \<Rightarrow> builder_env \<Rightarrow> request \<Rightarrow> auth_ctx option \<Rightarrow> string \<Rightarrow> string \<Rightarrow> (string \<times> string list) option
    \<Rightarrow> builder_reply api_handler" where
  \<comment> \<open>the body: message and selected keys\<close>
  "postBuilderChat en be rq auth org sessionId body =
     h_bind (requireManager en rq auth org) (\<lambda>(a, oc).
     h_bind (activeSession en oc sessionId) (\<lambda>session.
     h_bind (need ''BAD_REQUEST'' body) (\<lambda>(text, keys).
     h_bind (orgSettingsOf en oc) (\<lambda>settings.
     h_bind (normalizeSelectedComponentKeys keys) (\<lambda>selected.
     let msg = trim text; sid = bs_id session; c = llm_of_json (bs_llm session) in
     h_then (appendTurn en oc sid TurnUser (redactLikelySecrets msg))
     (h_bind (resolveToolsetBuilderSecretValue en be c (oc_organizationId oc) settings) (\<lambda>secretValue.
      let ranked = rankCatalogItems (we_lc (ae_wf en)) msg getToolsetCatalog 20 in
      h_bind (mapped builder_code (data_get en (\<lambda>d. listToolsetBuilderTurns (oc_organizationId oc) sid (Some 24) (ad_ts d)))) (\<lambda>turns.
      h_bind (askModel en be c secretValue settings chat_system
        (JObj [(''latestIntent'', opt_json (bs_latestIntent session)), (''selectedComponentKeys'', JArr (map JStr selected)),
           (''catalog'', catalogPreview ranked), (''turns'', turns_json turns), (''newMessage'', JStr msg), (''outputFormat'', answer_format)]))
        (\<lambda>content. h_bind (readAssistant en content) (\<lambda>(answer, suggested).
      let merged = selected @ filter (\<lambda>k. k \<notin> set selected) suggested in
      h_then (appendTurn en oc sid TurnAssistant answer)
      (h_then (tools_do en (\<lambda>clk uid. updateToolsetBuilderSessionSelection clk (oc_organizationId oc) sid (Some (Some msg)) merged))
      (h_return \<lparr>br_sessionId = sid, br_status = BuilderActive, br_message = answer, br_suggested = suggested, br_components = ranked,
         br_selected = merged\<rparr>))))))))))))"

section \<open>The draft\<close>

record finalize_body =
  fb_name :: "string option"
  fb_description :: "string option"
  fb_visibility :: "visibility option"
  fb_selected :: "string list"

record toolset_draft =
  td_name :: string
  td_description :: string
  td_visibility :: visibility
  td_mcpServers :: "json list"
  td_agentSkills :: "json list"

definition draft_json :: "toolset_draft \<Rightarrow> json" where
  "draft_json t = JObj [(''name'', JStr (td_name t)), (''description'', JStr (td_description t)),
     (''visibility'', JStr (case td_visibility t of VisPrivate \<Rightarrow> ''private'' | VisOrg \<Rightarrow> ''org'' | VisPublic \<Rightarrow> ''public'')),
     (''mcpServers'', JArr (td_mcpServers t)), (''agentSkills'', JArr (td_agentSkills t))]"

definition finalize_system :: string where
  "finalize_system = joinWith [CHR 0x0A] [''You are Vespid Toolset Builder.'',
     ''Generate Agent Skills bundles only. MCP servers are selected from catalog and will be injected by the server.'',
     ''Never include secret literals. MCP env/headers values must use ${ENV:VAR} placeholders only.'', ''Return JSON only.'']"

definition finalizePrompt :: "builder_session \<Rightarrow> catalog_item list \<Rightarrow> builder_turn list \<Rightarrow> json" where
  "finalizePrompt session components turns = JObj [(''latestIntent'', opt_json (bs_latestIntent session)),
     (''selectedMcpServers'', JArr (map (\<lambda>c. JObj [(''name'', qq (get_property (ci_mcp c) ''name'') JNull),
        (''transport'', qq (get_property (ci_mcp c) ''transport'') JNull), (''requiredEnv'', JArr (map JStr (qq (ci_requiredEnv c) [])))])
        (filter is_mcp components))),
     (''selectedSkillTemplates'', JArr (map (\<lambda>c. JObj [(''idHint'', JStr (ci_idHint c)), (''name'', JStr (ci_name c)),
        (''description'', opt_json (ci_description c)), (''optionalDirs'', qq (ci_optionalDirs c) JNull)])
        (filter (\<lambda>c. \<not> is_mcp c) components))),
     (''turns'', turns_json turns),
     (''outputFormat'', JObj [(''name'', JStr ''string''), (''description'', JStr ''string''),
        (''agentSkills'', JStr ''AgentSkillBundle[] (format=agentskills-v1; must include files with SKILL.md)'')])]"

fun checkServerNames :: "string list \<Rightarrow> string list \<Rightarrow> unit api_handler" where
  \<comment> \<open>the second argument holds the names seen so far\<close>
  "checkServerNames [] seen = h_return ()"
| "checkServerNames (n # ns) seen =
     h_then (check (n \<noteq> ''vespid-tools'') ''BAD_REQUEST'')
     (h_then (check (n \<notin> set seen) ''BAD_REQUEST'') (checkServerNames ns (n # seen)))"

definition draftOf :: "finalize_body \<Rightarrow> draft_answer \<Rightarrow> json list \<Rightarrow> toolset_draft" where
  "draftOf b answer servers =
     (let given = trim (qq (fb_name b) '''') in
      \<lparr>td_name = (if given \<noteq> '''' then given else trim (da_name answer)),
       td_description = (case fb_description b of Some t \<Rightarrow> trim t
         | None \<Rightarrow> (case da_description answer of Some t \<Rightarrow> trim t | None \<Rightarrow> '''')),
       td_visibility = qq (fb_visibility b) VisPrivate, td_mcpServers = servers, td_agentSkills = da_agentSkills answer\<rparr>)"

definition draftWarnings :: "catalog_item list \<Rightarrow> string list" where
  "draftWarnings components =
     (let required = remdups (concat (map (\<lambda>c. qq (ci_requiredEnv c) []) (filter is_mcp components))) in
      if required = [] then []
      else [''This toolset requires environment variables: '' @ joinWith '', '' (js_sort str_cmp required)])"

definition postBuilderFinalize :: "api_env \<Rightarrow> builder_env \<Rightarrow> request \<Rightarrow> auth_ctx option \<Rightarrow> string \<Rightarrow> string \<Rightarrow> finalize_body option
    \<Rightarrow> (toolset_draft \<times> string list) api_handler" where
  "postBuilderFinalize en be rq auth org sessionId body =
     h_bind (requireManager en rq auth org) (\<lambda>(a, oc).
     h_bind (activeSession en oc sessionId) (\<lambda>session.
     h_bind (need ''BAD_REQUEST'' body) (\<lambda>b.
     h_then (check (fb_visibility b \<noteq> Some VisPublic) ''BAD_REQUEST'')
     (h_bind (orgSettingsOf en oc) (\<lambda>settings.
      h_bind (normalizeSelectedComponentKeys (fb_selected b)) (\<lambda>selected.
      let components = List.map_filter catalog_get selected; servers = map ci_mcp (filter is_mcp components);
          sid = bs_id session; c = llm_of_json (bs_llm session) in
      h_bind (resolveToolsetBuilderSecretValue en be c (oc_organizationId oc) settings) (\<lambda>secretValue.
      h_bind (mapped builder_code (data_get en (\<lambda>d. listToolsetBuilderTurns (oc_organizationId oc) sid (Some 24) (ad_ts d)))) (\<lambda>turns.
      h_bind (askModel en be c secretValue settings finalize_system (finalizePrompt session components turns)) (\<lambda>content.
      h_bind (need ''TOOLSET_BUILDER_INVALID_MODEL_OUTPUT'' (parseDraft (parseJsonObject (ax_parse (ae_auth en)) content))) (\<lambda>answer.
      h_then (checkServerNames (map (\<lambda>s. text_field s ''name'') servers) [])
      (let draft = draftOf b answer servers in
       h_then (checkToolset (td_mcpServers draft) (td_agentSkills draft))
       (h_bind (tools_do en (\<lambda>clk uid. finalizeToolsetBuilderSession clk (oc_organizationId oc) sid selected (draft_json draft))) (\<lambda>finalized.
        h_then (check (finalized \<noteq> None) ''TOOLSET_BUILDER_SESSION_NOT_FOUND'')
        (h_return (draft, draftWarnings components)))))))))))))))"

end
