(* ===== verification/ApiOauth.thy ===== *)
theory ApiOauth
  imports ApiBuilder
begin

text \<open>
  Signing in through OAuth and connecting LLM providers (\<open>apps/api/src/server.ts\<close>).  The three maps
  of started attempts live in the memory of the server.  A request reads and changes them in one
  synchronous stretch, between which the clock and the random source are read: stretch number \<open>n\<close>
  reads \<open>oe_clock n\<close> and draws \<open>oe_state n\<close> and the like.  (The device poll has two stretches.)  The
  providers are the parameters \<open>oe_exchange\<close> and \<open>oe_vertexExchange\<close>, which give the message of an
  exception or what the provider answered; building an authorization URL is one too.
\<close>

section \<open>State\<close>

record login_state =
  lg_provider :: string
  lg_codeVerifier :: string
  lg_nonce :: string
  lg_expiresAtSec :: int

record vertex_state =
  vt_organizationId :: string
  vt_userId :: string
  vt_projectId :: string
  vt_location :: string
  vt_codeVerifier :: string
  vt_nonce :: string
  vt_expiresAtSec :: int

record device_state =
  dv_organizationId :: string
  dv_userId :: string
  dv_provider :: string
  dv_name :: string
  dv_expiresAtSec :: int

record oauth_world =
  ow_api :: api
  ow_login :: "login_state table"
  ow_vertex :: "vertex_state table"
  ow_device :: "device_state table"
  ow_steps :: nat
  ow_cookies :: "(string \<times> string option) list"  \<comment> \<open>what the reply sets, or clears\<close>

type_synonym 'a oauth_handler = "(oauth_world, 'a) handler"

record vertex_connection =
  vc_refreshToken :: string
  vc_email :: string
  vc_scopes :: "string list"

record oauth_env =
  oe_api :: api_env
  oe_stateSecret :: string
  oe_ttlSec :: int
  oe_clock :: "nat \<Rightarrow> timestamp"
  oe_state :: "nat \<Rightarrow> string"
  oe_codeVerifier :: "nat \<Rightarrow> string"
  oe_nonce :: "nat \<Rightarrow> string"
  oe_deviceCode :: "nat \<Rightarrow> string"
  oe_userCode :: "nat \<Rightarrow> string"
  oe_url :: "string \<Rightarrow> string \<Rightarrow> string \<Rightarrow> string \<Rightarrow> string + string"  \<comment> \<open>provider, state, verifier, nonce\<close>
  oe_exchange :: "nat \<Rightarrow> string \<Rightarrow> string \<Rightarrow> string \<Rightarrow> string \<Rightarrow> string + (string \<times> string option)"
    \<comment> \<open>provider, code, verifier, nonce to e-mail and display name\<close>
  oe_vertexConfigured :: bool
  oe_vertexUrl :: "string \<Rightarrow> string \<Rightarrow> string \<Rightarrow> string"
  oe_vertexExchange :: "nat \<Rightarrow> string \<Rightarrow> string \<Rightarrow> string \<Rightarrow> string + vertex_connection"
  oe_processEnv :: "string \<Rightarrow> string option"
  oe_iso :: "timestamp \<Rightarrow> string"

section \<open>Stretches and cookies\<close>

definition lift_api :: "'a api_handler \<Rightarrow> 'a oauth_handler" where
  "lift_api m w = (case m (ow_api w) of (r, a) \<Rightarrow> (r, w\<lparr>ow_api := a\<rparr>))"

definition stretch :: "(nat \<Rightarrow> oauth_world \<Rightarrow> (string + 'a) \<times> oauth_world) \<Rightarrow> 'a oauth_handler" where
  "stretch f w = f (ow_steps w) (w\<lparr>ow_steps := ow_steps w + 1\<rparr>)"

definition OAUTH_STATE_COOKIE_NAME :: string where "OAUTH_STATE_COOKIE_NAME = ''vespid_oauth_state''"
definition OAUTH_NONCE_COOKIE_NAME :: string where "OAUTH_NONCE_COOKIE_NAME = ''vespid_oauth_nonce''"
definition VERTEX_OAUTH_STATE_COOKIE_NAME :: string where "VERTEX_OAUTH_STATE_COOKIE_NAME = ''vespid_vertex_oauth_state''"
definition VERTEX_OAUTH_NONCE_COOKIE_NAME :: string where "VERTEX_OAUTH_NONCE_COOKIE_NAME = ''vespid_vertex_oauth_nonce''"

definition signedContext :: "oauth_env \<Rightarrow> timestamp \<Rightarrow> string \<Rightarrow> string \<Rightarrow> string \<Rightarrow> string" where
  "signedContext oe now val user kind = signRefreshToken (ax_hmac (ae_auth (oe_api oe)))
     (refresh_json val user kind (now div 1000 + oe_ttlSec oe)) (oe_stateSecret oe)"

definition setOAuthCookies :: "oauth_env \<Rightarrow> timestamp \<Rightarrow> string \<Rightarrow> string \<Rightarrow> oauth_world \<Rightarrow> oauth_world" where
  "setOAuthCookies oe now state nonce w = w\<lparr>ow_cookies := ow_cookies w @
     [(OAUTH_STATE_COOKIE_NAME, Some (signedContext oe now state ''oauth'' ''state'')),
      (OAUTH_NONCE_COOKIE_NAME, Some (signedContext oe now nonce ''oauth'' ''nonce''))]\<rparr>"

definition clearOAuthCookies :: "oauth_world \<Rightarrow> oauth_world" where
  "clearOAuthCookies w = w\<lparr>ow_cookies := ow_cookies w @ [(OAUTH_STATE_COOKIE_NAME, None), (OAUTH_NONCE_COOKIE_NAME, None)]\<rparr>"

definition setVertexOAuthCookies :: "oauth_env \<Rightarrow> timestamp \<Rightarrow> string \<Rightarrow> string \<Rightarrow> oauth_world \<Rightarrow> oauth_world" where
  "setVertexOAuthCookies oe now state nonce w = w\<lparr>ow_cookies := ow_cookies w @
     [(VERTEX_OAUTH_STATE_COOKIE_NAME, Some (signedContext oe now state ''vertex'' ''state'')),
      (VERTEX_OAUTH_NONCE_COOKIE_NAME, Some (signedContext oe now nonce ''vertex'' ''nonce''))]\<rparr>"

definition clearVertexOAuthCookies :: "oauth_world \<Rightarrow> oauth_world" where
  "clearVertexOAuthCookies w = w\<lparr>ow_cookies := ow_cookies w @
     [(VERTEX_OAUTH_STATE_COOKIE_NAME, None), (VERTEX_OAUTH_NONCE_COOKIE_NAME, None)]\<rparr>"

definition readContext :: "oauth_env \<Rightarrow> timestamp \<Rightarrow> request \<Rightarrow> string \<Rightarrow> string option" where
  \<comment> \<open>what the signed cookie was set for, \<open>None\<close> when it is missing, forged or expired\<close>
  "readContext oe now rq name =
     (case jget (rq_cookies rq) name of
        None \<Rightarrow> None
      | Some cookie \<Rightarrow> if cookie = '''' then None
          else map_option (\<lambda>p. text_prop p ''sessionId'')
            (verifyRefreshToken ((ae_auth (oe_api oe))\<lparr>ax_refreshSecret := oe_stateSecret oe, ax_nowMs := now\<rparr>) cookie))"

section \<open>Signing in\<close>

definition extractProvider :: "string \<Rightarrow> string option" where
  "extractProvider v = (if v \<in> {''google'', ''github''} then Some v else None)"

definition toOAuthAppError :: "string \<Rightarrow> string" where
  \<comment> \<open>from the message of an exception to the code of the reply\<close>
  "toOAuthAppError message =
     (if startsWith message ''OAUTH_PROVIDER_NOT_CONFIGURED:'' then ''OAUTH_PROVIDER_NOT_CONFIGURED''
      else if message = ''OAUTH_INVALID_NONCE'' then ''OAUTH_INVALID_NONCE''
      else if message = ''OAUTH_EMAIL_REQUIRED'' then ''OAUTH_EMAIL_REQUIRED''
      else if startsWith message ''OAUTH_'' then message else ''OAUTH_EXCHANGE_FAILED'')"

record oauth_query =
  oq_code :: string
  oq_state :: string
  oq_json :: bool  \<comment> \<open>\<open>mode=json\<close>\<close>

datatype oauth_reply =
    AuthorizeJson string string  \<comment> \<open>provider and URL\<close>
  | AuthorizeRedirect string
  | LoginJson signed_session user_rec string
  | LoginRedirect string
  | LoginFailed string string  \<comment> \<open>a redirect that names the provider and the code\<close>
  | CallbackRedirect "(string \<times> string) list"
  | DeviceStarted string string string string int  \<comment> \<open>provider, device code, user code, URI, lifetime\<close>
  | DevicePending
  | DeviceConnected "string option" string string  \<comment> \<open>secret, connector, name\<close>
  | VertexConnected string
  | VertexFailed string
  | OauthDone

fun signs_in :: "oauth_reply \<Rightarrow> bool" where
  "signs_in (LoginJson _ _ _) = True"
| "signs_in (LoginRedirect _) = True"
| "signs_in _ = False"

definition getLoginStart :: "oauth_env \<Rightarrow> string \<Rightarrow> bool \<Rightarrow> oauth_reply oauth_handler" where
  "getLoginStart oe rawProvider json =
     h_bind (lift_api (need ''BAD_REQUEST'' (extractProvider rawProvider))) (\<lambda>provider.
     stretch (\<lambda>n w.
       let now = oe_clock oe n; state = oe_state oe n; nonce = oe_nonce oe n; codeVerifier = oe_codeVerifier oe n;
           w = w\<lparr>ow_login := jset state \<lparr>lg_provider = provider, lg_codeVerifier = codeVerifier, lg_nonce = nonce,
             lg_expiresAtSec = now div 1000 + oe_ttlSec oe\<rparr> (ow_login w)\<rparr> in
       (case oe_url oe provider state codeVerifier nonce of
          Inl message \<Rightarrow> (Inl (toOAuthAppError message), w)
        | Inr url \<Rightarrow> (Inr (if json then AuthorizeJson provider url else AuthorizeRedirect url), setOAuthCookies oe now state nonce w))))"

definition consumeLoginState :: "oauth_env \<Rightarrow> request \<Rightarrow> string \<Rightarrow> oauth_query \<Rightarrow> login_state oauth_handler" where
  \<comment> \<open>the callback up to the exchange of the code\<close>
  "consumeLoginState oe rq provider q = stretch (\<lambda>n w.
     let now = oe_clock oe n in
     (case (readContext oe now rq OAUTH_STATE_COOKIE_NAME, readContext oe now rq OAUTH_NONCE_COOKIE_NAME) of
        (Some state, Some nonce) \<Rightarrow>
          if state \<noteq> oq_state q then (Inl ''UNAUTHORIZED'', w)
          else
            (let stored = jget (ow_login w) (oq_state q);
                 w = clearOAuthCookies (w\<lparr>ow_login := jdel (oq_state q) (ow_login w)\<rparr>) in
             case stored of
               None \<Rightarrow> (Inl ''UNAUTHORIZED'', w)
             | Some st \<Rightarrow>
                 if lg_provider st \<noteq> provider \<or> lg_expiresAtSec st \<le> now div 1000 then (Inl ''UNAUTHORIZED'', w)
                 else if nonce \<noteq> lg_nonce st then (Inl ''UNAUTHORIZED'', w)
                 else (Inr st, w))
      | _ \<Rightarrow> (Inl ''UNAUTHORIZED'', w)))"

definition exchangeCodeForProfile :: "oauth_env \<Rightarrow> string \<Rightarrow> string \<Rightarrow> login_state \<Rightarrow> (string \<times> string option) oauth_handler" where
  "exchangeCodeForProfile oe provider code st = stretch (\<lambda>n w.
     (case oe_exchange oe n provider code (lg_codeVerifier st) (lg_nonce st) of
        Inl message \<Rightarrow> (Inl (toOAuthAppError message), w)
      | Inr profile \<Rightarrow> (Inr profile, w)))"

definition signInWithProfile :: "api_env \<Rightarrow> request \<Rightarrow> string \<Rightarrow> string \<times> string option \<Rightarrow> (signed_session \<times> user_rec) api_handler" where
  \<comment> \<open>the callback after the exchange\<close>
  "signInWithProfile en rq provider profile =
     h_bind (data_get en (\<lambda>d. getUserByEmail (fst profile) (ad_id d))) (\<lambda>existingUser.
     h_bind (case existingUser of
         Some u \<Rightarrow> h_return u
       | None \<Rightarrow>
           h_bind (h_gets (\<lambda>w. ae_hashPassword en (aw_calls w) (''oauth:'' @ provider @ '':'' @ ae_uuid en (aw_calls w) 1))) (\<lambda>passwordHash.
           mapped store_error (id_do en (\<lambda>clk uid. createUser clk uid (fst profile) passwordHash (snd profile))))) (\<lambda>u.
     h_bind (createSessionForUser en rq u) (\<lambda>session.
     h_then (ensurePersonalWorkspace en u) (h_return (session, u)))))"

definition oauth_code :: "string \<Rightarrow> string" where
  \<comment> \<open>\<open>toOAuthAppError\<close> on the exceptions of the callback: no message of the store starts with \<open>OAUTH_\<close>\<close>
  "oauth_code e = (if e = ''INTERNAL_ERROR'' then ''OAUTH_EXCHANGE_FAILED'' else e)"

definition getLoginCallback :: "oauth_env \<Rightarrow> request \<Rightarrow> string \<Rightarrow> oauth_query option \<Rightarrow> oauth_reply oauth_handler" where
  "getLoginCallback oe rq rawProvider query =
     h_bind (lift_api (need ''BAD_REQUEST'' (extractProvider rawProvider))) (\<lambda>provider.
     h_bind (lift_api (need ''BAD_REQUEST'' query)) (\<lambda>q.
     h_catch
       (h_bind (consumeLoginState oe rq provider q) (\<lambda>stored.
        h_bind (exchangeCodeForProfile oe provider (oq_code q) stored) (\<lambda>profile.
        h_bind (lift_api (signInWithProfile (oe_api oe) rq provider profile)) (\<lambda>(session, u).
        h_return (if oq_json q then LoginJson session u provider else LoginRedirect provider)))))
       (\<lambda>e. if oq_json q then h_throw (oauth_code e) else h_return (LoginFailed provider (oauth_code e)))))"

section \<open>Connecting LLM providers\<close>

definition requireOrgAdminMembershipForSecretManagement :: "api_env \<Rightarrow> string \<Rightarrow> string \<Rightarrow> unit api_handler" where
  "requireOrgAdminMembershipForSecretManagement en org userId =
     h_bind (data_get en (\<lambda>d. getMembership org userId (ad_id d))) (\<lambda>m.
     h_bind (need ''FORBIDDEN'' m) (\<lambda>m'. check (is_manager (mb_roleKey m')) ''FORBIDDEN''))"

definition oauth_providers :: "string list" where
  \<comment> \<open>the providers of the registry with \<open>authMode: "oauth"\<close>\<close>
  "oauth_providers = [''openai-codex'', ''google-vertex'', ''google-antigravity'', ''google-gemini-cli'', ''github-copilot'',
     ''qwen-portal'', ''minimax-portal'', ''chutes'']"

definition resolveOauthProviderOrThrow :: "string \<Rightarrow> string api_handler" where
  "resolveOauthProviderOrThrow rawProvider =
     h_bind (need ''BAD_REQUEST'' (normalizeLlmProviderId rawProvider)) (\<lambda>provider.
     h_then (check (provider \<in> set oauth_providers) ''BAD_REQUEST'') (h_return provider))"

definition oauth_connector :: "string \<Rightarrow> string" where
  "oauth_connector provider = normalizeConnectorId (''llm.'' @ provider @ ''.oauth'')"

definition connectorSecretsOf :: "api_env \<Rightarrow> string \<Rightarrow> string \<Rightarrow> connector_secret list api_handler" where
  "connectorSecretsOf en org connectorId =
     h_bind (data_get en (\<lambda>d. listConnectorSecrets (we_lc (ae_wf en)) org None (ad_sec d))) (\<lambda>all.
     h_return (filter (\<lambda>s. normalizeConnectorId (sr_connectorId s) = connectorId) all))"

definition storeOauthSecret :: "api_env \<Rightarrow> string \<Rightarrow> string \<Rightarrow> string \<Rightarrow> string \<Rightarrow> string \<Rightarrow> string \<Rightarrow> unit api_handler" where
  \<comment> \<open>create the secret, or rotate the one of that name; \<open>failed\<close> is the code when it cannot be found\<close>
  "storeOauthSecret en org userId connectorId name val failed =
     h_bind (sec_do en (\<lambda>clk uid rnd. createConnectorSecret (ae_b64 en) (ae_seal en) (ae_secretsEnv en)
         clk uid rnd org userId connectorId name val)) (\<lambda>r.
     case r of
       Inr _ \<Rightarrow> h_return ()
     | Inl e \<Rightarrow>
         if e = SECRET_ALREADY_EXISTS then
           h_bind (connectorSecretsOf en org connectorId) (\<lambda>existing.
           h_bind (need failed (find (\<lambda>s. sr_name s = name) existing)) (\<lambda>current.
           h_then (mapped (\<lambda>_. ''INTERNAL_ERROR'') (sec_do en (\<lambda>clk uid rnd. rotateConnectorSecret (ae_b64 en) (ae_seal en) (ae_secretsEnv en)
               clk rnd org userId (sr_id current) val))) (h_return ())))
         else h_throw ''INTERNAL_ERROR'')"

definition startVertex :: "oauth_env \<Rightarrow> string \<Rightarrow> string \<Rightarrow> string \<Rightarrow> string \<Rightarrow> string oauth_handler" where
  \<comment> \<open>what both start routes do for Vertex: the URL to go to\<close>
  "startVertex oe org userId projectId location = stretch (\<lambda>n w.
     let now = oe_clock oe n; state = oe_state oe n; codeVerifier = oe_codeVerifier oe n; nonce = oe_nonce oe n;
         w = w\<lparr>ow_vertex := jset state \<lparr>vt_organizationId = org, vt_userId = userId, vt_projectId = projectId, vt_location = location,
           vt_codeVerifier = codeVerifier, vt_nonce = nonce, vt_expiresAtSec = now div 1000 + oe_ttlSec oe\<rparr> (ow_vertex w)\<rparr> in
     (Inr (oe_vertexUrl oe state codeVerifier nonce), setVertexOAuthCookies oe now state nonce w))"

record llm_start_body =
  ls_projectId :: "string option"
  ls_location :: "string option"
  ls_json :: bool

definition postLlmStart :: "oauth_env \<Rightarrow> auth_ctx option \<Rightarrow> string \<Rightarrow> string \<Rightarrow> llm_start_body option \<Rightarrow> oauth_reply oauth_handler" where
  "postLlmStart oe auth org rawProvider body =
     h_bind (lift_api (requireAuth auth)) (\<lambda>a.
     h_bind (lift_api (resolveOauthProviderOrThrow rawProvider)) (\<lambda>provider.
     h_then (lift_api (requireOrgAdminMembershipForSecretManagement (oe_api oe) org (ac_userId a)))
     (h_bind (lift_api (need ''BAD_REQUEST'' body)) (\<lambda>b.
      if provider = ''google-vertex'' then
        let projectId = qq (map_option trim (ls_projectId b)) ''''; location = qq (map_option trim (ls_location b)) ''us-central1'' in
        h_then (lift_api (check (projectId \<noteq> '''') ''BAD_REQUEST''))
        (h_then (lift_api (check (oe_vertexConfigured oe) ''VERTEX_OAUTH_NOT_CONFIGURED''))
        (h_bind (startVertex oe org (ac_userId a) projectId location) (\<lambda>url.
         h_return (if ls_json b then AuthorizeJson provider url else AuthorizeRedirect url))))
      else h_throw ''LLM_OAUTH_USE_DEVICE_FLOW''))))"

definition getLlmCallback :: "string \<Rightarrow> (string \<times> string) list \<Rightarrow> oauth_reply oauth_handler" where
  \<comment> \<open>a redirect to the callback of Vertex with the query's non-empty parameters\<close>
  "getLlmCallback rawProvider query =
     h_bind (lift_api (resolveOauthProviderOrThrow rawProvider)) (\<lambda>provider.
     if provider \<noteq> ''google-vertex'' then h_throw ''LLM_OAUTH_CALLBACK_NOT_SUPPORTED''
     else h_return (CallbackRedirect (filter (\<lambda>e. snd e \<noteq> '''') query)))"

definition upper_char :: "char \<Rightarrow> char" where
  "upper_char c = (let n = of_char c :: nat in if 97 \<le> n \<and> n \<le> 122 then char_of (n - 32) else c)"

definition verify_url_env :: "string \<Rightarrow> string" where
  "verify_url_env provider = ''LLM_OAUTH_'' @
     map (\<lambda>c. let u = upper_char c; n = of_char u :: nat in
       if 65 \<le> n \<and> n \<le> 90 \<or> 48 \<le> n \<and> n \<le> 57 then u else CHR ''_'') provider @ ''_VERIFY_URL''"

definition DEFAULT_LLM_OAUTH_VERIFY_URLS :: "(string \<times> string) list" where
  "DEFAULT_LLM_OAUTH_VERIFY_URLS = [(''openai-codex'', ''https://chatgpt.com''),
     (''google-antigravity'', ''https://aistudio.google.com''), (''google-gemini-cli'', ''https://aistudio.google.com''),
     (''github-copilot'', ''https://github.com/login/device''), (''qwen-portal'', ''https://chat.qwen.ai''),
     (''minimax-portal'', ''https://www.minimax.io''), (''chutes'', ''https://chutes.ai'')]"

definition nonempty :: "string option \<Rightarrow> string option" where
  \<comment> \<open>\<open>v?.trim() || ...\<close>\<close>
  "nonempty v = (case map_option trim v of None \<Rightarrow> None | Some s \<Rightarrow> if s = '''' then None else Some s)"

definition postDeviceStart :: "oauth_env \<Rightarrow> auth_ctx option \<Rightarrow> string \<Rightarrow> string \<Rightarrow> string option option \<Rightarrow> oauth_reply oauth_handler" where
  "postDeviceStart oe auth org rawProvider body =
     h_bind (lift_api (requireAuth auth)) (\<lambda>a.
     h_bind (lift_api (resolveOauthProviderOrThrow rawProvider)) (\<lambda>provider.
     h_then (lift_api (requireOrgAdminMembershipForSecretManagement (oe_api oe) org (ac_userId a)))
     (h_then (lift_api (check (provider \<noteq> ''google-vertex'') ''BAD_REQUEST''))
     (h_bind (lift_api (need ''BAD_REQUEST'' body)) (\<lambda>name.
      stretch (\<lambda>n w.
        let deviceCode = oe_deviceCode oe n; nowSec = oe_clock oe n div 1000;
            w = w\<lparr>ow_device := jset deviceCode \<lparr>dv_organizationId = org, dv_userId = ac_userId a, dv_provider = provider,
              dv_name = qq (nonempty name) ''default'', dv_expiresAtSec = nowSec + oe_ttlSec oe\<rparr> (ow_device w)\<rparr> in
        (case nonempty (oe_processEnv oe (verify_url_env provider)) of
           Some uri \<Rightarrow> (Inr (DeviceStarted provider deviceCode (oe_userCode oe n) uri (oe_ttlSec oe)), w)
         | None \<Rightarrow> (case map_of DEFAULT_LLM_OAUTH_VERIFY_URLS provider of
             None \<Rightarrow> (Inl ''LLM_OAUTH_VERIFY_URL_NOT_CONFIGURED'', w)
           | Some uri \<Rightarrow> (Inr (DeviceStarted provider deviceCode (oe_userCode oe n) uri (oe_ttlSec oe)), w)))))))))"

record device_poll =
  dp_deviceCode :: string
  dp_token :: "string option"
  dp_name :: "string option"

definition readDeviceState :: "oauth_env \<Rightarrow> string \<Rightarrow> string \<Rightarrow> string \<Rightarrow> device_state oauth_handler" where
  "readDeviceState oe org provider deviceCode = stretch (\<lambda>n w.
     (case jget (ow_device w) deviceCode of
        None \<Rightarrow> (Inl ''UNAUTHORIZED'', w)
      | Some st \<Rightarrow>
          if dv_organizationId st \<noteq> org \<or> dv_provider st \<noteq> provider then (Inl ''UNAUTHORIZED'', w)
          else if dv_expiresAtSec st \<le> oe_clock oe n div 1000
            then (Inl ''UNAUTHORIZED'', w\<lparr>ow_device := jdel deviceCode (ow_device w)\<rparr>)
          else (Inr st, w)))"

definition postDevicePoll :: "oauth_env \<Rightarrow> auth_ctx option \<Rightarrow> string \<Rightarrow> string \<Rightarrow> device_poll option \<Rightarrow> oauth_reply oauth_handler" where
  "postDevicePoll oe auth org rawProvider body =
     h_bind (lift_api (requireAuth auth)) (\<lambda>a.
     h_bind (lift_api (resolveOauthProviderOrThrow rawProvider)) (\<lambda>provider.
     h_then (lift_api (requireOrgAdminMembershipForSecretManagement (oe_api oe) org (ac_userId a)))
     (h_bind (lift_api (need ''BAD_REQUEST'' body)) (\<lambda>b.
      h_bind (readDeviceState oe org provider (dp_deviceCode b)) (\<lambda>st.
      case dp_token b of
        None \<Rightarrow> h_return DevicePending
      | Some token \<Rightarrow>
          let connectorId = oauth_connector provider; val = trim token;
              name = (case nonempty (dp_name b) of Some s \<Rightarrow> s | None \<Rightarrow> if dv_name st = '''' then ''default'' else dv_name st) in
          h_then (lift_api (check (val \<noteq> '''') ''BAD_REQUEST''))
          (h_then (lift_api (storeOauthSecret (oe_api oe) org (ac_userId a) connectorId name val ''LLM_OAUTH_STORE_FAILED''))
          (h_then (stretch (\<lambda>n w. (Inr (), w\<lparr>ow_device := jdel (dp_deviceCode b) (ow_device w)\<rparr>)))
          (h_bind (lift_api (connectorSecretsOf (oe_api oe) org connectorId)) (\<lambda>secrets.
           h_return (DeviceConnected (map_option sr_id (find (\<lambda>s. sr_name s = name) secrets)) connectorId name))))))))))"

definition deleteLlmSecret :: "api_env \<Rightarrow> auth_ctx option \<Rightarrow> string \<Rightarrow> string \<Rightarrow> string \<Rightarrow> unit api_handler" where
  "deleteLlmSecret en auth org rawProvider secretId =
     h_bind (requireAuth auth) (\<lambda>a.
     h_bind (resolveOauthProviderOrThrow rawProvider) (\<lambda>provider.
     h_then (requireOrgAdminMembershipForSecretManagement en org (ac_userId a))
     (h_bind (connectorSecretsOf en org (oauth_connector provider)) (\<lambda>secrets.
      h_then (check (find (\<lambda>s. sr_id s = secretId) secrets \<noteq> None) ''SECRET_NOT_FOUND'')
      (h_bind (sec_do en (\<lambda>clk uid rnd. deleteConnectorSecret org secretId)) (\<lambda>ok. check ok ''SECRET_NOT_FOUND''))))))"

section \<open>Vertex\<close>

definition getVertexStart :: "oauth_env \<Rightarrow> auth_ctx option \<Rightarrow> string \<Rightarrow> (string \<times> string) option \<Rightarrow> oauth_reply oauth_handler" where
  \<comment> \<open>the query: project and location\<close>
  "getVertexStart oe auth org query =
     h_bind (lift_api (requireAuth auth)) (\<lambda>a.
     h_bind (lift_api (need ''BAD_REQUEST'' query)) (\<lambda>(projectId, location).
     h_then (lift_api (requireOrgAdminMembershipForSecretManagement (oe_api oe) org (ac_userId a)))
     (h_then (lift_api (check (oe_vertexConfigured oe) ''VERTEX_OAUTH_NOT_CONFIGURED''))
     (h_bind (startVertex oe org (ac_userId a) (trim projectId) (trim location)) (\<lambda>url. h_return (AuthorizeRedirect url))))))"

definition consumeVertexState :: "oauth_env \<Rightarrow> request \<Rightarrow> string \<Rightarrow> oauth_query \<Rightarrow> vertex_state oauth_handler" where
  \<comment> \<open>the callback up to the exchange of the code\<close>
  "consumeVertexState oe rq userId q = stretch (\<lambda>n w.
     let now = oe_clock oe n in
     (case (readContext oe now rq VERTEX_OAUTH_STATE_COOKIE_NAME, readContext oe now rq VERTEX_OAUTH_NONCE_COOKIE_NAME) of
        (Some state, Some nonce) \<Rightarrow>
          if state \<noteq> oq_state q then (Inl ''UNAUTHORIZED'', w)
          else
            (case jget (ow_vertex w) (oq_state q) of
               None \<Rightarrow> (Inl ''UNAUTHORIZED'', w)
             | Some st \<Rightarrow>
                 let removed = w\<lparr>ow_vertex := jdel (oq_state q) (ow_vertex w)\<rparr> in
                 if vt_expiresAtSec st < now div 1000 then (Inl ''UNAUTHORIZED'', removed)
                 else if vt_userId st \<noteq> userId then (Inl ''UNAUTHORIZED'', w)
                 else if nonce \<noteq> vt_nonce st then (Inl ''UNAUTHORIZED'', w)
                 else if \<not> oe_vertexConfigured oe then (Inl ''VERTEX_OAUTH_NOT_CONFIGURED'', clearVertexOAuthCookies removed)
                 else (Inr st, clearVertexOAuthCookies removed))
      | _ \<Rightarrow> (Inl ''UNAUTHORIZED'', w)))"

definition vertex_secret_value :: "oauth_env \<Rightarrow> vertex_state \<Rightarrow> vertex_connection \<Rightarrow> timestamp \<Rightarrow> string" where
  "vertex_secret_value oe st c now = stringify (JObj [(''refreshToken'', JStr (vc_refreshToken c)), (''projectId'', JStr (vt_projectId st)),
     (''location'', JStr (vt_location st)), (''accountEmail'', JStr (vc_email c)), (''scopes'', JArr (map JStr (vc_scopes c))),
     (''createdAt'', JStr (oe_iso oe now))])"

definition vertex_code :: "string \<Rightarrow> string" where
  \<comment> \<open>from the message of an exception to the code of the redirect\<close>
  "vertex_code message = (if message \<in> {''VERTEX_OAUTH_REFRESH_TOKEN_REQUIRED'', ''OAUTH_INVALID_NONCE'', ''OAUTH_EMAIL_REQUIRED''}
     then message else ''VERTEX_OAUTH_FAILED'')"

definition getVertexCallback :: "oauth_env \<Rightarrow> request \<Rightarrow> auth_ctx option \<Rightarrow> oauth_query option \<Rightarrow> oauth_reply oauth_handler" where
  "getVertexCallback oe rq auth query =
     h_bind (lift_api (requireAuth auth)) (\<lambda>a.
     h_catch
       (h_bind (lift_api (need ''BAD_REQUEST'' query)) (\<lambda>q.
        h_bind (consumeVertexState oe rq (ac_userId a) q) (\<lambda>st.
        h_bind (stretch (\<lambda>n w. (case oe_vertexExchange oe n (oq_code q) (vt_codeVerifier st) (vt_nonce st) of
            Inl message \<Rightarrow> (Inl (vertex_code message), w)
          | Inr c \<Rightarrow> (Inr (c, oe_clock oe n), w)))) (\<lambda>(c, now).
        h_then (lift_api (storeOauthSecret (oe_api oe) (vt_organizationId st) (ac_userId a) (normalizeConnectorId ''llm.vertex.oauth'')
            ''default'' (vertex_secret_value oe st c now) ''VERTEX_OAUTH_STORE_FAILED''))
          (h_return (VertexConnected (vt_organizationId st)))))))
       (\<lambda>e. h_return (VertexFailed (if e = ''INTERNAL_ERROR'' then ''VERTEX_OAUTH_FAILED'' else e))))"

definition deleteVertex :: "api_env \<Rightarrow> auth_ctx option \<Rightarrow> string \<Rightarrow> unit api_handler" where
  "deleteVertex en auth org =
     h_bind (requireAuth auth) (\<lambda>a.
     h_then (requireOrgAdminMembershipForSecretManagement en org (ac_userId a))
     (h_bind (connectorSecretsOf en org (normalizeConnectorId ''llm.vertex.oauth'')) (\<lambda>existing.
      case find (\<lambda>s. sr_name s = ''default'') existing of
        None \<Rightarrow> h_return ()
      | Some current \<Rightarrow> h_then (sec_do en (\<lambda>clk uid rnd. deleteConnectorSecret org (sr_id current))) (h_return ()))))"

end
