(* ===== verification/ApiRoutes.thy ===== *)
theory ApiRoutes
  imports ApiOauth
begin

text \<open>
  The requests the modelled part of the API server answers: \<open>member_route\<close> relates an authenticated
  request to the handlers that act for a user within the organizations the user belongs to, or on the
  user's own account, or on the platform; \<open>guest_route\<close> the handlers that act on an organization for
  somebody who need not belong to it (invitations, shares, webhooks, the gateway).
\<close>

definition ends :: "'a api_handler \<Rightarrow> unit api_handler" where
  \<comment> \<open>the handler without the body of its reply\<close>
  "ends m = h_then m (h_return ())"

inductive account_route :: "api_env \<Rightarrow> request \<Rightarrow> auth_ctx option \<Rightarrow> unit api_handler \<Rightarrow> bool" for en rq auth where
  \<comment> \<open>the own account, organizations, billing, tickets, administration\<close>
  "account_route en rq auth (ends (postSignup en rq b1))"
| "account_route en rq auth (ends (postLogin en rq b2))"
| "account_route en rq auth (ends (postRefresh en rq))"
| "account_route en rq auth (ends (postLogout en auth))"
| "account_route en rq auth (ends (postLogoutAll en auth))"
| "account_route en rq auth (ends (getMe en auth))"
| "account_route en rq auth (ends (postOrg en auth b2))"
| "account_route en rq auth (ends (postInvitation en rq auth org b3))"
| "account_route en rq auth (ends (postMemberRole en rq auth org i b4))"
| "account_route en rq auth (ends (getSettings en rq auth org))"
| "account_route en rq auth (ends (putSettings en rq auth org b5))"
| "account_route en rq auth (ends (getEntitlements en rq auth org))"
| "account_route en rq auth (ends (getUsage en rq auth org))"
| "account_route en rq auth (ends (getOrgTickets en rq auth b6))"
| "account_route en rq auth (ends (postOrgTicket en rq auth b7))"
| "account_route en rq auth (ends (getOrgTicket en rq auth i))"
| "account_route en rq auth (ends (patchOrgTicket en rq auth i b8))"
| "account_route en rq auth (ends (getPlatformSettings en auth))"
| "account_route en rq auth (ends (putPlatformSetting en auth b9))"
| "account_route en rq auth (ends (settingValue en auth i v))"
| "account_route en rq auth (ends (putRiskPolicies en auth b5))"
| "account_route en rq auth (ends (getAdminSubscription en auth org))"
| "account_route en rq auth (ends (putAdminSubscription en auth org b10))"
| "account_route en rq auth (ends (getSystemAdmins en auth))"
| "account_route en rq auth (ends (postSystemAdmin en auth b11))"
| "account_route en rq auth (ends (deleteSystemAdmin en auth b11))"
| "account_route en rq auth (ends (getAdminTickets en auth b6))"
| "account_route en rq auth (ends (postAdminTicket en auth b7))"
| "account_route en rq auth (ends (getAdminTicket en auth i))"
| "account_route en rq auth (ends (patchAdminTicket en auth i b8))"
| "account_route en rq auth (ends (postTicketEvent en auth i b9))"
| "account_route en rq auth (ends (signInWithProfile en rq pv pf))"  \<comment> \<open>what an OAuth callback does to the store\<close>

inductive run_route :: "api_env \<Rightarrow> request \<Rightarrow> auth_ctx option \<Rightarrow> unit api_handler \<Rightarrow> bool" for en rq auth where
  \<comment> \<open>workflows, shares, triggers, runs, approvals\<close>
  "run_route en rq auth (ends (postWorkflow en rq auth org b12))"
| "run_route en rq auth (ends (getWorkflows en rq auth org q1))"
| "run_route en rq auth (ends (getWorkflow en rq auth org i))"
| "run_route en rq auth (ends (getRevisions en rq auth org i q2))"
| "run_route en rq auth (ends (putWorkflow en rq auth org i b13))"
| "run_route en rq auth (ends (postPublish en rq auth org i))"
| "run_route en rq auth (ends (postDraft en rq auth org i))"
| "run_route en rq auth (ends (postShareInvitation en rq auth org i b6))"
| "run_route en rq auth (ends (getShares en rq auth org i q3))"
| "run_route en rq auth (ends (deleteShare en rq auth org i k))"
| "run_route en rq auth (ends (getShare en auth i))"
| "run_route en rq auth (ends (getTriggers en rq auth org q4))"
| "run_route en rq auth (ends (patchTrigger en rq auth org i b14))"
| "run_route en rq auth (ends (postRun en rq auth org i b15))"
| "run_route en rq auth (ends (getRun en rq auth org i k))"
| "run_route en rq auth (ends (getRuns en rq auth org i q1))"
| "run_route en rq auth (ends (getRunEvents en rq auth org i k q1))"
| "run_route en rq auth (ends (getShareRuns en auth i q1))"
| "run_route en rq auth (ends (getShareRunEvents en auth i k q1))"
| "run_route en rq auth (ends (getApprovals en rq auth org q5))"
| "run_route en rq auth (ends (postApprove en rq auth org i b16))"
| "run_route en rq auth (ends (postReject en rq auth org i b16))"

inductive session_route :: "api_env \<Rightarrow> request \<Rightarrow> auth_ctx option \<Rightarrow> unit api_handler \<Rightarrow> bool" for en rq auth where
  \<comment> \<open>executors, secrets, sessions, bindings, memory\<close>
  "session_route en rq auth (ends (listExecutorsHandler en rq auth org))"
| "session_route en rq auth (ends (setExecutorLabelsHandler en rq auth org i b17))"
| "session_route en rq auth (ends (createExecutorPairingTokenHandler en rq auth org))"
| "session_route en rq auth (revokeExecutorHandler en rq auth org i)"
| "session_route en rq auth (deleteExecutorHandler en rq auth org i)"
| "session_route en rq auth (ends (getSecrets en rq auth org b16))"
| "session_route en rq auth (ends (postSecret en rq auth org b18))"
| "session_route en rq auth (ends (putSecret en rq auth org i b19))"
| "session_route en rq auth (deleteSecret en rq auth org i)"
| "session_route en rq auth (ends (postSession en rq auth org b20))"
| "session_route en rq auth (ends (postMessage en rq auth org i b21))"
| "session_route en rq auth (ends (postReset en rq auth org i b22))"
| "session_route en rq auth (ends (getSessions en rq auth org n st cur))"
| "session_route en rq auth (ends (deleteSession en rq auth org i))"
| "session_route en rq auth (ends (postRestore en rq auth org i))"
| "session_route en rq auth (ends (getSession en rq auth org i))"
| "session_route en rq auth (ends (getSessionEvents en rq auth org i n n'))"
| "session_route en rq auth (ends (getBindings en rq auth org))"
| "session_route en rq auth (ends (postBinding en rq auth org b23))"
| "session_route en rq auth (ends (patchBinding en rq auth org i b24))"
| "session_route en rq auth (deleteBinding en rq auth org i)"
| "session_route en rq auth (ends (postMemorySync en rq auth org b25))"
| "session_route en rq auth (ends (getMemorySearch en rq auth org b26))"
| "session_route en rq auth (ends (getMemoryDoc en rq auth org i))"
| "session_route en rq auth (deleteLlmSecret en auth org pv i)"
| "session_route en rq auth (deleteVertex en auth org)"
| "session_route en rq auth (ends (storeOauthSecret en org us cn nm vl fl))"  \<comment> \<open>the same for a device poll and for Vertex\<close>

inductive asset_route :: "api_env \<Rightarrow> request \<Rightarrow> auth_ctx option \<Rightarrow> unit api_handler \<Rightarrow> bool" for en rq auth where
  \<comment> \<open>channels, toolsets and their builder\<close>
  "asset_route en rq auth (ends (getAccounts en rq auth org b16))"
| "asset_route en rq auth (ends (postAccount en rq auth org c1))"
| "asset_route en rq auth (ends (getAccount en rq auth org i))"
| "asset_route en rq auth (ends (patchAccount en rq auth org i c2))"
| "asset_route en rq auth (deleteAccount en rq auth org i)"
| "asset_route en rq auth (ends (postAccountSecret en rq auth org i b2))"
| "asset_route en rq auth (ends (getAllowlist en rq auth org i b16))"
| "asset_route en rq auth (ends (putAllowlist en rq auth org i b2))"
| "asset_route en rq auth (deleteAllowlist en rq auth org i b2)"
| "asset_route en rq auth (ends (getStatus en rq auth org i))"
| "asset_route en rq auth (ends (postAction en rq auth org i c3))"
| "asset_route en rq auth (ends (postTestSend en rq auth org i c4 g))"
| "asset_route en rq auth (ends (getPairings en rq auth org c5))"
| "asset_route en rq auth (ends (decidePairing en rq auth org i vd))"
| "asset_route en rq auth (ends (getToolsets en rq auth org))"
| "asset_route en rq auth (ends (postToolset en rq auth org c6))"
| "asset_route en rq auth (ends (getToolset en rq auth org i))"
| "asset_route en rq auth (ends (putToolset en rq auth org i c6))"
| "asset_route en rq auth (deleteToolset en rq auth org i)"
| "asset_route en rq auth (ends (postToolsetPublish en rq auth org i c7))"
| "asset_route en rq auth (ends (postToolsetUnpublish en rq auth org i c8))"
| "asset_route en rq auth (ends (getGallery en auth))"
| "asset_route en rq auth (ends (getGalleryItem en auth i))"
| "asset_route en rq auth (ends (postAdopt en rq auth org i c5))"
| "asset_route en rq auth (ends (postBuilderSession en be rq auth org c9))"
| "asset_route en rq auth (ends (postBuilderChat en be rq auth org i c10))"
| "asset_route en rq auth (ends (postBuilderFinalize en be rq auth org i c11))"

inductive member_route :: "api_env \<Rightarrow> request \<Rightarrow> auth_ctx option \<Rightarrow> unit api_handler \<Rightarrow> bool" for en rq auth where
  "account_route en rq auth m \<Longrightarrow> member_route en rq auth m"
| "run_route en rq auth m \<Longrightarrow> member_route en rq auth m"
| "session_route en rq auth m \<Longrightarrow> member_route en rq auth m"
| "asset_route en rq auth m \<Longrightarrow> member_route en rq auth m"

inductive guest_route :: "api_env \<Rightarrow> request \<Rightarrow> auth_ctx option \<Rightarrow> unit api_handler \<Rightarrow> bool" for en rq auth where
  "guest_route en rq auth (ends (postInvitationAccept en rq auth token))"
| "guest_route en rq auth (ends (postShareAccept en auth token))"
| "guest_route en rq auth (ends (postShareRun en auth i b15))"
| "guest_route en rq auth (ends (postChannelTriggerRun en rq b27))"
| "guest_route en rq auth (ends (postWebhook en token k body))"
| "guest_route en rq auth (ends (pairExecutorHandler en b28))"
| "guest_route en rq auth (ends (postManagedIssue en rq b29))"
| "guest_route en rq auth (postManagedRevoke en rq i)"

definition serve :: "api_env \<Rightarrow> request \<Rightarrow> (auth_ctx option \<Rightarrow> unit api_handler) \<Rightarrow> unit api_handler" where
  \<comment> \<open>the \<open>preHandler\<close> hook, then the handler of the route\<close>
  "serve en rq route = h_bind (authenticateRequest en rq) route"

end
