(* ===== verification/ApiFrame.thy ===== *)
theory ApiFrame
  imports ApiRoutes WorkflowIsolation
begin

text \<open>
  Invariants under the requests of the API server.  The locale \<open>request_invariant\<close> is what a predicate
  of the shared data has to satisfy for the requests of one caller: other requests keep it, and each
  change a handler makes within an organization context the caller can obtain (\<open>own\<close>) keeps it.
  \<open>guest_invariant\<close> adds the changes made for somebody outside the organization.  Every route is
  shown to keep such a predicate once.
\<close>

section \<open>Operations of the workflow store\<close>

definition ws_safe :: "string \<Rightarrow> (clock \<Rightarrow> uuids \<Rightarrow> wf_store \<Rightarrow> wf_store) \<Rightarrow> bool" where
  \<comment> \<open>an operation of one organization\<close>
  "ws_safe org f \<longleftrightarrow> (\<forall>clk uid s. ws_inv s \<longrightarrow> uid 0 \<notin> ws_ids s \<longrightarrow> ws_ok org {uid 0} s (f clk uid s))"

definition admin_tables :: "wf_store \<Rightarrow> workflow_rec table \<times> trigger_sub table \<times> approval_req table" where
  "admin_tables s = (ws_workflows s, ws_subs s, ws_approvals s)"

definition runs_only :: "(clock \<Rightarrow> uuids \<Rightarrow> wf_store \<Rightarrow> wf_store) \<Rightarrow> bool" where
  "runs_only f \<longleftrightarrow> (\<forall>clk uid s. admin_tables (f clk uid s) = admin_tables s)"

named_theorems ws_safes \<open>operations of the workflow store that act for one organization\<close>

lemma ws_safe_call: "(\<And>clk uid s. f clk uid s = snd (ws_call env org clk uid c s)) \<Longrightarrow> ws_safe org f"
  by (simp add: ws_safe_def ws_step_ok)

lemma ws_safe_ops [ws_safes]:
  "ws_safe org (\<lambda>clk uid s. snd (createWorkflow clk uid org n d a s))"
  "ws_safe org (\<lambda>clk uid s. snd (updateWorkflowDraft clk org w nm dsl e s))"
  "ws_safe org (\<lambda>clk uid s. snd (publishWorkflow clk org w s))"
  "ws_safe org (\<lambda>clk uid s. snd (createWorkflowDraftFromWorkflow clk uid org w a s))"
  "ws_safe org (\<lambda>clk uid s. snd (createWorkflowShareInvitation clk uid org w a em ttl s))"
  "ws_safe org (\<lambda>clk uid s. snd (revokeWorkflowShare clk org w i s))"
  "ws_safe org (\<lambda>clk uid s. snd (acceptWorkflowShareInvitation clk uid org t u em s))"
  "ws_safe org (\<lambda>clk uid s. snd (patchWorkflowTriggerSubscription clk org i b s))"
  "ws_safe org (\<lambda>clk uid s. snd (decideWorkflowApprovalRequest clk org a i st nt s))"
  "ws_safe org (\<lambda>clk uid s. snd (clearWorkflowRunBlock org w r i s))"
  "ws_safe org (\<lambda>clk uid s. snd (createWorkflowRun clk uid org w tt a inp mx k ta src s))"
  "ws_safe org (\<lambda>clk uid s. snd (deleteQueuedWorkflowRun org w r s))"
  "ws_safe org (\<lambda>clk uid s. snd (markWorkflowRunFailed clk org w r er s))"
  "ws_safe org (\<lambda>clk uid s. snd (appendWorkflowRunEvent clk uid org w r n' ty ni nt' lv m p s))"
  by (rule ws_safe_call [where c = "CreateWorkflow n d a"], simp; fail |
      rule ws_safe_call [where c = "UpdateDraft w nm dsl e"], simp; fail |
      rule ws_safe_call [where c = "PublishWorkflow w"], simp; fail |
      rule ws_safe_call [where c = "CreateDraft w a"], simp; fail |
      rule ws_safe_call [where c = "CreateShareInvitation w a em ttl"], simp; fail |
      rule ws_safe_call [where c = "RevokeShare w i"], simp; fail |
      rule ws_safe_call [where c = "AcceptShareInvitation t u em"], simp; fail |
      rule ws_safe_call [where c = "PatchTrigger i b"], simp; fail |
      rule ws_safe_call [where c = "DecideApproval a i st nt"], simp; fail |
      rule ws_safe_call [where c = "ClearRunBlock w r i"], simp; fail |
      rule ws_safe_call [where c = "CreateRun w tt a inp mx k ta src"], simp; fail |
      rule ws_safe_call [where c = "DeleteQueuedRun w r"], simp; fail |
      rule ws_safe_call [where c = "MarkFailed w r er"], simp; fail |
      rule ws_safe_call [where c = "AppendRunEvent w r n' ty ni nt' lv m p"], simp; fail)+

lemma ws_safe_sync [ws_safes]:
  "ws_safe org (\<lambda>clk uid s. snd (syncWorkflowTriggerSubscriptions (we_parse env) (we_sha env) clk uid org w a r d s))"
  for env :: wf_env
  by (rule ws_safe_call [where env = env and c = "SyncTriggers w a r d"]) simp

lemma runs_only_ops [ws_safes]:
  "runs_only (\<lambda>clk uid s. snd (createWorkflowRun clk uid org w tt a inp mx k ta src s))"
  "runs_only (\<lambda>clk uid s. snd (deleteQueuedWorkflowRun org w r s))"
  "runs_only (\<lambda>clk uid s. snd (acceptWorkflowShareInvitation clk uid org t u em s))"
  by (auto simp: runs_only_def admin_tables_def createWorkflowRun_def deleteQueuedWorkflowRun_def
      acceptWorkflowShareInvitation_def Let_def split: option.split prod.split)

section \<open>Operations of the toolset store\<close>

definition policy_ok :: "toolset \<Rightarrow> bool" where
  "policy_ok t \<longleftrightarrow> validateMcpPlaceholderPolicy (to_mcpServers t) \<and> validateAgentSkillBundles (to_agentSkills t)"

definition toolsets_ok :: "tool_store \<Rightarrow> bool" where
  "toolsets_ok s \<longleftrightarrow> (\<forall>t \<in> set (jvalues (ts_toolsets s)). policy_ok t)"

lemma values_jset: "x \<in> set (jvalues (jset k v m)) \<Longrightarrow> x = v \<or> x \<in> set (jvalues m)"
  by (induction m) (auto split: if_splits)

lemma values_jdel: "x \<in> set (jvalues (jdel k m)) \<Longrightarrow> x \<in> set (jvalues m)"
  by (induction m) (auto split: if_splits)

lemma toolsets_jset: "toolsets_ok s \<Longrightarrow> policy_ok t \<Longrightarrow> toolsets_ok (s\<lparr>ts_toolsets := jset k t (ts_toolsets s)\<rparr>)"
  by (auto simp: toolsets_ok_def dest: values_jset)

lemma scoped_policy: "toolsets_ok s \<Longrightarrow> scoped_get to_organizationId (ts_toolsets s) org k = Some t \<Longrightarrow> policy_ok t"
  by (auto simp: toolsets_ok_def dest!: scoped_getD jget_in_values)

lemma gallery_policy: "toolsets_ok s \<Longrightarrow> getPublicToolsetBySlug slug s = Some t \<Longrightarrow> policy_ok t"
  by (auto simp: toolsets_ok_def getPublicToolsetBySlug_def find_Some_iff)

lemma tool_ops:
  "validateMcpPlaceholderPolicy ms \<Longrightarrow> validateAgentSkillBundles ks \<Longrightarrow> toolsets_ok s \<Longrightarrow>
    toolsets_ok (snd (createAgentToolset clk uid org a n d v (Some (JArr ms)) (Some (JArr ks)) s))"
  "validateMcpPlaceholderPolicy ms \<Longrightarrow> validateAgentSkillBundles ks \<Longrightarrow> toolsets_ok s \<Longrightarrow>
    toolsets_ok (snd (updateAgentToolset clk org a i n d v (Some (JArr ms)) (Some (JArr ks)) s))"
  "toolsets_ok s \<Longrightarrow> toolsets_ok (snd (deleteAgentToolset org i s))"
  "toolsets_ok s \<Longrightarrow> toolsets_ok (snd (publishAgentToolset clk org a i slug s))"
  "toolsets_ok s \<Longrightarrow> toolsets_ok (snd (unpublishAgentToolset clk org a i v s))"
  "toolsets_ok s \<Longrightarrow> toolsets_ok (snd (adoptPublicToolset clk uid org a slug nm ds s))"
  by (auto simp: createAgentToolset_def updateAgentToolset_def publishAgentToolset_def unpublishAgentToolset_def
      adoptPublicToolset_def array_or_empty_def policy_ok_def Let_def dest: scoped_policy gallery_policy intro!: toolsets_jset
      split: option.split)
    (auto simp: deleteAgentToolset_def toolsets_ok_def split: option.split dest: values_jdel)

lemma builder_ops:
  "ts_toolsets (snd (createToolsetBuilderSession clk uid org a l i s)) = ts_toolsets s"
  "ts_toolsets (snd (appendToolsetBuilderTurn clk org i' r t s)) = ts_toolsets s"
  "ts_toolsets (snd (updateToolsetBuilderSessionSelection clk org i' l' ks s)) = ts_toolsets s"
  "ts_toolsets (snd (finalizeToolsetBuilderSession clk org i' ks d s)) = ts_toolsets s"
  by (simp_all add: createToolsetBuilderSession_def appendToolsetBuilderTurn_def updateToolsetBuilderSessionSelection_def
      finalizeToolsetBuilderSession_def Let_def split: option.split)

section \<open>The contract\<close>

definition at_calls :: "(nat \<Rightarrow> api_data \<Rightarrow> bool) \<Rightarrow> api \<Rightarrow> bool" where
  \<comment> \<open>the predicate at the number of the next access\<close>
  "at_calls I w \<longleftrightarrow> I (aw_calls w) (aw_data w)"

definition grants :: "('s \<Rightarrow> bool) \<Rightarrow> ('s, 'a) handler \<Rightarrow> ('a \<Rightarrow> bool) \<Rightarrow> bool" where
  "grants P m Q \<longleftrightarrow> (\<forall>s x s'. P s \<longrightarrow> m s = (Inr x, s') \<longrightarrow> Q x)"

lemma keeps_bind_grants:
  assumes "keeps P m" and "grants P m Q" and "\<And>x. Q x \<Longrightarrow> keeps P (f x)"
  shows "keeps P (h_bind m f)"
  unfolding keeps_def
proof (intro allI impI)
  fix s assume P: "P s"
  obtain r s' where m: "m s = (r, s')" by (cases "m s")
  then have "P s'" using keepsD [OF assms(1) P] by blast
  with assms(2,3) P m show "P (snd (h_bind m f s))"
    by (cases r) (auto simp: h_bind_def grants_def keeps_def)
qed

lemma grants_bind_when:
  assumes "keeps P m" and "grants P m R" and "\<And>x. R x \<Longrightarrow> grants P (f x) Q"
  shows "grants P (h_bind m f) Q"
  unfolding grants_def
proof (intro allI impI)
  fix s y t assume P: "P s" and run: "h_bind m f s = (Inr y, t)"
  obtain r s' where m: "m s = (r, s')" by (cases "m s")
  then have "P s'" using keepsD [OF assms(1) P] by blast
  moreover obtain x where "r = Inr x" using run m by (cases r) (auto simp: h_bind_def)
  ultimately show "Q y" using assms(2,3) P m run by (simp add: h_bind_def grants_def) blast
qed

lemma grants_bind: "keeps P m \<Longrightarrow> (\<And>x. grants P (f x) Q) \<Longrightarrow> grants P (h_bind m f) Q"
  by (rule grants_bind_when [where R = "\<lambda>_. True"]) (auto simp: grants_def)

lemma grants_return: "Q x \<Longrightarrow> grants P (h_return x) Q"
  by (simp add: grants_def h_return_def)

lemma grants_throw: "grants P (h_throw e) Q"
  by (simp add: grants_def h_throw_def)

lemma grants_need: "(\<And>x. v = Some x \<Longrightarrow> Q x) \<Longrightarrow> grants P (need e v) Q"
  by (cases v) (simp_all add: need_def grants_return grants_throw)

lemma grants_check: "grants P (check ok e) (\<lambda>_. ok)"
  by (simp add: check_def grants_return grants_throw)

locale request_invariant =
  fixes en :: api_env and u :: string and own :: "org_ctx \<Rightarrow> bool" and I :: "nat \<Rightarrow> api_data \<Rightarrow> bool"
  assumes env: "I n d \<Longrightarrow> I n (ae_others en n d)"
    and later: "I n d \<Longrightarrow> I (Suc n) d"
    and own_context: "I n d \<Longrightarrow> getMembership org u (ad_id d) = Some m \<Longrightarrow> own \<lparr>oc_organizationId = org, oc_membership = m\<rparr>"
    and platform: "I n d \<Longrightarrow> I (Suc n) (d\<lparr>ad_pf := pf\<rparr>)"
    and executors: "I n d \<Longrightarrow> I (Suc n) (d\<lparr>ad_ex := ex\<rparr>)"
    and secrets: "I n d \<Longrightarrow> I (Suc n) (d\<lparr>ad_sec := sec\<rparr>)"
    and agent_sessions: "I n d \<Longrightarrow> I (Suc n) (d\<lparr>ad_ss := ss\<rparr>)"
    and channels: "I n d \<Longrightarrow> I (Suc n) (d\<lparr>ad_ch := ch\<rparr>)"
    and toolsets: "(toolsets_ok (ad_ts d) \<Longrightarrow> toolsets_ok ts) \<Longrightarrow> I n d \<Longrightarrow> I (Suc n) (d\<lparr>ad_ts := ts\<rparr>)"
    and posts: "I n d \<Longrightarrow> I (Suc n) (d\<lparr>ad_posts := ps\<rparr>)"
    and queue: "I n d \<Longrightarrow> I (Suc n) (d\<lparr>ad_queue := q\<rparr>)"
    and new_user: "I n d \<Longrightarrow> I (Suc n) (d\<lparr>ad_id := snd (createUser (ae_clock en n) (ae_uuid en n) em h nm (ad_id d))\<rparr>)"
    and new_session: "I n d \<Longrightarrow> I (Suc n) (d\<lparr>ad_id := snd (createSession (ae_clock en n) (ae_uuid en n)
      (Some (ae_uuid en n 0)) us h ex' ua ip (ad_id d))\<rparr>)"
    and rotate: "I n d \<Longrightarrow> I (Suc n) (d\<lparr>ad_id := snd (rotateSessionRefreshToken (ae_clock en n) us sid h ex' (ad_id d))\<rparr>)"
    and touch: "I n d \<Longrightarrow> I (Suc n) (d\<lparr>ad_id := touchSession (ae_clock en n) us sid (ad_id d)\<rparr>)"
    and revoke: "I n d \<Longrightarrow> I (Suc n) (d\<lparr>ad_id := snd (revokeSession (ae_clock en n) us sid (ad_id d))\<rparr>)"
    and revoke_all: "I n d \<Longrightarrow> I (Suc n) (d\<lparr>ad_id := snd (revokeAllSessionsForUser (ae_clock en n) us (ad_id d))\<rparr>)"
    and new_org: "I n d \<Longrightarrow> I (Suc n) (d\<lparr>ad_id := snd (createOrganizationWithOwner (ae_clock en n) (ae_uuid en n) orgName slug us (ad_id d))\<rparr>)"
    and invite: "own oc \<Longrightarrow> is_manager (mb_roleKey (oc_membership oc)) \<Longrightarrow> role \<noteq> RoleOwner \<Longrightarrow> I n d \<Longrightarrow>
      I (Suc n) (d\<lparr>ad_id := snd (createInvitation (ae_clock en n) (ae_uuid en n) (oc_organizationId oc) em role us ttl (ad_id d))\<rparr>)"
    and set_role: "own oc \<Longrightarrow> is_manager (mb_roleKey (oc_membership oc)) \<Longrightarrow>
      role \<noteq> RoleOwner \<or> mb_roleKey (oc_membership oc) = RoleOwner \<Longrightarrow> I n d \<Longrightarrow>
      I (Suc n) (d\<lparr>ad_id := snd (updateMembershipRole (oc_organizationId oc) mem role (ad_id d))\<rparr>)"
    and settings: "own oc \<Longrightarrow> is_manager (mb_roleKey (oc_membership oc)) \<Longrightarrow> I n d \<Longrightarrow>
      I (Suc n) (d\<lparr>ad_id := snd (updateOrganizationSettings (oc_organizationId oc) v (ad_id d))\<rparr>)"
    and workflow: "own oc \<Longrightarrow> is_manager (mb_roleKey (oc_membership oc)) \<or> runs_only f \<Longrightarrow> ws_safe (oc_organizationId oc) f \<Longrightarrow>
      I n d \<Longrightarrow> I (Suc n) (d\<lparr>ad_wf := f (ae_clock en n) (ae_uuid en n) (ad_wf d)\<rparr>)"

locale guest_invariant = request_invariant +
  assumes join: "I n d \<Longrightarrow> I (Suc n) (d\<lparr>ad_id := snd (acceptInvitation (ae_clock en n) (ae_uuid en n) org tok us em (ad_id d))\<rparr>)"
    and guest_workflow: "ws_safe org f \<Longrightarrow> runs_only f \<Longrightarrow> I n d \<Longrightarrow>
      I (Suc n) (d\<lparr>ad_wf := f (ae_clock en n) (ae_uuid en n) (ad_wf d)\<rparr>)"

section \<open>Accesses\<close>

context request_invariant begin

lemma keeps_api_do: "(\<And>n d. I n d \<Longrightarrow> I (Suc n) (snd (f n d))) \<Longrightarrow> keeps (at_calls I) (api_do en f)"
  by (auto simp: keeps_def at_calls_def api_do_def Let_def env split: prod.splits; metis env snd_conv)

lemma keeps_data_get: "keeps (at_calls I) (data_get en f)"
  unfolding data_get_def by (rule keeps_api_do) (simp add: later)

lemma grants_data_get: "(\<And>n d. I n d \<Longrightarrow> Q (f d)) \<Longrightarrow> grants (at_calls I) (data_get en f) Q"
  unfolding grants_def at_calls_def data_get_def api_do_def Let_def using env by fastforce

lemma keeps_pf_do: "keeps (at_calls I) (pf_do en f)"
  unfolding pf_do_def by (rule keeps_api_do) (simp add: platform split: prod.split)

lemma keeps_ex_do: "keeps (at_calls I) (ex_do en f)"
  unfolding ex_do_def by (rule keeps_api_do) (simp add: executors split: prod.split)

lemma keeps_sec_do: "keeps (at_calls I) (sec_do en f)"
  unfolding sec_do_def by (rule keeps_api_do) (simp add: secrets split: prod.split)

lemma keeps_ss_do: "keeps (at_calls I) (ss_do en f)"
  unfolding ss_do_def by (rule keeps_api_do) (simp add: agent_sessions split: prod.split)

lemma keeps_ch_do: "keeps (at_calls I) (ch_do en f)"
  unfolding ch_do_def by (rule keeps_api_do) (simp add: channels split: prod.split)

lemma keeps_tools_do:
  "(\<And>clk uid s. toolsets_ok s \<Longrightarrow> toolsets_ok (snd (f clk uid s))) \<Longrightarrow> keeps (at_calls I) (tools_do en f)"
  unfolding tools_do_def by (rule keeps_api_do) (simp add: toolsets case_prod_beta)

lemma keeps_id_do:
  "(\<And>n d. I n d \<Longrightarrow> I (Suc n) (d\<lparr>ad_id := snd (f (ae_clock en n) (ae_uuid en n) (ad_id d))\<rparr>)) \<Longrightarrow> keeps (at_calls I) (id_do en f)"
  unfolding id_do_def by (rule keeps_api_do) (simp add: case_prod_beta)

lemma keeps_wf_do:
  "(\<And>n d. I n d \<Longrightarrow> I (Suc n) (d\<lparr>ad_wf := snd (f (ae_clock en n) (ae_uuid en n) (ad_wf d))\<rparr>)) \<Longrightarrow> keeps (at_calls I) (wf_do en f)"
  unfolding wf_do_def by (rule keeps_api_do) (simp add: case_prod_beta)

lemma keeps_wf_manage: "ws_safe (oc_organizationId oc) (\<lambda>clk uid s. snd (f clk uid s)) \<Longrightarrow> own oc \<Longrightarrow>
    is_manager (mb_roleKey (oc_membership oc)) \<Longrightarrow> keeps (at_calls I) (wf_do en f)"
  by (rule keeps_wf_do, rule workflow [where f = "\<lambda>clk uid s. snd (f clk uid s)"]) auto

lemma keeps_wf_run: "ws_safe (oc_organizationId oc) (\<lambda>clk uid s. snd (f clk uid s)) \<Longrightarrow> runs_only (\<lambda>clk uid s. snd (f clk uid s)) \<Longrightarrow>
    own oc \<Longrightarrow> keeps (at_calls I) (wf_do en f)"
  by (rule keeps_wf_do, rule workflow [where f = "\<lambda>clk uid s. snd (f clk uid s)"]) auto

lemma keeps_local:
  "(\<And>w. aw_data (f w) = aw_data w) \<Longrightarrow> (\<And>w. aw_calls (f w) = aw_calls w) \<Longrightarrow> keeps (at_calls I) (h_modify f)"
  by (simp add: keeps_def at_calls_def h_modify_def)

lemma keeps_need: "keeps (at_calls I) (need e x)"
  by (simp add: need_def keeps_intros split: option.split)

lemma keeps_check: "keeps (at_calls I) (check ok e)"
  by (simp add: check_def keeps_intros)

lemma keeps_mapped: "keeps (at_calls I) m \<Longrightarrow> keeps (at_calls I) (mapped e m)"
  by (auto simp: mapped_def intro!: keeps_intros)

lemma keeps_cookie: "keeps (at_calls I) (setSessionCookie t)" "keeps (at_calls I) clearSessionCookie"
    "keeps (at_calls I) (warnOrgContext c)"
  by (simp_all add: setSessionCookie_def clearSessionCookie_def warnOrgContext_def keeps_local)

lemmas access_rules = keeps_data_get keeps_pf_do keeps_ex_do keeps_sec_do keeps_ss_do keeps_ch_do keeps_need keeps_check keeps_cookie

end

section \<open>Guards\<close>

definition called_by :: "string \<Rightarrow> auth_ctx option \<Rightarrow> bool" where
  "called_by u auth \<longleftrightarrow> (case auth of None \<Rightarrow> True | Some a \<Rightarrow> ac_userId a = u)"

definition speaks_for :: "api_env \<Rightarrow> request \<Rightarrow> string \<Rightarrow> api \<Rightarrow> bool" where
  \<comment> \<open>the request is authenticated as the user's, if at all\<close>
  "speaks_for en rq u w \<longleftrightarrow> (\<forall>auth. fst (authenticateRequest en rq w) = Inr auth \<longrightarrow> called_by u auth)"

lemma keeps_check_then: "keeps P (h_return ()) \<Longrightarrow> (ok \<Longrightarrow> keeps P m) \<Longrightarrow> keeps P (h_then (check ok e) m)"
  by (cases ok) (auto simp: check_def h_then_def keeps_def h_bind_def h_return_def h_throw_def)

context request_invariant begin

lemma keeps_requireAuth: "keeps (at_calls I) (requireAuth auth)"
  by (simp add: requireAuth_def keeps_need)

lemma keeps_chooseOrg: "keeps (at_calls I) (chooseOrg en rq e)"
  by (auto simp: chooseOrg_def intro!: keeps_intros keeps_cookie split: sum.splits option.splits)

lemma keeps_requireOrgContext: "keeps (at_calls I) (requireOrgContext en rq auth e)"
  unfolding requireOrgContext_def by (intro keeps_intros keeps_requireAuth keeps_chooseOrg keeps_data_get)

lemma grants_requireOrgContext:
  assumes "called_by u auth"
  shows "grants (at_calls I) (requireOrgContext en rq auth e) own"
  unfolding requireOrgContext_def
proof (rule grants_bind_when [where R = "\<lambda>a. ac_userId a = u", OF keeps_requireAuth])
  show "grants (at_calls I) (requireAuth auth) (\<lambda>a. ac_userId a = u)"
    using assms by (auto simp: requireAuth_def called_by_def intro: grants_need)
next
  fix a :: auth_ctx assume a: "ac_userId a = u"
  show "grants (at_calls I) (h_bind (chooseOrg en rq e) (\<lambda>org.
      h_bind (data_get en (\<lambda>d. getMembership org (ac_userId a) (ad_id d))) (\<lambda>m.
      case m of None \<Rightarrow> h_throw ''ORG_ACCESS_DENIED''
      | Some m' \<Rightarrow> h_return \<lparr>oc_organizationId = org, oc_membership = m'\<rparr>))) own"
  proof (rule grants_bind [OF keeps_chooseOrg])
    fix org
    show "grants (at_calls I) (h_bind (data_get en (\<lambda>d. getMembership org (ac_userId a) (ad_id d))) (\<lambda>m.
        case m of None \<Rightarrow> h_throw ''ORG_ACCESS_DENIED''
        | Some m' \<Rightarrow> h_return \<lparr>oc_organizationId = org, oc_membership = m'\<rparr>)) own"
      by (rule grants_bind_when [where R = "\<lambda>m. \<forall>m'. m = Some m' \<longrightarrow> own \<lparr>oc_organizationId = org, oc_membership = m'\<rparr>",
            OF keeps_data_get grants_data_get])
        (auto simp: a own_context intro: grants_return grants_throw split: option.split)
  qed
qed

lemma guard_member: "called_by u auth \<Longrightarrow> (\<And>oc. own oc \<Longrightarrow> keeps (at_calls I) (f oc)) \<Longrightarrow>
    keeps (at_calls I) (h_bind (requireOrgContext en rq auth e) f)"
  by (rule keeps_bind_grants [OF keeps_requireOrgContext grants_requireOrgContext])

lemma keeps_requireManager: "keeps (at_calls I) (requireManager en rq auth org)"
  unfolding requireManager_def by (intro keeps_intros keeps_requireAuth keeps_requireOrgContext keeps_check)

lemma guard_manager:
  assumes "called_by u auth"
    and "\<And>a oc. own oc \<Longrightarrow> is_manager (mb_roleKey (oc_membership oc)) \<Longrightarrow> keeps (at_calls I) (g a oc)"
  shows "keeps (at_calls I) (h_bind (requireManager en rq auth org) (\<lambda>(a, oc). g a oc))"
proof (rule keeps_bind_grants [OF keeps_requireManager,
      where Q = "\<lambda>(a, oc). own oc \<and> is_manager (mb_roleKey (oc_membership oc))"])
  show "grants (at_calls I) (requireManager en rq auth org) (\<lambda>(a, oc). own oc \<and> is_manager (mb_roleKey (oc_membership oc)))"
    unfolding requireManager_def h_then_def
    by (rule grants_bind [OF keeps_requireAuth], rule grants_bind_when [OF keeps_requireOrgContext
          grants_requireOrgContext [OF assms(1)]], rule grants_bind_when [OF keeps_check grants_check])
      (simp add: grants_return)
qed (auto intro: assms(2))

lemma guard_header:
  assumes "called_by u auth" and "\<And>a oc. own oc \<Longrightarrow> keeps (at_calls I) (g a oc)"
  shows "keeps (at_calls I) (h_bind (orgOfHeader en rq auth) (\<lambda>(a, oc). g a oc))"
proof (rule keeps_bind_grants [where Q = "\<lambda>(a, oc). own oc"])
  show "keeps (at_calls I) (orgOfHeader en rq auth)"
    unfolding orgOfHeader_def by (intro keeps_intros keeps_requireAuth keeps_requireOrgContext)
  show "grants (at_calls I) (orgOfHeader en rq auth) (\<lambda>(a, oc). own oc)"
    unfolding orgOfHeader_def
    by (rule grants_bind [OF keeps_requireAuth], rule grants_bind_when [OF keeps_requireOrgContext
          grants_requireOrgContext [OF assms(1)]]) (simp add: grants_return)
qed (auto intro: assms(2))

lemmas guards = guard_member guard_manager guard_header keeps_check_then [OF keeps_return]

section \<open>Helpers of the handlers\<close>

lemma keeps_createSessionForUser: "keeps (at_calls I) (createSessionForUser en rq us)"
  by (auto simp: keeps_def at_calls_def createSessionForUser_def h_bind_def h_gets_def h_then_def h_return_def Let_def
      id_do_def api_do_def access_session_def setSessionCookie_def h_modify_def new_session env split: prod.split)
    (metis env new_session snd_conv)

lemma keeps_session_ops:
  "keeps (at_calls I) (id_do en (\<lambda>clk uid s. ((), touchSession clk us sid s)))"
  "keeps (at_calls I) (id_do en (\<lambda>clk uid. rotateSessionRefreshToken clk us sid h t))"
  "keeps (at_calls I) (id_do en (\<lambda>clk uid. revokeSession clk us sid))"
  "keeps (at_calls I) (id_do en (\<lambda>clk uid. revokeAllSessionsForUser clk us))"
  "keeps (at_calls I) (id_do en (\<lambda>clk uid. createUser clk uid em h' nm))"
  "keeps (at_calls I) (id_do en (\<lambda>clk uid. createOrganizationWithOwner clk uid orgName slug us))"
  by (rule keeps_id_do, simp add: touch rotate revoke revoke_all new_user new_org)+

lemma keeps_ensurePersonal: "keeps (at_calls I) (ensurePersonalWorkspace en us)"
  unfolding ensurePersonalWorkspace_def
proof (rule keeps_mapped, rule keeps_id_do)
  fix n d assume d: "I n d"
  let ?i = "us_id us"
  have "snd (ensurePersonalOrganizationForUser clk uid i s) = s \<or>
      snd (ensurePersonalOrganizationForUser clk uid i s) =
        snd (createOrganizationWithOwner clk uid ''Personal workspace'' (''personal-'' @ take 8 i) i s)" for clk uid i s
    by (auto simp: ensurePersonalOrganizationForUser_def split: list.split prod.split sum.split)
  then consider "snd (ensurePersonalOrganizationForUser (ae_clock en n) (ae_uuid en n) ?i (ad_id d)) = ad_id d"
    | "snd (ensurePersonalOrganizationForUser (ae_clock en n) (ae_uuid en n) ?i (ad_id d)) =
        snd (createOrganizationWithOwner (ae_clock en n) (ae_uuid en n) ''Personal workspace'' (''personal-'' @ take 8 ?i) ?i (ad_id d))"
    by blast
  then show "I (Suc n) (d\<lparr>ad_id := snd (ensurePersonalOrganizationForUser (ae_clock en n) (ae_uuid en n) ?i (ad_id d))\<rparr>)"
    using later [OF d] new_org [OF d] by cases simp_all
qed

lemma keeps_bootstrap: "keeps (at_calls I) (ensureSystemAdminBootstrap en i e)"
  unfolding ensureSystemAdminBootstrap_def by (intro keeps_intros keeps_pf_do)

lemma keeps_admin: "keeps (at_calls I) (requireSystemAdmin en auth)"
  unfolding requireSystemAdmin_def by (intro keeps_intros keeps_requireAuth keeps_bootstrap keeps_data_get keeps_check)

lemma keeps_capabilities: "keeps (at_calls I) (resolveUserCapabilities en i e)"
  unfolding resolveUserCapabilities_def by (intro keeps_intros keeps_bootstrap keeps_data_get)

lemma keeps_access_session: "keeps (at_calls I) (access_session en us sid)"
  unfolding access_session_def by (rule keeps_gets)

lemma keeps_refresh: "keeps (at_calls I) (authenticateFromRefreshCookie en tok rot)"
  unfolding authenticateFromRefreshCookie_def
  by (intro keeps_intros keeps_data_get keeps_session_ops keeps_access_session keeps_cookie)

lemma keeps_bearer: "keeps (at_calls I) (authenticateFromBearerToken en tok)"
  unfolding authenticateFromBearerToken_def by (intro keeps_intros keeps_data_get keeps_session_ops)

lemma keeps_authenticate: "keeps (at_calls I) (authenticateRequest en rq)"
  unfolding authenticateRequest_def Let_def
  by (intro keeps_intros keeps_refresh keeps_bearer) (simp_all add: keeps_local)

lemma keeps_quota: "keeps (at_calls I) (getOrganizationRunQuotaSnapshot en org)" "keeps (at_calls I) (assertOrganizationRunQuota en org)"
    "keeps (at_calls I) (recordOrganizationRunUsage en org)"
  unfolding getOrganizationRunQuotaSnapshot_def assertOrganizationRunQuota_def recordOrganizationRunUsage_def
  by (intro keeps_intros keeps_data_get keeps_check keeps_pf_do)+

lemma keeps_enqueue: "keeps (at_calls I) (enqueueWorkflowRun en r)"
  unfolding enqueueWorkflowRun_def by (rule keeps_api_do) (simp add: queue later)

lemma keeps_gateway_post: "keeps (at_calls I) (postToGateway en p)"
  unfolding postToGateway_def by (rule keeps_api_do) (simp add: posts later)

lemmas helper_rules = keeps_requireAuth keeps_createSessionForUser keeps_session_ops keeps_ensurePersonal keeps_bootstrap
  keeps_admin keeps_capabilities keeps_access_session keeps_refresh keeps_bearer keeps_quota keeps_enqueue keeps_gateway_post
  access_rules keeps_mapped

lemma keeps_checkGraph: "keeps (at_calls I) (checkGraph d)"
  by (auto simp: checkGraph_def intro!: keeps_intros split: wf_dsl_any.split option.split)

lemma keeps_small: "keeps (at_calls I) (workflowOf en oc i)" "keeps (at_calls I) (runOf en oc i k)" "keeps (at_calls I) (getShare en auth i)" "keeps (at_calls I) (pendingApproval en oc i)" "keeps (at_calls I) (ticketOf en oc i)"
    "keeps (at_calls I) (ticketEvent en i k ty pl)" "keeps (at_calls I) (auditLog en a ac tt ti md)" "keeps (at_calls I) (adminTarget en b)"
    "keeps (at_calls I) (logEvent en org i ev)" "keeps (at_calls I) (sessionOf en oc i)"
    "keeps (at_calls I) (applyTicketPatch en a i tp)" "keeps (at_calls I) (checkInvitationHeader en rq org)"
  unfolding workflowOf_def runOf_def getShare_def pendingApproval_def ticketOf_def ticketEvent_def auditLog_def
    adminTarget_def logEvent_def sessionOf_def applyTicketPatch_def checkInvitationHeader_def
  by ((rule helper_rules keeps_intros)+)

section \<open>Runs and approvals\<close>

lemma grants_new_run: "grants (at_calls I) (mapped run_error (wf_do en (\<lambda>clk uid. createWorkflowRun clk uid org w tt a inp mx k ta src)))
    (\<lambda>r. rn_organizationId r = org)"
  by (auto simp: grants_def mapped_def h_bind_def h_return_def h_throw_def wf_do_def api_do_def createWorkflowRun_def Let_def
      split: prod.splits sum.splits if_splits)

lemma guard_new_run:
  assumes "keeps (at_calls I) (wf_do en (\<lambda>clk uid. createWorkflowRun clk uid org w tt a inp mx k ta src))"
    and "\<And>r. rn_organizationId r = org \<Longrightarrow> keeps (at_calls I) (f r)"
  shows "keeps (at_calls I) (h_bind (mapped run_error (wf_do en (\<lambda>clk uid. createWorkflowRun clk uid org w tt a inp mx k ta src))) f)"
  by (rule keeps_bind_grants [OF keeps_mapped [OF assms(1)] grants_new_run assms(2)])

lemma keeps_queueRun_by:
  assumes "keeps (at_calls I) (wf_do en (\<lambda>clk uid. deleteQueuedWorkflowRun (rn_organizationId r) (rn_workflowId r) (rn_id r)))"
  shows "keeps (at_calls I) (queueRun en r)"
  unfolding queueRun_def by (intro keeps_intros keeps_enqueue keeps_quota assms)

lemma keeps_queueRun: "own oc \<Longrightarrow> rn_organizationId r = oc_organizationId oc \<Longrightarrow> keeps (at_calls I) (queueRun en r)"
  by (rule keeps_queueRun_by, rule keeps_wf_run [where oc = oc]) (simp_all add: ws_safes)

lemma keeps_approvalEvent:
  "own oc \<Longrightarrow> is_manager (mb_roleKey (oc_membership oc)) \<Longrightarrow> org = oc_organizationId oc \<Longrightarrow>
    keeps (at_calls I) (approvalEvent en org r ap ty lv msg ex)"
  unfolding approvalEvent_def by (intro keeps_intros keeps_wf_manage [where oc = oc]) (simp_all add: ws_safes)

lemma keeps_decide: "own oc \<Longrightarrow> is_manager (mb_roleKey (oc_membership oc)) \<Longrightarrow> keeps (at_calls I) (decide en a oc i st note)"
  unfolding decide_def by (rule keeps_wf_manage) (simp_all add: ws_safes)

lemma keeps_resumeRun:
  assumes "own oc" and "is_manager (mb_roleKey (oc_membership oc))" and "rn_organizationId r = oc_organizationId oc"
  shows "keeps (at_calls I) (resumeRun en (oc_organizationId oc) r ap)"
  unfolding resumeRun_def
  by (intro keeps_intros keeps_wf_manage [where oc = oc] keeps_approvalEvent [where oc = oc] keeps_enqueue)
    (simp_all add: ws_safes assms)

lemma keeps_failRejected:
  assumes "own oc" and "is_manager (mb_roleKey (oc_membership oc))" and "rn_organizationId r = oc_organizationId oc"
  shows "keeps (at_calls I) (failRejected en (oc_organizationId oc) r ap)"
  unfolding failRejected_def
  by (intro keeps_intros keeps_wf_manage [where oc = oc] keeps_approvalEvent [where oc = oc]) (simp_all add: ws_safes assms)

lemma blocked_run_org: "getWorkflowRunByBlockedRequestId org i s = Some r \<Longrightarrow> rn_organizationId r = org"
  by (auto simp: getWorkflowRunByBlockedRequestId_def find_Some_iff)

lemma guard_blocked_run:
  "(\<And>run. (\<And>r. run = Some r \<Longrightarrow> rn_organizationId r = org) \<Longrightarrow> keeps (at_calls I) (f run)) \<Longrightarrow>
    keeps (at_calls I) (h_bind (data_get en (\<lambda>d. getWorkflowRunByBlockedRequestId org i (ad_wf d))) f)"
  by (rule keeps_bind_grants [OF keeps_data_get grants_data_get [where Q = "\<lambda>run. \<forall>r. run = Some r \<longrightarrow> rn_organizationId r = org"]])
    (auto dest: blocked_run_org)

lemma keeps_manage_ops:
  assumes "own oc" and "is_manager (mb_roleKey (oc_membership oc))"
  shows "role \<noteq> RoleOwner \<Longrightarrow> keeps (at_calls I) (id_do en (\<lambda>clk uid. createInvitation clk uid (oc_organizationId oc) em role us ttl))"
    and "role \<noteq> RoleOwner \<or> mb_roleKey (oc_membership oc) = RoleOwner \<Longrightarrow>
      keeps (at_calls I) (id_do en (\<lambda>clk uid. updateMembershipRole (oc_organizationId oc) mem role))"
    and "keeps (at_calls I) (id_do en (\<lambda>clk uid. updateOrganizationSettings (oc_organizationId oc) v))"
  by (rule keeps_id_do, simp add: invite set_role settings assms)+

lemma guard_toolset:
  assumes "validateMcpPlaceholderPolicy ms \<Longrightarrow> validateAgentSkillBundles ks \<Longrightarrow> keeps (at_calls I) m"
  shows "keeps (at_calls I) (h_then (checkToolset ms ks) m)"
proof (cases "validateMcpPlaceholderPolicy ms \<and> validateAgentSkillBundles ks")
  case True
  then show ?thesis using assms by (auto simp: checkToolset_def check_def h_then_def keeps_def h_bind_def h_return_def)
next
  case False
  then show ?thesis by (auto simp: checkToolset_def check_def h_then_def keeps_def h_bind_def h_return_def h_throw_def)
qed

lemma keeps_toolset_ops:
  "validateMcpPlaceholderPolicy ms \<Longrightarrow> validateAgentSkillBundles ks \<Longrightarrow>
    keeps (at_calls I) (tools_do en (\<lambda>clk uid. createAgentToolset clk uid org a n d v (Some (JArr ms)) (Some (JArr ks))))"
  "validateMcpPlaceholderPolicy ms \<Longrightarrow> validateAgentSkillBundles ks \<Longrightarrow>
    keeps (at_calls I) (tools_do en (\<lambda>clk uid. updateAgentToolset clk org a i n d v (Some (JArr ms)) (Some (JArr ks))))"
  "keeps (at_calls I) (tools_do en (\<lambda>clk uid. deleteAgentToolset org i))"
  "keeps (at_calls I) (tools_do en (\<lambda>clk uid. publishAgentToolset clk org a i slug))"
  "keeps (at_calls I) (tools_do en (\<lambda>clk uid. unpublishAgentToolset clk org a i v))"
  "keeps (at_calls I) (tools_do en (\<lambda>clk uid. adoptPublicToolset clk uid org a slug nm ds))"
  by (rule keeps_tools_do, rule tool_ops, assumption+)+

lemma keeps_accounts: "keeps (at_calls I) (accountOf en oc i)" "keeps (at_calls I) (toolsetOf en oc i)"
  unfolding accountOf_def toolsetOf_def by ((rule helper_rules keeps_intros)+)

lemma keeps_delivered: "keeps (at_calls I) (delivered r)"
  by (auto simp: delivered_def intro!: keeps_intros keeps_need split: send_reply.split)

lemma keeps_builder_ops:
  "keeps (at_calls I) (tools_do en (\<lambda>clk uid. createToolsetBuilderSession clk uid org a l i))"
  "keeps (at_calls I) (tools_do en (\<lambda>clk uid. appendToolsetBuilderTurn clk org i' r t))"
  "keeps (at_calls I) (tools_do en (\<lambda>clk uid. updateToolsetBuilderSessionSelection clk org i' l' ks))"
  "keeps (at_calls I) (tools_do en (\<lambda>clk uid. finalizeToolsetBuilderSession clk org i' ks d))"
  by (rule keeps_tools_do, simp add: toolsets_ok_def builder_ops)+

lemma keeps_names: "keeps (at_calls I) (checkServerNames ns seen)"
  by (induction ns arbitrary: seen) (auto intro!: keeps_intros keeps_check)

lemma keeps_keys: "keeps (at_calls I) (normalizeSelectedComponentKeys ks)"
  unfolding normalizeSelectedComponentKeys_def Let_def by ((rule helper_rules keeps_intros)+)

lemma keeps_askModel: "keeps (at_calls I) (askModel en be c v st sy us)"
  by (auto simp: askModel_def intro!: keeps_intros split: sum.split)

lemma keeps_builder_reads:
  "keeps (at_calls I) (orgSettingsOf en oc)" "keeps (at_calls I) (activeSession en oc i)"
  "keeps (at_calls I) (resolveToolsetBuilderSecretValue en be c org st)" "keeps (at_calls I) (readAssistant en ct)"
  "keeps (at_calls I) (appendTurn en oc i r t)"
  unfolding orgSettingsOf_def activeSession_def resolveToolsetBuilderSecretValue_def readAssistant_def appendTurn_def Let_def
  by ((rule keeps_builder_ops keeps_keys helper_rules keeps_intros)+)

lemma keeps_firstAnswer: "keeps (at_calls I) (firstAnswer en be oc c v st i it rk)"
  unfolding firstAnswer_def by (intro keeps_intros keeps_builder_reads keeps_askModel)

lemma keeps_signIn: "keeps (at_calls I) (signInWithProfile en rq pv pf)"
  unfolding signInWithProfile_def
  by (intro keeps_intros helper_rules keeps_session_ops)

lemma keeps_connectors: "keeps (at_calls I) (connectorSecretsOf en org cn)"
    "keeps (at_calls I) (requireOrgAdminMembershipForSecretManagement en org us)" "keeps (at_calls I) (resolveOauthProviderOrThrow p)"
  unfolding connectorSecretsOf_def requireOrgAdminMembershipForSecretManagement_def resolveOauthProviderOrThrow_def
  by ((rule helper_rules keeps_intros)+)

lemma keeps_storeOauthSecret: "keeps (at_calls I) (storeOauthSecret en org us cn nm vl fl)"
  unfolding storeOauthSecret_def
  by (intro keeps_intros helper_rules) (auto split: sum.split intro!: keeps_intros helper_rules keeps_connectors)

lemmas oauth_rules = keeps_signIn keeps_connectors keeps_storeOauthSecret

lemmas builder_rules = keeps_builder_ops keeps_names keeps_keys keeps_askModel keeps_builder_reads keeps_firstAnswer
lemmas run_rules = guard_new_run guard_blocked_run keeps_queueRun keeps_decide keeps_resumeRun keeps_failRejected keeps_small keeps_checkGraph
  keeps_manage_ops guard_toolset keeps_toolset_ops keeps_accounts keeps_delivered builder_rules oauth_rules
lemmas store_rules = keeps_wf_manage [OF ws_safe_ops(1)] keeps_wf_manage [OF ws_safe_ops(2)] keeps_wf_manage [OF ws_safe_ops(3)]
  keeps_wf_manage [OF ws_safe_ops(4)] keeps_wf_manage [OF ws_safe_ops(5)] keeps_wf_manage [OF ws_safe_ops(6)]
  keeps_wf_manage [OF ws_safe_ops(8)] keeps_wf_manage [OF ws_safe_sync] keeps_wf_run [OF ws_safe_ops(11) runs_only_ops(1)]

lemmas route_rules = guards run_rules store_rules helper_rules keeps_intros

lemmas account_defs = postSignup_def postLogin_def postRefresh_def postLogout_def postLogoutAll_def getMe_def
lemmas org_defs = postOrg_def postInvitation_def postMemberRole_def getSettings_def putSettings_def getEntitlements_def getUsage_def
  getOrgTickets_def postOrgTicket_def getOrgTicket_def patchOrgTicket_def
lemmas admin_defs = getPlatformSettings_def putPlatformSetting_def settingValue_def putRiskPolicies_def getAdminSubscription_def
  putAdminSubscription_def getSystemAdmins_def postSystemAdmin_def deleteSystemAdmin_def getAdminTickets_def postAdminTicket_def
  getAdminTicket_def patchAdminTicket_def postTicketEvent_def
lemmas workflow_defs = postWorkflow_def getWorkflows_def getWorkflow_def getRevisions_def putWorkflow_def syncTriggers_def postPublish_def
  postDraft_def postShareInvitation_def getShares_def deleteShare_def getTriggers_def patchTrigger_def
lemmas run_defs = postRun_def getRun_def getRuns_def getRunEvents_def getShareRuns_def getShareRunEvents_def getApprovals_def
  postApprove_def postReject_def
lemmas executor_defs = listExecutorsHandler_def setExecutorLabelsHandler_def createExecutorPairingTokenHandler_def
  revokeExecutorHandler_def deleteExecutorHandler_def getSecrets_def postSecret_def putSecret_def deleteSecret_def
lemmas session_defs = postSession_def postMessage_def postReset_def getSessions_def deleteSession_def postRestore_def getSession_def
  getSessionEvents_def getBindings_def postBinding_def patchBinding_def deleteBinding_def postMemorySync_def getMemorySearch_def
  getMemoryDoc_def deleteLlmSecret_def deleteVertex_def

lemmas channel_defs = getAccounts_def postAccount_def getAccount_def patchAccount_def deleteAccount_def postAccountSecret_def
  getAllowlist_def putAllowlist_def deleteAllowlist_def getStatus_def postAction_def postTestSend_def getPairings_def decidePairing_def
lemmas toolset_defs = getToolsets_def postToolset_def getToolset_def putToolset_def deleteToolset_def postToolsetPublish_def
  postToolsetUnpublish_def getGallery_def getGalleryItem_def postAdopt_def
lemmas builder_defs = postBuilderSession_def postBuilderChat_def postBuilderFinalize_def

lemma account_route_keeps:
  assumes "account_route en rq auth m" and auth: "called_by u auth"
  shows "keeps (at_calls I) m"
  using assms(1)
  by (cases rule: account_route.cases; hypsubst)
    (simp only: ends_def account_defs org_defs admin_defs Let_def; (rule auth route_rules | assumption)+)+

lemma run_route_keeps:
  assumes "run_route en rq auth m" and auth: "called_by u auth"
  shows "keeps (at_calls I) m"
  using assms(1)
  by (cases rule: run_route.cases; hypsubst)
    (simp only: ends_def workflow_defs run_defs Let_def; (rule auth route_rules | assumption)+)+

lemma session_route_keeps:
  assumes "session_route en rq auth m" and auth: "called_by u auth"
  shows "keeps (at_calls I) m"
  using assms(1)
  by (cases rule: session_route.cases; hypsubst)
    (simp only: ends_def executor_defs session_defs Let_def; (rule auth route_rules | assumption)+)+

lemma asset_route_keeps:
  assumes "asset_route en rq auth m" and auth: "called_by u auth"
  shows "keeps (at_calls I) m"
  using assms(1)
  by (cases rule: asset_route.cases; hypsubst)
    (simp only: ends_def channel_defs toolset_defs builder_defs Let_def; (rule auth route_rules | assumption)+)+

lemma member_route_keeps:
  assumes "member_route en rq auth m" and "called_by u auth"
  shows "keeps (at_calls I) m"
  using assms by (cases rule: member_route.cases) (blast intro: account_route_keeps run_route_keeps session_route_keeps asset_route_keeps)+

lemma serve_by:
  assumes "at_calls I w" and "\<And>auth. fst (authenticateRequest en rq w) = Inr auth \<Longrightarrow> keeps (at_calls I) (route auth)"
  shows "at_calls I (snd (serve en rq route w))"
proof -
  obtain r w' where m: "authenticateRequest en rq w = (r, w')" by (cases "authenticateRequest en rq w")
  then have "at_calls I w'" using keepsD [OF keeps_authenticate assms(1)] by blast
  then show ?thesis using assms(2) m by (cases r) (auto simp: serve_def h_bind_def keeps_def)
qed

lemma serve_keeps:
  assumes "at_calls I w" and "speaks_for en rq u w" and "\<And>auth. member_route en rq auth (route auth)"
  shows "at_calls I (snd (serve en rq route w))"
  using assms member_route_keeps by (intro serve_by) (auto simp: speaks_for_def)

end

section \<open>Guests\<close>

context guest_invariant begin

lemma keeps_wf_guest: "ws_safe org (\<lambda>clk uid s. snd (f clk uid s)) \<Longrightarrow> runs_only (\<lambda>clk uid s. snd (f clk uid s)) \<Longrightarrow>
    keeps (at_calls I) (wf_do en f)"
  by (rule keeps_wf_do, rule guest_workflow [where f = "\<lambda>clk uid s. snd (f clk uid s)"])

lemma keeps_guest_queueRun: "keeps (at_calls I) (queueRun en r)"
  by (rule keeps_queueRun_by, rule keeps_wf_guest [OF ws_safe_ops(12) runs_only_ops(2)])

lemma keeps_accept: "keeps (at_calls I) (id_do en (\<lambda>clk uid. acceptInvitation clk uid org tok us em))"
  by (rule keeps_id_do) (rule join)

lemmas guest_rules = guards guard_new_run keeps_guest_queueRun keeps_wf_guest [OF ws_safe_ops(11) runs_only_ops(1)]
  keeps_wf_guest [OF ws_safe_ops(7) runs_only_ops(3)] keeps_accept keeps_small helper_rules keeps_intros

lemma guest_route_keeps:
  assumes "guest_route en rq auth m"
  shows "keeps (at_calls I) m"
  using assms
  by (cases rule: guest_route.cases; hypsubst)
    (simp only: ends_def postInvitationAccept_def postShareAccept_def postShareRun_def postChannelTriggerRun_def pairExecutorHandler_def
      postManagedIssue_def postManagedRevoke_def postWebhook_def requireInternalServiceToken_def Let_def; (rule guest_rules | assumption)+)+

lemma serve_guest_keeps:
  assumes "at_calls I w" and "speaks_for en rq u w"
    and "\<And>auth. member_route en rq auth (route auth) \<or> guest_route en rq auth (route auth)"
  shows "at_calls I (snd (serve en rq route w))"
proof (rule serve_by [OF assms(1)])
  fix auth assume "fst (authenticateRequest en rq w) = Inr auth"
  then have "called_by u auth" using assms(2) by (simp add: speaks_for_def)
  then show "keeps (at_calls I) (route auth)" using assms(3) [of auth] member_route_keeps guest_route_keeps by blast
qed

end

end
