(* ===== verification/ApiTenancy.thy ===== *)
theory ApiTenancy
  imports ApiFrame IdentityProps
begin

text \<open>
  Identifiers and rows under the requests of the API server.  \<open>ready\<close> says that the tables are well
  formed and that no identifier still to be drawn is in use; the locale \<open>row_invariant\<close> asks of a predicate
  of the identity and the workflow store only what the operations do to it, and is an instance of
  \<open>request_invariant\<close>.
\<close>

section \<open>Well-formed tables and fresh identifiers\<close>

definition draws_distinct :: "api_env \<Rightarrow> bool" where
  "draws_distinct en \<longleftrightarrow> (\<forall>k i l j. ae_uuid en k i = ae_uuid en l j \<longrightarrow> k = l \<and> i = j)"

definition id_keys :: "id_store \<Rightarrow> string set" where
  "id_keys s = set (jkeys (id_memberships s)) \<union> set (jkeys (id_sessions s)) \<union> set (jkeys (id_orgs s))
     \<union> set (jkeys (id_invitations s))"

definition id_formed :: "id_store \<Rightarrow> bool" where
  "id_formed s \<longleftrightarrow> wf_map (id_memberships s) \<and> keyed se_id (id_sessions s) \<and> keyed iv_id (id_invitations s)"

definition ready :: "api_env \<Rightarrow> nat \<Rightarrow> api_data \<Rightarrow> bool" where
  "ready en n d \<longleftrightarrow> draws_distinct en \<and> ws_inv (ad_wf d) \<and> id_formed (ad_id d)
     \<and> (\<forall>k \<ge> n. \<forall>i. ae_uuid en k i \<notin> ws_ids (ad_wf d) \<and> ae_uuid en k i \<notin> id_keys (ad_id d))"

definition id_grows :: "uuids \<Rightarrow> id_store \<Rightarrow> id_store \<Rightarrow> bool" where
  "id_grows uid s t \<longleftrightarrow> (id_formed s \<longrightarrow> id_formed t \<and> id_keys t \<subseteq> id_keys s \<union> {uid 0, uid 1})"

lemma ready_later: "ready en n d \<Longrightarrow> ready en (Suc n) d"
  by (simp add: ready_def)

lemma ready_id:
  assumes "ready en n d" and "id_grows (ae_uuid en n) (ad_id d) t"
  shows "ready en (Suc n) (d\<lparr>ad_id := t\<rparr>)"
proof -
  have "ae_uuid en k i \<noteq> ae_uuid en n j" if "Suc n \<le> k" for k i j
    using assms(1) that unfolding ready_def draws_distinct_def by fastforce
  then show ?thesis using assms unfolding ready_def id_grows_def by auto
qed

lemma ready_wf:
  assumes "ready en n d" and "ws_safe org f"
  shows "ready en (Suc n) (d\<lparr>ad_wf := f (ae_clock en n) (ae_uuid en n) (ad_wf d)\<rparr>)"
proof -
  have ok: "ws_ok org {ae_uuid en n 0} (ad_wf d) (f (ae_clock en n) (ae_uuid en n) (ad_wf d))"
    using assms by (simp add: ready_def ws_safe_def)
  have "ae_uuid en k i \<noteq> ae_uuid en n 0" if "Suc n \<le> k" for k i
    using assms(1) that unfolding ready_def draws_distinct_def by fastforce
  then show ?thesis using assms(1) ws_ok_inv [OF ok] ws_ok_ids [OF ok] unfolding ready_def by fastforce
qed

lemma updateFirst_keys: "jkeys (snd (updateFirst P f m)) = jkeys m"
  by (induction P f m rule: updateFirst.induct) (auto simp: jkeys_def case_prod_beta)

lemma revokeAll_keyed: "jkeys (fst (revokeAllLoop u clk n m)) = jkeys m
    \<and> ((\<forall>e \<in> set m. se_id (snd e) = fst e) \<longrightarrow> (\<forall>e \<in> set (fst (revokeAllLoop u clk n m)). se_id (snd e) = fst e))"
  by (induction u clk n m rule: revokeAllLoop.induct) (auto simp: jkeys_def split: prod.splits)

named_theorems grows \<open>operations of the identity store that add rows under drawn identifiers only\<close>

lemma session_formed:
  assumes "id_formed s" and "getSessionById us sid s = Some x" and "se_id y = se_id x"
  shows "id_formed (s\<lparr>id_sessions := jset (se_id x) y (id_sessions s)\<rparr>)
    \<and> id_keys (s\<lparr>id_sessions := jset (se_id x) y (id_sessions s)\<rparr>) = id_keys s"
proof -
  have x: "jget (id_sessions s) sid = Some x" using assms(2) by (auto simp: getSessionById_def dest: scoped_getD)
  then have "se_id x = sid" "sid \<in> set (jkeys (id_sessions s))"
    using assms(1) by (auto simp: id_formed_def dest: keyed_get jget_in_keys)
  then show ?thesis using assms(1,3) by (auto simp: id_formed_def id_keys_def keyed_jset keys_jset)
qed

lemma grows_session_row:
  "getSessionById us sid s = Some x \<Longrightarrow> se_id y = se_id x \<Longrightarrow>
    id_grows uid s (s\<lparr>id_sessions := jset (se_id x) y (id_sessions s)\<rparr>)"
  using session_formed [of s us sid x y] by (auto simp: id_grows_def)

lemma grows_refl [grows]: "id_grows uid s s"
  by (auto simp: id_grows_def)

lemma grows_sessions [grows]:
  "id_grows uid s (snd (rotateSessionRefreshToken clk us sid h e s))"
  "id_grows uid s (touchSession clk us sid s)"
  "id_grows uid s (snd (revokeSession clk us sid s))"
  by (auto simp: rotateSessionRefreshToken_def touchSession_def revokeSession_def Let_def grows_refl
      intro: grows_session_row split: option.split)

lemma grows_revokeAll [grows]: "id_grows uid s (snd (revokeAllSessionsForUser clk us s))"
  using revokeAll_keyed [of us clk 0 "id_sessions s"]
  by (auto simp: id_grows_def id_formed_def id_keys_def revokeAllSessionsForUser_def keyed_def wf_map_def split: prod.split)

lemma grows_rows [grows]:
  "id_grows uid s (snd (createUser clk uid em h nm s))"
  "id_grows uid s (snd (createSession clk uid (Some (uid 0)) us h e ua ip s))"
  "id_grows uid s (snd (createOrganizationWithOwner clk uid nm' slug us s))"
  "id_grows uid s (snd (createInvitation clk uid org em role us ttl s))"
  "id_grows uid s (snd (updateOrganizationSettings org v s))"
  by (auto simp: id_grows_def id_formed_def id_keys_def createUser_def createSession_def createOrganizationWithOwner_def
      createInvitation_def updateOrganizationSettings_def Let_def keyed_jset keys_jset split: if_splits)

lemma grows_role [grows]: "id_grows uid s (snd (updateMembershipRole org mem role s))"
  using updateFirst_keys [of _ _ "id_memberships s"]
  by (auto simp: id_grows_def id_formed_def id_keys_def updateMembershipRole_def wf_map_def split: prod.split) (metis snd_conv)+

lemma keyed_value: "keyed rid m \<Longrightarrow> x \<in> set (jvalues m) \<Longrightarrow> rid x \<in> set (jkeys m)"
  by (force simp: keyed_def jvalues_def jkeys_def)

lemma grows_accept [grows]: "id_grows uid s (snd (acceptInvitation clk uid org tok us em s))"
proof -
  have "id_formed s \<Longrightarrow> getInvitationByToken org tok s = Some i \<Longrightarrow> iv_id i \<in> set (jkeys (id_invitations s))" for i
    by (auto simp: getInvitationByToken_def id_formed_def find_Some_iff intro!: keyed_value)
  then show ?thesis
    by (auto simp: id_grows_def id_formed_def id_keys_def acceptInvitation_def attachMembership_def Let_def keys_jset keyed_jset
        split: option.split if_splits prod.split)
qed

section \<open>Predicates of rows\<close>

definition id_rows :: "id_store \<Rightarrow> org_rec table \<times> json table \<times> membership table \<times> invitation table" where
  "id_rows s = (id_orgs s, id_orgSettings s, id_memberships s, id_invitations s)"

lemma id_rows_frame:
  "id_rows (snd (createUser clk uid em h nm s)) = id_rows s"
  "id_rows (snd (createSession clk uid sid us h e ua ip s)) = id_rows s"
  "id_rows (snd (rotateSessionRefreshToken clk us k h e s)) = id_rows s"
  "id_rows (touchSession clk us k s) = id_rows s"
  "id_rows (snd (revokeSession clk us k s)) = id_rows s"
  "id_rows (snd (revokeAllSessionsForUser clk us s)) = id_rows s"
  by (simp_all add: id_rows_def createUser_def createSession_def rotateSessionRefreshToken_def touchSession_def
      revokeSession_def revokeAllSessionsForUser_def Let_def split: option.split prod.split)

locale row_invariant =
  fixes en :: api_env and u :: string and own :: "org_ctx \<Rightarrow> bool" and J :: "id_store \<Rightarrow> wf_store \<Rightarrow> bool"
  assumes others: "ready en n d \<Longrightarrow> J (ad_id d) (ad_wf d) \<Longrightarrow>
      ready en n (ae_others en n d) \<and> J (ad_id (ae_others en n d)) (ad_wf (ae_others en n d))"
    and rows: "J s w \<Longrightarrow> id_rows s' = id_rows s \<Longrightarrow> J s' w"
    and row_context: "J s w \<Longrightarrow> getMembership org u s = Some m \<Longrightarrow> own \<lparr>oc_organizationId = org, oc_membership = m\<rparr>"
    and row_org: "J s w \<Longrightarrow> uid 0 \<notin> id_keys s \<Longrightarrow> uid 1 \<notin> id_keys s \<Longrightarrow>
      J (snd (createOrganizationWithOwner clk uid nm slug us s)) w"
    and row_invite: "own oc \<Longrightarrow> role \<noteq> RoleOwner \<Longrightarrow> J s w \<Longrightarrow> uid 0 \<notin> id_keys s \<Longrightarrow>
      is_manager (mb_roleKey (oc_membership oc)) \<Longrightarrow>
      J (snd (createInvitation clk uid (oc_organizationId oc) em role us ttl s)) w"
    and row_role: "own oc \<Longrightarrow> role \<noteq> RoleOwner \<or> mb_roleKey (oc_membership oc) = RoleOwner \<Longrightarrow> J s w \<Longrightarrow>
      is_manager (mb_roleKey (oc_membership oc)) \<Longrightarrow> J (snd (updateMembershipRole (oc_organizationId oc) mem role s)) w"
    and row_settings: "own oc \<Longrightarrow> is_manager (mb_roleKey (oc_membership oc)) \<Longrightarrow> J s w \<Longrightarrow>
      J (snd (updateOrganizationSettings (oc_organizationId oc) v s)) w"
    and row_workflow: "own oc \<Longrightarrow> ws_ok (oc_organizationId oc) X w w' \<Longrightarrow>
      is_manager (mb_roleKey (oc_membership oc)) \<or> admin_tables w' = admin_tables w \<Longrightarrow> J s w \<Longrightarrow> J s w'"

locale guest_row_invariant = row_invariant +
  assumes row_join: "J s w \<Longrightarrow> id_formed s \<Longrightarrow> uid 0 \<notin> id_keys s \<Longrightarrow> J (snd (acceptInvitation clk uid org tok us em s)) w"
    and row_guest: "ws_ok org X w w' \<Longrightarrow> admin_tables w' = admin_tables w \<Longrightarrow> J s w \<Longrightarrow> J s w'"

lemma ready_fresh: "ready en n d \<Longrightarrow> ae_uuid en n i \<notin> id_keys (ad_id d)"
  by (simp add: ready_def)

lemma ready_formed: "ready en n d \<Longrightarrow> id_formed (ad_id d)"
  by (simp add: ready_def)

lemma ready_ws_ok: "ready en n d \<Longrightarrow> ws_safe org f \<Longrightarrow>
    ws_ok org {ae_uuid en n 0} (ad_wf d) (f (ae_clock en n) (ae_uuid en n) (ad_wf d))"
  by (simp add: ready_def ws_safe_def)

lemma ready_parts: "ready en n (d\<lparr>ad_pf := a\<rparr>) = ready en n d" "ready en n (d\<lparr>ad_ex := b\<rparr>) = ready en n d"
  "ready en n (d\<lparr>ad_sec := c\<rparr>) = ready en n d" "ready en n (d\<lparr>ad_ss := e\<rparr>) = ready en n d"
  "ready en n (d\<lparr>ad_posts := f\<rparr>) = ready en n d" "ready en n (d\<lparr>ad_ch := i\<rparr>) = ready en n d"
  "ready en n (d\<lparr>ad_ts := j\<rparr>) = ready en n d" "ready en n (d\<lparr>ad_queue := g\<rparr>) = ready en n d"
  "ready (en\<lparr>ae_others := h\<rparr>) n d = ready en n d"
  by (simp_all add: ready_def draws_distinct_def)

sublocale row_invariant \<subseteq> request_invariant en u own "\<lambda>n d. ready en n d \<and> J (ad_id d) (ad_wf d)"
proof (unfold_locales, goal_cases)
  case (1 n d)
  then show ?case using others by blast
next
  case (3 n d org m)
  then show ?case using row_context by blast
next
  case (19 oc role n d em us ttl)
  then show ?case using row_invite [of oc role "ad_id d" "ad_wf d"] by (simp add: ready_id [OF _ grows_rows(4)] ready_fresh)
next
  case (20 oc role n d mem)
  then show ?case using row_role [of oc role "ad_id d" "ad_wf d"] by (simp add: ready_id [OF _ grows_role])
next
  case (21 oc n d v)
  then show ?case using row_settings [of oc "ad_id d" "ad_wf d"] by (simp add: ready_id [OF _ grows_rows(5)])
next
  case (22 oc f n d)
  then have "ws_ok (oc_organizationId oc) {ae_uuid en n 0} (ad_wf d) (f (ae_clock en n) (ae_uuid en n) (ad_wf d))"
    by (blast intro: ready_ws_ok)
  then show ?case using 22 row_workflow [of oc] by (auto simp: runs_only_def intro!: ready_wf)
qed (auto simp: ready_later ready_parts row_org ready_fresh ready_id grows intro: rows [OF _ id_rows_frame(1)]
    rows [OF _ id_rows_frame(2)] rows [OF _ id_rows_frame(3)] rows [OF _ id_rows_frame(4)] rows [OF _ id_rows_frame(5)]
    rows [OF _ id_rows_frame(6)])

sublocale guest_row_invariant \<subseteq> guest_invariant en u own "\<lambda>n d. ready en n d \<and> J (ad_id d) (ad_wf d)"
proof (unfold_locales, goal_cases)
  case (1 n d org tok us em)
  then have "J (snd (acceptInvitation (ae_clock en n) (ae_uuid en n) org tok us em (ad_id d))) (ad_wf d)"
    by (auto intro!: row_join simp: ready_fresh intro: ready_formed)
  then show ?case using 1 by (simp add: ready_id [OF _ grows_accept])
next
  case (2 org f n d)
  then show ?case using row_guest [OF ready_ws_ok] by (auto simp: runs_only_def intro!: ready_wf)
qed

section \<open>Requests over rows\<close>

definition holds :: "api_env \<Rightarrow> (id_store \<Rightarrow> wf_store \<Rightarrow> bool) \<Rightarrow> nat \<Rightarrow> api_data \<Rightarrow> bool" where
  "holds en J n d \<longleftrightarrow> ready en n d \<and> J (ad_id d) (ad_wf d)"

definition others_keep :: "api_env \<Rightarrow> (id_store \<Rightarrow> wf_store \<Rightarrow> bool) \<Rightarrow> bool" where
  \<comment> \<open>what else happens meanwhile keeps the tables well formed, and the predicate\<close>
  "others_keep en J \<longleftrightarrow> (\<forall>n d. holds en J n d \<longrightarrow> holds en J n (ae_others en n d))"

definition confined_api :: "api_env \<Rightarrow> (id_store \<Rightarrow> wf_store \<Rightarrow> bool) \<Rightarrow> api_env" where
  "confined_api en J = en\<lparr>ae_others := (\<lambda>n d. if holds en J n (ae_others en n d) then ae_others en n d else d)\<rparr>"

lemma others_keep_confined: "others_keep (confined_api en J) J"
  by (auto simp: others_keep_def holds_def confined_api_def ready_parts)

lemma others_keepD: "others_keep en J \<Longrightarrow> ready en n d \<Longrightarrow> J (ad_id d) (ad_wf d) \<Longrightarrow>
    ready en n (ae_others en n d) \<and> J (ad_id (ae_others en n d)) (ad_wf (ae_others en n d))"
  by (simp add: others_keep_def holds_def)

context row_invariant begin

lemma serve_rows:
  assumes "at_calls (holds en J) w" and "speaks_for en rq u w" and "\<And>auth. member_route en rq auth (route auth)"
  shows "at_calls (holds en J) (snd (serve en rq route w))"
  using serve_keeps [of w rq route] assms by (simp add: at_calls_def holds_def)

end

context guest_row_invariant begin

lemma serve_guest_rows:
  assumes "at_calls (holds en J) w" and "speaks_for en rq u w"
    and "\<And>auth. member_route en rq auth (route auth) \<or> guest_route en rq auth (route auth)"
  shows "at_calls (holds en J) (snd (serve en rq route w))"
  using serve_guest_keeps [of w rq route] assms by (simp add: at_calls_def holds_def)

end

end
