(* ===== verification/ApiAuthority.thy ===== *)
theory ApiAuthority
  imports ApiTenancy
begin

text \<open>
  Who may change what through the API server: three instances of \<open>row_invariant\<close>.  Somebody who does not
  belong to an organization changes none of its rows; a member who is neither owner nor admin changes
  neither its workflows, trigger subscriptions and approval requests nor its settings; and nobody but an
  owner makes an owner.
\<close>

section \<open>The members of an organization\<close>

definition members :: "string \<Rightarrow> id_store \<Rightarrow> membership list" where
  "members org s = filter (\<lambda>m. mb_organizationId m = org) (jvalues (id_memberships s))"

definition owners :: "string \<Rightarrow> id_store \<Rightarrow> string set" where
  "owners org s = {mb_userId m | m. m \<in> set (members org s) \<and> mb_roleKey m = RoleOwner}"

definition invited :: "string \<Rightarrow> id_store \<Rightarrow> invitation list" where
  "invited org s = filter (\<lambda>i. iv_organizationId i = org) (jvalues (id_invitations s))"

lemma getMembership_members: "getMembership org u s = find (\<lambda>m. mb_userId m = u) (members org s)"
  by (simp add: members_def find_filter_conj getMembership_def)

lemma key_fresh:
  assumes "k \<notin> id_keys s"
  shows "k \<notin> set (jkeys (id_memberships s))" "k \<notin> set (jkeys (id_orgs s))" "k \<notin> set (jkeys (id_invitations s))"
  using assms by (simp_all add: id_keys_def)

lemma org_fresh: "k \<notin> id_keys s \<Longrightarrow> jhas (id_orgs s) org \<Longrightarrow> k \<noteq> org"
  by (auto simp: id_keys_def jhas_def dest: jget_in_keys)

lemma createOrg_rows:
  assumes "jhas (id_orgs s) org" and "uid 0 \<notin> id_keys s" and "uid 1 \<notin> id_keys s"
  shows "members org (snd (createOrganizationWithOwner clk uid nm slug us s)) = members org s"
    and "invited org (snd (createOrganizationWithOwner clk uid nm slug us s)) = invited org s"
    and "jget (id_orgs (snd (createOrganizationWithOwner clk uid nm slug us s))) org = jget (id_orgs s) org"
    and "jget (id_orgSettings (snd (createOrganizationWithOwner clk uid nm slug us s))) org = jget (id_orgSettings s) org"
  using org_fresh [OF assms(2,1)] key_fresh [OF assms(3)]
  by (simp_all add: createOrganizationWithOwner_def members_def invited_def Let_def jvalues_jset_fresh jget_jset)

lemma invite_rows:
  assumes "uid 0 \<notin> id_keys s"
  shows "members org (snd (createInvitation clk uid o' em role us ttl s)) = members org s"
    and "id_orgs (snd (createInvitation clk uid o' em role us ttl s)) = id_orgs s"
    and "id_orgSettings (snd (createInvitation clk uid o' em role us ttl s)) = id_orgSettings s"
    and "o' \<noteq> org \<Longrightarrow> invited org (snd (createInvitation clk uid o' em role us ttl s)) = invited org s"
    and "i \<in> set (invited org (snd (createInvitation clk uid o' em role us ttl s))) \<Longrightarrow> i \<in> set (invited org s) \<or> iv_roleKey i = role"
  using key_fresh [OF assms] by (auto simp: createInvitation_def members_def invited_def Let_def jvalues_jset_fresh split: if_splits)

lemma updateFirst_others:
  assumes "\<And>x. P x \<Longrightarrow> \<not> Q x \<and> \<not> Q (f x)"
  shows "filter Q (jvalues (snd (updateFirst P f m))) = filter Q (jvalues m)"
  using assms by (induction P f m rule: updateFirst.induct) (auto simp: jvalues_def split: prod.splits)

lemma role_rows:
  "id_orgs (snd (updateMembershipRole o' mem role s)) = id_orgs s"
  "id_orgSettings (snd (updateMembershipRole o' mem role s)) = id_orgSettings s"
  "invited org (snd (updateMembershipRole o' mem role s)) = invited org s"
  "o' \<noteq> org \<Longrightarrow> members org (snd (updateMembershipRole o' mem role s)) = members org s"
  using updateFirst_others [of "\<lambda>m. mb_organizationId m = o' \<and> mb_userId m = mem" "\<lambda>m. mb_organizationId m = org"
      "\<lambda>m. m\<lparr>mb_roleKey := role\<rparr>" "id_memberships s"]
  by (auto simp: updateMembershipRole_def members_def invited_def split: prod.split)

lemma updateFirst_cases:
  "x \<in> set (jvalues (snd (updateFirst P f m))) \<Longrightarrow> x \<in> set (jvalues m) \<or> (\<exists>y \<in> set (jvalues m). x = f y)"
proof (induction P f m rule: updateFirst.induct)
  case (2 P f k r m)
  obtain y m' where rest: "updateFirst P f m = (y, m')" by (cases "updateFirst P f m")
  with 2 show ?case by (cases "P r") (auto simp: jvalues_def)
qed (simp add: jvalues_def)

lemma owners_role:
  assumes "role \<noteq> RoleOwner"
  shows "owners org (snd (updateMembershipRole o' mem role s)) \<subseteq> owners org s"
proof
  fix u assume "u \<in> owners org (snd (updateMembershipRole o' mem role s))"
  then obtain m where m: "mb_userId m = u" "mb_roleKey m = RoleOwner" "mb_organizationId m = org"
      "m \<in> set (jvalues (snd (updateFirst (\<lambda>m. mb_organizationId m = o' \<and> mb_userId m = mem) (\<lambda>m. m\<lparr>mb_roleKey := role\<rparr>)
        (id_memberships s))))"
    by (auto simp: owners_def members_def updateMembershipRole_def split: prod.splits)
  from updateFirst_cases [OF m(4)] show "u \<in> owners org s" using m assms by (auto simp: owners_def members_def)
qed

lemma settings_rows:
  "id_orgs (snd (updateOrganizationSettings o' v s)) = id_orgs s"
  "members org (snd (updateOrganizationSettings o' v s)) = members org s"
  "invited org (snd (updateOrganizationSettings o' v s)) = invited org s"
  "o' \<noteq> org \<Longrightarrow> jget (id_orgSettings (snd (updateOrganizationSettings o' v s))) org = jget (id_orgSettings s) org"
  by (simp_all add: updateOrganizationSettings_def members_def invited_def jget_jset)


lemma id_rows_members:
  assumes "id_rows s' = id_rows s"
  shows "members org s' = members org s" "invited org s' = invited org s" "id_orgs s' = id_orgs s" "id_orgSettings s' = id_orgSettings s"
  using assms by (simp_all add: id_rows_def members_def invited_def)

lemma find_later: "find P xs = Some x \<Longrightarrow> find P (xs @ ys) = Some x"
  by (induction xs) auto

lemma accept_rows:
  assumes "id_formed s" and "uid 0 \<notin> id_keys s"
  shows "id_orgs (snd (acceptInvitation clk uid o' tok us em s)) = id_orgs s"
    and "id_orgSettings (snd (acceptInvitation clk uid o' tok us em s)) = id_orgSettings s"
    and "getMembership org u s = Some m \<Longrightarrow> getMembership org u (snd (acceptInvitation clk uid o' tok us em s)) = Some m"
  using key_fresh(1) [OF assms(2)]
  by (auto simp: acceptInvitation_def attachMembership_def Let_def getMembership_def jvalues_jset_fresh find_later
      split: option.split if_splits prod.split)

section \<open>Outsiders\<close>

type_synonym org_view = "org_rec option \<times> json option \<times> membership list \<times> invitation list \<times> wf_store"

definition org_view :: "string \<Rightarrow> id_store \<Rightarrow> wf_store \<Rightarrow> org_view" where
  \<comment> \<open>the organization, its settings, members, invitations, and everything of its workflows\<close>
  "org_view org s w = (jget (id_orgs s) org, jget (id_orgSettings s) org, members org s, invited org s, ws_restr org w)"

definition outside :: "string \<Rightarrow> string \<Rightarrow> org_view \<Rightarrow> id_store \<Rightarrow> wf_store \<Rightarrow> bool" where
  \<comment> \<open>the user does not belong to the organization, whose rows are these\<close>
  "outside org u V s w \<longleftrightarrow> jhas (id_orgs s) org \<and> getMembership org u s = None \<and> org_view org s w = V"

lemma outside_contract:
  assumes "others_keep en (outside org u V)"
  shows "row_invariant en u (\<lambda>oc. oc_organizationId oc \<noteq> org) (outside org u V)"
proof (unfold_locales, goal_cases)
  case (1 n d)
  then show ?case by (rule others_keepD [OF assms])
next
  case (2 s w s')
  then show ?case by (simp add: outside_def org_view_def getMembership_members id_rows_members [OF 2(2)])
next
  case (3 s w org' m)
  then show ?case by (auto simp: outside_def)
next
  case (4 s w uid clk nm slug us)
  then show ?case by (simp add: outside_def org_view_def getMembership_members createOrg_rows jhas_def)
next
  case (5 oc role s w uid clk em us ttl)
  then show ?case by (simp add: outside_def org_view_def getMembership_members invite_rows)
next
  case (6 oc role s w mem)
  then show ?case by (simp add: outside_def org_view_def getMembership_members role_rows)
next
  case (7 oc s w v)
  then show ?case by (simp add: outside_def org_view_def getMembership_members settings_rows)
next
  case (8 oc X w w' s)
  then show ?case using ws_ok_others by (simp add: outside_def org_view_def)
qed

interpretation outsider: row_invariant "confined_api en (outside org u V)" u "\<lambda>oc. oc_organizationId oc \<noteq> org" "outside org u V"
  by (rule outside_contract [OF others_keep_confined])

section \<open>Members without a role\<close>

definition admin_rows :: "string \<Rightarrow> wf_store \<Rightarrow> workflow_rec table \<times> trigger_sub table \<times> approval_req table" where
  "admin_rows org w = (ws_workflows (ws_restr org w), ws_subs (ws_restr org w), ws_approvals (ws_restr org w))"

type_synonym admin_view = "json option \<times> workflow_rec table \<times> trigger_sub table \<times> approval_req table"

definition underling :: "string \<Rightarrow> string \<Rightarrow> admin_view \<Rightarrow> id_store \<Rightarrow> wf_store \<Rightarrow> bool" where
  \<comment> \<open>the user is a mere member of the organization, whose settings, workflows, subscriptions and approvals are these\<close>
  "underling org u V s w \<longleftrightarrow> jhas (id_orgs s) org \<and> (jget (id_orgSettings s) org, admin_rows org w) = V
     \<and> (\<exists>m. getMembership org u s = Some m \<and> \<not> is_manager (mb_roleKey m))"

lemma admin_rows_cong: "admin_tables w' = admin_tables w \<Longrightarrow> admin_rows org w' = admin_rows org w"
  by (simp add: admin_rows_def admin_tables_def ws_restr_def)

lemma admin_rows_others: "ws_ok o' X w w' \<Longrightarrow> o' \<noteq> org \<Longrightarrow> admin_rows org w' = admin_rows org w"
  by (simp add: admin_rows_def ws_ok_others)

lemma underling_contract:
  assumes "others_keep en (underling org u V)"
  shows "guest_row_invariant en u (\<lambda>oc. oc_organizationId oc = org \<longrightarrow> \<not> is_manager (mb_roleKey (oc_membership oc))) (underling org u V)"
proof (unfold_locales, goal_cases)
  case (1 n d)
  then show ?case by (rule others_keepD [OF assms])
next
  case (8 oc X w w' s)
  then show ?case using admin_rows_cong [of w' w org] admin_rows_others [of "oc_organizationId oc" X w w' org]
    by (auto simp: underling_def)
next
  case (9 s w uid clk org' tok us em)
  then show ?case using accept_rows [of s uid] by (auto simp: underling_def jhas_def)
next
  case (10 org' X w w' s)
  then show ?case using admin_rows_cong [of w' w org] by (auto simp: underling_def)
next
  case (2 s w s')
  then show ?case by (simp add: underling_def getMembership_members id_rows_members [OF 2(2)])
next
  case (3 s w org' m)
  then show ?case by (auto simp: underling_def)
next
  case (4 s w uid clk nm slug us)
  then show ?case by (simp add: underling_def getMembership_members createOrg_rows jhas_def)
next
  case (5 oc role s w uid clk em us ttl)
  then show ?case by (simp add: underling_def getMembership_members invite_rows)
next
  case (6 oc role s w mem)
  then have "oc_organizationId oc \<noteq> org" by blast
  with 6 show ?case by (simp add: underling_def getMembership_members role_rows)
next
  case (7 oc s w v)
  then have "oc_organizationId oc \<noteq> org" by blast
  with 7 show ?case by (simp add: underling_def getMembership_members settings_rows)
qed

interpretation underling: guest_row_invariant "confined_api en (underling org u V)" u
    "\<lambda>oc. oc_organizationId oc = org \<longrightarrow> \<not> is_manager (mb_roleKey (oc_membership oc))" "underling org u V"
  by (rule underling_contract [OF others_keep_confined])

section \<open>Owners\<close>

definition few_owners :: "string \<Rightarrow> string \<Rightarrow> string set \<Rightarrow> id_store \<Rightarrow> wf_store \<Rightarrow> bool" where
  \<comment> \<open>the user is not among the owners of the organization, and nobody is invited as one\<close>
  "few_owners org u old s w \<longleftrightarrow> jhas (id_orgs s) org \<and> owners org s \<subseteq> old \<and> u \<notin> old
     \<and> (\<forall>i \<in> set (invited org s). iv_roleKey i \<noteq> RoleOwner)"

lemma owner_member: "getMembership org u s = Some m \<Longrightarrow> mb_roleKey m = RoleOwner \<Longrightarrow> u \<in> owners org s"
  by (auto simp: getMembership_members owners_def find_Some_iff)

lemma accept_owners:
  assumes "id_formed s" and "uid 0 \<notin> id_keys s" and "\<forall>i \<in> set (invited org s). iv_roleKey i \<noteq> RoleOwner"
  shows "owners org (snd (acceptInvitation clk uid o' tok us em s)) \<subseteq> owners org s"
    and "\<forall>i \<in> set (invited org (snd (acceptInvitation clk uid o' tok us em s))). iv_roleKey i \<noteq> RoleOwner"
proof -
  have i: "i \<in> set (jvalues (id_invitations s)) \<and> iv_organizationId i = o'" if "getInvitationByToken o' tok s = Some i" for i
    using that by (auto simp: getInvitationByToken_def find_Some_iff)
  show "owners org (snd (acceptInvitation clk uid o' tok us em s)) \<subseteq> owners org s"
    using key_fresh(1) [OF assms(2)] assms(3)
    by (auto simp: acceptInvitation_def attachMembership_def Let_def owners_def members_def invited_def jvalues_jset_fresh dest!: i
        split: option.splits if_splits prod.splits)
  show "\<forall>i \<in> set (invited org (snd (acceptInvitation clk uid o' tok us em s))). iv_roleKey i \<noteq> RoleOwner"
    using assms(1,3)
    by (auto simp: acceptInvitation_def attachMembership_def Let_def invited_def id_formed_def keyed_def jvalues_def set_jset dest!: i
        split: option.splits if_splits prod.splits)
qed

lemma few_owners_mono:
  assumes "few_owners org u old s w" and "jhas (id_orgs s') org" and "owners org s' \<subseteq> owners org s"
    and "\<forall>i \<in> set (invited org s'). iv_roleKey i \<noteq> RoleOwner"
  shows "few_owners org u old s' w'"
  using assms by (auto simp: few_owners_def)

lemma few_owners_contract:
  assumes "others_keep en (few_owners org u old)"
  shows "guest_row_invariant en u (\<lambda>oc. oc_organizationId oc = org \<longrightarrow> mb_roleKey (oc_membership oc) \<noteq> RoleOwner) (few_owners org u old)"
proof (unfold_locales, goal_cases)
  case (1 n d)
  then show ?case by (rule others_keepD [OF assms])
next
  case (2 s w s')
  then show ?case by (auto simp: few_owners_def owners_def id_rows_members [OF 2(2)])
next
  case (3 s w org' m)
  then show ?case by (auto simp: few_owners_def dest: owner_member)
next
  case (4 s w uid clk nm slug us)
  then show ?case by (simp add: few_owners_def owners_def createOrg_rows jhas_def)
next
  case (5 oc role s w uid clk em us ttl)
  then show ?case by (auto simp: few_owners_def owners_def invite_rows dest: invite_rows(5))
next
  case (6 oc role s w mem)
  show ?case
  proof (cases "role = RoleOwner")
    case True
    with 6 have "oc_organizationId oc \<noteq> org" by blast
    then show ?thesis using 6 by (simp add: few_owners_def owners_def role_rows)
  next
    case False
    with 6 show ?thesis by (intro few_owners_mono [OF 6(3)] owners_role) (auto simp: few_owners_def role_rows)
  qed
next
  case (7 oc s w v)
  then show ?case by (simp add: few_owners_def owners_def settings_rows)
next
  case (8 oc X w w' s)
  then show ?case by (simp add: few_owners_def)
next
  case (9 s w uid clk org' tok us em)
  then show ?case using accept_owners [of s uid org] accept_rows(1) [of s uid]
    by (intro few_owners_mono [OF 9(1)]) (auto simp: few_owners_def)
next
  case (10 org' X w w' s)
  then show ?case by (simp add: few_owners_def)
qed

interpretation few_owners: guest_row_invariant "confined_api en (few_owners org u old)" u
    "\<lambda>oc. oc_organizationId oc = org \<longrightarrow> mb_roleKey (oc_membership oc) \<noteq> RoleOwner" "few_owners org u old"
  by (rule few_owners_contract [OF others_keep_confined])

end
