(* ===== verification/ApiLogout.thy ===== *)
theory ApiLogout
  imports ApiTenancy
begin

text \<open>
  A session that was ended stays ended, whatever requests are served, and no token that names it
  authenticates anybody; and toolsets keep to the policy.  Both are instances of
  \<open>guest_invariant\<close> for every caller.
\<close>

section \<open>Sequences of requests\<close>

definition next_request :: "api \<Rightarrow> api" where
  \<comment> \<open>the reply of the last request is gone\<close>
  "next_request w = w\<lparr>aw_cookie := None, aw_accessToken := None, aw_warnings := []\<rparr>"

inductive served :: "api_env \<Rightarrow> api \<Rightarrow> api \<Rightarrow> bool" for en w where
  served_none: "served en w w"
| served_more: "served en w w' \<Longrightarrow> (\<And>auth. member_route en rq auth (route auth) \<or> guest_route en rq auth (route auth)) \<Longrightarrow>
    served en w (snd (serve en rq route (next_request w')))"

lemma somebody_speaks: "\<exists>u. speaks_for en rq u w"
proof (cases "fst (authenticateRequest en rq w)")
  case (Inr auth)
  then show ?thesis by (cases auth) (auto simp: speaks_for_def called_by_def)
qed (simp add: speaks_for_def)

lemma served_keeps:
  assumes "served en w w'" and "at_calls I w" and "\<And>u. guest_invariant en u (\<lambda>_. True) I"
  shows "at_calls I w'"
  using assms(1)
proof (induction rule: served.induct)
  case served_none
  then show ?case by (rule assms(2))
next
  case (served_more w' rq route)
  obtain u where "speaks_for en rq u (next_request w')" using somebody_speaks by blast
  moreover have "at_calls I (next_request w')" using served_more by (simp add: at_calls_def next_request_def)
  ultimately show ?case using guest_invariant.serve_guest_keeps [OF assms(3)] served_more by blast
qed

section \<open>Ended sessions\<close>

definition ended :: "string \<Rightarrow> id_store \<Rightarrow> bool" where
  "ended sid s \<longleftrightarrow> (\<exists>x. jget (id_sessions s) sid = Some x \<and> se_revokedAt x \<noteq> None)"

lemma ended_row:
  assumes "id_formed s" and "ended sid s" and "getSessionById us k s = Some x" and "se_revokedAt y = se_revokedAt x"
  shows "ended sid (s\<lparr>id_sessions := jset (se_id x) y (id_sessions s)\<rparr>)"
proof -
  have "jget (id_sessions s) k = Some x" using assms(3) by (auto simp: getSessionById_def dest: scoped_getD)
  then show ?thesis using assms keyed_get [of se_id "id_sessions s" k x] by (auto simp: ended_def id_formed_def jget_jset)
qed

lemma revokeAll_ended: "jget m k = Some x \<Longrightarrow> se_revokedAt x \<noteq> None \<Longrightarrow>
    \<exists>y. jget (fst (revokeAllLoop us clk i m)) k = Some y \<and> se_revokedAt y \<noteq> None"
  by (induction us clk i m rule: revokeAllLoop.induct) (auto split: prod.splits if_splits)

lemma ended_ops:
  assumes "id_formed s" and "ended sid s"
  shows "uid 0 \<notin> id_keys s \<Longrightarrow> ended sid (snd (createSession clk uid (Some (uid 0)) us h e ua ip s))"
    and "ended sid (snd (rotateSessionRefreshToken clk us k h e s))"
    and "ended sid (touchSession clk us k s)"
    and "ended sid (snd (revokeSession clk us k s))"
    and "ended sid (snd (revokeAllSessionsForUser clk us s))"
proof -
  show "uid 0 \<notin> id_keys s \<Longrightarrow> ended sid (snd (createSession clk uid (Some (uid 0)) us h e ua ip s))"
    using assms(2) by (auto simp: ended_def createSession_def id_keys_def Let_def jget_jset dest: jget_in_keys)
  show "ended sid (snd (rotateSessionRefreshToken clk us k h e s))" "ended sid (touchSession clk us k s)"
    using assms by (auto simp: rotateSessionRefreshToken_def touchSession_def Let_def intro!: ended_row split: option.split)
  show "ended sid (snd (revokeAllSessionsForUser clk us s))"
    using assms(2) revokeAll_ended [of "id_sessions s" sid _ us clk 0]
    by (auto simp: revokeAllSessionsForUser_def ended_def split: prod.split)
  show "ended sid (snd (revokeSession clk us k s))"
  proof (cases "getSessionById us k s")
    case (Some x)
    then have "jget (id_sessions s) k = Some x" by (auto simp: getSessionById_def dest: scoped_getD)
    moreover from this have "se_id x = k" using assms(1) by (auto simp: id_formed_def dest: keyed_get)
    ultimately show ?thesis using Some assms(2) by (auto simp: revokeSession_def ended_def jget_jset)
  qed (use assms(2) in \<open>simp add: revokeSession_def\<close>)
qed

lemma ended_frame:
  "ended sid s \<Longrightarrow> ended sid (snd (createUser clk uid em h nm s))"
  "ended sid s \<Longrightarrow> ended sid (snd (createOrganizationWithOwner clk uid nm' slug us s))"
  "ended sid s \<Longrightarrow> ended sid (snd (createInvitation clk uid org em role us ttl s))"
  "ended sid s \<Longrightarrow> ended sid (snd (updateMembershipRole org mem role s))"
  "ended sid s \<Longrightarrow> ended sid (snd (updateOrganizationSettings org v s))"
  "ended sid s \<Longrightarrow> ended sid (snd (acceptInvitation clk uid org tok us em s))"
  by (auto simp: ended_def createUser_def createOrganizationWithOwner_def createInvitation_def updateMembershipRole_def
      updateOrganizationSettings_def acceptInvitation_def attachMembership_def Let_def split: option.split prod.split)

definition honest :: "api_env \<Rightarrow> string \<Rightarrow> bool" where
  \<comment> \<open>what happens meanwhile leaves the tables well formed and ended sessions ended\<close>
  "honest en sid \<longleftrightarrow> (\<forall>n d. ready en n d \<longrightarrow> ready en n (ae_others en n d)
     \<and> (ended sid (ad_id d) \<longrightarrow> ended sid (ad_id (ae_others en n d))))"

definition honest_env :: "api_env \<Rightarrow> string \<Rightarrow> api_env" where
  "honest_env en sid = en\<lparr>ae_others := (\<lambda>n d. let d' = ae_others en n d in
     if ready en n d' \<and> (ended sid (ad_id d) \<longrightarrow> ended sid (ad_id d')) then d' else d)\<rparr>"

lemma honest_env: "honest (honest_env en sid) sid"
  by (simp add: honest_def honest_env_def ready_parts Let_def)

lemma ended_contract:
  assumes "honest en sid"
  shows "guest_invariant en u (\<lambda>_. True) (\<lambda>n d. ready en n d \<and> ended sid (ad_id d))"
proof (unfold_locales, goal_cases)
  case (1 n d)
  then show ?case using assms by (simp add: honest_def)
qed (auto simp: ready_later ready_parts ready_id ready_wf grows ready_fresh ended_ops [OF ready_formed] ended_frame)

interpretation ended: guest_invariant "honest_env en sid" u "\<lambda>_. True" "\<lambda>n d. ready (honest_env en sid) n d \<and> ended sid (ad_id d)"
  by (rule ended_contract [OF honest_env])

section \<open>Toolsets\<close>

definition fair_toolsets :: "api_env \<Rightarrow> bool" where
  \<comment> \<open>what happens meanwhile keeps the toolsets within the policy\<close>
  "fair_toolsets en \<longleftrightarrow> (\<forall>n d. toolsets_ok (ad_ts d) \<longrightarrow> toolsets_ok (ad_ts (ae_others en n d)))"

definition fair_env :: "api_env \<Rightarrow> api_env" where
  "fair_env en = en\<lparr>ae_others := (\<lambda>n d. if toolsets_ok (ad_ts (ae_others en n d)) then ae_others en n d else d)\<rparr>"

lemma toolsets_contract: "fair_toolsets en \<Longrightarrow> guest_invariant en u (\<lambda>_. True) (\<lambda>n d. toolsets_ok (ad_ts d))"
  by unfold_locales (auto simp: fair_toolsets_def)

interpretation toolsets: guest_invariant "fair_env en" u "\<lambda>_. True" "\<lambda>n d. toolsets_ok (ad_ts d)"
  by (rule toolsets_contract) (simp add: fair_toolsets_def fair_env_def)

end
