(* ===== verification/ApiProps.thy ===== *)
theory ApiProps
  imports ApiAuthority ApiLogout
begin

text \<open>
  What the requests of the API server may change, with a sample server on which the hypotheses hold.
\<close>

section \<open>A sample\<close>

definition sample_uuid :: "nat \<Rightarrow> uuids" where
  "sample_uuid k i = CHR ''u'' # replicate k (CHR ''a'') @ CHR ''-'' # replicate i (CHR ''b'')"

definition api_auth :: "string \<Rightarrow> auth_env" where
  \<comment> \<open>every token is the named user's\<close>
  "api_auth u = \<lparr>ax_sha256 = id, ax_hmac = (\<lambda>a b. a), ax_parse = (\<lambda>s. Some (JObj [(''userId'', JStr u), (''email'', JStr ''e''),
     (''sessionId'', JStr ''s''), (''tokenType'', JStr ''access''), (''expiresAt'', JNum 1000)])), ax_isUuid = (\<lambda>s. True),
     ax_authSecret = ''a'', ax_refreshSecret = ''r'', ax_cookieName = ''c'', ax_nowMs = 0\<rparr>"

definition api_sample :: "string \<Rightarrow> api_env" where
  "api_sample u = \<lparr>ae_auth = api_auth u, ae_wf = \<lparr>we_lc = str_cmp, we_parse = (\<lambda>_. None), we_sha = id\<rparr>,
     ae_clock = (\<lambda>n k. int n), ae_uuid = sample_uuid, ae_nonce = (\<lambda>n. ''n''), ae_others = (\<lambda>n d. d), ae_accessTtlSec = 900,
     ae_sessionTtlSec = 3600, ae_strict = False, ae_adminEmails = '''', ae_hashPassword = (\<lambda>n p. p), ae_verifyPassword = (\<lambda>p h. p = h),
     ae_serviceToken = ''t'', ae_usageMonth = (\<lambda>n. ''2025-01''), ae_queueUp = (\<lambda>n. True), ae_queueError = '''', ae_b64 = (\<lambda>s. []),
     ae_seal = (\<lambda>k i p. (p, [])), ae_secretsEnv = \<lparr>SECRETS_KEK_ID = None, SECRETS_KEK_BASE64 = None\<rparr>, ae_random = (\<lambda>n k i. 0),
     ae_connectorIds = [], ae_staleMs = 60000, ae_gateway = (\<lambda>n. Some True), ae_toIso = (\<lambda>t. ''''), ae_isUrl = (\<lambda>s. True)\<rparr>"

definition sample_member :: "string \<Rightarrow> string \<Rightarrow> string \<Rightarrow> role_key \<Rightarrow> string \<times> membership" where
  "sample_member i org u r = (i, \<lparr>mb_id = i, mb_organizationId = org, mb_userId = u, mb_roleKey = r, mb_createdAt = 0\<rparr>)"

definition sample_user_row :: "string \<Rightarrow> string \<times> user_rec" where
  "sample_user_row u = (u, \<lparr>us_id = u, us_email = u, us_passwordHash = '''', us_displayName = None, us_createdAt = 0\<rparr>)"

definition api_ids :: "string \<Rightarrow> id_store" where
  \<comment> \<open>an organization with an owner, an admin and a member, and a session of the user\<close>
  "api_ids u = \<lparr>id_users = map sample_user_row [''owner'', ''admin'', ''member'', ''other''], id_usersByEmail = [],
     id_orgs = [(''o'', \<lparr>og_id = ''o'', og_slug = ''o'', og_name = ''o'', og_createdAt = 0\<rparr>)], id_orgSettings = [],
     id_memberships = [sample_member ''m1'' ''o'' ''owner'' RoleOwner, sample_member ''m2'' ''o'' ''admin'' RoleAdmin,
       sample_member ''m3'' ''o'' ''member'' RoleMember],
     id_invitations = [],
     id_sessions = [(''s'', \<lparr>se_id = ''s'', se_userId = u, se_refreshTokenHash = '''', se_expiresAt = 1000000, se_revokedAt = None,
       se_userAgent = None, se_ip = None, se_createdAt = 0, se_lastUsedAt = 0\<rparr>)]\<rparr>"

definition api_start :: "string \<Rightarrow> api" where
  "api_start u = \<lparr>aw_data = \<lparr>ad_id = api_ids u, ad_pf = \<lparr>pf_roles = [], pf_settings = [], pf_subscriptions = [], pf_usage = [],
       pf_tickets = [], pf_ticketEvents = [], pf_auditLogs = []\<rparr>, ad_wf = ws_empty, ad_ex = exec_empty, ad_sec = [],
       ad_ss = ss_empty, ad_ch = chan_empty, ad_ts = tool_empty, ad_posts = [], ad_queue = []\<rparr>,
     aw_calls = 0, aw_cookie = None, aw_accessToken = None, aw_warnings = []\<rparr>"

definition bearer_request :: request where
  "bearer_request = \<lparr>rq_authorization = Some ''Bearer p.p'', rq_cookies = [], rq_orgHeader = None, rq_serviceToken = None,
     rq_userAgent = None, rq_ip = None\<rparr>"

lemma replicate_split: "replicate k x @ y # zs = replicate l x @ y # ws \<Longrightarrow> x \<noteq> y \<Longrightarrow> k = l \<and> zs = ws"
proof (induction k arbitrary: l)
  case 0
  then show ?case by (cases l) auto
next
  case (Suc k)
  then show ?case by (cases l) auto
qed

lemma sample_distinct: "draws_distinct (api_sample u)"
  by (auto simp: draws_distinct_def api_sample_def sample_uuid_def dest!: replicate_split)

lemma sample_ready: "ready (api_sample u) 0 (aw_data (api_start u'))"
  using sample_distinct
  by (auto simp: ready_def api_start_def api_ids_def sample_member_def ws_inv_def ws_empty_def id_formed_def keyed_def wf_map_def
      ws_ids_def id_keys_def jkeys_def api_sample_def sample_uuid_def)

lemma sample_quiet: "others_keep (api_sample u) J"
  by (simp add: others_keep_def api_sample_def)

lemma sample_authenticated:
  "fst (authenticateRequest (api_sample ''owner'') bearer_request (api_start ''owner''))
    = Inr (Some \<lparr>ac_userId = ''owner'', ac_email = ''e'', ac_sessionId = ''s''\<rparr>)"
  "fst (authenticateRequest (api_sample ''admin'') bearer_request (api_start ''admin''))
    = Inr (Some \<lparr>ac_userId = ''admin'', ac_email = ''e'', ac_sessionId = ''s''\<rparr>)"
  "fst (authenticateRequest (api_sample ''member'') bearer_request (api_start ''member''))
    = Inr (Some \<lparr>ac_userId = ''member'', ac_email = ''e'', ac_sessionId = ''s''\<rparr>)"
  "fst (authenticateRequest (api_sample ''other'') bearer_request (api_start ''other''))
    = Inr (Some \<lparr>ac_userId = ''other'', ac_email = ''e'', ac_sessionId = ''s''\<rparr>)"
  by code_simp+

lemma sample_speaks: "u \<in> {''owner'', ''admin'', ''member'', ''other''} \<Longrightarrow> speaks_for (api_sample u) bearer_request u (api_start u)"
  using sample_authenticated by (auto simp: speaks_for_def called_by_def)

section \<open>Who may change what\<close>

text \<open>
  C3. A request of a user who does not belong to an organization leaves everything of that
  organization as it is: its row, settings, members and invitations, its workflows, shares, triggers, runs,
  approvals and events.  This holds for every route that acts for members (in both modes of the
  organization header), while nobody else changes the organization.
\<close>
theorem outsider_changes_nothing:
  assumes "others_keep en (outside org u V)" and "at_calls (holds en (outside org u V)) w"
    and "speaks_for en rq u w" and "\<And>auth. member_route en rq auth (route auth)"
  shows "org_view org (ad_id (aw_data (snd (serve en rq route w)))) (ad_wf (aw_data (snd (serve en rq route w)))) = V"
  using row_invariant.serve_rows [OF outside_contract [OF assms(1)] assms(2-4)]
  by (simp add: at_calls_def holds_def outside_def)

theorem outsider_changes_nothing_witness:
  "org_view ''o'' (ad_id (aw_data (snd (serve (api_sample ''other'') bearer_request
      (\<lambda>auth. ends (postMemberRole (api_sample ''other'') bearer_request auth ''o'' ''other'' (Some RoleAdmin))) (api_start ''other'')))))
     (ad_wf (aw_data (snd (serve (api_sample ''other'') bearer_request
      (\<lambda>auth. ends (postMemberRole (api_sample ''other'') bearer_request auth ''o'' ''other'' (Some RoleAdmin))) (api_start ''other'')))))
   = org_view ''o'' (api_ids ''other'') ws_empty"
proof (rule outsider_changes_nothing [OF sample_quiet _ sample_speaks])
  show "at_calls (holds (api_sample ''other'') (outside ''o'' ''other'' (org_view ''o'' (api_ids ''other'') ws_empty))) (api_start ''other'')"
    using sample_ready [of "''other''" "''other''"]
    by (simp add: at_calls_def holds_def outside_def api_start_def api_ids_def jhas_def getMembership_def sample_member_def)
qed (auto intro: member_route.intros account_route.intros)

text \<open>
  C10. A member of an organization who is neither owner nor admin changes none of its settings,
  workflows, trigger subscriptions and approval requests, by any request, including the ones that need no
  membership (accepting invitations and shares, webhooks, running shared workflows, pairing executors).
\<close>
theorem members_administer_nothing:
  assumes "others_keep en (underling org u V)" and "at_calls (holds en (underling org u V)) w"
    and "speaks_for en rq u w" and "\<And>auth. member_route en rq auth (route auth) \<or> guest_route en rq auth (route auth)"
  shows "(jget (id_orgSettings (ad_id (aw_data (snd (serve en rq route w))))) org,
      admin_rows org (ad_wf (aw_data (snd (serve en rq route w))))) = V"
  using guest_row_invariant.serve_guest_rows [OF underling_contract [OF assms(1)] assms(2-4)]
  by (simp add: at_calls_def holds_def underling_def)

theorem members_administer_nothing_witness:
  "(jget (id_orgSettings (ad_id (aw_data (snd (serve (api_sample ''member'') bearer_request
      (\<lambda>auth. ends (postWorkflow (api_sample ''member'') bearer_request auth ''o'' None)) (api_start ''member'')))))) ''o'',
    admin_rows ''o'' (ad_wf (aw_data (snd (serve (api_sample ''member'') bearer_request
      (\<lambda>auth. ends (postWorkflow (api_sample ''member'') bearer_request auth ''o'' None)) (api_start ''member'')))))) = (None, admin_rows ''o'' ws_empty)"
proof (rule members_administer_nothing [OF sample_quiet _ sample_speaks])
  show "at_calls (holds (api_sample ''member'') (underling ''o'' ''member'' (None, admin_rows ''o'' ws_empty))) (api_start ''member'')"
    using sample_ready [of "''member''" "''member''"]
    by (simp add: at_calls_def holds_def underling_def api_start_def api_ids_def jhas_def getMembership_def sample_member_def is_manager_def)
qed (auto intro: member_route.intros run_route.intros)

text \<open>
  C18. Nobody but an owner makes an owner: requests of a user who is not an owner of an organization,
  admins included, leave no new owner in it, and invite nobody as one, provided nobody was
  invited as one before.
\<close>
theorem only_owners_make_owners:
  assumes "others_keep en (few_owners org u old)" and "at_calls (holds en (few_owners org u old)) w"
    and "speaks_for en rq u w" and "\<And>auth. member_route en rq auth (route auth) \<or> guest_route en rq auth (route auth)"
  shows "owners org (ad_id (aw_data (snd (serve en rq route w)))) \<subseteq> old
    \<and> RoleOwner \<notin> iv_roleKey ` set (invited org (ad_id (aw_data (snd (serve en rq route w)))))"
  using guest_row_invariant.serve_guest_rows [OF few_owners_contract [OF assms(1)] assms(2-4)]
  by (auto simp: at_calls_def holds_def few_owners_def)

theorem only_owners_make_owners_witness:
  "owners ''o'' (ad_id (aw_data (snd (serve (api_sample ''admin'') bearer_request
      (\<lambda>auth. ends (postMemberRole (api_sample ''admin'') bearer_request auth ''o'' ''admin'' (Some RoleOwner))) (api_start ''admin''))))) \<subseteq> {''owner''}
   \<and> RoleOwner \<notin> iv_roleKey ` set (invited ''o'' (ad_id (aw_data (snd (serve (api_sample ''admin'') bearer_request
      (\<lambda>auth. ends (postMemberRole (api_sample ''admin'') bearer_request auth ''o'' ''admin'' (Some RoleOwner))) (api_start ''admin''))))))"
proof (rule only_owners_make_owners [OF sample_quiet _ sample_speaks])
  show "at_calls (holds (api_sample ''admin'') (few_owners ''o'' ''admin'' {''owner''})) (api_start ''admin'')"
    using sample_ready [of "''admin''" "''admin''"]
    by (auto simp: at_calls_def holds_def few_owners_def api_start_def api_ids_def jhas_def owners_def members_def invited_def
        sample_member_def jvalues_def)
qed (auto intro: member_route.intros account_route.intros)

section \<open>Sessions end for good\<close>

definition refused :: "api_env \<Rightarrow> string \<Rightarrow> api \<Rightarrow> bool" where
  \<comment> \<open>no token that verifies and names the session authenticates\<close>
  "refused en sid w \<longleftrightarrow>
     (\<forall>token payload. verifyAuthToken (ax_hmac (ae_auth en)) (ax_parse (ae_auth en)) token (ax_authSecret (ae_auth en))
         (api_now en w div 1000) = Some payload \<longrightarrow> text_prop payload ''sessionId'' = sid \<longrightarrow>
       fst (authenticateFromBearerToken en token w) = Inr None)
     \<and> (\<forall>token payload rot. verifyRefreshToken ((ae_auth en)\<lparr>ax_nowMs := api_now en w\<rparr>) token = Some payload \<longrightarrow>
         text_prop payload ''sessionId'' = sid \<longrightarrow> fst (authenticateFromRefreshCookie en token rot w) = Inr None)"

lemma ended_inactive:
  assumes "ended sid s" and "id_formed s" and "getSessionById us sid s = Some x"
  shows "\<not> isSessionActive t x"
  using assms by (auto simp: ended_def getSessionById_def isSessionActive_def dest: scoped_getD)

lemma ended_refused:
  assumes "honest en sid" and "ready en (aw_calls w) (aw_data w)" and "ended sid (ad_id (aw_data w))"
  shows "refused en sid w"
proof -
  let ?n = "aw_calls w" and ?d = "ae_others en (aw_calls w) (aw_data w)"
  have d: "ready en ?n ?d" "ended sid (ad_id ?d)" using assms by (auto simp: honest_def)
  have inactive: "\<not> isSessionActive t x" if "getSessionById us sid (ad_id ?d) = Some x" for us t x
    using ended_inactive [OF d(2) ready_formed [OF d(1)] that] .
  show ?thesis unfolding refused_def
    by (auto simp: authenticateFromBearerToken_def authenticateFromRefreshCookie_def h_bind_def h_gets_def h_return_def data_get_def
        api_do_def Let_def inactive split: option.split)
qed

text \<open>
  C11. Logging out is final: once the session of a request was ended, no access token and no refresh
  cookie that names it authenticates anybody again, whatever requests anybody makes in between,
  provided drawn identifiers are fresh.
\<close>
theorem logout_is_final:
  assumes "honest en (ac_sessionId a)" and "ready en (aw_calls w) (aw_data w)"
    and "getSessionById (ac_userId a) (ac_sessionId a) (ad_id (ae_others en (aw_calls w) (aw_data w))) = Some x"
    and "served en (snd (postLogout en (Some a) w)) w'"
  shows "refused en (ac_sessionId a) w'"
proof -
  let ?sid = "ac_sessionId a" and ?n = "aw_calls w" and ?d = "ae_others en (aw_calls w) (aw_data w)"
  let ?s = "snd (revokeSession (ae_clock en ?n) (ac_userId a) ?sid (ad_id ?d))"
  have d: "ready en ?n ?d" using assms(1,2) by (simp add: honest_def)
  have row: "jget (id_sessions (ad_id ?d)) ?sid = Some x" using assms(3) by (auto simp: getSessionById_def dest: scoped_getD)
  then have x: "se_id x = ?sid" using ready_formed [OF d] by (auto simp: id_formed_def dest: keyed_get)
  have "ended ?sid ?s" using assms(3) row x by (auto simp: revokeSession_def ended_def jget_jset)
  moreover have "ready en (Suc ?n) (?d\<lparr>ad_id := ?s\<rparr>)" by (rule ready_id [OF d grows_sessions(3)])
  moreover have "aw_data (snd (postLogout en (Some a) w)) = ?d\<lparr>ad_id := ?s\<rparr>" "aw_calls (snd (postLogout en (Some a) w)) = Suc ?n"
    by (simp_all add: postLogout_def requireAuth_def need_def h_bind_def h_then_def h_return_def id_do_def api_do_def Let_def
        clearSessionCookie_def h_modify_def case_prod_beta)
  ultimately have "at_calls (\<lambda>n d. ready en n d \<and> ended ?sid (ad_id d)) (snd (postLogout en (Some a) w))"
    by (simp add: at_calls_def)
  from served_keeps [OF assms(4) this ended_contract [OF assms(1)]]
  show ?thesis by (intro ended_refused [OF assms(1)]) (simp_all add: at_calls_def)
qed

theorem logout_is_final_witness:
  "refused (api_sample ''owner'') ''s'' (snd (postLogout (api_sample ''owner'') (Some \<lparr>ac_userId = ''owner'', ac_email = ''e'', ac_sessionId = ''s''\<rparr>)
     (api_start ''owner'')))"
  using logout_is_final [of "api_sample ''owner''" "\<lparr>ac_userId = ''owner'', ac_email = ''e'', ac_sessionId = ''s''\<rparr>" "api_start ''owner''"
      _ "snd (postLogout (api_sample ''owner'') (Some \<lparr>ac_userId = ''owner'', ac_email = ''e'', ac_sessionId = ''s''\<rparr>) (api_start ''owner''))"]
    sample_ready [of "''owner''" "''owner''"]
  by (simp add: honest_def api_sample_def getSessionById_def scoped_get_def api_start_def api_ids_def served.intros)

section \<open>Toolsets\<close>

text \<open>
  No toolset the API server keeps or shows in the public gallery holds a literal in the
  environment or the headers of an MCP server, or a skill file outside its directory, whatever requests are served.
\<close>
theorem toolsets_hold_placeholders:
  assumes "fair_toolsets en" and "toolsets_ok (ad_ts (aw_data w))" and "served en w w'"
    and "t \<in> set (listPublicToolsetGallery (ad_ts (aw_data w'))) \<union> set (listAgentToolsetsByOrg org (ad_ts (aw_data w')))"
  shows "validateMcpPlaceholderPolicy (to_mcpServers t) \<and> validateAgentSkillBundles (to_agentSkills t)"
proof -
  have "at_calls (\<lambda>n d. toolsets_ok (ad_ts d)) w'"
    using served_keeps [OF assms(3) _ toolsets_contract [OF assms(1)]] assms(2) by (simp add: at_calls_def)
  then show ?thesis using assms(4)
    by (auto simp: at_calls_def toolsets_ok_def policy_ok_def listPublicToolsetGallery_def listAgentToolsetsByOrg_def)
qed

definition placeholder_toolset :: toolset_body where
  "placeholder_toolset = \<lparr>tb_name = ''t'', tb_description = None, tb_visibility = VisOrg,
     tb_mcpServers = [JObj [(''name'', JStr ''m''), (''env'', JObj [(''K'', JStr ''${ENV:K}'')])]], tb_agentSkills = []\<rparr>"

definition toolset_request :: "string \<Rightarrow> auth_ctx option \<Rightarrow> unit api_handler" where
  "toolset_request u auth = ends (postToolset (api_sample u) bearer_request auth ''o'' (Some placeholder_toolset))"

theorem toolsets_hold_placeholders_witness:
  "\<exists>t \<in> set (listAgentToolsetsByOrg ''o'' (ad_ts (aw_data (snd (serve (api_sample ''owner'') bearer_request (toolset_request ''owner'')
      (next_request (api_start ''owner''))))))). to_mcpServers t \<noteq> [] \<and> validateMcpPlaceholderPolicy (to_mcpServers t)"
proof -
  let ?w = "snd (serve (api_sample ''owner'') bearer_request (toolset_request ''owner'') (next_request (api_start ''owner'')))"
  have "list_ex (\<lambda>t. to_mcpServers t \<noteq> []) (listAgentToolsetsByOrg ''o'' (ad_ts (aw_data ?w)))" by code_simp
  then obtain t where t: "t \<in> set (listAgentToolsetsByOrg ''o'' (ad_ts (aw_data ?w)))" "to_mcpServers t \<noteq> []"
    by (auto simp: list_ex_iff)
  have "served (api_sample ''owner'') (api_start ''owner'') ?w"
    by (rule served_more [OF served_none]) (auto simp: toolset_request_def intro: member_route.intros asset_route.intros)
  then have "validateMcpPlaceholderPolicy (to_mcpServers t) \<and> validateAgentSkillBundles (to_agentSkills t)"
    using t(1) by (intro toolsets_hold_placeholders [of "api_sample ''owner''" "api_start ''owner''" ?w t "''o''"])
      (auto simp: fair_toolsets_def api_sample_def api_start_def toolsets_ok_def tool_empty_def)
  then show ?thesis using t by blast
qed

end
