(* ===== verification/ApiRunProps.thy ===== *)
theory ApiRunProps
  imports ApiProps
begin

text \<open>
  Starting runs and resuming them, while nothing else happens: what a request leaves behind when it
  succeeds and when it does not.
\<close>

section \<open>Reading\<close>

definition quiet :: "api_env \<Rightarrow> bool" where
  "quiet en \<longleftrightarrow> (\<forall>n d. ae_others en n d = d)"

definition data_at :: "api_data \<Rightarrow> nat \<Rightarrow> api \<Rightarrow> bool" where
  "data_at d n w \<longleftrightarrow> aw_data w = d \<and> n \<le> aw_calls w"

lemma reads_data_get: "quiet en \<Longrightarrow> keeps (data_at d n) (data_get en f)"
  by (auto simp: keeps_def data_at_def data_get_def api_do_def quiet_def Let_def)

lemma reads_simple: "keeps (data_at d n) (need e v)" "keeps (data_at d n) (check ok e)" "keeps (data_at d n) (warnOrgContext c)"
  "keeps (data_at d n) (requireAuth auth)" "keeps (data_at d n) (requireInternalServiceToken en rq)"
  by (auto simp: keeps_def data_at_def need_def check_def warnOrgContext_def requireAuth_def requireInternalServiceToken_def
      h_return_def h_throw_def h_modify_def split: option.split)

lemma reads_chooseOrg: "keeps (data_at d n) (chooseOrg en rq e)"
  by (auto simp: chooseOrg_def intro!: keeps_intros reads_simple split: sum.splits option.splits)

lemma reads_guards:
  assumes "quiet en"
  shows "keeps (data_at d n) (requireOrgContext en rq auth e)" "keeps (data_at d n) (workflowOf en oc i)"
    "keeps (data_at d n) (getShare en auth i)" "keeps (data_at d n) (pendingApproval en oc i)" "keeps (data_at d n) (requireManager en rq auth org)"
  unfolding requireOrgContext_def workflowOf_def getShare_def pendingApproval_def requireManager_def
  by (intro keeps_intros reads_simple reads_chooseOrg reads_data_get [OF assms])+

section \<open>The quota\<close>

definition runs_this_month :: "api_data \<Rightarrow> string \<Rightarrow> string \<Rightarrow> int" where
  "runs_this_month d org month = (case getOrganizationRunUsageMonthly org month (ad_pf d) of None \<Rightarrow> 0 | Some u \<Rightarrow> ru_runCount u)"

definition within_quota :: "api_env \<Rightarrow> api_data \<Rightarrow> string \<Rightarrow> bool" where
  "within_quota en d org \<longleftrightarrow> (let q = resolveOrganizationRunQuotaSnapshot (getOrganizationSubscription org (ad_pf d)) in
     qo_status q \<noteq> SubCanceled
     \<and> (\<exists>k. \<not> reached (runs_this_month d org (ae_usageMonth en k)) (el_monthly (qo_effective q)))
     \<and> \<not> reached (int (countWorkflowRunsByStatuses org [''queued'', ''running''] (ad_wf d))) (el_inflight (qo_effective q)))"

lemma triple_quota:
  assumes "quiet en"
  shows "triple (data_at d n) (assertOrganizationRunQuota en org) (\<lambda>_ w. data_at d n w \<and> within_quota en d org) (\<lambda>_. data_at d n)"
  using assms
  by (auto simp: triple_def assertOrganizationRunQuota_def getOrganizationRunQuotaSnapshot_def h_bind_def h_then_def h_gets_def
      h_return_def h_throw_def data_get_def api_do_def check_def Let_def quiet_def data_at_def within_quota_def runs_this_month_def)

section \<open>Starting a run\<close>

definition run_started :: "api_env \<Rightarrow> api_data \<Rightarrow> run_rec \<Rightarrow> api_data \<Rightarrow> bool" where
  \<comment> \<open>the run is stored, its job is the last of the queue, and it is counted\<close>
  "run_started en d r d' \<longleftrightarrow> rn_status r = Queued \<and> rn_attemptCount r = 0 \<and> rn_id r \<notin> set (jkeys (ws_runs (ad_wf d)))
     \<and> (\<exists>clk month. d' = d\<lparr>ad_wf := (ad_wf d)\<lparr>ws_runs := ws_runs (ad_wf d) @ [(rn_id r, r)]\<rparr>,
          ad_queue := ad_queue d @ [job_of r],
          ad_pf := snd (incrementOrganizationRunUsageMonthly clk (rn_organizationId r) month (Some 1) (ad_pf d))\<rparr>)"

definition fresh_jobs :: "api_env \<Rightarrow> nat \<Rightarrow> api_data \<Rightarrow> bool" where
  "fresh_jobs en n d \<longleftrightarrow> (\<forall>k \<ge> n. \<forall>i. ae_uuid en k i \<notin> rj_runId ` set (ad_queue d))"

lemma jdel_fresh: "k \<notin> set (jkeys m) \<Longrightarrow> jdel k (m @ [(k, v)]) = m"
  by (induction m) auto

lemma jget_snoc: "k \<notin> set (jkeys m) \<Longrightarrow> jget (m @ [(k, v)]) k = Some v"
  by (induction m) auto

lemma queue_add_fresh:
  assumes "rj_runId j \<notin> rj_runId ` set q"
  shows "queue_add j q = q @ [j]"
proof -
  have "\<not> list_ex (\<lambda>x. rj_runId x = rj_runId j) q" using assms unfolding list_ex_iff by (metis image_eqI)
  then show ?thesis by (simp add: queue_add_def)
qed

lemma queue_add_held: "rj_runId j \<in> rj_runId ` set q \<Longrightarrow> queue_add j q = q"
  by (auto simp: queue_add_def list_ex_iff)

lemma triple_start:
  assumes "quiet en" and "ready en n d" and "fresh_jobs en n d"
  shows "triple (data_at d n)
    (h_bind (mapped run_error (wf_do en (\<lambda>clk uid. createWorkflowRun clk uid org wid tt a inp mx None ta src))) (queueRun en))
    (\<lambda>r w. run_started en d r (aw_data w) \<and> rn_organizationId r = org) (\<lambda>_ w. aw_data w = d)"
  unfolding triple_def
proof (intro allI impI)
  fix w assume w: "data_at d n w"
  let ?k = "aw_calls w"
  have fresh: "ae_uuid en ?k 0 \<notin> set (jkeys (ws_runs (ad_wf d)))" "ae_uuid en ?k 0 \<notin> rj_runId ` set (ad_queue d)"
    using assms(2,3) w by (auto simp: ready_def ws_ids_def fresh_jobs_def data_at_def)
  have quiet: "ae_others en m e = e" for m e using assms(1) by (simp add: quiet_def)
  have d: "aw_data w = d" using w by (simp add: data_at_def)
  show "case h_bind (mapped run_error (wf_do en (\<lambda>clk uid. createWorkflowRun clk uid org wid tt a inp mx None ta src))) (queueRun en) w of
      (Inl e, s') \<Rightarrow> aw_data s' = d | (Inr r, s') \<Rightarrow> run_started en d r (aw_data s') \<and> rn_organizationId r = org"
    using fresh
    by (cases "ae_queueUp en (Suc ?k)")
      (auto simp: mapped_def h_bind_def h_then_def h_return_def h_throw_def h_gets_def wf_do_def pf_do_def api_do_def Let_def quiet d
        createWorkflowRun_def queueRun_def enqueueWorkflowRun_def recordOrganizationRunUsage_def run_started_def job_of_def
        deleteQueuedWorkflowRun_def getWorkflowRunById_def scoped_get_def jset_fresh jdel_fresh jget_snoc queue_add_fresh
        case_prod_beta split: option.split)
qed

lemma reads_bind:
  assumes "keeps (data_at d n) m" and "\<And>x. triple (data_at d n) (f x) Q (\<lambda>_ w. aw_data w = d)"
  shows "triple (data_at d n) (h_bind m f) Q (\<lambda>_ w. aw_data w = d)"
proof (rule triple_bind [OF _ assms(2)])
  show "triple (data_at d n) m (\<lambda>_. data_at d n) (\<lambda>_ w. aw_data w = d)"
    by (rule triple_conseq [OF triple_keeps [THEN iffD2, OF assms(1)]]) (auto simp: data_at_def)
qed

lemma triple_prod: "(\<And>a b. x = (a, b) \<Longrightarrow> triple P (f a b) Q E) \<Longrightarrow> triple P (case x of (a, b) \<Rightarrow> f a b) Q E"
  by (cases x) simp

lemma start_within_quota:
  assumes "quiet en" and "ready en n d" and "fresh_jobs en n d"
  shows "triple (data_at d n)
    (h_bind (assertOrganizationRunQuota en org) (\<lambda>_.
      h_bind (mapped run_error (wf_do en (\<lambda>clk uid. createWorkflowRun clk uid org wid tt a inp mx None ta src))) (queueRun en)))
    (\<lambda>r w. run_started en d r (aw_data w) \<and> within_quota en d (rn_organizationId r)) (\<lambda>_ w. aw_data w = d)"
proof (rule triple_bind)
  show "triple (data_at d n) (assertOrganizationRunQuota en org) (\<lambda>_ w. data_at d n w \<and> within_quota en d org) (\<lambda>_ w. aw_data w = d)"
    by (rule triple_conseq [OF triple_quota [OF assms(1)]]) (auto simp: data_at_def)
  show "triple (\<lambda>w. data_at d n w \<and> within_quota en d org)
      (h_bind (mapped run_error (wf_do en (\<lambda>clk uid. createWorkflowRun clk uid org wid tt a inp mx None ta src))) (queueRun en))
      (\<lambda>r w. run_started en d r (aw_data w) \<and> within_quota en d (rn_organizationId r)) (\<lambda>_ w. aw_data w = d)" for x
  proof (cases "within_quota en d org")
    case True
    then show ?thesis by (intro triple_conseq [OF triple_start [OF assms]]) auto
  qed (simp add: triple_def)
qed

lemmas start_rules = reads_bind reads_simple reads_guards reads_data_get start_within_quota triple_prod

text \<open>
  C13. Starting a run by hand, through a share or for a channel message either fails and leaves
  everything as it was (a run whose job the queue did not take is deleted again), or stores one new
  queued run, puts exactly its job on the queue, counts it for the month, and was within the
  organization's monthly and concurrent limits; while nothing else happens.
\<close>
theorem run_queued_or_undone:
  assumes "quiet en" and "ready en (aw_calls w) (aw_data w)" and "fresh_jobs en (aw_calls w) (aw_data w)"
    and "m \<in> {postRun en rq auth org wid body, postShareRun en auth shareId body, postChannelTriggerRun en rq trigger}"
  shows "case m w of
      (Inl e, w') \<Rightarrow> aw_data w' = aw_data w
    | (Inr r, w') \<Rightarrow> run_started en (aw_data w) r (aw_data w') \<and> within_quota en (aw_data w) (rn_organizationId r)"
proof -
  have "triple (data_at (aw_data w) (aw_calls w)) m
      (\<lambda>r w'. run_started en (aw_data w) r (aw_data w') \<and> within_quota en (aw_data w) (rn_organizationId r)) (\<lambda>_ w'. aw_data w' = aw_data w)"
    using assms(4) unfolding insert_iff empty_iff
    by (elim disjE FalseE; hypsubst; unfold postRun_def postShareRun_def postChannelTriggerRun_def h_then_def; intro start_rules assms(1-3))
  then show ?thesis by (auto simp: triple_def data_at_def split: prod.splits sum.splits)
qed

definition published_workflow :: wf_store where
  "published_workflow = snd (publishWorkflow (\<lambda>k. 0) ''o'' ''w1''
     (snd (createWorkflow (\<lambda>k. 0) (\<lambda>k. ''w1'') ''o'' ''n'' (JObj []) ''owner'' ws_empty)))"

definition run_sample :: api where
  "run_sample = (api_start ''owner'')\<lparr>aw_data := (aw_data (api_start ''owner''))\<lparr>ad_wf := published_workflow\<rparr>\<rparr>"

lemma run_sample_ready: "ready (api_sample ''owner'') 0 (aw_data run_sample)"
proof -
  have "ws_inv published_workflow \<and> ws_ids published_workflow = {''w1''}"
    by (simp add: published_workflow_def publishWorkflow_def createWorkflow_def getWorkflowById_def scoped_get_def ws_empty_def
        ws_inv_def ws_ids_def keyed_def Let_def)
  then show ?thesis using sample_ready [of "''owner''" "''owner''"]
    by (auto simp: ready_def run_sample_def api_sample_def sample_uuid_def)
qed

theorem run_queued_or_undone_witness:
  "case postRun (api_sample ''owner'') bearer_request (Some \<lparr>ac_userId = ''owner'', ac_email = ''e'', ac_sessionId = ''s''\<rparr>)
       ''o'' ''w1'' (Some None) run_sample of
     (Inl e, w') \<Rightarrow> False
   | (Inr r, w') \<Rightarrow> run_started (api_sample ''owner'') (aw_data run_sample) r (aw_data w')"
proof -
  let ?en = "api_sample ''owner''" and ?auth = "Some \<lparr>ac_userId = ''owner'', ac_email = ''e'', ac_sessionId = ''s''\<rparr>"
  let ?m = "postRun ?en bearer_request ?auth ''o'' ''w1'' (Some None)"
  have "quiet ?en" by (simp add: quiet_def api_sample_def)
  moreover have "aw_calls run_sample = 0" "ad_queue (aw_data run_sample) = []" by (simp_all add: run_sample_def api_start_def)
  ultimately have "case ?m run_sample of (Inl e, w') \<Rightarrow> aw_data w' = aw_data run_sample
      | (Inr r, w') \<Rightarrow> run_started ?en (aw_data run_sample) r (aw_data w') \<and> within_quota ?en (aw_data run_sample) (rn_organizationId r)"
    using run_sample_ready by (intro run_queued_or_undone) (auto simp: fresh_jobs_def)
  moreover have "case fst (?m run_sample) of Inl _ \<Rightarrow> False | Inr _ \<Rightarrow> True" by code_simp
  ultimately show ?thesis by (auto split: prod.splits sum.splits)
qed

section \<open>Approving a run\<close>

definition held :: "run_job list \<Rightarrow> api \<Rightarrow> bool" where
  \<comment> \<open>the queue, which holds a job for every run of the store\<close>
  "held q w \<longleftrightarrow> ad_queue (aw_data w) = q \<and> rn_id ` set (jvalues (ws_runs (ad_wf (aw_data w)))) \<subseteq> rj_runId ` set q"

definition queue_is :: "run_job list \<Rightarrow> api \<Rightarrow> bool" where
  "queue_is q w \<longleftrightarrow> ad_queue (aw_data w) = q"

lemma held_read:
  assumes "\<And>d n. keeps (data_at d n) m"
  shows "keeps (held q) m"
proof -
  have "aw_data (snd (m w)) = aw_data w" for w
    using assms [of "aw_data w" "aw_calls w"] by (auto simp: keeps_def data_at_def)
  then show ?thesis by (simp add: keeps_def held_def)
qed

lemma queue_wf_do: "quiet en \<Longrightarrow> keeps (queue_is q) (wf_do en f)"
  by (auto simp: keeps_def queue_is_def wf_do_def api_do_def quiet_def Let_def split: prod.splits)

lemma held_decide: "quiet en \<Longrightarrow> keeps (held q) (decide en a oc i st note)"
  by (auto simp: keeps_def held_def decide_def wf_do_def api_do_def quiet_def Let_def decideWorkflowApprovalRequest_def
      split: prod.splits option.splits)

lemma queue_resumeRun:
  assumes "quiet en" and "rn_id r \<in> rj_runId ` set q"
  shows "keeps (queue_is q) (resumeRun en org r ap)"
proof -
  have "keeps (queue_is q) (enqueueWorkflowRun en r)"
    using assms queue_add_held [of "job_of r" q]
    by (auto simp: keeps_def queue_is_def enqueueWorkflowRun_def api_do_def quiet_def Let_def job_of_def)
  then show ?thesis unfolding resumeRun_def approvalEvent_def
    by (intro keeps_intros queue_wf_do [OF assms(1)])
qed

lemma held_then_queue:
  assumes "keeps (held q) m" and "\<And>x. triple (held q) (f x) (\<lambda>_. queue_is q) (\<lambda>_. queue_is q)"
  shows "triple (held q) (h_bind m f) (\<lambda>_. queue_is q) (\<lambda>_. queue_is q)"
proof (rule triple_bind [OF _ assms(2)])
  show "triple (held q) m (\<lambda>_. held q) (\<lambda>_. queue_is q)"
    by (rule triple_conseq [OF triple_keeps [THEN iffD2, OF assms(1)]]) (auto simp: held_def queue_is_def)
qed

lemma held_find_run:
  assumes "quiet en" and "\<And>run. (\<And>r. run = Some r \<Longrightarrow> rn_id r \<in> rj_runId ` set q) \<Longrightarrow> keeps (queue_is q) (f run)"
  shows "triple (held q) (h_bind (data_get en (\<lambda>d. getWorkflowRunByBlockedRequestId org i (ad_wf d))) f)
    (\<lambda>_. queue_is q) (\<lambda>_. queue_is q)"
proof -
  let ?R = "\<lambda>run w. queue_is q w \<and> (\<forall>r. run = Some r \<longrightarrow> rn_id r \<in> rj_runId ` set q)"
  have "triple (held q) (data_get en (\<lambda>d. getWorkflowRunByBlockedRequestId org i (ad_wf d))) ?R (\<lambda>_. queue_is q)"
    using assms(1)
    by (fastforce simp: triple_def data_get_def api_do_def Let_def quiet_def held_def queue_is_def
        getWorkflowRunByBlockedRequestId_def find_Some_iff)
  moreover have "triple (?R run) (f run) (\<lambda>_. queue_is q) (\<lambda>_. queue_is q)" for run
  proof (cases "\<forall>r. run = Some r \<longrightarrow> rn_id r \<in> rj_runId ` set q")
    case True
    then have "keeps (queue_is q) (f run)" by (intro assms(2)) auto
    then show ?thesis by (intro triple_conseq [OF triple_keeps [THEN iffD2]]) auto
  qed (auto simp: triple_def)
  ultimately show ?thesis by (rule triple_bind)
qed

lemma held_if: "(c \<Longrightarrow> triple P m Q E) \<Longrightarrow> (\<not> c \<Longrightarrow> triple P m' Q E) \<Longrightarrow> triple P (if c then m else m') Q E"
  by simp

lemma held_throw: "triple (held q) (h_throw e) (\<lambda>_. queue_is q) (\<lambda>_. queue_is q)"
  by (simp add: triple_def h_throw_def held_def queue_is_def)

lemmas approve_rules = held_find_run held_then_queue held_if held_throw held_decide triple_prod
lemmas reading_rules = held_read reads_simple reads_guards

text \<open>
  Approving a run whose job the queue still holds does not queue it: the queue ignores a job
  whose id it has, and completed jobs are retained, so the request is answered (as \<open>resumed\<close>, when the
  run waited for it) but the queue stays as it was, and nothing will continue the run.
\<close>
theorem approved_run_not_requeued:
  assumes "quiet en"
    and "rn_id ` set (jvalues (ws_runs (ad_wf (aw_data w)))) \<subseteq> rj_runId ` set (ad_queue (aw_data w))"
  shows "ad_queue (aw_data (snd (postApprove en rq auth org approvalId body w))) = ad_queue (aw_data w)"
proof -
  let ?q = "ad_queue (aw_data w)"
  have gets: "keeps (held q) (h_gets g)" for q and g :: "api \<Rightarrow> timestamp" by (rule keeps_gets)
  have resume: "keeps (queue_is q) (h_bind (case run of None \<Rightarrow> h_return False | Some r \<Rightarrow> resumeRun en o' r ap) (\<lambda>resumed. h_return (ap, resumed)))"
    if "\<And>r. run = Some r \<Longrightarrow> rn_id r \<in> rj_runId ` set q" for q run o' ap
    using that by (intro keeps_intros queue_resumeRun [OF assms(1)]) auto
  have "triple (held ?q) (postApprove en rq auth org approvalId body) (\<lambda>_. queue_is ?q) (\<lambda>_. queue_is ?q)"
    unfolding postApprove_def h_then_def
    by (intro approve_rules reading_rules gets resume assms(1))
  moreover have "held ?q w" using assms(2) by (simp add: held_def)
  ultimately have "case postApprove en rq auth org approvalId body w of (Inl e, w') \<Rightarrow> queue_is ?q w' | (Inr x, w') \<Rightarrow> queue_is ?q w'"
    by (simp add: triple_def)
  then show ?thesis by (simp add: queue_is_def split: prod.splits sum.splits)
qed

definition blocked_run :: run_rec where
  "blocked_run = \<lparr>rn_id = ''r1'', rn_organizationId = ''o'', rn_workflowId = ''w1'', rn_triggerType = RunManual, rn_triggerKey = None,
     rn_triggeredAt = None, rn_triggerSource = None, rn_status = Running, rn_attemptCount = 1, rn_maxAttempts = 3,
     rn_nextAttemptAt = None, rn_requestedByUserId = ''owner'', rn_input = JNull, rn_output = JNull, rn_error = None,
     rn_createdAt = 0, rn_startedAt = Some 0, rn_finishedAt = None, rn_blockedRequestId = Some ''ap'', rn_blockedNodeId = Some ''n'',
     rn_blockedNodeType = None, rn_blockedKind = None, rn_blockedAt = None, rn_blockedTimeoutAt = None\<rparr>"

definition pending_approval :: approval_req where
  "pending_approval = \<lparr>aq_id = ''ap'', aq_organizationId = ''o'', aq_workflowId = ''w1'', aq_runId = ''r1'', aq_nodeId = ''n'',
     aq_nodeType = ''t'', aq_requestKind = ''k'', aq_status = ApPending, aq_reason = None, aq_context = JNull,
     aq_requestedByUserId = ''owner'', aq_decidedByUserId = None, aq_decisionNote = None, aq_expiresAt = 1000, aq_decidedAt = None,
     aq_createdAt = 0, aq_updatedAt = 0\<rparr>"

definition blocked_sample :: api where
  \<comment> \<open>a run that waits for an approval, and the retained job of its first attempt\<close>
  "blocked_sample = (api_start ''owner'')\<lparr>aw_data := (aw_data (api_start ''owner''))\<lparr>ad_wf := ws_empty\<lparr>ws_runs := [(''r1'', blocked_run)],
     ws_approvals := [(''ap'', pending_approval)]\<rparr>, ad_queue := [job_of blocked_run]\<rparr>\<rparr>"

definition approve_sample :: "(approval_req \<times> bool) api_handler" where
  "approve_sample = postApprove (api_sample ''owner'') bearer_request
     (Some \<lparr>ac_userId = ''owner'', ac_email = ''e'', ac_sessionId = ''s''\<rparr>) ''o'' ''ap'' (Some None)"

theorem approved_run_not_requeued_witness:
  "(case fst (approve_sample blocked_sample) of Inl e \<Rightarrow> False | Inr (ap, resumed) \<Rightarrow> resumed)
     \<and> ad_queue (aw_data (snd (approve_sample blocked_sample))) = [job_of blocked_run]"
proof
  show "case fst (approve_sample blocked_sample) of Inl e \<Rightarrow> False | Inr (ap, resumed) \<Rightarrow> resumed" by code_simp
  have "ad_queue (aw_data (snd (approve_sample blocked_sample))) = ad_queue (aw_data blocked_sample)"
    unfolding approve_sample_def
    by (rule approved_run_not_requeued)
      (simp_all add: quiet_def api_sample_def blocked_sample_def job_of_def blocked_run_def)
  then show "ad_queue (aw_data (snd (approve_sample blocked_sample))) = [job_of blocked_run]"
    by (simp add: blocked_sample_def)
qed

end
