(* ===== verification/ApiExecutorProps.thy ===== *)
theory ApiExecutorProps
  imports ApiRunProps
begin

text \<open>
  The tokens the API server hands to executors, and what the edge server of the gateway makes of
  them: both read the same tables.
\<close>

section \<open>The tables\<close>

definition byon_cred :: "org_executor \<times> string \<Rightarrow> executor_cred" where
  "byon_cred e = (case e of (r, h) \<Rightarrow> \<lparr>xd_id = ox_id r, xd_organizationId = Some (ox_organizationId r), xd_tokenHash = h,
     xd_revoked = (ox_revokedAt r \<noteq> None), xd_name = Some (ox_name r), xd_labels = JArr (map JStr (ox_labels r)),
     xd_capabilities = qq (ox_capabilities r) JNull, xd_maxInFlight = None\<rparr>)"

definition managed_cred :: "managed_executor \<times> string \<Rightarrow> executor_cred" where
  "managed_cred e = (case e of (r, h) \<Rightarrow> \<lparr>xd_id = mx_id r, xd_organizationId = None, xd_tokenHash = h,
     xd_revoked = (mx_revokedAt r \<noteq> None), xd_name = Some (mx_name r), xd_labels = JArr (map JStr (mx_labels r)),
     xd_capabilities = qq (mx_capabilities r) JNull, xd_maxInFlight = Some (mx_maxInFlight r)\<rparr>)"

definition exec_tables :: "exec_store \<Rightarrow> auth_tables" where
  "exec_tables s = \<lparr>at_authSessions = [], at_memberships = [], at_managed = map managed_cred (jvalues (xs_managed s)),
     at_executors = map byon_cred (jvalues (xs_executors s))\<rparr>"

definition exec_hashes :: "exec_store \<Rightarrow> string set" where
  "exec_hashes s = snd ` set (jvalues (xs_executors s)) \<union> snd ` set (jvalues (xs_managed s))"

definition plain_ids :: "api_env \<Rightarrow> bool" where
  \<comment> \<open>UUIDs and nonces (base64url) have no dot and no blank\<close>
  "plain_ids en \<longleftrightarrow> (\<forall>s. ax_isUuid (ae_auth en) s \<longrightarrow> s \<noteq> '''' \<and> CHR ''.'' \<notin> set s \<and> CHR '' '' \<notin> set s)
     \<and> (\<forall>n. CHR '' '' \<notin> set (ae_nonce en n))"

lemma find_only:
  "P v \<Longrightarrow> (\<And>x. x \<in> set (jvalues m) \<Longrightarrow> \<not> P x) \<Longrightarrow> find P (jvalues (jset k v m)) = Some v"
  by (induction m) auto

lemma find_none: "(\<And>x. x \<in> set xs \<Longrightarrow> \<not> P x) \<Longrightarrow> find P xs = None"
  by (induction xs) auto

lemma find_map_cred: "find P (map f xs) = map_option f (find (P \<circ> f) xs)"
  by (induction xs) auto

lemma cred_hash [simp]: "xd_tokenHash (byon_cred e) = snd e" "xd_tokenHash (managed_cred e') = snd e'"
  by (simp_all add: byon_cred_def managed_cred_def split: prod.split)

lemma find_managed_none: "h \<notin> exec_hashes s \<Longrightarrow> find (\<lambda>r. xd_tokenHash r = h) (at_managed (exec_tables s)) = None"
  by (force simp: exec_tables_def find_map_cred exec_hashes_def intro!: find_none)

lemma bearer_token:
  assumes "t \<noteq> ''''" and "CHR '' '' \<notin> set t"
  shows "parseBearerToken (Some (''Bearer '' @ t)) = Some t"
proof -
  have "toLowerCase ''Bearer'' = ''bearer''" by code_simp
  then show ?thesis using splitOn_append [of "CHR '' ''" "''Bearer''" t] assms by (simp add: parseBearerToken_def splitOn_no_sep)
qed

lemma uuid_prefix: "CHR ''.'' \<notin> set p \<Longrightarrow> p \<noteq> '''' \<Longrightarrow> parseUuidPrefix isUuid (p @ ''.'' @ n) = (if isUuid p then Some p else None)"
  by (simp add: parseUuidPrefix_def splitOn_append)

section \<open>Pairing\<close>

lemma consume_keeps:
  "consumeExecutorPairingToken clk org h s = (r, s') \<Longrightarrow> xs_executors s' = xs_executors s \<and> xs_managed s' = xs_managed s"
  by (auto simp: consumeExecutorPairingToken_def split: prod.splits)

lemma pair_result:
  assumes "quiet en" and "pairExecutorHandler en body w = (Inr y, w')"
  shows "ax_isUuid (ae_auth en) (py_organizationId y)
    \<and> (\<exists>k. py_executorToken y = py_organizationId y @ ''.'' @ ae_nonce en k)
    \<and> xs_managed (ad_ex (aw_data w')) = xs_managed (ad_ex (aw_data w))
    \<and> (\<exists>r. xs_executors (ad_ex (aw_data w')) = jset (py_executorId y) (r, ax_sha256 (ae_auth en) (py_executorToken y)) (xs_executors (ad_ex (aw_data w)))
      \<and> ox_id r = py_executorId y \<and> ox_organizationId r = py_organizationId y \<and> ox_revokedAt r = None)"
  using assms(2)
  by (auto simp: pairExecutorHandler_def h_bind_def h_then_def h_gets_def h_return_def h_throw_def need_def check_def data_get_def ex_do_def
      api_do_def Let_def assms(1) [unfolded quiet_def, rule_format] parsePairingTokenOrganizationId_def createOrganizationExecutor_def
      dest!: consume_keeps split: option.splits if_splits prod.splits list.splits)
    ((intro exI conjI, rule refl, simp, simp, simp) | (rule exI, rule refl))+

text \<open>
  An executor that was paired connects: the edge server accepts the token that the pairing
  request returned, as this executor of this organization, until the executor is revoked, after
  which it refuses it; provided no other executor has a token with the same hash.
\<close>
theorem paired_executor_connects:
  assumes "quiet en" and "plain_ids en" and "pairExecutorHandler en body w = (Inr y, w')"
    and "ax_sha256 (ae_auth en) (py_executorToken y) \<notin> exec_hashes (ad_ex (aw_data w))"
  defines "connect \<equiv> \<lambda>s. upgradeExecutor (ae_auth en) (exec_tables s) (Some (''Bearer '' @ py_executorToken y))"
  shows "(\<exists>x. connect (ad_ex (aw_data w')) = UpgradeExecutor x \<and> ex_executorId x = py_executorId y
      \<and> ex_organizationId x = Some (py_organizationId y) \<and> ex_pool x = PoolByon)
    \<and> connect (snd (revokeOrganizationExecutor clk (py_organizationId y) (py_executorId y) (ad_ex (aw_data w')))) = UpgradeRefused"
proof -
  let ?o = "py_organizationId y" and ?i = "py_executorId y" and ?t = "py_executorToken y" and ?s = "ad_ex (aw_data w)" and ?s' = "ad_ex (aw_data w')"
  let ?h = "ax_sha256 (ae_auth en) ?t"
  obtain r k where o': "ax_isUuid (ae_auth en) ?o" and t: "?t = ?o @ ''.'' @ ae_nonce en k"
    and r: "ox_id r = ?i" "ox_organizationId r = ?o" "ox_revokedAt r = None"
    and xs: "xs_executors ?s' = jset ?i (r, ?h) (xs_executors ?s)" "xs_managed ?s' = xs_managed ?s"
    using pair_result [OF assms(1,3)] by blast
  have plain: "?o \<noteq> ''''" "CHR ''.'' \<notin> set ?o" "CHR '' '' \<notin> set ?t" using o' assms(2) t by (auto simp: plain_ids_def)
  have others: "snd x \<noteq> ?h" if "x \<in> set (jvalues (xs_executors ?s))" for x using assms(4) that by (force simp: exec_hashes_def)
  have nobody: "find (\<lambda>c. xd_tokenHash c = ?h) (map managed_cred (jvalues (xs_managed ?s))) = None"
    using assms(4) by (force simp: find_map_cred exec_hashes_def intro!: find_none)
  have found: "find (\<lambda>c. xd_organizationId c = Some ?o \<and> xd_tokenHash c = ?h) (map byon_cred (jvalues (jset ?i (q, ?h) m))) = Some (byon_cred (q, ?h))"
    if "ox_organizationId q = ?o" "\<And>x. x \<in> set (jvalues m) \<Longrightarrow> snd x \<noteq> ?h" for q m
    using that by (simp add: find_map_cred o_def) (subst find_only; auto simp: byon_cred_def)
  have connect: "connect u = (if ox_revokedAt q \<noteq> None then UpgradeRefused
      else UpgradeExecutor (connected_of (ae_auth en) PoolByon (parseMaxInFlight (xd_capabilities (byon_cred (q, ?h))) 10) (byon_cred (q, ?h))))"
    if "xs_managed u = xs_managed ?s" "xs_executors u = jset ?i (q, ?h) (xs_executors ?s)" "ox_organizationId q = ?o" for u q
    using found [OF that(3) others] nobody bearer_token [of ?t] plain uuid_prefix [of ?o "ax_isUuid (ae_auth en)" "ae_nonce en k"] o' t
    by (simp add: connect_def upgradeExecutor_def Let_def exec_tables_def that(1,2)) (simp add: byon_cred_def)
  let ?r = "r\<lparr>ox_revokedAt := Some (clk 0)\<rparr>"
  have twice: "jset ?i (?r, ?h) (jset ?i (r, ?h) m) = jset ?i (?r, ?h) m" for m :: "(org_executor \<times> string) table"
    by (induction m) auto
  have "connect (snd (revokeOrganizationExecutor clk ?o ?i ?s')) = UpgradeRefused"
    by (subst connect [of _ ?r]) (simp_all add: revokeOrganizationExecutor_def scoped_get_def xs r jget_jset twice)
  moreover have "connect ?s' = UpgradeExecutor (connected_of (ae_auth en) PoolByon (parseMaxInFlight (xd_capabilities (byon_cred (r, ?h))) 10) (byon_cred (r, ?h)))"
    using connect [OF xs(2,1) r(2)] r(3) by simp
  ultimately show ?thesis using r by (simp add: connected_of_def byon_cred_def)
qed

definition is_plain :: "string \<Rightarrow> bool" where
  "is_plain s \<longleftrightarrow> s \<noteq> '''' \<and> CHR ''.'' \<notin> set s \<and> CHR '' '' \<notin> set s"

definition pair_env :: api_env where
  "pair_env = (api_sample ''owner'')\<lparr>ae_auth := (api_auth ''owner'')\<lparr>ax_isUuid := is_plain\<rparr>\<rparr>"

definition pair_start :: api where
  "pair_start = (api_start ''owner'')\<lparr>aw_data := (aw_data (api_start ''owner''))\<lparr>ad_ex :=
     snd (createExecutorPairingToken (\<lambda>k. 0) (\<lambda>k. ''p1'') ''o'' ''owner'' ''o.secret'' 100 exec_empty)\<rparr>\<rparr>"

definition pair_sample :: pair_body where
  "pair_sample = \<lparr>pb_pairingToken = ''o.secret'', pb_name = ''laptop'', pb_capabilities = None\<rparr>"

lemma pair_env_ok: "quiet pair_env" "plain_ids pair_env"
  by (simp_all add: quiet_def plain_ids_def pair_env_def api_sample_def is_plain_def)

lemma pair_start_hashes: "exec_hashes (ad_ex (aw_data pair_start)) = {}"
  by (simp add: pair_start_def createExecutorPairingToken_def exec_empty_def exec_hashes_def Let_def)

theorem paired_executor_connects_witness:
  "\<exists>y w' x. pairExecutorHandler pair_env (Some pair_sample) pair_start = (Inr y, w')
     \<and> upgradeExecutor (ae_auth pair_env) (exec_tables (ad_ex (aw_data w'))) (Some (''Bearer '' @ py_executorToken y)) = UpgradeExecutor x
     \<and> ex_executorId x = py_executorId y"
proof -
  obtain r w' where run: "pairExecutorHandler pair_env (Some pair_sample) pair_start = (r, w')" by fastforce
  have "case fst (pairExecutorHandler pair_env (Some pair_sample) pair_start) of Inl e \<Rightarrow> False | Inr y \<Rightarrow> True" by code_simp
  then obtain y where r: "r = Inr y" using run by (cases r) simp_all
  show ?thesis using paired_executor_connects [OF pair_env_ok run [unfolded r]] run r by (auto simp: pair_start_hashes)
qed

section \<open>Managed executors\<close>

lemma issue_result:
  assumes "quiet en" and "postManagedIssue en rq body w = (Inr (executorId, token), w')"
  shows "token = ae_uuid en (aw_calls w) 1 @ ''.'' @ ae_nonce en (aw_calls w)
    \<and> xs_executors (ad_ex (aw_data w')) = xs_executors (ad_ex (aw_data w))
    \<and> (\<exists>r. xs_managed (ad_ex (aw_data w')) = jset (ae_uuid en (aw_calls w) 0) (r, ax_sha256 (ae_auth en) token) (xs_managed (ad_ex (aw_data w)))
      \<and> mx_id r = ae_uuid en (aw_calls w) 0)"
  using assms(2)
  by (auto simp: postManagedIssue_def requireInternalServiceToken_def h_bind_def h_then_def h_gets_def h_return_def h_throw_def need_def check_def
      ex_do_def api_do_def Let_def assms(1) [unfolded quiet_def, rule_format] createManagedExecutor_def split: option.splits if_splits)

text \<open>
  A managed executor never connects: the token the API server issues for it begins with a fresh
  identifier instead of the one its row is stored under, and the edge server demands that
  the two agree; so it refuses the token, provided no other executor has a token with the same hash.
\<close>
theorem issued_managed_executor_refused:
  assumes "quiet en" and "plain_ids en" and "\<And>n. ae_uuid en n 1 \<noteq> ae_uuid en n 0 \<and> ax_isUuid (ae_auth en) (ae_uuid en n 1)"
    and "postManagedIssue en rq body w = (Inr (executorId, token), w')"
    and "ax_sha256 (ae_auth en) token \<notin> exec_hashes (ad_ex (aw_data w))"
  shows "upgradeExecutor (ae_auth en) (exec_tables (ad_ex (aw_data w'))) (Some (''Bearer '' @ token)) = UpgradeRefused"
proof -
  let ?s = "ad_ex (aw_data w)" and ?s' = "ad_ex (aw_data w')" and ?h = "ax_sha256 (ae_auth en) token"
  obtain k r where t: "token = ae_uuid en k 1 @ ''.'' @ ae_nonce en k" and r: "mx_id r = ae_uuid en k 0"
    and xs: "xs_executors ?s' = xs_executors ?s" "xs_managed ?s' = jset (ae_uuid en k 0) (r, ?h) (xs_managed ?s)"
    using issue_result [OF assms(1,4)] by blast
  have plain: "ae_uuid en k 1 \<noteq> ''''" "CHR ''.'' \<notin> set (ae_uuid en k 1)" "CHR '' '' \<notin> set token"
    using assms(2,3) t by (auto simp: plain_ids_def)
  have "find (\<lambda>c. xd_tokenHash c = ?h) (map managed_cred (jvalues (xs_managed ?s'))) = Some (managed_cred (r, ?h))"
    using assms(5) by (simp add: find_map_cred o_def xs) (subst find_only; force simp: exec_hashes_def)
  moreover have "find (\<lambda>c. xd_organizationId c = Some (ae_uuid en k 1) \<and> xd_tokenHash c = ?h) (map byon_cred (jvalues (xs_executors ?s'))) = None"
    using assms(5) by (force simp: find_map_cred xs exec_hashes_def intro!: find_none)
  ultimately show ?thesis
    using bearer_token [of token] plain uuid_prefix [of "ae_uuid en k 1" "ax_isUuid (ae_auth en)" "ae_nonce en k"] assms(3) [of k] t
    by (simp add: upgradeExecutor_def Let_def exec_tables_def) (auto simp: managed_cred_def r)
qed

definition service_request :: request where
  "service_request = bearer_request\<lparr>rq_serviceToken := Some ''t''\<rparr>"

definition managed_sample :: managed_body where
  "managed_sample = \<lparr>mg_name = ''m'', mg_maxInFlight = None, mg_labels = None, mg_capabilities = None, mg_runtimeClass = None, mg_region = None\<rparr>"

theorem issued_managed_executor_refused_witness:
  "\<exists>i token w'. postManagedIssue pair_env service_request (Some managed_sample) pair_start = (Inr (i, token), w')
     \<and> upgradeExecutor (ae_auth pair_env) (exec_tables (ad_ex (aw_data w'))) (Some (''Bearer '' @ token)) = UpgradeRefused"
proof -
  let ?m = "postManagedIssue pair_env service_request (Some managed_sample)"
  obtain r w' where run: "?m pair_start = (r, w')" by fastforce
  have "case fst (?m pair_start) of Inl e \<Rightarrow> False | Inr y \<Rightarrow> True" by code_simp
  then obtain i token where r: "r = Inr (i, token)" using run by (cases r) auto
  have "ae_uuid pair_env n 1 \<noteq> ae_uuid pair_env n 0 \<and> ax_isUuid (ae_auth pair_env) (ae_uuid pair_env n 1)" for n
    by (auto simp: pair_env_def api_sample_def sample_uuid_def is_plain_def)
  then show ?thesis using issued_managed_executor_refused [OF pair_env_ok _ run [unfolded r]] run r by (auto simp: pair_start_hashes)
qed

end
