(* ===== verification/SettingsForm.thy ===== *)
theory SettingsForm
  imports ApiSettings
begin

text \<open>
  The normal form of settings: reading normalized settings again changes nothing, except for the
  provider keys that the alias table answers with a member every object inherits.
\<close>

section \<open>Provider identifiers\<close>

lemma provider_ids_normal: "list_all (\<lambda>(p, m). normalizeLlmProviderId p = Some p \<and> 1 \<le> length m \<and> length m \<le> 200) llm_providers"
  by code_simp

lemma inherited_rejected: "list_all (\<lambda>(k, v). normalizeLlmProviderId v = None) inherited_members"
  by code_simp

lemma aliases_known: "list_all (\<lambda>(k, v). v \<in> set (map fst llm_providers)) provider_aliases"
  by code_simp

lemma normal_provider: "p \<in> set (map fst llm_providers) \<Longrightarrow> normalizeLlmProviderId p = Some p"
  using provider_ids_normal by (auto simp: list_all_iff)

lemma default_model_fits: "getDefaultModelForProvider p = Some m \<Longrightarrow> 1 \<le> length m \<and> length m \<le> 200"
  using provider_ids_normal by (fastforce simp: list_all_iff getDefaultModelForProvider_def dest!: map_of_SomeD)

lemma default_model_exists: "session_provider p \<Longrightarrow> getDefaultModelForProvider p \<noteq> None"
  by (auto simp: session_provider_def getDefaultModelForProvider_def map_of_eq_None_iff)

lemma inherited_not_provider: "p \<in> snd ` set inherited_members \<Longrightarrow> p \<notin> set (map fst llm_providers)"
  using inherited_rejected normal_provider by (fastforce simp: list_all_iff simp del: set_map)

definition inherited_key :: "string \<Rightarrow> bool" where
  "inherited_key k \<longleftrightarrow> toLowerCase (trim k) \<in> {''constructor'', ''__proto__''}"

lemma normalize_cases:
  assumes "normalizeLlmProviderId k = Some p"
  shows "if inherited_key k then p \<in> snd ` set inherited_members else p \<in> set (map fst llm_providers)"
proof -
  let ?t = "toLowerCase (trim k)"
  show ?thesis
  proof (cases "inherited_key k")
    case True
    then show ?thesis using assms
      by (auto simp: inherited_key_def normalizeLlmProviderId_def Let_def provider_aliases_def inherited_members_def)
  next
    case False
    then have "map_of inherited_members ?t = None" by (auto simp: inherited_key_def inherited_members_def)
    moreover have "v \<in> set (map fst llm_providers)" if "map_of provider_aliases ?t = Some v" for v
      using map_of_SomeD [OF that] aliases_known by (auto simp: list_all_iff simp del: set_map)
    ultimately show ?thesis using assms False
      by (auto simp: normalizeLlmProviderId_def Let_def map_add_def split: option.splits if_splits simp del: set_map)
  qed
qed

lemma normalized_again:
  assumes "normalizeLlmProviderId k = Some p"
  shows "normalizeLlmProviderId p = (if inherited_key k then None else Some p)"
  using normalize_cases [OF assms] inherited_rejected normal_provider by (auto simp: list_all_iff split: if_splits)

lemma inherited_found: "inherited_key k \<Longrightarrow> normalizeLlmProviderId k \<noteq> None"
  by (auto simp: inherited_key_def normalizeLlmProviderId_def Let_def provider_aliases_def inherited_members_def)

section \<open>Overrides of providers\<close>

lemma provider_conf_again [simp]: "provider_conf isUrl (provider_conf isUrl v) = provider_conf isUrl v"
  by (auto simp: provider_conf_def obj_of_def opt_json_def Let_def asObject_def asString_def split: option.split json.split)

definition confs :: "(string \<Rightarrow> bool) \<Rightarrow> (string \<times> json) list \<Rightarrow> bool" where
  \<comment> \<open>overrides in normal form, under any keys\<close>
  "confs isUrl out \<longleftrightarrow> distinct (jkeys out) \<and> list_all (\<lambda>(k, v). provider_conf isUrl v = v) out"

lemma confs_jset: "confs isUrl out \<Longrightarrow> provider_conf isUrl v = v \<Longrightarrow> confs isUrl (jset k v out)"
proof (induction out)
  case (Cons e out)
  have "set (jkeys (jset k v out)) \<subseteq> insert k (set (jkeys out))" by (induction out) auto
  with Cons show ?case by (cases e) (auto simp: confs_def)
qed (simp add: confs_def)

lemma confs_normalize: "confs isUrl out \<Longrightarrow> confs isUrl (normalizeProviders isUrl fs out)"
  by (induction isUrl fs out rule: normalizeProviders.induct) (auto simp: confs_jset split: option.split)

lemma jkeys_jset_set: "set (jkeys (jset k v m)) = insert k (set (jkeys m))"
  by (induction m) auto

lemma normalize_keys:
  "set (jkeys (normalizeProviders isUrl fs out)) = set (jkeys out) \<union> {p. \<exists>(k, v) \<in> set fs. normalizeLlmProviderId k = Some p}"
  by (induction isUrl fs out rule: normalizeProviders.induct) (auto simp: jkeys_jset_set split: option.split)

lemma normalize_normal:
  assumes "confs isUrl (out @ fs)" and "list_all (\<lambda>(k, v). normalizeLlmProviderId k = Some k) fs"
  shows "normalizeProviders isUrl fs out = out @ fs"
  using assms
proof (induction isUrl fs out rule: normalizeProviders.induct)
  case (2 isUrl k v fs out)
  then have "provider_conf isUrl v = v" "k \<notin> set (jkeys out)" by (auto simp: confs_def jkeys_def)
  with 2 show ?case by (simp add: jset_fresh)
qed simp

lemma normalizeProviders_idem:
  "normalizeProviders isUrl (normalizeProviders isUrl fs []) [] = normalizeProviders isUrl fs []
    \<longleftrightarrow> list_all (\<lambda>(k, v). \<not> inherited_key k) fs"
proof
  let ?n = "normalizeProviders isUrl fs []"
  have "confs isUrl ?n" by (rule confs_normalize) (simp add: confs_def)
  moreover assume "list_all (\<lambda>(k, v). \<not> inherited_key k) fs"
  then have "normalizeLlmProviderId p = Some p" if "p \<in> set (jkeys ?n)" for p
    using that normalized_again by (fastforce simp: normalize_keys list_all_iff)
  then have "list_all (\<lambda>(k, v). normalizeLlmProviderId k = Some k) ?n"
    by (force simp: list_all_iff jkeys_def)
  ultimately show "normalizeProviders isUrl ?n [] = ?n" using normalize_normal [of isUrl "[]" ?n] by simp
next
  let ?n = "normalizeProviders isUrl fs []"
  assume idem: "normalizeProviders isUrl ?n [] = ?n"
  have "\<not> inherited_key k" if kv: "(k, v) \<in> set fs" for k v
  proof
    assume "inherited_key k"
    then obtain p where p: "normalizeLlmProviderId k = Some p" "p \<in> snd ` set inherited_members"
      using inherited_found normalize_cases by (metis not_None_eq)
    then have "p \<in> set (jkeys ?n)" using kv by (auto simp: normalize_keys)
    then have "p \<in> set (jkeys (normalizeProviders isUrl ?n []))" using idem by simp
    then obtain q w where "(q, w) \<in> set ?n" "normalizeLlmProviderId q = Some p"
      unfolding normalize_keys [of isUrl ?n "[]"] by auto
    then have q: "normalizeLlmProviderId q = Some p" "q \<in> set (jkeys ?n)" by (force simp: jkeys_def)+
    then obtain k' where "normalizeLlmProviderId k' = Some q" by (auto simp: normalize_keys)
    then have "q \<in> set (map fst llm_providers)" using q(1) normalized_again normalize_cases by (metis option.distinct(1))
    then have "p \<in> set (map fst llm_providers)" using q(1) normal_provider by fastforce
    then show False using p(2) inherited_not_provider by blast
  qed
  then show "list_all (\<lambda>(k, v). \<not> inherited_key k) fs" by (auto simp: list_all_iff)
qed

section \<open>The default model\<close>

definition primary_ok :: "(string \<Rightarrow> bool) \<Rightarrow> primary \<Rightarrow> bool" where
  "primary_ok isUuid v \<longleftrightarrow> (case v of (p, m, i) \<Rightarrow>
     (case p of None \<Rightarrow> True | Some q \<Rightarrow> session_provider q \<and> m \<noteq> None)
     \<and> (case m of None \<Rightarrow> True | Some t \<Rightarrow> 1 \<le> length t \<and> length t \<le> 200)
     \<and> (case i of None \<Rightarrow> True | Some t \<Rightarrow> isUuid t))"

lemma text_or_null_ok: "text_or_null ok v = Some r \<Longrightarrow> (case r of None \<Rightarrow> True | Some t \<Rightarrow> ok t)"
  by (auto simp: text_or_null_def split: option.splits json.splits if_splits)

lemma text_or_null_json: "(case r of None \<Rightarrow> True | Some t \<Rightarrow> ok t) \<Longrightarrow> text_or_null ok (Some (opt_json r)) = Some r"
  by (auto simp: text_or_null_def opt_json_def split: option.splits)

lemma primary_normalized:
  "primary_ok isUuid (normalizeProviderDefault (qq (parsePrimary isUuid v) (None, None, None)))"
proof (cases "parsePrimary isUuid v")
  case None
  then show ?thesis by (simp add: normalizeProviderDefault_def primary_ok_def)
next
  case (Some r)
  obtain p m i where r: "r = (p, m, i)" by (cases r)
  have m: "case m of None \<Rightarrow> True | Some t \<Rightarrow> 1 \<le> length t \<and> length t \<le> 200"
    and i: "case i of None \<Rightarrow> True | Some t \<Rightarrow> isUuid t"
    using Some unfolding r parsePrimary_def by (auto split: option.splits if_splits dest!: text_or_null_ok)
  then show ?thesis using Some default_model_exists default_model_fits
    by (cases p; cases m) (auto simp: r normalizeProviderDefault_def primary_ok_def split: option.split)
qed

lemma primary_again:
  assumes "primary_ok isUuid v"
  shows "parsePrimary isUuid (primary_json v) = Some v" "normalizeProviderDefault v = v"
proof -
  obtain p m i where v: "v = (p, m, i)" by (cases v)
  have "normalizeLlmProviderId '''' = None" by code_simp
  then have "provider_field (Some (opt_json p)) = Some p"
    using assms normal_provider
    by (cases p) (auto simp: v primary_ok_def provider_field_def opt_json_def session_provider_def simp del: set_map)
  then show "parsePrimary isUuid (primary_json v) = Some v"
    using assms by (auto simp: v primary_ok_def parsePrimary_def primary_json_def strict_obj_def text_or_null_json split: option.splits)
  show "normalizeProviderDefault v = v"
    using assms by (auto simp: v primary_ok_def normalizeProviderDefault_def split: option.splits)
qed

section \<open>Engines\<close>

lemma jget_map_engines: "e \<in> set es \<Longrightarrow> jget (map (\<lambda>e. (e, f e)) es) e = Some (f e)"
  by (induction es) auto

lemma opt_json_None: "opt_json None = JNull"
  by (simp add: opt_json_def)

lemma engine_auth_form:
  assumes "m \<in> {''oauth_executor'', ''api_key''}" and "case i of None \<Rightarrow> True | Some t \<Rightarrow> isUuid t" and "m = ''oauth_executor'' \<Longrightarrow> i = None"
  shows "parseEngineAuth isUuid (JObj [(''mode'', JStr m), (''secretId'', opt_json i)]) = Some (Some m, i)"
    and "normalizeAgentEngineAuthDefault isUuid e (Some (JObj [(''mode'', JStr m), (''secretId'', opt_json i)]))
      = JObj [(''mode'', JStr m), (''secretId'', opt_json i)]"
proof -
  show parse: "parseEngineAuth isUuid (JObj [(''mode'', JStr m), (''secretId'', opt_json i)]) = Some (Some m, i)"
    using assms(1) text_or_null_json [OF assms(2)] by (auto simp: parseEngineAuth_def strict_obj_def)
  show "normalizeAgentEngineAuthDefault isUuid e (Some (JObj [(''mode'', JStr m), (''secretId'', opt_json i)]))
      = JObj [(''mode'', JStr m), (''secretId'', opt_json i)]"
    using assms(3) by (auto simp: normalizeAgentEngineAuthDefault_def nullishJ_def parse Let_def opt_json_None)
qed

lemma engine_auth_shape:
  "\<exists>m i. normalizeAgentEngineAuthDefault isUuid e v = JObj [(''mode'', JStr m), (''secretId'', opt_json i)]
     \<and> m \<in> {''oauth_executor'', ''api_key''} \<and> (case i of None \<Rightarrow> True | Some t \<Rightarrow> isUuid t) \<and> (m = ''oauth_executor'' \<longrightarrow> i = None)"
proof (intro exI conjI)
  let ?p = "parseEngineAuth isUuid (qq (nullishJ v) (JObj []))"
  let ?m = "qq (Option.bind ?p fst) (defaultEngineAuthMode e)"
  let ?i = "if ?m = ''oauth_executor'' then None else Option.bind ?p snd"
  show "normalizeAgentEngineAuthDefault isUuid e v = JObj [(''mode'', JStr ?m), (''secretId'', opt_json ?i)]"
    by (simp add: normalizeAgentEngineAuthDefault_def Let_def opt_json_def)
  show "?m \<in> {''oauth_executor'', ''api_key''}"
    by (auto simp: parseEngineAuth_def defaultEngineAuthMode_def split: option.split if_splits)
  show "case ?i of None \<Rightarrow> True | Some t \<Rightarrow> isUuid t"
    by (auto simp: parseEngineAuth_def split: option.splits dest!: text_or_null_ok)
  show "?m = ''oauth_executor'' \<longrightarrow> ?i = None" by simp
qed

lemma engine_auth_parses:
  "parseEngineAuth isUuid (normalizeAgentEngineAuthDefault isUuid e v) \<noteq> None"
  "normalizeAgentEngineAuthDefault isUuid e (Some (normalizeAgentEngineAuthDefault isUuid e v)) = normalizeAgentEngineAuthDefault isUuid e v"
proof -
  obtain m i where shape: "normalizeAgentEngineAuthDefault isUuid e v = JObj [(''mode'', JStr m), (''secretId'', opt_json i)]"
    and ok: "m \<in> {''oauth_executor'', ''api_key''}" "case i of None \<Rightarrow> True | Some t \<Rightarrow> isUuid t" "m = ''oauth_executor'' \<Longrightarrow> i = None"
    using engine_auth_shape by blast
  show "parseEngineAuth isUuid (normalizeAgentEngineAuthDefault isUuid e v) \<noteq> None"
    using engine_auth_form(1) [OF ok] by (simp add: shape)
  show "normalizeAgentEngineAuthDefault isUuid e (Some (normalizeAgentEngineAuthDefault isUuid e v)) = normalizeAgentEngineAuthDefault isUuid e v"
    unfolding shape by (rule engine_auth_form(2) [OF ok])
qed

lemma engine_runtime_form:
  assumes "case b of None \<Rightarrow> True | Some t \<Rightarrow> isUrl t \<and> length t \<le> 2000"
  shows "parseEngineRuntime isUrl (JObj [(''baseUrl'', opt_json b)]) = Some b"
    and "normalizeAgentEngineRuntimeDefault isUrl (Some (JObj [(''baseUrl'', opt_json b)])) = JObj [(''baseUrl'', opt_json b)]"
proof -
  show parse: "parseEngineRuntime isUrl (JObj [(''baseUrl'', opt_json b)]) = Some b"
    using text_or_null_json [OF assms] by (simp add: parseEngineRuntime_def strict_obj_def)
  show "normalizeAgentEngineRuntimeDefault isUrl (Some (JObj [(''baseUrl'', opt_json b)])) = JObj [(''baseUrl'', opt_json b)]"
    by (simp add: normalizeAgentEngineRuntimeDefault_def nullishJ_def parse)
qed

lemma engine_runtime_parses:
  "parseEngineRuntime isUrl (normalizeAgentEngineRuntimeDefault isUrl v) \<noteq> None"
  "normalizeAgentEngineRuntimeDefault isUrl (Some (normalizeAgentEngineRuntimeDefault isUrl v)) = normalizeAgentEngineRuntimeDefault isUrl v"
proof -
  have "case Option.bind (parseEngineRuntime isUrl (qq (nullishJ v) (JObj []))) id of None \<Rightarrow> True | Some t \<Rightarrow> isUrl t \<and> length t \<le> 2000"
    by (auto simp: parseEngineRuntime_def bind_eq_Some_conv split: option.splits dest!: text_or_null_ok)
  from engine_runtime_form [OF this]
  show "parseEngineRuntime isUrl (normalizeAgentEngineRuntimeDefault isUrl v) \<noteq> None"
    "normalizeAgentEngineRuntimeDefault isUrl (Some (normalizeAgentEngineRuntimeDefault isUrl v)) = normalizeAgentEngineRuntimeDefault isUrl v"
    unfolding normalizeAgentEngineRuntimeDefault_def [of isUrl v] by simp_all
qed

lemma parse_engines_map:
  "(\<And>e. ok (f e)) \<Longrightarrow> parse_engines ok (Some (JObj (map (\<lambda>e. (e, f e)) engine_ids))) = map (\<lambda>e. (e, f e)) engine_ids"
  by (auto simp: parse_engines_def strict_obj_def nullishJ_def list_all_iff)

lemma engines_again:
  assumes "\<And>e v. ok (f e v)" and "\<And>e v. f e (Some (f e v)) = f e v"
  shows "map (\<lambda>e. (e, f e (jget (parse_engines ok (Some (JObj (map (\<lambda>e. (e, f e (r e))) engine_ids)))) e))) engine_ids
    = map (\<lambda>e. (e, f e (r e))) engine_ids"
  unfolding parse_engines_map [of ok "\<lambda>e. f e (r e)", OF assms(1)]
  by (rule map_cong [OF refl]) (simp add: jget_map_engines assms(2))

lemma engine_defaults_again:
  "normalizeAgentEngineAuthDefaults isUuid (Some (normalizeAgentEngineAuthDefaults isUuid v)) = normalizeAgentEngineAuthDefaults isUuid v"
  "normalizeAgentEngineRuntimeDefaults isUrl (Some (normalizeAgentEngineRuntimeDefaults isUrl v)) = normalizeAgentEngineRuntimeDefaults isUrl v"
  unfolding normalizeAgentEngineAuthDefaults_def normalizeAgentEngineRuntimeDefaults_def Let_def json.inject
  by (rule engines_again; rule engine_auth_parses engine_runtime_parses)+

section \<open>Settings\<close>

definition providers_of :: "json \<Rightarrow> (string \<times> json) list" where
  "providers_of x = obj_of (jget (obj_of (jget (obj_of (Some x)) ''llm'')) ''providers'')"

lemma settings_json_parts:
  "jget (obj_of (Some (settings_json a b c d e f))) ''tools'' = Some (JObj [(''shellRunEnabled'', JBool a)])"
  "jget (obj_of (Some (settings_json a b c d e f))) ''toolsets'' = Some (JObj [(''defaultToolsetId'', opt_json b)])"
  "jget (obj_of (Some (settings_json a b c d e f))) ''llm'' = Some (JObj [(''defaults'', JObj [(''primary'', c)]), (''providers'', JObj d)])"
  "jget (obj_of (Some (settings_json a b c d e f))) ''agents'' = Some (JObj [(''engineAuthDefaults'', e), (''engineRuntimeDefaults'', f)])"
  by (simp_all add: settings_json_def obj_of_def)

lemma settings_json_inject: "settings_json a b c d e f = settings_json a b c d' e f \<longleftrightarrow> d = d'"
  by (simp add: settings_json_def)

lemma normalized_shape:
  obtains a b c e f where "normalizeOrgSettings isUuid isUrl x = settings_json a b (primary_json c)
      (normalizeProviders isUrl (providers_of x) []) e f"
    and "case b of None \<Rightarrow> True | Some t \<Rightarrow> isUuid t" and "primary_ok isUuid c"
    and "normalizeAgentEngineAuthDefaults isUuid (Some e) = e" and "normalizeAgentEngineRuntimeDefaults isUrl (Some f) = f"
proof -
  let ?a = "jget (obj_of (jget (obj_of (Some x)) ''agents''))"
  let ?t = "asString (jget (obj_of (jget (obj_of (Some x)) ''toolsets'')) ''defaultToolsetId'')"
  let ?b = "case ?t of Some s \<Rightarrow> if isUuid s then Some s else None | None \<Rightarrow> None"
  let ?p = "qq (nullishJ (jget (obj_of (jget (obj_of (jget (obj_of (Some x)) ''llm'')) ''defaults'')) ''primary'')) (JObj [])"
  have "normalizeOrgSettings isUuid isUrl x = settings_json (qq (asBool (jget (obj_of (jget (obj_of (Some x)) ''tools'')) ''shellRunEnabled'')) False)
      ?b (primary_json (normalizeProviderDefault (qq (parsePrimary isUuid ?p) (None, None, None)))) (normalizeProviders isUrl (providers_of x) [])
      (normalizeAgentEngineAuthDefaults isUuid (?a ''engineAuthDefaults'')) (normalizeAgentEngineRuntimeDefaults isUrl (?a ''engineRuntimeDefaults''))"
    by (simp add: normalizeOrgSettings_def Let_def providers_of_def)
  moreover have "case ?b of None \<Rightarrow> True | Some t \<Rightarrow> isUuid t" by (simp split: option.split)
  ultimately show thesis by (rule that [OF _ _ primary_normalized engine_defaults_again])
qed

lemma obj_of_obj [simp]: "obj_of (Some (JObj fs)) = fs"
  by (simp add: obj_of_def)

lemma opt_string [simp]: "asString (Some (opt_json b)) = b"
  by (simp add: opt_json_def asString_def split: option.split)

lemma normalize_settings_json:
  assumes "case b of None \<Rightarrow> True | Some t \<Rightarrow> isUuid t" and "primary_ok isUuid c"
    and "normalizeAgentEngineAuthDefaults isUuid (Some e) = e" and "normalizeAgentEngineRuntimeDefaults isUrl (Some f) = f"
  shows "normalizeOrgSettings isUuid isUrl (settings_json a b (primary_json c) d e f)
    = settings_json a b (primary_json c) (normalizeProviders isUrl d []) e f"
proof -
  have "qq (nullishJ (Some (primary_json c))) (JObj []) = primary_json c" by (simp add: nullishJ_def primary_json_def split: prod.split)
  then show ?thesis using assms
    by (auto simp: normalizeOrgSettings_def settings_json_parts Let_def primary_again asBool_def split: option.split)
qed

text \<open>
  Reading settings is idempotent (settings in normal form are read as they are) exactly when no
  provider key trims and lowercases to \<open>constructor\<close> or \<open>__proto__\<close>; such a key passes the test for an
  alias, since every object has these members, and is stored under what is found there.
\<close>
theorem settings_normal_form:
  "normalizeOrgSettings isUuid isUrl (normalizeOrgSettings isUuid isUrl x) = normalizeOrgSettings isUuid isUrl x
    \<longleftrightarrow> list_all (\<lambda>(k, v). \<not> inherited_key k) (providers_of x)"
proof -
  obtain a b c e f where n: "normalizeOrgSettings isUuid isUrl x = settings_json a b (primary_json c)
      (normalizeProviders isUrl (providers_of x) []) e f"
    and ok: "case b of None \<Rightarrow> True | Some t \<Rightarrow> isUuid t" "primary_ok isUuid c"
      "normalizeAgentEngineAuthDefaults isUuid (Some e) = e" "normalizeAgentEngineRuntimeDefaults isUrl (Some f) = f"
    by (rule normalized_shape)
  show ?thesis unfolding n normalize_settings_json [OF ok] settings_json_inject normalizeProviders_idem ..
qed

end
