(* ===== verification/ApiBuilderProps.thy ===== *)
theory ApiBuilderProps
  imports ApiRunProps SettingsForm
begin

text \<open>
  What the toolset builder can produce, whatever the model answers, and where it sends the keys of
  the platform.
\<close>

section \<open>Drafts\<close>

definition draft_ok :: "toolset_draft \<Rightarrow> bool" where
  "draft_ok t \<longleftrightarrow> set (td_mcpServers t) \<subseteq> ci_mcp ` set (filter is_mcp getToolsetCatalog)
     \<and> distinct (map (\<lambda>s. text_field s ''name'') (td_mcpServers t)) \<and> td_visibility t \<noteq> VisPublic
     \<and> validateMcpPlaceholderPolicy (td_mcpServers t) \<and> validateAgentSkillBundles (td_agentSkills t)"

lemma grants_any: "(\<And>x. grants (\<lambda>_. True) (f x) Q) \<Longrightarrow> grants (\<lambda>_. True) (h_bind m f) Q"
  by (rule grants_bind) (simp_all add: keeps_def)

lemma grants_when: "grants (\<lambda>_. True) m R \<Longrightarrow> (\<And>x. R x \<Longrightarrow> grants (\<lambda>_. True) (f x) Q) \<Longrightarrow> grants (\<lambda>_. True) (h_bind m f) Q"
  by (rule grants_bind_when [where R = R]) (simp_all add: keeps_def)

lemma grants_check_then: "(ok \<Longrightarrow> grants (\<lambda>_. True) m Q) \<Longrightarrow> grants (\<lambda>_. True) (h_then (check ok e) m) Q"
  unfolding h_then_def by (rule grants_when [OF grants_check])

lemma grants_names: "grants (\<lambda>_. True) (checkServerNames ns seen) (\<lambda>_. distinct ns \<and> set ns \<inter> set seen = {})"
proof (induction ns arbitrary: seen)
  case (Cons n ns)
  have "grants (\<lambda>_. True) (checkServerNames ns (n # seen)) (\<lambda>_. distinct (n # ns) \<and> set (n # ns) \<inter> set seen = {})" if "n \<notin> set seen"
    using Cons.IH [of "n # seen"] that by (auto simp: grants_def)
  then show ?case by (simp only: checkServerNames.simps) (intro grants_check_then)
qed (simp add: grants_return)

lemma grants_checkToolset:
  "grants (\<lambda>_. True) (checkToolset ms ks) (\<lambda>_. validateMcpPlaceholderPolicy ms \<and> validateAgentSkillBundles ks)"
  unfolding checkToolset_def by (rule grants_check_then) (simp add: check_def grants_return grants_throw)

lemma catalog_servers: "set (map ci_mcp (filter is_mcp (List.map_filter catalog_get ks))) \<subseteq> ci_mcp ` set (filter is_mcp getToolsetCatalog)"
proof -
  have "c \<in> set getToolsetCatalog" if "catalog_get k = Some c" for k c
    using that unfolding catalog_get_def find_Some_iff by auto
  then have "set (List.map_filter catalog_get ks) \<subseteq> set getToolsetCatalog" by (auto simp: List.map_filter_def)
  then show ?thesis by auto
qed

text \<open>
  Whatever the model answers, a draft the toolset builder returns has only MCP servers of
  the catalogue, each once, with placeholders for every credential, skills whose files stay in their
  directory, and is not public.
\<close>
theorem builder_drafts_from_catalog:
  assumes "fst (postBuilderFinalize en be rq auth org sessionId body w) = Inr (draft, warnings)"
  shows "draft_ok draft"
proof -
  have pair: "grants (\<lambda>_. True) (f (fst x) (snd x)) Q \<Longrightarrow> grants (\<lambda>_. True) (case x of (a, b) \<Rightarrow> f a b) Q" for f x and Q :: "toolset_draft \<times> string list \<Rightarrow> bool"
    by (simp add: case_prod_beta)
  have "grants (\<lambda>_. True) (postBuilderFinalize en be rq auth org sessionId body) (\<lambda>(draft, warnings). draft_ok draft)"
    unfolding postBuilderFinalize_def Let_def
  proof (rule grants_any, rule pair, rule grants_any, rule grants_any, rule grants_check_then, rule grants_any, rule grants_any, rule grants_any,
      rule grants_any, rule grants_any, rule grants_any, unfold h_then_def, rule grants_when [OF grants_names],
      rule grants_when [OF grants_checkToolset], rule grants_any, rule grants_any, rule grants_return)
    fix b :: finalize_body and selected :: "string list" and answer :: draft_answer
    let ?servers = "map ci_mcp (filter is_mcp (List.map_filter catalog_get selected))"
    assume "fb_visibility b \<noteq> Some VisPublic"
      and "distinct (map (\<lambda>s. text_field s ''name'') ?servers) \<and> set (map (\<lambda>s. text_field s ''name'') ?servers) \<inter> set [] = {}"
      and "validateMcpPlaceholderPolicy (td_mcpServers (draftOf b answer ?servers)) \<and> validateAgentSkillBundles (td_agentSkills (draftOf b answer ?servers))"
    then show "case (draftOf b answer ?servers, draftWarnings (List.map_filter catalog_get selected)) of (draft, warnings) \<Rightarrow> draft_ok draft"
      using catalog_servers [of selected] by (cases "fb_visibility b") (auto simp: draft_ok_def draftOf_def Let_def)
  qed
  then show ?thesis using assms unfolding grants_def by (metis case_prodD prod.collapse)
qed

definition draft_env :: api_env where
  "draft_env = (api_sample ''owner'')\<lparr>ae_auth := (api_auth ''owner'')\<lparr>ax_parse := (\<lambda>s. Some (JObj [(''name'', JStr ''n'')]))\<rparr>\<rparr>"

definition sample_builder :: builder_env where
  "sample_builder = \<lparr>be_llm = (\<lambda>r. Inr ''answer''), be_processEnv = (\<lambda>v. Some ''managed''), be_unseal = (\<lambda>k i c t. None)\<rparr>"

definition sample_llm :: builder_llm where
  "sample_llm = \<lparr>bl_provider = ''openai'', bl_model = ''m'', bl_auth = None\<rparr>"

definition builder_start :: api where
  "builder_start = (api_start ''owner'')\<lparr>aw_data := (aw_data (api_start ''owner''))\<lparr>ad_ts :=
     snd (createToolsetBuilderSession (\<lambda>k. 0) (\<lambda>k. ''b1'') ''o'' ''owner'' (builder_llm_json sample_llm) None tool_empty)\<rparr>\<rparr>"

definition finalize_sample :: "(toolset_draft \<times> string list) api_handler" where
  "finalize_sample = postBuilderFinalize draft_env sample_builder bearer_request
     (Some \<lparr>ac_userId = ''owner'', ac_email = ''e'', ac_sessionId = ''s''\<rparr>) ''o'' ''b1''
     (Some \<lparr>fb_name = None, fb_description = None, fb_visibility = Some VisOrg, fb_selected = [''mcp.github'', ''skill.slack-ops'']\<rparr>)"

theorem builder_drafts_from_catalog_witness:
  "\<exists>draft warnings. fst (finalize_sample builder_start) = Inr (draft, warnings) \<and> td_mcpServers draft \<noteq> [] \<and> draft_ok draft"
proof -
  have "case fst (finalize_sample builder_start) of Inl e \<Rightarrow> False | Inr (draft, warnings) \<Rightarrow> td_mcpServers draft \<noteq> []" by code_simp
  then obtain draft warnings where run: "fst (finalize_sample builder_start) = Inr (draft, warnings)" and "td_mcpServers draft \<noteq> []"
    by (auto split: sum.splits prod.splits)
  then show ?thesis using builder_drafts_from_catalog [OF run [unfolded finalize_sample_def]] by blast
qed

section \<open>Keys of the platform\<close>

lemma jget_normalize:
  assumes "distinct (jkeys fs)" and "list_all (\<lambda>(k, v). normalizeLlmProviderId k \<in> {None, Some k}) fs"
    and "normalizeLlmProviderId p = Some p"
  shows "jget (normalizeProviders isUrl fs out) p = (case jget fs p of Some v \<Rightarrow> Some (provider_conf isUrl v) | None \<Rightarrow> jget out p)"
  using assms
proof (induction isUrl fs out rule: normalizeProviders.induct)
  case (2 isUrl k v fs out)
  have k: "normalizeLlmProviderId k \<in> {None, Some k}" using 2(4) by auto
  have no: "jget fs k = None" using 2(3) by (auto simp: jkeys_def jget_def map_of_eq_None_iff)
  show ?case using 2 k no by (cases "p = k") (auto simp: jget_jset split: option.split option.splits)
qed simp

definition url_patch :: "string \<Rightarrow> string \<Rightarrow> json" where
  \<comment> \<open>the body of \<open>PUT settings\<close> that points a provider at a server\<close>
  "url_patch p u = JObj [(''llm'', JObj [(''providers'', JObj [(p, JObj [(''baseUrl'', JStr u)])])])]"

definition patched :: "(string \<Rightarrow> bool) \<Rightarrow> (string \<Rightarrow> bool) \<Rightarrow> json \<Rightarrow> json \<Rightarrow> json" where
  \<comment> \<open>the settings a route reads after the patch was stored\<close>
  "patched isUuid isUrl stored body =
     normalizeOrgSettings isUuid isUrl (mergeOrgSettings isUuid isUrl (normalizeOrgSettings isUuid isUrl stored) body)"

lemma patched_url:
  assumes p: "p \<in> set (map fst llm_providers)" and u: "isUrl u" "length u \<le> 2000"
  shows "jget (providers_of (patched isUuid isUrl stored (url_patch p u))) p = Some (JObj [(''baseUrl'', JStr u), (''apiKind'', JNull)])"
proof -
  let ?q = "normalizeProviders isUrl (providers_of stored) []" and ?c = "JObj [(''baseUrl'', JStr u), (''apiKind'', JNull)]"
  have np: "normalizeLlmProviderId p = Some p" using normal_provider p by blast
  have path: "obj_of (json_path (normalizeOrgSettings isUuid isUrl stored) [''llm'', ''providers'']) = ?q"
    by (simp add: normalizeOrgSettings_def settings_json_def Let_def json_path_def get_property_def providers_of_def)
  have body: "json_path (url_patch p u) [''llm'', ''providers''] = Some (JObj [(p, JObj [(''baseUrl'', JStr u)])])"
    by (simp add: url_patch_def json_path_def get_property_def)
  have "providers_of (mergeOrgSettings isUuid isUrl (normalizeOrgSettings isUuid isUrl stored) (url_patch p u)) = jset p ?c ?q"
    by (simp add: mergeOrgSettings_def Let_def providers_of_def [of "JObj _"] body path np opt_json_def)
      (simp add: get_property_def asString_def nullishJ_def)
  moreover have "providers_of (normalizeOrgSettings isUuid isUrl x) = normalizeProviders isUrl (providers_of x) []" for x
    by (simp add: normalizeOrgSettings_def settings_json_def Let_def providers_of_def)
  moreover have "jget (normalizeProviders isUrl (jset p ?c ?q) []) p = Some (provider_conf isUrl ?c)"
  proof -
    have "confs isUrl ?q" by (rule confs_normalize) (simp add: confs_def)
    then have d: "distinct (jkeys (jset p ?c ?q))" using confs_jset [of isUrl ?q ?c] u
      by (auto simp: confs_def provider_conf_def Let_def opt_json_def)
    have "normalizeLlmProviderId k \<in> {None, Some k}" if "(k, v) \<in> set (jset p ?c ?q)" for k v
    proof (cases "k = p")
      case False
      have "k \<in> set (jkeys (jset p ?c ?q))" using that by (force simp: jkeys_def)
      then have "k \<in> set (jkeys ?q)" using False by (simp add: jkeys_jset_set)
      then show ?thesis using normalized_again by (fastforce simp: normalize_keys split: if_splits)
    qed (simp add: np)
    then show ?thesis using d np by (subst jget_normalize) (auto simp: list_all_iff jget_jset)
  qed
  moreover have "provider_conf isUrl ?c = ?c" using u by (simp add: provider_conf_def Let_def opt_json_def)
  ultimately show ?thesis by (simp add: patched_def)
qed

text \<open>
  The toolset builder sends the platform's own API key to whatever server an organization
  names: once an admin has set a base URL for a provider, a session that has no secret of its own is
  answered by a request to that URL that carries the managed key of the platform.
\<close>
theorem managed_key_sent_to_base_url:
  assumes "p \<in> set (map fst llm_providers)" and "provider_api_kind p \<noteq> ''vertex''" and "bl_provider c = p"
    and "isUrl u" and "u \<noteq> ''''" and "length u \<le> 2000"
    and "resolveManagedBuilderApiKey env (provider_api_kind p) = Some k" and "k \<noteq> ''''"
  shows "\<exists>r. callBuilderLlm parse env c None (patched isUuid isUrl stored (url_patch p u)) system user = Inr r
    \<and> lr_key r = k \<and> lr_baseUrl r = Some u"
proof -
  let ?s = "patched isUuid isUrl stored (url_patch p u)"
  obtain a b c' e f where s: "?s = settings_json a b c' (providers_of ?s) e f"
    by (simp add: patched_def normalizeOrgSettings_def Let_def providers_of_def settings_json_def)
  have conf: "json_path ?s [''llm'', ''providers'', p, key] = get_property (JObj [(''baseUrl'', JStr u), (''apiKind'', JNull)]) key" for key
    using patched_url [of p isUrl u isUuid stored] assms(1,4,6)
    by (subst s) (simp add: settings_json_def json_path_def get_property_def)
  have "resolveLlmProviderRuntime ?s p = (provider_api_kind p, Some u)"
    by (simp add: resolveLlmProviderRuntime_def conf get_property_def asString_def)
  moreover have "trim '''' = ''''" by (simp add: trim_def)
  ultimately show ?thesis using assms(2,3,5,7,8) by (simp add: callBuilderLlm_def Let_def)
qed

theorem managed_key_sent_to_base_url_witness:
  "\<exists>r. callBuilderLlm (\<lambda>s. None) (\<lambda>v. Some ''managed'') sample_llm None
      (patched (\<lambda>s. True) (\<lambda>s. True) JNull (url_patch ''openai'' ''https://evil.example'')) ''s'' ''u'' = Inr r
    \<and> lr_key r = ''managed'' \<and> lr_baseUrl r = Some ''https://evil.example''"
  by (rule managed_key_sent_to_base_url [where p = "''openai''"])
    (simp_all add: llm_providers_def provider_api_kind_def sample_llm_def resolveManagedBuilderApiKey_def)

end
