(* ===== verification/ApiOauthProps.thy ===== *)
theory ApiOauthProps
  imports ApiProps
begin

text \<open>
  The OAuth attempts of the API server over a history of requests: a sign-in redeems one earlier start
  for the same provider, within its lifetime, in the browser that made it, and at most once; a Vertex
  connection goes to the organization for which the same user started it.
\<close>

section \<open>Histories\<close>

datatype oauth_call =
    LoginStart string bool
  | LoginCallback string "oauth_query option"
  | LlmStart string string "llm_start_body option"
  | LlmCallback string "(string \<times> string) list"
  | DeviceStart string string "string option option"
  | DevicePoll string string "device_poll option"
  | LlmDelete string string string
  | VertexStart string "(string \<times> string) option"
  | VertexCallback "oauth_query option"
  | VertexDelete string

fun oauth_route :: "oauth_env \<Rightarrow> request \<Rightarrow> oauth_call \<Rightarrow> auth_ctx option \<Rightarrow> oauth_reply oauth_handler" where
  "oauth_route oe rq (LoginStart p j) auth = getLoginStart oe p j"
| "oauth_route oe rq (LoginCallback p q) auth = getLoginCallback oe rq p q"
| "oauth_route oe rq (LlmStart org p b) auth = postLlmStart oe auth org p b"
| "oauth_route oe rq (LlmCallback p q) auth = getLlmCallback p q"
| "oauth_route oe rq (DeviceStart org p b) auth = postDeviceStart oe auth org p b"
| "oauth_route oe rq (DevicePoll org p b) auth = postDevicePoll oe auth org p b"
| "oauth_route oe rq (LlmDelete org p i) auth = h_then (lift_api (deleteLlmSecret (oe_api oe) auth org p i)) (h_return OauthDone)"
| "oauth_route oe rq (VertexStart org q) auth = getVertexStart oe auth org q"
| "oauth_route oe rq (VertexCallback q) auth = getVertexCallback oe rq auth q"
| "oauth_route oe rq (VertexDelete org) auth = h_then (lift_api (deleteVertex (oe_api oe) auth org)) (h_return OauthDone)"

definition oauth_serve :: "oauth_env \<Rightarrow> request \<Rightarrow> oauth_call \<Rightarrow> oauth_reply oauth_handler" where
  "oauth_serve oe rq c = h_bind (lift_api (authenticateRequest (oe_api oe) rq)) (oauth_route oe rq c)"

record oauth_event =
  ov_request :: request
  ov_call :: oauth_call
  ov_user :: "string option"  \<comment> \<open>whom the request was authenticated as\<close>
  ov_step :: nat  \<comment> \<open>the stretch the request began with\<close>
  ov_result :: "string + oauth_reply"

definition serve_one :: "oauth_env \<Rightarrow> request \<Rightarrow> oauth_call \<Rightarrow> oauth_world \<Rightarrow> oauth_event \<times> oauth_world" where
  "serve_one oe rq c w =
     (case oauth_serve oe rq c (w\<lparr>ow_cookies := []\<rparr>) of (r, w') \<Rightarrow>
        (\<lparr>ov_request = rq, ov_call = c,
          ov_user = (case fst (authenticateRequest (oe_api oe) rq (ow_api w)) of Inr (Some a) \<Rightarrow> Some (ac_userId a) | _ \<Rightarrow> None),
          ov_step = ow_steps w, ov_result = r\<rparr>, w'))"

fun oauth_history :: "oauth_env \<Rightarrow> (request \<times> oauth_call) list \<Rightarrow> oauth_world \<Rightarrow> oauth_event list" where
  "oauth_history oe [] w = []"
| "oauth_history oe ((rq, c) # rest) w = (case serve_one oe rq c w of (e, w') \<Rightarrow> e # oauth_history oe rest w')"

section \<open>Tables of started attempts\<close>

text \<open>
  A table whose entries are written by some requests (\<open>opened\<close>) and consumed by others (\<open>redeems\<close>):
  every redeemed entry was opened by an earlier request and not redeemed since.
\<close>

locale attempt_table =
  fixes oe :: oauth_env and tab :: "oauth_world \<Rightarrow> 'a table" and opened ::"oauth_event \<Rightarrow> string \<Rightarrow> 'a \<Rightarrow> bool"
    and redeems :: "string \<Rightarrow> oauth_event \<Rightarrow> bool" and uses ::"oauth_event \<Rightarrow> 'a \<Rightarrow> bool"
  assumes kept: "serve_one oe rq c w = (e, w') \<Longrightarrow> jget (tab w') s = Some st
      \<Longrightarrow> jget (tab w) s = Some st \<and> \<not> redeems s e \<or> opened e s st"
    and redeemed: "serve_one oe rq c w = (e, w') \<Longrightarrow> redeems s e \<Longrightarrow> \<exists>st. jget (tab w) s = Some st \<and> uses e st"

context attempt_table begin

definition pending ::"oauth_event list \<Rightarrow> string \<Rightarrow> 'a \<Rightarrow> bool" where
  "pending es s st \<longleftrightarrow> (\<exists>es1 start es2. es = es1 @ start # es2 \<and> opened start s st \<and> (\<forall>x\<in>set es2. \<not> redeems s x))"

lemma pending_opened: "opened e s st \<Longrightarrow> pending (es @ [e]) s st"
  unfolding pending_def by fastforce

lemma pending_later:
  assumes "pending es s st" and "\<not> redeems s e"
  shows "pending (es @ [e]) s st"
proof -
  obtain es1 start es2 where "es = es1 @ start # es2" "opened start s st" "\<forall>x\<in>set es2. \<not> redeems s x"
    using assms(1) unfolding pending_def by blast
  then have "es @ [e] = es1 @ start # (es2 @ [e]) \<and> opened start s st \<and> (\<forall>x\<in>set (es2 @ [e]). \<not> redeems s x)"
    using assms(2) by simp
  then show ?thesis unfolding pending_def by blast
qed

lemma pending_along:
  assumes "\<And>s st. jget (tab w) s = Some st \<Longrightarrow> pending es s st"
    and "oauth_history oe reqs w = before @ e # after" and "redeems s e"
  shows "\<exists>st. pending (es @ before) s st \<and> uses e st"
  using assms
proof (induction reqs arbitrary: w es before)
  case step: (Cons r reqs)
  obtain rq c e0 w' where r: "r = (rq, c)" and one: "serve_one oe rq c w = (e0, w')" by (metis surj_pair)
  have along: "pending (es @ [e0]) s' st" if "jget (tab w') s' = Some st" for s' st
    using kept [OF one that] step.prems(1) pending_later pending_opened by blast
  show ?case
  proof (cases before)
    case Nil
    then have "e = e0" using step.prems(2) r one by simp
    then show ?thesis using redeemed [OF one, of s] step.prems(1,3) Nil by auto
  next
    case (Cons b before')
    then have "b = e0" "oauth_history oe reqs w' = before' @ e # after" using step.prems(2) r one by auto
    then show ?thesis using step.IH [of w' "es @ [e0]" before'] along step.prems(3) Cons by simp
  qed
qed simp

lemma redeemed_once:
  assumes "tab w = []" and "oauth_history oe reqs w = before @ e # after" and "redeems s e"
  shows "\<exists>es1 start es2 st. before = es1 @ start # es2 \<and> opened start s st \<and> uses e st \<and> (\<forall>x\<in>set es2. \<not> redeems s x)"
  using pending_along [of w "[]", OF _ assms(2,3)] assms(1) unfolding pending_def by auto

end

section \<open>Signing in\<close>

definition login_opened :: "oauth_env \<Rightarrow> oauth_event \<Rightarrow> string \<Rightarrow> login_state \<Rightarrow> bool" where
  \<comment> \<open>the request started the attempt \<open>st\<close> under the state \<open>s\<close>\<close>
  "login_opened oe e s st \<longleftrightarrow>
     (case ov_call e of LoginStart p _ \<Rightarrow> extractProvider p = Some (lg_provider st) | _ \<Rightarrow> False)
     \<and> s = oe_state oe (ov_step e) \<and> lg_codeVerifier st = oe_codeVerifier oe (ov_step e) \<and> lg_nonce st = oe_nonce oe (ov_step e)
     \<and> lg_expiresAtSec st = oe_clock oe (ov_step e) div 1000 + oe_ttlSec oe"

definition login_redeems :: "string \<Rightarrow> oauth_event \<Rightarrow> bool" where
  \<comment> \<open>the request is a callback with the state \<open>s\<close> that signed somebody in\<close>
  "login_redeems s e \<longleftrightarrow> (case (ov_call e, ov_result e) of
     (LoginCallback _ (Some q), Inr r) \<Rightarrow> oq_state q = s \<and> signs_in r | _ \<Rightarrow> False)"

definition login_uses :: "oauth_env \<Rightarrow> oauth_event \<Rightarrow> login_state \<Rightarrow> bool" where
  \<comment> \<open>the provider, the lifetime and both signed cookies fit the attempt\<close>
  "login_uses oe e st \<longleftrightarrow> (case ov_call e of
     LoginCallback p (Some q) \<Rightarrow> extractProvider p = Some (lg_provider st)
       \<and> readContext oe (oe_clock oe (ov_step e)) (ov_request e) OAUTH_STATE_COOKIE_NAME = Some (oq_state q)
       \<and> readContext oe (oe_clock oe (ov_step e)) (ov_request e) OAUTH_NONCE_COOKIE_NAME = Some (lg_nonce st)
       \<and> oe_clock oe (ov_step e) div 1000 < lg_expiresAtSec st
   | _ \<Rightarrow> False)"

lemmas oauth_splits = prod.splits sum.splits option.splits if_splits

lemma keeps_lift: "(\<And>a w. P (w\<lparr>ow_api := a\<rparr>) = P w) \<Longrightarrow> keeps P (lift_api m)"
  by (simp add: keeps_def lift_api_def case_prod_beta)

lemma keeps_stretch: "(\<And>n w. P w \<Longrightarrow> P (snd (f n (w\<lparr>ow_steps := n + 1\<rparr>)))) \<Longrightarrow> keeps P (stretch f)"
  by (simp add: keeps_def stretch_def)

lemma serve_one_route:
  assumes "serve_one oe rq c w = (e, w')"
  shows "ov_call e = c \<and> ov_request e = rq \<and> ov_step e = ow_steps w
    \<and> ((\<exists>x. ov_result e = Inl x) \<and> ow_login w' = ow_login w \<and> ow_vertex w' = ow_vertex w
       \<or> (\<exists>auth w1. ow_login w1 = ow_login w \<and> ow_vertex w1 = ow_vertex w \<and> ow_steps w1 = ow_steps w
            \<and> ov_user e = map_option ac_userId auth \<and> oauth_route oe rq c auth w1 = (ov_result e, w')))"
proof -
  obtain r a where m: "authenticateRequest (oe_api oe) rq (ow_api w) = (r, a)" by fastforce
  show ?thesis using assms m
    by (cases r) (auto simp: serve_one_def oauth_serve_def h_bind_def lift_api_def split: prod.splits option.splits)
qed

lemma keeps_same_login:
  "keeps (\<lambda>w. ow_login w = L) (startVertex oe org us pj lc)" "keeps (\<lambda>w. ow_login w = L) (readDeviceState oe org p dc)"
  "keeps (\<lambda>w. ow_login w = L) (consumeVertexState oe rq us q)" "keeps (\<lambda>w. ow_login w = L) (exchangeCodeForProfile oe p cd st)"
  unfolding startVertex_def readDeviceState_def consumeVertexState_def exchangeCodeForProfile_def
  by (rule keeps_stretch; auto simp: Let_def setVertexOAuthCookies_def clearVertexOAuthCookies_def split: oauth_splits)+

lemma keeps_other_login:
  assumes "\<And>p j. c \<noteq> LoginStart p j" and "\<And>p q. c \<noteq> LoginCallback p q"
  shows "keeps (\<lambda>w. ow_login w = L) (oauth_route oe rq c auth)"
proof -
  have lift: "keeps (\<lambda>w. ow_login w = L) (lift_api m)" for m :: "'a api_handler" by (rule keeps_lift) simp
  show ?thesis
    using assms
    by (cases c) (auto simp: postLlmStart_def getLlmCallback_def postDeviceStart_def postDevicePoll_def getVertexStart_def
        getVertexCallback_def Let_def intro!: keeps_intros keeps_same_login lift keeps_stretch split: oauth_splits)
qed

lemma login_start_kept:
  assumes "getLoginStart oe p j w = (r, w')" and "jget (ow_login w') s = Some st"
  shows "jget (ow_login w) s = Some st \<or> extractProvider p = Some (lg_provider st) \<and> s = oe_state oe (ow_steps w)
    \<and> lg_codeVerifier st = oe_codeVerifier oe (ow_steps w) \<and> lg_nonce st = oe_nonce oe (ow_steps w)
    \<and> lg_expiresAtSec st = oe_clock oe (ow_steps w) div 1000 + oe_ttlSec oe"
  using assms by (auto simp: getLoginStart_def h_bind_def lift_api_def need_def h_return_def h_throw_def stretch_def Let_def
      setOAuthCookies_def jget_jset split: oauth_splits)

lemma consume_login:
  assumes "consumeLoginState oe rq p q w = (r, w')"
  shows "jget (ow_login w') s = Some st \<Longrightarrow> jget (ow_login w) s = Some st"
    and "r = Inr st \<Longrightarrow> jget (ow_login w) (oq_state q) = Some st \<and> jget (ow_login w') (oq_state q) = None \<and> lg_provider st = p
      \<and> oe_clock oe (ow_steps w) div 1000 < lg_expiresAtSec st
      \<and> readContext oe (oe_clock oe (ow_steps w)) rq OAUTH_STATE_COOKIE_NAME = Some (oq_state q)
      \<and> readContext oe (oe_clock oe (ow_steps w)) rq OAUTH_NONCE_COOKIE_NAME = Some (lg_nonce st)"
  using assms by (auto simp: consumeLoginState_def stretch_def Let_def clearOAuthCookies_def jget_jdel split: oauth_splits)

lemma keeps_after_exchange: "keeps (\<lambda>w. ow_login w = L)
    (h_bind (exchangeCodeForProfile oe p cd st) (\<lambda>profile.
     h_bind (lift_api (signInWithProfile en rq p profile)) (\<lambda>(session, u). h_return (if j then LoginJson session u p else LoginRedirect p))))"
  by (auto intro!: keeps_intros keeps_same_login keeps_lift split: prod.split)

lemma bind_lift_return: "h_bind (lift_api (h_return x)) f = f x"
  by (simp add: fun_eq_iff h_bind_def lift_api_def h_return_def)

lemma bind_done: "m w = (Inr x, w') \<Longrightarrow> h_bind m f w = f x w'"
  by (simp add: h_bind_def)

lemma login_callback:
  assumes "getLoginCallback oe rq p qo w = (r, w')"
  shows "jget (ow_login w') s = Some st \<Longrightarrow> jget (ow_login w) s = Some st"
    and "r = Inr x \<Longrightarrow> signs_in x \<Longrightarrow> \<exists>q st. qo = Some q \<and> extractProvider p = Some (lg_provider st)
      \<and> jget (ow_login w) (oq_state q) = Some st \<and> jget (ow_login w') (oq_state q) = None
      \<and> oe_clock oe (ow_steps w) div 1000 < lg_expiresAtSec st
      \<and> readContext oe (oe_clock oe (ow_steps w)) rq OAUTH_STATE_COOKIE_NAME = Some (oq_state q)
      \<and> readContext oe (oe_clock oe (ow_steps w)) rq OAUTH_NONCE_COOKIE_NAME = Some (lg_nonce st)"
proof -
  consider "extractProvider p = None \<or> qo = None" "w' = w" "\<exists>c. r = Inl c"
    | pr q r1 w1 where "extractProvider p = Some pr" "qo = Some q" "consumeLoginState oe rq pr q w = (r1, w1)"
      "ow_login w' = ow_login w1" "\<And>x. r = Inr x \<Longrightarrow> signs_in x \<Longrightarrow> \<exists>st. r1 = Inr st"
  proof (cases "extractProvider p = None \<or> qo = None")
    case True
    then show thesis using assms that(1)
      by (auto simp: getLoginCallback_def h_bind_def lift_api_def need_def h_return_def h_throw_def split: option.splits)
  next
    case False
    then obtain pr q where pq: "extractProvider p = Some pr" "qo = Some q" by auto
    obtain r1 w1 where c: "consumeLoginState oe rq pr q w = (r1, w1)" by fastforce
    have "ow_login w' = ow_login w1"
    proof (cases r1)
      case (Inl e)
      then show ?thesis using assms pq c
        by (auto simp: getLoginCallback_def h_bind_def lift_api_def need_def h_return_def h_throw_def h_catch_def split: if_splits)
    next
      case (Inr st)
      let ?m = "h_bind (exchangeCodeForProfile oe pr (oq_code q) st) (\<lambda>profile.
        h_bind (lift_api (signInWithProfile (oe_api oe) rq pr profile)) (\<lambda>(session, u).
        h_return (if oq_json q then LoginJson session u pr else LoginRedirect pr)))"
      obtain r2 w2 where m: "?m w1 = (r2, w2)" by fastforce
      have "ow_login w2 = ow_login w1" using keepsD [OF keeps_after_exchange [where L = "ow_login w1"] refl m] .
      moreover have "w' = w2" using assms pq c Inr m
        by (simp add: getLoginCallback_def need_def bind_lift_return h_catch_def bind_done [where m = "consumeLoginState oe rq pr q", OF c [unfolded Inr]] h_throw_def h_return_def
            split: sum.splits if_splits)
      ultimately show ?thesis by simp
    qed
    moreover have "\<exists>st. r1 = Inr st" if "r = Inr x" "signs_in x" for x
      using assms pq c that
      by (cases r1) (auto simp: getLoginCallback_def h_bind_def lift_api_def need_def h_return_def h_throw_def h_catch_def split: if_splits)
    ultimately show thesis using that(2) [OF pq c] by blast
  qed
  note cases = this
  show "jget (ow_login w) s = Some st" if "jget (ow_login w') s = Some st"
    using cases that by cases (auto dest: consume_login(1))
  show "\<exists>q st. qo = Some q \<and> extractProvider p = Some (lg_provider st)
      \<and> jget (ow_login w) (oq_state q) = Some st \<and> jget (ow_login w') (oq_state q) = None
      \<and> oe_clock oe (ow_steps w) div 1000 < lg_expiresAtSec st
      \<and> readContext oe (oe_clock oe (ow_steps w)) rq OAUTH_STATE_COOKIE_NAME = Some (oq_state q)
      \<and> readContext oe (oe_clock oe (ow_steps w)) rq OAUTH_NONCE_COOKIE_NAME = Some (lg_nonce st)" if "r = Inr x" "signs_in x"
    using cases
  proof cases
    case (2 pr q r1 w1)
    then obtain st where "r1 = Inr st" using \<open>r = Inr x\<close> \<open>signs_in x\<close> by blast
    then show ?thesis using consume_login(2) [OF 2(3)] 2 by auto
  qed (use that in auto)
qed

interpretation login: attempt_table oe ow_login "login_opened oe" login_redeems "login_uses oe"
proof
  fix rq c w e w' s and st :: login_state
  assume one: "serve_one oe rq c w = (e, w')" and st: "jget (ow_login w') s = Some st"
  note route = serve_one_route [OF one]
  show "jget (ow_login w) s = Some st \<and> \<not> login_redeems s e \<or> login_opened oe e s st"
  proof (cases "(\<exists>x. ov_result e = Inl x) \<and> ow_login w' = ow_login w")
    case True
    then show ?thesis using st by (auto simp: login_redeems_def split: oauth_call.split option.split)
  next
    case False
    then obtain auth w1 where r: "ow_login w1 = ow_login w" "ow_steps w1 = ow_steps w" "oauth_route oe rq c auth w1 = (ov_result e, w')"
      using route by blast
    show ?thesis
    proof (cases c)
      case (LoginStart p j)
      then show ?thesis using login_start_kept [of oe p j w1 "ov_result e" w' s st] r st route
        by (auto simp: login_redeems_def login_opened_def)
    next
      case (LoginCallback p q)
      then have m: "getLoginCallback oe rq p q w1 = (ov_result e, w')" using r by simp
      have "\<not> login_redeems s e"
        using login_callback(2) [OF m] st route LoginCallback by (auto simp: login_redeems_def split: option.splits sum.splits)
      then show ?thesis using login_callback(1) [OF m st] r by simp
    qed (use r st route keepsD [OF keeps_other_login refl r(3)] in \<open>auto simp: login_redeems_def\<close>)
  qed
next
  fix rq c w e w' s
  assume one: "serve_one oe rq c w = (e, w')" and s: "login_redeems s e"
  note route = serve_one_route [OF one]
  obtain p q x where c: "c = LoginCallback p (Some q)" "ov_result e = Inr x" "signs_in x" "oq_state q = s"
    using s route by (auto simp: login_redeems_def split: oauth_call.splits option.splits sum.splits)
  then obtain auth w1 where r: "ow_login w1 = ow_login w" "ow_steps w1 = ow_steps w" "getLoginCallback oe rq p (Some q) w1 = (ov_result e, w')"
    using route by auto
  show "\<exists>st. jget (ow_login w) s = Some st \<and> login_uses oe e st"
    using login_callback(2) [OF r(3) c(2,3)] r(1,2) route c(1,4) by (auto simp: login_uses_def)
qed

text \<open>
  C19. Every sign-in through OAuth redeems an earlier start: whatever requests the server answers, a
  callback signs somebody in only if an earlier request started the attempt it names with the same
  provider, not longer ago than the lifetime of an attempt, no callback in between has signed anybody
  in with it, and the browser sends the two signed cookies of that attempt.
\<close>
theorem oauth_login_redeems_start:
  assumes "ow_login w = []" and "oauth_history oe reqs w = before @ e # after" and "login_redeems s e"
  shows "\<exists>es1 start es2 st. before = es1 @ start # es2 \<and> login_opened oe start s st \<and> login_uses oe e st
    \<and> (\<forall>x\<in>set es2. \<not> login_redeems s x)"
  using assms by (rule login.redeemed_once)

definition oauth_sample :: oauth_env where
  "oauth_sample = \<lparr>oe_api = (api_sample ''owner'')\<lparr>ae_auth := (api_auth ''owner'')\<lparr>ax_hmac := (\<lambda>a b. ''sig''), ax_parse := (\<lambda>t. find (\<lambda>j. stringify j = t)
       [refresh_json ''S'' ''oauth'' ''state'' 600, refresh_json ''N'' ''oauth'' ''nonce'' 600])\<rparr>\<rparr>,
     oe_stateSecret = ''k'', oe_ttlSec = 600, oe_clock = int, oe_state = (\<lambda>n. ''S''), oe_codeVerifier = (\<lambda>n. ''V''), oe_nonce = (\<lambda>n. ''N''),
     oe_deviceCode = (\<lambda>n. ''D''), oe_userCode = (\<lambda>n. ''U''), oe_url = (\<lambda>p s v n. Inr p),
     oe_exchange = (\<lambda>k p c v n. if c = ''code'' \<and> v = ''V'' then Inr (''owner'', None) else Inl ''invalid_grant''), oe_vertexConfigured = False,
     oe_vertexUrl = (\<lambda>s v n. ''''), oe_vertexExchange = (\<lambda>k c v n. Inl ''invalid_grant''), oe_processEnv = (\<lambda>_. None), oe_iso = (\<lambda>t. '''')\<rparr>"

definition oauth_start :: oauth_world where
  "oauth_start = \<lparr>ow_api = (api_start ''owner'')\<lparr>aw_data := (aw_data (api_start ''owner''))\<lparr>ad_id :=
       (api_ids ''owner'')\<lparr>id_usersByEmail := [(''owner'', ''owner'')]\<rparr>\<rparr>\<rparr>,
     ow_login = [], ow_vertex = [], ow_device = [], ow_steps = 0, ow_cookies = []\<rparr>"

definition browser_request :: request where
  "browser_request = \<lparr>rq_authorization = None, rq_cookies =
       [(OAUTH_STATE_COOKIE_NAME, signedContext oauth_sample 0 ''S'' ''oauth'' ''state''),
        (OAUTH_NONCE_COOKIE_NAME, signedContext oauth_sample 0 ''N'' ''oauth'' ''nonce'')],
     rq_orgHeader = None, rq_serviceToken = None, rq_userAgent = None, rq_ip = None\<rparr>"

definition oauth_requests :: "(request \<times> oauth_call) list" where
  "oauth_requests = [(browser_request, LoginStart ''google'' True),
     (browser_request, LoginCallback ''google'' (Some \<lparr>oq_code = ''code'', oq_state = ''S'', oq_json = False\<rparr>))]"

lemma context_round_trip:
  assumes "jget (rq_cookies rq) name = Some (signedContext oe t val user kind)"
    and "ax_parse (ae_auth (oe_api oe)) (stringify (refresh_json val user kind (t div 1000 + oe_ttlSec oe)))
      = Some (refresh_json val user kind (t div 1000 + oe_ttlSec oe))"
    and "\<And>c s. ax_hmac (ae_auth (oe_api oe)) c s \<noteq> [] \<and> CHR ''.'' \<notin> set (ax_hmac (ae_auth (oe_api oe)) c s)"
    and "val \<noteq> []" and "user \<noteq> []" and "kind \<noteq> []" and "now div 1000 < t div 1000 + oe_ttlSec oe"
  shows "readContext oe now rq name = Some val"
proof -
  define p where "p = refresh_json val user kind (t div 1000 + oe_ttlSec oe)"
  have "stringify p \<noteq> []" by (simp add: p_def refresh_json_def)
  then have e: "b64UrlEncode (stringify p) \<noteq> []" "CHR ''.'' \<notin> set (b64UrlEncode (stringify p))" by (simp_all add: b64_nonempty b64_no_dot)
  have "splitOn (CHR ''.'') (b64UrlEncode (stringify p) @ CHR ''.'' # h) = b64UrlEncode (stringify p) # splitOn (CHR ''.'') h" for h
    using e(2) by (rule splitOn_append)
  moreover have "splitOn (CHR ''.'') (ax_hmac (ae_auth (oe_api oe)) c s) = [ax_hmac (ae_auth (oe_api oe)) c s]" for c s
    using assms(3) by (simp add: splitOn_no_sep)
  ultimately show ?thesis
    using assms(2-7) e unfolding p_def [symmetric]
    by (simp add: readContext_def assms(1) signedContext_def signRefreshToken_def Let_def p_def [symmetric] verifyRefreshToken_def b64_round_trip)
      (simp add: p_def refresh_json_def get_property_def truthyJ_def text_prop_def asString_def)
qed

lemma sample_contexts:
  "readContext oauth_sample 1 browser_request OAUTH_STATE_COOKIE_NAME = Some ''S''"
  "readContext oauth_sample 1 browser_request OAUTH_NONCE_COOKIE_NAME = Some ''N''"
proof -
  have "stringify (refresh_json ''S'' ''oauth'' ''state'' 600) \<noteq> stringify (refresh_json ''N'' ''oauth'' ''nonce'' 600)"
    by code_simp
  then show "readContext oauth_sample 1 browser_request OAUTH_STATE_COOKIE_NAME = Some ''S''"
    "readContext oauth_sample 1 browser_request OAUTH_NONCE_COOKIE_NAME = Some ''N''"
    by (auto intro!: context_round_trip [where t = 0]
        simp: browser_request_def OAUTH_STATE_COOKIE_NAME_def OAUTH_NONCE_COOKIE_NAME_def oauth_sample_def)
qed

lemma sample_anonymous: "authenticateRequest (oe_api oauth_sample) browser_request w = (Inr None, w)"
  by (simp add: authenticateRequest_def oauth_sample_def browser_request_def parseAuthHeader_def OAUTH_STATE_COOKIE_NAME_def
      OAUTH_NONCE_COOKIE_NAME_def api_sample_def api_auth_def h_return_def)

lemma orgs_createSession: "listOrganizationsForUser us (snd (createSession clk uid si ui h e ua ip s)) = listOrganizationsForUser us s"
  by (simp add: createSession_def listOrganizationsForUser_def Let_def cong: if_cong)

lemma session_made:
  assumes "\<And>n d. ae_others en n d = d"
  shows "\<exists>x w' si h e. createSessionForUser en rq u w = (Inr x, w') \<and> aw_data w' = (aw_data w)\<lparr>ad_id :=
    snd (createSession (ae_clock en (aw_calls w)) (ae_uuid en (aw_calls w)) si (us_id u) h e (rq_userAgent rq) (rq_ip rq) (ad_id (aw_data w)))\<rparr>"
  unfolding createSessionForUser_def
  by (simp add: access_session_def setSessionCookie_def handler_defs id_do_def api_do_def Let_def assms case_prod_beta) blast

lemma known_user_signs_in:
  assumes "\<And>n d. ae_others en n d = d" and "getUserByEmail em (ad_id (aw_data w)) = Some u"
    and "listOrganizationsForUser (us_id u) (ad_id (aw_data w)) \<noteq> []"
  shows "\<exists>x w'. signInWithProfile en rq p (em, nm) w = (Inr x, w')"
proof -
  let ?w = "w\<lparr>aw_calls := aw_calls w + 1\<rparr>"
  have g: "data_get en (\<lambda>d. getUserByEmail em (ad_id d)) w = (Inr (Some u), ?w)"
    using assms(1,2) by (simp add: data_get_def api_do_def Let_def)
  obtain x w1 where c: "createSessionForUser en rq u ?w = (Inr x, w1)"
      and "listOrganizationsForUser (us_id u) (ad_id (aw_data w1)) = listOrganizationsForUser (us_id u) (ad_id (aw_data w))"
    using session_made [OF assms(1), of rq u ?w] by (auto simp: orgs_createSession)
  then have "\<exists>y w2. ensurePersonalWorkspace en u w1 = (Inr y, w2)"
    using assms(1,3) by (cases "listOrganizationsForUser (us_id u) (ad_id (aw_data w))")
      (auto simp: ensurePersonalWorkspace_def mapped_def id_do_def api_do_def Let_def handler_defs ensurePersonalOrganizationForUser_def)
  then show ?thesis using g c by (auto simp: signInWithProfile_def h_bind_def h_then_def h_return_def)
qed

lemma sample_signs_in: "\<exists>x w'. signInWithProfile (oe_api oauth_sample) browser_request p (''owner'', None) (ow_api oauth_start) = (Inr x, w')"
proof (rule known_user_signs_in)
  show "getUserByEmail ''owner'' (ad_id (aw_data (ow_api oauth_start))) = Some (snd (sample_user_row ''owner''))" by code_simp
  show "listOrganizationsForUser (us_id (snd (sample_user_row ''owner''))) (ad_id (aw_data (ow_api oauth_start))) \<noteq> []" by code_simp
qed (simp add: oauth_sample_def api_sample_def)

lemma set_cookies_only [simp]: "ow_api (setOAuthCookies oe t s n w) = ow_api w" "ow_login (setOAuthCookies oe t s n w) = ow_login w"
  "ow_steps (setOAuthCookies oe t s n w) = ow_steps w"
  by (simp_all add: setOAuthCookies_def)

lemma sample_started:
  "\<exists>e w. serve_one oauth_sample browser_request (LoginStart ''google'' True) oauth_start = (e, w) \<and> ow_api w = ow_api oauth_start
     \<and> ow_steps w = 1 \<and> jget (ow_login w) ''S'' = Some \<lparr>lg_provider = ''google'', lg_codeVerifier = ''V'', lg_nonce = ''N'', lg_expiresAtSec = 600\<rparr>"
  by (simp add: serve_one_def oauth_serve_def h_bind_def lift_api_def sample_anonymous getLoginStart_def need_def extractProvider_def
      h_return_def stretch_def Let_def)
    (simp add: oauth_sample_def oauth_start_def)

lemma sample_called_back:
  assumes "ow_api w = ow_api oauth_start" and "ow_steps w = 1"
    and "jget (ow_login w) ''S'' = Some \<lparr>lg_provider = ''google'', lg_codeVerifier = ''V'', lg_nonce = ''N'', lg_expiresAtSec = 600\<rparr>"
    and "serve_one oauth_sample browser_request (LoginCallback ''google'' (Some \<lparr>oq_code = ''code'', oq_state = ''S'', oq_json = False\<rparr>)) w = (e, w')"
  shows "login_redeems ''S'' e"
proof -
  let ?q = "\<lparr>oq_code = ''code'', oq_state = ''S'', oq_json = False\<rparr>"
  let ?st = "\<lparr>lg_provider = ''google'', lg_codeVerifier = ''V'', lg_nonce = ''N'', lg_expiresAtSec = 600\<rparr>"
  have clock: "oe_clock oauth_sample = int" "oe_exchange oauth_sample k p ''code'' ''V'' n = Inr (''owner'', None)" for k p n
    by (simp_all add: oauth_sample_def)
  obtain w1 where c1: "consumeLoginState oauth_sample browser_request ''google'' ?q (w\<lparr>ow_cookies := []\<rparr>) = (Inr ?st, w1)"
      and a1: "ow_api w1 = ow_api oauth_start"
    using assms(1-3) sample_contexts by (simp add: consumeLoginState_def stretch_def Let_def clock clearOAuthCookies_def)
  obtain w2 where c2: "exchangeCodeForProfile oauth_sample ''google'' ''code'' ?st w1 = (Inr (''owner'', None), w2)"
      and a2: "ow_api w2 = ow_api oauth_start"
    using a1 by (simp add: exchangeCodeForProfile_def stretch_def clock)
  obtain x a where c3: "signInWithProfile (oe_api oauth_sample) browser_request ''google'' (''owner'', None) (ow_api w2) = (Inr x, a)"
    using sample_signs_in a2 by metis
  have "getLoginCallback oauth_sample browser_request ''google'' (Some ?q) (w\<lparr>ow_cookies := []\<rparr>)
      = (Inr (LoginRedirect ''google''), w2\<lparr>ow_api := a\<rparr>)"
    by (simp add: getLoginCallback_def extractProvider_def need_def bind_lift_return h_catch_def h_bind_def c1 c2 lift_api_def c3
        h_return_def split: prod.split)
  then have "ov_result e = Inr (LoginRedirect ''google'')"
      "ov_call e = LoginCallback ''google'' (Some ?q)"
    using assms(4) by (auto simp: serve_one_def oauth_serve_def h_bind_def lift_api_def sample_anonymous)
  then show ?thesis by (simp add: login_redeems_def)
qed

theorem oauth_login_redeems_start_witness:
  "\<exists>start e st. oauth_history oauth_sample oauth_requests oauth_start = [start, e] \<and> login_redeems ''S'' e
     \<and> login_opened oauth_sample start ''S'' st \<and> login_uses oauth_sample e st"
proof -
  obtain start w where s: "serve_one oauth_sample browser_request (LoginStart ''google'' True) oauth_start = (start, w)" "ow_api w = ow_api oauth_start"
      "ow_steps w = 1" "jget (ow_login w) ''S'' = Some \<lparr>lg_provider = ''google'', lg_codeVerifier = ''V'', lg_nonce = ''N'', lg_expiresAtSec = 600\<rparr>"
    using sample_started by blast
  obtain e w' where c: "serve_one oauth_sample browser_request
      (LoginCallback ''google'' (Some \<lparr>oq_code = ''code'', oq_state = ''S'', oq_json = False\<rparr>)) w = (e, w')" by fastforce
  have h: "oauth_history oauth_sample oauth_requests oauth_start = [start] @ e # []" using s(1) c by (simp add: oauth_requests_def)
  have r: "login_redeems ''S'' e" by (rule sample_called_back [OF s(2-4) c])
  have "ow_login oauth_start = []" by (simp add: oauth_start_def)
  from oauth_login_redeems_start [OF this h r] h r show ?thesis by (auto simp: Cons_eq_append_conv)
qed

section \<open>Connecting Vertex\<close>

definition vertex_opened :: "oauth_env \<Rightarrow> oauth_event \<Rightarrow> string \<Rightarrow> vertex_state \<Rightarrow> bool" where
  "vertex_opened oe e s st \<longleftrightarrow>
     (case ov_call e of VertexStart org _ \<Rightarrow> org = vt_organizationId st | LlmStart org _ _ \<Rightarrow> org = vt_organizationId st | _ \<Rightarrow> False)
     \<and> ov_user e = Some (vt_userId st) \<and> s = oe_state oe (ov_step e) \<and> vt_nonce st = oe_nonce oe (ov_step e)
     \<and> vt_codeVerifier st = oe_codeVerifier oe (ov_step e) \<and> vt_expiresAtSec st = oe_clock oe (ov_step e) div 1000 + oe_ttlSec oe"

definition vertex_redeems :: "string \<Rightarrow> oauth_event \<Rightarrow> bool" where
  "vertex_redeems s e \<longleftrightarrow> (case (ov_call e, ov_result e) of
     (VertexCallback (Some q), Inr (VertexConnected _)) \<Rightarrow> oq_state q = s | _ \<Rightarrow> False)"

definition vertex_uses :: "oauth_env \<Rightarrow> oauth_event \<Rightarrow> vertex_state \<Rightarrow> bool" where
  "vertex_uses oe e st \<longleftrightarrow> ov_result e = Inr (VertexConnected (vt_organizationId st)) \<and> ov_user e = Some (vt_userId st)
     \<and> readContext oe (oe_clock oe (ov_step e)) (ov_request e) VERTEX_OAUTH_NONCE_COOKIE_NAME = Some (vt_nonce st)
     \<and> oe_clock oe (ov_step e) div 1000 \<le> vt_expiresAtSec st"

lemma keeps_same_vertex:
  "keeps (\<lambda>w. ow_vertex w = L) (readDeviceState oe org p dc)" "keeps (\<lambda>w. ow_vertex w = L) (consumeLoginState oe rq p q)"
  "keeps (\<lambda>w. ow_vertex w = L) (exchangeCodeForProfile oe p cd st)"
  unfolding readDeviceState_def consumeLoginState_def exchangeCodeForProfile_def
  by (rule keeps_stretch; auto simp: Let_def clearOAuthCookies_def split: oauth_splits)+

lemma keeps_lift_vertex: "keeps (\<lambda>w. ow_vertex w = L) (lift_api m)"
  by (rule keeps_lift) simp

lemma keeps_other_vertex:
  assumes "\<And>org q. c \<noteq> VertexStart org q" and "\<And>org p b. c \<noteq> LlmStart org p b" and "\<And>q. c \<noteq> VertexCallback q"
  shows "keeps (\<lambda>w. ow_vertex w = L) (oauth_route oe rq c auth)"
  using assms
  by (cases c) (auto simp: getLoginStart_def getLoginCallback_def getLlmCallback_def postDeviceStart_def postDevicePoll_def Let_def
      setOAuthCookies_def intro!: keeps_intros keeps_same_vertex keeps_lift_vertex keeps_stretch split: oauth_splits)

definition vertex_entry :: "oauth_env \<Rightarrow> string \<Rightarrow> string \<Rightarrow> nat \<Rightarrow> string \<Rightarrow> vertex_state \<Rightarrow> bool" where
  "vertex_entry oe org us n s st \<longleftrightarrow> vt_organizationId st = org \<and> vt_userId st = us \<and> s = oe_state oe n \<and> vt_nonce st = oe_nonce oe n
     \<and> vt_codeVerifier st = oe_codeVerifier oe n \<and> vt_expiresAtSec st = oe_clock oe n div 1000 + oe_ttlSec oe"

definition vertex_from :: "oauth_env \<Rightarrow> string \<Rightarrow> string \<Rightarrow> nat \<Rightarrow> vertex_state table \<Rightarrow> oauth_world \<Rightarrow> bool" where
  \<comment> \<open>the entries are those of the table and ones a start of the user for the organization adds\<close>
  "vertex_from oe org us n T w \<longleftrightarrow> (\<forall>s st. jget (ow_vertex w) s = Some st \<longrightarrow> jget T s = Some st \<or> vertex_entry oe org us n s st)"

definition vertex_at :: "oauth_env \<Rightarrow> string \<Rightarrow> string \<Rightarrow> nat \<Rightarrow> vertex_state table \<Rightarrow> oauth_world \<Rightarrow> bool" where
  \<comment> \<open>nothing is changed, the stretch to come is the one numbered \<open>n\<close>\<close>
  "vertex_at oe org us n T w \<longleftrightarrow> ow_vertex w = T \<and> ow_steps w = n"

lemma lift_at: "triple (vertex_at oe org us n T) (lift_api m) (\<lambda>_. vertex_at oe org us n T) (\<lambda>_. vertex_from oe org us n T)"
  by (auto simp: triple_def lift_api_def vertex_at_def vertex_from_def split: prod.splits sum.splits)

lemma start_from: "triple (vertex_at oe org us n T) (startVertex oe org us pj lc) (\<lambda>_. vertex_from oe org us n T) (\<lambda>_. vertex_from oe org us n T)"
  by (auto simp: triple_def startVertex_def stretch_def Let_def setVertexOAuthCookies_def vertex_at_def vertex_from_def vertex_entry_def jget_jset
      split: if_splits)

lemma stay_from: "triple (vertex_from oe org us n T) (h_return x) (\<lambda>_. vertex_from oe org us n T) (\<lambda>_. vertex_from oe org us n T)"
  "triple (vertex_at oe org us n T) (h_throw c) (\<lambda>_. vertex_from oe org us n T) (\<lambda>_. vertex_from oe org us n T)"
  by (auto simp: triple_def h_return_def h_throw_def vertex_at_def vertex_from_def)

lemma triple_if: "(b \<Longrightarrow> triple P m Q E) \<Longrightarrow> (\<not> b \<Longrightarrow> triple P m' Q E) \<Longrightarrow> triple P (if b then m else m') Q E"
  by simp

lemma vertex_start_from:
  assumes "c = VertexStart org q \<or> c = LlmStart org p b" and "auth = Some a"
  shows "triple (vertex_at oe org (ac_userId a) n T) (oauth_route oe rq c auth)
    (\<lambda>_. vertex_from oe org (ac_userId a) n T) (\<lambda>_. vertex_from oe org (ac_userId a) n T)"
proof -
  have auth: "lift_api (requireAuth auth) = lift_api (h_return a)" using assms(2) by (simp add: requireAuth_def need_def)
  show ?thesis using assms(1)
  proof
    assume c: "c = VertexStart org q"
    show ?thesis
      unfolding c oauth_route.simps getVertexStart_def auth bind_lift_return h_then_def Let_def case_prod_beta
      by (rule triple_bind [OF lift_at] triple_bind [OF start_from] stay_from)+
  next
    assume c: "c = LlmStart org p b"
    show ?thesis
      unfolding c oauth_route.simps postLlmStart_def auth bind_lift_return h_then_def Let_def case_prod_beta
      by (rule triple_bind [OF lift_at] triple_bind [OF start_from] stay_from triple_if)+
  qed
qed

lemma consume_vertex:
  assumes "consumeVertexState oe rq us q w = (r, w')"
  shows "jget (ow_vertex w') s = Some st \<Longrightarrow> jget (ow_vertex w) s = Some st"
    and "r = Inr st \<Longrightarrow> jget (ow_vertex w) (oq_state q) = Some st \<and> jget (ow_vertex w') (oq_state q) = None \<and> vt_userId st = us
      \<and> oe_clock oe (ow_steps w) div 1000 \<le> vt_expiresAtSec st
      \<and> readContext oe (oe_clock oe (ow_steps w)) rq VERTEX_OAUTH_NONCE_COOKIE_NAME = Some (vt_nonce st)"
  using assms by (auto simp: consumeVertexState_def stretch_def Let_def clearVertexOAuthCookies_def jget_jdel split: oauth_splits)

definition vertex_connect :: "oauth_env \<Rightarrow> string \<Rightarrow> oauth_query \<Rightarrow> vertex_state \<Rightarrow> oauth_reply oauth_handler" where
  \<comment> \<open>what the callback does after the state is consumed\<close>
  "vertex_connect oe us q st =
     h_bind (stretch (\<lambda>n w. (case oe_vertexExchange oe n (oq_code q) (vt_codeVerifier st) (vt_nonce st) of
         Inl message \<Rightarrow> (Inl (vertex_code message), w)
       | Inr c \<Rightarrow> (Inr (c, oe_clock oe n), w)))) (\<lambda>(c, now).
     h_then (lift_api (storeOauthSecret (oe_api oe) (vt_organizationId st) us (normalizeConnectorId ''llm.vertex.oauth'')
         ''default'' (vertex_secret_value oe st c now) ''VERTEX_OAUTH_STORE_FAILED''))
       (h_return (VertexConnected (vt_organizationId st))))"

lemma vertex_connect_result:
  assumes "vertex_connect oe us q st w = (r, w')"
  shows "ow_vertex w' = ow_vertex w" and "r = Inr x \<Longrightarrow> x = VertexConnected (vt_organizationId st)"
proof -
  have "keeps (\<lambda>w. ow_vertex w = ow_vertex w0) (vertex_connect oe us q st)" for w0
    unfolding vertex_connect_def
    by (auto intro!: keeps_intros keeps_lift_vertex keeps_stretch split: oauth_splits)
  from keepsD [OF this [of w] _ assms] show "ow_vertex w' = ow_vertex w" by simp
  show "r = Inr x \<Longrightarrow> x = VertexConnected (vt_organizationId st)"
    using assms by (auto simp: vertex_connect_def h_bind_def h_then_def h_return_def split: oauth_splits)
qed

lemma vertex_callback_connect:
  assumes "auth = Some a"
  shows "getVertexCallback oe rq auth (Some q) =
    h_catch (h_bind (consumeVertexState oe rq (ac_userId a) q) (vertex_connect oe (ac_userId a) q))
      (\<lambda>e. h_return (VertexFailed (if e = ''INTERNAL_ERROR'' then ''VERTEX_OAUTH_FAILED'' else e)))"
  by (simp add: getVertexCallback_def assms requireAuth_def need_def bind_lift_return vertex_connect_def [abs_def])

lemma vertex_callback:
  assumes "getVertexCallback oe rq auth qo w = (r, w')"
  shows "jget (ow_vertex w') s = Some st \<Longrightarrow> jget (ow_vertex w) s = Some st"
    and "r = Inr (VertexConnected org) \<Longrightarrow> \<exists>a q st. auth = Some a \<and> qo = Some q \<and> org = vt_organizationId st \<and> vt_userId st = ac_userId a
      \<and> jget (ow_vertex w) (oq_state q) = Some st \<and> jget (ow_vertex w') (oq_state q) = None
      \<and> oe_clock oe (ow_steps w) div 1000 \<le> vt_expiresAtSec st
      \<and> readContext oe (oe_clock oe (ow_steps w)) rq VERTEX_OAUTH_NONCE_COOKIE_NAME = Some (vt_nonce st)"
proof -
  consider "ow_vertex w' = ow_vertex w" "\<And>org. r \<noteq> Inr (VertexConnected org)"
    | a q r1 w1 where "auth = Some a" "qo = Some q" "consumeVertexState oe rq (ac_userId a) q w = (r1, w1)" "ow_vertex w' = ow_vertex w1"
      "\<And>org. r = Inr (VertexConnected org) \<Longrightarrow> \<exists>st. r1 = Inr st \<and> org = vt_organizationId st"
  proof (cases "auth = None \<or> qo = None")
    case True
    then show thesis using assms that(1)
      by (auto simp: getVertexCallback_def requireAuth_def h_bind_def lift_api_def need_def h_return_def h_throw_def h_catch_def
          split: option.splits)
  next
    case False
    then obtain a q where aq: "auth = Some a" "qo = Some q" by auto
    obtain r1 w1 where c: "consumeVertexState oe rq (ac_userId a) q w = (r1, w1)" by fastforce
    have m: "h_catch (h_bind (consumeVertexState oe rq (ac_userId a) q) (vertex_connect oe (ac_userId a) q))
        (\<lambda>e. h_return (VertexFailed (if e = ''INTERNAL_ERROR'' then ''VERTEX_OAUTH_FAILED'' else e))) w = (r, w')"
      using assms by (simp only: aq vertex_callback_connect [OF refl])
    show thesis
    proof (cases r1)
      case (Inl e)
      then have "w' = w1" "r = Inr (VertexFailed (if e = ''INTERNAL_ERROR'' then ''VERTEX_OAUTH_FAILED'' else e))"
        using m c by (auto simp: h_bind_def h_catch_def h_return_def)
      then show thesis using that(2) [OF aq c] by simp
    next
      case (Inr st)
      obtain r2 w2 where k: "vertex_connect oe (ac_userId a) q st w1 = (r2, w2)" by fastforce
      then have "w' = w2 \<and> (r = r2 \<or> (\<exists>e. r = Inr (VertexFailed e)))"
        using m c Inr by (auto simp: h_bind_def h_catch_def h_return_def split: sum.splits)
      then show thesis using Inr that(2) [OF aq c] vertex_connect_result [OF k] by auto
    qed
  qed
  note cases = this
  show "jget (ow_vertex w) s = Some st" if "jget (ow_vertex w') s = Some st"
    using cases that by cases (auto dest: consume_vertex(1))
  show "\<exists>a q st. auth = Some a \<and> qo = Some q \<and> org = vt_organizationId st \<and> vt_userId st = ac_userId a
      \<and> jget (ow_vertex w) (oq_state q) = Some st \<and> jget (ow_vertex w') (oq_state q) = None
      \<and> oe_clock oe (ow_steps w) div 1000 \<le> vt_expiresAtSec st
      \<and> readContext oe (oe_clock oe (ow_steps w)) rq VERTEX_OAUTH_NONCE_COOKIE_NAME = Some (vt_nonce st)"
    if r: "r = Inr (VertexConnected org)"
    using cases
  proof cases
    case (2 a q r1 w1)
    then obtain st where "r1 = Inr st" "org = vt_organizationId st" using r by blast
    then show ?thesis using consume_vertex(2) [OF 2(3)] 2 by auto
  qed (use r in auto)
qed

lemma start_needs_user:
  "oauth_route oe rq c None w = (r, w') \<Longrightarrow> c = VertexStart org q \<or> c = LlmStart org p b \<Longrightarrow> ow_vertex w' = ow_vertex w"
  by (elim disjE) (auto simp: getVertexStart_def postLlmStart_def requireAuth_def need_def h_bind_def lift_api_def h_throw_def)

interpretation vertex: attempt_table oe ow_vertex "vertex_opened oe" vertex_redeems "vertex_uses oe"
proof
  fix rq c w e w' s and st :: vertex_state
  assume one: "serve_one oe rq c w = (e, w')" and st: "jget (ow_vertex w') s = Some st"
  note route = serve_one_route [OF one]
  show "jget (ow_vertex w) s = Some st \<and> \<not> vertex_redeems s e \<or> vertex_opened oe e s st"
  proof (cases "(\<exists>x. ov_result e = Inl x) \<and> ow_vertex w' = ow_vertex w")
    case True
    then show ?thesis using st by (auto simp: vertex_redeems_def split: oauth_call.split option.split)
  next
    case False
    then obtain auth w1 where r: "ow_vertex w1 = ow_vertex w" "ow_steps w1 = ow_steps w" "ov_user e = map_option ac_userId auth"
      "oauth_route oe rq c auth w1 = (ov_result e, w')"
      using route by blast
    have started: "jget (ow_vertex w) s = Some st \<or> vertex_opened oe e s st" if "c = VertexStart org q \<or> c = LlmStart org p b" for org q p b
    proof (cases auth)
      case None
      then show ?thesis using start_needs_user [OF r(4) [unfolded None] that] st r(1) by simp
    next
      case (Some a)
      have "vertex_from oe org (ac_userId a) (ow_steps w) (ow_vertex w) w'"
        using vertex_start_from [OF that Some, of oe "ow_steps w" "ow_vertex w" rq] r
        by (auto simp: triple_def vertex_at_def dest!: spec [of _ w1] split: prod.splits sum.splits)
      then have "jget (ow_vertex w) s = Some st \<or> vertex_entry oe org (ac_userId a) (ow_steps w) s st"
        using st unfolding vertex_from_def by blast
      moreover have "ov_user e = Some (ac_userId a)" "ov_call e = c" "ov_step e = ow_steps w" using route r(3) Some by auto
      ultimately show ?thesis using that by (auto simp: vertex_opened_def vertex_entry_def)
    qed
    show ?thesis
    proof (cases c)
      case (VertexCallback q)
      then have m: "getVertexCallback oe rq auth q w1 = (ov_result e, w')" using r by simp
      have "\<not> vertex_redeems s e"
        using vertex_callback(2) [OF m] st route VertexCallback by (auto simp: vertex_redeems_def split: option.splits sum.splits oauth_reply.splits)
      then show ?thesis using vertex_callback(1) [OF m st] r by simp
    qed (use r st route started keepsD [OF keeps_other_vertex refl r(4)] in \<open>auto simp: vertex_redeems_def\<close>)
  qed
next
  fix rq c w e w' s
  assume one: "serve_one oe rq c w = (e, w')" and s: "vertex_redeems s e"
  note route = serve_one_route [OF one]
  obtain q org where c: "c = VertexCallback (Some q)" "ov_result e = Inr (VertexConnected org)" "oq_state q = s"
    using s route by (auto simp: vertex_redeems_def split: oauth_call.splits option.splits sum.splits oauth_reply.splits)
  then obtain auth w1 where r: "ow_vertex w1 = ow_vertex w" "ow_steps w1 = ow_steps w" "ov_user e = map_option ac_userId auth"
      "getVertexCallback oe rq auth (Some q) w1 = (ov_result e, w')"
    using route by auto
  show "\<exists>st. jget (ow_vertex w) s = Some st \<and> vertex_uses oe e st"
    using vertex_callback(2) [OF r(4) c(2)] r(1-3) route c by (auto simp: vertex_uses_def)
qed

text \<open>
  A Vertex connection is stored for the organization and by the user of an earlier start, once per start.
  That user's role is not looked at again.
\<close>
lemma vertex_connects_started_organization:
  assumes "ow_vertex w = []" and "oauth_history oe reqs w = before @ e # after" and "vertex_redeems s e"
  shows "\<exists>es1 start es2 st. before = es1 @ start # es2 \<and> vertex_opened oe start s st \<and> vertex_uses oe e st
    \<and> (\<forall>x\<in>set es2. \<not> vertex_redeems s x)"
  using assms by (rule vertex.redeemed_once)

end
