(* ===== verification/Spec2Isabelle.thy ===== *)
theory Spec2Isabelle
  imports WorkflowProps WorkflowKeys SessionProps IdentityProps StorePlatform StoreToolsets StoreChannels
    StoreSecrets StoreExecutors GatewaySelection WorkerResume WorkerPolicy ChannelProps AgentRouting AuthTokens
    GatewayWorkspace GatewayWorker EdgeAuth SchedulerProps ApiExecutorProps ApiBuilderProps ApiOauthProps
begin

text \<open>
  Vespid runs agent workflows for organizations.  This development models the parts of the repository
  that decide: the definition language of workflows, the API server with its store, the worker, the scheduler, the
  gateway with its two halves (edge and brain) and its channels, and the libraries they share.

  \<^bold>\<open>The program.\<close>  A user edits a workflow through the API server (\<open>apps/api\<close>), which checks it with
  \<open>packages/workflow\<close>, keeps it in its store and, when a run is started, puts a job into a queue; the scheduler (\<open>apps/scheduler\<close>)
  does the same for the cron and heartbeat subscriptions that are due.  The
  worker (\<open>apps/worker\<close>) takes the job and goes through the graph of nodes; a node may need an approval,
  which is decided through the API, or work on an executor, which it asks the gateway for
  (\<open>apps/gateway\<close>).  An edge of the gateway holds the sockets of clients and executors; a brain reads
  the edges' messages from a stream, selects an executor within the capacity limits, sends it the call
  through the executor's edge, and hands the answer back: to a waiting caller, or as a continuation job
  with which the worker resumes the run.  Sessions with an agent take the same way.  Messages from
  channels (chat services) enter through webhooks of the gateway.

  \<^bold>\<open>Theories and code.\<close>  Definitions carry the names of the source's functions; a route's handler is named after
  its method and resource.  The record of a component's state has the fields of the source's row types
  or maps, with a prefix of its own.

  \<^item> \<open>Prelude\<close>, \<open>Json\<close>, \<open>JsonText\<close>: JavaScript's \<open>Map\<close> and arrays, \<open>??\<close>, string functions, values of type
    \<open>unknown\<close>, \<open>JSON.stringify\<close>.  \<open>Handlers\<close>: asynchronous functions that may throw, as state transformers with
    a sum as result, with rules for what they keep.
  \<^item> \<open>WorkflowDsl\<close> (\<open>packages/workflow/src/index.ts\<close>): schemas, the validation of version 3 graphs, the
    upgrade from version 2, the dry run.  \<open>WorkflowGraph\<close> proves that the validation's loops compute what
    they are for, \<open>WorkflowUpgrade\<close> and \<open>WorkflowProps\<close> draw the conclusions.
  \<^item> \<open>StoreWorkflows\<close>, \<open>StoreIdentity\<close>, \<open>StorePlatform\<close>, \<open>StoreSecrets\<close>, \<open>StoreExecutors\<close>, \<open>StoreToolsets\<close>,
    \<open>StoreSessions\<close>, \<open>StoreChannels\<close> (\<open>apps/api/src/store/memory-store.ts\<close>, \<open>types.ts\<close>; for secrets also
    \<open>packages/shared/src/secrets.ts\<close>): the operations of \<open>MemoryAppStore\<close>, one definition each, on a record of tables.
    \<open>Tenancy\<close> and \<open>Paging\<close> state the contracts of organizations and of cursor pagination; \<open>WorkflowTenancy\<close>,
    \<open>WorkflowIsolation\<close>, \<open>WorkflowKeys\<close>, \<open>WorkflowStoreProps\<close>, \<open>SessionProps\<close>, \<open>IdentityProps\<close> and \<open>UniqueRows\<close> prove them.
  \<^item> \<open>ApiSettings\<close> to \<open>ApiRoutes\<close> (\<open>apps/api/src/server.ts\<close>): \<open>ApiServer\<close> has what the handlers share
    (authentication, organization context, sign-up and login), then one theory per group of routes: \<open>ApiWorkflows\<close>, \<open>ApiRuns\<close>,
    \<open>ApiOrgs\<close>, \<open>ApiExecutors\<close>, \<open>ApiSessions\<close>, \<open>ApiChannels\<close>, \<open>ApiToolsets\<close>, \<open>ApiBuilder\<close> (with
    \<open>ToolsetBuilder\<close> for the parts without state) and \<open>ApiOauth\<close>.  \<open>ApiRoutes\<close> collects the handlers.
    \<open>ApiFrame\<close>, \<open>ApiTenancy\<close>, \<open>ApiAuthority\<close> and \<open>ApiLogout\<close> prove invariants of all routes; \<open>ApiProps\<close>, \<open>ApiRunProps\<close>,
    \<open>ApiExecutorProps\<close>, \<open>ApiBuilderProps\<close>, \<open>ApiOauthProps\<close> and \<open>SettingsForm\<close> state what follows.
  \<^item> \<open>WorkerPolicy\<close>, \<open>WorkerGraph\<close>, \<open>WorkerRun\<close> (\<open>apps/worker/src/main.ts\<close>): the policy on a node, readiness and joins, a whole
    job.  \<open>WorkerContinuation\<close> (\<open>apps/worker/src/continuations/worker.ts\<close>): how a run goes on after remote
    work.  \<open>WorkerGraphProps\<close>, \<open>WorkerOutcome\<close>, \<open>WorkerProps\<close>, \<open>WorkerResume\<close> prove their contracts.
  \<^item> \<open>GatewayCapacity\<close>, \<open>GatewaySelection\<close> (\<open>brain/scheduler.ts\<close>, \<open>bus/keys.ts\<close>), \<open>GatewayWorkspace\<close> (the lock and
    the versions of a shared workspace), \<open>GatewayBus\<close> (what the processes share), \<open>BrainTools\<close>, \<open>BrainDispatch\<close>,
    \<open>BrainSession\<close> (\<open>brain/runtime.ts\<close>), \<open>EdgeServer\<close>, \<open>EdgeClients\<close>, \<open>EdgeAuth\<close> (\<open>edge/server.ts\<close>).
    \<open>BrainFrame\<close>, \<open>BrainProps\<close>, \<open>BrainResponses\<close>, \<open>GatewayProps\<close>, \<open>GatewayWorker\<close> hold the proofs.
  \<^item> \<open>ChannelSecurity\<close>, \<open>ChannelInbound\<close>, \<open>ChannelProps\<close> (\<open>apps/gateway/src/channels\<close>): who may talk to an
    organization, and the way of a webhook to sessions and workflows.
  \<^item> \<open>Scheduler\<close> (\<open>apps/scheduler/src/main.ts\<close>): cron expressions, heartbeats, the handling of a due subscription in
    steps; \<open>SchedulerProps\<close> has its theorems.
  \<^item> \<open>AgentRouting\<close> (\<open>packages/agent-runtime/src/session-routing.ts\<close>) and \<open>AuthTokens\<close>
    (\<open>packages/shared/src/auth.ts\<close>).

  \<^bold>\<open>Time, randomness, other processes.\<close>  Clocks and identifiers are functions of the number of the access,
  \<open>crypto\<close>, \<open>JSON.parse\<close>, zod's checks of UUIDs and URLs, and the answers of third parties are
  parameters, and hypotheses say what is used of them.  Handlers of the API, of the brain and of a job are
  interleaved with others: before each access to shared data an arbitrary function acts on
  it, restricted only where a theorem names a restriction.  Capacity, workspace locks, continuations and schedulers are step
  relations of several processes, and their theorems range over all interleavings.  In the relation of
  workspace locks time passes freely: a holder may outlive its lock, crash, or throw.  The lock excludes
  as long as holders are punctual (\<open>prep\<close> milliseconds to send the request, \<open>grace\<close> to notice the timeout, together
  the 30 seconds by which the lock outlives the timeout); versions are consecutive without that condition.
  \<open>localeCompare\<close> is a parameter, assumed to be a consistent comparison, and for the listing of runs to agree
  with the order of code units on the identifiers at hand, as it does for lower-case hexadecimal UUIDs.

  \<^bold>\<open>Where steps are coarser than the code.\<close>  \<open>releaseCapacity\<close> is one step, in the code two awaited \<open>DECR\<close>s whose errors are
  swallowed; \<open>selectExecutorForTool\<close> reads one state of Redis at one time, in the code each read and reservation is awaited;
  \<open>commitContinuation\<close> takes a continuation's transactions and its entry into the queue together, so a
  crash between them is not covered; in \<open>cont_step\<close> the run's own job blocks the run only on request ids that were not used
  before (an id is run, node and attempt, so this means definitions whose node ids differ).  \<open>drain\<close> delivers a job
  repeatedly with the workflow published each time; it stands for the queue and has no counterpart in the code.
  In the scheduler a failed access to the queue stores no job.

  \<^bold>\<open>Interfaces.\<close>  \<open>tenant_machine\<close> and \<open>filtered_store\<close> (interpreted by the workflow store): what a store
  with organizations promises, with noninterference of whole runs as a consequence.  \<open>cursor_listing\<close> and
  \<open>more_listing\<close> (interpreted by the listings of runs, of run events and of session events): reading page after page gives every
  row once.  \<open>request_invariant\<close>, \<open>guest_invariant\<close> and, with fewer duties, \<open>row_invariant\<close>,
  \<open>guest_row_invariant\<close>: what a predicate must satisfy so that all API handlers keep it; interpreted for
  outsiders, plain members, owners, ended sessions and toolsets.  \<open>bus_invariant\<close>: the same for the handlers of
  a brain; interpreted for the rows of other organizations, session logs, the texts of turns, and results.
  \<open>attempt_table\<close>: a table of started attempts each of which is redeemed at most once; interpreted
  for the OAuth sign-in and the Vertex connection.

  \<^bold>\<open>What is shown.\<close>  For each store: its invariant under every operation, the answers on every branch, and
  isolation of organizations.  For the API: who can change what, that a session which was ended stays ended, that
  runs are queued or undone, and what toolsets, builder drafts and settings can contain.  For the worker: order, policy, attempts, and
  continuations exactly once.  For the gateway: limits that hold under every interleaving, authenticated sockets, logs
  without gaps, results in the form the worker reads.  For the scheduler: the next moment of an expression is the first that
  matches, and a slot is queued at most once.  Where the code does not do what it means to, the theorem
  says what it does, with a concrete case.

  \<^bold>\<open>Bounds and termination.\<close>  The loops of the graph validation terminate by measures.  The worker's loop over ready
  nodes (\<open>graphLoop\<close>) need not terminate and is a \<open>partial_function (option)\<close>: it returns for graphs whose nodes are stored
  under their own ids (\<open>ids_ok\<close>), which the validation does not check, and the theorems that need this say so; a graph
  on which it does not return is exhibited.  The search for a cron expression's next moment looks at 1051200 minutes (two years), as the code does.  The clients that follow cursors take a number of
  pages as fuel; one more than the number of rows is enough.  Sequence numbers, counters and times
  are integers: the sources keep them far below 2 to the 53, above which JavaScript rounds.  Key material is bytes of 8 bits.

  \<^bold>\<open>Not modelled.\<close>  The web and mobile clients; the node agent, which runs containers and processes; the
  adapters that parse the payloads of chat services, and the calls of model providers and connectors; static catalogues;
  the PostgreSQL store (\<open>pg-store.ts\<close>), which implements the interface of the modelled in-memory store by
  SQL, except the repository functions that worker, gateway and channels call, which are modelled with
  these; Redis streams and BullMQ, of which the model has the streams' order
  and the queue's rule on job identifiers; logging, metrics, and exceptions of the database.
\<close>

end
